(* ===== verification/Prelude.thy ===== *)
theory Prelude
  imports Complex_Main "HOL-Library.AList" "HOL-Library.Char_ord" "HOL-Library.List_Lexorder"
    "HOL-Library.Product_Lexorder"
begin

text \<open>
  The vocabulary the component theories share. Python values are modelled as follows.
  \<^item> \<open>str\<close> is \<^typ>\<open>string\<close>; the operations below are the ASCII behaviour of \<open>lower\<close>,
    \<open>strip\<close>, \<open>split\<close>, \<open>startswith\<close>, \<open>in\<close> and \<open>join\<close>.
  \<^item> \<open>dict\<close> is an association list updated with \<^const>\<open>AList.update\<close>, which keeps the position
    of an existing key and appends a new one, as Python does; \<^const>\<open>map_of\<close> reads it.
  \<^item> \<open>UUID\<close> is \<^typ>\<open>nat\<close>: equality is all the code uses, and the order of \<open>str(uuid)\<close> is the
    numeric one. \<open>datetime\<close> is \<^typ>\<open>int\<close>, microseconds since the epoch in UTC.
  \<^item> \<open>float\<close> is \<^typ>\<open>rat\<close> (exact arithmetic); where not-a-number and the infinities matter, a
    datatype with those values is declared in the component.
  \<^item> A function that raises returns a sum, \<open>Inl\<close> the exception.
\<close>

named_theorems enum_simps \<open>tables over the program's enumerations\<close>
named_theorems guard_simps \<open>unfolding of guards and validation steps\<close>

type_synonym uuid = nat
type_synonym org_id = nat
type_synonym datetime = int

abbreviation seconds :: "int \<Rightarrow> int" where
  "seconds n \<equiv> n * 1000000"

subsection \<open>Results\<close>

definition and_then :: "'e + 'a \<Rightarrow> ('a \<Rightarrow> 'e + 'b) \<Rightarrow> 'e + 'b" where
  "and_then r f = (case r of Inl e \<Rightarrow> Inl e | Inr a \<Rightarrow> f a)"

definition require :: "bool \<Rightarrow> 'e \<Rightarrow> 'e + unit" where
  "require b e = (if b then Inr () else Inl e)"

lemma and_then_simps [simp]:
  "and_then (Inl e) f = Inl e"
  "and_then (Inr a) f = f a"
  by (simp_all add: and_then_def)

lemma and_then_Inr_iff [guard_simps]:
  "and_then r f = Inr b \<longleftrightarrow> (\<exists>a. r = Inr a \<and> f a = Inr b)"
  by (cases r) auto

lemma and_then_Inl_iff [guard_simps]:
  "and_then r f = Inl e \<longleftrightarrow> r = Inl e \<or> (\<exists>a. r = Inr a \<and> f a = Inl e)"
  by (cases r) auto

lemma require_simps [simp]:
  "require True e = Inr ()" "require False e = Inl e"
  by (simp_all add: require_def)

lemma require_Inr_iff [guard_simps]: "require b e = Inr u \<longleftrightarrow> b"
  by (simp add: require_def)

lemma require_Inl_iff [guard_simps]: "require b e = Inl e' \<longleftrightarrow> \<not> b \<and> e' = e"
  by (auto simp: require_def)

definition is_ok :: "'e + 'a \<Rightarrow> bool" where
  "is_ok r = (case r of Inl _ \<Rightarrow> False | Inr _ \<Rightarrow> True)"

lemma is_ok_simps [simp]: "is_ok (Inr a)" "\<not> is_ok (Inl e)"
  by (simp_all add: is_ok_def)

lemma is_ok_iff: "is_ok r \<longleftrightarrow> (\<exists>a. r = Inr a)"
  by (cases r) simp_all

subsection \<open>Strings\<close>

definition lower_char :: "char \<Rightarrow> char" where
  "lower_char c =
     (let n = (of_char c :: nat) in if 65 \<le> n \<and> n \<le> 90 then char_of (n + 32) else c)"

definition py_lower :: "string \<Rightarrow> string" where
  "py_lower s = map lower_char s"

definition startswith :: "string \<Rightarrow> string \<Rightarrow> bool" where
  "startswith s p \<longleftrightarrow> take (length p) s = p"

definition endswith :: "string \<Rightarrow> string \<Rightarrow> bool" where
  "endswith s p \<longleftrightarrow> length p \<le> length s \<and> drop (length s - length p) s = p"

fun contains :: "string \<Rightarrow> string \<Rightarrow> bool" where
  "contains [] p = (p = [])"
| "contains (c # s) p = (startswith (c # s) p \<or> contains s p)"

fun split_on :: "char \<Rightarrow> string \<Rightarrow> string list" where
  "split_on d [] = [[]]"
| "split_on d (c # s) =
     (if c = d then [] # split_on d s
      else (case split_on d s of [] \<Rightarrow> [[c]] | w # ws \<Rightarrow> (c # w) # ws))"

fun join_with :: "string \<Rightarrow> string list \<Rightarrow> string" where
  "join_with sep [] = []"
| "join_with sep [w] = w"
| "join_with sep (w # v # ws) = w @ sep @ join_with sep (v # ws)"

definition lstrip_chars :: "(char \<Rightarrow> bool) \<Rightarrow> string \<Rightarrow> string" where
  "lstrip_chars P s = dropWhile P s"

definition rstrip_chars :: "(char \<Rightarrow> bool) \<Rightarrow> string \<Rightarrow> string" where
  "rstrip_chars P s = rev (dropWhile P (rev s))"

definition is_space :: "char \<Rightarrow> bool" where
  "is_space c \<longleftrightarrow> (let n = (of_char c :: nat) in n = 32 \<or> (9 \<le> n \<and> n \<le> 13) \<or> (28 \<le> n \<and> n \<le> 31))"

definition py_strip :: "string \<Rightarrow> string" where
  "py_strip s = rstrip_chars is_space (lstrip_chars is_space s)"

definition split_words :: "string \<Rightarrow> string list" where
  "split_words s = filter (\<lambda>w. w \<noteq> []) (split_on CHR '' '' (map (\<lambda>c. if is_space c then CHR '' '' else c) s))"

lemma length_py_lower [simp]: "length (py_lower s) = length s"
  by (simp add: py_lower_def)

lemma py_lower_append [simp]: "py_lower (s @ t) = py_lower s @ py_lower t"
  by (simp add: py_lower_def)

lemma lower_char_range:
  "of_char (lower_char c) \<notin> {65..90::nat}"
proof -
  have "(of_char c :: nat) < 256" by simp
  then show ?thesis by (auto simp: lower_char_def Let_def)
qed

lemma lower_char_idem [simp]: "lower_char (lower_char c) = lower_char c"
proof -
  have "lower_char d = d" if "of_char d \<notin> {65..90::nat}" for d
    using that by (auto simp: lower_char_def Let_def)
  then show ?thesis using lower_char_range by blast
qed

lemma py_lower_idem [simp]: "py_lower (py_lower s) = py_lower s"
  by (simp add: py_lower_def comp_def)

lemma startswith_iff: "startswith s p \<longleftrightarrow> (\<exists>t. s = p @ t)"
  unfolding startswith_def by (metis append_eq_conv_conj append_take_drop_id)

lemma endswith_iff: "endswith s p \<longleftrightarrow> (\<exists>t. s = t @ p)"
proof
  assume "endswith s p"
  then have "s = take (length s - length p) s @ p"
    by (metis append_take_drop_id endswith_def)
  then show "\<exists>t. s = t @ p" ..
next
  assume "\<exists>t. s = t @ p"
  then show "endswith s p" by (auto simp: endswith_def)
qed

lemma startswith_refl [simp]: "startswith s s" "startswith s []"
  by (simp_all add: startswith_def)

lemma contains_iff: "contains s p \<longleftrightarrow> (\<exists>a b. s = a @ p @ b)"
proof (induction s)
  case Nil
  then show ?case by simp
next
  case (Cons c s)
  have "(\<exists>a b. c # s = a @ p @ b) \<longleftrightarrow> (\<exists>b. c # s = p @ b) \<or> (\<exists>a b. s = a @ p @ b)" (is "?l \<longleftrightarrow> ?r")
  proof
    assume ?l
    then obtain a b where ab: "c # s = a @ p @ b" by blast
    show ?r
    proof (cases a)
      case Nil
      with ab show ?thesis by auto
    next
      case (Cons x xs)
      with ab show ?thesis by auto
    qed
  next
    assume ?r
    then show ?l by (metis append_Cons append_Nil)
  qed
  with Cons.IH show ?case by (simp add: startswith_iff)
qed

lemma contains_refl [simp]: "contains s s" "contains s []"
  by (metis append_Nil append_Nil2 contains_iff)+

subsection \<open>Splitting and joining\<close>

lemma split_on_not_Nil [simp]: "split_on d s \<noteq> []"
  by (induction s) (auto split: list.splits)

lemma split_on_no_sep: "w \<in> set (split_on d s) \<Longrightarrow> d \<notin> set w"
  by (induction s arbitrary: w) (auto split: list.splits if_splits)

lemma split_on_append_sep: "d \<notin> set w \<Longrightarrow> split_on d (w @ d # s) = w # split_on d s"
  by (induction w) auto

lemma split_on_single: "d \<notin> set w \<Longrightarrow> split_on d w = [w]"
  by (induction w) auto

lemma split_join:
  "ws \<noteq> [] \<Longrightarrow> (\<forall>w \<in> set ws. d \<notin> set w) \<Longrightarrow> split_on d (join_with [d] ws) = ws"
  by (induction "[d]" ws rule: join_with.induct) (auto simp: split_on_single split_on_append_sep)

lemma join_split: "join_with [d] (split_on d s) = s"
proof (induction s)
  case Nil
  then show ?case by simp
next
  case (Cons c s)
  obtain w ws where ws: "split_on d s = w # ws"
    by (meson list.exhaust split_on_not_Nil)
  with Cons.IH show ?case by (cases ws) auto
qed

lemma set_split_on: "w \<in> set (split_on d s) \<Longrightarrow> set w \<subseteq> set s"
  by (induction s arbitrary: w) (fastforce split: list.splits if_splits)+

lemma set_join_with: "set (join_with sep ws) \<subseteq> set sep \<union> \<Union> (set ` set ws)"
  by (induction sep ws rule: join_with.induct) auto

lemma length_join_with1:
  "length (join_with [d] ws) = sum_list (map length ws) + (length ws - 1)"
  by (induction "[d]" ws rule: join_with.induct) auto

lemma length_split_on_sum:
  "sum_list (map length (split_on d s)) + (length (split_on d s) - 1) = length s"
  by (metis join_split length_join_with1)

lemma join_with_Nil_iff: "(\<forall>w \<in> set ws. w \<noteq> []) \<Longrightarrow> join_with sep ws = [] \<longleftrightarrow> ws = []"
  by (cases "(sep, ws)" rule: join_with.cases) auto

subsection \<open>Ordered duplicate removal\<close>

text \<open>\<open>tuple(dict.fromkeys(xs))\<close>: the first occurrence of every element, in order.\<close>

fun dedup_acc :: "'a list \<Rightarrow> 'a list \<Rightarrow> 'a list" where
  "dedup_acc seen [] = []"
| "dedup_acc seen (x # xs) =
     (if x \<in> set seen then dedup_acc seen xs else x # dedup_acc (x # seen) xs)"

definition dedup :: "'a list \<Rightarrow> 'a list" where
  "dedup xs = dedup_acc [] xs"

lemma set_dedup_acc: "set (dedup_acc seen xs) = set xs - set seen"
  by (induction seen xs rule: dedup_acc.induct) auto

lemma set_dedup [simp]: "set (dedup xs) = set xs"
  by (simp add: dedup_def set_dedup_acc)

lemma distinct_dedup_acc: "distinct (dedup_acc seen xs)"
  by (induction seen xs rule: dedup_acc.induct) (auto simp: set_dedup_acc)

lemma distinct_dedup [simp]: "distinct (dedup xs)"
  by (simp add: dedup_def distinct_dedup_acc)

lemma length_dedup_acc: "length (dedup_acc seen xs) \<le> length xs"
  by (induction seen xs rule: dedup_acc.induct) auto

lemma length_dedup: "length (dedup xs) \<le> length xs"
  by (simp add: dedup_def length_dedup_acc)

subsection \<open>Dictionaries and lists\<close>

lemma map_of_update [simp]: "map_of (AList.update k v d) = (map_of d)(k \<mapsto> v)"
  by (rule update_conv')

lemma assoc_keyI: "(k, v) \<in> set d \<Longrightarrow> k \<in> set (map fst d)"
  by force

lemma assoc_update_mem: "(k, v) \<in> set (AList.update k v d)"
  by (induction d) auto

lemma assoc_update_other:
  "k' \<noteq> k \<Longrightarrow> (k', e) \<in> set d \<Longrightarrow> (k', e) \<in> set (AList.update k v d)"
  by (induction d) auto

definition last_n :: "nat \<Rightarrow> 'a list \<Rightarrow> 'a list" where
  "last_n n xs = drop (length xs - n) xs"

lemma length_last_n [simp]: "length (last_n n xs) = min n (length xs)"
  by (simp add: last_n_def)

lemma set_last_n: "set (last_n n xs) \<subseteq> set xs"
  by (simp add: last_n_def set_drop_subset)

lemma last_n_all: "length xs \<le> n \<Longrightarrow> last_n n xs = xs"
  by (simp add: last_n_def)

lemma length_filter_mono:
  "(\<And>x. x \<in> set xs \<Longrightarrow> P x \<Longrightarrow> Q x) \<Longrightarrow> length (filter P xs) \<le> length (filter Q xs)"
  by (induction xs) auto

text \<open>\<open>s.add(x)\<close> on a set kept as a duplicate-free list.\<close>

definition set_add :: "'a \<Rightarrow> 'a list \<Rightarrow> 'a list" where
  "set_add x xs = (if x \<in> set xs then xs else xs @ [x])"

lemma set_set_add [simp]: "set (set_add x xs) = insert x (set xs)"
  by (auto simp: set_add_def)

lemma distinct_set_add [simp]: "distinct (set_add x xs) = distinct xs"
  by (auto simp: set_add_def)

lemma length_set_add: "length xs \<le> length (set_add x xs)" "length (set_add x xs) \<le> Suc (length xs)"
  by (simp_all add: set_add_def)

lemma find_Some_mem: "find P xs = Some x \<Longrightarrow> x \<in> set xs \<and> P x"
  by (metis find_Some_iff nth_mem)

subsection \<open>Rounding\<close>

text \<open>\<open>round(x)\<close> and \<open>round(x, 3)\<close>, half to even.\<close>

definition round_even :: "rat \<Rightarrow> int" where
  "round_even y = (let f = \<lfloor>y\<rfloor>; d = y - of_int f in
     if d < 1 / 2 then f else if d > 1 / 2 then f + 1 else if even f then f else f + 1)"

definition round3 :: "rat \<Rightarrow> rat" where
  "round3 x = of_int (round_even (x * 1000)) / 1000"

lemma round_even_close: "\<bar>y - of_int (round_even y)\<bar> \<le> 1 / 2"
proof -
  have "0 \<le> y - of_int \<lfloor>y\<rfloor>" "y - of_int \<lfloor>y\<rfloor> < 1"
    using floor_correct [of y] by simp_all
  then show ?thesis by (simp add: round_even_def Let_def abs_le_iff)
qed

lemma round_even_int [simp]: "round_even (of_int z) = z"
  by (simp add: round_even_def Let_def)

lemma round_even_mono:
  assumes "x \<le> y" shows "round_even x \<le> round_even y"
proof (cases "\<lfloor>x\<rfloor> = \<lfloor>y\<rfloor>")
  case True
  with assms show ?thesis by (auto simp: round_even_def Let_def)
next
  case False
  with floor_mono [OF assms] have "\<lfloor>x\<rfloor> + 1 \<le> \<lfloor>y\<rfloor>" by simp
  then show ?thesis by (auto simp: round_even_def Let_def)
qed

lemma round3_mono: "x \<le> y \<Longrightarrow> round3 x \<le> round3 y"
  using round_even_mono [of "x * 1000" "y * 1000"] by (simp add: round3_def divide_right_mono)

lemma round3_nonneg: "0 \<le> x \<Longrightarrow> 0 \<le> round3 x"
  using round_even_mono [of 0 "x * 1000"] round_even_int [of 0] by (simp add: round3_def)

lemma round3_close: "\<bar>x - round3 x\<bar> \<le> 1 / 2000"
  using round_even_close [of "x * 1000"] by (simp add: round3_def abs_le_iff field_simps)

text \<open>\<open>str(n)\<close> of a natural number.\<close>

fun nat_str :: "nat \<Rightarrow> string" where
  "nat_str n = (if n < 10 then [char_of (48 + n)] else nat_str (n div 10) @ [char_of (48 + n mod 10)])"

declare nat_str.simps [simp del]

end
