(* ===== verification/Replay.thy ===== *)
theory Replay
  imports Prelude
begin

text \<open>
  Replay protection (\<open>services/replay.py\<close>): the nonce stores and the \<open>ReplayGuard\<close> that combines
  a nonce reservation with a clock-skew test. The guard relies on a store through the locale
  \<open>replay_store\<close>; the in-process store interprets it. The Redis client is not part of the
  repository, so its \<open>SET NX EX\<close> command is an argument of \<open>redis_reserve\<close>, as Python's
  \<open>float()\<close> parser is an argument of \<open>guard_check\<close>. Clock readings are rationals; the parsed
  timestamp keeps the infinities and not-a-number, which the skew comparison treats as Python does.
\<close>

subsection \<open>Values and errors\<close>

datatype pyfloat = Fin rat | PosInf | NegInf | NaN

datatype store_error = ReplayUnavailable

datatype replay_error = ReplayError int string

fun status_code :: "replay_error \<Rightarrow> int" where
  "status_code (ReplayError c m) = c"

definition scope_key :: "string \<Rightarrow> string \<Rightarrow> string" where
  "scope_key scope nonce = scope @ '':'' @ nonce"

subsection \<open>The in-process store\<close>

type_synonym nonce_table = "(string \<times> rat) list"

definition memory_reserve ::
    "rat \<Rightarrow> string \<Rightarrow> rat \<Rightarrow> nonce_table \<Rightarrow> nonce_table \<times> (store_error + bool)" where
  "memory_reserve now key ttl seen =
     (let live = filter (\<lambda>(k, expiry). \<not> expiry < now) seen
      in if key \<in> set (map fst live) then (live, Inr False)
         else (AList.update key (now + ttl) live, Inr True))"

definition memory_clear :: "nonce_table \<Rightarrow> nonce_table" where
  "memory_clear seen = []"

definition memory_held :: "nonce_table \<Rightarrow> rat \<Rightarrow> string \<Rightarrow> bool" where
  "memory_held seen t k \<longleftrightarrow> (\<exists>e. (k, e) \<in> set seen \<and> t \<le> e)"

subsection \<open>The Redis store\<close>

text \<open>\<open>set_nx\<close> is the client's \<open>SET key 1 NX EX ttl\<close>: \<open>None\<close> for a connection error.\<close>

definition redis_reserve ::
    "(rat \<Rightarrow> string \<Rightarrow> rat \<Rightarrow> 'r \<Rightarrow> ('r \<times> bool) option) \<Rightarrow> string \<Rightarrow> bool \<Rightarrow>
     rat \<Rightarrow> string \<Rightarrow> rat \<Rightarrow> 'r \<Rightarrow> 'r \<times> (store_error + bool)" where
  "redis_reserve set_nx prefix fail_open now key ttl r =
     (case set_nx now (prefix @ '':replay:'' @ key) ttl r of
        Some (r', created) \<Rightarrow> (r', Inr created)
      | None \<Rightarrow> (if fail_open then (r, Inr True) else (r, Inl ReplayUnavailable)))"

subsection \<open>The guard\<close>

definition skew_exceeded :: "rat \<Rightarrow> pyfloat \<Rightarrow> rat \<Rightarrow> bool" where
  "skew_exceeded now t window =
     (case t of Fin r \<Rightarrow> \<bar>now - r\<bar> > window | PosInf \<Rightarrow> True | NegInf \<Rightarrow> True | NaN \<Rightarrow> False)"

definition missing :: "string option \<Rightarrow> bool" where
  "missing v \<longleftrightarrow> (case v of None \<Rightarrow> True | Some s \<Rightarrow> s = [])"

definition guard_check ::
    "(string \<Rightarrow> pyfloat option) \<Rightarrow>
     (rat \<Rightarrow> string \<Rightarrow> rat \<Rightarrow> 's \<Rightarrow> 's \<times> (store_error + bool)) \<Rightarrow> rat \<Rightarrow>
     rat \<Rightarrow> string option \<Rightarrow> string option \<Rightarrow> string \<Rightarrow> 's \<Rightarrow> 's \<times> (replay_error + unit)" where
  "guard_check float_of reserve window now nonce timestamp scope s =
     (if missing nonce \<or> missing timestamp
      then (s, Inl (ReplayError 400 ''monitoring requires a nonce and timestamp''))
      else case float_of (the timestamp) of
        None \<Rightarrow> (s, Inl (ReplayError 400 ''invalid timestamp''))
      | Some event_time \<Rightarrow>
          if skew_exceeded now event_time window
          then (s, Inl (ReplayError 400 ''timestamp outside the allowed clock skew''))
          else case reserve now (scope_key scope (the nonce)) (window + 1) s of
            (s', Inl ReplayUnavailable) \<Rightarrow>
              (s', Inl (ReplayError 503 ''replay protection unavailable''))
          | (s', Inr reserved) \<Rightarrow>
              (s', if reserved then Inr () else Inl (ReplayError 409 ''replayed nonce'')))"

text \<open>A stream of checks, each with the clock reading it is made at.\<close>

record check_request =
  req_at :: rat
  req_nonce :: "string option"
  req_timestamp :: "string option"
  req_scope :: string

definition guard_step where
  "guard_step float_of reserve window s r =
     guard_check float_of reserve window (req_at r) (req_nonce r) (req_timestamp r) (req_scope r) s"

fun guard_run where
  "guard_run float_of reserve window s [] = s"
| "guard_run float_of reserve window s (r # rs) =
     guard_run float_of reserve window (fst (guard_step float_of reserve window s r)) rs"

subsection \<open>What the guard relies on\<close>

locale replay_store =
  fixes reserve :: "rat \<Rightarrow> string \<Rightarrow> rat \<Rightarrow> 's \<Rightarrow> 's \<times> (store_error + bool)"
    and held :: "'s \<Rightarrow> rat \<Rightarrow> string \<Rightarrow> bool"
  assumes reserve_rejects: "held s now k \<Longrightarrow> snd (reserve now k ttl s) \<noteq> Inr True"
    and reserve_holds:
      "snd (reserve now k ttl s) = Inr True \<Longrightarrow> t \<le> now + ttl \<Longrightarrow>
       held (fst (reserve now k ttl s)) t k"
    and reserve_keeps:
      "held s t k' \<Longrightarrow> now \<le> t \<Longrightarrow> held (fst (reserve now k ttl s)) t k'"
begin

lemma guard_check_state:
  "fst (guard_check float_of reserve window now nonce ts scope s) = s \<or>
   fst (guard_check float_of reserve window now nonce ts scope s) =
     fst (reserve now (scope_key scope (the nonce)) (window + 1) s)"
  by (auto simp: guard_check_def split: option.splits prod.splits sum.splits store_error.splits)

lemma guard_check_keeps:
  assumes "held s t k" and "now \<le> t"
  shows "held (fst (guard_check float_of reserve window now nonce ts scope s)) t k"
  using guard_check_state [of float_of window now nonce ts scope s] assms
  by (auto intro: reserve_keeps)

lemma guard_run_keeps:
  assumes "held s t k" and "\<forall>r \<in> set rs. req_at r \<le> t"
  shows "held (guard_run float_of reserve window s rs) t k"
  using assms
  by (induction rs arbitrary: s) (auto simp: guard_step_def intro: guard_check_keeps)

lemma guard_check_accepts:
  assumes "snd (guard_check float_of reserve window now nonce ts scope s) = Inr ()"
  obtains n v e where "nonce = Some n" "n \<noteq> []" "ts = Some v" "v \<noteq> []" "float_of v = Some e"
    "\<not> skew_exceeded now e window"
    "snd (reserve now (scope_key scope n) (window + 1) s) = Inr True"
    "fst (guard_check float_of reserve window now nonce ts scope s) =
       fst (reserve now (scope_key scope n) (window + 1) s)"
  using assms
  by (fastforce simp: guard_check_def missing_def
      split: option.splits prod.splits sum.splits store_error.splits if_splits)

text \<open>
  The guarantee: once a request whose timestamp is not in the future of the clock has been
  accepted, no later presentation of the same nonce, timestamp and scope is accepted, whatever is
  checked in between.
\<close>

lemma no_replay_of_past_timestamp:
  assumes acc: "snd (guard_check float_of reserve window now (Some n) (Some ts) scope s) = Inr ()"
    and past: "float_of ts = Some (Fin r)" "r \<le> now"
    and between: "\<forall>q \<in> set rs. req_at q \<le> now'"
    and s': "s' = guard_run float_of reserve window
                    (fst (guard_check float_of reserve window now (Some n) (Some ts) scope s)) rs"
  shows "snd (guard_check float_of reserve window now' (Some n) (Some ts) scope s') \<noteq> Inr ()"
proof
  assume again: "snd (guard_check float_of reserve window now' (Some n) (Some ts) scope s') = Inr ()"
  let ?k = "scope_key scope n"
  let ?s1 = "fst (guard_check float_of reserve window now (Some n) (Some ts) scope s)"
  from again past have skew: "\<not> skew_exceeded now' (Fin r) window"
    and free: "snd (reserve now' ?k (window + 1) s') = Inr True"
    by (auto elim: guard_check_accepts)
  from acc have first: "snd (reserve now ?k (window + 1) s) = Inr True"
    and s1: "?s1 = fst (reserve now ?k (window + 1) s)"
    by (auto elim: guard_check_accepts)
  from skew past have "now' \<le> now + (window + 1)"
    by (simp add: skew_exceeded_def)
  with first have "held ?s1 now' ?k" unfolding s1 by (rule reserve_holds)
  then have "held s' now' ?k" unfolding s' using between by (rule guard_run_keeps)
  with free show False using reserve_rejects by blast
qed

end

interpretation mem_store: replay_store memory_reserve memory_held
proof (unfold_locales, goal_cases)
  case (1 s now k ttl)
  then obtain e where "(k, e) \<in> set s" "now \<le> e" by (auto simp: memory_held_def)
  then have "(k, e) \<in> set (filter (\<lambda>(k, expiry). \<not> expiry < now) s)" by auto
  then have "k \<in> set (map fst (filter (\<lambda>(k, expiry). \<not> expiry < now) s))"
    by (rule assoc_keyI)
  then show ?case by (simp add: memory_reserve_def Let_def del: set_map set_filter)
next
  case (2 now k ttl s t)
  then show ?case
    by (auto simp: memory_reserve_def memory_held_def Let_def split: if_splits
        intro: assoc_update_mem)
next
  case (3 s t k' now k ttl)
  from 3 obtain e where e: "(k', e) \<in> set s" "t \<le> e" by (auto simp: memory_held_def)
  let ?live = "filter (\<lambda>(k, expiry). \<not> expiry < now) s"
  from e 3(2) have in_live: "(k', e) \<in> set ?live" by auto
  have "k' \<noteq> k" if "k \<notin> set (map fst ?live)"
    using that assoc_keyI [OF in_live] by auto
  with in_live e(2) show ?case
    by (auto simp: memory_reserve_def memory_held_def Let_def simp del: set_filter set_map
        intro: assoc_update_other)
qed

subsection \<open>Facts about the concrete stores\<close>

lemma memory_reserve_free:
  "\<forall>e. (k, e) \<in> set seen \<longrightarrow> e < now \<Longrightarrow> snd (memory_reserve now k ttl seen) = Inr True"
  by (auto simp: memory_reserve_def Let_def)

lemma memory_reserve_from_empty: "fst (memory_reserve now k ttl []) = [(k, now + ttl)]"
  by (simp add: memory_reserve_def)

lemma guard_accepts_memory:
  assumes "n \<noteq> []" "ts \<noteq> []" "float_of ts = Some e" "\<not> skew_exceeded now e window"
    and "\<forall>x. (scope_key scope n, x) \<in> set seen \<longrightarrow> x < now"
  shows "snd (guard_check float_of memory_reserve window now (Some n) (Some ts) scope seen) = Inr ()"
    and "fst (guard_check float_of memory_reserve window now (Some n) (Some ts) scope seen) =
         fst (memory_reserve now (scope_key scope n) (window + 1) seen)"
  using assms memory_reserve_free [OF assms(5), of "window + 1"]
  by (auto simp: guard_check_def missing_def split: prod.splits sum.splits)

text \<open>
  C35. Once the guard (over the in-process store) has accepted a nonce with a timestamp that is not
  ahead of the clock, it accepts the same nonce, timestamp and scope at no later clock reading,
  whatever other requests are checked in between.
\<close>

theorem replay_rejected_when_not_future:
  assumes "snd (guard_check float_of memory_reserve window now (Some n) (Some ts) scope s) = Inr ()"
    and "float_of ts = Some (Fin r)" "r \<le> now"
    and "\<forall>q \<in> set rs. req_at q \<le> now'"
  shows "snd (guard_check float_of memory_reserve window now' (Some n) (Some ts) scope
           (guard_run float_of memory_reserve window
             (fst (guard_check float_of memory_reserve window now (Some n) (Some ts) scope s)) rs))
         \<noteq> Inr ()"
  by (rule mem_store.no_replay_of_past_timestamp [OF assms refl])

theorem replay_rejected_when_not_future_witness:
  "snd (guard_check (\<lambda>_. Some (Fin 990)) memory_reserve 300 1200 (Some ''n1'') (Some ''990'') ''org''
     (guard_run (\<lambda>_. Some (Fin 990)) memory_reserve 300
       (fst (guard_check (\<lambda>_. Some (Fin 990)) memory_reserve 300 1000 (Some ''n1'') (Some ''990'')
         ''org'' []))
       [\<lparr>req_at = 1100, req_nonce = Some ''n2'', req_timestamp = Some ''990'', req_scope = ''org''\<rparr>]))
   \<noteq> Inr ()"
proof (rule replay_rejected_when_not_future [where r = 990])
  show "snd (guard_check (\<lambda>_. Some (Fin 990)) memory_reserve 300 1000 (Some ''n1'') (Some ''990'')
          ''org'' []) = Inr ()"
    by (rule guard_accepts_memory [where e = "Fin 990"]) (simp_all add: skew_exceeded_def)
qed simp_all

text \<open>
  The reservation outlives the acceptance only by one window, while a timestamp may lie up to one
  window ahead of the clock: a request stamped one full window ahead is accepted, and accepted a
  second time two seconds after its reservation has lapsed, still inside the permitted skew.
\<close>

theorem future_timestamp_replayed:
  assumes "n \<noteq> []" "ts \<noteq> []" "float_of ts = Some (Fin (now + window))" "2 \<le> window"
  shows "snd (guard_check float_of memory_reserve window now (Some n) (Some ts) scope []) = Inr () \<and>
    snd (guard_check float_of memory_reserve window (now + window + 2) (Some n) (Some ts) scope
      (fst (guard_check float_of memory_reserve window now (Some n) (Some ts) scope []))) = Inr ()"
proof -
  have skew: "\<not> skew_exceeded now (Fin (now + window)) window"
    "\<not> skew_exceeded (now + window + 2) (Fin (now + window)) window"
    using assms(4) by (simp_all add: skew_exceeded_def)
  have first: "fst (guard_check float_of memory_reserve window now (Some n) (Some ts) scope []) =
        [(scope_key scope n, now + (window + 1))]"
    "snd (guard_check float_of memory_reserve window now (Some n) (Some ts) scope []) = Inr ()"
    using guard_accepts_memory [where float_of = float_of and seen = "[]", OF assms(1-3) skew(1)]
    by (simp_all add: memory_reserve_from_empty)
  show ?thesis
    unfolding first
    using guard_accepts_memory(1) [where float_of = float_of, OF assms(1-3) skew(2)] by simp
qed

theorem future_timestamp_replayed_witness:
  "snd (guard_check (\<lambda>_. Some (Fin (1000 + 300))) memory_reserve 300 1000 (Some ''n'') (Some ''1300'')
     ''org'' []) = Inr () \<and>
   snd (guard_check (\<lambda>_. Some (Fin (1000 + 300))) memory_reserve 300 (1000 + 300 + 2) (Some ''n'')
     (Some ''1300'') ''org''
     (fst (guard_check (\<lambda>_. Some (Fin (1000 + 300))) memory_reserve 300 1000 (Some ''n'')
       (Some ''1300'') ''org'' []))) = Inr ()"
  by (rule future_timestamp_replayed) simp_all

text \<open>
  A timestamp header that parses to not-a-number passes the skew test at every clock reading, so
  the same signed request is accepted again each time its reservation has lapsed.
\<close>

theorem nan_timestamp_never_expires:
  assumes "n \<noteq> []" "ts \<noteq> []" "float_of ts = Some NaN" "now + window + 1 < later"
  shows "snd (guard_check float_of memory_reserve window later (Some n) (Some ts) scope
      (fst (guard_check float_of memory_reserve window now (Some n) (Some ts) scope []))) = Inr ()"
proof -
  have skew: "\<not> skew_exceeded t NaN window" for t
    by (simp add: skew_exceeded_def)
  have first: "fst (guard_check float_of memory_reserve window now (Some n) (Some ts) scope []) =
        [(scope_key scope n, now + (window + 1))]"
    using guard_accepts_memory(2) [where float_of = float_of and seen = "[]", OF assms(1-3) skew]
    by (simp add: memory_reserve_from_empty)
  show ?thesis
    unfolding first
    using assms(4) guard_accepts_memory(1) [where float_of = float_of, OF assms(1-3) skew] by simp
qed

theorem nan_timestamp_never_expires_witness:
  "snd (guard_check (\<lambda>_. Some NaN) memory_reserve 300 99999 (Some ''n'') (Some ''nan'') ''org''
     (fst (guard_check (\<lambda>_. Some NaN) memory_reserve 300 1000 (Some ''n'') (Some ''nan'') ''org'' [])))
   = Inr ()"
  by (rule nan_timestamp_never_expires) simp_all

text \<open>
  With the Redis store and the fail mode closed, a request is accepted only if the server itself
  reported the key as newly created; when the server cannot be reached a request that passed the
  timestamp tests is refused with status 503 and nothing is recorded.
\<close>

theorem redis_fails_closed:
  "(snd (guard_check float_of (redis_reserve set_nx prefix False) window now nonce ts scope r) = Inr ()
      \<longleftrightarrow> \<not> missing nonce \<and> \<not> missing ts \<and>
     (\<exists>e r'. float_of (the ts) = Some e \<and> \<not> skew_exceeded now e window \<and>
       set_nx now (prefix @ '':replay:'' @ scope_key scope (the nonce)) (window + 1) r = Some (r', True))) \<and>
   (\<not> missing nonce \<and> \<not> missing ts \<and> float_of (the ts) = Some e \<and> \<not> skew_exceeded now e window \<and>
    set_nx now (prefix @ '':replay:'' @ scope_key scope (the nonce)) (window + 1) r = None \<longrightarrow>
    guard_check float_of (redis_reserve set_nx prefix False) window now nonce ts scope r =
      (r, Inl (ReplayError 503 ''replay protection unavailable'')))"
  by (auto simp: guard_check_def redis_reserve_def split: option.splits prod.splits)

theorem redis_fails_closed_witness:
  "guard_check (\<lambda>_. Some (Fin 990)) (redis_reserve (\<lambda>_ _ _ _. None) ''df'' False) 300 1000
     (Some ''n'') (Some ''990'') ''org'' () =
   ((), Inl (ReplayError 503 ''replay protection unavailable''))"
  using redis_fails_closed [of "\<lambda>_. Some (Fin 990)" "\<lambda>_ _ _ _. None" "''df''" 300 1000
      "Some ''n''" "Some ''990''" "''org''" "()" "Fin 990"]
  by (simp add: missing_def skew_exceeded_def)

end
