(* ===== verification/Rate_Limit.thy ===== *)
theory Rate_Limit
  imports Prelude
begin

text \<open>
  Request rate limiting (\<open>services/rate_limit.py\<close>): the in-process sliding-window limiter with its
  per-key deque of accepted hits, and the Redis limiter with its pipeline and removal commands as
  arguments. The main result is the budget itself: over any closed interval of one window length,
  no key is granted more than its limit.
\<close>

definition window_seconds :: rat where
  "window_seconds = 60"

definition rate_limit_key :: "string \<Rightarrow> string \<Rightarrow> string option \<Rightarrow> string option \<Rightarrow> string" where
  "rate_limit_key endpoint organization actor resource =
     join_with '':''
       [endpoint, organization,
        (case actor of None \<Rightarrow> ''-'' | Some a \<Rightarrow> if a = [] then ''-'' else a),
        (case resource of None \<Rightarrow> ''-'' | Some x \<Rightarrow> if x = [] then ''-'' else x)]"

type_synonym hit_table = "(string \<times> rat list) list"

definition hits_of :: "hit_table \<Rightarrow> string \<Rightarrow> rat list" where
  "hits_of h key = (case map_of h key of None \<Rightarrow> [] | Some w \<Rightarrow> w)"

definition memory_allow :: "rat \<Rightarrow> string \<Rightarrow> int \<Rightarrow> hit_table \<Rightarrow> hit_table \<times> bool" where
  "memory_allow now key limit_per_minute h =
     (if limit_per_minute \<le> 0 then (h, True)
      else let window = dropWhile (\<lambda>t. now - t > window_seconds) (hits_of h key)
           in if int (length window) \<ge> limit_per_minute
              then (AList.update key window h, False)
              else (AList.update key (window @ [now]) h, True))"

definition memory_clear :: "hit_table \<Rightarrow> hit_table" where
  "memory_clear h = []"

text \<open>
  The Redis limiter. \<open>pipe\<close> is the transaction (prune, add, count, expire): \<open>None\<close> for a
  connection error, otherwise the new server state and the count read; \<open>zrem\<close> removes the member
  of a rejected request and its own failure is ignored.
\<close>

definition redis_allow ::
    "(rat \<Rightarrow> string \<Rightarrow> string \<Rightarrow> 'r \<Rightarrow> ('r \<times> int) option) \<Rightarrow>
     (string \<Rightarrow> string \<Rightarrow> 'r \<Rightarrow> 'r option) \<Rightarrow> string \<Rightarrow> bool \<Rightarrow>
     rat \<Rightarrow> string \<Rightarrow> string \<Rightarrow> int \<Rightarrow> 'r \<Rightarrow> 'r \<times> bool" where
  "redis_allow pipe zrem prefix fail_open now member key limit_per_minute r =
     (if limit_per_minute \<le> 0 then (r, True)
      else let rkey = prefix @ '':rl:'' @ key in
        case pipe now rkey member r of
          None \<Rightarrow> (r, fail_open)
        | Some (r', count) \<Rightarrow>
            if count > limit_per_minute
            then (case zrem rkey member r' of None \<Rightarrow> (r', False) | Some r'' \<Rightarrow> (r'', False))
            else (r', True))"

subsection \<open>Streams of requests\<close>

text \<open>The accepted requests of a stream, with the clock readings they were accepted at.\<close>

fun allowed_log :: "int \<Rightarrow> hit_table \<Rightarrow> (rat \<times> string) list \<Rightarrow> (rat \<times> string) list" where
  "allowed_log limit h [] = []"
| "allowed_log limit h ((now, key) # rs) =
     (let (h', ok) = memory_allow now key limit h
      in (if ok then [(now, key)] else []) @ allowed_log limit h' rs)"

definition granted_times :: "string \<Rightarrow> (rat \<times> string) list \<Rightarrow> rat list" where
  "granted_times key granted = map fst (filter (\<lambda>p. snd p = key) granted)"

definition in_window :: "rat \<Rightarrow> rat list \<Rightarrow> nat" where
  "in_window from ts = length (filter (\<lambda>t. from \<le> t \<and> t \<le> from + window_seconds) ts)"

lemma granted_times_simps [simp]:
  "granted_times key [] = []"
  "granted_times key (l1 @ l2) = granted_times key l1 @ granted_times key l2"
  "granted_times key [(t, k)] = (if k = key then [t] else [])"
  by (simp_all add: granted_times_def)

lemma in_window_append [simp]: "in_window from (xs @ ys) = in_window from xs + in_window from ys"
  by (simp add: in_window_def)

lemma in_window_le_length: "in_window from ts \<le> length ts"
  by (simp add: in_window_def)

lemma in_window_old:
  "(\<forall>d \<in> set ds. d < t - window_seconds) \<Longrightarrow> t \<le> from + window_seconds \<Longrightarrow> in_window from ds = 0"
proof -
  assume old: "\<forall>d \<in> set ds. d < t - window_seconds" and t: "t \<le> from + window_seconds"
  have "\<not> from \<le> d" if "d \<in> set ds" for d
    using old t that by (metis diff_le_eq leD le_less_trans not_less order.trans)
  then show ?thesis by (auto simp: in_window_def filter_empty_conv)
qed

lemma dropWhile_takeWhile_all: "\<forall>x \<in> set (takeWhile P xs). P x"
  by (auto dest: set_takeWhileD)

text \<open>
  The invariant of one key: the hits granted so far are a forgotten part, all older than one window,
  followed by the deque, and no window holds more than the limit.
\<close>

definition key_inv :: "int \<Rightarrow> rat \<Rightarrow> rat list \<Rightarrow> rat list \<Rightarrow> bool" where
  "key_inv limit now granted deque \<longleftrightarrow>
     (\<exists>old. granted = old @ deque \<and> (\<forall>d \<in> set old. d < now - window_seconds)) \<and>
     (\<forall>from. int (in_window from granted) \<le> limit)"

lemma key_inv_later:
  assumes "key_inv limit now g d" and "now \<le> now'"
  shows "key_inv limit now' g d"
proof -
  from assms(1) obtain old where old: "g = old @ d" "\<forall>x \<in> set old. x < now - window_seconds"
    by (auto simp: key_inv_def)
  have "x < now' - window_seconds" if "x \<in> set old" for x
    using old(2) that assms(2) by (metis diff_right_mono order_less_le_trans)
  with old(1) assms(1) show ?thesis by (auto simp: key_inv_def)
qed

lemma key_inv_prune:
  assumes "key_inv limit now g d"
  shows "key_inv limit now g (dropWhile (\<lambda>t. now - t > window_seconds) d)" (is "key_inv _ _ _ ?d'")
proof -
  let ?p = "takeWhile (\<lambda>t. now - t > window_seconds) d"
  from assms obtain old where old: "g = old @ d" "\<forall>x \<in> set old. x < now - window_seconds"
    by (auto simp: key_inv_def)
  have "\<forall>x \<in> set ?p. x < now - window_seconds"
    using dropWhile_takeWhile_all [of "\<lambda>t. now - t > window_seconds" d] by auto
  with old have "g = (old @ ?p) @ ?d'" "\<forall>x \<in> set (old @ ?p). x < now - window_seconds"
    by auto
  with assms show ?thesis unfolding key_inv_def by blast
qed

lemma key_inv_grant:
  assumes inv: "key_inv limit now g d" and room: "int (length d) < limit"
  shows "key_inv limit now (g @ [now]) (d @ [now])"
proof -
  from inv obtain old where old: "g = old @ d" "\<forall>x \<in> set old. x < now - window_seconds"
    by (auto simp: key_inv_def)
  have "int (in_window from (g @ [now])) \<le> limit" for "from"
  proof (cases "now \<le> from + window_seconds")
    case True
    then have "in_window from old = 0" using old(2) by (rule in_window_old [rotated])
    moreover have "in_window from [now] \<le> 1" using in_window_le_length [of "from" "[now]"] by simp
    ultimately show ?thesis
      using old(1) room in_window_le_length [of "from" d] by simp
  next
    case False
    then have "in_window from [now] = 0" by (simp add: in_window_def)
    with inv show ?thesis by (simp add: key_inv_def)
  qed
  with old show ?thesis unfolding key_inv_def by auto
qed

lemma hits_of_update [simp]: "hits_of (AList.update k w h) k' = (if k' = k then w else hits_of h k')"
  by (simp add: hits_of_def)

lemma memory_allow_inv:
  assumes inv: "key_inv limit now g (hits_of h key)" and pos: "0 < limit"
    and step: "memory_allow now key' limit h = (h', ok)"
  shows "key_inv limit now (g @ (if ok \<and> key' = key then [now] else [])) (hits_of h' key)"
proof (cases "key' = key")
  case False
  with assms show ?thesis by (auto simp: memory_allow_def Let_def split: if_splits)
next
  case True
  let ?w = "dropWhile (\<lambda>t. now - t > window_seconds) (hits_of h key)"
  have pruned: "key_inv limit now g ?w" using inv by (rule key_inv_prune)
  show ?thesis
  proof (cases "int (length ?w) < limit")
    case room: True
    with step pos True have "hits_of h' key = ?w @ [now]" "ok"
      by (auto simp: memory_allow_def Let_def)
    with True key_inv_grant [OF pruned room] show ?thesis by simp
  next
    case False
    with step pos True have "hits_of h' key = ?w" "\<not> ok"
      by (auto simp: memory_allow_def Let_def)
    with pruned show ?thesis by simp
  qed
qed

lemma allowed_log_budget:
  assumes "key_inv limit now g (hits_of h key)" and "0 < limit"
    and "sorted (now # map fst rs)"
  shows "int (in_window from (g @ granted_times key (allowed_log limit h rs))) \<le> limit"
  using assms
proof (induction rs arbitrary: h g now)
  case Nil
  then show ?case by (simp add: key_inv_def)
next
  case (Cons r rs)
  obtain t k where r: "r = (t, k)" by (cases r)
  obtain h' ok where step: "memory_allow t k limit h = (h', ok)" by fastforce
  let ?new = "if ok \<and> k = key then [t] else []"
  have "key_inv limit t g (hits_of h key)"
    using Cons.prems r by (auto intro: key_inv_later)
  then have inv: "key_inv limit t (g @ ?new) (hits_of h' key)"
    using Cons.prems(2) step by (rule memory_allow_inv)
  have "int (in_window from ((g @ ?new) @ granted_times key (allowed_log limit h' rs))) \<le> limit"
    using Cons.prems r by (intro Cons.IH [OF inv]) auto
  then show ?case using r step by (auto split: if_splits)
qed

text \<open>
  The sliding-window budget: with a positive limit and a clock that never runs backwards, a fresh
  in-process limiter grants any key at most the limit in every closed interval of sixty seconds,
  whatever mixture of keys the stream of requests holds.
\<close>

theorem limiter_never_exceeds_budget:
  assumes "0 < limit" and "sorted (map fst rs)"
  shows "int (in_window from (granted_times key (allowed_log limit [] rs))) \<le> limit"
proof (cases rs)
  case Nil
  with assms show ?thesis by (simp add: in_window_def)
next
  case (Cons r rs')
  have "key_inv limit (fst r) [] (hits_of [] key)"
    using assms(1) by (simp add: key_inv_def hits_of_def in_window_def)
  from allowed_log_budget [OF this assms(1), of rs "from"] show ?thesis
    using assms(2) Cons by simp
qed

theorem limiter_never_exceeds_budget_witness:
  "int (in_window 0 (granted_times ''k''
     (allowed_log 2 [] [(0, ''k''), (10, ''k''), (15, ''j''), (20, ''k''), (61, ''k'')]))) \<le> 2 \<and>
   granted_times ''k''
     (allowed_log 2 [] [(0, ''k''), (10, ''k''), (15, ''j''), (20, ''k''), (61, ''k'')]) = [0, 10, 61]"
proof
  show "int (in_window 0 (granted_times ''k''
     (allowed_log 2 [] [(0, ''k''), (10, ''k''), (15, ''j''), (20, ''k''), (61, ''k'')]))) \<le> 2"
    by (rule limiter_never_exceeds_budget) simp_all
  show "granted_times ''k''
     (allowed_log 2 [] [(0, ''k''), (10, ''k''), (15, ''j''), (20, ''k''), (61, ''k'')]) = [0, 10, 61]"
    by (simp add: memory_allow_def hits_of_def window_seconds_def granted_times_def)
qed

end
