(* ===== verification/Judge_Sandbox.thy ===== *)
theory Judge_Sandbox
  imports Prelude
begin

text \<open>
  The restricted judge workspace: per-session budgets (\<open>services/judge_quota.py\<close>) and the sandbox
  lifecycle with its namespaced keys, lazy expiry and reset (\<open>services/judge_sandbox.py\<close>). The
  sandbox rows are a list, the other tables a map from table to rows; the seeding pipeline, which
  the reset calls last, is an argument.
\<close>

subsection \<open>Rows and settings\<close>

record sandbox =
  sb_organization :: org_id
  sb_session :: uuid
  sb_environment :: string
  sb_status :: string
  sb_expires_at :: datetime
  analysis_runs :: int
  interactions :: int
  exports :: int
  resets :: int
  last_reset_at :: "datetime option"

record judge_settings =
  judge_max_analysis_runs :: int
  judge_max_interactions :: int
  judge_max_exports :: int
  judge_reset_cooldown_seconds :: int

datatype judge_action = ANALYZE | INTERACT | EXPORT | RESET | Unknown string

record quota_denial =
  qd_action :: judge_action
  qd_reason :: string
  qd_retry_after :: "int option"

datatype value_error = ValueError string

record quota_state =
  qs_action :: judge_action
  qs_used :: int
  qs_limit :: int

definition quota_remaining :: "quota_state \<Rightarrow> int" where
  "quota_remaining q = max 0 (qs_limit q - qs_used q)"

subsection \<open>Budgets\<close>

fun quota_limit :: "judge_settings \<Rightarrow> judge_action \<Rightarrow> value_error + int" where
  "quota_limit st ANALYZE = Inr (judge_max_analysis_runs st)"
| "quota_limit st INTERACT = Inr (judge_max_interactions st)"
| "quota_limit st EXPORT = Inr (judge_max_exports st)"
| "quota_limit st _ = Inl (ValueError ''unknown judge action'')"

fun quota_used :: "sandbox \<Rightarrow> judge_action \<Rightarrow> value_error + int" where
  "quota_used r ANALYZE = Inr (analysis_runs r)"
| "quota_used r INTERACT = Inr (interactions r)"
| "quota_used r EXPORT = Inr (exports r)"
| "quota_used r _ = Inl (ValueError ''unknown judge action'')"

definition quota_states :: "judge_settings \<Rightarrow> sandbox \<Rightarrow> quota_state list" where
  "quota_states st r =
     [\<lparr>qs_action = ANALYZE, qs_used = analysis_runs r, qs_limit = judge_max_analysis_runs st\<rparr>,
      \<lparr>qs_action = INTERACT, qs_used = interactions r, qs_limit = judge_max_interactions st\<rparr>,
      \<lparr>qs_action = EXPORT, qs_used = exports r, qs_limit = judge_max_exports st\<rparr>]"

definition check_reset :: "judge_settings \<Rightarrow> sandbox \<Rightarrow> datetime \<Rightarrow> quota_denial option" where
  "check_reset st r now =
     (let cooldown = judge_reset_cooldown_seconds st in
      if cooldown \<le> 0 then None
      else case last_reset_at r of
        None \<Rightarrow> None
      | Some prev \<Rightarrow>
          (let elapsed = now - prev in
           if elapsed \<ge> seconds cooldown then None
           else Some \<lparr>qd_action = RESET, qd_reason = ''cooldown'',
                      qd_retry_after = Some ((seconds cooldown - elapsed) div 1000000 + 1)\<rparr>))"

definition quota_check :: "judge_settings \<Rightarrow> sandbox \<Rightarrow> judge_action \<Rightarrow> datetime \<Rightarrow>
    value_error + quota_denial option" where
  "quota_check st r a now =
     (if a = RESET then Inr (check_reset st r now)
      else and_then (quota_limit st a) (\<lambda>limit.
           and_then (quota_used r a) (\<lambda>used.
             Inr (if used < limit then None
                  else Some \<lparr>qd_action = a, qd_reason = ''budget_exhausted'',
                             qd_retry_after = None\<rparr>))))"

fun quota_consume :: "sandbox \<Rightarrow> judge_action \<Rightarrow> datetime \<Rightarrow> value_error + sandbox" where
  "quota_consume r ANALYZE now = Inr (r\<lparr>analysis_runs := analysis_runs r + 1\<rparr>)"
| "quota_consume r INTERACT now = Inr (r\<lparr>interactions := interactions r + 1\<rparr>)"
| "quota_consume r EXPORT now = Inr (r\<lparr>exports := exports r + 1\<rparr>)"
| "quota_consume r RESET now = Inr (r\<lparr>resets := resets r + 1, last_reset_at := Some now\<rparr>)"
| "quota_consume r (Unknown a) now = Inl (ValueError ''unknown judge action'')"

text \<open>A caller checks, then consumes; a denial leaves the row alone.\<close>

definition quota_spend :: "judge_settings \<Rightarrow> sandbox \<Rightarrow> judge_action \<Rightarrow> datetime \<Rightarrow> sandbox \<times> bool" where
  "quota_spend st r a now =
     (case quota_check st r a now of
        Inr None \<Rightarrow> (case quota_consume r a now of Inr r' \<Rightarrow> (r', True) | Inl _ \<Rightarrow> (r, False))
      | _ \<Rightarrow> (r, False))"

fun granted_uses :: "judge_settings \<Rightarrow> judge_action \<Rightarrow> sandbox \<Rightarrow> (judge_action \<times> datetime) list \<Rightarrow> int" where
  "granted_uses st a r [] = 0"
| "granted_uses st a r ((b, now) # rest) =
     (let (r', ok) = quota_spend st r b now in (if ok \<and> b = a then 1 else 0) + granted_uses st a r' rest)"

lemma spend_used:
  assumes "quota_used r a = Inr u" and "quota_spend st r b now = (r', ok)"
  shows "quota_used r' a = Inr (u + (if ok \<and> b = a then 1 else 0))"
  using assms by (cases a; cases b) (auto simp: quota_spend_def quota_check_def split: option.splits sum.splits)

lemma spend_within:
  assumes "quota_used r a = Inr u" "quota_limit st a = Inr l" "quota_spend st r a now = (r', True)"
  shows "u < l"
  using assms by (cases a) (auto simp: quota_spend_def quota_check_def split: option.splits sum.splits if_splits)

lemma granted_bound:
  assumes "quota_used r a = Inr u" "quota_limit st a = Inr l"
  shows "granted_uses st a r ops \<le> max 0 (l - u)"
  using assms(1)
proof (induction ops arbitrary: r u)
  case Nil
  then show ?case by simp
next
  case (Cons op ops)
  obtain b now where op: "op = (b, now)" by (cases op)
  obtain r' ok where step: "quota_spend st r b now = (r', ok)" by fastforce
  have used: "quota_used r' a = Inr (u + (if ok \<and> b = a then 1 else 0))"
    using Cons.prems step by (rule spend_used)
  have "ok \<and> b = a \<Longrightarrow> u < l"
    using spend_within [OF Cons.prems assms(2)] step by auto
  with Cons.IH [OF used] show ?case by (auto simp: op step)
qed

text \<open>
  Budgets are per session: starting from any row, however checks, uses and resets are ordered,
  an action is granted at most as often as its configured limit exceeds what was already used, and
  a reset refills nothing.
\<close>

theorem session_budget_never_exceeded:
  assumes "quota_used r a = Inr u" and "quota_limit st a = Inr l"
  shows "granted_uses st a r ops \<le> max 0 (l - u)"
  using assms by (rule granted_bound)

theorem session_budget_never_exceeded_witness:
  "granted_uses \<lparr>judge_max_analysis_runs = 2, judge_max_interactions = 1, judge_max_exports = 1,
            judge_reset_cooldown_seconds = 0\<rparr> ANALYZE
     \<lparr>sb_organization = 1, sb_session = 2, sb_environment = ''judge'', sb_status = ''active'',
      sb_expires_at = 0, analysis_runs = 0, interactions = 0, exports = 0, resets = 0,
      last_reset_at = None\<rparr>
     [(ANALYZE, 0), (RESET, 1), (ANALYZE, 2), (RESET, 3), (ANALYZE, 4)] \<le> max 0 (2 - 0)"
  by (rule session_budget_never_exceeded) simp_all

text \<open>
  A denial carries a \<open>Retry-After\<close> only for the reset cooldown, and that one is honest: after
  waiting exactly that many seconds the reset is permitted, and it is between one second and one
  second more than the cooldown.
\<close>

theorem retry_after_is_honest:
  assumes "quota_check st r a now = Inr (Some d)" and "qd_retry_after d = Some s"
    and "\<forall>prev. last_reset_at r = Some prev \<longrightarrow> prev \<le> now"
  shows "a = RESET \<and> quota_check st r RESET (now + seconds s) = Inr None \<and>
    1 \<le> s \<and> s \<le> judge_reset_cooldown_seconds st + 1"
proof -
  have a: "a = RESET"
    using assms(1,2) by (auto simp: quota_check_def guard_simps split: if_splits)
  let ?c = "judge_reset_cooldown_seconds st"
  from assms(1,2) a obtain prev where prev: "last_reset_at r = Some prev" "0 < ?c"
    "now - prev < seconds ?c" and s: "s = (seconds ?c - (now - prev)) div 1000000 + 1"
    by (auto simp: quota_check_def check_reset_def Let_def split: if_splits option.splits)
  from assms(3) prev(1) have "prev \<le> now" by simp
  with prev s have "now + seconds s - prev \<ge> seconds ?c" "1 \<le> s" "s \<le> ?c + 1" by linarith+
  with a prev show ?thesis by (simp add: quota_check_def check_reset_def Let_def)
qed

theorem retry_after_is_honest_witness:
  "quota_check \<lparr>judge_max_analysis_runs = 2, judge_max_interactions = 1, judge_max_exports = 1,
          judge_reset_cooldown_seconds = 30\<rparr>
     \<lparr>sb_organization = 1, sb_session = 2, sb_environment = ''judge'', sb_status = ''active'',
      sb_expires_at = 0, analysis_runs = 0, interactions = 0, exports = 0, resets = 1,
      last_reset_at = Some 0\<rparr> RESET (10000000 + seconds 21) = Inr None"
  using retry_after_is_honest [of "\<lparr>judge_max_analysis_runs = 2, judge_max_interactions = 1,
      judge_max_exports = 1, judge_reset_cooldown_seconds = 30\<rparr>"
      "\<lparr>sb_organization = 1, sb_session = 2, sb_environment = ''judge'', sb_status = ''active'',
       sb_expires_at = 0, analysis_runs = 0, interactions = 0, exports = 0, resets = 1,
       last_reset_at = Some 0\<rparr>" RESET 10000000
      "\<lparr>qd_action = RESET, qd_reason = ''cooldown'', qd_retry_after = Some 21\<rparr>" 21]
  by (simp add: quota_check_def check_reset_def Let_def)

subsection \<open>Resolution and expiry\<close>

datatype sandbox_error = SandboxError int string | MultipleResults

definition sandbox_expired :: "sandbox \<Rightarrow> datetime \<Rightarrow> bool" where
  "sandbox_expired r now \<longleftrightarrow> sb_expires_at r \<le> now"

definition resolve_sandbox :: "sandbox list \<Rightarrow> org_id \<Rightarrow> datetime \<Rightarrow> sandbox_error + sandbox" where
  "resolve_sandbox rows org moment =
     (case filter (\<lambda>r. sb_organization r = org) rows of
        [] \<Rightarrow> Inl (SandboxError 404 ''sandbox not found'')
      | [r] \<Rightarrow> if sb_status r \<noteq> ''active'' \<or> sandbox_expired r moment
               then Inl (SandboxError 410 ''sandbox session has expired'')
               else Inr r
      | _ \<Rightarrow> Inl MultipleResults)"

text \<open>\<open>expire_due\<close> marks at most \<open>limit\<close> of the rows that are active and past their deadline.\<close>

fun expire_due :: "datetime \<Rightarrow> nat \<Rightarrow> sandbox list \<Rightarrow> sandbox list \<times> nat" where
  "expire_due moment limit [] = ([], 0)"
| "expire_due moment limit (r # rs) =
     (if 0 < limit \<and> sb_status r = ''active'' \<and> sandbox_expired r moment
      then (let (rs', n) = expire_due moment (limit - 1) rs
            in (r\<lparr>sb_status := ''expired''\<rparr> # rs', Suc n))
      else (let (rs', n) = expire_due moment limit rs in (r # rs', n)))"

lemma expire_due_count: "snd (expire_due moment limit rows) \<le> limit"
  by (induction moment limit rows rule: expire_due.induct) (auto split: prod.splits)

lemma expire_due_rows:
  "list_all2 (\<lambda>r r'. r' = r \<or> (sb_status r = ''active'' \<and> sandbox_expired r moment \<and>
       r' = r\<lparr>sb_status := ''expired''\<rparr>)) rows (fst (expire_due moment limit rows))"
  by (induction moment limit rows rule: expire_due.induct) (auto split: prod.splits)

lemma expire_due_filter:
  "list_all2 (\<lambda>r r'. r' = r \<or> (sb_status r = ''active'' \<and> sandbox_expired r moment \<and>
       r' = r\<lparr>sb_status := ''expired''\<rparr>))
     (filter (\<lambda>r. sb_organization r = org) rows)
     (filter (\<lambda>r. sb_organization r = org) (fst (expire_due moment limit rows)))"
  using expire_due_rows [of moment rows limit] by (induction rule: list_all2_induct) auto

text \<open>
  Lazy and eager expiry agree: running the expiry sweep (with any batch limit) changes the answer
  of \<open>resolve\<close> for no organization at any moment from the sweep on.
\<close>

theorem sweep_invisible_to_resolve:
  assumes "moment \<le> t"
  shows "resolve_sandbox (fst (expire_due moment limit rows)) org t = resolve_sandbox rows org t"
proof -
  let ?f = "filter (\<lambda>r. sb_organization r = org)"
  note rel = expire_due_filter [of moment org rows limit]
  show ?thesis
  proof (cases "?f rows" rule: remdups_adj.cases)
    case 1
    with rel have "?f (fst (expire_due moment limit rows)) = []" by simp
    with 1 show ?thesis by (simp add: resolve_sandbox_def)
  next
    case (2 r)
    with rel obtain r' where r': "?f (fst (expire_due moment limit rows)) = [r']"
      "r' = r \<or> (sb_status r = ''active'' \<and> sandbox_expired r moment \<and> r' = r\<lparr>sb_status := ''expired''\<rparr>)"
      by (auto simp: list_all2_Cons1)
    with 2 assms show ?thesis by (auto simp: resolve_sandbox_def sandbox_expired_def)
  next
    case (3 x y xs)
    with rel obtain x' y' xs' where "?f (fst (expire_due moment limit rows)) = x' # y' # xs'"
      by (auto simp: list_all2_Cons1)
    with 3 show ?thesis by (simp add: resolve_sandbox_def)
  qed
qed

theorem sweep_invisible_to_resolve_witness:
  "resolve_sandbox (fst (expire_due 5 500
     [\<lparr>sb_organization = 1, sb_session = 2, sb_environment = ''judge'', sb_status = ''active'',
      sb_expires_at = 4, analysis_runs = 0, interactions = 0, exports = 0, resets = 0,
      last_reset_at = None\<rparr>])) 1 6 = Inl (SandboxError 410 ''sandbox session has expired'')"
  by (subst sweep_invisible_to_resolve) (simp_all add: resolve_sandbox_def sandbox_expired_def)

text \<open>
  The two refusals of \<open>resolve\<close> are told apart by their status: an unknown organization is answered
  404 and an expired or closed sandbox 410, although the comment in the code calls them
  indistinguishable.
\<close>

lemma resolve_unknown:
  assumes "org \<notin> sb_organization ` set rows"
  shows "resolve_sandbox rows org t = Inl (SandboxError 404 ''sandbox not found'')"
proof -
  from assms have "filter (\<lambda>r. sb_organization r = org) rows = []"
    by (auto simp: filter_empty_conv)
  then show ?thesis by (simp add: resolve_sandbox_def)
qed

lemma resolve_expired:
  "filter (\<lambda>r. sb_organization r = org) rows = [r] \<Longrightarrow> sandbox_expired r t \<Longrightarrow>
   resolve_sandbox rows org t = Inl (SandboxError 410 ''sandbox session has expired'')"
  by (simp add: resolve_sandbox_def)

subsection \<open>Namespaced keys\<close>

text \<open>\<open>show_uuid\<close> is Python's \<open>str\<close> of a UUID.\<close>

definition namespace_key :: "(uuid \<Rightarrow> string) \<Rightarrow> sandbox \<Rightarrow> string list \<Rightarrow> value_error + string" where
  "namespace_key show_uuid r parts =
     (if parts = [] then Inl (ValueError ''a namespaced key requires at least one part'')
      else if \<exists>p \<in> set parts. p = [] then Inl (ValueError ''namespaced key parts must be non-empty'')
      else Inr (join_with '':''
        ([''deceptiforge:judge'', sb_environment r, show_uuid (sb_organization r),
          show_uuid (sb_session r)] @ parts)))"

definition owns :: "sandbox \<Rightarrow> org_id \<Rightarrow> bool" where
  "owns r organization \<longleftrightarrow> organization = sb_organization r"

lemma join_with_cons: "ws \<noteq> [] \<Longrightarrow> join_with sep (w # ws) = w @ sep @ join_with sep ws"
  by (cases ws) auto

text \<open>
  Two sandboxes never share a namespaced key: if \<open>str\<close> of a UUID is injective and, like the
  environment names, contains no colon, then equal keys belong to the same environment, organization
  and session, whatever the key parts are.
\<close>

theorem namespaced_keys_disjoint:
  assumes "namespace_key show_uuid r parts = Inr k" "namespace_key show_uuid r' parts' = Inr k"
    and "inj show_uuid" "\<forall>u. CHR '':'' \<notin> set (show_uuid u)"
    and "CHR '':'' \<notin> set (sb_environment r)" "CHR '':'' \<notin> set (sb_environment r')"
  shows "sb_environment r = sb_environment r' \<and> sb_organization r = sb_organization r' \<and>
    sb_session r = sb_session r'"
proof -
  have split: "take 5 (split_on CHR '':'' k) =
      [''deceptiforge'', ''judge'', sb_environment x, show_uuid (sb_organization x),
       show_uuid (sb_session x)]"
    if "namespace_key show_uuid x ps = Inr k" "CHR '':'' \<notin> set (sb_environment x)" for x ps
  proof -
    from that(1) have "ps \<noteq> []" and
      k: "k = ''deceptiforge'' @ CHR '':'' # ''judge'' @ CHR '':'' # sb_environment x @ CHR '':'' #
              show_uuid (sb_organization x) @ CHR '':'' # show_uuid (sb_session x) @ CHR '':'' #
              join_with '':'' ps"
      by (auto simp: namespace_key_def join_with_cons split: if_splits)
    show ?thesis
      unfolding k using that(2) assms(4)
      by (subst split_on_append_sep, simp)+ simp
  qed
  show ?thesis
    using split [OF assms(1,5)] split [OF assms(2,6)] assms(3) by (simp add: inj_eq)
qed

theorem namespaced_keys_disjoint_witness:
  "let r = \<lparr>sb_organization = 1, sb_session = 2, sb_environment = ''judge'', sb_status = ''active'',
      sb_expires_at = 4, analysis_runs = 0, interactions = 0, exports = 0, resets = 0,
      last_reset_at = None\<rparr>;
       r' = r\<lparr>sb_status := ''expired''\<rparr>
   in namespace_key (\<lambda>n. replicate n CHR ''a'') r [''decoys''] =
        namespace_key (\<lambda>n. replicate n CHR ''a'') r' [''decoys''] \<and>
      sb_session r = sb_session r'"
proof -
  let ?s = "\<lambda>n. replicate n CHR ''a''"
  let ?r = "\<lparr>sb_organization = 1, sb_session = 2, sb_environment = ''judge'', sb_status = ''active'',
      sb_expires_at = 4, analysis_runs = 0, interactions = 0, exports = 0, resets = 0,
      last_reset_at = None\<rparr>"
  obtain k where "namespace_key ?s ?r [''decoys''] = Inr k"
    "namespace_key ?s (?r\<lparr>sb_status := ''expired''\<rparr>) [''decoys''] = Inr k"
    by (simp add: namespace_key_def)
  then show ?thesis
    using namespaced_keys_disjoint [of ?s ?r "[''decoys'']" k "?r\<lparr>sb_status := ''expired''\<rparr>"
        "[''decoys'']"] by (simp add: inj_def)
qed

end
