(* ===== verification/Repo_Paths.thy ===== *)
theory Repo_Paths
  imports Prelude
begin

text \<open>
  Normalisation of the repository paths an agent reports (\<open>services/agent_sensor/paths.py\<close>) with the
  standard-library functions it calls: \<open>urllib.parse.unquote\<close>, \<open>posixpath.normpath\<close> and
  \<open>fnmatch.fnmatch\<close>. Escapes above \<open>%7F\<close> keep their byte: Python assembles them into non-ASCII
  characters, so either way they yield none of the characters the tests below look at.
\<close>

subsection \<open>Percent decoding\<close>

definition hex_value :: "char \<Rightarrow> nat option" where
  "hex_value c =
     (let n = (of_char c :: nat) in
      if 48 \<le> n \<and> n \<le> 57 then Some (n - 48)
      else if 65 \<le> n \<and> n \<le> 70 then Some (n - 55)
      else if 97 \<le> n \<and> n \<le> 102 then Some (n - 87) else None)"

fun unquote :: "string \<Rightarrow> string" where
  "unquote [] = []"
| "unquote [c] = [c]"
| "unquote [c, d] = [c, d]"
| "unquote (c # a # b # s) =
     (if c = CHR ''%'' \<and> hex_value a \<noteq> None \<and> hex_value b \<noteq> None
      then char_of (16 * the (hex_value a) + the (hex_value b)) # unquote s
      else c # unquote (a # b # s))"

lemma length_unquote: "length (unquote s) \<le> length s"
  by (induction s rule: unquote.induct) auto

text \<open>The bounded decoding loop: at most \<open>n\<close> rounds, stopping at a fixed point.\<close>

fun decode_rounds :: "nat \<Rightarrow> string \<Rightarrow> string" where
  "decode_rounds 0 v = v"
| "decode_rounds (Suc n) v = (let d = unquote v in if d = v then v else decode_rounds n d)"

lemma length_decode_rounds: "length (decode_rounds n v) \<le> length v"
proof (induction n arbitrary: v)
  case (Suc n)
  then show ?case using length_unquote [of v] by (auto simp: Let_def intro: order_trans)
qed simp

subsection \<open>posixpath.normpath\<close>

definition step_comp :: "bool \<Rightarrow> string list \<Rightarrow> string \<Rightarrow> string list" where
  "step_comp rooted new_comps part =
     (if part = [] \<or> part = ''.'' then new_comps
      else if part \<noteq> ''..'' \<or> (\<not> rooted \<and> new_comps = []) \<or>
              (new_comps \<noteq> [] \<and> last new_comps = ''..'')
      then new_comps @ [part]
      else butlast new_comps)"

definition norm_comps :: "bool \<Rightarrow> string list \<Rightarrow> string list" where
  "norm_comps rooted parts = foldl (step_comp rooted) [] parts"

definition normpath :: "string \<Rightarrow> string" where
  "normpath path =
     (if path = [] then ''.''
      else let slashes = (if startswith path ''/'' then
                            (if startswith path ''//'' \<and> \<not> startswith path ''///'' then ''//'' else ''/'')
                          else '''');
               result = slashes @ join_with ''/'' (norm_comps (slashes \<noteq> []) (split_on CHR ''/'' path))
           in if result = [] then ''.'' else result)"

text \<open>For a relative path the stack is a run of \<open>..\<close> followed by ordinary components.\<close>

definition comps_ok :: "string list \<Rightarrow> bool" where
  "comps_ok cs \<longleftrightarrow> (\<exists>n xs. cs = replicate n ''..'' @ xs \<and>
     (\<forall>c \<in> set xs. c \<noteq> [] \<and> c \<noteq> ''.'' \<and> c \<noteq> ''..''))"

lemma comps_ok_step: "comps_ok cs \<Longrightarrow> comps_ok (step_comp False cs part)"
proof -
  assume "comps_ok cs"
  then obtain n xs where cs: "cs = replicate n ''..'' @ xs"
    and xs: "\<forall>c \<in> set xs. c \<noteq> [] \<and> c \<noteq> ''.'' \<and> c \<noteq> ''..''"
    by (auto simp: comps_ok_def)
  show ?thesis
  proof (cases "xs = []")
    case True
    have push: "comps_ok (replicate n ''..'' @ [''..''])"
      unfolding comps_ok_def
      by (rule exI [of _ "Suc n"], rule exI [of _ "[]"]) (simp add: replicate_append_same)
    have plain: "comps_ok (replicate n ''..'' @ [part])"
      if "part \<noteq> []" "part \<noteq> ''.''" "part \<noteq> ''..''"
      unfolding comps_ok_def
      by (rule exI [of _ n], rule exI [of _ "[part]"]) (use that in simp)
    show ?thesis
      using True cs push plain \<open>comps_ok cs\<close>
      by (cases "part = ''..''") (auto simp: step_comp_def split: if_splits)
  next
    case False
    then have last: "last cs = last xs" "cs \<noteq> []" "last xs \<in> set xs" using cs by auto
    then have "last cs \<noteq> ''..''" using xs by auto
    then have step: "step_comp False cs part =
        (if part = [] \<or> part = ''.'' then cs else if part \<noteq> ''..'' then cs @ [part] else butlast cs)"
      using last by (simp add: step_comp_def)
    have pop: "comps_ok (butlast cs)"
      unfolding comps_ok_def
      by (rule exI [of _ n], rule exI [of _ "butlast xs"])
        (use cs xs False in \<open>auto simp: butlast_append dest: in_set_butlastD\<close>)
    have plain: "comps_ok (cs @ [part])" if "part \<noteq> []" "part \<noteq> ''.''" "part \<noteq> ''..''"
      unfolding comps_ok_def
      by (rule exI [of _ n], rule exI [of _ "xs @ [part]"]) (use cs xs that in auto)
    show ?thesis using step pop plain \<open>comps_ok cs\<close> by auto
  qed
qed

lemma comps_ok_foldl: "comps_ok cs \<Longrightarrow> comps_ok (foldl (step_comp False) cs parts)"
  by (induction parts arbitrary: cs) (auto intro: comps_ok_step)

lemma comps_ok_norm: "comps_ok (norm_comps False parts)"
  unfolding norm_comps_def by (rule comps_ok_foldl) (auto simp: comps_ok_def)

lemma set_foldl_step: "set (foldl (step_comp b) cs parts) \<subseteq> set cs \<union> set parts"
proof (induction parts arbitrary: cs)
  case (Cons part parts)
  have "set (step_comp b cs part) \<subseteq> set cs \<union> {part}"
    by (auto simp: step_comp_def dest: in_set_butlastD)
  with Cons show ?case by fastforce
qed simp

lemma set_norm_comps: "set (norm_comps b parts) \<subseteq> set parts"
  using set_foldl_step [of b "[]" parts] by (simp add: norm_comps_def)

lemma foldl_step_size:
  "sum_list (map (\<lambda>c. Suc (length c)) (foldl (step_comp b) cs parts)) \<le>
   sum_list (map (\<lambda>c. Suc (length c)) cs) + sum_list (map (\<lambda>c. Suc (length c)) parts)"
proof (induction parts arbitrary: cs)
  case (Cons part parts)
  have pop: "sum_list (map (\<lambda>c. Suc (length c)) (butlast cs)) \<le> sum_list (map (\<lambda>c. Suc (length c)) cs)"
    by (cases cs rule: rev_cases) auto
  have "sum_list (map (\<lambda>c. Suc (length c)) (step_comp b cs part)) \<le>
        sum_list (map (\<lambda>c. Suc (length c)) cs) + Suc (length part)"
    using pop by (auto simp: step_comp_def)
  with Cons [of "step_comp b cs part"] show ?case by simp
qed simp

lemma sum_Suc_length: "sum_list (map (\<lambda>c. Suc (length c)) ws) = sum_list (map length ws) + length ws"
  by (induction ws) auto

lemma length_join_norm:
  "length (join_with ''/'' (norm_comps b (split_on CHR ''/'' p))) \<le> length p"
proof -
  have "sum_list (map length ws) + length ws \<le> sum_list (map length vs) + length vs \<Longrightarrow> vs \<noteq> [] \<Longrightarrow>
      sum_list (map length ws) + (length ws - 1) \<le> sum_list (map length vs) + (length vs - 1)"
    for ws vs :: "string list"
    by (cases ws; cases vs) auto
  from this [of "norm_comps b (split_on CHR ''/'' p)" "split_on CHR ''/'' p"]
  show ?thesis
    using foldl_step_size [of b "[]" "split_on CHR ''/'' p"]
    by (simp add: norm_comps_def length_join_with1 length_split_on_sum [symmetric, of p "CHR ''/''"]
        sum_Suc_length)
qed

subsection \<open>normalize_path\<close>

definition max_len :: nat where "max_len = 2048"

definition max_decode_rounds :: nat where "max_decode_rounds = 3"

definition nul :: char where "nul = char_of (0::nat)"

lemma nul_chars: "nul \<noteq> CHR ''/''" "CHR 0x5C \<noteq> CHR ''/''" "nul \<noteq> CHR 0x5C"
  by code_simp+

fun strip_dot_slash :: "string \<Rightarrow> string" where
  "strip_dot_slash (a # b # s) =
     (if a = CHR ''.'' \<and> b = CHR ''/'' then strip_dot_slash s else a # b # s)"
| "strip_dot_slash s = s"

text \<open>What a caller may rely on: a relative path made of ordinary components only.\<close>

definition safe_relative :: "string \<Rightarrow> bool" where
  "safe_relative p \<longleftrightarrow> p \<noteq> [] \<and> length p \<le> max_len \<and> nul \<notin> set p \<and> CHR 0x5C \<notin> set p \<and>
     (\<forall>c \<in> set (split_on CHR ''/'' p). c \<noteq> [] \<and> c \<noteq> ''.'' \<and> c \<noteq> ''..'')"

lemma strip_dot_slash_suffix: "\<exists>t. s = t @ strip_dot_slash s"
proof (induction s rule: strip_dot_slash.induct)
  case (1 a b s)
  then show ?case by (auto) (metis append_Cons)
qed auto

lemma startswith_slash: "startswith s ''/'' \<longleftrightarrow> (\<exists>t. s = CHR ''/'' # t)"
  by (auto simp: startswith_iff)

lemma normpath_relative:
  assumes "v \<noteq> []" "\<not> startswith v ''/''"
  shows "normpath v = (let r = join_with ''/'' (norm_comps False (split_on CHR ''/'' v))
                       in if r = [] then ''.'' else r)"
  using assms by (simp add: normpath_def Let_def)

lemma normpath_rooted: "startswith v ''/'' \<Longrightarrow> startswith (normpath v) ''/''"
  by (auto simp: normpath_def Let_def startswith_slash)

lemma norm_comps_slash_free: "c \<in> set (norm_comps b (split_on d p)) \<Longrightarrow> d \<notin> set c"
  using set_norm_comps split_on_no_sep by blast

lemma length_normpath: "v \<noteq> [] \<Longrightarrow> \<not> startswith v ''/'' \<Longrightarrow> length (normpath v) \<le> length v"
  using length_join_norm [of False v] by (cases v) (auto simp: normpath_relative Let_def)

lemma safe_comps:
  assumes "comps_ok cs" and "cs \<noteq> []" and "\<forall>c \<in> set cs. CHR ''/'' \<notin> set c"
    and "p = join_with ''/'' cs" and "p \<noteq> ''..''" and "\<not> startswith p ''../''"
  shows "\<forall>c \<in> set cs. c \<noteq> [] \<and> c \<noteq> ''.'' \<and> c \<noteq> ''..''"
proof -
  from assms(1) obtain n xs where cs: "cs = replicate n ''..'' @ xs"
    and xs: "\<forall>c \<in> set xs. c \<noteq> [] \<and> c \<noteq> ''.'' \<and> c \<noteq> ''..''"
    by (auto simp: comps_ok_def)
  have "n = 0"
  proof (rule ccontr)
    assume "n \<noteq> 0"
    then obtain rest where rest: "cs = ''..'' # rest" using cs by (cases n) auto
    show False
    proof (cases rest)
      case Nil
      with assms(4,5) rest show False by simp
    next
      case (Cons r rs)
      with assms(4,6) rest show False by (auto simp: startswith_iff)
    qed
  qed
  with cs xs show ?thesis by simp
qed

lemma normpath_safe:
  assumes v: "v \<noteq> []" "\<not> startswith v ''/''" and "nul \<notin> set v" "CHR 0x5C \<notin> set v"
    and len: "length v \<le> max_len"
    and p: "p = normpath v" "p \<noteq> ''.''" "p \<noteq> ''..''" "\<not> startswith p ''../''"
  shows "safe_relative p"
proof -
  let ?cs = "norm_comps False (split_on CHR ''/'' v)"
  have pj: "p = join_with ''/'' ?cs" and "?cs \<noteq> []"
    using p(1,2) normpath_relative [OF v] by (auto simp: Let_def split: if_splits)
  have free: "\<forall>c \<in> set ?cs. CHR ''/'' \<notin> set c" by (auto dest: norm_comps_slash_free)
  have "split_on CHR ''/'' p = ?cs"
    unfolding pj by (rule split_join [OF \<open>?cs \<noteq> []\<close> free])
  with safe_comps [OF comps_ok_norm \<open>?cs \<noteq> []\<close> free pj p(3,4)]
  have "\<forall>c \<in> set (split_on CHR ''/'' p). c \<noteq> [] \<and> c \<noteq> ''.'' \<and> c \<noteq> ''..''" by simp
  moreover have "set p \<subseteq> insert CHR ''/'' (set v)"
    unfolding pj using set_join_with [of "''/''" ?cs] set_norm_comps [of False "split_on CHR ''/'' v"]
      set_split_on [of _ "CHR ''/''" v] by fastforce
  moreover have "length p \<le> max_len"
    unfolding p(1) using length_normpath [OF v] len by (rule order_trans)
  moreover have "p \<noteq> []" using calculation(1) by force
  ultimately show ?thesis
    using assms(3,4) nul_chars unfolding safe_relative_def by blast
qed

definition to_posix :: "string \<Rightarrow> string" where
  "to_posix s = map (\<lambda>c. if c = CHR 0x5C then CHR ''/'' else c) s"

lemma to_posix_facts:
  "length (to_posix s) = length s" "CHR 0x5C \<notin> set (to_posix s)"
  "nul \<notin> set s \<Longrightarrow> nul \<notin> set (to_posix s)"
proof -
  show "length (to_posix s) = length s" by (simp add: to_posix_def)
  show "CHR 0x5C \<notin> set (to_posix s)" using nul_chars(2) by (auto simp: to_posix_def)
  show "nul \<notin> set (to_posix s)" if "nul \<notin> set s"
    using that nul_chars(1) by (auto simp: to_posix_def split: if_splits)
qed

definition finish_path :: "string \<Rightarrow> string option" where
  "finish_path normalized =
     (if normalized = ''.'' \<or> normalized = [] then None
      else if normalized = ''..'' \<or> startswith normalized ''../'' \<or>
              contains (''/'' @ normalized) ''/../'' then None
      else if startswith normalized ''/'' then None
      else Some normalized)"

lemma finish_path_Some:
  "finish_path n = Some p \<Longrightarrow>
     p = n \<and> n \<noteq> ''.'' \<and> n \<noteq> ''..'' \<and> \<not> startswith n ''../'' \<and> \<not> startswith n ''/''"
  unfolding finish_path_def by (simp only: split: if_splits) simp_all

definition normalize_path :: "string \<Rightarrow> string option" where
  "normalize_path raw =
     (if raw = [] \<or> nul \<in> set raw \<or> length raw > max_len then None
      else let value = decode_rounds max_decode_rounds raw in
        if nul \<in> set value then None
        else let value = to_posix value in
          if startswith value ''/'' then None
          else if length value \<ge> 2 \<and> value ! 1 = CHR '':'' then None
          else finish_path (normpath (strip_dot_slash value)))"

lemma normalize_path_Some:
  assumes "normalize_path raw = Some p"
  obtains d where "d = decode_rounds max_decode_rounds raw" "length raw \<le> max_len" "nul \<notin> set d"
    "finish_path (normpath (strip_dot_slash (to_posix d))) = Some p"
  using assms unfolding normalize_path_def Let_def
  by (metis linorder_not_less option.distinct(1))

text \<open>
  C36. Every path \<open>normalize_path\<close> accepts is confined to the repository: it is a non-empty relative
  path of at most 2048 characters whose components are neither empty, nor \<open>.\<close>, nor \<open>..\<close>, with no
  backslash and no NUL.
\<close>

theorem normalize_path_confined:
  assumes "normalize_path raw = Some p"
  shows "safe_relative p"
proof -
  obtain d where d: "d = decode_rounds max_decode_rounds raw" "length raw \<le> max_len" "nul \<notin> set d"
    and fin: "finish_path (normpath (strip_dot_slash (to_posix d))) = Some p"
    using normalize_path_Some [OF assms] .
  obtain s where s: "s = strip_dot_slash (to_posix d)" by blast
  obtain t where t: "to_posix d = t @ s" using strip_dot_slash_suffix [of "to_posix d"] s by blast
  have p: "p = normpath s" "p \<noteq> ''.''" "p \<noteq> ''..''" "\<not> startswith p ''../''" "\<not> startswith p ''/''"
    using finish_path_Some [OF fin] s by (simp_all only:) blast+
  have "length d \<le> length raw" unfolding d(1) by (rule length_decode_rounds)
  moreover have "length s \<le> length d" using t to_posix_facts(1) [of d] by simp
  ultimately have len: "length s \<le> max_len" using d(2) by simp
  have chars: "nul \<notin> set s" "CHR 0x5C \<notin> set s"
    using to_posix_facts(2,3) [of d] d(3) t by auto
  have rel: "\<not> startswith s ''/''" using p(1,5) normpath_rooted by blast
  have "s \<noteq> []" using p(1,2) by (auto simp: normpath_def)
  then show ?thesis using normpath_safe [OF _ rel chars len p(1-4)] by blast
qed

theorem normalize_path_confined_witness:
  "safe_relative ''app/x.py'' \<and> normalize_path ''src%2F..%5capp//./x.py'' = Some ''app/x.py''"
proof -
  have h: "normalize_path ''src%2F..%5capp//./x.py'' = Some ''app/x.py''" by code_simp
  show ?thesis using normalize_path_confined [OF h] h by simp
qed

subsection \<open>path_matches\<close>

text \<open>
  \<open>fnmatch\<close>: \<open>*\<close> is any run of characters, \<open>?\<close> any one, \<open>[seq]\<close> and \<open>[!seq]\<close> a class with ranges;
  a bracket that is not closed is literal. \<open>class_split\<close> takes the pattern after the opening bracket
  and returns the negation flag, the class body and the rest.
\<close>

definition upto_bracket :: "string \<Rightarrow> (string \<times> string) option" where
  "upto_bracket p =
     (let body = takeWhile (\<lambda>c. c \<noteq> CHR '']'') p; rest = dropWhile (\<lambda>c. c \<noteq> CHR '']'') p
      in if rest = [] then None else Some (body, tl rest))"

definition class_split :: "string \<Rightarrow> (bool \<times> string \<times> string) option" where
  "class_split p =
     (let neg = (startswith p ''!''); q = (if neg then tl p else p)
      in if startswith q '']''
         then map_option (\<lambda>(b, r). (neg, CHR '']'' # b, r)) (upto_bracket (tl q))
         else map_option (\<lambda>(b, r). (neg, b, r)) (upto_bracket q))"

fun in_class :: "string \<Rightarrow> char \<Rightarrow> bool" where
  "in_class [] c = False"
| "in_class [a] c = (c = a)"
| "in_class [a, b] c = (c = a \<or> c = b)"
| "in_class (a # b # d # s) c =
     (if b = CHR ''-'' then (a \<le> c \<and> c \<le> d) \<or> in_class s c
      else c = a \<or> in_class (b # d # s) c)"

lemma upto_bracket_length: "upto_bracket p = Some (b, r) \<Longrightarrow> length r \<le> length p"
proof -
  have "length (tl (dropWhile P p)) \<le> length p" for P :: "char \<Rightarrow> bool"
    by (metis diff_le_self length_dropWhile_le length_tl order_trans)
  then show "upto_bracket p = Some (b, r) \<Longrightarrow> length r \<le> length p"
    by (auto simp: upto_bracket_def Let_def split: if_splits)
qed

lemma class_split_length: "class_split p = Some (n, b, r) \<Longrightarrow> length r \<le> length p"
proof -
  assume a: "class_split p = Some (n, b, r)"
  obtain q where q: "q = (if startswith p ''!'' then tl p else p)" by blast
  then have "length q \<le> length p" by simp
  moreover from a q have "(\<exists>b'. upto_bracket (tl q) = Some (b', r)) \<or> (\<exists>b'. upto_bracket q = Some (b', r))"
    by (auto simp: class_split_def Let_def split: if_splits)
  moreover have "length (tl q) \<le> length q" by simp
  ultimately show "length r \<le> length p" using upto_bracket_length by (meson order_trans)
qed

function (sequential) fnmatch :: "string \<Rightarrow> string \<Rightarrow> bool" where
  "fnmatch s [] = (s = [])"
| "fnmatch s (c # p) =
     (if c = CHR ''*'' then
        (if fnmatch s p then True else if s = [] then False else fnmatch (tl s) (c # p))
      else if s = [] then False
      else if c = CHR ''?'' then fnmatch (tl s) p
      else if c = CHR ''['' then
        (case class_split p of
           None \<Rightarrow> hd s = c \<and> fnmatch (tl s) p
         | Some (neg, body, rest) \<Rightarrow> (in_class body (hd s) \<noteq> neg) \<and> fnmatch (tl s) rest)
      else hd s = c \<and> fnmatch (tl s) p)"
  by pat_completeness auto
termination
  by (relation "measure (\<lambda>(s, p). length s + length p)") (auto dest: class_split_length)

definition pattern_base :: "string \<Rightarrow> string" where
  "pattern_base pattern =
     rstrip_chars (\<lambda>c. c = CHR ''/'') (py_lower
       (case normalize_path pattern of
          Some p \<Rightarrow> p
        | None \<Rightarrow> lstrip_chars (\<lambda>c. c = CHR ''/'') (to_posix (py_strip pattern))))"

definition path_matches :: "string \<Rightarrow> string \<Rightarrow> bool" where
  "path_matches pattern path =
     (let p = pattern_base pattern; target = py_lower path in
      if endswith p ''/**'' then
        (let base = take (length p - 3) p in target = base \<or> startswith target (base @ ''/''))
      else if CHR ''*'' \<in> set p \<or> CHR ''?'' \<in> set p then
        fnmatch target p \<or> fnmatch target (p @ ''/*'')
      else target = p \<or> startswith target (p @ ''/''))"

lemma split_on_append: "split_on d (p @ d # s) = split_on d p @ split_on d s"
  by (induction p) (auto split: list.splits)

lemma subtree_components:
  "t = p \<or> startswith t (p @ [d]) \<longleftrightarrow> (\<exists>ws. split_on d t = split_on d p @ ws)"
proof
  assume "t = p \<or> startswith t (p @ [d])"
  then show "\<exists>ws. split_on d t = split_on d p @ ws"
    by (auto simp: startswith_iff split_on_append)
next
  assume "\<exists>ws. split_on d t = split_on d p @ ws"
  then obtain ws where ws: "split_on d t = split_on d p @ ws" by blast
  show "t = p \<or> startswith t (p @ [d])"
  proof (cases ws)
    case Nil
    then show ?thesis using ws join_split by (metis append_Nil2)
  next
    case (Cons w vs)
    have "\<forall>u \<in> set ws. d \<notin> set u" using ws split_on_no_sep [of _ d t] by auto
    then have "split_on d (join_with [d] ws) = ws" using Cons by (intro split_join) auto
    then have "split_on d (p @ d # join_with [d] ws) = split_on d t"
      using ws by (simp add: split_on_append)
    then have "t = p @ d # join_with [d] ws" by (metis join_split)
    then show ?thesis by (auto simp: startswith_iff)
  qed
qed

text \<open>
  A policy pattern without wildcards, or one that ends in \<open>/**\<close>, matches by whole components:
  a path matches exactly when the pattern's components are a prefix of its own, so
  \<open>src/pay\<close> never covers \<open>src/payments\<close>.
\<close>

theorem path_matches_components:
  assumes "b = (if endswith (pattern_base pattern) ''/**''
                then take (length (pattern_base pattern) - 3) (pattern_base pattern)
                else pattern_base pattern)"
    and "endswith (pattern_base pattern) ''/**'' \<or>
         (CHR ''*'' \<notin> set (pattern_base pattern) \<and> CHR ''?'' \<notin> set (pattern_base pattern))"
  shows "path_matches pattern path \<longleftrightarrow>
         (\<exists>ws. split_on CHR ''/'' (py_lower path) = split_on CHR ''/'' b @ ws)"
proof -
  have "path_matches pattern path \<longleftrightarrow> py_lower path = b \<or> startswith (py_lower path) (b @ ''/'')"
    using assms by (cases "endswith (pattern_base pattern) ''/**''") (simp_all add: path_matches_def Let_def)
  then show ?thesis by (simp only: subtree_components)
qed

theorem path_matches_components_witness:
  "path_matches ''Src/Pay/'' ''src/pay/a.py'' \<and> \<not> path_matches ''Src/Pay/'' ''src/payments/a.py''"
proof -
  have b: "pattern_base ''Src/Pay/'' = ''src/pay''" by code_simp
  have "path_matches ''Src/Pay/'' q \<longleftrightarrow>
         (\<exists>ws. split_on CHR ''/'' (py_lower q) = [''src'', ''pay''] @ ws)" for q
    using path_matches_components [of "''src/pay''" "''Src/Pay/''" q] by (simp add: b endswith_def)
  moreover have "split_on CHR ''/'' (py_lower ''src/pay/a.py'') = [''src'', ''pay'', ''a.py'']"
    "split_on CHR ''/'' (py_lower ''src/payments/a.py'') = [''src'', ''payments'', ''a.py'']"
    by code_simp+
  ultimately show ?thesis by simp
qed

text \<open>
  Two limits of the normaliser: the drive test runs before leading \<open>./\<close> segments are dropped, and
  an escape nested four deep survives the three decoding rounds.
\<close>

lemma drive_behind_dot_slash:
  "normalize_path ''./C:/x'' = Some ''C:/x''" "normalize_path ''C:/x'' = None"
  by code_simp+

lemma nested_escape_survives:
  "normalize_path ''a%2525252e'' = Some ''a%2e''" "normalize_path ''a%2e'' = Some ''a.''"
  by code_simp+

lemma glob_examples:
  "path_matches ''src/*.py'' ''src/a/b.PY''" "\<not> path_matches ''src/[!a-c]?'' ''src/b1''"
  "path_matches ''*/.env*'' ''x/.env.local''"
  by code_simp+

end
