(* ===== verification/Severity_Model.thy ===== *)
theory Severity_Model
  imports Prelude
begin

text \<open>
  The shared \<open>Severity\<close> enumeration (\<open>models/domain/operations.py\<close>), the rank tables the services
  declare over it, and the "bump and clip" step the agent, browser and AI severity functions and the
  incident engine share: \<open>_ORDER[min(level, len(_ORDER) - 1)]\<close>.
\<close>

datatype severity = INFO | LOW | MEDIUM | HIGH | CRITICAL

fun sev_rank :: "severity \<Rightarrow> nat" where
  "sev_rank INFO = 0"
| "sev_rank LOW = 1"
| "sev_rank MEDIUM = 2"
| "sev_rank HIGH = 3"
| "sev_rank CRITICAL = 4"

definition sev_order :: "severity list" where
  "sev_order = [INFO, LOW, MEDIUM, HIGH, CRITICAL]"

definition sev_at :: "nat \<Rightarrow> severity" where
  "sev_at n = sev_order ! (min n (length sev_order - 1))"

instantiation severity :: linorder
begin

definition less_eq_severity :: "severity \<Rightarrow> severity \<Rightarrow> bool" where
  "less_eq_severity a b \<longleftrightarrow> sev_rank a \<le> sev_rank b"

definition less_severity :: "severity \<Rightarrow> severity \<Rightarrow> bool" where
  "less_severity a b \<longleftrightarrow> sev_rank a < sev_rank b"

instance
proof
  fix x y z :: severity
  show "x < y \<longleftrightarrow> x \<le> y \<and> \<not> y \<le> x"
    by (auto simp: less_eq_severity_def less_severity_def)
  show "x \<le> x" by (simp add: less_eq_severity_def)
  show "x \<le> y \<Longrightarrow> y \<le> z \<Longrightarrow> x \<le> z" by (simp add: less_eq_severity_def)
  show "x \<le> y \<Longrightarrow> y \<le> x \<Longrightarrow> x = y"
    by (cases x; cases y) (simp_all add: less_eq_severity_def)
  show "x \<le> y \<or> y \<le> x" by (auto simp: less_eq_severity_def)
qed

end

lemma sev_rank_le: "a \<le> b \<longleftrightarrow> sev_rank a \<le> sev_rank b"
  by (simp add: less_eq_severity_def)

lemma sev_rank_less: "a < b \<longleftrightarrow> sev_rank a < sev_rank b"
  by (simp add: less_severity_def)

lemma sev_rank_bound: "sev_rank s \<le> 4"
  by (cases s) simp_all

lemma sev_at_rank [simp]: "sev_at (sev_rank s) = s"
  by (cases s) (simp_all add: sev_at_def sev_order_def)

lemma sev_rank_at: "sev_rank (sev_at n) = min n 4"
proof -
  have "m = 0 \<or> m = 1 \<or> m = 2 \<or> m = 3 \<or> m = 4" if "m = min n 4" for m
    using that by arith
  then have "sev_rank (sev_order ! m) = m" if "m = min n 4" for m
    using that by (fastforce simp: sev_order_def)
  moreover have "length sev_order - 1 = 4" by (simp add: sev_order_def)
  ultimately show ?thesis by (simp add: sev_at_def)
qed

lemma sev_at_mono: "m \<le> n \<Longrightarrow> sev_at m \<le> sev_at n"
  by (simp add: sev_rank_le sev_rank_at)

lemma sev_at_eq_CRITICAL: "sev_at n = CRITICAL \<longleftrightarrow> 4 \<le> n"
proof -
  have "sev_at n = CRITICAL \<longleftrightarrow> sev_rank (sev_at n) = 4"
    by (cases "sev_at n") simp_all
  then show ?thesis by (auto simp: sev_rank_at)
qed

lemma sev_top: "s \<le> CRITICAL" "INFO \<le> s"
  by (cases s; simp add: sev_rank_le)+

end
