(* ===== verification/Lifecycle.thy ===== *)
theory Lifecycle
  imports Prelude
begin

text \<open>
  The interface shared by every status machine of the program: a closed table of successors,
  a \<open>can_transition\<close> test over it and an \<open>assert_transition\<close> that raises. Deployments, AI
  tripwires, the two kinds of sensor, calibration model versions and the failover control plane
  each declare such a table and interpret this locale. Its lemmas are about runs, that is, lists of
  successive statuses.
\<close>

fun run_from :: "('s \<Rightarrow> 's \<Rightarrow> bool) \<Rightarrow> 's \<Rightarrow> 's list \<Rightarrow> bool" where
  "run_from step s [] = True"
| "run_from step s (t # ts) = (step s t \<and> run_from step t ts)"

lemma run_from_append:
  "run_from step s (xs @ ys) \<longleftrightarrow> run_from step s xs \<and> run_from step (last (s # xs)) ys"
  by (induction xs arbitrary: s) auto

locale lifecycle =
  fixes table :: "'s \<Rightarrow> 's list"
    and can :: "'s \<Rightarrow> 's \<Rightarrow> bool"
    and check :: "'s \<Rightarrow> 's \<Rightarrow> 'e + unit"
    and err :: "'s \<Rightarrow> 's \<Rightarrow> 'e"
  assumes can_table: "can s t \<longleftrightarrow> t \<in> set (table s)"
    and check_eq: "check s t = (if can s t then Inr () else Inl (err s t))"
begin

lemma check_ok_iff: "check s t = Inr u \<longleftrightarrow> can s t"
  by (simp add: check_eq)

lemma check_err_iff: "check s t = Inl e \<longleftrightarrow> \<not> can s t \<and> e = err s t"
  by (auto simp: check_eq)

lemma terminal_run:
  assumes "table s = []" and "run_from can s ts"
  shows "ts = []"
  using assms by (cases ts) (auto simp: can_table)

lemma closed_run:
  assumes closed: "\<And>s. s \<in> S \<Longrightarrow> set (table s) \<subseteq> S"
    and "s \<in> S" and "run_from can s ts"
  shows "set ts \<subseteq> S"
  using assms(2,3)
proof (induction ts arbitrary: s)
  case Nil
  then show ?case by simp
next
  case (Cons t ts)
  then have "t \<in> S" using closed by (auto simp: can_table)
  with Cons show ?case by auto
qed

text \<open>A status whose every predecessor lies in \<open>G\<close> is reached only through a member of \<open>G\<close>.\<close>

lemma gate_run:
  assumes gate: "\<And>s. x \<in> set (table s) \<Longrightarrow> s \<in> G"
    and run: "run_from can s (xs @ x # ys)"
  shows "last (s # xs) \<in> G"
proof -
  from run have "can (last (s # xs)) x"
    by (simp add: run_from_append)
  then show ?thesis by (simp add: can_table gate)
qed

lemma gate_member:
  assumes gate: "\<And>s. x \<in> set (table s) \<Longrightarrow> s \<in> G"
    and run: "run_from can s ts" and "x \<in> set ts"
  shows "\<exists>g \<in> G. g \<in> set (s # ts)"
proof -
  from assms(3) obtain xs ys where ts: "ts = xs @ x # ys"
    by (meson split_list)
  with run have "last (s # xs) \<in> G"
    using gate_run [OF gate] by blast
  moreover have "last (s # xs) \<in> set (s # ts)"
    using ts by (metis Un_iff append_Cons last_in_set list.distinct(1) set_append)
  ultimately show ?thesis by blast
qed

end

end
