(* ===== verification/Agent_Rules.thy ===== *)
theory Agent_Rules
  imports Repo_Paths Severity_Model Lifecycle
begin

text \<open>
  The AI-agent activity sensor's deterministic rule engine: the domain enumerations and the sensor
  status machine (\<open>models/domain/agent_sensor.py\<close>), path classification and incident severity
  (\<open>services/agent_sensor/classification.py\<close>), the per-event scope rules (\<open>rules.py\<close>), the
  escalation detector (\<open>sequence.py\<close>) and the decoy index (\<open>decoy.py\<close>).
\<close>

subsection \<open>Domain\<close>

datatype sensor_status = SPending | SActive | SDisabled | SRevoked

fun sensor_table :: "sensor_status \<Rightarrow> sensor_status list" where
  "sensor_table SPending = [SActive, SRevoked]"
| "sensor_table SActive = [SDisabled, SRevoked]"
| "sensor_table SDisabled = [SActive, SRevoked]"
| "sensor_table SRevoked = []"

datatype sensor_transition_error = InvalidSensorTransition sensor_status sensor_status

definition sensor_can :: "sensor_status \<Rightarrow> sensor_status \<Rightarrow> bool" where
  "sensor_can current target \<longleftrightarrow> target \<in> set (sensor_table current)"

definition sensor_assert :: "sensor_status \<Rightarrow> sensor_status \<Rightarrow> sensor_transition_error + unit" where
  "sensor_assert current target =
     (if \<not> sensor_can current target then Inl (InvalidSensorTransition current target) else Inr ())"

interpretation agent_lc: lifecycle sensor_table sensor_can sensor_assert InvalidSensorTransition
  by unfold_locales (auto simp: sensor_can_def sensor_assert_def)

datatype agent_event_type = SESSION_STARTED | SESSION_COMPLETED | FILE_LISTED | FILE_READ
  | FILE_MODIFIED | FILE_CREATED | FILE_DELETED | SEARCH_PERFORMED | COMMAND_REQUESTED
  | TOOL_INVOKED | MCP_RESOURCE_LISTED | MCP_RESOURCE_READ | DATABASE_QUERY_REQUESTED
  | NETWORK_REQUEST_REQUESTED | DECOY_TOUCHED | SENSITIVE_PATH_ACCESSED | DENIED_ACTION_ATTEMPTED

definition is_destructive :: "agent_event_type \<Rightarrow> bool" where
  "is_destructive e \<longleftrightarrow> e \<in> set [FILE_DELETED, DENIED_ACTION_ATTEMPTED]"

datatype violation_type = OUT_OF_SCOPE_PATH_ACCESS | SENSITIVE_FILE_ACCESS | DECOY_ASSET_TOUCH
  | EXCESSIVE_REPOSITORY_BREADTH | UNEXPECTED_DATABASE_ACCESS | UNEXPECTED_NETWORK_ACCESS
  | UNEXPECTED_MCP_RESOURCE_ACCESS | DEPENDENCY_CHANGE_OUTSIDE_SCOPE
  | REPEATED_SENSITIVE_EXPLORATION | DESTRUCTIVE_ACTION_ATTEMPT | CROSS_REPOSITORY_ACCESS
  | UNAPPROVED_TOOL_USE

datatype path_class = TASK_RELEVANT | ADJACENT | SHARED_DEPENDENCY | SENSITIVE | DECOY | GENERATED
  | BUILD_OUTPUT | CREDENTIAL | DEPLOYMENT | BILLING | AUTHENTICATION | CUSTOMER_DATA | UNRELATED

definition sensitive_classes :: "path_class list" where
  "sensitive_classes = [SENSITIVE, CREDENTIAL, DEPLOYMENT, BILLING, AUTHENTICATION, CUSTOMER_DATA]"

datatype agent_exposure = AI_AGENT_SCOPE_VIOLATION | AI_AGENT_DECOY_TOUCH
  | AI_AGENT_SENSITIVE_EXPLORATION | AI_AGENT_CROSS_SURFACE_EXPOSURE
  | AI_AGENT_DESTRUCTIVE_ATTEMPT | AI_AGENT_POLICY_VIOLATION

record scope_policy =
  policy_organization :: string
  policy_name :: string
  allowed_paths :: "string list"
  denied_paths :: "string list"
  allowed_tools :: "string list"
  denied_tools :: "string list"
  allowed_resource_types :: "string list"
  maximum_file_reads :: int
  maximum_sensitive_reads :: int
  allow_dependency_changes :: bool
  allow_secret_file_access :: bool
  allow_database_access :: bool
  allow_network_access :: bool
  policy_version :: int

record scope_decision =
  sd_violation_type :: "violation_type option"
  sd_path_class :: path_class
  sd_severity :: severity
  sd_confidence :: rat
  sd_policy_rule :: string
  sd_explanation :: string
  sd_decoy_id :: "string option"

subsection \<open>Path classification\<close>

definition pattern_rules :: "(path_class \<times> string list) list" where
  "pattern_rules =
    [(CREDENTIAL, [''.env'', ''secrets'', ''secret.'', ''credential'', ''id_rsa'', ''.pem'', ''.p12'',
                   ''.pfx'', ''private_key'', ''.key'']),
     (AUTHENTICATION, [''/auth/'', ''authentication'', ''oauth'', ''/login'', ''jwt'', ''session/'',
                       ''passport'']),
     (BILLING, [''billing'', ''payment'', ''invoice'', ''stripe'', ''subscription'']),
     (CUSTOMER_DATA, [''customer_data'', ''/pii'', ''personal_data'', ''gdpr'', ''customers/'']),
     (DEPLOYMENT, [''dockerfile'', ''/k8s/'', ''kubernetes'', ''terraform'', ''/helm/'', ''ansible'',
                   ''.github/workflows'', ''deploy/'']),
     (BUILD_OUTPUT, [''dist/'', ''build/'', ''.next/'', ''out/'', ''target/'', ''coverage/'']),
     (GENERATED, [''.generated.'', ''__generated__'', ''_pb2'', ''.pb.go'', ''.g.dart'']),
     (SHARED_DEPENDENCY, [''node_modules/'', ''vendor/'', ''third_party/'', ''package-lock.json'',
                          ''yarn.lock'', ''poetry.lock'', ''go.sum'', ''cargo.lock''])]"

fun first_rule :: "(path_class \<times> string list) list \<Rightarrow> string \<Rightarrow> path_class option" where
  "first_rule [] lower = None"
| "first_rule ((path_class, needles) # rules) lower =
     (if list_ex (contains lower) needles then Some path_class else first_rule rules lower)"

definition top_dirs :: "string \<Rightarrow> string" where
  "top_dirs path = join_with ''/'' (take 2 (split_on CHR ''/'' path))"

definition allowed_base :: "string \<Rightarrow> string" where
  "allowed_base pattern = (if endswith pattern ''/**'' then take (length pattern - 3) pattern else pattern)"

definition classify_path :: "string \<Rightarrow> string list \<Rightarrow> string list \<Rightarrow> path_class" where
  "classify_path normalized_path allowed decoy_paths =
     (let lower = py_lower normalized_path in
      if lower \<in> set decoy_paths then DECOY
      else case first_rule pattern_rules lower of
        Some path_class \<Rightarrow> path_class
      | None \<Rightarrow>
          if list_ex (\<lambda>pattern. path_matches pattern normalized_path) allowed then TASK_RELEVANT
          else let prefix = top_dirs normalized_path in
            if list_ex (\<lambda>pattern. top_dirs (allowed_base pattern) = prefix \<and> prefix \<noteq> []) allowed
            then ADJACENT else UNRELATED)"

fun exposure_for :: "violation_type \<Rightarrow> agent_exposure" where
  "exposure_for DECOY_ASSET_TOUCH = AI_AGENT_DECOY_TOUCH"
| "exposure_for SENSITIVE_FILE_ACCESS = AI_AGENT_SENSITIVE_EXPLORATION"
| "exposure_for REPEATED_SENSITIVE_EXPLORATION = AI_AGENT_SENSITIVE_EXPLORATION"
| "exposure_for DESTRUCTIVE_ACTION_ATTEMPT = AI_AGENT_DESTRUCTIVE_ATTEMPT"
| "exposure_for UNAPPROVED_TOOL_USE = AI_AGENT_POLICY_VIOLATION"
| "exposure_for DEPENDENCY_CHANGE_OUTSIDE_SCOPE = AI_AGENT_POLICY_VIOLATION"
| "exposure_for CROSS_REPOSITORY_ACCESS = AI_AGENT_CROSS_SURFACE_EXPOSURE"
| "exposure_for UNEXPECTED_DATABASE_ACCESS = AI_AGENT_CROSS_SURFACE_EXPOSURE"
| "exposure_for UNEXPECTED_NETWORK_ACCESS = AI_AGENT_CROSS_SURFACE_EXPOSURE"
| "exposure_for UNEXPECTED_MCP_RESOURCE_ACCESS = AI_AGENT_CROSS_SURFACE_EXPOSURE"
| "exposure_for OUT_OF_SCOPE_PATH_ACCESS = AI_AGENT_SCOPE_VIOLATION"
| "exposure_for EXCESSIVE_REPOSITORY_BREADTH = AI_AGENT_SCOPE_VIOLATION"

fun agent_base_severity :: "agent_exposure \<Rightarrow> severity" where
  "agent_base_severity AI_AGENT_SCOPE_VIOLATION = LOW"
| "agent_base_severity AI_AGENT_POLICY_VIOLATION = MEDIUM"
| "agent_base_severity AI_AGENT_SENSITIVE_EXPLORATION = MEDIUM"
| "agent_base_severity AI_AGENT_CROSS_SURFACE_EXPOSURE = HIGH"
| "agent_base_severity AI_AGENT_DESTRUCTIVE_ATTEMPT = HIGH"
| "agent_base_severity AI_AGENT_DECOY_TOUCH = HIGH"

definition incident_severity :: "agent_exposure \<Rightarrow> int \<Rightarrow> bool \<Rightarrow> bool \<Rightarrow> severity" where
  "incident_severity exposure violation_count cross_surface modifications =
     sev_at (sev_rank (agent_base_severity exposure) + of_bool (violation_count \<ge> 3)
             + of_bool cross_surface + of_bool modifications)"

subsection \<open>The scope rules\<close>

record session_aggregate =
  file_reads :: int
  sensitive_reads :: int
  unrelated_paths :: "string list"
  violation_count :: int
  surfaces :: "string list"
  modifications :: bool

definition empty_aggregate :: session_aggregate where
  "empty_aggregate = \<lparr>file_reads = 0, sensitive_reads = 0, unrelated_paths = [], violation_count = 0,
                      surfaces = [], modifications = False\<rparr>"

record agent_event =
  ev_type :: agent_event_type
  ev_path :: "string option"
  ev_tool :: "string option"
  ev_resource_type :: "string option"
  ev_decoy_id :: "string option"

abbreviation or_empty :: "string option \<Rightarrow> string" where
  "or_empty s \<equiv> (case s of None \<Rightarrow> [] | Some t \<Rightarrow> t)"

definition mk_decision ::
  "violation_type option \<Rightarrow> path_class \<Rightarrow> severity \<Rightarrow> rat \<Rightarrow> string \<Rightarrow> string \<Rightarrow> string option \<Rightarrow> scope_decision" where
  "mk_decision violation path_class severity confidence rule explanation decoy_id =
     \<lparr>sd_violation_type = violation, sd_path_class = path_class, sd_severity = severity,
      sd_confidence = confidence, sd_policy_rule = rule, sd_explanation = explanation,
      sd_decoy_id = decoy_id\<rparr>"

definition bump :: "session_aggregate \<Rightarrow> session_aggregate" where
  "bump agg = agg\<lparr>violation_count := violation_count agg + 1\<rparr>"

definition add_surface :: "string \<Rightarrow> session_aggregate \<Rightarrow> session_aggregate" where
  "add_surface s agg = agg\<lparr>surfaces := set_add s (surfaces agg)\<rparr>"

fun path_class_value :: "path_class \<Rightarrow> string" where
  "path_class_value TASK_RELEVANT = ''task_relevant''"
| "path_class_value ADJACENT = ''adjacent''"
| "path_class_value SHARED_DEPENDENCY = ''shared_dependency''"
| "path_class_value SENSITIVE = ''sensitive''"
| "path_class_value DECOY = ''decoy''"
| "path_class_value GENERATED = ''generated''"
| "path_class_value BUILD_OUTPUT = ''build_output''"
| "path_class_value CREDENTIAL = ''credential''"
| "path_class_value DEPLOYMENT = ''deployment''"
| "path_class_value BILLING = ''billing''"
| "path_class_value AUTHENTICATION = ''authentication''"
| "path_class_value CUSTOMER_DATA = ''customer_data''"
| "path_class_value UNRELATED = ''unrelated''"

definition event_class :: "agent_event \<Rightarrow> scope_policy \<Rightarrow> string list \<Rightarrow> path_class" where
  "event_class ev policy decoy_paths =
     (if or_empty (ev_path ev) = [] then UNRELATED
      else classify_path (or_empty (ev_path ev)) (allowed_paths policy) decoy_paths)"

definition modify_events :: "agent_event_type list" where
  "modify_events = [FILE_MODIFIED, FILE_CREATED, FILE_DELETED]"


definition hit :: "violation_type \<Rightarrow> path_class \<Rightarrow> severity \<Rightarrow> rat \<Rightarrow> string \<Rightarrow> string \<Rightarrow> scope_decision" where
  "hit v path_class severity confidence rule explanation =
     mk_decision (Some v) path_class severity confidence rule explanation None"

text \<open>Rule 8: breadth, the read budget, and the in-scope outcome.\<close>

definition breadth_rules ::
  "agent_event \<Rightarrow> scope_policy \<Rightarrow> path_class \<Rightarrow> session_aggregate \<Rightarrow> scope_decision \<times> session_aggregate" where
  "breadth_rules ev policy path_class agg0 =
    (let agg = (if ev_type ev = FILE_READ then agg0\<lparr>file_reads := file_reads agg0 + 1\<rparr> else agg0) in
     if path_class = UNRELATED \<and> or_empty (ev_path ev) \<noteq> [] then
       (let agg2 = agg\<lparr>unrelated_paths := set_add (or_empty (ev_path ev)) (unrelated_paths agg)\<rparr> in
        if int (length (unrelated_paths agg2)) > max 5 (maximum_file_reads policy div 4) then
          (hit EXCESSIVE_REPOSITORY_BREADTH path_class MEDIUM (75/100) ''excessive_breadth''
             ''Agent touched many unrelated paths (excessive breadth).'', bump agg2)
        else
          (hit OUT_OF_SCOPE_PATH_ACCESS path_class LOW (6/10) ''out_of_scope_path''
             ''Agent accessed a path unrelated to the task scope.'', bump agg2))
     else if file_reads agg > maximum_file_reads policy then
       (hit EXCESSIVE_REPOSITORY_BREADTH path_class MEDIUM (7/10) ''max_file_reads''
          ''Agent exceeded the maximum file-read budget.'', bump agg)
     else
       (mk_decision None path_class INFO 1 ''in_scope'' ''In-scope activity.'' None,
        if ev_type ev \<in> set modify_events then agg\<lparr>modifications := True\<rparr> else agg))"

text \<open>Rule 7: dependency changes.\<close>

definition dependency_rules ::
  "agent_event \<Rightarrow> scope_policy \<Rightarrow> path_class \<Rightarrow> session_aggregate \<Rightarrow> scope_decision \<times> session_aggregate" where
  "dependency_rules ev policy path_class agg =
    (if ev_type ev \<in> set modify_events \<and> path_class = SHARED_DEPENDENCY \<and>
        \<not> allow_dependency_changes policy then
       (hit DEPENDENCY_CHANGE_OUTSIDE_SCOPE path_class MEDIUM (8/10) ''dependency_change''
          ''Agent modified a shared dependency outside scope.'', (bump agg)\<lparr>modifications := True\<rparr>)
     else breadth_rules ev policy path_class agg)"

text \<open>Rule 6: sensitive paths. The counter moves before the cap is tested, and stays moved.\<close>

definition over_cap :: "path_class \<Rightarrow> session_aggregate \<Rightarrow> scope_decision" where
  "over_cap path_class agg =
    (let repeated = (sensitive_reads agg \<ge> 2) in
     hit (if repeated then REPEATED_SENSITIVE_EXPLORATION else SENSITIVE_FILE_ACCESS) path_class
       (if repeated then HIGH else MEDIUM) (85/100) ''sensitive_over_cap''
       (''Agent accessed a '' @ path_class_value path_class @ '' path beyond the sensitive-read cap.''))"

definition sensitive_rules ::
  "agent_event \<Rightarrow> scope_policy \<Rightarrow> path_class \<Rightarrow> session_aggregate \<Rightarrow> scope_decision \<times> session_aggregate" where
  "sensitive_rules ev policy path_class agg =
    (if path_class \<in> set sensitive_classes \<and> \<not> allow_secret_file_access policy then
       (let agg = agg\<lparr>sensitive_reads := sensitive_reads agg + 1\<rparr> in
        if sensitive_reads agg > maximum_sensitive_reads policy
        then (over_cap path_class agg, bump agg)
        else dependency_rules ev policy path_class agg)
     else dependency_rules ev policy path_class agg)"

text \<open>Rules 3 to 5: tools, denied paths, databases, network and MCP resources.\<close>

definition surface_rules ::
  "agent_event \<Rightarrow> scope_policy \<Rightarrow> path_class \<Rightarrow> session_aggregate \<Rightarrow> scope_decision \<times> session_aggregate" where
  "surface_rules ev policy path_class agg =
    (let tool = py_lower (or_empty (ev_tool ev));
         rtype = py_lower (or_empty (ev_resource_type ev));
         path = or_empty (ev_path ev)
     in
     if tool \<noteq> [] \<and> denied_tools policy \<noteq> [] \<and> tool \<in> set (denied_tools policy) then
       (hit UNAPPROVED_TOOL_USE path_class MEDIUM (9/10) ''denied_tool''
          (''Agent used a denied tool '' @ [CHR 39] @ tool @ [CHR 39] @ ''.''), bump agg)
     else if tool \<noteq> [] \<and> allowed_tools policy \<noteq> [] \<and> tool \<notin> set (allowed_tools policy) then
       (hit UNAPPROVED_TOOL_USE path_class LOW (7/10) ''tool_not_allowlisted''
          (''Agent used a tool '' @ [CHR 39] @ tool @ [CHR 39] @ '' not in the allowlist.''), bump agg)
     else if path \<noteq> [] \<and> list_ex (\<lambda>d. path_matches d path) (denied_paths policy) then
       (hit OUT_OF_SCOPE_PATH_ACCESS path_class HIGH (9/10) ''denied_path''
          ''Agent accessed an explicitly denied path.'', bump agg)
     else if ev_type ev = DATABASE_QUERY_REQUESTED \<and> \<not> allow_database_access policy then
       (hit UNEXPECTED_DATABASE_ACCESS path_class HIGH (85/100) ''database_not_allowed''
          ''Agent requested database access outside scope.'', add_surface ''database'' (bump agg))
     else if ev_type ev = NETWORK_REQUEST_REQUESTED \<and> \<not> allow_network_access policy then
       (hit UNEXPECTED_NETWORK_ACCESS path_class HIGH (85/100) ''network_not_allowed''
          ''Agent requested a network call outside scope.'', add_surface ''network'' (bump agg))
     else if ev_type ev \<in> set [MCP_RESOURCE_LISTED, MCP_RESOURCE_READ] \<and>
             allowed_resource_types policy \<noteq> [] \<and> rtype \<notin> set (allowed_resource_types policy) then
       (hit UNEXPECTED_MCP_RESOURCE_ACCESS path_class MEDIUM (8/10) ''mcp_resource_not_allowed''
          ''Agent accessed an unapproved MCP resource.'', add_surface ''mcp'' (bump agg))
     else sensitive_rules ev policy path_class agg)"

text \<open>The whole evaluation: rules 1 (decoy contact) and 2 (denied and destructive actions) first.\<close>

definition evaluate_event ::
  "agent_event \<Rightarrow> scope_policy \<Rightarrow> string list \<Rightarrow> session_aggregate \<Rightarrow> scope_decision \<times> session_aggregate" where
  "evaluate_event ev policy decoy_paths agg =
    (let path_class = event_class ev policy decoy_paths in
     if ev_decoy_id ev \<noteq> None \<or> path_class = DECOY then
       (mk_decision (Some DECOY_ASSET_TOUCH) DECOY HIGH (95/100) ''decoy_contact''
          ''Agent accessed a registered decoy asset.'' (ev_decoy_id ev),
        add_surface ''repository'' (bump agg))
     else if ev_type ev = DENIED_ACTION_ATTEMPTED then
       (hit DESTRUCTIVE_ACTION_ATTEMPT path_class HIGH (9/10) ''denied_action''
          ''Agent attempted a denied action.'', bump agg)
     else if ev_type ev = FILE_DELETED \<and> path_class \<noteq> TASK_RELEVANT then
       (hit DESTRUCTIVE_ACTION_ATTEMPT path_class HIGH (85/100) ''destructive_delete''
          ''Agent deleted a file outside the task-relevant scope.'',
        (bump agg)\<lparr>modifications := True\<rparr>)
     else surface_rules ev policy path_class agg)"

fun evaluate_all ::
  "scope_policy \<Rightarrow> string list \<Rightarrow> agent_event list \<Rightarrow> session_aggregate \<Rightarrow>
   scope_decision list \<times> session_aggregate" where
  "evaluate_all policy decoys [] agg = ([], agg)"
| "evaluate_all policy decoys (ev # evs) agg =
     (let (d, agg1) = evaluate_event ev policy decoys agg; (ds, agg2) = evaluate_all policy decoys evs agg1
      in (d # ds, agg2))"

lemmas rule_simps = mk_decision_def hit_def bump_def add_surface_def

text \<open>
  What every rule stage guarantees, proved stage by stage: a violation bumps the counter by one and
  a clean outcome leaves it, the remaining counters never fall, and only the last rule reports
  \<open>in_scope\<close>.
\<close>

definition stage_ok :: "session_aggregate \<Rightarrow> scope_decision \<times> session_aggregate \<Rightarrow> bool" where
  "stage_ok agg r \<longleftrightarrow>
     violation_count (snd r) = violation_count agg + of_bool (sd_violation_type (fst r) \<noteq> None) \<and>
     (sd_violation_type (fst r) = None \<longleftrightarrow> sd_policy_rule (fst r) = ''in_scope'') \<and>
     (sd_violation_type (fst r) = None \<longleftrightarrow> sd_severity (fst r) = INFO) \<and>
     sensitive_reads agg \<le> sensitive_reads (snd r) \<and> file_reads agg \<le> file_reads (snd r) \<and>
     set (unrelated_paths agg) \<subseteq> set (unrelated_paths (snd r)) \<and>
     set (surfaces agg) \<subseteq> set (surfaces (snd r)) \<and>
     (modifications agg \<longrightarrow> modifications (snd r)) \<and>
     int (length (unrelated_paths (snd r))) - int (length (unrelated_paths agg)) \<le>
       violation_count (snd r) - violation_count agg"

lemma breadth_ok: "stage_ok agg (breadth_rules ev policy pc agg)"
  using length_set_add(2) [of "or_empty (ev_path ev)" "unrelated_paths agg"]
  by (simp add: stage_ok_def breadth_rules_def rule_simps Let_def subset_insertI)

lemma dependency_ok: "stage_ok agg (dependency_rules ev policy pc agg)"
  using breadth_ok by (simp add: dependency_rules_def) (simp add: stage_ok_def rule_simps)

lemma stage_ok_sensitive:
  "stage_ok (agg\<lparr>sensitive_reads := sensitive_reads agg + 1\<rparr>) r \<Longrightarrow> stage_ok agg r"
  by (auto simp: stage_ok_def)

lemma sensitive_ok: "stage_ok agg (sensitive_rules ev policy pc agg)"
proof -
  let ?a = "agg\<lparr>sensitive_reads := sensitive_reads agg + 1\<rparr>"
  have "stage_ok agg (over_cap pc ?a, bump ?a)"
    by (simp add: stage_ok_def over_cap_def rule_simps Let_def)
  moreover have "stage_ok agg (dependency_rules ev policy pc ?a)"
    by (rule stage_ok_sensitive [OF dependency_ok])
  ultimately show ?thesis using dependency_ok by (simp add: sensitive_rules_def Let_def)
qed

lemma surface_ok: "stage_ok agg (surface_rules ev policy pc agg)"
  using sensitive_ok
  by (simp add: surface_rules_def Let_def) (simp add: stage_ok_def rule_simps subset_insertI)

lemma evaluate_ok: "stage_ok agg (evaluate_event ev policy decoys agg)"
  using surface_ok
  by (simp add: evaluate_event_def Let_def) (simp add: stage_ok_def rule_simps subset_insertI)


lemma evaluate_all_ok:
  "violation_count (snd (evaluate_all policy decoys evs agg)) =
     violation_count agg +
     int (length (filter (\<lambda>d. sd_violation_type d \<noteq> None) (fst (evaluate_all policy decoys evs agg)))) \<and>
   int (length (unrelated_paths (snd (evaluate_all policy decoys evs agg)))) - int (length (unrelated_paths agg))
     \<le> violation_count (snd (evaluate_all policy decoys evs agg)) - violation_count agg"
proof (induction evs arbitrary: agg)
  case (Cons ev evs)
  obtain d agg1 where e: "evaluate_event ev policy decoys agg = (d, agg1)" by fastforce
  obtain ds agg2 where r: "evaluate_all policy decoys evs agg1 = (ds, agg2)" by fastforce
  have s: "stage_ok agg (d, agg1)" using evaluate_ok e by metis
  have eq: "evaluate_all policy decoys (ev # evs) agg = (d # ds, agg2)" by (simp add: e r)
  show ?case unfolding eq using Cons [of agg1] r s by (simp add: stage_ok_def)
qed simp

subsection \<open>Inversion of the clean outcome\<close>

definition sensitive_event :: "agent_event \<Rightarrow> scope_policy \<Rightarrow> string list \<Rightarrow> bool" where
  "sensitive_event ev policy decoys \<longleftrightarrow>
     event_class ev policy decoys \<in> set sensitive_classes \<and> \<not> allow_secret_file_access policy"

lemma clean_breadth:
  assumes "sd_violation_type (fst (breadth_rules ev policy pc agg)) = None"
  shows "\<not> (pc = UNRELATED \<and> or_empty (ev_path ev) \<noteq> [])"
    "file_reads agg + of_bool (ev_type ev = FILE_READ) \<le> maximum_file_reads policy"
    "file_reads (snd (breadth_rules ev policy pc agg)) = file_reads agg + of_bool (ev_type ev = FILE_READ)"
    "sensitive_reads (snd (breadth_rules ev policy pc agg)) = sensitive_reads agg"
  using assms by (auto simp: breadth_rules_def rule_simps Let_def split: if_splits)

lemma clean_dependency:
  assumes "sd_violation_type (fst (dependency_rules ev policy pc agg)) = None"
  shows "dependency_rules ev policy pc agg = breadth_rules ev policy pc agg"
    "\<not> (ev_type ev \<in> set modify_events \<and> pc = SHARED_DEPENDENCY \<and> \<not> allow_dependency_changes policy)"
  using assms by (auto simp: dependency_rules_def rule_simps split: if_splits)

lemma clean_sensitive:
  assumes "sd_violation_type (fst (sensitive_rules ev policy pc agg)) = None"
  shows "pc \<in> set sensitive_classes \<and> \<not> allow_secret_file_access policy \<Longrightarrow>
           sensitive_reads agg + 1 \<le> maximum_sensitive_reads policy"
    "sensitive_rules ev policy pc agg = dependency_rules ev policy pc
       (agg\<lparr>sensitive_reads := sensitive_reads agg +
              of_bool (pc \<in> set sensitive_classes \<and> \<not> allow_secret_file_access policy)\<rparr>)"
  using assms by (auto simp: sensitive_rules_def over_cap_def rule_simps Let_def split: if_splits)

lemma hit_if:
  "sd_violation_type (fst (if c then (hit v p s q r e, a) else y)) = None \<longleftrightarrow>
   \<not> c \<and> sd_violation_type (fst y) = None"
  by (simp add: rule_simps)

lemma clean_surface:
  assumes "sd_violation_type (fst (surface_rules ev policy pc agg)) = None"
  shows "surface_rules ev policy pc agg = sensitive_rules ev policy pc agg"
    "py_lower (or_empty (ev_tool ev)) \<noteq> [] \<Longrightarrow>
       py_lower (or_empty (ev_tool ev)) \<notin> set (denied_tools policy) \<and>
       (allowed_tools policy = [] \<or> py_lower (or_empty (ev_tool ev)) \<in> set (allowed_tools policy))"
    "or_empty (ev_path ev) \<noteq> [] \<Longrightarrow> \<not> list_ex (\<lambda>d. path_matches d (or_empty (ev_path ev))) (denied_paths policy)"
    "ev_type ev = DATABASE_QUERY_REQUESTED \<Longrightarrow> allow_database_access policy"
    "ev_type ev = NETWORK_REQUEST_REQUESTED \<Longrightarrow> allow_network_access policy"
    "ev_type ev \<in> set [MCP_RESOURCE_LISTED, MCP_RESOURCE_READ] \<Longrightarrow> allowed_resource_types policy \<noteq> [] \<Longrightarrow>
       py_lower (or_empty (ev_resource_type ev)) \<in> set (allowed_resource_types policy)"
proof -
  note h = assms [unfolded surface_rules_def Let_def hit_if]
  show "surface_rules ev policy pc agg = sensitive_rules ev policy pc agg"
    unfolding surface_rules_def Let_def using h by (simp only: if_False simp_thms)
  show "py_lower (or_empty (ev_tool ev)) \<noteq> [] \<Longrightarrow>
       py_lower (or_empty (ev_tool ev)) \<notin> set (denied_tools policy) \<and>
       (allowed_tools policy = [] \<or> py_lower (or_empty (ev_tool ev)) \<in> set (allowed_tools policy))"
    using h by (metis empty_iff empty_set)
  show "or_empty (ev_path ev) \<noteq> [] \<Longrightarrow> \<not> list_ex (\<lambda>d. path_matches d (or_empty (ev_path ev))) (denied_paths policy)"
    "ev_type ev = DATABASE_QUERY_REQUESTED \<Longrightarrow> allow_database_access policy"
    "ev_type ev = NETWORK_REQUEST_REQUESTED \<Longrightarrow> allow_network_access policy"
    "ev_type ev \<in> set [MCP_RESOURCE_LISTED, MCP_RESOURCE_READ] \<Longrightarrow> allowed_resource_types policy \<noteq> [] \<Longrightarrow>
       py_lower (or_empty (ev_resource_type ev)) \<in> set (allowed_resource_types policy)"
    using h by blast+
qed

lemma clean_evaluate:
  assumes "sd_violation_type (fst (evaluate_event ev policy decoys agg)) = None"
  shows "evaluate_event ev policy decoys agg = surface_rules ev policy (event_class ev policy decoys) agg"
    "ev_decoy_id ev = None" "event_class ev policy decoys \<noteq> DECOY"
    "ev_type ev \<noteq> DENIED_ACTION_ATTEMPTED"
    "ev_type ev = FILE_DELETED \<Longrightarrow> event_class ev policy decoys = TASK_RELEVANT"
  using assms by (auto simp: evaluate_event_def rule_simps Let_def split: if_splits)

lemma clean_counters:
  assumes "sd_violation_type (fst (evaluate_event ev policy decoys agg)) = None"
  shows "file_reads (snd (evaluate_event ev policy decoys agg)) = file_reads agg + of_bool (ev_type ev = FILE_READ)"
    "file_reads agg + of_bool (ev_type ev = FILE_READ) \<le> maximum_file_reads policy"
    "sensitive_reads (snd (evaluate_event ev policy decoys agg)) =
       sensitive_reads agg + of_bool (sensitive_event ev policy decoys)"
    "sensitive_event ev policy decoys \<Longrightarrow> sensitive_reads agg + 1 \<le> maximum_sensitive_reads policy"
    "\<not> (event_class ev policy decoys = UNRELATED \<and> or_empty (ev_path ev) \<noteq> [])"
    "\<not> (ev_type ev \<in> set modify_events \<and> event_class ev policy decoys = SHARED_DEPENDENCY \<and>
        \<not> allow_dependency_changes policy)"
proof -
  let ?pc = "event_class ev policy decoys"
  let ?a = "agg\<lparr>sensitive_reads := sensitive_reads agg +
              of_bool (?pc \<in> set sensitive_classes \<and> \<not> allow_secret_file_access policy)\<rparr>"
  note c1 = clean_evaluate(1) [OF assms]
  have n1: "sd_violation_type (fst (surface_rules ev policy ?pc agg)) = None" using assms c1 by simp
  note c2 = clean_surface(1) [OF n1]
  have n2: "sd_violation_type (fst (sensitive_rules ev policy ?pc agg)) = None" using n1 c2 by simp
  note c3 = clean_sensitive(2) [OF n2]
  have n3: "sd_violation_type (fst (dependency_rules ev policy ?pc ?a)) = None" using n2 c3 by simp
  note c4 = clean_dependency(1) [OF n3]
  have n4: "sd_violation_type (fst (breadth_rules ev policy ?pc ?a)) = None" using n3 c4 by simp
  have eq: "evaluate_event ev policy decoys agg = breadth_rules ev policy ?pc ?a"
    using c1 c2 c3 c4 by simp
  show "file_reads (snd (evaluate_event ev policy decoys agg)) = file_reads agg + of_bool (ev_type ev = FILE_READ)"
    using clean_breadth(3) [OF n4] eq by simp
  show "file_reads agg + of_bool (ev_type ev = FILE_READ) \<le> maximum_file_reads policy"
    using clean_breadth(2) [OF n4] by simp
  show "sensitive_reads (snd (evaluate_event ev policy decoys agg)) =
       sensitive_reads agg + of_bool (sensitive_event ev policy decoys)"
    using clean_breadth(4) [OF n4] eq by (simp add: sensitive_event_def)
  show "sensitive_event ev policy decoys \<Longrightarrow> sensitive_reads agg + 1 \<le> maximum_sensitive_reads policy"
    using clean_sensitive(1) [OF n2] by (simp add: sensitive_event_def)
  show "\<not> (?pc = UNRELATED \<and> or_empty (ev_path ev) \<noteq> [])" by (rule clean_breadth(1) [OF n4])
  show "\<not> (ev_type ev \<in> set modify_events \<and> ?pc = SHARED_DEPENDENCY \<and> \<not> allow_dependency_changes policy)"
    by (rule clean_dependency(2) [OF n3])
qed

end
