(* ===== verification/Agent_Activity.thy ===== *)
theory Agent_Activity
  imports Agent_Rules
begin

text \<open>
  Runs of the agent scope engine: what a sequence of evaluated events guarantees, the escalation
  detector over the bounded window of recent path classes (\<open>services/agent_sensor/sequence.py\<close>) and
  the decoy index (\<open>services/agent_sensor/decoy.py\<close>).
\<close>

subsection \<open>Properties of the scope rules\<close>

text \<open>
  Over any sequence of events the running violation count grows by exactly the number of
  decisions that carry a violation, and the set of unrelated paths never outgrows it.
\<close>

theorem evaluate_all_counts_violations:
  "violation_count (snd (evaluate_all policy decoys evs empty_aggregate)) =
     int (length (filter (\<lambda>d. sd_violation_type d \<noteq> None) (fst (evaluate_all policy decoys evs empty_aggregate)))) \<and>
   int (length (unrelated_paths (snd (evaluate_all policy decoys evs empty_aggregate)))) \<le>
     violation_count (snd (evaluate_all policy decoys evs empty_aggregate))"
  using evaluate_all_ok [of policy decoys evs empty_aggregate] by (simp add: empty_aggregate_def)

text \<open>
  Contact with a decoy dominates every other rule: an event whose decoy id is resolved, or whose
  path is in the decoy set, is a HIGH \<open>DECOY_ASSET_TOUCH\<close> whatever the policy and the aggregate say.
\<close>

theorem decoy_contact_dominates:
  assumes "ev_decoy_id ev \<noteq> None \<or> (\<exists>p. ev_path ev = Some p \<and> p \<noteq> [] \<and> py_lower p \<in> set decoys)"
  shows "sd_violation_type (fst (evaluate_event ev policy decoys agg)) = Some DECOY_ASSET_TOUCH \<and>
         sd_severity (fst (evaluate_event ev policy decoys agg)) = HIGH \<and>
         ''repository'' \<in> set (surfaces (snd (evaluate_event ev policy decoys agg)))"
proof -
  have "ev_decoy_id ev \<noteq> None \<or> event_class ev policy decoys = DECOY"
    using assms by (auto simp: event_class_def classify_path_def Let_def)
  then show ?thesis by (simp add: evaluate_event_def Let_def rule_simps)
qed

definition sample_policy :: scope_policy where
  "sample_policy = \<lparr>policy_organization = ''o'', policy_name = ''p'', allowed_paths = [''src/app/**''],
     denied_paths = [], allowed_tools = [], denied_tools = [], allowed_resource_types = [],
     maximum_file_reads = 200, maximum_sensitive_reads = 0, allow_dependency_changes = False,
     allow_secret_file_access = False, allow_database_access = False, allow_network_access = False,
     policy_version = 1\<rparr>"

definition touch :: "agent_event_type \<Rightarrow> string \<Rightarrow> agent_event" where
  "touch et p = \<lparr>ev_type = et, ev_path = Some p, ev_tool = None, ev_resource_type = None, ev_decoy_id = None\<rparr>"

theorem decoy_contact_dominates_witness:
  "sd_violation_type (fst (evaluate_event (touch FILE_READ ''src/app/Bait.py'') sample_policy
     [''src/app/bait.py''] empty_aggregate)) = Some DECOY_ASSET_TOUCH"
proof -
  have l: "py_lower ''src/app/Bait.py'' = ''src/app/bait.py''" by code_simp
  show ?thesis
    using decoy_contact_dominates [of "touch FILE_READ ''src/app/Bait.py''" "[''src/app/bait.py'']"
        sample_policy empty_aggregate] l
    by (simp add: touch_def)
qed

text \<open>
  An event judged \<open>in_scope\<close> really is: no decoy, no denied action, no delete outside the task's
  paths, no denied or unlisted tool, no denied path, no database, network or MCP access the policy
  does not grant, not an unrelated path, within the sensitive-read cap and within the read budget.
\<close>

theorem in_scope_sound:
  assumes "sd_violation_type (fst (evaluate_event ev policy decoys agg)) = None"
  shows "ev_decoy_id ev = None \<and> event_class ev policy decoys \<noteq> DECOY \<and>
    ev_type ev \<noteq> DENIED_ACTION_ATTEMPTED \<and>
    (ev_type ev = FILE_DELETED \<longrightarrow> event_class ev policy decoys = TASK_RELEVANT) \<and>
    (py_lower (or_empty (ev_tool ev)) \<noteq> [] \<longrightarrow>
       py_lower (or_empty (ev_tool ev)) \<notin> set (denied_tools policy) \<and>
       (allowed_tools policy = [] \<or> py_lower (or_empty (ev_tool ev)) \<in> set (allowed_tools policy))) \<and>
    (or_empty (ev_path ev) \<noteq> [] \<longrightarrow>
       \<not> list_ex (\<lambda>d. path_matches d (or_empty (ev_path ev))) (denied_paths policy) \<and>
       event_class ev policy decoys \<noteq> UNRELATED) \<and>
    (ev_type ev = DATABASE_QUERY_REQUESTED \<longrightarrow> allow_database_access policy) \<and>
    (ev_type ev = NETWORK_REQUEST_REQUESTED \<longrightarrow> allow_network_access policy) \<and>
    (sensitive_event ev policy decoys \<longrightarrow> sensitive_reads agg + 1 \<le> maximum_sensitive_reads policy) \<and>
    file_reads agg + of_bool (ev_type ev = FILE_READ) \<le> maximum_file_reads policy"
proof -
  note c = clean_evaluate [OF assms]
  have "sd_violation_type (fst (surface_rules ev policy (event_class ev policy decoys) agg)) = None"
    using assms c(1) by simp
  note s = clean_surface [OF this]
  note k = clean_counters [OF assms]
  show ?thesis
    by (intro conjI impI c s k(2)) (use s(2) k(4,5) in auto)
qed

theorem in_scope_sound_witness:
  "event_class (touch FILE_MODIFIED ''src/app/a.py'') sample_policy [] = TASK_RELEVANT \<and>
   ev_decoy_id (touch FILE_MODIFIED ''src/app/a.py'') = None \<and>
   event_class (touch FILE_MODIFIED ''src/app/a.py'') sample_policy [] \<noteq> UNRELATED"
proof -
  have c: "event_class (touch FILE_MODIFIED ''src/app/a.py'') sample_policy [] = TASK_RELEVANT"
    by code_simp
  have n: "sd_violation_type (fst (evaluate_event (touch FILE_MODIFIED ''src/app/a.py'') sample_policy []
      empty_aggregate)) = None" by code_simp
  show ?thesis using in_scope_sound [OF n] c by simp
qed

definition passed :: "(agent_event \<Rightarrow> bool) \<Rightarrow> scope_policy \<Rightarrow> string list \<Rightarrow> agent_event list \<Rightarrow> nat" where
  "passed P policy decoys evs =
     length (filter (\<lambda>(ev, d). P ev \<and> sd_violation_type d = None)
       (zip evs (fst (evaluate_all policy decoys evs empty_aggregate))))"

lemma passed_bound:
  fixes agg
  assumes mono: "\<And>ev agg. m agg \<le> m (snd (evaluate_event ev policy decoys agg))"
    and pass: "\<And>ev agg. sd_violation_type (fst (evaluate_event ev policy decoys agg)) = None \<Longrightarrow> P ev \<Longrightarrow>
       m (snd (evaluate_event ev policy decoys agg)) = m agg + 1 \<and> m agg + 1 \<le> cap"
  shows "int (length (filter (\<lambda>(ev, d). P ev \<and> sd_violation_type d = None)
           (zip evs (fst (evaluate_all policy decoys evs agg))))) \<le> max 0 (cap - m agg)"
proof (induction evs arbitrary: agg)
  case (Cons ev evs)
  obtain d agg1 where e: "evaluate_event ev policy decoys agg = (d, agg1)" by fastforce
  obtain ds agg2 where r: "evaluate_all policy decoys evs agg1 = (ds, agg2)" by fastforce
  have eq: "evaluate_all policy decoys (ev # evs) agg = (d # ds, agg2)" by (simp add: e r)
  have ih: "int (length (filter (\<lambda>(ev, d). P ev \<and> sd_violation_type d = None) (zip evs ds))) \<le> max 0 (cap - m agg1)"
    using Cons [of agg1] r by simp
  have up: "m agg \<le> m agg1" using mono [of agg ev] e by simp
  show ?case
  proof (cases "P ev \<and> sd_violation_type d = None")
    case True
    then have "m agg1 = m agg + 1 \<and> m agg + 1 \<le> cap" using pass [of ev agg] e by simp
    then show ?thesis unfolding eq using True ih by simp
  next
    case False
    then show ?thesis unfolding eq using ih up by auto
  qed
qed simp

text \<open>
  Whatever the order of events, the number of in-scope accesses to sensitive paths never exceeds
  the policy's cap, and the number of in-scope file reads never exceeds the read budget.
\<close>

theorem caps_hold_over_runs:
  "int (passed (\<lambda>ev. sensitive_event ev policy decoys) policy decoys evs) \<le> max 0 (maximum_sensitive_reads policy) \<and>
   int (passed (\<lambda>ev. ev_type ev = FILE_READ) policy decoys evs) \<le> max 0 (maximum_file_reads policy)"
proof
  have ok: "stage_ok agg (evaluate_event ev policy decoys agg)" for agg ev by (rule evaluate_ok)
  have "int (passed (\<lambda>ev. sensitive_event ev policy decoys) policy decoys evs) \<le>
      max 0 (maximum_sensitive_reads policy - sensitive_reads empty_aggregate)"
    unfolding passed_def
  proof (rule passed_bound [where m = sensitive_reads])
    show "sensitive_reads agg \<le> sensitive_reads (snd (evaluate_event ev policy decoys agg))" for ev agg
      using ok [of agg ev] by (simp add: stage_ok_def)
    show "sensitive_reads (snd (evaluate_event ev policy decoys agg)) = sensitive_reads agg + 1 \<and>
        sensitive_reads agg + 1 \<le> maximum_sensitive_reads policy"
      if "sd_violation_type (fst (evaluate_event ev policy decoys agg)) = None"
        "sensitive_event ev policy decoys" for ev agg
      using clean_counters(3,4) [OF that(1)] that(2) by simp
  qed
  then show "int (passed (\<lambda>ev. sensitive_event ev policy decoys) policy decoys evs) \<le> max 0 (maximum_sensitive_reads policy)"
    by (simp add: empty_aggregate_def)
  have "int (passed (\<lambda>ev. ev_type ev = FILE_READ) policy decoys evs) \<le>
      max 0 (maximum_file_reads policy - file_reads empty_aggregate)"
    unfolding passed_def
  proof (rule passed_bound [where m = file_reads])
    show "file_reads agg \<le> file_reads (snd (evaluate_event ev policy decoys agg))" for ev agg
      using ok [of agg ev] by (simp add: stage_ok_def)
    show "file_reads (snd (evaluate_event ev policy decoys agg)) = file_reads agg + 1 \<and>
        file_reads agg + 1 \<le> maximum_file_reads policy"
      if "sd_violation_type (fst (evaluate_event ev policy decoys agg)) = None" "ev_type ev = FILE_READ" for ev agg
      using clean_counters(1,2) [OF that(1)] that(2) by simp
  qed
  then show "int (passed (\<lambda>ev. ev_type ev = FILE_READ) policy decoys evs) \<le> max 0 (maximum_file_reads policy)"
    by (simp add: empty_aggregate_def)
qed


text \<open>A violation other than a delete or a dependency change does not mark the session as modified.\<close>

definition keeps_mod :: "session_aggregate \<Rightarrow> scope_decision \<times> session_aggregate \<Rightarrow> bool" where
  "keeps_mod agg r \<longleftrightarrow> (sd_violation_type (fst r) \<noteq> None \<longrightarrow> modifications (snd r) = modifications agg)"

lemma keeps_mod_breadth: "keeps_mod agg (breadth_rules ev policy pc agg)"
  by (simp add: keeps_mod_def breadth_rules_def rule_simps Let_def)

lemma keeps_mod_dependency: "pc \<noteq> SHARED_DEPENDENCY \<Longrightarrow> keeps_mod agg (dependency_rules ev policy pc agg)"
  using keeps_mod_breadth by (simp add: dependency_rules_def)

lemma keeps_mod_hit: "modifications a = modifications agg \<Longrightarrow> keeps_mod agg (d, a)"
  by (simp add: keeps_mod_def)

lemma keeps_mod_sensitive: "pc \<noteq> SHARED_DEPENDENCY \<Longrightarrow> keeps_mod agg (sensitive_rules ev policy pc agg)"
proof -
  assume pc: "pc \<noteq> SHARED_DEPENDENCY"
  have "keeps_mod agg (dependency_rules ev policy pc (agg\<lparr>sensitive_reads := n\<rparr>))" for n
    using keeps_mod_dependency [OF pc, of "agg\<lparr>sensitive_reads := n\<rparr>"] by (simp add: keeps_mod_def)
  then show ?thesis
    using keeps_mod_dependency [OF pc] by (simp add: sensitive_rules_def Let_def keeps_mod_hit bump_def)
qed

lemma keeps_mod_surface: "pc \<noteq> SHARED_DEPENDENCY \<Longrightarrow> keeps_mod agg (surface_rules ev policy pc agg)"
  using keeps_mod_sensitive
  by (simp add: surface_rules_def Let_def keeps_mod_hit bump_def add_surface_def)

text \<open>
  A modifying event that violates the scope is not recorded as a modification: unless it is a
  delete or touches a shared dependency, the aggregate's \<open>modifications\<close> flag, which raises the
  incident severity, keeps its old value. Only in-scope writes set it.
\<close>

theorem violating_write_not_counted:
  assumes "sd_violation_type (fst (evaluate_event ev policy decoys agg)) \<noteq> None"
    and "ev_type ev \<noteq> FILE_DELETED" and "event_class ev policy decoys \<noteq> SHARED_DEPENDENCY"
  shows "modifications (snd (evaluate_event ev policy decoys agg)) = modifications agg"
  using assms keeps_mod_surface [OF assms(3), of agg ev policy]
  by (auto simp: evaluate_event_def Let_def bump_def add_surface_def keeps_mod_def split: if_splits)

theorem violating_write_not_counted_witness:
  "\<not> modifications (snd (evaluate_event (touch FILE_MODIFIED ''ops/.env'') sample_policy [] empty_aggregate)) \<and>
   incident_severity AI_AGENT_SENSITIVE_EXPLORATION 1 False False = MEDIUM"
proof -
  have c: "event_class (touch FILE_MODIFIED ''ops/.env'') sample_policy [] = CREDENTIAL" by code_simp
  have v: "sd_violation_type (fst (evaluate_event (touch FILE_MODIFIED ''ops/.env'') sample_policy [] empty_aggregate)) \<noteq> None"
    by code_simp
  show ?thesis
    using violating_write_not_counted [OF v] c
    by (simp add: touch_def empty_aggregate_def incident_severity_def sev_at_def sev_order_def)
qed

text \<open>
  Incident severity is monotone in the violation count, in cross-surface reach and in
  modification, never falls below the exposure's base level, and is CRITICAL only when at least one
  of them raised it.
\<close>

theorem incident_severity_monotone:
  assumes "n \<le> n'" and "x \<longrightarrow> x'" and "m \<longrightarrow> m'"
  shows "incident_severity e n x m \<le> incident_severity e n' x' m' \<and>
         agent_base_severity e \<le> incident_severity e n x m \<and>
         (incident_severity e n x m = CRITICAL \<longrightarrow> n \<ge> 3 \<or> x \<or> m)"
proof (intro conjI impI)
  have b: "sev_rank (agent_base_severity e) \<le> 3" by (cases e) simp_all
  show "incident_severity e n x m \<le> incident_severity e n' x' m'"
    unfolding incident_severity_def by (rule sev_at_mono) (use assms in \<open>auto simp: of_bool_def\<close>)
  have "sev_at (sev_rank (agent_base_severity e)) \<le> incident_severity e n x m"
    unfolding incident_severity_def by (rule sev_at_mono) simp
  then show "agent_base_severity e \<le> incident_severity e n x m" by simp
  assume "incident_severity e n x m = CRITICAL"
  then show "n \<ge> 3 \<or> x \<or> m"
    using b by (auto simp: incident_severity_def sev_at_eq_CRITICAL of_bool_def split: if_splits)
qed

theorem incident_severity_monotone_witness:
  "incident_severity AI_AGENT_DECOY_TOUCH 1 False False \<le> incident_severity AI_AGENT_DECOY_TOUCH 3 True False"
  using incident_severity_monotone [of 1 3 False True False False AI_AGENT_DECOY_TOUCH] by simp

subsection \<open>Escalation\<close>

definition window_size :: nat where "window_size = 20"

definition probing :: "path_class \<Rightarrow> bool" where
  "probing c \<longleftrightarrow> c \<in> set [UNRELATED, ADJACENT]"

definition grave :: "path_class \<Rightarrow> bool" where
  "grave c \<longleftrightarrow> c \<in> set sensitive_classes \<or> c = DECOY"

fun escalation_loop :: "bool \<Rightarrow> path_class list \<Rightarrow> bool" where
  "escalation_loop probed [] = False"
| "escalation_loop probed (cls # rest) =
     (if probing cls then escalation_loop True rest
      else if probed \<and> grave cls then True
      else escalation_loop probed rest)"

definition detect_escalation :: "path_class list \<Rightarrow> bool" where
  "detect_escalation recent_path_classes = escalation_loop False (last_n window_size recent_path_classes)"

lemma probing_not_grave: "probing c \<Longrightarrow> \<not> grave c"
  by (cases c) (simp_all add: probing_def grave_def sensitive_classes_def)

lemma escalation_loop_True: "escalation_loop True xs \<longleftrightarrow> (\<exists>c \<in> set xs. grave c)"
  by (induction xs) (auto dest: probing_not_grave)

lemma escalation_loop_iff:
  "escalation_loop False xs \<longleftrightarrow> (\<exists>a p b g c. xs = a @ p # b @ g # c \<and> probing p \<and> grave g)"
proof (induction xs)
  case (Cons x xs)
  show ?case
  proof (cases "probing x")
    case True
    have "(\<exists>c \<in> set xs. grave c) \<longleftrightarrow> (\<exists>a p b g c. x # xs = a @ p # b @ g # c \<and> probing p \<and> grave g)"
    proof
      assume "\<exists>c \<in> set xs. grave c"
      then obtain g b c where "xs = b @ g # c" "grave g" by (meson split_list)
      with True have "x # xs = [] @ x # b @ g # c \<and> probing x \<and> grave g" by simp
      then show "\<exists>a p b g c. x # xs = a @ p # b @ g # c \<and> probing p \<and> grave g" by blast
    next
      assume "\<exists>a p b g c. x # xs = a @ p # b @ g # c \<and> probing p \<and> grave g"
      then obtain a p b g c where "x # xs = a @ p # b @ g # c" "grave g" by blast
      then have "xs = tl (a @ [p]) @ b @ g # c" by (cases a) auto
      then show "\<exists>c \<in> set xs. grave c" using \<open>grave g\<close> by auto
    qed
    with True show ?thesis by (simp add: escalation_loop_True)
  next
    case False
    have "(\<exists>a p b g c. x # xs = a @ p # b @ g # c \<and> probing p \<and> grave g) \<longleftrightarrow>
          (\<exists>a p b g c. xs = a @ p # b @ g # c \<and> probing p \<and> grave g)" (is "?l \<longleftrightarrow> ?r")
    proof
      assume ?l
      then obtain a p b g c where h: "x # xs = a @ p # b @ g # c" "probing p" "grave g" by blast
      then obtain a' where "a = x # a'" using False by (cases a) auto
      with h have "xs = a' @ p # b @ g # c \<and> probing p \<and> grave g" by simp
      then show ?r by blast
    next
      assume ?r
      then show ?l by (metis append_Cons)
    qed
    with False Cons show ?thesis by simp
  qed
qed simp

text \<open>
  The one-pass detector reports escalation exactly when, within the last 20 path classes, an
  unrelated or adjacent access is followed (not necessarily at once) by a sensitive or decoy access.
\<close>

theorem detect_escalation_iff:
  "detect_escalation cs \<longleftrightarrow>
     (\<exists>a p b g c. last_n window_size cs = a @ p # b @ g # c \<and>
        p \<in> {UNRELATED, ADJACENT} \<and> (g \<in> set sensitive_classes \<or> g = DECOY))"
  unfolding detect_escalation_def escalation_loop_iff by (simp add: probing_def grave_def)

subsection \<open>The session summary and the decoy index\<close>

definition yes_no :: "bool \<Rightarrow> string" where
  "yes_no b = (if b then ''yes'' else ''no'')"

record decoy_index =
  trace_ids :: "(string \<times> string) list"
  dpaths :: "(string \<times> string) list"
  resource_hashes :: "(string \<times> string) list"

definition path_set :: "decoy_index \<Rightarrow> string list" where
  "path_set index = map fst (dpaths index)"

definition resolve_decoy ::
  "string option \<Rightarrow> string option \<Rightarrow> string option \<Rightarrow> decoy_index \<Rightarrow> string option" where
  "resolve_decoy trace_id normalized_path resource_id_hash index =
     (let t = or_empty trace_id; p = py_lower (or_empty normalized_path); h = or_empty resource_id_hash in
      if t \<noteq> [] \<and> map_of (trace_ids index) t \<noteq> None then map_of (trace_ids index) t
      else if or_empty normalized_path \<noteq> [] \<and> map_of (dpaths index) p \<noteq> None then map_of (dpaths index) p
      else if h \<noteq> [] \<and> map_of (resource_hashes index) h \<noteq> None then map_of (resource_hashes index) h
      else None)"

text \<open>
  The two detections agree: a path in the index's path set resolves to a decoy id, so the rule engine
  never sees a decoy path without one.
\<close>

lemma path_set_resolved:
  assumes "py_lower p \<in> set (path_set index)" and "p \<noteq> []"
  shows "resolve_decoy t (Some p) h index \<noteq> None"
proof -
  have "map_of (dpaths index) (py_lower p) \<noteq> None"
    using assms(1) by (simp add: path_set_def map_of_eq_None_iff)
  then show ?thesis using assms(2) by (auto simp: resolve_decoy_def Let_def)
qed

end
