(* ===== verification/Metadata_Min.thy ===== *)
theory Metadata_Min
  imports Prelude
begin

text \<open>
  Metadata minimisation. Three services keep their own copy of the same loop with their own bounds:
  \<open>services/agent_sensor/minimize.py\<close>, \<open>services/browser_sensor/minimize.py\<close> and
  \<open>services/ai_tripwire/minimize.py\<close>. The loop is modelled once over its constants. A metadata value
  is either a string or some other JSON value, rendered by \<open>json.dumps\<close> (an argument, \<open>dumps\<close>).
\<close>

datatype 'j meta_value = MText string | MJson 'j

record min_limits =
  forbidden_keys :: "string list"
  max_fields :: nat
  max_value_len :: nat
  max_input_value_len :: nat
  max_key_len :: nat

definition value_text :: "('j \<Rightarrow> string) \<Rightarrow> 'j meta_value \<Rightarrow> string" where
  "value_text dumps v = (case v of MText s \<Rightarrow> s | MJson j \<Rightarrow> dumps j)"

fun minimize_loop ::
  "min_limits \<Rightarrow> ('j \<Rightarrow> string) \<Rightarrow> (string \<times> 'j meta_value) list \<Rightarrow> (string \<times> string) list \<Rightarrow> (string \<times> string) list" where
  "minimize_loop cfg dumps [] out = out"
| "minimize_loop cfg dumps ((key, value) # rest) out =
     (if py_lower key \<in> set (forbidden_keys cfg) then minimize_loop cfg dumps rest out
      else let t = value_text dumps value in
        if length t > max_input_value_len cfg then minimize_loop cfg dumps rest out
        else let out' = AList.update (take (max_key_len cfg) key) (take (max_value_len cfg) t) out in
          if length out' \<ge> max_fields cfg then out' else minimize_loop cfg dumps rest out')"

definition minimize_with where
  "minimize_with cfg dumps metadata = minimize_loop cfg dumps metadata []"

definition agent_limits :: min_limits where
  "agent_limits = \<lparr>forbidden_keys = [
      ''content'', ''file_content'', ''source'', ''source_code'', ''code'', ''diff'', ''patch'',
      ''body'', ''text'', ''prompt'', ''prompts'', ''output'', ''outputs'', ''command_output'',
      ''stdout'', ''stderr'', ''terminal'', ''terminal_history'', ''reasoning'',
      ''chain_of_thought'', ''thought'', ''thoughts'', ''completion'', ''response'',
      ''responses'', ''message'', ''messages'', ''conversation'', ''history'', ''query'',
      ''sql'', ''raw'', ''snippet'', ''excerpt''],
     max_fields = 10, max_value_len = 96, max_input_value_len = 256, max_key_len = 48\<rparr>"

definition browser_limits :: min_limits where
  "browser_limits = \<lparr>forbidden_keys = [
      ''text'', ''pasted'', ''pasted_text'', ''paste'', ''value'', ''excerpt'', ''selection'',
      ''clipboard'', ''content'', ''body'', ''prompt'', ''prompts'', ''input'', ''inputs'',
      ''output'', ''outputs'', ''answer'', ''completion'', ''response'', ''responses'',
      ''message'', ''messages'', ''conversation'', ''history'', ''chunk'', ''chunks'',
      ''document'', ''raw'', ''html'', ''innertext'', ''textcontent''],
     max_fields = 10, max_value_len = 96, max_input_value_len = 256, max_key_len = 48\<rparr>"

definition ai_limits :: min_limits where
  "ai_limits = \<lparr>forbidden_keys = [
      ''prompt'', ''prompts'', ''output'', ''outputs'', ''completion'', ''completions'',
      ''answer'', ''answers'', ''chunk'', ''chunks'', ''content'', ''document'', ''documents'',
      ''text'', ''body'', ''embedding'', ''embeddings'', ''vector'', ''vectors'', ''message'',
      ''messages'', ''conversation'', ''history'', ''response'', ''responses'', ''raw'',
      ''context''],
     max_fields = 12, max_value_len = 120, max_input_value_len = 512, max_key_len = 64\<rparr>"

definition agent_minimize where "agent_minimize = minimize_with agent_limits"
definition browser_minimize where "browser_minimize = minimize_with browser_limits"
definition ai_minimize where "ai_minimize = minimize_with ai_limits"

text \<open>\<open>serialize_metadata\<close>: the JSON text, cut at 1024 characters.\<close>

definition serialize_metadata :: "((string \<times> string) list \<Rightarrow> string) \<Rightarrow> (string \<times> string) list \<Rightarrow> string" where
  "serialize_metadata dumps metadata = take 1024 (dumps metadata)"

definition sanitize_task_summary :: "string \<Rightarrow> nat \<Rightarrow> string" where
  "sanitize_task_summary raw max_len =
     (let cleaned = filter (\<lambda>ch. ch = CHR 0x0A \<or> CHR '' '' \<le> ch) raw;
          cleaned = join_with '' '' (split_words cleaned)
      in take max_len cleaned)"

subsection \<open>Bounds and absence of raw content\<close>

definition limits_ok :: "min_limits \<Rightarrow> bool" where
  "limits_ok cfg \<longleftrightarrow> 0 < max_fields cfg \<and> list_all (\<lambda>k. length k < max_key_len cfg) (forbidden_keys cfg)"

lemma limits_ok_all: "limits_ok agent_limits" "limits_ok browser_limits" "limits_ok ai_limits"
  by code_simp+

definition minimal :: "min_limits \<Rightarrow> (string \<times> string) list \<Rightarrow> bool" where
  "minimal cfg out \<longleftrightarrow> length out \<le> max_fields cfg \<and> distinct (map fst out) \<and>
     (\<forall>(k, v) \<in> set out. length k \<le> max_key_len cfg \<and> length v \<le> max_value_len cfg \<and>
        py_lower k \<notin> set (forbidden_keys cfg))"

text \<open>Every stored value is a prefix of a short enough input value under a key that is not forbidden.\<close>

definition provenance ::
  "min_limits \<Rightarrow> ('j \<Rightarrow> string) \<Rightarrow> (string \<times> 'j meta_value) list \<Rightarrow> (string \<times> string) list \<Rightarrow> bool" where
  "provenance cfg dumps metadata out \<longleftrightarrow> (\<forall>(k, v) \<in> set out. \<exists>(key, value) \<in> set metadata.
     py_lower key \<notin> set (forbidden_keys cfg) \<and> length (value_text dumps value) \<le> max_input_value_len cfg \<and>
     k = take (max_key_len cfg) key \<and> v = take (max_value_len cfg) (value_text dumps value))"

lemma truncated_key_allowed:
  assumes "limits_ok cfg" and "py_lower key \<notin> set (forbidden_keys cfg)"
  shows "py_lower (take (max_key_len cfg) key) \<notin> set (forbidden_keys cfg)"
proof (cases "length key \<le> max_key_len cfg")
  case True
  with assms(2) show ?thesis by simp
next
  case False
  then have "length (py_lower (take (max_key_len cfg) key)) = max_key_len cfg" by simp
  then show ?thesis using assms(1) by (force simp: limits_ok_def list_all_iff)
qed

lemma update_members: "(k', v') \<in> set (AList.update k v d) \<Longrightarrow> (k', v') = (k, v) \<or> (k', v') \<in> set d"
  by (induction d) (auto split: if_splits)

lemma length_update: "length (AList.update k v d) \<le> Suc (length d)"
  by (induction d) auto

lemma minimize_loop_ok:
  assumes ok: "limits_ok cfg"
  shows "minimal cfg out \<Longrightarrow> length out < max_fields cfg \<Longrightarrow> minimal cfg (minimize_loop cfg dumps metadata out)"
proof (induction metadata arbitrary: out)
  case Nil
  then show ?case by simp
next
  case (Cons kv rest)
  obtain key "value" where kv: "kv = (key, value)" by fastforce
  let ?t = "value_text dumps value"
  let ?out = "AList.update (take (max_key_len cfg) key) (take (max_value_len cfg) ?t) out"
  show ?case
  proof (cases "py_lower key \<in> set (forbidden_keys cfg) \<or> length ?t > max_input_value_len cfg")
    case True
    then show ?thesis using Cons kv by (auto simp: Let_def)
  next
    case False
    have k: "py_lower (take (max_key_len cfg) key) \<notin> set (forbidden_keys cfg)"
      using truncated_key_allowed [OF ok] False by blast
    have "length ?out \<le> max_fields cfg"
      using Cons.prems(2) length_update [of "take (max_key_len cfg) key" "take (max_value_len cfg) ?t" out] by simp
    moreover have "distinct (map fst ?out)"
      using Cons.prems(1) by (simp add: minimal_def distinct_update)
    moreover have "\<forall>(k', v') \<in> set ?out. length k' \<le> max_key_len cfg \<and> length v' \<le> max_value_len cfg \<and>
        py_lower k' \<notin> set (forbidden_keys cfg)"
      using Cons.prems(1) k by (auto simp: minimal_def dest!: update_members)
    ultimately have "minimal cfg ?out" by (simp add: minimal_def)
    then show ?thesis using Cons.IH [of ?out] False kv by (auto simp: Let_def not_le)
  qed
qed

lemma minimize_loop_provenance:
  "provenance cfg dumps meta out \<Longrightarrow> set rest \<subseteq> set meta \<Longrightarrow>
     provenance cfg dumps meta (minimize_loop cfg dumps rest out)"
proof (induction rest arbitrary: out)
  case Nil
  then show ?case by simp
next
  case (Cons kv rest)
  obtain key "value" where kv: "kv = (key, value)" by fastforce
  let ?t = "value_text dumps value"
  let ?out = "AList.update (take (max_key_len cfg) key) (take (max_value_len cfg) ?t) out"
  show ?case
  proof (cases "py_lower key \<in> set (forbidden_keys cfg) \<or> length ?t > max_input_value_len cfg")
    case True
    then show ?thesis using Cons kv by (auto simp: Let_def)
  next
    case False
    then have "provenance cfg dumps meta [(take (max_key_len cfg) key, take (max_value_len cfg) ?t)]"
      using Cons.prems(2) kv by (force simp: provenance_def)
    then have "provenance cfg dumps meta ?out"
      using Cons.prems(1) unfolding provenance_def by (auto dest!: update_members)
    then show ?thesis using Cons.IH [of ?out] Cons.prems(2) False kv by (auto simp: Let_def)
  qed
qed

lemma minimize_with_ok:
  assumes "limits_ok cfg"
  shows "minimal cfg (minimize_with cfg dumps meta)" "provenance cfg dumps meta (minimize_with cfg dumps meta)"
proof -
  have "minimal cfg []" "0 < max_fields cfg" "provenance cfg dumps meta []"
    using assms by (simp_all add: minimal_def limits_ok_def provenance_def)
  then show "minimal cfg (minimize_with cfg dumps meta)" "provenance cfg dumps meta (minimize_with cfg dumps meta)"
    unfolding minimize_with_def
    using minimize_loop_ok [OF assms, of "[]"] minimize_loop_provenance [of cfg dumps meta "[]" meta]
    by simp_all
qed

text \<open>
  All three minimisers return a bounded dictionary without raw-content keys: at most 10, 10 and 12
  fields, keys and values within their length limits, no key that is forbidden in any letter case
  (cutting a long key cannot create one), distinct keys, and every value a prefix of an input value
  that was itself short enough and stored under an allowed key.
\<close>

theorem minimized_metadata_bounded:
  "minimal agent_limits (agent_minimize dumps meta) \<and> provenance agent_limits dumps meta (agent_minimize dumps meta) \<and>
   minimal browser_limits (browser_minimize dumps meta) \<and> provenance browser_limits dumps meta (browser_minimize dumps meta) \<and>
   minimal ai_limits (ai_minimize dumps meta) \<and> provenance ai_limits dumps meta (ai_minimize dumps meta)"
  unfolding agent_minimize_def browser_minimize_def ai_minimize_def
  using minimize_with_ok limits_ok_all by blast

text \<open>The filter looks at top-level keys only: a nested object is serialised whole.\<close>

lemma nested_key_survives:
  "agent_minimize (\<lambda>j::string. j) [(''info'', MJson ''{\"prompt\": \"hi\"}''), (''Prompt'', MText ''x'')] =
     [(''info'', ''{\"prompt\": \"hi\"}'')]"
  by code_simp

end
