(* ===== verification/Access.thy ===== *)
theory Access
  imports Prelude
begin

text \<open>
  API keys and the request authentication boundary (\<open>services/api_keys.py\<close>, \<open>security.py\<close>): the
  permission catalogue, the roles, the grant rule, the key store (\<open>create\<close>, \<open>revoke\<close>,
  \<open>authenticate\<close>) and \<open>_authenticate\<close> / \<open>require_scope\<close>. SHA-256 is an argument (\<open>sha\<close>), as are the
  random parts of a new key, its database id and the \<open>UUID()\<close> parser. A set of scopes is a list read
  through \<^const>\<open>set\<close>; the JSON column that stores it is the list itself.
\<close>

subsection \<open>Permissions and roles\<close>

definition permissions :: "string list" where
  "permissions = [
    ''repositories:read'', ''repositories:write'', ''placements:read'', ''placements:write'',
    ''decoys:read'', ''decoys:write'', ''validation:read'', ''validation:write'',
    ''monitoring:read'', ''monitoring:ingest'', ''alerts:read'', ''alerts:write'',
    ''incidents:read'', ''incidents:write'', ''narratives:read'', ''narratives:write'',
    ''demo:run'', ''decoy_deployments:read'', ''decoy_deployments:create'',
    ''decoy_deployments:approve'', ''decoy_deployments:execute'', ''decoy_deployments:retire'',
    ''decoy_deployments:rollback'', ''database_connectors:read'', ''database_connectors:manage'',
    ''database_schema:read'', ''database_honey:read'', ''database_honey:create'',
    ''database_honey:approve'', ''database_honey:deploy'', ''database_honey:retire'',
    ''database_honey:rollback'', ''ai_tripwire_connectors:read'',
    ''ai_tripwire_connectors:manage'', ''ai_tripwires:read'', ''ai_tripwires:create'',
    ''ai_tripwires:approve'', ''ai_tripwires:deploy'', ''ai_tripwires:retire'',
    ''ai_tripwires:ingest'', ''browser_sensors:read'', ''browser_sensors:manage'',
    ''browser_policy:read'', ''browser_policy:manage'', ''browser_events:ingest'',
    ''browser_events:read'', ''agent_sensors:read'', ''agent_sensors:manage'',
    ''agent_sessions:read'', ''agent_sessions:create'', ''agent_events:ingest'',
    ''agent_policies:read'', ''agent_policies:manage'', ''agent_violations:read'',
    ''coverage:read'', ''coverage:recalculate'', ''coverage:manage_policy'', ''coverage:export'',
    ''integrations:read'', ''integrations:manage'', ''integrations:test'',
    ''integrations:deliveries:read'', ''integrations:deliveries:retry'', ''incidents:export'',
    ''alerts:export'', ''usage:read'', ''limits:read'', ''onboarding:read'',
    ''onboarding:manage'', ''onboarding:run_detection_test'',
    ''onboarding:accept_recommendation'', ''onboarding:view_activation_metrics'',
    ''analysis:preview'', ''learning:read'', ''learning:feedback'', ''learning:calibrate'',
    ''learning:review'', ''learning:approve'', ''learning:activate'', ''learning:rollback'',
    ''admin:manage_keys'', ''admin:manage_monitors'', ''admin:read_audit'']"

definition platform_permissions :: "string list" where
  "platform_permissions = [
    ''capacity:read'', ''capacity:manage'', ''performance_runs:read'',
    ''performance_runs:execute'', ''learning:manage_global'', ''platform:reliability'',
    ''platform:failover'', ''platform:failback'', ''platform:capacity'',
    ''platform:learning_global'', ''platform:organization_admin'', ''reliability:read'',
    ''backups:read'', ''restore_drills:run'', ''failover:request'', ''failover:approve'',
    ''failback:manage'', ''reliability_policy:manage'', ''organization_limits:manage'']"

definition judge_permissions :: "string list" where
  "judge_permissions = [
    ''judge:workspace'', ''judge:analyze'', ''judge:interact'', ''judge:export'', ''judge:reset'']"

definition judge_reads :: "string list" where
  "judge_reads = [
    ''repositories:read'', ''placements:read'', ''decoys:read'', ''validation:read'',
    ''monitoring:read'', ''alerts:read'', ''incidents:read'', ''narratives:read'']"

definition tenant_grantable_roles :: "string list" where
  "tenant_grantable_roles = [''viewer'', ''analyst'', ''admin'', ''owner'', ''service'']"

definition platform_roles :: "string list" where
  "platform_roles = [''operator'']"

definition learning_approval :: "string list" where
  "learning_approval = [''learning:approve'', ''learning:activate'']"

definition reads :: "string list" where
  "reads = filter (\<lambda>p. endswith p '':read'') permissions"

definition role_scopes :: "(string \<times> string list) list" where
  "role_scopes = [
    (''owner'', permissions),
    (''admin'', filter (\<lambda>p. p \<notin> set learning_approval) permissions),
    (''analyst'', reads @ [
      ''narratives:write'', ''incidents:write'', ''alerts:write'', ''demo:run'',
      ''decoy_deployments:create'', ''database_honey:create'', ''ai_tripwires:create'',
      ''agent_sessions:create'', ''incidents:export'', ''alerts:export'', ''coverage:export'',
      ''analysis:preview'', ''learning:feedback'']),
    (''viewer'', reads @ [''analysis:preview'']),
    (''service'', [
      ''monitoring:read'', ''monitoring:ingest'', ''decoy_deployments:read'',
      ''decoy_deployments:execute'', ''database_honey:read'', ''database_honey:deploy'',
      ''ai_tripwires:read'', ''ai_tripwires:deploy'', ''ai_tripwires:ingest'', ''coverage:read'',
      ''coverage:recalculate'', ''integrations:read'', ''integrations:deliveries:read'',
      ''integrations:deliveries:retry'']),
    (''browser_sensor'', [''browser_policy:read'', ''browser_events:ingest'']),
    (''agent_sensor'', [''agent_sessions:create'', ''agent_policies:read'', ''agent_events:ingest'']),
    (''demo'', [
      ''demo:run'', ''repositories:read'', ''placements:read'', ''decoys:read'',
      ''validation:read'', ''monitoring:read'', ''alerts:read'', ''incidents:read'',
      ''narratives:read'']),
    (''judge'', judge_permissions @ judge_reads),
    (''operator'', platform_permissions)]"

definition disjoint_scopes :: "string list \<Rightarrow> string list \<Rightarrow> bool" where
  "disjoint_scopes xs ys \<longleftrightarrow> list_all (\<lambda>x. x \<notin> set ys) xs"

definition scopes_of :: "string \<Rightarrow> string list" where
  "scopes_of role = (case map_of role_scopes role of None \<Rightarrow> [] | Some s \<Rightarrow> s)"

text \<open>The assertions the module evaluates at import.\<close>

definition catalogue_asserts :: bool where
  "catalogue_asserts \<longleftrightarrow>
     disjoint_scopes judge_permissions permissions \<and>
     disjoint_scopes judge_permissions platform_permissions \<and>
     disjoint_scopes (scopes_of ''judge'') platform_permissions \<and>
     disjoint_scopes (scopes_of ''demo'') platform_permissions \<and>
     disjoint_scopes (scopes_of ''demo'') judge_permissions \<and>
     \<not> list_ex (\<lambda>scope. startswith scope ''admin:'') (scopes_of ''demo'')"

lemma catalogue_asserts_hold: "catalogue_asserts"
  by code_simp

datatype auth_error = AuthError nat string

definition assert_grantable :: "string list \<Rightarrow> string \<Rightarrow> auth_error + unit" where
  "assert_grantable issuer_scopes target_role =
     (case map_of role_scopes target_role of
        None \<Rightarrow> Inl (AuthError 400 ''unknown role'')
      | Some target_scopes \<Rightarrow>
          if target_role \<in> set platform_roles then
            Inl (AuthError 403 ''platform roles are not grantable through tenant administration'')
          else if target_role \<notin> set tenant_grantable_roles then
            Inl (AuthError 403 ''role is provisioned out-of-band and is not grantable here'')
          else if \<not> disjoint_scopes target_scopes platform_permissions then
            Inl (AuthError 403 ''platform permissions are not grantable through tenant administration'')
          else if \<not> list_all (\<lambda>s. s \<in> set issuer_scopes) target_scopes then
            Inl (AuthError 403 ''cannot grant permissions beyond the issuing actor's own scope'')
          else Inr ())"

subsection \<open>The key store\<close>

datatype key_status = KActive | KRevoked

record api_key =
  ak_id :: uuid
  ak_org :: org_id
  ak_prefix :: string
  ak_hash :: string
  ak_name :: string
  ak_role :: string
  ak_scopes :: "string list"
  ak_status :: key_status
  ak_expires_at :: "datetime option"
  ak_last_used_at :: "datetime option"

record auth_context =
  ctx_org :: org_id
  ctx_scopes :: "string list"
  ctx_role :: string
  ctx_key_id :: "uuid option"

definition generate_key :: "(string \<Rightarrow> string) \<Rightarrow> string \<Rightarrow> string \<Rightarrow> string \<times> string \<times> string" where
  "generate_key sha prefix secret =
     (let plaintext = ''dfk_'' @ prefix @ ''_'' @ secret in (plaintext, prefix, sha plaintext))"

definition create_key ::
  "(string \<Rightarrow> string) \<Rightarrow> uuid \<Rightarrow> string \<Rightarrow> string \<Rightarrow> org_id \<Rightarrow> string \<Rightarrow> string \<Rightarrow> string list option \<Rightarrow>
   datetime option \<Rightarrow> api_key list \<Rightarrow> auth_error + api_key list \<times> api_key \<times> string" where
  "create_key sha new_id rnd_prefix rnd_secret organization_id name role issuer_scopes expires_at db =
     (case map_of role_scopes role of
        None \<Rightarrow> Inl (AuthError 400 ''unknown role'')
      | Some scopes \<Rightarrow>
          and_then (case issuer_scopes of None \<Rightarrow> Inr () | Some s \<Rightarrow> assert_grantable s role)
            (\<lambda>_. let (plaintext, prefix, key_hash) = generate_key sha rnd_prefix rnd_secret;
                     r = \<lparr>ak_id = new_id, ak_org = organization_id, ak_prefix = prefix,
                          ak_hash = key_hash, ak_name = name, ak_role = role, ak_scopes = sort scopes,
                          ak_status = KActive, ak_expires_at = expires_at, ak_last_used_at = None\<rparr>
                 in Inr (db @ [r], r, plaintext)))"

definition list_keys :: "org_id \<Rightarrow> api_key list \<Rightarrow> api_key list" where
  "list_keys organization_id db = filter (\<lambda>r. ak_org r = organization_id) db"

definition update_key :: "uuid \<Rightarrow> (api_key \<Rightarrow> api_key) \<Rightarrow> api_key list \<Rightarrow> api_key list" where
  "update_key i f db = map (\<lambda>r. if ak_id r = i then f r else r) db"

definition revoke_key :: "org_id \<Rightarrow> uuid \<Rightarrow> api_key list \<Rightarrow> api_key list \<times> bool" where
  "revoke_key organization_id key_id db =
     (case find (\<lambda>r. ak_id r = key_id) db of
        None \<Rightarrow> (db, False)
      | Some r \<Rightarrow> if ak_org r \<noteq> organization_id then (db, False)
                  else (update_key key_id (\<lambda>r. r\<lparr>ak_status := KRevoked\<rparr>) db, True))"

definition key_prefix_of :: "string \<Rightarrow> string" where
  "key_prefix_of plaintext =
     (if startswith plaintext ''dfk_'' then split_on CHR ''_'' plaintext ! 1 else [])"

definition key_authenticate ::
  "(string \<Rightarrow> string) \<Rightarrow> datetime \<Rightarrow> string \<Rightarrow> api_key list \<Rightarrow> auth_error + api_key list \<times> auth_context" where
  "key_authenticate sha now plaintext db =
     (case find (\<lambda>r. ak_prefix r = key_prefix_of plaintext) db of
        None \<Rightarrow> Inl (AuthError 401 ''invalid API key'')
      | Some r \<Rightarrow>
          if ak_hash r \<noteq> sha plaintext then Inl (AuthError 401 ''invalid API key'')
          else if ak_status r \<noteq> KActive then Inl (AuthError 401 ''API key is not active'')
          else if (case ak_expires_at r of None \<Rightarrow> False | Some e \<Rightarrow> e < now)
          then Inl (AuthError 401 ''API key has expired'')
          else Inr (update_key (ak_id r) (\<lambda>r. r\<lparr>ak_last_used_at := Some now\<rparr>) db,
                    \<lparr>ctx_org = ak_org r, ctx_scopes = ak_scopes r, ctx_role = ak_role r,
                     ctx_key_id = Some (ak_id r)\<rparr>))"

subsection \<open>The request boundary\<close>

record audit_row =
  au_action :: string
  au_outcome :: string
  au_org :: "org_id option"
  au_detail :: string

record access_settings =
  auth_enabled :: bool
  is_development :: bool
  demo_api_key :: string
  api_key_bindings :: "(string \<times> string) list"
  bootstrap_keys_enabled :: bool
  bootstrap_expires_at :: "datetime option"

record access_state =
  st_keys :: "api_key list"
  st_audit :: "audit_row list"

datatype http_error = HttpError nat string

text \<open>\<open>get_db\<close>: the request commits, or rolls back when the handler raises.\<close>

definition in_request :: "('d \<Rightarrow> 'd \<times> (http_error + 'a)) \<Rightarrow> 'd \<Rightarrow> 'd \<times> (http_error + 'a)" where
  "in_request h db = (case h db of (db', Inl e) \<Rightarrow> (db, Inl e) | (db', Inr a) \<Rightarrow> (db', Inr a))"

definition bootstrap_active :: "access_settings \<Rightarrow> datetime \<Rightarrow> bool" where
  "bootstrap_active settings now \<longleftrightarrow>
     bootstrap_keys_enabled settings \<and>
     (case bootstrap_expires_at settings of None \<Rightarrow> True | Some e \<Rightarrow> now < e)"

definition write_audit :: "string \<Rightarrow> string \<Rightarrow> org_id option \<Rightarrow> string \<Rightarrow> access_state \<Rightarrow> access_state" where
  "write_audit action outcome organization detail st =
     st\<lparr>st_audit := st_audit st @
        [\<lparr>au_action = action, au_outcome = outcome, au_org = organization, au_detail = take 512 detail\<rparr>]\<rparr>"

definition record_rejection :: "string \<Rightarrow> org_id option \<Rightarrow> string \<Rightarrow> access_state \<Rightarrow> access_state" where
  "record_rejection action organization detail st = write_audit action ''rejected'' organization detail st"

definition parse_org ::
  "(string \<Rightarrow> org_id option) \<Rightarrow> string \<Rightarrow> access_state \<Rightarrow> access_state \<times> (http_error + org_id)" where
  "parse_org uuid_of value st =
     (case uuid_of value of
        Some u \<Rightarrow> (st, Inr u)
      | None \<Rightarrow> (record_rejection ''authz'' None ''invalid organization id'' st,
                  Inl (HttpError 400 ''invalid organization id'')))"

definition match_org ::
  "(string \<Rightarrow> org_id option) \<Rightarrow> string option \<Rightarrow> org_id \<Rightarrow> access_state \<Rightarrow> access_state \<times> (http_error + unit)" where
  "match_org uuid_of header organization st =
     (case header of
        None \<Rightarrow> (st, Inr ())
      | Some value \<Rightarrow>
          (case parse_org uuid_of value st of
             (st', Inl e) \<Rightarrow> (st', Inl e)
           | (st', Inr u) \<Rightarrow>
               if u \<noteq> organization
               then (record_rejection ''authz'' (Some organization) ''cross-org header'' st',
                     Inl (HttpError 403 ''organization does not match the API key''))
               else (st', Inr ())))"

definition owner_context :: "org_id \<Rightarrow> auth_context" where
  "owner_context organization =
     \<lparr>ctx_org = organization, ctx_scopes = permissions, ctx_role = ''owner'', ctx_key_id = None\<rparr>"

definition demo_organization :: org_id where "demo_organization = 222"

definition authenticate_request ::
  "(string \<Rightarrow> string) \<Rightarrow> (string \<Rightarrow> org_id option) \<Rightarrow> access_settings \<Rightarrow> datetime \<Rightarrow> string option \<Rightarrow>
   string option \<Rightarrow> access_state \<Rightarrow> access_state \<times> (http_error + auth_context)" where
  "authenticate_request sha uuid_of settings now api_key org_header st =
     (if \<not> auth_enabled settings \<and> is_development settings then (st, Inr (owner_context demo_organization))
      else if \<not> auth_enabled settings then
        (st, Inl (HttpError 401 ''authentication bypass is restricted to development''))
      else case api_key of None \<Rightarrow>
        (record_rejection ''auth'' None ''missing key'' st, Inl (HttpError 401 ''missing API key''))
      | Some key \<Rightarrow>
        if key = [] then
          (record_rejection ''auth'' None ''missing key'' st, Inl (HttpError 401 ''missing API key''))
        else if is_development settings \<and> key = demo_api_key settings then
          (case org_header of
             None \<Rightarrow> (st, Inr (owner_context demo_organization))
           | Some h \<Rightarrow>
               if h = [] then (st, Inr (owner_context demo_organization))
               else (case parse_org uuid_of h st of
                       (st', Inl e) \<Rightarrow> (st', Inl e)
                     | (st', Inr u) \<Rightarrow> (st', Inr (owner_context u))))
        else case map_of (api_key_bindings settings) key of
          Some bound \<Rightarrow>
            if \<not> bootstrap_active settings now then
              (record_rejection ''auth'' None ''bootstrap key rejected (disabled or expired)'' st,
               Inl (HttpError 401 ''invalid API key''))
            else (case parse_org uuid_of bound st of
              (st', Inl e) \<Rightarrow> (st', Inl e)
            | (st', Inr bound_org) \<Rightarrow>
                (case match_org uuid_of org_header bound_org st' of
                   (st'', Inl e) \<Rightarrow> (st'', Inl e)
                 | (st'', Inr _) \<Rightarrow>
                     (write_audit ''bootstrap_auth_used'' ''accepted'' (Some bound_org)
                        ''bootstrap key authenticated'' st'', Inr (owner_context bound_org))))
        | None \<Rightarrow>
            (case key_authenticate sha now key (st_keys st) of
               Inl (AuthError code msg) \<Rightarrow> (record_rejection ''auth'' None msg st, Inl (HttpError code msg))
             | Inr (keys', ctx) \<Rightarrow>
                 (case match_org uuid_of org_header (ctx_org ctx) (st\<lparr>st_keys := keys'\<rparr>) of
                    (st', Inl e) \<Rightarrow> (st', Inl e)
                  | (st', Inr _) \<Rightarrow> (st', Inr ctx))))"

definition require_scope ::
  "(string \<Rightarrow> string) \<Rightarrow> (string \<Rightarrow> org_id option) \<Rightarrow> access_settings \<Rightarrow> datetime \<Rightarrow> string \<Rightarrow> string option \<Rightarrow>
   string option \<Rightarrow> access_state \<Rightarrow> access_state \<times> (http_error + auth_context)" where
  "require_scope sha uuid_of settings now scope api_key org_header st =
     (case authenticate_request sha uuid_of settings now api_key org_header st of
        (st', Inl e) \<Rightarrow> (st', Inl e)
      | (st', Inr ctx) \<Rightarrow>
          if scope \<notin> set (ctx_scopes ctx)
          then (record_rejection ''authz'' (Some (ctx_org ctx)) (''missing '' @ scope) st',
                Inl (HttpError 403 ''insufficient permissions''))
          else (st', Inr ctx))"

subsection \<open>What the boundary guarantees\<close>

lemma permissions_disjoint: "disjoint_scopes permissions platform_permissions" "disjoint_scopes permissions judge_permissions"
  by code_simp+

lemma listed_in_permissions:
  "list_all (\<lambda>p. p \<in> set permissions)
     [''narratives:write'', ''incidents:write'', ''alerts:write'', ''demo:run'', ''decoy_deployments:create'',
      ''database_honey:create'', ''ai_tripwires:create'', ''agent_sessions:create'', ''incidents:export'', ''alerts:export'',
      ''coverage:export'', ''analysis:preview'', ''learning:feedback'']"
  "list_all (\<lambda>p. p \<in> set permissions) (scopes_of ''service'')"
  by code_simp+

lemma tenant_roles_within: "role \<in> set tenant_grantable_roles \<Longrightarrow> set (scopes_of role) \<subseteq> set permissions"
  using listed_in_permissions
  by (auto simp: tenant_grantable_roles_def scopes_of_def [of "''owner''"] scopes_of_def [of "''admin''"] scopes_of_def [of "''analyst''"]
      scopes_of_def [of "''viewer''"] role_scopes_def reads_def list_all_iff)

lemma grantable_scopes_tenant:
  "list_all (\<lambda>r. disjoint_scopes (scopes_of r) platform_permissions \<and>
                 disjoint_scopes (scopes_of r) judge_permissions) tenant_grantable_roles"
  using tenant_roles_within permissions_disjoint unfolding list_all_iff disjoint_scopes_def by blast

lemma disjoint_scopes_iff: "disjoint_scopes xs ys \<longleftrightarrow> set xs \<inter> set ys = {}"
  by (auto simp: disjoint_scopes_def list_all_iff)

lemma assert_grantable_ok:
  assumes "assert_grantable issuer role = Inr ()"
  shows "role \<in> set tenant_grantable_roles" "set (scopes_of role) \<subseteq> set issuer"
    "map_of role_scopes role = Some (scopes_of role)"
  using assms by (auto simp: assert_grantable_def scopes_of_def list_all_iff split: option.splits if_splits)

lemma create_key_ok:
  assumes "create_key sha i pre sec org name role issuer expires db = Inr (db', r, plain)"
  shows "db' = db @ [r]" "ak_role r = role" "set (ak_scopes r) = set (scopes_of role)" "ak_org r = org"
    "ak_id r = i" "ak_prefix r = pre" "ak_hash r = sha plain" "ak_status r = KActive"
    "ak_expires_at r = expires" "plain = ''dfk_'' @ pre @ ''_'' @ sec"
    "\<And>s. issuer = Some s \<Longrightarrow> assert_grantable s role = Inr ()"
  using assms
  by (auto simp: create_key_def generate_key_def Let_def scopes_of_def guard_simps split: option.splits)

text \<open>
  C3. No privilege escalation through key minting: a key created on behalf of an issuer carries only
  scopes the issuer itself holds, has a tenant-grantable role, and carries no platform scope and no
  judge scope, whatever the issuer holds.
\<close>

theorem minted_key_never_exceeds_issuer:
  assumes "create_key sha i pre sec org name role (Some issuer) expires db = Inr (db', r, plain)"
  shows "set (ak_scopes r) \<subseteq> set issuer \<and> ak_role r \<in> set tenant_grantable_roles \<and>
    set (ak_scopes r) \<inter> set platform_permissions = {} \<and> set (ak_scopes r) \<inter> set judge_permissions = {}"
proof -
  note k = create_key_ok [OF assms]
  note g = assert_grantable_ok [OF k(11) [OF refl]]
  have "disjoint_scopes (scopes_of role) platform_permissions \<and>
      disjoint_scopes (scopes_of role) judge_permissions"
    using grantable_scopes_tenant g(1) by (simp only: list_all_iff)
  then show ?thesis using k(2,3) g(1,2) by (simp add: disjoint_scopes_iff)
qed

theorem minted_key_never_exceeds_issuer_witness:
  "\<exists>db' r plain. create_key (\<lambda>s. s) 1 ''ab'' ''s'' 7 ''ci'' ''service'' (Some permissions) None [] = Inr (db', r, plain) \<and>
     set (ak_scopes r) \<subseteq> set permissions"
proof -
  have g: "assert_grantable permissions ''service'' = Inr ()" by code_simp
  have s: "map_of role_scopes ''service'' = Some (scopes_of ''service'')" by (rule assert_grantable_ok(3) [OF g])
  obtain db' r plain where c:
    "create_key (\<lambda>s. s) 1 ''ab'' ''s'' 7 ''ci'' ''service'' (Some permissions) None [] = Inr (db', r, plain)"
    using g s by (simp add: create_key_def generate_key_def Let_def)
  from minted_key_never_exceeds_issuer [OF c] c show ?thesis by blast
qed

lemma key_authenticate_ok:
  assumes "key_authenticate sha now plain db = Inr (db', ctx)"
  shows "\<exists>r \<in> set db. ak_hash r = sha plain \<and> ak_status r = KActive \<and>
    (\<forall>e. ak_expires_at r = Some e \<longrightarrow> now \<le> e) \<and> ctx_org ctx = ak_org r \<and> ctx_scopes ctx = ak_scopes r \<and>
    ctx_role ctx = ak_role r \<and> ctx_key_id ctx = Some (ak_id r)"
proof -
  from assms obtain r where r: "find (\<lambda>r. ak_prefix r = key_prefix_of plain) db = Some r"
    by (auto simp: key_authenticate_def split: option.splits)
  have "r \<in> set db" using find_Some_mem [OF r] by blast
  moreover have "ak_hash r = sha plain \<and> ak_status r = KActive \<and>
    (\<forall>e. ak_expires_at r = Some e \<longrightarrow> now \<le> e) \<and> ctx_org ctx = ak_org r \<and> ctx_scopes ctx = ak_scopes r \<and>
    ctx_role ctx = ak_role r \<and> ctx_key_id ctx = Some (ak_id r)"
    using assms r by (auto simp: key_authenticate_def split: if_splits option.splits)
  ultimately show ?thesis by blast
qed

lemma match_org_ok:
  "match_org uuid_of h org st = (st', Inr u) \<Longrightarrow> st' = st \<and> (\<forall>v. h = Some v \<longrightarrow> uuid_of v = Some org)"
  by (auto simp: match_org_def parse_org_def split: option.splits prod.splits sum.splits if_splits)

text \<open>
  With authentication enabled outside development, and for a key that is not an environment
  binding, a request passes \<open>require_scope\<close> only on the strength of a stored key whose hash matches,
  that is active and not expired, that carries the scope, and whose organization is the one the
  request runs as and the one any organization header names.
\<close>

theorem require_scope_sound:
  assumes "auth_enabled settings" and "\<not> is_development settings"
    and "map_of (api_key_bindings settings) key = None"
    and "require_scope sha uuid_of settings now scope (Some key) header st = (st', Inr ctx)"
  shows "(\<exists>r \<in> set (st_keys st). ak_hash r = sha key \<and> ak_status r = KActive \<and>
            (\<forall>e. ak_expires_at r = Some e \<longrightarrow> now \<le> e) \<and> scope \<in> set (ak_scopes r) \<and>
            ctx_scopes ctx = ak_scopes r \<and> ctx_org ctx = ak_org r) \<and>
         (\<forall>v. header = Some v \<longrightarrow> uuid_of v = Some (ctx_org ctx))"
proof -
  from assms(4) have a: "authenticate_request sha uuid_of settings now (Some key) header st = (st', Inr ctx)"
    and sc: "scope \<in> set (ctx_scopes ctx)"
    by (auto simp: require_scope_def split: prod.splits sum.splits if_splits)
  from a assms(1-3) obtain keys' where k: "key_authenticate sha now key (st_keys st) = Inr (keys', ctx)"
    and m: "match_org uuid_of header (ctx_org ctx) (st\<lparr>st_keys := keys'\<rparr>) = (st', Inr ())"
    by (auto simp: authenticate_request_def split: option.splits if_splits sum.splits prod.splits auth_error.splits)
  show ?thesis using key_authenticate_ok [OF k] match_org_ok [OF m] sc by metis
qed

definition prod_settings :: access_settings where
  "prod_settings = \<lparr>auth_enabled = True, is_development = False, demo_api_key = ''d'', api_key_bindings = [],
     bootstrap_keys_enabled = False, bootstrap_expires_at = None\<rparr>"

definition sample_key :: api_key where
  "sample_key = \<lparr>ak_id = 4, ak_org = 9, ak_prefix = ''ab'', ak_hash = ''dfk_ab_x'', ak_name = ''k'',
     ak_role = ''demo'', ak_scopes = [''demo:run''], ak_status = KActive, ak_expires_at = Some 100,
     ak_last_used_at = None\<rparr>"

theorem require_scope_sound_witness:
  "\<exists>st' ctx. require_scope (\<lambda>s. s) (\<lambda>s. Some (length s)) prod_settings 50 ''demo:run'' (Some ''dfk_ab_x'')
      (Some ''123456789'') \<lparr>st_keys = [sample_key], st_audit = []\<rparr> = (st', Inr ctx) \<and> ctx_org ctx = 9"
proof -
  let ?st = "\<lparr>st_keys = [sample_key], st_audit = []\<rparr>"
  have p: "key_prefix_of ''dfk_ab_x'' = ''ab''" by code_simp
  obtain st' ctx where c: "require_scope (\<lambda>s. s) (\<lambda>s. Some (length s)) prod_settings 50 ''demo:run''
      (Some ''dfk_ab_x'') (Some ''123456789'') ?st = (st', Inr ctx)"
    by (simp add: require_scope_def authenticate_request_def prod_settings_def key_authenticate_def p
        sample_key_def match_org_def parse_org_def)
  show ?thesis
    using require_scope_sound [OF _ _ _ c] c by (auto simp: prod_settings_def)
qed

lemma prefix_of_generated:
  assumes "CHR ''_'' \<notin> set pre"
  shows "key_prefix_of (''dfk_'' @ pre @ ''_'' @ sec) = pre"
proof -
  have "split_on CHR ''_'' (''dfk'' @ CHR ''_'' # (pre @ CHR ''_'' # sec)) =
      ''dfk'' # split_on CHR ''_'' (pre @ CHR ''_'' # sec)"
    by (rule split_on_append_sep) simp
  also have "\<dots> = ''dfk'' # pre # split_on CHR ''_'' sec"
    using assms by (simp add: split_on_append_sep)
  finally show ?thesis by (simp add: key_prefix_of_def startswith_def)
qed

lemma find_fresh: "\<forall>x \<in> set xs. \<not> P x \<Longrightarrow> P y \<Longrightarrow> find P (xs @ [y]) = Some y"
  by (induction xs) auto

text \<open>
  The life of a key: a freshly created key, whose random prefix is new and free of underscores and
  whose id is new, authenticates until its expiry with exactly its role's scopes; once it is revoked
  it never authenticates again.
\<close>

theorem key_lifecycle:
  assumes "create_key sha i pre sec org name role issuer expires db = Inr (db1, r, plain)"
    and "CHR ''_'' \<notin> set pre" and "pre \<notin> ak_prefix ` set db" and "i \<notin> ak_id ` set db"
    and "\<forall>e. expires = Some e \<longrightarrow> now \<le> e"
  shows "(\<exists>db2 ctx. key_authenticate sha now plain db1 = Inr (db2, ctx) \<and> ctx_org ctx = org \<and>
            set (ctx_scopes ctx) = set (scopes_of role)) \<and>
         (\<exists>db3. revoke_key org i db1 = (db3, True) \<and>
            key_authenticate sha later plain db3 = Inl (AuthError 401 ''API key is not active''))"
proof
  note k = create_key_ok [OF assms(1)]
  have pre: "key_prefix_of plain = pre" using prefix_of_generated [OF assms(2)] k(10) by simp
  have fresh: "\<forall>x \<in> set db. ak_prefix x \<noteq> pre" "\<forall>x \<in> set db. ak_id x \<noteq> i" using assms(3,4) by auto
  have found: "find (\<lambda>x. ak_prefix x = pre) (db @ [r]) = Some r"
    by (rule find_fresh) (use fresh k(6) in auto)
  show "\<exists>db2 ctx. key_authenticate sha now plain db1 = Inr (db2, ctx) \<and> ctx_org ctx = org \<and>
            set (ctx_scopes ctx) = set (scopes_of role)"
  proof -
    have "\<not> (case ak_expires_at r of None \<Rightarrow> False | Some e \<Rightarrow> e < now)"
      using assms(5) k(9) by (auto split: option.splits)
    then show ?thesis using found k(3,4,7,8) by (simp add: key_authenticate_def pre k(1))
  qed
  let ?r = "r\<lparr>ak_status := KRevoked\<rparr>"
  have upd: "update_key i (\<lambda>x. x\<lparr>ak_status := KRevoked\<rparr>) (db @ [r]) = db @ [?r]"
    using fresh(2) k(5) by (simp add: update_key_def map_idI)
  have byid: "find (\<lambda>x. ak_id x = i) (db @ [r]) = Some r"
    by (rule find_fresh) (use fresh k(5) in auto)
  have rev: "revoke_key org i db1 = (db @ [?r], True)"
    using byid upd k(1,4) by (simp add: revoke_key_def)
  have "find (\<lambda>x. ak_prefix x = pre) (db @ [?r]) = Some ?r"
    by (rule find_fresh) (use fresh k(6) in auto)
  then have "key_authenticate sha later plain (db @ [?r]) = Inl (AuthError 401 ''API key is not active'')"
    using k(7) by (simp add: key_authenticate_def pre)
  then show "\<exists>db3. revoke_key org i db1 = (db3, True) \<and>
      key_authenticate sha later plain db3 = Inl (AuthError 401 ''API key is not active'')"
    using rev by blast
qed

theorem key_lifecycle_witness:
  "\<exists>db1 r plain db3. create_key (\<lambda>s. s) 5 ''cd'' ''s'' 7 ''bot'' ''demo'' None (Some 90) [sample_key] = Inr (db1, r, plain) \<and>
     revoke_key 7 5 db1 = (db3, True) \<and>
     key_authenticate (\<lambda>s. s) 60 plain db3 = Inl (AuthError 401 ''API key is not active'')"
proof -
  have s: "map_of role_scopes ''demo'' = Some (scopes_of ''demo'')" by code_simp
  obtain db1 r plain where c:
    "create_key (\<lambda>s. s) 5 ''cd'' ''s'' 7 ''bot'' ''demo'' None (Some 90) [sample_key] = Inr (db1, r, plain)"
    using s by (simp add: create_key_def generate_key_def Let_def)
  show ?thesis
    using key_lifecycle [OF c, of 50 60] c by (auto simp: sample_key_def)
qed

end
