(* ===== verification/Signing.thy ===== *)
theory Signing
  imports Prelude
begin

text \<open>
  The canonical request of \<open>monitor-signature-v1\<close> (\<open>services/monitor_signing.py\<close>) and the HMAC
  comparison over it. SHA-256 (as lower-case hex) and HMAC-SHA256 are arguments; request bytes are
  a \<^typ>\<open>string\<close>, one character per byte.
\<close>

definition upper_char :: "char \<Rightarrow> char" where
  "upper_char c = (let n = (of_char c :: nat) in if 97 \<le> n \<and> n \<le> 122 then char_of (n - 32) else c)"

definition py_upper :: "string \<Rightarrow> string" where
  "py_upper s = map upper_char s"

definition newline :: char where "newline = CHR 0x0A"

definition signature_version :: string where "signature_version = ''monitor-signature-v1''"

definition canonical_request ::
  "(string \<Rightarrow> string) \<Rightarrow> string \<Rightarrow> string \<Rightarrow> string \<Rightarrow> string \<Rightarrow> string \<Rightarrow> string \<Rightarrow> string \<Rightarrow> string" where
  "canonical_request sha_hex method path organization_id monitor_id timestamp nonce body =
     join_with [newline]
       [signature_version, py_upper method, path, organization_id, monitor_id, timestamp, nonce, sha_hex body]"

definition sign :: "(string \<Rightarrow> string \<Rightarrow> string) \<Rightarrow> string \<Rightarrow> string \<Rightarrow> string" where
  "sign hmac secret canonical = hmac secret canonical"

definition verify_signature :: "(string \<Rightarrow> string \<Rightarrow> string) \<Rightarrow> string \<Rightarrow> string \<Rightarrow> string \<Rightarrow> bool" where
  "verify_signature hmac secret canonical provided_signature \<longleftrightarrow> sign hmac secret canonical = provided_signature"

lemma join_with_inj:
  assumes "join_with [d] ws = join_with [d] vs" and "ws \<noteq> []" "vs \<noteq> []"
    and "\<forall>w \<in> set ws. d \<notin> set w" "\<forall>w \<in> set vs. d \<notin> set w"
  shows "ws = vs"
  using assms split_join by metis

lemma upper_char_newline: "upper_char c = newline \<longleftrightarrow> c = newline"
proof -
  have ten: "of_char newline = (10 :: nat)" by (simp add: newline_def)
  have "of_char (upper_char c) = (10 :: nat) \<longleftrightarrow> of_char c = (10 :: nat)"
    by (auto simp: upper_char_def Let_def)
  then show ?thesis using ten by (metis char_of_char)
qed

lemma newline_py_upper: "newline \<in> set (py_upper s) \<longleftrightarrow> newline \<in> set s"
  by (induction s) (auto simp: py_upper_def upper_char_newline eq_commute [of newline])

definition line :: "string \<Rightarrow> bool" where
  "line s \<longleftrightarrow> newline \<notin> set s"

lemma canonical_fields:
  assumes "canonical_request sha m p org mon ts n b = canonical_request sha m' p' org' mon' ts' n' b'"
    and "list_all line [m, p, org, mon, ts, n, m', p', org', mon', ts', n']"
    and "\<forall>x. line (sha x)"
  shows "py_upper m = py_upper m' \<and> p = p' \<and> org = org' \<and> mon = mon' \<and> ts = ts' \<and> n = n' \<and> sha b = sha b'"
proof -
  have v: "newline \<notin> set signature_version" by code_simp
  have "[signature_version, py_upper m, p, org, mon, ts, n, sha b] =
        [signature_version, py_upper m', p', org', mon', ts', n', sha b']"
    by (rule join_with_inj [OF assms(1) [unfolded canonical_request_def]])
      (use assms(2,3) v in \<open>auto simp: line_def newline_py_upper\<close>)
  then show ?thesis by simp
qed

end
