(* ===== verification/Enrollment.thy ===== *)
theory Enrollment
  imports Access Signing Agent_Rules
begin

text \<open>
  Sensor enrollment, signed-request verification and revocation, for agent sensors
  (\<open>services/agent_sensor/service.py\<close>) and browser sensors (\<open>services/browser_sensor/service.py\<close>).
  The two services are the same code over different record types, so one group of definitions is
  shared and the service-specific columns are the type parameter of \<open>sensor\<close>. The uniqueness of the
  random values is not assumed; they are arguments, as are the hash, the cipher and HMAC. The
  enrollment is split where the code's transaction can be interleaved: between the read of the token
  and the conditional \<open>UPDATE\<close> that consumes it.
\<close>

subsection \<open>State\<close>

datatype enrollment_error = EnrollmentError nat string

datatype signature_error = SignatureError nat string

record enroll_token =
  tk_id :: uuid
  tk_org :: org_id
  tk_hash :: string
  tk_created_by :: "uuid option"
  tk_expires_at :: datetime
  tk_consumed_at :: "datetime option"
  tk_consumed_by :: "uuid option"

record 'x sensor =
  sn_id :: uuid
  sn_org :: org_id
  sn_public_id :: string
  sn_name :: string
  sn_extra :: 'x
  sn_secret_ciphertext :: string
  sn_key_version :: string
  sn_status :: sensor_status
  sn_api_key_id :: "uuid option"
  sn_last_seen_at :: datetime
  sn_updated_at :: "datetime option"

record 'x enroll_state =
  es_tokens :: "enroll_token list"
  es_sensors :: "'x sensor list"
  es_keys :: "api_key list"

text \<open>The random and identity values one enrollment draws.\<close>

record enroll_draw =
  dr_sensor_id :: uuid
  dr_public :: string
  dr_secret :: string
  dr_key_id :: uuid
  dr_key_prefix :: string
  dr_key_secret :: string

subsection \<open>Enrollment\<close>

definition create_enrollment_token ::
  "(string \<Rightarrow> string) \<Rightarrow> int \<Rightarrow> datetime \<Rightarrow> uuid \<Rightarrow> string \<Rightarrow> org_id \<Rightarrow> uuid option \<Rightarrow> 'x enroll_state \<Rightarrow>
   'x enroll_state \<times> enroll_token \<times> string" where
  "create_enrollment_token sha ttl now new_id plaintext organization_id created_by st =
     (let r = \<lparr>tk_id = new_id, tk_org = organization_id, tk_hash = sha plaintext, tk_created_by = created_by,
               tk_expires_at = now + seconds ttl, tk_consumed_at = None, tk_consumed_by = None\<rparr>
      in (st\<lparr>es_tokens := es_tokens st @ [r]\<rparr>, r, plaintext))"

definition enroll_begin ::
  "(string \<Rightarrow> string) \<Rightarrow> datetime \<Rightarrow> string \<Rightarrow> 'x enroll_state \<Rightarrow> enrollment_error + enroll_token" where
  "enroll_begin sha now token st =
     (case find (\<lambda>r. tk_hash r = sha token) (es_tokens st) of
        None \<Rightarrow> Inl (EnrollmentError 404 ''unknown enrollment token'')
      | Some r \<Rightarrow>
          if tk_consumed_at r \<noteq> None then Inl (EnrollmentError 409 ''enrollment token already used'')
          else if tk_expires_at r < now then Inl (EnrollmentError 410 ''enrollment token expired'')
          else Inr r)"

text \<open>\<open>UPDATE ... SET consumed_at WHERE id = :id AND consumed_at IS NULL\<close>, with its row count.\<close>

definition consume_token :: "uuid \<Rightarrow> datetime \<Rightarrow> enroll_token list \<Rightarrow> enroll_token list \<times> nat" where
  "consume_token i now toks =
     (map (\<lambda>t. if tk_id t = i \<and> tk_consumed_at t = None then t\<lparr>tk_consumed_at := Some now\<rparr> else t) toks,
      length (filter (\<lambda>t. tk_id t = i \<and> tk_consumed_at t = None) toks))"

definition enroll_finish ::
  "(string \<Rightarrow> string) \<Rightarrow> (string \<Rightarrow> string) \<Rightarrow> string \<Rightarrow> string \<Rightarrow> string \<Rightarrow> string \<Rightarrow> datetime \<Rightarrow> enroll_token \<Rightarrow> enroll_draw \<Rightarrow>
   string \<Rightarrow> 'x \<Rightarrow> 'x enroll_state \<Rightarrow> 'x enroll_state \<times> (enrollment_error + 'x sensor \<times> string \<times> string)" where
  "enroll_finish sha encrypt key_version pub_tag key_tag role now record draw name extra st =
     (let (toks, rowcount) = consume_token (tk_id record) now (es_tokens st) in
      if rowcount \<noteq> 1 then (st, Inl (EnrollmentError 409 ''enrollment token already used''))
      else
        let public_id = pub_tag @ dr_public draw in
        case create_key sha (dr_key_id draw) (dr_key_prefix draw) (dr_key_secret draw) (tk_org record)
               (key_tag @ public_id) role None None (es_keys st) of
          Inl (AuthError c m) \<Rightarrow> (st, Inl (EnrollmentError c m))
        | Inr (keys, key_record, key_plain) \<Rightarrow>
            let s = \<lparr>sn_id = dr_sensor_id draw, sn_org = tk_org record, sn_public_id = public_id,
                     sn_name = take 128 name, sn_extra = extra,
                     sn_secret_ciphertext = encrypt (dr_secret draw), sn_key_version = key_version,
                     sn_status = SActive, sn_api_key_id = Some (ak_id key_record),
                     sn_last_seen_at = now, sn_updated_at = None\<rparr>;
                toks' = map (\<lambda>t. if tk_id t = tk_id record then t\<lparr>tk_consumed_by := Some (sn_id s)\<rparr> else t) toks
            in (\<lparr>es_tokens = toks', es_sensors = es_sensors st @ [s], es_keys = keys\<rparr>,
                Inr (s, dr_secret draw, key_plain)))"

definition enroll ::
  "(string \<Rightarrow> string) \<Rightarrow> (string \<Rightarrow> string) \<Rightarrow> string \<Rightarrow> string \<Rightarrow> string \<Rightarrow> string \<Rightarrow> datetime \<Rightarrow> string \<Rightarrow> enroll_draw \<Rightarrow>
   string \<Rightarrow> 'x \<Rightarrow> 'x enroll_state \<Rightarrow> 'x enroll_state \<times> (enrollment_error + 'x sensor \<times> string \<times> string)" where
  "enroll sha encrypt key_version pub_tag key_tag role now token draw name extra st =
     (case enroll_begin sha now token st of
        Inl e \<Rightarrow> (st, Inl e)
      | Inr record \<Rightarrow> enroll_finish sha encrypt key_version pub_tag key_tag role now record draw name extra st)"

type_synonym agent_extra = "string \<times> string"
type_synonym browser_extra = "string \<times> string option \<times> string \<times> string"

definition agent_enroll where
  "agent_enroll sha encrypt key_version now token draw name adapter_type version st =
     enroll sha encrypt key_version ''dfa_'' ''agent-sensor:'' ''agent_sensor'' now token draw name
       (take 48 adapter_type, take 32 version) (st :: agent_extra enroll_state)"

definition browser_enroll where
  "browser_enroll sha encrypt key_version now token draw name installation_id browser_family
      extension_version device_label st =
     enroll sha encrypt key_version ''dfs_'' ''browser-sensor:'' ''browser_sensor'' now token draw name
       (take 128 installation_id,
        (case device_label of None \<Rightarrow> None | Some d \<Rightarrow> if d = [] then None else Some (take 128 d)),
        take 32 browser_family, take 32 extension_version) (st :: browser_extra enroll_state)"

subsection \<open>Lifecycle\<close>

definition get_sensor :: "org_id \<Rightarrow> uuid \<Rightarrow> 'x enroll_state \<Rightarrow> 'x sensor option" where
  "get_sensor organization_id sensor_id st =
     (case find (\<lambda>s. sn_id s = sensor_id) (es_sensors st) of
        None \<Rightarrow> None
      | Some s \<Rightarrow> if sn_org s \<noteq> organization_id then None else Some s)"

definition update_sensor :: "uuid \<Rightarrow> ('x sensor \<Rightarrow> 'x sensor) \<Rightarrow> 'x enroll_state \<Rightarrow> 'x enroll_state" where
  "update_sensor i f st = st\<lparr>es_sensors := map (\<lambda>s. if sn_id s = i then f s else s) (es_sensors st)\<rparr>"

definition revoke_sensor ::
  "datetime \<Rightarrow> 'x sensor \<Rightarrow> 'x enroll_state \<Rightarrow> sensor_transition_error + 'x enroll_state" where
  "revoke_sensor now s st =
     and_then (sensor_assert (sn_status s) SRevoked) (\<lambda>_.
       let st1 = update_sensor (sn_id s) (\<lambda>r. r\<lparr>sn_status := SRevoked, sn_updated_at := Some now\<rparr>) st in
       Inr (case sn_api_key_id s of
              None \<Rightarrow> st1
            | Some k \<Rightarrow> st1\<lparr>es_keys := fst (revoke_key (sn_org s) k (es_keys st1))\<rparr>))"

definition rotate_secret ::
  "(string \<Rightarrow> string) \<Rightarrow> string \<Rightarrow> datetime \<Rightarrow> string \<Rightarrow> 'x sensor \<Rightarrow> 'x enroll_state \<Rightarrow>
   enrollment_error + 'x enroll_state \<times> string" where
  "rotate_secret encrypt key_version now new_secret s st =
     (if sn_status s = SRevoked then Inl (EnrollmentError 409 ''cannot rotate a revoked sensor'')
      else Inr (update_sensor (sn_id s) (\<lambda>r. r\<lparr>sn_secret_ciphertext := encrypt new_secret,
                  sn_key_version := key_version, sn_updated_at := Some now\<rparr>) st, new_secret))"

definition touch_sensor :: "datetime \<Rightarrow> ('x \<Rightarrow> 'x) \<Rightarrow> 'x sensor \<Rightarrow> 'x enroll_state \<Rightarrow> 'x enroll_state" where
  "touch_sensor now set_version s st =
     update_sensor (sn_id s) (\<lambda>r. r\<lparr>sn_last_seen_at := now, sn_extra := set_version (sn_extra r)\<rparr>) st"

subsection \<open>Signed requests\<close>

record signed_request =
  rq_public_id :: "string option"
  rq_timestamp :: "string option"
  rq_nonce :: "string option"
  rq_signature :: "string option"
  rq_method :: string
  rq_path :: string
  rq_body :: string

definition canonical_of :: "(string \<Rightarrow> string) \<Rightarrow> (org_id \<Rightarrow> string) \<Rightarrow> org_id \<Rightarrow> signed_request \<Rightarrow> string" where
  "canonical_of sha str_of organization_id rq =
     canonical_request sha (rq_method rq) (rq_path rq) (str_of organization_id) (or_empty (rq_public_id rq))
       (or_empty (rq_timestamp rq)) (or_empty (rq_nonce rq)) (rq_body rq)"

definition verify_request ::
  "(string \<Rightarrow> string) \<Rightarrow> (string \<Rightarrow> string \<Rightarrow> string) \<Rightarrow> (string \<Rightarrow> string option) \<Rightarrow> (org_id \<Rightarrow> string) \<Rightarrow> datetime \<Rightarrow>
   org_id \<Rightarrow> signed_request \<Rightarrow> 'x enroll_state \<Rightarrow> signature_error + 'x enroll_state \<times> (uuid \<times> string \<times> org_id)" where
  "verify_request sha hmac decrypt str_of now organization_id rq st =
     (if or_empty (rq_public_id rq) = [] \<or> or_empty (rq_timestamp rq) = [] \<or> or_empty (rq_nonce rq) = [] \<or>
         or_empty (rq_signature rq) = []
      then Inl (SignatureError 401 ''missing sensor signature headers'')
      else case find (\<lambda>s. sn_public_id s = or_empty (rq_public_id rq)) (es_sensors st) of
        None \<Rightarrow> Inl (SignatureError 401 ''unknown sensor'')
      | Some s \<Rightarrow>
          if sn_org s \<noteq> organization_id then Inl (SignatureError 403 ''sensor does not match organization'')
          else if sn_status s \<noteq> SActive then Inl (SignatureError 401 ''sensor is not active'')
          else case decrypt (sn_secret_ciphertext s) of
            None \<Rightarrow> Inl (SignatureError 500 ''sensor credential unreadable'')
          | Some secret \<Rightarrow>
              if \<not> verify_signature hmac secret (canonical_of sha str_of organization_id rq) (or_empty (rq_signature rq))
              then Inl (SignatureError 401 ''invalid sensor signature'')
              else Inr (update_sensor (sn_id s) (\<lambda>r. r\<lparr>sn_last_seen_at := now\<rparr>) st,
                        (sn_id s, or_empty (rq_public_id rq), organization_id)))"

subsection \<open>What enrollment guarantees\<close>

record 'x finish_attempt =
  fa_now :: datetime
  fa_record :: enroll_token
  fa_draw :: enroll_draw
  fa_name :: string
  fa_extra :: 'x

text \<open>
  Requests race between \<open>enroll_begin\<close> and \<open>enroll_finish\<close>; a run is the sequence in which their
  second halves commit, each with the token row it read earlier.
\<close>

fun run_finish ::
  "(string \<Rightarrow> string) \<Rightarrow> (string \<Rightarrow> string) \<Rightarrow> string \<Rightarrow> string \<Rightarrow> string \<Rightarrow> string \<Rightarrow> 'x finish_attempt list \<Rightarrow>
   'x enroll_state \<Rightarrow> (enrollment_error + 'x sensor \<times> string \<times> string) list" where
  "run_finish sha encrypt kv pub_tag key_tag role [] st = []"
| "run_finish sha encrypt kv pub_tag key_tag role (a # attempts) st =
     (let (st', r) = enroll_finish sha encrypt kv pub_tag key_tag role (fa_now a) (fa_record a) (fa_draw a)
                       (fa_name a) (fa_extra a) st
      in r # run_finish sha encrypt kv pub_tag key_tag role attempts st')"

definition unconsumed :: "uuid \<Rightarrow> enroll_token list \<Rightarrow> nat" where
  "unconsumed i toks = length (filter (\<lambda>t. tk_id t = i \<and> tk_consumed_at t = None) toks)"

lemma unconsumed_map_by:
  "unconsumed i (map (\<lambda>t. if tk_id t = k then t\<lparr>tk_consumed_by := c\<rparr> else t) toks) = unconsumed i toks"
  by (induction toks) (auto simp: unconsumed_def)

lemma unconsumed_consume:
  "unconsumed i (fst (consume_token k now toks)) = (if i = k then 0 else unconsumed i toks)"
proof (cases "i = k")
  case True
  then show ?thesis by (auto simp: unconsumed_def consume_token_def filter_empty_conv)
next
  case False
  then show ?thesis by (induction toks) (simp_all add: unconsumed_def consume_token_def)
qed

lemma enroll_finish_ok:
  assumes "enroll_finish sha encrypt kv pub_tag key_tag role now rec draw name extra st = (st', Inr (s, sec, plain))"
  shows "unconsumed (tk_id rec) (es_tokens st) = 1"
    "unconsumed i (es_tokens st') = (if i = tk_id rec then 0 else unconsumed i (es_tokens st))"
    "es_sensors st' = es_sensors st @ [s]" "sn_org s = tk_org rec" "sn_status s = SActive"
    "\<exists>k. create_key sha (dr_key_id draw) (dr_key_prefix draw) (dr_key_secret draw) (tk_org rec)
           (key_tag @ pub_tag @ dr_public draw) role None None (es_keys st) = Inr (es_keys st', k, plain) \<and>
         sn_api_key_id s = Some (ak_id k)"
proof -
  obtain toks n where c: "consume_token (tk_id rec) now (es_tokens st) = (toks, n)" by fastforce
  have u1: "unconsumed i toks = (if i = tk_id rec then 0 else unconsumed i (es_tokens st))"
    using unconsumed_consume [of i "tk_id rec" now "es_tokens st"] by (simp only: c fst_conv)
  have "snd (consume_token (tk_id rec) now (es_tokens st)) = unconsumed (tk_id rec) (es_tokens st)"
    by (simp add: consume_token_def unconsumed_def)
  then have u2: "n = unconsumed (tk_id rec) (es_tokens st)" by (simp only: c snd_conv)
  note d = assms [unfolded enroll_finish_def Let_def c prod.case]
  from d have n: "n = 1" by (simp split: if_splits)
  then show "unconsumed (tk_id rec) (es_tokens st) = 1" using u2 by simp
  from d n obtain keys k where k: "create_key sha (dr_key_id draw) (dr_key_prefix draw) (dr_key_secret draw) (tk_org rec)
      (key_tag @ pub_tag @ dr_public draw) role None None (es_keys st) = Inr (keys, k, plain)"
    by (auto split: sum.splits auth_error.splits prod.splits)
  note d' = d [unfolded k sum.case prod.case]
  show "unconsumed i (es_tokens st') = (if i = tk_id rec then 0 else unconsumed i (es_tokens st))"
    using d' n u1 by (auto simp: unconsumed_map_by)
  show "es_sensors st' = es_sensors st @ [s]" "sn_org s = tk_org rec" "sn_status s = SActive"
    using d' n by auto
  show "\<exists>k. create_key sha (dr_key_id draw) (dr_key_prefix draw) (dr_key_secret draw) (tk_org rec)
           (key_tag @ pub_tag @ dr_public draw) role None None (es_keys st) = Inr (es_keys st', k, plain) \<and>
         sn_api_key_id s = Some (ak_id k)"
    using k d' n by auto
qed

lemma enroll_finish_err:
  "enroll_finish sha encrypt kv pub_tag key_tag role now rec draw name extra st = (st', Inl e) \<Longrightarrow> st' = st"
  by (auto simp: enroll_finish_def Let_def split: if_splits sum.splits auth_error.splits prod.splits)

lemma run_finish_count:
  "length (filter (\<lambda>(a, r). tk_id (fa_record a) = i \<and> is_ok r)
     (zip attempts (run_finish sha encrypt kv pub_tag key_tag role attempts st))) \<le>
   of_bool (unconsumed i (es_tokens st) = 1)"
proof (induction attempts arbitrary: st)
  case (Cons a attempts)
  obtain st' r where f: "enroll_finish sha encrypt kv pub_tag key_tag role (fa_now a) (fa_record a) (fa_draw a)
      (fa_name a) (fa_extra a) st = (st', r)" by fastforce
  have eq: "run_finish sha encrypt kv pub_tag key_tag role (a # attempts) st =
      r # run_finish sha encrypt kv pub_tag key_tag role attempts st'" by (simp add: f)
  show ?case
  proof (cases r)
    case (Inl e)
    then have "st' = st" using f enroll_finish_err by metis
    then show ?thesis unfolding eq using Cons [of st'] Inl by simp
  next
    case (Inr res)
    obtain s sec plain where res: "res = (s, sec, plain)" by (cases res) auto
    note ok1 = enroll_finish_ok(1) [OF f [unfolded Inr res]]
    note ok2 = enroll_finish_ok(2) [OF f [unfolded Inr res], where i = i]
    show ?thesis unfolding eq using Cons [of st'] Inr ok1 ok2 by (auto split: if_splits)
  qed
qed simp

text \<open>
  C4. An enrollment token is single-use even when requests race between reading the token and
  consuming it: in any order of commits, at most one attempt on a given token provisions a sensor.
\<close>

theorem enrollment_token_single_use:
  "length (filter (\<lambda>(a, r). tk_id (fa_record a) = i \<and> is_ok r)
     (zip attempts (run_finish sha encrypt kv pub_tag key_tag role attempts st))) \<le> 1"
  by (rule order_trans [OF run_finish_count]) (simp add: of_bool_def)

lemma verify_request_ok:
  assumes "verify_request sha hmac decrypt str_of now org rq st = Inr (st', i, pid, o')"
  shows "\<exists>s secret. s \<in> set (es_sensors st) \<and> sn_id s = i \<and> sn_public_id s = or_empty (rq_public_id rq) \<and>
     sn_org s = org \<and> sn_status s = SActive \<and> decrypt (sn_secret_ciphertext s) = Some secret \<and>
     or_empty (rq_signature rq) = hmac secret (canonical_of sha str_of org rq) \<and> o' = org"
proof -
  from assms obtain s where f: "find (\<lambda>s. sn_public_id s = or_empty (rq_public_id rq)) (es_sensors st) = Some s"
    by (auto simp: verify_request_def split: if_splits option.splits)
  from assms f show ?thesis
    using find_Some_mem [OF f]
    by (fastforce simp: verify_request_def verify_signature_def sign_def split: if_splits option.splits)
qed

definition single_lines :: "(org_id \<Rightarrow> string) \<Rightarrow> org_id \<Rightarrow> signed_request \<Rightarrow> bool" where
  "single_lines str_of org rq \<longleftrightarrow> list_all line [rq_method rq, rq_path rq, str_of org, or_empty (rq_public_id rq),
     or_empty (rq_timestamp rq), or_empty (rq_nonce rq)]"

text \<open>
  A signature binds the request: when a request is accepted with a signature that the sensor made
  for some request \<open>rq0\<close>, the two agree on the upper-cased method, path, organization, sensor,
  timestamp, nonce and body hash, and the sensor is an active one of the caller's organization. (HMAC
  under the sensor's secret is taken to be collision-free.)
\<close>

theorem signature_binds_request:
  assumes "verify_request sha hmac decrypt str_of now org rq st = Inr (st', i, pid, o')"
    and "\<forall>secret. inj (hmac secret)" and "\<forall>x. line (sha x)"
    and "single_lines str_of org rq" and "single_lines str_of org0 rq0"
    and "\<forall>s \<in> set (es_sensors st). sn_public_id s = or_empty (rq_public_id rq) \<longrightarrow>
           (\<exists>secret. decrypt (sn_secret_ciphertext s) = Some secret \<and>
              or_empty (rq_signature rq) = sign hmac secret (canonical_of sha str_of org0 rq0))"
  shows "py_upper (rq_method rq) = py_upper (rq_method rq0) \<and> rq_path rq = rq_path rq0 \<and>
    str_of org = str_of org0 \<and> or_empty (rq_public_id rq) = or_empty (rq_public_id rq0) \<and>
    or_empty (rq_timestamp rq) = or_empty (rq_timestamp rq0) \<and> or_empty (rq_nonce rq) = or_empty (rq_nonce rq0) \<and>
    sha (rq_body rq) = sha (rq_body rq0) \<and>
    (\<exists>s \<in> set (es_sensors st). sn_id s = i \<and> sn_org s = org \<and> sn_status s = SActive)"
proof -
  from verify_request_ok [OF assms(1)] obtain s secret where s: "s \<in> set (es_sensors st)" "sn_id s = i"
    "sn_public_id s = or_empty (rq_public_id rq)" "sn_org s = org" "sn_status s = SActive"
    "decrypt (sn_secret_ciphertext s) = Some secret"
    "or_empty (rq_signature rq) = hmac secret (canonical_of sha str_of org rq)" by blast
  from assms(6) s have "hmac secret (canonical_of sha str_of org rq) = hmac secret (canonical_of sha str_of org0 rq0)"
    by (auto simp: sign_def)
  then have e: "canonical_of sha str_of org rq = canonical_of sha str_of org0 rq0"
    using assms(2) by (meson injD)
  have l: "list_all line [rq_method rq, rq_path rq, str_of org, or_empty (rq_public_id rq),
     or_empty (rq_timestamp rq), or_empty (rq_nonce rq), rq_method rq0, rq_path rq0, str_of org0,
     or_empty (rq_public_id rq0), or_empty (rq_timestamp rq0), or_empty (rq_nonce rq0)]"
    using assms(4,5) by (simp add: single_lines_def)
  have inj: "canonical_request sha m p og mon ts n b = canonical_request sha m' p' og' mon' ts' n' b' \<Longrightarrow>
      list_all line [m, p, og, mon, ts, n, m', p', og', mon', ts', n'] \<Longrightarrow>
      py_upper m = py_upper m' \<and> p = p' \<and> og = og' \<and> mon = mon' \<and> ts = ts' \<and> n = n' \<and> sha b = sha b'"
    for m p og mon ts n b m' p' og' mon' ts' n' b'
    by (rule canonical_fields) (use assms(3) in auto)
  show ?thesis using inj [OF e [unfolded canonical_of_def] l] s(1,2,4,5) by blast
qed

definition demo_sensor :: "agent_extra sensor" where
  "demo_sensor = \<lparr>sn_id = 3, sn_org = 7, sn_public_id = ''dfa_1'', sn_name = ''n'', sn_extra = (''cli'', ''1''),
     sn_secret_ciphertext = ''s'', sn_key_version = ''k'', sn_status = SActive, sn_api_key_id = Some 5,
     sn_last_seen_at = 0, sn_updated_at = None\<rparr>"

definition demo_state :: "agent_extra enroll_state" where
  "demo_state = \<lparr>es_tokens = [], es_sensors = [demo_sensor],
     es_keys = [sample_key\<lparr>ak_id := 5, ak_org := 7\<rparr>]\<rparr>"

definition demo_request :: signed_request where
  "demo_request = \<lparr>rq_public_id = Some ''dfa_1'', rq_timestamp = Some ''1'', rq_nonce = Some ''n'',
     rq_signature = Some (sign (\<lambda>k m. k @ m) ''s''
        (canonical_request (\<lambda>b. ''00'') ''POST'' ''/e'' ''org'' ''dfa_1'' ''1'' ''n'' ''{}'')),
     rq_method = ''POST'', rq_path = ''/e'', rq_body = ''{}''\<rparr>"

lemma demo_accepted:
  "\<exists>st'. verify_request (\<lambda>b. ''00'') (\<lambda>k m. k @ m) Some (\<lambda>_. ''org'') 9 7 demo_request demo_state =
     Inr (st', 3, ''dfa_1'', 7)"
proof -
  have "canonical_request (\<lambda>b. ''00'') ''POST'' ''/e'' ''org'' ''dfa_1'' ''1'' ''n'' ''{}'' \<noteq> []" by code_simp
  then show ?thesis
    by (simp add: verify_request_def demo_request_def demo_state_def demo_sensor_def verify_signature_def
        sign_def canonical_of_def)
qed

theorem signature_binds_request_witness:
  "rq_path demo_request = ''/e'' \<and> (\<exists>s \<in> set (es_sensors demo_state). sn_org s = 7)"
proof -
  obtain st' where v: "verify_request (\<lambda>b. ''00'') (\<lambda>k m. k @ m) Some (\<lambda>_. ''org'') 9 7 demo_request demo_state =
     Inr (st', 3, ''dfa_1'', 7)" using demo_accepted by blast
  have l: "single_lines (\<lambda>_. ''org'') 7 demo_request"
    by (simp add: single_lines_def demo_request_def line_def newline_def)
  show ?thesis
    using signature_binds_request [OF v _ _ l l]
    by (auto simp: inj_def line_def newline_def demo_state_def demo_sensor_def demo_request_def
        canonical_of_def sign_def)
qed

lemma update_key_hit:
  assumes "r \<in> set (update_key k f db)" and "ak_id r = k"
  shows "\<exists>x. r = f x"
proof -
  from assms(1) have "r \<in> (\<lambda>x. if ak_id x = k then f x else x) ` set db"
    by (simp add: update_key_def)
  then obtain x where "r = (if ak_id x = k then f x else x)" by blast
  with assms(2) show ?thesis by (cases "ak_id x = k") auto
qed

text \<open>
  Revoking an active sensor closes both of its credentials at once: no signed request that names
  it is accepted afterwards, and no API key authenticates as its ingest key. A second revocation is
  refused.
\<close>

theorem revoked_sensor_is_shut_out:
  assumes "revoke_sensor now s st = Inr st'"
    and "\<forall>x \<in> set (es_sensors st). sn_public_id x = sn_public_id s \<longrightarrow> sn_id x = sn_id s"
    and "sn_api_key_id s = Some k" and "\<forall>r \<in> set (es_keys st). ak_id r = k \<longrightarrow> ak_org r = sn_org s"
  shows "(\<forall>rq org t0. or_empty (rq_public_id rq) = sn_public_id s \<longrightarrow>
            \<not> is_ok (verify_request sha hmac decrypt str_of t0 org rq st')) \<and>
         (\<forall>t0 plain db ctx. key_authenticate sha t0 plain (es_keys st') = Inr (db, ctx) \<longrightarrow> ctx_key_id ctx \<noteq> Some k) \<and>
         (\<forall>x \<in> set (es_sensors st'). sn_id x = sn_id s \<longrightarrow>
            revoke_sensor now x st' = Inl (InvalidSensorTransition SRevoked SRevoked))"
proof -
  have st': "es_sensors st' = map (\<lambda>x. if sn_id x = sn_id s then x\<lparr>sn_status := SRevoked, sn_updated_at := Some now\<rparr> else x) (es_sensors st)"
    "es_keys st' = fst (revoke_key (sn_org s) k (es_keys st))"
    using assms(1,3) by (auto simp: revoke_sensor_def Let_def update_sensor_def guard_simps)
  have sens: "sn_status x = SRevoked" if "x \<in> set (es_sensors st')" "sn_id x = sn_id s" for x
    using that by (auto simp: st'(1) split: if_splits)
  have sens2: "sn_status x = SRevoked" if "x \<in> set (es_sensors st')" "sn_public_id x = sn_public_id s" for x
    using that assms(2) by (auto simp: st'(1) split: if_splits)
  have keys: "ak_status r = KRevoked" if "r \<in> set (es_keys st')" "ak_id r = k" for r
  proof (cases "find (\<lambda>r. ak_id r = k) (es_keys st)")
    case None
    then have "es_keys st' = es_keys st" by (simp add: st'(2) revoke_key_def)
    then show ?thesis using that None by (auto simp: find_None_iff)
  next
    case (Some r0)
    have "ak_org r0 = sn_org s" using find_Some_mem [OF Some] assms(4) by blast
    then have "es_keys st' = update_key k (\<lambda>r. r\<lparr>ak_status := KRevoked\<rparr>) (es_keys st)"
      using Some by (simp add: st'(2) revoke_key_def)
    then show ?thesis using update_key_hit [of r k "\<lambda>r. r\<lparr>ak_status := KRevoked\<rparr>" "es_keys st"] that by auto
  qed
  have "\<not> is_ok (verify_request sha hmac decrypt str_of t0 org rq st')"
    if "or_empty (rq_public_id rq) = sn_public_id s" for rq org t0
  proof
    assume "is_ok (verify_request sha hmac decrypt str_of t0 org rq st')"
    then obtain r where "verify_request sha hmac decrypt str_of t0 org rq st' = Inr r"
      by (auto simp: is_ok_iff)
    then obtain st2 i pid o' where "verify_request sha hmac decrypt str_of t0 org rq st' = Inr (st2, i, pid, o')"
      by (cases r) auto
    from verify_request_ok [OF this] that sens2 show False by force
  qed
  moreover have "ctx_key_id ctx \<noteq> Some k" if "key_authenticate sha t0 plain (es_keys st') = Inr (db, ctx)" for t0 plain db ctx
    using key_authenticate_ok [OF that] keys by force
  moreover have "revoke_sensor now x st' = Inl (InvalidSensorTransition SRevoked SRevoked)"
    if "x \<in> set (es_sensors st')" "sn_id x = sn_id s" for x
    using sens [OF that] by (simp add: revoke_sensor_def sensor_assert_def sensor_can_def)
  ultimately show ?thesis by blast
qed

theorem revoked_sensor_is_shut_out_witness:
  "\<exists>st'. revoke_sensor 8 demo_sensor demo_state = Inr st' \<and>
     \<not> is_ok (verify_request (\<lambda>b. ''00'') (\<lambda>k m. k @ m) Some (\<lambda>_. ''org'') 9 7 demo_request st')"
proof -
  obtain st' where r: "revoke_sensor 8 demo_sensor demo_state = Inr st'"
    by (simp add: revoke_sensor_def sensor_assert_def sensor_can_def demo_sensor_def Let_def)
  have "or_empty (rq_public_id demo_request) = sn_public_id demo_sensor"
    by (simp add: demo_request_def demo_sensor_def)
  moreover have "sn_api_key_id demo_sensor = Some 5" by (simp add: demo_sensor_def)
  ultimately have "\<not> is_ok (verify_request (\<lambda>b. ''00'') (\<lambda>k m. k @ m) Some (\<lambda>_. ''org'') 9 7 demo_request st')"
    using revoked_sensor_is_shut_out [OF r, of 5 "\<lambda>b. ''00''" "\<lambda>k m. k @ m" Some "\<lambda>_. ''org''"]
    by (simp add: demo_state_def demo_sensor_def)
  then show ?thesis using r by blast
qed

end
