(* ===== verification/Agent_Session.thy ===== *)
theory Agent_Session
  imports Agent_Activity Metadata_Min Enrollment Replay
begin

text \<open>
  Agent sessions end to end: scope normalisation (\<open>services/agent_sensor/scope.py\<close>), the session and
  event rows (\<open>repositories/agent_sensor.py\<close>) and the session and ingestion handlers of
  \<open>api/agent_sensor.py\<close>. A stored scope is the normalised scope itself (its JSON column is written and
  read back by the same code); audit rows keep their event type. Metrics are not modelled.
\<close>

subsection \<open>Scope normalisation\<close>

record normalized_scope =
  ns_task_summary :: string
  ns_allowed_paths :: "string list"
  ns_denied_paths :: "string list"
  ns_allowed_tools :: "string list"
  ns_denied_tools :: "string list"
  ns_allowed_resource_types :: "string list"
  ns_keywords :: "string list"

definition stopwords :: "string list" where
  "stopwords = [''the'', ''a'', ''an'', ''fix'', ''to'', ''in'', ''on'', ''of'', ''and'', ''for'', ''with'',
                ''add'', ''update'']"

definition strip_set :: "string \<Rightarrow> string \<Rightarrow> string" where
  "strip_set chars s = rstrip_chars (\<lambda>c. c \<in> set chars) (lstrip_chars (\<lambda>c. c \<in> set chars) s)"

definition scope_keywords :: "string \<Rightarrow> string list" where
  "scope_keywords summary =
     take 12 (dedup (filter (\<lambda>w. length w \<ge> 3 \<and> w \<notin> set stopwords)
       (map (\<lambda>w. py_lower (strip_set ''.,:;()'' w)) (split_words summary))))"

definition norm_pattern :: "string \<Rightarrow> string option" where
  "norm_pattern p =
     (let n = (if \<not> endswith p ''/**'' then normalize_path (rstrip_chars (\<lambda>c. c \<in> set ''/*'') p)
               else normalize_path (take (length p - 3) p))
      in map_option (\<lambda>n. if endswith p ''/**'' \<or> endswith p ''/'' then n @ ''/**'' else n) n)"

fun norm_patterns_loop :: "nat \<Rightarrow> string list \<Rightarrow> string list \<Rightarrow> string list" where
  "norm_patterns_loop limit [] out = out"
| "norm_patterns_loop limit (p # ps) out =
     (case norm_pattern p of
        None \<Rightarrow> norm_patterns_loop limit ps out
      | Some n \<Rightarrow> (let out' = out @ [n] in
                   if length out' \<ge> limit then out' else norm_patterns_loop limit ps out'))"

definition norm_patterns :: "string list \<Rightarrow> nat \<Rightarrow> string list" where
  "norm_patterns patterns limit = dedup (norm_patterns_loop limit patterns [])"

definition norm_names :: "string list \<Rightarrow> string list" where
  "norm_names xs = dedup (map (\<lambda>t. py_lower (py_strip t)) (filter (\<lambda>t. py_strip t \<noteq> []) xs))"

definition normalize_scope ::
  "string \<Rightarrow> string list \<Rightarrow> string list \<Rightarrow> string list \<Rightarrow> string list \<Rightarrow> string list \<Rightarrow> nat \<Rightarrow> nat \<Rightarrow> normalized_scope" where
  "normalize_scope task_summary allowed denied allowed_tls denied_tls allowed_rts max_allowed max_denied =
     (let summary = sanitize_task_summary task_summary 512 in
      \<lparr>ns_task_summary = summary,
       ns_allowed_paths = norm_patterns allowed max_allowed,
       ns_denied_paths = norm_patterns denied max_denied,
       ns_allowed_tools = norm_names allowed_tls,
       ns_denied_tools = norm_names denied_tls,
       ns_allowed_resource_types = norm_names allowed_rts,
       ns_keywords = scope_keywords summary\<rparr>)"

lemma norm_patterns_loop_bound:
  "length out < max 1 limit \<Longrightarrow> length (norm_patterns_loop limit ps out) \<le> max 1 limit"
  by (induction limit ps out rule: norm_patterns_loop.induct) (auto split: option.splits simp: Let_def)

lemma norm_patterns_bound: "length (norm_patterns ps limit) \<le> max 1 limit" "distinct (norm_patterns ps limit)"
proof -
  show "length (norm_patterns ps limit) \<le> max 1 limit"
    unfolding norm_patterns_def
    using norm_patterns_loop_bound [of "[]" limit ps] length_dedup order_trans by fastforce
  show "distinct (norm_patterns ps limit)" by (simp add: norm_patterns_def)
qed

text \<open>
  A trailing star of a file glob is stripped like a directory wildcard, so the normalised pattern no
  longer matches what the policy author wrote.
\<close>

lemma trailing_star_lost:
  "norm_patterns [''config/prod*''] 200 = [''config/prod'']"
  "path_matches ''config/prod*'' ''config/prod.yaml''" "\<not> path_matches ''config/prod'' ''config/prod.yaml''"
  by code_simp+

subsection \<open>Rows\<close>

datatype session_status = SessActive | SessCompleted | SessCancelled | SessFailed

datatype scope_data = ScopeData normalized_scope | SummaryData "(string \<times> string) list"

record session_row =
  se_id :: uuid
  se_org :: org_id
  se_sensor_id :: uuid
  se_external_id :: string
  se_agent_type :: string
  se_status :: session_status
  se_task_summary :: string
  se_scope_policy_id :: "uuid option"
  se_scope_data :: scope_data

record policy_row =
  po_id :: uuid
  po_org :: org_id
  po_doc :: scope_policy

record activity_event =
  av_id :: uuid
  av_session :: uuid
  av_external_id :: string
  av_type :: agent_event_type
  av_path :: "string option"
  av_class :: path_class
  av_tool :: "string option"
  av_resource_type :: "string option"
  av_trace_id :: "string option"
  av_decoy_id :: "string option"
  av_metadata :: "(string \<times> string) list"
  av_observed_at :: datetime

record violation_row =
  vi_session :: uuid
  vi_event :: uuid
  vi_type :: violation_type
  vi_severity :: severity
  vi_rule :: string

record agent_world =
  aw_enroll :: "agent_extra enroll_state"
  aw_policies :: "policy_row list"
  aw_sessions :: "session_row list"
  aw_events :: "activity_event list"
  aw_violations :: "violation_row list"
  aw_audit :: "(string \<times> string) list"

definition get_policy :: "org_id \<Rightarrow> uuid \<Rightarrow> agent_world \<Rightarrow> policy_row option" where
  "get_policy organization_id policy_id w =
     (case find (\<lambda>p. po_id p = policy_id) (aw_policies w) of
        None \<Rightarrow> None | Some p \<Rightarrow> if po_org p \<noteq> organization_id then None else Some p)"

definition update_policy :: "uuid \<Rightarrow> scope_policy \<Rightarrow> agent_world \<Rightarrow> agent_world" where
  "update_policy policy_id doc w =
     w\<lparr>aw_policies := map (\<lambda>p. if po_id p = policy_id
         then p\<lparr>po_doc := doc\<lparr>policy_organization := policy_organization (po_doc p),
                  policy_name := take 128 (policy_name doc), policy_version := policy_version (po_doc p) + 1\<rparr>\<rparr>
         else p) (aw_policies w)\<rparr>"

definition find_session_by_external :: "org_id \<Rightarrow> string \<Rightarrow> agent_world \<Rightarrow> session_row option" where
  "find_session_by_external organization_id external_id w =
     find (\<lambda>s. se_org s = organization_id \<and> se_external_id s = external_id) (aw_sessions w)"

definition get_session :: "org_id \<Rightarrow> uuid \<Rightarrow> agent_world \<Rightarrow> session_row option" where
  "get_session organization_id session_id w =
     (case find (\<lambda>s. se_id s = session_id) (aw_sessions w) of
        None \<Rightarrow> None | Some s \<Rightarrow> if se_org s \<noteq> organization_id then None else Some s)"

definition sensor_for_key :: "org_id \<Rightarrow> uuid option \<Rightarrow> agent_world \<Rightarrow> agent_extra sensor option" where
  "sensor_for_key organization_id key_id w =
     find (\<lambda>s. sn_org s = organization_id \<and> sn_api_key_id s = key_id \<and> sn_status s = SActive)
       (es_sensors (aw_enroll w))"

definition events_for_session :: "uuid \<Rightarrow> agent_world \<Rightarrow> activity_event list" where
  "events_for_session session_id w =
     take 500 (sort_key av_observed_at (filter (\<lambda>e. av_session e = session_id) (aw_events w)))"

definition violations_for_session :: "uuid \<Rightarrow> agent_world \<Rightarrow> violation_row list" where
  "violations_for_session session_id w = filter (\<lambda>v. vi_session v = session_id) (aw_violations w)"

definition add_audit :: "string \<Rightarrow> string \<Rightarrow> agent_world \<Rightarrow> agent_world" where
  "add_audit event_type safe_metadata w =
     w\<lparr>aw_audit := aw_audit w @ [(event_type, take 1024 safe_metadata)]\<rparr>"

subsection \<open>Creating and completing a session\<close>

record create_request =
  cq_external_id :: string
  cq_agent_type :: string
  cq_task_summary :: string
  cq_scope_policy_id :: "uuid option"
  cq_allowed_paths :: "string list"
  cq_denied_paths :: "string list"

definition or_list :: "'a list \<Rightarrow> 'a list \<Rightarrow> 'a list" where
  "or_list xs ys = (if xs = [] then ys else xs)"

definition create_session ::
  "nat \<Rightarrow> nat \<Rightarrow> uuid \<Rightarrow> auth_context \<Rightarrow> create_request \<Rightarrow> agent_world \<Rightarrow> http_error + agent_world \<times> session_row" where
  "create_session max_allowed max_denied new_id auth body w =
     (if find_session_by_external (ctx_org auth) (cq_external_id body) w \<noteq> None
      then Inl (HttpError 409 ''session already exists'')
      else case sensor_for_key (ctx_org auth) (ctx_key_id auth) w of
        None \<Rightarrow> Inl (HttpError 403 ''no active agent sensor for this key'')
      | Some sensor \<Rightarrow>
          and_then (case cq_scope_policy_id body of
              None \<Rightarrow> Inr (cq_allowed_paths body, cq_denied_paths body)
            | Some pid \<Rightarrow>
                (case get_policy (ctx_org auth) pid w of
                   None \<Rightarrow> Inl (HttpError 404 ''scope policy not found'')
                 | Some policy \<Rightarrow>
                     Inr (or_list (cq_allowed_paths body) (allowed_paths (po_doc policy)),
                          or_list (cq_denied_paths body) (denied_paths (po_doc policy)))))
            (\<lambda>(allowed, denied).
               let scope = normalize_scope (cq_task_summary body) allowed denied [] [] [] max_allowed max_denied;
                   row = \<lparr>se_id = new_id, se_org = ctx_org auth, se_sensor_id = sn_id sensor,
                          se_external_id = take 128 (cq_external_id body),
                          se_agent_type = take 48 (cq_agent_type body), se_status = SessActive,
                          se_task_summary = take 512 (ns_task_summary scope),
                          se_scope_policy_id = cq_scope_policy_id body, se_scope_data = ScopeData scope\<rparr>
               in Inr (add_audit ''session_started'' [] (w\<lparr>aw_sessions := aw_sessions w @ [row]\<rparr>), row)))"

text \<open>The policy the rule engine sees is rebuilt from the stored scope (\<open>_scope_policy\<close>).\<close>

definition default_policy :: "string \<Rightarrow> scope_policy" where
  "default_policy org =
     \<lparr>policy_organization = org, policy_name = ''session-scope'', allowed_paths = [], denied_paths = [],
      allowed_tools = [], denied_tools = [], allowed_resource_types = [], maximum_file_reads = 200,
      maximum_sensitive_reads = 0, allow_dependency_changes = False, allow_secret_file_access = False,
      allow_database_access = False, allow_network_access = False, policy_version = 1\<rparr>"

definition session_policy :: "string \<Rightarrow> session_row \<Rightarrow> scope_policy" where
  "session_policy org s =
     (case se_scope_data s of
        ScopeData sc \<Rightarrow> (default_policy org)\<lparr>allowed_paths := ns_allowed_paths sc, denied_paths := ns_denied_paths sc,
           allowed_tools := ns_allowed_tools sc, denied_tools := ns_denied_tools sc,
           allowed_resource_types := ns_allowed_resource_types sc\<rparr>
      | SummaryData _ \<Rightarrow> default_policy org)"

fun event_value :: "agent_event_type \<Rightarrow> string" where
  "event_value SESSION_STARTED = ''session_started''"
| "event_value SESSION_COMPLETED = ''session_completed''"
| "event_value FILE_LISTED = ''file_listed''"
| "event_value FILE_READ = ''file_read''"
| "event_value FILE_MODIFIED = ''file_modified''"
| "event_value FILE_CREATED = ''file_created''"
| "event_value FILE_DELETED = ''file_deleted''"
| "event_value SEARCH_PERFORMED = ''search_performed''"
| "event_value COMMAND_REQUESTED = ''command_requested''"
| "event_value TOOL_INVOKED = ''tool_invoked''"
| "event_value MCP_RESOURCE_LISTED = ''mcp_resource_listed''"
| "event_value MCP_RESOURCE_READ = ''mcp_resource_read''"
| "event_value DATABASE_QUERY_REQUESTED = ''database_query_requested''"
| "event_value NETWORK_REQUEST_REQUESTED = ''network_request_requested''"
| "event_value DECOY_TOUCHED = ''decoy_touched''"
| "event_value SENSITIVE_PATH_ACCESSED = ''sensitive_path_accessed''"
| "event_value DENIED_ACTION_ATTEMPTED = ''denied_action_attempted''"

definition all_event_types :: "agent_event_type list" where
  "all_event_types = [SESSION_STARTED, SESSION_COMPLETED, FILE_LISTED, FILE_READ, FILE_MODIFIED,
     FILE_CREATED, FILE_DELETED, SEARCH_PERFORMED, COMMAND_REQUESTED, TOOL_INVOKED, MCP_RESOURCE_LISTED,
     MCP_RESOURCE_READ, DATABASE_QUERY_REQUESTED, NETWORK_REQUEST_REQUESTED, DECOY_TOUCHED,
     SENSITIVE_PATH_ACCESSED, DENIED_ACTION_ATTEMPTED]"

definition parse_event_type :: "string \<Rightarrow> agent_event_type option" where
  "parse_event_type s = find (\<lambda>e. event_value e = s) all_event_types"

fun violation_value :: "violation_type \<Rightarrow> string" where
  "violation_value OUT_OF_SCOPE_PATH_ACCESS = ''out_of_scope_path_access''"
| "violation_value SENSITIVE_FILE_ACCESS = ''sensitive_file_access''"
| "violation_value DECOY_ASSET_TOUCH = ''decoy_asset_touch''"
| "violation_value EXCESSIVE_REPOSITORY_BREADTH = ''excessive_repository_breadth''"
| "violation_value UNEXPECTED_DATABASE_ACCESS = ''unexpected_database_access''"
| "violation_value UNEXPECTED_NETWORK_ACCESS = ''unexpected_network_access''"
| "violation_value UNEXPECTED_MCP_RESOURCE_ACCESS = ''unexpected_mcp_resource_access''"
| "violation_value DEPENDENCY_CHANGE_OUTSIDE_SCOPE = ''dependency_change_outside_scope''"
| "violation_value REPEATED_SENSITIVE_EXPLORATION = ''repeated_sensitive_exploration''"
| "violation_value DESTRUCTIVE_ACTION_ATTEMPT = ''destructive_action_attempt''"
| "violation_value CROSS_REPOSITORY_ACCESS = ''cross_repository_access''"
| "violation_value UNAPPROVED_TOOL_USE = ''unapproved_tool_use''"

definition session_summary ::
  "nat \<Rightarrow> nat \<Rightarrow> nat \<Rightarrow> nat \<Rightarrow> string list \<Rightarrow> bool \<Rightarrow> bool \<Rightarrow> bool \<Rightarrow> (string \<times> string) list" where
  "session_summary event_count violations distinct_unrelated sensitive surfs decoy_touched escalation modified =
     [(''events'', nat_str event_count),
      (''violations'', nat_str violations),
      (''unrelated_paths'', nat_str distinct_unrelated),
      (''sensitive_reads'', nat_str sensitive),
      (''surfaces'', (let s = join_with '','' (sort surfs) in if s = [] then ''none'' else s)),
      (''decoy_touched'', yes_no decoy_touched),
      (''escalation'', yes_no escalation),
      (''modifications'', yes_no modified)]"

definition used_surfaces :: "activity_event list \<Rightarrow> string list" where
  "used_surfaces events =
     filter (\<lambda>s. list_ex (\<lambda>e. startswith (event_value (av_type e)) (take 3 s) \<or>
                               contains (event_value (av_type e)) s) events)
       [''database'', ''network'', ''mcp'']"

definition summarize :: "activity_event list \<Rightarrow> violation_row list \<Rightarrow> (string \<times> string) list" where
  "summarize events violations =
     session_summary (length events) (length violations)
       (length (dedup (map av_path (filter (\<lambda>e. av_class e = UNRELATED) events))))
       (length (filter (\<lambda>v. contains (violation_value (vi_type v)) ''sensitive'') violations))
       (used_surfaces events)
       (list_ex (\<lambda>e. or_empty (av_decoy_id e) \<noteq> []) events)
       (detect_escalation (map av_class events))
       (list_ex (\<lambda>e. startswith (event_value (av_type e)) ''file_'') events)"

definition complete_session :: "auth_context \<Rightarrow> uuid \<Rightarrow> agent_world \<Rightarrow> http_error + agent_world" where
  "complete_session auth session_id w =
     (case get_session (ctx_org auth) session_id w of
        None \<Rightarrow> Inl (HttpError 404 ''session not found'')
      | Some _ \<Rightarrow>
          (let summary = summarize (events_for_session session_id w) (violations_for_session session_id w)
           in Inr (add_audit ''session_completed'' []
                (w\<lparr>aw_sessions := map (\<lambda>s. if se_id s = session_id
                     then s\<lparr>se_status := SessCompleted, se_scope_data := SummaryData summary\<rparr> else s)
                     (aw_sessions w)\<rparr>))))"

subsection \<open>Ingestion\<close>

record event_body =
  eb_external_id :: string
  eb_session_external_id :: string
  eb_type :: string
  eb_path :: "string option"
  eb_tool :: "string option"
  eb_resource_type :: "string option"
  eb_resource_hash :: "string option"
  eb_trace_id :: "string option"
  eb_metadata :: "(string \<times> string) list"
  eb_observed_at :: "datetime option"

record event_response =
  er_idempotent :: bool
  er_class :: path_class
  er_violation :: "violation_type option"
  er_severity :: severity
  er_explanation :: string

definition stored_event :: "activity_event \<Rightarrow> agent_event" where
  "stored_event e = \<lparr>ev_type = av_type e, ev_path = av_path e, ev_tool = av_tool e,
     ev_resource_type = av_resource_type e, ev_decoy_id = av_decoy_id e\<rparr>"

definition rebuild_aggregate :: "activity_event list \<Rightarrow> scope_policy \<Rightarrow> decoy_index \<Rightarrow> session_aggregate" where
  "rebuild_aggregate events policy index =
     snd (evaluate_all policy (path_set index) (map stored_event events) empty_aggregate)"

definition incoming_event :: "agent_event_type \<Rightarrow> event_body \<Rightarrow> decoy_index \<Rightarrow> agent_event" where
  "incoming_event et body index =
     (let normalized = (if or_empty (eb_path body) = [] then None else normalize_path (or_empty (eb_path body))) in
      \<lparr>ev_type = et, ev_path = normalized, ev_tool = eb_tool body, ev_resource_type = eb_resource_type body,
       ev_decoy_id = resolve_decoy (eb_trace_id body) normalized (eb_resource_hash body) index\<rparr>)"

definition judge_event :: "string \<Rightarrow> agent_event_type \<Rightarrow> event_body \<Rightarrow> session_row \<Rightarrow> decoy_index \<Rightarrow>
    agent_world \<Rightarrow> scope_decision \<times> session_aggregate" where
  "judge_event org et body s index w =
     (let policy = session_policy org s in
      evaluate_event (incoming_event et body index) policy (path_set index)
        (rebuild_aggregate (events_for_session (se_id s) w) policy index))"

definition store_event :: "uuid \<Rightarrow> datetime \<Rightarrow> event_body \<Rightarrow> agent_event \<Rightarrow> scope_decision \<Rightarrow> session_row \<Rightarrow> activity_event" where
  "store_event new_id now body ev d s =
     \<lparr>av_id = new_id, av_session = se_id s, av_external_id = take 128 (eb_external_id body), av_type = ev_type ev,
      av_path = ev_path ev, av_class = sd_path_class d, av_tool = ev_tool ev,
      av_resource_type = ev_resource_type ev, av_trace_id = eb_trace_id body, av_decoy_id = sd_decoy_id d,
      av_metadata = agent_minimize (\<lambda>j. j) (map (\<lambda>(k, v). (k, MText v)) (eb_metadata body)),
      av_observed_at = (case eb_observed_at body of None \<Rightarrow> now | Some t \<Rightarrow> t)\<rparr>"

text \<open>\<open>add_event\<close>: the unique constraint on (session, external event id) makes it idempotent.\<close>

definition event_exists :: "session_row \<Rightarrow> event_body \<Rightarrow> agent_world \<Rightarrow> bool" where
  "event_exists s body w \<longleftrightarrow>
     list_ex (\<lambda>e. av_session e = se_id s \<and> av_external_id e = take 128 (eb_external_id body)) (aw_events w)"

definition record_event :: "uuid \<Rightarrow> datetime \<Rightarrow> string \<Rightarrow> agent_event_type \<Rightarrow> event_body \<Rightarrow> session_row \<Rightarrow> decoy_index \<Rightarrow>
    agent_world \<Rightarrow> agent_world \<times> event_response" where
  "record_event new_id now org et body s index w =
     (let (d, agg) = judge_event org et body s index w in
      if event_exists s body w then
        (w, \<lparr>er_idempotent = True, er_class = sd_path_class d, er_violation = None, er_severity = INFO,
             er_explanation = ''duplicate event ignored''\<rparr>)
      else
        let row = store_event new_id now body (incoming_event et body index) d s;
            w1 = w\<lparr>aw_events := aw_events w @ [row]\<rparr>;
            w2 = (case sd_violation_type d of
                    None \<Rightarrow> w1
                  | Some v \<Rightarrow> add_audit ''violation_generated'' (violation_value v)
                      (w1\<lparr>aw_violations := aw_violations w1 @
                         [\<lparr>vi_session = se_id s, vi_event = new_id, vi_type = v, vi_severity = sd_severity d,
                           vi_rule = take 128 (sd_policy_rule d)\<rparr>]\<rparr>))
        in (w2, \<lparr>er_idempotent = False, er_class = sd_path_class d, er_violation = sd_violation_type d,
                 er_severity = sd_severity d, er_explanation = sd_explanation d\<rparr>))"

record ingest_settings =
  ig_event_max_bytes :: nat
  ig_require_signed :: bool
  ig_auth_enabled :: bool
  ig_signature_required :: bool

text \<open>Sensor identity: a verified signature, or the key's active sensor.\<close>

definition identify_sensor ::
  "(datetime \<Rightarrow> org_id \<Rightarrow> signed_request \<Rightarrow> agent_extra enroll_state \<Rightarrow>
      signature_error + agent_extra enroll_state \<times> (uuid \<times> string \<times> org_id)) \<Rightarrow>
   ingest_settings \<Rightarrow> datetime \<Rightarrow> auth_context \<Rightarrow> signed_request \<Rightarrow> agent_world \<Rightarrow> agent_world \<times> (http_error + uuid)" where
  "identify_sensor verify st now auth rq w =
     (if ig_require_signed st \<and> ig_auth_enabled st \<and> ig_signature_required st then
        (case verify now (ctx_org auth) rq (aw_enroll w) of
           Inl (SignatureError c m) \<Rightarrow> (add_audit ''signature_failure'' [] w, Inl (HttpError c m))
         | Inr (en, i, _, _) \<Rightarrow> (w\<lparr>aw_enroll := en\<rparr>, Inr i))
      else (case sensor_for_key (ctx_org auth) (ctx_key_id auth) w of
           None \<Rightarrow> (w, Inl (HttpError 401 ''sensor not active''))
         | Some s \<Rightarrow> (w\<lparr>aw_enroll := touch_sensor now (\<lambda>x. x) s (aw_enroll w)\<rparr>, Inr (sn_id s))))"

definition check_session :: "auth_context \<Rightarrow> event_body \<Rightarrow> uuid \<Rightarrow> agent_world \<Rightarrow> http_error + session_row" where
  "check_session auth body sensor_id w =
     (case find_session_by_external (ctx_org auth) (eb_session_external_id body) w of
        None \<Rightarrow> Inl (HttpError 404 ''unknown session'')
      | Some s \<Rightarrow>
          if se_sensor_id s \<noteq> sensor_id then Inl (HttpError 403 ''session belongs to another sensor'')
          else if se_status s \<noteq> SessActive then Inl (HttpError 409 ''session is not active'')
          else Inr s)"

definition ingest_agent_event ::
  "(datetime \<Rightarrow> org_id \<Rightarrow> signed_request \<Rightarrow> agent_extra enroll_state \<Rightarrow>
      signature_error + agent_extra enroll_state \<times> (uuid \<times> string \<times> org_id)) \<Rightarrow>
   (string option \<Rightarrow> string option \<Rightarrow> string \<Rightarrow> 'g \<Rightarrow> 'g \<times> (replay_error + unit)) \<Rightarrow> (org_id \<Rightarrow> string) \<Rightarrow>
   (org_id \<Rightarrow> decoy_index) \<Rightarrow> ingest_settings \<Rightarrow> uuid \<Rightarrow> datetime \<Rightarrow> auth_context \<Rightarrow> signed_request \<Rightarrow> event_body \<Rightarrow>
   'g \<times> agent_world \<Rightarrow> ('g \<times> agent_world) \<times> (http_error + event_response)" where
  "ingest_agent_event verify replay str_of build_index st new_id now auth rq body gw =
     (let (g, w) = gw in
      if length (rq_body rq) > ig_event_max_bytes st then (gw, Inl (HttpError 413 ''agent event too large''))
      else case parse_event_type (eb_type body) of
        None \<Rightarrow> (gw, Inl (HttpError 400 ''unknown event type''))
      | Some et \<Rightarrow>
          (case identify_sensor verify st now auth rq w of
             (w1, Inl e) \<Rightarrow> ((g, w1), Inl e)
           | (w1, Inr sensor_id) \<Rightarrow>
               (case (if ig_auth_enabled st then replay (rq_nonce rq) (rq_timestamp rq) (str_of (ctx_org auth)) g
                      else (g, Inr ())) of
                  (g1, Inl (ReplayError c m)) \<Rightarrow> ((g1, w1), Inl (HttpError (nat c) m))
                | (g1, Inr _) \<Rightarrow>
                    (case check_session auth body sensor_id w1 of
                       Inl e \<Rightarrow> ((g1, w1), Inl e)
                     | Inr s \<Rightarrow>
                         (let (w2, r) = record_event new_id now (str_of (ctx_org auth)) et body s
                                          (build_index (ctx_org auth)) w1
                          in ((g1, w2), Inr r))))))"

text \<open>
  The database session of a request commits when the handler returns and rolls back when it raises
  (\<open>get_db\<close>); the replay store is outside the transaction.
\<close>

definition get_db :: "('g \<times> 'w \<Rightarrow> ('g \<times> 'w) \<times> ('e + 'a)) \<Rightarrow> 'g \<times> 'w \<Rightarrow> ('g \<times> 'w) \<times> ('e + 'a)" where
  "get_db handler gw =
     (case handler gw of
        ((g, w), Inl e) \<Rightarrow> ((g, snd gw), Inl e)
      | ((g, w), Inr a) \<Rightarrow> ((g, w), Inr a))"

subsection \<open>What the handlers guarantee\<close>

lemma record_event_fresh:
  assumes "\<not> event_exists s body w"
  shows "event_exists s body (fst (record_event i t org et body s index w))"
    "aw_sessions (fst (record_event i t org et body s index w)) = aw_sessions w"
    "\<exists>e. aw_events (fst (record_event i t org et body s index w)) = aw_events w @ [e] \<and> av_session e = se_id s"
  using assms
  by (auto simp: record_event_def Let_def event_exists_def store_event_def add_audit_def
      split: prod.splits option.splits)

lemma record_event_dup:
  "event_exists s body w \<Longrightarrow> fst (record_event i t org et body s index w) = w \<and>
     er_idempotent (snd (record_event i t org et body s index w))"
  by (simp add: record_event_def split: prod.splits)

lemma no_tool_later:
  "sd_violation_type (fst (breadth_rules ev policy pc agg)) \<noteq> Some UNAPPROVED_TOOL_USE"
  "sd_violation_type (fst (dependency_rules ev policy pc agg)) \<noteq> Some UNAPPROVED_TOOL_USE"
  "sd_violation_type (fst (sensitive_rules ev policy pc agg)) \<noteq> Some UNAPPROVED_TOOL_USE"
proof -
  show b: "sd_violation_type (fst (breadth_rules ev policy pc agg)) \<noteq> Some UNAPPROVED_TOOL_USE" for agg
    by (simp add: breadth_rules_def rule_simps Let_def)
  show d: "sd_violation_type (fst (dependency_rules ev policy pc agg)) \<noteq> Some UNAPPROVED_TOOL_USE" for agg
    using b by (simp add: dependency_rules_def rule_simps)
  show "sd_violation_type (fst (sensitive_rules ev policy pc agg)) \<noteq> Some UNAPPROVED_TOOL_USE"
    using d by (simp add: sensitive_rules_def over_cap_def rule_simps Let_def)
qed

lemma no_tool_violation:
  assumes "allowed_tools policy = []" and "denied_tools policy = []"
  shows "sd_violation_type (fst (surface_rules ev policy pc agg)) \<noteq> Some UNAPPROVED_TOOL_USE"
  using assms no_tool_later(3) by (simp add: surface_rules_def rule_simps Let_def)

text \<open>
  The session forgets its scope policy: whatever tools, caps and allowances the chosen policy
  holds, the policy rebuilt for a new session has no tool or resource lists, the default caps and no
  allowance, so the engine never reports a tool violation in it and reports every database access.
\<close>

theorem session_forgets_policy:
  assumes "create_session ma md i auth body w = Inr (w', s)"
  shows "allowed_tools (session_policy org s) = [] \<and> denied_tools (session_policy org s) = [] \<and>
    allowed_resource_types (session_policy org s) = [] \<and>
    maximum_file_reads (session_policy org s) = 200 \<and> maximum_sensitive_reads (session_policy org s) = 0 \<and>
    \<not> allow_database_access (session_policy org s) \<and> \<not> allow_secret_file_access (session_policy org s) \<and>
    (\<forall>ev decoys agg. sd_violation_type (fst (evaluate_event ev (session_policy org s) decoys agg)) \<noteq> Some UNAPPROVED_TOOL_USE)"
proof -
  have empty: "norm_names [] = []" by (simp add: norm_names_def dedup_def)
  from assms obtain a d where s: "se_scope_data s = ScopeData (normalize_scope (cq_task_summary body) a d [] [] [] ma md)"
    by (auto simp: create_session_def guard_simps Let_def split: if_splits option.splits)
  have p: "session_policy org s = (default_policy org)\<lparr>allowed_paths := norm_patterns a ma, denied_paths := norm_patterns d md\<rparr>"
    by (simp add: session_policy_def s normalize_scope_def Let_def empty default_policy_def)
  have tools: "allowed_tools (session_policy org s) = []" "denied_tools (session_policy org s) = []"
    by (simp_all add: p default_policy_def)
  have "sd_violation_type (fst (evaluate_event ev (session_policy org s) decoys agg)) \<noteq> Some UNAPPROVED_TOOL_USE" for ev decoys agg
    by (simp add: evaluate_event_def Let_def no_tool_violation [OF tools] rule_simps)
  then show ?thesis by (simp add: p default_policy_def)
qed

definition demo_auth :: auth_context where
  "demo_auth = \<lparr>ctx_org = 7, ctx_scopes = [''agent_sessions:create''], ctx_role = ''agent_sensor'', ctx_key_id = Some 5\<rparr>"

definition demo_world :: agent_world where
  "demo_world = \<lparr>aw_enroll = demo_state,
     aw_policies = [\<lparr>po_id = 1, po_org = 7, po_doc = sample_policy\<lparr>denied_tools := [''bash'']\<rparr>\<rparr>],
     aw_sessions = [], aw_events = [], aw_violations = [], aw_audit = []\<rparr>"

definition demo_create :: create_request where
  "demo_create = \<lparr>cq_external_id = ''s1'', cq_agent_type = ''cli'', cq_task_summary = ''fix login'',
     cq_scope_policy_id = Some 1, cq_allowed_paths = [], cq_denied_paths = []\<rparr>"

theorem session_forgets_policy_witness:
  "\<exists>w' s. create_session 200 200 9 demo_auth demo_create demo_world = Inr (w', s) \<and>
     denied_tools (session_policy ''o'' s) = [] \<and> map (denied_tools \<circ> po_doc) (aw_policies demo_world) = [[''bash'']]"
proof -
  obtain w' s where c: "create_session 200 200 9 demo_auth demo_create demo_world = Inr (w', s)"
    by (simp add: create_session_def find_session_by_external_def sensor_for_key_def demo_auth_def demo_world_def
        demo_create_def demo_state_def demo_sensor_def get_policy_def Let_def)
  show ?thesis using session_forgets_policy [OF c, of "''o''"] c by (simp add: demo_world_def)
qed

text \<open>
  A path that the normaliser rejects, such as a traversal out of the repository, is judged as an
  event without a path: for any event type other than a delete or a denied action, with no tool, no
  decoy identifiers and the read budget not spent, the engine answers \<open>in_scope\<close>.
\<close>

theorem rejected_path_is_in_scope:
  assumes "normalize_path (or_empty (eb_path body)) = None"
    and "et \<notin> {FILE_DELETED, DENIED_ACTION_ATTEMPTED, DATABASE_QUERY_REQUESTED, NETWORK_REQUEST_REQUESTED,
                  MCP_RESOURCE_LISTED, MCP_RESOURCE_READ}"
    and "or_empty (eb_tool body) = []" and "or_empty (eb_trace_id body) = []"
    and "or_empty (eb_resource_hash body) = []" and "file_reads agg < maximum_file_reads policy"
  shows "sd_violation_type (fst (evaluate_event (incoming_event et body index) policy decoys agg)) = None \<and>
         sd_policy_rule (fst (evaluate_event (incoming_event et body index) policy decoys agg)) = ''in_scope''"
proof -
  let ?ev = "incoming_event et body index"
  have ev: "ev_path ?ev = None" "ev_decoy_id ?ev = None" "ev_type ?ev = et" "ev_tool ?ev = eb_tool body"
    using assms(1,4,5) by (simp_all add: incoming_event_def resolve_decoy_def Let_def)
  have pc: "event_class ?ev policy decoys = UNRELATED" by (simp add: event_class_def ev)
  have tool: "py_lower (or_empty (eb_tool body)) = []" using assms(3) by (simp add: py_lower_def)
  have "evaluate_event ?ev policy decoys agg = breadth_rules ?ev policy UNRELATED agg"
    using assms(2) by (simp add: evaluate_event_def Let_def pc ev surface_rules_def sensitive_rules_def
        dependency_rules_def sensitive_classes_def tool)
  then show ?thesis using assms(6) by (simp add: breadth_rules_def ev rule_simps Let_def)
qed

definition escape_body :: event_body where
  "escape_body = \<lparr>eb_external_id = ''e1'', eb_session_external_id = ''s1'', eb_type = ''file_read'',
     eb_path = Some ''../../etc/passwd'', eb_tool = None, eb_resource_type = None, eb_resource_hash = None,
     eb_trace_id = None, eb_metadata = [], eb_observed_at = None\<rparr>"

theorem rejected_path_is_in_scope_witness:
  "sd_policy_rule (fst (evaluate_event
     (incoming_event FILE_READ escape_body \<lparr>trace_ids = [], dpaths = [], resource_hashes = []\<rparr>)
     sample_policy [] empty_aggregate)) = ''in_scope''"
proof -
  have n: "normalize_path (or_empty (eb_path escape_body)) = None" by code_simp
  show ?thesis
    using rejected_path_is_in_scope [OF n, of FILE_READ empty_aggregate sample_policy]
    by (simp add: escape_body_def empty_aggregate_def sample_policy_def)
qed

lemma identify_sensor_keeps:
  "identify_sensor verify st now auth rq w = (w1, Inr i) \<Longrightarrow>
     aw_sessions w1 = aw_sessions w \<and> aw_events w1 = aw_events w"
  by (auto simp: identify_sensor_def split: if_splits sum.splits option.splits signature_error.splits)

lemma check_session_ok:
  assumes "check_session auth body i w = Inr s"
  shows "s \<in> set (aw_sessions w) \<and> se_org s = ctx_org auth \<and> se_status s = SessActive \<and> se_sensor_id s = i \<and>
         se_external_id s = eb_session_external_id body"
proof -
  from assms obtain s' where f: "find_session_by_external (ctx_org auth) (eb_session_external_id body) w = Some s'"
    by (auto simp: check_session_def split: option.splits)
  with assms show ?thesis
    using find_Some_mem [of _ "aw_sessions w" s']
    by (auto simp: check_session_def find_session_by_external_def split: if_splits)
qed

lemma ingest_ok:
  assumes "ingest_agent_event verify replay str_of build_index st i now auth rq body (g, w) = ((g', w'), Inr r)"
  shows "\<exists>w1 s sid et. identify_sensor verify st now auth rq w = (w1, Inr sid) \<and>
    check_session auth body sid w1 = Inr s \<and>
    record_event i now (str_of (ctx_org auth)) et body s (build_index (ctx_org auth)) w1 = (w', r)"
  using assms
  by (fastforce simp: ingest_agent_event_def Let_def split: if_splits option.splits prod.splits sum.splits
      replay_error.splits)

text \<open>
  C31. Ingestion is confined: an accepted event was sent by the sensor that owns an active session of
  the caller's organization, and it adds at most one event row, to that session only.
\<close>

theorem ingestion_is_confined:
  assumes "get_db (ingest_agent_event verify replay str_of build_index st i now auth rq body) (g, w) = ((g', w'), Inr r)"
  shows "\<exists>s new w1. identify_sensor verify st now auth rq w = (w1, Inr (se_sensor_id s)) \<and>
           s \<in> set (aw_sessions w) \<and> se_org s = ctx_org auth \<and> se_status s = SessActive \<and>
           aw_events w' = aw_events w @ new \<and> length new \<le> 1 \<and> list_all (\<lambda>x. av_session x = se_id s) new"
proof -
  have h: "ingest_agent_event verify replay str_of build_index st i now auth rq body (g, w) = ((g', w'), Inr r)"
    using assms by (auto simp: get_db_def split: prod.splits sum.splits)
  obtain w1 s sid et where id: "identify_sensor verify st now auth rq w = (w1, Inr sid)"
    and s: "check_session auth body sid w1 = Inr s"
    and rec: "record_event i now (str_of (ctx_org auth)) et body s (build_index (ctx_org auth)) w1 = (w', r)"
    using ingest_ok [OF h] by blast
  have w': "w' = fst (record_event i now (str_of (ctx_org auth)) et body s (build_index (ctx_org auth)) w1)"
    using rec by (metis fst_conv)
  have "\<exists>new. aw_events w' = aw_events w1 @ new \<and> length new \<le> 1 \<and> list_all (\<lambda>x. av_session x = se_id s) new"
  proof (cases "event_exists s body w1")
    case True
    then have "aw_events w' = aw_events w1 @ []" using record_event_dup w' by simp
    then show ?thesis by (intro exI [of _ "[]"]) simp
  next
    case False
    from record_event_fresh(3) [OF False, of i now "str_of (ctx_org auth)" et "build_index (ctx_org auth)"]
    obtain e where "aw_events w' = aw_events w1 @ [e]" "av_session e = se_id s" using w' by blast
    then show ?thesis by (intro exI [of _ "[e]"]) simp
  qed
  then show ?thesis
    using id s identify_sensor_keeps [OF id] check_session_ok [OF s] by metis
qed

definition read_body :: event_body where
  "read_body = escape_body\<lparr>eb_path := Some ''src/app/a.py''\<rparr>"

definition key_settings :: ingest_settings where
  "key_settings = \<lparr>ig_event_max_bytes = 8192, ig_require_signed = False, ig_auth_enabled = False, ig_signature_required = False\<rparr>"

definition demo_session_row :: session_row where
  "demo_session_row = \<lparr>se_id = 9, se_org = 7, se_sensor_id = 3, se_external_id = ''s1'', se_agent_type = ''cli'',
     se_status = SessActive, se_task_summary = [], se_scope_policy_id = None, se_scope_data = SummaryData []\<rparr>"

theorem ingestion_is_confined_witness:
  "\<exists>g' w' r. get_db (ingest_agent_event (\<lambda>_ _ _ _. Inl (SignatureError 401 [])) (\<lambda>_ _ _ g. (g, Inr ()))
        (\<lambda>_. ''o'') (\<lambda>_. \<lparr>trace_ids = [], dpaths = [], resource_hashes = []\<rparr>) key_settings 11 50 demo_auth
        demo_request read_body) ((), demo_world\<lparr>aw_sessions := [demo_session_row]\<rparr>) = ((g', w'), Inr r) \<and>
      length (aw_events w') \<le> 1"
proof -
  let ?w = "demo_world\<lparr>aw_sessions := [demo_session_row]\<rparr>"
  let ?x = "get_db (ingest_agent_event (\<lambda>_ _ _ _. Inl (SignatureError 401 [])) (\<lambda>_ _ _ g. (g, Inr ()))
        (\<lambda>_. ''o'') (\<lambda>_. \<lparr>trace_ids = [], dpaths = [], resource_hashes = []\<rparr>) key_settings 11 50 demo_auth
        demo_request read_body) ((), ?w)"
  have ok: "is_ok (snd ?x)" by code_simp
  obtain g' w' r0 where x: "?x = ((g', w'), r0)" by (metis prod.exhaust)
  then obtain r where "r0 = Inr r" using ok by (auto simp: is_ok_iff)
  with x have h: "?x = ((g', w'), Inr r)" by simp
  have "aw_events ?w = []" by (simp add: demo_world_def)
  then have "length (aw_events w') \<le> 1" using ingestion_is_confined [OF h] by auto
  then show ?thesis using h by blast
qed

subsection \<open>Redelivery\<close>

text \<open>What may happen between two deliveries: any request on sessions, policies and sensors, and any other event.\<close>

inductive agent_later ::
  "(string option \<Rightarrow> string option \<Rightarrow> string \<Rightarrow> 'g \<Rightarrow> 'g \<times> (replay_error + unit)) \<Rightarrow> agent_world \<Rightarrow> agent_world \<Rightarrow> bool"
  for replay :: "string option \<Rightarrow> string option \<Rightarrow> string \<Rightarrow> 'g \<Rightarrow> 'g \<times> (replay_error + unit)" where
  later_create: "create_session ma md i auth rq w = Inr (w', s) \<Longrightarrow> agent_later replay w w'"
| later_complete: "complete_session auth i w = Inr w' \<Longrightarrow> agent_later replay w w'"
| later_policy: "agent_later replay w (w\<lparr>aw_policies := ps\<rparr>)"
| later_sensor: "agent_later replay w (w\<lparr>aw_enroll := en\<rparr>)"
| later_audit: "agent_later replay w (add_audit ev meta w)"
| later_event: "get_db (ingest_agent_event verify replay str_of build_index st i now auth rq body) (g, w) = ((g', w'), res) \<Longrightarrow>
    agent_later replay w w'"

text \<open>What all of it keeps: the events stored so far and the row a session's external id stands for.\<close>

definition agent_frame :: "agent_world \<Rightarrow> agent_world \<Rightarrow> bool" where
  "agent_frame w w' \<longleftrightarrow> set (aw_events w) \<subseteq> set (aw_events w') \<and>
     (\<forall>org x s. find_session_by_external org x w = Some s \<longrightarrow>
        (\<exists>s'. find_session_by_external org x w' = Some s' \<and> se_id s' = se_id s))"

lemma frame_refl [simp]: "agent_frame w w"
  by (simp add: agent_frame_def)

lemma frame_trans: "agent_frame u v \<Longrightarrow> agent_frame v w \<Longrightarrow> agent_frame u w"
  unfolding agent_frame_def by (metis subset_trans)

lemma frame_same: "aw_sessions w' = aw_sessions w \<Longrightarrow> set (aw_events w) \<subseteq> set (aw_events w') \<Longrightarrow> agent_frame w w'"
  by (simp add: agent_frame_def find_session_by_external_def)

lemma find_append_Some: "find P xs = Some x \<Longrightarrow> find P (xs @ ys) = Some x"
  by (induction xs) (auto split: if_splits)

lemma find_map_keep: "(\<And>x. P (f x) = P x) \<Longrightarrow> find P (map f xs) = map_option f (find P xs)"
  by (induction xs) auto

lemma create_frame: "create_session ma md i auth rq w = Inr (w', s) \<Longrightarrow> agent_frame w w'"
  by (auto simp: create_session_def guard_simps Let_def agent_frame_def find_session_by_external_def add_audit_def
      find_append_Some split: if_splits option.splits)

lemma complete_frame: "complete_session auth i w = Inr w' \<Longrightarrow> agent_frame w w'"
  by (auto simp: complete_session_def Let_def agent_frame_def find_session_by_external_def add_audit_def find_map_keep
      split: option.splits)

lemma event_frame:
  assumes "get_db (ingest_agent_event verify replay str_of build_index st i now auth rq body) (g, w) = ((g', w'), res)"
  shows "agent_frame w w'"
proof (cases res)
  case (Inl e)
  then have "w' = w" using assms by (auto simp: get_db_def split: prod.splits sum.splits)
  then show ?thesis by simp
next
  case (Inr r)
  then have h: "ingest_agent_event verify replay str_of build_index st i now auth rq body (g, w) = ((g', w'), Inr r)"
    using assms by (auto simp: get_db_def split: prod.splits sum.splits)
  obtain w1 s sid et where id: "identify_sensor verify st now auth rq w = (w1, Inr sid)"
    and rec: "record_event i now (str_of (ctx_org auth)) et body s (build_index (ctx_org auth)) w1 = (w', r)"
    using ingest_ok [OF h] by blast
  have "aw_sessions w' = aw_sessions w1 \<and> set (aw_events w1) \<subseteq> set (aw_events w')"
    using record_event_dup [of s body w1 i now "str_of (ctx_org auth)" et "build_index (ctx_org auth)"]
      record_event_fresh [of s body w1 i now "str_of (ctx_org auth)" et "build_index (ctx_org auth)"] rec
    by (cases "event_exists s body w1") auto
  then show ?thesis using identify_sensor_keeps [OF id] by (intro frame_same) simp_all
qed

lemma later_frame: "(agent_later replay)\<^sup>*\<^sup>* w w' \<Longrightarrow> agent_frame w w'"
proof (induction rule: rtranclp_induct)
  case (step y z)
  from step.hyps(2) have "agent_frame y z"
    by (cases rule: agent_later.cases)
      (auto intro: create_frame complete_frame event_frame frame_same simp: add_audit_def)
  with step.IH show ?case by (rule frame_trans)
qed simp

text \<open>Where an accepted delivery leaves its event.\<close>

lemma accepted_stored:
  assumes "get_db (ingest_agent_event verify replay str_of build_index st i now auth rq body) (g, w) = ((g', w'), Inr r)"
  obtains s e where "find_session_by_external (ctx_org auth) (eb_session_external_id body) w' = Some s" "e \<in> set (aw_events w')"
    "av_session e = se_id s" "av_external_id e = take 128 (eb_external_id body)"
proof -
  have h: "ingest_agent_event verify replay str_of build_index st i now auth rq body (g, w) = ((g', w'), Inr r)"
    using assms by (auto simp: get_db_def split: prod.splits sum.splits)
  obtain w1 s sid et where s: "check_session auth body sid w1 = Inr s"
    and rec: "record_event i now (str_of (ctx_org auth)) et body s (build_index (ctx_org auth)) w1 = (w', r)"
    using ingest_ok [OF h] by blast
  have "event_exists s body w' \<and> aw_sessions w' = aw_sessions w1"
    using record_event_dup [of s body w1 i now "str_of (ctx_org auth)" et "build_index (ctx_org auth)"]
      record_event_fresh [of s body w1 i now "str_of (ctx_org auth)" et "build_index (ctx_org auth)"] rec
    by (cases "event_exists s body w1") auto
  moreover have "find_session_by_external (ctx_org auth) (eb_session_external_id body) w1 = Some s"
    using s by (auto simp: check_session_def split: option.splits if_splits)
  ultimately show thesis
    using that by (auto simp: event_exists_def list_ex_iff find_session_by_external_def)
qed

text \<open>A delivery whose event is stored adds nothing.\<close>

lemma stored_ignored:
  assumes "find_session_by_external (ctx_org auth) (eb_session_external_id body) w = Some s0"
    and "e \<in> set (aw_events w)" and "av_session e = se_id s0" and "av_external_id e = take 128 (eb_external_id body)"
    and "get_db (ingest_agent_event verify replay str_of build_index st i now auth rq body) (g, w) = ((g', w'), res)"
  shows "w' = w\<lparr>aw_enroll := aw_enroll w'\<rparr> \<and> (\<forall>r. res = Inr r \<longrightarrow> er_idempotent r \<and> er_violation r = None)"
proof (cases res)
  case (Inl x)
  then have "w' = w" using assms(5) by (auto simp: get_db_def split: prod.splits sum.splits)
  then show ?thesis using Inl by simp
next
  case (Inr r)
  then have h: "ingest_agent_event verify replay str_of build_index st i now auth rq body (g, w) = ((g', w'), Inr r)"
    using assms(5) by (auto simp: get_db_def split: prod.splits sum.splits)
  obtain w1 s sid et where id: "identify_sensor verify st now auth rq w = (w1, Inr sid)"
    and s: "check_session auth body sid w1 = Inr s"
    and rec: "record_event i now (str_of (ctx_org auth)) et body s (build_index (ctx_org auth)) w1 = (w', r)"
    using ingest_ok [OF h] by blast
  note same = identify_sensor_keeps [OF id]
  have "s = s0" using s assms(1) same by (auto simp: check_session_def find_session_by_external_def split: if_splits)
  then have "event_exists s body w1" using assms(2-4) same by (auto simp: event_exists_def list_ex_iff)
  then have "w' = w1 \<and> er_idempotent r \<and> er_violation r = None"
    using rec by (auto simp: record_event_def split: prod.splits)
  moreover have "w1 = w\<lparr>aw_enroll := aw_enroll w1\<rparr>"
    using id by (auto simp: identify_sensor_def split: if_splits sum.splits option.splits signature_error.splits)
  ultimately show ?thesis using Inr by simp
qed

text \<open>
  C32. Ingestion is idempotent: once a delivery of an event was accepted, and whatever other requests follow, delivering
  it again -- the same external ids of session and event within the organization, by any caller, under any
  settings and new row id -- changes no session, event, violation, policy or audit row, whatever the answer is;
  and when that delivery is accepted it is answered as a duplicate without a violation. It may be refused
  instead, for instance when the session has been completed since; a refused delivery changes nothing and does
  not count as a first one. The retention job, which purges old events, is not among the requests.
\<close>

theorem redelivery_is_idempotent:
  assumes "get_db (ingest_agent_event verify replay str_of build_index st i now auth rq body) (g, w) = ((g1, w1), Inr r)"
    and "(agent_later replay)\<^sup>*\<^sup>* w1 w2"
    and "ctx_org auth' = ctx_org auth" and "eb_session_external_id body' = eb_session_external_id body"
    and "take 128 (eb_external_id body') = take 128 (eb_external_id body)"
    and "get_db (ingest_agent_event verify' replay str_of' build_index' st' i' now' auth' rq' body') (g2, w2) = ((g3, w3), res)"
  shows "w3 = w2\<lparr>aw_enroll := aw_enroll w3\<rparr> \<and> (\<forall>r'. res = Inr r' \<longrightarrow> er_idempotent r' \<and> er_violation r' = None)"
proof -
  obtain s e where s: "find_session_by_external (ctx_org auth) (eb_session_external_id body) w1 = Some s" "e \<in> set (aw_events w1)"
    and e: "av_session e = se_id s" "av_external_id e = take 128 (eb_external_id body)"
    by (rule accepted_stored [OF assms(1)])
  have f: "agent_frame w1 w2" by (rule later_frame [OF assms(2)])
  obtain s2 where s2: "find_session_by_external (ctx_org auth) (eb_session_external_id body) w2 = Some s2" "se_id s2 = se_id s"
    using f s(1) unfolding agent_frame_def by blast
  have e2: "e \<in> set (aw_events w2)" using f s(2) by (auto simp: agent_frame_def)
  have s2': "find_session_by_external (ctx_org auth') (eb_session_external_id body') w2 = Some s2"
    using s2(1) assms(3,4) by simp
  have e': "av_session e = se_id s2" "av_external_id e = take 128 (eb_external_id body')"
    using s2(2) e assms(5) by simp_all
  show ?thesis by (rule stored_ignored [OF s2' e2 e' assms(6)])
qed

definition no_replay :: "string option \<Rightarrow> string option \<Rightarrow> string \<Rightarrow> unit \<Rightarrow> unit \<times> (replay_error + unit)" where
  "no_replay nonce timestamp scope g = (g, Inr ())"

definition delivery :: "uuid \<Rightarrow> agent_world \<Rightarrow> (unit \<times> agent_world) \<times> (http_error + event_response)" where
  "delivery i w = get_db (ingest_agent_event (\<lambda>_ _ _ _. Inl (SignatureError 401 [])) no_replay (\<lambda>_. ''o'') (\<lambda>_. \<lparr>trace_ids = [], dpaths = [], resource_hashes = []\<rparr>) key_settings i 50 demo_auth
     demo_request read_body) ((), w)"

definition delivered :: agent_world where
  "delivered = snd (fst (delivery 11 (demo_world\<lparr>aw_sessions := [demo_session_row]\<rparr>)))"

text \<open>Delivered again in the open session and after its completion: a duplicate, and a refusal.\<close>

theorem redelivery_is_idempotent_witness:
  "aw_events (snd (fst (delivery 12 delivered))) = aw_events delivered \<and> length (aw_events delivered) = 1 \<and>
   (\<exists>closed. complete_session demo_auth 9 delivered = Inr closed \<and>
     aw_events (snd (fst (delivery 12 closed))) = aw_events closed \<and> snd (delivery 12 closed) = Inl (HttpError 409 ''session is not active''))"
proof -
  let ?w = "demo_world\<lparr>aw_sessions := [demo_session_row]\<rparr>"
  have "case delivery 11 ?w of ((g, w), r) \<Rightarrow> is_ok r \<and> length (aw_events w) = 1" by code_simp
  then have ok: "is_ok (snd (delivery 11 ?w))" and len: "length (aw_events delivered) = 1"
    by (simp_all add: delivered_def split: prod.splits)
  then obtain r where d: "delivery 11 ?w = ((fst (fst (delivery 11 ?w)), delivered), Inr r)"
    by (auto simp: is_ok_iff delivered_def prod_eq_iff)
  have "case complete_session demo_auth 9 delivered of Inl _ \<Rightarrow> False
     | Inr c \<Rightarrow> snd (delivery 12 c) = Inl (HttpError 409 ''session is not active'')" by code_simp
  then obtain closed where c: "complete_session demo_auth 9 delivered = Inr closed"
      and st: "snd (delivery 12 closed) = Inl (HttpError 409 ''session is not active'')"
    by (auto split: sum.splits)
  have again: "snd (fst (delivery 12 w2)) = w2\<lparr>aw_enroll := aw_enroll (snd (fst (delivery 12 w2)))\<rparr>" if "(agent_later no_replay)\<^sup>*\<^sup>* delivered w2" for w2
  proof -
    have x: "delivery 12 w2 = ((fst (fst (delivery 12 w2)), snd (fst (delivery 12 w2))), snd (delivery 12 w2))" by (rule prod_eqI) (simp_all add: prod_eq_iff)
    show ?thesis
      using redelivery_is_idempotent [OF d [unfolded delivery_def [of 11]] that refl refl refl x [unfolded delivery_def [of 12 w2]]]
      by (simp add: delivery_def)
  qed
  have same: "aw_events (snd (fst (delivery 12 w2))) = aw_events w2" if "(agent_later no_replay)\<^sup>*\<^sup>* delivered w2" for w2
    using arg_cong [OF again [OF that], of aw_events] by simp
  have "(agent_later no_replay)\<^sup>*\<^sup>* delivered closed" using later_complete [OF c] by blast
  then show ?thesis using same [of closed] same [of delivered] len c st by simp
qed

subsection \<open>A lost audit row\<close>

text \<open>
  The audit row of a failed signature is lost: the handler writes it, raises, and the request's
  transaction rolls it back together with everything else.
\<close>

theorem signature_failure_audit_is_rolled_back:
  assumes "length (rq_body rq) \<le> ig_event_max_bytes st" and "parse_event_type (eb_type body) \<noteq> None"
    and "ig_require_signed st \<and> ig_auth_enabled st \<and> ig_signature_required st"
    and "verify now (ctx_org auth) rq (aw_enroll w) = Inl (SignatureError c m)"
  shows "ingest_agent_event verify replay str_of build_index st i now auth rq body (g, w) =
           ((g, add_audit ''signature_failure'' [] w), Inl (HttpError c m)) \<and>
         get_db (ingest_agent_event verify replay str_of build_index st i now auth rq body) (g, w) =
           ((g, w), Inl (HttpError c m))"
  using assms by (auto simp: get_db_def ingest_agent_event_def identify_sensor_def split: option.splits)

theorem signature_failure_audit_is_rolled_back_witness:
  "get_db (ingest_agent_event (\<lambda>_ _ _ _. Inl (SignatureError 401 ''unknown sensor'')) (\<lambda>_ _ _ g. (g, Inr ()))
      (\<lambda>_. ''o'') (\<lambda>_. \<lparr>trace_ids = [], dpaths = [], resource_hashes = []\<rparr>)
      \<lparr>ig_event_max_bytes = 8192, ig_require_signed = True, ig_auth_enabled = True, ig_signature_required = True\<rparr>
      11 50 demo_auth demo_request read_body) ((), demo_world) =
   (((), demo_world), Inl (HttpError 401 ''unknown sensor''))"
proof -
  have et: "parse_event_type (eb_type read_body) \<noteq> None" by code_simp
  show ?thesis
    by (rule conjunct2 [OF signature_failure_audit_is_rolled_back])
      (use et in \<open>simp_all add: demo_request_def\<close>)
qed

text \<open>
  The session summary counts any \<open>file_\<close> event as a modification, reads and listings included.
\<close>

lemma read_summarised_as_modification:
  assumes "e \<in> set events" and "av_type e \<in> {FILE_READ, FILE_LISTED}"
  shows "map_of (summarize events violations) ''modifications'' = Some ''yes''"
proof -
  have "startswith (event_value (av_type e)) ''file_''"
    using assms(2) by (auto simp: startswith_def)
  then have "list_ex (\<lambda>e. startswith (event_value (av_type e)) ''file_'') events"
    using assms(1) by (auto simp: list_ex_iff)
  then show ?thesis by (simp add: summarize_def session_summary_def yes_no_def)
qed

end
