(* ===== verification/Deploy_Policy.thy ===== *)
theory Deploy_Policy
  imports Repo_Paths
begin

text \<open>
  What a deployment may write: the path policy (\<open>services/deployment/policy.py\<close>), the safety gate over
  a decoy plan (\<open>safety.py\<close>) and the preview, the exact change set that is approved and later written
  (\<open>preview.py\<close>). Rendering of a decoy file, the textual diff and SHA-256 are arguments.
\<close>

subsection \<open>Path policy\<close>

datatype policy_error = PathPolicyError string

record path_policy =
  pp_allowed_prefixes :: "string list"
  pp_protected_patterns :: "string list"
  pp_max_files :: int
  pp_max_bytes :: int

definition policy_from_settings :: "string list \<Rightarrow> string list \<Rightarrow> int \<Rightarrow> int \<Rightarrow> path_policy" where
  "policy_from_settings prefixes patterns max_files max_bytes =
     \<lparr>pp_allowed_prefixes = prefixes, pp_protected_patterns = map py_lower patterns,
      pp_max_files = max_files, pp_max_bytes = max_bytes\<rparr>"

definition executable_suffixes :: "string list" where
  "executable_suffixes = [''.sh'', ''.bash'', ''.zsh'', ''.exe'', ''.bin'', ''.dll'', ''.so'', ''.dylib'',
     ''.com'', ''.bat'', ''.cmd'', ''.ps1'']"

definition binary_suffixes :: "string list" where
  "binary_suffixes = [''.png'', ''.jpg'', ''.jpeg'', ''.gif'', ''.pdf'', ''.zip'', ''.tar'', ''.gz'', ''.jar'',
     ''.class'', ''.o'', ''.a'', ''.wasm'', ''.woff'', ''.woff2'', ''.ico'']"

text \<open>\<open>name.rfind(".")\<close> and the suffix: from the last dot, unless it is the first character.\<close>

definition path_suffix :: "string \<Rightarrow> string" where
  "path_suffix path =
     (let name = last (split_on CHR ''/'' path);
          tail = rev (takeWhile (\<lambda>c. c \<noteq> CHR ''.'') (rev name)) in
      if CHR ''.'' \<in> set name \<and> length tail + 1 < length name then py_lower (CHR ''.'' # tail) else [])"

definition check_path :: "path_policy \<Rightarrow> string \<Rightarrow> policy_error + unit" where
  "check_path pol path =
     (let lowered = py_lower path in
      if path = [] \<or> length path > 2048 then Inl (PathPolicyError ''empty or over-long target path'')
      else if startswith path ''/'' \<or> startswith path ''~'' \<or> CHR 0x5C \<in> set path \<or> nul \<in> set path
      then Inl (PathPolicyError ''absolute, home, or non-portable path is not allowed'')
      else if ''..'' \<in> set (split_on CHR ''/'' path) then Inl (PathPolicyError ''path traversal is not allowed'')
      else if list_ex (contains lowered) (pp_protected_patterns pol)
      then Inl (PathPolicyError ''target matches a protected path pattern'')
      else if \<not> list_ex (startswith path) (pp_allowed_prefixes pol)
      then Inl (PathPolicyError ''target is outside the allowed path prefixes'')
      else if path_suffix path \<in> set executable_suffixes
      then Inl (PathPolicyError ''executable file targets are not permitted'')
      else if path_suffix path \<in> set binary_suffixes
      then Inl (PathPolicyError ''binary file targets are not permitted'')
      else Inr ())"

definition allows :: "path_policy \<Rightarrow> string \<Rightarrow> bool" where
  "allows pol path \<longleftrightarrow> is_ok (check_path pol path)"

definition check_totals :: "path_policy \<Rightarrow> int \<Rightarrow> int \<Rightarrow> policy_error + unit" where
  "check_totals pol file_count total_bytes =
     (if file_count > pp_max_files pol then Inl (PathPolicyError ''too many changed files'')
      else if total_bytes > pp_max_bytes pol then Inl (PathPolicyError ''change set too large'')
      else Inr ())"

text \<open>What an accepted path is.\<close>

definition writable :: "path_policy \<Rightarrow> string \<Rightarrow> bool" where
  "writable pol path \<longleftrightarrow>
     path \<noteq> [] \<and> length path \<le> 2048 \<and> \<not> startswith path ''/'' \<and> ''..'' \<notin> set (split_on CHR ''/'' path) \<and>
     (\<exists>p \<in> set (pp_allowed_prefixes pol). startswith path p) \<and>
     (\<forall>p \<in> set (pp_protected_patterns pol). \<not> contains (py_lower path) p) \<and>
     path_suffix path \<notin> set executable_suffixes \<union> set binary_suffixes"

lemma check_path_ok: "check_path pol path = Inr u \<Longrightarrow> writable pol path"
  unfolding check_path_def Let_def writable_def
  by (simp add: list_ex_iff split: if_split_asm)

subsection \<open>Safety gate\<close>

datatype decision = ACCEPT | WARN | REJECT

record asset =
  as_decoy_id :: uuid
  as_decoy_type :: string
  as_target_location :: string
  as_real_credentials :: bool
  as_real_customer_data :: bool
  as_auth_capability :: string
  as_collision :: bool
  as_trace :: string

record report =
  rp_decoy_id :: uuid
  rp_decision :: decision

record asset_safety =
  af_asset :: asset
  af_reasons :: "string list"

record safety_evaluation =
  sf_deployable :: "asset list"
  sf_rejected :: "asset_safety list"
  sf_collision_ok :: bool

definition is_inert :: "asset \<Rightarrow> bool" where
  "is_inert a \<longleftrightarrow> \<not> as_real_credentials a \<and> \<not> as_real_customer_data a \<and> as_auth_capability a = ''none''"

definition decision_by_decoy :: "report list \<Rightarrow> uuid \<Rightarrow> decision option" where
  "decision_by_decoy reports = map_of (rev (map (\<lambda>r. (rp_decoy_id r, rp_decision r)) reports))"

definition asset_reasons :: "report list \<Rightarrow> path_policy \<Rightarrow> asset \<Rightarrow> string list" where
  "asset_reasons reports pol a =
     (if decision_by_decoy reports (as_decoy_id a) \<noteq> Some ACCEPT then [''no accepted validation report''] else []) @
     (case check_path pol (as_target_location a) of Inl (PathPolicyError m) \<Rightarrow> [m] | Inr _ \<Rightarrow> []) @
     (if as_collision a then [''production-name collision detected''] else []) @
     (if \<not> is_inert a then [''decoy is not inert''] else []) @
     (if as_trace a = [] then [''missing trace identifier''] else [])"

definition evaluate_plan :: "asset list \<Rightarrow> report list \<Rightarrow> path_policy \<Rightarrow> safety_evaluation" where
  "evaluate_plan assets reports pol =
     \<lparr>sf_deployable = filter (\<lambda>a. asset_reasons reports pol a = []) assets,
      sf_rejected = map (\<lambda>a. \<lparr>af_asset = a, af_reasons = asset_reasons reports pol a\<rparr>)
                      (filter (\<lambda>a. asset_reasons reports pol a \<noteq> []) assets),
      sf_collision_ok = list_all (\<lambda>a. \<not> as_collision a) assets\<rparr>"

definition any_deployable :: "safety_evaluation \<Rightarrow> bool" where
  "any_deployable e \<longleftrightarrow> sf_deployable e \<noteq> []"

definition safe_asset :: "report list \<Rightarrow> path_policy \<Rightarrow> asset \<Rightarrow> bool" where
  "safe_asset reports pol a \<longleftrightarrow>
     decision_by_decoy reports (as_decoy_id a) = Some ACCEPT \<and> writable pol (as_target_location a) \<and>
     \<not> as_collision a \<and> is_inert a \<and> as_trace a \<noteq> []"

lemma no_reasons_safe: "asset_reasons reports pol a = [] \<Longrightarrow> safe_asset reports pol a"
  using check_path_ok [of pol "as_target_location a"]
  by (auto simp: asset_reasons_def safe_asset_def split: if_splits sum.splits policy_error.splits)

lemma deployable_safe:
  "a \<in> set (sf_deployable (evaluate_plan assets reports pol)) \<Longrightarrow> a \<in> set assets \<and> safe_asset reports pol a"
  using no_reasons_safe by (auto simp: evaluate_plan_def)

lemma rejected_has_reason:
  "r \<in> set (sf_rejected (evaluate_plan assets reports pol)) \<Longrightarrow> af_reasons r \<noteq> []"
  by (auto simp: evaluate_plan_def)

subsection \<open>The preview\<close>

datatype preview_error = PreviewError string | PreviewPolicyError policy_error

record change_item =
  ci_decoy_id :: uuid
  ci_decoy_type :: string
  ci_target_path :: string
  ci_trace :: string
  ci_content_hash :: string
  ci_diff :: string

record preview =
  pv_target_branch :: string
  pv_base_branch :: string
  pv_base_commit_sha :: string
  pv_items :: "change_item list"
  pv_traces :: "string list"
  pv_collision_ok :: bool
  pv_warnings :: "string list"
  pv_changed_files :: int
  pv_changed_bytes :: int
  pv_expires_at :: "datetime option"
  pv_hash :: string

definition preview_hash :: "(string \<Rightarrow> string) \<Rightarrow> string \<Rightarrow> string \<Rightarrow> change_item list \<Rightarrow> string" where
  "preview_hash sha base_commit_sha target_branch items =
     sha (join_with [CHR 0x0A]
       ([base_commit_sha, target_branch] @
        map (\<lambda>i. ci_target_path i @ '':create:'' @ ci_content_hash i) items))"

definition change_item_of :: "(string \<Rightarrow> string) \<Rightarrow> (asset \<Rightarrow> string) \<Rightarrow> (string \<Rightarrow> string \<Rightarrow> string) \<Rightarrow> asset \<Rightarrow> change_item" where
  "change_item_of sha render diff a =
     \<lparr>ci_decoy_id = as_decoy_id a, ci_decoy_type = as_decoy_type a, ci_target_path = as_target_location a,
      ci_trace = as_trace a, ci_content_hash = sha (render a),
      ci_diff = diff (as_target_location a) (render a)\<rparr>"

definition sorted_set :: "string list \<Rightarrow> string list" where
  "sorted_set xs = sort (remdups xs)"

definition build_preview ::
  "(string \<Rightarrow> string) \<Rightarrow> (asset \<Rightarrow> string) \<Rightarrow> (string \<Rightarrow> string \<Rightarrow> string) \<Rightarrow> string \<Rightarrow> string \<Rightarrow> string \<Rightarrow> asset list \<Rightarrow>
   report list \<Rightarrow> path_policy \<Rightarrow> datetime option \<Rightarrow> preview_error + preview \<times> (uuid \<times> string) list" where
  "build_preview sha render diff base_branch base_commit_sha target_branch assets reports pol expires_at =
     (let safety = evaluate_plan assets reports pol in
      if \<not> any_deployable safety
      then Inl (PreviewError ''no assets passed safety and path policy; nothing to deploy'')
      else
        let items = map (change_item_of sha render diff) (sf_deployable safety);
            contents = foldl (\<lambda>d a. AList.update (as_decoy_id a) (render a) d) [] (sf_deployable safety);
            total_bytes = sum_list (map (\<lambda>a. int (length (render a))) (sf_deployable safety))
        in case check_totals pol (int (length items)) total_bytes of
             Inl e \<Rightarrow> Inl (PreviewPolicyError e)
           | Inr _ \<Rightarrow>
               Inr (\<lparr>pv_target_branch = target_branch, pv_base_branch = base_branch,
                     pv_base_commit_sha = base_commit_sha, pv_items = items,
                     pv_traces = sorted_set (map ci_trace items), pv_collision_ok = sf_collision_ok safety,
                     pv_warnings = map (\<lambda>r. as_target_location (af_asset r) @ '': '' @ join_with ''; '' (af_reasons r))
                                     (sf_rejected safety),
                     pv_changed_files = int (length items), pv_changed_bytes = total_bytes,
                     pv_expires_at = expires_at,
                     pv_hash = preview_hash sha base_commit_sha target_branch items\<rparr>, contents))"

lemma build_preview_ok:
  assumes "build_preview sha render diff bb sh tb assets reports pol ex = Inr (pv, contents)"
  shows "pv_items pv = map (change_item_of sha render diff) (sf_deployable (evaluate_plan assets reports pol))"
    "pv_items pv \<noteq> []" "int (length (pv_items pv)) \<le> pp_max_files pol" "pv_changed_bytes pv \<le> pp_max_bytes pol"
    "pv_changed_bytes pv = sum_list (map (\<lambda>a. int (length (render a))) (sf_deployable (evaluate_plan assets reports pol)))"
    "pv_hash pv = preview_hash sha sh tb (pv_items pv)"
    "pv_traces pv = sorted_set (map ci_trace (pv_items pv))"
  using assms
  by (auto simp: build_preview_def Let_def any_deployable_def check_totals_def split: if_splits sum.splits)

text \<open>
  A preview only ever contains safe changes: it is never empty, every item comes from an asset of
  the plan whose latest validation report accepts it, that is inert, has a trace marker and no name
  collision, and whose path is relative, free of traversal, inside the allowed prefixes and neither
  protected, executable nor binary; and the file and byte ceilings hold.
\<close>

theorem preview_is_safe:
  assumes "build_preview sha render diff bb sh tb assets reports pol ex = Inr (pv, contents)"
  shows "pv_items pv \<noteq> [] \<and> int (length (pv_items pv)) \<le> pp_max_files pol \<and>
    pv_changed_bytes pv \<le> pp_max_bytes pol \<and>
    list_all (\<lambda>i. \<exists>a \<in> set assets. safe_asset reports pol a \<and> i = change_item_of sha render diff a \<and>
       writable pol (ci_target_path i)) (pv_items pv)"
proof -
  note p = build_preview_ok [OF assms]
  have "\<exists>a \<in> set assets. safe_asset reports pol a \<and> i = change_item_of sha render diff a \<and> writable pol (ci_target_path i)"
    if "i \<in> set (pv_items pv)" for i
    using that deployable_safe unfolding p(1) by (fastforce simp: change_item_of_def safe_asset_def)
  then show ?thesis using p(2-4) by (auto simp: list_all_iff)
qed

definition demo_asset :: asset where
  "demo_asset = \<lparr>as_decoy_id = 1, as_decoy_type = ''runbook'', as_target_location = ''docs/ops.md'',
     as_real_credentials = False, as_real_customer_data = False, as_auth_capability = ''none'',
     as_collision = False, as_trace = ''t1''\<rparr>"

definition demo_policy :: path_policy where
  "demo_policy = policy_from_settings [''docs/'', ''runbooks/''] [''.env'', ''Secret''] 25 4096"

theorem preview_is_safe_witness:
  "\<exists>pv contents. build_preview (\<lambda>s. s) (\<lambda>a. ''x'') (\<lambda>p c. c) ''main'' ''b0'' ''df''
       [demo_asset, demo_asset\<lparr>as_decoy_id := 2, as_target_location := ''docs/../etc/x''\<rparr>]
       [\<lparr>rp_decoy_id = 1, rp_decision = ACCEPT\<rparr>] demo_policy None = Inr (pv, contents) \<and> pv_items pv \<noteq> []"
proof -
  let ?b = "build_preview (\<lambda>s. s) (\<lambda>a. ''x'') (\<lambda>p c. c) ''main'' ''b0'' ''df''
       [demo_asset, demo_asset\<lparr>as_decoy_id := 2, as_target_location := ''docs/../etc/x''\<rparr>]
       [\<lparr>rp_decoy_id = 1, rp_decision = ACCEPT\<rparr>] demo_policy None"
  have ok: "is_ok ?b" by code_simp
  then obtain pv contents where b: "?b = Inr (pv, contents)" by (auto simp: is_ok_iff)
  show ?thesis using preview_is_safe [OF b] b by blast
qed

end
