(* ===== verification/Deployment_Model.thy ===== *)
theory Deployment_Model
  imports Deploy_Policy Lifecycle
begin

text \<open>
  The deployment state machine (\<open>models/domain/deployment.py\<close>) and the organization-scoped repository
  over deployments, change-set items, approvals, audit rows, jobs and tripwires
  (\<open>repositories/deployments.py\<close>). Tables are lists of records; unique constraints are tested where
  the code relies on \<open>IntegrityError\<close>.
\<close>

subsection \<open>The state machine\<close>

datatype deployment_status = DRAFT | AWAITING_APPROVAL | PREVIEW_STALE | REAPPROVAL_REQUIRED | APPROVED
  | REJECTED | DEPLOYING | DEPLOYED | DEPLOYED_UNMONITORED | VERIFICATION_FAILED | FAILED_ACTIVATION
  | FAILED | CANCELLED | RETIRING | RETIRED | ROLLBACK_PENDING | ROLLED_BACK | EXPIRED

fun dep_table :: "deployment_status \<Rightarrow> deployment_status list" where
  "dep_table DRAFT = [AWAITING_APPROVAL, CANCELLED]"
| "dep_table AWAITING_APPROVAL = [APPROVED, REJECTED, PREVIEW_STALE, CANCELLED]"
| "dep_table PREVIEW_STALE = [REAPPROVAL_REQUIRED]"
| "dep_table REAPPROVAL_REQUIRED = [AWAITING_APPROVAL, CANCELLED]"
| "dep_table APPROVED = [DEPLOYING, PREVIEW_STALE, CANCELLED]"
| "dep_table DEPLOYING = [DEPLOYED, DEPLOYED_UNMONITORED, VERIFICATION_FAILED, FAILED_ACTIVATION, FAILED, CANCELLED]"
| "dep_table DEPLOYED = [RETIRING, ROLLBACK_PENDING, EXPIRED]"
| "dep_table DEPLOYED_UNMONITORED = [RETIRING, ROLLBACK_PENDING, EXPIRED]"
| "dep_table VERIFICATION_FAILED = [ROLLBACK_PENDING, RETIRING]"
| "dep_table FAILED_ACTIVATION = [ROLLBACK_PENDING, RETIRING]"
| "dep_table FAILED = [AWAITING_APPROVAL, CANCELLED]"
| "dep_table RETIRING = [RETIRED, FAILED]"
| "dep_table ROLLBACK_PENDING = [ROLLED_BACK, FAILED]"
| "dep_table EXPIRED = [RETIRING]"
| "dep_table REJECTED = []"
| "dep_table CANCELLED = []"
| "dep_table RETIRED = []"
| "dep_table ROLLED_BACK = []"

fun status_value :: "deployment_status \<Rightarrow> string" where
  "status_value DRAFT = ''draft''"
| "status_value AWAITING_APPROVAL = ''awaiting_approval''"
| "status_value PREVIEW_STALE = ''preview_stale''"
| "status_value REAPPROVAL_REQUIRED = ''reapproval_required''"
| "status_value APPROVED = ''approved''"
| "status_value REJECTED = ''rejected''"
| "status_value DEPLOYING = ''deploying''"
| "status_value DEPLOYED = ''deployed''"
| "status_value DEPLOYED_UNMONITORED = ''deployed_unmonitored''"
| "status_value VERIFICATION_FAILED = ''verification_failed''"
| "status_value FAILED_ACTIVATION = ''failed_activation''"
| "status_value FAILED = ''failed''"
| "status_value CANCELLED = ''cancelled''"
| "status_value RETIRING = ''retiring''"
| "status_value RETIRED = ''retired''"
| "status_value ROLLBACK_PENDING = ''rollback_pending''"
| "status_value ROLLED_BACK = ''rolled_back''"
| "status_value EXPIRED = ''expired''"

datatype dep_error = DeploymentNotFound | InvalidTransition deployment_status deployment_status
  | ClientFailure string

definition transition_message :: "deployment_status \<Rightarrow> deployment_status \<Rightarrow> string" where
  "transition_message current target =
     ''invalid deployment transition: '' @ status_value current @ '' -> '' @ status_value target"

definition dep_can :: "deployment_status \<Rightarrow> deployment_status \<Rightarrow> bool" where
  "dep_can current target \<longleftrightarrow> target \<in> set (dep_table current)"

definition dep_assert :: "deployment_status \<Rightarrow> deployment_status \<Rightarrow> dep_error + unit" where
  "dep_assert current target = (if \<not> dep_can current target then Inl (InvalidTransition current target) else Inr ())"

interpretation dep_lc: lifecycle dep_table dep_can dep_assert InvalidTransition
  by unfold_locales (auto simp: dep_can_def dep_assert_def)

definition all_statuses :: "deployment_status list" where
  "all_statuses = [DRAFT, AWAITING_APPROVAL, PREVIEW_STALE, REAPPROVAL_REQUIRED, APPROVED, REJECTED, DEPLOYING,
     DEPLOYED, DEPLOYED_UNMONITORED, VERIFICATION_FAILED, FAILED_ACTIVATION, FAILED, CANCELLED, RETIRING,
     RETIRED, ROLLBACK_PENDING, ROLLED_BACK, EXPIRED]"

lemma deploying_gate: "DEPLOYING \<in> set (dep_table s) \<Longrightarrow> s \<in> {APPROVED}"
  by (cases s) simp_all

lemma approved_gate: "APPROVED \<in> set (dep_table s) \<Longrightarrow> s \<in> {AWAITING_APPROVAL}"
  by (cases s) simp_all

lemma deployed_gate: "DEPLOYED \<in> set (dep_table s) \<Longrightarrow> s \<in> {DEPLOYING}"
  by (cases s) simp_all

text \<open>
  Nothing is deployed without approval: every legal history that starts from a draft and reaches
  DEPLOYED passes through \<open>AWAITING_APPROVAL\<close>, APPROVED and DEPLOYING, with DEPLOYING right before it,
  and the four terminal states are never left.
\<close>

theorem deployed_only_after_approval:
  assumes "run_from dep_can DRAFT ts" and "DEPLOYED \<in> set ts"
  shows "AWAITING_APPROVAL \<in> set ts \<and> APPROVED \<in> set ts \<and> DEPLOYING \<in> set ts \<and>
    (\<forall>s \<in> {REJECTED, CANCELLED, RETIRED, ROLLED_BACK}. \<forall>us. run_from dep_can s us \<longrightarrow> us = [])"
proof -
  have d: "DEPLOYING \<in> set ts"
    using dep_lc.gate_member [OF deployed_gate assms] by auto
  have a: "APPROVED \<in> set ts"
    using dep_lc.gate_member [OF deploying_gate assms(1) d] by auto
  have w: "AWAITING_APPROVAL \<in> set ts"
    using dep_lc.gate_member [OF approved_gate assms(1) a] by auto
  have "us = []" if "s \<in> {REJECTED, CANCELLED, RETIRED, ROLLED_BACK}" "run_from dep_can s us" for s us
    using dep_lc.terminal_run [of s us] that by auto
  with d a w show ?thesis by blast
qed

theorem deployed_only_after_approval_witness:
  "APPROVED \<in> set [AWAITING_APPROVAL, APPROVED, DEPLOYING, DEPLOYED, RETIRING, RETIRED]"
proof -
  have r: "run_from dep_can DRAFT [AWAITING_APPROVAL, APPROVED, DEPLOYING, DEPLOYED, RETIRING, RETIRED]"
    by code_simp
  show ?thesis using deployed_only_after_approval [OF r] by simp
qed

subsection \<open>Tables\<close>

datatype item_status = ItPlanned | ItDeployed | ItVerified | ItRetired | ItRolledBack | ItFailed

record deployment =
  dp_id :: uuid
  dp_org :: org_id
  dp_repository :: uuid
  dp_plan :: uuid
  dp_requested_by :: "uuid option"
  dp_approved_by :: "uuid option"
  dp_status :: deployment_status
  dp_target_branch :: string
  dp_source_branch :: string
  dp_pr_number :: "nat option"
  dp_pr_url :: "string option"
  dp_base_sha :: string
  dp_deployed_sha :: "string option"
  dp_preview :: "preview option"
  dp_monitoring_at :: "datetime option"
  dp_expires_at :: "datetime option"
  dp_deployed_at :: "datetime option"
  dp_retired_at :: "datetime option"
  dp_failure_code :: "string option"
  dp_failure_message :: "string option"

record dep_item =
  di_deployment :: uuid
  di_decoy :: uuid
  di_path :: string
  di_trace :: string
  di_proposed_hash :: string
  di_deployed_hash :: "string option"
  di_content :: string
  di_status :: item_status

datatype trip_status = TripActive | TripRetired | TripDisabled

record tripwire =
  tw_deployment :: uuid
  tw_decoy :: uuid
  tw_trace :: string
  tw_path :: string
  tw_commit :: string
  tw_status :: trip_status

datatype job_status = JobPending | JobClaimed | JobDone | JobFailed

record dep_job =
  jb_id :: uuid
  jb_org :: org_id
  jb_deployment :: uuid
  jb_type :: string
  jb_status :: job_status
  jb_attempts :: nat
  jb_created :: datetime

record approval_row =
  ap_deployment :: uuid
  ap_actor :: "uuid option"
  ap_decision :: string

record dep_db =
  dd_deployments :: "deployment list"
  dd_items :: "dep_item list"
  dd_tripwires :: "tripwire list"
  dd_jobs :: "dep_job list"
  dd_approvals :: "approval_row list"
  dd_audit :: "(uuid \<times> string) list"
  dd_plans :: "((org_id \<times> uuid) \<times> asset list) list"
  dd_reports :: "((org_id \<times> uuid) \<times> report list) list"

subsection \<open>Repository operations\<close>

definition dep_get :: "org_id \<Rightarrow> uuid \<Rightarrow> dep_db \<Rightarrow> dep_error + deployment" where
  "dep_get organization_id deployment_id db =
     (case find (\<lambda>r. dp_id r = deployment_id) (dd_deployments db) of
        None \<Rightarrow> Inl DeploymentNotFound
      | Some r \<Rightarrow> if dp_org r \<noteq> organization_id then Inl DeploymentNotFound else Inr r)"

definition dep_set :: "uuid \<Rightarrow> (deployment \<Rightarrow> deployment) \<Rightarrow> dep_db \<Rightarrow> dep_db" where
  "dep_set i f db = db\<lparr>dd_deployments := map (\<lambda>r. if dp_id r = i then f r else r) (dd_deployments db)\<rparr>"

definition dep_items :: "uuid \<Rightarrow> dep_db \<Rightarrow> dep_item list" where
  "dep_items i db = sort_key di_path (filter (\<lambda>x. di_deployment x = i) (dd_items db))"

definition dep_audit :: "uuid \<Rightarrow> string \<Rightarrow> dep_db \<Rightarrow> dep_db" where
  "dep_audit i event_type db = db\<lparr>dd_audit := dd_audit db @ [(i, event_type)]\<rparr>"

definition dep_create ::
  "uuid \<Rightarrow> org_id \<Rightarrow> uuid \<Rightarrow> uuid \<Rightarrow> uuid option \<Rightarrow> string \<Rightarrow> string \<Rightarrow> string \<Rightarrow> datetime option \<Rightarrow> dep_db \<Rightarrow>
   dep_db \<times> deployment" where
  "dep_create new_id org repository_id plan_id requested_by target_branch source_branch base_sha expires_at db =
     (let r = \<lparr>dp_id = new_id, dp_org = org, dp_repository = repository_id, dp_plan = plan_id,
               dp_requested_by = requested_by, dp_approved_by = None, dp_status = DRAFT,
               dp_target_branch = target_branch, dp_source_branch = source_branch, dp_pr_number = None,
               dp_pr_url = None, dp_base_sha = base_sha, dp_deployed_sha = None, dp_preview = None,
               dp_monitoring_at = None, dp_expires_at = expires_at, dp_deployed_at = None,
               dp_retired_at = None, dp_failure_code = None, dp_failure_message = None\<rparr>
      in (db\<lparr>dd_deployments := dd_deployments db @ [r]\<rparr>, r))"

definition set_preview :: "uuid \<Rightarrow> preview \<Rightarrow> (uuid \<times> string) list \<Rightarrow> dep_db \<Rightarrow> dep_db" where
  "set_preview i pv contents db =
     (let db1 = db\<lparr>dd_items := filter (\<lambda>x. di_deployment x \<noteq> i) (dd_items db) @
            map (\<lambda>c. \<lparr>di_deployment = i, di_decoy = ci_decoy_id c, di_path = ci_target_path c,
                      di_trace = ci_trace c, di_proposed_hash = ci_content_hash c, di_deployed_hash = None,
                      di_content = (case map_of contents (ci_decoy_id c) of None \<Rightarrow> [] | Some x \<Rightarrow> x), di_status = ItPlanned\<rparr>)
                (pv_items pv)\<rparr>
      in dep_set i (\<lambda>r. r\<lparr>dp_preview := Some pv, dp_target_branch := pv_target_branch pv,
           dp_base_sha := pv_base_commit_sha pv, dp_expires_at := pv_expires_at pv\<rparr>) db1)"

definition dep_transition ::
  "uuid \<Rightarrow> deployment_status \<Rightarrow> deployment_status \<Rightarrow> (deployment \<Rightarrow> deployment) \<Rightarrow> dep_db \<Rightarrow> dep_error + dep_db" where
  "dep_transition i current target upd db =
     and_then (dep_assert current target)
       (\<lambda>_. Inr (dep_set i (\<lambda>r. upd (r\<lparr>dp_status := target\<rparr>)) db))"

definition enqueue_job :: "uuid \<Rightarrow> datetime \<Rightarrow> org_id \<Rightarrow> uuid \<Rightarrow> string \<Rightarrow> dep_db \<Rightarrow> dep_db \<times> bool" where
  "enqueue_job new_id now org i job_type db =
     (if list_ex (\<lambda>j. jb_deployment j = i \<and> jb_type j = job_type) (dd_jobs db) then (db, False)
      else (db\<lparr>dd_jobs := dd_jobs db @ [\<lparr>jb_id = new_id, jb_org = org, jb_deployment = i, jb_type = job_type,
                  jb_status = JobPending, jb_attempts = 0, jb_created = now\<rparr>]\<rparr>, True))"

definition clear_job :: "uuid \<Rightarrow> string \<Rightarrow> dep_db \<Rightarrow> dep_db" where
  "clear_job i job_type db =
     db\<lparr>dd_jobs := filter (\<lambda>j. \<not> (jb_deployment j = i \<and> jb_type j = job_type)) (dd_jobs db)\<rparr>"

definition set_job :: "uuid \<Rightarrow> (dep_job \<Rightarrow> dep_job) \<Rightarrow> dep_db \<Rightarrow> dep_db" where
  "set_job j f db = db\<lparr>dd_jobs := map (\<lambda>x. if jb_id x = j then f x else x) (dd_jobs db)\<rparr>"

definition complete_job :: "uuid \<Rightarrow> bool \<Rightarrow> dep_db \<Rightarrow> dep_db" where
  "complete_job j ok db = set_job j (\<lambda>x. x\<lparr>jb_status := (if ok then JobDone else JobFailed)\<rparr>) db"

definition claim_candidates :: "nat \<Rightarrow> dep_db \<Rightarrow> uuid list" where
  "claim_candidates limit db =
     map jb_id (take limit (sort_key jb_created (filter (\<lambda>j. jb_status j = JobPending) (dd_jobs db))))"

text \<open>\<open>UPDATE ... WHERE id = :id AND status = 'pending'\<close>, the claim of one candidate.\<close>

definition claim_one :: "uuid \<Rightarrow> dep_db \<Rightarrow> dep_db \<times> dep_job option" where
  "claim_one j db =
     (let hits = filter (\<lambda>x. jb_id x = j \<and> jb_status x = JobPending) (dd_jobs db);
          db1 = db\<lparr>dd_jobs := map (\<lambda>x. if jb_id x = j \<and> jb_status x = JobPending
                    then x\<lparr>jb_status := JobClaimed\<rparr> else x) (dd_jobs db)\<rparr>
      in if length hits = 1 then
           (let db2 = set_job j (\<lambda>x. x\<lparr>jb_attempts := jb_attempts x + 1\<rparr>) db1
            in (db2, find (\<lambda>x. jb_id x = j) (dd_jobs db2)))
         else (db1, None))"

fun claim_all :: "uuid list \<Rightarrow> dep_db \<Rightarrow> dep_db \<times> dep_job list" where
  "claim_all [] db = (db, [])"
| "claim_all (j # js) db =
     (let (db1, r) = claim_one j db; (db2, rs) = claim_all js db1
      in (db2, (case r of None \<Rightarrow> rs | Some x \<Rightarrow> x # rs)))"

definition claim_jobs :: "nat \<Rightarrow> dep_db \<Rightarrow> dep_db \<times> dep_job list" where
  "claim_jobs limit db = claim_all (claim_candidates limit db) db"

definition trip_exists :: "uuid \<Rightarrow> string \<Rightarrow> tripwire list \<Rightarrow> bool" where
  "trip_exists i trace rows \<longleftrightarrow> list_ex (\<lambda>t. tw_deployment t = i \<and> tw_trace t = trace) rows"

fun activate_loop :: "uuid \<Rightarrow> string \<Rightarrow> change_item list \<Rightarrow> tripwire list \<Rightarrow> tripwire list \<times> nat" where
  "activate_loop i commit_sha [] rows = (rows, 0)"
| "activate_loop i commit_sha (c # cs) rows =
     (if trip_exists i (ci_trace c) rows then activate_loop i commit_sha cs rows
      else (let (rows', n) = activate_loop i commit_sha cs
              (rows @ [\<lparr>tw_deployment = i, tw_decoy = ci_decoy_id c, tw_trace = ci_trace c,
                        tw_path = ci_target_path c, tw_commit = commit_sha, tw_status = TripActive\<rparr>])
            in (rows', Suc n)))"

definition activate_tripwires :: "uuid \<Rightarrow> change_item list \<Rightarrow> string \<Rightarrow> dep_db \<Rightarrow> dep_db \<times> nat" where
  "activate_tripwires i items commit_sha db =
     (let (rows, n) = activate_loop i commit_sha items (dd_tripwires db) in (db\<lparr>dd_tripwires := rows\<rparr>, n))"

definition set_tripwire_status :: "uuid \<Rightarrow> trip_status \<Rightarrow> dep_db \<Rightarrow> dep_db" where
  "set_tripwire_status i s db =
     db\<lparr>dd_tripwires := map (\<lambda>t. if tw_deployment t = i then t\<lparr>tw_status := s\<rparr> else t) (dd_tripwires db)\<rparr>"

definition active_tripwires :: "uuid \<Rightarrow> dep_db \<Rightarrow> tripwire list" where
  "active_tripwires i db = filter (\<lambda>t. tw_deployment t = i \<and> tw_status t = TripActive) (dd_tripwires db)"

end
