(* ===== verification/Deployment_Client.thy ===== *)
theory Deployment_Client
  imports Deployment_Model
begin

text \<open>
  The repository-deployment port and its in-memory adapter (\<open>services/deployment/github_port.py\<close>). The
  deployment service is written against the port, here a record of operations on a client state; the
  locale states what the port promises and the in-memory adapter interprets it. SHA-256 is an
  argument of the adapter.
\<close>

subsection \<open>The port\<close>

record repo_ref =
  rr_owner :: string
  rr_name :: string
  rr_default_branch :: string

datatype pr_state = PrOpen | PrClosed

record pr_info =
  pr_number :: nat
  pr_url :: string
  pr_status :: pr_state
  pr_merged :: bool
  pr_merge_sha :: "string option"

datatype client_error = DeploymentClientError string

type_synonym tree = "(string \<times> string) list"

record 'c client =
  cl_get_branch :: "'c \<Rightarrow> repo_ref \<Rightarrow> string \<Rightarrow> client_error + string"
  cl_create_branch :: "'c \<Rightarrow> repo_ref \<Rightarrow> string \<Rightarrow> string \<Rightarrow> 'c \<times> (client_error + string)"
  cl_commit_files :: "'c \<Rightarrow> repo_ref \<Rightarrow> string \<Rightarrow> tree \<Rightarrow> string \<Rightarrow> string list \<Rightarrow> 'c \<times> (client_error + string)"
  cl_open_pr :: "'c \<Rightarrow> repo_ref \<Rightarrow> string \<Rightarrow> string \<Rightarrow> 'c \<times> (client_error + pr_info)"
  cl_get_pr :: "'c \<Rightarrow> repo_ref \<Rightarrow> nat \<Rightarrow> client_error + pr_info"
  cl_get_files :: "'c \<Rightarrow> repo_ref \<Rightarrow> string \<Rightarrow> string list \<Rightarrow> client_error + tree"

subsection \<open>The contract\<close>

text \<open>
  "Writes go to a dedicated branch and pull request, never the default branch; nothing is ever merged
  automatically": creating or committing to a branch leaves every other branch where it is, opening
  a pull request moves no branch and merges nothing, and no operation changes the merge status of a
  pull request that exists.
\<close>

locale deployment_port =
  fixes cl :: "'c client"
  assumes create_frame: "cl_create_branch cl c r b s = (c', res) \<Longrightarrow> b' \<noteq> b \<Longrightarrow>
      cl_get_branch cl c' r b' = cl_get_branch cl c r b'"
    and create_pr: "cl_create_branch cl c r b s = (c', res) \<Longrightarrow> cl_get_pr cl c r n = Inr p \<Longrightarrow> cl_get_pr cl c' r n = Inr p"
    and commit_frame: "cl_commit_files cl c r b fs m rm = (c', res) \<Longrightarrow> b' \<noteq> b \<Longrightarrow>
      cl_get_branch cl c' r b' = cl_get_branch cl c r b'"
    and commit_pr: "cl_commit_files cl c r b fs m rm = (c', res) \<Longrightarrow> cl_get_pr cl c r n = Inr p \<Longrightarrow> cl_get_pr cl c' r n = Inr p"
    and open_frame: "cl_open_pr cl c r h b = (c', opened) \<Longrightarrow> cl_get_branch cl c' r b' = cl_get_branch cl c r b'"
    and open_unmerged: "cl_open_pr cl c r h b = (c', Inr p) \<Longrightarrow> \<not> pr_merged p \<and> pr_merge_sha p = None"
    and open_readable: "cl_open_pr cl c r h b = (c', Inr p) \<Longrightarrow> cl_get_pr cl c' r (pr_number p) = Inr p"
begin

text \<open>The write sequence both the deploy and the removal flows perform.\<close>

lemma write_sequence_frame:
  assumes "cl_create_branch cl c r b s = (c1, r1)" and "cl_commit_files cl c1 r b fs m rm = (c2, r2)"
    and "cl_open_pr cl c2 r b base = (c3, r3)" and "b' \<noteq> b"
  shows "cl_get_branch cl c3 r b' = cl_get_branch cl c r b'"
  using assms create_frame commit_frame open_frame by metis

end

subsection \<open>The in-memory adapter\<close>

record fake_repo =
  fk_default :: string
  fk_branches :: "(string \<times> string) list"
  fk_commits :: "(string \<times> tree) list"
  fk_pulls :: "(nat \<times> pr_info) list"
  fk_heads :: "(nat \<times> string) list"
  fk_next_pr :: nat

type_synonym fake = "((string \<times> string) \<times> fake_repo) list"

definition fake_key :: "repo_ref \<Rightarrow> string \<times> string" where
  "fake_key r = (rr_owner r, rr_name r)"

definition register_repo :: "repo_ref \<Rightarrow> string \<Rightarrow> fake \<Rightarrow> fake" where
  "register_repo r base_sha c =
     AList.update (fake_key r) \<lparr>fk_default = rr_default_branch r, fk_branches = [(rr_default_branch r, base_sha)],
       fk_commits = [(base_sha, [])], fk_pulls = [], fk_heads = [], fk_next_pr = 1\<rparr> c"

abbreviation unresolved :: client_error where
  "unresolved \<equiv> DeploymentClientError ''repository/installation not resolved''"

definition fake_get_branch :: "fake \<Rightarrow> repo_ref \<Rightarrow> string \<Rightarrow> client_error + string" where
  "fake_get_branch c r branch =
     (case map_of c (fake_key r) of
        None \<Rightarrow> Inl unresolved
      | Some s \<Rightarrow> (case map_of (fk_branches s) branch of
          None \<Rightarrow> Inl (DeploymentClientError ''branch not found'')
        | Some sha \<Rightarrow> Inr sha))"

definition fake_create_branch :: "fake \<Rightarrow> repo_ref \<Rightarrow> string \<Rightarrow> string \<Rightarrow> fake \<times> (client_error + string)" where
  "fake_create_branch c r new_branch base_sha =
     (case map_of c (fake_key r) of
        None \<Rightarrow> (c, Inl unresolved)
      | Some s \<Rightarrow>
          if map_of (fk_commits s) base_sha = None then (c, Inl (DeploymentClientError ''base commit not found''))
          else (AList.update (fake_key r) (s\<lparr>fk_branches := AList.update new_branch base_sha (fk_branches s)\<rparr>) c,
                Inr base_sha))"

fun update_tree :: "tree \<Rightarrow> tree \<Rightarrow> tree" where
  "update_tree [] t = t"
| "update_tree ((p, x) # fs) t = update_tree fs (AList.update p x t)"

definition commit_tree :: "tree \<Rightarrow> tree \<Rightarrow> string list \<Rightarrow> tree" where
  "commit_tree parent files removed = filter (\<lambda>(p, x). p \<notin> set removed) (update_tree files parent)"

definition fake_commit_files ::
  "(string \<Rightarrow> string) \<Rightarrow> fake \<Rightarrow> repo_ref \<Rightarrow> string \<Rightarrow> tree \<Rightarrow> string \<Rightarrow> string list \<Rightarrow> fake \<times> (client_error + string)" where
  "fake_commit_files sha c r branch files message removed_paths =
     (case map_of c (fake_key r) of
        None \<Rightarrow> (c, Inl unresolved)
      | Some s \<Rightarrow>
          (case map_of (fk_branches s) branch of
             None \<Rightarrow> (c, Inl (DeploymentClientError ''branch not found''))
           | Some parent \<Rightarrow>
               (let t = commit_tree (case map_of (fk_commits s) parent of None \<Rightarrow> [] | Some t \<Rightarrow> t) files removed_paths;
                    commit_sha = sha (parent @ '':'' @ message @ '':'' @ join_with '':'' (sort (map fst t)))
                in (AList.update (fake_key r)
                      (s\<lparr>fk_commits := AList.update commit_sha t (fk_commits s),
                         fk_branches := AList.update branch commit_sha (fk_branches s)\<rparr>) c,
                    Inr commit_sha))))"

definition fake_open_pr :: "fake \<Rightarrow> repo_ref \<Rightarrow> string \<Rightarrow> string \<Rightarrow> fake \<times> (client_error + pr_info)" where
  "fake_open_pr c r head_branch base_branch =
     (case map_of c (fake_key r) of
        None \<Rightarrow> (c, Inl unresolved)
      | Some s \<Rightarrow>
          (let n = fk_next_pr s;
               p = \<lparr>pr_number = n,
                    pr_url = ''https://example.invalid/'' @ rr_owner r @ ''/'' @ rr_name r @ ''/pull/'' @ nat_str n,
                    pr_status = PrOpen, pr_merged = False, pr_merge_sha = None\<rparr>
           in (AList.update (fake_key r)
                 (s\<lparr>fk_next_pr := n + 1, fk_pulls := AList.update n p (fk_pulls s),
                    fk_heads := AList.update n head_branch (fk_heads s)\<rparr>) c, Inr p)))"

definition fake_get_pr :: "fake \<Rightarrow> repo_ref \<Rightarrow> nat \<Rightarrow> client_error + pr_info" where
  "fake_get_pr c r n =
     (case map_of c (fake_key r) of
        None \<Rightarrow> Inl unresolved
      | Some s \<Rightarrow> (case map_of (fk_pulls s) n of
          None \<Rightarrow> Inl (DeploymentClientError ''pull request not found'')
        | Some p \<Rightarrow> Inr p))"

definition fake_get_files :: "fake \<Rightarrow> repo_ref \<Rightarrow> string \<Rightarrow> string list \<Rightarrow> client_error + tree" where
  "fake_get_files c r commit_sha paths =
     (case map_of c (fake_key r) of
        None \<Rightarrow> Inl unresolved
      | Some s \<Rightarrow> (case map_of (fk_commits s) commit_sha of
          None \<Rightarrow> Inl (DeploymentClientError ''commit not found'')
        | Some t \<Rightarrow> Inr (filter (\<lambda>(p, x). p \<in> set paths) t)))"

definition fake_client :: "(string \<Rightarrow> string) \<Rightarrow> fake client" where
  "fake_client sha = \<lparr>cl_get_branch = fake_get_branch, cl_create_branch = fake_create_branch,
     cl_commit_files = fake_commit_files sha, cl_open_pr = fake_open_pr, cl_get_pr = fake_get_pr,
     cl_get_files = fake_get_files\<rparr>"

text \<open>Test hooks of the adapter: the human side of the protocol.\<close>

definition merge_pull_request :: "repo_ref \<Rightarrow> nat \<Rightarrow> fake \<Rightarrow> (fake \<times> string) option" where
  "merge_pull_request r n c =
     (case map_of c (fake_key r) of
        None \<Rightarrow> None
      | Some s \<Rightarrow>
          (case (map_of (fk_pulls s) n, map_of (fk_heads s) n) of
             (Some p, Some h) \<Rightarrow>
               (case map_of (fk_branches s) h of
                  None \<Rightarrow> None
                | Some sha \<Rightarrow>
                    Some (AList.update (fake_key r)
                      (s\<lparr>fk_branches := AList.update (fk_default s) sha (fk_branches s),
                         fk_pulls := AList.update n (p\<lparr>pr_status := PrClosed, pr_merged := True,
                            pr_merge_sha := Some sha\<rparr>) (fk_pulls s)\<rparr>) c, sha))
           | _ \<Rightarrow> None))"

definition close_pull_request :: "repo_ref \<Rightarrow> nat \<Rightarrow> fake \<Rightarrow> fake" where
  "close_pull_request r n c =
     (case map_of c (fake_key r) of
        None \<Rightarrow> c
      | Some s \<Rightarrow>
          (case map_of (fk_pulls s) n of
             None \<Rightarrow> c
           | Some p \<Rightarrow> AList.update (fake_key r)
               (s\<lparr>fk_pulls := AList.update n (p\<lparr>pr_status := PrClosed, pr_merged := False, pr_merge_sha := None\<rparr>) (fk_pulls s)\<rparr>) c))"

subsection \<open>The adapter keeps the contract\<close>

interpretation fake_port: deployment_port "fake_client sha"
proof
  show "cl_get_branch (fake_client sha) c' r b' = cl_get_branch (fake_client sha) c r b'"
    if "cl_create_branch (fake_client sha) c r b s = (c', res)" "b' \<noteq> b" for c c' r b b' s res
    using that by (auto simp: fake_client_def fake_create_branch_def fake_get_branch_def split: option.splits if_splits)
  show "cl_get_pr (fake_client sha) c' r n = Inr p"
    if "cl_create_branch (fake_client sha) c r b s = (c', res)" "cl_get_pr (fake_client sha) c r n = Inr p"
    for c c' r b s res n p
    using that by (auto simp: fake_client_def fake_create_branch_def fake_get_pr_def split: option.splits if_splits)
  show "cl_get_branch (fake_client sha) c' r b' = cl_get_branch (fake_client sha) c r b'"
    if "cl_commit_files (fake_client sha) c r b fs m rm = (c', res)" "b' \<noteq> b" for c c' r b b' fs m rm res
    using that by (auto simp: fake_client_def fake_commit_files_def fake_get_branch_def Let_def split: option.splits)
  show "cl_get_pr (fake_client sha) c' r n = Inr p"
    if "cl_commit_files (fake_client sha) c r b fs m rm = (c', res)" "cl_get_pr (fake_client sha) c r n = Inr p"
    for c c' r b fs m rm res n p
    using that by (auto simp: fake_client_def fake_commit_files_def fake_get_pr_def Let_def split: option.splits)
  show "cl_get_branch (fake_client sha) c' r b' = cl_get_branch (fake_client sha) c r b'"
    if "cl_open_pr (fake_client sha) c r h b = (c', opened)" for c c' r h b b' opened
    using that by (auto simp: fake_client_def fake_open_pr_def fake_get_branch_def Let_def split: option.splits)
  show "\<not> pr_merged p \<and> pr_merge_sha p = None"
    if "cl_open_pr (fake_client sha) c r h b = (c', Inr p)" for c c' r h b p
    using that by (auto simp: fake_client_def fake_open_pr_def Let_def split: option.splits)
  show "cl_get_pr (fake_client sha) c' r (pr_number p) = Inr p"
    if "cl_open_pr (fake_client sha) c r h b = (c', Inr p)" for c c' r h b p
    using that by (auto simp: fake_client_def fake_open_pr_def fake_get_pr_def Let_def split: option.splits)
qed

text \<open>Committed files are what a reader finds at the commit, removed paths are gone.\<close>

lemma update_tree_append: "update_tree (fs @ gs) t = update_tree gs (update_tree fs t)"
  by (induction fs t rule: update_tree.induct) auto

lemma update_tree_map: "map_of (update_tree fs t) p = (case map_of (rev fs) p of None \<Rightarrow> map_of t p | Some x \<Rightarrow> Some x)"
  by (induction fs arbitrary: t rule: rev_induct) (auto simp: update_tree_append split: option.splits)

end
