(* ===== verification/Deployment_Service.thy ===== *)
theory Deployment_Service
  imports Deployment_Client Access
begin

text \<open>
  The deployment lifecycle (\<open>services/deployment/service.py\<close>): execute (branch, commit, pull request,
  never a merge), verify (only a merged pull request activates monitoring), retire and rollback, the
  worker that drains the job queue (\<open>worker.py\<close>) and the lifecycle endpoints of
  \<open>api/deployments.py\<close>. Every operation works on the database and the client state; a raised
  exception is an \<open>Inl\<close> result next to the state reached so far.
\<close>

subsection \<open>Helpers\<close>

type_synonym 'c dep_run = "(dep_db \<times> 'c) \<times> (dep_error + unit)"

definition resolve_repo :: "(uuid \<Rightarrow> string) \<Rightarrow> org_id \<Rightarrow> uuid \<Rightarrow> string \<Rightarrow> repo_ref" where
  "resolve_repo str_of org repository_id default_branch =
     \<lparr>rr_owner = ''org-'' @ str_of org, rr_name = str_of repository_id, rr_default_branch = default_branch\<rparr>"

definition resafe :: "path_policy \<Rightarrow> deployment \<Rightarrow> dep_db \<Rightarrow> bool" where
  "resafe pol r db =
     (case map_of (dd_plans db) (dp_org r, dp_plan r) of
        None \<Rightarrow> False
      | Some assets \<Rightarrow>
          any_deployable (evaluate_plan assets
            (case map_of (dd_reports db) (dp_org r, dp_plan r) of None \<Rightarrow> [] | Some rs \<Rightarrow> rs) pol))"

definition dep_fail :: "deployment \<Rightarrow> string \<Rightarrow> string \<Rightarrow> dep_db \<Rightarrow> dep_db \<times> (dep_error + unit)" where
  "dep_fail r code message db =
     (case dep_transition (dp_id r) (dp_status r) FAILED
             (\<lambda>x. x\<lparr>dp_failure_code := Some code, dp_failure_message := Some (take 512 message)\<rparr>) db of
        Inl e \<Rightarrow> (db, Inl e)
      | Inr db1 \<Rightarrow> (dep_audit (dp_id r) ''deployment_failed'' db1, Inr ()))"

definition with_client :: "'c \<Rightarrow> dep_db \<times> (dep_error + unit) \<Rightarrow> 'c dep_run" where
  "with_client c dr = (case dr of (db, res) \<Rightarrow> ((db, c), res))"

definition branch_prefix :: string where "branch_prefix = ''deceptiforge/decoy-''"

definition deploy_branch :: "(uuid \<Rightarrow> string) \<Rightarrow> uuid \<Rightarrow> string" where
  "deploy_branch str_of i = branch_prefix @ str_of i"

definition record_pr :: "uuid \<Rightarrow> pr_info \<Rightarrow> string \<Rightarrow> dep_db \<Rightarrow> dep_db" where
  "record_pr i p branch db =
     dep_audit i ''pr_created''
       (dep_set i (\<lambda>x. x\<lparr>dp_pr_number := Some (pr_number p), dp_pr_url := Some (pr_url p),
          dp_source_branch := branch\<rparr>) db)"

subsection \<open>Execute\<close>

definition commit_message :: "(uuid \<Rightarrow> string) \<Rightarrow> uuid \<Rightarrow> string" where
  "commit_message str_of i = ''chore(security): add DeceptiForge decoy assets ('' @ str_of i @ '')''"

text \<open>Branch, commit and pull request, each after the other; a client error fails the deployment.\<close>

definition write_change_set ::
  "(uuid \<Rightarrow> string) \<Rightarrow> 'c client \<Rightarrow> repo_ref \<Rightarrow> deployment \<Rightarrow> preview \<Rightarrow> dep_db \<Rightarrow> 'c \<Rightarrow> 'c dep_run" where
  "write_change_set str_of cl repo r pv db c =
     (let i = dp_id r; branch = deploy_branch str_of i in
      case cl_create_branch cl c repo branch (dp_base_sha r) of
        (c1, Inl (DeploymentClientError m)) \<Rightarrow> with_client c1 (dep_fail r ''provider_error'' m db)
      | (c1, Inr _) \<Rightarrow>
          (let db1 = dep_audit i ''branch_created'' db;
               files = map (\<lambda>x. (di_path x, di_content x)) (dep_items i db1) in
           case cl_commit_files cl c1 repo branch files (commit_message str_of i) [] of
             (c2, Inl (DeploymentClientError m)) \<Rightarrow> with_client c2 (dep_fail r ''provider_error'' m db1)
           | (c2, Inr _) \<Rightarrow>
               (let db2 = dep_audit i ''commit_pushed'' db1 in
                case cl_open_pr cl c2 repo branch (pv_base_branch pv) of
                  (c3, Inl (DeploymentClientError m)) \<Rightarrow> with_client c3 (dep_fail r ''provider_error'' m db2)
                | (c3, Inr p) \<Rightarrow> ((record_pr i p branch db2, c3), Inr ()))))"

definition execute_deployment ::
  "(uuid \<Rightarrow> string) \<Rightarrow> 'c client \<Rightarrow> path_policy \<Rightarrow> org_id \<Rightarrow> uuid \<Rightarrow> dep_db \<Rightarrow> 'c \<Rightarrow> 'c dep_run" where
  "execute_deployment str_of cl pol org i db c =
     (case dep_get org i db of
        Inl e \<Rightarrow> ((db, c), Inl e)
      | Inr r \<Rightarrow>
          if dp_status r \<noteq> DEPLOYING then ((db, c), Inr ())
          else (case dp_preview r of
            None \<Rightarrow> with_client c (dep_fail r ''no_preview'' ''deployment has no preview'' db)
          | Some pv \<Rightarrow>
              if \<not> resafe pol r db
              then with_client c (dep_fail r ''safety_failed'' ''safety re-check failed before write'' db)
              else
                let repo = resolve_repo str_of org (dp_repository r) (pv_base_branch pv) in
                case cl_get_branch cl c repo (pv_base_branch pv) of
                  Inl (DeploymentClientError m) \<Rightarrow> with_client c (dep_fail r ''provider_error'' m db)
                | Inr current \<Rightarrow>
                    if current \<noteq> dp_base_sha r then
                      with_client c (dep_fail r ''base_changed'' ''base branch changed; re-approval required''
                        (dep_audit i ''stale_preview_detected'' db))
                    else if dp_pr_number r \<noteq> None then ((db, c), Inr ())
                    else write_change_set str_of cl repo r pv db c))"

subsection \<open>Verify\<close>

definition mark_item :: "dep_item \<Rightarrow> (dep_item \<Rightarrow> dep_item) \<Rightarrow> dep_db \<Rightarrow> dep_db" where
  "mark_item it f db = db\<lparr>dd_items := map (\<lambda>x. if x = it then f x else x) (dd_items db)\<rparr>"

fun verify_items :: "(string \<Rightarrow> string) \<Rightarrow> tree \<Rightarrow> dep_item list \<Rightarrow> dep_db \<Rightarrow> dep_db \<times> bool" where
  "verify_items sha merged [] db = (db, True)"
| "verify_items sha merged (it # its) db =
     (if map_of merged (di_path it) = None \<or> sha (the (map_of merged (di_path it))) \<noteq> di_proposed_hash it
      then (db, False)
      else verify_items sha merged its
        (mark_item it (\<lambda>x. x\<lparr>di_deployed_hash := Some (di_proposed_hash x), di_status := ItVerified\<rparr>) db))"

definition activate_monitoring ::
  "datetime \<Rightarrow> deployment \<Rightarrow> string \<Rightarrow> dep_db \<Rightarrow> dep_db \<times> (dep_error + unit)" where
  "activate_monitoring now r merge_sha db =
     (let i = dp_id r;
          change_items = (case dp_preview r of None \<Rightarrow> [] | Some pv \<Rightarrow> pv_items pv);
          (db1, activated) = activate_tripwires i change_items merge_sha db;
          active = length (active_tripwires i db1) in
      if active = length change_items \<and> active > 0 then
        (case dep_transition i (dp_status r) DEPLOYED
                (\<lambda>x. x\<lparr>dp_deployed_sha := Some merge_sha, dp_deployed_at := Some now, dp_monitoring_at := Some now\<rparr>) db1 of
           Inl e \<Rightarrow> (db1, Inl e)
         | Inr db2 \<Rightarrow> (dep_audit i ''monitoring_activated'' db2, Inr ()))
      else
        (case dep_transition i (dp_status r) DEPLOYED_UNMONITORED
                (\<lambda>x. x\<lparr>dp_deployed_sha := Some merge_sha, dp_deployed_at := Some now,
                       dp_failure_code := Some ''activation_failed'',
                       dp_failure_message := Some ''deployment merged but monitoring activation was incomplete''\<rparr>) db1 of
           Inl e \<Rightarrow> (db1, Inl e)
         | Inr db2 \<Rightarrow> (dep_audit i ''monitoring_activation_failed'' db2, Inr ())))"

definition verify_deploy ::
  "(string \<Rightarrow> string) \<Rightarrow> 'c client \<Rightarrow> datetime \<Rightarrow> deployment \<Rightarrow> repo_ref \<Rightarrow> string \<Rightarrow> dep_db \<Rightarrow> 'c \<Rightarrow>
   dep_db \<times> (dep_error + unit)" where
  "verify_deploy sha cl now r repo merge_sha db c =
     (let i = dp_id r; items = dep_items i db in
      case cl_get_files cl c repo merge_sha (map di_path items) of
        Inl (DeploymentClientError m) \<Rightarrow> (db, Inl (ClientFailure m))
      | Inr merged \<Rightarrow>
          (case verify_items sha merged items db of
             (db1, False) \<Rightarrow>
               (case dep_transition i (dp_status r) VERIFICATION_FAILED
                       (\<lambda>x. x\<lparr>dp_failure_code := Some ''verify_mismatch'', dp_failure_message :=
                            Some ''merged files did not match the approved change set''\<rparr>) db1 of
                  Inl e \<Rightarrow> (db1, Inl e)
                | Inr db2 \<Rightarrow> (dep_audit i ''verification_failed'' db2, Inr ()))
           | (db1, True) \<Rightarrow> activate_monitoring now r merge_sha (dep_audit i ''verification_passed'' db1)))"

definition verify_removal ::
  "'c client \<Rightarrow> datetime \<Rightarrow> deployment \<Rightarrow> repo_ref \<Rightarrow> string \<Rightarrow> deployment_status \<Rightarrow> string \<Rightarrow> dep_db \<Rightarrow> 'c \<Rightarrow>
   dep_db \<times> (dep_error + unit)" where
  "verify_removal cl now r repo merge_sha terminal kind db c =
     (let i = dp_id r; items = dep_items i db in
      case cl_get_files cl c repo merge_sha (map di_path items) of
        Inl (DeploymentClientError m) \<Rightarrow> (db, Inl (ClientFailure m))
      | Inr remaining \<Rightarrow>
          if remaining \<noteq> [] then (dep_audit i (kind @ ''_verification_failed'') db, Inr ())
          else
            (case dep_transition i (dp_status r) terminal (\<lambda>x. x\<lparr>dp_retired_at := Some now\<rparr>) db of
               Inl e \<Rightarrow> (db, Inl e)
             | Inr db1 \<Rightarrow>
                 (dep_audit i (kind @ ''_completed'')
                    (db1\<lparr>dd_items := map (\<lambda>x. if di_deployment x = i
                        then x\<lparr>di_status := (if terminal = RETIRED then ItRetired else ItRolledBack)\<rparr> else x)
                        (dd_items db1)\<rparr>), Inr ())))"

definition verify_deployment ::
  "(uuid \<Rightarrow> string) \<Rightarrow> (string \<Rightarrow> string) \<Rightarrow> 'c client \<Rightarrow> datetime \<Rightarrow> org_id \<Rightarrow> uuid \<Rightarrow> dep_db \<Rightarrow> 'c \<Rightarrow>
   dep_db \<times> (dep_error + unit)" where
  "verify_deployment str_of sha cl now org i db c =
     (case dep_get org i db of
        Inl e \<Rightarrow> (db, Inl e)
      | Inr r \<Rightarrow>
          (case dp_pr_number r of
             None \<Rightarrow> (db, Inr ())
           | Some n \<Rightarrow>
               (let repo = resolve_repo str_of org (dp_repository r) ''main'' in
                case cl_get_pr cl c repo n of
                  Inl (DeploymentClientError m) \<Rightarrow> (db, Inl (ClientFailure m))
                | Inr p \<Rightarrow>
                    if pr_status p = PrClosed \<and> \<not> pr_merged p then
                      (case dep_transition i (dp_status r) CANCELLED (\<lambda>x. x) db of
                         Inl e \<Rightarrow> (db, Inl e)
                       | Inr db1 \<Rightarrow> (dep_audit i ''pr_closed_unmerged'' db1, Inr ()))
                    else if \<not> pr_merged p then (db, Inr ())
                    else (case pr_merge_sha p of
                      None \<Rightarrow> (db, Inr ())
                    | Some merge_sha \<Rightarrow>
                        if dp_status r = DEPLOYING then verify_deploy sha cl now r repo merge_sha db c
                        else if dp_status r = RETIRING then
                          verify_removal cl now r repo merge_sha RETIRED ''retirement'' db c
                        else if dp_status r = ROLLBACK_PENDING then
                          verify_removal cl now r repo merge_sha ROLLED_BACK ''rollback'' db c
                        else (db, Inr ())))))"

subsection \<open>Retire and rollback\<close>

datatype removal = Retire | Rollback

fun removal_kind :: "removal \<Rightarrow> string" where
  "removal_kind Retire = ''retire''"
| "removal_kind Rollback = ''rollback''"

fun removal_expected :: "removal \<Rightarrow> deployment_status" where
  "removal_expected Retire = RETIRING"
| "removal_expected Rollback = ROLLBACK_PENDING"

fun removal_trip :: "removal \<Rightarrow> trip_status" where
  "removal_trip Retire = TripRetired"
| "removal_trip Rollback = TripDisabled"

definition removal_failed :: "deployment \<Rightarrow> string \<Rightarrow> dep_db \<Rightarrow> dep_db \<times> (dep_error + unit)" where
  "removal_failed r message db =
     (case dep_transition (dp_id r) (dp_status r) FAILED
             (\<lambda>x. x\<lparr>dp_failure_code := Some ''provider_error'', dp_failure_message := Some (take 512 message)\<rparr>) db of
        Inl e \<Rightarrow> (db, Inl e) | Inr db1 \<Rightarrow> (db1, Inr ()))"

definition removal_branch :: "(uuid \<Rightarrow> string) \<Rightarrow> removal \<Rightarrow> uuid \<Rightarrow> string" where
  "removal_branch str_of k i = ''deceptiforge/'' @ removal_kind k @ ''-'' @ str_of i"

definition removal_message :: "removal \<Rightarrow> string" where
  "removal_message k = ''chore(security): '' @ removal_kind k @ '' DeceptiForge decoys''"

definition write_removal ::
  "(uuid \<Rightarrow> string) \<Rightarrow> 'c client \<Rightarrow> repo_ref \<Rightarrow> deployment \<Rightarrow> removal \<Rightarrow> dep_db \<Rightarrow> 'c \<Rightarrow> 'c dep_run" where
  "write_removal str_of cl repo r k db c =
     (let i = dp_id r; branch = removal_branch str_of k i in
      case cl_get_branch cl c repo (rr_default_branch repo) of
        Inl (DeploymentClientError m) \<Rightarrow> with_client c (removal_failed r m db)
      | Inr default_sha \<Rightarrow>
          (case cl_create_branch cl c repo branch default_sha of
             (c1, Inl (DeploymentClientError m)) \<Rightarrow> with_client c1 (removal_failed r m db)
           | (c1, Inr _) \<Rightarrow>
               (case cl_commit_files cl c1 repo branch [] (removal_message k) (map di_path (dep_items i db)) of
                  (c2, Inl (DeploymentClientError m)) \<Rightarrow> with_client c2 (removal_failed r m db)
                | (c2, Inr _) \<Rightarrow>
                    (case cl_open_pr cl c2 repo branch (rr_default_branch repo) of
                       (c3, Inl (DeploymentClientError m)) \<Rightarrow> with_client c3 (removal_failed r m db)
                     | (c3, Inr p) \<Rightarrow> ((record_pr i p branch db, c3), Inr ())))))"

definition open_removal ::
  "(uuid \<Rightarrow> string) \<Rightarrow> 'c client \<Rightarrow> removal \<Rightarrow> org_id \<Rightarrow> uuid \<Rightarrow> dep_db \<Rightarrow> 'c \<Rightarrow> 'c dep_run" where
  "open_removal str_of cl k org i db c =
     (case dep_get org i db of
        Inl e \<Rightarrow> ((db, c), Inl e)
      | Inr r \<Rightarrow>
          if dp_status r \<noteq> removal_expected k then ((db, c), Inr ())
          else
            let db1 = dep_audit i (removal_kind k @ ''_started'') (set_tripwire_status i (removal_trip k) db)
            in write_removal str_of cl (resolve_repo str_of org (dp_repository r) ''main'') r k db1 c)"

definition retire_deployment where "retire_deployment str_of cl = open_removal str_of cl Retire"
definition rollback_deployment where "rollback_deployment str_of cl = open_removal str_of cl Rollback"

subsection \<open>The worker\<close>

definition dispatch_job ::
  "(uuid \<Rightarrow> string) \<Rightarrow> (string \<Rightarrow> string) \<Rightarrow> 'c client \<Rightarrow> path_policy \<Rightarrow> datetime \<Rightarrow> dep_job \<Rightarrow> dep_db \<Rightarrow> 'c \<Rightarrow> 'c dep_run" where
  "dispatch_job str_of sha cl pol now j db c =
     (if jb_type j = ''execute'' then execute_deployment str_of cl pol (jb_org j) (jb_deployment j) db c
      else if jb_type j = ''verify'' then
        with_client c (verify_deployment str_of sha cl now (jb_org j) (jb_deployment j) db c)
      else if jb_type j = ''retire'' then retire_deployment str_of cl (jb_org j) (jb_deployment j) db c
      else if jb_type j = ''rollback'' then rollback_deployment str_of cl (jb_org j) (jb_deployment j) db c
      else ((db, c), Inr ()))"

fun run_jobs ::
  "(uuid \<Rightarrow> string) \<Rightarrow> (string \<Rightarrow> string) \<Rightarrow> 'c client \<Rightarrow> path_policy \<Rightarrow> datetime \<Rightarrow> dep_job list \<Rightarrow> dep_db \<Rightarrow> 'c \<Rightarrow> dep_db \<times> 'c" where
  "run_jobs str_of sha cl pol now [] db c = (db, c)"
| "run_jobs str_of sha cl pol now (j # js) db c =
     (let ((db1, c1), res) = dispatch_job str_of sha cl pol now j db c
      in run_jobs str_of sha cl pol now js (complete_job (jb_id j) (is_ok res) db1) c1)"

definition run_once ::
  "(uuid \<Rightarrow> string) \<Rightarrow> (string \<Rightarrow> string) \<Rightarrow> 'c client \<Rightarrow> path_policy \<Rightarrow> datetime \<Rightarrow> nat \<Rightarrow> dep_db \<Rightarrow> 'c \<Rightarrow> (dep_db \<times> 'c) \<times> nat" where
  "run_once str_of sha cl pol now batch db c =
     (let (db1, jobs) = claim_jobs batch db in (run_jobs str_of sha cl pol now jobs db1 c, length jobs))"

subsection \<open>Endpoints\<close>

text \<open>
  \<open>auth\<close> is the context that the dependency \<open>require_scope\<close> (theory Access) handed to the endpoint;
  \<open>enabled\<close> is the setting \<open>decoy_deployment_enabled\<close>.
\<close>

definition require_enabled :: "bool \<Rightarrow> http_error + unit" where
  "require_enabled enabled = (if \<not> enabled then Inl (HttpError 404 ''decoy deployment is not enabled'') else Inr ())"

definition of_transition :: "dep_error + dep_db \<Rightarrow> http_error + dep_db" where
  "of_transition r = (case r of
       Inl (InvalidTransition a b) \<Rightarrow> Inl (HttpError 409 (transition_message a b))
     | Inl _ \<Rightarrow> Inl (HttpError 500 ''internal error'')
     | Inr db \<Rightarrow> Inr db)"

definition get_or_404 :: "org_id \<Rightarrow> uuid \<Rightarrow> dep_db \<Rightarrow> http_error + deployment" where
  "get_or_404 org i db = (case dep_get org i db of Inl _ \<Rightarrow> Inl (HttpError 404 ''deployment not found'') | Inr r \<Rightarrow> Inr r)"

definition submit_deployment :: "bool \<Rightarrow> auth_context \<Rightarrow> uuid \<Rightarrow> dep_db \<Rightarrow> http_error + dep_db" where
  "submit_deployment enabled auth i db =
     and_then (require_enabled enabled) (\<lambda>_.
     and_then (get_or_404 (ctx_org auth) i db) (\<lambda>r.
       and_then (of_transition (dep_transition i (dp_status r) AWAITING_APPROVAL (\<lambda>x. x) db))
         (\<lambda>db1. Inr (dep_audit i ''submitted'' db1))))"

definition approve_deployment :: "bool \<Rightarrow> bool \<Rightarrow> auth_context \<Rightarrow> uuid \<Rightarrow> dep_db \<Rightarrow> http_error + dep_db" where
  "approve_deployment enabled require_separate auth i db =
     and_then (require_enabled enabled) (\<lambda>_.
     and_then (get_or_404 (ctx_org auth) i db) (\<lambda>r.
       if require_separate \<and> ctx_key_id auth \<noteq> None \<and> dp_requested_by r \<noteq> None \<and>
          ctx_key_id auth = dp_requested_by r
       then Inl (HttpError 403 ''a separate actor must approve this deployment'')
       else and_then (of_transition (dep_transition i (dp_status r) APPROVED
                (\<lambda>x. x\<lparr>dp_approved_by := ctx_key_id auth\<rparr>) db))
         (\<lambda>db1. Inr (dep_audit i ''approved'' (db1\<lparr>dd_approvals := dd_approvals db1 @
            [\<lparr>ap_deployment = i, ap_actor = ctx_key_id auth, ap_decision = ''approved''\<rparr>]\<rparr>)))))"

definition reject_deployment :: "bool \<Rightarrow> auth_context \<Rightarrow> uuid \<Rightarrow> dep_db \<Rightarrow> http_error + dep_db" where
  "reject_deployment enabled auth i db =
     and_then (require_enabled enabled) (\<lambda>_.
     and_then (get_or_404 (ctx_org auth) i db) (\<lambda>r.
       and_then (of_transition (dep_transition i (dp_status r) REJECTED (\<lambda>x. x) db))
         (\<lambda>db1. Inr (dep_audit i ''rejected'' (db1\<lparr>dd_approvals := dd_approvals db1 @
            [\<lparr>ap_deployment = i, ap_actor = ctx_key_id auth, ap_decision = ''rejected''\<rparr>]\<rparr>)))))"

definition lifecycle_action ::
  "bool \<Rightarrow> uuid \<Rightarrow> datetime \<Rightarrow> auth_context \<Rightarrow> uuid \<Rightarrow> deployment_status \<Rightarrow> string \<Rightarrow> string \<Rightarrow> dep_db \<Rightarrow> http_error + dep_db" where
  "lifecycle_action enabled new_job now auth i target job_type event db =
     and_then (require_enabled enabled) (\<lambda>_.
     and_then (get_or_404 (ctx_org auth) i db) (\<lambda>r.
       and_then (of_transition (dep_transition i (dp_status r) target (\<lambda>x. x) db))
         (\<lambda>db1. Inr (dep_audit i event
            (fst (enqueue_job new_job now (ctx_org auth) i job_type (clear_job i job_type db1)))))))"

datatype dep_request = ReqDeploy | ReqRetire | ReqRollback

fun request_action :: "dep_request \<Rightarrow> bool \<Rightarrow> uuid \<Rightarrow> datetime \<Rightarrow> auth_context \<Rightarrow> uuid \<Rightarrow> dep_db \<Rightarrow> http_error + dep_db" where
  "request_action ReqDeploy en nj now auth i = lifecycle_action en nj now auth i DEPLOYING ''execute'' ''deployment_started''"
| "request_action ReqRetire en nj now auth i = lifecycle_action en nj now auth i RETIRING ''retire'' ''retirement_started''"
| "request_action ReqRollback en nj now auth i = lifecycle_action en nj now auth i ROLLBACK_PENDING ''rollback'' ''rollback_started''"

datatype create_error = CreateHttp http_error | CreateUncaught policy_error

definition create_deployment ::
  "(uuid \<Rightarrow> string) \<Rightarrow> (string \<Rightarrow> string) \<Rightarrow> (asset \<Rightarrow> string) \<Rightarrow> (string \<Rightarrow> string \<Rightarrow> string) \<Rightarrow> bool \<Rightarrow> path_policy \<Rightarrow> int \<Rightarrow> uuid \<Rightarrow>
   datetime \<Rightarrow> auth_context \<Rightarrow> uuid \<Rightarrow> uuid \<Rightarrow> string \<Rightarrow> string \<Rightarrow> dep_db \<Rightarrow> create_error + dep_db" where
  "create_deployment str_of sha render diff enabled pol expiry_days new_id now auth repository_id plan_id base_branch
      base_sha db =
     (if \<not> enabled then Inl (CreateHttp (HttpError 404 ''decoy deployment is not enabled'')) else
      case map_of (dd_plans db) (ctx_org auth, plan_id) of
        None \<Rightarrow> Inl (CreateHttp (HttpError 404 ''decoy plan not found''))
      | Some assets \<Rightarrow>
          (let reports = (case map_of (dd_reports db) (ctx_org auth, plan_id) of None \<Rightarrow> [] | Some rs \<Rightarrow> rs);
               expires_at = Some (now + seconds (expiry_days * 86400));
               (db1, r) = dep_create new_id (ctx_org auth) repository_id plan_id (ctx_key_id auth) ''main''
                            base_branch base_sha expires_at db
           in case build_preview sha render diff base_branch base_sha (deploy_branch str_of new_id) assets reports
                     pol expires_at of
                Inl (PreviewError m) \<Rightarrow> Inl (CreateHttp (HttpError 400 m))
              | Inl (PreviewPolicyError e) \<Rightarrow> Inl (CreateUncaught e)
              | Inr (pv, contents) \<Rightarrow>
                  Inr (dep_audit new_id ''preview_generated''
                    (dep_audit new_id ''deployment_created'' (set_preview new_id pv contents db1)))))"

end
