(* ===== verification/Deployment_Props.thy ===== *)
theory Deployment_Props
  imports Deployment_Service
begin

text \<open>
  Properties of the deployment lifecycle: monitoring is activated only for verified merges, writes stay
  on the deployment's own branch, removal always switches monitoring off and jobs are claimed once.
\<close>

subsection \<open>The repository and its tables\<close>

lemma find_map_update:
  assumes "\<And>x. dp_id (f x) = dp_id x"
  shows "find (\<lambda>r. dp_id r = i) (map (\<lambda>r. if dp_id r = i then f r else r) rs) =
    map_option f (find (\<lambda>r. dp_id r = i) rs)"
  by (induction rs) (auto simp: assms)

lemma dep_get_set:
  assumes "\<And>x. dp_id (f x) = dp_id x" "\<And>x. dp_org (f x) = dp_org x"
  shows "dep_get org i (dep_set i f db) = (case dep_get org i db of Inl e \<Rightarrow> Inl e | Inr r \<Rightarrow> Inr (f r))"
  using find_map_update [of f i "dd_deployments db"] assms
  by (auto simp: dep_get_def dep_set_def split: option.splits)

lemma dep_get_cong: "dd_deployments db = dd_deployments db' \<Longrightarrow> dep_get org i db = dep_get org i db'"
  by (simp add: dep_get_def)

lemma deployments_frame [simp]:
  "dd_deployments (dep_audit j e db) = dd_deployments db"
  "dd_deployments (mark_item it f db) = dd_deployments db"
  "dd_deployments (fst (activate_tripwires j its s db)) = dd_deployments db"
  "dd_deployments (set_tripwire_status j ts db) = dd_deployments db"
  by (simp_all add: dep_audit_def mark_item_def activate_tripwires_def set_tripwire_status_def split: prod.splits)

lemma verify_items_deployments [simp]: "dd_deployments (fst (verify_items sha m its db)) = dd_deployments db"
  by (induction sha m its db rule: verify_items.induct) auto

lemma tripwires_frame [simp]:
  "dd_tripwires (dep_audit j e db) = dd_tripwires db"
  "dd_tripwires (dep_set j f db) = dd_tripwires db"
  "dd_tripwires (mark_item it g db) = dd_tripwires db"
  by (simp_all add: dep_audit_def dep_set_def mark_item_def)

lemma active_frame [simp]:
  "active_tripwires i (dep_audit j e db) = active_tripwires i db"
  "active_tripwires i (dep_set j f db) = active_tripwires i db"
  by (simp_all add: active_tripwires_def)

lemma dep_get_audit [simp]: "dep_get org i (dep_audit j e db) = dep_get org i db"
  by (rule dep_get_cong) simp

lemma dep_get_id: "dep_get org i db = Inr r \<Longrightarrow> dp_id r = i \<and> dp_org r = org"
  using find_Some_mem [of "\<lambda>r. dp_id r = i" "dd_deployments db"]
  by (auto simp: dep_get_def split: option.splits if_splits)

lemma dep_transition_Inr:
  "dep_transition i s t f db = Inr db' \<longleftrightarrow> dep_can s t \<and> db' = dep_set i (\<lambda>r. f (r\<lparr>dp_status := t\<rparr>)) db"
  by (auto simp: dep_transition_def dep_assert_def)

lemma dep_transition_Inl:
  "dep_transition i s t f db = Inl e \<longleftrightarrow> \<not> dep_can s t \<and> e = InvalidTransition s t"
  by (auto simp: dep_transition_def dep_assert_def)

subsection \<open>Verification\<close>

lemma verify_items_True:
  "snd (verify_items sha m its db) \<longleftrightarrow>
     (\<forall>it \<in> set its. \<exists>x. map_of m (di_path it) = Some x \<and> sha x = di_proposed_hash it)"
  by (induction sha m its db rule: verify_items.induct) auto

definition verified_merge ::
  "(string \<Rightarrow> string) \<Rightarrow> 'c client \<Rightarrow> repo_ref \<Rightarrow> string \<Rightarrow> dep_item list \<Rightarrow> 'c \<Rightarrow> bool" where
  "verified_merge sha cl repo merge_sha items c \<longleftrightarrow>
     (\<exists>merged. cl_get_files cl c repo merge_sha (map di_path items) = Inr merged \<and>
        list_all (\<lambda>it. \<exists>x. map_of merged (di_path it) = Some x \<and> sha x = di_proposed_hash it) items)"

lemma activate_monitoring_deployed:
  assumes "activate_monitoring now r s db = (db', Inr ())" "dep_get org (dp_id r) db = Inr r0"
    and "dep_get org (dp_id r) db' = Inr r'" "dp_status r' = DEPLOYED" "dp_preview r = Some pv"
  shows "length (active_tripwires (dp_id r) db') = length (pv_items pv) \<and> pv_items pv \<noteq> []"
proof -
  obtain db1 n where a: "activate_tripwires (dp_id r) (pv_items pv) s db = (db1, n)" by fastforce
  have g: "dep_get org (dp_id r) db1 = Inr r0"
    using assms(2) dep_get_cong [of db1 db] deployments_frame(3) [of "dp_id r" "pv_items pv" s db] a by simp
  show ?thesis
  proof (cases "length (active_tripwires (dp_id r) db1) = length (pv_items pv) \<and> length (active_tripwires (dp_id r) db1) > 0")
    case True
    then show ?thesis
      using assms(1) a by (auto simp: activate_monitoring_def assms(5) Let_def dep_transition_Inr split: sum.splits)
  next
    case False
    then have "db' = dep_audit (dp_id r) ''monitoring_activation_failed''
        (dep_set (dp_id r) (\<lambda>x. x\<lparr>dp_status := DEPLOYED_UNMONITORED, dp_deployed_sha := Some s,
           dp_deployed_at := Some now, dp_failure_code := Some ''activation_failed'',
           dp_failure_message := Some ''deployment merged but monitoring activation was incomplete''\<rparr>) db1)"
      using assms(1) a
      by (auto simp: activate_monitoring_def assms(5) Let_def dep_transition_Inr split: sum.splits if_splits)
    then have "dp_status r' = DEPLOYED_UNMONITORED" using assms(3) g by (auto simp: dep_get_set)
    with assms(4) show ?thesis by simp
  qed
qed

text \<open>
  C1. Monitoring is only ever activated for a verified merge: a deploying record becomes DEPLOYED
  through \<open>verify\<close> only if its pull request was merged, every file of the change set is present at the
  merge commit with exactly the approved content hash, and there is one active tripwire per change
  item of a non-empty change set.
\<close>

theorem deployed_means_verified_merge:
  assumes "dep_get org i db = Inr r" and "dp_status r = DEPLOYING" and "dp_preview r = Some pv"
    and "verify_deployment str_of sha cl now org i db c = (db', Inr ())"
    and "dep_get org i db' = Inr r'" and "dp_status r' = DEPLOYED"
  shows "(\<exists>n p s. dp_pr_number r = Some n \<and>
            cl_get_pr cl c (resolve_repo str_of org (dp_repository r) ''main'') n = Inr p \<and>
            pr_merged p \<and> pr_merge_sha p = Some s \<and>
            verified_merge sha cl (resolve_repo str_of org (dp_repository r) ''main'') s (dep_items i db) c) \<and>
         length (active_tripwires i db') = length (pv_items pv) \<and> pv_items pv \<noteq> []"
proof -
  let ?repo = "resolve_repo str_of org (dp_repository r) ''main''"
  have id: "dp_id r = i" using dep_get_id [OF assms(1)] by blast
  have "db' \<noteq> db" using assms(1,2,5,6) by auto
  then obtain n where n: "dp_pr_number r = Some n"
    using assms(1,4) by (auto simp: verify_deployment_def split: option.splits)
  then obtain p where p: "cl_get_pr cl c ?repo n = Inr p"
    using assms(1,4) \<open>db' \<noteq> db\<close> by (auto simp: verify_deployment_def Let_def split: sum.splits client_error.splits)
  have m: "pr_merged p"
  proof (rule ccontr)
    assume "\<not> pr_merged p"
    then have "db' = dep_audit i ''pr_closed_unmerged'' (dep_set i (\<lambda>x. x\<lparr>dp_status := CANCELLED\<rparr>) db)"
      using assms(1,4) n p \<open>db' \<noteq> db\<close>
      by (auto simp: verify_deployment_def Let_def dep_transition_Inr split: sum.splits if_splits)
    then have "dp_status r' = CANCELLED" using assms(1,5) by (auto simp: dep_get_set)
    then show False using assms(6) by simp
  qed
  then obtain s where s: "pr_merge_sha p = Some s"
    using assms(1,4) n p \<open>db' \<noteq> db\<close> by (auto simp: verify_deployment_def Let_def split: option.splits)
  have vd: "verify_deploy sha cl now r ?repo s db c = (db', Inr ())"
    using assms(1,2,4) n p m s by (simp add: verify_deployment_def Let_def)
  then obtain merged where f: "cl_get_files cl c ?repo s (map di_path (dep_items i db)) = Inr merged"
    by (auto simp: verify_deploy_def Let_def id split: sum.splits client_error.splits)
  obtain db1 ok where vi: "verify_items sha merged (dep_items i db) db = (db1, ok)" by fastforce
  have g1: "dep_get org i db1 = Inr r"
    using assms(1) dep_get_cong [of db1 db] verify_items_deployments [of sha merged "dep_items i db" db] vi by simp
  have ok: ok
  proof (rule ccontr)
    assume "\<not> ok"
    then have "db' = dep_audit i ''verification_failed'' (dep_set i (\<lambda>x. x\<lparr>dp_status := VERIFICATION_FAILED,
        dp_failure_code := Some ''verify_mismatch'', dp_failure_message :=
        Some ''merged files did not match the approved change set''\<rparr>) db1)"
      using vd f vi by (simp add: verify_deploy_def Let_def id dep_transition_Inr split: sum.splits)
    then have "dp_status r' = VERIFICATION_FAILED" using assms(5) g1 by (auto simp: dep_get_set)
    then show False using assms(6) by simp
  qed
  then have vm: "verified_merge sha cl ?repo s (dep_items i db) c"
    using f vi verify_items_True [of sha merged "dep_items i db" db]
    by (auto simp: verified_merge_def list_all_iff)
  have am: "activate_monitoring now r s (dep_audit i ''verification_passed'' db1) = (db', Inr ())"
    using vd f vi ok by (simp add: verify_deploy_def Let_def id)
  have "length (active_tripwires i db') = length (pv_items pv) \<and> pv_items pv \<noteq> []"
    using activate_monitoring_deployed [OF am _ _ assms(6,3)] g1 assms(5) id by simp
  with n p m s vm show ?thesis by blast
qed


definition demo_change :: change_item where
  "demo_change = \<lparr>ci_decoy_id = 1, ci_decoy_type = ''runbook'', ci_target_path = ''docs/ops.md'', ci_trace = ''t1'',
     ci_content_hash = ''body'', ci_diff = []\<rparr>"

definition demo_preview :: preview where
  "demo_preview = \<lparr>pv_target_branch = ''df'', pv_base_branch = ''main'', pv_base_commit_sha = ''b0'',
     pv_items = [demo_change], pv_traces = [''t1''], pv_collision_ok = True, pv_warnings = [],
     pv_changed_files = 1, pv_changed_bytes = 4, pv_expires_at = None, pv_hash = ''h''\<rparr>"

definition demo_deployment :: deployment where
  "demo_deployment = \<lparr>dp_id = 5, dp_org = 7, dp_repository = 3, dp_plan = 8, dp_requested_by = Some 1,
     dp_approved_by = Some 2, dp_status = DEPLOYING, dp_target_branch = ''df'', dp_source_branch = ''main'',
     dp_pr_number = None, dp_pr_url = None, dp_base_sha = ''b0'', dp_deployed_sha = None,
     dp_preview = Some demo_preview, dp_monitoring_at = None, dp_expires_at = None, dp_deployed_at = None,
     dp_retired_at = None, dp_failure_code = None, dp_failure_message = None\<rparr>"

definition demo_dep_item :: dep_item where
  "demo_dep_item = \<lparr>di_deployment = 5, di_decoy = 1, di_path = ''docs/ops.md'', di_trace = ''t1'',
     di_proposed_hash = ''body'', di_deployed_hash = None, di_content = ''body'', di_status = ItPlanned\<rparr>"

definition demo_dep_db :: dep_db where
  "demo_dep_db = \<lparr>dd_deployments = [demo_deployment], dd_items = [demo_dep_item], dd_tripwires = [], dd_jobs = [],
     dd_approvals = [], dd_audit = [], dd_plans = [((7, 8), [demo_asset])],
     dd_reports = [((7, 8), [\<lparr>rp_decoy_id = 1, rp_decision = ACCEPT\<rparr>])]\<rparr>"

definition demo_fake :: fake where
  "demo_fake = register_repo (resolve_repo nat_str 7 3 ''main'') ''b0'' []"

definition idsha :: "string \<Rightarrow> string" where "idsha s = s"

text \<open>The database and the adapter after the change set was written, and after the merge.\<close>

definition demo_written where
  "demo_written = execute_deployment nat_str (fake_client idsha) demo_policy 7 5 demo_dep_db demo_fake"

definition demo_merged :: "fake" where
  "demo_merged = (case merge_pull_request (resolve_repo nat_str 7 3 ''main'') 1 (snd (fst demo_written)) of
     None \<Rightarrow> [] | Some (c, s) \<Rightarrow> c)"

definition demo_verified where
  "demo_verified = verify_deployment nat_str idsha (fake_client idsha) 9 7 5 (fst (fst demo_written)) demo_merged"

definition demo_db1 :: dep_db where "demo_db1 = fst (fst demo_written)"
definition demo_db2 :: dep_db where "demo_db2 = fst demo_verified"

lemma demo_facts:
  "is_ok (snd demo_verified)"
  "dep_get 7 5 demo_db1 = Inr (hd (dd_deployments demo_db1))"
  "dep_get 7 5 demo_db2 = Inr (hd (dd_deployments demo_db2))"
  "dp_status (hd (dd_deployments demo_db1)) = DEPLOYING"
  "dp_preview (hd (dd_deployments demo_db1)) = Some demo_preview"
  "dp_status (hd (dd_deployments demo_db2)) = DEPLOYED"
proof -
  have "(case demo_db1 of db \<Rightarrow> dep_get 7 5 db = Inr (hd (dd_deployments db)) \<and>
      dp_status (hd (dd_deployments db)) = DEPLOYING \<and> dp_preview (hd (dd_deployments db)) = Some demo_preview)" by code_simp
  moreover have "(case demo_verified of (db, r) \<Rightarrow> is_ok r \<and> dep_get 7 5 db = Inr (hd (dd_deployments db)) \<and>
      dp_status (hd (dd_deployments db)) = DEPLOYED)" by code_simp
  ultimately show "is_ok (snd demo_verified)" "dep_get 7 5 demo_db1 = Inr (hd (dd_deployments demo_db1))"
    "dep_get 7 5 demo_db2 = Inr (hd (dd_deployments demo_db2))" "dp_status (hd (dd_deployments demo_db1)) = DEPLOYING"
    "dp_preview (hd (dd_deployments demo_db1)) = Some demo_preview" "dp_status (hd (dd_deployments demo_db2)) = DEPLOYED"
    by (simp_all add: demo_db2_def case_prod_beta)
qed

theorem deployed_means_verified_merge_witness:
  "length (active_tripwires 5 demo_db2) = 1"
proof -
  have u: "snd demo_verified = Inr ()" using demo_facts(1) by (cases "snd demo_verified") simp_all
  have "demo_verified = (demo_db2, Inr ())" unfolding demo_db2_def using u by (metis prod.collapse)
  then have e: "verify_deployment nat_str idsha (fake_client idsha) 9 7 5 demo_db1 demo_merged = (demo_db2, Inr ())"
    unfolding demo_verified_def demo_db1_def .
  show ?thesis
    using deployed_means_verified_merge [OF demo_facts(2,4,5) e demo_facts(3,6)]
    by (simp add: demo_preview_def)
qed

subsection \<open>Writes stay on the deployment's own branch\<close>

context deployment_port
begin

lemma write_change_set_frame:
  assumes "write_change_set str_of cl repo r pv db c = ((db', c'), res)" and "b \<noteq> deploy_branch str_of (dp_id r)"
  shows "cl_get_branch cl c' repo b = cl_get_branch cl c repo b"
proof -
  let ?br = "deploy_branch str_of (dp_id r)"
  obtain c1 r1 where 1: "cl_create_branch cl c repo ?br (dp_base_sha r) = (c1, r1)" by fastforce
  note f1 = create_frame [OF 1 assms(2)]
  note w = assms(1) [unfolded write_change_set_def Let_def 1 prod.case]
  show ?thesis
  proof (cases r1)
    case (Inl e)
    obtain m where e: "e = DeploymentClientError m" by (cases e)
    show ?thesis using w [unfolded Inl sum.case e client_error.case] f1
      by (simp add: with_client_def split: prod.split_asm)
  next
    case (Inr s1)
    let ?db = "dep_audit (dp_id r) ''branch_created'' db"
    obtain c2 r2 where 2: "cl_commit_files cl c1 repo ?br (map (\<lambda>x. (di_path x, di_content x)) (dep_items (dp_id r) ?db))
        (commit_message str_of (dp_id r)) [] = (c2, r2)" by fastforce
    note f2 = commit_frame [OF 2 assms(2)]
    note w2 = w [unfolded Inr sum.case 2 prod.case]
    show ?thesis
    proof (cases r2)
      case (Inl e)
      obtain m where e: "e = DeploymentClientError m" by (cases e)
    show ?thesis using w2 [unfolded Inl sum.case e client_error.case] f1 f2
      by (simp add: with_client_def split: prod.split_asm)
    next
      case (Inr s2)
      obtain c3 r3 where 3: "cl_open_pr cl c2 repo ?br (pv_base_branch pv) = (c3, r3)" by fastforce
      note f3 = open_frame [OF 3, of b]
      note w3 = w2 [unfolded Inr sum.case 3 prod.case]
      show ?thesis
      proof (cases r3)
        case (Inl e)
        obtain m where e: "e = DeploymentClientError m" by (cases e)
    show ?thesis using w3 [unfolded Inl sum.case e client_error.case] f1 f2 f3
      by (simp add: with_client_def split: prod.split_asm)
      next
        case (Inr q)
        have "c3 = c'" using w3 [unfolded Inr sum.case] by (simp only: prod.inject)
        then show ?thesis using f1 f2 f3 by simp
      qed
    qed
  qed
qed

lemma execute_frame:
  assumes "execute_deployment str_of cl pol org i db c = ((db', c'), res)" and "dep_get org i db = Inr r"
    and "dp_preview r = Some pv" and "b \<noteq> deploy_branch str_of i"
  shows "cl_get_branch cl c' (resolve_repo str_of org (dp_repository r) (pv_base_branch pv)) b =
         cl_get_branch cl c (resolve_repo str_of org (dp_repository r) (pv_base_branch pv)) b"
proof -
  let ?repo = "resolve_repo str_of org (dp_repository r) (pv_base_branch pv)"
  have id: "dp_id r = i" using dep_get_id [OF assms(2)] by blast
  note w = assms(1) [unfolded execute_deployment_def Let_def assms(2,3) sum.case option.case]
  show ?thesis
  proof (cases "\<exists>e. write_change_set str_of cl ?repo r pv db c = ((db', c'), res)")
    case True
    then show ?thesis using write_change_set_frame assms(4) id by blast
  next
    case False
    then have "c' = c"
      using w by (auto simp: with_client_def split: if_split_asm sum.split_asm client_error.split_asm prod.split_asm)
    then show ?thesis by simp
  qed
qed

end

text \<open>
  Execution never moves a branch other than the deployment's own: on the in-memory adapter, after
  \<open>execute\<close>, whatever its outcome, every branch except \<open>deceptiforge/decoy-<id>\<close>, the default branch in
  particular, points where it did.
\<close>

theorem execute_leaves_other_branches:
  assumes "execute_deployment str_of (fake_client sha) pol org i db c = ((db', c'), res)"
    and "dep_get org i db = Inr r" and "dp_preview r = Some pv" and "b \<noteq> deploy_branch str_of i"
  shows "fake_get_branch c' (resolve_repo str_of org (dp_repository r) (pv_base_branch pv)) b =
         fake_get_branch c (resolve_repo str_of org (dp_repository r) (pv_base_branch pv)) b"
  using fake_port.execute_frame [OF assms] by (simp add: fake_client_def)

theorem execute_leaves_other_branches_witness:
  "fake_get_branch (snd (fst demo_written)) (resolve_repo nat_str 7 3 ''main'') ''main'' = Inr ''b0''"
proof -
  obtain db' c' res where e: "execute_deployment nat_str (fake_client idsha) demo_policy 7 5 demo_dep_db demo_fake =
      ((db', c'), res)" by (metis prod.exhaust)
  have g: "dep_get 7 5 demo_dep_db = Inr demo_deployment" by code_simp
  have p: "dp_preview demo_deployment = Some demo_preview" by (simp add: demo_deployment_def)
  have b: "''main'' \<noteq> deploy_branch nat_str 5" by code_simp
  have f: "fake_get_branch demo_fake (resolve_repo nat_str 7 3 ''main'') ''main'' = Inr ''b0''" by code_simp
  show ?thesis
    using execute_leaves_other_branches [OF e g p b] f e
    by (simp add: demo_written_def demo_deployment_def demo_preview_def)
qed

subsection \<open>Removal switches monitoring off\<close>

lemma active_after_set: "ts \<noteq> TripActive \<Longrightarrow> active_tripwires i (set_tripwire_status i ts db) = []"
proof -
  assume ts: "ts \<noteq> TripActive"
  have "filter (\<lambda>t. tw_deployment t = i \<and> tw_status t = TripActive)
      (map (\<lambda>t. if tw_deployment t = i then t\<lparr>tw_status := ts\<rparr> else t) ws) = []" for ws
    using ts by (induction ws) auto
  then show ?thesis by (simp add: active_tripwires_def set_tripwire_status_def)
qed

lemma removal_failed_tripwires: "dd_tripwires (fst (removal_failed r m db)) = dd_tripwires db"
proof (cases "dep_can (dp_status r) FAILED")
  case True
  then show ?thesis by (simp add: removal_failed_def dep_transition_def dep_assert_def)
next
  case False
  then show ?thesis by (simp add: removal_failed_def dep_transition_def dep_assert_def)
qed

lemma with_client_db [simp]: "fst (fst (with_client c dr)) = fst dr"
  by (simp add: with_client_def split: prod.splits)

lemma write_removal_tripwires:
  "dd_tripwires (fst (fst (write_removal str_of cl repo r k db c))) = dd_tripwires db"
proof -
  let ?br = "removal_branch str_of k (dp_id r)"
  note d = write_removal_def [of str_of cl repo r k db c, unfolded Let_def]
  show ?thesis
  proof (cases "cl_get_branch cl c repo (rr_default_branch repo)")
    case (Inl e)
    then show ?thesis by (cases e) (simp add: d removal_failed_tripwires)
  next
    case b: (Inr sha0)
    obtain c1 r1 where 1: "cl_create_branch cl c repo ?br sha0 = (c1, r1)" by fastforce
    show ?thesis
    proof (cases r1)
      case (Inl e)
      then show ?thesis by (cases e) (simp add: d b 1 removal_failed_tripwires)
    next
      case r1: (Inr s1)
      obtain c2 r2 where 2: "cl_commit_files cl c1 repo ?br [] (removal_message k)
          (map di_path (dep_items (dp_id r) db)) = (c2, r2)" by fastforce
      show ?thesis
      proof (cases r2)
        case (Inl e)
        then show ?thesis using 2 by (cases e) (simp add: d b 1 r1 removal_failed_tripwires)
      next
        case r2: (Inr s2)
        obtain c3 r3 where 3: "cl_open_pr cl c2 repo ?br (rr_default_branch repo) = (c3, r3)" by fastforce
        show ?thesis
        proof (cases r3)
          case (Inl e)
          then show ?thesis using 2 3 by (cases e) (simp add: d b 1 r1 r2 removal_failed_tripwires)
        next
          case (Inr q)
          then show ?thesis using 2 3 by (simp add: d b 1 r1 r2 record_pr_def)
        qed
      qed
    qed
  qed
qed

text \<open>
  The request itself only changes the status and queues the job: until the worker runs it every tripwire of the
  deployment stays as it was, although the audit trail already says that the retirement has started.
\<close>

lemma request_keeps_tripwires:
  assumes "request_action req en nj now auth i db = Inr db'"
  shows "dd_tripwires db' = dd_tripwires db"
  using assms
  by (cases req) (auto simp: lifecycle_action_def and_then_def of_transition_def dep_transition_def
      dep_assert_def dep_set_def dep_audit_def enqueue_job_def clear_job_def split: sum.splits if_splits)

text \<open>
  C34. Opening the removal pull request of a retirement or rollback, the worker first switches monitoring off:
  afterwards no tripwire of the deployment is active, even when the provider fails at any point, and the
  tripwire table is exactly the one before with the status of this deployment's rows replaced, so no tripwire
  of another deployment changes. The request that queues the job does not touch the table
  (\<open>request_keeps_tripwires\<close>).
\<close>

theorem removal_disables_monitoring:
  assumes "open_removal str_of cl k org i db c = ((db', c'), res)" and "dep_get org i db = Inr r"
    and "dp_status r = removal_expected k"
  shows "dd_tripwires db' =
      map (\<lambda>t. if tw_deployment t = i then t\<lparr>tw_status := removal_trip k\<rparr> else t) (dd_tripwires db) \<and>
    active_tripwires i db' = []"
proof -
  have w: "write_removal str_of cl (resolve_repo str_of org (dp_repository r) ''main'') r k
      (dep_audit i (removal_kind k @ ''_started'') (set_tripwire_status i (removal_trip k) db)) c = ((db', c'), res)"
    using assms by (simp add: open_removal_def Let_def)
  have rows: "dd_tripwires db' = dd_tripwires (set_tripwire_status i (removal_trip k) db)"
    using write_removal_tripwires [of str_of cl "resolve_repo str_of org (dp_repository r) ''main''" r k
        "dep_audit i (removal_kind k @ ''_started'') (set_tripwire_status i (removal_trip k) db)" c] w by simp
  have "active_tripwires i (set_tripwire_status i (removal_trip k) db) = []"
    by (cases k) (simp_all add: active_after_set)
  then show ?thesis using rows by (simp add: active_tripwires_def set_tripwire_status_def)
qed

definition retiring_db :: dep_db where
  "retiring_db = demo_dep_db\<lparr>dd_deployments := [demo_deployment\<lparr>dp_status := RETIRING, dp_pr_number := Some 1\<rparr>],
     dd_tripwires := [\<lparr>tw_deployment = 5, tw_decoy = 1, tw_trace = ''t1'', tw_path = ''docs/ops.md'',
        tw_commit = ''m'', tw_status = TripActive\<rparr>]\<rparr>"

lemma retiring_get: "dep_get 7 5 retiring_db = Inr (demo_deployment\<lparr>dp_status := RETIRING, dp_pr_number := Some 1\<rparr>)"
  by code_simp

theorem removal_disables_monitoring_witness:
  "active_tripwires 5 (fst (fst (open_removal nat_str (fake_client idsha) Retire 7 5 retiring_db []))) = [] \<and>
   active_tripwires 5 retiring_db \<noteq> []"
proof -
  obtain db' c' res where e: "open_removal nat_str (fake_client idsha) Retire 7 5 retiring_db [] = ((db', c'), res)"
    by (metis prod.exhaust)
  have "active_tripwires 5 db' = []"
    using removal_disables_monitoring [OF e retiring_get] by simp
  moreover have "active_tripwires 5 retiring_db \<noteq> []" by code_simp
  ultimately show ?thesis using e by simp
qed

subsection \<open>A removal whose pull request is declined\<close>

text \<open>
  C38. A removal cannot recover from a declined pull request: when the pull request of a retiring or
  rolling-back deployment is closed unmerged, \<open>verify\<close> raises an illegal transition and changes
  nothing, and no endpoint can move the record on either.
\<close>

theorem declined_removal_is_stuck:
  assumes "dep_get org i db = Inr r" and "dp_status r \<in> {RETIRING, ROLLBACK_PENDING}"
    and "dp_pr_number r = Some n"
    and "cl_get_pr cl c (resolve_repo str_of org (dp_repository r) ''main'') n = Inr p"
    and "pr_status p = PrClosed" and "\<not> pr_merged p" and "ctx_org auth = org"
  shows "verify_deployment str_of sha cl now org i db c = (db, Inl (InvalidTransition (dp_status r) CANCELLED)) \<and>
    \<not> is_ok (submit_deployment en auth i db) \<and> \<not> is_ok (approve_deployment en sep auth i db) \<and>
    \<not> is_ok (reject_deployment en auth i db) \<and> \<not> is_ok (request_action req en nj now auth i db)"
proof -
  have no: "\<not> dep_can (dp_status r) t" if "t \<in> {CANCELLED, AWAITING_APPROVAL, APPROVED, REJECTED, DEPLOYING, RETIRING, ROLLBACK_PENDING}" for t
    using assms(2) that by (auto simp: dep_can_def)
  have tr: "dep_transition i (dp_status r) t f db = Inl (InvalidTransition (dp_status r) t)"
    if "t \<in> {CANCELLED, AWAITING_APPROVAL, APPROVED, REJECTED, DEPLOYING, RETIRING, ROLLBACK_PENDING}" for t f
    using no [OF that] by (simp add: dep_transition_Inl)
  have g: "get_or_404 (ctx_org auth) i db = Inr r" using assms(1,7) by (simp add: get_or_404_def)
  have v: "verify_deployment str_of sha cl now org i db c = (db, Inl (InvalidTransition (dp_status r) CANCELLED))"
    using assms tr by (simp add: verify_deployment_def Let_def)
  have a: "\<not> is_ok (submit_deployment en auth i db)" "\<not> is_ok (approve_deployment en sep auth i db)"
    "\<not> is_ok (reject_deployment en auth i db)"
    using tr by (simp_all add: submit_deployment_def approve_deployment_def reject_deployment_def
        require_enabled_def g of_transition_def)
  have "\<not> is_ok (request_action req en nj now auth i db)"
    using tr by (cases req) (simp_all add: lifecycle_action_def require_enabled_def g of_transition_def)
  with v a show ?thesis by blast
qed

definition closed_fake :: fake where
  "closed_fake = close_pull_request (resolve_repo nat_str 7 3 ''main'') 1
     (fst (fake_open_pr demo_fake (resolve_repo nat_str 7 3 ''main'') ''b'' ''main''))"

definition second_actor :: auth_context where
  "second_actor = \<lparr>ctx_org = 7, ctx_scopes = [], ctx_role = ''owner'', ctx_key_id = Some 2\<rparr>"

theorem declined_removal_is_stuck_witness:
  "snd (verify_deployment nat_str idsha (fake_client idsha) 9 7 5 retiring_db closed_fake) =
     Inl (InvalidTransition RETIRING CANCELLED)"
proof -
  let ?r = "demo_deployment\<lparr>dp_status := RETIRING, dp_pr_number := Some 1\<rparr>"
  obtain p where p: "fake_get_pr closed_fake (resolve_repo nat_str 7 3 ''main'') 1 = Inr p"
      "pr_status p = PrClosed" "\<not> pr_merged p"
    by (simp add: closed_fake_def close_pull_request_def fake_open_pr_def demo_fake_def register_repo_def
        fake_get_pr_def fake_key_def resolve_repo_def Let_def)
  have q: "cl_get_pr (fake_client idsha) closed_fake (resolve_repo nat_str 7 (dp_repository ?r) ''main'') 1 = Inr p"
    using p(1) by (simp add: fake_client_def demo_deployment_def)
  have s: "dp_status ?r \<in> {RETIRING, ROLLBACK_PENDING}" and n: "dp_pr_number ?r = Some 1" by simp_all
  show ?thesis
    using declined_removal_is_stuck [OF retiring_get s n q p(2,3), of second_actor idsha 9 True True ReqRetire 1]
    by (simp add: second_actor_def)
qed

subsection \<open>Approval and claims\<close>

text \<open>
  Separation of duties: with the separate-approver rule on, an approval by a known actor of a
  deployment with a known requester succeeds only if the two differ; it takes the record from
  \<open>AWAITING_APPROVAL\<close> to APPROVED and records exactly that approver.
\<close>

theorem approval_needs_second_actor:
  assumes "approve_deployment en True auth i db = Inr db'" and "ctx_key_id auth = Some a"
    and "dep_get (ctx_org auth) i db = Inr r" and "dp_requested_by r = Some b"
  shows "a \<noteq> b \<and> dp_status r = AWAITING_APPROVAL \<and>
    (\<exists>r'. dep_get (ctx_org auth) i db' = Inr r' \<and> dp_status r' = APPROVED \<and> dp_approved_by r' = Some a)"
proof -
  have g: "get_or_404 (ctx_org auth) i db = Inr r" using assms(3) by (simp add: get_or_404_def)
  have ne: "a \<noteq> b" using assms(1,2,4) by (auto simp: approve_deployment_def require_enabled_def g split: if_splits)
  then obtain db1 where t: "dep_transition i (dp_status r) APPROVED (\<lambda>x. x\<lparr>dp_approved_by := Some a\<rparr>) db = Inr db1"
    using assms(1,2,4) by (auto simp: approve_deployment_def require_enabled_def g guard_simps of_transition_def
        split: sum.splits dep_error.splits if_splits)
  then have can: "dep_can (dp_status r) APPROVED"
    and db1: "db1 = dep_set i (\<lambda>r. r\<lparr>dp_status := APPROVED, dp_approved_by := Some a\<rparr>) db"
    by (simp_all add: dep_transition_Inr)
  have st: "dp_status r = AWAITING_APPROVAL" using can by (cases "dp_status r") (simp_all add: dep_can_def)
  have "db' = dep_audit i ''approved'' (db1\<lparr>dd_approvals := dd_approvals db1 @
      [\<lparr>ap_deployment = i, ap_actor = Some a, ap_decision = ''approved''\<rparr>]\<rparr>)"
    using assms(1,2,4) t ne by (auto simp: approve_deployment_def require_enabled_def g of_transition_def split: if_splits)
  then have "dep_get (ctx_org auth) i db' = dep_get (ctx_org auth) i db1"
    by (simp add: dep_get_def)
  also have "\<dots> = Inr (r\<lparr>dp_status := APPROVED, dp_approved_by := Some a\<rparr>)"
    unfolding db1 using assms(3) by (simp add: dep_get_set)
  finally show ?thesis using ne st by simp
qed

theorem approval_needs_second_actor_witness:
  "\<exists>db'. approve_deployment True True second_actor 5
     (demo_dep_db\<lparr>dd_deployments := [demo_deployment\<lparr>dp_status := AWAITING_APPROVAL\<rparr>]\<rparr>) = Inr db' \<and> (2::nat) \<noteq> 1"
proof -
  let ?r = "demo_deployment\<lparr>dp_status := AWAITING_APPROVAL\<rparr>"
  let ?db = "demo_dep_db\<lparr>dd_deployments := [?r]\<rparr>"
  have g: "dep_get (ctx_org second_actor) 5 ?db = Inr ?r"
    by (simp add: dep_get_def second_actor_def demo_deployment_def)
  obtain db' where a: "approve_deployment True True second_actor 5 ?db = Inr db'"
    using g by (auto simp: approve_deployment_def require_enabled_def get_or_404_def of_transition_def dep_transition_def
        dep_assert_def dep_can_def second_actor_def demo_deployment_def)
  have k: "ctx_key_id second_actor = Some 2" and b: "dp_requested_by ?r = Some 1"
    by (simp_all add: second_actor_def demo_deployment_def)
  show ?thesis using approval_needs_second_actor [OF a k g b] a by blast
qed

definition pending_ids :: "dep_db \<Rightarrow> uuid set" where
  "pending_ids db = set (map jb_id (filter (\<lambda>x. jb_status x = JobPending) (dd_jobs db)))"

lemma pending_claimed:
  "set (map jb_id (filter (\<lambda>x. jb_status x = JobPending)
     (map (\<lambda>x. if jb_id x = j \<and> jb_status x = JobPending then x\<lparr>jb_status := JobClaimed\<rparr> else x) js))) =
   set (map jb_id (filter (\<lambda>x. jb_status x = JobPending) js)) - {j}"
  by (induction js) auto

lemma pending_attempts:
  "pending_ids (set_job j (\<lambda>x. x\<lparr>jb_attempts := jb_attempts x + 1\<rparr>) db) = pending_ids db"
proof -
  have "map jb_id (filter (\<lambda>x. jb_status x = JobPending)
      (map (\<lambda>x. if jb_id x = j then x\<lparr>jb_attempts := jb_attempts x + 1\<rparr> else x) js)) =
    map jb_id (filter (\<lambda>x. jb_status x = JobPending) js)" for js :: "dep_job list"
    by (induction js) auto
  moreover have "dd_jobs (set_job j f db) = map (\<lambda>x. if jb_id x = j then f x else x) (dd_jobs db)" for f
    by (simp add: set_job_def)
  ultimately show ?thesis by (simp only: pending_ids_def)
qed

lemma claim_one_pending: "pending_ids (fst (claim_one j db)) = pending_ids db - {j}"
proof -
  let ?db1 = "db\<lparr>dd_jobs := map (\<lambda>x. if jb_id x = j \<and> jb_status x = JobPending
                    then x\<lparr>jb_status := JobClaimed\<rparr> else x) (dd_jobs db)\<rparr>"
  have "dd_jobs ?db1 = map (\<lambda>x. if jb_id x = j \<and> jb_status x = JobPending
                    then x\<lparr>jb_status := JobClaimed\<rparr> else x) (dd_jobs db)" by simp
  then have p: "pending_ids ?db1 = pending_ids db - {j}"
    using pending_claimed [of j "dd_jobs db"] by (simp only: pending_ids_def)
  then have "pending_ids (set_job j (\<lambda>x. x\<lparr>jb_attempts := jb_attempts x + 1\<rparr>) ?db1) = pending_ids db - {j}"
    by (simp only: pending_attempts)
  then show ?thesis using p by (simp add: claim_one_def Let_def)
qed

lemma claim_one_Some:
  assumes "snd (claim_one j db) = Some x"
  shows "jb_id x = j" "j \<in> pending_ids db"
proof -
  have "length (filter (\<lambda>x. jb_id x = j \<and> jb_status x = JobPending) (dd_jobs db)) = 1"
    using assms by (simp add: claim_one_def Let_def split: if_splits)
  then have "filter (\<lambda>x. jb_id x = j \<and> jb_status x = JobPending) (dd_jobs db) \<noteq> []" by auto
  then show "j \<in> pending_ids db" by (auto simp: pending_ids_def filter_empty_conv)
  show "jb_id x = j"
    using assms by (auto simp: claim_one_def Let_def split: if_splits dest: find_Some_mem)
qed

lemma claim_all_ids:
  "jb_id ` set (snd (claim_all js db)) \<subseteq> pending_ids db \<and>
   pending_ids (fst (claim_all js db)) = pending_ids db - set js \<and>
   jb_id ` set (snd (claim_all js db)) \<subseteq> set js \<and> distinct (map jb_id (snd (claim_all js db)))"
proof (induction js arbitrary: db)
  case Nil
  then show ?case by simp
next
  case (Cons j js)
  obtain db1 r where 1: "claim_one j db = (db1, r)" by fastforce
  obtain db2 rs where 2: "claim_all js db1 = (db2, rs)" by fastforce
  have p: "pending_ids db1 = pending_ids db - {j}" using claim_one_pending [of j db] 1 by simp
  have ih: "jb_id ` set rs \<subseteq> pending_ids db1" "pending_ids db2 = pending_ids db1 - set js"
    "jb_id ` set rs \<subseteq> set js" "distinct (map jb_id rs)"
    using Cons [of db1] 2 by simp_all
  have eq: "claim_all (j # js) db = (db2, (case r of None \<Rightarrow> rs | Some x \<Rightarrow> x # rs))" by (simp add: 1 2)
  show ?case
  proof (cases r)
    case None
    then show ?thesis unfolding eq using ih p by auto
  next
    case (Some x)
    have "jb_id x = j" "j \<in> pending_ids db" using claim_one_Some [of j db x] 1 Some by simp_all
    then show ?thesis unfolding eq using ih p Some by auto
  qed
qed

text \<open>
  No job is processed twice: two workers that claim from candidate lists read at any earlier time,
  even the same list, get disjoint sets of jobs, and neither gets a job twice.
\<close>

theorem claims_are_exclusive:
  assumes "claim_all js1 db = (db1, got1)" and "claim_all js2 db1 = (db2, got2)"
  shows "jb_id ` set got1 \<inter> jb_id ` set got2 = {} \<and> distinct (map jb_id (got1 @ got2))"
proof -
  have a: "jb_id ` set got1 \<subseteq> set js1" "pending_ids db1 = pending_ids db - set js1" "distinct (map jb_id got1)"
    using claim_all_ids [of js1 db] assms(1) by simp_all
  have b: "jb_id ` set got2 \<subseteq> pending_ids db1" "distinct (map jb_id got2)"
    using claim_all_ids [of js2 db1] assms(2) by simp_all
  have "jb_id ` set got1 \<inter> jb_id ` set got2 = {}" using a(1,2) b(1) by blast
  then show ?thesis using a(3) b(2) by simp
qed

definition job_db :: dep_db where
  "job_db = demo_dep_db\<lparr>dd_jobs := [\<lparr>jb_id = 1, jb_org = 7, jb_deployment = 5, jb_type = ''execute'',
     jb_status = JobPending, jb_attempts = 0, jb_created = 3\<rparr>]\<rparr>"

theorem claims_are_exclusive_witness:
  "length (snd (claim_all [1] job_db)) = 1 \<and> snd (claim_all [1] (fst (claim_all [1] job_db))) = []"
proof -
  obtain db1 got1 where 1: "claim_all [1] job_db = (db1, got1)" by fastforce
  obtain db2 got2 where 2: "claim_all [1] db1 = (db2, got2)" by fastforce
  have g: "map jb_id (snd (claim_all [1] job_db)) = [1]" by code_simp
  have s: "jb_id ` set got2 \<subseteq> {1}" using claim_all_ids [of "[1]" db1] 2 by simp
  have "map jb_id got1 = [1]" using g 1 by simp
  then have "set (map jb_id got1) = {1}" by simp
  then have one: "jb_id ` set got1 = {1}" by simp
  have "jb_id ` set got1 \<inter> jb_id ` set got2 = {}" using claims_are_exclusive [OF 1 2] by (rule conjunct1)
  then have "1 \<notin> jb_id ` set got2" unfolding one by simp
  then have "jb_id ` set got2 \<noteq> {1}" by (metis singletonI)
  then have "jb_id ` set got2 = {}" using subset_singletonD [OF s] by (simp only: simp_thms)
  then have "got2 = []" by simp
  moreover have "length (map jb_id (snd (claim_all [1] job_db))) = 1" by (simp only: g) simp
  ultimately show ?thesis using 1 2 by simp
qed

subsection \<open>Two limits of the removal and re-check steps\<close>

text \<open>
  The safety re-check before writing asks only whether some asset of the plan is still deployable: here
  the second asset's report has turned to REJECT since the preview, and its file is written all the
  same.
\<close>

definition two_item_db :: dep_db where
  "two_item_db = demo_dep_db\<lparr>
     dd_items := [demo_dep_item, demo_dep_item\<lparr>di_decoy := 2, di_path := ''docs/two.md''\<rparr>],
     dd_plans := [((7, 8), [demo_asset, demo_asset\<lparr>as_decoy_id := 2, as_target_location := ''docs/two.md''\<rparr>])],
     dd_reports := [((7, 8), [\<lparr>rp_decoy_id = 1, rp_decision = ACCEPT\<rparr>, \<lparr>rp_decoy_id = 2, rp_decision = REJECT\<rparr>])]\<rparr>"

definition written_tree :: "(dep_db \<times> fake) \<times> (dep_error + unit) \<Rightarrow> string list" where
  "written_tree run =
     (case map_of (snd (fst run)) (fake_key (resolve_repo nat_str 7 3 ''main'')) of
        None \<Rightarrow> []
      | Some s \<Rightarrow> (case map_of (fk_branches s) (deploy_branch nat_str 5) of
          None \<Rightarrow> [] | Some sha \<Rightarrow> (case map_of (fk_commits s) sha of None \<Rightarrow> [] | Some t \<Rightarrow> map fst t)))"

lemma rejected_asset_still_written:
  "''docs/two.md'' \<in> set (written_tree
     (execute_deployment nat_str (fake_client idsha) demo_policy 7 5 two_item_db demo_fake))"
  "map as_decoy_id (sf_deployable (evaluate_plan [demo_asset, demo_asset\<lparr>as_decoy_id := 2, as_target_location := ''docs/two.md''\<rparr>]
      [\<lparr>rp_decoy_id = 1, rp_decision = ACCEPT\<rparr>, \<lparr>rp_decoy_id = 2, rp_decision = REJECT\<rparr>] demo_policy)) = [1]"
  by code_simp+

end
