(* ===== verification/Deployment_Flow.thy ===== *)
theory Deployment_Flow
  imports Deployment_Props
begin

text \<open>
  The whole path of a deployment on the in-memory adapter: execution, the reviewer's merge, verification
  and the activation of monitoring.
\<close>

subsection \<open>From execution to monitoring\<close>

lemma map_of_filter_keys:
  "map_of (filter (\<lambda>(p, x). p \<in> S) xs) p = (if p \<in> S then map_of xs p else None)"
  by (induction xs) auto

lemma committed_content:
  assumes "distinct (map di_path its)" and "it \<in> set its"
  shows "map_of (commit_tree parent (map (\<lambda>x. (di_path x, di_content x)) its) []) (di_path it) = Some (di_content it)"
proof -
  let ?fs = "map (\<lambda>x. (di_path x, di_content x)) its"
  have d: "distinct (map fst (rev ?fs))" using assms(1) by (simp add: rev_map [symmetric] comp_def)
  have "(di_path it, di_content it) \<in> set (rev ?fs)" using assms(2) by auto
  then have "map_of (rev ?fs) (di_path it) = Some (di_content it)" by (rule map_of_is_SomeI [OF d])
  then show ?thesis by (simp add: commit_tree_def update_tree_map)
qed

lemma activate_loop_fresh:
  assumes "distinct (map ci_trace cs)"
    and "\<forall>x \<in> set cs. \<not> trip_exists i (ci_trace x) rows"
  shows "length (filter (\<lambda>t. tw_deployment t = i \<and> tw_status t = TripActive) (fst (activate_loop i s cs rows))) =
    length (filter (\<lambda>t. tw_deployment t = i \<and> tw_status t = TripActive) rows) + length cs"
  using assms
proof (induction i s cs rows rule: activate_loop.induct)
  case (2 i s x xs rows)
  have "\<not> trip_exists i (ci_trace x) rows" using "2.prems"(2) by simp
  moreover have "\<forall>y \<in> set xs. \<not> trip_exists i (ci_trace y)
      (rows @ [\<lparr>tw_deployment = i, tw_decoy = ci_decoy_id x, tw_trace = ci_trace x,
                tw_path = ci_target_path x, tw_commit = s, tw_status = TripActive\<rparr>])"
    using "2.prems" by (auto simp: trip_exists_def list_ex_iff)
  moreover obtain rows' k where "activate_loop i s xs
      (rows @ [\<lparr>tw_deployment = i, tw_decoy = ci_decoy_id x, tw_trace = ci_trace x,
                tw_path = ci_target_path x, tw_commit = s, tw_status = TripActive\<rparr>]) = (rows', k)"
    by fastforce
  ultimately show ?case using "2.IH"(2) "2.prems"(1) by simp
qed simp

lemma activate_monitoring_all:
  assumes "dep_get org (dp_id r) db = Inr r0" and "dp_status r = DEPLOYING" and "dp_preview r = Some pv"
    and "pv_items pv \<noteq> []" and "distinct (map ci_trace (pv_items pv))"
    and "\<forall>t \<in> set (dd_tripwires db). tw_deployment t \<noteq> dp_id r"
  shows "\<exists>db2 r2. activate_monitoring now r m db = (db2, Inr ()) \<and> dep_get org (dp_id r) db2 = Inr r2 \<and>
    dp_status r2 = DEPLOYED \<and> length (active_tripwires (dp_id r) db2) = length (pv_items pv)"
proof -
  obtain db1 k where a: "activate_tripwires (dp_id r) (pv_items pv) m db = (db1, k)" by fastforce
  have none: "filter (\<lambda>t. tw_deployment t = dp_id r \<and> tw_status t = TripActive) (dd_tripwires db) = []"
    using assms(6) by (simp add: filter_empty_conv)
  have tr: "dd_tripwires db1 = fst (activate_loop (dp_id r) m (pv_items pv) (dd_tripwires db))"
    using a by (auto simp: activate_tripwires_def split: prod.splits)
  have len: "length (active_tripwires (dp_id r) db1) = length (pv_items pv)"
    using activate_loop_fresh [OF assms(5), of "dp_id r" "dd_tripwires db" m] assms(6) none
    by (simp add: active_tripwires_def tr trip_exists_def list_ex_iff)
  have g: "dep_get org (dp_id r) db1 = Inr r0"
    using assms(1) dep_get_cong [of db1 db] deployments_frame(3) [of "dp_id r" "pv_items pv" m db] a by simp
  have can: "dep_can DEPLOYING DEPLOYED" by (simp add: dep_can_def)
  have ne: "active_tripwires (dp_id r) db1 \<noteq> []" using len assms(4) by auto
  show ?thesis
    using len ne g can a
    by (simp add: activate_monitoring_def assms(2,3) Let_def dep_transition_def dep_assert_def dep_get_set)
qed

lemma verify_items_tripwires [simp]: "dd_tripwires (fst (verify_items sha m its db)) = dd_tripwires db"
  by (induction sha m its db rule: verify_items.induct) auto

text \<open>
  What \<open>execute\<close> leaves on the adapter: an open pull request whose head branch carries one commit with
  exactly the files of the change items on top of the base tree.
\<close>

definition pr_ready :: "repo_ref \<Rightarrow> string \<Rightarrow> string \<Rightarrow> (string \<times> string) list \<Rightarrow> pr_info \<Rightarrow> fake \<Rightarrow> bool" where
  "pr_ready repo br m t q c = (case map_of c (fake_key repo) of None \<Rightarrow> False | Some s \<Rightarrow>
     map_of (fk_pulls s) (pr_number q) = Some q \<and> map_of (fk_heads s) (pr_number q) = Some br \<and>
     map_of (fk_branches s) br = Some m \<and> map_of (fk_commits s) m = Some t)"

definition change_files :: "uuid \<Rightarrow> dep_db \<Rightarrow> (string \<times> string) list" where
  "change_files i db = map (\<lambda>x. (di_path x, di_content x)) (dep_items i db)"

definition after_execute :: "uuid \<Rightarrow> pr_info \<Rightarrow> string \<Rightarrow> dep_db \<Rightarrow> dep_db" where
  "after_execute i q br db = record_pr i q br (dep_audit i ''commit_pushed'' (dep_audit i ''branch_created'' db))"

lemma execute_on_fake:
  assumes "dep_get org i db = Inr r" and "dp_status r = DEPLOYING" and "dp_preview r = Some pv"
    and "dp_pr_number r = None" and "resafe pol r db"
    and "map_of c (fake_key (resolve_repo str_of org (dp_repository r) ''main'')) = Some s"
    and "map_of (fk_branches s) (pv_base_branch pv) = Some (dp_base_sha r)"
    and "map_of (fk_commits s) (dp_base_sha r) = Some t0"
  shows "\<exists>q m c1. execute_deployment str_of (fake_client sha0) pol org i db c =
      ((after_execute i q (deploy_branch str_of i) db, c1), Inr ()) \<and>
    pr_ready (resolve_repo str_of org (dp_repository r) ''main'') (deploy_branch str_of i) m
      (commit_tree t0 (change_files i db) []) q c1"
proof -
  let ?repo = "resolve_repo str_of org (dp_repository r) (pv_base_branch pv)"
  let ?main = "resolve_repo str_of org (dp_repository r) ''main''"
  let ?br = "deploy_branch str_of i"
  have id: "dp_id r = i" using dep_get_id [OF assms(1)] by blast
  have key: "fake_key ?repo = fake_key ?main" by (simp add: fake_key_def resolve_repo_def)
  define s1 where "s1 = s\<lparr>fk_branches := AList.update ?br (dp_base_sha r) (fk_branches s)\<rparr>"
  define t1 where "t1 = commit_tree t0 (change_files i db) []"
  define m where "m = sha0 (dp_base_sha r @ '':'' @ commit_message str_of i @ '':'' @ join_with '':'' (sort (map fst t1)))"
  define s2 where "s2 = s1\<lparr>fk_commits := AList.update m t1 (fk_commits s1), fk_branches := AList.update ?br m (fk_branches s1)\<rparr>"
  define n where "n = fk_next_pr s"
  define q where "q = \<lparr>pr_number = n, pr_url = ''https://example.invalid/'' @ rr_owner ?repo @ ''/'' @ rr_name ?repo @ ''/pull/'' @ nat_str n,
      pr_status = PrOpen, pr_merged = False, pr_merge_sha = None\<rparr>"
  define s3 where "s3 = s2\<lparr>fk_next_pr := n + 1, fk_pulls := AList.update n q (fk_pulls s2), fk_heads := AList.update n ?br (fk_heads s2)\<rparr>"
  define cA where "cA = AList.update (fake_key ?main) s1 c"
  define cB where "cB = AList.update (fake_key ?main) s2 cA"
  define c1 where "c1 = AList.update (fake_key ?main) s3 cB"
  have b: "fake_get_branch c ?repo (pv_base_branch pv) = Inr (dp_base_sha r)"
    using assms(6,7) by (simp add: fake_get_branch_def key)
  have cr: "fake_create_branch c ?repo ?br (dp_base_sha r) = (cA, Inr (dp_base_sha r))"
    using assms(6,8) by (simp add: fake_create_branch_def key cA_def s1_def)
  have cm: "fake_commit_files sha0 cA ?repo ?br (change_files i db) (commit_message str_of i) [] = (cB, Inr m)"
    using assms(8) by (simp add: fake_commit_files_def key cA_def cB_def s1_def s2_def t1_def m_def Let_def)
  have op: "fake_open_pr cB ?repo ?br (pv_base_branch pv) = (c1, Inr q)"
    by (simp add: fake_open_pr_def key cB_def c1_def s3_def q_def n_def s2_def s1_def Let_def)
  have items: "dep_items i (dep_audit i e d) = dep_items i d" for e d by (simp add: dep_items_def dep_audit_def)
  have "execute_deployment str_of (fake_client sha0) pol org i db c = ((after_execute i q ?br db, c1), Inr ())"
    using assms(1-5) b cr cm op
    by (simp add: execute_deployment_def write_change_set_def fake_client_def Let_def id items
      after_execute_def change_files_def)
  moreover have "pr_ready ?main ?br m t1 q c1"
    by (simp add: pr_ready_def c1_def s3_def s2_def q_def)
  ultimately show ?thesis unfolding t1_def by blast
qed

lemma merge_of_ready:
  assumes "pr_ready repo br m t q c"
  shows "\<exists>c2. merge_pull_request repo (pr_number q) c = Some (c2, m) \<and>
    fake_get_pr c2 repo (pr_number q) = Inr (q\<lparr>pr_status := PrClosed, pr_merged := True, pr_merge_sha := Some m\<rparr>) \<and>
    (\<forall>ps. fake_get_files c2 repo m ps = Inr (filter (\<lambda>(p, x). p \<in> set ps) t))"
proof -
  obtain s where s: "map_of c (fake_key repo) = Some s" "map_of (fk_pulls s) (pr_number q) = Some q"
    "map_of (fk_heads s) (pr_number q) = Some br" "map_of (fk_branches s) br = Some m"
    "map_of (fk_commits s) m = Some t"
    using assms by (auto simp: pr_ready_def split: option.splits)
  then show ?thesis by (simp add: merge_pull_request_def fake_get_pr_def fake_get_files_def)
qed

lemma verify_of_merged:
  assumes "dep_get org i db = Inr r" and "dp_status r = DEPLOYING" and "dp_preview r = Some pv"
    and "dp_pr_number r = Some n" and "cl_get_pr cl c (resolve_repo str_of org (dp_repository r) ''main'') n = Inr q"
    and "pr_merged q" and "pr_merge_sha q = Some m"
    and "cl_get_files cl c (resolve_repo str_of org (dp_repository r) ''main'') m (map di_path (dep_items i db)) = Inr merged"
    and "\<forall>it \<in> set (dep_items i db). map_of merged (di_path it) = Some (di_content it) \<and>
      di_proposed_hash it = sha (di_content it)"
    and "pv_items pv \<noteq> []" and "distinct (map ci_trace (pv_items pv))"
    and "\<forall>t \<in> set (dd_tripwires db). tw_deployment t \<noteq> i"
  shows "\<exists>db2 r2. verify_deployment str_of sha cl now org i db c = (db2, Inr ()) \<and>
    dep_get org i db2 = Inr r2 \<and> dp_status r2 = DEPLOYED \<and>
    length (active_tripwires i db2) = length (pv_items pv)"
proof -
  have id: "dp_id r = i" using dep_get_id [OF assms(1)] by blast
  obtain db1 ok where vi: "verify_items sha merged (dep_items i db) db = (db1, ok)" by fastforce
  have ok: ok using verify_items_True [of sha merged "dep_items i db" db] vi assms(9) by simp
  have d1: "dd_deployments db1 = dd_deployments db" "dd_tripwires db1 = dd_tripwires db"
    using verify_items_deployments [of sha merged "dep_items i db" db]
      verify_items_tripwires [of sha merged "dep_items i db" db] vi by simp_all
  let ?dbv = "dep_audit i ''verification_passed'' db1"
  have gA: "dep_get org (dp_id r) ?dbv = Inr r" using assms(1) dep_get_cong [OF d1(1)] id by simp
  have tA: "\<forall>t \<in> set (dd_tripwires ?dbv). tw_deployment t \<noteq> dp_id r" using assms(12) d1(2) id by simp
  obtain db2 r2 where fin: "activate_monitoring now r m ?dbv = (db2, Inr ())"
    "dep_get org (dp_id r) db2 = Inr r2" "dp_status r2 = DEPLOYED"
    "length (active_tripwires (dp_id r) db2) = length (pv_items pv)"
    using activate_monitoring_all [OF gA assms(2,3,10,11) tA] by blast
  have "verify_deployment str_of sha cl now org i db c = (db2, Inr ())"
    using assms(1-8) id vi ok fin(1) by (simp add: verify_deployment_def verify_deploy_def Let_def)
  then show ?thesis using fin id by auto
qed

text \<open>
  C2. The deployment protocol succeeds end to end: if a deploying record has a safe plan, its base
  branch has not moved, its items have distinct paths and honest hashes and its trace markers are
  distinct and new, then \<open>execute\<close> opens a pull request, and once that request is merged, \<open>verify\<close>
  brings the record to DEPLOYED with one active tripwire per change item.
\<close>

theorem execute_merge_verify_deploys:
  assumes "dep_get org i db = Inr r" and "dp_status r = DEPLOYING" and "dp_preview r = Some pv"
    and "dp_pr_number r = None" and "resafe pol r db"
    and "map_of c (fake_key (resolve_repo str_of org (dp_repository r) ''main'')) = Some s"
    and "map_of (fk_branches s) (pv_base_branch pv) = Some (dp_base_sha r)"
    and "map_of (fk_commits s) (dp_base_sha r) = Some t0"
    and "distinct (map di_path (dep_items i db))"
    and "list_all (\<lambda>it. di_proposed_hash it = sha (di_content it)) (dep_items i db)"
    and "pv_items pv \<noteq> []" and "distinct (map ci_trace (pv_items pv))"
    and "list_all (\<lambda>t. tw_deployment t \<noteq> i) (dd_tripwires db)"
  shows "\<exists>db1 c1 n c2 m db2 r2.
    execute_deployment str_of (fake_client sha0) pol org i db c = ((db1, c1), Inr ()) \<and>
    merge_pull_request (resolve_repo str_of org (dp_repository r) ''main'') n c1 = Some (c2, m) \<and>
    verify_deployment str_of sha (fake_client sha0) now org i db1 c2 = (db2, Inr ()) \<and>
    dep_get org i db2 = Inr r2 \<and> dp_status r2 = DEPLOYED \<and>
    length (active_tripwires i db2) = length (pv_items pv)"
proof -
  let ?main = "resolve_repo str_of org (dp_repository r) ''main''"
  let ?br = "deploy_branch str_of i"
  let ?t = "commit_tree t0 (change_files i db) []"
  let ?ps = "map di_path (dep_items i db)"
  obtain q m c1 where ex: "execute_deployment str_of (fake_client sha0) pol org i db c = ((after_execute i q ?br db, c1), Inr ())"
    and rd: "pr_ready ?main ?br m ?t q c1"
    using execute_on_fake [OF assms(1-8)] by blast
  obtain c2 where mg: "merge_pull_request ?main (pr_number q) c1 = Some (c2, m)"
    "fake_get_pr c2 ?main (pr_number q) = Inr (q\<lparr>pr_status := PrClosed, pr_merged := True, pr_merge_sha := Some m\<rparr>)"
    "fake_get_files c2 ?main m ?ps = Inr (filter (\<lambda>(p, x). p \<in> set ?ps) ?t)"
    using merge_of_ready [OF rd] by blast
  let ?db1 = "after_execute i q ?br db"
  let ?r1 = "r\<lparr>dp_pr_number := Some (pr_number q), dp_pr_url := Some (pr_url q), dp_source_branch := ?br\<rparr>"
  have g1: "dep_get org i ?db1 = Inr ?r1" using assms(1) by (simp add: after_execute_def record_pr_def dep_get_set)
  have i1: "dep_items i ?db1 = dep_items i db" and t1: "dd_tripwires ?db1 = dd_tripwires db"
    by (simp_all add: after_execute_def record_pr_def dep_items_def dep_audit_def dep_set_def)
  have content: "map_of (filter (\<lambda>(p, x). p \<in> set ?ps) ?t) (di_path it) = Some (di_content it) \<and>
      di_proposed_hash it = sha (di_content it)" if "it \<in> set (dep_items i db)" for it
    using that committed_content [OF assms(9) that, of t0] assms(10)
    by (auto simp: map_of_filter_keys change_files_def list_all_iff)
  have "\<exists>db2 r2. verify_deployment str_of sha (fake_client sha0) now org i ?db1 c2 = (db2, Inr ()) \<and>
    dep_get org i db2 = Inr r2 \<and> dp_status r2 = DEPLOYED \<and> length (active_tripwires i db2) = length (pv_items pv)"
    using mg(2,3) content i1 t1 assms(2,3,11-13)
    by (intro verify_of_merged [OF g1]) (auto simp: fake_client_def list_all_iff)
  with ex mg(1) show ?thesis by blast
qed

definition demo_server :: fake_repo where
  "demo_server = (case demo_fake of [] \<Rightarrow> \<lparr>fk_default = [], fk_branches = [], fk_commits = [], fk_pulls = [],
     fk_heads = [], fk_next_pr = 0\<rparr> | (k, s) # rest \<Rightarrow> s)"

lemma demo_run_ready:
  "dep_get 7 5 demo_dep_db = Inr demo_deployment" "dp_status demo_deployment = DEPLOYING"
  "dp_preview demo_deployment = Some demo_preview" "dp_pr_number demo_deployment = None"
  "resafe demo_policy demo_deployment demo_dep_db"
  "map_of demo_fake (fake_key (resolve_repo nat_str 7 (dp_repository demo_deployment) ''main'')) = Some demo_server"
  "map_of (fk_branches demo_server) (pv_base_branch demo_preview) = Some (dp_base_sha demo_deployment)"
  "map_of (fk_commits demo_server) (dp_base_sha demo_deployment) = Some []"
  "distinct (map di_path (dep_items 5 demo_dep_db))"
  "list_all (\<lambda>it. di_proposed_hash it = idsha (di_content it)) (dep_items 5 demo_dep_db)"
  "pv_items demo_preview \<noteq> []" "distinct (map ci_trace (pv_items demo_preview))"
  "list_all (\<lambda>t. tw_deployment t \<noteq> 5) (dd_tripwires demo_dep_db)"
  by code_simp+

theorem execute_merge_verify_deploys_witness:
  "\<exists>db1 c1 n c2 m db2 r2.
    execute_deployment nat_str (fake_client idsha) demo_policy 7 5 demo_dep_db demo_fake = ((db1, c1), Inr ()) \<and>
    merge_pull_request (resolve_repo nat_str 7 (dp_repository demo_deployment) ''main'') n c1 = Some (c2, m) \<and>
    verify_deployment nat_str idsha (fake_client idsha) 9 7 5 db1 c2 = (db2, Inr ()) \<and>
    dep_get 7 5 db2 = Inr r2 \<and> dp_status r2 = DEPLOYED \<and> length (active_tripwires 5 db2) = length (pv_items demo_preview)"
  by (rule execute_merge_verify_deploys [OF demo_run_ready])

end
