(* ===== verification/Text_Util.thy ===== *)
theory Text_Util
  imports Prelude
begin

text \<open>
  Further \<open>str\<close> operations of the monitoring and integration components: \<open>find\<close>, \<open>str(int)\<close>,
  and the facts that make names built with separators unambiguous.
\<close>

subsection \<open>Searching\<close>

text \<open>\<open>text.find(p)\<close>: the first position at which \<open>p\<close> occurs, \<open>None\<close> for -1.\<close>

fun py_find :: "string \<Rightarrow> string \<Rightarrow> nat option" where
  "py_find [] p = (if p = [] then Some 0 else None)"
| "py_find (c # s) p = (if startswith (c # s) p then Some 0 else map_option Suc (py_find s p))"

lemma py_find_Some: "py_find s p = Some i \<Longrightarrow> startswith (drop i s) p \<and> i \<le> length s"
  by (induction s p arbitrary: i rule: py_find.induct) (auto split: if_splits)

lemma py_find_at: "py_find s p = Some i \<Longrightarrow> take (length p) (drop i s) = p"
  using py_find_Some [of s p i] by (auto simp: startswith_iff)

lemma py_find_contains: "py_find s p \<noteq> None \<longleftrightarrow> contains s p"
  by (induction s p rule: py_find.induct) (auto simp: startswith_iff)

lemma py_find_len: "py_find s p = Some i \<Longrightarrow> i + length p \<le> length s"
  using py_find_Some [of s p i] by (auto simp: startswith_iff dest!: arg_cong [where f = length])

subsection \<open>Decimal numerals\<close>

definition int_str :: "int \<Rightarrow> string" where
  "int_str z = (if z < 0 then CHR ''-'' # nat_str (nat (- z)) else nat_str (nat z))"

lemma digit_inj: "a < 10 \<Longrightarrow> b < 10 \<Longrightarrow> (char_of (48 + a) :: char) = char_of (48 + b) \<Longrightarrow> a = (b :: nat)"
  by (drule arg_cong [where f = "of_char :: char \<Rightarrow> nat"]) simp

lemma nat_str_not_Nil [simp]: "nat_str n \<noteq> []"
  by (simp add: nat_str.simps [of n])

lemma nat_str_inj: "nat_str m = nat_str n \<Longrightarrow> m = n"
proof (induction m arbitrary: n rule: less_induct)
  case (less m)
  show ?case
  proof (cases "m < 10")
    case True
    have n: "n < 10"
    proof (rule ccontr)
      assume "\<not> n < 10"
      then have "length (nat_str n) > 1" by (simp add: nat_str.simps [of n])
      moreover have "length (nat_str m) = 1" using True by (simp add: nat_str.simps [of m])
      ultimately show False using less.prems by simp
    qed
    then show ?thesis using True less.prems digit_inj [of m n]
      by (simp add: nat_str.simps [of m] nat_str.simps [of n])
  next
    case False
    have n: "\<not> n < 10"
    proof
      assume "n < 10"
      then have "length (nat_str n) = 1" by (simp add: nat_str.simps [of n])
      moreover have "length (nat_str m) > 1" using False by (simp add: nat_str.simps [of m])
      ultimately show False using less.prems by simp
    qed
    then have "nat_str (m div 10) = nat_str (n div 10)" and "m mod 10 = n mod 10"
      using less.prems False digit_inj [of "m mod 10" "n mod 10"]
      by (simp_all add: nat_str.simps [of m] nat_str.simps [of n])
    moreover have "m div 10 < m" using False by simp
    ultimately have "m div 10 = n div 10" using less.IH by blast
    then show ?thesis using \<open>m mod 10 = n mod 10\<close> by (metis div_mult_mod_eq)
  qed
qed

lemma nat_str_digits: "c \<in> set (nat_str n) \<Longrightarrow> 48 \<le> (of_char c :: nat) \<and> (of_char c :: nat) \<le> 57"
proof (induction n rule: less_induct)
  case (less n)
  show ?case
  proof (cases "n < 10")
    case True
    then show ?thesis using less.prems by (simp add: nat_str.simps [of n])
  next
    case False
    then have "c \<in> set (nat_str (n div 10)) \<or> c = char_of (48 + n mod 10)"
      using less.prems by (auto simp: nat_str.simps [of n])
    moreover have "n div 10 < n" using False by simp
    ultimately show ?thesis using less.IH by auto
  qed
qed

lemma int_str_inj: "int_str a = int_str b \<Longrightarrow> a = b"
proof -
  assume e: "int_str a = int_str b"
  have minus: "CHR ''-'' # s \<noteq> nat_str n" for s n
    
  proof
    assume "CHR ''-'' # s = nat_str n"
    then have "CHR ''-'' \<in> set (nat_str n)" by (metis list.set_intros(1))
    then show False using nat_str_digits [of "CHR ''-''" n] by simp
  qed
  have "nat (- a) = nat (- b)" if "a < 0" "b < 0" using e that nat_str_inj by (auto simp: int_str_def)
  moreover have "nat a = nat b" if "\<not> a < 0" "\<not> b < 0" using e that nat_str_inj by (auto simp: int_str_def)
  moreover have "a < 0 \<longleftrightarrow> b < 0"
    using e minus minus [symmetric] by (cases "a < 0"; cases "b < 0") (simp_all add: int_str_def)
  ultimately show ?thesis by linarith
qed

lemma colon_not_int_str: "CHR '':'' \<notin> set (int_str z)"
  using nat_str_digits [of "CHR '':''"] by (auto simp: int_str_def)

subsection \<open>Names built with separators\<close>

lemma split_first_sep:
  "a @ d # x = b @ d # y \<Longrightarrow> d \<notin> set a \<Longrightarrow> d \<notin> set b \<Longrightarrow> a = b \<and> x = y"
proof (induction a arbitrary: b)
  case Nil
  then show ?case by (cases b) auto
next
  case (Cons c a)
  then show ?case by (cases b) auto
qed

text \<open>A name \<open>x:a\<close> can be taken apart at its last colon.\<close>

lemma split_last_sep:
  assumes "x @ d # a = y @ d # b" and "d \<notin> set a" and "d \<notin> set b"
  shows "x = y \<and> a = b"
proof -
  have "rev a @ d # rev x = rev b @ d # rev y" using arg_cong [OF assms(1), of rev] by simp
  then show ?thesis using split_first_sep [of "rev a" d "rev x" "rev b" "rev y"] assms(2,3) by simp
qed

end
