(* ===== verification/Monitoring.thy ===== *)
theory Monitoring
  imports Text_Util Signing Deploy_Policy Severity_Model
begin

text \<open>
  Monitoring (\<open>services/monitoring\<close>): the in-memory tripwire registry, the trace matcher and the
  engine that turns a payload into at most one detection event. SHA-256 (\<open>sha\<close>), \<open>uuid5\<close> in the URL
  namespace and \<open>str(UUID)\<close> (\<open>str_of\<close>) are arguments, and so is the clock. The field limits of the
  pydantic models are checked where an object is built; a violation is \<open>ValidationError\<close>.
\<close>

subsection \<open>Domain model\<close>

datatype monitor_type = FILE_CONTENT | REPOSITORY | DATABASE_PAYLOAD | TEXT_PAYLOAD

fun monitor_value :: "monitor_type \<Rightarrow> string" where
  "monitor_value FILE_CONTENT = ''file_content''"
| "monitor_value REPOSITORY = ''repository''"
| "monitor_value DATABASE_PAYLOAD = ''database_payload''"
| "monitor_value TEXT_PAYLOAD = ''text_payload''"

datatype detection_source = SrcRepository | SrcDatabase | SrcDocument | SrcBrowser | SrcAgent | SrcMcp | SrcSystem

fun source_value :: "detection_source \<Rightarrow> string" where
  "source_value SrcRepository = ''repository''"
| "source_value SrcDatabase = ''database''"
| "source_value SrcDocument = ''document''"
| "source_value SrcBrowser = ''browser''"
| "source_value SrcAgent = ''agent''"
| "source_value SrcMcp = ''mcp''"
| "source_value SrcSystem = ''system''"

datatype detection_method = CanaryToken | ContentAccess | AuditLog | BrowserTelemetry | ToolTelemetry | DatabaseAudit

fun method_value :: "detection_method \<Rightarrow> string" where
  "method_value CanaryToken = ''canary_token''"
| "method_value ContentAccess = ''content_access''"
| "method_value AuditLog = ''audit_log''"
| "method_value BrowserTelemetry = ''browser_telemetry''"
| "method_value ToolTelemetry = ''tool_telemetry''"
| "method_value DatabaseAudit = ''database_audit''"

datatype health_status = HealthActive | HealthInactive | HealthDegraded | HealthFailed

datatype model_error = ValidationError

record tripwire_entry =
  te_trace :: string
  te_decoy :: uuid
  te_placement :: uuid
  te_location :: string
  te_template :: string
  te_type :: string
  te_enabled :: bool

record registration =
  rg_monitor :: monitor_type
  rg_trace :: string
  rg_location :: string
  rg_status :: health_status

record raw_event =
  re_id :: uuid
  re_trace :: string
  re_decoy :: uuid
  re_monitor :: monitor_type
  re_location :: string
  re_excerpt :: string
  re_time :: datetime
  re_source :: detection_source
  re_confidence :: rat
  re_suggestion :: severity
  re_digest :: string
  re_method :: detection_method
  re_correlation :: uuid

text \<open>The decoy asset as the engine reads it: the fields of the safety gate and two more.\<close>

record mon_asset = asset +
  as_placement :: uuid
  as_template :: string

subsection \<open>The registry\<close>

type_synonym registry = "(string \<times> tripwire_entry) list"

definition reg_register :: "tripwire_entry \<Rightarrow> registry \<Rightarrow> registry" where
  "reg_register e r = AList.update (te_trace e) e r"

definition reg_active :: "registry \<Rightarrow> tripwire_entry list" where
  "reg_active r = sort_key te_trace (filter te_enabled (map snd r))"

definition reg_get :: "string \<Rightarrow> registry \<Rightarrow> tripwire_entry option" where
  "reg_get t r = map_of r t"

definition reg_disable :: "string \<Rightarrow> registry \<Rightarrow> registry \<times> bool" where
  "reg_disable t r =
     (case reg_get t r of
        None \<Rightarrow> (r, False)
      | Some e \<Rightarrow> (AList.update t (e\<lparr>te_enabled := False\<rparr>) r, True))"

subsection \<open>The matcher\<close>

definition is_alnum :: "char \<Rightarrow> bool" where
  "is_alnum c = (let n = (of_char c :: nat) in (48 \<le> n \<and> n \<le> 57) \<or> (65 \<le> n \<and> n \<le> 90) \<or> (97 \<le> n \<and> n \<le> 122))"

definition normalize_trace :: "string \<Rightarrow> string" where
  "normalize_trace s = py_upper (filter is_alnum s)"

definition excerpt :: "string \<Rightarrow> nat \<Rightarrow> nat \<Rightarrow> string" where
  "excerpt text position len =
     (let start = position - 48; stop = min (length text) (position + len + 48)
      in take 256 (take (stop - start) (drop start text)))"

fun match_exact :: "string \<Rightarrow> tripwire_entry list \<Rightarrow> (tripwire_entry \<times> rat \<times> string) option" where
  "match_exact text [] = None"
| "match_exact text (e # es) =
     (case py_find text (te_trace e) of
        Some position \<Rightarrow> Some (e, 1, excerpt text position (length (te_trace e)))
      | None \<Rightarrow> match_exact text es)"

fun match_normalized :: "string \<Rightarrow> string \<Rightarrow> tripwire_entry list \<Rightarrow> (tripwire_entry \<times> rat \<times> string) option" where
  "match_normalized text normalized [] = None"
| "match_normalized text normalized (e # es) =
     (if contains normalized (normalize_trace (te_trace e)) then Some (e, 85 / 100, excerpt text 0 0)
      else match_normalized text normalized es)"

definition trace_match :: "string \<Rightarrow> tripwire_entry list \<Rightarrow> (tripwire_entry \<times> rat \<times> string) option" where
  "trace_match text entries =
     (case match_exact text entries of
        Some m \<Rightarrow> Some m
      | None \<Rightarrow> match_normalized text (normalize_trace text) entries)"

subsection \<open>The engine\<close>

record mon_engine =
  en_registry :: registry
  en_seen :: "(string \<times> string \<times> string) list"

definition new_engine :: mon_engine where
  "new_engine = \<lparr>en_registry = [], en_seen = []\<rparr>"

definition monitor_types :: "tripwire_entry \<Rightarrow> monitor_type list" where
  "monitor_types e = [TEXT_PAYLOAD, FILE_CONTENT, REPOSITORY] @
     (if te_type e = ''database_record'' then [DATABASE_PAYLOAD] else [])"

fun monitor_source :: "monitor_type \<Rightarrow> detection_source" where
  "monitor_source FILE_CONTENT = SrcDocument"
| "monitor_source REPOSITORY = SrcRepository"
| "monitor_source DATABASE_PAYLOAD = SrcDatabase"
| "monitor_source TEXT_PAYLOAD = SrcSystem"

definition entry_of_asset :: "mon_asset \<Rightarrow> tripwire_entry" where
  "entry_of_asset a = \<lparr>te_trace = as_trace a, te_decoy = as_decoy_id a, te_placement = as_placement a,
     te_location = as_target_location a, te_template = as_template a, te_type = as_decoy_type a, te_enabled = True\<rparr>"

fun register_assets ::
  "report list \<Rightarrow> mon_asset list \<Rightarrow> mon_engine \<Rightarrow> mon_engine \<times> registration list \<times> uuid list" where
  "register_assets reports [] eng = (eng, [], [])"
| "register_assets reports (a # as) eng =
     (if decision_by_decoy reports (as_decoy_id a) \<noteq> Some ACCEPT
      then (case register_assets reports as eng of (eng', regs, rejected) \<Rightarrow> (eng', regs, as_decoy_id a # rejected))
      else
        let e = entry_of_asset a in
        case register_assets reports as (eng\<lparr>en_registry := reg_register e (en_registry eng)\<rparr>) of
          (eng', regs, rejected) \<Rightarrow>
            (eng', map (\<lambda>m. \<lparr>rg_monitor = m, rg_trace = te_trace e, rg_location = te_location e,
                             rg_status = HealthActive\<rparr>) (monitor_types e) @ regs, rejected))"

definition event_valid :: "raw_event \<Rightarrow> bool" where
  "event_valid ev \<longleftrightarrow> re_trace ev \<noteq> [] \<and> length (re_trace ev) \<le> 128 \<and>
     re_location ev \<noteq> [] \<and> length (re_location ev) \<le> 2048 \<and>
     re_excerpt ev \<noteq> [] \<and> length (re_excerpt ev) \<le> 256 \<and> 0 \<le> re_confidence ev \<and> re_confidence ev \<le> 1"

definition scan_text ::
  "(string \<Rightarrow> string) \<Rightarrow> (string \<Rightarrow> uuid) \<Rightarrow> (uuid \<Rightarrow> string) \<Rightarrow> datetime \<Rightarrow> string \<Rightarrow> string \<Rightarrow> monitor_type \<Rightarrow>
   mon_engine \<Rightarrow> mon_engine \<times> (model_error + raw_event option)" where
  "scan_text sha uuid5 str_of now text location m eng =
     (case trace_match text (reg_active (en_registry eng)) of
        None \<Rightarrow> (eng, Inr None)
      | Some (e, confidence, ex) \<Rightarrow>
          (let digest = sha text; key = (te_trace e, location, digest) in
           if key \<in> set (en_seen eng) then (eng, Inr None)
           else
             let ev = \<lparr>re_id = uuid5 (join_with '':'' [te_trace e, location, digest]), re_trace = te_trace e,
                       re_decoy = te_decoy e, re_monitor = m, re_location = location, re_excerpt = ex,
                       re_time = now, re_source = monitor_source m, re_confidence = confidence,
                       re_suggestion = (if confidence = 1 then HIGH else MEDIUM), re_digest = digest,
                       re_method = ContentAccess,
                       re_correlation = uuid5 (str_of (te_decoy e) @ '':'' @ te_trace e)\<rparr>
             in (eng\<lparr>en_seen := key # en_seen eng\<rparr>, if event_valid ev then Inr (Some ev) else Inl ValidationError)))"

definition disable_trace :: "string \<Rightarrow> mon_engine \<Rightarrow> mon_engine \<times> bool" where
  "disable_trace t eng =
     (let (r, ok) = reg_disable t (en_registry eng) in (eng\<lparr>en_registry := r\<rparr>, ok))"

definition health :: "(monitor_type \<times> health_status) list" where
  "health = map (\<lambda>m. (m, HealthActive)) [FILE_CONTENT, REPOSITORY, DATABASE_PAYLOAD, TEXT_PAYLOAD]"


subsection \<open>What a match means\<close>

lemma contains_Nil [simp]: "contains s []"
  by (cases s) auto

lemma match_exact_Some:
  "match_exact tx es = Some (e, c, x) \<Longrightarrow>
     e \<in> set es \<and> c = 1 \<and> (\<exists>i. py_find tx (te_trace e) = Some i \<and> x = excerpt tx i (length (te_trace e)))"
  by (induction es) (auto split: option.splits)

lemma match_exact_None: "match_exact tx es = None \<longleftrightarrow> (\<forall>e \<in> set es. \<not> contains tx (te_trace e))"
proof (induction es)
  case (Cons e es)
  then show ?case using py_find_contains [of tx "te_trace e"] by (auto split: option.splits)
qed simp

lemma match_normalized_Some:
  "match_normalized tx n es = Some (e, c, x) \<Longrightarrow>
     e \<in> set es \<and> c = 85 / 100 \<and> contains n (normalize_trace (te_trace e)) \<and> x = excerpt tx 0 0"
  by (induction tx n es rule: match_normalized.induct) (auto split: if_splits)

lemma reg_active_iff: "e \<in> set (reg_active r) \<longleftrightarrow> te_enabled e \<and> e \<in> snd ` set r"
  by (auto simp: reg_active_def)

lemma trace_match_Some:
  assumes "trace_match tx es = Some (e, c, x)"
  shows "e \<in> set es \<and>
    ((c = 1 \<and> (\<exists>i. py_find tx (te_trace e) = Some i \<and> x = excerpt tx i (length (te_trace e)))) \<or>
     (c = 85 / 100 \<and> (\<forall>e' \<in> set es. \<not> contains tx (te_trace e')) \<and>
      contains (normalize_trace tx) (normalize_trace (te_trace e)) \<and> x = excerpt tx 0 0))"
proof (cases "match_exact tx es")
  case None
  then show ?thesis
    using assms match_exact_None [of tx es] match_normalized_Some [of tx "normalize_trace tx" es e c x]
    by (auto simp: trace_match_def)
next
  case (Some m)
  then show ?thesis using assms match_exact_Some [of tx es e c x] by (auto simp: trace_match_def)
qed

text \<open>The excerpt of an exact match is short and shows the trace.\<close>

lemma excerpt_shows:
  assumes "py_find tx p = Some i" and "length p \<le> 128"
  shows "contains (excerpt tx i (length p)) p \<and> length (excerpt tx i (length p)) \<le> 224"
proof -
  let ?st = "i - 48" and ?en = "min (length tx) (i + length p + 48)"
  have len: "i + length p \<le> length tx" by (rule py_find_len [OF assms(1)])
  have small: "?en - ?st \<le> 224" using assms(2) by simp
  have ex: "excerpt tx i (length p) = take (?en - ?st) (drop ?st tx)"
    using small by (simp add: excerpt_def Let_def min_def)
  have "drop (i - ?st) (excerpt tx i (length p)) = take (?en - i) (drop i tx)"
    using ex len by (simp add: drop_take add.commute)
  moreover have "take (length p) (take (?en - i) (drop i tx)) = p"
    using py_find_at [OF assms(1)] len by (simp add: min.absorb1 le_diff_conv2)
  ultimately obtain b where "drop (i - ?st) (excerpt tx i (length p)) = p @ b"
    by (metis append_take_drop_id)
  then have "excerpt tx i (length p) = take (i - ?st) (excerpt tx i (length p)) @ p @ b"
    by (metis append_take_drop_id)
  then have "contains (excerpt tx i (length p)) p" unfolding contains_iff by blast
  moreover have "length (excerpt tx i (length p)) \<le> 224" using small ex by simp
  ultimately show ?thesis by simp
qed

text \<open>A trace without letters and digits normalises to nothing, and matches every tx.\<close>

lemma separator_trace_matches_all:
  assumes "\<forall>c \<in> set (te_trace e). \<not> is_alnum c"
  shows "trace_match tx [e] \<noteq> None"
proof -
  have "normalize_trace (te_trace e) = []"
    using assms by (simp add: normalize_trace_def py_upper_def filter_empty_conv)
  then have "match_normalized tx (normalize_trace tx) [e] = Some (e, 85 / 100, excerpt tx 0 0)" by simp
  then show ?thesis
    by (cases "match_exact tx [e]") (simp_all only: trace_match_def option.case option.distinct not_False_eq_True)
qed

subsection \<open>Detections\<close>

lemma scan_event:
  assumes "scan_text sha uuid5 str_of now tx location m eng = (eng', Inr (Some ev))"
  shows "\<exists>e c x. trace_match tx (reg_active (en_registry eng)) = Some (e, c, x) \<and> re_trace ev = te_trace e \<and>
    re_decoy ev = te_decoy e \<and> re_confidence ev = c \<and> re_excerpt ev = x \<and> re_location ev = location \<and>
    re_digest ev = sha tx \<and> re_suggestion ev = (if c = 1 then HIGH else MEDIUM) \<and>
    (te_trace e, location, sha tx) \<notin> set (en_seen eng) \<and>
    eng' = eng\<lparr>en_seen := (te_trace e, location, sha tx) # en_seen eng\<rparr> \<and> event_valid ev"
proof (cases "trace_match tx (reg_active (en_registry eng))")
  case None
  then show ?thesis using assms by (simp add: scan_text_def)
next
  case (Some t)
  obtain e c x where t: "t = (e, c, x)" by (cases t)
  show ?thesis using assms Some t by (auto simp: scan_text_def Let_def split: if_splits)
qed

lemma scan_registry: "en_registry (fst (scan_text sha uuid5 str_of now tx location m eng)) = en_registry eng"
  by (auto simp: scan_text_def Let_def split: option.splits)

lemma scan_seen:
  "set (en_seen eng) \<subseteq> set (en_seen (fst (scan_text sha uuid5 str_of now tx location m eng)))"
  by (auto simp: scan_text_def Let_def split: option.splits)

text \<open>
  C19. Exact detection is complete: if the marker of any active tripwire occurs literally in a payload
  whose location and markers are within their field limits and that was not reported before, the scan
  returns an event of confidence 1 and severity HIGH that names an active tripwire occurring in the
  payload, with an excerpt of at most 224 characters that shows the marker; the same payload at the
  same place is then not reported again.
\<close>

theorem exact_trace_always_detected:
  assumes "e \<in> set (reg_active (en_registry eng))" and "contains tx (te_trace e)"
    and "list_all (\<lambda>e. 1 \<le> length (te_trace e) \<and> length (te_trace e) \<le> 128 \<and>
           (te_trace e, location, sha tx) \<notin> set (en_seen eng)) (reg_active (en_registry eng))"
    and "location \<noteq> []" and "length location \<le> 2048"
  shows "\<exists>eng' ev e'. scan_text sha uuid5 str_of now tx location m eng = (eng', Inr (Some ev)) \<and>
    e' \<in> set (reg_active (en_registry eng)) \<and> re_trace ev = te_trace e' \<and> re_decoy ev = te_decoy e' \<and>
    contains tx (te_trace e') \<and> re_confidence ev = 1 \<and> re_suggestion ev = HIGH \<and>
    contains (re_excerpt ev) (re_trace ev) \<and> length (re_excerpt ev) \<le> 224 \<and>
    scan_text sha uuid5 str_of later tx location m' eng' = (eng', Inr None)"
proof -
  let ?es = "reg_active (en_registry eng)"
  have "match_exact tx ?es \<noteq> None" using assms(1,2) by (auto simp: match_exact_None)
  then obtain e' c x where mt: "match_exact tx ?es = Some (e', c, x)" by auto
  obtain i where e': "e' \<in> set ?es" "c = 1" "py_find tx (te_trace e') = Some i"
      "x = excerpt tx i (length (te_trace e'))"
    using match_exact_Some [OF mt] by blast
  have lim: "te_trace e' \<noteq> []" "length (te_trace e') \<le> 128" "(te_trace e', location, sha tx) \<notin> set (en_seen eng)"
    using assms(3) e'(1) by (auto simp: list_all_iff)
  note sh = excerpt_shows [OF e'(3) lim(2)]
  have "x \<noteq> []" using sh lim(1) e'(4) by (metis contains.simps(1))
  then have "length x \<le> 256" "x \<noteq> []" using sh e'(4) by simp_all
  moreover have "contains tx (te_trace e')" using py_find_contains [of tx "te_trace e'"] e'(3) by simp
  moreover have tm: "trace_match tx ?es = Some (e', 1, x)" using mt e'(2) by (simp add: trace_match_def)
  ultimately show ?thesis
    using lim assms(4,5) e' sh
    by (simp add: scan_text_def Let_def event_valid_def) blast
qed

definition demo_engine :: mon_engine where
  "demo_engine = \<lparr>en_registry = [(''DF-A1'', \<lparr>te_trace = ''DF-A1'', te_decoy = 3, te_placement = 4,
     te_location = ''docs/a.md'', te_template = ''t'', te_type = ''document'', te_enabled = True\<rparr>)], en_seen = []\<rparr>"

theorem exact_trace_always_detected_witness:
  "\<exists>eng' ev e'. scan_text (\<lambda>s. s) length nat_str 9 ''see DF-A1 here'' ''x.txt'' TEXT_PAYLOAD demo_engine = (eng', Inr (Some ev)) \<and>
    e' \<in> set (reg_active (en_registry demo_engine)) \<and> re_trace ev = te_trace e' \<and> re_decoy ev = te_decoy e' \<and>
    contains ''see DF-A1 here'' (te_trace e') \<and> re_confidence ev = 1 \<and> re_suggestion ev = HIGH \<and>
    contains (re_excerpt ev) (re_trace ev) \<and> length (re_excerpt ev) \<le> 224 \<and>
    scan_text (\<lambda>s. s) length nat_str 10 ''see DF-A1 here'' ''x.txt'' REPOSITORY eng' = (eng', Inr None)"
proof -
  have 1: "snd (hd (en_registry demo_engine)) \<in> set (reg_active (en_registry demo_engine))" by code_simp
  have 2: "contains ''see DF-A1 here'' (te_trace (snd (hd (en_registry demo_engine))))" by code_simp
  have 3: "list_all (\<lambda>e. 1 \<le> length (te_trace e) \<and> length (te_trace e) \<le> 128 \<and>
      (te_trace e, ''x.txt'', ''see DF-A1 here'') \<notin> set (en_seen demo_engine)) (reg_active (en_registry demo_engine))"
    by code_simp
  show ?thesis
    by (rule exact_trace_always_detected [where e = "snd (hd (en_registry demo_engine))" and sha = "\<lambda>s. s"])
      (use 1 2 3 in simp_all)
qed

subsection \<open>Runs of the engine\<close>

datatype mon_op = Scan datetime string string monitor_type | Disable string

fun run_monitor ::
  "(string \<Rightarrow> string) \<Rightarrow> (string \<Rightarrow> uuid) \<Rightarrow> (uuid \<Rightarrow> string) \<Rightarrow> mon_op list \<Rightarrow> mon_engine \<Rightarrow> raw_event list" where
  "run_monitor sha uuid5 str_of [] eng = []"
| "run_monitor sha uuid5 str_of (Disable t # ops) eng = run_monitor sha uuid5 str_of ops (fst (disable_trace t eng))"
| "run_monitor sha uuid5 str_of (Scan now tx loc m # ops) eng =
     (case scan_text sha uuid5 str_of now tx loc m eng of
        (eng', Inr (Some ev)) \<Rightarrow> ev # run_monitor sha uuid5 str_of ops eng'
      | (eng', _) \<Rightarrow> run_monitor sha uuid5 str_of ops eng')"

text \<open>Every entry sits under its own marker and belongs to an accepted asset of the plan.\<close>

definition registry_of :: "report list \<Rightarrow> mon_asset list \<Rightarrow> registry \<Rightarrow> bool" where
  "registry_of reports assets r \<longleftrightarrow> (\<forall>(t, e) \<in> set r. te_trace e = t \<and>
     (\<exists>a \<in> set assets. decision_by_decoy reports (as_decoy_id a) = Some ACCEPT \<and>
        te_decoy e = as_decoy_id a \<and> te_trace e = as_trace a))"

lemma set_assoc_update: "set (AList.update k v d) \<subseteq> insert (k, v) (set d)"
  by (induction d) auto

lemma registry_of_update:
  "registry_of reports assets r \<Longrightarrow> te_trace e = t \<Longrightarrow>
   \<exists>a \<in> set assets. decision_by_decoy reports (as_decoy_id a) = Some ACCEPT \<and> te_decoy e = as_decoy_id a \<and> te_trace e = as_trace a \<Longrightarrow>
   registry_of reports assets (AList.update t e r)"
  using set_assoc_update [of t e r] unfolding registry_of_def by fast

lemma register_assets_registry:
  "registry_of reports assets (en_registry eng) \<Longrightarrow> set as \<subseteq> set assets \<Longrightarrow>
   registry_of reports assets (en_registry (fst (register_assets reports as eng))) \<and>
   en_seen (fst (register_assets reports as eng)) = en_seen eng"
proof (induction reports as eng rule: register_assets.induct)
  case (2 reports a as eng)
  show ?case
  proof (cases "decision_by_decoy reports (as_decoy_id a) = Some ACCEPT")
    case True
    let ?eng = "eng\<lparr>en_registry := reg_register (entry_of_asset a) (en_registry eng)\<rparr>"
    have "registry_of reports assets (en_registry ?eng)"
      using registry_of_update [OF "2.prems"(1), of "entry_of_asset a"] "2.prems"(2) True
      by (auto simp: entry_of_asset_def reg_register_def)
    then show ?thesis using "2.IH"(2) True "2.prems"(2) by (auto simp: Let_def split: prod.splits)
  next
    case False
    then show ?thesis using "2.IH"(1) "2.prems" by (auto split: prod.splits)
  qed
qed simp

lemma disable_registry:
  assumes r: "registry_of reports assets (en_registry eng)"
  shows "registry_of reports assets (en_registry (fst (disable_trace t eng)))"
proof (cases "map_of (en_registry eng) t")
  case (Some e)
  have m: "(t, e) \<in> set (en_registry eng)" using Some by (rule map_of_SomeD)
  have "registry_of reports assets (AList.update t (e\<lparr>te_enabled := False\<rparr>) (en_registry eng))"
    by (rule registry_of_update [OF r]) (use r m in \<open>auto simp: registry_of_def\<close>)
  then show ?thesis using Some by (simp add: disable_trace_def reg_disable_def reg_get_def)
qed (use r in \<open>simp add: disable_trace_def reg_disable_def reg_get_def\<close>)

lemma disable_seen [simp]: "en_seen (fst (disable_trace t eng)) = en_seen eng"
  by (simp add: disable_trace_def reg_disable_def split: option.splits)

lemma disable_disables:
  "registry_of reports assets (en_registry eng) \<Longrightarrow> e \<in> set (reg_active (en_registry (fst (disable_trace t eng)))) \<Longrightarrow>
   distinct (map fst (en_registry eng)) \<Longrightarrow> te_trace e \<noteq> t"
proof (cases "map_of (en_registry eng) t")
  case None
  assume r: "registry_of reports assets (en_registry eng)"
    and e: "e \<in> set (reg_active (en_registry (fst (disable_trace t eng))))"
  have "en_registry (fst (disable_trace t eng)) = en_registry eng"
    using None by (simp add: disable_trace_def reg_disable_def reg_get_def)
  then obtain u where "(u, e) \<in> set (en_registry eng)" using e by (auto simp: reg_active_iff)
  then have "u \<in> fst ` set (en_registry eng)" and "te_trace e = u" using r by (force, auto simp: registry_of_def)
  moreover have "t \<notin> fst ` set (en_registry eng)" using None by (simp add: map_of_eq_None_iff)
  ultimately show "te_trace e \<noteq> t" by blast
next
  case (Some e0)
  assume r: "registry_of reports assets (en_registry eng)" and d: "distinct (map fst (en_registry eng))"
    and e: "e \<in> set (reg_active (en_registry (fst (disable_trace t eng))))"
  let ?r = "AList.update t (e0\<lparr>te_enabled := False\<rparr>) (en_registry eng)"
  have reg: "en_registry (fst (disable_trace t eng)) = ?r"
    using Some by (simp add: disable_trace_def reg_disable_def reg_get_def)
  then obtain u where u: "(u, e) \<in> set ?r" and en: "te_enabled e" using e by (auto simp: reg_active_iff)
  have rr: "registry_of reports assets ?r" using disable_registry [OF r, of t] reg by simp
  show "te_trace e \<noteq> t"
  proof
    assume "te_trace e = t"
    then have "(t, e) \<in> set ?r" using u rr by (auto simp: registry_of_def)
    then have "map_of ?r t = Some e" by (rule map_of_is_SomeI [OF distinct_update [OF d]])
    then show False using en by auto
  qed
qed

definition fires_once :: "(string \<times> string \<times> string) list \<Rightarrow> raw_event list \<Rightarrow> bool" where
  "fires_once seen evs \<longleftrightarrow> distinct (map (\<lambda>ev. (re_trace ev, re_location ev, re_digest ev)) evs) \<and>
     set (map (\<lambda>ev. (re_trace ev, re_location ev, re_digest ev)) evs) \<inter> set seen = {}"

lemma fires_once_Cons:
  "fires_once seen' evs \<Longrightarrow> set seen' = insert (re_trace ev, re_location ev, re_digest ev) (set seen) \<Longrightarrow>
   (re_trace ev, re_location ev, re_digest ev) \<notin> set seen \<Longrightarrow> fires_once seen (ev # evs)"
  by (auto simp: fires_once_def)

lemma fires_once_mono: "fires_once seen' evs \<Longrightarrow> set seen \<subseteq> set seen' \<Longrightarrow> fires_once seen evs"
  by (auto simp: fires_once_def)

lemma run_monitor_Scan:
  assumes "scan_text sha uuid5 str_of now tx loc m eng = (eng', r)"
  shows "run_monitor sha uuid5 str_of (Scan now tx loc m # ops) eng =
    (case r of Inr (Some ev) \<Rightarrow> [ev] | _ \<Rightarrow> []) @ run_monitor sha uuid5 str_of ops eng'"
  using assms by (simp split: sum.splits option.splits)

declare run_monitor.simps(3) [simp del]

lemma run_monitor_once: "fires_once (en_seen eng) (run_monitor sha uuid5 str_of ops eng)"
proof (induction ops arbitrary: eng)
  case (Cons op ops)
  show ?case
  proof (cases op)
    case (Scan now tx loc m)
    obtain eng' r where s: "scan_text sha uuid5 str_of now tx loc m eng = (eng', r)" by fastforce
    have seen: "set (en_seen eng) \<subseteq> set (en_seen eng')"
      using scan_seen [of eng sha uuid5 str_of now tx loc m] s by simp
    show ?thesis
    proof (cases "\<exists>ev. r = Inr (Some ev)")
      case True
      then obtain ev where r: "r = Inr (Some ev)" by blast
      have "fires_once (en_seen eng) (ev # run_monitor sha uuid5 str_of ops eng')"
        by (rule fires_once_Cons [OF Cons.IH]) (use scan_event [OF s [unfolded r]] in auto)
      then show ?thesis using run_monitor_Scan [OF s] r Scan by simp
    next
      case False
      then have "run_monitor sha uuid5 str_of (op # ops) eng = run_monitor sha uuid5 str_of ops eng'"
        using run_monitor_Scan [OF s] Scan by (simp split: sum.splits option.splits)
      then show ?thesis using fires_once_mono [OF Cons.IH seen] by simp
    qed
  next
    case (Disable t)
    then show ?thesis using Cons.IH [of "fst (disable_trace t eng)"] by simp
  qed
qed (simp add: fires_once_def)

text \<open>Every detection of a run names an accepted asset of the registered plan.\<close>

lemma run_monitor_accepted:
  assumes "registry_of reports assets (en_registry eng)" and "ev \<in> set (run_monitor sha uuid5 str_of ops eng)"
  shows "\<exists>a \<in> set assets. decision_by_decoy reports (as_decoy_id a) = Some ACCEPT \<and>
    re_decoy ev = as_decoy_id a \<and> re_trace ev = as_trace a"
  using assms
proof (induction ops arbitrary: eng)
  case (Cons op ops)
  show ?case
  proof (cases op)
    case (Scan now tx loc m)
    obtain eng' r where s: "scan_text sha uuid5 str_of now tx loc m eng = (eng', r)" by fastforce
    have reg: "registry_of reports assets (en_registry eng')"
      using scan_registry [of sha uuid5 str_of now tx loc m eng] s Cons.prems(1) by simp
    consider "ev \<in> set (run_monitor sha uuid5 str_of ops eng')" | "r = Inr (Some ev)"
      using Cons.prems(2) run_monitor_Scan [OF s] Scan by (auto split: sum.splits option.splits)
    then show ?thesis
    proof cases
      case 1
      then show ?thesis using Cons.IH [OF reg] by blast
    next
      case 2
      obtain e c x where e: "trace_match tx (reg_active (en_registry eng)) = Some (e, c, x)"
          "re_trace ev = te_trace e" "re_decoy ev = te_decoy e"
        using scan_event [OF s [unfolded 2]] by blast
      have "e \<in> snd ` set (en_registry eng)" using trace_match_Some [OF e(1)] by (simp add: reg_active_iff)
      then show ?thesis using Cons.prems(1) e(2,3) by (auto simp: registry_of_def)
    qed
  next
    case (Disable t)
    then show ?thesis using Cons disable_registry [OF Cons.prems(1), of t] by simp
  qed
qed simp

text \<open>
  C20. Monitoring reports accepted decoys only, and each sighting once: after a plan was registered, any
  sequence of scans and disablings yields events whose decoy and marker belong to an asset of the plan
  that its latest validation report accepts, and no two events agree on marker, location and content
  digest.
\<close>

theorem detections_accepted_and_unique:
  "list_all (\<lambda>ev. list_ex (\<lambda>a. decision_by_decoy reports (as_decoy_id a) = Some ACCEPT \<and>
       re_decoy ev = as_decoy_id a \<and> re_trace ev = as_trace a) assets)
     (run_monitor sha uuid5 str_of ops (fst (register_assets reports assets new_engine))) \<and>
   distinct (map (\<lambda>ev. (re_trace ev, re_location ev, re_digest ev))
     (run_monitor sha uuid5 str_of ops (fst (register_assets reports assets new_engine))))"
proof -
  let ?eng = "fst (register_assets reports assets new_engine)"
  have "registry_of reports assets (en_registry ?eng)"
    using register_assets_registry [of reports assets new_engine assets]
    by (simp add: new_engine_def registry_of_def)
  then show ?thesis
    using run_monitor_accepted [of reports assets ?eng] run_monitor_once [of ?eng sha uuid5 str_of ops]
    by (auto simp: list_all_iff list_ex_iff fires_once_def)
qed

end
