(* ===== verification/Alerting.thy ===== *)
theory Alerting
  imports Monitoring "HOL-Library.Multiset" "HOL-Library.Countable"
begin

text \<open>
  Alerting (\<open>services/alerting\<close>): the severity score, the in-memory pipeline that folds detection events
  into episode alerts, and \<open>combine_alerts\<close>, the merge the database upsert uses. The dictionary of
  alerts is keyed by the alert id (its string form in the code).
\<close>

subsection \<open>Domain model\<close>

datatype alert_status = AlertOpen | AlertAcknowledged | AlertClosed

record alert_evidence =
  ae_excerpt :: string
  ae_digest :: string
  ae_location :: string

record alert =
  na_id :: uuid
  na_trace :: string
  na_decoy :: uuid
  na_severity :: severity
  na_status :: alert_status
  na_title :: string
  na_summary :: string
  na_monitor :: monitor_type
  na_confidence :: rat
  na_first :: datetime
  na_last :: datetime
  na_count :: nat
  na_key :: string
  na_bucket :: int
  na_placement :: uuid
  na_type :: string
  na_evidence :: "alert_evidence list"
  na_raw :: "uuid list"
  na_actions :: "string list"
  na_correlation :: uuid
  na_notes :: "string list"
  na_hints :: "string list"

record alerting_config =
  ac_window :: int
  ac_high :: rat
  ac_critical :: rat

definition default_alerting :: alerting_config where
  "default_alerting = \<lparr>ac_window = 900, ac_high = 70, ac_critical = 90\<rparr>"

subsection \<open>Scoring\<close>

fun monitor_points :: "monitor_type \<Rightarrow> rat" where
  "monitor_points DATABASE_PAYLOAD = 25"
| "monitor_points REPOSITORY = 20"
| "monitor_points TEXT_PAYLOAD = 15"
| "monitor_points FILE_CONTENT = 10"

definition severity_of_score :: "rat \<Rightarrow> severity" where
  "severity_of_score score =
     (if score \<ge> 90 then CRITICAL else if score \<ge> 70 then HIGH else if score \<ge> 45 then MEDIUM
      else if score \<ge> 25 then LOW else INFO)"

definition alert_severity :: "raw_event \<Rightarrow> string \<Rightarrow> rat \<Rightarrow> nat \<Rightarrow> severity" where
  "alert_severity ev decoy_type placement_priority n =
     (let decoy = (if decoy_type = ''database_record'' then 20 else if decoy_type = ''secret'' then 15 else 10)
      in severity_of_score (re_confidence ev * 35 + monitor_points (re_monitor ev) + decoy
           + placement_priority * 15 + of_nat (min 10 (n * 2))))"

subsection \<open>Merging two alerts of one episode\<close>

definition combine_alerts :: "alert \<Rightarrow> alert \<Rightarrow> alert" where
  "combine_alerts existing candidate = existing\<lparr>
     na_count := na_count existing + na_count candidate,
     na_first := min (na_first existing) (na_first candidate),
     na_last := max (na_last existing) (na_last candidate),
     na_severity := (if sev_rank (na_severity existing) < sev_rank (na_severity candidate)
                     then na_severity candidate else na_severity existing),
     na_confidence := max (na_confidence existing) (na_confidence candidate),
     na_evidence := last_n 5 (na_evidence existing @ na_evidence candidate),
     na_raw := last_n 20 (na_raw existing @ na_raw candidate)\<rparr>"

subsection \<open>The pipeline\<close>

definition alert_event_ok :: "raw_event \<Rightarrow> bool" where
  "alert_event_ok ev \<longleftrightarrow> re_trace ev \<noteq> [] \<and> re_excerpt ev \<noteq> [] \<and> re_confidence ev \<ge> 1 / 2"

definition alert_key :: "(uuid \<Rightarrow> string) \<Rightarrow> raw_event \<Rightarrow> string" where
  "alert_key str_of ev = join_with '':'' [re_trace ev, str_of (re_decoy ev), monitor_value (re_monitor ev),
     re_location ev, source_value (re_source ev), method_value (re_method ev)]"

definition fallback_entry :: "raw_event \<Rightarrow> tripwire_entry" where
  "fallback_entry ev = \<lparr>te_trace = re_trace ev, te_decoy = re_decoy ev, te_placement = re_correlation ev,
     te_location = re_location ev, te_template = ''unknown'', te_type = ''unknown'', te_enabled = True\<rparr>"

fun alert_actions :: "monitor_type \<Rightarrow> string list" where
  "alert_actions TEXT_PAYLOAD = [''Verify whether internal data was pasted into an AI tool.'',
     ''Review activity around the timestamp.'']"
| "alert_actions REPOSITORY = [''Inspect repository commit and file history.'', ''Review repository access permissions.'']"
| "alert_actions DATABASE_PAYLOAD = [''Inspect query and export logs.'', ''Review service-account activity.'']"
| "alert_actions FILE_CONTENT = [''Review file owner and recent modifications.'', ''Check whether the file was copied or synced.'']"

definition health_notes :: "health_status list \<Rightarrow> string list" where
  "health_notes h = map (\<lambda>_. ''Monitor health is degraded.'') (filter (\<lambda>s. s = HealthDegraded \<or> s = HealthFailed) h)"

definition escalation_hints :: "severity \<Rightarrow> string list" where
  "escalation_hints s = [if s = HIGH \<or> s = CRITICAL then ''Escalate to security operations.''
     else ''Review during normal triage.'']"

definition org_text :: "(uuid \<Rightarrow> string) \<Rightarrow> org_id option \<Rightarrow> string" where
  "org_text str_of org = (case org of None \<Rightarrow> ''None'' | Some i \<Rightarrow> str_of i)"

definition episode_of :: "alerting_config \<Rightarrow> datetime \<Rightarrow> int" where
  "episode_of config t = t div seconds (max 1 (ac_window config))"

definition alert_name :: "(uuid \<Rightarrow> string) \<Rightarrow> org_id option \<Rightarrow> string \<Rightarrow> int \<Rightarrow> string" where
  "alert_name str_of org key episode = (org_text str_of org @ '':'' @ key) @ CHR '':'' # int_str episode"

definition new_evidence :: "raw_event \<Rightarrow> alert_evidence" where
  "new_evidence ev = \<lparr>ae_excerpt = re_excerpt ev, ae_digest = re_digest ev, ae_location = re_location ev\<rparr>"

text \<open>The field limits that an event within its own limits can still exceed.\<close>

definition alert_fields_ok :: "alert \<Rightarrow> bool" where
  "alert_fields_ok a \<longleftrightarrow> length (na_summary a) \<le> 2000 \<and> length (na_key a) \<le> 512 \<and>
     na_type a \<noteq> [] \<and> length (na_type a) \<le> 128"

definition alert_summary :: "raw_event \<Rightarrow> string" where
  "alert_summary ev = ''Trace '' @ re_trace ev @ '' was observed at '' @ re_location ev @ ''.''"

definition create_alert ::
  "(string \<Rightarrow> uuid) \<Rightarrow> (uuid \<Rightarrow> string) \<Rightarrow> org_id option \<Rightarrow> alerting_config \<Rightarrow> health_status list \<Rightarrow> raw_event \<Rightarrow>
   tripwire_entry \<Rightarrow> string \<Rightarrow> model_error + alert" where
  "create_alert uuid5 str_of org config hs ev e key =
     (let severity = alert_severity ev (te_type e) 1 1;
          episode = episode_of config (re_time ev);
          a = \<lparr>na_id = uuid5 (alert_name str_of org key episode), na_trace = re_trace ev, na_decoy = re_decoy ev,
               na_severity = severity, na_status = AlertOpen,
               na_title = ''Decoy trace observed in '' @ monitor_value (re_monitor ev),
               na_summary = alert_summary ev, na_monitor = re_monitor ev, na_confidence = re_confidence ev,
               na_first = re_time ev, na_last = re_time ev, na_count = 1, na_key = key, na_bucket = episode,
               na_placement = te_placement e, na_type = te_type e, na_evidence = [new_evidence ev],
               na_raw = [re_id ev], na_actions = alert_actions (re_monitor ev), na_correlation = re_correlation ev,
               na_notes = health_notes hs, na_hints = escalation_hints severity\<rparr>
      in if alert_fields_ok a then Inr a else Inl ValidationError)"

definition update_alert :: "health_status list \<Rightarrow> raw_event \<Rightarrow> tripwire_entry \<Rightarrow> alert \<Rightarrow> alert" where
  "update_alert hs ev e a =
     (let n = na_count a + 1 in a\<lparr>
        na_first := min (na_first a) (re_time ev),
        na_last := max (na_last a) (re_time ev),
        na_count := n,
        na_severity := alert_severity ev (te_type e) 1 n,
        na_confidence := max (na_confidence a) (re_confidence ev),
        na_evidence := last_n 5 (na_evidence a @ [new_evidence ev]),
        na_raw := last_n 20 (na_raw a @ [re_id ev]),
        na_notes := health_notes hs\<rparr>)"

type_synonym alert_map = "(uuid \<times> alert) list"

text \<open>\<open>min(xs, key=f, default=None)\<close>: the first element of least key.\<close>

fun min_by :: "('a \<Rightarrow> 'b :: linorder) \<Rightarrow> 'a list \<Rightarrow> 'a option" where
  "min_by f [] = None"
| "min_by f (x # xs) = (case min_by f xs of None \<Rightarrow> Some x | Some y \<Rightarrow> if f x \<le> f y then Some x else Some y)"

definition within_window :: "alerting_config \<Rightarrow> raw_event \<Rightarrow> alert \<Rightarrow> bool" where
  "within_window config ev a \<longleftrightarrow> abs (re_time ev - na_last a) \<le> seconds (ac_window config)"

definition matching_alert :: "string \<Rightarrow> raw_event \<Rightarrow> alerting_config \<Rightarrow> alert_map \<Rightarrow> alert option" where
  "matching_alert key ev config alerts =
     min_by (\<lambda>a. abs (re_time ev - na_last a))
       (filter (within_window config ev) (filter (\<lambda>a. na_key a = key) (map snd alerts)))"

definition ingest ::
  "(string \<Rightarrow> uuid) \<Rightarrow> (uuid \<Rightarrow> string) \<Rightarrow> org_id option \<Rightarrow> alerting_config \<Rightarrow> health_status list \<Rightarrow>
   tripwire_entry option \<Rightarrow> raw_event \<Rightarrow> alert_map \<Rightarrow> alert_map \<times> (model_error + alert option)" where
  "ingest uuid5 str_of org config hs tripwire ev alerts =
     (if \<not> alert_event_ok ev then (alerts, Inr None)
      else
        let e = (case tripwire of Some e \<Rightarrow> e | None \<Rightarrow> fallback_entry ev);
            key = alert_key str_of ev in
        case matching_alert key ev config alerts of
          Some a \<Rightarrow> (let a' = update_alert hs ev e a in (AList.update (na_id a') a' alerts, Inr (Some a')))
        | None \<Rightarrow>
            (case create_alert uuid5 str_of org config hs ev e key of
               Inl err \<Rightarrow> (alerts, Inl err)
             | Inr a \<Rightarrow> (AList.update (na_id a) a alerts, Inr (Some a))))"

fun ingest_all ::
  "(string \<Rightarrow> uuid) \<Rightarrow> (uuid \<Rightarrow> string) \<Rightarrow> org_id option \<Rightarrow> alerting_config \<Rightarrow> health_status list \<Rightarrow>
   tripwire_entry option \<Rightarrow> raw_event list \<Rightarrow> alert_map \<Rightarrow> alert_map \<times> alert list" where
  "ingest_all uuid5 str_of org config hs tripwire [] alerts = (alerts, [])"
| "ingest_all uuid5 str_of org config hs tripwire (ev # evs) alerts =
     (let (alerts', r) = ingest uuid5 str_of org config hs tripwire ev alerts;
          (alerts'', out) = ingest_all uuid5 str_of org config hs tripwire evs alerts'
      in (alerts'', (case r of Inr (Some a) \<Rightarrow> [a] | _ \<Rightarrow> []) @ out))"

definition seed_alerts :: "alert list \<Rightarrow> alert_map" where
  "seed_alerts existing = fold (\<lambda>a. AList.update (na_id a) a) existing []"

definition list_alerts :: "alert_map \<Rightarrow> alert list" where
  "list_alerts alerts = sort_key (\<lambda>a. (na_first a, na_id a)) (map snd alerts)"

subsection \<open>Bounds of an alert\<close>

definition alert_ok :: "alert \<Rightarrow> bool" where
  "alert_ok a \<longleftrightarrow> 1 \<le> na_count a \<and> na_first a \<le> na_last a \<and> 1 \<le> length (na_evidence a) \<and>
     length (na_evidence a) \<le> 5 \<and> 1 \<le> length (na_raw a) \<and> length (na_raw a) \<le> 20"

lemma alert_ok_update: "alert_ok a \<Longrightarrow> alert_ok (update_alert hs ev e a)"
  by (auto simp: alert_ok_def update_alert_def Let_def)

lemma alert_ok_combine: "alert_ok a \<Longrightarrow> alert_ok b \<Longrightarrow> alert_ok (combine_alerts a b)"
  by (auto simp: alert_ok_def combine_alerts_def)

lemma create_alert_Inr:
  assumes "create_alert uuid5 str_of org config hs ev e key = Inr a"
  shows "na_id a = uuid5 (alert_name str_of org key (episode_of config (re_time ev)))" "na_key a = key"
    "na_bucket a = episode_of config (re_time ev)" "na_first a = re_time ev" "na_last a = re_time ev"
    "na_count a = 1" "alert_ok a" "length (na_key a) \<le> 512"
  using assms by (auto simp: create_alert_def Let_def alert_ok_def alert_fields_ok_def split: if_splits)

lemma min_by_None [simp]: "min_by f xs = None \<longleftrightarrow> xs = []"
  by (cases xs) (auto split: option.splits)

lemma min_by_mem: "min_by f xs = Some x \<Longrightarrow> x \<in> set xs"
  by (induction xs arbitrary: x) (auto split: option.splits if_splits)

lemma min_by_least: "min_by f xs = Some x \<Longrightarrow> y \<in> set xs \<Longrightarrow> f x \<le> f y"
proof (induction xs arbitrary: x)
  case (Cons z zs)
  then show ?case by (cases "min_by f zs") (auto split: if_splits dest: order_trans)
qed simp

lemma matching_alert_Some:
  "matching_alert key ev config alerts = Some a \<Longrightarrow> a \<in> snd ` set alerts \<and> na_key a = key \<and> within_window config ev a"
  unfolding matching_alert_def by (drule min_by_mem) auto

lemma matching_alert_None:
  "matching_alert key ev config alerts = None \<Longrightarrow> a \<in> snd ` set alerts \<Longrightarrow> na_key a = key \<Longrightarrow> \<not> within_window config ev a"
  unfolding matching_alert_def by (auto simp: filter_empty_conv)

text \<open>The alert an event ends up in is the nearest one of its surface, or a fresh one.\<close>

lemma ingest_cases:
  assumes "ingest uuid5 str_of org config hs tw ev alerts = (alerts', Inr (Some a'))"
  obtains (update) a e where "matching_alert (alert_key str_of ev) ev config alerts = Some a"
      "a' = update_alert hs ev e a" "alerts' = AList.update (na_id a) a' alerts"
  | (create) e where "matching_alert (alert_key str_of ev) ev config alerts = None"
      "create_alert uuid5 str_of org config hs ev e (alert_key str_of ev) = Inr a'"
      "alerts' = AList.update (na_id a') a' alerts"
  using assms
  by (auto simp: ingest_def Let_def update_alert_def split: if_splits option.splits sum.splits)

lemma ingest_other: "(\<And>a. r \<noteq> Inr (Some a)) \<Longrightarrow> ingest uuid5 str_of org config hs tw ev alerts = (alerts', r) \<Longrightarrow> alerts' = alerts"
  by (auto simp: ingest_def Let_def split: if_splits option.splits sum.splits)

subsection \<open>Events that arrive in order are never lost\<close>

definition total :: "alert_map \<Rightarrow> nat" where
  "total alerts = sum_list (map (na_count \<circ> snd) alerts)"

text \<open>
  The state of a pipeline whose events so far were in time order and no later than \<open>t\<close>: every alert
  sits under the identifier of its surface and first bucket.
\<close>

definition in_order ::
  "(string \<Rightarrow> uuid) \<Rightarrow> (uuid \<Rightarrow> string) \<Rightarrow> org_id option \<Rightarrow> alerting_config \<Rightarrow> datetime \<Rightarrow> alert_map \<Rightarrow> bool" where
  "in_order uuid5 str_of org config t alerts \<longleftrightarrow> distinct (map fst alerts) \<and>
     (\<forall>(i, a) \<in> set alerts. i = na_id a \<and>
        i = uuid5 (alert_name str_of org (na_key a) (episode_of config (na_first a))) \<and>
        na_first a \<le> na_last a \<and> na_last a \<le> t)"

lemma total_update_new: "k \<notin> fst ` set d \<Longrightarrow> total (AList.update k a d) = total d + na_count a"
  by (induction d) (auto simp: total_def)

lemma total_update_old:
  "distinct (map fst d) \<Longrightarrow> (k, b) \<in> set d \<Longrightarrow> total (AList.update k a d) + na_count b = total d + na_count a"
proof (induction d)
  case (Cons p d)
  show ?case
  proof (cases "fst p = k")
    case True
    have "(k, b) \<notin> set d" using assoc_keyI [of k b d] Cons.prems(1) True by auto
    then have "snd p = b" using Cons.prems(2) True by auto
    then show ?thesis using True by (cases p) (auto simp: total_def)
  next
    case False
    then have "(k, b) \<in> set d" using Cons.prems(2) by auto
    then have "total (AList.update k a d) + na_count b = total d + na_count a" using Cons by auto
    then show ?thesis using False by (cases p) (auto simp: total_def)
  qed
qed simp

lemma alert_name_inj: "alert_name str_of org k b = alert_name str_of org k' b' \<Longrightarrow> k = k' \<and> b = b'"
proof -
  assume "alert_name str_of org k b = alert_name str_of org k' b'"
  then have "(org_text str_of org @ '':'' @ k) @ CHR '':'' # int_str b = (org_text str_of org @ '':'' @ k') @ CHR '':'' # int_str b'"
    by (simp only: alert_name_def)
  from split_last_sep [OF this colon_not_int_str colon_not_int_str] show ?thesis using int_str_inj by simp
qed

lemma later_bucket:
  assumes "1 \<le> ac_window config" and "t0 \<le> t1" and "seconds (ac_window config) < t - t1"
  shows "episode_of config t0 < episode_of config t"
proof -
  let ?w = "seconds (max 1 (ac_window config))"
  have w: "?w = seconds (ac_window config)" "0 < ?w" using assms(1) by simp_all
  have "t0 div ?w \<le> t1 div ?w" using assms(2) w(2) by (rule zdiv_mono1)
  also have "t1 div ?w < (t1 + ?w) div ?w" using w(2) by simp
  also have "\<dots> \<le> t div ?w" using assms(3) w by (intro zdiv_mono1) auto
  finally show ?thesis by (simp add: episode_of_def)
qed

lemma ingest_in_order:
  assumes "inj uuid5" and "1 \<le> ac_window config" and "in_order uuid5 str_of org config t alerts"
    and "t \<le> re_time ev" and "ingest uuid5 str_of org config hs tw ev alerts = (alerts', r)"
  shows "in_order uuid5 str_of org config (re_time ev) alerts' \<and>
    total alerts' = total alerts + (case r of Inr (Some a) \<Rightarrow> 1 | _ \<Rightarrow> 0)"
proof (cases "\<exists>a'. r = Inr (Some a')")
  case False
  then have "alerts' = alerts" using ingest_other assms(5) by blast
  moreover have "in_order uuid5 str_of org config (re_time ev) alerts"
    using assms(3,4) by (fastforce simp: in_order_def)
  ultimately show ?thesis using False by (auto split: sum.splits option.splits)
next
  case True
  then obtain a' where r: "r = Inr (Some a')" by blast
  have old: "in_order uuid5 str_of org config (re_time ev) alerts"
    using assms(3,4) by (fastforce simp: in_order_def)
  note dist = old [unfolded in_order_def, THEN conjunct1]
  from assms(5) [unfolded r] show ?thesis
  proof (cases rule: ingest_cases)
    case (update a e)
    obtain i where i: "(i, a) \<in> set alerts" using matching_alert_Some [OF update(1)] by auto
    have a: "i = na_id a" "i = uuid5 (alert_name str_of org (na_key a) (episode_of config (na_first a)))"
      "na_first a \<le> na_last a" "na_last a \<le> t" using assms(3) i by (auto simp: in_order_def)
    have keep: "na_id a' = na_id a" "na_key a' = na_key a" "na_first a' = na_first a" "na_last a' = re_time ev"
      "na_count a' = na_count a + 1"
      using a(3,4) assms(4) by (simp_all add: update(2) update_alert_def Let_def)
    have "in_order uuid5 str_of org config (re_time ev) alerts'"
      using old set_assoc_update [of "na_id a" a' alerts] a keep assms(4)
      unfolding in_order_def update(3) by (auto simp: distinct_update)
    moreover have "total alerts' = total alerts + 1"
      using total_update_old [OF dist i, of a'] keep(5) a(1) by (simp add: update(3))
    ultimately show ?thesis by (simp add: r)
  next
    case (create e)
    note a' = create_alert_Inr [OF create(2)]
    have new: "na_id a' \<notin> fst ` set alerts"
    proof
      assume "na_id a' \<in> fst ` set alerts"
      then obtain b where b: "(na_id a', b) \<in> set alerts" by auto
      then have "na_id a' = uuid5 (alert_name str_of org (na_key b) (episode_of config (na_first b)))"
        and fl: "na_first b \<le> na_last b" and le: "na_last b \<le> t" using assms(3) by (auto simp: in_order_def)
      then have kb: "na_key b = alert_key str_of ev"
        and eb: "episode_of config (na_first b) = episode_of config (re_time ev)"
        using a'(1) injD [OF assms(1)] alert_name_inj by metis+
      have "\<not> within_window config ev b" using matching_alert_None [OF create(1) _ kb] b by force
      then have "seconds (ac_window config) < re_time ev - na_last b"
        using le assms(4) by (simp add: within_window_def)
      then show False using later_bucket [OF assms(2) fl] eb by fastforce
    qed
    have "in_order uuid5 str_of org config (re_time ev) alerts'"
      using old set_assoc_update [of "na_id a'" a' alerts] a' unfolding in_order_def create(3)
      by (auto simp: distinct_update)
    moreover have "total alerts' = total alerts + 1"
      using total_update_new [OF new, of a'] a'(6) by (simp add: create(3))
    ultimately show ?thesis by (simp add: r)
  qed
qed

lemma ingest_all_in_order:
  assumes "inj uuid5" and "1 \<le> ac_window config"
  shows "in_order uuid5 str_of org config t alerts \<Longrightarrow> sorted (map re_time evs) \<Longrightarrow> \<forall>ev \<in> set evs. t \<le> re_time ev \<Longrightarrow>
    ingest_all uuid5 str_of org config hs tw evs alerts = (alerts', out) \<Longrightarrow>
    total alerts' = total alerts + length out \<and> distinct (map fst alerts')"
proof (induction evs arbitrary: t alerts alerts' out)
  case Nil
  then show ?case by (auto simp: in_order_def)
next
  case (Cons ev evs)
  obtain al1 r where 1: "ingest uuid5 str_of org config hs tw ev alerts = (al1, r)" by fastforce
  obtain al2 out2 where 2: "ingest_all uuid5 str_of org config hs tw evs al1 = (al2, out2)" by fastforce
  have "t \<le> re_time ev" using Cons.prems(3) by simp
  note s = ingest_in_order [OF assms Cons.prems(1) this 1]
  have "total al2 = total al1 + length out2 \<and> distinct (map fst al2)"
    using Cons.IH [OF s [THEN conjunct1] _ _ 2] Cons.prems(2) by simp
  then show ?case using s 1 2 Cons.prems(4) by (auto split: sum.splits option.splits)
qed

text \<open>
  C18. No accepted event is lost or counted twice: with a window of at least a second and identifiers
  that do not collide, a pipeline fed events in time order ends with alerts whose event counts add up
  to the number of events it accepted, one dictionary entry per alert identifier.
\<close>

theorem in_order_events_conserved:
  assumes "inj uuid5" and "1 \<le> ac_window config" and "sorted (map re_time evs)"
    and "ingest_all uuid5 str_of org config hs tw evs [] = (alerts, out)"
  shows "total alerts = length out \<and> distinct (map fst alerts)"
proof (cases evs)
  case Nil
  then show ?thesis using assms(4) by (auto simp: total_def)
next
  case (Cons ev es)
  have "in_order uuid5 str_of org config (re_time ev) []" by (simp add: in_order_def)
  from ingest_all_in_order [OF assms(1,2) this assms(3) _ assms(4)] show ?thesis
    using assms(3) Cons by (auto simp: total_def)
qed

definition sample_event :: "int \<Rightarrow> raw_event" where
  "sample_event s = \<lparr>re_id = 1, re_trace = ''DF-A1'', re_decoy = 3, re_monitor = FILE_CONTENT,
     re_location = ''x'', re_excerpt = ''DF-A1'', re_time = seconds s, re_source = SrcDocument, re_confidence = 1,
     re_suggestion = HIGH, re_digest = ''d'', re_method = ContentAccess, re_correlation = 5\<rparr>"

theorem in_order_events_conserved_witness:
  "total (fst (ingest_all (to_nat :: string \<Rightarrow> nat) nat_str (Some 7) default_alerting [] None
      [sample_event 0, sample_event 800, sample_event 2000] [])) =
   length (snd (ingest_all (to_nat :: string \<Rightarrow> nat) nat_str (Some 7) default_alerting [] None
      [sample_event 0, sample_event 800, sample_event 2000] []))"
  using in_order_events_conserved [OF inj_to_nat, of default_alerting "[sample_event 0, sample_event 800, sample_event 2000]"
      nat_str "Some 7" "[]" None] 
  by (simp add: default_alerting_def sample_event_def)

text \<open>
  Out of order the count is lost: three events in a chain, then a late one near the first; its bucket is
  the first alert's bucket while the chain has moved the alert's \<open>last_seen\<close> out of its window, so a
  fresh alert replaces the old one under the same identifier.
\<close>

lemma late_event_overwrites:
  "total (fst (ingest_all length nat_str (Some 7) default_alerting [] None
     [sample_event 0, sample_event 800, sample_event 1600] [])) = 3"
  "total (fst (ingest_all length nat_str (Some 7) default_alerting [] None
     [sample_event 0, sample_event 800, sample_event 1600, sample_event 100] [])) = 1"
  by code_simp+

text \<open>An update takes the severity of the last event alone, so a weaker sighting lowers the alert.\<close>

lemma update_can_lower_severity:
  "map na_severity (snd (ingest_all length nat_str (Some 7) default_alerting [] None
     [sample_event 0, sample_event 10\<lparr>re_confidence := 85 / 100\<rparr>] [])) = [HIGH, MEDIUM]"
  by code_simp

text \<open>A location within its own limit can exceed the limit of the deduplication key.\<close>

lemma long_location_rejected:
  assumes "alert_event_ok ev" and "513 \<le> length (re_location ev)"
  shows "ingest uuid5 str_of org config hs tw ev [] = ([], Inl ValidationError)"
proof -
  have "length (re_location ev) \<le> length (alert_key str_of ev)" by (simp add: alert_key_def)
  then have "512 < length (alert_key str_of ev)" using assms(2) by linarith
  then show ?thesis
    using assms(1) by (simp add: ingest_def matching_alert_def create_alert_def alert_fields_ok_def Let_def split: option.splits)
qed

subsection \<open>Merging does not depend on the order\<close>

type_synonym episode_fields = "nat \<times> datetime \<times> datetime \<times> severity \<times> rat"

definition episode_fields :: "alert \<Rightarrow> episode_fields" where
  "episode_fields a = (na_count a, na_first a, na_last a, na_severity a, na_confidence a)"

definition merge_fields :: "episode_fields \<Rightarrow> episode_fields \<Rightarrow> episode_fields" where
  "merge_fields c e = (case (c, e) of ((n, f, l, s, p), (n', f', l', s', p')) \<Rightarrow>
     (n' + n, min f' f, max l' l, max s' s, max p' p))"

lemma sev_rank_inj: "sev_rank a = sev_rank b \<Longrightarrow> a = b"
  by (metis sev_at_rank)

lemma combine_fields: "episode_fields (combine_alerts e c) = merge_fields (episode_fields c) (episode_fields e)"
  using sev_rank_inj [of "na_severity e" "na_severity c"]
  by (auto simp: episode_fields_def merge_fields_def combine_alerts_def max_def sev_rank_le)

lemma merge_fields_comm: "merge_fields a \<circ> merge_fields b = merge_fields b \<circ> merge_fields a"
  by (cases a; cases b) (auto simp: merge_fields_def fun_eq_iff ac_simps)

lemma foldl_combine_fields:
  "episode_fields (foldl combine_alerts e cs) = fold merge_fields (map episode_fields cs) (episode_fields e)"
  by (induction cs arbitrary: e) (simp_all add: combine_fields)

text \<open>
  Concurrent upserts of one episode commute: in whatever order the candidates of an episode reach
  the database row, event count, first and last sighting, severity and confidence of the merged alert
  are the same.
\<close>

theorem combine_order_irrelevant:
  assumes "mset cs = mset cs'"
  shows "episode_fields (foldl combine_alerts e cs) = episode_fields (foldl combine_alerts e cs')"
proof -
  have "fold merge_fields (map episode_fields cs) = fold merge_fields (map episode_fields cs')"
    by (rule fold_multiset_equiv) (simp_all add: merge_fields_comm assms)
  then show ?thesis by (simp add: foldl_combine_fields)
qed

definition sample_alert :: "int \<Rightarrow> alert" where
  "sample_alert s = \<lparr>na_id = 1, na_trace = ''DF-A1'', na_decoy = 3, na_severity = HIGH, na_status = AlertOpen,
     na_title = [], na_summary = [], na_monitor = FILE_CONTENT, na_confidence = 1, na_first = s, na_last = s,
     na_count = 1, na_key = ''k'', na_bucket = 0, na_placement = 2, na_type = ''d'', na_evidence = [], na_raw = [],
     na_actions = [], na_correlation = 5, na_notes = [], na_hints = []\<rparr>"

theorem combine_order_irrelevant_witness:
  "episode_fields (foldl combine_alerts (sample_alert 5) [sample_alert 1, sample_alert 9]) =
   episode_fields (foldl combine_alerts (sample_alert 5) [sample_alert 9, sample_alert 1])"
  by (rule combine_order_irrelevant) simp

end
