(* ===== verification/Incident.thy ===== *)
theory Incident
  imports Alerting
begin

text \<open>
  Incident reconstruction (\<open>services/incident_reconstruction/engine.py\<close>): the greedy grouping of alerts
  by strong correlation keys and the incident built from each group. \<open>uuid5\<close> and \<open>str(UUID)\<close> are
  arguments. The lookups that can fail in \<open>_build\<close> (the source read back from the deduplication key,
  the first evidence item, the division by the window) are errors.
\<close>

subsection \<open>Domain model\<close>

datatype incident_lifecycle = IncOpen | IncUpdated | IncResolved | IncStale | IncSuperseded

datatype incident_type = AiPasteLeak | RepositoryExposure | DatabaseExport | FileCopyOrSync | RepeatedProbe
  | MultiSurfaceExposure | UnknownTripwireTouch

fun incident_type_value :: "incident_type \<Rightarrow> string" where
  "incident_type_value AiPasteLeak = ''ai_paste_leak''"
| "incident_type_value RepositoryExposure = ''repository_exposure''"
| "incident_type_value DatabaseExport = ''database_export''"
| "incident_type_value FileCopyOrSync = ''file_copy_or_sync''"
| "incident_type_value RepeatedProbe = ''repeated_probe''"
| "incident_type_value MultiSurfaceExposure = ''multi_surface_exposure''"
| "incident_type_value UnknownTripwireTouch = ''unknown_tripwire_touch''"

datatype build_error = ValueError | IndexError | ZeroDivisionError

record timeline_event =
  tl_sequence :: nat
  tl_time :: datetime
  tl_source :: detection_source
  tl_monitor :: monitor_type
  tl_trace :: string
  tl_decoy :: uuid
  tl_placement :: uuid
  tl_summary :: string
  tl_evidence :: alert_evidence
  tl_confidence :: rat

record incident =
  ic_id :: uuid
  ic_title :: string
  ic_severity :: severity
  ic_lifecycle :: incident_lifecycle
  ic_updated :: "datetime option"
  ic_confidence :: rat
  ic_type :: incident_type
  ic_first :: datetime
  ic_last :: datetime
  ic_alerts :: "uuid list"
  ic_decoys :: "uuid list"
  ic_traces :: "string list"
  ic_placements :: "uuid list"
  ic_surfaces :: "string list"
  ic_timeline :: "timeline_event list"
  ic_evidence :: "alert_evidence list"
  ic_hypothesis :: string
  ic_actions :: "string list"
  ic_keys :: "string list"
  ic_reasons :: "string list"
  ic_hints :: "string list"
  ic_notes :: "string list"

record incident_config =
  ig_window :: int
  ig_max_alerts :: nat

definition default_incident_config :: incident_config where
  "default_incident_config = \<lparr>ig_window = 3600, ig_max_alerts = 1000\<rparr>"

subsection \<open>Grouping\<close>

definition alert_order :: "alert \<Rightarrow> datetime \<times> uuid" where
  "alert_order a = (na_first a, na_id a)"

definition shares_key :: "alert \<Rightarrow> alert \<Rightarrow> bool" where
  "shares_key a b \<longleftrightarrow> na_trace a = na_trace b \<or> na_decoy a = na_decoy b \<or>
     na_placement a = na_placement b \<or> na_correlation a = na_correlation b"

definition latest :: "alert list \<Rightarrow> datetime" where
  "latest g = fold max (map na_last (tl g)) (na_last (hd g))"

definition related :: "incident_config \<Rightarrow> alert \<Rightarrow> alert list \<Rightarrow> bool" where
  "related config a g \<longleftrightarrow> \<not> (na_first a - latest g > seconds (ig_window config)) \<and> list_ex (shares_key a) g"

fun place_alert :: "incident_config \<Rightarrow> alert \<Rightarrow> alert list list \<Rightarrow> alert list list" where
  "place_alert config a [] = [[a]]"
| "place_alert config a (g # gs) =
     (if related config a g then (g @ [a]) # gs else g # place_alert config a gs)"

text \<open>A slice \<open>xs[-n:]\<close> with \<open>n = 0\<close> is the whole list.\<close>

definition considered :: "incident_config \<Rightarrow> alert list \<Rightarrow> alert list" where
  "considered config alerts =
     (let ordered = sort_key alert_order alerts in
      if length ordered > ig_max_alerts config \<and> ig_max_alerts config \<noteq> 0
      then last_n (ig_max_alerts config) ordered else ordered)"

definition group_alerts :: "incident_config \<Rightarrow> alert list \<Rightarrow> alert list list" where
  "group_alerts config alerts = fold (place_alert config) (considered config alerts) []"

subsection \<open>Building an incident\<close>

definition incident_kind :: "alert list \<Rightarrow> incident_type" where
  "incident_kind alerts =
     (case remdups (map na_monitor alerts) of
        [m] \<Rightarrow> (case m of TEXT_PAYLOAD \<Rightarrow> AiPasteLeak | REPOSITORY \<Rightarrow> RepositoryExposure
                | DATABASE_PAYLOAD \<Rightarrow> DatabaseExport | FILE_CONTENT \<Rightarrow> FileCopyOrSync)
      | _ \<Rightarrow> MultiSurfaceExposure)"

definition incident_level :: "alert list \<Rightarrow> incident_type \<Rightarrow> severity" where
  "incident_level alerts kind =
     sev_at (min (fold max (map (sev_rank \<circ> na_severity) alerts) 0
       + (if length alerts \<ge> 3 then 1 else 0) + (if kind = MultiSurfaceExposure then 1 else 0)) 4)"

fun hypothesis :: "incident_type \<Rightarrow> string" where
  "hypothesis AiPasteLeak = ''Possible sensitive data paste into an AI or external text workflow.''"
| "hypothesis RepositoryExposure = ''Possible repository exposure, accidental commit, or copied source content.''"
| "hypothesis DatabaseExport = ''Possible database export, BI workflow, or application-layer data access.''"
| "hypothesis FileCopyOrSync = ''Possible file copy or synchronization to another surface.''"
| "hypothesis MultiSurfaceExposure = ''Possible propagation of sensitive-looking data across systems.''"
| "hypothesis _ = ''Tripwire activity requires validation against surrounding access evidence.''"

fun incident_actions :: "incident_type \<Rightarrow> string list" where
  "incident_actions AiPasteLeak = [''Review browser or session activity.'', ''Inspect the source document or export.'']"
| "incident_actions RepositoryExposure = [''Inspect commit history.'', ''Review repository visibility and developer access.'']"
| "incident_actions DatabaseExport = [''Inspect query and export logs.'', ''Review service-account activity.'']"
| "incident_actions MultiSurfaceExposure = [''Prioritize containment.'', ''Search all systems for involved trace identifiers.'']"
| "incident_actions _ = [''Review related monitor activity.'', ''Validate the affected placement.'']"

text \<open>\<open>DetectionSource(key.split(":")[-2])\<close>.\<close>

definition all_sources :: "detection_source list" where
  "all_sources = [SrcRepository, SrcDatabase, SrcDocument, SrcBrowser, SrcAgent, SrcMcp, SrcSystem]"

definition source_of_value :: "string \<Rightarrow> build_error + detection_source" where
  "source_of_value v = (case find (\<lambda>s. source_value s = v) all_sources of None \<Rightarrow> Inl ValueError | Some s \<Rightarrow> Inr s)"

definition source_of_key :: "string \<Rightarrow> build_error + detection_source" where
  "source_of_key key =
     (let ws = split_on CHR '':'' key in
      if length ws < 2 then Inl IndexError else source_of_value (ws ! (length ws - 2)))"

definition timeline_entry :: "nat \<Rightarrow> alert \<Rightarrow> build_error + timeline_event" where
  "timeline_entry index a =
     and_then (source_of_key (na_key a)) (\<lambda>src.
       case na_evidence a of
         [] \<Rightarrow> Inl IndexError
       | e # _ \<Rightarrow> Inr \<lparr>tl_sequence = index, tl_time = na_first a, tl_source = src, tl_monitor = na_monitor a,
                     tl_trace = na_trace a, tl_decoy = na_decoy a, tl_placement = na_placement a,
                     tl_summary = na_summary a, tl_evidence = e, tl_confidence = na_confidence a\<rparr>)"

fun timeline_from :: "nat \<Rightarrow> alert list \<Rightarrow> build_error + timeline_event list" where
  "timeline_from index [] = Inr []"
| "timeline_from index (a # as) =
     and_then (timeline_entry index a) (\<lambda>t. and_then (timeline_from (index + 1) as) (\<lambda>ts. Inr (t # ts)))"

definition sorted_unique :: "'a :: linorder list \<Rightarrow> 'a list" where
  "sorted_unique xs = sort (remdups xs)"

text \<open>\<open>s.replace("_", " ").title()\<close>.\<close>

fun title_from :: "bool \<Rightarrow> string \<Rightarrow> string" where
  "title_from start [] = []"
| "title_from start (c # s) =
     (let c' = (if c = CHR ''_'' then CHR '' '' else c) in
      (if start then upper_char c' else lower_char c') # title_from (c' = CHR '' '') s)"

definition incident_bucket :: "incident_config \<Rightarrow> datetime \<Rightarrow> int" where
  "incident_bucket config t = t div seconds (ig_window config)"

definition incident_name :: "(uuid \<Rightarrow> string) \<Rightarrow> org_id option \<Rightarrow> string list \<Rightarrow> incident_type \<Rightarrow> int \<Rightarrow> string" where
  "incident_name str_of org traces kind bucket =
     join_with '':'' [org_text str_of org, join_with '':'' traces, incident_type_value kind, int_str bucket]"

definition build_incident ::
  "(string \<Rightarrow> uuid) \<Rightarrow> (uuid \<Rightarrow> string) \<Rightarrow> incident_config \<Rightarrow> org_id option \<Rightarrow> alert list \<Rightarrow> build_error + incident" where
  "build_incident uuid5 str_of config org members =
     (let alerts = sort_key alert_order members; kind = incident_kind alerts in
      and_then (timeline_from 1 alerts) (\<lambda>timeline.
        if ig_window config = 0 then Inl ZeroDivisionError
        else
          let severity = incident_level alerts kind;
              traces = sorted_unique (map na_trace alerts);
              first_seen = na_first (hd alerts);
              last_seen = latest alerts
          in Inr \<lparr>
            ic_id = uuid5 (incident_name str_of org traces kind (incident_bucket config first_seen)),
            ic_title = title_from True (incident_type_value kind) @ '' detection'',
            ic_severity = severity, ic_lifecycle = IncOpen, ic_updated = Some last_seen,
            ic_confidence = round3 (sum_list (map na_confidence alerts) / of_nat (length alerts)),
            ic_type = kind, ic_first = first_seen, ic_last = last_seen,
            ic_alerts = map na_id alerts,
            ic_decoys = sorted_unique (map na_decoy alerts), ic_traces = traces,
            ic_placements = sorted_unique (map na_placement alerts),
            ic_surfaces = sorted_unique (map (monitor_value \<circ> na_monitor) alerts),
            ic_timeline = timeline, ic_evidence = take 10 (concat (map na_evidence alerts)),
            ic_hypothesis = hypothesis kind, ic_actions = incident_actions kind,
            ic_keys = map na_key alerts,
            ic_reasons = [''Alerts share a trace, decoy, placement, correlation ID, or source/monitor within the configured window.''],
            ic_hints = escalation_hints severity, ic_notes = concat (map na_notes alerts)\<rparr>))"

fun build_all ::
  "(string \<Rightarrow> uuid) \<Rightarrow> (uuid \<Rightarrow> string) \<Rightarrow> incident_config \<Rightarrow> org_id option \<Rightarrow> alert list list \<Rightarrow> build_error + incident list" where
  "build_all uuid5 str_of config org [] = Inr []"
| "build_all uuid5 str_of config org (g # gs) =
     and_then (build_incident uuid5 str_of config org g) (\<lambda>i.
       and_then (build_all uuid5 str_of config org gs) (\<lambda>is. Inr (i # is)))"

definition reconstruct ::
  "(string \<Rightarrow> uuid) \<Rightarrow> (uuid \<Rightarrow> string) \<Rightarrow> incident_config \<Rightarrow> org_id option \<Rightarrow> alert list \<Rightarrow> build_error + incident list" where
  "reconstruct uuid5 str_of config org alerts = build_all uuid5 str_of config org (group_alerts config alerts)"

subsection \<open>Groups\<close>

lemma concat_place: "mset (concat (place_alert config a gs)) = add_mset a (mset (concat gs))"
  by (induction config a gs rule: place_alert.induct) auto

lemma concat_fold_place: "mset (concat (fold (place_alert config) as gs)) = mset as + mset (concat gs)"
  by (induction as arbitrary: gs) (simp_all add: concat_place)

text \<open>Every member but the first is related to the members before it.\<close>

definition linked :: "incident_config \<Rightarrow> alert list \<Rightarrow> bool" where
  "linked config g \<longleftrightarrow> g \<noteq> [] \<and> (\<forall>i. 1 \<le> i \<and> i < length g \<longrightarrow> related config (g ! i) (take i g))"

lemma related_iff:
  "related config a g \<longleftrightarrow> list_ex (shares_key a) g \<and> na_first a \<le> latest g + seconds (ig_window config)"
  by (auto simp: related_def)

lemma linked_single: "linked config [a]"
  by (simp add: linked_def)

lemma linked_snoc: "linked config g \<Longrightarrow> related config a g \<Longrightarrow> linked config (g @ [a])"
  unfolding linked_def by (auto simp: nth_append less_Suc_eq)

lemma linked_place: "list_all (linked config) gs \<Longrightarrow> list_all (linked config) (place_alert config a gs)"
  by (induction config a gs rule: place_alert.induct) (auto simp: linked_single linked_snoc)

lemma linked_fold: "list_all (linked config) gs \<Longrightarrow> list_all (linked config) (fold (place_alert config) as gs)"
  by (induction as arbitrary: gs) (simp_all add: linked_place)

lemma mset_considered:
  "length alerts \<le> ig_max_alerts config \<or> ig_max_alerts config = 0 \<Longrightarrow> mset (considered config alerts) = mset alerts"
  by (auto simp: considered_def Let_def)

text \<open>
  C21. Grouping neither loses nor merges: every alert considered lands in exactly one group, and each member of a
  group other than its first shares a trace, decoy, placement or correlation id with an earlier member and
  begins no later than the window after the latest sighting so far. Considered are all the given alerts, or,
  when there are more than a positive \<open>max_alerts\<close>, the last \<open>max_alerts\<close> of them in the order of their first sighting.
\<close>

theorem groups_partition_and_link:
  "mset (concat (group_alerts config alerts)) = mset (considered config alerts) \<and>
   list_all (\<lambda>g. g \<noteq> [] \<and> list_all (\<lambda>i. list_ex (shares_key (g ! i)) (take i g) \<and>
       na_first (g ! i) \<le> latest (take i g) + seconds (ig_window config)) [1..<length g]) (group_alerts config alerts) \<and>
   mset (considered config alerts) =
     (if 0 < ig_max_alerts config \<and> ig_max_alerts config < length alerts
      then mset (last_n (ig_max_alerts config) (sort_key alert_order alerts)) else mset alerts)"
proof (intro conjI)
  show "mset (concat (group_alerts config alerts)) = mset (considered config alerts)"
    using concat_fold_place [of config "considered config alerts" "[]"] by (simp add: group_alerts_def)
  have "list_all (linked config) (group_alerts config alerts)" by (simp add: group_alerts_def linked_fold)
  then show "list_all (\<lambda>g. g \<noteq> [] \<and> list_all (\<lambda>i. list_ex (shares_key (g ! i)) (take i g) \<and>
       na_first (g ! i) \<le> latest (take i g) + seconds (ig_window config)) [1..<length g]) (group_alerts config alerts)"
    by (simp add: linked_def related_iff list_all_iff)
  show "mset (considered config alerts) =
     (if 0 < ig_max_alerts config \<and> ig_max_alerts config < length alerts
      then mset (last_n (ig_max_alerts config) (sort_key alert_order alerts)) else mset alerts)"
    by (auto simp: considered_def Let_def)
qed

definition mk_alert :: "uuid \<Rightarrow> string \<Rightarrow> uuid \<Rightarrow> int \<Rightarrow> monitor_type \<Rightarrow> alert" where
  "mk_alert i trace decoy t m = sample_alert (seconds t)\<lparr>na_id := i, na_trace := trace, na_decoy := decoy,
     na_placement := 100 + decoy, na_correlation := 200 + decoy, na_monitor := m,
     na_evidence := [\<lparr>ae_excerpt = trace, ae_digest = ''d'', ae_location = ''l''\<rparr>],
     na_key := ''t:d:m:l:document:content_access''\<rparr>"

text \<open>
  Grouping is not transitive: the third alert below shares its trace with the first and its decoy with
  the second, joins the first group only, and leaves two incidents with a common decoy.
\<close>

lemma bridged_groups_stay_apart:
  "map (map na_id) (group_alerts default_incident_config
     [mk_alert 1 ''A'' 1 0 REPOSITORY, mk_alert 2 ''B'' 2 1 REPOSITORY, mk_alert 3 ''A'' 2 2 REPOSITORY]) = [[1, 3], [2]]"
  by code_simp

text \<open>
  A new kind of surface changes the identity: the same trace, first seen on one surface and then on a
  second one in the same window, is a different incident than before, and the first one stays.
\<close>

lemma kind_changes_identity:
  "map ic_id (projr (reconstruct length nat_str default_incident_config (Some 7) [mk_alert 1 ''A'' 1 0 REPOSITORY])) \<noteq>
   map ic_id (projr (reconstruct length nat_str default_incident_config (Some 7)
     [mk_alert 1 ''A'' 1 0 REPOSITORY, mk_alert 2 ''A'' 1 1 TEXT_PAYLOAD]))"
  by code_simp

subsection \<open>The source of an alert is recovered from its key\<close>

lemma source_roundtrip [simp]: "source_of_value (source_value s) = Inr s"
  by (cases s) (simp_all add: source_of_value_def all_sources_def)

lemma split_on_snoc: "d \<notin> set w \<Longrightarrow> split_on d (s @ d # w) = split_on d s @ [w]"
proof (induction d s rule: split_on.induct)
  case (1 d)
  then show ?case using split_on_append_sep [of d "[]" w] split_on_single [of d w] by simp
next
  case (2 d c s)
  then show ?case by (auto simp: Let_def split: list.splits)
qed

lemma no_colon_values: "CHR '':'' \<notin> set (source_value s)" "CHR '':'' \<notin> set (method_value m)"
  by (cases s; simp) (cases m; simp)

text \<open>
  The timeline shows the right source: whatever colons the marker and the location contain, the
  source read back from the deduplication key of an event is the event's own source.
\<close>

theorem key_roundtrips_source: "source_of_key (alert_key str_of ev) = Inr (re_source ev)"
proof -
  let ?c = "CHR '':''"
  let ?pre = "re_trace ev @ ?c # str_of (re_decoy ev) @ ?c # monitor_value (re_monitor ev) @ ?c # re_location ev"
  have "alert_key str_of ev = (?pre @ ?c # source_value (re_source ev)) @ ?c # method_value (re_method ev)"
    by (simp add: alert_key_def)
  then have "split_on ?c (alert_key str_of ev) = (split_on ?c ?pre @ [source_value (re_source ev)]) @ [method_value (re_method ev)]"
    by (simp only: split_on_snoc no_colon_values not_False_eq_True)
  then show ?thesis by (simp add: source_of_key_def Let_def nth_append)
qed

subsection \<open>The incident of a group\<close>

lemma le_fold_max: "x \<in> set xs \<or> x = m \<Longrightarrow> x \<le> fold max xs (m :: 'a :: linorder)"
proof (induction xs arbitrary: m)
  case (Cons y ys)
  show ?case
  proof (cases "x \<in> set ys")
    case True
    then show ?thesis using Cons.IH by simp
  next
    case False
    then have "x \<le> max y m" using Cons.prems by auto
    also have "\<dots> \<le> fold max ys (max y m)"
      by (induction ys arbitrary: m y) (auto intro: order_trans [rotated] simp del: max_def)
    finally show ?thesis by simp
  qed
qed simp

lemma fold_max_mem: "fold max xs (m :: 'a :: linorder) \<in> insert m (set xs)"
  by (induction xs arbitrary: m) (force simp: max_def)+

lemma sorted_hd: "sorted (map f xs) \<Longrightarrow> a \<in> set xs \<Longrightarrow> f (hd xs) \<le> f a"
  by (cases xs) auto

lemma latest_ge: "a \<in> set g \<Longrightarrow> na_last a \<le> latest g"
  unfolding latest_def by (cases g) (auto intro: le_fold_max)

definition well_formed :: "alert \<Rightarrow> bool" where
  "well_formed a \<longleftrightarrow> is_ok (source_of_key (na_key a)) \<and> na_evidence a \<noteq> []"

lemma timeline_entry_ok:
  "well_formed a \<Longrightarrow> \<exists>t. timeline_entry i a = Inr t \<and> tl_sequence t = i \<and> tl_time t = na_first a"
  by (auto simp: well_formed_def timeline_entry_def is_ok_iff split: list.splits)

lemma timeline_from_ok:
  "list_all well_formed as \<Longrightarrow> \<exists>ts. timeline_from i as = Inr ts \<and> map tl_sequence ts = [i..<i + length as] \<and>
     map tl_time ts = map na_first as"
proof (induction as arbitrary: i)
  case (Cons a as)
  obtain t where t: "timeline_entry i a = Inr t" "tl_sequence t = i" "tl_time t = na_first a"
    using timeline_entry_ok [of a i] Cons.prems by auto
  obtain ts where ts: "timeline_from (i + 1) as = Inr ts" "map tl_sequence ts = [i + 1..<i + 1 + length as]"
      "map tl_time ts = map na_first as"
    using Cons.IH [of "i + 1"] Cons.prems by auto
  have "[i..<i + length (a # as)] = i # [i + 1..<i + 1 + length as]" by (simp add: upt_conv_Cons del: upt_Suc)
  then show ?case using t ts by (simp del: upt_Suc)
qed simp

lemma build_incident_ok:
  assumes "list_all well_formed g" and "ig_window config \<noteq> 0" and "g \<noteq> []"
  shows "\<exists>ic. build_incident uuid5 str_of config org g = Inr ic \<and> mset (ic_alerts ic) = mset (map na_id g) \<and>
    list_all (\<lambda>a. na_severity a \<le> ic_severity ic \<and> ic_first ic \<le> na_first a \<and> na_last a \<le> ic_last ic) g \<and>
    map tl_sequence (ic_timeline ic) = [1..<length g + 1] \<and> sorted (map tl_time (ic_timeline ic))"
proof -
  let ?as = "sort_key alert_order g"
  have wf: "list_all well_formed ?as" using assms(1) by (simp add: list_all_iff)
  obtain ts where ts: "timeline_from 1 ?as = Inr ts" "map tl_sequence ts = [1..<1 + length ?as]"
      "map tl_time ts = map na_first ?as"
    using timeline_from_ok [OF wf, of 1] by auto
  have ne: "?as \<noteq> []" using assms(3) by (metis length_0_conv length_sort)
  have ord: "sorted (map alert_order ?as)" by simp
  then have srt: "sorted (map na_first ?as)"
    by (auto simp: sorted_wrt_map alert_order_def elim!: sorted_wrt_mono_rel [rotated])
  have hd: "na_first (hd ?as) \<le> na_first a" if "a \<in> set g" for a
    using sorted_hd [OF srt, of a] that by simp
  have sev: "na_severity a \<le> incident_level ?as (incident_kind ?as)" if "a \<in> set g" for a
  proof -
    have "sev_rank (na_severity a) \<le> fold max (map (sev_rank \<circ> na_severity) ?as) 0"
      using that by (intro le_fold_max) auto
    then show ?thesis using sev_rank_bound [of "na_severity a"]
      by (simp add: incident_level_def sev_rank_le sev_rank_at)
  qed
  show ?thesis
    using ts srt hd sev assms(2) latest_ge [of _ ?as]
    by (simp add: build_incident_def Let_def list_all_iff mset_map)
qed

lemma build_all_ok:
  assumes "list_all (\<lambda>g. g \<noteq> [] \<and> list_all well_formed g) gs" and "ig_window config \<noteq> 0"
  shows "\<exists>incs. build_all uuid5 str_of config org gs = Inr incs \<and>
    mset (concat (map ic_alerts incs)) = mset (map na_id (concat gs)) \<and>
    list_all (\<lambda>ic. sorted (map tl_time (ic_timeline ic))) incs"
  using assms(1)
proof (induction gs)
  case (Cons g gs)
  obtain ic where "build_incident uuid5 str_of config org g = Inr ic" "mset (ic_alerts ic) = mset (map na_id g)"
      "sorted (map tl_time (ic_timeline ic))"
    using build_incident_ok [of g config uuid5 str_of org] Cons.prems assms(2) by auto
  moreover obtain incs where "build_all uuid5 str_of config org gs = Inr incs"
      "mset (concat (map ic_alerts incs)) = mset (map na_id (concat gs))"
      "list_all (\<lambda>ic. sorted (map tl_time (ic_timeline ic))) incs"
    using Cons by auto
  ultimately show ?case by simp
qed simp

lemma reconstruct_total_lemma:
  assumes "list_all well_formed alerts" and "ig_window config \<noteq> 0" and "length alerts \<le> ig_max_alerts config"
  shows "\<exists>incs. reconstruct uuid5 str_of config org alerts = Inr incs \<and>
    mset (concat (map ic_alerts incs)) = mset (map na_id alerts) \<and>
    list_all (\<lambda>ic. sorted (map tl_time (ic_timeline ic))) incs"
proof -
  have m: "mset (concat (group_alerts config alerts)) = mset alerts"
    using concat_fold_place [of config "considered config alerts" "[]"] mset_considered [of alerts config] assms(3)
    by (simp add: group_alerts_def)
  then have s: "set (concat (group_alerts config alerts)) = set alerts" by (metis set_mset_mset)
  have ne: "list_all (linked config) (group_alerts config alerts)" by (simp add: group_alerts_def linked_fold)
  have "list_all (\<lambda>g. g \<noteq> [] \<and> list_all well_formed g) (group_alerts config alerts)"
    using ne s assms(1) by (auto simp: list_all_iff linked_def)
  then show ?thesis
    using build_all_ok [OF _ assms(2), of "group_alerts config alerts" uuid5 str_of org] m
    by (simp add: reconstruct_def mset_map)
qed

text \<open>
  C22. Reconstruction is total on the alerts of the pipeline and accounts for each of them: if every
  alert has evidence and a key from which a source can be read, the window is not zero and there are at
  most \<open>max_alerts\<close> alerts, it returns incidents whose involved alerts are exactly the given ones, each
  in one incident, with time-ordered timelines.
\<close>

theorem reconstruct_accounts_for_all:
  assumes "list_all well_formed alerts" and "ig_window config \<noteq> 0" and "length alerts \<le> ig_max_alerts config"
  shows "\<exists>incs. reconstruct uuid5 str_of config org alerts = Inr incs \<and>
    mset (concat (map ic_alerts incs)) = mset (map na_id alerts) \<and>
    list_all (\<lambda>ic. sorted (map tl_time (ic_timeline ic))) incs"
  by (rule reconstruct_total_lemma [OF assms])

theorem reconstruct_accounts_for_all_witness:
  "\<exists>incs. reconstruct length nat_str default_incident_config None [mk_alert 1 ''A'' 1 5 REPOSITORY, mk_alert 2 ''B'' 2 3 REPOSITORY] = Inr incs \<and>
    mset (concat (map ic_alerts incs)) = {#1, 2#}"
proof -
  have "list_all well_formed [mk_alert 1 ''A'' 1 5 REPOSITORY, mk_alert 2 ''B'' 2 3 REPOSITORY]" by code_simp
  from reconstruct_accounts_for_all [OF this, of default_incident_config length nat_str None] show ?thesis
    by (auto simp: default_incident_config_def mk_alert_def)
qed

subsection \<open>When two groups have one identity\<close>

text \<open>
  Two groups with the same traces get the same identity when they begin in the same bucket. Placing sorted
  alerts, a later group takes up the trace of an earlier group's first alert only once the earlier one has
  lapsed: \<open>lapsed_before m gs\<close> says so of every pair, with \<open>m\<close> a bound of the first sightings placed.
\<close>

definition lapsed_before :: "incident_config \<Rightarrow> datetime \<Rightarrow> alert list list \<Rightarrow> bool" where
  "lapsed_before config m gs \<longleftrightarrow> list_all (\<lambda>g. g \<noteq> []) gs \<and>
     sorted_wrt (\<lambda>g h. na_trace (hd g) \<in> na_trace ` set h \<longrightarrow> latest g + seconds (ig_window config) < m) gs"

lemma place_members:
  "h \<in> set (place_alert config a gs) \<Longrightarrow> h = [a] \<or> (\<exists>g \<in> set gs. h = g \<or> h = g @ [a])"
  by (induction config a gs rule: place_alert.induct) (auto split: if_splits)

lemma lapsed_mono: "lapsed_before config m gs \<Longrightarrow> m \<le> n \<Longrightarrow> lapsed_before config n gs"
  unfolding lapsed_before_def by (auto elim: sorted_wrt_mono_rel [rotated])

lemma unrelated_same_trace:
  assumes "\<not> related config a g" and "g \<noteq> []" and "na_trace a = na_trace (hd g)"
  shows "latest g + seconds (ig_window config) < na_first a"
proof -
  have "list_ex (shares_key a) g" using assms(2,3) by (cases g) (auto simp: shares_key_def)
  then show ?thesis using assms(1) by (simp add: related_def)
qed

lemma lapsed_place: "lapsed_before config m gs \<Longrightarrow> m \<le> na_first a \<Longrightarrow> lapsed_before config (na_first a) (place_alert config a gs)"
proof (induction gs)
  case Nil
  then show ?case by (simp add: lapsed_before_def)
next
  case (Cons g gs)
  have g: "g \<noteq> []" and rest: "lapsed_before config m gs"
    and pair: "\<forall>h \<in> set gs. na_trace (hd g) \<in> na_trace ` set h \<longrightarrow> latest g + seconds (ig_window config) < m"
    using Cons.prems(1) by (simp_all add: lapsed_before_def)
  show ?case
  proof (cases "related config a g")
    case True
    then have "\<not> latest g + seconds (ig_window config) < m" using Cons.prems(2) by (simp add: related_def)
    then show ?thesis using True g pair lapsed_mono [OF rest Cons.prems(2)] by (auto simp: lapsed_before_def)
  next
    case False
    have "latest g + seconds (ig_window config) < na_first a"
      if h: "h \<in> set (place_alert config a gs)" and t: "na_trace (hd g) \<in> na_trace ` set h" for h
    proof (cases "na_trace a = na_trace (hd g)")
      case True
      then show ?thesis by (rule unrelated_same_trace [OF False g])
    next
      case False
      then obtain h0 where "h0 \<in> set gs" "na_trace (hd g) \<in> na_trace ` set h0"
        using place_members [OF h] t by auto
      then show ?thesis using pair Cons.prems(2) by fastforce
    qed
    then show ?thesis using False g Cons.IH [OF rest Cons.prems(2)] by (simp add: lapsed_before_def)
  qed
qed

lemma lapsed_fold:
  "sorted (map na_first as) \<Longrightarrow> \<forall>a \<in> set as. m \<le> na_first a \<and> na_first a \<le> n \<Longrightarrow> m \<le> n \<Longrightarrow>
   lapsed_before config m gs \<Longrightarrow> lapsed_before config n (fold (place_alert config) as gs)"
proof (induction as arbitrary: m gs)
  case (Cons a as)
  then have "lapsed_before config (na_first a) (place_alert config a gs)" by (intro lapsed_place) auto
  then show ?case using Cons.IH [of "na_first a" "place_alert config a gs"] Cons.prems(1,2) by auto
qed (auto intro: lapsed_mono)

lemma sorted_alerts_first: "sorted (map na_first (sort_key alert_order xs))"
proof -
  have "sorted (map alert_order (sort_key alert_order xs))" by simp
  then show ?thesis unfolding sorted_map by (rule sorted_wrt_mono_rel [rotated]) (auto simp: alert_order_def less_eq_prod_def)
qed

lemma considered_sorted: "sorted (map na_first (considered config alerts))"
  using sorted_alerts_first [of alerts] by (simp add: considered_def Let_def last_n_def drop_map [symmetric] sorted_wrt_drop)

lemma lapsed_groups:
  assumes "\<forall>a \<in> set alerts. na_first a \<le> n"
  shows "lapsed_before config n (group_alerts config alerts)"
proof -
  have sub: "set (considered config alerts) \<subseteq> set alerts"
    using set_last_n [of _ "sort_key alert_order alerts"] by (auto simp: considered_def Let_def)
  show ?thesis
  proof (cases "considered config alerts")
    case Nil
    then show ?thesis by (simp add: group_alerts_def lapsed_before_def)
  next
    case (Cons a as)
    then have "\<forall>b \<in> set (considered config alerts). na_first a \<le> na_first b \<and> na_first b \<le> n" "na_first a \<le> n"
      using considered_sorted [of config alerts] sub assms by auto
    then show ?thesis
      unfolding group_alerts_def
      by (intro lapsed_fold [OF considered_sorted, where m = "na_first a"]) (auto simp: lapsed_before_def)
  qed
qed

text \<open>The group of an alert that outlives every other by the window shares no identity with a later group.\<close>

lemma kept_trace:
  assumes "group_alerts config alerts = xs @ g # ys" and "al \<in> set g" and "h \<in> set ys"
    and "\<forall>a \<in> set alerts. na_first a \<le> na_last al + seconds (ig_window config)"
  shows "na_trace (hd g) \<in> na_trace ` set g \<and> na_trace (hd g) \<notin> na_trace ` set h"
proof -
  have k: "lapsed_before config (na_last al + seconds (ig_window config)) (xs @ g # ys)"
    using lapsed_groups [OF assms(4)] assms(1) by metis
  have "na_trace (hd g) \<in> na_trace ` set h \<longrightarrow>
      latest g + seconds (ig_window config) < na_last al + seconds (ig_window config)"
    using k assms(3) by (auto simp: lapsed_before_def sorted_wrt_append)
  then show ?thesis using latest_ge [OF assms(2)] assms(2) by (cases g) auto
qed

lemma incident_name_traces:
  assumes "incident_name str_of org ts k b = incident_name str_of org ts' k' b'"
    and "ts \<noteq> []" and "ts' \<noteq> []" and "\<forall>t \<in> set ts \<union> set ts'. CHR '':'' \<notin> set t"
  shows "ts = ts'"
proof -
  have kc: "CHR '':'' \<notin> set (incident_type_value k)" for k by (cases k) simp_all
  have "(join_with '':'' ts @ CHR '':'' # incident_type_value k) @ CHR '':'' # int_str b =
      (join_with '':'' ts' @ CHR '':'' # incident_type_value k') @ CHR '':'' # int_str b'"
    using assms(1) by (simp add: incident_name_def)
  then have "join_with '':'' ts @ CHR '':'' # incident_type_value k = join_with '':'' ts' @ CHR '':'' # incident_type_value k'"
    using split_last_sep [OF _ colon_not_int_str colon_not_int_str] by blast
  then have "join_with '':'' ts = join_with '':'' ts'" using split_last_sep [OF _ kc kc] by blast
  then show ?thesis using split_join [OF assms(2)] split_join [OF assms(3)] assms(4) by (metis UnCI)
qed

definition named_after :: "(string \<Rightarrow> uuid) \<Rightarrow> (uuid \<Rightarrow> string) \<Rightarrow> org_id option \<Rightarrow> alert list \<Rightarrow> incident \<Rightarrow> bool" where
  "named_after uuid5 str_of org g i \<longleftrightarrow> ic_alerts i = map na_id (sort_key alert_order g) \<and>
     (\<exists>k b. ic_id i = uuid5 (incident_name str_of org (sorted_unique (map na_trace (sort_key alert_order g))) k b))"

lemma build_all_named: "build_all uuid5 str_of config org gs = Inr incs \<Longrightarrow> list_all2 (named_after uuid5 str_of org) gs incs"
proof (induction gs arbitrary: incs)
  case (Cons g gs)
  obtain i js where i: "build_incident uuid5 str_of config org g = Inr i" "build_all uuid5 str_of config org gs = Inr js"
      "incs = i # js"
    using Cons.prems by (auto simp: and_then_def split: sum.splits)
  have "ic_alerts i = map na_id (sort_key alert_order g)" and
    "ic_id i = uuid5 (incident_name str_of org (sorted_unique (map na_trace (sort_key alert_order g)))
       (incident_kind (sort_key alert_order g)) (incident_bucket config (na_first (hd (sort_key alert_order g)))))"
    using i(1) by (auto simp: build_incident_def and_then_def Let_def split: sum.splits if_splits)
  then have "named_after uuid5 str_of org g i" unfolding named_after_def by blast
  then show ?case using Cons.IH i by simp
qed simp

lemma named_traces:
  assumes "named_after uuid5 str_of org g i" and "named_after uuid5 str_of org h j" and "ic_id i = ic_id j" and "inj uuid5"
    and "g \<noteq> []" and "h \<noteq> []" and "\<forall>b \<in> set g \<union> set h. CHR '':'' \<notin> set (na_trace b)"
  shows "na_trace ` set g = na_trace ` set h"
proof -
  let ?ts = "\<lambda>g. sorted_unique (map na_trace (sort_key alert_order g))"
  have s: "set (?ts g) = na_trace ` set g" for g by (simp add: sorted_unique_def)
  then have "?ts g \<noteq> []" "?ts h \<noteq> []" using assms(5,6) by (metis empty_set image_is_empty set_empty)+
  moreover obtain k b k' b' where "incident_name str_of org (?ts g) k b = incident_name str_of org (?ts h) k' b'"
    using assms(1-4) unfolding named_after_def by (metis injD)
  ultimately have "?ts g = ?ts h" using assms(7) by (intro incident_name_traces) (auto simp: s)
  then show ?thesis using s by metis
qed

lemma grouped_given: "set (concat (group_alerts config alerts)) \<subseteq> set alerts"
proof -
  have "mset (concat (group_alerts config alerts)) = mset (considered config alerts)"
    using concat_fold_place [of config "considered config alerts" "[]"] by (simp add: group_alerts_def)
  then have "set (concat (group_alerts config alerts)) = set (considered config alerts)" by (rule mset_eq_setD)
  then show ?thesis using set_last_n [of _ "sort_key alert_order alerts"] by (auto simp: considered_def Let_def)
qed

text \<open>The incident of such an alert is the last one built under its identity.\<close>

lemma kept_identity:
  assumes "reconstruct uuid5 str_of config org alerts = Inr incs" and "inj uuid5"
    and "\<forall>a \<in> set alerts. na_first a \<le> na_last al + seconds (ig_window config) \<and> CHR '':'' \<notin> set (na_trace a)"
    and "al \<in> set (concat (group_alerts config alerts))"
  obtains xs ic ys where "incs = xs @ ic # ys" "na_id al \<in> set (ic_alerts ic)" "ic_id ic \<notin> ic_id ` set ys"
proof -
  obtain gs g hs where g: "group_alerts config alerts = gs @ g # hs" "al \<in> set g"
    using assms(4) by (auto dest: split_list)
  have named: "list_all2 (named_after uuid5 str_of org) (gs @ g # hs) incs"
    using build_all_named assms(1) g(1) unfolding reconstruct_def by metis
  obtain xs ic ys where i: "incs = xs @ ic # ys" "named_after uuid5 str_of org g ic"
      "list_all2 (named_after uuid5 str_of org) hs ys"
    using named by (auto simp: list_all2_append1 list_all2_Cons1)
  note sub = grouped_given [of config alerts]
  have "ic_id ic \<noteq> ic_id j" if j: "j \<in> set ys" for j
  proof
    assume eq: "ic_id ic = ic_id j"
    obtain h where h: "h \<in> set hs" "named_after uuid5 str_of org h j"
      using j i(3) by (fastforce simp: list_all2_conv_all_nth in_set_conv_nth)
    have late: "\<forall>a \<in> set alerts. na_first a \<le> na_last al + seconds (ig_window config)" using assms(3) by blast
    have "h \<noteq> []" using lapsed_groups [OF late, of config] g(1) h(1) by (auto simp: lapsed_before_def list_all_iff)
    moreover have "set g \<union> set h \<subseteq> set (concat (group_alerts config alerts))" using g(1) h(1) by auto
    then have "\<forall>b \<in> set g \<union> set h. CHR '':'' \<notin> set (na_trace b)" using sub assms(3) by blast
    ultimately have "na_trace ` set g = na_trace ` set h"
      using g(2) by (intro named_traces [OF i(2) h(2) eq assms(2)]) auto
    moreover have "na_trace (hd g) \<in> na_trace ` set g \<and> na_trace (hd g) \<notin> na_trace ` set h"
      by (rule kept_trace [OF g(1,2) h(1) late])
    ultimately show False by blast
  qed
  moreover have "na_id al \<in> set (ic_alerts ic)" using i(2) g(2) by (simp add: named_after_def)
  ultimately show thesis using that i(1) by blast
qed

end
