(* ===== verification/Reconstruction.thy ===== *)
theory Reconstruction
  imports Incident
begin

text \<open>
  Persistence around detection: the alert, incident and job tables of \<open>repositories/artifacts.py\<close>, the
  reconstruction worker (\<open>incident_reconstruction/worker.py\<close>) and \<open>PipelineService.ingest_event\<close>.
  Tables are lists in insertion order, which is the order of \<open>created_at\<close>. The size guard of sealed
  rows is a record of predicates; sealing itself is the identity. A new job's id and the clock are
  arguments.
\<close>

subsection \<open>Tables\<close>

datatype pipeline_error = PipelineError string | ArtifactTooLarge | NoResultFound | ModelInvalid

datatype rjob_status = RjPending | RjClaimed | RjDone | RjFailed

record rjob =
  rj_id :: uuid
  rj_org :: org_id
  rj_status :: rjob_status
  rj_trace :: string
  rj_decoy :: uuid
  rj_placement :: "uuid option"
  rj_correlation :: "uuid option"
  rj_start :: datetime
  rj_end :: datetime
  rj_attempts :: nat

record pipe_db =
  pd_events :: "(uuid \<times> org_id \<times> raw_event) list"
  pd_alerts :: "(org_id \<times> alert) list"
  pd_jobs :: "rjob list"
  pd_incidents :: "(org_id \<times> incident) list"
  pd_plans :: "((org_id \<times> uuid) \<times> mon_asset list) list"
  pd_reports :: "((org_id \<times> uuid) \<times> report list) list"

record size_guard =
  sz_event :: "raw_event \<Rightarrow> bool"
  sz_alert :: "alert \<Rightarrow> bool"
  sz_incident :: "incident \<Rightarrow> bool"

text \<open>\<open>session.merge\<close>: replace the row with this id, or add it.\<close>

definition add_detection_event :: "size_guard \<Rightarrow> org_id \<Rightarrow> raw_event \<Rightarrow> pipe_db \<Rightarrow> pipeline_error + pipe_db" where
  "add_detection_event sz org ev db =
     (if \<not> sz_event sz ev then Inl ArtifactTooLarge
      else Inr (db\<lparr>pd_events := AList.update (re_id ev) (org, ev) (pd_events db)\<rparr>))"

subsection \<open>Alerts\<close>

definition alert_conflict :: "org_id \<Rightarrow> alert \<Rightarrow> (org_id \<times> alert) list \<Rightarrow> bool" where
  "alert_conflict org a rows \<longleftrightarrow> list_ex (\<lambda>(o', b). na_id b = na_id a \<or>
     (o' = org \<and> na_key b = na_key a \<and> na_bucket b = na_bucket a)) rows"

definition upsert_alert_atomic ::
  "size_guard \<Rightarrow> org_id \<Rightarrow> alert \<Rightarrow> pipe_db \<Rightarrow> pipeline_error + pipe_db \<times> alert" where
  "upsert_alert_atomic sz org candidate db =
     (if \<not> sz_alert sz candidate then Inl ArtifactTooLarge
      else if \<not> alert_conflict org candidate (pd_alerts db)
      then Inr (db\<lparr>pd_alerts := pd_alerts db @ [(org, candidate)]\<rparr>, candidate)
      else
        case find (\<lambda>(o', b). na_id b = na_id candidate) (pd_alerts db) of
          None \<Rightarrow> Inl NoResultFound
        | Some (o', existing) \<Rightarrow>
            (let merged = combine_alerts existing candidate in
             if \<not> sz_alert sz merged then Inl ArtifactTooLarge
             else Inr (db\<lparr>pd_alerts := map (\<lambda>(o1, b). if na_id b = na_id candidate then (o1, merged) else (o1, b))
                                         (pd_alerts db)\<rparr>, merged)))"

definition alert_related :: "org_id \<Rightarrow> rjob \<Rightarrow> org_id \<times> alert \<Rightarrow> bool" where
  "alert_related org j row \<longleftrightarrow> (case row of (o', a) \<Rightarrow> o' = org \<and>
     (na_trace a = rj_trace j \<or> na_decoy a = rj_decoy j \<or>
      (case rj_placement j of None \<Rightarrow> False | Some p \<Rightarrow> na_placement a = p) \<or>
      (case rj_correlation j of None \<Rightarrow> False | Some c \<Rightarrow> na_correlation a = c)) \<and>
     na_last a \<ge> rj_start j \<and> na_first a \<le> rj_end j)"

definition related_limit :: nat where "related_limit = 1000"

definition related_alerts :: "rjob \<Rightarrow> pipe_db \<Rightarrow> alert list" where
  "related_alerts j db = map snd (last_n related_limit (filter (alert_related (rj_org j) j) (pd_alerts db)))"

subsection \<open>The work queue\<close>

definition enqueue_reconstruction :: "uuid \<Rightarrow> org_id \<Rightarrow> alert \<Rightarrow> int \<Rightarrow> pipe_db \<Rightarrow> pipe_db" where
  "enqueue_reconstruction new_id org a window db = db\<lparr>pd_jobs := pd_jobs db @
     [\<lparr>rj_id = new_id, rj_org = org, rj_status = RjPending, rj_trace = na_trace a, rj_decoy = na_decoy a,
       rj_placement = Some (na_placement a), rj_correlation = Some (na_correlation a),
       rj_start = na_first a - seconds window, rj_end = na_last a + seconds window, rj_attempts = 0\<rparr>]\<rparr>"

definition pending_job :: "rjob \<Rightarrow> bool" where "pending_job j \<longleftrightarrow> rj_status j = RjPending"

definition claim_row :: "uuid \<Rightarrow> rjob \<Rightarrow> rjob" where
  "claim_row i j = (if rj_id j = i \<and> pending_job j
     then j\<lparr>rj_status := RjClaimed, rj_attempts := rj_attempts j + 1\<rparr> else j)"

text \<open>One compare-and-set: the claimed row, when the update changed exactly one.\<close>

definition claim_job :: "uuid \<Rightarrow> rjob list \<Rightarrow> rjob list \<times> rjob list" where
  "claim_job i jobs =
     (if length (filter (\<lambda>j. rj_id j = i \<and> pending_job j) jobs) = 1
      then (map (claim_row i) jobs, map (claim_row i) (filter (\<lambda>j. rj_id j = i \<and> pending_job j) jobs))
      else (jobs, []))"

fun claim_ids :: "uuid list \<Rightarrow> rjob list \<Rightarrow> rjob list \<times> rjob list" where
  "claim_ids [] jobs = (jobs, [])"
| "claim_ids (i # is) jobs =
     (let (jobs1, c) = claim_job i jobs; (jobs2, cs) = claim_ids is jobs1 in (jobs2, c @ cs))"

definition claim_for_org :: "nat \<Rightarrow> org_id \<Rightarrow> rjob list \<Rightarrow> rjob list \<times> rjob list" where
  "claim_for_org limit org jobs =
     claim_ids (take limit (map rj_id (filter (\<lambda>j. pending_job j \<and> rj_org j = org) jobs))) jobs"

fun claim_orgs :: "nat \<Rightarrow> org_id list \<Rightarrow> rjob list \<Rightarrow> rjob list \<times> rjob list" where
  "claim_orgs share [] jobs = (jobs, [])"
| "claim_orgs share (org # orgs) jobs =
     (let (jobs1, c) = claim_for_org share org jobs; (jobs2, cs) = claim_orgs share orgs jobs1 in (jobs2, c @ cs))"

definition waiting_orgs :: "nat \<Rightarrow> rjob list \<Rightarrow> org_id list" where
  "waiting_orgs limit jobs = take limit (dedup (map rj_org (filter pending_job jobs)))"

definition claim_fair :: "nat \<Rightarrow> rjob list \<Rightarrow> rjob list \<times> rjob list" where
  "claim_fair limit jobs =
     (let orgs = waiting_orgs limit jobs in
      if orgs = [] then (jobs, []) else claim_orgs (max 1 (limit div length orgs)) orgs jobs)"

definition claim_reconstruction :: "nat \<Rightarrow> org_id option \<Rightarrow> rjob list \<Rightarrow> rjob list \<times> rjob list" where
  "claim_reconstruction limit org jobs =
     (case org of None \<Rightarrow> claim_fair limit jobs | Some i \<Rightarrow> claim_for_org limit i jobs)"

definition complete_rjob :: "uuid \<Rightarrow> bool \<Rightarrow> pipe_db \<Rightarrow> pipe_db" where
  "complete_rjob i ok db = db\<lparr>pd_jobs := map (\<lambda>j. if rj_id j = i
     then j\<lparr>rj_status := (if ok then RjDone else RjFailed)\<rparr> else j) (pd_jobs db)\<rparr>"

definition pending_count :: "rjob list \<Rightarrow> nat" where
  "pending_count jobs = length (filter pending_job jobs)"

subsection \<open>Incidents\<close>

definition merge_incident :: "org_id \<Rightarrow> incident \<Rightarrow> (org_id \<times> incident) list \<Rightarrow> (org_id \<times> incident) list" where
  "merge_incident org i rows =
     (if list_ex (\<lambda>(o', x). ic_id x = ic_id i) rows
      then map (\<lambda>(o', x). if ic_id x = ic_id i then (org, i) else (o', x)) rows
      else rows @ [(org, i)])"

fun upsert_incidents :: "size_guard \<Rightarrow> org_id \<Rightarrow> incident list \<Rightarrow> pipe_db \<Rightarrow> pipe_db \<times> (pipeline_error + unit)" where
  "upsert_incidents sz org [] db = (db, Inr ())"
| "upsert_incidents sz org (i # is) db =
     (if \<not> sz_incident sz i then (db, Inl ArtifactTooLarge)
      else upsert_incidents sz org is (db\<lparr>pd_incidents := merge_incident org i (pd_incidents db)\<rparr>))"

fun retire_stale :: "datetime \<Rightarrow> datetime \<Rightarrow> org_id \<Rightarrow> (org_id \<times> incident) list \<Rightarrow> (org_id \<times> incident) list \<times> nat" where
  "retire_stale now cutoff org [] = ([], 0)"
| "retire_stale now cutoff org ((o', i) # rows) =
     (let (rows', n) = retire_stale now cutoff org rows in
      if o' \<noteq> org \<or> ic_lifecycle i = IncStale \<or> ic_last i \<ge> cutoff then ((o', i) # rows', n)
      else ((o', i\<lparr>ic_lifecycle := IncStale, ic_updated := Some now\<rparr>) # rows', n + 1))"

subsection \<open>The worker\<close>

record worker_env =
  we_uuid5 :: "string \<Rightarrow> uuid"
  we_str :: "uuid \<Rightarrow> string"
  we_config :: incident_config
  we_size :: size_guard
  we_batch :: nat

definition process_job :: "worker_env \<Rightarrow> rjob \<Rightarrow> pipe_db \<Rightarrow> pipe_db" where
  "process_job env j db =
     (let related = related_alerts j db in
      if related = [] then complete_rjob (rj_id j) True db
      else
        case reconstruct (we_uuid5 env) (we_str env) (we_config env) (Some (rj_org j)) related of
          Inl _ \<Rightarrow> complete_rjob (rj_id j) False db
        | Inr incidents \<Rightarrow>
            (case upsert_incidents (we_size env) (rj_org j) incidents db of
               (db1, Inl _) \<Rightarrow> complete_rjob (rj_id j) False db1
             | (db1, Inr _) \<Rightarrow> complete_rjob (rj_id j) True db1))"

definition reconstruct_once :: "worker_env \<Rightarrow> org_id option \<Rightarrow> pipe_db \<Rightarrow> pipe_db \<times> nat" where
  "reconstruct_once env org db =
     (let (jobs, claimed) = claim_reconstruction (we_batch env) org (pd_jobs db)
      in (fold (process_job env) claimed (db\<lparr>pd_jobs := jobs\<rparr>), length claimed))"

subsection \<open>Claiming\<close>

lemma claim_row_status [simp]: "rj_id (claim_row i j) = rj_id j" "rj_org (claim_row i j) = rj_org j"
  by (simp_all add: claim_row_def)

lemma pending_claim_row: "pending_job (claim_row i j) \<longleftrightarrow> pending_job j \<and> rj_id j \<noteq> i"
  by (auto simp: claim_row_def pending_job_def)

lemma filter_claim_row:
  "filter P (map (claim_row i) js) = map (claim_row i) (filter (P \<circ> claim_row i) js)"
  by (induction js) auto

lemma pending_split:
  "pending_count js = length (filter (\<lambda>j. pending_job j \<and> rj_id j \<noteq> i) js) + length (filter (\<lambda>j. rj_id j = i \<and> pending_job j) js)"
  by (induction js) (auto simp: pending_count_def)

lemma claim_job_count:
  "claim_job i jobs = (jobs', c) \<Longrightarrow> pending_count jobs = pending_count jobs' + length c"
  using pending_split [of jobs i]
  by (auto simp: claim_job_def pending_count_def filter_claim_row comp_def pending_claim_row split: if_splits)

lemma claim_ids_count: "claim_ids is jobs = (jobs', cs) \<Longrightarrow> pending_count jobs = pending_count jobs' + length cs"
proof (induction "is" jobs arbitrary: jobs' cs rule: claim_ids.induct)
  case (2 i "is" jobs)
  obtain j1 c where 1: "claim_job i jobs = (j1, c)" by fastforce
  obtain j2 cs2 where 2: "claim_ids is j1 = (j2, cs2)" by fastforce
  show ?case using "2.IH" [OF 1 [symmetric] refl 2] claim_job_count [OF 1] 1 2 "2.prems" by auto
qed simp

lemma claim_orgs_count: "claim_orgs share orgs jobs = (jobs', cs) \<Longrightarrow> pending_count jobs = pending_count jobs' + length cs"
proof (induction share orgs jobs arbitrary: jobs' cs rule: claim_orgs.induct)
  case (2 share org orgs jobs)
  obtain j1 c where 1: "claim_for_org share org jobs = (j1, c)" by fastforce
  obtain j2 cs2 where 2: "claim_orgs share orgs j1 = (j2, cs2)" by fastforce
  show ?case
    using "2.IH" [OF 1 [symmetric] refl 2] claim_ids_count [OF 1 [unfolded claim_for_org_def]] 1 2 "2.prems" by auto
qed simp

lemma claim_count:
  "claim_reconstruction limit org jobs = (jobs', cs) \<Longrightarrow> pending_count jobs = pending_count jobs' + length cs"
  by (auto simp: claim_reconstruction_def claim_fair_def claim_for_org_def Let_def
      dest: claim_orgs_count claim_ids_count split: option.splits if_splits)

subsection \<open>Draining the queue\<close>

lemma complete_pending: "pending_count (pd_jobs (complete_rjob i ok db)) \<le> pending_count (pd_jobs db)"
  by (auto simp: complete_rjob_def pending_count_def filter_map comp_def pending_job_def intro!: length_filter_mono)

lemma upsert_jobs [simp]: "pd_jobs (fst (upsert_incidents sz org is db)) = pd_jobs db"
  by (induction sz org "is" db rule: upsert_incidents.induct) auto

lemma upsert_jobs' : "upsert_incidents sz org is db = (db1, r) \<Longrightarrow> pd_jobs db1 = pd_jobs db"
  using upsert_jobs [of sz org "is" db] by simp

lemma process_pending: "pending_count (pd_jobs (process_job env j db)) \<le> pending_count (pd_jobs db)"
  using complete_pending [of "rj_id j" _ db] complete_pending [of "rj_id j"]
  by (auto simp: process_job_def Let_def split: sum.splits prod.splits dest!: upsert_jobs')
     (metis complete_pending)+

lemma fold_process_pending: "pending_count (pd_jobs (fold (process_job env) js db)) \<le> pending_count (pd_jobs db)"
proof (induction js arbitrary: db)
  case (Cons j js)
  show ?case using Cons [of "process_job env j db"] process_pending [of env j db] by simp
qed simp

lemma once_pending:
  assumes "reconstruct_once env org db = (db', n)"
  shows "pending_count (pd_jobs db') + n \<le> pending_count (pd_jobs db)"
proof -
  obtain jobs cs where c: "claim_reconstruction (we_batch env) org (pd_jobs db) = (jobs, cs)" by fastforce
  have "pending_count (pd_jobs db') \<le> pending_count jobs"
    using assms c fold_process_pending [of env cs "db\<lparr>pd_jobs := jobs\<rparr>"] by (auto simp: reconstruct_once_def)
  then show ?thesis using claim_count [OF c] assms c by (auto simp: reconstruct_once_def)
qed

function drain :: "worker_env \<Rightarrow> org_id option \<Rightarrow> pipe_db \<Rightarrow> nat \<Rightarrow> pipe_db \<times> nat" where
  "drain env org db total_done =
     (case reconstruct_once env org db of (db', n) \<Rightarrow>
        if n = 0 then (db', total_done + n) else drain env org db' (total_done + n))"
  by auto

termination
  by (relation "measure (\<lambda>(env, org, db, k). pending_count (pd_jobs db))") (auto dest!: once_pending [OF sym])

declare drain.simps [simp del]

text \<open>Nothing claimable is left when a pass of a worker with a positive batch claims nothing.\<close>

lemma claim_job_first:
  assumes "distinct (map rj_id jobs)" and "j \<in> set jobs" and "pending_job j"
  shows "snd (claim_job (rj_id j) jobs) \<noteq> []"
proof -
  have "filter (\<lambda>x. rj_id x = rj_id j \<and> pending_job x) jobs = [j]"
    using assms
  proof (induction jobs)
    case (Cons x xs)
    show ?case
    proof (cases "x = j")
      case True
      then have "rj_id j \<notin> rj_id ` set xs" using Cons.prems(1) by auto
      then have "filter (\<lambda>x. rj_id x = rj_id j \<and> pending_job x) xs = []"
        by (metis (mono_tags, lifting) filter_False image_eqI)
      then show ?thesis using True Cons.prems(3) by simp
    next
      case False
      then have "j \<in> set xs" using Cons.prems(2) by simp
      then have "rj_id x \<noteq> rj_id j" using Cons.prems(1) by auto
      then show ?thesis using Cons \<open>j \<in> set xs\<close> by simp
    qed
  qed simp
  then show ?thesis by (simp add: claim_job_def)
qed

lemma claim_ids_first:
  "distinct (map rj_id jobs) \<Longrightarrow> j \<in> set jobs \<Longrightarrow> pending_job j \<Longrightarrow> snd (claim_ids (rj_id j # is) jobs) \<noteq> []"
  using claim_job_first [of jobs j] by (auto simp: Let_def split: prod.splits)

lemma claim_for_org_progress:
  assumes "distinct (map rj_id jobs)" and "j \<in> set jobs" and "pending_job j" and "1 \<le> limit"
  shows "snd (claim_for_org limit (rj_org j) jobs) \<noteq> []"
proof -
  let ?js = "filter (\<lambda>x. pending_job x \<and> rj_org x = rj_org j) jobs"
  obtain x xs where x: "?js = x # xs" using assms(2,3) by (cases ?js) (auto simp: filter_empty_conv)
  then have "x \<in> set jobs" "pending_job x" using filter_eq_ConsD [OF x] by auto
  then show ?thesis
    using claim_ids_first [OF assms(1), of x] assms(4) x by (cases limit) (simp_all add: claim_for_org_def)
qed

lemma claim_progress:
  assumes "distinct (map rj_id jobs)" and "1 \<le> limit" and "snd (claim_reconstruction limit None jobs) = []"
  shows "pending_count jobs = 0"
proof (rule ccontr)
  assume "pending_count jobs \<noteq> 0"
  then obtain j where j: "j \<in> set jobs" "pending_job j" by (auto simp: pending_count_def filter_empty_conv)
  then have "rj_org j \<in> set (dedup (map rj_org (filter pending_job jobs)))" by auto
  then have ne: "dedup (map rj_org (filter pending_job jobs)) \<noteq> []" by (metis list.set(1) empty_iff)
  then obtain org orgs where o: "waiting_orgs limit jobs = org # orgs"
    using assms(2) by (cases limit; cases "dedup (map rj_org (filter pending_job jobs))") (auto simp: waiting_orgs_def)
  then have "org \<in> set (dedup (map rj_org (filter pending_job jobs)))"
    unfolding waiting_orgs_def by (metis in_set_takeD list.set_intros(1))
  then obtain x where x: "x \<in> set jobs" "pending_job x" "rj_org x = org" by auto
  have "snd (claim_for_org (max 1 (limit div length (org # orgs))) org jobs) \<noteq> []"
    using claim_for_org_progress [OF assms(1) x(1,2)] x(3) by simp
  then show False
    using assms(3) o by (auto simp: claim_reconstruction_def claim_fair_def Let_def split: prod.splits)
qed

lemma claim_job_ids: "claim_job i jobs = (jobs', c) \<Longrightarrow> map rj_id jobs' = map rj_id jobs \<and> length c \<le> 1"
  by (auto simp: claim_job_def comp_def split: if_splits)

lemma claim_ids_ids: "claim_ids is jobs = (jobs', cs) \<Longrightarrow> map rj_id jobs' = map rj_id jobs \<and> length cs \<le> length is"
proof (induction "is" jobs arbitrary: jobs' cs rule: claim_ids.induct)
  case (2 i "is" jobs)
  obtain j1 c where 1: "claim_job i jobs = (j1, c)" by fastforce
  obtain j2 cs2 where 2: "claim_ids is j1 = (j2, cs2)" by fastforce
  show ?case using "2.IH" [OF 1 [symmetric] refl 2] claim_job_ids [OF 1] 1 2 "2.prems" by auto
qed simp

lemma claim_for_org_ids:
  "claim_for_org limit org jobs = (jobs', cs) \<Longrightarrow> map rj_id jobs' = map rj_id jobs \<and> length cs \<le> limit"
  using claim_ids_ids unfolding claim_for_org_def by fastforce

lemma claim_orgs_ids:
  "claim_orgs share orgs jobs = (jobs', cs) \<Longrightarrow> map rj_id jobs' = map rj_id jobs \<and> length cs \<le> share * length orgs"
proof (induction share orgs jobs arbitrary: jobs' cs rule: claim_orgs.induct)
  case (2 share org orgs jobs)
  obtain j1 c where 1: "claim_for_org share org jobs = (j1, c)" by fastforce
  obtain j2 cs2 where 2: "claim_orgs share orgs j1 = (j2, cs2)" by fastforce
  show ?case using "2.IH" [OF 1 [symmetric] refl 2] claim_for_org_ids [OF 1] 1 2 "2.prems" by auto
qed simp

lemma claim_ids_map: "claim_reconstruction limit org jobs = (jobs', cs) \<Longrightarrow> map rj_id jobs' = map rj_id jobs"
  by (auto simp: claim_reconstruction_def claim_fair_def Let_def
      dest: claim_orgs_ids claim_for_org_ids split: option.splits if_splits)

text \<open>A row whose id is not among the claimed ids is untouched.\<close>

lemma claim_job_other: "claim_job i jobs = (jobs', c) \<Longrightarrow> j \<in> set jobs \<Longrightarrow> rj_id j \<noteq> i \<Longrightarrow> j \<in> set jobs'"
  by (force simp: claim_job_def claim_row_def split: if_splits)

lemma claim_ids_other: "claim_ids is jobs = (jobs', cs) \<Longrightarrow> j \<in> set jobs \<Longrightarrow> rj_id j \<notin> set is \<Longrightarrow> j \<in> set jobs'"
proof (induction "is" jobs arbitrary: jobs' cs rule: claim_ids.induct)
  case (2 i "is" jobs)
  obtain j1 c where 1: "claim_job i jobs = (j1, c)" by fastforce
  obtain j2 cs2 where 2: "claim_ids is j1 = (j2, cs2)" by fastforce
  show ?case using "2.IH" [OF 1 [symmetric] refl 2] claim_job_other [OF 1] 1 2 "2.prems" by auto
qed simp

lemma claim_for_org_other:
  assumes "claim_for_org limit org jobs = (jobs', cs)" and "distinct (map rj_id jobs)" and "j \<in> set jobs" and "rj_org j \<noteq> org"
  shows "j \<in> set jobs'"
proof -
  have "rj_id j \<notin> set (take limit (map rj_id (filter (\<lambda>x. pending_job x \<and> rj_org x = org) jobs)))"
  proof
    assume "rj_id j \<in> set (take limit (map rj_id (filter (\<lambda>x. pending_job x \<and> rj_org x = org) jobs)))"
    then have "rj_id j \<in> set (map rj_id (filter (\<lambda>x. pending_job x \<and> rj_org x = org) jobs))" by (rule in_set_takeD)
    then obtain x where x: "x \<in> set jobs" "rj_org x = org" "rj_id x = rj_id j" by auto
    then have "x = j" using assms(2,3) by (simp add: distinct_map inj_on_def)
    then show False using x(2) assms(4) by simp
  qed
  then show ?thesis using claim_ids_other assms(1,3) unfolding claim_for_org_def by blast
qed

lemma claim_job_org:
  "claim_job i jobs = (jobs', c) \<Longrightarrow>
   map (\<lambda>j. (rj_id j, rj_org j)) jobs' = map (\<lambda>j. (rj_id j, rj_org j)) jobs \<and>
   set (map (\<lambda>j. (rj_id j, rj_org j)) c) \<subseteq> set (map (\<lambda>j. (rj_id j, rj_org j)) jobs) \<inter> {i} \<times> UNIV"
  by (auto simp: claim_job_def comp_def split: if_splits)

lemma claim_ids_org:
  "claim_ids is jobs = (jobs', cs) \<Longrightarrow>
   set (map (\<lambda>j. (rj_id j, rj_org j)) cs) \<subseteq> set (map (\<lambda>j. (rj_id j, rj_org j)) jobs) \<inter> set is \<times> UNIV"
proof (induction "is" jobs arbitrary: jobs' cs rule: claim_ids.induct)
  case (2 i "is" jobs)
  obtain j1 c where 1: "claim_job i jobs = (j1, c)" by fastforce
  obtain j2 cs2 where 2: "claim_ids is j1 = (j2, cs2)" by fastforce
  have cs: "cs = c @ cs2" using 1 2 "2.prems" by simp
  note o1 = claim_job_org [OF 1]
  have "set (map (\<lambda>j. (rj_id j, rj_org j)) cs2) \<subseteq> set (map (\<lambda>j. (rj_id j, rj_org j)) jobs) \<inter> set is \<times> UNIV"
    using "2.IH" [OF 1 [symmetric] refl 2] o1 by metis
  moreover have "set (map (\<lambda>j. (rj_id j, rj_org j)) c) \<subseteq> set (map (\<lambda>j. (rj_id j, rj_org j)) jobs) \<inter> {i} \<times> UNIV"
    using o1 by blast
  moreover have "A \<inter> {i} \<times> UNIV \<subseteq> A \<inter> set (i # is) \<times> UNIV" "A \<inter> set is \<times> UNIV \<subseteq> A \<inter> set (i # is) \<times> UNIV"
    for A :: "(uuid \<times> org_id) set" by auto
  ultimately show ?case unfolding cs map_append set_append by (meson Un_least subset_trans)
qed simp

lemma claim_for_org_org:
  assumes "claim_for_org limit org jobs = (jobs', cs)" and "distinct (map rj_id jobs)" and "x \<in> set cs"
  shows "rj_org x = org"
proof -
  let ?ids = "take limit (map rj_id (filter (\<lambda>x. pending_job x \<and> rj_org x = org) jobs))"
  have "(rj_id x, rj_org x) \<in> set (map (\<lambda>j. (rj_id j, rj_org j)) cs)" using assms(3) by auto
  then have "(rj_id x, rj_org x) \<in> set (map (\<lambda>j. (rj_id j, rj_org j)) jobs)" and i: "rj_id x \<in> set ?ids"
    using claim_ids_org [of ?ids jobs jobs' cs] assms(1) by (auto simp: claim_for_org_def)
  then obtain y where y: "y \<in> set jobs" "rj_id y = rj_id x" "rj_org y = rj_org x" by auto
  obtain z where z: "z \<in> set jobs" "rj_id z = rj_id x" "rj_org z = org" using in_set_takeD [OF i] by auto
  have "y = z" using y z assms(2) by (simp add: distinct_map inj_on_def)
  then show ?thesis using y z by simp
qed

lemma claim_orgs_serves:
  "distinct (map rj_id jobs) \<Longrightarrow> distinct orgs \<Longrightarrow> org \<in> set orgs \<Longrightarrow> 1 \<le> share \<Longrightarrow>
   j \<in> set jobs \<Longrightarrow> pending_job j \<Longrightarrow> rj_org j = org \<Longrightarrow>
   \<exists>jobs0. set (snd (claim_for_org share org jobs0)) \<subseteq> set (snd (claim_orgs share orgs jobs)) \<and>
     map rj_id jobs0 = map rj_id jobs \<and> j \<in> set jobs0"
proof (induction share orgs jobs rule: claim_orgs.induct)
  case (2 share o1 orgs jobs)
  obtain j1 c where 1: "claim_for_org share o1 jobs = (j1, c)" by fastforce
  show ?case
  proof (cases "o1 = org")
    case True
    have "set (snd (claim_for_org share org jobs)) \<subseteq> set (snd (claim_orgs share (o1 # orgs) jobs))"
      using True 1 by (auto split: prod.splits)
    then show ?thesis using "2.prems"(5) by blast
  next
    case False
    have ids: "map rj_id j1 = map rj_id jobs" using claim_for_org_ids [OF 1] by blast
    have "j \<in> set j1" using claim_for_org_other [OF 1 "2.prems"(1,5)] False "2.prems"(7) by auto
    then have "\<exists>jobs0. set (snd (claim_for_org share org jobs0)) \<subseteq> set (snd (claim_orgs share orgs j1)) \<and>
        map rj_id jobs0 = map rj_id j1 \<and> j \<in> set jobs0"
      using "2.IH" [OF 1 [symmetric] refl] "2.prems" ids False by auto
    then show ?thesis using 1 ids by (fastforce split: prod.splits)
  qed
qed simp

lemma sum_share: "k \<le> limit \<Longrightarrow> 1 \<le> k \<Longrightarrow> max 1 (limit div k) * k \<le> (limit :: nat)"
  by (cases "limit div k = 0") (auto simp: div_eq_0_iff max_def)

text \<open>
  C23. No tenant starves another: one claim of a worker takes at most \<open>limit\<close> jobs in total, and at
  least one of every organization among the first \<open>limit\<close> that have a pending job, however long the
  backlog of the others is.
\<close>

theorem fair_claim_serves_every_org:
  assumes "distinct (map rj_id jobs)" and "org \<in> set (waiting_orgs limit jobs)"
  shows "length (snd (claim_fair limit jobs)) \<le> limit \<and> org \<in> set (map rj_org (snd (claim_fair limit jobs)))"
proof -
  let ?orgs = "waiting_orgs limit jobs"
  let ?share = "max 1 (limit div length ?orgs)"
  have ne: "?orgs \<noteq> []" using assms(2) by auto
  have cf: "claim_fair limit jobs = claim_orgs ?share ?orgs jobs" using ne by (simp add: claim_fair_def Let_def)
  have len: "length ?orgs \<le> limit" "1 \<le> length ?orgs" using ne by (simp_all add: waiting_orgs_def Suc_le_eq)
  have "length (snd (claim_fair limit jobs)) \<le> ?share * length ?orgs"
    using claim_orgs_ids [of ?share ?orgs jobs] cf by (metis prod.collapse)
  then have bound: "length (snd (claim_fair limit jobs)) \<le> limit" using sum_share [OF len] by linarith
  have "org \<in> set (dedup (map rj_org (filter pending_job jobs)))"
    using assms(2) unfolding waiting_orgs_def by (rule in_set_takeD)
  then obtain j where j: "j \<in> set jobs" "pending_job j" "rj_org j = org" by auto
  have d: "distinct ?orgs" by (simp add: waiting_orgs_def distinct_take)
  obtain jobs0 where jobs0: "set (snd (claim_for_org ?share org jobs0)) \<subseteq> set (snd (claim_orgs ?share ?orgs jobs))"
      "map rj_id jobs0 = map rj_id jobs" "j \<in> set jobs0"
    using claim_orgs_serves [OF assms(1) d assms(2) _ j(1,2,3), of ?share] by auto
  have d0: "distinct (map rj_id jobs0)" using jobs0(2) assms(1) by simp
  have "snd (claim_for_org ?share org jobs0) \<noteq> []"
    using claim_for_org_progress [OF d0 jobs0(3) j(2)] j(3) by simp
  then obtain x where x: "x \<in> set (snd (claim_for_org ?share org jobs0))" by (cases "snd (claim_for_org ?share org jobs0)") auto
  have "rj_org x = org" by (rule claim_for_org_org [OF prod.collapse [symmetric] d0 x])
  then show ?thesis using bound x jobs0(1) cf by force
qed

definition mk_job :: "uuid \<Rightarrow> org_id \<Rightarrow> rjob" where
  "mk_job i org = \<lparr>rj_id = i, rj_org = org, rj_status = RjPending, rj_trace = ''A'', rj_decoy = 1,
     rj_placement = None, rj_correlation = None, rj_start = 0, rj_end = seconds 100, rj_attempts = 0\<rparr>"

theorem fair_claim_serves_every_org_witness:
  "8 \<in> set (map rj_org (snd (claim_fair 2 [mk_job 1 7, mk_job 2 7, mk_job 3 7, mk_job 4 8])))"
proof -
  have 1: "distinct (map rj_id [mk_job 1 7, mk_job 2 7, mk_job 3 7, mk_job 4 8])" by code_simp
  have 2: "8 \<in> set (waiting_orgs 2 [mk_job 1 7, mk_job 2 7, mk_job 3 7, mk_job 4 8])" by code_simp
  show ?thesis using fair_claim_serves_every_org [OF 1 2] by blast
qed

lemma process_ids: "map rj_id (pd_jobs (process_job env j db)) = map rj_id (pd_jobs db)"
proof -
  have c: "map rj_id (pd_jobs (complete_rjob i ok d)) = map rj_id (pd_jobs d)" for i ok d
    by (induction "pd_jobs d") (auto simp: complete_rjob_def)
  show ?thesis by (auto simp: process_job_def Let_def c dest!: upsert_jobs' split: sum.splits prod.splits)
qed

lemma fold_process_ids: "map rj_id (pd_jobs (fold (process_job env) js db)) = map rj_id (pd_jobs db)"
  by (induction js arbitrary: db) (simp_all add: process_ids)

lemma once_ids: "reconstruct_once env org db = (db', n) \<Longrightarrow> map rj_id (pd_jobs db') = map rj_id (pd_jobs db)"
  by (auto simp: reconstruct_once_def fold_process_ids dest: claim_ids_map split: prod.splits)

text \<open>
  C24. The worker drains its queue: with a positive batch and distinct job ids, \<open>drain\<close> over all
  organizations returns, and afterwards no job is pending.
\<close>

theorem drain_empties_queue:
  assumes "distinct (map rj_id (pd_jobs db))" and "1 \<le> we_batch env"
  shows "pending_count (pd_jobs (fst (drain env None db k))) = 0"
  using assms(1)
proof (induction "pending_count (pd_jobs db)" arbitrary: db k rule: less_induct)
  case less
  obtain db' n where o: "reconstruct_once env None db = (db', n)" by fastforce
  show ?case
  proof (cases "n = 0")
    case True
    have "snd (claim_reconstruction (we_batch env) None (pd_jobs db)) = []"
      using o True by (auto simp: reconstruct_once_def split: prod.splits)
    then have "pending_count (pd_jobs db) = 0" by (rule claim_progress [OF less.prems assms(2)])
    then show ?thesis using once_pending [OF o] o True by (simp add: drain.simps [of env None db])
  next
    case False
    have "pending_count (pd_jobs db') < pending_count (pd_jobs db)" using once_pending [OF o] False by simp
    moreover have "distinct (map rj_id (pd_jobs db'))" using once_ids [OF o] less.prems by simp
    ultimately show ?thesis using less.hyps o False by (simp add: drain.simps [of env None db])
  qed
qed

definition no_size_limit :: size_guard where
  "no_size_limit = \<lparr>sz_event = \<lambda>_. True, sz_alert = \<lambda>_. True, sz_incident = \<lambda>_. True\<rparr>"

definition demo_env :: worker_env where
  "demo_env = \<lparr>we_uuid5 = length, we_str = nat_str, we_config = default_incident_config, we_size = no_size_limit, we_batch = 2\<rparr>"

definition queue_db :: pipe_db where
  "queue_db = \<lparr>pd_events = [], pd_alerts = [(7, mk_alert 1 ''A'' 1 5 REPOSITORY)],
     pd_jobs = [mk_job 1 7, mk_job 2 7, mk_job 3 7, mk_job 4 8], pd_incidents = [], pd_plans = [], pd_reports = []\<rparr>"

theorem drain_empties_queue_witness:
  "pending_count (pd_jobs (fst (drain demo_env None queue_db 0))) = 0"
proof -
  have "distinct (map rj_id (pd_jobs queue_db))" by code_simp
  then show ?thesis by (rule drain_empties_queue) (simp add: demo_env_def)
qed

end
