(* ===== verification/Capacity.thy ===== *)
theory Capacity
  imports Text_Util
begin

text \<open>
  Tenant capacity (\<open>services/capacity.py\<close>): limits and their validation, and the per-organization
  admission gate over a counter store. The gate uses a counter through the locale \<open>slot_counter\<close>; the
  in-process table interprets it, while Redis is an argument. \<open>time.time()\<close> is a non-negative
  rational, so \<open>int()\<close> is the floor.
\<close>

subsection \<open>Limits\<close>

record tenant_limits =
  tn_tier :: string
  tn_per_second :: int
  tn_burst :: int
  tn_max_pending :: int
  tn_max_scans :: int
  tn_max_deployments :: int
  tn_max_reports :: int

record limits_row =
  lr_org :: org_id
  lr_limits :: tenant_limits
  lr_version :: int
  lr_updated_by :: "uuid option"

definition validate_limits :: "tenant_limits \<Rightarrow> string + unit" where
  "validate_limits l =
     (if tn_tier l \<notin> {''small'', ''medium'', ''large''} then Inl ''invalid tenant tier''
      else if tn_per_second l \<le> 0 \<or> tn_burst l \<le> 0 \<or> tn_max_pending l \<le> 0 \<or> tn_max_scans l \<le> 0 \<or>
              tn_max_deployments l \<le> 0 \<or> tn_max_reports l \<le> 0
      then Inl ''tenant limits must be positive''
      else if tn_burst l < tn_per_second l then Inl ''monitoring burst must be at least events per second''
      else Inr ())"

definition tenant_limits_of :: "tenant_limits \<Rightarrow> org_id \<Rightarrow> limits_row list \<Rightarrow> tenant_limits" where
  "tenant_limits_of defaults org rows =
     (case find (\<lambda>r. lr_org r = org) rows of None \<Rightarrow> defaults | Some r \<Rightarrow> lr_limits r)"

definition set_limits :: "org_id \<Rightarrow> tenant_limits \<Rightarrow> uuid option \<Rightarrow> limits_row list \<Rightarrow> string + limits_row list" where
  "set_limits org l actor rows =
     (case validate_limits l of
        Inl e \<Rightarrow> Inl e
      | Inr _ \<Rightarrow> Inr (
          case find (\<lambda>r. lr_org r = org) rows of
            None \<Rightarrow> rows @ [\<lparr>lr_org = org, lr_limits = l, lr_version = 1, lr_updated_by = actor\<rparr>]
          | Some r0 \<Rightarrow> map (\<lambda>r. if lr_org r = org
              then r\<lparr>lr_limits := l, lr_version := lr_version r + 1, lr_updated_by := actor\<rparr> else r) rows))"

subsection \<open>The gate\<close>

datatype counter_error = StoreUnavailable

record quota_decision =
  qd_accepted :: bool
  qd_retry_after :: int
  qd_reason :: "string option"

definition second_key :: "string \<Rightarrow> rat \<Rightarrow> string" where
  "second_key base now = (base @ '':s'') @ CHR '':'' # int_str \<lfloor>now\<rfloor>"

definition minute_key :: "string \<Rightarrow> rat \<Rightarrow> string" where
  "minute_key base now = (base @ '':m'') @ CHR '':'' # int_str \<lfloor>now / 60\<rfloor>"

definition quota_base :: "string \<Rightarrow> (uuid \<Rightarrow> string) \<Rightarrow> org_id \<Rightarrow> string" where
  "quota_base prefix str_of org = prefix @ '':quota:monitor:'' @ str_of org"

definition gate_admit ::
  "(rat \<Rightarrow> string \<Rightarrow> int \<Rightarrow> 's \<Rightarrow> 's \<times> (counter_error + int)) \<Rightarrow> string \<Rightarrow> tenant_limits \<Rightarrow> rat \<Rightarrow> 's \<Rightarrow> 's \<times> quota_decision" where
  "gate_admit increment base l now s =
     (case increment now (second_key base now) 2 s of
        (s1, Inl StoreUnavailable) \<Rightarrow> (s1, \<lparr>qd_accepted = False, qd_retry_after = 1, qd_reason = Some ''quota_store_unavailable''\<rparr>)
      | (s1, Inr burst) \<Rightarrow>
          (case increment now (minute_key base now) 61 s1 of
             (s2, Inl StoreUnavailable) \<Rightarrow> (s2, \<lparr>qd_accepted = False, qd_retry_after = 1, qd_reason = Some ''quota_store_unavailable''\<rparr>)
           | (s2, Inr sustained) \<Rightarrow>
               (s2, if burst > tn_burst l then \<lparr>qd_accepted = False, qd_retry_after = 1, qd_reason = Some ''burst_limit''\<rparr>
                    else if sustained > tn_per_second l * 60
                    then \<lparr>qd_accepted = False, qd_retry_after = max 1 (60 - \<lfloor>now - of_int \<lfloor>now / 60\<rfloor> * 60\<rfloor>),
                          qd_reason = Some ''sustained_limit''\<rparr>
                    else \<lparr>qd_accepted = True, qd_retry_after = 0, qd_reason = None\<rparr>)))"

type_synonym counter_table = "(string \<times> nat \<times> int) list"

definition memory_increment :: "rat \<Rightarrow> string \<Rightarrow> int \<Rightarrow> counter_table \<Rightarrow> counter_table \<times> (counter_error + int)" where
  "memory_increment now key ttl table =
     (let t = \<lfloor>now\<rfloor>;
          (v, expiry) = (case map_of table key of None \<Rightarrow> (0, t + ttl) | Some p \<Rightarrow> p);
          (v, expiry) = (if expiry \<le> t then (0, t + ttl) else (v, expiry))
      in (AList.update key (v + 1, expiry) table, Inr (int (v + 1))))"

definition redis_increment ::
  "('r \<Rightarrow> string \<Rightarrow> 'r \<times> (counter_error + int)) \<Rightarrow> ('r \<Rightarrow> string \<Rightarrow> int \<Rightarrow> 'r \<times> (counter_error + unit)) \<Rightarrow>
   rat \<Rightarrow> string \<Rightarrow> int \<Rightarrow> 'r \<Rightarrow> 'r \<times> (counter_error + int)" where
  "redis_increment incr expire now key ttl r =
     (case incr r key of
        (r1, Inl e) \<Rightarrow> (r1, Inl e)
      | (r1, Inr v) \<Rightarrow>
          if v = 1 then (case expire r1 key ttl of (r2, Inl e) \<Rightarrow> (r2, Inl e) | (r2, Inr _) \<Rightarrow> (r2, Inr v))
          else (r1, Inr v))"

text \<open>A stream of admissions, each with its clock reading; the log holds the accepted ones.\<close>

fun admit_log ::
  "(rat \<Rightarrow> string \<Rightarrow> int \<Rightarrow> 's \<Rightarrow> 's \<times> (counter_error + int)) \<Rightarrow> (org_id \<Rightarrow> string) \<Rightarrow> (org_id \<Rightarrow> tenant_limits) \<Rightarrow>
   (rat \<times> org_id) list \<Rightarrow> 's \<Rightarrow> (rat \<times> org_id) list" where
  "admit_log increment base lims [] s = []"
| "admit_log increment base lims ((now, org) # rs) s =
     (case gate_admit increment (base org) (lims org) now s of
        (s', d) \<Rightarrow> (if qd_accepted d then [(now, org)] else []) @ admit_log increment base lims rs s')"

subsection \<open>What the gate relies on\<close>

text \<open>
  A counter that counts every increment of a key as long as the key lives: \<open>alive s k t\<close> says that a
  count of \<open>k\<close> kept in \<open>s\<close>, if any, is still valid at the second \<open>t\<close>.
\<close>

locale slot_counter =
  fixes increment :: "rat \<Rightarrow> string \<Rightarrow> int \<Rightarrow> 's \<Rightarrow> 's \<times> (counter_error + int)"
    and level :: "'s \<Rightarrow> string \<Rightarrow> int"
    and alive :: "'s \<Rightarrow> string \<Rightarrow> int \<Rightarrow> bool"
  assumes increment_reads: "increment now k ttl s = (s', Inr v) \<Longrightarrow> alive s k t \<Longrightarrow> \<lfloor>now\<rfloor> \<le> t \<Longrightarrow> t < \<lfloor>now\<rfloor> + ttl \<Longrightarrow>
      level s k + 1 \<le> v \<and> level s k + 1 \<le> level s' k \<and> alive s' k t"
    and increment_fails: "increment now k ttl s = (s', Inl e) \<Longrightarrow> alive s k' t \<Longrightarrow> level s k' \<le> level s' k' \<and> alive s' k' t"
    and increment_other: "increment now k ttl s = (s', r) \<Longrightarrow> k' \<noteq> k \<Longrightarrow> alive s k' t \<Longrightarrow> level s k' \<le> level s' k' \<and> alive s' k' t"
begin

text \<open>The slot \<open>key\<close> with its time to live, its cap and its last second \<open>t\<close>.\<close>

lemma gate_step:
  assumes "gate_admit increment base l now s = (s', d)" and "alive s key t"
    and "key = second_key base now \<and> ttl = 2 \<and> cap = tn_burst l \<or> key = minute_key base now \<and> ttl = 61 \<and> cap = tn_per_second l * 60"
    and "\<lfloor>now\<rfloor> \<le> t" and "t < \<lfloor>now\<rfloor> + ttl"
    and "second_key base now \<noteq> minute_key base now"
  shows "alive s' key t \<and> level s key + (if qd_accepted d then 1 else 0) \<le> level s' key \<and>
    (qd_accepted d \<longrightarrow> level s key + 1 \<le> cap)"
proof -
  obtain s1 r1 where 1: "increment now (second_key base now) 2 s = (s1, r1)" by fastforce
  show ?thesis
  proof (cases r1)
    case (Inl e)
    then have "s' = s1" "\<not> qd_accepted d" using assms(1) 1 by (cases e; auto simp: gate_admit_def)+
    then show ?thesis using increment_fails [OF 1 [unfolded Inl] assms(2)] by simp
  next
    case (Inr v1)
    note r1 = 1 [unfolded Inr]
    obtain s2 r2 where 2: "increment now (minute_key base now) 61 s1 = (s2, r2)" by fastforce
    have one: "alive s1 key t \<and> (if key = second_key base now then level s key + 1 \<le> v1 \<and> level s key + 1 \<le> level s1 key
        else level s key \<le> level s1 key)"
    proof (cases "key = second_key base now")
      case True
      then have "ttl = 2" using assms(3,6) by auto
      then show ?thesis using increment_reads [OF r1] assms(2,4,5) True by simp
    qed (use increment_other [OF 1 _ assms(2)] in simp)
    show ?thesis
    proof (cases r2)
      case (Inl e)
      then have s: "s' = s2" "\<not> qd_accepted d" using assms(1) 2 r1 by (cases e; auto simp: gate_admit_def)+
      then show ?thesis using increment_fails [OF 2 [unfolded Inl], of key t] one by (auto split: if_splits)
    next
      case (Inr v2)
      have s: "s' = s2" and acc: "qd_accepted d \<longleftrightarrow> v1 \<le> tn_burst l \<and> v2 \<le> tn_per_second l * 60"
        using assms(1) r1 2 Inr by (auto simp: gate_admit_def split: if_splits)
      show ?thesis
      proof (cases "key = second_key base now")
        case True
        then have "alive s2 key t \<and> level s1 key \<le> level s2 key" "cap = tn_burst l"
          using increment_other [OF 2, of key t] one assms(3,6) by auto
        then show ?thesis using one True acc s by auto
      next
        case False
        then have k: "key = minute_key base now" "ttl = 61" "cap = tn_per_second l * 60" using assms(3) by auto
        then have "level s1 key + 1 \<le> v2 \<and> level s1 key + 1 \<le> level s2 key \<and> alive s2 key t"
          using increment_reads [OF 2 [unfolded Inr], of t] one assms(4,5) by simp
        then show ?thesis using one False acc s k by auto
      qed
    qed
  qed
qed

lemma gate_step_other:
  assumes "gate_admit increment base l now s = (s', d)" and "alive s key t"
    and "key \<noteq> second_key base now" and "key \<noteq> minute_key base now"
  shows "alive s' key t \<and> level s key \<le> level s' key"
proof -
  obtain s1 r1 where 1: "increment now (second_key base now) 2 s = (s1, r1)" by fastforce
  have one: "alive s1 key t \<and> level s key \<le> level s1 key" using increment_other [OF 1 assms(3,2)] by blast
  obtain s2 r2 where 2: "increment now (minute_key base now) 61 s1 = (s2, r2)" by fastforce
  have two: "alive s2 key t \<and> level s1 key \<le> level s2 key" using increment_other [OF 2 assms(4)] one by blast
  have "s' = s1 \<or> s' = s2"
    using assms(1) 1 2 by (cases r1; cases r2) (auto simp: gate_admit_def split: counter_error.splits)
  then show ?thesis using one two by auto
qed

end

subsection \<open>Keys\<close>

lemma second_not_minute: "second_key b now \<noteq> minute_key b' now'"
proof
  assume "second_key b now = minute_key b' now'"
  then have "b @ '':s'' = b' @ '':m''"
    using split_last_sep [of "b @ '':s''" "CHR '':''" "int_str \<lfloor>now\<rfloor>" "b' @ '':m''" "int_str \<lfloor>now' / 60\<rfloor>"]
      colon_not_int_str by (simp add: second_key_def minute_key_def)
  then show False by (auto dest: arg_cong [where f = rev])
qed

lemma second_key_inj: "second_key b now = second_key b' now' \<Longrightarrow> \<lfloor>now\<rfloor> = \<lfloor>now'\<rfloor>"
  unfolding second_key_def using split_last_sep colon_not_int_str int_str_inj by metis

lemma minute_key_inj: "minute_key b now = minute_key b' now' \<Longrightarrow> \<lfloor>now / 60\<rfloor> = \<lfloor>now' / 60\<rfloor>"
  unfolding minute_key_def using split_last_sep colon_not_int_str int_str_inj by metis

lemma minute_slot: "\<lfloor>now / 60\<rfloor> = m \<Longrightarrow> 60 * m \<le> \<lfloor>now\<rfloor> \<and> \<lfloor>now\<rfloor> \<le> 60 * m + 59" for now :: rat
  by (simp add: floor_eq_iff le_floor_iff floor_le_iff divide_simps)

context slot_counter
begin

text \<open>Within one slot of an organization at most the cap is accepted.\<close>

lemma admit_log_slot:
  assumes "\<And>now. P now \<Longrightarrow> key_of now = key \<and> \<lfloor>now\<rfloor> \<le> t \<and> t < \<lfloor>now\<rfloor> + ttl"
    and "\<And>now. key_of now = second_key (base org) now \<and> ttl = 2 \<and> cap = tn_burst (lims org) \<or>
           key_of now = minute_key (base org) now \<and> ttl = 61 \<and> cap = tn_per_second (lims org) * 60"
    and "\<And>now o'. key = second_key (base o') now \<or> key = minute_key (base o') now \<Longrightarrow> \<lfloor>now\<rfloor> \<le> t \<and> t < \<lfloor>now\<rfloor> + ttl"
    and "\<And>now o'. key = second_key (base o') now \<Longrightarrow> ttl = 2"
    and "\<And>now o'. key = minute_key (base o') now \<Longrightarrow> ttl = 61"
    and "0 \<le> cap"
  shows "alive s key t \<Longrightarrow>
    int (length (filter (\<lambda>(now, o'). o' = org \<and> P now) (admit_log increment base lims rs s))) \<le> max 0 (cap - level s key)"
proof (induction rs arbitrary: s)
  case (Cons r rs)
  obtain now o' where r: "r = (now, o')" by (cases r)
  obtain s' d where g: "gate_admit increment (base o') (lims o') now s = (s', d)" by fastforce
  show ?case
  proof (cases "o' = org \<and> P now")
    case True
    have "alive s' key t \<and> level s key + (if qd_accepted d then 1 else 0) \<le> level s' key \<and> (qd_accepted d \<longrightarrow> level s key + 1 \<le> cap)"
      using gate_step [OF g Cons.prems, of ttl cap] assms(1,2) True second_not_minute by metis
    then show ?thesis using Cons.IH [of s'] r g True by (auto split: if_splits)
  next
    case False
    have "alive s' key t \<and> level s key \<le> level s' key"
    proof (cases "key = second_key (base o') now \<or> key = minute_key (base o') now")
      case True
      then have "key = second_key (base o') now \<and> ttl = 2 \<and> tn_burst (lims o') = tn_burst (lims o') \<or>
          key = minute_key (base o') now \<and> ttl = 61"
        using assms(4,5) by blast
      then show ?thesis
        using gate_step [OF g Cons.prems, of ttl "if ttl = 2 then tn_burst (lims o') else tn_per_second (lims o') * 60"]
          assms(3) [OF True] second_not_minute by (auto split: if_splits)
    qed (use gate_step_other [OF g Cons.prems] in blast)
    then show ?thesis using Cons.IH [of s'] r g False by auto
  qed
qed simp

end

subsection \<open>The in-process counter\<close>

definition table_level :: "counter_table \<Rightarrow> string \<Rightarrow> int" where
  "table_level table k = (case map_of table k of None \<Rightarrow> 0 | Some (v, e) \<Rightarrow> int v)"

definition table_alive :: "counter_table \<Rightarrow> string \<Rightarrow> int \<Rightarrow> bool" where
  "table_alive table k t \<longleftrightarrow> (case map_of table k of None \<Rightarrow> True | Some (v, e) \<Rightarrow> t < e)"

interpretation mc: slot_counter memory_increment table_level table_alive
  by unfold_locales
    (auto simp: memory_increment_def table_level_def table_alive_def Let_def split: option.splits if_splits)

lemma table_alive_empty [simp]: "table_alive [] k t"
  by (simp add: table_alive_def)

lemma table_level_empty [simp]: "table_level [] k = 0"
  by (simp add: table_level_def)

lemma burst_bounded:
  assumes "0 \<le> tn_burst (lims org)"
  shows "int (length (filter (\<lambda>(now, o'). o' = org \<and> \<lfloor>now\<rfloor> = s) (admit_log memory_increment base lims rs []))) \<le> tn_burst (lims org)"
proof -
  have k: "second_key (base org) now = second_key (base org) (of_int s)" if "\<lfloor>now\<rfloor> = s" for now
    using that by (simp add: second_key_def)
  show "int (length (filter (\<lambda>(now, o'). o' = org \<and> \<lfloor>now\<rfloor> = s) (admit_log memory_increment base lims rs []))) \<le> tn_burst (lims org)"
  proof -
    let ?K = "second_key (base org) (of_int s)"
    have "int (length (filter (\<lambda>(now, o'). o' = org \<and> \<lfloor>now\<rfloor> = s) (admit_log memory_increment base lims rs []))) \<le>
        max 0 (tn_burst (lims org) - table_level [] ?K)"
    proof (rule mc.admit_log_slot [where key_of = "second_key (base org)" and t = s and ttl = 2])
      fix now :: rat and o'
      assume "?K = second_key (base o') now \<or> ?K = minute_key (base o') now"
      then have "?K = second_key (base o') now" using second_not_minute by blast
      then have "\<lfloor>of_int s :: rat\<rfloor> = \<lfloor>now\<rfloor>" by (rule second_key_inj)
      then show "\<lfloor>now\<rfloor> \<le> s \<and> s < \<lfloor>now\<rfloor> + 2" by simp
    next
      fix now :: rat
      assume now: "\<lfloor>now\<rfloor> = s"
      show "second_key (base org) now = ?K \<and> \<lfloor>now\<rfloor> \<le> s \<and> s < \<lfloor>now\<rfloor> + 2"
        by (intro conjI k [OF now]) (simp_all add: now)
    next
      fix now :: rat and o'
      show "?K = minute_key (base o') now \<Longrightarrow> 2 = (61 :: int)" using second_not_minute by metis
    qed (use assms in simp_all)
    then show ?thesis using assms by simp
  qed
qed

lemma sustained_bounded:
  assumes "0 \<le> tn_per_second (lims org)"
  shows "int (length (filter (\<lambda>(now, o'). o' = org \<and> \<lfloor>now / 60\<rfloor> = m) (admit_log memory_increment base lims rs []))) \<le> tn_per_second (lims org) * 60"
proof -
  have k: "minute_key (base org) now = minute_key (base org) (of_int (60 * m))" if "\<lfloor>now / 60\<rfloor> = m" for now
    using that by (simp add: minute_key_def)
  have slot: "\<lfloor>now\<rfloor> \<le> 60 * m + 59 \<and> 60 * m + 59 < \<lfloor>now\<rfloor> + 61" if "\<lfloor>now / 60\<rfloor> = m" for now :: rat
    using minute_slot [OF that] by simp
  have other: "\<lfloor>now / 60\<rfloor> = m" if "minute_key (base org) (of_int (60 * m)) = minute_key b now" for now b
    using minute_key_inj [OF that] by simp
  show "int (length (filter (\<lambda>(now, o'). o' = org \<and> \<lfloor>now / 60\<rfloor> = m) (admit_log memory_increment base lims rs []))) \<le> tn_per_second (lims org) * 60"
  proof -
    let ?K = "minute_key (base org) (of_int (60 * m))"
    have "int (length (filter (\<lambda>(now, o'). o' = org \<and> \<lfloor>now / 60\<rfloor> = m) (admit_log memory_increment base lims rs []))) \<le>
        max 0 (tn_per_second (lims org) * 60 - table_level [] ?K)"
    proof (rule mc.admit_log_slot [where key_of = "minute_key (base org)" and t = "60 * m + 59" and ttl = 61])
      fix now :: rat and o'
      assume "?K = second_key (base o') now \<or> ?K = minute_key (base o') now"
      then have "?K = minute_key (base o') now" using second_not_minute by metis
      then show "\<lfloor>now\<rfloor> \<le> 60 * m + 59 \<and> 60 * m + 59 < \<lfloor>now\<rfloor> + 61" using slot [OF other] by blast
    next
      fix now :: rat and o'
      show "?K = second_key (base o') now \<Longrightarrow> 61 = (2 :: int)" using second_not_minute by metis
    next
      fix now :: rat
      assume "\<lfloor>now / 60\<rfloor> = m"
      then show "minute_key (base org) now = ?K \<and> \<lfloor>now\<rfloor> \<le> 60 * m + 59 \<and> 60 * m + 59 < \<lfloor>now\<rfloor> + 61"
        using k slot by blast
    qed (use assms in simp_all)
    then show ?thesis using assms by simp
  qed
qed

text \<open>
  Admission is bounded: starting from an empty in-process store, with limits that do not change and
  a clock of any kind, an organization is granted at most its burst in every clock second and at most
  sixty times its rate in every clock minute, whatever the other organizations do.
\<close>

theorem admission_bounded:
  assumes "0 \<le> tn_burst (lims org)" and "0 \<le> tn_per_second (lims org)"
  shows "int (length (filter (\<lambda>(now, o'). o' = org \<and> \<lfloor>now\<rfloor> = s) (admit_log memory_increment base lims rs []))) \<le> tn_burst (lims org) \<and>
    int (length (filter (\<lambda>(now, o'). o' = org \<and> \<lfloor>now / 60\<rfloor> = m) (admit_log memory_increment base lims rs []))) \<le> tn_per_second (lims org) * 60"
  by (intro conjI burst_bounded sustained_bounded assms)

definition small_limits :: tenant_limits where
  "small_limits = \<lparr>tn_tier = ''small'', tn_per_second = 1, tn_burst = 1, tn_max_pending = 5, tn_max_scans = 1,
     tn_max_deployments = 1, tn_max_reports = 1\<rparr>"

theorem admission_bounded_witness:
  "int (length (filter (\<lambda>(now, o'). o' = 7 \<and> \<lfloor>now\<rfloor> = 5)
     (admit_log memory_increment (quota_base ''df'' nat_str) (\<lambda>_. small_limits) [(5, 7), (11 / 2, 7), (6, 7)] []))) \<le> 1"
  by (rule order_trans [OF admission_bounded [where lims = "\<lambda>_. small_limits" and m = 0, THEN conjunct1]])
    (simp_all add: small_limits_def)

subsection \<open>Replica recommendation\<close>

definition recommended_replicas :: "rat \<Rightarrow> rat \<Rightarrow> rat \<Rightarrow> int" where
  "recommended_replicas target headroom_percent throughput =
     max 1 \<lfloor>(target * (1 + headroom_percent / 100) + throughput - 1) / throughput\<rfloor>"

text \<open>
  The formula rounds up only for integral numbers: the recommended replicas carry the target up to less
  than one event per second, but may fall short of it.
\<close>

lemma replicas_almost_enough:
  assumes "0 < throughput"
  shows "target * (1 + headroom_percent / 100) - 1 < of_int (recommended_replicas target headroom_percent throughput) * throughput"
proof -
  let ?need = "target * (1 + headroom_percent / 100)"
  have "(?need + throughput - 1) / throughput < of_int \<lfloor>(?need + throughput - 1) / throughput\<rfloor> + 1"
    using floor_correct by (simp add: add.commute)
  then have "?need + throughput - 1 < (of_int \<lfloor>(?need + throughput - 1) / throughput\<rfloor> + 1) * throughput"
    using assms by (simp add: pos_divide_less_eq)
  then have "?need - 1 < of_int \<lfloor>(?need + throughput - 1) / throughput\<rfloor> * throughput" by (simp add: algebra_simps)
  also have "\<dots> \<le> of_int (recommended_replicas target headroom_percent throughput) * throughput"
    using assms by (simp add: recommended_replicas_def mult_le_cancel_right)
  finally show ?thesis .
qed

lemma replicas_can_fall_short: "of_int (recommended_replicas 20 0 (39 / 2)) * (39 / 2) < (20 :: rat)"
  by code_simp

end
