(* ===== verification/Pipeline.thy ===== *)
theory Pipeline
  imports Reconstruction Capacity Replay Rate_Limit Access
begin

text \<open>
  Signed monitoring ingestion: monitor credentials (\<open>services/monitor_credentials.py\<close>), the use case
  \<open>PipelineService.ingest_event\<close> and the endpoint \<open>POST /monitoring/events\<close> (\<open>api/pipeline.py\<close>), which
  composes signature, replay guard, rate limiter, capacity gate and use case. The in-process stores of
  the three guards are \<open>gates\<close>; the database session is the transactional part of the world.
\<close>

subsection \<open>Monitor credentials\<close>

datatype monitor_error = MonitorSignatureError nat string

record monitor_cred =
  mc_id :: uuid
  mc_org :: org_id
  mc_monitor :: string
  mc_name :: string
  mc_ciphertext :: string
  mc_key_version :: string
  mc_active :: bool
  mc_expires :: "datetime option"
  mc_last_used :: "datetime option"

definition create_monitor ::
  "(string \<Rightarrow> string) \<Rightarrow> string \<Rightarrow> uuid \<Rightarrow> string \<Rightarrow> string \<Rightarrow> org_id \<Rightarrow> string \<Rightarrow> datetime option \<Rightarrow>
   monitor_cred list \<Rightarrow> monitor_cred list \<times> string \<times> string" where
  "create_monitor encrypt kv new_id hex6 secret org nm expires creds =
     (creds @ [\<lparr>mc_id = new_id, mc_org = org, mc_monitor = ''dfm_'' @ hex6, mc_name = nm,
        mc_ciphertext = encrypt secret, mc_key_version = kv, mc_active = True, mc_expires = expires, mc_last_used = None\<rparr>],
      ''dfm_'' @ hex6, secret)"

definition list_monitors :: "org_id \<Rightarrow> monitor_cred list \<Rightarrow> monitor_cred list" where
  "list_monitors org creds = filter (\<lambda>m. mc_org m = org) creds"

definition revoke_monitor :: "org_id \<Rightarrow> uuid \<Rightarrow> monitor_cred list \<Rightarrow> monitor_cred list \<times> bool" where
  "revoke_monitor org i creds =
     (case find (\<lambda>m. mc_id m = i) creds of
        None \<Rightarrow> (creds, False)
      | Some m0 \<Rightarrow> if mc_org m0 \<noteq> org then (creds, False)
          else (map (\<lambda>m. if mc_id m = i then m\<lparr>mc_active := False\<rparr> else m) creds, True))"

record monitor_request =
  mr_method :: string
  mr_path :: string
  mr_monitor :: "string option"
  mr_timestamp :: "string option"
  mr_nonce :: "string option"
  mr_signature :: "string option"
  mr_body :: string

definition text_of :: "string option \<Rightarrow> string" where
  "text_of v = (case v of None \<Rightarrow> [] | Some s \<Rightarrow> s)"

record crypto =
  cy_sha :: "string \<Rightarrow> string"
  cy_hmac :: "string \<Rightarrow> string \<Rightarrow> string"
  cy_decrypt :: "string \<Rightarrow> string option"
  cy_str :: "uuid \<Rightarrow> string"

definition monitor_canonical :: "crypto \<Rightarrow> org_id \<Rightarrow> monitor_request \<Rightarrow> string" where
  "monitor_canonical cy org rq = canonical_request (cy_sha cy) (mr_method rq) (mr_path rq) (cy_str cy org)
     (text_of (mr_monitor rq)) (text_of (mr_timestamp rq)) (text_of (mr_nonce rq)) (mr_body rq)"

definition verify_monitor ::
  "crypto \<Rightarrow> datetime \<Rightarrow> org_id \<Rightarrow> monitor_request \<Rightarrow> monitor_cred list \<Rightarrow> monitor_error + monitor_cred list" where
  "verify_monitor cy now org rq creds =
     (if text_of (mr_monitor rq) = [] \<or> text_of (mr_timestamp rq) = [] \<or> text_of (mr_nonce rq) = [] \<or>
         text_of (mr_signature rq) = []
      then Inl (MonitorSignatureError 401 ''missing monitor signature headers'')
      else case find (\<lambda>m. mc_monitor m = text_of (mr_monitor rq)) creds of
        None \<Rightarrow> Inl (MonitorSignatureError 401 ''unknown monitor credential'')
      | Some m \<Rightarrow>
          if mc_org m \<noteq> org then Inl (MonitorSignatureError 403 ''monitor credential does not match organization'')
          else if \<not> mc_active m then Inl (MonitorSignatureError 401 ''monitor credential is not active'')
          else if (case mc_expires m of None \<Rightarrow> False | Some e \<Rightarrow> e < now)
          then Inl (MonitorSignatureError 401 ''monitor credential has expired'')
          else case cy_decrypt cy (mc_ciphertext m) of
            None \<Rightarrow> Inl (MonitorSignatureError 500 ''monitor credential unreadable'')
          | Some secret \<Rightarrow>
              if \<not> verify_signature (cy_hmac cy) secret (monitor_canonical cy org rq) (text_of (mr_signature rq))
              then Inl (MonitorSignatureError 401 ''invalid monitor signature'')
              else Inr (map (\<lambda>x. if mc_id x = mc_id m then x\<lparr>mc_last_used := Some now\<rparr> else x) creds))"

subsection \<open>The use case\<close>

record detect_env =
  de_sha :: "string \<Rightarrow> string"
  de_uuid5 :: "string \<Rightarrow> uuid"
  de_str :: "uuid \<Rightarrow> string"
  de_size :: size_guard

text \<open>\<open>_scan_surface\<close>: the monitor type of a surface name.\<close>

definition surface_monitor :: "string \<Rightarrow> pipeline_error + monitor_type" where
  "surface_monitor surface =
     (if surface = ''file'' then Inr FILE_CONTENT else if surface = ''repository'' then Inr REPOSITORY
      else if surface = ''database'' then Inr DATABASE_PAYLOAD else if surface = ''text'' then Inr TEXT_PAYLOAD
      else Inl (PipelineError (''unknown monitoring surface: '' @ surface)))"

definition of_model :: "model_error + 'a \<Rightarrow> pipeline_error + 'a" where
  "of_model r = (case r of Inl _ \<Rightarrow> Inl ModelInvalid | Inr a \<Rightarrow> Inr a)"

definition reconstruction_window :: int where "reconstruction_window = 3600"

definition store_alert ::
  "detect_env \<Rightarrow> uuid \<Rightarrow> org_id \<Rightarrow> raw_event \<Rightarrow> pipe_db \<Rightarrow> pipeline_error + pipe_db \<times> alert option" where
  "store_alert env job_id org ev db =
     and_then (of_model (snd (ingest (de_uuid5 env) (de_str env) (Some org) default_alerting [] None ev []))) (\<lambda>candidate.
       case candidate of
         None \<Rightarrow> Inr (db, None)
       | Some c \<Rightarrow> and_then (upsert_alert_atomic (de_size env) org c db) (\<lambda>(db2, a).
           Inr (enqueue_reconstruction job_id org a reconstruction_window db2, Some a)))"

definition ingest_event ::
  "detect_env \<Rightarrow> uuid \<Rightarrow> datetime \<Rightarrow> org_id \<Rightarrow> uuid \<Rightarrow> string \<Rightarrow> string \<Rightarrow> string \<Rightarrow> pipe_db \<Rightarrow>
   pipeline_error + pipe_db \<times> raw_event option \<times> alert option" where
  "ingest_event env job_id now org plan_id surface location payload db =
     (case map_of (pd_plans db) (org, plan_id) of
        None \<Rightarrow> Inl (PipelineError (''decoy plan '' @ de_str env plan_id @ '' not found''))
      | Some assets \<Rightarrow>
          (let reports = (case map_of (pd_reports db) (org, plan_id) of None \<Rightarrow> [] | Some rs \<Rightarrow> rs);
               engine = fst (register_assets reports assets new_engine) in
           and_then (surface_monitor surface) (\<lambda>m.
           and_then (of_model (snd (scan_text (de_sha env) (de_uuid5 env) (de_str env) now payload location m engine))) (\<lambda>detected.
             case detected of
               None \<Rightarrow> Inr (db, None, None)
             | Some ev \<Rightarrow>
                 and_then (add_detection_event (de_size env) org ev db) (\<lambda>db1.
                 and_then (store_alert env job_id org ev db1) (\<lambda>(db2, a). Inr (db2, Some ev, a)))))))"

subsection \<open>The endpoint\<close>

record gates =
  gt_nonces :: nonce_table
  gt_hits :: hit_table
  gt_counters :: counter_table

record 'o ingest_world =
  iw_db :: pipe_db
  iw_monitors :: "monitor_cred list"
  iw_limits :: "limits_row list"
  iw_onboarding :: 'o

record ingest_cfg =
  ic_auth_enabled :: bool
  ic_signature_required :: bool
  ic_max_value_bytes :: nat
  ic_skew :: rat
  ic_rate_limit :: int
  ic_capacity_enabled :: bool
  ic_onboarding_enabled :: bool
  ic_default_limits :: tenant_limits
  ic_redis_prefix :: string

record event_request =
  er_plan :: uuid
  er_surface :: string
  er_location :: string
  er_value :: string

definition of_pipeline :: "pipeline_error + 'a \<Rightarrow> http_error + 'a" where
  "of_pipeline r = (case r of
       Inl (PipelineError m) \<Rightarrow> Inl (HttpError 409 m)
     | Inl ArtifactTooLarge \<Rightarrow> Inl (HttpError 413 ''artifact exceeds the maximum size'')
     | Inl _ \<Rightarrow> Inl (HttpError 500 ''internal error'')
     | Inr a \<Rightarrow> Inr a)"

definition pending_of :: "org_id \<Rightarrow> pipe_db \<Rightarrow> int" where
  "pending_of org db = int (length (filter (\<lambda>j. pending_job j \<and> rj_org j = org) (pd_jobs db)))"

text \<open>\<open>clock\<close> is \<open>time.time()\<close>, \<open>now\<close> the same instant as a \<open>datetime\<close>.\<close>

definition admission ::
  "crypto \<Rightarrow> (string \<Rightarrow> pyfloat option) \<Rightarrow> ingest_cfg \<Rightarrow> rat \<Rightarrow> datetime \<Rightarrow> auth_context \<Rightarrow> monitor_request \<Rightarrow>
   event_request \<Rightarrow> gates \<Rightarrow> 'o ingest_world \<Rightarrow> (gates \<times> 'o ingest_world) \<times> (http_error + unit)" where
  "admission cy float_of cfg clock now auth rq body g w =
     (let org = ctx_org auth in
      case (if ic_auth_enabled cfg \<and> ic_signature_required cfg
            then verify_monitor cy now org rq (iw_monitors w) else Inr (iw_monitors w)) of
        Inl (MonitorSignatureError c m) \<Rightarrow> ((g, w), Inl (HttpError c m))
      | Inr creds \<Rightarrow>
          (let w1 = w\<lparr>iw_monitors := creds\<rparr> in
           case (if ic_auth_enabled cfg
                 then guard_check float_of memory_reserve (ic_skew cfg) clock (mr_nonce rq) (mr_timestamp rq)
                        (cy_str cy org) (gt_nonces g)
                 else (gt_nonces g, Inr ())) of
             (nonces, Inl (ReplayError c m)) \<Rightarrow> ((g\<lparr>gt_nonces := nonces\<rparr>, w1), Inl (HttpError (nat c) m))
           | (nonces, Inr _) \<Rightarrow>
               (let g1 = g\<lparr>gt_nonces := nonces\<rparr>;
                    key = rate_limit_key ''monitoring:ingest'' (cy_str cy org) (map_option (cy_str cy) (ctx_key_id auth))
                            (Some (cy_str cy (er_plan body)));
                    (hits, allowed) = memory_allow clock key (ic_rate_limit cfg) (gt_hits g1);
                    g2 = g1\<lparr>gt_hits := hits\<rparr> in
                if \<not> allowed then ((g2, w1), Inl (HttpError 429 ''monitoring rate limit exceeded''))
                else if \<not> ic_capacity_enabled cfg then ((g2, w1), Inr ())
                else
                  let l = tenant_limits_of (ic_default_limits cfg) org (iw_limits w1) in
                  if pending_of org (iw_db w1) \<ge> tn_max_pending l
                  then ((g2, w1), Inl (HttpError 429 ''tenant reconstruction queue is at capacity''))
                  else
                    let (counters, d) = gate_admit memory_increment (quota_base (ic_redis_prefix cfg) (cy_str cy) org) l
                                          clock (gt_counters g2);
                        g3 = g2\<lparr>gt_counters := counters\<rparr> in
                    if \<not> qd_accepted d then ((g3, w1), Inl (HttpError 429 ''tenant monitoring quota exceeded''))
                    else ((g3, w1), Inr ()))))"

definition ingest_endpoint ::
  "crypto \<Rightarrow> (string \<Rightarrow> pyfloat option) \<Rightarrow> (string \<Rightarrow> nat) \<Rightarrow> detect_env \<Rightarrow>
   (org_id \<Rightarrow> string \<Rightarrow> uuid \<Rightarrow> uuid option \<Rightarrow> 'o \<Rightarrow> 'o) \<Rightarrow> ingest_cfg \<Rightarrow> uuid \<Rightarrow> rat \<Rightarrow> datetime \<Rightarrow>
   auth_context \<Rightarrow> monitor_request \<Rightarrow> event_request \<Rightarrow> gates \<times> 'o ingest_world \<Rightarrow>
   (gates \<times> 'o ingest_world) \<times> (http_error + raw_event option \<times> alert option)" where
  "ingest_endpoint cy float_of utf8_len env onboard cfg job_id clock now auth rq body gw =
     (let (g, w) = gw; org = ctx_org auth in
      if utf8_len (er_value body) > ic_max_value_bytes cfg
      then (gw, Inl (HttpError 413 ''monitoring value exceeds the maximum size''))
      else case admission cy float_of cfg clock now auth rq body g w of
        (gw1, Inl e) \<Rightarrow> (gw1, Inl e)
      | ((g1, w1), Inr _) \<Rightarrow>
          (case of_pipeline (ingest_event env job_id now org (er_plan body) (er_surface body) (er_location body)
                   (er_value body) (iw_db w1)) of
             Inl e \<Rightarrow> ((g1, w1), Inl e)
           | Inr (db, ev, a) \<Rightarrow>
               (let w2 = w1\<lparr>iw_db := db\<rparr>;
                    w3 = (case ev of
                            Some e \<Rightarrow> if ic_onboarding_enabled cfg
                              then w2\<lparr>iw_onboarding := onboard org (re_trace e) (re_id e) (map_option na_id a) (iw_onboarding w2)\<rparr>
                              else w2
                          | None \<Rightarrow> w2)
                in ((g1, w3), Inr (ev, a)))))"

subsection \<open>Alert rows\<close>

text \<open>Every stored alert sits under the identifier of its tenant, surface and bucket, once.\<close>

definition rows_named :: "(string \<Rightarrow> uuid) \<Rightarrow> (uuid \<Rightarrow> string) \<Rightarrow> (org_id \<times> alert) list \<Rightarrow> bool" where
  "rows_named uuid5 str_of rows \<longleftrightarrow> distinct (map (na_id \<circ> snd) rows) \<and>
     (\<forall>(o', b) \<in> set rows. na_id b = uuid5 (alert_name str_of (Some o') (na_key b) (na_bucket b)))"

definition plain_ids :: "(string \<Rightarrow> uuid) \<Rightarrow> (uuid \<Rightarrow> string) \<Rightarrow> bool" where
  "plain_ids uuid5 str_of \<longleftrightarrow> inj uuid5 \<and> inj str_of \<and> (\<forall>i. CHR '':'' \<notin> set (str_of i))"

lemma alert_name_org:
  assumes "plain_ids uuid5 str_of" and "alert_name str_of (Some o1) k1 b1 = alert_name str_of (Some o2) k2 b2"
  shows "o1 = o2 \<and> k1 = k2 \<and> b1 = b2"
proof -
  have s: "str_of o1 @ CHR '':'' # k1 = str_of o2 @ CHR '':'' # k2 \<and> int_str b1 = int_str b2"
    using split_last_sep [of "str_of o1 @ CHR '':'' # k1" "CHR '':''" "int_str b1" "str_of o2 @ CHR '':'' # k2" "int_str b2"]
      assms(2) colon_not_int_str by (simp add: alert_name_def org_text_def)
  then have "str_of o1 = str_of o2 \<and> k1 = k2"
    using split_first_sep [of "str_of o1" "CHR '':''" k1 "str_of o2" k2] assms(1) by (simp add: plain_ids_def)
  then show ?thesis using s assms(1) int_str_inj by (auto simp: plain_ids_def dest: injD)
qed

definition row_total :: "(org_id \<times> alert) list \<Rightarrow> nat" where
  "row_total rows = sum_list (map (na_count \<circ> snd) rows)"

definition other_rows :: "org_id \<Rightarrow> (org_id \<times> alert) list \<Rightarrow> (org_id \<times> alert) list" where
  "other_rows org rows = filter (\<lambda>(o', b). o' \<noteq> org) rows"

lemma candidate_named:
  assumes "snd (ingest uuid5 str_of (Some org) cfg hs tw ev []) = Inr (Some c)"
  shows "na_id c = uuid5 (alert_name str_of (Some org) (na_key c) (na_bucket c)) \<and> na_count c = 1 \<and>
    na_trace c = re_trace ev \<and> na_decoy c = re_decoy ev \<and> na_key c = alert_key str_of ev \<and> na_evidence c \<noteq> [] \<and>
    na_first c = re_time ev \<and> na_last c = re_time ev"
proof -
  obtain alerts' where i: "ingest uuid5 str_of (Some org) cfg hs tw ev [] = (alerts', Inr (Some c))"
    using assms by (metis prod.collapse)
  then show ?thesis
  proof (cases rule: ingest_cases)
    case (create e)
    then show ?thesis using create_alert_Inr [OF create(2)] by (auto simp: create_alert_def Let_def split: if_splits)
  qed (simp add: matching_alert_def)
qed

lemma combine_keeps [simp]: "na_id (combine_alerts a b) = na_id a" "na_key (combine_alerts a b) = na_key a"
  "na_bucket (combine_alerts a b) = na_bucket a" "na_count (combine_alerts a b) = na_count a + na_count b"
  by (simp_all add: combine_alerts_def)

lemma merge_rows:
  assumes "distinct (map (na_id \<circ> snd) rows)" and "(o1, b) \<in> set rows" and "na_id b = i" and "na_id m = i"
  shows "map (na_id \<circ> snd) (map (\<lambda>(o2, x). if na_id x = i then (o2, m) else (o2, x)) rows) = map (na_id \<circ> snd) rows"
    "row_total (map (\<lambda>(o2, x). if na_id x = i then (o2, m) else (o2, x)) rows) + na_count b = row_total rows + na_count m"
    "set (map (\<lambda>(o2, x). if na_id x = i then (o2, m) else (o2, x)) rows) \<subseteq> insert (o1, m) (set rows)"
  using assms
proof (induction rows)
  case (Cons r rows)
  obtain o3 y where r: "r = (o3, y)" by (cases r)
  let ?f = "map (\<lambda>(o2, x). if na_id x = i then (o2, m) else (o2, x))"
  {
    case 1
    show ?case using assms(4) by (auto simp: comp_def split: prod.splits)
  next
    case 2
    show ?case
    proof (cases "na_id y = i")
      case True
      then have no: "\<forall>(o2, x) \<in> set rows. na_id x \<noteq> i" using 2(1) r by (force simp: image_iff)
      then have "?f rows = rows" by (induction rows) auto
      moreover have "y = b" using 2(2,3) no r by auto
      ultimately show ?thesis using True r by (simp add: row_total_def)
    next
      case False
      then have "(o1, b) \<in> set rows" using 2(2,3) r by auto
      then show ?thesis using Cons.IH(2) 2 r False by (simp add: row_total_def)
    qed
  next
    case 3
    show ?case
    proof (cases "na_id y = i")
      case True
      then have no: "\<forall>(o2, x) \<in> set rows. na_id x \<noteq> i" using 3(1) r by (force simp: image_iff)
      then have "?f rows = rows" by (induction rows) auto
      moreover have "(o3, y) = (o1, b)" using 3(2,3) no r by auto
      ultimately show ?thesis using True r by auto
    next
      case False
      then have "(o1, b) \<in> set rows" using 3(2,3) r by auto
      then show ?thesis using Cons.IH(3) 3 r False by auto
    qed
  }
qed simp_all

lemma upsert_named:
  assumes "plain_ids uuid5 str_of" and "rows_named uuid5 str_of (pd_alerts db)"
    and "na_id c = uuid5 (alert_name str_of (Some org) (na_key c) (na_bucket c))"
  shows "upsert_alert_atomic sz org c db \<noteq> Inl NoResultFound \<and>
    (\<forall>db' a. upsert_alert_atomic sz org c db = Inr (db', a) \<longrightarrow>
      (\<exists>rows. db' = db\<lparr>pd_alerts := rows\<rparr> \<and> rows_named uuid5 str_of rows \<and> other_rows org rows = other_rows org (pd_alerts db) \<and>
        row_total rows = row_total (pd_alerts db) + na_count c \<and> (org, a) \<in> set rows \<and> na_id a = na_id c))"
proof (cases "alert_conflict org c (pd_alerts db)")
  case False
  then have "na_id c \<notin> na_id ` snd ` set (pd_alerts db)"
    by (auto simp: alert_conflict_def list_ex_iff)
  then have "rows_named uuid5 str_of (pd_alerts db @ [(org, c)])"
    using assms(2,3) by (auto simp: rows_named_def image_comp)
  then show ?thesis
    using False by (auto simp: upsert_alert_atomic_def other_rows_def row_total_def)
next
  case True
  have named: "(o', b) \<in> set (pd_alerts db) \<Longrightarrow> na_id b = uuid5 (alert_name str_of (Some o') (na_key b) (na_bucket b))" for o' b
    using assms(2) by (auto simp: rows_named_def)
  have same: "o' = org \<and> na_key b = na_key c \<and> na_bucket b = na_bucket c"
    if "(o', b) \<in> set (pd_alerts db)" "na_id b = na_id c" for o' b
  proof -
    have "uuid5 (alert_name str_of (Some o') (na_key b) (na_bucket b)) = uuid5 (alert_name str_of (Some org) (na_key c) (na_bucket c))"
      using named [OF that(1)] that(2) assms(3) by simp
    then have "alert_name str_of (Some o') (na_key b) (na_bucket b) = alert_name str_of (Some org) (na_key c) (na_bucket c)"
      using assms(1) by (auto simp: plain_ids_def dest: injD)
    then show ?thesis by (rule alert_name_org [OF assms(1)])
  qed
  obtain o0 b0 where "(o0, b0) \<in> set (pd_alerts db)"
      "na_id b0 = na_id c \<or> (o0 = org \<and> na_key b0 = na_key c \<and> na_bucket b0 = na_bucket c)"
    using True by (auto simp: alert_conflict_def list_ex_iff)
  then have "na_id b0 = na_id c" using named assms(3) by metis
  then have "find (\<lambda>(o', b). na_id b = na_id c) (pd_alerts db) \<noteq> None"
    using \<open>(o0, b0) \<in> set (pd_alerts db)\<close> by (auto simp: find_None_iff)
  then obtain o1 b where f: "find (\<lambda>(o', b). na_id b = na_id c) (pd_alerts db) = Some (o1, b)" by auto
  then have b: "(o1, b) \<in> set (pd_alerts db)" "na_id b = na_id c"
    using find_Some_mem [OF f] by simp_all
  have org: "o1 = org" using same [OF b] by simp
  let ?m = "combine_alerts b c"
  let ?rows = "map (\<lambda>(o2, x). if na_id x = na_id c then (o2, ?m) else (o2, x)) (pd_alerts db)"
  have d: "distinct (map (na_id \<circ> snd) (pd_alerts db))" using assms(2) by (simp add: rows_named_def)
  note mr = merge_rows [OF d b, of ?m]
  have ids: "map (na_id \<circ> snd) ?rows = map (na_id \<circ> snd) (pd_alerts db)" using mr(1) b(2) by simp
  have sub: "set ?rows \<subseteq> insert (org, ?m) (set (pd_alerts db))" using mr(3) b(2) org by simp
  have "rows_named uuid5 str_of ?rows"
    unfolding rows_named_def ids using d sub named same [OF b] b by fastforce
  moreover have "other_rows org ?rows = other_rows org (pd_alerts db)"
  proof -
    have "filter (\<lambda>(o', b). o' \<noteq> org) (map (\<lambda>(o2, x). if na_id x = na_id c then (o2, ?m) else (o2, x)) rs) =
        filter (\<lambda>(o', b). o' \<noteq> org) rs" if "set rs \<subseteq> set (pd_alerts db)" for rs
      using that
    proof (induction rs)
      case (Cons r rs)
      then show ?case using same by (cases r) auto
    qed simp
    then show ?thesis by (simp add: other_rows_def)
  qed
  moreover have "row_total ?rows = row_total (pd_alerts db) + na_count c" using mr(2) b(2) by simp
  moreover have "(org, ?m) \<in> set ?rows" using b org by force
  moreover have "na_id ?m = na_id c" using b(2) by simp
  moreover have "upsert_alert_atomic sz org c db \<noteq> Inl NoResultFound"
    and "upsert_alert_atomic sz org c db = Inr (db', a) \<Longrightarrow> db' = db\<lparr>pd_alerts := ?rows\<rparr> \<and> a = ?m" for db' a
    using True f by (auto simp: upsert_alert_atomic_def Let_def split: if_splits)
  ultimately show ?thesis by blast
qed

lemma of_model_Inr [simp]: "of_model r = Inr a \<longleftrightarrow> r = Inr a"
  by (cases r) (simp_all add: of_model_def)

lemma ingest_event_Inr:
  assumes "ingest_event env j now org plan surface location payload db = Inr (db', ev, a)"
  obtains (quiet) "db' = db" "ev = None" "a = None"
  | (event) assets reports m e where
      "map_of (pd_plans db) (org, plan) = Some assets"
      "snd (scan_text (de_sha env) (de_uuid5 env) (de_str env) now payload location m (fst (register_assets reports assets new_engine))) = Inr (Some e)"
      "ev = Some e"
      "store_alert env j org e (db\<lparr>pd_events := AList.update (re_id e) (org, e) (pd_events db)\<rparr>) = Inr (db', a)"
  using assms
  by (auto simp: ingest_event_def Let_def guard_simps add_detection_event_def split: option.splits if_splits)

lemma store_alert_Inr:
  assumes "store_alert env j org e db = Inr (db', a)"
  obtains (none) "db' = db" "a = None"
  | (stored) c db2 a' where
      "snd (ingest (de_uuid5 env) (de_str env) (Some org) default_alerting [] None e []) = Inr (Some c)"
      "upsert_alert_atomic (de_size env) org c db = Inr (db2, a')" "a = Some a'"
      "db' = enqueue_reconstruction j org a' reconstruction_window db2"
  using assms by (auto simp: store_alert_def guard_simps split: option.splits)

lemma ingestion_counts_sightings_lemma:
  assumes "plain_ids (de_uuid5 env) (de_str env)" and "rows_named (de_uuid5 env) (de_str env) (pd_alerts db)"
    and "ingest_event env j now org plan surface location payload db = Inr (db', ev, a)"
  shows "rows_named (de_uuid5 env) (de_str env) (pd_alerts db') \<and>
    other_rows org (pd_alerts db') = other_rows org (pd_alerts db) \<and>
    row_total (pd_alerts db') = row_total (pd_alerts db) + (if a = None then 0 else 1) \<and>
    pd_incidents db' = pd_incidents db \<and>
    pd_events db' = (case ev of None \<Rightarrow> pd_events db | Some e \<Rightarrow> AList.update (re_id e) (org, e) (pd_events db)) \<and>
    (case a of None \<Rightarrow> pd_jobs db' = pd_jobs db
     | Some al \<Rightarrow> (org, al) \<in> set (pd_alerts db') \<and> (\<exists>job. pd_jobs db' = pd_jobs db @ [job] \<and> rj_org job = org \<and> pending_job job))"
  using assms(3)
proof (cases rule: ingest_event_Inr)
  case quiet
  then show ?thesis using assms(2) by simp
next
  case (event assets reports m e)
  let ?db1 = "db\<lparr>pd_events := AList.update (re_id e) (org, e) (pd_events db)\<rparr>"
  from event(4) show ?thesis
  proof (cases rule: store_alert_Inr)
    case none
    then show ?thesis using assms(2) event(3) by simp
  next
    case (stored c db2 a')
    have n: "rows_named (de_uuid5 env) (de_str env) (pd_alerts ?db1)" using assms(2) by simp
    note cn = candidate_named [OF stored(1)]
    obtain rows where rows: "db2 = ?db1\<lparr>pd_alerts := rows\<rparr>" "rows_named (de_uuid5 env) (de_str env) rows"
        "other_rows org rows = other_rows org (pd_alerts db)" "row_total rows = row_total (pd_alerts db) + 1"
        "(org, a') \<in> set rows"
      using upsert_named [OF assms(1) n cn [THEN conjunct1], of "de_size env"] stored(2) cn by auto
    show ?thesis using rows stored(3,4) event(3) by (simp add: enqueue_reconstruction_def pending_job_def)
  qed
qed

text \<open>
  C5. Ingestion counts every sighting, and touches no alert, incident or job of another tenant: with
  identifiers that do not collide, from tables whose alerts sit under their own identifiers, a successful
  ingestion keeps that invariant, leaves every other tenant's alerts and all incidents as they are, raises the
  sum of event counts by one exactly when it answers with an alert, and then appends one pending job of the same
  tenant. In the event table it writes exactly the row under the id of the detected event, as a row of the caller's
  tenant; that id does not depend on the tenant, see \<open>event_row_changes_tenant\<close>.
\<close>

theorem ingestion_counts_sightings:
  assumes "plain_ids (de_uuid5 env) (de_str env)" and "rows_named (de_uuid5 env) (de_str env) (pd_alerts db)"
    and "ingest_event env j now org plan surface location payload db = Inr (db', ev, a)"
  shows "rows_named (de_uuid5 env) (de_str env) (pd_alerts db') \<and>
    other_rows org (pd_alerts db') = other_rows org (pd_alerts db) \<and>
    row_total (pd_alerts db') = row_total (pd_alerts db) + (if a = None then 0 else 1) \<and>
    pd_incidents db' = pd_incidents db \<and>
    pd_events db' = (case ev of None \<Rightarrow> pd_events db | Some e \<Rightarrow> AList.update (re_id e) (org, e) (pd_events db)) \<and>
    (case a of None \<Rightarrow> pd_jobs db' = pd_jobs db
     | Some al \<Rightarrow> (org, al) \<in> set (pd_alerts db') \<and> (\<exists>job. pd_jobs db' = pd_jobs db @ [job] \<and> rj_org job = org \<and> pending_job job))"
  by (rule ingestion_counts_sightings_lemma [OF assms])

definition demo_detect :: "(string \<Rightarrow> uuid) \<Rightarrow> detect_env" where
  "demo_detect u = \<lparr>de_sha = \<lambda>s. s, de_uuid5 = u, de_str = nat_str, de_size = no_size_limit\<rparr>"

definition demo_plan_asset :: mon_asset where
  "demo_plan_asset = \<lparr>as_decoy_id = 3, as_decoy_type = ''document'', as_target_location = ''docs/a.md'',
     as_real_credentials = False, as_real_customer_data = False, as_auth_capability = ''none'', as_collision = False,
     as_trace = ''DF-A1'', as_placement = 4, as_template = ''t''\<rparr>"

definition demo_pipe_db :: pipe_db where
  "demo_pipe_db = \<lparr>pd_events = [], pd_alerts = [], pd_jobs = [], pd_incidents = [],
     pd_plans = [((7, 8), [demo_plan_asset])], pd_reports = [((7, 8), [\<lparr>rp_decoy_id = 3, rp_decision = ACCEPT\<rparr>])]\<rparr>"

definition demo_ingest where
  "demo_ingest u = ingest_event (demo_detect u) 11 5 7 8 ''file'' ''x.txt'' ''see DF-A1 here'' demo_pipe_db"

definition demo_ingested :: "(string \<Rightarrow> uuid) \<Rightarrow> pipe_db" where
  "demo_ingested u = fst (projr (demo_ingest u))"

definition demo_alert :: "(string \<Rightarrow> uuid) \<Rightarrow> alert" where
  "demo_alert u = the (snd (snd (projr (demo_ingest u))))"

lemma demo_ingest_ok:
  "is_ok (demo_ingest u)" "snd (snd (projr (demo_ingest u))) \<noteq> None"
  by code_simp+

lemma demo_ingest_eq:
  "ingest_event (demo_detect u) 11 5 7 8 ''file'' ''x.txt'' ''see DF-A1 here'' demo_pipe_db =
   Inr (demo_ingested u, fst (snd (projr (demo_ingest u))), Some (demo_alert u))"
  using demo_ingest_ok [of u]
  unfolding demo_ingested_def demo_alert_def demo_ingest_def [symmetric] by (auto simp: is_ok_iff)

lemma nat_str_plain: "plain_ids to_nat nat_str"
  using nat_str_inj nat_str_digits [of "CHR '':''"] by (auto simp: plain_ids_def inj_def)

theorem ingestion_counts_sightings_witness:
  "row_total (pd_alerts (demo_ingested to_nat)) = 1"
proof -
  have 1: "plain_ids (de_uuid5 (demo_detect to_nat)) (de_str (demo_detect to_nat))"
    by (simp add: demo_detect_def nat_str_plain)
  have 2: "rows_named (de_uuid5 (demo_detect to_nat)) (de_str (demo_detect to_nat)) (pd_alerts demo_pipe_db)"
    by (simp add: rows_named_def demo_pipe_db_def)
  show ?thesis
    using ingestion_counts_sightings [OF 1 2 demo_ingest_eq] by (simp add: demo_pipe_db_def row_total_def)
qed

text \<open>
  The event table alone is not separated by tenant: the event id is derived from the trace, the surface, the
  location and the time, so an ingestion that detects the same event for a second tenant takes the row over.
\<close>

definition foreign_pipe_db :: "(string \<Rightarrow> uuid) \<Rightarrow> pipe_db" where
  "foreign_pipe_db u = demo_pipe_db\<lparr>pd_events := map (\<lambda>(i, o', e). (i, 9, e)) (pd_events (demo_ingested u))\<rparr>"

lemma event_row_changes_tenant:
  "map (\<lambda>(i, o', e). o') (pd_events (foreign_pipe_db length)) = [9] \<and>
   map (\<lambda>(i, o', e). o') (pd_events (fst (projr (ingest_event (demo_detect length) 11 5 7 8 ''file'' ''x.txt''
     ''see DF-A1 here'' (foreign_pipe_db length))))) = [7]"
  by code_simp

subsection \<open>From a sighting to an incident\<close>

lemma merge_incident_row: "(org, i) \<in> set (merge_incident org i rows)"
  by (force simp: merge_incident_def list_ex_iff image_iff)

lemma merge_incident_other: "r \<in> set rows \<Longrightarrow> ic_id (snd r) \<noteq> ic_id i \<Longrightarrow> r \<in> set (merge_incident org i rows)"
  by (cases r) (force simp: merge_incident_def)

lemma upsert_incidents_others:
  "list_all (sz_incident sz) is \<Longrightarrow> r \<in> set (pd_incidents db) \<Longrightarrow> ic_id (snd r) \<notin> ic_id ` set is \<Longrightarrow>
   r \<in> set (pd_incidents (fst (upsert_incidents sz org is db)))"
  by (induction "is" arbitrary: db) (auto simp: merge_incident_other)

lemma upsert_incidents_ok: "list_all (sz_incident sz) is \<Longrightarrow> snd (upsert_incidents sz org is db) = Inr ()"
  by (induction "is" arbitrary: db) auto

lemma upsert_incidents_append:
  "list_all (sz_incident sz) xs \<Longrightarrow> upsert_incidents sz org (xs @ ys) db =
     upsert_incidents sz org ys (fst (upsert_incidents sz org xs db))"
  by (induction xs arbitrary: db) auto

lemma upsert_incidents_row:
  assumes "list_all (sz_incident sz) (xs @ i # ys)" and "ic_id i \<notin> ic_id ` set ys"
  shows "(org, i) \<in> set (pd_incidents (fst (upsert_incidents sz org (xs @ i # ys) db)))"
  using assms by (simp add: upsert_incidents_append upsert_incidents_others merge_incident_row)

text \<open>
  C6. A sighting reaches an incident: when an ingestion answered with an alert, every stored alert is
  well formed and its trace has no colon, at most 1000 alerts are related to the new job, and the worker's size
  limits admit them, its grouping window is at least the hour of the job and its identities do not collide,
  then processing the job the ingestion enqueued marks it done and leaves in the incident table a row of
  the tenant whose incident lists the alert: no other incident of the same job overwrites it.
\<close>

theorem sighting_reaches_incident:
  assumes "plain_ids (de_uuid5 env) (de_str env)" and "rows_named (de_uuid5 env) (de_str env) (pd_alerts db)"
    and "ingest_event env j now org plan surface location payload db = Inr (db', ev, Some al)"
    and "list_all (\<lambda>(o', b). well_formed b \<and> na_first b \<le> na_last b \<and> CHR '':'' \<notin> set (na_trace b)) (pd_alerts db')"
    and "length (filter (alert_related org (last (pd_jobs db'))) (pd_alerts db')) \<le> related_limit"
    and "reconstruction_window \<le> ig_window (we_config we)" and "related_limit \<le> ig_max_alerts (we_config we)"
    and "sz_incident (we_size we) = (\<lambda>_. True)" and "inj (we_uuid5 we)"
  shows "(\<exists>ic. (org, ic) \<in> set (pd_incidents (process_job we (last (pd_jobs db')) db')) \<and> na_id al \<in> set (ic_alerts ic)) \<and>
    pd_jobs (process_job we (last (pd_jobs db')) db') = pd_jobs (complete_rjob (rj_id (last (pd_jobs db'))) True db')"
proof -
  let ?job = "last (pd_jobs db')"
  from assms(3) obtain e where st: "store_alert env j org e (db\<lparr>pd_events := AList.update (re_id e) (org, e) (pd_events db)\<rparr>) = Inr (db', Some al)"
    by (cases rule: ingest_event_Inr) auto
  from st have job: "rj_org ?job = org" "rj_trace ?job = na_trace al" "rj_start ?job = na_first al - seconds 3600"
      "rj_end ?job = na_last al + seconds 3600"
    by (cases rule: store_alert_Inr; simp add: enqueue_reconstruction_def reconstruction_window_def)+
  have al: "(org, al) \<in> set (pd_alerts db')"
    using ingestion_counts_sightings_lemma [OF assms(1-3)] by simp
  then have "na_first al \<le> na_last al" using assms(4) by (auto simp: list_all_iff)
  then have rel: "alert_related org ?job (org, al)" using job by (simp add: alert_related_def)
  let ?rel = "related_alerts ?job db'"
  have rl: "?rel = map snd (filter (alert_related org ?job) (pd_alerts db'))"
    using assms(5) by (simp add: related_alerts_def job(1) last_n_all)
  have mem: "al \<in> set ?rel" using al rel rl by force
  have wf: "list_all well_formed ?rel" using assms(4) rl by (auto simp: list_all_iff)
  have len: "length ?rel \<le> ig_max_alerts (we_config we)" using assms(5,7) rl by simp
  have w: "ig_window (we_config we) \<noteq> 0" using assms(6) by (simp add: reconstruction_window_def)
  obtain incs where incs: "reconstruct (we_uuid5 we) (we_str we) (we_config we) (Some org) ?rel = Inr incs"
    using reconstruct_total_lemma [OF wf w len, of "we_uuid5 we" "we_str we" "Some org"] by blast
  have late: "\<forall>a \<in> set ?rel. na_first a \<le> na_last al + seconds (ig_window (we_config we)) \<and> CHR '':'' \<notin> set (na_trace a)"
    using assms(4,6) job(4) rl by (fastforce simp: list_all_iff alert_related_def reconstruction_window_def)
  have "mset (concat (group_alerts (we_config we) ?rel)) = mset ?rel"
    using concat_fold_place [of "we_config we" "considered (we_config we) ?rel" "[]"] mset_considered [of ?rel "we_config we"] len
    by (simp add: group_alerts_def)
  then have "al \<in> set (concat (group_alerts (we_config we) ?rel))" using mem by (metis mset_eq_setD)
  then obtain xs ic ys where ic: "incs = xs @ ic # ys" "na_id al \<in> set (ic_alerts ic)" "ic_id ic \<notin> ic_id ` set ys"
    by (rule kept_identity [OF incs assms(9) late])
  have fits: "list_all (sz_incident (we_size we)) incs" using assms(8) by (simp add: list_all_iff)
  obtain db1 where db1: "upsert_incidents (we_size we) org incs db' = (db1, Inr ())"
    using upsert_incidents_ok [OF fits, of org db'] by (metis prod.collapse)
  have row: "(org, ic) \<in> set (pd_incidents db1)"
    using upsert_incidents_row [of "we_size we" xs ic ys org db'] fits ic(1,3) db1 by simp
  have "process_job we ?job db' = complete_rjob (rj_id ?job) True db1"
    using mem incs db1 job(1) by (auto simp: process_job_def Let_def)
  then show ?thesis using row ic(2) upsert_jobs' [OF db1] by (auto simp: complete_rjob_def)
qed

definition named_env :: worker_env where
  "named_env = demo_env\<lparr>we_uuid5 := to_nat\<rparr>"

theorem sighting_reaches_incident_witness:
  "\<exists>ic. (7, ic) \<in> set (pd_incidents (process_job named_env (last (pd_jobs (demo_ingested to_nat))) (demo_ingested to_nat))) \<and>
     na_id (demo_alert to_nat) \<in> set (ic_alerts ic)"
proof -
  have 1: "plain_ids (de_uuid5 (demo_detect to_nat)) (de_str (demo_detect to_nat))"
    by (simp add: demo_detect_def nat_str_plain)
  have 2: "rows_named (de_uuid5 (demo_detect to_nat)) (de_str (demo_detect to_nat)) (pd_alerts demo_pipe_db)"
    by (simp add: rows_named_def demo_pipe_db_def)
  have 3: "list_all (\<lambda>(o', b). well_formed b \<and> na_first b \<le> na_last b \<and> CHR '':'' \<notin> set (na_trace b)) (pd_alerts (demo_ingested u))"
    "length (filter (alert_related 7 (last (pd_jobs (demo_ingested u)))) (pd_alerts (demo_ingested u))) \<le> related_limit" for u
    by code_simp+
  have 4: "reconstruction_window \<le> ig_window (we_config named_env)" "related_limit \<le> ig_max_alerts (we_config named_env)"
    "sz_incident (we_size named_env) = (\<lambda>_. True)" "inj (we_uuid5 named_env)"
    by (simp_all add: named_env_def demo_env_def default_incident_config_def no_size_limit_def related_limit_def
        reconstruction_window_def)
  show ?thesis using sighting_reaches_incident [OF 1 2 demo_ingest_eq 3 4] by blast
qed

end
