(* ===== verification/Failover.thy ===== *)
theory Failover
  imports Lifecycle Access
begin

text \<open>
  The failover control plane: region fencing (\<open>services/reliability/fencing.py\<close>), the closed failover
  state machine (\<open>models/domain/reliability.py\<close>), its event log (\<open>repositories/reliability.py\<close>), the
  service (\<open>services/reliability/failover.py\<close>) and the three endpoints of \<open>api/reliability.py\<close>.
  The current state is the target of the event with the latest \<open>created_at\<close>; events are appended with
  the clock, so that event is the last of the list.
\<close>

subsection \<open>Roles, settings and fencing\<close>

datatype cluster_role = PrimaryRole | StandbyRole | RecoveryRole

record rel_settings =
  rs_region :: string
  rs_cluster :: string
  rs_role :: cluster_role
  rs_epoch :: nat
  rs_maintenance :: bool
  rs_schedulers :: bool
  rs_side_effects :: bool
  rs_requires_approval :: bool

datatype fence_error = RegionFenced string | StaleEpoch nat nat

definition active_write_region :: "rel_settings \<Rightarrow> bool" where
  "active_write_region cfg \<longleftrightarrow> rs_role cfg = PrimaryRole"

definition may_write :: "rel_settings \<Rightarrow> bool" where
  "may_write cfg \<longleftrightarrow> active_write_region cfg \<and> \<not> rs_maintenance cfg"

definition require_writes :: "rel_settings \<Rightarrow> fence_error + unit" where
  "require_writes cfg =
     (if rs_maintenance cfg then Inl (RegionFenced ''maintenance mode: writes are disabled'')
      else if \<not> active_write_region cfg then Inl (RegionFenced ''this region is not the active write region'')
      else Inr ())"

definition require_side_effects :: "rel_settings \<Rightarrow> fence_error + unit" where
  "require_side_effects cfg =
     and_then (require_writes cfg) (\<lambda>_.
       if \<not> rs_side_effects cfg then Inl (RegionFenced ''external side effects are disabled on this region'')
       else Inr ())"

definition scheduler_allowed :: "rel_settings \<Rightarrow> bool" where
  "scheduler_allowed cfg \<longleftrightarrow> rs_schedulers cfg \<and> active_write_region cfg \<and> \<not> rs_maintenance cfg"

definition check_epoch :: "rel_settings \<Rightarrow> nat \<Rightarrow> fence_error + unit" where
  "check_epoch cfg claimed = (if claimed < rs_epoch cfg then Inl (StaleEpoch claimed (rs_epoch cfg)) else Inr ())"

lemma require_writes_ok: "require_writes cfg = Inr u \<longleftrightarrow> may_write cfg"
  by (auto simp: require_writes_def may_write_def)

lemma side_effects_ok: "require_side_effects cfg = Inr u \<longleftrightarrow> may_write cfg \<and> rs_side_effects cfg"
  by (auto simp: require_side_effects_def require_writes_ok and_then_Inr_iff)

lemma scheduler_allowed_iff: "scheduler_allowed cfg \<longleftrightarrow> may_write cfg \<and> rs_schedulers cfg"
  by (auto simp: scheduler_allowed_def may_write_def)

subsection \<open>The state machine\<close>

datatype failover_state = Normal | Degraded | FailoverRequested | PrimaryFenced | StandbyPromoting
  | SecondaryActive | RecoveryValidation | FailbackPending | NormalRestored

fun fo_value :: "failover_state \<Rightarrow> string" where
  "fo_value Normal = ''normal''"
| "fo_value Degraded = ''degraded''"
| "fo_value FailoverRequested = ''failover_requested''"
| "fo_value PrimaryFenced = ''primary_fenced''"
| "fo_value StandbyPromoting = ''standby_promoting''"
| "fo_value SecondaryActive = ''secondary_active''"
| "fo_value RecoveryValidation = ''recovery_validation''"
| "fo_value FailbackPending = ''failback_pending''"
| "fo_value NormalRestored = ''normal_restored''"

fun fo_table :: "failover_state \<Rightarrow> failover_state list" where
  "fo_table Normal = [Degraded, FailoverRequested]"
| "fo_table Degraded = [Normal, FailoverRequested]"
| "fo_table FailoverRequested = [PrimaryFenced, Normal]"
| "fo_table PrimaryFenced = [StandbyPromoting]"
| "fo_table StandbyPromoting = [SecondaryActive]"
| "fo_table SecondaryActive = [RecoveryValidation]"
| "fo_table RecoveryValidation = [FailbackPending, SecondaryActive]"
| "fo_table FailbackPending = [NormalRestored]"
| "fo_table NormalRestored = [Normal]"

datatype failover_error = FailoverError nat string

definition fo_can :: "failover_state \<Rightarrow> failover_state \<Rightarrow> bool" where
  "fo_can current target \<longleftrightarrow> target \<in> set (fo_table current)"

definition fo_message :: "failover_state \<Rightarrow> failover_state \<Rightarrow> string" where
  "fo_message current target = ''illegal failover transition '' @ fo_value current @ '' -> '' @ fo_value target"

definition fo_assert :: "failover_state \<Rightarrow> failover_state \<Rightarrow> failover_error + unit" where
  "fo_assert current target =
     (if \<not> fo_can current target then Inl (FailoverError 409 (fo_message current target)) else Inr ())"

interpretation fo_lc: lifecycle fo_table fo_can fo_assert "\<lambda>s t. FailoverError 409 (fo_message s t)"
  by unfold_locales (auto simp: fo_can_def fo_assert_def)

lemma fo_gates [enum_simps]:
  "PrimaryFenced \<in> set (fo_table s) \<Longrightarrow> s \<in> {FailoverRequested}"
  "StandbyPromoting \<in> set (fo_table s) \<Longrightarrow> s \<in> {PrimaryFenced}"
  "SecondaryActive \<in> set (fo_table s) \<Longrightarrow> s \<in> {StandbyPromoting, RecoveryValidation}"
  "RecoveryValidation \<in> set (fo_table s) \<Longrightarrow> s \<in> {SecondaryActive}"
  "FailbackPending \<in> set (fo_table s) \<Longrightarrow> s \<in> {RecoveryValidation}"
  by (cases s; simp)+

subsection \<open>Events and the service\<close>

record failover_event =
  fe_from :: failover_state
  fe_to :: failover_state
  fe_region :: string
  fe_cluster :: string
  fe_epoch :: nat
  fe_requested_by :: "uuid option"
  fe_approved_by :: "uuid option"
  fe_reason :: string

definition current_state :: "failover_event list \<Rightarrow> failover_state" where
  "current_state es = (if es = [] then Normal else fe_to (last es))"

definition latest_request :: "failover_event list \<Rightarrow> failover_event option" where
  "latest_request es = find (\<lambda>e. fe_to e = FailoverRequested) (rev es)"

definition record_transition ::
  "failover_state \<Rightarrow> failover_state \<Rightarrow> rel_settings \<Rightarrow> uuid option \<Rightarrow> uuid option \<Rightarrow> string \<Rightarrow>
   failover_event list \<Rightarrow> failover_event list" where
  "record_transition s t cfg requested approved reason es =
     es @ [\<lparr>fe_from = s, fe_to = t, fe_region = take 64 (rs_region cfg), fe_cluster = take 64 (rs_cluster cfg),
            fe_epoch = rs_epoch cfg, fe_requested_by = requested, fe_approved_by = approved, fe_reason = take 512 reason\<rparr>]"

definition fo_transition ::
  "rel_settings \<Rightarrow> failover_state \<Rightarrow> uuid option \<Rightarrow> uuid option \<Rightarrow> string \<Rightarrow> failover_event list \<Rightarrow>
   failover_error + failover_event list \<times> failover_state" where
  "fo_transition cfg target requested approved reason es =
     (let current = current_state es in
      and_then (fo_assert current target) (\<lambda>_.
        Inr (record_transition current target cfg requested approved reason es, target)))"

definition request_failover ::
  "rel_settings \<Rightarrow> uuid option \<Rightarrow> string \<Rightarrow> failover_event list \<Rightarrow> failover_error + failover_event list \<times> failover_state" where
  "request_failover cfg actor reason es = fo_transition cfg FailoverRequested actor None reason es"

definition same_operator :: "rel_settings \<Rightarrow> uuid option \<Rightarrow> failover_event \<Rightarrow> bool" where
  "same_operator cfg actor request \<longleftrightarrow>
     rs_requires_approval cfg \<and> actor \<noteq> None \<and> fe_requested_by request \<noteq> None \<and> actor = fe_requested_by request"

definition approve_failover ::
  "rel_settings \<Rightarrow> uuid option \<Rightarrow> string \<Rightarrow> failover_event list \<Rightarrow> failover_error + failover_event list \<times> failover_state" where
  "approve_failover cfg actor reason es =
     (case latest_request es of
        None \<Rightarrow> Inl (FailoverError 409 ''no pending failover request'')
      | Some request \<Rightarrow>
          if current_state es \<noteq> FailoverRequested then Inl (FailoverError 409 ''no pending failover request'')
          else if same_operator cfg actor request
          then Inl (FailoverError 403 ''a separate operator must approve the failover'')
          else fo_transition cfg PrimaryFenced (fe_requested_by request) actor reason es)"

definition advance_failover ::
  "rel_settings \<Rightarrow> failover_state \<Rightarrow> uuid option \<Rightarrow> string \<Rightarrow> failover_event list \<Rightarrow>
   failover_error + failover_event list \<times> failover_state" where
  "advance_failover cfg target actor reason es = fo_transition cfg target None actor reason es"

subsection \<open>Endpoints\<close>

record rel_audit =
  ra_actor :: "uuid option"
  ra_event :: string
  ra_metadata :: string

record 'd rel_world =
  rw_events :: "failover_event list"
  rw_drills :: "'d list"
  rw_audits :: "rel_audit list"

definition add_rel_audit :: "string \<Rightarrow> uuid option \<Rightarrow> string \<Rightarrow> 'd rel_world \<Rightarrow> 'd rel_world" where
  "add_rel_audit event actor meta w =
     w\<lparr>rw_audits := rw_audits w @ [\<lparr>ra_actor = actor, ra_event = event, ra_metadata = take 1024 meta\<rparr>]\<rparr>"

definition failover_answer ::
  "string \<Rightarrow> uuid option \<Rightarrow> (failover_state \<Rightarrow> string) \<Rightarrow> failover_error + failover_event list \<times> failover_state \<Rightarrow>
   'd rel_world \<Rightarrow> 'd rel_world \<times> (http_error + failover_state)" where
  "failover_answer event actor meta r w =
     (case r of
        Inl (FailoverError c m) \<Rightarrow> (w, Inl (HttpError c m))
      | Inr (es, s) \<Rightarrow> (add_rel_audit event actor (meta s) (w\<lparr>rw_events := es\<rparr>), Inr s))"

definition failover_request :: "rel_settings \<Rightarrow> auth_context \<Rightarrow> string \<Rightarrow> 'd rel_world \<Rightarrow> 'd rel_world \<times> (http_error + failover_state)" where
  "failover_request cfg auth reason w =
     failover_answer ''failover_requested'' (ctx_key_id auth) (\<lambda>_. []) (request_failover cfg (ctx_key_id auth) reason (rw_events w)) w"

definition failover_approve :: "rel_settings \<Rightarrow> auth_context \<Rightarrow> string \<Rightarrow> 'd rel_world \<Rightarrow> 'd rel_world \<times> (http_error + failover_state)" where
  "failover_approve cfg auth reason w =
     failover_answer ''failover_approved'' (ctx_key_id auth) (\<lambda>_. []) (approve_failover cfg (ctx_key_id auth) reason (rw_events w)) w"

definition failover_advance ::
  "rel_settings \<Rightarrow> auth_context \<Rightarrow> failover_state \<Rightarrow> string \<Rightarrow> 'd rel_world \<Rightarrow> 'd rel_world \<times> (http_error + failover_state)" where
  "failover_advance cfg auth target reason w =
     failover_answer ''failover_advanced'' (ctx_key_id auth) fo_value
       (advance_failover cfg target (ctx_key_id auth) reason (rw_events w)) w"

text \<open>One request to the control plane, by any operator, under any settings.\<close>

inductive failover_step :: "'d rel_world \<Rightarrow> 'd rel_world \<Rightarrow> bool" where
  request: "failover_request cfg auth reason w = (w', r) \<Longrightarrow> failover_step w w'"
| approve: "failover_approve cfg auth reason w = (w', r) \<Longrightarrow> failover_step w w'"
| advance: "failover_advance cfg auth target reason w = (w', r) \<Longrightarrow> failover_step w w'"

lemma step_request: "failover_step w (fst (failover_request cfg auth reason w))"
  and step_approve: "failover_step w (fst (failover_approve cfg auth reason w))"
  and step_advance: "failover_step w (fst (failover_advance cfg auth target reason w))"
  by (rule failover_step.intros, rule prod.collapse [symmetric])+

subsection \<open>The log is a run of the machine\<close>

fun chained :: "failover_state \<Rightarrow> failover_event list \<Rightarrow> bool" where
  "chained s [] = True"
| "chained s (e # es) = (fe_from e = s \<and> fo_can s (fe_to e) \<and> chained (fe_to e) es)"

lemma chained_append:
  "chained s (xs @ ys) \<longleftrightarrow> chained s xs \<and> chained (last (s # map fe_to xs)) ys"
  by (induction xs arbitrary: s) auto

lemma chained_run: "chained s es \<Longrightarrow> run_from fo_can s (map fe_to es)"
  by (induction es arbitrary: s) auto

lemma current_last: "current_state es = last (Normal # map fe_to es)"
  by (simp add: current_state_def last_map)

lemma fo_transition_Inr:
  "fo_transition cfg t rq ap reason es = Inr (es', s) \<longleftrightarrow>
     fo_can (current_state es) t \<and> s = t \<and> es' = record_transition (current_state es) t cfg rq ap reason es"
  by (auto simp: fo_transition_def Let_def and_then_Inr_iff fo_assert_def)

lemma fo_transition_chained:
  assumes "chained Normal es" and "fo_transition cfg t rq ap reason es = Inr (es', s)"
  shows "chained Normal es'"
  using assms by (auto simp: fo_transition_Inr record_transition_def chained_append current_last)

lemma failover_answer_chained:
  assumes "failover_answer ev a meta r w = (w', x)" and "chained Normal (rw_events w)"
    and "\<And>es s. r = Inr (es, s) \<Longrightarrow> chained Normal es"
  shows "chained Normal (rw_events w')"
  using assms by (auto simp: failover_answer_def add_rel_audit_def split: sum.splits failover_error.splits)

lemma failover_step_chained:
  assumes "failover_step w w'" and "chained Normal (rw_events w)"
  shows "chained Normal (rw_events w')"
  using assms
proof (cases rule: failover_step.cases)
  case (request cfg auth reason r)
  then show ?thesis
    using failover_answer_chained [OF _ assms(2)] fo_transition_chained [OF assms(2)]
    unfolding failover_request_def request_failover_def by blast
next
  case (approve cfg auth reason r)
  have "chained Normal es" if "approve_failover cfg (ctx_key_id auth) reason (rw_events w) = Inr (es, s)" for es s
    using that fo_transition_chained [OF assms(2)]
    by (auto simp: approve_failover_def split: option.splits if_splits)
  with approve show ?thesis
    using failover_answer_chained [OF _ assms(2)] unfolding failover_approve_def by blast
next
  case (advance cfg auth target reason r)
  then show ?thesis
    using failover_answer_chained [OF _ assms(2)] fo_transition_chained [OF assms(2)]
    unfolding failover_advance_def advance_failover_def by blast
qed

lemma reachable_chained:
  "rtranclp failover_step w w' \<Longrightarrow> chained Normal (rw_events w) \<Longrightarrow> chained Normal (rw_events w')"
  by (induction rule: rtranclp_induct) (auto intro: failover_step_chained)

lemma chained_before:
  assumes "chained Normal (xs @ e # ys)"
  shows "fe_from e = last (Normal # map fe_to xs)" "fo_can (fe_from e) (fe_to e)"
    "run_from fo_can Normal (map fe_to xs)"
  using assms chained_run [of Normal xs] by (auto simp: chained_append)

lemma gate_before:
  assumes "run_from fo_can Normal (map fe_to xs)" and "g \<in> set (Normal # map fe_to xs)" and "g \<noteq> Normal"
    and "\<And>s. g \<in> set (fo_table s) \<Longrightarrow> s \<in> G" and "Normal \<notin> G"
  shows "\<exists>h \<in> G. h \<in> set (map fe_to xs)"
  using fo_lc.gate_member [of g G Normal "map fe_to xs"] assms by auto

text \<open>The first activation of the second region comes from a promotion.\<close>

lemma secondary_after_promotion:
  assumes "run_from fo_can Normal ts" and "SecondaryActive \<in> set ts"
  shows "StandbyPromoting \<in> set ts"
proof -
  obtain as bs where ts: "ts = as @ SecondaryActive # bs" and new: "SecondaryActive \<notin> set as"
    using split_list_first [OF assms(2)] by blast
  have run: "run_from fo_can Normal as" and can: "fo_can (last (Normal # as)) SecondaryActive"
    using assms(1) unfolding ts by (auto simp: run_from_append)
  have "last (Normal # as) \<in> {StandbyPromoting, RecoveryValidation}"
    using can fo_gates(3) by (simp add: fo_can_def)
  moreover have "RecoveryValidation \<notin> set as"
    using fo_lc.gate_member [OF fo_gates(4) run] new by auto
  ultimately have "as \<noteq> [] \<and> last as = StandbyPromoting"
    by (cases "as = []") (auto dest: last_in_set)
  then show ?thesis using ts last_in_set [of as] by auto
qed

text \<open>
  C9. A standby is promoted only behind a fenced primary, and failback only follows validation: in
  the event log of every state the control plane can reach from an empty log, whoever operates it and
  under whatever settings, a promotion is recorded straight after the fencing of the primary, the
  second region becomes active only after a promotion, and failback is entered straight from a recovery
  validation of an active second region.
\<close>

theorem promotion_only_after_fencing:
  assumes "rtranclp failover_step w0 w" and "rw_events w0 = []" and "rw_events w = xs @ e # ys"
  shows "(fe_to e = StandbyPromoting \<longrightarrow> xs \<noteq> [] \<and> fe_to (last xs) = PrimaryFenced) \<and>
    (fe_to e = SecondaryActive \<longrightarrow> (\<exists>p \<in> set xs. fe_to p = StandbyPromoting)) \<and>
    (fe_to e = FailbackPending \<longrightarrow> xs \<noteq> [] \<and> fe_to (last xs) = RecoveryValidation \<and>
       (\<exists>a \<in> set xs. fe_to a = SecondaryActive) \<and> (\<exists>p \<in> set xs. fe_to p = PrimaryFenced))"
proof -
  obtain l where l: "last (Normal # map fe_to xs) = l" by blast
  have c: "chained Normal (xs @ e # ys)"
    using reachable_chained [OF assms(1)] assms(2,3) by simp
  note run = chained_before(3) [OF c]
  have can: "fe_to e \<in> set (fo_table l)" using chained_before(1,2) [OF c] l by (simp add: fo_can_def)
  have mem: "l \<in> set (map fe_to xs) \<and> xs \<noteq> [] \<and> fe_to (last xs) = l" if "l \<noteq> Normal"
    using l that by (cases xs rule: rev_cases) auto
  have before: "h \<in> set (map fe_to xs) \<Longrightarrow> \<exists>p \<in> set xs. fe_to p = h" for h by auto
  note prom = secondary_after_promotion [OF run]
  have fenced: "PrimaryFenced \<in> set (map fe_to xs)" if "StandbyPromoting \<in> set (map fe_to xs)"
    using gate_before [OF run _ _ fo_gates(2)] that by auto
  have active: "SecondaryActive \<in> set (map fe_to xs)" if "RecoveryValidation \<in> set (map fe_to xs)"
    using gate_before [OF run _ _ fo_gates(4)] that by auto
  show ?thesis
  proof (intro conjI impI)
    assume "fe_to e = StandbyPromoting"
    then have "l = PrimaryFenced" using can fo_gates(2) by force
    with mem show "xs \<noteq> []" "fe_to (last xs) = PrimaryFenced" by simp_all
  next
    assume "fe_to e = SecondaryActive"
    then have "l = StandbyPromoting \<or> l = RecoveryValidation" using can fo_gates(3) by force
    then have "StandbyPromoting \<in> set (map fe_to xs)"
      using mem prom active by (elim disjE) simp_all
    then show "\<exists>p \<in> set xs. fe_to p = StandbyPromoting" by (rule before)
  next
    assume "fe_to e = FailbackPending"
    then have l: "l = RecoveryValidation" using can fo_gates(5) by force
    with mem show "xs \<noteq> []" "fe_to (last xs) = RecoveryValidation" by simp_all
    from l mem have "RecoveryValidation \<in> set (map fe_to xs)" by simp
    note a = active [OF this]
    show "\<exists>a \<in> set xs. fe_to a = SecondaryActive" by (rule before [OF a])
    show "\<exists>p \<in> set xs. fe_to p = PrimaryFenced" by (rule before [OF fenced [OF prom [OF a]]])
  qed
qed

definition demo_settings :: rel_settings where
  "demo_settings = \<lparr>rs_region = ''eu'', rs_cluster = ''c1'', rs_role = PrimaryRole, rs_epoch = 1,
     rs_maintenance = False, rs_schedulers = True, rs_side_effects = True, rs_requires_approval = True\<rparr>"

definition operator_context :: "uuid \<Rightarrow> auth_context" where
  "operator_context k = \<lparr>ctx_org = 1, ctx_scopes = platform_permissions, ctx_role = ''operator'', ctx_key_id = Some k\<rparr>"

definition empty_log :: "unit rel_world" where
  "empty_log = \<lparr>rw_events = [], rw_drills = [], rw_audits = []\<rparr>"

definition drill_run :: "unit rel_world" where
  "drill_run = fst (failover_advance demo_settings (operator_context 2) StandbyPromoting ''go''
     (fst (failover_approve demo_settings (operator_context 2) ''yes''
     (fst (failover_request demo_settings (operator_context 1) ''outage'' empty_log)))))"

theorem promotion_only_after_fencing_witness:
  "fe_to (last (butlast (rw_events drill_run))) = PrimaryFenced \<and> length (rw_events drill_run) = 3"
proof -
  have steps: "rtranclp failover_step empty_log drill_run"
    unfolding drill_run_def
    by (rule rtranclp.rtrancl_into_rtrancl, rule rtranclp.rtrancl_into_rtrancl, rule rtranclp.rtrancl_into_rtrancl,
        rule rtranclp.rtrancl_refl, rule step_request, rule step_approve, rule step_advance)
  have es: "map fe_to (rw_events drill_run) = [FailoverRequested, PrimaryFenced, StandbyPromoting]"
    by code_simp
  then have ne: "rw_events drill_run \<noteq> []" and len: "length (rw_events drill_run) = 3"
    by (auto dest: arg_cong [where f = length])
  have prom: "fe_to (last (rw_events drill_run)) = StandbyPromoting"
    using es ne by (metis last.simps last_map list.distinct(1))
  have "rw_events drill_run = butlast (rw_events drill_run) @ last (rw_events drill_run) # []" using ne by simp
  from promotion_only_after_fencing [OF steps _ this] prom len show ?thesis by (simp add: empty_log_def)
qed

text \<open>
  Approval needs a second operator, advancing does not: with approval required, an operator who
  requested the failover is refused by the approval endpoint with 403 and nothing changes, every other
  identified operator is admitted and recorded, but the same single operator reaches the fenced state by
  asking the advance endpoint for it.
\<close>

theorem advance_bypasses_second_operator:
  assumes "rs_requires_approval cfg" and "ctx_key_id auth = Some a" and "ctx_key_id other = Some b" and "a \<noteq> b"
    and "current_state (rw_events w) \<in> {Normal, Degraded}" and "failover_request cfg auth reason w = (w1, r1)"
  shows "r1 = Inr FailoverRequested \<and>
    failover_approve cfg auth reason w1 = (w1, Inl (HttpError 403 ''a separate operator must approve the failover'')) \<and>
    (\<exists>w2. failover_approve cfg other reason w1 = (w2, Inr PrimaryFenced) \<and>
       fe_requested_by (last (rw_events w2)) = Some a \<and> fe_approved_by (last (rw_events w2)) = Some b) \<and>
    (\<exists>w2. failover_advance cfg auth PrimaryFenced reason w1 = (w2, Inr PrimaryFenced) \<and>
       fe_requested_by (last (rw_events w2)) = None \<and> fe_approved_by (last (rw_events w2)) = Some a)"
proof -
  have can: "fo_can (current_state (rw_events w)) FailoverRequested" using assms(5) by (auto simp: fo_can_def)
  then have q: "request_failover cfg (Some a) reason (rw_events w) =
      Inr (record_transition (current_state (rw_events w)) FailoverRequested cfg (Some a) None reason (rw_events w), FailoverRequested)"
    by (simp add: request_failover_def fo_transition_Inr)
  let ?es = "record_transition (current_state (rw_events w)) FailoverRequested cfg (Some a) None reason (rw_events w)"
  have w1: "rw_events w1 = ?es" and r1: "r1 = Inr FailoverRequested"
    using assms(2,6) q by (auto simp: failover_request_def failover_answer_def add_rel_audit_def)
  have cur: "current_state ?es = FailoverRequested" by (simp add: record_transition_def current_state_def)
  obtain rq where rq: "latest_request ?es = Some rq" "fe_requested_by rq = Some a"
    by (simp add: record_transition_def latest_request_def)
  have next_ok: "fo_transition cfg PrimaryFenced p q reason ?es = Inr (record_transition FailoverRequested PrimaryFenced cfg p q reason ?es, PrimaryFenced)" for p q
    using cur by (simp add: fo_transition_Inr fo_can_def)
  show ?thesis
    using assms(1-4) rq cur next_ok
    by (simp add: r1 failover_approve_def failover_advance_def approve_failover_def advance_failover_def
        same_operator_def failover_answer_def add_rel_audit_def w1) (simp add: record_transition_def)
qed

theorem advance_bypasses_second_operator_witness:
  "snd (failover_advance demo_settings (operator_context 1) PrimaryFenced ''x''
     (fst (failover_request demo_settings (operator_context 1) ''x'' empty_log))) = Inr PrimaryFenced"
proof -
  obtain w1 r1 where r: "failover_request demo_settings (operator_context 1) ''x'' empty_log = (w1, r1)" by fastforce
  show ?thesis
    using advance_bypasses_second_operator [OF _ _ _ _ _ r, of 1 "operator_context 2" 2] r
    by (force simp: demo_settings_def operator_context_def empty_log_def current_state_def)
qed

end
