(* ===== verification/Reliability.thy ===== *)
theory Reliability
  imports Failover Text_Util
begin

text \<open>
  Restore drills and health reporting: recovery objectives (\<open>objectives.py\<close>), restore verification
  (\<open>restore_verify.py\<close>), backup metadata (\<open>backup_meta.py\<close>), readiness (\<open>degraded.py\<close>), worker health
  (\<open>worker_health.py\<close>) and the drill endpoint of \<open>api/reliability.py\<close>. The database under
  verification is a view of what the SQLAlchemy inspector answers; the cipher is a pair of partial
  functions, SHA-256 and JSON serialisation are parameters.
\<close>

subsection \<open>Recovery objectives\<close>

datatype data_class = Critical | Derived | Ephemeral

record recovery_objective =
  ro_class :: data_class
  ro_rpo :: nat
  ro_rto :: nat
  ro_recomputable :: bool

fun recovery_objectives :: "data_class \<Rightarrow> recovery_objective" where
  "recovery_objectives Critical = \<lparr>ro_class = Critical, ro_rpo = 5, ro_rto = 60, ro_recomputable = False\<rparr>"
| "recovery_objectives Derived = \<lparr>ro_class = Derived, ro_rpo = 24 * 60, ro_rto = 4 * 60, ro_recomputable = True\<rparr>"
| "recovery_objectives Ephemeral = \<lparr>ro_class = Ephemeral, ro_rpo = 0, ro_rto = 0, ro_recomputable = True\<rparr>"

definition minutes_between :: "datetime \<Rightarrow> datetime \<Rightarrow> rat" where
  "minutes_between a b = of_int (b - a) / 1000000 / 60"

definition achieved_rpo_minutes :: "datetime \<Rightarrow> datetime \<Rightarrow> rat" where
  "achieved_rpo_minutes last_durable_write recovery_point =
     round3 (max 0 (minutes_between recovery_point last_durable_write))"

definition achieved_rto_minutes :: "datetime \<Rightarrow> datetime \<Rightarrow> rat" where
  "achieved_rto_minutes started_at finished_at = round3 (max 0 (minutes_between started_at finished_at))"

definition within_targets :: "rat \<Rightarrow> rat \<Rightarrow> nat \<Rightarrow> nat \<Rightarrow> bool" where
  "within_targets rpo rto rpo_target rto_target \<longleftrightarrow> rpo \<le> of_nat rpo_target \<and> rto \<le> of_nat rto_target"

subsection \<open>Restore verification\<close>

record restore_check =
  rc_name :: string
  rc_passed :: bool
  rc_detail :: string

record db_view =
  dv_bound :: bool
  dv_tables :: "(string \<times> string list) list"
  dv_revision :: "string option"
  dv_count :: "string \<Rightarrow> int"

record cipher =
  ci_encrypt :: "string \<Rightarrow> string option"
  ci_decrypt :: "string \<Rightarrow> string option"

definition required_tables :: "string list" where
  "required_tables = [''api_keys'', ''alerts'', ''incidents'', ''security_integrations'', ''coverage_snapshots'', ''agent_sessions'']"

definition org_scoped :: "string list" where
  "org_scoped = [''alerts'', ''incidents'', ''security_integrations'', ''coverage_snapshots'']"

definition mk_check :: "string \<Rightarrow> bool \<Rightarrow> string \<Rightarrow> restore_check" where
  "mk_check nm passed detail = \<lparr>rc_name = nm, rc_passed = passed, rc_detail = take 256 detail\<rparr>"

definition cipher_works :: "cipher \<Rightarrow> string \<Rightarrow> bool" where
  "cipher_works ci probe = (case ci_encrypt ci probe of None \<Rightarrow> False | Some c \<Rightarrow> ci_decrypt ci c = Some probe)"

definition table_names :: "db_view \<Rightarrow> string list" where
  "table_names db = (if dv_bound db then map fst (dv_tables db) else [])"

definition columns_of :: "db_view \<Rightarrow> string \<Rightarrow> string list" where
  "columns_of db t = (case map_of (dv_tables db) t of None \<Rightarrow> [] | Some cs \<Rightarrow> cs)"

text \<open>The \<open>repr\<close> of a list of plain identifiers, and \<open>str\<close> of an optional string.\<close>

definition list_repr :: "string list \<Rightarrow> string" where
  "list_repr xs = ''['' @ join_with '', '' (map (\<lambda>x. [CHR 39] @ x @ [CHR 39]) xs) @ '']''"

definition opt_str :: "string option \<Rightarrow> string" where
  "opt_str v = (case v of None \<Rightarrow> ''None'' | Some s \<Rightarrow> s)"

text \<open>The loop over the organization-scoped tables stops at the first one without the column.\<close>

fun org_scope_loop :: "db_view \<Rightarrow> string list \<Rightarrow> string option" where
  "org_scope_loop db [] = None"
| "org_scope_loop db (t # ts) =
     (if t \<notin> set (table_names db) then org_scope_loop db ts
      else if ''organization_id'' \<notin> set (columns_of db t) then Some t
      else org_scope_loop db ts)"

definition verify_restore :: "cipher \<Rightarrow> string \<Rightarrow> db_view \<Rightarrow> restore_check list" where
  "verify_restore ci expected db =
     (let missing = filter (\<lambda>t. t \<notin> set (table_names db)) required_tables;
          unscoped = (if dv_bound db then org_scope_loop db org_scoped else None)
      in [mk_check ''tables_exist'' (missing = [])
            (if missing \<noteq> [] then ''missing='' @ list_repr missing else ''all present''),
          mk_check ''migration_revision'' (dv_revision db = Some expected)
            (''found='' @ opt_str (dv_revision db) @ '' expected='' @ expected),
          mk_check ''organization_scope'' (unscoped = None)
            (case unscoped of None \<Rightarrow> ''org-scoped columns present'' | Some t \<Rightarrow> t @ '' missing organization_id''),
          mk_check ''encryption_readable'' (cipher_works ci ''df-restore-probe'') ''cipher round-trip'',
          mk_check ''stale_leases_reclaimable''
            (''integration_deliveries'' \<notin> set (table_names db) \<or>
             dv_bound db \<and> ''lease_until'' \<in> set (columns_of db ''integration_deliveries''))
            ''lease column present'',
          mk_check ''row_counts_plausible''
            (list_all (\<lambda>t. t \<notin> set (table_names db) \<or> 0 \<le> dv_count db t) [''alerts'', ''incidents'']) []])"

record restore_report =
  rr_drill :: string
  rr_backup :: string
  rr_point :: datetime
  rr_started :: datetime
  rr_finished :: datetime
  rr_rpo :: rat
  rr_rto :: rat
  rr_revision :: string
  rr_checks :: "restore_check list"
  rr_passed :: bool
  rr_checksum :: string

definition bool_str :: "bool \<Rightarrow> string" where
  "bool_str b = (if b then ''True'' else ''False'')"

definition report_body :: "restore_check list \<Rightarrow> string \<Rightarrow> string" where
  "report_body checks revision =
     join_with ''|'' (map (\<lambda>c. rc_name c @ '':'' @ bool_str (rc_passed c)) checks) @ ''|'' @ revision"

definition build_report ::
  "(string \<Rightarrow> string) \<Rightarrow> string \<Rightarrow> string \<Rightarrow> datetime \<Rightarrow> datetime \<Rightarrow> datetime \<Rightarrow> rat \<Rightarrow> rat \<Rightarrow> string \<Rightarrow>
   restore_check list \<Rightarrow> restore_report" where
  "build_report sha drill_id backup point started finished rpo rto revision checks =
     \<lparr>rr_drill = drill_id, rr_backup = backup, rr_point = point, rr_started = started, rr_finished = finished,
      rr_rpo = rpo, rr_rto = rto, rr_revision = revision, rr_checks = checks,
      rr_passed = list_all rc_passed checks, rr_checksum = sha (report_body checks revision)\<rparr>"

record drill_body =
  db_backup :: string
  db_point :: datetime
  db_last_write :: "datetime option"

record drill_answer =
  da_passed :: bool
  da_rpo :: rat
  da_rto :: rat
  da_within :: bool

definition run_drill ::
  "(string \<Rightarrow> string) \<Rightarrow> cipher \<Rightarrow> string \<Rightarrow> bool \<Rightarrow> datetime \<Rightarrow> datetime \<Rightarrow> auth_context \<Rightarrow> drill_body \<Rightarrow> db_view \<Rightarrow>
   restore_report rel_world \<Rightarrow> restore_report rel_world \<times> (http_error + drill_answer)" where
  "run_drill sha ci head enabled started finished auth body db w =
     (if \<not> enabled then (w, Inl (HttpError 404 ''restore drills are not enabled''))
      else
        let checks = verify_restore ci head db;
            rpo = achieved_rpo_minutes (case db_last_write body of None \<Rightarrow> db_point body | Some t \<Rightarrow> t) (db_point body);
            rto = achieved_rto_minutes started finished;
            report = build_report sha ''pending'' (db_backup body) (db_point body) started finished rpo rto head checks;
            w1 = w\<lparr>rw_drills := rw_drills w @ [report]\<rparr>
        in (add_rel_audit ''restore_drill'' (ctx_key_id auth) (''passed='' @ bool_str (rr_passed report)) w1,
            Inr \<lparr>da_passed = rr_passed report, da_rpo = rpo, da_rto = rto,
                 da_within = within_targets rpo rto (ro_rpo (recovery_objectives Critical)) (ro_rto (recovery_objectives Critical))\<rparr>))"

subsection \<open>Backup metadata\<close>

definition forbidden_substrings :: "string list" where
  "forbidden_substrings = [''secret'', ''ciphertext'', ''token'', ''password'', ''signing'', ''api_key'', ''private_key'']"

definition secret_marker :: "string \<Rightarrow> string \<Rightarrow> bool" where
  "secret_marker blob needle \<longleftrightarrow> contains blob ([CHR 34] @ needle @ [CHR 34] @ '':'') \<or> contains blob (needle @ ''='')"

fun assert_no_secrets :: "string \<Rightarrow> string list \<Rightarrow> string + unit" where
  "assert_no_secrets blob [] = Inr ()"
| "assert_no_secrets blob (n # ns) =
     (if secret_marker (py_lower blob) n then Inl (''backup metadata must not contain secret field: '' @ n)
      else assert_no_secrets blob ns)"

subsection \<open>Readiness\<close>

record dependency =
  de_database :: bool
  de_redis :: string
  de_encryption :: bool
  de_replay_required :: bool
  de_replay_ok :: bool

definition dependency_status :: "bool \<Rightarrow> string \<Rightarrow> cipher \<Rightarrow> bool \<Rightarrow> bool \<Rightarrow> dependency" where
  "dependency_status database_up redis_status ci auth_on signature_required =
     \<lparr>de_database = database_up, de_redis = redis_status, de_encryption = cipher_works ci ''df-probe'',
      de_replay_required = (auth_on \<and> signature_required),
      de_replay_ok = (redis_status \<in> {''ok'', ''not_required''})\<rparr>"

definition is_ready :: "dependency \<Rightarrow> bool" where
  "is_ready d =
     (if \<not> de_database d \<or> \<not> de_encryption d then False
      else if de_replay_required d \<and> \<not> de_replay_ok d then False
      else True)"

subsection \<open>Worker health\<close>

datatype wjob_status = WPending | WClaimed | WDone | WFailed

record wjob =
  wj_status :: wjob_status
  wj_created :: datetime
  wj_processed :: "datetime option"

record worker_health =
  wh_ok :: bool
  wh_depth :: nat
  wh_age :: "rat option"
  wh_stuck :: nat
  wh_failed :: nat
  wh_last :: "datetime option"
  wh_heartbeat :: "rat option"
  wh_reasons :: "string list"

definition age_seconds :: "datetime option \<Rightarrow> datetime \<Rightarrow> rat option" where
  "age_seconds moment now = map_option (\<lambda>m. round3 (of_int (now - m) / 1000000)) moment"

definition min_opt :: "datetime list \<Rightarrow> datetime option" where
  "min_opt xs = (if xs = [] then None else Some (fold min (tl xs) (hd xs)))"

definition max_opt :: "datetime list \<Rightarrow> datetime option" where
  "max_opt xs = (if xs = [] then None else Some (fold max (tl xs) (hd xs)))"

definition count_status :: "wjob_status \<Rightarrow> wjob list \<Rightarrow> nat" where
  "count_status s jobs = length (filter (\<lambda>j. wj_status j = s) jobs)"

definition worker_status :: "int \<Rightarrow> nat \<Rightarrow> datetime \<Rightarrow> wjob list \<Rightarrow> worker_health" where
  "worker_status max_age max_failed now jobs =
     (let age = age_seconds (min_opt (map wj_created (filter (\<lambda>j. wj_status j = WPending) jobs))) now;
          stuck = count_status WClaimed jobs;
          failed = count_status WFailed jobs;
          last_success = max_opt (List.map_filter wj_processed (filter (\<lambda>j. wj_status j = WDone) jobs));
          old = (case age of None \<Rightarrow> False | Some a \<Rightarrow> a > of_int max_age);
          reasons = (if old then [''queue_age_exceeded''] else []) @
            (if 0 < stuck \<and> (age = None \<or> old) then [''claimed_jobs_not_completing''] else []) @
            (if failed > max_failed then [''failed_job_threshold_exceeded''] else [])
      in \<lparr>wh_ok = (reasons = []), wh_depth = count_status WPending jobs, wh_age = age, wh_stuck = stuck,
          wh_failed = failed, wh_last = last_success, wh_heartbeat = age_seconds last_success now, wh_reasons = reasons\<rparr>)"

subsection \<open>What a drill certifies\<close>

lemma org_scope_loop_None:
  "org_scope_loop db ts = None \<longleftrightarrow>
     (\<forall>t \<in> set ts. t \<in> set (table_names db) \<longrightarrow> ''organization_id'' \<in> set (columns_of db t))"
  by (induction ts) auto

lemma rpo_bounds:
  "0 \<le> achieved_rpo_minutes w p" "w \<le> p \<Longrightarrow> achieved_rpo_minutes w p = 0"
  "\<bar>max 0 (minutes_between p w) - achieved_rpo_minutes w p\<bar> \<le> 1 / 2000"
proof -
  show "0 \<le> achieved_rpo_minutes w p" by (simp add: achieved_rpo_minutes_def round3_nonneg)
  show "\<bar>max 0 (minutes_between p w) - achieved_rpo_minutes w p\<bar> \<le> 1 / 2000"
    unfolding achieved_rpo_minutes_def by (rule round3_close)
  assume "w \<le> p"
  then have "minutes_between p w \<le> 0" by (simp add: minutes_between_def divide_nonpos_pos)
  then show "achieved_rpo_minutes w p = 0"
    using round_even_int [of 0] by (simp add: achieved_rpo_minutes_def max_absorb1 round3_def)
qed

text \<open>
  What a passed restore drill certifies: with drills enabled, the drill records exactly one report
  and one audit row, and the report is a pass only for a database that holds every required table, is at
  the expected migration revision, scopes every organization table by its column, can decrypt what it
  encrypts and can expire a delivery lease; the recovery point it reports is at least the true one up to
  half a thousandth of a minute.
\<close>

theorem passed_drill_certifies:
  assumes "run_drill sha ci head enabled started finished auth body db w = (w', Inr a)"
  shows "\<exists>r. rw_drills w' = rw_drills w @ [r] \<and> length (rw_audits w') = length (rw_audits w) + 1 \<and>
    rw_events w' = rw_events w \<and> rr_passed r = da_passed a \<and>
    (rr_passed r \<longrightarrow> set required_tables \<subseteq> set (table_names db) \<and> dv_revision db = Some head \<and>
       (\<forall>t \<in> set org_scoped. ''organization_id'' \<in> set (columns_of db t)) \<and>
       cipher_works ci ''df-restore-probe'' \<and>
       (''integration_deliveries'' \<in> set (table_names db) \<longrightarrow>
          ''lease_until'' \<in> set (columns_of db ''integration_deliveries''))) \<and>
    (\<forall>t. db_last_write body = Some t \<longrightarrow> minutes_between (db_point body) t \<le> rr_rpo r + 1 / 2000)"
proof -
  let ?checks = "verify_restore ci head db"
  let ?rpo = "achieved_rpo_minutes (case db_last_write body of None \<Rightarrow> db_point body | Some t \<Rightarrow> t) (db_point body)"
  let ?r = "build_report sha ''pending'' (db_backup body) (db_point body) started finished ?rpo
     (achieved_rto_minutes started finished) head ?checks"
  have w': "rw_drills w' = rw_drills w @ [?r]" "length (rw_audits w') = length (rw_audits w) + 1"
      "rw_events w' = rw_events w" "da_passed a = rr_passed ?r"
    using assms by (auto simp: run_drill_def Let_def add_rel_audit_def split: if_splits)
  have cert: "set required_tables \<subseteq> set (table_names db) \<and> dv_revision db = Some head \<and>
       (\<forall>t \<in> set org_scoped. ''organization_id'' \<in> set (columns_of db t)) \<and>
       cipher_works ci ''df-restore-probe'' \<and>
       (''integration_deliveries'' \<in> set (table_names db) \<longrightarrow>
          ''lease_until'' \<in> set (columns_of db ''integration_deliveries''))"
    if "rr_passed ?r"
  proof -
    from that have ok: "list_all rc_passed ?checks" by (simp add: build_report_def)
    then have tables: "set required_tables \<subseteq> set (table_names db)"
      by (auto simp: verify_restore_def Let_def mk_check_def filter_empty_conv)
    then have "dv_bound db" by (cases "dv_bound db") (simp_all add: table_names_def required_tables_def)
    moreover have "set org_scoped \<subseteq> set required_tables" by (simp add: org_scoped_def required_tables_def)
    ultimately have "\<forall>t \<in> set org_scoped. ''organization_id'' \<in> set (columns_of db t)"
      using ok tables by (auto simp: verify_restore_def Let_def mk_check_def org_scope_loop_None)
    with ok tables show ?thesis by (simp add: verify_restore_def Let_def mk_check_def)
  qed
  have rpo: "minutes_between (db_point body) t \<le> rr_rpo ?r + 1 / 2000" if "db_last_write body = Some t" for t
  proof -
    have "max 0 (minutes_between (db_point body) t) - achieved_rpo_minutes t (db_point body) \<le> 1 / 2000"
      by (rule abs_le_D1 [OF rpo_bounds(3)])
    then have "minutes_between (db_point body) t \<le> achieved_rpo_minutes t (db_point body) + 1 / 2000"
      by linarith
    then show ?thesis using that by (simp add: build_report_def)
  qed
  show ?thesis using w' cert rpo by (intro exI [of _ ?r]) simp
qed

definition demo_cipher :: cipher where
  "demo_cipher = \<lparr>ci_encrypt = (\<lambda>s. Some (rev s)), ci_decrypt = (\<lambda>s. Some (rev s))\<rparr>"

definition demo_view :: db_view where
  "demo_view = \<lparr>dv_bound = True, dv_tables = map (\<lambda>t. (t, [''organization_id''])) required_tables,
     dv_revision = Some ''head'', dv_count = (\<lambda>_. 3)\<rparr>"

definition demo_drill :: "restore_report rel_world \<times> (http_error + drill_answer)" where
  "demo_drill = run_drill (\<lambda>s. s) demo_cipher ''head'' True 0 60000000 (operator_context 1)
     \<lparr>db_backup = ''b1'', db_point = 0, db_last_write = Some 120000000\<rparr> demo_view
     \<lparr>rw_events = [], rw_drills = [], rw_audits = []\<rparr>"

theorem passed_drill_certifies_witness:
  "length (rw_drills (fst demo_drill)) = 1 \<and> is_ok (snd demo_drill)"
proof -
  have ok: "is_ok (snd demo_drill)" by code_simp
  then obtain a where "demo_drill = (fst demo_drill, Inr a)" by (metis is_ok_iff prod.collapse)
  from passed_drill_certifies [OF trans [OF demo_drill_def [symmetric] this]] ok
  show ?thesis by auto
qed

text \<open>Without a last durable write in the request nothing is measured, and the RPO target is met.\<close>

lemma unmeasured_rpo_meets_target:
  assumes "db_last_write body = None"
  shows "\<exists>a. snd (run_drill sha ci head True started finished auth body db w) = Inr a \<and> da_rpo a = 0 \<and>
    (da_within a \<longleftrightarrow> da_rto a \<le> 60)"
  using assms rpo_bounds(2) [of "db_point body" "db_point body"]
  by (simp add: run_drill_def Let_def within_targets_def)

text \<open>A single claimed job with an empty queue is reported as stalled, however recently it was claimed.\<close>

lemma busy_worker_reported_stalled:
  "wh_reasons (worker_status max_age max_failed now
     [\<lparr>wj_status = WClaimed, wj_created = now, wj_processed = None\<rparr>]) = [''claimed_jobs_not_completing'']"
  by (simp add: worker_status_def Let_def min_opt_def age_seconds_def count_status_def)

lemma count_status_mono: "count_status s jobs \<le> length jobs"
  by (simp add: count_status_def)

text \<open>Readiness never holds without the mandatory protections.\<close>

lemma ready_protections:
  "is_ready (dependency_status up redis ci auth_on signed) \<longleftrightarrow>
     up \<and> cipher_works ci ''df-probe'' \<and> (auth_on \<and> signed \<longrightarrow> redis \<in> {''ok'', ''not_required''})"
  by (auto simp: is_ready_def dependency_status_def)

end
