(* ===== verification/Security_Events.thy ===== *)
theory Security_Events
  imports Severity_Model Signing Text_Util "HOL-Library.Word"
begin

text \<open>
  The canonical export event and everything that shapes it before it leaves the platform: the
  envelope (\<open>models/domain/integrations.py\<close>), the builders (\<open>services/integrations/mapping.py\<close>), the
  payload profiles (\<open>profiles.py\<close>), routing and idempotency keys (\<open>routing.py\<close>), the retry policy
  (\<open>retry.py\<close>), and the four destination adapters (\<open>adapter.py\<close>, \<open>adapters.py\<close>). The size of the
  serialised envelope, its JSON text and SHA-256 are parameters.
\<close>

subsection \<open>Event types\<close>

datatype event_type = AlertCreated | AlertUpdated | AlertEscalated | IncidentCreated | IncidentUpdated
  | IncidentResolved | IncidentStale | IncidentSuperseded | CoverageCriticalGap | CoverageScoreDrop
  | CoverageSensorDegraded | CoverageDecoyExpired | MonitorActivationFailed | ConnectorUnhealthy
  | RetentionFailed | ReconstructionFailed | DeliveryFailed

fun sec_event_value :: "event_type \<Rightarrow> string" where
  "sec_event_value AlertCreated = ''deceptiforge.alert.created''"
| "sec_event_value AlertUpdated = ''deceptiforge.alert.updated''"
| "sec_event_value AlertEscalated = ''deceptiforge.alert.escalated''"
| "sec_event_value IncidentCreated = ''deceptiforge.incident.created''"
| "sec_event_value IncidentUpdated = ''deceptiforge.incident.updated''"
| "sec_event_value IncidentResolved = ''deceptiforge.incident.resolved''"
| "sec_event_value IncidentStale = ''deceptiforge.incident.stale''"
| "sec_event_value IncidentSuperseded = ''deceptiforge.incident.superseded''"
| "sec_event_value CoverageCriticalGap = ''deceptiforge.coverage.critical_gap''"
| "sec_event_value CoverageScoreDrop = ''deceptiforge.coverage.score_drop''"
| "sec_event_value CoverageSensorDegraded = ''deceptiforge.coverage.sensor_degraded''"
| "sec_event_value CoverageDecoyExpired = ''deceptiforge.coverage.decoy_expired''"
| "sec_event_value MonitorActivationFailed = ''deceptiforge.monitor.activation_failed''"
| "sec_event_value ConnectorUnhealthy = ''deceptiforge.connector.unhealthy''"
| "sec_event_value RetentionFailed = ''deceptiforge.retention.failed''"
| "sec_event_value ReconstructionFailed = ''deceptiforge.reconstruction.failed''"
| "sec_event_value DeliveryFailed = ''deceptiforge.integration.delivery_failed''"

datatype source_type = SourceAlert | SourceIncident | SourceCoverageGap | SourceOperational

definition source_for_event :: "event_type \<Rightarrow> source_type" where
  "source_for_event e =
     (let v = sec_event_value e in
      if startswith v ''deceptiforge.alert'' then SourceAlert
      else if startswith v ''deceptiforge.incident'' then SourceIncident
      else if startswith v ''deceptiforge.coverage'' then SourceCoverageGap
      else SourceOperational)"

datatype payload_profile = Minimal | Standard | Analyst | ComplianceSummary

subsection \<open>The envelope\<close>

record envelope =
  sx_schema :: string
  sx_event_id :: string
  sx_type :: event_type
  sx_org :: string
  sx_time :: datetime
  sx_severity :: severity
  sx_confidence :: rat
  sx_title :: string
  sx_summary :: string
  sx_system :: string
  sx_source_type :: source_type
  sx_source_id :: string
  sx_traces :: "string list"
  sx_decoys :: "string list"
  sx_surfaces :: "string list"
  sx_repository :: "string option"
  sx_connector :: "string option"
  sx_status :: "string option"
  sx_actions :: "string list"
  sx_evidence :: string
  sx_narrative :: "string option"
  sx_correlation :: "string list"
  sx_links :: "(string \<times> string) list"
  sx_metadata :: "(string \<times> string) list"

definition schema_version :: string where "schema_version = ''df-security-event-v1''"

definition opt_within :: "nat \<Rightarrow> string option \<Rightarrow> bool" where
  "opt_within n v = (case v of None \<Rightarrow> True | Some s \<Rightarrow> length s \<le> n)"

definition envelope_valid :: "envelope \<Rightarrow> bool" where
  "envelope_valid e \<longleftrightarrow>
     length (sx_event_id e) \<le> 128 \<and> length (sx_org e) \<le> 64 \<and> 0 \<le> sx_confidence e \<and> sx_confidence e \<le> 1 \<and>
     length (sx_title e) \<le> 256 \<and> length (sx_summary e) \<le> 1024 \<and> length (sx_system e) \<le> 32 \<and>
     length (sx_source_id e) \<le> 128 \<and> length (sx_traces e) \<le> 20 \<and> length (sx_decoys e) \<le> 20 \<and>
     length (sx_surfaces e) \<le> 20 \<and> opt_within 64 (sx_repository e) \<and> opt_within 64 (sx_connector e) \<and>
     opt_within 32 (sx_status e) \<and> length (sx_actions e) \<le> 10 \<and> length (sx_evidence e) \<le> 1024 \<and>
     opt_within 2048 (sx_narrative e) \<and> length (sx_correlation e) \<le> 10"

datatype event_error = EnvelopeInvalid | UnsupportedType string | UnsupportedFormat string

definition validated :: "envelope \<Rightarrow> event_error + envelope" where
  "validated e = (if envelope_valid e then Inr e else Inl EnvelopeInvalid)"

definition event_base ::
  "event_type \<Rightarrow> string \<Rightarrow> datetime \<Rightarrow> severity \<Rightarrow> string \<Rightarrow> string \<Rightarrow> string \<Rightarrow> rat \<Rightarrow> envelope" where
  "event_base et org occurred sev source_id title summary confidence =
     \<lparr>sx_schema = schema_version, sx_event_id = sec_event_value et @ '':'' @ source_id, sx_type = et,
      sx_org = take 64 org, sx_time = occurred, sx_severity = sev, sx_confidence = confidence,
      sx_title = take 256 title, sx_summary = take 1024 summary, sx_system = ''deceptiforge'',
      sx_source_type = source_for_event et, sx_source_id = take 128 source_id,
      sx_traces = [], sx_decoys = [], sx_surfaces = [], sx_repository = None, sx_connector = None,
      sx_status = None, sx_actions = [], sx_evidence = [], sx_narrative = None, sx_correlation = [],
      sx_links = [], sx_metadata = []\<rparr>"

definition build_alert_event ::
  "event_type \<Rightarrow> string \<Rightarrow> datetime \<Rightarrow> string \<Rightarrow> severity \<Rightarrow> string \<Rightarrow> string \<Rightarrow> rat \<Rightarrow> string list \<Rightarrow> string list \<Rightarrow>
   string list \<Rightarrow> string list \<Rightarrow> string list \<Rightarrow> string \<Rightarrow> event_error + envelope" where
  "build_alert_event et org occurred alert_id sev title summary confidence traces decoys surfaces actions correlation evidence =
     validated ((event_base et org occurred sev alert_id title summary confidence)
       \<lparr>sx_traces := take 20 traces, sx_decoys := take 20 decoys, sx_surfaces := take 20 surfaces,
        sx_actions := take 10 actions, sx_correlation := take 10 correlation, sx_evidence := take 1024 evidence\<rparr>)"

definition narrative_label :: "string \<times> string" where
  "narrative_label = (''narrative_label'', ''ai_generated_non_authoritative'')"

definition build_incident_event ::
  "event_type \<Rightarrow> string \<Rightarrow> datetime \<Rightarrow> string \<Rightarrow> severity \<Rightarrow> string \<Rightarrow> string \<Rightarrow> rat \<Rightarrow> string \<Rightarrow> string list \<Rightarrow>
   string list \<Rightarrow> string list \<Rightarrow> string \<Rightarrow> string option \<Rightarrow> event_error + envelope" where
  "build_incident_event et org occurred incident_id sev title summary confidence status surfaces traces actions evidence narrative =
     (let n = (case narrative of None \<Rightarrow> None | Some t \<Rightarrow> if t = [] then None else Some t) in
      validated ((event_base et org occurred sev incident_id title summary confidence)
       \<lparr>sx_status := Some (take 32 status), sx_surfaces := take 20 surfaces, sx_traces := take 20 traces,
        sx_actions := take 10 actions, sx_evidence := take 1024 evidence,
        sx_narrative := map_option (take 2048) n,
        sx_metadata := (if n = None then [] else [narrative_label])\<rparr>))"

definition build_coverage_event ::
  "event_type \<Rightarrow> string \<Rightarrow> datetime \<Rightarrow> string \<Rightarrow> severity \<Rightarrow> string \<Rightarrow> string \<Rightarrow> string list \<Rightarrow> string list \<Rightarrow>
   event_error + envelope" where
  "build_coverage_event et org occurred surface_id sev title summary surfaces actions =
     validated ((event_base et org occurred sev surface_id title summary 1)
       \<lparr>sx_surfaces := take 20 surfaces, sx_actions := take 10 actions\<rparr>)"

definition nonempty_take :: "nat \<Rightarrow> string option \<Rightarrow> string option" where
  "nonempty_take n v = (case v of None \<Rightarrow> None | Some s \<Rightarrow> if s = [] then None else Some (take n s))"

definition build_operational_event ::
  "event_type \<Rightarrow> string \<Rightarrow> datetime \<Rightarrow> string \<Rightarrow> severity \<Rightarrow> string \<Rightarrow> string \<Rightarrow> string option \<Rightarrow> string option \<Rightarrow>
   event_error + envelope" where
  "build_operational_event et org occurred object_id sev title summary connector repository =
     validated ((event_base et org occurred sev object_id title summary 1)
       \<lparr>sx_connector := nonempty_take 64 connector, sx_repository := nonempty_take 64 repository\<rparr>)"

subsection \<open>Payload profiles\<close>

definition shape_profile :: "payload_profile \<Rightarrow> envelope \<Rightarrow> envelope" where
  "shape_profile p e =
     (case p of
        Minimal \<Rightarrow> e\<lparr>sx_summary := [], sx_surfaces := [], sx_decoys := [], sx_actions := [], sx_evidence := [],
                     sx_narrative := None, sx_links := [], sx_metadata := []\<rparr>
      | Standard \<Rightarrow> e\<lparr>sx_evidence := [], sx_narrative := None\<rparr>
      | ComplianceSummary \<Rightarrow> e\<lparr>sx_narrative := None, sx_metadata := []\<rparr>
      | Analyst \<Rightarrow> e)"

definition apply_profile :: "(envelope \<Rightarrow> nat) \<Rightarrow> payload_profile \<Rightarrow> bool \<Rightarrow> nat \<Rightarrow> envelope \<Rightarrow> event_error + envelope" where
  "apply_profile json_size p include_narrative max_bytes e =
     (let d = (if \<not> include_narrative then e\<lparr>sx_narrative := None\<rparr> else e);
          d = shape_profile p d in
      and_then (validated d) (\<lambda>reduced.
        if json_size reduced > max_bytes
        then validated (d\<lparr>sx_narrative := None, sx_evidence := [], sx_summary := take 256 (sx_summary d), sx_metadata := []\<rparr>)
        else Inr reduced))"

definition is_labeled_narrative :: "envelope \<Rightarrow> bool" where
  "is_labeled_narrative e \<longleftrightarrow>
     (case sx_narrative e of None \<Rightarrow> True
      | Some _ \<Rightarrow> map_of (sx_metadata e) ''narrative_label'' = Some ''ai_generated_non_authoritative'')"

subsection \<open>Routing\<close>

record routing_rules =
  ru_events :: "string list"
  ru_surfaces :: "string list"

definition severity_at_least :: "severity \<Rightarrow> severity \<Rightarrow> bool" where
  "severity_at_least value minimum \<longleftrightarrow> sev_rank value \<ge> sev_rank minimum"

definition routing_matches :: "routing_rules \<Rightarrow> severity \<Rightarrow> bool \<Rightarrow> bool \<Rightarrow> envelope \<Rightarrow> bool" where
  "routing_matches rules minimum include_coverage include_operational e =
     (if \<not> severity_at_least (sx_severity e) minimum then False
      else let source = source_for_event (sx_type e) in
      if source = SourceCoverageGap \<and> \<not> include_coverage then False
      else if source = SourceOperational \<and> \<not> include_operational then False
      else if ru_events rules \<noteq> [] \<and> sec_event_value (sx_type e) \<notin> set (ru_events rules) then False
      else if ru_surfaces rules \<noteq> [] \<and> \<not> list_ex (\<lambda>s. s \<in> set (ru_surfaces rules)) (sx_surfaces e) then False
      else True)"

definition idempotency_text :: "string \<Rightarrow> string \<Rightarrow> string \<Rightarrow> int \<Rightarrow> event_type \<Rightarrow> string" where
  "idempotency_text org integration source_id version et =
     join_with '':'' [org, integration, sec_event_value et, source_id, CHR ''v'' # int_str version]"

definition idempotency_key :: "string \<Rightarrow> string \<Rightarrow> string \<Rightarrow> int \<Rightarrow> event_type \<Rightarrow> string" where
  "idempotency_key org integration source_id version et = take 200 (idempotency_text org integration source_id version et)"

subsection \<open>Retry policy\<close>

datatype retry_decision = Retry | Permanent | Success

definition classify_status :: "int \<Rightarrow> retry_decision" where
  "classify_status s =
     (if 200 \<le> s \<and> s < 300 then Success
      else if s \<in> {408, 429} \<or> 500 \<le> s \<and> s \<le> 599 then Retry
      else Permanent)"

definition classify_transport_error :: retry_decision where
  "classify_transport_error = Retry"

text \<open>\<open>int(text)\<close> in base ten: an optional sign, then digits with single underscores between them.\<close>

definition is_digit :: "char \<Rightarrow> bool" where
  "is_digit c \<longleftrightarrow> (let n = (of_char c :: nat) in 48 \<le> n \<and> n \<le> 57)"

fun digits_value :: "bool \<Rightarrow> int \<Rightarrow> string \<Rightarrow> int option" where
  "digits_value after_digit acc [] = (if after_digit then Some acc else None)"
| "digits_value after_digit acc (c # s) =
     (if is_digit c then digits_value True (acc * 10 + (of_char c - 48)) s
      else if c = CHR ''_'' \<and> after_digit then digits_value False acc s
      else None)"

definition py_int :: "string \<Rightarrow> int option" where
  "py_int s =
     (case py_strip s of
        [] \<Rightarrow> None
      | c # r \<Rightarrow> if c = CHR ''-'' then map_option uminus (digits_value False 0 r)
                else if c = CHR ''+'' then digits_value False 0 r
                else digits_value False 0 (c # r))"

definition parse_retry_after :: "string option \<Rightarrow> int option" where
  "parse_retry_after v =
     (case v of None \<Rightarrow> None
      | Some s \<Rightarrow> if s = [] then None
          else map_option (\<lambda>n. max 0 (min n 3600)) (py_int (py_strip s)))"

text \<open>\<open>digest\<close> gives the first four bytes of the SHA-256 of its argument, big-endian.\<close>

definition jitter :: "(string \<Rightarrow> 32 word) \<Rightarrow> int \<Rightarrow> string \<Rightarrow> rat \<Rightarrow> rat" where
  "jitter digest attempt key spread =
     of_nat (unat (digest (key @ '':'' @ int_str attempt))) / of_nat 0xFFFFFFFF * spread"

definition raw_backoff :: "int \<Rightarrow> rat" where
  "raw_backoff attempt = min 900 (2 * 2 ^ nat (max 0 (attempt - 1)))"

definition backoff_seconds :: "(string \<Rightarrow> 32 word) \<Rightarrow> int \<Rightarrow> string \<Rightarrow> rat" where
  "backoff_seconds digest attempt key =
     (let raw = raw_backoff attempt in round3 (raw + jitter digest attempt key (min (raw / 4) 30)))"

subsection \<open>Adapters\<close>

record http_request =
  hr_method :: string
  hr_url :: string
  hr_headers :: "(string \<times> string) list"
  hr_body :: string

record http_response =
  hs_status :: int
  hs_headers :: "(string \<times> string) list"

record adapter_config =
  ac_endpoint :: string
  ac_secret :: "string option"
  ac_options :: "(string \<times> string) list"

record delivery_result =
  dr_decision :: retry_decision
  dr_status :: "int option"
  dr_error :: "string option"
  dr_retry_after :: "int option"

definition result_from_response :: "http_response \<Rightarrow> delivery_result" where
  "result_from_response response =
     (let decision = classify_status (hs_status response) in
      \<lparr>dr_decision = decision, dr_status = Some (hs_status response),
       dr_error = (if decision = Success then None else Some (''http_'' @ int_str (hs_status response))),
       dr_retry_after = parse_retry_after (map_of (hs_headers response) ''retry-after'')\<rparr>)"

definition result_from_transport_error :: delivery_result where
  "result_from_transport_error =
     \<lparr>dr_decision = classify_transport_error, dr_status = None, dr_error = Some ''transport_error'', dr_retry_after = None\<rparr>"

text \<open>
  The serialisers and digests an adapter uses: \<open>js_envelope\<close> is \<open>model_dump_json\<close>, \<open>js_splunk\<close> the
  \<open>json.dumps\<close> of the Splunk wrapper over event, source, sourcetype, index and delivery id.
\<close>

record serializers =
  js_envelope :: "envelope \<Rightarrow> string"
  js_splunk :: "envelope \<Rightarrow> string \<Rightarrow> string \<Rightarrow> string \<Rightarrow> string \<Rightarrow> string"
  js_sha :: "string \<Rightarrow> string"
  js_hmac :: "string \<Rightarrow> string \<Rightarrow> string"

definition option_get :: "(string \<times> string) list \<Rightarrow> string \<Rightarrow> string \<Rightarrow> string" where
  "option_get opts k d = (case map_of opts k of None \<Rightarrow> d | Some v \<Rightarrow> v)"

text \<open>An f-string prints an absent secret as \<open>None\<close>; \<open>config.secret or ""\<close> replaces it by the empty text.\<close>

definition secret_str :: "string option \<Rightarrow> string" where
  "secret_str v = (case v of None \<Rightarrow> ''None'' | Some s \<Rightarrow> s)"

definition webhook_canonical :: "serializers \<Rightarrow> string \<Rightarrow> event_type \<Rightarrow> int \<Rightarrow> string \<Rightarrow> string" where
  "webhook_canonical js delivery_id et now body =
     join_with [newline] [''df-webhook-v1'', delivery_id, sec_event_value et, int_str now, js_sha js body]"

definition webhook_request :: "serializers \<Rightarrow> int \<Rightarrow> envelope \<Rightarrow> adapter_config \<Rightarrow> string \<Rightarrow> http_request" where
  "webhook_request js now e cfg delivery_id =
     (let body = js_envelope js e;
          secret = (case ac_secret cfg of None \<Rightarrow> [] | Some s \<Rightarrow> s)
      in \<lparr>hr_method = ''POST'', hr_url = ac_endpoint cfg,
          hr_headers = [(''content-type'', ''application/json''),
            (''X-DeceptiForge-Delivery-ID'', delivery_id),
            (''X-DeceptiForge-Timestamp'', int_str now),
            (''X-DeceptiForge-Signature'', sign (js_hmac js) secret (webhook_canonical js delivery_id (sx_type e) now body)),
            (''X-DeceptiForge-Event'', sec_event_value (sx_type e)),
            (''X-DeceptiForge-Schema-Version'', sx_schema e)],
          hr_body = body\<rparr>)"

definition splunk_request :: "serializers \<Rightarrow> envelope \<Rightarrow> adapter_config \<Rightarrow> string \<Rightarrow> http_request" where
  "splunk_request js e cfg delivery_id =
     \<lparr>hr_method = ''POST'', hr_url = ac_endpoint cfg,
      hr_headers = [(''content-type'', ''application/json''), (''Authorization'', ''Splunk '' @ secret_str (ac_secret cfg))],
      hr_body = js_splunk js e (option_get (ac_options cfg) ''source'' ''deceptiforge'')
        (option_get (ac_options cfg) ''sourcetype'' ''deceptiforge:security'')
        (option_get (ac_options cfg) ''index'' ''main'') delivery_id\<rparr>"

definition sentinel_request :: "serializers \<Rightarrow> envelope \<Rightarrow> adapter_config \<Rightarrow> string \<Rightarrow> http_request" where
  "sentinel_request js e cfg delivery_id =
     \<lparr>hr_method = ''POST'', hr_url = ac_endpoint cfg,
      hr_headers = [(''content-type'', ''application/json''),
        (''Log-Type'', option_get (ac_options cfg) ''log_type'' ''DeceptiForgeSecurity''),
        (''Authorization'', ''Bearer '' @ secret_str (ac_secret cfg)),
        (''X-DeceptiForge-Delivery-ID'', delivery_id)],
      hr_body = js_envelope js e\<rparr>"

definition elastic_request :: "serializers \<Rightarrow> envelope \<Rightarrow> adapter_config \<Rightarrow> string \<Rightarrow> http_request" where
  "elastic_request js e cfg delivery_id =
     \<lparr>hr_method = ''PUT'',
      hr_url = rstrip_chars (\<lambda>c. c = CHR ''/'') (ac_endpoint cfg) @ ''/'' @
        option_get (ac_options cfg) ''index'' ''deceptiforge-security'' @ ''/_doc/'' @ delivery_id,
      hr_headers = [(''content-type'', ''application/json''), (''Authorization'', ''ApiKey '' @ secret_str (ac_secret cfg))],
      hr_body = js_envelope js e\<rparr>"

datatype integration_type = GenericWebhook | SplunkHec | MicrosoftSentinel | Elastic | Datadog

fun integration_value :: "integration_type \<Rightarrow> string" where
  "integration_value GenericWebhook = ''generic_webhook''"
| "integration_value SplunkHec = ''splunk_hec''"
| "integration_value MicrosoftSentinel = ''microsoft_sentinel''"
| "integration_value Elastic = ''elastic''"
| "integration_value Datadog = ''datadog''"

text \<open>\<open>get_adapter(type).build_request(...)\<close>; the table has no entry for Datadog.\<close>

definition adapter_request ::
  "serializers \<Rightarrow> int \<Rightarrow> integration_type \<Rightarrow> envelope \<Rightarrow> adapter_config \<Rightarrow> string \<Rightarrow> event_error + http_request" where
  "adapter_request js now t e cfg delivery_id =
     (case t of
        GenericWebhook \<Rightarrow> Inr (webhook_request js now e cfg delivery_id)
      | SplunkHec \<Rightarrow> Inr (splunk_request js e cfg delivery_id)
      | MicrosoftSentinel \<Rightarrow> Inr (sentinel_request js e cfg delivery_id)
      | Elastic \<Rightarrow> Inr (elastic_request js e cfg delivery_id)
      | Datadog \<Rightarrow> Inl (UnsupportedType (integration_value t)))"

subsection \<open>Backoff\<close>

lemma jitter_bounds:
  assumes "0 \<le> spread"
  shows "0 \<le> jitter digest attempt key spread" "jitter digest attempt key spread \<le> spread"
proof -
  let ?w = "digest (key @ '':'' @ int_str attempt)"
  have "unat ?w < 2 ^ 32" by (rule order.strict_trans2 [OF unsigned_less]) simp
  then have "unat ?w \<le> 0xFFFFFFFF" by simp
  then have w: "(of_nat (unat ?w) :: rat) \<le> of_nat 0xFFFFFFFF" by (simp only: of_nat_le_iff)
  then have frac: "(of_nat (unat ?w) :: rat) / of_nat 0xFFFFFFFF \<le> 1" by simp
  show "0 \<le> jitter digest attempt key spread"
    unfolding jitter_def by (intro mult_nonneg_nonneg divide_nonneg_nonneg of_nat_0_le_iff assms)
  show "jitter digest attempt key spread \<le> spread"
    using mult_right_mono [OF frac assms] by (simp add: jitter_def)
qed

lemma raw_backoff_bounds: "2 \<le> raw_backoff attempt" "raw_backoff attempt \<le> 900"
proof -
  have "(1 :: rat) \<le> 2 ^ nat (max 0 (attempt - 1))" by simp
  then show "2 \<le> raw_backoff attempt" "raw_backoff attempt \<le> 900" by (simp_all add: raw_backoff_def)
qed

lemma round3_int: "round3 (of_int z) = of_int z"
proof -
  have "(of_int z :: rat) * 1000 = of_int (z * 1000)" by simp
  then show ?thesis by (simp only: round3_def round_even_int)
qed

lemma round3_numeral [simp]: "round3 (numeral n) = numeral n"
  using round3_int [of "numeral n"] by simp

lemma backoff_window:
  "round3 (raw_backoff a) \<le> backoff_seconds digest a key"
  "backoff_seconds digest a key \<le> round3 (raw_backoff a + min (raw_backoff a / 4) 30)"
  using raw_backoff_bounds [of a] jitter_bounds [of "min (raw_backoff a / 4) 30" digest a key]
  by (simp_all add: backoff_seconds_def Let_def round3_mono)

text \<open>
  Backoff is bounded and never shrinks before the cap: the delay before attempt \<open>n + 1\<close> lies
  between 2 and 930 seconds whatever the digest, and while the doubling has not reached the cap of 900
  seconds a later attempt never waits less than an earlier one.
\<close>

theorem backoff_bounded_and_growing:
  assumes "1 \<le> a" and "a < b" and "b \<le> 10"
  shows "2 \<le> backoff_seconds digest a key \<and> backoff_seconds digest a key \<le> 930 \<and>
    backoff_seconds digest a key \<le> backoff_seconds digest b key'"
proof (intro conjI)
  have "round3 2 \<le> round3 (raw_backoff a)"
    using raw_backoff_bounds(1) [of a] by (intro round3_mono) simp
  then show "2 \<le> backoff_seconds digest a key"
    using backoff_window(1) [of a digest key] by simp
  have "round3 (raw_backoff a + min (raw_backoff a / 4) 30) \<le> round3 930"
    using raw_backoff_bounds(2) [of a] by (intro round3_mono) simp
  then show "backoff_seconds digest a key \<le> 930"
    using backoff_window(2) [of digest a key] by simp
  have grow: "raw_backoff a + min (raw_backoff a / 4) 30 \<le> raw_backoff b"
  proof -
    let ?k = "nat (b - a - 1)"
    have k: "nat (max 0 (b - 1)) = nat (max 0 (a - 1)) + Suc ?k" using assms by arith
    let ?p = "2 ^ nat (max 0 (a - 1)) :: rat"
    have p: "0 < ?p" by simp
    have "nat (max 0 (a - 1)) \<le> 8" using assms by simp
    then have "?p \<le> 2 ^ 8" by (intro power_increasing) simp_all
    then have pa: "?p \<le> 256" by simp
    have "(1 :: rat) \<le> 2 ^ ?k" by simp
    then have pb: "4 * ?p \<le> 2 * 2 ^ nat (max 0 (b - 1))"
      using p by (simp add: k power_add)
    have "raw_backoff a = 2 * ?p" using pa by (simp add: raw_backoff_def)
    moreover have "min 900 (4 * ?p) \<le> raw_backoff b" using pb by (simp add: raw_backoff_def)
    moreover have "2 * q + min (2 * q / 4) 30 \<le> r" if "min 900 (4 * q) \<le> r" "0 < q" "q \<le> 256" for q r :: rat
      using that by linarith
    ultimately show ?thesis using p pa by simp
  qed
  show "backoff_seconds digest a key \<le> backoff_seconds digest b key'"
    using backoff_window(2) [of digest a key] backoff_window(1) [of b digest key'] round3_mono [OF grow] by simp
qed

theorem backoff_bounded_and_growing_witness:
  "backoff_seconds (\<lambda>s. 7) 3 ''d'' \<le> backoff_seconds (\<lambda>s. 7) 4 ''e''"
  using backoff_bounded_and_growing [of 3 4 "\<lambda>s. 7" "''d''" "''e''"] by simp

subsection \<open>What leaves the platform\<close>

text \<open>
  Profiles minimise and never forge: shaping an event for a destination keeps its identity (event,
  type, tenant, time, severity, source object), lets a narrative through only for the analyst profile of
  an integration that opted in and then unchanged and still labelled, empties every descriptive field
  under the minimal profile and the evidence summary under the standard one.
\<close>

theorem profile_minimises:
  assumes "apply_profile json_size p inc mx e = Inr r"
  shows "envelope_valid r \<and>
    (sx_event_id r, sx_type r, sx_org r, sx_time r, sx_severity r, sx_source_type r, sx_source_id r) =
    (sx_event_id e, sx_type e, sx_org e, sx_time e, sx_severity e, sx_source_type e, sx_source_id e) \<and>
    (sx_narrative r \<noteq> None \<longrightarrow> p = Analyst \<and> inc \<and> sx_narrative r = sx_narrative e) \<and>
    (is_labeled_narrative e \<longrightarrow> is_labeled_narrative r) \<and>
    (p = Minimal \<longrightarrow> sx_summary r = [] \<and> sx_surfaces r = [] \<and> sx_decoys r = [] \<and> sx_actions r = [] \<and>
       sx_links r = [] \<and> sx_metadata r = []) \<and>
    (p \<in> {Minimal, Standard} \<longrightarrow> sx_evidence r = [])"
proof -
  obtain d where d_eq: "d = shape_profile p (if \<not> inc then e\<lparr>sx_narrative := None\<rparr> else e)" by blast
  let ?s = "d\<lparr>sx_narrative := None, sx_evidence := [], sx_summary := take 256 (sx_summary d), sx_metadata := []\<rparr>"
  have r: "envelope_valid r" "r = d \<or> r = ?s"
    using assms unfolding apply_profile_def Let_def d_eq [symmetric]
    by (auto simp: and_then_Inr_iff validated_def split: if_splits)
  have d: "(sx_event_id d, sx_type d, sx_org d, sx_time d, sx_severity d, sx_source_type d, sx_source_id d) =
      (sx_event_id e, sx_type e, sx_org e, sx_time e, sx_severity e, sx_source_type e, sx_source_id e)"
      "sx_narrative d \<noteq> None \<longrightarrow> p = Analyst \<and> inc \<and> sx_narrative d = sx_narrative e"
      "is_labeled_narrative e \<longrightarrow> is_labeled_narrative d"
      "p = Minimal \<longrightarrow> sx_summary d = [] \<and> sx_surfaces d = [] \<and> sx_decoys d = [] \<and> sx_actions d = [] \<and>
         sx_links d = [] \<and> sx_metadata d = []"
      "p \<in> {Minimal, Standard} \<longrightarrow> sx_evidence d = []"
    by (cases p; simp add: d_eq shape_profile_def is_labeled_narrative_def)+
  from r(2) show ?thesis
  proof
    assume "r = d"
    with d r(1) show ?thesis by simp
  next
    assume "r = ?s"
    with d r(1) show ?thesis by (simp add: is_labeled_narrative_def)
  qed
qed

definition demo_envelope :: envelope where
  "demo_envelope = (event_base AlertCreated ''org'' 0 HIGH ''a1'' ''title'' ''summary'' 1)
     \<lparr>sx_narrative := Some ''story'', sx_metadata := [narrative_label], sx_evidence := ''evidence''\<rparr>"

theorem profile_minimises_witness:
  "\<exists>r. apply_profile (\<lambda>_. 10) Analyst True 100 demo_envelope = Inr r \<and> sx_narrative r = Some ''story'' \<and> is_labeled_narrative r"
proof -
  have v: "apply_profile (\<lambda>_. 10) Analyst True 100 demo_envelope = Inr demo_envelope"
    by code_simp
  have l: "is_labeled_narrative demo_envelope" by code_simp
  show ?thesis
    using profile_minimises [OF v] l v by (simp add: demo_envelope_def)
qed

text \<open>The size bound is tested once: the reduced envelope is returned whatever its size.\<close>

lemma size_bound_not_enforced:
  assumes "envelope_valid e" and "\<forall>x. mx < json_size x"
  shows "\<exists>r. apply_profile json_size Analyst True mx e = Inr r \<and> mx < json_size r"
  using assms by (auto simp: apply_profile_def shape_profile_def validated_def envelope_valid_def opt_within_def min_def)

text \<open>A key that was not cut identifies tenant, integration, source object, version and event type.\<close>

definition plain_key :: "string \<Rightarrow> bool" where
  "plain_key s \<longleftrightarrow> CHR '':'' \<notin> set s"

lemma sec_event_value_plain: "plain_key (sec_event_value e)"
  by (cases e) (simp_all add: plain_key_def)

lemma sec_event_value_inj: "sec_event_value a = sec_event_value b \<Longrightarrow> a = b"
  by (cases a; cases b; simp)

lemma version_plain: "plain_key (CHR ''v'' # int_str z)"
  using colon_not_int_str [of z] by (simp add: plain_key_def)

lemma idempotency_key_identifies:
  assumes "idempotency_key o1 i1 s1 v1 e1 = idempotency_key o2 i2 s2 v2 e2"
    and "length (idempotency_text o1 i1 s1 v1 e1) \<le> 200" "length (idempotency_text o2 i2 s2 v2 e2) \<le> 200"
    and "list_all plain_key [o1, i1, s1, o2, i2, s2]"
  shows "o1 = o2 \<and> i1 = i2 \<and> s1 = s2 \<and> v1 = v2 \<and> e1 = e2"
proof -
  have "[o1, i1, sec_event_value e1, s1, CHR ''v'' # int_str v1] = [o2, i2, sec_event_value e2, s2, CHR ''v'' # int_str v2]"
  proof (rule join_with_inj)
    show "join_with '':'' [o1, i1, sec_event_value e1, s1, CHR ''v'' # int_str v1] =
        join_with '':'' [o2, i2, sec_event_value e2, s2, CHR ''v'' # int_str v2]"
      using assms(1-3) by (simp add: idempotency_key_def idempotency_text_def)
  qed (use assms(4) sec_event_value_plain version_plain in \<open>auto simp: plain_key_def\<close>)
  then show ?thesis using sec_event_value_inj int_str_inj by auto
qed

text \<open>A long source identifier cuts the version off: the update of the event has the key of the original.\<close>

lemma truncated_key_collides:
  assumes "200 \<le> length org + length integration + length (sec_event_value et) + length source_id"
  shows "idempotency_key org integration source_id v1 et = idempotency_key org integration source_id v2 et"
proof -
  let ?p = "org @ '':'' @ integration @ '':'' @ sec_event_value et @ '':'' @ source_id"
  have "idempotency_text org integration source_id v et = ?p @ ('':v'' @ int_str v)" for v
    by (simp add: idempotency_text_def)
  moreover have "200 \<le> length ?p" using assms by simp
  ultimately show ?thesis unfolding idempotency_key_def by (simp only: take_append) simp
qed

text \<open>The webhook signature covers delivery, event type, time and body.\<close>

lemma webhook_canonical_binds:
  assumes "webhook_canonical js d1 e1 t1 b1 = webhook_canonical js d2 e2 t2 b2"
    and "line d1" "line d2" and "\<forall>x. line (js_sha js x)"
  shows "d1 = d2 \<and> e1 = e2 \<and> t1 = t2 \<and> js_sha js b1 = js_sha js b2"
proof -
  have ev: "line (sec_event_value e)" for e by (cases e) (simp_all add: line_def newline_def)
  have "newline \<notin> set (nat_str n)" for n
    using nat_str_digits [of newline n] by (auto simp: newline_def)
  then have num: "line (int_str z)" for z by (simp add: line_def int_str_def newline_def)
  have "[''df-webhook-v1'', d1, sec_event_value e1, int_str t1, js_sha js b1] =
      [''df-webhook-v1'', d2, sec_event_value e2, int_str t2, js_sha js b2]"
    by (rule join_with_inj [OF assms(1) [unfolded webhook_canonical_def]])
      (use assms(2-4) ev num in \<open>auto simp: line_def newline_def\<close>)
  then show ?thesis using sec_event_value_inj int_str_inj by auto
qed

end
