(* ===== verification/Export_Delivery.thy ===== *)
theory Export_Delivery
  imports Security_Events Failover Rate_Limit
begin

text \<open>
  The transactional outbox and its delivery worker: \<open>repositories/integrations.py\<close>,
  \<open>services/integrations/outbox.py\<close>, \<open>worker.py\<close>, the job entry point \<open>jobs/security_export.py\<close> with the
  commit-or-roll-back session of \<open>jobs/_runtime.py\<close>, and the endpoints of \<open>api/integrations.py\<close> that
  change state. The HTTP transport, the cipher and the endpoint validation are fields of the
  environment; what was sent cannot be rolled back and is returned beside the database.
\<close>

subsection \<open>Tables\<close>

datatype integration_status = IntPending | IntActive | IntDegraded | IntDisabled | IntRevoked

datatype delivery_status = Queued | Delivering | Delivered | Retrying | FailedDelivery | DeadLettered

record integration =
  it_id :: uuid
  it_org :: org_id
  it_type :: integration_type
  it_name :: string
  it_status :: integration_status
  it_endpoint :: string
  it_secret :: "string option"
  it_options :: "(string \<times> string) list"
  it_rules :: routing_rules
  it_profile :: payload_profile
  it_minimum :: severity
  it_narrative :: bool
  it_coverage :: bool
  it_operational :: bool
  it_created_by :: "uuid option"
  it_tested :: "datetime option"
  it_success :: "datetime option"
  it_failure :: "datetime option"
  it_code :: "string option"

record delivery =
  dl_id :: uuid
  dl_org :: org_id
  dl_integration :: uuid
  dl_source_type :: source_type
  dl_source :: string
  dl_event :: event_type
  dl_version :: int
  dl_key :: string
  dl_status :: delivery_status
  dl_attempts :: nat
  dl_next :: "datetime option"
  dl_lease :: "datetime option"
  dl_response :: "int option"
  dl_error :: "string option"
  dl_envelope :: envelope
  dl_hash :: string
  dl_created :: datetime
  dl_delivered :: "datetime option"

record dead_letter =
  lt_delivery :: uuid
  lt_integration :: uuid
  lt_org :: org_id
  lt_reason :: string
  lt_first :: datetime
  lt_final :: datetime
  lt_attempts :: nat
  lt_hash :: string

record outbox_audit =
  oa_org :: org_id
  oa_event :: string
  oa_integration :: "uuid option"
  oa_delivery :: "uuid option"
  oa_actor :: "uuid option"
  oa_metadata :: string

record outbox_db =
  ob_integrations :: "integration list"
  ob_deliveries :: "delivery list"
  ob_dead :: "dead_letter list"
  ob_audit :: "outbox_audit list"

definition add_outbox_audit ::
  "org_id \<Rightarrow> string \<Rightarrow> uuid option \<Rightarrow> uuid option \<Rightarrow> uuid option \<Rightarrow> string \<Rightarrow> outbox_db \<Rightarrow> outbox_db" where
  "add_outbox_audit org ev i d actor meta db =
     db\<lparr>ob_audit := ob_audit db @ [\<lparr>oa_org = org, oa_event = ev, oa_integration = i, oa_delivery = d,
                                     oa_actor = actor, oa_metadata = take 1024 meta\<rparr>]\<rparr>"

subsection \<open>Integrations\<close>

definition get_integration :: "org_id \<Rightarrow> uuid \<Rightarrow> outbox_db \<Rightarrow> integration option" where
  "get_integration org i db =
     (case find (\<lambda>r. it_id r = i) (ob_integrations db) of
        None \<Rightarrow> None
      | Some r \<Rightarrow> if it_org r \<noteq> org then None else Some r)"

definition set_status ::
  "uuid \<Rightarrow> integration_status \<Rightarrow> string option \<Rightarrow> bool \<Rightarrow> bool \<Rightarrow> bool \<Rightarrow> datetime \<Rightarrow> outbox_db \<Rightarrow> outbox_db" where
  "set_status i s err tested success failed now db =
     db\<lparr>ob_integrations := map (\<lambda>r. if it_id r = i then
          r\<lparr>it_status := s, it_code := err,
            it_tested := (if tested then Some now else it_tested r),
            it_success := (if success then Some now else it_success r),
            it_failure := (if failed then Some now else it_failure r)\<rparr> else r) (ob_integrations db)\<rparr>"

definition integration_matches :: "org_id \<Rightarrow> envelope \<Rightarrow> integration \<Rightarrow> bool" where
  "integration_matches org e r \<longleftrightarrow>
     it_org r = org \<and> it_status r = IntActive \<and>
     routing_matches (it_rules r) (it_minimum r) (it_coverage r) (it_operational r) e"

definition matching_integrations :: "org_id \<Rightarrow> envelope \<Rightarrow> outbox_db \<Rightarrow> integration list" where
  "matching_integrations org e db = filter (integration_matches org e) (ob_integrations db)"

subsection \<open>The outbox\<close>

record outbox_env =
  ox_str :: "uuid \<Rightarrow> string"
  ox_size :: "envelope \<Rightarrow> nat"
  ox_max :: nat
  ox_hash :: "envelope \<Rightarrow> string"

definition delivery_key :: "outbox_env \<Rightarrow> org_id \<Rightarrow> integration \<Rightarrow> envelope \<Rightarrow> int \<Rightarrow> string" where
  "delivery_key ox org r e version =
     idempotency_key (ox_str ox org) (ox_str ox (it_id r)) (sx_source_id e) version (sx_type e)"

text \<open>The unique constraint on the key turns a repeated insert into \<open>None\<close>.\<close>

definition enqueue_delivery ::
  "outbox_env \<Rightarrow> uuid \<Rightarrow> datetime \<Rightarrow> org_id \<Rightarrow> integration \<Rightarrow> envelope \<Rightarrow> int \<Rightarrow> outbox_db \<Rightarrow> outbox_db \<times> bool" where
  "enqueue_delivery ox new_id now org r e version db =
     (let key = delivery_key ox org r e version in
      if key \<in> set (map dl_key (ob_deliveries db)) then (db, False)
      else (db\<lparr>ob_deliveries := ob_deliveries db @
        [\<lparr>dl_id = new_id, dl_org = org, dl_integration = it_id r, dl_source_type = sx_source_type e,
          dl_source = sx_source_id e, dl_event = sx_type e, dl_version = version, dl_key = key,
          dl_status = Queued, dl_attempts = 0, dl_next = Some now, dl_lease = None, dl_response = None,
          dl_error = None, dl_envelope = e, dl_hash = ox_hash ox e, dl_created = now, dl_delivered = None\<rparr>]\<rparr>, True))"

text \<open>\<open>ids\<close> supplies the identifiers of the new rows.\<close>

fun emit_to ::
  "outbox_env \<Rightarrow> (nat \<Rightarrow> uuid) \<Rightarrow> datetime \<Rightarrow> org_id \<Rightarrow> envelope \<Rightarrow> int \<Rightarrow> integration list \<Rightarrow> nat \<Rightarrow> outbox_db \<Rightarrow>
   event_error + outbox_db \<times> nat" where
  "emit_to ox ids now org e version [] n db = Inr (db, n)"
| "emit_to ox ids now org e version (r # rs) n db =
     and_then (apply_profile (ox_size ox) (it_profile r) (it_narrative r) (ox_max ox) e) (\<lambda>shaped.
       let (db1, added) = enqueue_delivery ox (ids (length (ob_deliveries db))) now org r shaped version db
       in emit_to ox ids now org e version rs (if added then n + 1 else n) db1)"

definition emit_event ::
  "outbox_env \<Rightarrow> (nat \<Rightarrow> uuid) \<Rightarrow> datetime \<Rightarrow> org_id \<Rightarrow> envelope \<Rightarrow> int \<Rightarrow> outbox_db \<Rightarrow> event_error + outbox_db \<times> nat" where
  "emit_event ox ids now org e version db =
     emit_to ox ids now org e version (matching_integrations org e db) 0 db"

subsection \<open>Deliveries\<close>

definition claimable :: "datetime \<Rightarrow> delivery \<Rightarrow> bool" where
  "claimable now d \<longleftrightarrow> dl_status d \<in> {Queued, Retrying} \<and>
     (case dl_lease d of None \<Rightarrow> True | Some l \<Rightarrow> l < now)"

definition due :: "datetime \<Rightarrow> delivery \<Rightarrow> bool" where
  "due now d \<longleftrightarrow> claimable now d \<and> (case dl_next d of None \<Rightarrow> False | Some t \<Rightarrow> t \<le> now)"

definition claim_delivery :: "datetime \<Rightarrow> datetime \<Rightarrow> uuid \<Rightarrow> delivery list \<Rightarrow> delivery list \<times> delivery option" where
  "claim_delivery now lease i ds =
     (let hits = filter (\<lambda>d. dl_id d = i \<and> claimable now d) ds;
          ds1 = map (\<lambda>d. if dl_id d = i \<and> claimable now d then d\<lparr>dl_status := Delivering, dl_lease := Some lease\<rparr> else d) ds
      in if length hits = 1 then (ds1, find (\<lambda>d. dl_id d = i) ds1) else (ds1, None))"

fun claim_each :: "datetime \<Rightarrow> datetime \<Rightarrow> uuid list \<Rightarrow> delivery list \<Rightarrow> delivery list \<times> delivery list" where
  "claim_each now lease [] ds = (ds, [])"
| "claim_each now lease (i # is) ds =
     (let (ds1, c) = claim_delivery now lease i ds;
          (ds2, cs) = claim_each now lease is ds1
      in (ds2, (case c of None \<Rightarrow> cs | Some d \<Rightarrow> d # cs)))"

definition due_ids :: "nat \<Rightarrow> datetime \<Rightarrow> delivery list \<Rightarrow> uuid list" where
  "due_ids limit now ds = map dl_id (take limit (sort_key dl_created (filter (due now) ds)))"

definition claim_deliveries :: "nat \<Rightarrow> int \<Rightarrow> datetime \<Rightarrow> outbox_db \<Rightarrow> outbox_db \<times> delivery list" where
  "claim_deliveries limit lease_seconds now db =
     (let (ds, cs) = claim_each now (now + seconds lease_seconds) (due_ids limit now (ob_deliveries db)) (ob_deliveries db)
      in (db\<lparr>ob_deliveries := ds\<rparr>, cs))"

definition update_delivery :: "uuid \<Rightarrow> (delivery \<Rightarrow> delivery) \<Rightarrow> outbox_db \<Rightarrow> outbox_db" where
  "update_delivery i f db = db\<lparr>ob_deliveries := map (\<lambda>d. if dl_id d = i then f d else d) (ob_deliveries db)\<rparr>"

definition mark_delivered :: "uuid \<Rightarrow> int option \<Rightarrow> datetime \<Rightarrow> outbox_db \<Rightarrow> outbox_db" where
  "mark_delivered i status now db =
     update_delivery i (\<lambda>d. d\<lparr>dl_status := Delivered, dl_response := status, dl_attempts := dl_attempts d + 1,
       dl_lease := None, dl_delivered := Some now, dl_error := None\<rparr>) db"

definition mark_retry :: "uuid \<Rightarrow> rat \<Rightarrow> string option \<Rightarrow> int option \<Rightarrow> datetime \<Rightarrow> outbox_db \<Rightarrow> outbox_db" where
  "mark_retry i delay err status now db =
     update_delivery i (\<lambda>d. d\<lparr>dl_status := Retrying, dl_attempts := dl_attempts d + 1,
       dl_next := Some (now + round_even (delay * 1000000)), dl_lease := None, dl_response := status,
       dl_error := err\<rparr>) db"

definition mark_dead_letter :: "delivery \<Rightarrow> string \<Rightarrow> int option \<Rightarrow> datetime \<Rightarrow> outbox_db \<Rightarrow> outbox_db" where
  "mark_dead_letter d reason status now db =
     (let db1 = update_delivery (dl_id d) (\<lambda>x. x\<lparr>dl_status := DeadLettered, dl_attempts := dl_attempts x + 1,
                  dl_lease := None, dl_response := status, dl_error := Some reason\<rparr>) db
      in db1\<lparr>ob_dead := ob_dead db1 @ [\<lparr>lt_delivery = dl_id d, lt_integration = dl_integration d, lt_org = dl_org d,
           lt_reason = take 64 reason, lt_first = dl_created d, lt_final = now, lt_attempts = dl_attempts d + 1,
           lt_hash = dl_hash d\<rparr>]\<rparr>)"

definition requeue_delivery :: "uuid \<Rightarrow> datetime \<Rightarrow> outbox_db \<Rightarrow> outbox_db" where
  "requeue_delivery i now db =
     update_delivery i (\<lambda>d. d\<lparr>dl_status := Queued, dl_next := Some now, dl_lease := None\<rparr>) db"

subsection \<open>The worker\<close>

record delivery_env =
  dx_now :: datetime
  dx_batch :: nat
  dx_lease :: int
  dx_max_attempts :: nat
  dx_max_age_hours :: rat
  dx_endpoint_ok :: "string \<Rightarrow> bool"
  dx_decrypt :: "string \<Rightarrow> string option"
  dx_send :: "http_request \<Rightarrow> http_response option"
  dx_js :: serializers
  dx_digest :: "string \<Rightarrow> 32 word"
  dx_str :: "uuid \<Rightarrow> string"

datatype worker_crash = Crash string

definition hours_between :: "datetime \<Rightarrow> datetime \<Rightarrow> rat" where
  "hours_between a b = of_int (b - a) / 1000000 / 3600"

definition resolve_secret :: "delivery_env \<Rightarrow> integration \<Rightarrow> worker_crash + string option" where
  "resolve_secret dx r =
     (case it_secret r of None \<Rightarrow> Inr None
      | Some c \<Rightarrow> if c = [] then Inr None
          else (case dx_decrypt dx c of None \<Rightarrow> Inl (Crash ''decrypt'') | Some s \<Rightarrow> Inr (Some s)))"

definition build_request :: "delivery_env \<Rightarrow> integration \<Rightarrow> delivery \<Rightarrow> worker_crash + http_request" where
  "build_request dx r d =
     (if it_type r = Datadog then Inl (Crash (''unsupported integration type: '' @ integration_value (it_type r)))
      else and_then (resolve_secret dx r) (\<lambda>secret.
        case adapter_request (dx_js dx) (dx_now dx div 1000000) (it_type r) (dl_envelope d)
               \<lparr>ac_endpoint = it_endpoint r, ac_secret = secret, ac_options = it_options r\<rparr> (dx_str dx (dl_id d)) of
          Inl _ \<Rightarrow> Inl (Crash ''adapter'')
        | Inr rq \<Rightarrow> Inr rq))"

definition exhausted :: "delivery_env \<Rightarrow> delivery \<Rightarrow> bool" where
  "exhausted dx d \<longleftrightarrow> dl_attempts d + 1 \<ge> dx_max_attempts dx \<or>
     hours_between (dl_created d) (dx_now dx) \<ge> dx_max_age_hours dx"

definition retry_delay :: "delivery_env \<Rightarrow> delivery \<Rightarrow> delivery_result \<Rightarrow> rat" where
  "retry_delay dx d res =
     (case dr_retry_after res of Some s \<Rightarrow> of_int s
      | None \<Rightarrow> backoff_seconds (dx_digest dx) (int (dl_attempts d) + 1) (dx_str dx (dl_id d)))"

definition record_result :: "delivery_env \<Rightarrow> integration \<Rightarrow> delivery \<Rightarrow> delivery_result \<Rightarrow> outbox_db \<Rightarrow> outbox_db" where
  "record_result dx r d res db =
     (let now = dx_now dx in
      if dr_decision res = Success then
        set_status (it_id r) IntActive None False True False now (mark_delivered (dl_id d) (dr_status res) now db)
      else if dr_decision res = Permanent then
        set_status (it_id r) IntDegraded (Some ''permanent_failure'') False False True now
          (mark_dead_letter d (case dr_error res of None \<Rightarrow> ''permanent_failure'' | Some e \<Rightarrow> if e = [] then ''permanent_failure'' else e)
             (dr_status res) now db)
      else if exhausted dx d then
        set_status (it_id r) IntDegraded (Some ''delivery_exhausted'') False False True now
          (mark_dead_letter d ''max_attempts_exceeded'' (dr_status res) now db)
      else
        mark_retry (dl_id d) (retry_delay dx d res) (dr_error res) (dr_status res) now db)"

definition process_delivery :: "delivery_env \<Rightarrow> delivery \<Rightarrow> outbox_db \<Rightarrow> http_request list \<times> (worker_crash + outbox_db)" where
  "process_delivery dx d db =
     (case get_integration (dl_org d) (dl_integration d) db of
        None \<Rightarrow> ([], Inr (mark_dead_letter d ''integration_missing'' None (dx_now dx) db))
      | Some r \<Rightarrow>
          if it_status r \<noteq> IntActive then ([], Inr (mark_dead_letter d ''integration_inactive'' None (dx_now dx) db))
          else if \<not> dx_endpoint_ok dx (it_endpoint r) then
            ([], Inr (add_outbox_audit (dl_org d) ''ssrf_rejected'' (Some (it_id r)) (Some (dl_id d)) None []
                   (mark_dead_letter d ''ssrf_blocked'' None (dx_now dx) db)))
          else case build_request dx r d of
            Inl c \<Rightarrow> ([], Inl c)
          | Inr rq \<Rightarrow>
              ([rq], Inr (record_result dx r d
                 (case dx_send dx rq of None \<Rightarrow> result_from_transport_error | Some resp \<Rightarrow> result_from_response resp) db)))"

fun process_all :: "delivery_env \<Rightarrow> delivery list \<Rightarrow> outbox_db \<Rightarrow> http_request list \<times> (worker_crash + outbox_db)" where
  "process_all dx [] db = ([], Inr db)"
| "process_all dx (d # ds) db =
     (case process_delivery dx d db of
        (sent, Inl c) \<Rightarrow> (sent, Inl c)
      | (sent, Inr db1) \<Rightarrow> (let (sent', r) = process_all dx ds db1 in (sent @ sent', r)))"

definition delivery_once :: "delivery_env \<Rightarrow> outbox_db \<Rightarrow> http_request list \<times> (worker_crash + outbox_db \<times> nat)" where
  "delivery_once dx db =
     (let (db1, claimed) = claim_deliveries (dx_batch dx) (dx_lease dx) (dx_now dx) db;
          (sent, r) = process_all dx claimed db1
      in (sent, map_sum id (\<lambda>db2. (db2, length claimed)) r))"

text \<open>\<open>jobs.security_export.run\<close> under \<open>job_session\<close>: commit on success, roll back and raise otherwise.\<close>

definition export_job ::
  "bool \<Rightarrow> rel_settings \<Rightarrow> delivery_env \<Rightarrow> outbox_db \<Rightarrow> outbox_db \<times> http_request list \<times> (worker_crash + nat)" where
  "export_job enabled cfg dx db =
     (if \<not> enabled then (db, [], Inr 0)
      else if \<not> scheduler_allowed cfg then (db, [], Inr 0)
      else case delivery_once dx db of
        (sent, Inl c) \<Rightarrow> (db, sent, Inl c)
      | (sent, Inr (db1, n)) \<Rightarrow> (db1, sent, Inr n))"

subsection \<open>Endpoints\<close>

record integration_body =
  ib_type :: integration_type
  ib_name :: string
  ib_endpoint :: string
  ib_secret :: "string option"
  ib_options :: "(string \<times> string) list"
  ib_events :: "string list"
  ib_surfaces :: "string list"
  ib_minimum :: severity
  ib_profile :: payload_profile
  ib_narrative :: bool
  ib_coverage :: bool
  ib_operational :: bool

definition not_enabled :: http_error where
  "not_enabled = HttpError 404 ''security integrations are not enabled''"

definition create_integration ::
  "(string \<Rightarrow> string) \<Rightarrow> (string \<Rightarrow> string + unit) \<Rightarrow> bool \<Rightarrow> uuid \<Rightarrow> auth_context \<Rightarrow> integration_body \<Rightarrow> outbox_db \<Rightarrow>
   outbox_db \<times> (http_error + integration)" where
  "create_integration encrypt validate enabled new_id auth body db =
     (if \<not> enabled then (db, Inl not_enabled)
      else case validate (ib_endpoint body) of
        Inl m \<Rightarrow> (db, Inl (HttpError 400 m))
      | Inr _ \<Rightarrow>
          (let r = \<lparr>it_id = new_id, it_org = ctx_org auth, it_type = ib_type body, it_name = ib_name body,
                 it_status = IntActive, it_endpoint = ib_endpoint body,
                 it_secret = (case ib_secret body of None \<Rightarrow> None | Some s \<Rightarrow> if s = [] then None else Some (encrypt s)),
                 it_options = ib_options body, it_rules = \<lparr>ru_events = ib_events body, ru_surfaces = ib_surfaces body\<rparr>,
                 it_profile = ib_profile body, it_minimum = ib_minimum body, it_narrative = ib_narrative body,
                 it_coverage = ib_coverage body, it_operational = ib_operational body, it_created_by = ctx_key_id auth,
                 it_tested = None, it_success = None, it_failure = None, it_code = None\<rparr>
           in (add_outbox_audit (ctx_org auth) ''integration_created'' (Some new_id) None (ctx_key_id auth)
                 (integration_value (ib_type body)) (db\<lparr>ob_integrations := ob_integrations db @ [r]\<rparr>), Inr r)))"

definition disable_integration :: "bool \<Rightarrow> datetime \<Rightarrow> auth_context \<Rightarrow> uuid \<Rightarrow> outbox_db \<Rightarrow> outbox_db \<times> (http_error + unit)" where
  "disable_integration enabled now auth i db =
     (if \<not> enabled then (db, Inl not_enabled)
      else case get_integration (ctx_org auth) i db of
        None \<Rightarrow> (db, Inl (HttpError 404 ''integration not found''))
      | Some r \<Rightarrow>
          (add_outbox_audit (ctx_org auth) ''integration_disabled'' (Some i) None (ctx_key_id auth) []
             (set_status i IntRevoked None False False False now db), Inr ()))"

text \<open>The result of a test: sent requests, hit table of the limiter, database and answer.\<close>

definition test_event :: "string \<Rightarrow> datetime \<Rightarrow> string \<Rightarrow> event_error + envelope" where
  "test_event org now hex8 =
     build_operational_event ConnectorUnhealthy org now (''test-'' @ hex8) INFO ''DeceptiForge integration test''
       ''synthetic test event; ignore'' None None"

definition ok_response :: "http_response option \<Rightarrow> bool" where
  "ok_response resp = (case resp of None \<Rightarrow> False | Some x \<Rightarrow> 200 \<le> hs_status x \<and> hs_status x < 300)"

definition test_request :: "delivery_env \<Rightarrow> string \<Rightarrow> org_id \<Rightarrow> integration \<Rightarrow> worker_crash + http_request" where
  "test_request dx hex8 org r =
     and_then (map_sum (\<lambda>_. Crash ''envelope'') id (test_event (dx_str dx org) (dx_now dx) hex8)) (\<lambda>e.
       if it_type r = Datadog then Inl (Crash (''unsupported integration type: '' @ integration_value (it_type r)))
       else and_then (resolve_secret dx r) (\<lambda>secret.
         map_sum (\<lambda>_. Crash ''adapter'') id
           (adapter_request (dx_js dx) (dx_now dx div 1000000) (it_type r) e
              \<lparr>ac_endpoint = it_endpoint r, ac_secret = secret, ac_options = it_options r\<rparr> ''test'')))"

definition record_test :: "datetime \<Rightarrow> auth_context \<Rightarrow> uuid \<Rightarrow> bool \<Rightarrow> outbox_db \<Rightarrow> outbox_db" where
  "record_test now auth i ok db =
     add_outbox_audit (ctx_org auth) ''integration_tested'' (Some i) None (ctx_key_id auth)
       (''ok='' @ (if ok then ''True'' else ''False''))
       (set_status i (if ok then IntActive else IntDegraded) None True ok (\<not> ok) now db)"

definition test_integration ::
  "(string \<Rightarrow> string + unit) \<Rightarrow> delivery_env \<Rightarrow> bool \<Rightarrow> rat \<Rightarrow> string \<Rightarrow> auth_context \<Rightarrow> uuid \<Rightarrow> hit_table \<Rightarrow> outbox_db \<Rightarrow>
   hit_table \<times> outbox_db \<times> http_request list \<times> (http_error + bool)" where
  "test_integration validate dx enabled clock hex8 auth i hits db =
     (if \<not> enabled then (hits, db, [], Inl not_enabled)
      else case get_integration (ctx_org auth) i db of
        None \<Rightarrow> (hits, db, [], Inl (HttpError 404 ''integration not found''))
      | Some r \<Rightarrow>
          (let key = rate_limit_key ''integrations:test'' (dx_str dx (ctx_org auth))
                       (map_option (dx_str dx) (ctx_key_id auth)) (Some (dx_str dx i));
               (hits1, allowed) = memory_allow clock key 6 hits in
           if \<not> allowed then (hits1, db, [], Inl (HttpError 429 ''test rate limit exceeded''))
           else case validate (it_endpoint r) of
             Inl m \<Rightarrow> (hits1, db, [], Inl (HttpError 400 m))
           | Inr _ \<Rightarrow>
               (case test_request dx hex8 (ctx_org auth) r of
                  Inl _ \<Rightarrow> (hits1, db, [], Inl (HttpError 500 ''internal error''))
                | Inr rq \<Rightarrow>
                    (let ok = ok_response (dx_send dx rq) in
                     (hits1, record_test (dx_now dx) auth i ok db, [rq], Inr ok)))))"

definition get_delivery :: "org_id \<Rightarrow> uuid \<Rightarrow> outbox_db \<Rightarrow> delivery option" where
  "get_delivery org i db =
     (case find (\<lambda>d. dl_id d = i) (ob_deliveries db) of
        None \<Rightarrow> None
      | Some d \<Rightarrow> if dl_org d \<noteq> org then None else Some d)"

definition retry_delivery :: "bool \<Rightarrow> datetime \<Rightarrow> auth_context \<Rightarrow> uuid \<Rightarrow> outbox_db \<Rightarrow> outbox_db \<times> (http_error + unit)" where
  "retry_delivery enabled now auth i db =
     (if \<not> enabled then (db, Inl not_enabled)
      else case get_delivery (ctx_org auth) i db of
        None \<Rightarrow> (db, Inl (HttpError 404 ''delivery not found''))
      | Some d \<Rightarrow>
          (add_outbox_audit (ctx_org auth) ''manual_retry'' None (Some i) (ctx_key_id auth) []
             (requeue_delivery i now db), Inr ()))"

subsection \<open>Emission\<close>

lemma profile_keeps_key:
  assumes "apply_profile sz p inc mx e = Inr r"
  shows "sx_source_id r = sx_source_id e" "sx_type r = sx_type e"
  using assms by (auto simp: apply_profile_def Let_def and_then_Inr_iff validated_def shape_profile_def
      split: if_splits payload_profile.splits)

lemma enqueue_keys:
  assumes "enqueue_delivery ox i now org r e v db = (db1, b)"
  shows "set (map dl_key (ob_deliveries db1)) = insert (delivery_key ox org r e v) (set (map dl_key (ob_deliveries db)))"
    "distinct (map dl_key (ob_deliveries db)) \<Longrightarrow> distinct (map dl_key (ob_deliveries db1))"
    "ob_integrations db1 = ob_integrations db"
    "length (ob_deliveries db1) = length (ob_deliveries db) + of_bool b"
    "filter (\<lambda>d. dl_org d \<noteq> org) (ob_deliveries db1) = filter (\<lambda>d. dl_org d \<noteq> org) (ob_deliveries db)"
  using assms by (auto simp: enqueue_delivery_def Let_def split: if_splits)

lemma emit_to_Cons:
  assumes "emit_to ox ids now org e v (r # rs) n db = Inr (db1, m)"
  obtains db0 b where "emit_to ox ids now org e v rs (if b then n + 1 else n) db0 = Inr (db1, m)"
    and "is_ok (apply_profile (ox_size ox) (it_profile r) (it_narrative r) (ox_max ox) e)"
    and "set (map dl_key (ob_deliveries db0)) = insert (delivery_key ox org r e v) (set (map dl_key (ob_deliveries db)))"
    and "distinct (map dl_key (ob_deliveries db)) \<Longrightarrow> distinct (map dl_key (ob_deliveries db0))"
    and "ob_integrations db0 = ob_integrations db"
    and "length (ob_deliveries db0) = length (ob_deliveries db) + of_bool b"
    and "filter (\<lambda>d. dl_org d \<noteq> org) (ob_deliveries db0) = filter (\<lambda>d. dl_org d \<noteq> org) (ob_deliveries db)"
proof -
  from assms obtain x where x: "apply_profile (ox_size ox) (it_profile r) (it_narrative r) (ox_max ox) e = Inr x"
    by (auto simp: and_then_Inr_iff)
  obtain db0 b where en: "enqueue_delivery ox (ids (length (ob_deliveries db))) now org r x v db = (db0, b)"
    by fastforce
  have key: "delivery_key ox org r x v = delivery_key ox org r e v"
    using profile_keeps_key [OF x] by (simp add: delivery_key_def)
  have "emit_to ox ids now org e v rs (if b then n + 1 else n) db0 = Inr (db1, m)"
    using assms x en by (simp split: if_splits)
  moreover have "is_ok (apply_profile (ox_size ox) (it_profile r) (it_narrative r) (ox_max ox) e)"
    using x by (simp add: is_ok_iff)
  ultimately show ?thesis
    using enqueue_keys [OF en] unfolding key by (intro that)
qed

lemma emit_to_keys:
  assumes "emit_to ox ids now org e v rs n db = Inr (db1, m)"
  shows "set (map dl_key (ob_deliveries db1)) =
      set (map dl_key (ob_deliveries db)) \<union> (\<lambda>r. delivery_key ox org r e v) ` set rs \<and>
    (distinct (map dl_key (ob_deliveries db)) \<longrightarrow> distinct (map dl_key (ob_deliveries db1))) \<and>
    ob_integrations db1 = ob_integrations db \<and>
    length (ob_deliveries db1) + n = length (ob_deliveries db) + m \<and>
    filter (\<lambda>d. dl_org d \<noteq> org) (ob_deliveries db1) = filter (\<lambda>d. dl_org d \<noteq> org) (ob_deliveries db)"
  using assms
proof (induction rs arbitrary: n db)
  case Nil
  then show ?case by simp
next
  case (Cons r rs)
  from Cons.prems obtain db0 b where
    step: "emit_to ox ids now org e v rs (if b then n + 1 else n) db0 = Inr (db1, m)"
    and keys: "set (map dl_key (ob_deliveries db0)) = insert (delivery_key ox org r e v) (set (map dl_key (ob_deliveries db)))"
    and d: "distinct (map dl_key (ob_deliveries db)) \<Longrightarrow> distinct (map dl_key (ob_deliveries db0))"
    and same: "ob_integrations db0 = ob_integrations db"
      "length (ob_deliveries db0) = length (ob_deliveries db) + of_bool b"
      "filter (\<lambda>d. dl_org d \<noteq> org) (ob_deliveries db0) = filter (\<lambda>d. dl_org d \<noteq> org) (ob_deliveries db)"
    by (rule emit_to_Cons) blast
  from Cons.IH [OF step] keys d same show ?case by (cases b) auto
qed

lemma emit_to_known:
  assumes "\<forall>r \<in> set rs. delivery_key ox org r e v \<in> set (map dl_key (ob_deliveries db))"
    and "\<forall>r \<in> set rs. is_ok (apply_profile (ox_size ox) (it_profile r) (it_narrative r) (ox_max ox) e)"
  shows "emit_to ox ids now org e v rs n db = Inr (db, n)"
  using assms
proof (induction rs)
  case (Cons r rs)
  from Cons.prems(2) obtain x where x: "apply_profile (ox_size ox) (it_profile r) (it_narrative r) (ox_max ox) e = Inr x"
    by (auto simp: is_ok_iff)
  have "delivery_key ox org r x v = delivery_key ox org r e v"
    using profile_keeps_key [OF x] by (simp add: delivery_key_def)
  then show ?case using Cons x by (simp add: enqueue_delivery_def)
qed simp

lemma emit_to_profiles:
  "emit_to ox ids now org e v rs n db = Inr (db1, m) \<Longrightarrow>
   \<forall>r \<in> set rs. is_ok (apply_profile (ox_size ox) (it_profile r) (it_narrative r) (ox_max ox) e)"
proof (induction rs arbitrary: n db)
  case (Cons r rs)
  from Cons.prems obtain db0 b where "emit_to ox ids now org e v rs (if b then n + 1 else n) db0 = Inr (db1, m)"
      "is_ok (apply_profile (ox_size ox) (it_profile r) (it_narrative r) (ox_max ox) e)"
    by (rule emit_to_Cons) blast
  then show ?case using Cons.IH by simp
qed simp

text \<open>Every new row belongs to one of the integrations emitted to.\<close>

definition emitted_for :: "outbox_env \<Rightarrow> org_id \<Rightarrow> envelope \<Rightarrow> int \<Rightarrow> integration \<Rightarrow> delivery \<Rightarrow> bool" where
  "emitted_for ox org e v r d \<longleftrightarrow> dl_integration d = it_id r \<and> dl_org d = org \<and> dl_key d = delivery_key ox org r e v \<and>
     dl_version d = v \<and> dl_status d = Queued \<and> dl_attempts d = 0"

lemma emit_to_rows:
  assumes "emit_to ox ids now org e v rs n db = Inr (db1, m)"
  shows "\<exists>rows. ob_deliveries db1 = ob_deliveries db @ rows \<and> (\<forall>d \<in> set rows. \<exists>r \<in> set rs. emitted_for ox org e v r d)"
  using assms
proof (induction rs arbitrary: n db)
  case (Cons r rs)
  obtain x where x: "apply_profile (ox_size ox) (it_profile r) (it_narrative r) (ox_max ox) e = Inr x"
    using Cons.prems by (auto simp: and_then_Inr_iff)
  obtain db0 b where q: "enqueue_delivery ox (ids (length (ob_deliveries db))) now org r x v db = (db0, b)" by fastforce
  have run: "emit_to ox ids now org e v rs (if b then n + 1 else n) db0 = Inr (db1, m)" using Cons.prems x q by simp
  have "delivery_key ox org r x v = delivery_key ox org r e v" using profile_keeps_key [OF x] by (simp add: delivery_key_def)
  then have "\<exists>new. ob_deliveries db0 = ob_deliveries db @ new \<and> (\<forall>d \<in> set new. emitted_for ox org e v r d)"
    using q by (auto simp: enqueue_delivery_def Let_def emitted_for_def split: if_splits)
  moreover obtain rows where "ob_deliveries db1 = ob_deliveries db0 @ rows" "\<forall>d \<in> set rows. \<exists>r \<in> set rs. emitted_for ox org e v r d"
    using Cons.IH [OF run] by blast
  ultimately show ?case by fastforce
qed simp

lemma emitted_once:
  assumes "distinct (map dl_key rows)" and "\<forall>d \<in> set rows. \<exists>r \<in> set rs. emitted_for ox org e v r d"
  shows "distinct (map dl_integration rows)"
  using assms
proof (induction rows)
  case (Cons d rows)
  have "dl_integration d \<noteq> dl_integration x" if "x \<in> set rows" for x
  proof
    assume "dl_integration d = dl_integration x"
    then have "dl_key d = dl_key x" using Cons.prems(2) that by (auto simp: emitted_for_def delivery_key_def)
    then show False using Cons.prems(1) that by auto
  qed
  then show ?case using Cons by auto
qed simp

text \<open>
  C7. Emission is idempotent, selective and stays in its tenant: it appends as many rows as it reports, each a queued
  delivery of this event version to one of the integrations that match it, and no integration gets two; so an
  integration that is inactive, of another tenant or not interested gets none. The keys of all deliveries stay distinct,
  every matching integration has a row afterwards, and emitting the same event in the same version again at
  any later time adds nothing.
\<close>

theorem emission_idempotent:
  assumes "distinct (map dl_key (ob_deliveries db))" and "emit_event ox ids now org e v db = Inr (db1, n)"
  shows "distinct (map dl_key (ob_deliveries db1)) \<and>
    (\<exists>rows. ob_deliveries db1 = ob_deliveries db @ rows \<and> length rows = n \<and> distinct (map dl_integration rows) \<and>
      (\<forall>d \<in> set rows. \<exists>r \<in> set (ob_integrations db). integration_matches org e r \<and> emitted_for ox org e v r d)) \<and>
    (\<forall>r \<in> set (matching_integrations org e db). delivery_key ox org r e v \<in> set (map dl_key (ob_deliveries db1))) \<and>
    (\<forall>ids' now'. emit_event ox ids' now' org e v db1 = Inr (db1, 0))"
proof -
  let ?rs = "matching_integrations org e db"
  have run: "emit_to ox ids now org e v ?rs 0 db = Inr (db1, n)" using assms(2) by (simp add: emit_event_def)
  note k = emit_to_keys [OF run]
  have rs: "matching_integrations org e db1 = ?rs" using k by (simp add: matching_integrations_def)
  have again: "emit_event ox ids' now' org e v db1 = Inr (db1, 0)" for ids' now'
    unfolding emit_event_def rs
    by (rule emit_to_known) (use k emit_to_profiles [OF run] in auto)
  obtain rows where rows: "ob_deliveries db1 = ob_deliveries db @ rows" "\<forall>d \<in> set rows. \<exists>r \<in> set ?rs. emitted_for ox org e v r d"
    using emit_to_rows [OF run] by blast
  have d: "distinct (map dl_key (ob_deliveries db1))" using k assms(1) by blast
  then have "distinct (map dl_integration rows)" using rows by (intro emitted_once) auto
  moreover have "length rows = n" using k rows(1) by simp
  moreover have "\<forall>d \<in> set rows. \<exists>r \<in> set (ob_integrations db). integration_matches org e r \<and> emitted_for ox org e v r d"
    using rows(2) by (auto simp: matching_integrations_def)
  ultimately show ?thesis using d rows(1) k again by blast
qed

definition demo_integration :: "uuid \<Rightarrow> integration_type \<Rightarrow> integration" where
  "demo_integration i t = \<lparr>it_id = i, it_org = 1, it_type = t, it_name = ''siem'', it_status = IntActive,
     it_endpoint = ''https://siem.example/in'', it_secret = Some ''k'', it_options = [],
     it_rules = \<lparr>ru_events = [], ru_surfaces = []\<rparr>, it_profile = Minimal, it_minimum = LOW, it_narrative = False,
     it_coverage = True, it_operational = True, it_created_by = None, it_tested = None, it_success = None,
     it_failure = None, it_code = None\<rparr>"

definition demo_outbox :: outbox_env where
  "demo_outbox = \<lparr>ox_str = nat_str, ox_size = (\<lambda>_. 10), ox_max = 100, ox_hash = (\<lambda>_. [])\<rparr>"

definition demo_outbox_db :: outbox_db where
  "demo_outbox_db = \<lparr>ob_integrations = [demo_integration 7 GenericWebhook, demo_integration 8 Datadog],
     ob_deliveries = [], ob_dead = [], ob_audit = []\<rparr>"

theorem emission_idempotent_witness:
  "\<exists>db1. emit_event demo_outbox (\<lambda>n. n) 0 1 demo_envelope 1 demo_outbox_db = Inr (db1, 2) \<and>
     emit_event demo_outbox (\<lambda>n. n) 5 1 demo_envelope 1 db1 = Inr (db1, 0)"
proof -
  have "map_sum id snd (emit_event demo_outbox (\<lambda>n. n) 0 1 demo_envelope 1 demo_outbox_db) = Inr 2"
    by code_simp
  then obtain db1 where r: "emit_event demo_outbox (\<lambda>n. n) 0 1 demo_envelope 1 demo_outbox_db = Inr (db1, 2)"
    by (cases "emit_event demo_outbox (\<lambda>n. n) 0 1 demo_envelope 1 demo_outbox_db") auto
  with emission_idempotent [OF _ r] show ?thesis by (simp add: demo_outbox_db_def)
qed

subsection \<open>One delivery\<close>

definition delivery_row :: "uuid \<Rightarrow> outbox_db \<Rightarrow> delivery option" where
  "delivery_row i db = find (\<lambda>d. dl_id d = i) (ob_deliveries db)"

lemma row_update:
  assumes "\<And>d. dl_id (f d) = dl_id d"
  shows "delivery_row i (update_delivery j f db) = (if i = j then map_option f (delivery_row i db) else delivery_row i db)"
proof -
  have "find (\<lambda>d. dl_id d = i) (map (\<lambda>d. if dl_id d = j then f d else d) ds) =
      (if i = j then map_option f (find (\<lambda>d. dl_id d = i) ds) else find (\<lambda>d. dl_id d = i) ds)" for ds
    by (induction ds) (auto simp: assms)
  then show ?thesis by (simp add: delivery_row_def update_delivery_def)
qed

lemma rows_frame [simp]:
  "delivery_row i (set_status j st err te su fa now db) = delivery_row i db"
  "delivery_row i (add_outbox_audit org ev a b c m db) = delivery_row i db"
  "ob_dead (set_status j st err te su fa now db) = ob_dead db"
  "ob_dead (add_outbox_audit org ev a b c m db) = ob_dead db"
  "ob_dead (update_delivery j f db) = ob_dead db"
  by (simp_all add: delivery_row_def set_status_def add_outbox_audit_def update_delivery_def)

lemma dead_letter_row:
  "delivery_row i (mark_dead_letter d reason st now db) =
     (if i = dl_id d then map_option (\<lambda>x. x\<lparr>dl_status := DeadLettered, dl_attempts := dl_attempts x + 1,
        dl_lease := None, dl_response := st, dl_error := Some reason\<rparr>) (delivery_row i db) else delivery_row i db)"
  "length (ob_dead (mark_dead_letter d reason st now db)) = length (ob_dead db) + 1"
proof -
  have "delivery_row i (mark_dead_letter d reason st now db) = delivery_row i (update_delivery (dl_id d)
      (\<lambda>x. x\<lparr>dl_status := DeadLettered, dl_attempts := dl_attempts x + 1, dl_lease := None, dl_response := st,
        dl_error := Some reason\<rparr>) db)"
    by (simp add: mark_dead_letter_def Let_def delivery_row_def)
  then show "delivery_row i (mark_dead_letter d reason st now db) =
     (if i = dl_id d then map_option (\<lambda>x. x\<lparr>dl_status := DeadLettered, dl_attempts := dl_attempts x + 1,
        dl_lease := None, dl_response := st, dl_error := Some reason\<rparr>) (delivery_row i db) else delivery_row i db)"
    by (simp add: row_update)
  show "length (ob_dead (mark_dead_letter d reason st now db)) = length (ob_dead db) + 1"
    by (simp add: mark_dead_letter_def Let_def)
qed

text \<open>What settling a claimed delivery does to its row.\<close>

definition settled_from :: "delivery_env \<Rightarrow> delivery \<Rightarrow> delivery \<Rightarrow> bool" where
  "settled_from dx d d' \<longleftrightarrow>
     dl_id d' = dl_id d \<and> dl_attempts d' = dl_attempts d + 1 \<and> dl_lease d' = None \<and>
     (dl_status d' = Delivered \<or> dl_status d' = DeadLettered \<or>
      dl_status d' = Retrying \<and> dl_attempts d' < dx_max_attempts dx \<and>
        hours_between (dl_created d) (dx_now dx) < dx_max_age_hours dx \<and>
        (\<exists>t. dl_next d' = Some t \<and> dx_now dx \<le> t \<and> t \<le> dx_now dx + seconds 3600))"

definition keeps_others :: "uuid \<Rightarrow> outbox_db \<Rightarrow> outbox_db \<Rightarrow> bool" where
  "keeps_others i db db1 \<longleftrightarrow> (\<forall>j. j \<noteq> i \<longrightarrow> delivery_row j db1 = delivery_row j db)"

lemma delay_bounds:
  assumes "0 \<le> delay" and "delay \<le> 3600"
  shows "0 \<le> round_even (delay * 1000000)" "round_even (delay * 1000000) \<le> seconds 3600"
proof -
  have "round_even (of_int 0) \<le> round_even (delay * 1000000)"
    using assms by (intro round_even_mono) simp
  then show "0 \<le> round_even (delay * 1000000)" by (simp only: round_even_int)
  have "round_even (delay * 1000000) \<le> round_even (of_int (seconds 3600))"
    using assms by (intro round_even_mono) simp
  then show "round_even (delay * 1000000) \<le> seconds 3600" by (simp only: round_even_int)
qed

lemma backoff_bounds: "2 \<le> backoff_seconds digest a key" "backoff_seconds digest a key \<le> 930"
proof -
  have "round3 2 \<le> round3 (raw_backoff a)" by (intro round3_mono raw_backoff_bounds)
  then show "2 \<le> backoff_seconds digest a key" using backoff_window(1) [of a digest key] by simp
  have "round3 (raw_backoff a + min (raw_backoff a / 4) 30) \<le> round3 930"
    using raw_backoff_bounds(2) [of a] by (intro round3_mono) simp
  then show "backoff_seconds digest a key \<le> 930" using backoff_window(2) [of digest a key] by simp
qed

lemma retry_after_bounds: "parse_retry_after v = Some s \<Longrightarrow> 0 \<le> s \<and> s \<le> 3600"
  by (auto simp: parse_retry_after_def split: option.splits if_splits)

lemma record_result_row:
  assumes "delivery_row (dl_id d) db = Some d" and "\<forall>s. dr_retry_after res = Some s \<longrightarrow> 0 \<le> s \<and> s \<le> 3600"
  shows "\<exists>d'. delivery_row (dl_id d) (record_result dx r d res db) = Some d' \<and> settled_from dx d d' \<and>
      (dl_status d' = Delivered \<longleftrightarrow> dr_decision res = Success) \<and>
      length (ob_dead (record_result dx r d res db)) = length (ob_dead db) + of_bool (dl_status d' = DeadLettered)"
    and "keeps_others (dl_id d) db (record_result dx r d res db)"
proof -
  have delay: "0 \<le> retry_delay dx d res" "retry_delay dx d res \<le> 3600"
    using assms(2) backoff_bounds [of "dx_digest dx" "int (dl_attempts d) + 1" "dx_str dx (dl_id d)"]
    by (auto simp: retry_delay_def split: option.splits)
  note nx = delay_bounds [OF delay]
  show "\<exists>d'. delivery_row (dl_id d) (record_result dx r d res db) = Some d' \<and> settled_from dx d d' \<and>
      (dl_status d' = Delivered \<longleftrightarrow> dr_decision res = Success) \<and>
      length (ob_dead (record_result dx r d res db)) = length (ob_dead db) + of_bool (dl_status d' = DeadLettered)"
    using assms(1) nx
    by (auto simp: record_result_def Let_def mark_delivered_def mark_retry_def row_update dead_letter_row
        settled_from_def exhausted_def)
  show "keeps_others (dl_id d) db (record_result dx r d res db)"
    by (auto simp: keeps_others_def record_result_def Let_def mark_delivered_def mark_retry_def row_update dead_letter_row)
qed

lemma dead_letter_settles:
  assumes "delivery_row (dl_id d) db = Some d"
  shows "\<exists>d'. delivery_row (dl_id d) (mark_dead_letter d reason st now db) = Some d' \<and> settled_from dx d d' \<and>
      dl_status d' = DeadLettered"
    "keeps_others (dl_id d) db (mark_dead_letter d reason st now db)"
  using assms by (auto simp: dead_letter_row settled_from_def keeps_others_def)

lemma result_of_send:
  "dr_decision (case dx_send dx rq of None \<Rightarrow> result_from_transport_error | Some resp \<Rightarrow> result_from_response resp) = Success \<longleftrightarrow>
     ok_response (dx_send dx rq)"
  "\<forall>s. dr_retry_after (case dx_send dx rq of None \<Rightarrow> result_from_transport_error | Some resp \<Rightarrow> result_from_response resp) = Some s \<longrightarrow>
     0 \<le> s \<and> s \<le> 3600"
  by (auto simp: ok_response_def result_from_transport_error_def result_from_response_def Let_def
      classify_transport_error_def classify_status_def retry_after_bounds split: option.splits)

lemma process_delivery_settles:
  assumes "delivery_row (dl_id d) db = Some d" and "process_delivery dx d db = (sent, Inr db1)"
  shows "(\<exists>d'. delivery_row (dl_id d) db1 = Some d' \<and> settled_from dx d d' \<and>
      length (ob_dead db1) = length (ob_dead db) + of_bool (dl_status d' = DeadLettered) \<and>
      (dl_status d' = Delivered \<longleftrightarrow> (\<exists>rq. sent = [rq] \<and> ok_response (dx_send dx rq)))) \<and>
    keeps_others (dl_id d) db db1 \<and> length sent \<le> 1 \<and>
    (sent \<noteq> [] \<longrightarrow> (\<exists>r. get_integration (dl_org d) (dl_integration d) db = Some r \<and> it_status r = IntActive \<and>
       dx_endpoint_ok dx (it_endpoint r)))"
proof (cases "get_integration (dl_org d) (dl_integration d) db")
  case None
  then show ?thesis
    using assms dead_letter_settles [OF assms(1)] by (fastforce simp: process_delivery_def dead_letter_row)
next
  case (Some r)
  show ?thesis
  proof (cases "it_status r = IntActive \<and> dx_endpoint_ok dx (it_endpoint r)")
    case False
    then show ?thesis
      using assms Some dead_letter_settles [OF assms(1)]
      by (fastforce simp: process_delivery_def dead_letter_row keeps_others_def split: if_splits)
  next
    case True
    with assms(2) Some obtain rq where rq: "sent = [rq]"
        and db1: "db1 = record_result dx r d
           (case dx_send dx rq of None \<Rightarrow> result_from_transport_error | Some resp \<Rightarrow> result_from_response resp) db"
      by (auto simp: process_delivery_def split: sum.splits)
    note rr = record_result_row [OF assms(1) result_of_send(2) [of dx rq], where dx = dx and r = r, folded db1]
    from rr(1) obtain d' where "delivery_row (dl_id d) db1 = Some d'" "settled_from dx d d'"
        "dl_status d' = Delivered \<longleftrightarrow> ok_response (dx_send dx rq)"
        "length (ob_dead db1) = length (ob_dead db) + of_bool (dl_status d' = DeadLettered)"
      unfolding result_of_send(1) by blast
    with rr(2) rq True Some show ?thesis by auto
  qed
qed

lemma process_all_settles:
  assumes "process_all dx ds db = (sent, Inr db1)" and "distinct (map dl_id ds)"
    and "\<forall>d \<in> set ds. delivery_row (dl_id d) db = Some d"
  shows "(\<forall>d \<in> set ds. \<exists>d'. delivery_row (dl_id d) db1 = Some d' \<and> settled_from dx d d') \<and>
    (\<forall>j. j \<notin> dl_id ` set ds \<longrightarrow> delivery_row j db1 = delivery_row j db)"
  using assms
proof (induction ds arbitrary: db sent)
  case (Cons d ds)
  from Cons.prems(1) obtain s1 s2 db0 where p: "process_delivery dx d db = (s1, Inr db0)"
      and rest: "process_all dx ds db0 = (s2, Inr db1)"
    by (auto split: prod.splits sum.splits simp: Let_def)
  have row: "delivery_row (dl_id d) db = Some d" using Cons.prems(3) by simp
  from process_delivery_settles [OF row p] obtain d' where
      d': "delivery_row (dl_id d) db0 = Some d'" "settled_from dx d d'"
      and frame: "\<forall>j. j \<noteq> dl_id d \<longrightarrow> delivery_row j db0 = delivery_row j db"
    unfolding keeps_others_def by blast
  have new: "dl_id d \<notin> dl_id ` set ds" using Cons.prems(2) by simp
  have rows: "\<forall>x \<in> set ds. delivery_row (dl_id x) db0 = Some x"
    using Cons.prems(3) frame new by (metis image_eqI list.set_intros(2))
  have dist: "distinct (map dl_id ds)" using Cons.prems(2) by simp
  note ih = Cons.IH [OF rest dist rows]
  have "delivery_row (dl_id d) db1 = Some d'" using ih new d' by simp
  with ih d' frame show ?case by simp
qed simp

subsection \<open>Claims\<close>

definition claimed_row :: "datetime \<Rightarrow> delivery \<Rightarrow> delivery" where
  "claimed_row lease d = d\<lparr>dl_status := Delivering, dl_lease := Some lease\<rparr>"

lemma claimed_row_simps [simp]:
  "dl_id (claimed_row l d) = dl_id d" "dl_attempts (claimed_row l d) = dl_attempts d"
  "\<not> claimable now (claimed_row l d)" "dl_created (claimed_row l d) = dl_created d"
  by (simp_all add: claimed_row_def claimable_def)

lemma filter_key: "distinct (map f ds) \<Longrightarrow> d \<in> set ds \<Longrightarrow> P d \<Longrightarrow> filter (\<lambda>x. f x = f d \<and> P x) ds = [d]"
proof (induction ds)
  case (Cons y ds)
  show ?case
  proof (cases "y = d")
    case True
    then have "\<forall>x \<in> set ds. f x \<noteq> f d" using Cons.prems(1) by (metis distinct.simps(2) image_eqI list.simps(9) set_map)
    then show ?thesis using True Cons.prems(3) by (simp add: filter_empty_conv)
  next
    case False
    then show ?thesis using Cons by force
  qed
qed simp

lemma find_key: "distinct (map f ds) \<Longrightarrow> d \<in> set ds \<Longrightarrow> find (\<lambda>x. f x = f d) ds = Some d"
  by (induction ds) force+

lemma claim_delivery_eq:
  assumes "distinct (map dl_id ds)" and "d \<in> set ds" and "claimable now d"
  shows "claim_delivery now lease (dl_id d) ds =
    (map (\<lambda>x. if dl_id x = dl_id d then claimed_row lease x else x) ds, Some (claimed_row lease d))"
proof -
  let ?ds = "map (\<lambda>x. if dl_id x = dl_id d then claimed_row lease x else x) ds"
  have key: "x = d" if "x \<in> set ds" "dl_id x = dl_id d" for x
    using that assms(1,2) by (simp add: distinct_map inj_on_def)
  have m: "map (\<lambda>x. if dl_id x = dl_id d \<and> claimable now x then x\<lparr>dl_status := Delivering, dl_lease := Some lease\<rparr> else x) ds = ?ds"
    using key assms(3) by (auto simp: claimed_row_def)
  have ids: "map dl_id ?ds = map dl_id ds" by simp
  have "claimed_row lease d \<in> set ?ds" using assms(2) by force
  then have "find (\<lambda>x. dl_id x = dl_id d) ?ds = Some (claimed_row lease d)"
    using find_key [of dl_id ?ds "claimed_row lease d"] assms(1) unfolding ids by simp
  then show ?thesis
    using filter_key [OF assms(1,2), of "claimable now"] assms(3) by (simp add: claim_delivery_def m Let_def)
qed

text \<open>Claiming distinct claimable rows claims them all, in order, and touches nothing else.\<close>

lemma claim_each_eq:
  assumes "distinct (map dl_id ds)" and "distinct (map dl_id xs)" and "set xs \<subseteq> set ds" and "\<forall>d \<in> set xs. claimable now d"
  shows "claim_each now lease (map dl_id xs) ds =
    (map (\<lambda>x. if dl_id x \<in> dl_id ` set xs then claimed_row lease x else x) ds, map (claimed_row lease) xs)"
  using assms
proof (induction xs arbitrary: ds)
  case (Cons y ys)
  let ?ds = "map (\<lambda>x. if dl_id x = dl_id y then claimed_row lease x else x) ds"
  have "claim_delivery now lease (dl_id y) ds = (?ds, Some (claimed_row lease y))"
    using Cons.prems by (intro claim_delivery_eq) auto
  moreover have "claim_each now lease (map dl_id ys) ?ds =
      (map (\<lambda>x. if dl_id x \<in> dl_id ` set ys then claimed_row lease x else x) ?ds, map (claimed_row lease) ys)"
  proof (rule Cons.IH)
    have "map dl_id ?ds = map dl_id ds" by simp
    then show "distinct (map dl_id ?ds)" using Cons.prems(1) by (rule ssubst)
    show "set ys \<subseteq> set ?ds"
    proof
      fix x assume x: "x \<in> set ys"
      then have "dl_id x \<noteq> dl_id y" using Cons.prems(2) by (metis distinct.simps(2) image_eqI list.simps(9) set_map)
      moreover have "x \<in> set ds" using x Cons.prems(3) by auto
      ultimately show "x \<in> set ?ds" unfolding set_map by (intro rev_image_eqI [of x]) simp_all
    qed
  qed (use Cons.prems in auto)
  moreover have "map (\<lambda>x. if dl_id x \<in> dl_id ` set ys then claimed_row lease x else x) ?ds =
      map (\<lambda>x. if dl_id x \<in> dl_id ` set (y # ys) then claimed_row lease x else x) ds"
    by (auto simp: claimed_row_def)
  ultimately show ?case by simp
qed simp

definition due_rows :: "nat \<Rightarrow> datetime \<Rightarrow> outbox_db \<Rightarrow> delivery list" where
  "due_rows limit now db = take limit (sort_key dl_created (filter (due now) (ob_deliveries db)))"

lemma due_rows_facts:
  assumes "distinct (map dl_id (ob_deliveries db))"
  shows "distinct (map dl_id (due_rows limit now db))" "set (due_rows limit now db) \<subseteq> set (ob_deliveries db)"
    "\<forall>d \<in> set (due_rows limit now db). due now d" "length (due_rows limit now db) \<le> limit"
proof -
  let ?s = "sort_key dl_created (filter (due now) (ob_deliveries db))"
  have set: "set (due_rows limit now db) \<subseteq> set ?s" unfolding due_rows_def by (rule set_take_subset)
  then show "set (due_rows limit now db) \<subseteq> set (ob_deliveries db)" "\<forall>d \<in> set (due_rows limit now db). due now d"
    by auto
  have "distinct (map dl_id (filter (due now) (ob_deliveries db)))" by (rule distinct_map_filter [OF assms])
  then have "distinct (map dl_id ?s)"
    by (metis distinct_map distinct_sort set_sort)
  then show "distinct (map dl_id (due_rows limit now db))"
    unfolding due_rows_def by (simp add: take_map [symmetric])
  show "length (due_rows limit now db) \<le> limit" by (simp add: due_rows_def)
qed

lemma claim_deliveries_eq:
  assumes "distinct (map dl_id (ob_deliveries db))"
  shows "claim_deliveries limit ls now db =
    (db\<lparr>ob_deliveries := map (\<lambda>x. if dl_id x \<in> dl_id ` set (due_rows limit now db)
          then claimed_row (now + seconds ls) x else x) (ob_deliveries db)\<rparr>,
     map (claimed_row (now + seconds ls)) (due_rows limit now db))"
proof -
  note f = due_rows_facts [OF assms, of limit now]
  have "due_ids limit now (ob_deliveries db) = map dl_id (due_rows limit now db)"
    by (simp add: due_ids_def due_rows_def)
  moreover have "\<forall>d \<in> set (due_rows limit now db). claimable now d" using f(3) by (simp add: due_def)
  ultimately show ?thesis
    using claim_each_eq [OF assms f(1,2)] by (simp add: claim_deliveries_def)
qed

text \<open>
  A claim is final: a worker claims at most its batch, only due deliveries, each with its lease,
  and nothing it claimed is claimed again by any later claim, not even after the lease has expired.
\<close>

theorem export_claims_final:
  assumes "distinct (map dl_id (ob_deliveries db))" and "claim_deliveries l1 s1 t1 db = (db1, c1)"
    and "claim_deliveries l2 s2 t2 db1 = (db2, c2)"
  shows "length c1 \<le> l1 \<and>
    (\<forall>d \<in> set c1. dl_status d = Delivering \<and> dl_lease d = Some (t1 + seconds s1) \<and>
       (\<exists>x \<in> set (ob_deliveries db). dl_id x = dl_id d \<and> due t1 x)) \<and>
    dl_id ` set c1 \<inter> dl_id ` set c2 = {}"
proof -
  let ?due = "due_rows l1 t1 db"
  note f = due_rows_facts [OF assms(1), of l1 t1]
  have db1: "db1 = db\<lparr>ob_deliveries := map (\<lambda>x. if dl_id x \<in> dl_id ` set ?due then claimed_row (t1 + seconds s1) x else x) (ob_deliveries db)\<rparr>"
    and c1: "c1 = map (claimed_row (t1 + seconds s1)) ?due"
    using claim_deliveries_eq [OF assms(1), of l1 s1 t1] assms(2) by simp_all
  have "map dl_id (ob_deliveries db1) = map dl_id (ob_deliveries db)" by (simp add: db1)
  then have dist1: "distinct (map dl_id (ob_deliveries db1))" using assms(1) by (rule ssubst)
  have c2: "c2 = map (claimed_row (t2 + seconds s2)) (due_rows l2 t2 db1)"
    using claim_deliveries_eq [OF dist1, of l2 s2 t2] assms(3) by simp
  have "dl_id ` set c1 \<inter> dl_id ` set c2 = {}"
  proof (rule equals0I)
    fix i assume i: "i \<in> dl_id ` set c1 \<inter> dl_id ` set c2"
    then have known: "i \<in> dl_id ` set ?due" unfolding c1 by (auto simp only: set_map image_image claimed_row_simps)
    from i obtain x where x: "x \<in> set (due_rows l2 t2 db1)" "dl_id x = i"
      unfolding c2 by (auto simp only: set_map image_image claimed_row_simps)
    from due_rows_facts [OF dist1, of l2 t2] x(1) have "x \<in> set (ob_deliveries db1)" "claimable t2 x"
      by (auto simp: due_def)
    with known x(2) show False by (auto simp: db1 split: if_splits)
  qed
  moreover have "dl_status d = Delivering \<and> dl_lease d = Some (t1 + seconds s1) \<and>
      (\<exists>x \<in> set (ob_deliveries db). dl_id x = dl_id d \<and> due t1 x)" if "d \<in> set c1" for d
  proof -
    from that obtain x where x: "x \<in> set ?due" "d = claimed_row (t1 + seconds s1) x" unfolding c1 by auto
    have "x \<in> set (ob_deliveries db)" using f(2) x(1) by blast
    moreover have "due t1 x" using f(3) x(1) by blast
    ultimately show ?thesis using x(2) by (auto simp: claimed_row_def)
  qed
  ultimately show ?thesis using f(4) by (simp add: c1)
qed

text \<open>
  C8. One run settles everything it picked up: on the active region, a run of the export job that does
  not raise processes exactly the due deliveries of its batch; each of them has one attempt more, no
  lease, and is delivered, dead-lettered, or scheduled for a retry within the hour with attempts and age
  left; all other deliveries are untouched.
\<close>

theorem worker_settles_due:
  assumes "distinct (map dl_id (ob_deliveries db))" and "scheduler_allowed cfg"
    and "export_job True cfg dx db = (db1, sent, Inr n)"
  shows "n = length (due_rows (dx_batch dx) (dx_now dx) db) \<and> n \<le> dx_batch dx \<and>
    (\<forall>d \<in> set (due_rows (dx_batch dx) (dx_now dx) db).
       \<exists>d'. delivery_row (dl_id d) db1 = Some d' \<and> settled_from dx d d') \<and>
    (\<forall>j. j \<notin> dl_id ` set (due_rows (dx_batch dx) (dx_now dx) db) \<longrightarrow> delivery_row j db1 = delivery_row j db)"
proof -
  let ?due = "due_rows (dx_batch dx) (dx_now dx) db" and ?l = "dx_now dx + seconds (dx_lease dx)"
  let ?db = "db\<lparr>ob_deliveries := map (\<lambda>x. if dl_id x \<in> dl_id ` set ?due then claimed_row ?l x else x) (ob_deliveries db)\<rparr>"
  note f = due_rows_facts [OF assms(1), of "dx_batch dx" "dx_now dx"]
  from assms(2,3) have run: "process_all dx (map (claimed_row ?l) ?due) ?db = (sent, Inr db1)" and n: "n = length ?due"
    by (auto simp: export_job_def delivery_once_def claim_deliveries_eq [OF assms(1)] map_sum_def
        split: prod.splits sum.splits if_splits)
  have ids: "map dl_id (ob_deliveries ?db) = map dl_id (ob_deliveries db)" by simp
  have row: "delivery_row (dl_id d) ?db = Some (claimed_row ?l d)" if "d \<in> set ?due" for d
  proof -
    have "claimed_row ?l d \<in> set (ob_deliveries ?db)" using that f(2) by force
    moreover have "distinct (map dl_id (ob_deliveries ?db))" using assms(1) unfolding ids .
    ultimately show ?thesis
      using find_key [of dl_id "ob_deliveries ?db" "claimed_row ?l d"] by (simp add: delivery_row_def)
  qed
  have other: "delivery_row j ?db = delivery_row j db" if "j \<notin> dl_id ` set ?due" for j
  proof -
    have "find (\<lambda>d. dl_id d = j) (map (\<lambda>x. if dl_id x \<in> dl_id ` set ?due then claimed_row ?l x else x) xs) =
        find (\<lambda>d. dl_id d = j) xs" for xs
      using that by (induction xs) auto
    then show ?thesis by (simp add: delivery_row_def)
  qed
  have "(\<forall>d \<in> set (map (claimed_row ?l) ?due). \<exists>d'. delivery_row (dl_id d) db1 = Some d' \<and> settled_from dx d d') \<and>
    (\<forall>j. j \<notin> dl_id ` set (map (claimed_row ?l) ?due) \<longrightarrow> delivery_row j db1 = delivery_row j ?db)"
    by (rule process_all_settles [OF run]) (use f(1) row in \<open>auto simp: comp_def\<close>)
  with n f(4) other show ?thesis by (simp add: settled_from_def image_image)
qed

text \<open>An integration other than the one just used keeps its row.\<close>

lemma record_result_integration:
  "i \<noteq> it_id r \<Longrightarrow> get_integration org i (record_result dx r d res db) = get_integration org i db"
proof -
  assume i: "i \<noteq> it_id r"
  have "find (\<lambda>x. it_id x = i) (map (\<lambda>x. if it_id x = it_id r then f x else x) xs) = find (\<lambda>x. it_id x = i) xs"
    if "\<And>x. it_id (f x) = it_id x" for f :: "integration \<Rightarrow> integration" and xs
    using i by (induction xs) (auto simp: that)
  then show ?thesis
    by (simp add: record_result_def Let_def set_status_def mark_delivered_def mark_retry_def mark_dead_letter_def
        update_delivery_def get_integration_def)
qed

lemma get_integration_id: "get_integration org i db = Some r \<Longrightarrow> it_id r = i \<and> it_org r = org"
  by (auto simp: get_integration_def find_Some_iff split: option.splits if_splits)

text \<open>
  One unsupported integration blocks the queue: Datadog is an accepted integration type without an
  adapter, so when its delivery comes up, the job raises and its session rolls back. Everything the run
  recorded is lost, while what it sent is sent: the delivery processed before it is in the receiver's
  hands and, the database being unchanged, is sent again by the next run.
\<close>

theorem unsupported_type_blocks_queue:
  assumes "distinct (map dl_id (ob_deliveries db))" and "scheduler_allowed cfg"
    and "due_rows (dx_batch dx) (dx_now dx) db = x # d # ys"
    and "get_integration (dl_org x) (dl_integration x) db = Some rx" and "it_status rx = IntActive"
    and "it_type rx \<noteq> Datadog" and "it_secret rx = None" and "dx_endpoint_ok dx (it_endpoint rx)"
    and "get_integration (dl_org d) (dl_integration d) db = Some r" and "it_status r = IntActive"
    and "it_type r = Datadog" and "dx_endpoint_ok dx (it_endpoint r)"
  shows "\<exists>rq. export_job True cfg dx db = (db, [rq], Inl (Crash ''unsupported integration type: datadog''))"
proof -
  obtain l where l: "l = dx_now dx + seconds (dx_lease dx)" by blast
  obtain db' where db': "db' = db\<lparr>ob_deliveries := map (\<lambda>z. if dl_id z \<in> dl_id ` set (x # d # ys) then claimed_row l z else z) (ob_deliveries db)\<rparr>"
    by blast
  have keep: "get_integration o' i db' = get_integration o' i db" for o' i by (simp add: get_integration_def db')
  have cr: "dl_org (claimed_row l z) = dl_org z" "dl_integration (claimed_row l z) = dl_integration z" for z
    by (simp_all add: claimed_row_def)
  obtain rq where rq: "build_request dx rx (claimed_row l x) = Inr rq"
    using assms(6,7) by (cases "it_type rx") (auto simp: build_request_def resolve_secret_def adapter_request_def)
  have ids: "dl_integration d \<noteq> it_id rx"
  proof
    assume e: "dl_integration d = it_id rx"
    have "it_id rx = dl_integration x" using get_integration_id [OF assms(4)] by simp
    with e assms(4,9) have "r = rx" by (auto simp: get_integration_def split: option.splits if_splits)
    with assms(6,11) show False by simp
  qed
  let ?res = "case dx_send dx rq of None \<Rightarrow> result_from_transport_error | Some resp \<Rightarrow> result_from_response resp"
  have p1: "process_delivery dx (claimed_row l x) db' = ([rq], Inr (record_result dx rx (claimed_row l x) ?res db'))"
    using assms(4,5,8) rq by (simp add: process_delivery_def cr keep)
  have "process_delivery dx (claimed_row l d) (record_result dx rx (claimed_row l x) ?res db') =
      ([], Inl (Crash ''unsupported integration type: datadog''))"
    using assms(9-12) ids
    by (simp add: process_delivery_def cr record_result_integration keep build_request_def)
  then have pa: "process_all dx (map (claimed_row l) (x # d # ys)) db' =
      ([rq], Inl (Crash ''unsupported integration type: datadog''))"
    using p1 by simp
  have cl: "claim_deliveries (dx_batch dx) (dx_lease dx) (dx_now dx) db = (db', map (claimed_row l) (x # d # ys))"
    unfolding claim_deliveries_eq [OF assms(1)] assms(3) db' l ..
  have "delivery_once dx db = ([rq], Inl (Crash ''unsupported integration type: datadog''))"
    unfolding delivery_once_def cl Let_def prod.case pa by simp
  then show ?thesis using assms(2) by (simp add: export_job_def)
qed

text \<open>
  Testing a disabled integration enables it again: after a successful disable the integration is
  revoked and no longer matches any event, but a test request that is answered with success sets it
  active, so it receives deliveries again.
\<close>

theorem test_reactivates_revoked:
  assumes "disable_integration True now auth i db = (db1, Inr ())"
    and "test_integration validate dx True clock hex8 auth i hits db1 = (hits1, db2, sent, Inr True)"
  shows "(\<exists>r. get_integration (ctx_org auth) i db1 = Some r \<and> it_status r = IntRevoked) \<and>
    (\<exists>r. get_integration (ctx_org auth) i db2 = Some r \<and> it_status r = IntActive)"
proof -
  have upd: "get_integration org i (set_status i st err te su fa t x) =
      map_option (\<lambda>r. r\<lparr>it_status := st, it_code := err, it_tested := (if te then Some t else it_tested r),
        it_success := (if su then Some t else it_success r), it_failure := (if fa then Some t else it_failure r)\<rparr>)
        (get_integration org i x)" for org st err te su fa t x
  proof -
    have "find (\<lambda>r. it_id r = i) (map (\<lambda>r. if it_id r = i then f r else r) rs) =
        map_option f (find (\<lambda>r. it_id r = i) rs)"
      if "\<And>r. it_id (f r) = it_id r" for f :: "integration \<Rightarrow> integration" and rs
      by (induction rs) (auto simp: that)
    then show ?thesis by (auto simp: get_integration_def set_status_def split: option.splits)
  qed
  have aud: "get_integration org j (add_outbox_audit a b c d e g x) = get_integration org j x" for org j a b c d e g x
    by (simp add: get_integration_def add_outbox_audit_def)
  from assms(1) obtain r where r: "get_integration (ctx_org auth) i db = Some r"
      "db1 = add_outbox_audit (ctx_org auth) ''integration_disabled'' (Some i) None (ctx_key_id auth) []
         (set_status i IntRevoked None False False False now db)"
    by (auto simp: disable_integration_def split: option.splits)
  then have db1: "\<exists>r. get_integration (ctx_org auth) i db1 = Some r \<and> it_status r = IntRevoked"
    by (simp add: aud upd)
  from assms(2) have "db2 = record_test (dx_now dx) auth i True db1"
    by (auto simp: test_integration_def Let_def split: option.splits sum.splits prod.splits if_splits)
  with db1 show ?thesis by (auto simp: record_test_def aud upd)
qed

subsection \<open>Concrete runs\<close>

definition demo_serializers :: serializers where
  "demo_serializers = \<lparr>js_envelope = sx_event_id, js_splunk = (\<lambda>e a b c d. sx_event_id e), js_sha = (\<lambda>s. s), js_hmac = (\<lambda>k m. m)\<rparr>"

definition demo_worker :: delivery_env where
  "demo_worker = \<lparr>dx_now = 100, dx_batch = 20, dx_lease = 60, dx_max_attempts = 6, dx_max_age_hours = 72,
     dx_endpoint_ok = (\<lambda>_. True), dx_decrypt = (\<lambda>c. Some c), dx_send = (\<lambda>rq. Some \<lparr>hs_status = 200, hs_headers = []\<rparr>),
     dx_js = demo_serializers, dx_digest = (\<lambda>_. 0), dx_str = nat_str\<rparr>"

definition demo_delivery :: "uuid \<Rightarrow> uuid \<Rightarrow> delivery" where
  "demo_delivery i integration = \<lparr>dl_id = i, dl_org = 1, dl_integration = integration, dl_source_type = SourceAlert,
     dl_source = ''a1'', dl_event = AlertCreated, dl_version = 1, dl_key = nat_str i, dl_status = Queued, dl_attempts = 0,
     dl_next = Some 0, dl_lease = None, dl_response = None, dl_error = None, dl_envelope = demo_envelope, dl_hash = [],
     dl_created = int i, dl_delivered = None\<rparr>"

definition queue_of :: "integration list \<Rightarrow> delivery list \<Rightarrow> outbox_db" where
  "queue_of is ds = \<lparr>ob_integrations = is, ob_deliveries = ds, ob_dead = [], ob_audit = []\<rparr>"

definition single_queue :: outbox_db where
  "single_queue = queue_of [demo_integration 7 GenericWebhook] [demo_delivery 1 7]"

definition mixed_queue :: outbox_db where
  "mixed_queue = queue_of [(demo_integration 7 GenericWebhook)\<lparr>it_secret := None\<rparr>, demo_integration 8 Datadog]
     [demo_delivery 1 7, demo_delivery 2 8]"

theorem export_claims_final_witness:
  "\<exists>db1 c1 db2 c2. claim_deliveries 20 60 0 single_queue = (db1, c1) \<and> claim_deliveries 20 60 (seconds 3600) db1 = (db2, c2) \<and>
     map dl_id c1 = [1] \<and> 1 \<notin> dl_id ` set c2"
proof -
  have ids: "distinct (map dl_id (ob_deliveries single_queue))" by code_simp
  obtain db1 c1 where c1: "claim_deliveries 20 60 0 single_queue = (db1, c1)" by fastforce
  obtain db2 c2 where c2: "claim_deliveries 20 60 (seconds 3600) db1 = (db2, c2)" by fastforce
  have "map dl_id (snd (claim_deliveries 20 60 0 single_queue)) = [1]" by code_simp
  then have m: "map dl_id c1 = [1]" using c1 by simp
  then have "1 \<in> dl_id ` set c1" by (metis list.set_intros(1) set_map)
  with export_claims_final [OF ids c1 c2] have n: "1 \<notin> dl_id ` set c2" by blast
  show ?thesis by (intro exI conjI) (rule c1, rule c2, rule m, rule n)
qed

theorem worker_settles_due_witness:
  "\<exists>db1 sent d'. export_job True demo_settings demo_worker single_queue = (db1, sent, Inr 1) \<and>
     delivery_row 1 db1 = Some d' \<and> dl_attempts d' = 1"
proof -
  have ids: "distinct (map dl_id (ob_deliveries single_queue))" by code_simp
  have sched: "scheduler_allowed demo_settings" by code_simp
  have "snd (snd (export_job True demo_settings demo_worker single_queue)) = Inr 1" by code_simp
  then obtain db1 sent where r: "export_job True demo_settings demo_worker single_queue = (db1, sent, Inr 1)"
    by (metis prod.collapse)
  have due: "due_rows (dx_batch demo_worker) (dx_now demo_worker) single_queue = [demo_delivery 1 7]"
    by (simp add: due_rows_def demo_worker_def single_queue_def queue_of_def due_def claimable_def demo_delivery_def)
  have "\<exists>d'. delivery_row (dl_id (demo_delivery 1 7)) db1 = Some d' \<and> settled_from demo_worker (demo_delivery 1 7) d'"
    using worker_settles_due [OF ids sched r] unfolding due by simp
  then obtain d' where d': "delivery_row (dl_id (demo_delivery 1 7)) db1 = Some d'"
      "settled_from demo_worker (demo_delivery 1 7) d'" by blast
  have "delivery_row 1 db1 = Some d'" "dl_attempts d' = 1"
    using d' unfolding settled_from_def by (simp_all add: demo_delivery_def)
  with r show ?thesis by blast
qed

theorem unsupported_type_blocks_queue_witness:
  "\<exists>rq. export_job True demo_settings demo_worker mixed_queue =
     (mixed_queue, [rq], Inl (Crash ''unsupported integration type: datadog''))"
proof -
  have ids: "distinct (map dl_id (ob_deliveries mixed_queue))" by code_simp
  have sched: "scheduler_allowed demo_settings" by code_simp
  have due: "due_rows (dx_batch demo_worker) (dx_now demo_worker) mixed_queue = demo_delivery 1 7 # demo_delivery 2 8 # []"
    by (simp add: due_rows_def demo_worker_def mixed_queue_def queue_of_def due_def claimable_def demo_delivery_def)
  show ?thesis
    by (rule unsupported_type_blocks_queue [OF ids sched due,
          where rx = "(demo_integration 7 GenericWebhook)\<lparr>it_secret := None\<rparr>" and r = "demo_integration 8 Datadog"])
      (simp_all add: get_integration_def mixed_queue_def queue_of_def demo_delivery_def demo_integration_def demo_worker_def)
qed

theorem test_reactivates_revoked_witness:
  "\<exists>db1 db2 r. disable_integration True 0 (operator_context 1) 7 single_queue = (db1, Inr ()) \<and>
     get_integration 1 7 db2 = Some r \<and> it_status r = IntActive"
proof -
  have "snd (disable_integration True 0 (operator_context 1) 7 single_queue) = Inr ()" by code_simp
  then obtain db1 where d: "disable_integration True 0 (operator_context 1) 7 single_queue = (db1, Inr ())"
    by (metis prod.collapse)
  have "snd (snd (snd (test_integration (\<lambda>_. Inr ()) demo_worker True 0 ''0'' (operator_context 1) 7 []
      (fst (disable_integration True 0 (operator_context 1) 7 single_queue))))) = Inr True" by code_simp
  then obtain hits db2 sent where "test_integration (\<lambda>_. Inr ()) demo_worker True 0 ''0'' (operator_context 1) 7 [] db1 = (hits, db2, sent, Inr True)"
    unfolding d fst_conv by (metis prod.collapse)
  from test_reactivates_revoked [OF d this] d show ?thesis by (auto simp: operator_context_def)
qed

end
