(* ===== verification/Browser_Sensor.thy ===== *)
theory Browser_Sensor
  imports Severity_Model Metadata_Min Enrollment Replay
begin

text \<open>
  AI-paste sensors in browsers: destination policy and classification
  (\<open>services/browser_sensor/policy.py\<close>, \<open>classification.py\<close>), the trace registry (\<open>registry.py\<close>), the
  policy and event store (\<open>repositories/browser_sensor.py\<close>) and the endpoints of \<open>api/browser_sensor.py\<close>
  over them. Sensor identity, enrolment and signatures are those of theory Enrollment; JSON text and
  SHA-256 are parameters.
\<close>

subsection \<open>Data\<close>

datatype destination_class = DestApproved | DestConditional | DestShadow | DestUnknown | DestIgnored

datatype trace_match_mode = ModeExact | ModeNormalized

datatype match_method = MatchExact | MatchNormalized | MatchFingerprint

datatype browser_event_type = AiPasteTraceDetected | ShadowAiPasteDetected | ApprovedAiPasteDetected
  | RepeatedAiPaste | MultiToolAiExposure | ExtensionPolicyViolation | BrowserSensorDisabled | TraceRegistryStale

datatype browser_exposure = AiPasteLeakage | ShadowAiExposure | ApprovedAiPolicyViolation
  | RepeatedCrossToolPaste | MultiSurfaceAiExposure

fun dest_value :: "destination_class \<Rightarrow> string" where
  "dest_value DestApproved = ''approved''"
| "dest_value DestConditional = ''conditional''"
| "dest_value DestShadow = ''shadow''"
| "dest_value DestUnknown = ''unknown''"
| "dest_value DestIgnored = ''ignored''"

fun mode_value :: "trace_match_mode \<Rightarrow> string" where
  "mode_value ModeExact = ''exact''"
| "mode_value ModeNormalized = ''normalized''"

fun match_value :: "match_method \<Rightarrow> string" where
  "match_value MatchExact = ''exact''"
| "match_value MatchNormalized = ''normalized''"
| "match_value MatchFingerprint = ''fingerprint''"

fun browser_event_value :: "browser_event_type \<Rightarrow> string" where
  "browser_event_value AiPasteTraceDetected = ''ai_paste_trace_detected''"
| "browser_event_value ShadowAiPasteDetected = ''shadow_ai_paste_detected''"
| "browser_event_value ApprovedAiPasteDetected = ''approved_ai_paste_detected''"
| "browser_event_value RepeatedAiPaste = ''repeated_ai_paste''"
| "browser_event_value MultiToolAiExposure = ''multi_tool_ai_exposure''"
| "browser_event_value ExtensionPolicyViolation = ''extension_policy_violation''"
| "browser_event_value BrowserSensorDisabled = ''browser_sensor_disabled''"
| "browser_event_value TraceRegistryStale = ''trace_registry_stale''"

definition parse_browser_event :: "string \<Rightarrow> browser_event_type option" where
  "parse_browser_event s = find (\<lambda>e. browser_event_value e = s)
     [AiPasteTraceDetected, ShadowAiPasteDetected, ApprovedAiPasteDetected, RepeatedAiPaste, MultiToolAiExposure,
      ExtensionPolicyViolation, BrowserSensorDisabled, TraceRegistryStale]"

definition parse_match_method :: "string \<Rightarrow> match_method option" where
  "parse_match_method s = find (\<lambda>m. match_value m = s) [MatchExact, MatchNormalized, MatchFingerprint]"

record domain_rule =
  ru_domain :: string
  ru_class :: destination_class
  ru_label :: "string option"

text \<open>The stored policy; \<open>rules_data\<close> keeps the domain and the classification of a rule.\<close>

record browser_policy =
  bp_org :: org_id
  bp_enabled :: bool
  bp_mode :: trace_match_mode
  bp_local_only :: bool
  bp_reporting :: bool
  bp_notify :: bool
  bp_pause :: bool
  bp_min_version :: string
  bp_version :: nat
  bp_rules :: "(string \<times> destination_class) list"
  bp_updated :: datetime

record policy_doc =
  pd_org :: string
  pd_enabled :: bool
  pd_monitored :: "string list"
  pd_rules :: "domain_rule list"
  pd_mode :: trace_match_mode
  pd_local_only :: bool
  pd_reporting :: bool
  pd_notify :: bool
  pd_pause :: bool
  pd_min_version :: string
  pd_version :: nat
  pd_updated :: datetime
  pd_signature :: "string option"

subsection \<open>Destinations\<close>

definition normalize_domain :: "string \<Rightarrow> string" where
  "normalize_domain domain =
     (let d = py_lower (py_strip domain) in if startswith d ''www.'' then drop 4 d else d)"

text \<open>A rule whose domain normalises to the empty text or is longer than 253 fails validation.\<close>

datatype browser_error = RuleInvalid

fun rules_from_record :: "(string \<times> destination_class) list \<Rightarrow> browser_error + domain_rule list" where
  "rules_from_record [] = Inr []"
| "rules_from_record ((d, c) # rest) =
     (let n = normalize_domain d in
      if n = [] \<or> length n > 253 then Inl RuleInvalid
      else and_then (rules_from_record rest) (\<lambda>rs. Inr (\<lparr>ru_domain = n, ru_class = c, ru_label = None\<rparr> # rs)))"

definition rule_matches :: "string \<Rightarrow> domain_rule \<Rightarrow> bool" where
  "rule_matches host r \<longleftrightarrow> host = ru_domain r \<or> endswith host (CHR ''.'' # ru_domain r)"

fun best_rule :: "string \<Rightarrow> domain_rule list \<Rightarrow> domain_rule option \<Rightarrow> domain_rule option" where
  "best_rule host [] best = best"
| "best_rule host (r # rs) best =
     best_rule host rs
       (if rule_matches host r \<and> (case best of None \<Rightarrow> True | Some b \<Rightarrow> length (ru_domain r) > length (ru_domain b))
        then Some r else best)"

definition classify_destination :: "string \<Rightarrow> domain_rule list \<Rightarrow> destination_class \<times> string option" where
  "classify_destination domain rules =
     (case best_rule (normalize_domain domain) rules None of
        None \<Rightarrow> (DestUnknown, None)
      | Some r \<Rightarrow> (ru_class r, ru_label r))"

subsection \<open>Policy documents\<close>

record canonical_policy =
  cp_version_tag :: string
  cp_org :: string
  cp_policy_version :: nat
  cp_enabled :: bool
  cp_monitored :: "string list"
  cp_rules :: "(string \<times> destination_class) list"
  cp_mode :: string

definition canonical_body :: "string \<Rightarrow> nat \<Rightarrow> bool \<Rightarrow> string list \<Rightarrow> domain_rule list \<Rightarrow> trace_match_mode \<Rightarrow> canonical_policy" where
  "canonical_body org version enabled monitored rules mode =
     \<lparr>cp_version_tag = ''browser-policy-v1'', cp_org = org, cp_policy_version = version, cp_enabled = enabled,
      cp_monitored = sort monitored, cp_rules = sort_key fst (map (\<lambda>r. (ru_domain r, ru_class r)) rules),
      cp_mode = mode_value mode\<rparr>"

definition build_policy_doc ::
  "(uuid \<Rightarrow> string) \<Rightarrow> (canonical_policy \<Rightarrow> string) \<Rightarrow> (string \<Rightarrow> string \<Rightarrow> string) \<Rightarrow> bool \<Rightarrow> string option \<Rightarrow>
   browser_policy \<Rightarrow> browser_error + policy_doc" where
  "build_policy_doc str_of dumps hmac require_signed signing_secret p =
     and_then (rules_from_record (bp_rules p)) (\<lambda>rules.
       let monitored = sort (remdups (map ru_domain (filter (\<lambda>r. ru_class r \<noteq> DestIgnored) rules)));
           secret = (case signing_secret of None \<Rightarrow> [] | Some s \<Rightarrow> s);
           signature = (if require_signed \<and> secret \<noteq> []
             then Some (sign hmac secret (dumps (canonical_body (str_of (bp_org p)) (bp_version p) (bp_enabled p)
                                            monitored rules (bp_mode p))))
             else None)
       in Inr \<lparr>pd_org = str_of (bp_org p), pd_enabled = bp_enabled p, pd_monitored = monitored, pd_rules = rules,
               pd_mode = bp_mode p, pd_local_only = bp_local_only p, pd_reporting = bp_reporting p,
               pd_notify = bp_notify p, pd_pause = bp_pause p, pd_min_version = bp_min_version p,
               pd_version = bp_version p, pd_updated = bp_updated p, pd_signature = signature\<rparr>)"

definition policy_body_hash :: "(string \<Rightarrow> string) \<Rightarrow> (canonical_policy \<Rightarrow> string) \<Rightarrow> policy_doc \<Rightarrow> string" where
  "policy_body_hash sha dumps d =
     sha (dumps (canonical_body (pd_org d) (pd_version d) (pd_enabled d) (pd_monitored d) (pd_rules d) (pd_mode d)))"

subsection \<open>Exposure and severity\<close>

definition classify_exposure :: "browser_event_type \<Rightarrow> destination_class \<Rightarrow> nat \<Rightarrow> browser_exposure" where
  "classify_exposure event destination distinct_tools =
     (if distinct_tools \<ge> 2 then MultiSurfaceAiExposure
      else if event = MultiToolAiExposure then MultiSurfaceAiExposure
      else if event = RepeatedAiPaste then RepeatedCrossToolPaste
      else if destination \<in> {DestShadow, DestUnknown} then ShadowAiExposure
      else if destination = DestConditional then ApprovedAiPolicyViolation
      else AiPasteLeakage)"

fun base_severity :: "browser_exposure \<Rightarrow> severity" where
  "base_severity AiPasteLeakage = MEDIUM"
| "base_severity ApprovedAiPolicyViolation = MEDIUM"
| "base_severity ShadowAiExposure = HIGH"
| "base_severity RepeatedCrossToolPaste = HIGH"
| "base_severity MultiSurfaceAiExposure = CRITICAL"

definition exposure_severity :: "browser_exposure \<Rightarrow> nat \<Rightarrow> nat \<Rightarrow> bool \<Rightarrow> severity" where
  "exposure_severity exposure event_count distinct_tools cross_surface =
     sev_at (sev_rank (base_severity exposure) + of_bool (event_count \<ge> 3) + of_bool (distinct_tools \<ge> 2)
             + of_bool cross_surface)"

subsection \<open>Tables\<close>

record browser_event =
  be_org :: org_id
  be_sensor :: uuid
  be_trace :: string
  be_domain :: string
  be_class :: destination_class
  be_type :: browser_event_type
  be_method :: match_method
  be_confidence :: rat
  be_extension :: string
  be_policy_version :: int
  be_excerpt :: "string option"
  be_metadata :: string
  be_correlation :: string
  be_observed :: datetime

record browser_audit =
  ba_org :: org_id
  ba_sensor :: "uuid option"
  ba_actor :: "uuid option"
  ba_event :: string
  ba_metadata :: string

record surface_trace =
  st_org :: org_id
  st_trace :: string
  st_active :: bool
  st_kind :: string
  st_expires :: "datetime option"

record browser_world =
  bw_enroll :: "browser_extra enroll_state"
  bw_policies :: "browser_policy list"
  bw_events :: "browser_event list"
  bw_audit :: "browser_audit list"
  bw_ai :: "surface_trace list"
  bw_repo :: "surface_trace list"
  bw_honey :: "surface_trace list"

definition add_browser_audit :: "org_id \<Rightarrow> string \<Rightarrow> uuid option \<Rightarrow> uuid option \<Rightarrow> string \<Rightarrow> browser_world \<Rightarrow> browser_world" where
  "add_browser_audit org ev sensor actor meta w =
     w\<lparr>bw_audit := bw_audit w @ [\<lparr>ba_org = org, ba_sensor = sensor, ba_actor = actor, ba_event = ev,
                                    ba_metadata = take 1024 meta\<rparr>]\<rparr>"

definition get_browser_policy :: "org_id \<Rightarrow> browser_world \<Rightarrow> browser_policy option" where
  "get_browser_policy org w = find (\<lambda>p. bp_org p = org) (bw_policies w)"

record policy_body =
  pb_enabled :: bool
  pb_mode :: trace_match_mode
  pb_local_only :: bool
  pb_reporting :: bool
  pb_notify :: bool
  pb_pause :: bool
  pb_min_version :: string
  pb_rules :: "domain_rule list"

definition upsert_policy :: "datetime \<Rightarrow> org_id \<Rightarrow> policy_body \<Rightarrow> browser_world \<Rightarrow> browser_world \<times> browser_policy" where
  "upsert_policy now org b w =
     (let fresh = (\<lambda>version. \<lparr>bp_org = org, bp_enabled = pb_enabled b, bp_mode = pb_mode b,
            bp_local_only = pb_local_only b, bp_reporting = pb_reporting b, bp_notify = pb_notify b,
            bp_pause = pb_pause b, bp_min_version = pb_min_version b, bp_version = version,
            bp_rules = map (\<lambda>r. (ru_domain r, ru_class r)) (pb_rules b), bp_updated = now\<rparr>)
      in case get_browser_policy org w of
           None \<Rightarrow> (w\<lparr>bw_policies := bw_policies w @ [fresh 1]\<rparr>, fresh 1)
         | Some p \<Rightarrow>
             (let q = fresh (bp_version p + 1) in
              (w\<lparr>bw_policies := map (\<lambda>x. if bp_org x = org then q else x) (bw_policies w)\<rparr>, q)))"

subsection \<open>The trace registry\<close>

record registry_entry =
  rg_trace :: string
  rg_token :: string
  rg_mode :: trace_match_mode
  rg_category :: string
  rg_expires :: "datetime option"

definition fingerprint :: "(string \<Rightarrow> string) \<Rightarrow> string \<Rightarrow> trace_match_mode \<Rightarrow> string" where
  "fingerprint sha trace mode =
     (let v = py_strip trace in sha (if mode = ModeNormalized then py_lower v else v))"

definition add_entry ::
  "(string \<Rightarrow> string) \<Rightarrow> trace_match_mode \<Rightarrow> nat \<Rightarrow> string \<times> string \<times> datetime option \<Rightarrow> registry_entry list \<Rightarrow> registry_entry list" where
  "add_entry sha mode limit entry seen =
     (let (trace, category, expires) = entry in
      if trace = [] \<or> trace \<in> set (map rg_trace seen) \<or> length seen \<ge> limit then seen
      else seen @ [\<lparr>rg_trace = trace, rg_token = fingerprint sha trace mode, rg_mode = mode,
                    rg_category = category, rg_expires = expires\<rparr>])"

definition surface_entries :: "org_id \<Rightarrow> browser_world \<Rightarrow> (string \<times> string \<times> datetime option) list" where
  "surface_entries org w =
     map (\<lambda>s. (st_trace s, st_kind s, st_expires s)) (filter (\<lambda>s. st_org s = org \<and> st_active s) (bw_ai w)) @
     map (\<lambda>s. (st_trace s, ''repository'', None)) (filter (\<lambda>s. st_org s = org \<and> st_active s) (bw_repo w)) @
     map (\<lambda>s. (st_trace s, ''database_record'', None)) (filter (\<lambda>s. st_org s = org \<and> st_active s) (bw_honey w))"

definition registry_mode :: "org_id \<Rightarrow> browser_world \<Rightarrow> trace_match_mode" where
  "registry_mode org w = (case get_browser_policy org w of None \<Rightarrow> ModeExact | Some p \<Rightarrow> bp_mode p)"

definition build_registry :: "(string \<Rightarrow> string) \<Rightarrow> nat \<Rightarrow> org_id \<Rightarrow> browser_world \<Rightarrow> registry_entry list" where
  "build_registry sha limit org w = fold (add_entry sha (registry_mode org w) limit) (surface_entries org w) []"

subsection \<open>Endpoints\<close>

record browser_env =
  bx_enabled :: bool
  bx_auth :: bool
  bx_signature_required :: bool
  bx_signed_policy :: bool
  bx_max_registry :: nat
  bx_min_version :: string
  bx_str :: "uuid \<Rightarrow> string"
  bx_sha :: "string \<Rightarrow> string"
  bx_hmac :: "string \<Rightarrow> string \<Rightarrow> string"
  bx_decrypt :: "string \<Rightarrow> string option"
  bx_dumps :: "canonical_policy \<Rightarrow> string"
  bx_meta :: "(string \<times> string) list \<Rightarrow> string"

definition sensors_off :: http_error where
  "sensors_off = HttpError 404 ''browser sensors are not enabled''"

text \<open>Both endpoints call \<open>build_policy_doc(record, settings)\<close>, without a signing secret.\<close>

definition policy_answer :: "browser_env \<Rightarrow> browser_policy \<Rightarrow> http_error + policy_doc" where
  "policy_answer bx p =
     (case build_policy_doc (bx_str bx) (bx_dumps bx) (bx_hmac bx) (bx_signed_policy bx) None p of
        Inl _ \<Rightarrow> Inl (HttpError 500 ''internal error'')
      | Inr d \<Rightarrow> Inr d)"

definition default_policy_body :: "browser_env \<Rightarrow> policy_body" where
  "default_policy_body bx = \<lparr>pb_enabled = False, pb_mode = ModeExact, pb_local_only = False, pb_reporting = True,
     pb_notify = True, pb_pause = True, pb_min_version = bx_min_version bx, pb_rules = []\<rparr>"

definition read_policy :: "browser_env \<Rightarrow> datetime \<Rightarrow> auth_context \<Rightarrow> browser_world \<Rightarrow> browser_world \<times> (http_error + policy_doc)" where
  "read_policy bx now auth w =
     (if \<not> bx_enabled bx then (w, Inl sensors_off)
      else
        let (w1, p) = (case get_browser_policy (ctx_org auth) w of
              Some p \<Rightarrow> (w, p)
            | None \<Rightarrow> upsert_policy now (ctx_org auth) (default_policy_body bx) w)
        in (w1, policy_answer bx p))"

definition update_browser_policy ::
  "browser_env \<Rightarrow> datetime \<Rightarrow> auth_context \<Rightarrow> policy_body \<Rightarrow> browser_world \<Rightarrow> browser_world \<times> (http_error + policy_doc)" where
  "update_browser_policy bx now auth body w =
     (if \<not> bx_enabled bx then (w, Inl sensors_off)
      else
        let (w1, p) = upsert_policy now (ctx_org auth) body w;
            w2 = add_browser_audit (ctx_org auth) ''policy_changed'' None (ctx_key_id auth)
                   (''version='' @ nat_str (bp_version p)) w1
        in (w2, policy_answer bx p))"

definition trace_registry :: "browser_env \<Rightarrow> auth_context \<Rightarrow> browser_world \<Rightarrow> browser_world \<times> (http_error + registry_entry list)" where
  "trace_registry bx auth w =
     (if \<not> bx_enabled bx then (w, Inl sensors_off)
      else
        let entries = build_registry (bx_sha bx) (bx_max_registry bx) (ctx_org auth) w
        in (add_browser_audit (ctx_org auth) ''registry_synchronized'' None (ctx_key_id auth)
              (''entries='' @ nat_str (length entries)) w, Inr entries))"

record browser_body =
  bb_trace :: string
  bb_domain :: string
  bb_type :: string
  bb_method :: string
  bb_confidence :: rat
  bb_extension :: string
  bb_policy_version :: int
  bb_excerpt :: "string option"
  bb_metadata :: "(string \<times> string) list"
  bb_observed :: "datetime option"

record browser_response =
  bq_class :: destination_class
  bq_exposure :: browser_exposure
  bq_severity :: severity
  bq_count :: nat

definition set_extension :: "string \<Rightarrow> browser_extra \<Rightarrow> browser_extra" where
  "set_extension v x = (case x of (i, d, f, e) \<Rightarrow> (i, d, f, if v = [] then e else take 32 v))"

definition identify_browser ::
  "browser_env \<Rightarrow> datetime \<Rightarrow> auth_context \<Rightarrow> signed_request \<Rightarrow> browser_body \<Rightarrow> browser_world \<Rightarrow> browser_world \<times> (http_error + uuid)" where
  "identify_browser bx now auth rq body w =
     (if bx_auth bx \<and> bx_signature_required bx then
        (case verify_request (bx_sha bx) (bx_hmac bx) (bx_decrypt bx) (bx_str bx) now (ctx_org auth) rq (bw_enroll w) of
           Inl (SignatureError c m) \<Rightarrow>
             (add_browser_audit (ctx_org auth) ''signature_failure'' None None [] w, Inl (HttpError c m))
         | Inr (en, i, _, _) \<Rightarrow> (w\<lparr>bw_enroll := en\<rparr>, Inr i))
      else
        (let public = or_empty (rq_public_id rq);
             found = (if public = [] then None
               else find (\<lambda>s. sn_public_id s = public \<and> sn_org s = ctx_org auth) (es_sensors (bw_enroll w)))
         in case found of
              None \<Rightarrow> (w, Inl (HttpError 401 ''sensor not active''))
            | Some s \<Rightarrow>
                if sn_status s \<noteq> SActive then (w, Inl (HttpError 401 ''sensor not active''))
                else (w\<lparr>bw_enroll := touch_sensor now (set_extension (bb_extension body)) s (bw_enroll w)\<rparr>, Inr (sn_id s))))"

definition seen_on_other_surfaces :: "org_id \<Rightarrow> string \<Rightarrow> browser_world \<Rightarrow> bool" where
  "seen_on_other_surfaces org trace w \<longleftrightarrow>
     list_ex (\<lambda>s. st_org s = org \<and> st_trace s = trace) (bw_ai w) \<or>
     list_ex (\<lambda>s. st_org s = org \<and> st_trace s = trace) (bw_repo w) \<or>
     list_ex (\<lambda>s. st_org s = org \<and> st_trace s = trace) (bw_honey w)"

definition events_for_trace :: "org_id \<Rightarrow> string \<Rightarrow> browser_world \<Rightarrow> browser_event list" where
  "events_for_trace org trace w = filter (\<lambda>e. be_org e = org \<and> be_trace e = trace) (bw_events w)"

definition org_rules :: "browser_env \<Rightarrow> org_id \<Rightarrow> browser_world \<Rightarrow> browser_error + domain_rule list" where
  "org_rules bx org w =
     (case get_browser_policy org w of
        None \<Rightarrow> Inr []
      | Some p \<Rightarrow> map_sum id pd_rules (build_policy_doc (bx_str bx) (bx_dumps bx) (bx_hmac bx) (bx_signed_policy bx) None p))"

definition stored_browser_event ::
  "browser_env \<Rightarrow> string \<Rightarrow> datetime \<Rightarrow> org_id \<Rightarrow> uuid \<Rightarrow> browser_event_type \<Rightarrow> match_method \<Rightarrow> destination_class \<Rightarrow>
   browser_body \<Rightarrow> browser_event" where
  "stored_browser_event bx correlation now org sensor et mm dest body =
     \<lparr>be_org = org, be_sensor = sensor, be_trace = bb_trace body, be_domain = take 253 (bb_domain body), be_class = dest,
      be_type = et, be_method = mm, be_confidence = bb_confidence body, be_extension = take 32 (bb_extension body),
      be_policy_version = bb_policy_version body, be_excerpt = bb_excerpt body,
      be_metadata = serialize_metadata (bx_meta bx) (browser_minimize (\<lambda>j. j) (map (\<lambda>(k, v). (k, MText v)) (bb_metadata body))),
      be_correlation = correlation, be_observed = (case bb_observed body of None \<Rightarrow> now | Some t \<Rightarrow> t)\<rparr>"

definition record_browser_event ::
  "browser_env \<Rightarrow> string \<Rightarrow> datetime \<Rightarrow> org_id \<Rightarrow> uuid \<Rightarrow> browser_event_type \<Rightarrow> match_method \<Rightarrow> browser_body \<Rightarrow>
   domain_rule list \<Rightarrow> browser_world \<Rightarrow> browser_world \<times> browser_response" where
  "record_browser_event bx correlation now org sensor et mm body rules w =
     (let dest = fst (classify_destination (bb_domain body) rules);
          w1 = w\<lparr>bw_events := bw_events w @ [stored_browser_event bx correlation now org sensor et mm dest body]\<rparr>;
          w2 = add_browser_audit org ''browser_event_accepted'' (Some sensor) None
                 (browser_event_value et @ '':'' @ dest_value dest) w1;
          same = events_for_trace org (bb_trace body) w2;
          tools = length (remdups (map be_domain same));
          exposure = classify_exposure et dest tools
      in (w2, \<lparr>bq_class = dest, bq_exposure = exposure,
               bq_severity = exposure_severity exposure (length same) tools (seen_on_other_surfaces org (bb_trace body) w2),
               bq_count = length same\<rparr>))"

definition ingest_browser_event ::
  "browser_env \<Rightarrow> (string option \<Rightarrow> string option \<Rightarrow> string \<Rightarrow> 'g \<Rightarrow> 'g \<times> (replay_error + unit)) \<Rightarrow> string \<Rightarrow> datetime \<Rightarrow>
   auth_context \<Rightarrow> signed_request \<Rightarrow> browser_body \<Rightarrow> 'g \<times> browser_world \<Rightarrow>
   ('g \<times> browser_world) \<times> (http_error + browser_response)" where
  "ingest_browser_event bx replay correlation now auth rq body gw =
     (let (g, w) = gw; org = ctx_org auth in
      if \<not> bx_enabled bx then (gw, Inl sensors_off)
      else case (parse_browser_event (bb_type body), parse_match_method (bb_method body)) of
        (Some et, Some mm) \<Rightarrow>
          (case identify_browser bx now auth rq body w of
             (w1, Inl e) \<Rightarrow> ((g, w1), Inl e)
           | (w1, Inr sensor) \<Rightarrow>
               (case (if bx_auth bx then replay (rq_nonce rq) (rq_timestamp rq) (bx_str bx org) g else (g, Inr ())) of
                  (g1, Inl (ReplayError c m)) \<Rightarrow> ((g1, w1), Inl (HttpError (nat c) m))
                | (g1, Inr _) \<Rightarrow>
                    (case org_rules bx org w1 of
                       Inl _ \<Rightarrow> ((g1, w1), Inl (HttpError 500 ''internal error''))
                     | Inr rules \<Rightarrow>
                         (let (w2, r) = record_browser_event bx correlation now org sensor et mm body rules w1
                          in ((g1, w2), Inr r)))))
      | _ \<Rightarrow> (gw, Inl (HttpError 400 ''unknown event/match type'')))"

subsection \<open>Classification\<close>

lemma endswith_suffix: "endswith s t \<longleftrightarrow> (\<exists>p. s = p @ t)"
  by (auto simp: endswith_iff)

lemma rule_matches_suffix: "rule_matches host r \<Longrightarrow> \<exists>p. host = p @ ru_domain r"
  unfolding rule_matches_def endswith_suffix by auto

text \<open>Two matching rules of equal length name the same domain.\<close>

lemma matching_same_length:
  assumes "rule_matches host a" "rule_matches host b" "length (ru_domain a) = length (ru_domain b)"
  shows "ru_domain a = ru_domain b"
  using assms rule_matches_suffix by (metis append_eq_append_conv length_append add_right_cancel)

lemma best_rule_spec:
  assumes "case best of None \<Rightarrow> True | Some b \<Rightarrow> rule_matches host b"
  shows "(case best_rule host rs best of
      None \<Rightarrow> best = None \<and> (\<forall>r \<in> set rs. \<not> rule_matches host r)
    | Some m \<Rightarrow> rule_matches host m \<and> (m \<in> set rs \<or> best = Some m) \<and>
        (\<forall>r \<in> set rs. rule_matches host r \<longrightarrow> length (ru_domain r) \<le> length (ru_domain m)) \<and>
        (\<forall>b. best = Some b \<longrightarrow> length (ru_domain b) \<le> length (ru_domain m)))"
  using assms
proof (induction rs arbitrary: best)
  case (Cons r rs)
  show ?case
  proof (cases "rule_matches host r \<and> (case best of None \<Rightarrow> True | Some b \<Rightarrow> length (ru_domain r) > length (ru_domain b))")
    case True
    then show ?thesis using Cons.IH [of "Some r"] by (cases best) (auto split: option.splits)
  next
    case False
    then show ?thesis using Cons.IH [of best] Cons.prems by (cases best) (auto split: option.splits)
  qed
qed (auto split: option.splits)

text \<open>
  The most specific rule decides: a destination is classified by a rule that names its host or a
  parent domain of it, and every other rule that does so is either shorter or names the same domain; a
  host no rule covers is unknown.
\<close>

theorem destination_most_specific:
  "(\<exists>m \<in> set rules. rule_matches (normalize_domain d) m \<and> classify_destination d rules = (ru_class m, ru_label m) \<and>
     (\<forall>r \<in> set rules. rule_matches (normalize_domain d) r \<longrightarrow>
        length (ru_domain r) < length (ru_domain m) \<or> ru_domain r = ru_domain m)) \<or>
   ((\<forall>r \<in> set rules. \<not> rule_matches (normalize_domain d) r) \<and> classify_destination d rules = (DestUnknown, None))"
proof (cases "best_rule (normalize_domain d) rules None")
  case None
  then show ?thesis using best_rule_spec [where best = None and host = "normalize_domain d" and rs = rules] by (simp add: classify_destination_def)
next
  case (Some m)
  with best_rule_spec [where best = None and host = "normalize_domain d" and rs = rules]
  have m: "rule_matches (normalize_domain d) m" "m \<in> set rules"
      "\<forall>r \<in> set rules. rule_matches (normalize_domain d) r \<longrightarrow> length (ru_domain r) \<le> length (ru_domain m)"
    by simp_all
  have lt: "length (ru_domain r) < length (ru_domain m) \<or> ru_domain r = ru_domain m"
    if "r \<in> set rules" "rule_matches (normalize_domain d) r" for r
    using m that matching_same_length [OF that(2) m(1)] by (meson le_neq_implies_less)
  have "classify_destination d rules = (ru_class m, ru_label m)" using Some by (simp add: classify_destination_def)
  with m(1,2) lt show ?thesis by blast
qed

definition demo_rules :: "domain_rule list" where
  "demo_rules = [\<lparr>ru_domain = ''example.com'', ru_class = DestShadow, ru_label = None\<rparr>,
     \<lparr>ru_domain = ''chat.example.com'', ru_class = DestApproved, ru_label = None\<rparr>]"

theorem destination_most_specific_witness:
  "classify_destination '' WWW.Chat.Example.com '' demo_rules = (DestApproved, None)"
proof -
  have n: "normalize_domain '' WWW.Chat.Example.com '' = ''chat.example.com''" by code_simp
  from destination_most_specific [of demo_rules "'' WWW.Chat.Example.com ''"] show ?thesis
    unfolding n by (simp add: demo_rules_def rule_matches_def endswith_def)
qed

subsection \<open>Ingestion\<close>

lemma identify_browser_ok:
  assumes "identify_browser bx now auth rq body w = (w1, Inr i)"
  shows "\<exists>s \<in> set (es_sensors (bw_enroll w)). sn_id s = i \<and> sn_org s = ctx_org auth \<and> sn_status s = SActive"
    and "bw_events w1 = bw_events w" "bw_policies w1 = bw_policies w" "bw_ai w1 = bw_ai w"
      "bw_repo w1 = bw_repo w" "bw_honey w1 = bw_honey w"
proof -
  show "\<exists>s \<in> set (es_sensors (bw_enroll w)). sn_id s = i \<and> sn_org s = ctx_org auth \<and> sn_status s = SActive"
  proof (cases "bx_auth bx \<and> bx_signature_required bx")
    case True
    with assms obtain en pid o' where "verify_request (bx_sha bx) (bx_hmac bx) (bx_decrypt bx) (bx_str bx) now (ctx_org auth) rq (bw_enroll w) =
        Inr (en, i, pid, o')"
      by (auto simp: identify_browser_def split: sum.splits signature_error.splits)
    then show ?thesis using verify_request_ok by blast
  next
    case False
    with assms obtain s where "find (\<lambda>s. sn_public_id s = or_empty (rq_public_id rq) \<and> sn_org s = ctx_org auth)
        (es_sensors (bw_enroll w)) = Some s" "sn_status s = SActive" "i = sn_id s"
      by (auto simp: identify_browser_def Let_def split: option.splits if_splits)
    then show ?thesis by (auto dest!: find_Some_mem)
  qed
  show "bw_events w1 = bw_events w" "bw_policies w1 = bw_policies w" "bw_ai w1 = bw_ai w"
      "bw_repo w1 = bw_repo w" "bw_honey w1 = bw_honey w"
    using assms by (auto simp: identify_browser_def Let_def split: sum.splits signature_error.splits option.splits if_splits)
qed

lemma ingest_browser_ok:
  assumes "ingest_browser_event bx replay correlation now auth rq body (g, w) = ((g', w'), Inr r)"
  obtains et mm w1 sensor rules where
    "parse_browser_event (bb_type body) = Some et" "identify_browser bx now auth rq body w = (w1, Inr sensor)"
    "org_rules bx (ctx_org auth) w1 = Inr rules"
    "record_browser_event bx correlation now (ctx_org auth) sensor et mm body rules w1 = (w', r)"
proof -
  from assms have "\<exists>et mm. parse_browser_event (bb_type body) = Some et \<and> parse_match_method (bb_method body) = Some mm"
    by (cases "parse_browser_event (bb_type body)"; cases "parse_match_method (bb_method body)")
      (simp_all add: ingest_browser_event_def Let_def split: if_splits)
  then obtain et mm where p: "parse_browser_event (bb_type body) = Some et" "parse_match_method (bb_method body) = Some mm"
    by blast
  obtain w1 x where i: "identify_browser bx now auth rq body w = (w1, x)" by fastforce
  obtain g1 y where y: "(if bx_auth bx then replay (rq_nonce rq) (rq_timestamp rq) (bx_str bx (ctx_org auth)) g else (g, Inr ())) = (g1, y)"
    by fastforce
  have d: "(case x of Inl e \<Rightarrow> ((g, w1), Inl e) | Inr sensor \<Rightarrow>
      (case y of Inl (ReplayError c m) \<Rightarrow> ((g1, w1), Inl (HttpError (nat c) m))
       | Inr _ \<Rightarrow> (case org_rules bx (ctx_org auth) w1 of
            Inl _ \<Rightarrow> ((g1, w1), Inl (HttpError 500 ''internal error''))
          | Inr rules \<Rightarrow> let (w2, r) = record_browser_event bx correlation now (ctx_org auth) sensor et mm body rules w1
                in ((g1, w2), Inr r)))) = ((g', w'), Inr r)"
    using assms by (simp add: ingest_browser_event_def Let_def p i y split: if_splits)
  from d obtain sensor where x: "x = Inr sensor" by (cases x) simp_all
  from d obtain u where yi: "y = Inr u" by (cases y) (simp_all add: x split: replay_error.splits)
  from d obtain rules where rules: "org_rules bx (ctx_org auth) w1 = Inr rules"
    by (cases "org_rules bx (ctx_org auth) w1") (simp_all add: x yi)
  from d have "record_browser_event bx correlation now (ctx_org auth) sensor et mm body rules w1 = (w', r)"
    by (simp add: x yi rules split: prod.splits)
  with p i x rules show ?thesis using that by blast
qed

lemma record_browser_facts:
  assumes "record_browser_event bx correlation now org sensor et mm body rules w = (w', r)"
  shows "bw_events w' = bw_events w @ [stored_browser_event bx correlation now org sensor et mm (fst (classify_destination (bb_domain body) rules)) body]"
    "bw_policies w' = bw_policies w" "bw_enroll w' = bw_enroll w"
    "bq_class r = fst (classify_destination (bb_domain body) rules)"
    "bq_count r = length (events_for_trace org (bb_trace body) w')"
    "bq_exposure r = classify_exposure et (bq_class r) (length (remdups (map be_domain (events_for_trace org (bb_trace body) w'))))"
    "bq_severity r = exposure_severity (bq_exposure r) (bq_count r)
       (length (remdups (map be_domain (events_for_trace org (bb_trace body) w')))) (seen_on_other_surfaces org (bb_trace body) w')"
  using assms by (auto simp: record_browser_event_def Let_def add_browser_audit_def)

definition demo_browser :: browser_env where
  "demo_browser = \<lparr>bx_enabled = True, bx_auth = False, bx_signature_required = False, bx_signed_policy = True,
     bx_max_registry = 3, bx_min_version = ''1'', bx_str = (\<lambda>_. ''o''), bx_sha = id, bx_hmac = (\<lambda>_ _. []),
     bx_decrypt = (\<lambda>_. None), bx_dumps = (\<lambda>_. []), bx_meta = (\<lambda>_. [])\<rparr>"

definition browser_auth :: auth_context where
  "browser_auth = \<lparr>ctx_org = 7, ctx_scopes = [''browser:ingest''], ctx_role = ''browser_sensor'', ctx_key_id = Some 5\<rparr>"

definition browser_rq :: signed_request where
  "browser_rq = \<lparr>rq_public_id = Some ''bs'', rq_timestamp = None, rq_nonce = None, rq_signature = None,
     rq_method = ''POST'', rq_path = [], rq_body = []\<rparr>"

definition paste_body :: "string \<Rightarrow> browser_body" where
  "paste_body domain = \<lparr>bb_trace = ''t1'', bb_domain = domain, bb_type = ''ai_paste_trace_detected'', bb_method = ''exact'',
     bb_confidence = 1, bb_extension = [], bb_policy_version = 1, bb_excerpt = None, bb_metadata = [], bb_observed = None\<rparr>"

definition browser_start :: browser_world where
  "browser_start = \<lparr>bw_enroll = \<lparr>es_tokens = [], es_sensors = [\<lparr>sn_id = 3, sn_org = 7, sn_public_id = ''bs'', sn_name = [],
       sn_extra = ([], None, [], []), sn_secret_ciphertext = [], sn_key_version = [], sn_status = SActive, sn_api_key_id = None,
       sn_last_seen_at = 0, sn_updated_at = None\<rparr>], es_keys = []\<rparr>,
     bw_policies = [], bw_events = [], bw_audit = [], bw_ai = [\<lparr>st_org = 7, st_trace = ''t1'', st_active = True,
       st_kind = ''prompt'', st_expires = None\<rparr>], bw_repo = [], bw_honey = []\<rparr>"

definition paste_once :: "(unit \<times> browser_world) \<times> (http_error + browser_response)" where
  "paste_once = ingest_browser_event demo_browser (\<lambda>_ _ _ g. (g, Inr ())) ''c'' 9 browser_auth browser_rq
     (paste_body ''chat.ai'') ((), browser_start)"

definition paste_again :: "(unit \<times> browser_world) \<times> (http_error + browser_response)" where
  "paste_again = ingest_browser_event demo_browser (\<lambda>_ _ _ g. (g, Inr ())) ''c'' 10 browser_auth browser_rq
     (paste_body ''www.chat.ai'') (fst paste_once)"

lemma ingested_of: "snd x = Inr r \<Longrightarrow> x = (((), snd (fst x)), Inr r)"
  for x :: "(unit \<times> 'w) \<times> ('e + 'r)"
  by (simp add: prod_eq_iff)

text \<open>
  C25. Browser ingestion is confined and classifies on the server: an accepted event adds exactly one
  event, of the caller's organization and attributed to one of its active sensors, leaves policies and
  the other events alone, and carries the class that the organization's stored policy gives to the
  destination, whatever the extension sent.
\<close>

theorem browser_ingestion_confined:
  assumes "ingest_browser_event bx replay correlation now auth rq body (g, w) = ((g', w'), Inr r)"
  shows "\<exists>e s rules. bw_events w' = bw_events w @ [e] \<and> bw_policies w' = bw_policies w \<and>
    be_org e = ctx_org auth \<and> be_trace e = bb_trace body \<and>
    s \<in> set (es_sensors (bw_enroll w)) \<and> sn_id s = be_sensor e \<and> sn_org s = ctx_org auth \<and> sn_status s = SActive \<and>
    org_rules bx (ctx_org auth) w = Inr rules \<and> be_class e = fst (classify_destination (bb_domain body) rules) \<and>
    bq_class r = be_class e"
proof -
  from assms obtain et mm w1 sensor rules where i: "identify_browser bx now auth rq body w = (w1, Inr sensor)"
      and rules: "org_rules bx (ctx_org auth) w1 = Inr rules"
      and rc: "record_browser_event bx correlation now (ctx_org auth) sensor et mm body rules w1 = (w', r)"
    by (rule ingest_browser_ok)
  note id = identify_browser_ok [OF i] and f = record_browser_facts [OF rc]
  have "org_rules bx (ctx_org auth) w1 = org_rules bx (ctx_org auth) w"
    using id(3) by (simp add: org_rules_def get_browser_policy_def)
  with rules have rules0: "org_rules bx (ctx_org auth) w = Inr rules" by simp
  from id(1) obtain s where s: "s \<in> set (es_sensors (bw_enroll w))" "sn_id s = sensor" "sn_org s = ctx_org auth" "sn_status s = SActive"
    by blast
  let ?e = "stored_browser_event bx correlation now (ctx_org auth) sensor et mm (fst (classify_destination (bb_domain body) rules)) body"
  have "bw_events w' = bw_events w @ [?e]" "bw_policies w' = bw_policies w" using f(1,2) id(2,3) by simp_all
  with s rules0 f(4) show ?thesis
    by (intro exI [of _ ?e] exI [of _ s] exI [of _ rules]) (simp add: stored_browser_event_def)
qed

theorem browser_ingestion_confined_witness:
  "\<exists>w' r. paste_once = (((), w'), Inr r) \<and>
     (\<exists>e s. bw_events w' = bw_events browser_start @ [e] \<and> be_org e = 7 \<and> be_trace e = ''t1'' \<and>
        s \<in> set (es_sensors (bw_enroll browser_start)) \<and> sn_id s = be_sensor e)"
proof -
  have "case snd paste_once of Inl _ \<Rightarrow> False | Inr _ \<Rightarrow> True" by code_simp
  then obtain r where r: "snd paste_once = Inr r" by (auto split: sum.splits)
  have p: "paste_once = (((), snd (fst paste_once)), Inr r)" using r by (rule ingested_of)
  from browser_ingestion_confined [OF p [unfolded paste_once_def], folded paste_once_def] p show ?thesis
    by (intro exI [of _ "snd (fst paste_once)"] exI [of _ r]) (auto simp: browser_auth_def paste_body_def)
qed

text \<open>
  One tool under two spellings counts as two: once an event of a trace is stored under one spelling
  of a destination, an accepted event under another spelling (a \<open>www.\<close> prefix, capital letters, a
  trailing blank) is reported as exposure on several surfaces with critical severity, although both
  spellings are the same host with the same classification.
\<close>

theorem spelling_makes_it_critical:
  assumes "ingest_browser_event bx replay correlation now auth rq body (g, w) = ((g', w'), Inr r)"
    and "e0 \<in> set (bw_events w)" and "be_org e0 = ctx_org auth" and "be_trace e0 = bb_trace body"
    and "be_domain e0 \<noteq> bb_domain body" and "length (bb_domain body) \<le> 253"
    and "normalize_domain (be_domain e0) = normalize_domain (bb_domain body)"
  shows "bq_exposure r = MultiSurfaceAiExposure \<and> bq_severity r = CRITICAL \<and>
    (\<forall>rules. classify_destination (be_domain e0) rules = classify_destination (bb_domain body) rules)"
proof -
  from assms(1) obtain et mm w1 sensor rules where i: "identify_browser bx now auth rq body w = (w1, Inr sensor)"
      and rc: "record_browser_event bx correlation now (ctx_org auth) sensor et mm body rules w1 = (w', r)"
    by (rule ingest_browser_ok)
  note id = identify_browser_ok [OF i] and f = record_browser_facts [OF rc]
  let ?same = "events_for_trace (ctx_org auth) (bb_trace body) w'"
  let ?new = "stored_browser_event bx correlation now (ctx_org auth) sensor et mm (fst (classify_destination (bb_domain body) rules)) body"
  have mem: "e0 \<in> set ?same" "?new \<in> set ?same"
    using f(1) id(2) assms(2-4) by (auto simp: events_for_trace_def stored_browser_event_def)
  have dom: "be_domain ?new = bb_domain body" using assms(6) by (simp add: stored_browser_event_def)
  have "{be_domain e0, bb_domain body} \<subseteq> be_domain ` set ?same" using mem dom by force
  then have "card {be_domain e0, bb_domain body} \<le> card (be_domain ` set ?same)" by (intro card_mono) simp_all
  then have tools: "2 \<le> length (remdups (map be_domain ?same))"
    using assms(5) by (simp add: length_remdups_card_conv)
  then have x: "bq_exposure r = MultiSurfaceAiExposure" using f(6) by (simp add: classify_exposure_def)
  then have "bq_severity r = CRITICAL"
    unfolding f(7) exposure_severity_def by (simp add: sev_at_eq_CRITICAL)
  with x assms(7) show ?thesis by (simp add: classify_destination_def)
qed

theorem spelling_makes_it_critical_witness:
  "\<exists>r. snd paste_again = Inr r \<and> bq_exposure r = MultiSurfaceAiExposure \<and> bq_severity r = CRITICAL"
proof -
  have "case snd paste_again of Inl _ \<Rightarrow> False | Inr _ \<Rightarrow> True" by code_simp
  then obtain r where r: "snd paste_again = Inr r" by (auto split: sum.splits)
  have p: "paste_again = (((), snd (fst paste_again)), Inr r)" using r by (rule ingested_of)
  let ?w = "snd (fst paste_once)" and ?e0 = "hd (bw_events (snd (fst paste_once)))"
  have q: "ingest_browser_event demo_browser (\<lambda>_ _ _ g. (g, Inr ())) ''c'' 10 browser_auth browser_rq
      (paste_body ''www.chat.ai'') ((), ?w) = (((), snd (fst paste_again)), Inr r)"
  proof -
    have "((), ?w) = fst paste_once" by (simp add: prod_eq_iff)
    with p show ?thesis unfolding paste_again_def by metis
  qed
  have "length (bw_events ?w) = 1 \<and> be_org ?e0 = ctx_org browser_auth \<and> be_trace ?e0 = bb_trace (paste_body ''www.chat.ai'') \<and>
      be_domain ?e0 = ''chat.ai'' \<and> normalize_domain ''chat.ai'' = normalize_domain ''www.chat.ai''" by code_simp
  then have f: "?e0 \<in> set (bw_events ?w)" "be_org ?e0 = ctx_org browser_auth" "be_trace ?e0 = bb_trace (paste_body ''www.chat.ai'')"
      "be_domain ?e0 = ''chat.ai''" "normalize_domain ''chat.ai'' = normalize_domain ''www.chat.ai''"
    by (auto intro!: hd_in_set)
  have g: "be_domain ?e0 \<noteq> bb_domain (paste_body ''www.chat.ai'')" "length (bb_domain (paste_body ''www.chat.ai'')) \<le> 253"
      "normalize_domain (be_domain ?e0) = normalize_domain (bb_domain (paste_body ''www.chat.ai''))"
    using f(4,5) by (simp_all add: paste_body_def)
  from spelling_makes_it_critical [OF q f(1-3) g] r show ?thesis by blast
qed

subsection \<open>The registry\<close>

lemma add_entry_step:
  assumes "length seen \<le> limit" "distinct (map rg_trace seen)"
  shows "length (add_entry sha mode limit (t, c, x) seen) \<le> limit"
    and "distinct (map rg_trace (add_entry sha mode limit (t, c, x) seen))"
    and "set seen \<subseteq> set (add_entry sha mode limit (t, c, x) seen)"
    and "length (add_entry sha mode limit (t, c, x) seen) \<le> length seen + 1"
    and "y \<in> set (add_entry sha mode limit (t, c, x) seen) \<Longrightarrow> y \<in> set seen \<or>
      (rg_trace y \<noteq> [] \<and> rg_trace y = t \<and> rg_token y = fingerprint sha (rg_trace y) mode)"
    and "length seen < limit \<Longrightarrow> t \<noteq> [] \<Longrightarrow> t \<in> rg_trace ` set (add_entry sha mode limit (t, c, x) seen)"
  using assms by (auto simp: add_entry_def split: if_splits)

lemma fold_add_entry_bounds:
  assumes "length seen \<le> limit" "distinct (map rg_trace seen)"
  shows "length (fold (add_entry sha mode limit) es seen) \<le> limit \<and>
    distinct (map rg_trace (fold (add_entry sha mode limit) es seen)) \<and>
    set seen \<subseteq> set (fold (add_entry sha mode limit) es seen)"
  using assms
proof (induction es arbitrary: seen)
  case (Cons e es)
  obtain t c x where e: "e = (t, c, x)" by (cases e) auto
  note step = add_entry_step [OF Cons.prems, where sha = sha and mode = mode and t = t and c = c and x = x]
  show ?case using Cons.IH [OF step(1,2)] step(3) by (simp add: e) blast
qed simp

lemma fold_add_entry_origin:
  assumes "length seen \<le> limit" "distinct (map rg_trace seen)" "y \<in> set (fold (add_entry sha mode limit) es seen)"
  shows "y \<in> set seen \<or> (rg_trace y \<noteq> [] \<and> rg_trace y \<in> fst ` set es \<and> rg_token y = fingerprint sha (rg_trace y) mode)"
  using assms
proof (induction es arbitrary: seen)
  case (Cons e es)
  obtain t c x where e: "e = (t, c, x)" by (cases e) auto
  note step = add_entry_step [OF Cons.prems(1,2), where sha = sha and mode = mode and t = t and c = c and x = x]
  have m: "y \<in> set (fold (add_entry sha mode limit) es (add_entry sha mode limit (t, c, x) seen))"
    using Cons.prems(3) by (simp add: e)
  from Cons.IH [OF step(1,2) m] step(5) [where y = y] show ?case by (auto simp: e)
qed simp

lemma fold_add_entry_complete:
  assumes "length seen + length es \<le> limit" "distinct (map rg_trace seen)" "t \<in> fst ` set es" "t \<noteq> []"
  shows "t \<in> rg_trace ` set (fold (add_entry sha mode limit) es seen)"
  using assms
proof (induction es arbitrary: seen)
  case (Cons e es)
  obtain u c x where e: "e = (u, c, x)" by (cases e) auto
  have len: "length seen \<le> limit" "length seen < limit" using Cons.prems(1) by simp_all
  note step = add_entry_step [OF len(1) Cons.prems(2), where sha = sha and mode = mode and t = u and c = c and x = x]
  show ?case
  proof (cases "t \<in> fst ` set es")
    case True
    have "length (add_entry sha mode limit (u, c, x) seen) + length es \<le> limit" using step(4) Cons.prems(1) by simp
    from Cons.IH [OF this step(2) True Cons.prems(4)] show ?thesis by (simp add: e)
  next
    case False
    with Cons.prems(3) have "t = u" by (simp add: e)
    with step(6) len Cons.prems(4) have "t \<in> rg_trace ` set (add_entry sha mode limit (u, c, x) seen)" by simp
    moreover have "set (add_entry sha mode limit (u, c, x) seen) \<subseteq>
        set (fold (add_entry sha mode limit) es (add_entry sha mode limit (u, c, x) seen))"
      using fold_add_entry_bounds [OF step(1,2)] by blast
    ultimately show ?thesis by (simp add: e image_iff) blast
  qed
qed simp

definition active_on_surface :: "org_id \<Rightarrow> string \<Rightarrow> browser_world \<Rightarrow> bool" where
  "active_on_surface org trace w \<longleftrightarrow>
     list_ex (\<lambda>s. st_org s = org \<and> st_active s \<and> st_trace s = trace) (bw_ai w @ bw_repo w @ bw_honey w)"

lemma surface_entries_traces: "t \<in> fst ` set (surface_entries org w) \<longleftrightarrow> active_on_surface org t w"
  by (simp add: surface_entries_def active_on_surface_def list_ex_iff image_Un image_image) auto

lemma surface_entries_length: "length (surface_entries org w) \<le> length (bw_ai w) + length (bw_repo w) + length (bw_honey w)"
  unfolding surface_entries_def by (auto intro!: add_mono simp: add.assoc)

text \<open>
  The registry a sensor downloads: it never has more entries than the configured limit, no trace
  twice, and every entry is a non-empty trace that is active on a surface of the caller's organization,
  with the fingerprint of that trace; and as long as the surfaces hold no more traces than the limit,
  every active trace of the organization is in it.
\<close>

theorem registry_exact_under_limit:
  assumes "length (bw_ai w) + length (bw_repo w) + length (bw_honey w) \<le> limit"
  shows "length (build_registry sha limit org w) \<le> limit \<and> distinct (map rg_trace (build_registry sha limit org w)) \<and>
    rg_trace ` set (build_registry sha limit org w) = {t. t \<noteq> [] \<and> active_on_surface org t w} \<and>
    (\<forall>e \<in> set (build_registry sha limit org w). rg_token e = fingerprint sha (rg_trace e) (registry_mode org w))"
proof -
  let ?es = "surface_entries org w"
  have len: "length ([] :: registry_entry list) + length ?es \<le> limit" using surface_entries_length [of org w] assms by simp
  note b = fold_add_entry_bounds [of "[]" limit sha "registry_mode org w" ?es, simplified]
  have o: "rg_trace y \<noteq> [] \<and> active_on_surface org (rg_trace y) w \<and> rg_token y = fingerprint sha (rg_trace y) (registry_mode org w)"
    if "y \<in> set (build_registry sha limit org w)" for y
    using fold_add_entry_origin [of "[]" limit y sha "registry_mode org w" ?es] that
    by (simp add: build_registry_def flip: surface_entries_traces)
  have c: "t \<in> rg_trace ` set (build_registry sha limit org w)" if "t \<noteq> []" "active_on_surface org t w" for t
    using fold_add_entry_complete [OF len] that by (simp add: build_registry_def surface_entries_traces)
  show ?thesis using b o c by (auto simp: build_registry_def)
qed

theorem registry_exact_under_limit_witness:
  "rg_trace ` set (build_registry id 3 7 browser_start) = {t. t \<noteq> [] \<and> active_on_surface 7 t browser_start}"
  using registry_exact_under_limit [of browser_start 3 id 7] by (simp add: browser_start_def)

text \<open>No endpoint hands a signing secret to the builder: no policy document is ever signed.\<close>

lemma policy_never_signed: "policy_answer bx p = Inr d \<Longrightarrow> pd_signature d = None"
  by (auto simp: policy_answer_def build_policy_doc_def and_then_def Let_def split: sum.splits)

text \<open>A stored rule loses its label.\<close>

lemma rules_from_record_unlabelled: "rules_from_record rs = Inr rules \<Longrightarrow> r \<in> set rules \<Longrightarrow> ru_label r = None"
  by (induction rs arbitrary: rules r rule: rules_from_record.induct)
    (auto simp: and_then_def Let_def split: sum.splits if_splits)

lemma upsert_policy_increments:
  assumes "upsert_policy now org b w = (w', p)"
  shows "get_browser_policy org w' = Some p"
    and "bp_version p = (case get_browser_policy org w of None \<Rightarrow> 1 | Some q \<Rightarrow> bp_version q + 1)"
proof -
  show "bp_version p = (case get_browser_policy org w of None \<Rightarrow> 1 | Some q \<Rightarrow> bp_version q + 1)"
    using assms by (auto simp: upsert_policy_def Let_def split: option.splits)
  show "get_browser_policy org w' = Some p"
  proof (cases "get_browser_policy org w")
    case None
    have "find (\<lambda>q. bp_org q = org) (ps @ [p]) = Some p"
      if "find (\<lambda>q. bp_org q = org) ps = None" "bp_org p = org" for ps
      using that by (induction ps) (auto split: if_splits)
    with None assms show ?thesis by (auto simp: upsert_policy_def get_browser_policy_def Let_def)
  next
    case (Some q)
    have "find (\<lambda>q. bp_org q = org) (map (\<lambda>x. if bp_org x = org then p else x) ps) = Some p"
      if "find (\<lambda>q. bp_org q = org) ps = Some q" "bp_org p = org" for ps
      using that by (induction ps) (auto split: if_splits)
    with Some assms show ?thesis by (auto simp: upsert_policy_def get_browser_policy_def Let_def)
  qed
qed

end
