(* ===== verification/AI_Content.thy ===== *)
theory AI_Content
  imports Lifecycle Severity_Model Text_Util
begin

text \<open>
  The pure part of the AI-native tripwires: surfaces, event types and the deployment state machine
  (\<open>models/domain/ai_tripwire.py\<close>), the trace token and its embedding (\<open>services/ai_tripwire/trace.py\<close>),
  the safety patterns (\<open>safety.py\<close>), the generated documents and resources (\<open>content.py\<close>), the preview
  (\<open>preview.py\<close>) and the classification of events (\<open>classification.py\<close>). SHA-256 is an argument.
  The length limits of the pydantic models hold of every generated asset and are left out.
\<close>

subsection \<open>Enumerations and the state machine\<close>

datatype surface_type = RagDocument | McpResource | McpConfig

fun surface_value :: "surface_type \<Rightarrow> string" where
  "surface_value RagDocument = ''rag_document''"
| "surface_value McpResource = ''mcp_resource''"
| "surface_value McpConfig = ''mcp_config''"

datatype ai_status = AiDraft | AiAwaitingApproval | AiApproved | AiRejected | AiDeploying | AiDeployed
  | AiDeployedUnmonitored | AiVerificationFailed | AiFailed | AiCancelled | AiDriftDetected | AiRetiring
  | AiRetired | AiExpired

fun ai_status_value :: "ai_status \<Rightarrow> string" where
  "ai_status_value AiDraft = ''draft''"
| "ai_status_value AiAwaitingApproval = ''awaiting_approval''"
| "ai_status_value AiApproved = ''approved''"
| "ai_status_value AiRejected = ''rejected''"
| "ai_status_value AiDeploying = ''deploying''"
| "ai_status_value AiDeployed = ''deployed''"
| "ai_status_value AiDeployedUnmonitored = ''deployed_unmonitored''"
| "ai_status_value AiVerificationFailed = ''verification_failed''"
| "ai_status_value AiFailed = ''failed''"
| "ai_status_value AiCancelled = ''cancelled''"
| "ai_status_value AiDriftDetected = ''drift_detected''"
| "ai_status_value AiRetiring = ''retiring''"
| "ai_status_value AiRetired = ''retired''"
| "ai_status_value AiExpired = ''expired''"

datatype ai_event_type = DocumentRetrieved | ChunkRetrieved | TraceInModelInput | TraceInAnswer
  | DocumentExported | DocumentCopied | ResourceListed | ResourceRead | ResourceReferenced | ConfigLoaded
  | UriRequested | MetadataCopied | AgentTouched

fun ai_event_value :: "ai_event_type \<Rightarrow> string" where
  "ai_event_value DocumentRetrieved = ''document_retrieved''"
| "ai_event_value ChunkRetrieved = ''chunk_retrieved''"
| "ai_event_value TraceInModelInput = ''trace_in_model_input''"
| "ai_event_value TraceInAnswer = ''trace_in_answer''"
| "ai_event_value DocumentExported = ''document_exported''"
| "ai_event_value DocumentCopied = ''document_copied''"
| "ai_event_value ResourceListed = ''resource_listed''"
| "ai_event_value ResourceRead = ''resource_read''"
| "ai_event_value ResourceReferenced = ''resource_referenced''"
| "ai_event_value ConfigLoaded = ''config_loaded''"
| "ai_event_value UriRequested = ''uri_requested''"
| "ai_event_value MetadataCopied = ''metadata_copied''"
| "ai_event_value AgentTouched = ''agent_touched''"

definition rag_events :: "ai_event_type set" where
  "rag_events = {DocumentRetrieved, ChunkRetrieved, TraceInModelInput, TraceInAnswer, DocumentExported, DocumentCopied}"

definition event_surface :: "ai_event_type \<Rightarrow> surface_type" where
  "event_surface e = (if e \<in> rag_events then RagDocument else McpResource)"

fun ai_table :: "ai_status \<Rightarrow> ai_status list" where
  "ai_table AiDraft = [AiAwaitingApproval, AiCancelled]"
| "ai_table AiAwaitingApproval = [AiApproved, AiRejected, AiCancelled]"
| "ai_table AiApproved = [AiDeploying, AiCancelled]"
| "ai_table AiDeploying = [AiDeployed, AiDeployedUnmonitored, AiVerificationFailed, AiFailed]"
| "ai_table AiDeployed = [AiRetiring, AiDriftDetected, AiExpired]"
| "ai_table AiDeployedUnmonitored = [AiRetiring, AiExpired]"
| "ai_table AiVerificationFailed = [AiRetiring]"
| "ai_table AiFailed = [AiAwaitingApproval, AiCancelled]"
| "ai_table AiDriftDetected = [AiRetiring]"
| "ai_table AiRetiring = [AiRetired, AiDriftDetected, AiFailed]"
| "ai_table AiExpired = [AiRetiring]"
| "ai_table AiRejected = []"
| "ai_table AiCancelled = []"
| "ai_table AiRetired = []"

datatype ai_transition_error = InvalidAiTransition ai_status ai_status

definition ai_message :: "ai_status \<Rightarrow> ai_status \<Rightarrow> string" where
  "ai_message current target =
     ''invalid AI tripwire transition: '' @ ai_status_value current @ '' -> '' @ ai_status_value target"

definition ai_can :: "ai_status \<Rightarrow> ai_status \<Rightarrow> bool" where
  "ai_can current target \<longleftrightarrow> target \<in> set (ai_table current)"

definition ai_assert :: "ai_status \<Rightarrow> ai_status \<Rightarrow> ai_transition_error + unit" where
  "ai_assert current target = (if \<not> ai_can current target then Inl (InvalidAiTransition current target) else Inr ())"

interpretation ai_lc: lifecycle ai_table ai_can ai_assert InvalidAiTransition
  by unfold_locales (auto simp: ai_can_def ai_assert_def)

lemma ai_gates [enum_simps]:
  "AiDeployed \<in> set (ai_table s) \<Longrightarrow> s \<in> {AiDeploying}"
  "AiDeploying \<in> set (ai_table s) \<Longrightarrow> s \<in> {AiApproved}"
  "AiApproved \<in> set (ai_table s) \<Longrightarrow> s \<in> {AiAwaitingApproval}"
  "AiRetired \<in> set (ai_table s) \<Longrightarrow> s \<in> {AiRetiring}"
  by (cases s; simp)+

subsection \<open>The trace token\<close>

definition token_interval :: nat where "token_interval = 400"

definition metadata_key :: string where "metadata_key = ''deceptiforge_trace''"

definition reserved_phrase :: "string \<Rightarrow> string" where
  "reserved_phrase token = ''DeceptiForge synthetic reference marker '' @ token @
     ''. This is a decoy record for internal detection only; it contains no real data and requires no action.''"

text \<open>
  \<open>re.split(r"(?<=[.!?])\s+", text)\<close>: the first argument collects, reversed, the sentence being read.
\<close>

function sentences_from :: "string \<Rightarrow> string \<Rightarrow> string list" where
  "sentences_from cur [] = [rev cur]"
| "sentences_from cur (c # s) =
     (if is_space c \<and> cur \<noteq> [] \<and> hd cur \<in> {CHR ''.'', CHR ''!'', CHR ''?''}
      then rev cur # sentences_from [] (dropWhile is_space s)
      else sentences_from (c # cur) s)"
  by pat_completeness auto
termination by (relation "measure (\<lambda>(cur, s). length s)") (auto simp: le_imp_less_Suc length_dropWhile_le)

definition ref_mark :: "string \<Rightarrow> string" where
  "ref_mark token = ''(ref '' @ token @ '')''"

fun embed_loop :: "string \<Rightarrow> nat \<Rightarrow> string list \<Rightarrow> string list" where
  "embed_loop token running [] = []"
| "embed_loop token running (s # ss) =
     (if running + length s \<ge> token_interval then s # ref_mark token # embed_loop token 0 ss
      else s # embed_loop token (running + length s) ss)"

definition embed_trace :: "string \<Rightarrow> string \<Rightarrow> string" where
  "embed_trace body token =
     join_with '' '' (filter (\<lambda>p. p \<noteq> [])
       (reserved_phrase token # embed_loop token 0 (sentences_from [] (py_strip body)) @ [reserved_phrase token]))"

definition trace_mechanisms :: "string \<Rightarrow> string \<Rightarrow> string list" where
  "trace_mechanisms token document_id =
     [''explicit synthetic token '' @ [CHR 39] @ token @ [CHR 39] @ '' repeated through the body'',
      ''stable document id '' @ [CHR 39] @ document_id @ [CHR 39],
      ''structured metadata field '' @ [CHR 39] @ metadata_key @ [CHR 39],
      ''reserved phrase embedded in benign prose'']"

definition detect_in_text :: "string \<Rightarrow> string \<Rightarrow> bool" where
  "detect_in_text t token \<longleftrightarrow> contains (py_lower t) (py_lower token)"

definition detect_in_metadata :: "(string \<times> string) list \<Rightarrow> string \<Rightarrow> bool" where
  "detect_in_metadata metadata token \<longleftrightarrow>
     (case map_of metadata metadata_key of None \<Rightarrow> [] | Some v \<Rightarrow> v) = token \<or>
     list_ex (\<lambda>v. contains v token) (map snd metadata)"

text \<open>\<open>range(0, len(text), chunk_size)\<close> slices, or one empty chunk; the chunk size is positive.\<close>

function chunks_of :: "nat \<Rightarrow> string \<Rightarrow> string list" where
  "chunks_of n s = (if s = [] \<or> n = 0 then [] else take n s # chunks_of n (drop n s))"
  by pat_completeness auto
termination by (relation "measure (\<lambda>(n, s). length s)") auto

declare chunks_of.simps [simp del]

definition simulate_chunks :: "string \<Rightarrow> nat \<Rightarrow> string list" where
  "simulate_chunks t n = (let cs = chunks_of n t in if cs = [] then [[]] else cs)"

subsection \<open>Safety patterns\<close>

text \<open>
  The regular expressions of \<open>_UNSAFE_PATTERNS\<close> as lists of items: a literal, one of several literals,
  \<open>\s\<close>, \<open>\s*\<close> and \<open>\b\<close>; \<open>\s+\<close> is \<open>Space, Spaces\<close>. An alternation at the top of an expression is
  written as several expressions. \<open>match_at\<close> matches at a position, given the character before it.
\<close>

datatype rx = Lit string | OneOf "string list" | Space | Spaces | Boundary

definition word_char :: "char option \<Rightarrow> bool" where
  "word_char c = (case c of None \<Rightarrow> False
     | Some x \<Rightarrow> let n = (of_char x :: nat) in
         (48 \<le> n \<and> n \<le> 57) \<or> (65 \<le> n \<and> n \<le> 90) \<or> n = 95 \<or> (97 \<le> n \<and> n \<le> 122))"

definition head_char :: "string \<Rightarrow> char option" where
  "head_char s = (case s of [] \<Rightarrow> None | c # _ \<Rightarrow> Some c)"

definition before :: "char option \<Rightarrow> string \<Rightarrow> char option" where
  "before p w = (if w = [] then p else Some (last w))"

fun match_at :: "rx list \<Rightarrow> char option \<Rightarrow> string \<Rightarrow> bool" where
  "match_at [] p s = True"
| "match_at (Lit w # rs) p s = (if startswith s w then match_at rs (before p w) (drop (length w) s) else False)"
| "match_at (OneOf ws # rs) p s =
     list_ex (\<lambda>w. if startswith s w then match_at rs (before p w) (drop (length w) s) else False) ws"
| "match_at (Space # rs) p [] = False"
| "match_at (Space # rs) p (c # s) = (if is_space c then match_at rs (Some c) s else False)"
| "match_at (Spaces # rs) p [] = match_at rs p []"
| "match_at (Spaces # rs) p (c # s) =
     (if match_at rs p (c # s) then True else if is_space c then match_at (Spaces # rs) (Some c) s else False)"
| "match_at (Boundary # rs) p s = (if word_char p \<noteq> word_char (head_char s) then match_at rs p s else False)"

fun search_from :: "rx list \<Rightarrow> char option \<Rightarrow> string \<Rightarrow> bool" where
  "search_from r p [] = match_at r p []"
| "search_from r p (c # s) = (if match_at r p (c # s) then True else search_from r (Some c) s)"

definition unsafe_patterns :: "rx list list" where
  "unsafe_patterns =
     [[Lit ''ignore '', OneOf [''all '', ''the '', ''previous'', ''prior'']],
      [Lit ''disregard '', OneOf [''all '', ''the '', ''previous'', ''prior'']],
      [Lit ''you are now''],
      [Boundary, Lit ''act as'', Boundary],
      [Lit ''system prompt''],
      [Lit ''jailbreak''],
      [Boundary, Lit ''execute'', Boundary],
      [Lit ''run '', OneOf [''the '', ''this '']],
      [Boundary, Lit ''sudo'', Boundary],
      [Lit ''rm'', Space, Spaces, Lit ''-rf''],
      [Lit ''curl'', Space],
      [Lit ''wget'', Space],
      [Lit ''http'', OneOf [''s'', []], Lit ''://''],
      [Lit ''file://''],
      [Lit ''ssh://''],
      [Lit (replicate 3 (CHR 0x60))],
      [Lit ''<script''],
      [Lit ''drop'', Space, Spaces, Lit ''table''],
      [Lit ''delete'', Space, Spaces, Lit ''from''],
      [Lit ''begin_secret''],
      [Lit ''api'', OneOf [''_'', ''-'', []], Lit ''key'', Spaces, Lit ''=''],
      [Lit ''password'', Spaces, Lit ''='']]"

datatype ai_error = ContentUnsafe string | UnknownKind string | PreviewRefused string

definition reserved_scheme :: string where "reserved_scheme = ''deceptiforge://''"

definition assert_safe_content :: "nat \<Rightarrow> string \<Rightarrow> ai_error + unit" where
  "assert_safe_content max_bytes t =
     (if py_strip t = [] then Inl (ContentUnsafe ''empty content'')
      else if length t > max_bytes then Inl (ContentUnsafe (''content exceeds '' @ nat_str max_bytes @ '' bytes''))
      else if list_ex (\<lambda>p. search_from p None (py_lower t)) unsafe_patterns
      then Inl (ContentUnsafe ''content contains an unsafe or non-inert pattern'')
      else Inr ())"

definition assert_safe_mcp_uri :: "string \<Rightarrow> ai_error + unit" where
  "assert_safe_mcp_uri uri =
     (if \<not> startswith uri reserved_scheme
      then Inl (ContentUnsafe ''MCP resource URI must use the reserved deceptiforge:// scheme'')
      else if list_ex (\<lambda>s. contains (py_lower uri) s) [''http://'', ''https://'', ''file://'', ''ssh://'', ''ftp://'']
      then Inl (ContentUnsafe ''MCP resource URI must not reference a real endpoint'')
      else Inr ())"

definition is_safe_content :: "nat \<Rightarrow> string \<Rightarrow> bool" where
  "is_safe_content max_bytes t = is_ok (assert_safe_content max_bytes t)"

subsection \<open>Generated assets\<close>

record rag_document =
  rd_id :: string
  rd_title :: string
  rd_body :: string
  rd_token :: string
  rd_phrase :: string
  rd_metadata :: "(string \<times> string) list"
  rd_hash :: string

record mcp_resource =
  mr_uri :: string
  mr_name :: string
  mr_description :: string
  mr_token :: string
  mr_metadata :: "(string \<times> string) list"
  mr_hash :: string

definition rag_bodies :: "(string \<times> string \<times> string) list" where
  "rag_bodies =
     [(''architecture_note'', ''Internal architecture note (synthetic)'',
       ''This note summarizes a synthetic internal service topology used only for detection. '' @
       ''Components are placeholders and reference no real hosts. Data flows are illustrative.''),
      (''escalation_summary'', ''Customer escalation summary (synthetic)'',
       ''A synthetic escalation summary describing a fictional account issue and steps. '' @
       ''No real customer, contact, or account is referenced. All identifiers are placeholders.''),
      (''pricing_exception'', ''Pricing exception memo (synthetic)'',
       ''A synthetic memo describing a fictional pricing exception approval. Figures are '' @
       ''illustrative and non-actionable. No real customer or payment detail appears here.''),
      (''support_runbook'', ''Support runbook (synthetic)'',
       ''A synthetic support runbook with illustrative, non-executable steps for a '' @
       ''fictional internal tool. It references no real systems and performs no actions.''),
      (''incident_handoff'', ''Incident handoff (synthetic)'',
       ''A synthetic incident handoff describing a fictional issue and owners. Names/systems are '' @
       ''placeholders; there is nothing to act on.''),
      (''roadmap_excerpt'', ''Roadmap excerpt (synthetic)'',
       ''A synthetic roadmap excerpt listing fictional initiatives and quarters. Illustrative '' @
       ''only; it reflects no real plans.''),
      (''billing_policy'', ''Billing policy note (synthetic)'',
       ''A synthetic billing policy note with illustrative, non-actionable guidance. No real '' @
       ''customer, invoice, or payment information appears.'')]"

definition mcp_kinds :: "(string \<times> string) list" where
  "mcp_kinds =
     [(''mcp_resource'', ''Synthetic internal knowledge resource (decoy). Inert; no real system.''),
      (''mcp_config'', ''Inert synthetic configuration entry (decoy). No executable behavior.''),
      (''tool_description'', ''Synthetic tool description (decoy). Declarative only; performs no action.''),
      (''endpoint_reference'', ''Reserved synthetic endpoint reference (decoy). Not a real endpoint.'')]"

definition token_tail :: "string \<Rightarrow> string" where
  "token_tail token = last (split_on CHR ''-'' token)"

definition generate_rag_document :: "(string \<Rightarrow> string) \<Rightarrow> nat \<Rightarrow> string \<Rightarrow> string \<Rightarrow> ai_error + rag_document" where
  "generate_rag_document sha max_bytes kind token =
     (case map_of rag_bodies kind of
        None \<Rightarrow> Inl (UnknownKind (''unknown RAG decoy kind: '' @ kind))
      | Some (title, base) \<Rightarrow>
          (let document_id = ''dfai-'' @ token_tail token; body = embed_trace base token in
           and_then (assert_safe_content max_bytes body) (\<lambda>_.
             Inr \<lparr>rd_id = document_id, rd_title = title, rd_body = body, rd_token = token,
                  rd_phrase = reserved_phrase token,
                  rd_metadata = [(metadata_key, token), (''synthetic'', ''true''), (''df_decoy_kind'', kind),
                                 (''df_document_id'', document_id)],
                  rd_hash = sha body\<rparr>)))"

definition generate_mcp_resource :: "(string \<Rightarrow> string) \<Rightarrow> nat \<Rightarrow> string \<Rightarrow> string \<Rightarrow> ai_error + mcp_resource" where
  "generate_mcp_resource sha max_bytes kind token =
     (case map_of mcp_kinds kind of
        None \<Rightarrow> Inl (UnknownKind (''unknown MCP decoy kind: '' @ kind))
      | Some base \<Rightarrow>
          (let uri = ''deceptiforge://decoy/'' @ kind @ ''/'' @ token in
           and_then (assert_safe_mcp_uri uri) (\<lambda>_.
             let description = base @ '' '' @ reserved_phrase token in
             and_then (assert_safe_content max_bytes description) (\<lambda>_.
               Inr \<lparr>mr_uri = uri, mr_name = ''decoy-'' @ kind @ ''-'' @ token_tail token,
                    mr_description = description, mr_token = token,
                    mr_metadata = [(metadata_key, token), (''synthetic'', ''true''), (''df_decoy_kind'', kind)],
                    mr_hash = sha (uri @ description)\<rparr>))))"

subsection \<open>Preview\<close>

record ai_preview =
  ap_deployment :: string
  ap_surface :: surface_type
  ap_connector :: string
  ap_collection :: string
  ap_kind :: string
  ap_token :: string
  ap_mechanisms :: "string list"
  ap_content :: string
  ap_metadata :: "(string \<times> string) list"
  ap_safety_ok :: bool
  ap_expires :: "datetime option"
  ap_registration :: "string list"
  ap_hash :: string

definition mk_preview ::
  "(string \<Rightarrow> string) \<Rightarrow> string \<Rightarrow> surface_type \<Rightarrow> string \<Rightarrow> string \<Rightarrow> string \<Rightarrow> string \<Rightarrow> string \<Rightarrow>
   (string \<times> string) list \<Rightarrow> string list \<Rightarrow> string \<Rightarrow> datetime option \<Rightarrow> ai_preview" where
  "mk_preview sha deployment_id surface connector_id target kind token content metadata mechanisms content_hash expires =
     \<lparr>ap_deployment = deployment_id, ap_surface = surface, ap_connector = connector_id, ap_collection = target,
      ap_kind = kind, ap_token = token, ap_mechanisms = mechanisms, ap_content = content, ap_metadata = metadata,
      ap_safety_ok = True, ap_expires = expires, ap_registration = [token],
      ap_hash = sha (surface_value surface @ '':'' @ target @ '':'' @ content_hash)\<rparr>"

definition build_rag_preview ::
  "(string \<Rightarrow> string) \<Rightarrow> string list \<Rightarrow> nat \<Rightarrow> string \<Rightarrow> string \<Rightarrow> string \<Rightarrow> string \<Rightarrow> string \<Rightarrow> datetime option \<Rightarrow>
   ai_error + ai_preview \<times> rag_document" where
  "build_rag_preview sha allowed max_bytes deployment_id connector_id target kind token expires =
     (if target \<notin> set allowed then Inl (PreviewRefused ''target collection is not in the allowlist'')
      else and_then (generate_rag_document sha max_bytes kind token) (\<lambda>doc.
        Inr (mk_preview sha deployment_id RagDocument connector_id target kind token (rd_body doc) (rd_metadata doc)
               (trace_mechanisms token (rd_id doc)) (rd_hash doc) expires, doc)))"

definition build_mcp_preview ::
  "(string \<Rightarrow> string) \<Rightarrow> nat \<Rightarrow> string \<Rightarrow> string \<Rightarrow> string \<Rightarrow> string \<Rightarrow> string \<Rightarrow> surface_type \<Rightarrow> datetime option \<Rightarrow>
   ai_error + ai_preview \<times> mcp_resource" where
  "build_mcp_preview sha max_bytes deployment_id connector_id target kind token surface expires =
     and_then (generate_mcp_resource sha max_bytes kind token) (\<lambda>res.
       Inr (mk_preview sha deployment_id surface connector_id target kind token
              (mr_uri res @ [CHR 0x0A] @ mr_description res) (mr_metadata res)
              [''reserved URI '' @ [CHR 39] @ mr_uri res @ [CHR 39], ''structured metadata trace'']
              (mr_hash res) expires, res))"

subsection \<open>Classification\<close>

datatype ai_exposure = RagRetrievalExposure | RagAnswerLeak | McpResourceAccess | McpConfigExposure
  | AiAgentDecoyTouch | MultiSurfaceExposure

fun single_exposure :: "ai_event_type \<Rightarrow> ai_exposure" where
  "single_exposure DocumentRetrieved = RagRetrievalExposure"
| "single_exposure ChunkRetrieved = RagRetrievalExposure"
| "single_exposure TraceInModelInput = RagRetrievalExposure"
| "single_exposure TraceInAnswer = RagAnswerLeak"
| "single_exposure DocumentExported = RagRetrievalExposure"
| "single_exposure DocumentCopied = RagRetrievalExposure"
| "single_exposure ResourceListed = McpResourceAccess"
| "single_exposure ResourceRead = McpResourceAccess"
| "single_exposure ResourceReferenced = McpResourceAccess"
| "single_exposure UriRequested = McpResourceAccess"
| "single_exposure MetadataCopied = McpResourceAccess"
| "single_exposure ConfigLoaded = McpConfigExposure"
| "single_exposure AgentTouched = AiAgentDecoyTouch"

fun ai_base_severity :: "ai_exposure \<Rightarrow> severity" where
  "ai_base_severity RagRetrievalExposure = MEDIUM"
| "ai_base_severity RagAnswerLeak = HIGH"
| "ai_base_severity McpResourceAccess = MEDIUM"
| "ai_base_severity McpConfigExposure = HIGH"
| "ai_base_severity AiAgentDecoyTouch = HIGH"
| "ai_base_severity MultiSurfaceExposure = CRITICAL"

text \<open>
  The argument is a frozenset; its iteration order, which picks the element of the last branch, is the
  order of the list. The list is not empty where it is called.
\<close>

definition classify_ai :: "ai_event_type list \<Rightarrow> ai_exposure" where
  "classify_ai types =
     (let surfaces = remdups (map event_surface types) in
      if length surfaces > 1 then MultiSurfaceExposure
      else if TraceInAnswer \<in> set types then RagAnswerLeak
      else if ConfigLoaded \<in> set types \<and> set surfaces = {McpResource} then McpConfigExposure
      else if AgentTouched \<in> set types then AiAgentDecoyTouch
      else single_exposure (hd types))"

definition ai_severity :: "ai_exposure \<Rightarrow> nat \<Rightarrow> nat \<Rightarrow> nat \<Rightarrow> severity" where
  "ai_severity exposure event_count distinct_sources surface_count =
     sev_at (sev_rank (ai_base_severity exposure) + of_bool (event_count \<ge> 3) + of_bool (distinct_sources \<ge> 2)
             + of_bool (surface_count \<ge> 2))"

lemma single_exposure_default:
  "e \<notin> {TraceInAnswer, ConfigLoaded, AgentTouched} \<Longrightarrow>
     single_exposure e = (if event_surface e = RagDocument then RagRetrievalExposure else McpResourceAccess)"
  by (cases e) (simp_all add: event_surface_def rag_events_def)

lemma classify_ai_canonical:
  assumes "types \<noteq> []"
  shows "classify_ai types =
    (if card (event_surface ` set types) > 1 then MultiSurfaceExposure
     else if TraceInAnswer \<in> set types then RagAnswerLeak
     else if ConfigLoaded \<in> set types then McpConfigExposure
     else if AgentTouched \<in> set types then AiAgentDecoyTouch
     else if RagDocument \<in> event_surface ` set types then RagRetrievalExposure
     else McpResourceAccess)"
proof -
  have card: "length (remdups (map event_surface types)) = card (event_surface ` set types)"
    by (simp add: length_remdups_card_conv)
  have one: "event_surface ` set types = {event_surface e}" if "\<not> card (event_surface ` set types) > 1" "e \<in> set types" for e
  proof -
    have "card (event_surface ` set types) = 1" using that card_gt_0_iff [of "event_surface ` set types"] by fastforce
    then obtain x where "event_surface ` set types = {x}" by (rule card_1_singletonE)
    with that(2) show ?thesis by (metis imageI singletonD)
  qed
  have h: "hd types \<in> set types" using assms by simp
  have conf: "event_surface ConfigLoaded = McpResource" by (simp add: event_surface_def rag_events_def)
  show ?thesis
  proof (cases "card (event_surface ` set types) > 1 \<or> TraceInAnswer \<in> set types \<or> ConfigLoaded \<in> set types \<or> AgentTouched \<in> set types")
    case True
    then show ?thesis using one [of ConfigLoaded] conf card by (auto simp: classify_ai_def Let_def)
  next
    case False
    then have e: "single_exposure (hd types) = (if event_surface (hd types) = RagDocument then RagRetrievalExposure else McpResourceAccess)"
      using h by (intro single_exposure_default) auto
    have "RagDocument \<in> event_surface ` set types \<longleftrightarrow> event_surface (hd types) = RagDocument"
      using one [OF _ h] False by auto
    with False e card show ?thesis by (simp add: classify_ai_def Let_def)
  qed
qed

text \<open>
  The classification of an alert does not depend on the order in which the set of event types is
  iterated, nor on repetitions: lists with the same members are classified alike, and its severity can
  only grow with the number of events, sources and surfaces.
\<close>

theorem classification_order_irrelevant:
  assumes "set a = set b" and "a \<noteq> []" and "n \<le> n'" and "s \<le> s'" and "f \<le> f'"
  shows "classify_ai a = classify_ai b \<and> ai_severity (classify_ai a) n s f \<le> ai_severity (classify_ai b) n' s' f'"
proof -
  have "b \<noteq> []" using assms(1,2) by auto
  with assms have "classify_ai a = classify_ai b" by (simp add: classify_ai_canonical)
  moreover have "ai_severity (classify_ai b) n s f \<le> ai_severity (classify_ai b) n' s' f'"
    unfolding ai_severity_def using assms(3-5) by (intro sev_at_mono add_mono) (auto simp: of_bool_def)
  ultimately show ?thesis by simp
qed

theorem classification_order_irrelevant_witness:
  "classify_ai [ResourceRead, ConfigLoaded] = classify_ai [ConfigLoaded, ResourceRead, ConfigLoaded]"
  using classification_order_irrelevant [of "[ResourceRead, ConfigLoaded]" "[ConfigLoaded, ResourceRead, ConfigLoaded]" 1 1 1 1 1 1]
  by auto

subsection \<open>Traces survive excerpts\<close>

lemma join_with_Cons: "ws \<noteq> [] \<Longrightarrow> join_with sep (w # ws) = w @ sep @ join_with sep ws"
  by (cases ws) simp_all

text \<open>A text in which a token recurs with gaps of at most \<open>g\<close> characters: every long excerpt has it.\<close>

lemma excerpt_contains:
  assumes "tok \<noteq> []" and "\<forall>x \<in> set gs. length x \<le> g" and "gs \<noteq> []"
    and "join_with tok gs = a @ w @ b" and "g + 2 * length tok \<le> length w + 1"
  shows "contains w tok"
  using assms(2-5)
proof (induction gs arbitrary: a w)
  case (Cons x gs)
  have pos: "0 < length tok" using assms(1) by simp
  show ?case
  proof (cases "gs = []")
    case True
    then have "length w \<le> g" using Cons.prems(1,3) by auto
    with Cons.prems(4) pos show ?thesis by simp
  next
    case False
    then have t: "x @ tok @ join_with tok gs = a @ w @ b" using Cons.prems(3) by (simp add: join_with_Cons)
    consider "length a \<le> length x" | "length x < length a" "length a < length x + length tok" | "length x + length tok \<le> length a"
      by linarith
    then show ?thesis
    proof cases
      case 1
      have "length x \<le> g" using Cons.prems(1) by simp
      then have "length x + length tok \<le> length a + length w" using Cons.prems(4) pos by linarith
      then have "take (length x + length tok - length a) w = drop (length a) (take (length x + length tok) (a @ w @ b))" using 1
        by simp
      also have "\<dots> = drop (length a) (x @ tok)" unfolding t [symmetric] by simp
      also have "\<dots> = drop (length a) x @ tok" using 1 by simp
      finally have "w = (drop (length a) x @ tok) @ drop (length x + length tok - length a) w"
        by (metis append_take_drop_id)
      then show ?thesis by (metis append.assoc contains_iff)
    next
      case 2
      let ?k = "length x + length tok - length a"
      have k: "?k < length tok" "?k \<le> length w" using 2 Cons.prems(4) by simp_all
      have "join_with tok gs = drop (length x + length tok) (a @ w @ b)" unfolding t [symmetric] by simp
      then have r: "join_with tok gs = [] @ drop ?k w @ b" using 2 k by simp
      from False obtain y ys where gs: "gs = y # ys" by (cases gs) auto
      have y: "length y \<le> g" using Cons.prems(1) gs by simp
      have lw: "g + length tok \<le> length (drop ?k w)" using k Cons.prems(4) by simp
      have "ys \<noteq> []"
      proof
        assume "ys = []"
        then have "y = drop ?k w @ b" using r gs by simp
        then have "length (drop ?k w) \<le> length y" by simp
        with y lw pos show False by simp
      qed
      then have yt: "y @ tok @ join_with tok ys = drop ?k w @ b" using r gs by (simp add: join_with_Cons)
      have "y @ tok = take (length y + length tok) (drop ?k w @ b)" unfolding yt [symmetric] by simp
      also have "\<dots> = take (length y + length tok) (drop ?k w)" using lw y by simp
      finally have "w = (take ?k w @ y) @ tok @ drop (length y + length tok) (drop ?k w)"
        by (metis append.assoc append_take_drop_id)
      then show ?thesis by (metis contains_iff)
    next
      case 3
      have "join_with tok gs = drop (length x + length tok) (a @ w @ b)" unfolding t [symmetric] by simp
      then have "join_with tok gs = drop (length x + length tok) a @ w @ b" using 3 by simp
      with Cons.IH [OF _ False this Cons.prems(4)] Cons.prems(1) show ?thesis by simp
    qed
  qed
qed simp

lemma embed_loop_short:
  "running + sum_list (map length ss) < token_interval \<Longrightarrow> embed_loop token running ss = ss"
  by (induction ss arbitrary: running) auto

definition sentences :: "string \<Rightarrow> string list" where
  "sentences body = sentences_from [] (py_strip body)"

definition short_body :: "string \<Rightarrow> bool" where
  "short_body body \<longleftrightarrow> (let ss = sentences body in
     ss \<noteq> [] \<and> list_all (\<lambda>s. s \<noteq> []) ss \<and> sum_list (map length ss) < token_interval \<and> length (join_with '' '' ss) \<le> 240)"

lemma bodies_short: "list_all (\<lambda>(k, t, b). short_body b) rag_bodies"
  by code_simp

definition phrase_head :: string where "phrase_head = ''DeceptiForge synthetic reference marker ''"
definition phrase_tail :: string where
  "phrase_tail = ''. This is a decoy record for internal detection only; it contains no real data and requires no action.''"

lemma embed_short_body:
  assumes "short_body body"
  shows "embed_trace body token = join_with token
    [phrase_head, phrase_tail @ '' '' @ join_with '' '' (sentences body) @ '' '' @ phrase_head, phrase_tail]"
proof -
  have ss: "sentences body \<noteq> []" "filter (\<lambda>p. p \<noteq> []) (sentences body) = sentences body"
      "embed_loop token 0 (sentences body) = sentences body"
    using assms by (auto simp: short_body_def Let_def list_all_iff intro: embed_loop_short)
  have j: "join_with '' '' (ws @ [w]) = join_with '' '' ws @ '' '' @ w" if "ws \<noteq> []" for ws w
    using that by (induction ws rule: list_nonempty_induct) (simp_all add: join_with_Cons)
  have ph: "reserved_phrase token = phrase_head @ token @ phrase_tail"
    by (simp add: reserved_phrase_def phrase_head_def phrase_tail_def)
  then have ne: "reserved_phrase token \<noteq> []" by (simp add: phrase_head_def)
  have "embed_trace body token = join_with '' '' (reserved_phrase token # sentences body @ [reserved_phrase token])"
    unfolding embed_trace_def sentences_def [symmetric] using ss ne by simp
  also have "\<dots> = reserved_phrase token @ '' '' @ join_with '' '' (sentences body) @ '' '' @ reserved_phrase token"
    using ss(1) by (simp add: join_with_Cons j)
  finally show ?thesis by (simp add: ph)
qed

lemma chunks_infix: "c \<in> set (chunks_of n s) \<Longrightarrow> \<exists>a b. s = a @ c @ b"
proof (induction n s rule: chunks_of.induct)
  case (1 n s)
  show ?case
  proof (cases "s = [] \<or> n = 0")
    case True
    then show ?thesis using 1(2) by (subst (asm) chunks_of.simps) simp
  next
    case False
    then have "c = take n s \<or> c \<in> set (chunks_of n (drop n s))" using 1(2) by (subst (asm) chunks_of.simps) auto
    then show ?thesis
    proof
      assume "c = take n s"
      then have "s = [] @ c @ drop n s" by simp
      then show ?thesis by blast
    next
      assume "c \<in> set (chunks_of n (drop n s))"
      with 1(1) [OF False] obtain a b where "drop n s = a @ c @ b" by blast
      then have "s = (take n s @ a) @ c @ b" by (metis append.assoc append_take_drop_id)
      then show ?thesis by blast
    qed
  qed
qed

lemma chunks_concat: "0 < n \<Longrightarrow> concat (chunks_of n s) = s"
  by (induction n s rule: chunks_of.induct) (subst chunks_of.simps, auto)

lemma generated_body:
  assumes "generate_rag_document sha max_bytes kind token = Inr doc"
  shows "\<exists>title base. (kind, title, base) \<in> set rag_bodies \<and> rd_body doc = embed_trace base token"
proof -
  obtain title base where "map_of rag_bodies kind = Some (title, base)" "rd_body doc = embed_trace base token"
    using assms by (auto simp: generate_rag_document_def Let_def guard_simps split: option.splits)
  then show ?thesis by (meson map_of_SomeD)
qed

text \<open>
  A generated document keeps its trace through chunking and partial copying: whatever excerpt of at
  least 450 characters is taken of the body of a built-in document kind, in particular every such chunk of
  a pipeline that cuts it into pieces of any size, carries the token.
\<close>

theorem document_trace_survives_excerpts:
  assumes "(kind, title, base) \<in> set rag_bodies" and "token \<noteq> []" and "length token \<le> 32"
  shows "(\<forall>a w b. embed_trace base token = a @ w @ b \<longrightarrow> 450 \<le> length w \<longrightarrow> contains w token) \<and>
    (\<forall>n. \<forall>c \<in> set (simulate_chunks (embed_trace base token) n). 450 \<le> length c \<longrightarrow> contains c token)"
proof -
  have short: "short_body base" using assms(1) bodies_short by (auto simp: list_all_iff)
  let ?gs = "[phrase_head, phrase_tail @ '' '' @ join_with '' '' (sentences base) @ '' '' @ phrase_head, phrase_tail]"
  have lens: "length phrase_head = 40" "length phrase_tail = 102" by code_simp+
  then have g: "\<forall>x \<in> set ?gs. length x \<le> 384" using short by (simp add: short_body_def Let_def)
  have ex: "contains w token" if "embed_trace base token = a @ w @ b" "450 \<le> length w" for a w b
  proof (rule excerpt_contains [OF assms(2) g])
    show "join_with token ?gs = a @ w @ b" using that(1) embed_short_body [OF short] by simp
    show "384 + 2 * length token \<le> length w + 1" using that(2) assms(3) by simp
  qed simp
  moreover have "contains c token" if "c \<in> set (simulate_chunks (embed_trace base token) n)" "450 \<le> length c" for n c
  proof -
    have "c \<in> set (chunks_of n (embed_trace base token))" using that by (auto simp: simulate_chunks_def Let_def split: if_splits)
    then show ?thesis using chunks_infix ex that(2) by blast
  qed
  ultimately show ?thesis by blast
qed

definition demo_token :: string where "demo_token = ''DFAI-0123456789ab''"

definition runbook :: "string \<times> string \<times> string" where "runbook = rag_bodies ! 3"

definition runbook_text :: string where "runbook_text = embed_trace (snd (snd runbook)) demo_token"

theorem document_trace_survives_excerpts_witness:
  "fst runbook = ''support_runbook'' \<and> 450 \<le> length (take 460 runbook_text) \<and> contains (take 460 runbook_text) demo_token"
proof -
  obtain k t b where r: "runbook = (k, t, b)" by (cases runbook) auto
  have "runbook \<in> set rag_bodies" unfolding runbook_def by (rule nth_mem) (simp add: rag_bodies_def)
  then have m: "(k, t, b) \<in> set rag_bodies" by (simp add: r)
  have k: "fst runbook = ''support_runbook''" by code_simp
  have len: "460 \<le> length runbook_text" by code_simp
  have t: "demo_token \<noteq> []" "length demo_token \<le> 32" by code_simp+
  have "embed_trace b demo_token = [] @ take 460 runbook_text @ drop 460 runbook_text" by (simp add: runbook_text_def r)
  moreover have "450 \<le> length (take 460 runbook_text)" using len by simp
  ultimately have "contains (take 460 runbook_text) demo_token"
    using document_trace_survives_excerpts [OF m t] by blast
  with len k show ?thesis by simp
qed

text \<open>A generated resource stays under the reserved scheme and carries its trace in the text and the metadata.\<close>

lemma mcp_resource_reserved:
  assumes "generate_mcp_resource sha max_bytes kind token = Inr res"
  shows "startswith (mr_uri res) reserved_scheme" and "contains (mr_description res) token"
    and "map_of (mr_metadata res) metadata_key = Some token" and "detect_in_metadata (mr_metadata res) token"
proof -
  obtain base where uri: "assert_safe_mcp_uri (mr_uri res) = Inr ()"
      and d: "mr_description res = base @ '' '' @ reserved_phrase token"
      and m: "map_of (mr_metadata res) metadata_key = Some token"
    using assms by (auto simp: generate_mcp_resource_def Let_def guard_simps split: option.splits)
  show "startswith (mr_uri res) reserved_scheme" using uri by (simp add: assert_safe_mcp_uri_def split: if_splits)
  have "mr_description res = (base @ '' DeceptiForge synthetic reference marker '') @ token @
      ''. This is a decoy record for internal detection only; it contains no real data and requires no action.''"
    using d by (simp add: reserved_phrase_def)
  then show "contains (mr_description res) token" by (metis contains_iff)
  show "map_of (mr_metadata res) metadata_key = Some token" "detect_in_metadata (mr_metadata res) token"
    using m by (simp_all add: detect_in_metadata_def)
qed

text \<open>A long sentence without the token is a stretch of the body that no repetition interrupts.\<close>

lemma long_sentence_uninterrupted:
  assumes "sentences body = [s]" and "s \<noteq> []"
  shows "\<exists>a b. embed_trace body token = a @ s @ b"
proof -
  have r: "reserved_phrase token \<noteq> []" "ref_mark token \<noteq> []" by (simp_all add: reserved_phrase_def ref_mark_def)
  have "embed_trace body token = (reserved_phrase token @ '' '') @ s @
      (if token_interval \<le> length s then '' '' @ ref_mark token else []) @ '' '' @ reserved_phrase token"
    unfolding embed_trace_def sentences_def [symmetric] using assms r by simp
  then show ?thesis by blast
qed

end
