(* ===== verification/Encryption.thy ===== *)
theory Encryption
  imports Prelude
begin

text \<open>
  The encryption boundary of \<open>services/encryption.py\<close>: stored values of the form
  \<open>mode:version:payload\<close>, the reversible development encoding and the Fernet provider, and the choice
  between them. A text is the list of its bytes. Fernet is a parameter, keyed by the derived key.
  Of \<open>base64.urlsafe_b64decode\<close> the strict part is modelled: complete groups over the alphabet. Reading
  a token that is not of the expected form raises, which is \<open>None\<close>.
\<close>

subsection \<open>URL-safe base 64\<close>

definition b64_char :: "nat \<Rightarrow> char" where
  "b64_char n =
     (if n < 26 then char_of (65 + n) else if n < 52 then char_of (71 + n) else if n < 62 then char_of (n - 4)
      else if n = 62 then CHR ''-'' else CHR ''_'')"

definition b64_value :: "char \<Rightarrow> nat option" where
  "b64_value c =
     (let n = (of_char c :: nat) in
      if 65 \<le> n \<and> n \<le> 90 then Some (n - 65)
      else if 97 \<le> n \<and> n \<le> 122 then Some (n - 71)
      else if 48 \<le> n \<and> n \<le> 57 then Some (n + 4)
      else if n = 45 then Some 62 else if n = 95 then Some 63 else None)"

fun b64_bytes :: "nat list \<Rightarrow> string" where
  "b64_bytes [] = []"
| "b64_bytes [a] = [b64_char (a div 4), b64_char (a mod 4 * 16), CHR ''='', CHR ''='']"
| "b64_bytes [a, b] = [b64_char (a div 4), b64_char (a mod 4 * 16 + b div 16), b64_char (b mod 16 * 4), CHR ''='']"
| "b64_bytes (a # b # c # s) =
     b64_char (a div 4) # b64_char (a mod 4 * 16 + b div 16) # b64_char (b mod 16 * 4 + c div 64) #
     b64_char (c mod 64) # b64_bytes s"

definition b64_encode :: "string \<Rightarrow> string" where
  "b64_encode s = b64_bytes (map of_char s)"

fun b64_groups :: "string \<Rightarrow> nat list option" where
  "b64_groups [] = Some []"
| "b64_groups (w # x # y # z # s) =
     (case (b64_value w, b64_value x) of
        (Some p, Some q) \<Rightarrow>
          if y = CHR ''='' then (if z = CHR ''='' \<and> s = [] then Some [p * 4 + q div 16] else None)
          else (case b64_value y of
            None \<Rightarrow> None
          | Some r \<Rightarrow>
              if z = CHR ''='' then (if s = [] then Some [p * 4 + q div 16, q mod 16 * 16 + r div 4] else None)
              else (case b64_value z of
                None \<Rightarrow> None
              | Some t \<Rightarrow> map_option (\<lambda>m. (p * 4 + q div 16) # (q mod 16 * 16 + r div 4) # (r mod 4 * 64 + t) # m) (b64_groups s)))
      | _ \<Rightarrow> None)"
| "b64_groups _ = None"

definition b64_decode :: "string \<Rightarrow> string option" where
  "b64_decode s = map_option (map char_of) (b64_groups s)"

lemma b64_value_char [simp]: "n < 64 \<Longrightarrow> b64_value (b64_char n) = Some n"
  by (auto simp: b64_value_def b64_char_def Let_def)

lemma b64_char_not_pad [simp]: "n < 64 \<Longrightarrow> b64_char n \<noteq> CHR ''=''"
  using b64_value_char [of n] by (auto simp: b64_value_def simp del: b64_value_char)

lemma sextets:
  fixes a b c :: nat
  assumes "a < 256" "b < 256" "c < 256"
  shows "a div 4 < 64" "a mod 4 * 16 < 64" "a mod 4 * 16 + b div 16 < 64" "b mod 16 * 4 < 64"
    "b mod 16 * 4 + c div 64 < 64"
proof -
  have "a mod 4 < 4" "b div 16 < 16" "b mod 16 < 16" "c div 64 < 4" using assms by (auto simp: less_mult_imp_div_less)
  then show "a mod 4 * 16 < 64" "a mod 4 * 16 + b div 16 < 64" "b mod 16 * 4 < 64" "b mod 16 * 4 + c div 64 < 64"
    by linarith+
  show "a div 4 < 64" using assms by (simp add: less_mult_imp_div_less)
qed

lemma bytes_back:
  fixes a b c :: nat
  assumes "a < 256" "b < 256" "c < 256"
  shows "a div 4 * 4 + a mod 4 * 16 div 16 = a"
    "a div 4 * 4 + (a mod 4 * 16 + b div 16) div 16 = a"
    "(a mod 4 * 16 + b div 16) mod 16 * 16 + b mod 16 * 4 div 4 = b"
    "(a mod 4 * 16 + b div 16) mod 16 * 16 + (b mod 16 * 4 + c div 64) div 4 = b"
    "(b mod 16 * 4 + c div 64) mod 4 * 64 + c mod 64 = c"
proof -
  have q: "b div 16 < 16" "c div 64 < 4" using assms by (auto simp: less_mult_imp_div_less)
  have d: "(m * 16 + b div 16) div 16 = m" "(m * 16 + b div 16) mod 16 = b div 16"
      "(m * 4 + c div 64) div 4 = m" "(m * 4 + c div 64) mod 4 = c div 64" for m :: nat
    using q by simp_all
  show "a div 4 * 4 + a mod 4 * 16 div 16 = a" by simp
  show "a div 4 * 4 + (a mod 4 * 16 + b div 16) div 16 = a" by (simp only: d div_mult_mod_eq)
  show "(a mod 4 * 16 + b div 16) mod 16 * 16 + b mod 16 * 4 div 4 = b" by (simp only: d) simp
  show "(a mod 4 * 16 + b div 16) mod 16 * 16 + (b mod 16 * 4 + c div 64) div 4 = b" by (simp only: d div_mult_mod_eq)
  show "(b mod 16 * 4 + c div 64) mod 4 * 64 + c mod 64 = c" by (simp only: d div_mult_mod_eq)
qed

lemma b64_groups_bytes: "\<forall>n \<in> set ns. n < 256 \<Longrightarrow> b64_groups (b64_bytes ns) = Some ns"
proof (induction ns rule: b64_bytes.induct)
  case (2 a)
  then show ?case using bytes_back(1) [of a 0 0] by (simp add: sextets(1,2) [of a 0 0])
next
  case (3 a b)
  then have ab: "a < 256" "b < 256" "(0 :: nat) < 256" by simp_all
  show ?case unfolding b64_bytes.simps b64_groups.simps using bytes_back(2,3) [OF ab] by (simp add: sextets [OF ab] del: div_mult2_eq)
next
  case (4 a b c s)
  then have abc: "a < 256" "b < 256" "c < 256" by simp_all
  have s: "b64_groups (b64_bytes s) = Some s" using 4 by simp
  have z: "c mod 64 < 64" by simp
  show ?case unfolding b64_bytes.simps b64_groups.simps by (simp only: b64_value_char b64_char_not_pad sextets [OF abc] z s option.case prod.case if_False option.map bytes_back(2,4,5) [OF abc])
qed simp

lemma b64_roundtrip: "b64_decode (b64_encode s) = Some s"
  using b64_groups_bytes [of "map of_char s"] by (simp add: b64_decode_def b64_encode_def comp_def)

subsection \<open>Tokens\<close>

record cipher_port =
  cp_encrypt :: "string \<Rightarrow> string"
  cp_decrypt :: "string \<Rightarrow> string option"
  cp_version :: string

definition token_of :: "string \<Rightarrow> string \<Rightarrow> string \<Rightarrow> string" where
  "token_of mode version payload = join_with '':'' [mode, version, payload]"

text \<open>\<open>token.split(":", 2)\<close> unpacked into three parts.\<close>

definition after_colon :: "string \<Rightarrow> string option" where
  "after_colon s = (case dropWhile (\<lambda>c. c \<noteq> CHR '':'') s of [] \<Rightarrow> None | _ # r \<Rightarrow> Some r)"

definition payload_of :: "string \<Rightarrow> string option" where
  "payload_of token = Option.bind (after_colon token) after_colon"

lemma payload_of_token:
  assumes "CHR '':'' \<notin> set mode" and "CHR '':'' \<notin> set version"
  shows "payload_of (token_of mode version payload) = Some payload"
proof -
  have d: "after_colon (w @ CHR '':'' # r) = Some r" if "CHR '':'' \<notin> set w" for w r
    using that by (induction w) (auto simp: after_colon_def)
  show ?thesis using d [OF assms(1)] d [OF assms(2)] by (simp add: payload_of_def token_of_def)
qed

subsection \<open>Providers\<close>

definition noop_provider :: cipher_port where
  "noop_provider = \<lparr>cp_encrypt = (\<lambda>s. token_of ''disabled'' ''none'' (b64_encode s)),
     cp_decrypt = (\<lambda>t. Option.bind (payload_of t) b64_decode), cp_version = ''none''\<rparr>"

record fernet =
  fe_encrypt :: "string \<Rightarrow> string \<Rightarrow> string"
  fe_decrypt :: "string \<Rightarrow> string \<Rightarrow> string option"

text \<open>The digest of a passphrase: its 32 bytes for the key, its hexadecimal text for the version.\<close>

record digests =
  dg_bytes :: "string \<Rightarrow> string"
  dg_hex :: "string \<Rightarrow> string"

definition fernet_key :: "digests \<Rightarrow> string \<Rightarrow> string" where
  "fernet_key dg secret = b64_encode (dg_bytes dg secret)"

definition key_version :: "digests \<Rightarrow> string \<Rightarrow> string" where
  "key_version dg secret = CHR ''k'' # take 12 (dg_hex dg secret)"

definition local_provider :: "fernet \<Rightarrow> digests \<Rightarrow> string \<Rightarrow> cipher_port" where
  "local_provider fe dg secret =
     (let k = fernet_key dg secret; v = key_version dg secret in
      \<lparr>cp_encrypt = (\<lambda>s. token_of ''local'' v (fe_encrypt fe k s)),
       cp_decrypt = (\<lambda>t. Option.bind (payload_of t) (fe_decrypt fe k)), cp_version = v\<rparr>)"

record encryption_settings =
  en_mode :: string
  en_key :: "string option"

datatype encryption_error = MissingKey | UnsupportedMode string

definition given_key :: "encryption_settings \<Rightarrow> string option" where
  "given_key st = (case en_key st of None \<Rightarrow> None | Some k \<Rightarrow> if k = [] then None else Some k)"

definition build_encryption_provider :: "fernet \<Rightarrow> digests \<Rightarrow> encryption_settings \<Rightarrow> encryption_error + cipher_port" where
  "build_encryption_provider fe dg st =
     (if en_mode st = ''local'' then
        (case given_key st of None \<Rightarrow> Inl MissingKey | Some k \<Rightarrow> Inr (local_provider fe dg k))
      else if en_mode st = ''disabled'' then Inr noop_provider
      else Inl (UnsupportedMode (en_mode st)))"

definition dev_key_material :: string where
  "dev_key_material = ''deceptiforge-insecure-development-key''"

definition secret_cipher :: "fernet \<Rightarrow> digests \<Rightarrow> encryption_settings \<Rightarrow> cipher_port" where
  "secret_cipher fe dg st = local_provider fe dg (case given_key st of None \<Rightarrow> dev_key_material | Some k \<Rightarrow> k)"

subsection \<open>What was encrypted is read back\<close>

definition cipher_ok :: "cipher_port \<Rightarrow> bool" where
  "cipher_ok cp \<longleftrightarrow> (\<forall>s. cp_decrypt cp (cp_encrypt cp s) = Some s)"

definition fernet_ok :: "fernet \<Rightarrow> bool" where
  "fernet_ok fe \<longleftrightarrow> (\<forall>k s. fe_decrypt fe k (fe_encrypt fe k s) = Some s)"

definition hex_text :: "string \<Rightarrow> bool" where
  "hex_text s \<longleftrightarrow> set s \<subseteq> set ''0123456789abcdef''"

lemma noop_ok: "cipher_ok noop_provider"
  using payload_of_token [of "''disabled''" "''none''"] by (simp add: cipher_ok_def noop_provider_def b64_roundtrip)

lemma local_ok: "fernet_ok fe \<Longrightarrow> hex_text (dg_hex dg secret) \<Longrightarrow> cipher_ok (local_provider fe dg secret)"
proof -
  assume fe: "fernet_ok fe" and hex: "hex_text (dg_hex dg secret)"
  have "CHR '':'' \<notin> set (key_version dg secret)"
    using hex set_take_subset [of 12 "dg_hex dg secret"] by (auto simp: key_version_def hex_text_def)
  then show ?thesis
    using fe payload_of_token [of "''local''" "key_version dg secret"]
    by (simp add: cipher_ok_def local_provider_def Let_def fernet_ok_def)
qed

text \<open>
  C40. Whatever provider the settings select, a value it encrypted is read back unchanged, and so is a
  secret under the always-on cipher, configured or not. Fernet is assumed to invert itself under one key and
  the digest to be hexadecimal text, so that the token splits at its own separators.
\<close>

theorem encryption_roundtrip:
  assumes "fernet_ok fe" and "\<And>s. hex_text (dg_hex dg s)"
  shows "(\<forall>cp. build_encryption_provider fe dg st = Inr cp \<longrightarrow> cp_decrypt cp (cp_encrypt cp x) = Some x) \<and>
    cp_decrypt (secret_cipher fe dg st) (cp_encrypt (secret_cipher fe dg st) x) = Some x"
proof -
  have l: "cp_decrypt (local_provider fe dg k) (cp_encrypt (local_provider fe dg k) x) = Some x" for k
    using local_ok [OF assms(1) assms(2)] by (simp add: cipher_ok_def)
  moreover have "cp_decrypt noop_provider (cp_encrypt noop_provider x) = Some x" using noop_ok by (simp add: cipher_ok_def)
  ultimately show ?thesis
    by (auto simp: build_encryption_provider_def secret_cipher_def split: if_splits option.splits)
qed

definition demo_fernet :: fernet where
  "demo_fernet = \<lparr>fe_encrypt = (\<lambda>k s. k @ s), fe_decrypt = (\<lambda>k t. if startswith t k then Some (drop (length k) t) else None)\<rparr>"

definition demo_digests :: digests where
  "demo_digests = \<lparr>dg_bytes = id, dg_hex = (\<lambda>s. ''c0ffee'')\<rparr>"

theorem encryption_roundtrip_witness:
  "cp_decrypt (secret_cipher demo_fernet demo_digests \<lparr>en_mode = ''local'', en_key = None\<rparr>)
     (cp_encrypt (secret_cipher demo_fernet demo_digests \<lparr>en_mode = ''local'', en_key = None\<rparr>) ''a:b'') = Some ''a:b'' \<and>
   is_ok (build_encryption_provider demo_fernet demo_digests \<lparr>en_mode = ''local'', en_key = Some ''k''\<rparr>)"
proof -
  have "fernet_ok demo_fernet" by (simp add: fernet_ok_def demo_fernet_def startswith_def)
  moreover have "hex_text (dg_hex demo_digests s)" for s by (simp add: hex_text_def demo_digests_def)
  ultimately show ?thesis
    using encryption_roundtrip [of demo_fernet demo_digests "\<lparr>en_mode = ''local'', en_key = None\<rparr>" "''a:b''"]
    by (simp add: build_encryption_provider_def given_key_def)
qed

end
