(* ===== verification/AI_Store.thy ===== *)
theory AI_Store
  imports AI_Content Agent_Session Encryption
begin

text \<open>
  The tables of the AI tripwires (\<open>models/records.py\<close>), the repository over them
  (\<open>repositories/ai_tripwire.py\<close>) and the connector ports with their in-memory adapters
  (\<open>services/ai_tripwire/connectors.py\<close>). The time stamps nothing reads (\<open>created_at\<close>, \<open>updated_at\<close>) and
  the correlation and request identifiers are left out; the creation order is the list order. What the
  service relies on of an adapter is the locale \<open>owned_assets\<close>, interpreted by both adapters.
\<close>

subsection \<open>Tables\<close>

record rag_connector =
  rk_id :: uuid
  rk_org :: org_id
  rk_type :: string
  rk_name :: string
  rk_secret :: string
  rk_key_version :: string
  rk_index :: string
  rk_namespace :: "string option"
  rk_status :: string
  rk_actor :: "uuid option"
  rk_tested :: "datetime option"
  rk_error :: "string option"

record mcp_connector =
  mk_id :: uuid
  mk_org :: org_id
  mk_name :: string
  mk_server :: string
  mk_transport :: string
  mk_secret :: "string option"
  mk_key_version :: "string option"
  mk_status :: string
  mk_actor :: "uuid option"
  mk_tested :: "datetime option"
  mk_error :: "string option"

record ai_dep =
  ad_id :: uuid
  ad_org :: org_id
  ad_surface :: surface_type
  ad_connector :: uuid
  ad_collection :: string
  ad_kind :: string
  ad_status :: ai_status
  ad_trace :: string
  ad_asset :: "string option"
  ad_requested :: "uuid option"
  ad_approved :: "uuid option"
  ad_preview :: "ai_preview option"
  ad_vhash :: "string option"
  ad_monitoring :: "datetime option"
  ad_expires :: "datetime option"
  ad_deployed :: "datetime option"
  ad_retired :: "datetime option"
  ad_code :: "string option"
  ad_message :: "string option"

record ai_event =
  aie_org :: org_id
  aie_dep :: uuid
  aie_trace :: string
  aie_surface :: surface_type
  aie_type :: ai_event_type
  aie_source :: string
  aie_monitor :: string
  aie_confidence :: rat
  aie_metadata :: string
  aie_observed :: datetime

datatype ai_job_type = JobExecute | JobRetire

datatype ai_job_status = AjPending | AjClaimed | AjDone | AjFailed

record ai_job =
  aj_id :: uuid
  aj_org :: org_id
  aj_dep :: uuid
  aj_type :: ai_job_type
  aj_status :: ai_job_status
  aj_attempts :: nat
  aj_processed :: "datetime option"

record ai_audit =
  aia_org :: org_id
  aia_dep :: "uuid option"
  aia_connector :: "uuid option"
  aia_actor :: "uuid option"
  aia_event :: string
  aia_metadata :: string

record ai_db =
  db_rag :: "rag_connector list"
  db_mcp :: "mcp_connector list"
  db_deps :: "ai_dep list"
  db_events :: "ai_event list"
  db_jobs :: "ai_job list"
  db_audit :: "ai_audit list"

datatype lookup_error = ConnectorNotFound uuid | DeploymentNotFound uuid

subsection \<open>The repository\<close>

definition create_rag_row ::
  "cipher_port \<Rightarrow> uuid \<Rightarrow> org_id \<Rightarrow> string \<Rightarrow> string \<Rightarrow> string \<Rightarrow> string \<Rightarrow> string option \<Rightarrow> uuid option \<Rightarrow> ai_db \<Rightarrow>
   ai_db \<times> rag_connector" where
  "create_rag_row cp i org kind nm secret index namespace actor db =
     (let r = \<lparr>rk_id = i, rk_org = org, rk_type = kind, rk_name = nm, rk_secret = cp_encrypt cp secret,
               rk_key_version = cp_version cp, rk_index = index, rk_namespace = namespace, rk_status = ''pending'',
               rk_actor = actor, rk_tested = None, rk_error = None\<rparr>
      in (db\<lparr>db_rag := db_rag db @ [r]\<rparr>, r))"

definition create_mcp_row ::
  "cipher_port \<Rightarrow> uuid \<Rightarrow> org_id \<Rightarrow> string \<Rightarrow> string \<Rightarrow> string \<Rightarrow> string option \<Rightarrow> uuid option \<Rightarrow> ai_db \<Rightarrow>
   ai_db \<times> mcp_connector" where
  "create_mcp_row cp i org nm server transport secret actor db =
     (let given = secret \<noteq> None \<and> secret \<noteq> Some [];
          r = \<lparr>mk_id = i, mk_org = org, mk_name = nm, mk_server = server, mk_transport = transport,
               mk_secret = (if given then map_option (cp_encrypt cp) secret else None),
               mk_key_version = (if given then Some (cp_version cp) else None),
               mk_status = ''pending'', mk_actor = actor, mk_tested = None, mk_error = None\<rparr>
      in (db\<lparr>db_mcp := db_mcp db @ [r]\<rparr>, r))"

definition get_rag_connector :: "org_id \<Rightarrow> uuid \<Rightarrow> ai_db \<Rightarrow> lookup_error + rag_connector" where
  "get_rag_connector org i db =
     (case find (\<lambda>r. rk_id r = i) (db_rag db) of
        None \<Rightarrow> Inl (ConnectorNotFound i)
      | Some r \<Rightarrow> if rk_org r \<noteq> org then Inl (ConnectorNotFound i) else Inr r)"

definition get_mcp_connector :: "org_id \<Rightarrow> uuid \<Rightarrow> ai_db \<Rightarrow> lookup_error + mcp_connector" where
  "get_mcp_connector org i db =
     (case find (\<lambda>r. mk_id r = i) (db_mcp db) of
        None \<Rightarrow> Inl (ConnectorNotFound i)
      | Some r \<Rightarrow> if mk_org r \<noteq> org then Inl (ConnectorNotFound i) else Inr r)"

text \<open>A decryption failure is an exception of the cipher: \<open>None\<close> at the outer level.\<close>

definition resolve_ai_secret :: "cipher_port \<Rightarrow> string option \<Rightarrow> string option option" where
  "resolve_ai_secret cp ciphertext =
     (case ciphertext of None \<Rightarrow> Some None
      | Some c \<Rightarrow> if c = [] then Some None else map_option Some (cp_decrypt cp c))"

definition set_rag_status :: "datetime \<Rightarrow> uuid \<Rightarrow> string \<Rightarrow> string option \<Rightarrow> bool \<Rightarrow> ai_db \<Rightarrow> ai_db" where
  "set_rag_status now i status err tested db =
     db\<lparr>db_rag := map (\<lambda>r. if rk_id r = i then r\<lparr>rk_status := status, rk_error := err,
          rk_tested := if tested then Some now else rk_tested r\<rparr> else r) (db_rag db)\<rparr>"

definition set_mcp_status :: "datetime \<Rightarrow> uuid \<Rightarrow> string \<Rightarrow> string option \<Rightarrow> bool \<Rightarrow> ai_db \<Rightarrow> ai_db" where
  "set_mcp_status now i status err tested db =
     db\<lparr>db_mcp := map (\<lambda>r. if mk_id r = i then r\<lparr>mk_status := status, mk_error := err,
          mk_tested := if tested then Some now else mk_tested r\<rparr> else r) (db_mcp db)\<rparr>"

definition create_ai_row ::
  "uuid \<Rightarrow> org_id \<Rightarrow> surface_type \<Rightarrow> uuid \<Rightarrow> string \<Rightarrow> string \<Rightarrow> string \<Rightarrow> uuid option \<Rightarrow> datetime option \<Rightarrow> ai_db \<Rightarrow>
   ai_db \<times> ai_dep" where
  "create_ai_row i org surface connector target kind trace actor expires db =
     (let r = \<lparr>ad_id = i, ad_org = org, ad_surface = surface, ad_connector = connector, ad_collection = target,
               ad_kind = kind, ad_status = AiDraft, ad_trace = trace, ad_asset = None, ad_requested = actor,
               ad_approved = None, ad_preview = None, ad_vhash = None, ad_monitoring = None, ad_expires = expires,
               ad_deployed = None, ad_retired = None, ad_code = None, ad_message = None\<rparr>
      in (db\<lparr>db_deps := db_deps db @ [r]\<rparr>, r))"

definition find_ai :: "uuid \<Rightarrow> ai_db \<Rightarrow> ai_dep option" where
  "find_ai i db = find (\<lambda>r. ad_id r = i) (db_deps db)"

definition get_ai :: "org_id \<Rightarrow> uuid \<Rightarrow> ai_db \<Rightarrow> lookup_error + ai_dep" where
  "get_ai org i db =
     (case find_ai i db of
        None \<Rightarrow> Inl (DeploymentNotFound i)
      | Some r \<Rightarrow> if ad_org r \<noteq> org then Inl (DeploymentNotFound i) else Inr r)"

definition find_by_trace :: "org_id \<Rightarrow> string \<Rightarrow> ai_db \<Rightarrow> ai_dep option" where
  "find_by_trace org trace db = find (\<lambda>r. ad_org r = org \<and> ad_trace r = trace) (db_deps db)"

definition update_ai :: "uuid \<Rightarrow> (ai_dep \<Rightarrow> ai_dep) \<Rightarrow> ai_db \<Rightarrow> ai_db" where
  "update_ai i f db = db\<lparr>db_deps := map (\<lambda>r. if ad_id r = i then f r else r) (db_deps db)\<rparr>"

definition set_ai_preview :: "uuid \<Rightarrow> ai_preview \<Rightarrow> ai_db \<Rightarrow> ai_db" where
  "set_ai_preview i p db = update_ai i (\<lambda>r. r\<lparr>ad_preview := Some p\<rparr>) db"

definition load_preview :: "ai_dep \<Rightarrow> ai_preview option" where
  "load_preview r = ad_preview r"

definition ai_transition :: "ai_dep \<Rightarrow> ai_status \<Rightarrow> (ai_dep \<Rightarrow> ai_dep) \<Rightarrow> ai_db \<Rightarrow> ai_transition_error + ai_db" where
  "ai_transition r target assign db =
     and_then (ai_assert (ad_status r) target) (\<lambda>_.
       Inr (update_ai (ad_id r) (\<lambda>x. assign (x\<lparr>ad_status := target\<rparr>)) db))"

definition events_for :: "uuid \<Rightarrow> ai_db \<Rightarrow> ai_event list" where
  "events_for i db = sort_key aie_observed (filter (\<lambda>e. aie_dep e = i) (db_events db))"

definition add_ai_audit ::
  "org_id \<Rightarrow> uuid option \<Rightarrow> uuid option \<Rightarrow> uuid option \<Rightarrow> string \<Rightarrow> string \<Rightarrow> ai_db \<Rightarrow> ai_db" where
  "add_ai_audit org dep connector actor ev meta db =
     db\<lparr>db_audit := db_audit db @ [\<lparr>aia_org = org, aia_dep = dep, aia_connector = connector, aia_actor = actor,
          aia_event = ev, aia_metadata = take 1024 meta\<rparr>]\<rparr>"

text \<open>One job per deployment and type: the unique constraint makes a second insert fail.\<close>

definition enqueue_ai :: "uuid \<Rightarrow> org_id \<Rightarrow> uuid \<Rightarrow> ai_job_type \<Rightarrow> ai_db \<Rightarrow> ai_db \<times> bool" where
  "enqueue_ai job_id org dep kind db =
     (if list_ex (\<lambda>j. aj_dep j = dep \<and> aj_type j = kind) (db_jobs db) then (db, False)
      else (db\<lparr>db_jobs := db_jobs db @ [\<lparr>aj_id = job_id, aj_org = org, aj_dep = dep, aj_type = kind,
              aj_status = AjPending, aj_attempts = 0, aj_processed = None\<rparr>]\<rparr>, True))"

definition clear_ai_job :: "uuid \<Rightarrow> ai_job_type \<Rightarrow> ai_db \<Rightarrow> ai_db" where
  "clear_ai_job dep kind db = db\<lparr>db_jobs := filter (\<lambda>j. \<not> (aj_dep j = dep \<and> aj_type j = kind)) (db_jobs db)\<rparr>"

definition ai_candidates :: "nat \<Rightarrow> ai_db \<Rightarrow> uuid list" where
  "ai_candidates limit db = take limit (map aj_id (filter (\<lambda>j. aj_status j = AjPending) (db_jobs db)))"

definition claim_ai :: "uuid \<Rightarrow> ai_db \<Rightarrow> ai_db \<times> ai_job list" where
  "claim_ai i db =
     (case find (\<lambda>j. aj_id j = i \<and> aj_status j = AjPending) (db_jobs db) of
        None \<Rightarrow> (db, [])
      | Some j \<Rightarrow>
          (let c = j\<lparr>aj_status := AjClaimed, aj_attempts := aj_attempts j + 1\<rparr> in
           (db\<lparr>db_jobs := map (\<lambda>x. if aj_id x = i then c else x) (db_jobs db)\<rparr>, [c])))"

fun claim_ai_each :: "uuid list \<Rightarrow> ai_db \<Rightarrow> ai_db \<times> ai_job list" where
  "claim_ai_each [] db = (db, [])"
| "claim_ai_each (i # is) db =
     (let (db1, c) = claim_ai i db; (db2, cs) = claim_ai_each is db1 in (db2, c @ cs))"

definition claim_ai_jobs :: "nat \<Rightarrow> ai_db \<Rightarrow> ai_db \<times> ai_job list" where
  "claim_ai_jobs limit db = claim_ai_each (ai_candidates limit db) db"

definition complete_ai_job :: "datetime \<Rightarrow> uuid \<Rightarrow> bool \<Rightarrow> ai_db \<Rightarrow> ai_db" where
  "complete_ai_job now i ok db =
     db\<lparr>db_jobs := map (\<lambda>j. if aj_id j = i then j\<lparr>aj_status := (if ok then AjDone else AjFailed), aj_processed := Some now\<rparr>
          else j) (db_jobs db)\<rparr>"

subsection \<open>Connector ports\<close>

record conn_spec =
  cs_reference :: string
  cs_secret :: "string option"
  cs_tls :: bool

record conn_test =
  ct_reachable :: bool
  ct_tls :: bool
  ct_authenticated :: bool
  ct_error :: "string option"

record deploy_result =
  dpr_asset :: string
  dpr_deployed :: bool
  dpr_hash :: string

record verify_result =
  vr_exists :: bool
  vr_hash :: bool
  vr_trace :: bool

record delete_result =
  dlr_deleted :: bool
  dlr_drift :: bool

datatype connector_error = ConnectorError string

definition asset_vhash :: "(string \<Rightarrow> string) \<Rightarrow> string \<Rightarrow> string \<Rightarrow> string \<Rightarrow> string" where
  "asset_vhash sha collection asset_id content_hash = sha (collection @ '':'' @ asset_id @ '':'' @ content_hash)"

record 'r rag_port =
  rgp_test :: "conn_spec \<Rightarrow> 'r \<Rightarrow> conn_test"
  rgp_deploy :: "conn_spec \<Rightarrow> string \<Rightarrow> rag_document \<Rightarrow> string \<Rightarrow> 'r \<Rightarrow> 'r \<times> (connector_error + deploy_result)"
  rgp_verify :: "conn_spec \<Rightarrow> string \<Rightarrow> string \<Rightarrow> string \<Rightarrow> string \<Rightarrow> 'r \<Rightarrow> connector_error + verify_result"
  rgp_delete :: "conn_spec \<Rightarrow> string \<Rightarrow> string \<Rightarrow> string \<Rightarrow> 'r \<Rightarrow> 'r \<times> (connector_error + delete_result)"

record 'm mcp_port =
  mcp_test :: "conn_spec \<Rightarrow> 'm \<Rightarrow> conn_test"
  mcp_deploy :: "conn_spec \<Rightarrow> mcp_resource \<Rightarrow> string \<Rightarrow> 'm \<Rightarrow> 'm \<times> (connector_error + deploy_result)"
  mcp_verify :: "conn_spec \<Rightarrow> string \<Rightarrow> string \<Rightarrow> string \<Rightarrow> 'm \<Rightarrow> connector_error + verify_result"
  mcp_retire :: "conn_spec \<Rightarrow> string \<Rightarrow> string \<Rightarrow> 'm \<Rightarrow> 'm \<times> (connector_error + delete_result)"

record stored_asset =
  fa_hash :: string
  fa_trace :: string
  fa_metadata :: "(string \<times> string) list"

text \<open>The checks both adapters make on an asset they found.\<close>

definition verify_asset :: "stored_asset option \<Rightarrow> string \<Rightarrow> string \<Rightarrow> verify_result" where
  "verify_asset found expected trace =
     (case found of
        None \<Rightarrow> \<lparr>vr_exists = False, vr_hash = False, vr_trace = False\<rparr>
      | Some a \<Rightarrow> \<lparr>vr_exists = True, vr_hash = (fa_hash a = expected), vr_trace = (fa_trace a = trace)\<rparr>)"

definition remove_asset :: "'k \<Rightarrow> string \<Rightarrow> ('k \<times> stored_asset) list \<Rightarrow> ('k \<times> stored_asset) list \<times> delete_result" where
  "remove_asset k expected store =
     (case map_of store k of
        None \<Rightarrow> (store, \<lparr>dlr_deleted = False, dlr_drift = False\<rparr>)
      | Some a \<Rightarrow>
          if fa_hash a \<noteq> expected then (store, \<lparr>dlr_deleted = False, dlr_drift = True\<rparr>)
          else (AList.delete k store, \<lparr>dlr_deleted = True, dlr_drift = False\<rparr>))"

record fake_rag =
  fr_collections :: "(string \<times> (string \<times> stored_asset) list) list"
  fr_fail :: bool

definition collection_of :: "string \<Rightarrow> fake_rag \<Rightarrow> (string \<times> stored_asset) list" where
  "collection_of c s = (case map_of (fr_collections s) c of None \<Rightarrow> [] | Some st \<Rightarrow> st)"

definition rag_asset_id :: "string \<Rightarrow> string \<Rightarrow> string" where
  "rag_asset_id collection document_id = ''rag:'' @ collection @ '':'' @ document_id"

definition fake_rag_deploy ::
  "(string \<Rightarrow> string) \<Rightarrow> conn_spec \<Rightarrow> string \<Rightarrow> rag_document \<Rightarrow> string \<Rightarrow> fake_rag \<Rightarrow>
   fake_rag \<times> (connector_error + deploy_result)" where
  "fake_rag_deploy sha spec collection doc trace s =
     (if fr_fail s then (s, Inl (ConnectorError ''deploy not permitted''))
      else
        let i = rag_asset_id collection (rd_id doc);
            store = AList.update i \<lparr>fa_hash = rd_hash doc, fa_trace = trace, fa_metadata = rd_metadata doc\<rparr> (collection_of collection s)
        in (s\<lparr>fr_collections := AList.update collection store (fr_collections s)\<rparr>,
            Inr \<lparr>dpr_asset = i, dpr_deployed = True, dpr_hash = asset_vhash sha collection i (rd_hash doc)\<rparr>))"

definition fake_rag_verify :: "conn_spec \<Rightarrow> string \<Rightarrow> string \<Rightarrow> string \<Rightarrow> string \<Rightarrow> fake_rag \<Rightarrow> connector_error + verify_result" where
  "fake_rag_verify spec collection asset_id expected trace s =
     Inr (verify_asset (map_of (collection_of collection s) asset_id) expected trace)"

definition fake_rag_delete ::
  "conn_spec \<Rightarrow> string \<Rightarrow> string \<Rightarrow> string \<Rightarrow> fake_rag \<Rightarrow> fake_rag \<times> (connector_error + delete_result)" where
  "fake_rag_delete spec collection asset_id expected s =
     (let (store, res) = remove_asset asset_id expected (collection_of collection s) in
      (if dlr_deleted res then s\<lparr>fr_collections := AList.update collection store (fr_collections s)\<rparr> else s, Inr res))"

definition fake_rag_test :: "conn_spec \<Rightarrow> fake_rag \<Rightarrow> conn_test" where
  "fake_rag_test spec s =
     \<lparr>ct_reachable = True, ct_tls = cs_tls spec, ct_authenticated = (cs_secret spec \<noteq> None), ct_error = None\<rparr>"

definition fake_rag_port :: "(string \<Rightarrow> string) \<Rightarrow> fake_rag rag_port" where
  "fake_rag_port sha = \<lparr>rgp_test = fake_rag_test, rgp_deploy = fake_rag_deploy sha, rgp_verify = fake_rag_verify,
     rgp_delete = fake_rag_delete\<rparr>"

record fake_mcp =
  fm_resources :: "(string \<times> stored_asset) list"
  fm_fail :: bool

definition fake_mcp_deploy ::
  "(string \<Rightarrow> string) \<Rightarrow> conn_spec \<Rightarrow> mcp_resource \<Rightarrow> string \<Rightarrow> fake_mcp \<Rightarrow> fake_mcp \<times> (connector_error + deploy_result)" where
  "fake_mcp_deploy sha spec res trace s =
     (if fm_fail s then (s, Inl (ConnectorError ''deploy not permitted''))
      else (s\<lparr>fm_resources := AList.update (mr_uri res)
                \<lparr>fa_hash = mr_hash res, fa_trace = trace, fa_metadata = mr_metadata res\<rparr> (fm_resources s)\<rparr>,
            Inr \<lparr>dpr_asset = mr_uri res, dpr_deployed = True, dpr_hash = asset_vhash sha ''mcp'' (mr_uri res) (mr_hash res)\<rparr>))"

definition fake_mcp_verify :: "conn_spec \<Rightarrow> string \<Rightarrow> string \<Rightarrow> string \<Rightarrow> fake_mcp \<Rightarrow> connector_error + verify_result" where
  "fake_mcp_verify spec asset_id expected trace s = Inr (verify_asset (map_of (fm_resources s) asset_id) expected trace)"

definition fake_mcp_retire ::
  "conn_spec \<Rightarrow> string \<Rightarrow> string \<Rightarrow> fake_mcp \<Rightarrow> fake_mcp \<times> (connector_error + delete_result)" where
  "fake_mcp_retire spec asset_id expected s =
     (let (store, res) = remove_asset asset_id expected (fm_resources s) in (s\<lparr>fm_resources := store\<rparr>, Inr res))"

definition fake_mcp_test :: "conn_spec \<Rightarrow> fake_mcp \<Rightarrow> conn_test" where
  "fake_mcp_test spec s = \<lparr>ct_reachable = True, ct_tls = cs_tls spec, ct_authenticated = True, ct_error = None\<rparr>"

definition fake_mcp_port :: "(string \<Rightarrow> string) \<Rightarrow> fake_mcp mcp_port" where
  "fake_mcp_port sha = \<lparr>mcp_test = fake_mcp_test, mcp_deploy = fake_mcp_deploy sha, mcp_verify = fake_mcp_verify,
     mcp_retire = fake_mcp_retire\<rparr>"

subsection \<open>What the service relies on of an adapter\<close>

text \<open>
  An adapter is seen through \<open>look\<close>, the asset under a key. Writing replaces the asset of that key, a
  removal with the expected hash takes away that key only, and any other removal changes nothing and
  reports drift exactly when there is an asset with another hash.
\<close>

locale owned_assets =
  fixes look :: "'s \<Rightarrow> 'k \<Rightarrow> stored_asset option"
    and put :: "'k \<Rightarrow> stored_asset \<Rightarrow> 's \<Rightarrow> 's"
    and check :: "'k \<Rightarrow> string \<Rightarrow> string \<Rightarrow> 's \<Rightarrow> verify_result"
    and remove :: "'k \<Rightarrow> string \<Rightarrow> 's \<Rightarrow> 's \<times> delete_result"
  assumes look_put: "look (put k a s) k' = (if k' = k then Some a else look s k')"
    and check_eq: "check k h t s = verify_asset (look s k) h t"
    and remove_owned: "look s k = Some a \<Longrightarrow> fa_hash a = h \<Longrightarrow>
        look (fst (remove k h s)) k' = (if k' = k then None else look s k') \<and>
        snd (remove k h s) = \<lparr>dlr_deleted = True, dlr_drift = False\<rparr>"
    and remove_foreign: "(\<And>a. look s k = Some a \<Longrightarrow> fa_hash a \<noteq> h) \<Longrightarrow>
        look (fst (remove k h s)) = look s \<and>
        snd (remove k h s) = \<lparr>dlr_deleted = False, dlr_drift = (look s k \<noteq> None)\<rparr>"
begin

lemma check_after_put: "check k (fa_hash a) (fa_trace a) (put k a s) = \<lparr>vr_exists = True, vr_hash = True, vr_trace = True\<rparr>"
  by (simp add: check_eq look_put verify_asset_def)

lemma check_passes_iff:
  "vr_exists (check k h t s) \<and> vr_hash (check k h t s) \<and> vr_trace (check k h t s) \<longleftrightarrow>
     (\<exists>a. look s k = Some a \<and> fa_hash a = h \<and> fa_trace a = t)"
  by (simp add: check_eq verify_asset_def split: option.splits)

lemma remove_only_that_key: "k' \<noteq> k \<Longrightarrow> look (fst (remove k h s)) k' = look s k'"
proof (cases "\<exists>a. look s k = Some a \<and> fa_hash a = h")
  case True
  moreover assume "k' \<noteq> k"
  ultimately show ?thesis using remove_owned by fastforce
next
  case False
  then show ?thesis using remove_foreign [of s k h] by auto
qed

lemma remove_drift_iff: "dlr_drift (snd (remove k h s)) \<longleftrightarrow> (\<exists>a. look s k = Some a \<and> fa_hash a \<noteq> h)"
proof (cases "\<exists>a. look s k = Some a \<and> fa_hash a = h")
  case True
  then obtain a where "look s k = Some a" "fa_hash a = h" by blast
  then show ?thesis using remove_owned [of s k a h k] by simp
next
  case False
  then show ?thesis using remove_foreign [of s k h] by auto
qed

lemma put_remove_restores:
  "look s k = None \<Longrightarrow> look (fst (remove k (fa_hash a) (put k a s))) = look s"
proof
  fix k'
  assume "look s k = None"
  moreover have "look (put k a s) k = Some a" by (simp add: look_put)
  then have "look (fst (remove k (fa_hash a) (put k a s))) k' = (if k' = k then None else look (put k a s) k')"
    using remove_owned by blast
  ultimately show "look (fst (remove k (fa_hash a) (put k a s))) k' = look s k'" by (simp add: look_put)
qed

end

definition rag_look :: "fake_rag \<Rightarrow> string \<times> string \<Rightarrow> stored_asset option" where
  "rag_look s k = map_of (collection_of (fst k) s) (snd k)"

definition rag_put :: "string \<times> string \<Rightarrow> stored_asset \<Rightarrow> fake_rag \<Rightarrow> fake_rag" where
  "rag_put k a s = s\<lparr>fr_collections := AList.update (fst k) (AList.update (snd k) a (collection_of (fst k) s)) (fr_collections s)\<rparr>"

definition rag_remove :: "string \<times> string \<Rightarrow> string \<Rightarrow> fake_rag \<Rightarrow> fake_rag \<times> delete_result" where
  "rag_remove k h s =
     (case fake_rag_delete \<lparr>cs_reference = [], cs_secret = None, cs_tls = True\<rparr> (fst k) (snd k) h s of
        (s', Inr r) \<Rightarrow> (s', r)
      | (s', Inl _) \<Rightarrow> (s', \<lparr>dlr_deleted = False, dlr_drift = False\<rparr>))"

definition mcp_put :: "string \<Rightarrow> stored_asset \<Rightarrow> fake_mcp \<Rightarrow> fake_mcp" where
  "mcp_put k a s = s\<lparr>fm_resources := AList.update k a (fm_resources s)\<rparr>"

definition mcp_remove :: "string \<Rightarrow> string \<Rightarrow> fake_mcp \<Rightarrow> fake_mcp \<times> delete_result" where
  "mcp_remove k h s = (let (store, r) = remove_asset k h (fm_resources s) in (s\<lparr>fm_resources := store\<rparr>, r))"

lemma collection_of_update: "collection_of c (s\<lparr>fr_collections := AList.update d st (fr_collections s)\<rparr>) =
    (if c = d then st else collection_of c s)"
  by (simp add: collection_of_def)

interpretation rag_assets: owned_assets rag_look rag_put "\<lambda>k h t s. verify_asset (rag_look s k) h t" rag_remove
proof
  show "rag_look (rag_put k a s) k' = (if k' = k then Some a else rag_look s k')" for k a s k'
    by (cases k; cases k') (auto simp: rag_look_def rag_put_def collection_of_update)
  show "rag_look (fst (rag_remove k h s)) k' = (if k' = k then None else rag_look s k') \<and>
      snd (rag_remove k h s) = \<lparr>dlr_deleted = True, dlr_drift = False\<rparr>"
    if "rag_look s k = Some a" "fa_hash a = h" for s k a h k'
    using that by (cases k; cases k')
      (auto simp: rag_look_def rag_remove_def fake_rag_delete_def remove_asset_def Let_def collection_of_update delete_conv')
  show "rag_look (fst (rag_remove k h s)) = rag_look s \<and>
      snd (rag_remove k h s) = \<lparr>dlr_deleted = False, dlr_drift = (rag_look s k \<noteq> None)\<rparr>"
    if "\<And>a. rag_look s k = Some a \<Longrightarrow> fa_hash a \<noteq> h" for s k h
    using that by (cases k)
      (auto simp: rag_look_def rag_remove_def fake_rag_delete_def remove_asset_def Let_def split: option.splits)
qed simp

interpretation mcp_assets: owned_assets "\<lambda>s. map_of (fm_resources s)" mcp_put
    "\<lambda>k h t s. verify_asset (map_of (fm_resources s) k) h t" mcp_remove
proof
  show "map_of (fm_resources (mcp_put k a s)) k' = (if k' = k then Some a else map_of (fm_resources s) k')" for k a s k'
    by (simp add: mcp_put_def)
  show "map_of (fm_resources (fst (mcp_remove k h s))) k' = (if k' = k then None else map_of (fm_resources s) k') \<and>
      snd (mcp_remove k h s) = \<lparr>dlr_deleted = True, dlr_drift = False\<rparr>"
    if "map_of (fm_resources s) k = Some a" "fa_hash a = h" for s k a h k'
    using that by (simp add: mcp_remove_def remove_asset_def delete_conv')
  show "map_of (fm_resources (fst (mcp_remove k h s))) = map_of (fm_resources s) \<and>
      snd (mcp_remove k h s) = \<lparr>dlr_deleted = False, dlr_drift = (map_of (fm_resources s) k \<noteq> None)\<rparr>"
    if "\<And>a. map_of (fm_resources s) k = Some a \<Longrightarrow> fa_hash a \<noteq> h" for s k h
    using that by (auto simp: mcp_remove_def remove_asset_def split: option.splits)
qed simp

end
