(* ===== verification/AI_Deploy.thy ===== *)
theory AI_Deploy
  imports AI_Store
begin

text \<open>
  The AI tripwire lifecycle: the orchestration service (\<open>services/ai_tripwire/service.py\<close>), its worker
  (\<open>worker.py\<close>) and the endpoints of \<open>api/ai_tripwire.py\<close> that draft, submit, decide, deploy and retire.
  An endpoint runs inside a request: an HTTP error rolls its changes back. The worker catches every
  exception of a job and keeps what the job has written. Metrics are left out.
\<close>

subsection \<open>Service\<close>

record ai_env =
  ax_enabled :: bool
  ax_rag_enabled :: bool
  ax_mcp_enabled :: bool
  ax_max_bytes :: nat
  ax_collections :: "string list"
  ax_mcp_servers :: "string list"
  ax_separate :: bool
  ax_expiry_days :: int
  ax_development :: bool
  ax_cipher :: cipher_port
  ax_sha :: "string \<Rightarrow> string"
  ax_str :: "uuid \<Rightarrow> string"

text \<open>What a job can raise.\<close>

datatype ai_crash = LookupRaised lookup_error | ContentRaised ai_error | MoveRaised ai_transition_error | CipherRaised

type_synonym ('r, 'm) ai_world = "'r \<times> 'm \<times> ai_db"

definition service_audit :: "org_id \<Rightarrow> uuid \<Rightarrow> string \<Rightarrow> string \<Rightarrow> ai_db \<Rightarrow> ai_db" where
  "service_audit org dep ev meta db = add_ai_audit org (Some dep) None None ev meta db"

definition service_move :: "ai_dep \<Rightarrow> ai_status \<Rightarrow> (ai_dep \<Rightarrow> ai_dep) \<Rightarrow> ai_db \<Rightarrow> ai_crash + ai_db" where
  "service_move r target assign db = map_sum MoveRaised id (ai_transition r target assign db)"

definition fail_ai :: "ai_dep \<Rightarrow> string \<Rightarrow> string \<Rightarrow> ai_db \<Rightarrow> ai_crash + ai_db" where
  "fail_ai r code message db =
     and_then (service_move r AiFailed (\<lambda>x. x\<lparr>ad_code := Some code, ad_message := Some (take 512 message)\<rparr>) db)
       (\<lambda>db1. Inr (service_audit (ad_org r) (ad_id r) ''deployment_failed'' code db1))"

definition content_hash_of :: "ai_env \<Rightarrow> ai_dep \<Rightarrow> ai_error + string" where
  "content_hash_of ax r =
     (if ad_surface r = RagDocument
      then and_then (generate_rag_document (ax_sha ax) (ax_max_bytes ax) (ad_kind r) (ad_trace r)) (\<lambda>d. Inr (rd_hash d))
      else and_then (generate_mcp_resource (ax_sha ax) (ax_max_bytes ax) (ad_kind r) (ad_trace r)) (\<lambda>d. Inr (mr_hash d)))"

definition finish_ai :: "datetime \<Rightarrow> org_id \<Rightarrow> ai_dep \<Rightarrow> deploy_result \<Rightarrow> verify_result \<Rightarrow> ai_db \<Rightarrow> ai_crash + ai_db" where
  "finish_ai now org r res v db =
     (if \<not> (vr_exists v \<and> vr_hash v \<and> vr_trace v) then
        and_then (service_move r AiVerificationFailed
            (\<lambda>x. x\<lparr>ad_asset := Some (dpr_asset res), ad_code := Some ''verify_failed'',
                   ad_message := Some ''external asset failed verification''\<rparr>) db)
          (\<lambda>db1. Inr (service_audit org (ad_id r) ''verification_failed'' [] db1))
      else
        let db1 = service_audit org (ad_id r) ''verification_passed'' []
                    (service_audit org (ad_id r) ''deployment_succeeded'' [] db)
        in and_then (service_move r AiDeployed
              (\<lambda>x. x\<lparr>ad_asset := Some (dpr_asset res), ad_vhash := Some (dpr_hash res), ad_deployed := Some now,
                     ad_monitoring := Some now\<rparr>) db1)
            (\<lambda>db2. Inr (service_audit org (ad_id r) ''monitoring_activated'' (''trace='' @ ad_trace r) db2)))"

text \<open>A body that raises keeps the database it has reached.\<close>

definition settle :: "ai_db \<Rightarrow> ai_crash + ai_db \<Rightarrow> ai_db \<times> (ai_crash + unit)" where
  "settle db r = (case r of Inl e \<Rightarrow> (db, Inl e) | Inr db' \<Rightarrow> (db', Inr ()))"

definition execute_rag ::
  "ai_env \<Rightarrow> 'r rag_port \<Rightarrow> datetime \<Rightarrow> org_id \<Rightarrow> ai_dep \<Rightarrow> 'r \<times> ai_db \<Rightarrow> ('r \<times> ai_db) \<times> (ai_crash + unit)" where
  "execute_rag ax port now org r w =
     (let (s, db) = w in
      case get_rag_connector org (ad_connector r) db of
        Inl e \<Rightarrow> ((s, db), Inl (LookupRaised e))
      | Inr c \<Rightarrow>
          (case resolve_ai_secret (ax_cipher ax) (Some (rk_secret c)) of
             None \<Rightarrow> ((s, db), Inl CipherRaised)
           | Some secret \<Rightarrow>
               (let spec = \<lparr>cs_reference = rk_index c, cs_secret = secret, cs_tls = True\<rparr> in
                case generate_rag_document (ax_sha ax) (ax_max_bytes ax) (ad_kind r) (ad_trace r) of
                  Inl e \<Rightarrow> ((s, db), Inl (ContentRaised e))
                | Inr doc \<Rightarrow>
                    (let db1 = service_audit org (ad_id r) ''deployment_started'' [] db in
                     case rgp_deploy port spec (ad_collection r) doc (ad_trace r) s of
                       (s1, Inl (ConnectorError m)) \<Rightarrow>
                         (let (db2, res) = settle db1 (fail_ai r ''deploy_failed'' m db1) in ((s1, db2), res))
                     | (s1, Inr res) \<Rightarrow>
                         (case rgp_verify port spec (ad_collection r) (dpr_asset res) (rd_hash doc) (ad_trace r) s1 of
                            Inl (ConnectorError m) \<Rightarrow>
                              (let (db2, res) = settle db1 (fail_ai r ''deploy_failed'' m db1) in ((s1, db2), res))
                          | Inr v \<Rightarrow>
                              (let (db2, out) = settle db1 (finish_ai now org r res v db1) in ((s1, db2), out)))))))"

definition execute_mcp ::
  "ai_env \<Rightarrow> 'm mcp_port \<Rightarrow> datetime \<Rightarrow> org_id \<Rightarrow> ai_dep \<Rightarrow> 'm \<times> ai_db \<Rightarrow> ('m \<times> ai_db) \<times> (ai_crash + unit)" where
  "execute_mcp ax port now org r w =
     (let (s, db) = w in
      case get_mcp_connector org (ad_connector r) db of
        Inl e \<Rightarrow> ((s, db), Inl (LookupRaised e))
      | Inr c \<Rightarrow>
          (case resolve_ai_secret (ax_cipher ax) (mk_secret c) of
             None \<Rightarrow> ((s, db), Inl CipherRaised)
           | Some secret \<Rightarrow>
               (let spec = \<lparr>cs_reference = mk_server c, cs_secret = secret, cs_tls = True\<rparr> in
                case generate_mcp_resource (ax_sha ax) (ax_max_bytes ax) (ad_kind r) (ad_trace r) of
                  Inl e \<Rightarrow> ((s, db), Inl (ContentRaised e))
                | Inr doc \<Rightarrow>
                    (let db1 = service_audit org (ad_id r) ''deployment_started'' [] db in
                     case mcp_deploy port spec doc (ad_trace r) s of
                       (s1, Inl (ConnectorError m)) \<Rightarrow>
                         (let (db2, res) = settle db1 (fail_ai r ''deploy_failed'' m db1) in ((s1, db2), res))
                     | (s1, Inr res) \<Rightarrow>
                         (case mcp_verify port spec (dpr_asset res) (mr_hash doc) (ad_trace r) s1 of
                            Inl (ConnectorError m) \<Rightarrow>
                              (let (db2, res) = settle db1 (fail_ai r ''deploy_failed'' m db1) in ((s1, db2), res))
                          | Inr v \<Rightarrow>
                              (let (db2, out) = settle db1 (finish_ai now org r res v db1) in ((s1, db2), out)))))))"

definition execute_ai ::
  "ai_env \<Rightarrow> 'r rag_port \<Rightarrow> 'm mcp_port \<Rightarrow> datetime \<Rightarrow> org_id \<Rightarrow> uuid \<Rightarrow> ('r, 'm) ai_world \<Rightarrow>
   ('r, 'm) ai_world \<times> (ai_crash + unit)" where
  "execute_ai ax rp mp now org i w =
     (let (rs, ms, db) = w in
      case get_ai org i db of
        Inl e \<Rightarrow> (w, Inl (LookupRaised e))
      | Inr r \<Rightarrow>
          if ad_status r \<noteq> AiDeploying then (w, Inr ())
          else if load_preview r = None then
            (let (db1, res) = settle db (fail_ai r ''no_preview'' ''deployment has no preview'' db) in ((rs, ms, db1), res))
          else if ad_surface r = RagDocument then
            (let ((rs1, db1), res) = execute_rag ax rp now org r (rs, db) in ((rs1, ms, db1), res))
          else
            (let ((ms1, db1), res) = execute_mcp ax mp now org r (ms, db) in ((rs, ms1, db1), res)))"

definition after_delete :: "datetime \<Rightarrow> org_id \<Rightarrow> ai_dep \<Rightarrow> connector_error + delete_result \<Rightarrow> ai_db \<Rightarrow> ai_crash + ai_db" where
  "after_delete now org r outcome db =
     (case outcome of
        Inl (ConnectorError m) \<Rightarrow> fail_ai r ''delete_failed'' m db
      | Inr d \<Rightarrow>
          if dlr_drift d then
            and_then (service_move r AiDriftDetected
                (\<lambda>x. x\<lparr>ad_code := Some ''asset_drift'', ad_message := Some ''external asset changed; manual review required''\<rparr>) db)
              (\<lambda>db1. Inr (service_audit org (ad_id r) ''drift_detected'' [] db1))
          else
            and_then (service_move r AiRetired (\<lambda>x. x\<lparr>ad_retired := Some now\<rparr>) db)
              (\<lambda>db1. Inr (service_audit org (ad_id r) ''retirement_completed'' [] db1)))"

definition delete_rag ::
  "ai_env \<Rightarrow> 'r rag_port \<Rightarrow> datetime \<Rightarrow> org_id \<Rightarrow> ai_dep \<Rightarrow> string \<Rightarrow> string \<Rightarrow> 'r \<times> ai_db \<Rightarrow> ('r \<times> ai_db) \<times> (ai_crash + unit)" where
  "delete_rag ax port now org r asset_id expected w =
     (let (s, db) = w in
      case get_rag_connector org (ad_connector r) db of
        Inl e \<Rightarrow> (w, Inl (LookupRaised e))
      | Inr c \<Rightarrow>
          (case resolve_ai_secret (ax_cipher ax) (Some (rk_secret c)) of
             None \<Rightarrow> (w, Inl CipherRaised)
           | Some secret \<Rightarrow>
               (let (s1, outcome) = rgp_delete port \<lparr>cs_reference = rk_index c, cs_secret = secret, cs_tls = True\<rparr>
                      (ad_collection r) asset_id expected s;
                    (db1, res) = settle db (after_delete now org r outcome db)
                in ((s1, db1), res))))"

definition delete_mcp ::
  "ai_env \<Rightarrow> 'm mcp_port \<Rightarrow> datetime \<Rightarrow> org_id \<Rightarrow> ai_dep \<Rightarrow> string \<Rightarrow> string \<Rightarrow> 'm \<times> ai_db \<Rightarrow> ('m \<times> ai_db) \<times> (ai_crash + unit)" where
  "delete_mcp ax port now org r asset_id expected w =
     (let (s, db) = w in
      case get_mcp_connector org (ad_connector r) db of
        Inl e \<Rightarrow> (w, Inl (LookupRaised e))
      | Inr c \<Rightarrow>
          (case resolve_ai_secret (ax_cipher ax) (mk_secret c) of
             None \<Rightarrow> (w, Inl CipherRaised)
           | Some secret \<Rightarrow>
               (let (s1, outcome) = mcp_retire port \<lparr>cs_reference = mk_server c, cs_secret = secret, cs_tls = True\<rparr>
                      asset_id expected s;
                    (db1, res) = settle db (after_delete now org r outcome db)
                in ((s1, db1), res))))"

definition retire_ai ::
  "ai_env \<Rightarrow> 'r rag_port \<Rightarrow> 'm mcp_port \<Rightarrow> datetime \<Rightarrow> org_id \<Rightarrow> uuid \<Rightarrow> ('r, 'm) ai_world \<Rightarrow>
   ('r, 'm) ai_world \<times> (ai_crash + unit)" where
  "retire_ai ax rp mp now org i w =
     (let (rs, ms, db) = w in
      case get_ai org i db of
        Inl e \<Rightarrow> (w, Inl (LookupRaised e))
      | Inr r \<Rightarrow>
          if ad_status r \<noteq> AiRetiring then (w, Inr ())
          else (case ad_asset r of
            None \<Rightarrow>
              (let (db1, res) = settle db (after_delete now org r (Inr \<lparr>dlr_deleted = False, dlr_drift = False\<rparr>) db)
               in ((rs, ms, db1), res))
          | Some asset_id \<Rightarrow>
              (let db1 = service_audit org i ''retirement_started'' [] db in
               case content_hash_of ax r of
                 Inl e \<Rightarrow> ((rs, ms, db1), Inl (ContentRaised e))
               | Inr expected \<Rightarrow>
                   if ad_surface r = RagDocument then
                     (let ((rs1, db2), res) = delete_rag ax rp now org r asset_id expected (rs, db1) in ((rs1, ms, db2), res))
                   else
                     (let ((ms1, db2), res) = delete_mcp ax mp now org r asset_id expected (ms, db1) in ((rs, ms1, db2), res)))))"

subsection \<open>Worker\<close>

definition run_ai_job ::
  "ai_env \<Rightarrow> 'r rag_port \<Rightarrow> 'm mcp_port \<Rightarrow> datetime \<Rightarrow> ai_job \<Rightarrow> ('r, 'm) ai_world \<Rightarrow> ('r, 'm) ai_world" where
  "run_ai_job ax rp mp now j w =
     (let ((rs, ms, db), res) = (case aj_type j of
            JobExecute \<Rightarrow> execute_ai ax rp mp now (aj_org j) (aj_dep j) w
          | JobRetire \<Rightarrow> retire_ai ax rp mp now (aj_org j) (aj_dep j) w)
      in (rs, ms, complete_ai_job now (aj_id j) (is_ok res) db))"

fun run_ai_jobs ::
  "ai_env \<Rightarrow> 'r rag_port \<Rightarrow> 'm mcp_port \<Rightarrow> datetime \<Rightarrow> ai_job list \<Rightarrow> ('r, 'm) ai_world \<Rightarrow> ('r, 'm) ai_world" where
  "run_ai_jobs ax rp mp now [] w = w"
| "run_ai_jobs ax rp mp now (j # js) w = run_ai_jobs ax rp mp now js (run_ai_job ax rp mp now j w)"

definition ai_worker_once ::
  "ai_env \<Rightarrow> 'r rag_port \<Rightarrow> 'm mcp_port \<Rightarrow> datetime \<Rightarrow> nat \<Rightarrow> ('r, 'm) ai_world \<Rightarrow> ('r, 'm) ai_world \<times> nat" where
  "ai_worker_once ax rp mp now batch w =
     (let (rs, ms, db) = w; (db1, jobs) = claim_ai_jobs batch db
      in (run_ai_jobs ax rp mp now jobs (rs, ms, db1), length jobs))"

subsection \<open>Endpoints\<close>

definition ai_off :: http_error where "ai_off = HttpError 404 ''AI tripwire deployment is not enabled''"

definition load_ai :: "auth_context \<Rightarrow> uuid \<Rightarrow> ai_db \<Rightarrow> http_error + ai_dep" where
  "load_ai auth i db = map_sum (\<lambda>_. HttpError 404 ''deployment not found'') id (get_ai (ctx_org auth) i db)"

definition move_ai :: "ai_dep \<Rightarrow> ai_status \<Rightarrow> (ai_dep \<Rightarrow> ai_dep) \<Rightarrow> ai_db \<Rightarrow> http_error + ai_db" where
  "move_ai r target assign db =
     map_sum (\<lambda>e. case e of InvalidAiTransition a b \<Rightarrow> HttpError 409 (ai_message a b)) id (ai_transition r target assign db)"

definition actor_audit :: "auth_context \<Rightarrow> uuid \<Rightarrow> string \<Rightarrow> string \<Rightarrow> ai_db \<Rightarrow> ai_db" where
  "actor_audit auth dep ev meta db = add_ai_audit (ctx_org auth) (Some dep) None (ctx_key_id auth) ev meta db"

definition create_rag_endpoint ::
  "ai_env \<Rightarrow> auth_context \<Rightarrow> uuid \<Rightarrow> string \<Rightarrow> string \<Rightarrow> string \<Rightarrow> string option \<Rightarrow> string \<Rightarrow> ai_db \<Rightarrow>
   ai_db \<times> (http_error + rag_connector)" where
  "create_rag_endpoint ax auth i kind nm index namespace secret db =
     (if \<not> ax_rag_enabled ax then (db, Inl (HttpError 404 ''RAG connectors are not enabled''))
      else
        let (db1, r) = create_rag_row (ax_cipher ax) i (ctx_org auth) kind nm secret index namespace (ctx_key_id auth) db
        in (add_ai_audit (ctx_org auth) None (Some i) (ctx_key_id auth) ''connector_created'' ''rag'' db1, Inr r))"

definition create_mcp_endpoint ::
  "ai_env \<Rightarrow> auth_context \<Rightarrow> uuid \<Rightarrow> string \<Rightarrow> string \<Rightarrow> string \<Rightarrow> string option \<Rightarrow> ai_db \<Rightarrow>
   ai_db \<times> (http_error + mcp_connector)" where
  "create_mcp_endpoint ax auth i nm server transport secret db =
     (if \<not> ax_mcp_enabled ax then (db, Inl (HttpError 404 ''MCP connectors are not enabled''))
      else if ax_mcp_servers ax \<noteq> [] \<and> server \<notin> set (ax_mcp_servers ax)
      then (db, Inl (HttpError 400 ''MCP server is not in the allowlist''))
      else
        let (db1, r) = create_mcp_row (ax_cipher ax) i (ctx_org auth) nm server transport secret (ctx_key_id auth) db
        in (add_ai_audit (ctx_org auth) None (Some i) (ctx_key_id auth) ''connector_created'' ''mcp'' db1, Inr r))"

definition test_rag_endpoint ::
  "ai_env \<Rightarrow> 'r rag_port \<Rightarrow> 'r \<Rightarrow> datetime \<Rightarrow> auth_context \<Rightarrow> uuid \<Rightarrow> ai_db \<Rightarrow> ai_db \<times> (http_error + conn_test)" where
  "test_rag_endpoint ax port s now auth i db =
     (if \<not> ax_rag_enabled ax then (db, Inl (HttpError 404 ''RAG connectors are not enabled''))
      else case get_rag_connector (ctx_org auth) i db of
        Inl _ \<Rightarrow> (db, Inl (HttpError 404 ''connector not found''))
      | Inr c \<Rightarrow>
          (case resolve_ai_secret (ax_cipher ax) (Some (rk_secret c)) of
             None \<Rightarrow> (db, Inl (HttpError 500 ''internal error''))
           | Some secret \<Rightarrow>
               (let t = rgp_test port \<lparr>cs_reference = rk_index c, cs_secret = secret, cs_tls = \<not> ax_development ax\<rparr> s;
                    ok = ct_reachable t \<and> ct_authenticated t \<and> (ct_tls t \<or> ax_development ax);
                    db1 = set_rag_status now i (if ok then ''active'' else ''failed'') (ct_error t) True db
                in (add_ai_audit (ctx_org auth) None (Some i) (ctx_key_id auth) ''connector_tested'' ''rag'' db1, Inr t))))"

definition test_mcp_endpoint ::
  "ai_env \<Rightarrow> 'm mcp_port \<Rightarrow> 'm \<Rightarrow> datetime \<Rightarrow> auth_context \<Rightarrow> uuid \<Rightarrow> ai_db \<Rightarrow> ai_db \<times> (http_error + conn_test)" where
  "test_mcp_endpoint ax port s now auth i db =
     (if \<not> ax_mcp_enabled ax then (db, Inl (HttpError 404 ''MCP connectors are not enabled''))
      else case get_mcp_connector (ctx_org auth) i db of
        Inl _ \<Rightarrow> (db, Inl (HttpError 404 ''connector not found''))
      | Inr c \<Rightarrow>
          (case resolve_ai_secret (ax_cipher ax) (mk_secret c) of
             None \<Rightarrow> (db, Inl (HttpError 500 ''internal error''))
           | Some secret \<Rightarrow>
               (let t = mcp_test port \<lparr>cs_reference = mk_server c, cs_secret = secret, cs_tls = \<not> ax_development ax\<rparr> s;
                    ok = ct_reachable t \<and> (ct_tls t \<or> ax_development ax);
                    db1 = set_mcp_status now i (if ok then ''active'' else ''failed'') (ct_error t) True db
                in (add_ai_audit (ctx_org auth) None (Some i) (ctx_key_id auth) ''connector_tested'' ''mcp'' db1, Inr t))))"

record tripwire_body =
  twb_surface :: string
  twb_connector :: uuid
  twb_collection :: string
  twb_kind :: string

definition parse_surface :: "string \<Rightarrow> surface_type option" where
  "parse_surface s = find (\<lambda>x. surface_value x = s) [RagDocument, McpResource, McpConfig]"

text \<open>
  Only a refused preview is turned into a 400; an unknown decoy kind or unsafe content raises another
  exception, which no handler catches.
\<close>

definition preview_answer :: "ai_error \<Rightarrow> http_error" where
  "preview_answer e = (case e of PreviewRefused m \<Rightarrow> HttpError 400 m | _ \<Rightarrow> HttpError 500 ''internal error'')"

definition owns_connector :: "surface_type \<Rightarrow> org_id \<Rightarrow> uuid \<Rightarrow> ai_db \<Rightarrow> bool" where
  "owns_connector surface org i db =
     (if surface = RagDocument then is_ok (get_rag_connector org i db) else is_ok (get_mcp_connector org i db))"

definition preview_for :: "ai_env \<Rightarrow> surface_type \<Rightarrow> uuid \<Rightarrow> tripwire_body \<Rightarrow> string \<Rightarrow> datetime option \<Rightarrow> ai_error + ai_preview" where
  "preview_for ax surface i body trace expires =
     (if surface = RagDocument then
        map_sum id fst (build_rag_preview (ax_sha ax) (ax_collections ax) (ax_max_bytes ax) (ax_str ax i)
          (ax_str ax (twb_connector body)) (twb_collection body) (twb_kind body) trace expires)
      else
        map_sum id fst (build_mcp_preview (ax_sha ax) (ax_max_bytes ax) (ax_str ax i) (ax_str ax (twb_connector body))
          (twb_collection body) (twb_kind body) trace surface expires))"

definition create_tripwire ::
  "ai_env \<Rightarrow> datetime \<Rightarrow> auth_context \<Rightarrow> uuid \<Rightarrow> string \<Rightarrow> tripwire_body \<Rightarrow> ai_db \<Rightarrow> ai_db \<times> (http_error + uuid)" where
  "create_tripwire ax now auth i hex body db =
     (if \<not> ax_enabled ax then (db, Inl ai_off)
      else case parse_surface (twb_surface body) of
        None \<Rightarrow> (db, Inl (HttpError 400 ''unknown surface type''))
      | Some surface \<Rightarrow>
          if \<not> owns_connector surface (ctx_org auth) (twb_connector body) db
          then (db, Inl (HttpError 404 ''connector not found''))
          else
            (let trace = ''DFAI-'' @ hex;
                 expires = Some (now + seconds (86400 * ax_expiry_days ax));
                 (db1, r) = create_ai_row i (ctx_org auth) surface (twb_connector body) (twb_collection body)
                              (twb_kind body) trace (ctx_key_id auth) expires db
             in case preview_for ax surface i body trace expires of
                  Inl e \<Rightarrow> (db1, Inl (preview_answer e))
                | Inr p \<Rightarrow> (actor_audit auth i ''tripwire_drafted'' [] (set_ai_preview i p db1), Inr i)))"

definition decide_ai ::
  "ai_env \<Rightarrow> auth_context \<Rightarrow> uuid \<Rightarrow> ai_status \<Rightarrow> (ai_dep \<Rightarrow> ai_dep) \<Rightarrow> string \<Rightarrow> ai_db \<Rightarrow> ai_db \<times> (http_error + unit)" where
  "decide_ai ax auth i target assign ev db =
     (if \<not> ax_enabled ax then (db, Inl ai_off)
      else case load_ai auth i db of
        Inl e \<Rightarrow> (db, Inl e)
      | Inr r \<Rightarrow>
          (case move_ai r target assign db of
             Inl e \<Rightarrow> (db, Inl e)
           | Inr db1 \<Rightarrow> (actor_audit auth i ev [] db1, Inr ())))"

definition submit_tripwire where
  "submit_tripwire ax auth i db = decide_ai ax auth i AiAwaitingApproval id ''submitted'' db"

definition reject_tripwire where
  "reject_tripwire ax auth i db = decide_ai ax auth i AiRejected id ''rejected'' db"

definition approve_tripwire :: "ai_env \<Rightarrow> auth_context \<Rightarrow> uuid \<Rightarrow> ai_db \<Rightarrow> ai_db \<times> (http_error + unit)" where
  "approve_tripwire ax auth i db =
     (if \<not> ax_enabled ax then (db, Inl ai_off)
      else case load_ai auth i db of
        Inl e \<Rightarrow> (db, Inl e)
      | Inr r \<Rightarrow>
          if ax_separate ax \<and> ctx_key_id auth \<noteq> None \<and> ad_requested r \<noteq> None \<and> ctx_key_id auth = ad_requested r
          then (actor_audit auth i ''permission_denied'' ''separation_of_duties'' db,
                Inl (HttpError 403 ''a separate actor must approve this deployment''))
          else (case move_ai r AiApproved (\<lambda>x. x\<lparr>ad_approved := ctx_key_id auth\<rparr>) db of
             Inl e \<Rightarrow> (db, Inl e)
           | Inr db1 \<Rightarrow> (actor_audit auth i ''approved'' [] db1, Inr ())))"

definition ai_lifecycle ::
  "ai_env \<Rightarrow> auth_context \<Rightarrow> uuid \<Rightarrow> uuid \<Rightarrow> ai_status \<Rightarrow> ai_job_type \<Rightarrow> string \<Rightarrow> ai_db \<Rightarrow> ai_db \<times> (http_error + unit)" where
  "ai_lifecycle ax auth job_id i target kind ev db =
     (if \<not> ax_enabled ax then (db, Inl ai_off)
      else case load_ai auth i db of
        Inl e \<Rightarrow> (db, Inl e)
      | Inr r \<Rightarrow>
          (case move_ai r target id db of
             Inl e \<Rightarrow> (db, Inl e)
           | Inr db1 \<Rightarrow>
               (actor_audit auth i ev [] (fst (enqueue_ai job_id (ctx_org auth) i kind (clear_ai_job i kind db1))), Inr ())))"

definition deploy_tripwire where
  "deploy_tripwire ax auth job_id i db = ai_lifecycle ax auth job_id i AiDeploying JobExecute ''deployment_started'' db"

definition retire_tripwire where
  "retire_tripwire ax auth job_id i db = ai_lifecycle ax auth job_id i AiRetiring JobRetire ''retirement_started'' db"

end
