(* ===== verification/AI_Events.thy ===== *)
theory AI_Events
  imports AI_Deploy Pipeline
begin

text \<open>
  Signed ingestion of AI tripwire events: \<open>POST /ai-tripwire-events\<close> of \<open>api/ai_tripwire.py\<close>. The
  signature check is that of the monitor credentials (theory Pipeline) and the replay guard that of
  theory Replay over the in-process store; the metadata is minimised by theory Metadata_Min. The replay
  store is outside the transaction.
\<close>

definition parse_ai_event :: "string \<Rightarrow> ai_event_type option" where
  "parse_ai_event s = find (\<lambda>e. ai_event_value e = s)
     [DocumentRetrieved, ChunkRetrieved, TraceInModelInput, TraceInAnswer, DocumentExported, DocumentCopied,
      ResourceListed, ResourceRead, ResourceReferenced, ConfigLoaded, UriRequested, MetadataCopied, AgentTouched]"

record ai_event_body =
  aib_trace :: string
  aib_type :: string
  aib_source :: string
  aib_confidence :: rat
  aib_metadata :: "(string \<times> string) list"
  aib_observed :: "datetime option"

record ai_event_answer =
  aiw_exposure :: ai_exposure
  aiw_severity :: severity
  aiw_count :: nat

record ingest_guard =
  ig_auth :: bool
  ig_signature :: bool
  ig_skew :: rat
  ig_crypto :: crypto
  ig_float :: "string \<Rightarrow> pyfloat option"
  ig_dumps :: "(string \<times> string) list \<Rightarrow> string"

definition minimized_event ::
  "ingest_guard \<Rightarrow> datetime \<Rightarrow> org_id \<Rightarrow> ai_dep \<Rightarrow> ai_event_type \<Rightarrow> string option \<Rightarrow> ai_event_body \<Rightarrow> ai_event" where
  "minimized_event gd now org r et monitor body =
     \<lparr>aie_org = org, aie_dep = ad_id r, aie_trace = aib_trace body, aie_surface = event_surface et, aie_type = et,
      aie_source = take 256 (aib_source body),
      aie_monitor = take 128 (if text_of monitor = [] then ''unsigned-dev'' else text_of monitor),
      aie_confidence = aib_confidence body,
      aie_metadata = serialize_metadata (ig_dumps gd) (ai_minimize (\<lambda>j. j) (map (\<lambda>(k, v). (k, MText v)) (aib_metadata body))),
      aie_observed = (case aib_observed body of None \<Rightarrow> now | Some t \<Rightarrow> t)\<rparr>"

definition add_ai_event :: "ai_event \<Rightarrow> ai_db \<Rightarrow> ai_db" where
  "add_ai_event e db = db\<lparr>db_events := db_events db @ [e]\<rparr>"

definition answer_of :: "ai_event list \<Rightarrow> ai_event_answer" where
  "answer_of stored =
     (let types = remdups (map aie_type stored);
          surfaces = remdups (map event_surface types);
          exposure = classify_ai types
      in \<lparr>aiw_exposure = exposure,
          aiw_severity = ai_severity exposure (length stored) (length (remdups (map aie_source stored))) (length surfaces),
          aiw_count = length stored\<rparr>)"

definition accept_ai_event ::
  "ingest_guard \<Rightarrow> datetime \<Rightarrow> org_id \<Rightarrow> ai_event_type \<Rightarrow> string option \<Rightarrow> ai_event_body \<Rightarrow> ai_db \<Rightarrow>
   ai_db \<times> (http_error + ai_event_answer)" where
  "accept_ai_event gd now org et monitor body db =
     (case find_by_trace org (aib_trace body) db of
        None \<Rightarrow> (db, Inl (HttpError 404 ''no tripwire matches the trace''))
      | Some r \<Rightarrow>
          if ad_monitoring r = None then (db, Inl (HttpError 409 ''tripwire monitoring is not active''))
          else
            let db1 = add_ai_event (minimized_event gd now org r et monitor body) db;
                db2 = add_ai_audit org (Some (ad_id r)) None None ''event_accepted'' (ai_event_value et) db1
            in (db2, Inr (answer_of (events_for (ad_id r) db2))))"

definition ingest_ai_event ::
  "ai_env \<Rightarrow> ingest_guard \<Rightarrow> rat \<Rightarrow> datetime \<Rightarrow> auth_context \<Rightarrow> monitor_request \<Rightarrow> ai_event_body \<Rightarrow>
   nonce_table \<times> monitor_cred list \<times> ai_db \<Rightarrow>
   (nonce_table \<times> monitor_cred list \<times> ai_db) \<times> (http_error + ai_event_answer)" where
  "ingest_ai_event ax gd clock now auth rq body w =
     (let (nonces, creds, db) = w; org = ctx_org auth in
      if \<not> ax_enabled ax then (w, Inl ai_off)
      else case parse_ai_event (aib_type body) of
        None \<Rightarrow> (w, Inl (HttpError 400 ''unknown event type''))
      | Some et \<Rightarrow>
          (case (if ig_auth gd \<and> ig_signature gd then verify_monitor (ig_crypto gd) now org rq creds else Inr creds) of
             Inl (MonitorSignatureError c m) \<Rightarrow> (w, Inl (HttpError c m))
           | Inr creds1 \<Rightarrow>
               (case (if ig_auth gd then guard_check (ig_float gd) memory_reserve (ig_skew gd) clock (mr_nonce rq)
                          (mr_timestamp rq) (cy_str (ig_crypto gd) org) nonces
                      else (nonces, Inr ())) of
                  (nonces1, Inl (ReplayError c m)) \<Rightarrow> ((nonces1, creds, db), Inl (HttpError (nat c) m))
                | (nonces1, Inr _) \<Rightarrow>
                    (case accept_ai_event gd now org et (mr_monitor rq) body db of
                       (db1, Inl e) \<Rightarrow> ((nonces1, creds, db), Inl e)
                     | (db1, Inr a) \<Rightarrow> ((nonces1, creds1, db1), Inr a)))))"

subsection \<open>What an accepted event says\<close>

lemma accept_ai_event_ok:
  assumes "accept_ai_event gd now org et monitor body db = (db', Inr a)"
  shows "\<exists>r. find_by_trace org (aib_trace body) db = Some r \<and> ad_monitoring r \<noteq> None \<and>
    db_events db' = db_events db @ [minimized_event gd now org r et monitor body] \<and>
    db_deps db' = db_deps db \<and> db_jobs db' = db_jobs db \<and> a = answer_of (events_for (ad_id r) db')"
  using assms by (auto simp: accept_ai_event_def Let_def add_ai_event_def add_ai_audit_def split: option.splits if_splits)

lemma ingest_ai_event_ok:
  assumes "ingest_ai_event ax gd clock now auth rq body (nonces, creds, db) = ((nonces', creds', db'), Inr a)"
  obtains et where "parse_ai_event (aib_type body) = Some et"
    "accept_ai_event gd now (ctx_org auth) et (mr_monitor rq) body db = (db', Inr a)"
    "ig_auth gd \<and> ig_signature gd \<Longrightarrow> is_ok (verify_monitor (ig_crypto gd) now (ctx_org auth) rq creds)"
  using assms by (auto simp: ingest_ai_event_def Let_def
      split: if_splits option.splits sum.splits monitor_error.splits replay_error.splits prod.splits)

lemma ingest_ai_event_deps:
  assumes "ingest_ai_event ax gd clock now auth rq body (nonces, creds, db) = ((nonces', creds', db'), res)"
  shows "db_deps db' = db_deps db"
proof (cases res)
  case (Inr a)
  with assms show ?thesis using accept_ai_event_ok by (metis ingest_ai_event_ok)
next
  case (Inl e)
  with assms show ?thesis by (auto simp: ingest_ai_event_def Let_def
        split: if_splits option.splits sum.splits monitor_error.splits replay_error.splits prod.splits)
qed

lemma set_events_for: "set (events_for i db) = {e \<in> set (db_events db). aie_dep e = i}"
  by (auto simp: events_for_def)

lemma base_severity_grows:
  assumes "set a \<subseteq> set b" and "a \<noteq> []"
  shows "sev_rank (ai_base_severity (classify_ai a)) \<le> sev_rank (ai_base_severity (classify_ai b))"
proof -
  have "b \<noteq> []" using assms by auto
  have sub: "event_surface ` set a \<subseteq> event_surface ` set b" using assms(1) by blast
  then have card: "card (event_surface ` set a) \<le> card (event_surface ` set b)" by (intro card_mono) auto
  show ?thesis
  proof (cases "card (event_surface ` set b) > 1")
    case True
    then show ?thesis using \<open>b \<noteq> []\<close> sev_rank_bound by (simp add: classify_ai_canonical)
  next
    case False
    have mono: "x \<in> set b" if "x \<in> set a" for x using that assms(1) by blast
    show ?thesis
      unfolding classify_ai_canonical [OF assms(2)] classify_ai_canonical [OF \<open>b \<noteq> []\<close>]
      using False card mono by auto
  qed
qed

lemma length_remdups_mono: "set xs \<subseteq> set ys \<Longrightarrow> length (remdups xs) \<le> length (remdups ys)"
  by (simp add: length_remdups_card_conv card_mono)

lemma ai_severity_mono:
  assumes "sev_rank (ai_base_severity e) \<le> sev_rank (ai_base_severity e')" and "n \<le> n'" and "s \<le> s'" and "f \<le> f'"
  shows "ai_severity e n s f \<le> ai_severity e' n' s' f'"
proof -
  have "of_bool (k \<le> x) \<le> (of_bool (k \<le> y) :: nat)" if "x \<le> y" for k x y :: nat using that by simp
  then show ?thesis unfolding ai_severity_def using assms by (intro sev_at_mono add_mono) blast+
qed

lemma answer_severity_grows:
  assumes "set xs \<subseteq> set ys" and "xs \<noteq> []" and "length xs \<le> length ys"
  shows "aiw_severity (answer_of xs) \<le> aiw_severity (answer_of ys)"
proof -
  have t: "set (remdups (map aie_type xs)) \<subseteq> set (remdups (map aie_type ys))" using assms(1) by auto
  have ne: "remdups (map aie_type xs) \<noteq> []" using assms(2) by simp
  have "length (remdups (map aie_source xs)) \<le> length (remdups (map aie_source ys))"
    using assms(1) by (intro length_remdups_mono) auto
  moreover have "length (remdups (map event_surface (remdups (map aie_type xs)))) \<le>
      length (remdups (map event_surface (remdups (map aie_type ys))))"
    using t by (intro length_remdups_mono) auto
  ultimately show ?thesis
    unfolding answer_of_def Let_def using base_severity_grows [OF t ne] assms(3)
    by (simp del: remdups_map_remdups) (intro ai_severity_mono)
qed

text \<open>
  A trusted event is confined and classified from what is stored: it needs a deployment of the
  caller's organization with that trace whose monitoring has been activated, adds exactly one event for it,
  changes no deployment, and answers with a severity that no earlier answer for the same deployment exceeds.
\<close>

theorem ai_event_confined:
  assumes "ingest_ai_event ax gd clock now auth rq body (nonces, creds, db) = ((nonces', creds', db'), Inr a)"
  shows "\<exists>r e. find_by_trace (ctx_org auth) (aib_trace body) db = Some r \<and> ad_org r = ctx_org auth \<and>
    ad_monitoring r \<noteq> None \<and> db_events db' = db_events db @ [e] \<and> aie_org e = ctx_org auth \<and> aie_dep e = ad_id r \<and>
    db_deps db' = db_deps db \<and> aiw_count a = length (events_for (ad_id r) db) + 1 \<and>
    (events_for (ad_id r) db \<noteq> [] \<longrightarrow> aiw_severity (answer_of (events_for (ad_id r) db)) \<le> aiw_severity a)"
proof -
  obtain et where acc: "accept_ai_event gd now (ctx_org auth) et (mr_monitor rq) body db = (db', Inr a)"
    using assms by (rule ingest_ai_event_ok)
  then obtain r where r: "find_by_trace (ctx_org auth) (aib_trace body) db = Some r" "ad_monitoring r \<noteq> None"
      "db_events db' = db_events db @ [minimized_event gd now (ctx_org auth) r et (mr_monitor rq) body]"
      "db_deps db' = db_deps db" "a = answer_of (events_for (ad_id r) db')"
    using accept_ai_event_ok by blast
  obtain e where e: "e = minimized_event gd now (ctx_org auth) r et (mr_monitor rq) body" by simp
  have eo: "aie_org e = ctx_org auth" "aie_dep e = ad_id r" by (simp_all add: e minimized_event_def)
  have org: "ad_org r = ctx_org auth" using r(1) by (auto simp: find_by_trace_def dest: find_Some_mem)
  have len: "length (events_for (ad_id r) db') = length (events_for (ad_id r) db) + 1"
    using r(3) eo by (simp add: events_for_def e)
  have sub: "set (events_for (ad_id r) db) \<subseteq> set (events_for (ad_id r) db')"
    using r(3) by (auto simp: set_events_for)
  have "aiw_count a = length (events_for (ad_id r) db) + 1" using r(5) len by (simp add: answer_of_def Let_def)
  moreover have "aiw_severity (answer_of (events_for (ad_id r) db)) \<le> aiw_severity a" if "events_for (ad_id r) db \<noteq> []"
    unfolding r(5) using that sub len by (intro answer_severity_grows) simp_all
  ultimately show ?thesis using r org eo e by (intro exI [of _ r] exI [of _ e]) simp
qed

definition demo_tripwire :: ai_dep where
  "demo_tripwire = \<lparr>ad_id = 4, ad_org = 7, ad_surface = RagDocument, ad_connector = 2, ad_collection = ''kb'',
     ad_kind = ''support_runbook'', ad_status = AiDeployed, ad_trace = demo_token, ad_asset = Some ''a'', ad_requested = None,
     ad_approved = None, ad_preview = None, ad_vhash = Some ''h'', ad_monitoring = Some 5, ad_expires = None,
     ad_deployed = Some 5, ad_retired = None, ad_code = None, ad_message = None\<rparr>"

definition demo_ai_env :: ai_env where
  "demo_ai_env = \<lparr>ax_enabled = True, ax_rag_enabled = True, ax_mcp_enabled = True, ax_max_bytes = 4000,
     ax_collections = [''kb''], ax_mcp_servers = [], ax_separate = True, ax_expiry_days = 30, ax_development = False,
     ax_cipher = \<lparr>cp_encrypt = id, cp_decrypt = Some, cp_version = ''1''\<rparr>, ax_sha = id, ax_str = (\<lambda>_. ''i'')\<rparr>"

definition demo_guard :: ingest_guard where
  "demo_guard = \<lparr>ig_auth = False, ig_signature = False, ig_skew = 300,
     ig_crypto = \<lparr>cy_sha = id, cy_hmac = (\<lambda>_ _. []), cy_decrypt = Some, cy_str = (\<lambda>_. ''o'')\<rparr>, ig_float = (\<lambda>_. None),
     ig_dumps = (\<lambda>_. [])\<rparr>"

definition demo_caller :: auth_context where
  "demo_caller = \<lparr>ctx_org = 7, ctx_scopes = [''ai_tripwires:ingest''], ctx_role = ''monitor'', ctx_key_id = Some 5\<rparr>"

definition demo_ai_body :: ai_event_body where
  "demo_ai_body = \<lparr>aib_trace = demo_token, aib_type = ''trace_in_answer'', aib_source = ''chat'', aib_confidence = 1,
     aib_metadata = [], aib_observed = None\<rparr>"

definition demo_rq :: monitor_request where
  "demo_rq = \<lparr>mr_method = ''POST'', mr_path = [], mr_monitor = None, mr_timestamp = None, mr_nonce = None,
     mr_signature = None, mr_body = []\<rparr>"

definition db_of :: "ai_dep list \<Rightarrow> ai_db" where
  "db_of deps = \<lparr>db_rag = [], db_mcp = [], db_deps = deps, db_events = [], db_jobs = [], db_audit = []\<rparr>"

theorem ai_event_confined_witness:
  "\<exists>db' a e. ingest_ai_event demo_ai_env demo_guard 9 9 demo_caller demo_rq demo_ai_body ([], [], db_of [demo_tripwire]) =
      (([], [], db'), Inr a) \<and> db_events db' = [e] \<and> aie_org e = 7 \<and> aiw_count a = 1"
proof -
  obtain x where x: "ingest_ai_event demo_ai_env demo_guard 9 9 demo_caller demo_rq demo_ai_body ([], [], db_of [demo_tripwire]) = x"
    by simp
  have "is_ok (snd x) \<and> fst (fst x) = [] \<and> fst (snd (fst x)) = []" unfolding x [symmetric] by code_simp
  then obtain db' a where y: "ingest_ai_event demo_ai_env demo_guard 9 9 demo_caller demo_rq demo_ai_body ([], [], db_of [demo_tripwire]) =
      (([], [], db'), Inr a)"
    unfolding x by (cases x) (auto simp: is_ok_iff prod_eq_iff)
  from ai_event_confined [OF y] obtain r :: ai_dep and e where "db_events db' = db_events (db_of [demo_tripwire]) @ [e]"
      "aie_org e = ctx_org demo_caller" "aiw_count a = length (events_for (ad_id r) (db_of [demo_tripwire])) + 1"
    by blast
  then have "db_events db' = [e]" "aie_org e = 7" "aiw_count a = 1"
    by (simp_all add: db_of_def demo_caller_def events_for_def)
  with y show ?thesis by blast
qed

end
