(* ===== verification/AI_Props.thy ===== *)
theory AI_Props
  imports AI_Events
begin

text \<open>
  What holds of the AI tripwires as a system. A step relation collects the operations of the endpoints
  and of the worker over arbitrary adapters; its reachable states satisfy a well-formedness invariant,
  and the statuses of the deployments refine the closed state machine. The last part is about the
  in-memory adapters: a verified deployment, and removal of the own asset only.
\<close>

subsection \<open>Steps\<close>

inductive ai_step :: "ai_env \<Rightarrow> 'r rag_port \<Rightarrow> 'm mcp_port \<Rightarrow> ('r, 'm) ai_world \<Rightarrow> ('r, 'm) ai_world \<Rightarrow> bool"
  for ax :: ai_env and rp :: "'r rag_port" and mp :: "'m mcp_port" where
  step_create: "i \<notin> ad_id ` set (db_deps db) \<Longrightarrow> in_request (create_tripwire ax now auth i hex body) db = (db', res) \<Longrightarrow>
    ai_step ax rp mp (rs, ms, db) (rs, ms, db')"
| step_submit: "in_request (submit_tripwire ax auth i) db = (db', res) \<Longrightarrow> ai_step ax rp mp (rs, ms, db) (rs, ms, db')"
| step_reject: "in_request (reject_tripwire ax auth i) db = (db', res) \<Longrightarrow> ai_step ax rp mp (rs, ms, db) (rs, ms, db')"
| step_approve: "in_request (approve_tripwire ax auth i) db = (db', res) \<Longrightarrow> ai_step ax rp mp (rs, ms, db) (rs, ms, db')"
| step_deploy: "in_request (deploy_tripwire ax auth j i) db = (db', res) \<Longrightarrow> ai_step ax rp mp (rs, ms, db) (rs, ms, db')"
| step_retire: "in_request (retire_tripwire ax auth j i) db = (db', res) \<Longrightarrow> ai_step ax rp mp (rs, ms, db) (rs, ms, db')"
| step_worker: "ai_worker_once ax rp mp now batch w = (w', n) \<Longrightarrow> ai_step ax rp mp w w'"
| step_event: "ingest_ai_event ax gd clock now auth rq body (nonces, creds, db) = ((nonces', creds', db'), res) \<Longrightarrow>
    ai_step ax rp mp (rs, ms, db) (rs, ms, db')"
| step_rag_connector: "in_request (create_rag_endpoint ax auth i kind nm index namespace secret) db = (db', res) \<Longrightarrow>
    ai_step ax rp mp (rs, ms, db) (rs, ms, db')"
| step_mcp_connector: "in_request (create_mcp_endpoint ax auth i nm server transport msecret) db = (db', res') \<Longrightarrow>
    ai_step ax rp mp (rs, ms, db) (rs, ms, db')"
| step_rag_test: "in_request (test_rag_endpoint ax rp rs now auth i) db = (db', res'') \<Longrightarrow>
    ai_step ax rp mp (rs, ms, db) (rs, ms, db')"
| step_mcp_test: "in_request (test_mcp_endpoint ax mp ms now auth i) db = (db', res'') \<Longrightarrow>
    ai_step ax rp mp (rs, ms, db) (rs, ms, db')"

definition empty_ai_db :: ai_db where "empty_ai_db = db_of []"

subsection \<open>The two relations every operation keeps\<close>

text \<open>A well-formed row: what its status says about its other fields.\<close>

definition row_ok :: "ai_env \<Rightarrow> ai_dep \<Rightarrow> bool" where
  "row_ok ax r \<longleftrightarrow>
     ad_preview r \<noteq> None \<and>
     (ad_status r = AiDeployed \<longrightarrow> ad_monitoring r \<noteq> None) \<and>
     (ad_monitoring r \<noteq> None \<longrightarrow> ad_asset r \<noteq> None \<and> ad_vhash r \<noteq> None \<and> ad_deployed r \<noteq> None) \<and>
     (ad_status r = AiVerificationFailed \<longrightarrow> ad_asset r \<noteq> None) \<and>
     (ad_retired r \<noteq> None \<longleftrightarrow> ad_status r = AiRetired) \<and>
     (ax_separate ax \<and> ad_approved r \<noteq> None \<longrightarrow> ad_approved r \<noteq> ad_requested r)"

definition ai_typed :: "ai_env \<Rightarrow> ai_db \<Rightarrow> bool" where
  "ai_typed ax db \<longleftrightarrow> distinct (map ad_id (db_deps db)) \<and> (\<forall>r \<in> set (db_deps db). row_ok ax r)"

text \<open>
  The abstract state: the status of each deployment. An operation moves the deployments it knows along
  the table, into statuses it is allowed to set (\<open>T i\<close> for the deployment \<open>i\<close>), and brings up no other.
\<close>

definition statuses :: "ai_db \<Rightarrow> uuid \<Rightarrow> ai_status option" where
  "statuses db i = map_option ad_status (find_ai i db)"

definition ai_to :: "ai_status set \<Rightarrow> ai_status \<Rightarrow> ai_status \<Rightarrow> bool" where
  "ai_to S s t \<longleftrightarrow> ai_can s t \<and> t \<in> S"

definition moves :: "(uuid \<Rightarrow> ai_status set) \<Rightarrow> (uuid \<Rightarrow> ai_status option) \<Rightarrow> (uuid \<Rightarrow> ai_status option) \<Rightarrow> bool" where
  "moves T a a' \<longleftrightarrow> (\<forall>i. case a i of
      Some s \<Rightarrow> (\<exists>t. a' i = Some t \<and> (ai_to (T i))\<^sup>*\<^sup>* s t)
    | None \<Rightarrow> a' i = None)"

text \<open>What the worker may set on any deployment, and what one request may set on its own.\<close>

definition on_worker :: "uuid \<Rightarrow> ai_status set" where
  "on_worker i = {AiFailed, AiVerificationFailed, AiDeployed, AiRetired, AiDriftDetected}"

definition only :: "uuid \<Rightarrow> ai_status \<Rightarrow> uuid \<Rightarrow> ai_status set" where
  "only i t k = (if k = i then {t} else {})"

lemma moves_refl [simp]: "moves T a a"
  by (simp add: moves_def split: option.splits)

lemma moves_trans: "moves T a b \<Longrightarrow> moves T b c \<Longrightarrow> moves T a c"
  unfolding moves_def
proof
  fix i
  assume ab: "\<forall>i. case a i of Some s \<Rightarrow> (\<exists>t. b i = Some t \<and> (ai_to (T i))\<^sup>*\<^sup>* s t) | None \<Rightarrow> b i = None"
    and bc: "\<forall>i. case b i of Some s \<Rightarrow> (\<exists>t. c i = Some t \<and> (ai_to (T i))\<^sup>*\<^sup>* s t) | None \<Rightarrow> c i = None"
  show "case a i of Some s \<Rightarrow> (\<exists>t. c i = Some t \<and> (ai_to (T i))\<^sup>*\<^sup>* s t) | None \<Rightarrow> c i = None"
    using spec [OF ab, of i] spec [OF bc, of i]
    by (cases "a i"; cases "b i") (auto intro: rtranclp_trans)
qed

definition keeps :: "ai_env \<Rightarrow> (uuid \<Rightarrow> ai_status set) \<Rightarrow> ai_db \<Rightarrow> ai_db \<Rightarrow> bool" where
  "keeps ax T db db' \<longleftrightarrow> (ai_typed ax db \<longrightarrow> ai_typed ax db' \<and> moves T (statuses db) (statuses db'))"

lemma keeps_refl [simp]: "keeps ax T db db"
  by (simp add: keeps_def)

lemma keeps_trans [trans]: "keeps ax T a b \<Longrightarrow> keeps ax T b c \<Longrightarrow> keeps ax T a c"
  unfolding keeps_def using moves_trans by blast

lemma keeps_deps: "db_deps db' = db_deps db \<Longrightarrow> keeps ax T db db'"
proof -
  assume d: "db_deps db' = db_deps db"
  then have "statuses db' = statuses db" by (intro ext) (simp add: statuses_def find_ai_def)
  with d show ?thesis by (simp add: keeps_def ai_typed_def)
qed

text \<open>Everything but \<open>update_ai\<close> and \<open>create_ai_row\<close> leaves the deployments alone.\<close>

lemma audit_deps [simp]:
  "db_deps (add_ai_audit org d c a ev meta db) = db_deps db"
  "db_deps (service_audit org i ev meta db) = db_deps db"
  "db_deps (actor_audit auth i ev meta db) = db_deps db"
  by (simp_all add: add_ai_audit_def service_audit_def actor_audit_def)

lemma job_deps [simp]:
  "db_deps (fst (enqueue_ai j org i kind db)) = db_deps db"
  "db_deps (clear_ai_job i kind db) = db_deps db"
  "db_deps (complete_ai_job now i ok db) = db_deps db"
  by (simp_all add: enqueue_ai_def clear_ai_job_def complete_ai_job_def)

lemma claim_deps: "db_deps (fst (claim_ai_each is db)) = db_deps db"
proof (induction "is" arbitrary: db)
  case (Cons i "is")
  have "db_deps (fst (claim_ai i db)) = db_deps db" by (simp add: claim_ai_def Let_def split: option.splits)
  with Cons show ?case by (simp split: prod.splits) (metis fst_conv)
qed simp

lemma find_ai_deps: "db_deps db' = db_deps db \<Longrightarrow> find_ai i db' = find_ai i db"
  by (simp add: find_ai_def)

lemma find_ai_Some: "find_ai i db = Some r \<Longrightarrow> r \<in> set (db_deps db) \<and> ad_id r = i"
  unfolding find_ai_def by (drule find_Some_mem)

lemma find_ai_map:
  assumes "\<And>x. ad_id (f x) = ad_id x"
  shows "find_ai i (update_ai j f db) = (if i = j then map_option f (find_ai i db) else find_ai i db)"
proof -
  have "find (\<lambda>r. ad_id r = i) (map (\<lambda>r. if ad_id r = j then f r else r) rs) =
      (if i = j then map_option f (find (\<lambda>r. ad_id r = i) rs) else find (\<lambda>r. ad_id r = i) rs)" for rs
    using assms by (induction rs) auto
  then show ?thesis by (simp add: find_ai_def update_ai_def)
qed

lemma ai_typed_unique: "ai_typed ax db \<Longrightarrow> find_ai i db = Some r \<Longrightarrow> x \<in> set (db_deps db) \<Longrightarrow> ad_id x = i \<Longrightarrow> x = r"
  using find_ai_Some [of i db r] by (auto simp: ai_typed_def distinct_map inj_on_def)

lemma keeps_update:
  assumes find: "find_ai i db = Some r"
    and keep: "\<And>x. ad_id (f x) = ad_id x"
    and step: "(ai_to (T i))\<^sup>*\<^sup>* (ad_status r) (ad_status (f r))"
    and ok: "row_ok ax r \<Longrightarrow> row_ok ax (f r)"
  shows "keeps ax T db (update_ai i f db)"
  unfolding keeps_def
proof (intro impI conjI)
  assume typed: "ai_typed ax db"
  have ids: "map ad_id (map (\<lambda>r. if ad_id r = i then f r else r) (db_deps db)) = map ad_id (db_deps db)"
    using keep by auto
  have row: "row_ok ax (if ad_id x = i then f x else x)" if "x \<in> set (db_deps db)" for x
    using that typed ok ai_typed_unique [OF typed find that] by (cases "ad_id x = i") (auto simp: ai_typed_def)
  have rows: "\<forall>x \<in> set (db_deps (update_ai i f db)). row_ok ax x"
  proof
    fix y assume "y \<in> set (db_deps (update_ai i f db))"
    then have "y \<in> (\<lambda>r. if ad_id r = i then f r else r) ` set (db_deps db)" unfolding update_ai_def by simp
    then show "row_ok ax y" by (elim imageE) (simp only: row)
  qed
  have "distinct (map ad_id (db_deps (update_ai i f db)))"
    using typed ids by (simp add: ai_typed_def update_ai_def del: map_map)
  with rows show "ai_typed ax (update_ai i f db)" by (simp add: ai_typed_def)
  have "statuses (update_ai i f db) k = (if k = i then Some (ad_status (f r)) else statuses db k)" for k
    using find by (simp add: statuses_def find_ai_map [OF keep])
  moreover have "statuses db i = Some (ad_status r)" using find by (simp add: statuses_def)
  ultimately show "moves T (statuses db) (statuses (update_ai i f db))"
    using step unfolding moves_def by (auto split: option.splits)
qed

text \<open>One legal move of one row; the row lemma says which assignments go with which target.\<close>

definition assigns :: "(ai_dep \<Rightarrow> ai_dep) \<Rightarrow> bool" where
  "assigns f \<longleftrightarrow> (\<forall>x. ad_id (f x) = ad_id x \<and> ad_status (f x) = ad_status x)"

lemma keeps_transition:
  assumes "ai_transition r target f db = Inr db'" and "find_ai (ad_id r) db = Some r" and "target \<in> T (ad_id r)" and "assigns f"
    and "row_ok ax r \<Longrightarrow> ad_status r \<noteq> AiRetired \<Longrightarrow> ad_retired r = None \<Longrightarrow> row_ok ax (f (r\<lparr>ad_status := target\<rparr>))"
  shows "keeps ax T db db'"
proof -
  have can: "ai_can (ad_status r) target" and db': "db' = update_ai (ad_id r) (\<lambda>x. f (x\<lparr>ad_status := target\<rparr>)) db"
    using assms(1) by (auto simp: ai_transition_def guard_simps ai_lc.check_ok_iff)
  then have nr: "ad_status r \<noteq> AiRetired" by (auto simp: ai_can_def)
  show ?thesis unfolding db'
  proof (rule keeps_update [OF assms(2)])
    show "ad_id (f (x\<lparr>ad_status := target\<rparr>)) = ad_id x" for x using assms(4) by (simp add: assigns_def)
    show "(ai_to (T (ad_id r)))\<^sup>*\<^sup>* (ad_status r) (ad_status (f (r\<lparr>ad_status := target\<rparr>)))"
      using can assms(3,4) by (auto simp: assigns_def ai_to_def)
    show "row_ok ax (f (r\<lparr>ad_status := target\<rparr>))" if "row_ok ax r"
      using assms(5) [OF that nr] that nr by (simp add: row_ok_def)
  qed
qed

subsection \<open>The service keeps them\<close>

lemma keeps_settle: "(\<And>db'. x = Inr db' \<Longrightarrow> keeps ax T db db') \<Longrightarrow> settle db x = (db2, res) \<Longrightarrow> keeps ax T db db2"
  by (auto simp: settle_def split: sum.splits)

lemma service_move_ok: "service_move r target f db = Inr db' \<longleftrightarrow> ai_transition r target f db = Inr db'"
  unfolding service_move_def by (cases "ai_transition r target f db") auto

lemma keeps_audit: "keeps ax T db db' \<Longrightarrow> keeps ax T db (service_audit org i ev meta db')"
  by (erule keeps_trans) (simp add: keeps_deps)

lemma keeps_fail:
  assumes "find_ai (ad_id r) db = Some r" and "settle db (fail_ai r code msg db) = (db2, res)"
  shows "keeps ax on_worker db db2"
proof (rule keeps_settle [OF _ assms(2)])
  fix db' assume "fail_ai r code msg db = Inr db'"
  then obtain db1 where t: "ai_transition r AiFailed (\<lambda>x. x\<lparr>ad_code := Some code, ad_message := Some (take 512 msg)\<rparr>) db = Inr db1"
      and d: "db' = service_audit (ad_org r) (ad_id r) ''deployment_failed'' code db1"
    by (auto simp: fail_ai_def guard_simps service_move_ok)
  have "keeps ax on_worker db db1" by (rule keeps_transition [OF t assms(1)]) (simp_all add: assigns_def row_ok_def on_worker_def)
  then show "keeps ax on_worker db db'" unfolding d by (rule keeps_audit)
qed

lemma keeps_finish:
  assumes "find_ai (ad_id r) db = Some r" and "settle db (finish_ai now org r dres v db) = (db2, res)"
  shows "keeps ax on_worker db db2"
proof (rule keeps_settle [OF _ assms(2)])
  fix db' assume f: "finish_ai now org r dres v db = Inr db'"
  show "keeps ax on_worker db db'"
  proof (cases "vr_exists v \<and> vr_hash v \<and> vr_trace v")
    case False
    with f obtain db1 where t: "ai_transition r AiVerificationFailed
          (\<lambda>x. x\<lparr>ad_asset := Some (dpr_asset dres), ad_code := Some ''verify_failed'',
                 ad_message := Some ''external asset failed verification''\<rparr>) db = Inr db1"
        and d: "db' = service_audit org (ad_id r) ''verification_failed'' [] db1"
      by (auto simp: finish_ai_def guard_simps service_move_ok)
    have "keeps ax on_worker db db1" by (rule keeps_transition [OF t assms(1)]) (auto simp: assigns_def row_ok_def on_worker_def)
    then show ?thesis unfolding d by (rule keeps_audit)
  next
    case True
    obtain dba where dba: "dba = service_audit org (ad_id r) ''verification_passed'' []
          (service_audit org (ad_id r) ''deployment_succeeded'' [] db)" by simp
    with f True obtain db1 where t: "ai_transition r AiDeployed
          (\<lambda>x. x\<lparr>ad_asset := Some (dpr_asset dres), ad_vhash := Some (dpr_hash dres), ad_deployed := Some now,
                 ad_monitoring := Some now\<rparr>) dba = Inr db1"
        and d: "db' = service_audit org (ad_id r) ''monitoring_activated'' (''trace='' @ ad_trace r) db1"
      by (auto simp: finish_ai_def guard_simps service_move_ok Let_def)
    have "find_ai (ad_id r) dba = Some r" using assms(1) find_ai_deps [of dba db] by (simp add: dba)
    then have "keeps ax on_worker dba db1" by (rule keeps_transition [OF t]) (auto simp: assigns_def row_ok_def on_worker_def)
    moreover have "keeps ax on_worker db dba" by (rule keeps_deps) (simp add: dba)
    ultimately have "keeps ax on_worker db db1" by (rule keeps_trans [rotated])
    then show ?thesis unfolding d by (rule keeps_audit)
  qed
qed

lemma keeps_after_delete:
  assumes "find_ai (ad_id r) db = Some r" and "settle db (after_delete now org r outcome db) = (db2, res)"
  shows "keeps ax on_worker db db2"
proof (cases outcome)
  case (Inl e)
  then obtain m where "settle db (fail_ai r ''delete_failed'' m db) = (db2, res)"
    using assms(2) by (cases e) (auto simp: after_delete_def)
  then show ?thesis by (rule keeps_fail [OF assms(1)])
next
  case (Inr d)
  show ?thesis
  proof (rule keeps_settle [OF _ assms(2)])
    fix db' assume a: "after_delete now org r outcome db = Inr db'"
    show "keeps ax on_worker db db'"
    proof (cases "dlr_drift d")
      case True
      with a Inr obtain db1 where t: "ai_transition r AiDriftDetected
            (\<lambda>x. x\<lparr>ad_code := Some ''asset_drift'', ad_message := Some ''external asset changed; manual review required''\<rparr>) db = Inr db1"
          and d: "db' = service_audit org (ad_id r) ''drift_detected'' [] db1"
        by (auto simp: after_delete_def guard_simps service_move_ok)
      have "keeps ax on_worker db db1" by (rule keeps_transition [OF t assms(1)]) (auto simp: assigns_def row_ok_def on_worker_def)
      then show ?thesis unfolding d by (rule keeps_audit)
    next
      case False
      with a Inr obtain db1 where t: "ai_transition r AiRetired (\<lambda>x. x\<lparr>ad_retired := Some now\<rparr>) db = Inr db1"
          and d: "db' = service_audit org (ad_id r) ''retirement_completed'' [] db1"
        by (auto simp: after_delete_def guard_simps service_move_ok)
      have "keeps ax on_worker db db1" by (rule keeps_transition [OF t assms(1)]) (auto simp: assigns_def row_ok_def on_worker_def)
      then show ?thesis unfolding d by (rule keeps_audit)
    qed
  qed
qed

lemma keeps_started:
  assumes "keeps ax T (service_audit org i ev meta db) db'"
  shows "keeps ax T db db'"
  using assms keeps_deps [OF audit_deps(2)] keeps_trans by blast

lemma find_started: "find_ai i db = Some r \<Longrightarrow> find_ai i (service_audit org k ev meta db) = Some r"
  by (simp add: find_ai_def)

lemma keeps_execute_rag:
  assumes f: "find_ai (ad_id r) db = Some r" and e: "execute_rag ax port now org r (s, db) = ((s', db'), res)"
  shows "keeps ax on_worker db db'"
proof -
  note fs = find_started [OF f]
  show ?thesis using e
    by (auto simp: execute_rag_def Let_def split: sum.splits option.splits prod.splits connector_error.splits
        intro: keeps_started [OF keeps_fail [OF fs]] keeps_started [OF keeps_finish [OF fs]])
qed

lemma keeps_execute_mcp:
  assumes f: "find_ai (ad_id r) db = Some r" and e: "execute_mcp ax port now org r (s, db) = ((s', db'), res)"
  shows "keeps ax on_worker db db'"
proof -
  note fs = find_started [OF f]
  show ?thesis using e
    by (auto simp: execute_mcp_def Let_def split: sum.splits option.splits prod.splits connector_error.splits
        intro: keeps_started [OF keeps_fail [OF fs]] keeps_started [OF keeps_finish [OF fs]])
qed

lemma get_ai_ok: "get_ai org i db = Inr r \<longleftrightarrow> find_ai i db = Some r \<and> ad_org r = org"
  by (auto simp: get_ai_def split: option.splits)

lemma get_ai_find: "get_ai org i db = Inr r \<Longrightarrow> find_ai (ad_id r) db = Some r"
  using find_ai_Some get_ai_ok by metis

lemma keeps_execute:
  assumes "execute_ai ax rp mp now org i (rs, ms, db) = ((rs', ms', db'), res)"
  shows "keeps ax on_worker db db'"
proof (cases "get_ai org i db")
  case (Inl e)
  with assms show ?thesis by (simp add: execute_ai_def)
next
  case (Inr r)
  note f = get_ai_find [OF Inr]
  show ?thesis using assms Inr
    by (auto simp: execute_ai_def Let_def split: if_splits prod.splits
        intro: keeps_fail [OF f] keeps_execute_rag [OF f] keeps_execute_mcp [OF f])
qed

lemma keeps_delete_rag:
  assumes f: "find_ai (ad_id r) db = Some r" and e: "delete_rag ax port now org r a h (s, db) = ((s', db'), res)"
  shows "keeps ax on_worker db db'"
  using e by (auto simp: delete_rag_def Let_def split: sum.splits option.splits prod.splits
      intro: keeps_after_delete [OF f])

lemma keeps_delete_mcp:
  assumes f: "find_ai (ad_id r) db = Some r" and e: "delete_mcp ax port now org r a h (s, db) = ((s', db'), res)"
  shows "keeps ax on_worker db db'"
  using e by (auto simp: delete_mcp_def Let_def split: sum.splits option.splits prod.splits
      intro: keeps_after_delete [OF f])

lemma keeps_retire:
  assumes "retire_ai ax rp mp now org i (rs, ms, db) = ((rs', ms', db'), res)"
  shows "keeps ax on_worker db db'"
proof (cases "get_ai org i db")
  case (Inl e)
  with assms show ?thesis by (simp add: retire_ai_def)
next
  case (Inr r)
  note f = get_ai_find [OF Inr]
  show ?thesis using assms Inr
    by (auto simp: retire_ai_def Let_def split: if_splits prod.splits option.splits sum.splits
        intro: keeps_after_delete [OF f] keeps_started [OF keeps_delete_rag [OF find_started [OF f]]]
          keeps_started [OF keeps_delete_mcp [OF find_started [OF f]]] keeps_deps)
qed

lemma keeps_job: "run_ai_job ax rp mp now j (rs, ms, db) = (rs', ms', db') \<Longrightarrow> keeps ax on_worker db db'"
proof -
  assume r: "run_ai_job ax rp mp now j (rs, ms, db) = (rs', ms', db')"
  obtain rs1 ms1 db1 res where x: "(case aj_type j of
      JobExecute \<Rightarrow> execute_ai ax rp mp now (aj_org j) (aj_dep j) (rs, ms, db)
    | JobRetire \<Rightarrow> retire_ai ax rp mp now (aj_org j) (aj_dep j) (rs, ms, db)) = ((rs1, ms1, db1), res)"
    by (metis prod_cases3 surj_pair)
  then have "keeps ax on_worker db db1" by (cases "aj_type j") (auto intro: keeps_execute keeps_retire)
  moreover have "db' = complete_ai_job now (aj_id j) (is_ok res) db1" using r x by (simp add: run_ai_job_def)
  ultimately show ?thesis using keeps_trans [OF _ keeps_deps [OF job_deps(3)]] by simp
qed

lemma keeps_jobs: "run_ai_jobs ax rp mp now js (rs, ms, db) = (rs', ms', db') \<Longrightarrow> keeps ax on_worker db db'"
proof (induction js arbitrary: rs ms db)
  case (Cons j js)
  obtain rs1 ms1 db1 where x: "run_ai_job ax rp mp now j (rs, ms, db) = (rs1, ms1, db1)" by (metis prod_cases3)
  with Cons.prems have "run_ai_jobs ax rp mp now js (rs1, ms1, db1) = (rs', ms', db')" by simp
  from keeps_trans [OF keeps_job [OF x] Cons.IH [OF this]] show ?case .
qed simp

lemma keeps_worker:
  assumes "ai_worker_once ax rp mp now batch (rs, ms, db) = ((rs', ms', db'), n)"
  shows "keeps ax on_worker db db'"
proof -
  obtain db1 jobs where c: "claim_ai_jobs batch db = (db1, jobs)" by fastforce
  then have "db_deps db1 = db_deps db" using claim_deps [of "ai_candidates batch db" db] by (simp add: claim_ai_jobs_def)
  then have "keeps ax on_worker db db1" by (rule keeps_deps)
  moreover have "run_ai_jobs ax rp mp now jobs (rs, ms, db1) = (rs', ms', db')" using assms c by (simp add: ai_worker_once_def)
  then have "keeps ax on_worker db1 db'" by (rule keeps_jobs)
  ultimately show ?thesis by (rule keeps_trans)
qed

subsection \<open>The endpoints keep them\<close>

lemma in_request_ok: "in_request h db = (db', res) \<Longrightarrow> db' = db \<or> (\<exists>a. h db = (db', Inr a))"
  by (auto simp: in_request_def split: prod.splits sum.splits)

lemma load_ai_find: "load_ai auth i db = Inr r \<Longrightarrow> find_ai (ad_id r) db = Some r"
  using get_ai_find by (cases "get_ai (ctx_org auth) i db") (auto simp: load_ai_def)

lemma load_ai_id: "load_ai auth i db = Inr r \<Longrightarrow> ad_id r = i"
  using get_ai_ok find_ai_Some by (cases "get_ai (ctx_org auth) i db") (fastforce simp: load_ai_def)+

lemma move_ai_ok: "move_ai r target f db = Inr db' \<longleftrightarrow> ai_transition r target f db = Inr db'"
  unfolding move_ai_def by (cases "ai_transition r target f db") auto

lemma keeps_actor_audit: "keeps ax T db db' \<Longrightarrow> keeps ax T db (actor_audit auth i ev meta db')"
  by (erule keeps_trans) (simp add: keeps_deps)

lemma row_ok_plain:
  assumes "row_ok ax r" and "ad_retired r = None" and "t \<notin> {AiDeployed, AiVerificationFailed, AiRetired}"
  shows "row_ok ax (id (r\<lparr>ad_status := t\<rparr>))"
  using assms by (auto simp: row_ok_def)

lemma assigns_id [simp]: "assigns id"
  by (simp add: assigns_def)

lemma keeps_decide:
  assumes "decide_ai ax auth i target id ev db = (db', Inr u)" and "target \<notin> {AiDeployed, AiVerificationFailed, AiRetired}"
  shows "keeps ax (only i target) db db'"
proof -
  obtain r db1 where l: "load_ai auth i db = Inr r" and t: "ai_transition r target id db = Inr db1"
      and d: "db' = actor_audit auth i ev [] db1"
    using assms(1) by (auto simp: decide_ai_def move_ai_ok split: if_splits sum.splits)
  have "keeps ax (only i target) db db1"
    using keeps_transition [OF t] load_ai_find [OF l] row_ok_plain [OF _ _ assms(2)] load_ai_id [OF l] by (simp add: only_def)
  then show ?thesis unfolding d by (rule keeps_actor_audit)
qed

lemma keeps_approve:
  assumes "approve_tripwire ax auth i db = (db', Inr u)"
  shows "keeps ax (only i AiApproved) db db'"
proof -
  obtain r db1 where l: "load_ai auth i db = Inr r"
      and sep: "\<not> (ax_separate ax \<and> ctx_key_id auth \<noteq> None \<and> ad_requested r \<noteq> None \<and> ctx_key_id auth = ad_requested r)"
      and t: "ai_transition r AiApproved (\<lambda>x. x\<lparr>ad_approved := ctx_key_id auth\<rparr>) db = Inr db1"
      and d: "db' = actor_audit auth i ''approved'' [] db1"
    using assms by (auto simp: approve_tripwire_def move_ai_ok split: if_splits sum.splits)
  have "keeps ax (only i AiApproved) db db1"
  proof (rule keeps_transition [OF t])
    show "find_ai (ad_id r) db = Some r" using load_ai_find [OF l] by simp
    show "AiApproved \<in> only i AiApproved (ad_id r)" using load_ai_id [OF l] by (simp add: only_def)
    show "row_ok ax (r\<lparr>ad_status := AiApproved, ad_approved := ctx_key_id auth\<rparr>)"
      if "row_ok ax r" "ad_retired r = None" using that sep by (auto simp: row_ok_def)
  qed (simp add: assigns_def)
  then show ?thesis unfolding d by (rule keeps_actor_audit)
qed

lemma keeps_lifecycle:
  assumes "ai_lifecycle ax auth j i target kind ev db = (db', Inr u)" and "target \<notin> {AiDeployed, AiVerificationFailed, AiRetired}"
  shows "keeps ax (only i target) db db'"
proof -
  obtain r db1 where l: "load_ai auth i db = Inr r" and t: "ai_transition r target id db = Inr db1"
      and d: "db' = actor_audit auth i ev [] (fst (enqueue_ai j (ctx_org auth) i kind (clear_ai_job i kind db1)))"
    using assms(1) by (auto simp: ai_lifecycle_def move_ai_ok split: if_splits sum.splits)
  have "keeps ax (only i target) db db1"
    using keeps_transition [OF t] load_ai_find [OF l] row_ok_plain [OF _ _ assms(2)] load_ai_id [OF l] by (simp add: only_def)
  moreover have "keeps ax (only i target) db1 db'" by (rule keeps_deps) (simp add: d)
  ultimately show ?thesis by (rule keeps_trans)
qed

lemma keeps_submit_endpoint: "submit_tripwire ax auth i db = (db', Inr u) \<Longrightarrow> keeps ax (only i AiAwaitingApproval) db db'"
  unfolding submit_tripwire_def by (erule keeps_decide) simp

lemma keeps_reject_endpoint: "reject_tripwire ax auth i db = (db', Inr u) \<Longrightarrow> keeps ax (only i AiRejected) db db'"
  unfolding reject_tripwire_def by (erule keeps_decide) simp

lemma keeps_deploy_endpoint: "deploy_tripwire ax auth j i db = (db', Inr u) \<Longrightarrow> keeps ax (only i AiDeploying) db db'"
  unfolding deploy_tripwire_def by (erule keeps_lifecycle) simp

lemma keeps_retire_endpoint: "retire_tripwire ax auth j i db = (db', Inr u) \<Longrightarrow> keeps ax (only i AiRetiring) db db'"
  unfolding retire_tripwire_def by (erule keeps_lifecycle) simp

lemma create_drafts:
  assumes fresh: "i \<notin> ad_id ` set (db_deps db)" and c: "create_tripwire ax now auth i hex body db = (db', Inr u)"
    and typed: "ai_typed ax db"
  shows "ai_typed ax db'" and "statuses db i = None" and "statuses db' = (statuses db)(i \<mapsto> AiDraft)"
proof -
  obtain surface p r where r: "create_ai_row i (ctx_org auth) surface (twb_connector body) (twb_collection body)
        (twb_kind body) (''DFAI-'' @ hex) (ctx_key_id auth) (Some (now + seconds (86400 * ax_expiry_days ax))) db =
        (db\<lparr>db_deps := db_deps db @ [r]\<rparr>, r)"
      and d: "db' = actor_audit auth i ''tripwire_drafted'' [] (set_ai_preview i p (db\<lparr>db_deps := db_deps db @ [r]\<rparr>))"
      and row: "ad_id r = i" "ad_status r = AiDraft" "ad_monitoring r = None" "ad_retired r = None" "ad_approved r = None"
    using c by (auto simp: create_tripwire_def create_ai_row_def Let_def split: if_splits option.splits sum.splits)
  have same: "map (\<lambda>x. if ad_id x = i then x\<lparr>ad_preview := Some p\<rparr> else x) (db_deps db) = db_deps db"
    using fresh by (intro map_idI) auto
  then have deps: "db_deps db' = db_deps db @ [r\<lparr>ad_preview := Some p\<rparr>]"
    using row by (simp add: d set_ai_preview_def update_ai_def)
  show "ai_typed ax db'"
    using typed fresh row by (auto simp: ai_typed_def deps row_ok_def)
  have none: "find_ai i db = None" using fresh by (auto simp: find_ai_def find_None_iff)
  have app: "find P (xs @ [y]) = (case find P xs of None \<Rightarrow> if P y then Some y else None | Some x \<Rightarrow> Some x)" for P xs and y :: ai_dep
    by (induction xs) auto
  have "statuses db' k = (if k = i then Some AiDraft else statuses db k)" for k
    using none row by (auto simp: statuses_def find_ai_def deps app split: option.splits)
  then show "statuses db' = (statuses db)(i \<mapsto> AiDraft)" by (intro ext) simp
  show "statuses db i = None" using none by (simp add: statuses_def)
qed

lemma keeps_request:
  assumes "in_request h db = (db', res)" and "\<And>a. h db = (db', Inr a) \<Longrightarrow> keeps ax T db db'"
  shows "keeps ax T db db'"
  using in_request_ok [OF assms(1)] assms(2) by auto

text \<open>The approval of a deployment, by any caller.\<close>

definition approval :: "ai_env \<Rightarrow> uuid \<Rightarrow> ai_db \<Rightarrow> ai_db \<Rightarrow> bool" where
  "approval ax i db db' \<longleftrightarrow> (\<exists>auth res. in_request (approve_tripwire ax auth i) db = (db', res))"

definition creates :: "ai_env \<Rightarrow> ai_db \<Rightarrow> ai_db \<Rightarrow> bool" where
  "creates ax db db' \<longleftrightarrow> ai_typed ax db' \<and> (\<exists>i. statuses db i = None \<and> statuses db' = (statuses db)(i \<mapsto> AiDraft))"

text \<open>Each step creates a draft, is a request on one deployment, or is a worker run.\<close>

definition step_kind :: "ai_env \<Rightarrow> ai_db \<Rightarrow> ai_db \<Rightarrow> bool" where
  "step_kind ax db db' \<longleftrightarrow> creates ax db db' \<or> keeps ax on_worker db db' \<or>
     (\<exists>i t. keeps ax (only i t) db db' \<and>
        (t \<in> {AiAwaitingApproval, AiRejected, AiDeploying, AiRetiring} \<or> t = AiApproved \<and> approval ax i db db'))"

lemma kind_request:
  assumes "in_request h db = (db', res)" and "\<And>a. h db = (db', Inr a) \<Longrightarrow> keeps ax (only i t) db db'"
    and "t \<in> {AiAwaitingApproval, AiRejected, AiDeploying, AiRetiring} \<or> t = AiApproved \<and> approval ax i db db'"
  shows "step_kind ax db db'"
proof -
  have "keeps ax (only i t) db db'" by (rule keeps_request [OF assms(1) assms(2)])
  then show ?thesis using assms(3) unfolding step_kind_def by blast
qed

lemma kind_create:
  assumes "in_request (create_tripwire ax now auth i hex body) db = (db', res)"
    and "i \<notin> ad_id ` set (db_deps db)" and "ai_typed ax db"
  shows "step_kind ax db db'"
proof (cases "db' = db")
  case False
  then obtain a where "create_tripwire ax now auth i hex body db = (db', Inr a)" using in_request_ok [OF assms(1)] by blast
  from create_drafts [OF assms(2) this assms(3)] show ?thesis by (auto simp: step_kind_def creates_def)
qed (simp add: step_kind_def)

lemma kind_deps: "db_deps db' = db_deps db \<Longrightarrow> step_kind ax db db'"
  using keeps_deps by (auto simp: step_kind_def)

lemma kind_plain_request:
  "in_request h db = (db', res) \<Longrightarrow> (\<And>a. h db = (db', Inr a) \<Longrightarrow> db_deps db' = db_deps db) \<Longrightarrow> step_kind ax db db'"
  using in_request_ok [of h db db' res] by (auto intro: kind_deps)

lemma kind_step: "ai_step ax rp mp w w' \<Longrightarrow> ai_typed ax (snd (snd w)) \<Longrightarrow> step_kind ax (snd (snd w)) (snd (snd w'))"
proof (induction rule: ai_step.induct)
  case (step_create i db now auth hex body db' res rs ms)
  then show ?case by (auto intro: kind_create)
next
  case (step_submit auth i db db' res rs ms)
  then show ?case by (auto intro!: kind_request [OF step_submit(1), where t = AiAwaitingApproval] keeps_submit_endpoint)
next
  case (step_reject auth i db db' res rs ms)
  then show ?case by (auto intro!: kind_request [OF step_reject(1), where t = AiRejected] keeps_reject_endpoint)
next
  case (step_approve auth i db db' res rs ms)
  then have "approval ax i db db'" unfolding approval_def by blast
  then show ?case by (auto intro!: kind_request [OF step_approve(1), where t = AiApproved] keeps_approve)
next
  case (step_deploy auth j i db db' res rs ms)
  then show ?case by (auto intro!: kind_request [OF step_deploy(1), where t = AiDeploying] keeps_deploy_endpoint)
next
  case (step_retire auth j i db db' res rs ms)
  then show ?case by (auto intro!: kind_request [OF step_retire(1), where t = AiRetiring] keeps_retire_endpoint)
next
  case (step_worker now batch w w' n)
  then show ?case by (cases w; cases w') (auto simp: step_kind_def intro: keeps_worker)
next
  case (step_event gd clock now auth rq body nonces creds db nonces' creds' db' res rs ms)
  then show ?case by (auto intro: kind_deps ingest_ai_event_deps)
next
  case (step_rag_connector auth i kind nm index namespace secret db db' res rs ms)
  have "db_deps db' = db_deps db" if "create_rag_endpoint ax auth i kind nm index namespace secret db = (db', Inr a)" for a
    using that by (auto simp: create_rag_endpoint_def create_rag_row_def Let_def split: if_splits)
  with step_rag_connector(1) show ?case unfolding snd_conv by (rule kind_plain_request)
next
  case (step_mcp_connector auth i nm server transport msecret db db' res' rs ms)
  have "db_deps db' = db_deps db" if "create_mcp_endpoint ax auth i nm server transport msecret db = (db', Inr a)" for a
    using that by (auto simp: create_mcp_endpoint_def create_mcp_row_def Let_def split: if_splits)
  with step_mcp_connector(1) show ?case unfolding snd_conv by (rule kind_plain_request)
next
  case (step_rag_test rs now auth i db db' res'' ms)
  have "db_deps db' = db_deps db" if "test_rag_endpoint ax rp rs now auth i db = (db', Inr a)" for a
    using that by (auto simp: test_rag_endpoint_def set_rag_status_def Let_def split: if_splits sum.splits option.splits)
  with step_rag_test(1) show ?case unfolding snd_conv by (rule kind_plain_request)
next
  case (step_mcp_test ms now auth i db db' res'' rs)
  have "db_deps db' = db_deps db" if "test_mcp_endpoint ax mp ms now auth i db = (db', Inr a)" for a
    using that by (auto simp: test_mcp_endpoint_def set_mcp_status_def Let_def split: if_splits sum.splits option.splits)
  with step_mcp_test(1) show ?case unfolding snd_conv by (rule kind_plain_request)
qed

lemma kind_typed: "step_kind ax db db' \<Longrightarrow> ai_typed ax db \<Longrightarrow> ai_typed ax db'"
  by (auto simp: step_kind_def creates_def keeps_def)


lemma empty_typed: "ai_typed ax empty_ai_db"
  by (simp add: ai_typed_def empty_ai_db_def db_of_def)

subsection \<open>What a step does to one deployment\<close>

lemma ai_to_can: "(ai_to S)\<^sup>*\<^sup>* s t \<Longrightarrow> ai_can\<^sup>*\<^sup>* s t"
  by (erule rtranclp_mono [THEN predicate2D, rotated]) (auto simp: ai_to_def)

text \<open>The last edge of a path ends in an allowed status, at its table's gate.\<close>

lemma ai_to_last:
  assumes "(ai_to S)\<^sup>*\<^sup>* s t" and "s \<noteq> t"
  shows "t \<in> S \<and> (\<exists>r. (ai_to S)\<^sup>*\<^sup>* s r \<and> ai_can r t)"
  using assms by (cases rule: rtranclp.cases) (auto simp: ai_to_def)

lemma moves_to:
  assumes "moves T a b" and "b i = Some t" and "a i \<noteq> Some t"
  obtains s r where "a i = Some s" "(ai_to (T i))\<^sup>*\<^sup>* s r" "ai_can r t" "t \<in> T i"
proof -
  have m: "case a i of Some s \<Rightarrow> (\<exists>t. b i = Some t \<and> (ai_to (T i))\<^sup>*\<^sup>* s t) | None \<Rightarrow> b i = None"
    using assms(1) by (simp add: moves_def)
  then obtain s where s: "a i = Some s" "(ai_to (T i))\<^sup>*\<^sup>* s t" using assms(2) by (cases "a i") auto
  then have "s \<noteq> t" using assms(3) by auto
  from ai_to_last [OF s(2) this] show thesis using that s(1) by blast
qed

definition lifecycle_step :: "(uuid \<Rightarrow> ai_status option) \<Rightarrow> (uuid \<Rightarrow> ai_status option) \<Rightarrow> bool" where
  "lifecycle_step a a' \<longleftrightarrow> (\<forall>i. case a i of
      None \<Rightarrow> a' i = None \<or> a' i = Some AiDraft
    | Some s \<Rightarrow> (\<exists>t. a' i = Some t \<and> ai_can\<^sup>*\<^sup>* s t))"

lemma moves_lifecycle: "moves T a b \<Longrightarrow> lifecycle_step a b"
  unfolding lifecycle_step_def
proof
  fix i
  assume "moves T a b"
  then have "case a i of Some s \<Rightarrow> (\<exists>t. b i = Some t \<and> (ai_to (T i))\<^sup>*\<^sup>* s t) | None \<Rightarrow> b i = None"
    by (simp add: moves_def)
  then show "case a i of None \<Rightarrow> b i = None \<or> b i = Some AiDraft | Some s \<Rightarrow> (\<exists>t. b i = Some t \<and> ai_can\<^sup>*\<^sup>* s t)"
    by (cases "a i") (auto dest: ai_to_can)
qed

lemma kind_lifecycle: "step_kind ax db db' \<Longrightarrow> ai_typed ax db \<Longrightarrow> lifecycle_step (statuses db) (statuses db')"
  by (auto simp: step_kind_def creates_def keeps_def lifecycle_step_def [of _ "(_)(_ := _)"] split: option.splits intro: moves_lifecycle)

lemma only_iff [simp]: "t \<in> only i u k \<longleftrightarrow> k = i \<and> t = u"
  by (simp add: only_def)

text \<open>Deployed only from deploying, by the worker; deploying only from approved; approved only by an approval.\<close>

lemma path_stays: "(ai_to S)\<^sup>*\<^sup>* s r \<Longrightarrow> r \<notin> S \<Longrightarrow> s = r"
  using ai_to_last by metis

lemma kind_enters:
  assumes "step_kind ax db db'" and "ai_typed ax db" and "statuses db' i = Some t" and "statuses db i \<noteq> Some t"
    and "t \<in> {AiDeployed, AiDeploying, AiApproved}"
  shows "(t = AiDeployed \<longrightarrow> statuses db i = Some AiDeploying) \<and> (t = AiDeploying \<longrightarrow> statuses db i = Some AiApproved) \<and>
    (t = AiApproved \<longrightarrow> statuses db i = Some AiAwaitingApproval \<and> approval ax i db db')"
proof -
  have gate: "ai_can r AiDeployed \<Longrightarrow> r = AiDeploying" "ai_can r AiDeploying \<Longrightarrow> r = AiApproved"
    "ai_can r AiApproved \<Longrightarrow> r = AiAwaitingApproval" for r
    using ai_gates by (auto simp: ai_can_def)
  from assms(1) consider "creates ax db db'" | "keeps ax on_worker db db'"
    | j u where "keeps ax (only j u) db db'"
        "u \<in> {AiAwaitingApproval, AiRejected, AiDeploying, AiRetiring} \<or> u = AiApproved \<and> approval ax j db db'"
    unfolding step_kind_def by blast
  then show ?thesis
  proof cases
    case 1
    then show ?thesis using assms(3-5) by (auto simp: creates_def split: if_splits)
  next
    case 2
    then have "moves on_worker (statuses db) (statuses db')" using assms(2) by (simp add: keeps_def)
    from moves_to [OF this assms(3,4)] obtain s r where
      p: "statuses db i = Some s" "(ai_to (on_worker i))\<^sup>*\<^sup>* s r" "ai_can r t" "t \<in> on_worker i" by metis
    then have t: "t = AiDeployed" using assms(5) by (auto simp: on_worker_def)
    then have "r = AiDeploying" using gate p(3) by simp
    then have "s = AiDeploying" using path_stays [OF p(2)] by (simp add: on_worker_def)
    then show ?thesis using p(1) t by simp
  next
    case 3
    then have "moves (only j u) (statuses db) (statuses db')" using assms(2) by (simp add: keeps_def)
    from moves_to [OF this assms(3,4)] obtain s r where
      p: "statuses db i = Some s" "(ai_to (only j u i))\<^sup>*\<^sup>* s r" "ai_can r t" "t \<in> only j u i" by metis
    then have t: "t = u" "i = j" by auto
    have "r \<noteq> t" using p(3) assms(5) by (auto simp: ai_can_def)
    then have "s = r" using path_stays [OF p(2)] t by simp
    then show ?thesis using p(1,3) t 3(2) assms(5) gate by auto
  qed
qed

subsection \<open>The system properties\<close>


text \<open>A run of the system: \<open>w\<close>, then the worlds \<open>ws\<close>; \<open>db_at\<close> is the database after \<open>n\<close> steps.\<close>

definition db_at :: "('r, 'm) ai_world list \<Rightarrow> nat \<Rightarrow> ai_db" where
  "db_at ws n = snd (snd (ws ! n))"

definition status_at :: "('r, 'm) ai_world list \<Rightarrow> nat \<Rightarrow> uuid \<Rightarrow> ai_status option" where
  "status_at ws n = statuses (db_at ws n)"

lemma run_nth: "run_from step w ws \<Longrightarrow> n < length ws \<Longrightarrow> step ((w # ws) ! n) ((w # ws) ! Suc n)"
  by (induction step w ws arbitrary: n rule: run_from.induct) (auto simp: nth_Cons split: nat.splits)

lemma run_typed:
  assumes "ai_typed ax (snd (snd w))" and "run_from (ai_step ax rp mp) w ws"
  shows "n \<le> length ws \<Longrightarrow> ai_typed ax (db_at (w # ws) n)"
proof (induction n)
  case 0
  then show ?case using assms(1) by (simp add: db_at_def)
next
  case (Suc n)
  then have n: "n < length ws" and ih: "ai_typed ax (snd (snd ((w # ws) ! n)))" by (simp_all add: db_at_def)
  show ?case unfolding db_at_def by (rule kind_typed [OF kind_step [OF run_nth [OF assms(2) n] ih] ih])
qed

lemma run_kind:
  assumes "ai_typed ax (snd (snd w))" and "run_from (ai_step ax rp mp) w ws" and "n < length ws"
  shows "step_kind ax (db_at (w # ws) n) (db_at (w # ws) (Suc n)) \<and> ai_typed ax (db_at (w # ws) n)"
proof -
  have t: "ai_typed ax (db_at (w # ws) n)" using run_typed [OF assms(1,2)] assms(3) by simp
  then show ?thesis using kind_step [OF run_nth [OF assms(2,3)]] by (simp add: db_at_def)
qed

lemma first_entry: "\<not> P 0 \<Longrightarrow> P (n :: nat) \<Longrightarrow> \<exists>m < n. \<not> P m \<and> P (Suc m)"
proof (induction n)
  case (Suc n)
  then show ?case by (cases "P n") (auto intro: less_SucI)
qed simp

text \<open>A deployment reaches one of the three guarded statuses in a step of the run, which is the one it takes.\<close>

lemma run_enters:
  assumes "ai_typed ax (snd (snd w))" and "run_from (ai_step ax rp mp) w ws" and "n \<le> length ws"
    and "status_at (w # ws) n i = Some t" and "status_at (w # ws) 0 i \<in> {None, Some AiDraft}"
    and "t \<in> {AiDeployed, AiDeploying, AiApproved}"
  obtains m where "m < n" "status_at (w # ws) (Suc m) i = Some t"
    "t = AiDeployed \<Longrightarrow> status_at (w # ws) m i = Some AiDeploying"
    "t = AiDeploying \<Longrightarrow> status_at (w # ws) m i = Some AiApproved"
    "t = AiApproved \<Longrightarrow> status_at (w # ws) m i = Some AiAwaitingApproval \<and> approval ax i (db_at (w # ws) m) (db_at (w # ws) (Suc m))"
proof -
  have "status_at (w # ws) 0 i \<noteq> Some t" using assms(5,6) by auto
  then obtain m where m: "m < n" "status_at (w # ws) m i \<noteq> Some t" "status_at (w # ws) (Suc m) i = Some t"
    using first_entry [of "\<lambda>k. status_at (w # ws) k i = Some t" n] assms(4) by blast
  have "m < length ws" using m(1) assms(3) by simp
  from run_kind [OF assms(1,2) this] have k: "step_kind ax (db_at (w # ws) m) (db_at (w # ws) (Suc m))"
    and ty: "ai_typed ax (db_at (w # ws) m)" by simp_all
  show thesis
    using kind_enters [OF k ty _ _ assms(6), of i] m by (intro that [of m]) (auto simp: status_at_def)
qed

text \<open>
  C10. The system refines the closed state machine: along every run of requests and worker runs each step
  leaves an unknown deployment unknown or creates it as a draft, and moves every known one along the transition
  table; and a deployment that was unknown or a draft when the run began and is deploying or deployed when it ends
  was approved in an approval request while it awaited approval, later moved from approved to deploying, and,
  when it is deployed, still later from deploying to deployed.
\<close>

theorem ai_system_refines_lifecycle:
  assumes "ai_typed ax (snd (snd w))" and "run_from (ai_step ax rp mp) w ws"
  shows "(\<forall>n < length ws. lifecycle_step (status_at (w # ws) n) (status_at (w # ws) (Suc n))) \<and>
    (\<forall>i. status_at (w # ws) 0 i \<in> {None, Some AiDraft} \<longrightarrow>
      status_at (w # ws) (length ws) i \<in> {Some AiDeploying, Some AiDeployed} \<longrightarrow>
      (\<exists>l m. l < m \<and> m < length ws \<and>
         status_at (w # ws) l i = Some AiAwaitingApproval \<and> status_at (w # ws) (Suc l) i = Some AiApproved \<and>
         approval ax i (db_at (w # ws) l) (db_at (w # ws) (Suc l)) \<and>
         status_at (w # ws) m i = Some AiApproved \<and> status_at (w # ws) (Suc m) i = Some AiDeploying \<and>
         (status_at (w # ws) (length ws) i = Some AiDeployed \<longrightarrow>
           (\<exists>n. m < n \<and> n < length ws \<and> status_at (w # ws) n i = Some AiDeploying \<and> status_at (w # ws) (Suc n) i = Some AiDeployed))))"
proof (intro conjI allI impI)
  fix n assume "n < length ws"
  from run_kind [OF assms this] show "lifecycle_step (status_at (w # ws) n) (status_at (w # ws) (Suc n))"
    unfolding status_at_def using kind_lifecycle by blast
next
  fix i assume start: "status_at (w # ws) 0 i \<in> {None, Some AiDraft}"
    and fin: "status_at (w # ws) (length ws) i \<in> {Some AiDeploying, Some AiDeployed}"
  obtain k where k: "k \<le> length ws" "status_at (w # ws) k i = Some AiDeploying"
    "status_at (w # ws) (length ws) i = Some AiDeployed \<Longrightarrow> k < length ws \<and> status_at (w # ws) (Suc k) i = Some AiDeployed"
  proof (cases "status_at (w # ws) (length ws) i = Some AiDeployed")
    case True
    obtain n where n: "n < length ws" "status_at (w # ws) (Suc n) i = Some AiDeployed" "status_at (w # ws) n i = Some AiDeploying"
      by (rule run_enters [OF assms order.refl True start]) simp_all
    show thesis by (rule that [of n]) (use n in simp_all)
  next
    case False
    then show thesis using fin by (intro that [of "length ws"]) simp_all
  qed
  obtain m where m: "m < k" "status_at (w # ws) (Suc m) i = Some AiDeploying" "status_at (w # ws) m i = Some AiApproved"
    by (rule run_enters [OF assms k(1,2) start]) simp_all
  obtain l where l: "l < m" "status_at (w # ws) (Suc l) i = Some AiApproved" "status_at (w # ws) l i = Some AiAwaitingApproval"
      "approval ax i (db_at (w # ws) l) (db_at (w # ws) (Suc l))"
    by (rule run_enters [OF assms _ m(3) start]) (use k(1) m(1) in simp_all)
  have "m < length ws" using m(1) k(1) by simp
  then show "\<exists>l m. l < m \<and> m < length ws \<and>
         status_at (w # ws) l i = Some AiAwaitingApproval \<and> status_at (w # ws) (Suc l) i = Some AiApproved \<and>
         approval ax i (db_at (w # ws) l) (db_at (w # ws) (Suc l)) \<and>
         status_at (w # ws) m i = Some AiApproved \<and> status_at (w # ws) (Suc m) i = Some AiDeploying \<and>
         (status_at (w # ws) (length ws) i = Some AiDeployed \<longrightarrow>
           (\<exists>n. m < n \<and> n < length ws \<and> status_at (w # ws) n i = Some AiDeploying \<and> status_at (w # ws) (Suc n) i = Some AiDeployed))"
    using l m k by blast
qed

definition drafted :: ai_dep where
  "drafted = demo_tripwire\<lparr>ad_status := AiDraft, ad_asset := None, ad_vhash := None, ad_monitoring := None, ad_deployed := None,
     ad_requested := Some 5,
     ad_preview := Some (mk_preview id ''4'' RagDocument ''2'' ''kb'' ''support_runbook'' demo_token [] [] [] [] None)\<rparr>"

definition submitted_db :: ai_db where
  "submitted_db = fst (in_request (submit_tripwire demo_ai_env demo_caller 4) (db_of [drafted]))"

definition approved_db :: ai_db where
  "approved_db = fst (in_request (approve_tripwire demo_ai_env (demo_caller\<lparr>ctx_key_id := Some 6\<rparr>) 4) submitted_db)"


lemma drafted_typed: "ai_typed demo_ai_env (db_of [drafted])"
  by (simp add: ai_typed_def row_ok_def db_of_def drafted_def demo_tripwire_def)


text \<open>A run: the draft is submitted, approved by another actor and requested to be deployed.\<close>

definition requested_db :: ai_db where
  "requested_db = fst (in_request (deploy_tripwire demo_ai_env demo_caller 20 4) approved_db)"

definition draft_world :: "ai_db \<Rightarrow> (fake_rag, fake_mcp) ai_world" where
  "draft_world db = (\<lparr>fr_collections = [], fr_fail = False\<rparr>, \<lparr>fm_resources = [], fm_fail = False\<rparr>, db)"

lemma draft_steps:
  "run_from (ai_step demo_ai_env rp mp) (draft_world (db_of [drafted]))
     [draft_world submitted_db, draft_world approved_db, draft_world requested_db]"
proof -
  have a: "ai_step demo_ai_env rp mp (draft_world (db_of [drafted])) (draft_world submitted_db)"
    unfolding draft_world_def submitted_db_def by (rule step_submit [OF prod.collapse [symmetric]])
  have b: "ai_step demo_ai_env rp mp (draft_world submitted_db) (draft_world approved_db)"
    unfolding draft_world_def approved_db_def by (rule step_approve [OF prod.collapse [symmetric]])
  have c: "ai_step demo_ai_env rp mp (draft_world approved_db) (draft_world requested_db)"
    unfolding draft_world_def requested_db_def by (rule step_deploy [OF prod.collapse [symmetric]])
  show ?thesis using a b c by simp
qed

theorem ai_system_refines_lifecycle_witness:
  "statuses requested_db 4 = Some AiDeploying \<and>
   (\<exists>l < 3. approval demo_ai_env 4 (([db_of [drafted], submitted_db, approved_db, requested_db]) ! l)
      (([db_of [drafted], submitted_db, approved_db, requested_db]) ! Suc l))"
proof -
  let ?w = "draft_world (db_of [drafted])"
  let ?ws = "[draft_world submitted_db, draft_world approved_db, draft_world requested_db]"
  have 1: "ai_typed demo_ai_env (snd (snd ?w))" using drafted_typed by (simp add: draft_world_def)
  have 2: "statuses (db_of [drafted]) 4 = Some AiDraft" "statuses requested_db 4 = Some AiDeploying" by code_simp+
  have at: "db_at (?w # ?ws) n = [db_of [drafted], submitted_db, approved_db, requested_db] ! n" if "n < 4" for n
    using that by (auto simp: db_at_def draft_world_def numeral_eq_Suc less_Suc_eq)
  have s: "status_at (?w # ?ws) 0 4 \<in> {None, Some AiDraft}"
    "status_at (?w # ?ws) (length ?ws) 4 \<in> {Some AiDeploying, Some AiDeployed}"
    using 2 at [of 0] at [of 3] by (simp_all add: status_at_def numeral_3_eq_3)
  note runs = ai_system_refines_lifecycle [OF 1 draft_steps [of "fake_rag_port id" "fake_mcp_port id"], THEN conjunct2,
      THEN spec, THEN mp, OF s(1), THEN mp, OF s(2)]
  then obtain l m where "l < m" "m < length ?ws" "approval demo_ai_env 4 (db_at (?w # ?ws) l) (db_at (?w # ?ws) (Suc l))"
    by (elim exE conjE) (rule that)
  moreover have "length ?ws = 3" by simp
  ultimately have "l < 3 \<and> approval demo_ai_env 4 ([db_of [drafted], submitted_db, approved_db, requested_db] ! l)
      ([db_of [drafted], submitted_db, approved_db, requested_db] ! Suc l)"
    using at [of l] at [of "Suc l"] by simp
  then show ?thesis using 2(2) by blast
qed

subsection \<open>With the in-memory adapters\<close>

lemma fake_rag_delete_eq:
  "fake_rag_delete spec c a h s = (fst (rag_remove (c, a) h s), Inr (snd (rag_remove (c, a) h s)))"
  by (simp add: rag_remove_def fake_rag_delete_def split: prod.splits)

lemma retiring_moves: "ai_can AiRetiring AiRetired" "ai_can AiRetiring AiDriftDetected" "ai_can AiRetiring AiFailed"
  by (simp_all add: ai_can_def)

lemma after_delete_result:
  assumes "find_ai (ad_id r) db = Some r" and "ad_status r = AiRetiring"
    and "settle db (after_delete now org r (Inr d) db) = (db', res)"
  shows "\<exists>x. find_ai (ad_id r) db' = Some x \<and> ad_status x = (if dlr_drift d then AiDriftDetected else AiRetired) \<and>
    ad_monitoring x = ad_monitoring r"
proof -
  have u: "find_ai (ad_id r) (service_audit org k ev meta (update_ai (ad_id r) f db)) = Some (f r)"
    if "\<And>x. ad_id (f x) = ad_id x" for k ev meta f
    using assms(1) find_ai_map [OF that] by (simp add: find_started)
  have t: "ai_transition r t f db = Inr (update_ai (ad_id r) (\<lambda>x. f (x\<lparr>ad_status := t\<rparr>)) db)"
    if "ai_can AiRetiring t" for t f
    using that assms(2) by (simp add: ai_transition_def ai_assert_def)
  show ?thesis
    using assms(3) by (auto simp: after_delete_def service_move_def t retiring_moves settle_def u split: if_splits)
qed

lemma delete_rag_fake:
  assumes "delete_rag ax (fake_rag_port sha) now org r a expected (rs, db) = ((rs', db'), Inr ())"
  shows "rs' = fst (rag_remove (ad_collection r, a) expected rs)"
    and "settle db (after_delete now org r (Inr (snd (rag_remove (ad_collection r, a) expected rs))) db) = (db', Inr ())"
  using assms by (auto simp: delete_rag_def fake_rag_port_def fake_rag_delete_eq Let_def
      split: sum.splits option.splits prod.splits)

lemma find_by_trace_update:
  assumes "\<And>x. ad_org (f x) = ad_org x \<and> ad_trace (f x) = ad_trace x"
  shows "find_by_trace org t (update_ai i f db) =
    map_option (\<lambda>x. if ad_id x = i then f x else x) (find_by_trace org t db)"
proof -
  have "find (\<lambda>r. ad_org r = org \<and> ad_trace r = t) (map (\<lambda>r. if ad_id r = i then f r else r) rs) =
      map_option (\<lambda>x. if ad_id x = i then f x else x) (find (\<lambda>r. ad_org r = org \<and> ad_trace r = t) rs)" for rs
    using assms by (induction rs) auto
  then show ?thesis by (simp add: find_by_trace_def update_ai_def)
qed

lemma after_delete_trace:
  assumes "settle db (after_delete now org r (Inr d) db) = (db', res)" and "find_by_trace o' t db = Some y"
  shows "\<exists>z. find_by_trace o' t db' = Some z \<and> ad_monitoring z = ad_monitoring y"
proof -
  have a: "find_by_trace o' t (service_audit org k ev meta d0) = find_by_trace o' t d0" for k ev meta d0
    by (simp add: find_by_trace_def)
  have u: "\<exists>z. find_by_trace o' t (update_ai i f db) = Some z \<and> ad_monitoring z = ad_monitoring y"
    if "\<And>x. ad_org (f x) = ad_org x \<and> ad_trace (f x) = ad_trace x" "\<And>x. ad_monitoring (f x) = ad_monitoring x" for i f
    using find_by_trace_update [OF that(1)] that(2) assms(2) by simp
  show ?thesis using assms
    by (auto simp: after_delete_def settle_def service_move_def ai_transition_def and_then_def a u split: sum.splits if_splits)
qed

text \<open>
  Retirement removes the own document only: when the worker deletes the document of a retiring
  deployment from the vector store, every other document stays as it was, and either the document is gone
  and the deployment retired, or the stored document is not the one that was deployed, nothing has been
  removed and the deployment is marked as drifted.
\<close>

theorem retirement_removes_own_asset_only:
  assumes "delete_rag ax (fake_rag_port sha) now org r a expected (rs, db) = ((rs', db'), Inr ())"
    and "find_ai (ad_id r) db = Some r" and "ad_status r = AiRetiring"
  shows "(\<forall>k. k \<noteq> (ad_collection r, a) \<longrightarrow> rag_look rs' k = rag_look rs k) \<and>
    (statuses db' (ad_id r) = Some AiRetired \<and> rag_look rs' (ad_collection r, a) = None \<or>
     statuses db' (ad_id r) = Some AiDriftDetected \<and> rag_look rs' = rag_look rs \<and>
       (\<exists>x. rag_look rs (ad_collection r, a) = Some x \<and> fa_hash x \<noteq> expected))"
proof -
  let ?k = "(ad_collection r, a)"
  note rs = delete_rag_fake(1) [OF assms(1)]
  obtain x where x: "find_ai (ad_id r) db' = Some x"
      "ad_status x = (if dlr_drift (snd (rag_remove ?k expected rs)) then AiDriftDetected else AiRetired)"
    using after_delete_result [OF assms(2,3) delete_rag_fake(2) [OF assms(1)]] by blast
  have others: "\<forall>k. k \<noteq> ?k \<longrightarrow> rag_look rs' k = rag_look rs k"
    using rag_assets.remove_only_that_key rs by blast
  have st: "statuses db' (ad_id r) = Some (ad_status x)" using x(1) by (simp add: statuses_def)
  show ?thesis
  proof (cases "\<exists>y. rag_look rs ?k = Some y \<and> fa_hash y \<noteq> expected")
    case True
    then have "dlr_drift (snd (rag_remove ?k expected rs))" by (simp only: rag_assets.remove_drift_iff)
    moreover have "rag_look rs' = rag_look rs" using True rag_assets.remove_foreign [of rs ?k expected] rs by auto
    ultimately show ?thesis using True others st x(2) by auto
  next
    case False
    then have "\<not> dlr_drift (snd (rag_remove ?k expected rs))" using rag_assets.remove_drift_iff by metis
    moreover have "rag_look rs' ?k = None"
    proof (cases "rag_look rs ?k")
      case None
      then show ?thesis using rag_assets.remove_foreign [of rs ?k expected] rs by auto
    next
      case (Some y)
      with False have "fa_hash y = expected" by blast
      then show ?thesis using rag_assets.remove_owned [OF Some] rs by auto
    qed
    ultimately show ?thesis using others st x(2) by auto
  qed
qed

definition retiring :: ai_dep where
  "retiring = demo_tripwire\<lparr>ad_status := AiRetiring\<rparr>"

definition retiring_db :: ai_db where
  "retiring_db = (db_of [retiring])\<lparr>db_rag := [\<lparr>rk_id = 2, rk_org = 7, rk_type = ''x'', rk_name = ''kb'', rk_secret = ''s'',
     rk_key_version = ''1'', rk_index = ''kb'', rk_namespace = None, rk_status = ''active'', rk_actor = None, rk_tested = None,
     rk_error = None\<rparr>]\<rparr>"

definition vector_store :: fake_rag where
  "vector_store = \<lparr>fr_collections = [(''kb'', [(''a'', \<lparr>fa_hash = ''h'', fa_trace = demo_token, fa_metadata = []\<rparr>),
     (''b'', \<lparr>fa_hash = ''x'', fa_trace = [], fa_metadata = []\<rparr>)])], fr_fail = False\<rparr>"

lemma demo_delete:
  obtains rs' db' where
    "delete_rag demo_ai_env (fake_rag_port id) 9 7 retiring ''a'' ''h'' (vector_store, retiring_db) = ((rs', db'), Inr ())"
    "statuses db' 4 = Some AiRetired"
proof -
  let ?x = "delete_rag demo_ai_env (fake_rag_port id) 9 7 retiring ''a'' ''h'' (vector_store, retiring_db)"
  have "snd ?x = Inr () \<and> statuses (snd (fst ?x)) 4 = Some AiRetired" by code_simp
  then show ?thesis using that [of "fst (fst ?x)" "snd (fst ?x)"] by (simp add: prod_eq_iff)
qed

lemma retiring_found: "find_ai (ad_id retiring) retiring_db = Some retiring" "ad_status retiring = AiRetiring"
  by (simp_all add: find_ai_def retiring_db_def db_of_def retiring_def demo_tripwire_def)

theorem retirement_removes_own_asset_only_witness:
  "\<exists>rs' db'. statuses db' 4 = Some AiRetired \<and> rag_look rs' (''kb'', ''a'') = None \<and>
     rag_look rs' (''kb'', ''b'') = rag_look vector_store (''kb'', ''b'')"
proof -
  obtain rs' db' where d: "delete_rag demo_ai_env (fake_rag_port id) 9 7 retiring ''a'' ''h'' (vector_store, retiring_db) =
      ((rs', db'), Inr ())" and st: "statuses db' 4 = Some AiRetired"
    by (rule demo_delete)
  have i: "ad_id retiring = 4" "ad_collection retiring = ''kb''" by (simp_all add: retiring_def demo_tripwire_def)
  from retirement_removes_own_asset_only [OF d retiring_found] st show ?thesis unfolding i by auto
qed

text \<open>
  A retired tripwire is still trusted: retirement leaves the activation time in place, so once the
  worker has deleted a monitored document and retired its deployment, an event for its trace is accepted.
\<close>

theorem retired_tripwire_still_trusted:
  assumes "delete_rag ax (fake_rag_port sha) now org r a expected (rs, db) = ((rs', db'), Inr ())"
    and "find_by_trace org (aib_trace body) db = Some r" and "ad_monitoring r \<noteq> None"
  shows "is_ok (snd (accept_ai_event gd later org et monitor body db'))"
proof -
  obtain z where "find_by_trace org (aib_trace body) db' = Some z" "ad_monitoring z = ad_monitoring r"
    using after_delete_trace [OF delete_rag_fake(2) [OF assms(1)] assms(2)] by blast
  then show ?thesis using assms(3) by (simp add: accept_ai_event_def Let_def)
qed

theorem retired_tripwire_still_trusted_witness:
  "\<exists>db'. statuses db' 4 = Some AiRetired \<and> is_ok (snd (accept_ai_event demo_guard 11 7 TraceInAnswer None demo_ai_body db'))"
proof -
  obtain rs' db' where d: "delete_rag demo_ai_env (fake_rag_port id) 9 7 retiring ''a'' ''h'' (vector_store, retiring_db) =
      ((rs', db'), Inr ())" and st: "statuses db' 4 = Some AiRetired"
    by (rule demo_delete)
  have "find_by_trace 7 (aib_trace demo_ai_body) retiring_db = Some retiring" "ad_monitoring retiring \<noteq> None"
    by (simp_all add: find_by_trace_def retiring_db_def db_of_def retiring_def demo_tripwire_def demo_ai_body_def)
  from retired_tripwire_still_trusted [OF d this] st show ?thesis by blast
qed

end
