(* ===== verification/Json_Flat.thy ===== *)
theory Json_Flat
  imports Text_Util Repo_Paths
begin

text \<open>
  \<open>json.dumps\<close> and \<open>json.loads\<close> on a flat object, a dictionary from texts to scalars, as the honey-record
  repository uses them for primary keys, inserted rows and connector secrets. A character is a code
  point below 256. Reading is partial: on a nested value, a float, or a \<open>\u\<close> escape from 256 on the
  library returns a value outside the model, and the reader returns \<open>None\<close> as it does on malformed text.
\<close>

datatype cell = VStr string | VInt int | VBool bool | VNull

type_synonym row_values = "(string \<times> cell) list"

subsection \<open>Writing\<close>

definition hex_digit :: "nat \<Rightarrow> char" where
  "hex_digit d = (if d < 10 then char_of (48 + d) else char_of (87 + d))"

definition short_escapes :: "(char \<times> char) list" where
  "short_escapes = [(CHR 34, CHR 34), (CHR 92, CHR 92), (CHR 10, CHR ''n''), (CHR 13, CHR ''r''), (CHR 9, CHR ''t''),
     (CHR 12, CHR ''f''), (CHR 8, CHR ''b'')]"

definition json_char :: "char \<Rightarrow> string" where
  "json_char c =
     (case map_of short_escapes c of
        Some e \<Rightarrow> [CHR 92, e]
      | None \<Rightarrow> (let n = (of_char c :: nat) in
          if 32 \<le> n \<and> n \<le> 126 then [c]
          else [CHR 92, CHR ''u'', CHR ''0'', CHR ''0'', hex_digit (n div 16), hex_digit (n mod 16)]))"

definition json_string :: "string \<Rightarrow> string" where
  "json_string s = CHR 34 # concat (map json_char s) @ [CHR 34]"

fun json_cell :: "cell \<Rightarrow> string" where
  "json_cell (VStr s) = json_string s"
| "json_cell (VInt n) = int_str n"
| "json_cell (VBool b) = (if b then ''true'' else ''false'')"
| "json_cell VNull = ''null''"

definition json_member :: "string \<times> cell \<Rightarrow> string" where
  "json_member m = json_string (fst m) @ '': '' @ json_cell (snd m)"

definition json_dumps :: "row_values \<Rightarrow> string" where
  "json_dumps d = ''{'' @ join_with '', '' (map json_member d) @ ''}''"

subsection \<open>Reading\<close>

definition json_space :: "char \<Rightarrow> bool" where
  "json_space c \<longleftrightarrow> c \<in> {CHR '' '', CHR 9, CHR 10, CHR 13}"

definition skip_space :: "string \<Rightarrow> string" where
  "skip_space s = dropWhile json_space s"

definition unescape :: "char \<Rightarrow> char option" where
  "unescape e = (if e = CHR ''/'' then Some (CHR ''/'') else map_of (map prod.swap short_escapes) e)"

fun hex_four :: "char \<Rightarrow> char \<Rightarrow> char \<Rightarrow> char \<Rightarrow> nat option" where
  "hex_four a b c d =
     (case (hex_value a, hex_value b, hex_value c, hex_value d) of
        (Some w, Some x, Some y, Some z) \<Rightarrow> Some (((w * 16 + x) * 16 + y) * 16 + z)
      | _ \<Rightarrow> None)"

definition put_char :: "char \<Rightarrow> (string \<times> string) option \<Rightarrow> (string \<times> string) option" where
  "put_char c r = map_option (\<lambda>(s, rest). (c # s, rest)) r"

text \<open>The rest of a string literal, after its opening quote.\<close>

fun string_body :: "string \<Rightarrow> (string \<times> string) option" where
  "string_body [] = None"
| "string_body (c # s) =
     (if c = CHR 34 then Some ([], s)
      else if c = CHR 92 then
        (case s of
           [] \<Rightarrow> None
         | e # s1 \<Rightarrow>
             if e = CHR ''u'' then
               (case s1 of
                  w # x # y # z # s2 \<Rightarrow>
                    (case hex_four w x y z of
                       None \<Rightarrow> None
                     | Some n \<Rightarrow> if n < 256 then put_char (char_of n) (string_body s2) else None)
                | _ \<Rightarrow> None)
             else (case unescape e of None \<Rightarrow> None | Some u \<Rightarrow> put_char u (string_body s1)))
      else if (of_char c :: nat) < 32 then None
      else put_char c (string_body s))"

definition is_digit :: "char \<Rightarrow> bool" where
  "is_digit c \<longleftrightarrow> (let n = (of_char c :: nat) in 48 \<le> n \<and> n \<le> 57)"

definition digits_value :: "string \<Rightarrow> nat" where
  "digits_value s = fold (\<lambda>c n. 10 * n + (of_char c - 48)) s 0"

definition read_nat :: "string \<Rightarrow> (nat \<times> string) option" where
  "read_nat s =
     (case s of
        [] \<Rightarrow> None
      | c # s1 \<Rightarrow>
          if c = CHR ''0'' then Some (0, s1)
          else if is_digit c then Some (digits_value (takeWhile is_digit s), dropWhile is_digit s)
          else None)"

definition read_cell :: "string \<Rightarrow> (cell \<times> string) option" where
  "read_cell s =
     (case s of
        [] \<Rightarrow> None
      | c # s1 \<Rightarrow>
          if c = CHR 34 then map_option (map_prod VStr id) (string_body s1)
          else if startswith s ''null'' then Some (VNull, drop 4 s)
          else if startswith s ''true'' then Some (VBool True, drop 4 s)
          else if startswith s ''false'' then Some (VBool False, drop 5 s)
          else if c = CHR ''-'' then map_option (map_prod (\<lambda>n. VInt (- int n)) id) (read_nat s1)
          else map_option (map_prod (\<lambda>n. VInt (int n)) id) (read_nat s))"

text \<open>One member: the key, the colon and the value, with the space the reader skips around them.\<close>

definition read_member :: "string \<Rightarrow> ((string \<times> cell) \<times> string) option" where
  "read_member s =
     (case s of
        [] \<Rightarrow> None
      | c # s1 \<Rightarrow>
          if c \<noteq> CHR 34 then None
          else (case string_body s1 of
            None \<Rightarrow> None
          | Some (k, s2) \<Rightarrow>
              (case skip_space s2 of
                 [] \<Rightarrow> None
               | d # s3 \<Rightarrow>
                   if d \<noteq> CHR '':'' then None
                   else map_option (\<lambda>(v, s4). ((k, v), skip_space s4)) (read_cell (skip_space s3)))))"

lemma skip_space_le: "length (skip_space s) \<le> length s"
  by (simp add: skip_space_def length_dropWhile_le)

lemma string_body_less: "string_body s = Some (k, r) \<Longrightarrow> length r < length s"
  by (induction s arbitrary: k r rule: string_body.induct)
    (fastforce simp: put_char_def split: if_splits list.splits option.splits)+

lemma read_nat_less: "read_nat s = Some (n, r) \<Longrightarrow> length r < length s"
  using length_dropWhile_le [of is_digit "tl s"] by (auto simp: read_nat_def split: list.splits if_splits)

lemma read_cell_less: "read_cell s = Some (v, r) \<Longrightarrow> length r < length s"
  by (auto simp: read_cell_def split: list.splits if_splits dest!: string_body_less read_nat_less)

lemma read_member_less: "read_member s = Some (m, r) \<Longrightarrow> length r < length s"
proof -
  assume m: "read_member s = Some (m, r)"
  then obtain c s1 k s2 d s3 v s4 where s: "s = c # s1" and k: "string_body s1 = Some (k, s2)"
      and d: "skip_space s2 = d # s3" and v: "read_cell (skip_space s3) = Some (v, s4)" and r: "r = skip_space s4"
    by (auto simp: read_member_def split: list.splits if_splits option.splits prod.splits)
  have "length s3 < length s2" using d skip_space_le [of s2] by simp
  moreover have "length s4 < length s3" using read_cell_less [OF v] skip_space_le [of s3] by simp
  ultimately show ?thesis using s r string_body_less [OF k] skip_space_le [of s4] by simp
qed

text \<open>The members of an object, after its opening brace; a repeated key keeps its place and takes the later value.\<close>

function read_members :: "string \<Rightarrow> row_values \<Rightarrow> (row_values \<times> string) option" where
  "read_members s d =
     (case read_member s of
        None \<Rightarrow> None
      | Some ((k, v), r) \<Rightarrow>
          (let d1 = AList.update k v d in
           case r of
             [] \<Rightarrow> None
           | c # r1 \<Rightarrow>
               if c = CHR '','' then read_members (skip_space r1) d1
               else if c = CHR ''}'' then Some (d1, r1) else None))"
  by pat_completeness auto
termination
proof (relation "measure (\<lambda>(s, d). length s)")
  show "wf (measure (\<lambda>(s :: string, d :: row_values). length s))" by simp
qed (auto dest!: read_member_less intro: le_less_trans [OF skip_space_le])

declare read_members.simps [simp del]

definition json_loads :: "string \<Rightarrow> row_values option" where
  "json_loads s =
     (case skip_space s of
        [] \<Rightarrow> None
      | c # s1 \<Rightarrow>
          if c \<noteq> CHR ''{'' then None
          else (case skip_space s1 of
            [] \<Rightarrow> None
          | d # s2 \<Rightarrow>
              if d = CHR ''}'' then (if skip_space s2 = [] then Some [] else None)
              else (case read_members (d # s2) [] of
                None \<Rightarrow> None
              | Some (row, rest) \<Rightarrow> if skip_space rest = [] then Some row else None)))"

subsection \<open>Reading back what was written\<close>

lemma hex_digit_value: "d < 16 \<Longrightarrow> hex_value (hex_digit d) = Some d"
  by (simp add: hex_value_def hex_digit_def Let_def)

lemma string_body_char: "string_body (json_char c @ s) = put_char c (string_body s)"
proof (cases "map_of short_escapes c")
  case (Some e)
  have "\<forall>(c, e) \<in> set short_escapes. e \<noteq> CHR ''u'' \<and> unescape e = Some c" by code_simp
  then have "e \<noteq> CHR ''u''" "unescape e = Some c" using map_of_SomeD [OF Some] by blast+
  with Some show ?thesis by (simp add: json_char_def)
next
  case None
  then have q: "c \<noteq> CHR 34" "c \<noteq> CHR 92" by (auto simp: short_escapes_def)
  show ?thesis
  proof (cases "32 \<le> (of_char c :: nat) \<and> (of_char c :: nat) \<le> 126")
    case True
    with None q show ?thesis by (simp add: json_char_def)
  next
    case False
    obtain n :: nat where n: "n = of_char c" by simp
    then have lt: "n < 256" by simp
    then have h: "hex_value (hex_digit (n div 16)) = Some (n div 16)" "hex_value (hex_digit (n mod 16)) = Some (n mod 16)"
      by (intro hex_digit_value; simp)+
    have z: "hex_value (CHR ''0'') = Some 0" by code_simp
    have c: "char_of n = c" using n by simp
    have j: "json_char c = [CHR 92, CHR ''u'', CHR ''0'', CHR ''0'', hex_digit (n div 16), hex_digit (n mod 16)]"
      using None False n by (auto simp: json_char_def Let_def)
    have d: "n div 16 * 16 + n mod 16 = n" by simp
    show ?thesis unfolding j using lt by (simp add: h z c d)
  qed
qed

lemma string_body_string: "string_body (concat (map json_char s) @ CHR 34 # r) = Some (s, r)"
  by (induction s) (simp_all add: string_body_char put_char_def)

lemma is_digit_nat_str: "c \<in> set (nat_str n) \<Longrightarrow> is_digit c"
  using nat_str_digits by (simp add: is_digit_def)

lemma digits_value_snoc: "digits_value (s @ [c]) = 10 * digits_value s + (of_char c - 48)"
  by (simp add: digits_value_def)

lemma digits_value_nat_str: "digits_value (nat_str n) = n"
proof (induction n rule: less_induct)
  case (less n)
  show ?case
  proof (cases "n < 10")
    case True
    then show ?thesis by (simp add: nat_str.simps [of n] digits_value_def)
  next
    case False
    then have "digits_value (nat_str (n div 10)) = n div 10" using less by simp
    then show ?thesis using False by (simp add: nat_str.simps [of n] digits_value_snoc)
  qed
qed

lemma nat_str_zero: "nat_str n = CHR ''0'' # t \<Longrightarrow> n = 0 \<and> t = []"
proof (induction n arbitrary: t rule: less_induct)
  case (less n)
  show ?case
  proof (cases "n < 10")
    case True
    then have "char_of (48 + n) = CHR ''0''" and t: "t = []" using less.prems by (simp_all add: nat_str.simps [of n])
    moreover have "(CHR ''0'' :: char) = char_of (48 + (0 :: nat))" by code_simp
    ultimately show ?thesis using digit_inj [of n 0] True by simp
  next
    case False
    then obtain u where "nat_str (n div 10) = CHR ''0'' # u"
      using less.prems by (cases "nat_str (n div 10)") (auto simp: nat_str.simps [of n])
    then have "n div 10 = 0" using less.IH [of "n div 10"] False by simp
    then show ?thesis using False by simp
  qed
qed

text \<open>A number ends where no digit follows.\<close>

definition stops :: "string \<Rightarrow> bool" where
  "stops r \<longleftrightarrow> (case r of [] \<Rightarrow> True | c # _ \<Rightarrow> \<not> is_digit c)"

lemma stops_while: "stops r \<Longrightarrow> takeWhile is_digit r = [] \<and> dropWhile is_digit r = r"
  by (cases r) (auto simp: stops_def)

lemma read_nat_str: "stops r \<Longrightarrow> read_nat (nat_str n @ r) = Some (n, r)"
proof -
  assume r: "stops r"
  obtain c t where ct: "nat_str n = c # t" using nat_str_not_Nil by (metis list.exhaust)
  show ?thesis
  proof (cases "c = CHR ''0''")
    case True
    then show ?thesis using ct nat_str_zero [of n t] by (simp add: read_nat_def)
  next
    case False
    have dig: "\<forall>x \<in> set (nat_str n). is_digit x" using is_digit_nat_str by blast
    then have "takeWhile is_digit (nat_str n @ r) = nat_str n" "dropWhile is_digit (nat_str n @ r) = r"
      using stops_while [OF r] by (simp_all add: takeWhile_append2 dropWhile_append2)
    then show ?thesis using False dig ct digits_value_nat_str [of n] by (simp add: read_nat_def)
  qed
qed

lemma digit_head: "nat_str n = c # t \<Longrightarrow> is_digit c"
  using is_digit_nat_str [of c n] by simp

lemma digit_not: "is_digit c \<Longrightarrow> c \<notin> {CHR 34, CHR ''n'', CHR ''t'', CHR ''f'', CHR ''-'', CHR ''{'', CHR '','', CHR ''}''}"
  by (auto simp: is_digit_def)

lemma read_cell_json: "stops r \<Longrightarrow> read_cell (json_cell v @ r) = Some (v, r)"
proof (cases v)
  case (VStr s)
  then show ?thesis by (simp add: read_cell_def json_string_def string_body_string)
next
  case (VInt z)
  assume r: "stops r"
  show ?thesis
  proof (cases "z < 0")
    case True
    then show ?thesis using VInt read_nat_str [OF r, of "nat (- z)"]
      by (simp add: read_cell_def int_str_def startswith_def)
  next
    case False
    obtain c t where ct: "nat_str (nat z) = c # t" using nat_str_not_Nil by (metis list.exhaust)
    have "read_nat (c # t @ r) = Some (nat z, r)" using read_nat_str [OF r, of "nat z"] ct by simp
    then show ?thesis using VInt False ct digit_not [OF digit_head [OF ct]]
      by (simp add: read_cell_def int_str_def startswith_def)
  qed
qed (auto simp: read_cell_def startswith_def)

lemma skip_space_stay: "\<not> json_space c \<Longrightarrow> skip_space (c # s) = c # s"
  by (simp add: skip_space_def)

lemma skip_space_one: "skip_space (CHR '' '' # s) = skip_space s"
  by (simp add: skip_space_def json_space_def)

lemma json_cell_head: obtains c t where "json_cell v = c # t" "\<not> json_space c"
proof (cases v)
  case (VInt z)
  show ?thesis
  proof (cases "z < 0")
    case True
    then show ?thesis using VInt that by (simp add: int_str_def json_space_def)
  next
    case False
    obtain c t where ct: "nat_str (nat z) = c # t" using nat_str_not_Nil by (metis list.exhaust)
    then have "\<not> json_space c" using digit_head [OF ct] by (auto simp: is_digit_def json_space_def)
    then show ?thesis using VInt False ct that by (simp add: int_str_def)
  qed
next
  case (VBool b)
  then show ?thesis using that by (cases b) (simp_all add: json_space_def)
qed (use that in \<open>auto simp: json_string_def json_space_def\<close>)

lemma skip_space_cell: "skip_space (json_cell v @ r) = json_cell v @ r"
  by (rule json_cell_head [of v]) (simp add: skip_space_stay)

lemma read_member_json:
  assumes "stops r" shows "read_member (json_member m @ r) = Some (m, skip_space r)"
proof -
  have "json_member m @ r = CHR 34 # concat (map json_char (fst m)) @ CHR 34 # CHR '':'' # CHR '' '' # json_cell (snd m) @ r"
    by (simp add: json_member_def json_string_def)
  moreover have "skip_space (CHR '':'' # s) = CHR '':'' # s" for s by (simp add: skip_space_stay json_space_def)
  ultimately show ?thesis
    by (simp add: read_member_def string_body_string skip_space_one skip_space_cell read_cell_json [OF assms])
qed

lemma update_new: "k \<notin> fst ` set d \<Longrightarrow> AList.update k v d = d @ [(k, v)]"
  by (induction d) auto

lemma json_member_head: "skip_space (json_member m @ r) = json_member m @ r"
  by (simp add: json_member_def json_string_def skip_space_stay json_space_def)

lemma read_members_json:
  assumes "ms \<noteq> []" and "distinct (map fst (acc @ ms))"
  shows "read_members (join_with '', '' (map json_member ms) @ ''}'') acc = Some (acc @ ms, [])"
  using assms
proof (induction ms arbitrary: acc)
  case (Cons m ms)
  obtain k v where m: "m = (k, v)" by fastforce
  have up: "AList.update k v acc = acc @ [(k, v)]" using Cons.prems m by (auto intro: update_new)
  show ?case
  proof (cases ms)
    case Nil
    have "read_member (json_member m @ ''}'') = Some (m, ''}'')"
      using read_member_json [of "''}''" m] by (simp add: stops_def is_digit_def skip_space_stay json_space_def)
    then show ?thesis using Nil m up by (simp add: read_members.simps [of "json_member (k, v) @ _"])
  next
    case (Cons n ns)
    obtain rest where rest: "rest = join_with '', '' (map json_member ms) @ ''}''" by simp
    have sp: "skip_space (CHR '','' # s) = CHR '','' # s" for s by (simp add: skip_space_stay json_space_def)
    have "read_member (json_member m @ CHR '','' # CHR '' '' # rest) = Some (m, CHR '','' # CHR '' '' # rest)"
      using read_member_json [of "CHR '','' # CHR '' '' # rest" m] by (simp add: stops_def is_digit_def sp)
    moreover have "skip_space (CHR '' '' # rest) = rest"
      unfolding rest Cons by (cases ns) (simp_all add: skip_space_one json_member_head)
    moreover have "read_members rest (acc @ [(k, v)]) = Some (acc @ m # ms, [])"
      unfolding rest using Cons.IH [of "acc @ [m]"] Cons.prems Cons m by simp
    ultimately show ?thesis
      using m up rest Cons by (simp add: read_members.simps [of "json_member (k, v) @ _"])
  qed
qed simp

lemma json_dumps_loads: "distinct (map fst d) \<Longrightarrow> json_loads (json_dumps d) = Some d"
proof (cases d)
  case Nil
  then show ?thesis by (simp add: json_dumps_def json_loads_def skip_space_stay json_space_def) (simp add: skip_space_def)
next
  case (Cons m ms)
  assume dist: "distinct (map fst d)"
  obtain rest where rest: "rest = join_with '', '' (map json_member d) @ ''}''" by simp
  have "\<exists>t. rest = CHR 34 # t" unfolding rest Cons by (cases ms) (simp_all add: json_member_def json_string_def)
  then obtain t where t: "rest = CHR 34 # t" ..
  have "read_members rest [] = Some (d, [])" unfolding rest using read_members_json [of d "[]"] dist Cons by simp
  then show ?thesis unfolding json_dumps_def using rest [symmetric] t
    by (simp add: json_loads_def skip_space_stay json_space_def) (simp add: skip_space_def)
qed

end
