(* ===== verification/Honey_Rows.thy ===== *)
theory Honey_Rows
  imports Lifecycle Json_Flat
begin

text \<open>
  The pure part of the database honey records: the deployment state machine and the schema model
  (\<open>models/domain/database_honey.py\<close>), column classification, table policy, suitability, row generation
  and preview (\<open>services/database/classification.py\<close>, \<open>policy.py\<close>, \<open>suitability.py\<close>, \<open>generation.py\<close>,
  \<open>preview.py\<close>). SHA-256 and \<open>uuid5\<close> are arguments; a float value is never generated and is left out of
  the value type (\<open>cell\<close> of \<open>Json_Flat\<close>).
\<close>

subsection \<open>The state machine\<close>

datatype honey_status = HDraft | HAwaitingApproval | HApproved | HRejected | HDeploying | HDeployed
  | HDeployedUnmonitored | HVerificationFailed | HFailedActivation | HFailed | HCancelled | HDriftDetected
  | HRetiring | HRetired | HRollbackPending | HRolledBack | HExpired

fun honey_value :: "honey_status \<Rightarrow> string" where
  "honey_value HDraft = ''draft''"
| "honey_value HAwaitingApproval = ''awaiting_approval''"
| "honey_value HApproved = ''approved''"
| "honey_value HRejected = ''rejected''"
| "honey_value HDeploying = ''deploying''"
| "honey_value HDeployed = ''deployed''"
| "honey_value HDeployedUnmonitored = ''deployed_unmonitored''"
| "honey_value HVerificationFailed = ''verification_failed''"
| "honey_value HFailedActivation = ''failed_activation''"
| "honey_value HFailed = ''failed''"
| "honey_value HCancelled = ''cancelled''"
| "honey_value HDriftDetected = ''drift_detected''"
| "honey_value HRetiring = ''retiring''"
| "honey_value HRetired = ''retired''"
| "honey_value HRollbackPending = ''rollback_pending''"
| "honey_value HRolledBack = ''rolled_back''"
| "honey_value HExpired = ''expired''"

fun honey_table :: "honey_status \<Rightarrow> honey_status list" where
  "honey_table HDraft = [HAwaitingApproval, HCancelled]"
| "honey_table HAwaitingApproval = [HApproved, HRejected, HCancelled]"
| "honey_table HApproved = [HDeploying, HCancelled]"
| "honey_table HDeploying = [HDeployed, HDeployedUnmonitored, HVerificationFailed, HFailedActivation, HFailed]"
| "honey_table HDeployed = [HRetiring, HRollbackPending, HDriftDetected, HExpired]"
| "honey_table HDeployedUnmonitored = [HRetiring, HRollbackPending, HExpired]"
| "honey_table HVerificationFailed = [HRollbackPending]"
| "honey_table HFailedActivation = [HRollbackPending, HRetiring]"
| "honey_table HFailed = [HAwaitingApproval, HCancelled]"
| "honey_table HDriftDetected = [HRetiring, HRollbackPending]"
| "honey_table HRetiring = [HRetired, HDriftDetected, HFailed]"
| "honey_table HRollbackPending = [HRolledBack, HDriftDetected, HFailed]"
| "honey_table HExpired = [HRetiring]"
| "honey_table HRejected = []"
| "honey_table HCancelled = []"
| "honey_table HRetired = []"
| "honey_table HRolledBack = []"

datatype honey_transition_error = InvalidHoneyTransition honey_status honey_status

definition honey_message :: "honey_status \<Rightarrow> honey_status \<Rightarrow> string" where
  "honey_message current target =
     ''invalid honey deployment transition: '' @ honey_value current @ '' -> '' @ honey_value target"

definition honey_can :: "honey_status \<Rightarrow> honey_status \<Rightarrow> bool" where
  "honey_can current target \<longleftrightarrow> target \<in> set (honey_table current)"

definition honey_assert :: "honey_status \<Rightarrow> honey_status \<Rightarrow> honey_transition_error + unit" where
  "honey_assert current target =
     (if \<not> honey_can current target then Inl (InvalidHoneyTransition current target) else Inr ())"

interpretation honey_lc: lifecycle honey_table honey_can honey_assert InvalidHoneyTransition
  by unfold_locales (auto simp: honey_can_def honey_assert_def)

subsection \<open>Schema\<close>

datatype column_sensitivity = ColIdentifier | ColName | ColEmail | ColTimestamp | ColStatus | ColMonetary
  | ColReference | ColFreeText | ColForeignKey | ColSecret | ColCredential | ColRegulated | ColPayment | ColHealth
  | ColAuthentication | ColUnknown

definition blocking_sensitivities :: "column_sensitivity set" where
  "blocking_sensitivities = {ColSecret, ColCredential, ColRegulated, ColPayment, ColHealth, ColAuthentication}"

record column_info =
  ci_name :: string
  ci_type :: string
  ci_nullable :: bool
  ci_foreign :: bool
  ci_default :: bool
  ci_generated :: bool
  ci_max :: "nat option"
  ci_enum :: "string list"
  ci_primary :: bool
  ci_sensitivity :: column_sensitivity
  ci_comment :: "string option"

record table_info =
  ti_schema :: string
  ti_table :: string
  ti_columns :: "column_info list"
  ti_primary :: "string list"
  ti_triggers :: bool
  ti_comment :: "string option"

record schema_snapshot =
  ss_version :: string
  ss_tables :: "table_info list"
  ss_hash :: string

subsection \<open>Column classification\<close>

definition column_rules :: "(column_sensitivity \<times> string list) list" where
  "column_rules =
     [(ColSecret, [''password'', ''passwd'', ''pwd'', ''secret'', ''private_key'', ''privkey'']),
      (ColCredential, [''api_key'', ''apikey'', ''access_key'', ''client_secret'', ''hash'']),
      (ColAuthentication, [''token'', ''session'', ''auth'', ''otp'', ''mfa'', ''totp'']),
      (ColRegulated, [''ssn'', ''social_security'', ''national_id'', ''passport'', ''tax_id'', ''tin'', ''govt'', ''license'']),
      (ColPayment, [''card'', ''cc_num'', ''pan'', ''cvv'', ''cvc'', ''iban'', ''routing'', ''account_number'', ''bank'']),
      (ColHealth, [''health'', ''medical'', ''diagnosis'', ''patient'', ''prescription'']),
      (ColEmail, [''email'', ''e_mail'']),
      (ColName, [''first_name'', ''last_name'', ''full_name'', ''name'']),
      (ColMonetary, [''amount'', ''price'', ''total'', ''balance'', ''cost'', ''salary'']),
      (ColReference, [''reference'', ''ref_no'', ''invoice'', ''order_no'', ''number'', ''code'']),
      (ColStatus, [''status'', ''state'', ''stage'']),
      (ColFreeText, [''description'', ''notes'', ''comment'', ''body'', ''message'', ''text'']),
      (ColTimestamp, [''_at'', ''date'', ''time'', ''timestamp'', ''created'', ''updated''])]"

definition or_blank :: "string option \<Rightarrow> string" where
  "or_blank v = (case v of None \<Rightarrow> [] | Some s \<Rightarrow> s)"

definition classify_column :: "string \<Rightarrow> string \<Rightarrow> string option \<Rightarrow> bool \<Rightarrow> bool \<Rightarrow> column_sensitivity" where
  "classify_column nm dtype comment foreign primary =
     (let t = py_lower (nm @ '' '' @ or_blank comment) in
      case find (\<lambda>(s, ks). list_ex (\<lambda>k. contains t k) ks) column_rules of
        Some (s, _) \<Rightarrow> s
      | None \<Rightarrow>
          if foreign then ColForeignKey
          else if primary \<or> py_lower nm \<in> {''id'', ''uuid'', ''guid''} \<or> endswith (py_lower nm) ''_id'' then ColIdentifier
          else if py_lower dtype \<in> {''timestamp'', ''timestamptz'', ''date'', ''time''} then ColTimestamp
          else if py_lower dtype \<in> {''numeric'', ''money'', ''decimal''} then ColMonetary
          else ColUnknown)"

definition column_class :: "column_info \<Rightarrow> column_sensitivity" where
  "column_class c =
     (if ci_sensitivity c \<noteq> ColUnknown then ci_sensitivity c
      else classify_column (ci_name c) (ci_type c) (ci_comment c) (ci_foreign c) (ci_primary c))"

subsection \<open>Table policy\<close>

record eligibility =
  el_deployable :: bool
  el_reasons :: "string list"
  el_triggers :: bool
  el_required :: "string list"
  el_blocked :: "string list"

text \<open>\<open>{c.name: _classified(c) for c in table.columns}\<close>: the last column of a name, at its first position.\<close>

definition columns_by_name :: "table_info \<Rightarrow> (string \<times> column_info) list" where
  "columns_by_name t = fold (\<lambda>c d. AList.update (ci_name c) (c\<lparr>ci_sensitivity := column_class c\<rparr>) d) (ti_columns t) []"

definition pk_insertable :: "table_info \<Rightarrow> (string \<times> column_info) list \<Rightarrow> bool" where
  "pk_insertable t cols \<longleftrightarrow> list_all (\<lambda>n. case map_of cols n of
       None \<Rightarrow> False
     | Some c \<Rightarrow> py_lower (ci_type c) = ''uuid'' \<or> ci_default c \<or> ci_generated c) (ti_primary t)"

definition required_column :: "table_info \<Rightarrow> column_info \<Rightarrow> bool" where
  "required_column t c \<longleftrightarrow> \<not> ci_nullable c \<and> \<not> ci_default c \<and> \<not> ci_generated c \<and> \<not> ci_foreign c \<and> ci_name c \<notin> set (ti_primary t)"

definition evaluate_table :: "string list \<Rightarrow> string list \<Rightarrow> table_info \<Rightarrow> eligibility" where
  "evaluate_table allowed_schemas blocked_patterns t =
     (let cols = map snd (columns_by_name t);
          haystack = py_lower (ti_table t @ '' '' @ or_blank (ti_comment t));
          q = [CHR 39];
          r1 = (if ti_schema t \<notin> set allowed_schemas
                then [''schema '' @ q @ ti_schema t @ q @ '' is not in the allowlist''] else []);
          r2 = (case find (\<lambda>p. contains haystack p) blocked_patterns of
                  None \<Rightarrow> []
                | Some p \<Rightarrow> [''table name/comment matches blocked pattern '' @ q @ p @ q]);
          blocked = sort (remdups (map ci_name (filter (\<lambda>c. ci_sensitivity c \<in> blocking_sensitivities) cols)));
          r3 = (if blocked \<noteq> [] then [''table has sensitive columns: '' @ join_with '', '' blocked] else []);
          r4 = (if ti_triggers t then [''table has triggers (workflow-trigger risk); rejected by default''] else []);
          required_fk = map ci_name (filter (\<lambda>c. ci_foreign c \<and> \<not> ci_nullable c \<and> \<not> ci_default c) cols);
          r5 = (if required_fk \<noteq> [] then [''table requires foreign keys: '' @ join_with '', '' required_fk] else []);
          r6 = (if \<not> pk_insertable t (columns_by_name t) then [''primary key needs a manual non-UUID value; rejected''] else []);
          reasons = r1 @ r2 @ r3 @ r4 @ r5 @ r6
      in \<lparr>el_deployable = (reasons = []), el_reasons = reasons, el_triggers = ti_triggers t,
          el_required = map ci_name (filter (required_column t) cols), el_blocked = blocked\<rparr>)"

subsection \<open>Row generation\<close>

definition short_trace :: "string \<Rightarrow> string" where
  "short_trace trace =
     (let s = take 16 (filter (\<lambda>c. let n = (of_char c :: nat) in
          (48 \<le> n \<and> n \<le> 57) \<or> (65 \<le> n \<and> n \<le> 90) \<or> (97 \<le> n \<and> n \<le> 122)) trace)
      in if s = [] then ''trace'' else s)"

definition truncate_to :: "nat option \<Rightarrow> string \<Rightarrow> string" where
  "truncate_to limit v = (case limit of None \<Rightarrow> v | Some n \<Rightarrow> if length v \<le> n then v else take n v)"

definition synthetic_time :: string where "synthetic_time = ''2000-01-01 00:00:00+00:00''"
definition free_text :: string where "free_text = ''Synthetic DeceptiForge decoy record. Do not action.''"

text \<open>\<open>int(digest, 16)\<close> of a hexadecimal text.\<close>

definition hex_int :: "string \<Rightarrow> nat" where
  "hex_int s = fold (\<lambda>c n. 16 * n + (case hex_value c of None \<Rightarrow> 0 | Some d \<Rightarrow> d)) s 0"

record row_gen =
  rg_sha :: "string \<Rightarrow> string"
  rg_uuid5 :: "string \<Rightarrow> string"

definition value_for :: "row_gen \<Rightarrow> string \<Rightarrow> column_info \<Rightarrow> cell" where
  "value_for g trace c =
     (let s = column_class c; short = short_trace trace; dtype = py_lower (ci_type c) in
      if ci_enum c \<noteq> [] then VStr (hd (ci_enum c))
      else if dtype = ''uuid'' then VStr (rg_uuid5 g (trace @ '':'' @ ci_name c))
      else if dtype \<in> {''boolean'', ''bool''} then VBool False
      else if dtype \<in> {''timestamp'', ''timestamptz'', ''date'', ''time''} \<or> s = ColTimestamp then VStr synthetic_time
      else if dtype \<in> {''numeric'', ''money'', ''decimal'', ''real'', ''double precision''} \<or> s = ColMonetary then VInt 0
      else if dtype \<in> {''integer'', ''int'', ''bigint'', ''smallint''}
      then VInt (int (hex_int (take 8 (rg_sha g (trace @ '':'' @ ci_name c))) mod 100000))
      else if s = ColEmail then VStr (truncate_to (ci_max c) (''decoy.'' @ short @ ''@example.invalid''))
      else if s = ColName then VStr (truncate_to (ci_max c) ''Decoy Example'')
      else if s = ColReference then VStr (truncate_to (ci_max c) (''DFH-'' @ short))
      else if s = ColStatus then VStr (truncate_to (ci_max c) ''inactive'')
      else if s = ColFreeText then VStr (truncate_to (ci_max c) (free_text @ '' trace='' @ short))
      else VStr (truncate_to (ci_max c) (''decoy-'' @ short)))"

definition trace_carrier :: "column_info list \<Rightarrow> string option" where
  "trace_carrier cols =
     (case find (\<lambda>c. column_class c = ColEmail) cols of
        Some c \<Rightarrow> Some (ci_name c)
      | None \<Rightarrow> (case find (\<lambda>c. column_class c = ColReference) cols of
          Some c \<Rightarrow> Some (ci_name c)
        | None \<Rightarrow> map_option ci_name (find (\<lambda>c. column_class c = ColFreeText) cols)))"

text \<open>\<open>repr\<close> of the values, for printable ASCII text.\<close>

definition repr_char :: "char \<Rightarrow> char \<Rightarrow> string" where
  "repr_char q c =
     (if c = q \<or> c = CHR 92 then [CHR 92, c]
      else if c = CHR 10 then [CHR 92, CHR ''n'']
      else if c = CHR 13 then [CHR 92, CHR ''r'']
      else if c = CHR 9 then [CHR 92, CHR ''t'']
      else [c])"

definition repr_str :: "string \<Rightarrow> string" where
  "repr_str s =
     (let q = (if CHR 39 \<in> set s \<and> CHR 34 \<notin> set s then CHR 34 else CHR 39) in [q] @ concat (map (repr_char q) s) @ [q])"

fun repr_cell :: "cell \<Rightarrow> string" where
  "repr_cell (VStr s) = repr_str s"
| "repr_cell (VInt n) = int_str n"
| "repr_cell (VBool b) = (if b then ''True'' else ''False'')"
| "repr_cell VNull = ''None''"

definition get_cell :: "row_values \<Rightarrow> string \<Rightarrow> cell" where
  "get_cell row k = (case map_of row k of None \<Rightarrow> VNull | Some v \<Rightarrow> v)"

definition pairs_text :: "row_values \<Rightarrow> string" where
  "pairs_text row = join_with '';'' (map (\<lambda>k. k @ ''='' @ repr_cell (get_cell row k)) (sort (map fst row)))"

definition fingerprint_row :: "row_gen \<Rightarrow> string \<Rightarrow> string \<Rightarrow> row_values \<Rightarrow> string" where
  "fingerprint_row g schema table row = rg_sha g (schema @ ''.'' @ table @ '':'' @ pairs_text row)"

record generated_row =
  gr_trace :: string
  gr_columns :: "string list"
  gr_values :: row_values
  gr_fingerprint :: string

datatype honey_error = UnknownRequired string | HoneyRefused string

definition raw_columns :: "table_info \<Rightarrow> (string \<times> column_info) list" where
  "raw_columns t = fold (\<lambda>c d. AList.update (ci_name c) c d) (ti_columns t) []"

definition add_pk :: "row_gen \<Rightarrow> string \<Rightarrow> (string \<times> column_info) list \<Rightarrow> string \<Rightarrow> row_values \<Rightarrow> row_values" where
  "add_pk g trace cols pk row =
     (case map_of cols pk of
        None \<Rightarrow> row
      | Some c \<Rightarrow> if py_lower (ci_type c) = ''uuid'' \<and> \<not> (ci_default c \<or> ci_generated c)
          then AList.update pk (value_for g trace c) row else row)"

fun add_required :: "row_gen \<Rightarrow> string \<Rightarrow> (string \<times> column_info) list \<Rightarrow> string list \<Rightarrow> row_values \<Rightarrow> honey_error + row_values" where
  "add_required g trace cols [] row = Inr row"
| "add_required g trace cols (n # ns) row =
     (case map_of cols n of
        None \<Rightarrow> Inl (UnknownRequired n)
      | Some c \<Rightarrow> add_required g trace cols ns (AList.update n (value_for g trace c) row))"

text \<open>The trace carrier is sought among the columns already chosen, or in the whole table when none is.\<close>

definition carry_trace :: "row_gen \<Rightarrow> table_info \<Rightarrow> string \<Rightarrow> row_values \<Rightarrow> row_values" where
  "carry_trace g t trace row =
     (let cols = raw_columns t; present = List.map_filter (map_of cols) (map fst row) in
      case trace_carrier (if present = [] then ti_columns t else present) of
        None \<Rightarrow> row
      | Some n \<Rightarrow>
          if n = [] \<or> n \<in> set (map fst row) then row
          else (case map_of cols n of None \<Rightarrow> row | Some c \<Rightarrow> AList.update n (value_for g trace c) row))"

definition generate_row :: "row_gen \<Rightarrow> table_info \<Rightarrow> string \<Rightarrow> string list \<Rightarrow> honey_error + generated_row" where
  "generate_row g t trace required =
     (let cols = raw_columns t; row1 = fold (add_pk g trace cols) (ti_primary t) [] in
      and_then (add_required g trace cols required row1) (\<lambda>row2.
        let row = carry_trace g t trace row2 in
        Inr \<lparr>gr_trace = trace, gr_columns = sort (map fst row), gr_values = row,
             gr_fingerprint = fingerprint_row g (ti_schema t) (ti_table t) row\<rparr>))"

subsection \<open>Suitability\<close>

datatype decoy_kind = SynCustomer | SynInvoice | SynSubscription | SynSupportTicket | SynOrder | SynAccount
  | SynTransaction | SynInternalReference

fun decoy_kind_value :: "decoy_kind \<Rightarrow> string" where
  "decoy_kind_value SynCustomer = ''synthetic_customer''"
| "decoy_kind_value SynInvoice = ''synthetic_invoice''"
| "decoy_kind_value SynSubscription = ''synthetic_subscription''"
| "decoy_kind_value SynSupportTicket = ''synthetic_support_ticket''"
| "decoy_kind_value SynOrder = ''synthetic_order''"
| "decoy_kind_value SynAccount = ''synthetic_account''"
| "decoy_kind_value SynTransaction = ''synthetic_transaction''"
| "decoy_kind_value SynInternalReference = ''synthetic_internal_reference''"

definition decoy_keywords :: "(string \<times> decoy_kind) list" where
  "decoy_keywords = [(''customer'', SynCustomer), (''client'', SynCustomer), (''invoice'', SynInvoice),
     (''subscription'', SynSubscription), (''ticket'', SynSupportTicket), (''support'', SynSupportTicket),
     (''order'', SynOrder), (''account'', SynAccount), (''transaction'', SynTransaction)]"

definition decoy_for :: "table_info \<Rightarrow> decoy_kind" where
  "decoy_for t = (case find (\<lambda>(k, d). contains (py_lower (ti_table t)) k) decoy_keywords of
      None \<Rightarrow> SynInternalReference | Some (_, d) \<Rightarrow> d)"

record placement =
  pl_score :: rat
  pl_confidence :: rat
  pl_decoy :: decoy_kind
  pl_required :: "string list"
  pl_blocked :: "string list"
  pl_reasoning :: "string list"
  pl_deployable :: bool

definition round_at :: "nat \<Rightarrow> rat \<Rightarrow> rat" where
  "round_at d x = of_int (round_even (x * 10 ^ d)) / 10 ^ d"

definition score_table :: "string list \<Rightarrow> string list \<Rightarrow> table_info \<Rightarrow> placement" where
  "score_table allowed blocked t =
     (let e = evaluate_table allowed blocked t; decoy = decoy_for t in
      if \<not> el_deployable e then
        \<lparr>pl_score = 5, pl_confidence = 1 / 10, pl_decoy = decoy, pl_required = el_required e, pl_blocked = el_blocked e,
         pl_reasoning = (if el_reasons e = [] then [''not deployable''] else el_reasons e), pl_deployable = False\<rparr>
      else
        let business = (if decoy \<noteq> SynInternalReference then 80 else 55 :: rat);
            monitoring = (if trace_carrier (ti_columns t) \<noteq> None \<and> trace_carrier (ti_columns t) \<noteq> Some [] then 90 else 40);
            schema_fit = (if el_required e \<noteq> [] then 85 else 60)
        in \<lparr>pl_score = round_at 1 ((business + monitoring + schema_fit + 95 + 90) / 5),
            pl_confidence = round_at 2 (min monitoring schema_fit / 100), pl_decoy = decoy,
            pl_required = el_required e, pl_blocked = el_blocked e,
            pl_reasoning = [''eligible '' @ decoy_kind_value decoy @ '' table'',
              nat_str (length (el_required e)) @ '' required field(s) generatable'',
              if monitoring > 50 then ''trace embeddable'' else ''limited monitoring visibility''],
            pl_deployable = True\<rparr>)"

subsection \<open>Preview\<close>

text \<open>The ellipsis is its UTF-8 encoding.\<close>

definition ellipsis :: string where "ellipsis = [CHR 0xE2, CHR 0x80, CHR 0xA6]"

fun str_cell :: "cell \<Rightarrow> string" where
  "str_cell (VStr s) = s"
| "str_cell (VInt n) = int_str n"
| "str_cell (VBool b) = (if b then ''True'' else ''False'')"
| "str_cell VNull = ''None''"

definition mask :: "cell \<Rightarrow> string" where
  "mask v =
     (let t = str_cell v; p = takeWhile (\<lambda>c. c \<noteq> CHR ''@'') t in
      if CHR ''@'' \<in> set t then take 2 p @ ellipsis @ ''@'' @ drop (length p + 1) t
      else if length t \<le> 2 then ellipsis
      else take 2 t @ ellipsis @ ''('' @ nat_str (length t) @ '' chars)'')"

record honey_preview =
  hv_deployment :: string
  hv_connector :: string
  hv_schema :: string
  hv_table :: string
  hv_snapshot :: string
  hv_decoy :: decoy_kind
  hv_columns :: "string list"
  hv_masked :: "(string \<times> string) list"
  hv_trace :: string
  hv_fingerprint :: string
  hv_triggers :: bool
  hv_delete :: string
  hv_expires :: "datetime option"
  hv_registration :: "string list"
  hv_hash :: string

definition find_table :: "schema_snapshot \<Rightarrow> string \<Rightarrow> string \<Rightarrow> table_info option" where
  "find_table snap schema table = find (\<lambda>t. ti_schema t = schema \<and> ti_table t = table) (ss_tables snap)"

definition build_honey_preview ::
  "row_gen \<Rightarrow> string list \<Rightarrow> string list \<Rightarrow> string \<Rightarrow> string \<Rightarrow> schema_snapshot \<Rightarrow> string \<Rightarrow> string \<Rightarrow> decoy_kind \<Rightarrow> string \<Rightarrow>
   datetime option \<Rightarrow> honey_error + honey_preview \<times> generated_row" where
  "build_honey_preview g allowed blocked deployment_id connector_id snap schema table decoy trace expires =
     (case find_table snap schema table of
        None \<Rightarrow> Inl (HoneyRefused ''table not found in the schema snapshot'')
      | Some t \<Rightarrow>
          (let e = evaluate_table allowed blocked t in
           if \<not> el_deployable e then
             Inl (HoneyRefused (let m = join_with ''; '' (el_reasons e) in if m = [] then ''table not deployable'' else m))
           else and_then (generate_row g t trace (el_required e)) (\<lambda>row.
             Inr (\<lparr>hv_deployment = deployment_id, hv_connector = connector_id, hv_schema = schema, hv_table = table,
                   hv_snapshot = ss_hash snap, hv_decoy = decoy, hv_columns = gr_columns row,
                   hv_masked = map (\<lambda>c. (c, mask (get_cell (gr_values row) c))) (gr_columns row),
                   hv_trace = trace, hv_fingerprint = gr_fingerprint row, hv_triggers = el_triggers e,
                   hv_delete = ''DELETE by exact primary key ('' @
                     (let k = join_with '', '' (ti_primary t) in if k = [] then ''returned key'' else k) @
                     '') with a full row-value ownership check; never a broad predicate.'',
                   hv_expires = expires, hv_registration = [trace],
                   hv_hash = rg_sha g (ss_hash snap @ '':'' @ schema @ ''.'' @ table @ '':'' @ gr_fingerprint row)\<rparr>, row))))"

subsection \<open>What is written is safe\<close>

definition col_map :: "table_info \<Rightarrow> string \<Rightarrow> column_info option" where
  "col_map t n = map_of (raw_columns t) n"

lemma raw_from:
  "map_of (fold (\<lambda>c d. AList.update (ci_name c) c d) cs d) n = Some c \<Longrightarrow> (c \<in> set cs \<and> ci_name c = n) \<or> map_of d n = Some c"
  by (induction cs arbitrary: d) (fastforce simp: map_of_update split: if_splits)+

lemma col_map_from: "col_map t n = Some c \<Longrightarrow> c \<in> set (ti_columns t) \<and> ci_name c = n"
  using raw_from [of "ti_columns t" "[]" n c] by (simp add: col_map_def raw_columns_def)

lemma by_name_from:
  "(\<And>n. map_of d n = map_option f (map_of d' n)) \<Longrightarrow>
   map_of (fold (\<lambda>c d. AList.update (ci_name c) (f c) d) cs d) n =
   map_option f (map_of (fold (\<lambda>c d. AList.update (ci_name c) c d) cs d') n)"
proof (induction cs arbitrary: d d')
  case (Cons c cs)
  have "map_of (AList.update (ci_name c) (f c) d) n = map_option f (map_of (AList.update (ci_name c) c d') n)" for n
    using Cons.prems by (simp add: map_of_update)
  from Cons.IH [OF this] show ?case by simp
qed simp

definition classified :: "column_info \<Rightarrow> column_info" where
  "classified c = c\<lparr>ci_sensitivity := column_class c\<rparr>"

lemma columns_by_name_map: "map_of (columns_by_name t) n = map_option classified (col_map t n)"
  using by_name_from [of "[]" classified "[]"]
  by (simp add: columns_by_name_def raw_columns_def col_map_def classified_def [abs_def])

lemma fold_update_distinct: "distinct (map fst d) \<Longrightarrow> distinct (map fst (fold (\<lambda>c d. AList.update (ci_name c) (f c) d) cs d))"
  by (induction cs arbitrary: d) (simp_all add: distinct_update)

lemma columns_by_name_set: "c' \<in> set (map snd (columns_by_name t)) \<longleftrightarrow> (\<exists>n c. col_map t n = Some c \<and> c' = classified c)"
proof -
  have d: "distinct (map fst (columns_by_name t))"
    unfolding columns_by_name_def by (rule fold_update_distinct) simp
  have "c' \<in> set (map snd (columns_by_name t)) \<longleftrightarrow> (\<exists>n. (n, c') \<in> set (columns_by_name t))" by force
  also have "\<dots> \<longleftrightarrow> (\<exists>n. map_of (columns_by_name t) n = Some c')" using d by (simp add: map_of_eq_Some_iff)
  also have "\<dots> \<longleftrightarrow> (\<exists>n c. col_map t n = Some c \<and> c' = classified c)" unfolding columns_by_name_map by (simp add: map_option_eq_Some) blast
  finally show ?thesis .
qed

lemma classified_simps [simp]:
  "ci_name (classified c) = ci_name c" "ci_sensitivity (classified c) = column_class c"
  "required_column t (classified c) = required_column t c"
  by (simp_all add: classified_def required_column_def)

lemma required_names:
  "n \<in> set (el_required (evaluate_table allowed blocked t)) \<longleftrightarrow> (\<exists>c. col_map t n = Some c \<and> required_column t c)"
proof -
  have "n \<in> set (el_required (evaluate_table allowed blocked t)) \<longleftrightarrow>
      (\<exists>c' \<in> set (map snd (columns_by_name t)). required_column t c' \<and> n = ci_name c')"
    by (auto simp: evaluate_table_def Let_def)
  also have "\<dots> \<longleftrightarrow> (\<exists>m c. col_map t m = Some c \<and> required_column t c \<and> n = ci_name c)"
    unfolding Bex_def columns_by_name_set by (metis classified_simps(1,3))
  finally show ?thesis using col_map_from by metis
qed

lemma sort_Nil [simp]: "sort xs = [] \<longleftrightarrow> xs = []"
  by (metis length_0_conv length_sort)

lemma honey_deployable_safe:
  assumes "el_deployable (evaluate_table allowed blocked t)"
  shows "ti_schema t \<in> set allowed" and "\<not> ti_triggers t"
    and "\<forall>p \<in> set blocked. \<not> contains (py_lower (ti_table t @ '' '' @ or_blank (ti_comment t))) p"
    and "\<And>n c. col_map t n = Some c \<Longrightarrow> column_class c \<notin> blocking_sensitivities"
proof -
  have r: "filter (\<lambda>c. ci_sensitivity c \<in> blocking_sensitivities) (map snd (columns_by_name t)) = []"
    using assms by (simp add: evaluate_table_def Let_def split: if_splits)
  show "column_class c \<notin> blocking_sensitivities" if "col_map t n = Some c" for n c
  proof -
    have "classified c \<in> set (map snd (columns_by_name t))" using that columns_by_name_set by blast
    then show ?thesis using r unfolding filter_empty_conv by fastforce
  qed
  show "ti_schema t \<in> set allowed" "\<not> ti_triggers t"
    using assms by (auto simp: evaluate_table_def Let_def split: if_splits)
  show "\<forall>p \<in> set blocked. \<not> contains (py_lower (ti_table t @ '' '' @ or_blank (ti_comment t))) p"
    using assms by (auto simp: evaluate_table_def Let_def find_None_iff split: if_splits option.splits)
qed

text \<open>A row under construction: distinct columns of the table, each with its generated value.\<close>

definition row_from :: "row_gen \<Rightarrow> string \<Rightarrow> table_info \<Rightarrow> row_values \<Rightarrow> bool" where
  "row_from g trace t row \<longleftrightarrow> distinct (map fst row) \<and>
     (\<forall>n v. map_of row n = Some v \<longrightarrow> (\<exists>c. col_map t n = Some c \<and> v = value_for g trace c))"

lemma row_from_update:
  "row_from g trace t row \<Longrightarrow> col_map t n = Some c \<Longrightarrow> row_from g trace t (AList.update n (value_for g trace c) row)"
  by (auto simp: row_from_def map_of_update distinct_update)

lemma row_from_pk: "row_from g trace t row \<Longrightarrow> row_from g trace t (add_pk g trace (raw_columns t) pk row)"
  by (auto simp: add_pk_def col_map_def intro!: row_from_update split: option.splits)

lemma row_from_pks: "row_from g trace t row \<Longrightarrow> row_from g trace t (fold (add_pk g trace (raw_columns t)) pks row)"
  by (induction pks arbitrary: row) (simp_all add: row_from_pk)

lemma row_from_required:
  assumes "row_from g trace t row" and "\<forall>n \<in> set ns. col_map t n \<noteq> None"
  obtains row' where "add_required g trace (raw_columns t) ns row = Inr row'" "row_from g trace t row'"
    "set ns \<union> fst ` set row \<subseteq> fst ` set row'"
  using assms
proof (induction ns arbitrary: row thesis)
  case Nil
  then show ?case by simp
next
  case (Cons n ns)
  then obtain c where c: "col_map t n = Some c" by auto
  then have f: "row_from g trace t (AList.update n (value_for g trace c) row)"
    using Cons.prems by (intro row_from_update) auto
  obtain row' where "add_required g trace (raw_columns t) ns (AList.update n (value_for g trace c) row) = Inr row'"
      "row_from g trace t row'" "set ns \<union> fst ` set (AList.update n (value_for g trace c) row) \<subseteq> fst ` set row'"
    using Cons.IH [OF _ f] Cons.prems(3) by auto
  with c Cons.prems(1) [of row'] show ?case by (auto simp: col_map_def dom_update)
qed

lemma row_from_carry: "row_from g trace t row \<Longrightarrow> row_from g trace t (carry_trace g t trace row)"
  unfolding carry_trace_def Let_def col_map_def [symmetric]
  by (auto intro: row_from_update split: option.splits)

lemma carry_keeps: "fst ` set row \<subseteq> fst ` set (carry_trace g t trace row)"
  unfolding carry_trace_def Let_def by (auto simp: dom_update split: option.splits)

text \<open>A key the database does not supply: an insertable one is a UUID, and is written.\<close>

definition supplied_key :: "column_info \<Rightarrow> bool" where
  "supplied_key c \<longleftrightarrow> \<not> ci_default c \<and> \<not> ci_generated c"

lemma deployable_keys:
  assumes "el_deployable (evaluate_table allowed blocked t)" and "n \<in> set (ti_primary t)"
  shows "\<exists>c. col_map t n = Some c \<and> (py_lower (ci_type c) = ''uuid'' \<or> \<not> supplied_key c)"
proof -
  have "pk_insertable t (columns_by_name t)"
    using assms(1) by (simp add: evaluate_table_def Let_def split: if_splits)
  then have "case map_of (columns_by_name t) n of None \<Rightarrow> False
     | Some c \<Rightarrow> py_lower (ci_type c) = ''uuid'' \<or> ci_default c \<or> ci_generated c"
    using assms(2) by (auto simp: pk_insertable_def list_all_iff)
  then show ?thesis by (cases "col_map t n") (auto simp: columns_by_name_map classified_def supplied_key_def)
qed

lemma add_pk_keeps: "fst ` set row \<subseteq> fst ` set (add_pk g trace cols pk row)"
  by (auto simp: add_pk_def dom_update split: option.splits)

lemma add_pks_keep: "fst ` set row \<subseteq> fst ` set (fold (add_pk g trace cols) pks row)"
proof (induction pks arbitrary: row)
  case (Cons p pks)
  show ?case unfolding fold_simps by (rule subset_trans [OF add_pk_keeps Cons.IH])
qed simp

lemma add_pks_written:
  "n \<in> set pks \<Longrightarrow> map_of cols n = Some c \<Longrightarrow> py_lower (ci_type c) = ''uuid'' \<Longrightarrow> supplied_key c \<Longrightarrow>
   n \<in> fst ` set (fold (add_pk g trace cols) pks row)"
proof (induction pks arbitrary: row)
  case (Cons p pks)
  show ?case
  proof (cases "p = n")
    case True
    then have "n \<in> fst ` set (add_pk g trace cols p row)" using Cons.prems by (simp add: add_pk_def supplied_key_def dom_update)
    then show ?thesis using add_pks_keep [of "add_pk g trace cols p row" g trace cols pks] by auto
  next
    case False
    then show ?thesis using Cons by simp
  qed
qed simp

lemma honey_row_total:
  assumes "el_deployable (evaluate_table allowed blocked t)"
  obtains row where "generate_row g t trace (el_required (evaluate_table allowed blocked t)) = Inr row"
    and "row_from g trace t (gr_values row)"
    and "set (el_required (evaluate_table allowed blocked t)) \<subseteq> set (gr_columns row)"
    and "\<And>n c. n \<in> set (ti_primary t) \<Longrightarrow> col_map t n = Some c \<Longrightarrow> supplied_key c \<Longrightarrow> n \<in> set (gr_columns row)"
proof -
  let ?req = "el_required (evaluate_table allowed blocked t)"
  have r1: "row_from g trace t (fold (add_pk g trace (raw_columns t)) (ti_primary t) [])"
    by (rule row_from_pks) (simp add: row_from_def)
  have req: "\<forall>n \<in> set ?req. col_map t n \<noteq> None" using required_names by blast
  obtain row2
    where a: "add_required g trace (raw_columns t) ?req (fold (add_pk g trace (raw_columns t)) (ti_primary t) []) = Inr row2"
      and r2: "row_from g trace t row2"
      and sub: "set ?req \<union> fst ` set (fold (add_pk g trace (raw_columns t)) (ti_primary t) []) \<subseteq> fst ` set row2"
    by (rule row_from_required [OF r1 req])
  obtain row3 where row3: "row3 = carry_trace g t trace row2" by simp
  obtain row where row: "generate_row g t trace ?req = Inr row"
      and vals: "gr_values row = row3" and cols: "gr_columns row = sort (map fst row3)"
    by (simp add: generate_row_def a Let_def row3)
  have "row_from g trace t (gr_values row)" unfolding vals row3 by (rule row_from_carry [OF r2])
  moreover have "fst ` set row2 \<subseteq> fst ` set row3" unfolding row3 by (rule carry_keeps)
  then have all: "set ?req \<union> fst ` set (fold (add_pk g trace (raw_columns t)) (ti_primary t) []) \<subseteq> set (gr_columns row)"
    using sub unfolding cols set_sort set_map by (rule subset_trans [rotated])
  then have "set ?req \<subseteq> set (gr_columns row)" by (rule le_supE)
  moreover have "n \<in> set (gr_columns row)" if "n \<in> set (ti_primary t)" "col_map t n = Some c" "supplied_key c" for n c
  proof -
    have "py_lower (ci_type c) = ''uuid''" using deployable_keys [OF assms that(1)] that(2,3) by auto
    then have "n \<in> fst ` set (fold (add_pk g trace (raw_columns t)) (ti_primary t) [])"
      using add_pks_written [OF that(1)] that(2,3) unfolding col_map_def by metis
    then show ?thesis using all by blast
  qed
  ultimately show ?thesis using row by (intro that)
qed

text \<open>
  C27. The row for an eligible table is safe and complete: the table is in the schema allowlist, has no triggers
  and neither its name nor its comment contains a blocked pattern; generation never fails for the required columns
  the policy names; every column written is a column of the table whose class is none of the blocked ones and carries the value
  generated for it; and every column the database does not fill is written: the required ones, and each primary key
  column without default, which then is a UUID.
\<close>

theorem honey_row_safe_and_complete:
  assumes "el_deployable (evaluate_table allowed blocked t)"
  shows "ti_schema t \<in> set allowed \<and> \<not> ti_triggers t \<and>
    (\<forall>p \<in> set blocked. \<not> contains (py_lower (ti_table t @ '' '' @ or_blank (ti_comment t))) p) \<and>
    (\<exists>row. generate_row g t trace (el_required (evaluate_table allowed blocked t)) = Inr row \<and>
      (\<forall>(n, v) \<in> set (gr_values row). \<exists>c \<in> set (ti_columns t). ci_name c = n \<and>
         column_class c \<notin> blocking_sensitivities \<and> v = value_for g trace c) \<and>
      (\<forall>n c. map_of (raw_columns t) n = Some c \<longrightarrow> required_column t c \<longrightarrow> n \<in> set (gr_columns row)) \<and>
      (\<forall>n \<in> set (ti_primary t). \<exists>c. map_of (raw_columns t) n = Some c \<and>
         (ci_default c \<or> ci_generated c \<or> py_lower (ci_type c) = ''uuid'' \<and> n \<in> set (gr_columns row))))"
proof -
  let ?req = "el_required (evaluate_table allowed blocked t)"
  obtain row where row: "generate_row g t trace ?req = Inr row" and rf: "row_from g trace t (gr_values row)"
      and sub: "set ?req \<subseteq> set (gr_columns row)"
      and keys: "\<And>n c. n \<in> set (ti_primary t) \<Longrightarrow> col_map t n = Some c \<Longrightarrow> supplied_key c \<Longrightarrow> n \<in> set (gr_columns row)"
    using honey_row_total [OF assms, where g = g and trace = trace] by metis
  have "\<exists>c \<in> set (ti_columns t). ci_name c = n \<and> column_class c \<notin> blocking_sensitivities \<and> v = value_for g trace c"
    if "(n, v) \<in> set (gr_values row)" for n v
  proof -
    have "map_of (gr_values row) n = Some v" using that rf by (simp add: row_from_def)
    then obtain c where c: "col_map t n = Some c" "v = value_for g trace c" using rf unfolding row_from_def by blast
    then show ?thesis using honey_deployable_safe(4) [OF assms] col_map_from by blast
  qed
  moreover have "n \<in> set (gr_columns row)" if "map_of (raw_columns t) n = Some c" "required_column t c" for n c
    using that required_names [of n allowed blocked t] sub by (auto simp: col_map_def)
  moreover have "\<exists>c. map_of (raw_columns t) n = Some c \<and>
      (ci_default c \<or> ci_generated c \<or> py_lower (ci_type c) = ''uuid'' \<and> n \<in> set (gr_columns row))" if "n \<in> set (ti_primary t)" for n
    using deployable_keys [OF assms that] keys [OF that] unfolding col_map_def supplied_key_def by metis
  ultimately show ?thesis using honey_deployable_safe(1-3) [OF assms] row by blast
qed

definition demo_column :: "string \<Rightarrow> string \<Rightarrow> column_info" where
  "demo_column n ty = \<lparr>ci_name = n, ci_type = ty, ci_nullable = False, ci_foreign = False, ci_default = False,
     ci_generated = False, ci_max = None, ci_enum = [], ci_primary = (n = ''id''), ci_sensitivity = ColUnknown, ci_comment = None\<rparr>"

definition demo_table :: table_info where
  "demo_table = \<lparr>ti_schema = ''public'', ti_table = ''orders'', ti_columns = [demo_column ''id'' ''uuid'', demo_column ''email'' ''text''],
     ti_primary = [''id''], ti_triggers = False, ti_comment = None\<rparr>"

definition demo_gen :: row_gen where
  "demo_gen = \<lparr>rg_sha = id, rg_uuid5 = id\<rparr>"

lemma demo_deployable: "el_deployable (evaluate_table [''public''] [''audit''] demo_table)"
  by code_simp

theorem honey_row_safe_and_complete_witness:
  "\<exists>row. generate_row demo_gen demo_table ''DFH-1'' [''email''] = Inr row \<and> {''email''} \<subseteq> set (gr_columns row)"
proof -
  have r: "el_required (evaluate_table [''public''] [''audit''] demo_table) = [''email'']" by code_simp
  have "map_of (raw_columns demo_table) ''email'' = Some (demo_column ''email'' ''text'')" by code_simp
  moreover have "required_column demo_table (demo_column ''email'' ''text'')" by code_simp
  ultimately show ?thesis
    using honey_row_safe_and_complete [OF demo_deployable, of demo_gen "''DFH-1''"] unfolding r by blast
qed

end
