(* ===== verification/Honey_Store.thy ===== *)
theory Honey_Store
  imports Honey_Rows Encryption Access
begin

text \<open>
  The tables of the database honey records (\<open>models/records.py\<close>), the repository over them
  (\<open>repositories/database_honey.py\<close>) and the connector port with its in-memory adapter
  (\<open>services/database/connector_port.py\<close>). Primary keys, inserted rows and connector secrets are stored
  as the JSON text the code writes, the latter two encrypted; a snapshot and a preview are stored as they are
  (their columns are written and read back by the same pydantic model). Time stamps nothing reads and the
  correlation and request identifiers are left out; the creation order is the list order.
\<close>

subsection \<open>Tables\<close>

record honey_connector =
  hk_id :: uuid
  hk_org :: org_id
  hk_name :: string
  hk_host :: string
  hk_database :: string
  hk_secret :: string
  hk_key_version :: string
  hk_ssl :: string
  hk_status :: string
  hk_read_only :: bool
  hk_actor :: "uuid option"
  hk_tested :: "datetime option"
  hk_synced :: "datetime option"
  hk_error :: "string option"

record snapshot_row =
  sn_id :: uuid
  sn_org :: org_id
  sn_connector :: uuid
  sn_captured :: datetime
  sn_data :: schema_snapshot

record honey_dep =
  hd_id :: uuid
  hd_org :: org_id
  hd_connector :: uuid
  hd_snapshot :: uuid
  hd_schema :: string
  hd_table :: string
  hd_decoy :: decoy_kind
  hd_status :: honey_status
  hd_requested :: "uuid option"
  hd_approved :: "uuid option"
  hd_preview :: "honey_preview option"
  hd_monitoring :: "datetime option"
  hd_expires :: "datetime option"
  hd_deployed :: "datetime option"
  hd_retired :: "datetime option"
  hd_code :: "string option"
  hd_message :: "string option"

record honey_record =
  hr_id :: uuid
  hr_org :: org_id
  hr_dep :: uuid
  hr_trace :: string
  hr_key :: string
  hr_fingerprint :: string
  hr_values :: string
  hr_vhash :: string
  hr_status :: string
  hr_inserted :: "datetime option"
  hr_retired :: "datetime option"

datatype honey_job_type = HjExecute | HjRetire | HjRollback

datatype honey_job_status = HjPending | HjClaimed | HjDone | HjFailed

record honey_job =
  hj_id :: uuid
  hj_org :: org_id
  hj_dep :: uuid
  hj_type :: honey_job_type
  hj_status :: honey_job_status
  hj_attempts :: nat
  hj_processed :: "datetime option"

record honey_audit =
  ha_org :: org_id
  ha_dep :: "uuid option"
  ha_connector :: "uuid option"
  ha_actor :: "uuid option"
  ha_event :: string
  ha_metadata :: string

record honey_db =
  hb_connectors :: "honey_connector list"
  hb_snapshots :: "snapshot_row list"
  hb_deps :: "honey_dep list"
  hb_records :: "honey_record list"
  hb_jobs :: "honey_job list"
  hb_audit :: "honey_audit list"

datatype honey_lookup = NoConnector uuid | NoSnapshot | NoDeployment uuid

subsection \<open>Connectors and snapshots\<close>

definition create_honey_connector ::
  "cipher_port \<Rightarrow> uuid \<Rightarrow> org_id \<Rightarrow> string \<Rightarrow> string \<Rightarrow> string \<Rightarrow> row_values \<Rightarrow> string \<Rightarrow> bool \<Rightarrow> uuid option \<Rightarrow> honey_db \<Rightarrow>
   honey_db \<times> honey_connector" where
  "create_honey_connector cp i org nm host database payload ssl read_only actor db =
     (let k = \<lparr>hk_id = i, hk_org = org, hk_name = nm, hk_host = host, hk_database = database,
               hk_secret = cp_encrypt cp (json_dumps payload), hk_key_version = cp_version cp, hk_ssl = ssl,
               hk_status = ''pending'', hk_read_only = read_only, hk_actor = actor, hk_tested = None, hk_synced = None,
               hk_error = None\<rparr>
      in (db\<lparr>hb_connectors := hb_connectors db @ [k]\<rparr>, k))"

definition get_honey_connector :: "org_id \<Rightarrow> uuid \<Rightarrow> honey_db \<Rightarrow> honey_lookup + honey_connector" where
  "get_honey_connector org i db =
     (case find (\<lambda>k. hk_id k = i) (hb_connectors db) of
        None \<Rightarrow> Inl (NoConnector i)
      | Some k \<Rightarrow> if hk_org k \<noteq> org then Inl (NoConnector i) else Inr k)"

text \<open>\<open>json.loads(decrypt(...))\<close>; \<open>None\<close> when either raises.\<close>

definition resolve_honey_secret :: "cipher_port \<Rightarrow> honey_connector \<Rightarrow> row_values option" where
  "resolve_honey_secret cp k = Option.bind (cp_decrypt cp (hk_secret k)) json_loads"

definition set_connector_status ::
  "datetime \<Rightarrow> uuid \<Rightarrow> string \<Rightarrow> string option \<Rightarrow> bool \<Rightarrow> bool \<Rightarrow> honey_db \<Rightarrow> honey_db" where
  "set_connector_status now i status err tested synced db =
     db\<lparr>hb_connectors := map (\<lambda>k. if hk_id k = i
          then k\<lparr>hk_status := status, hk_error := err, hk_tested := (if tested then Some now else hk_tested k),
                 hk_synced := (if synced then Some now else hk_synced k)\<rparr> else k) (hb_connectors db)\<rparr>"

definition delete_honey_connector :: "uuid \<Rightarrow> honey_db \<Rightarrow> honey_db" where
  "delete_honey_connector i db =
     db\<lparr>hb_connectors := map (\<lambda>k. if hk_id k = i then k\<lparr>hk_status := ''revoked''\<rparr> else k) (hb_connectors db)\<rparr>"

definition add_snapshot :: "datetime \<Rightarrow> uuid \<Rightarrow> org_id \<Rightarrow> uuid \<Rightarrow> schema_snapshot \<Rightarrow> honey_db \<Rightarrow> honey_db" where
  "add_snapshot now i org connector snap db =
     db\<lparr>hb_snapshots := hb_snapshots db @ [\<lparr>sn_id = i, sn_org = org, sn_connector = connector, sn_captured = now, sn_data = snap\<rparr>]\<rparr>"

definition get_snapshot :: "org_id \<Rightarrow> uuid \<Rightarrow> honey_db \<Rightarrow> honey_lookup + schema_snapshot" where
  "get_snapshot org i db =
     (case find (\<lambda>s. sn_id s = i) (hb_snapshots db) of
        None \<Rightarrow> Inl NoSnapshot
      | Some s \<Rightarrow> if sn_org s \<noteq> org then Inl NoSnapshot else Inr (sn_data s))"

text \<open>The first row of the latest capture time.\<close>

definition latest_snapshot :: "org_id \<Rightarrow> uuid \<Rightarrow> honey_db \<Rightarrow> snapshot_row option" where
  "latest_snapshot org connector db =
     (case sort_key (\<lambda>s. - sn_captured s) (filter (\<lambda>s. sn_org s = org \<and> sn_connector s = connector) (hb_snapshots db)) of
        [] \<Rightarrow> None | s # _ \<Rightarrow> Some s)"

subsection \<open>Deployments\<close>

definition create_honey_row ::
  "uuid \<Rightarrow> org_id \<Rightarrow> uuid \<Rightarrow> uuid \<Rightarrow> string \<Rightarrow> string \<Rightarrow> decoy_kind \<Rightarrow> uuid option \<Rightarrow> datetime option \<Rightarrow> honey_db \<Rightarrow>
   honey_db \<times> honey_dep" where
  "create_honey_row i org connector snap schema table decoy actor expires db =
     (let r = \<lparr>hd_id = i, hd_org = org, hd_connector = connector, hd_snapshot = snap, hd_schema = schema, hd_table = table,
               hd_decoy = decoy, hd_status = HDraft, hd_requested = actor, hd_approved = None, hd_preview = None,
               hd_monitoring = None, hd_expires = expires, hd_deployed = None, hd_retired = None, hd_code = None,
               hd_message = None\<rparr>
      in (db\<lparr>hb_deps := hb_deps db @ [r]\<rparr>, r))"

definition find_honey :: "uuid \<Rightarrow> honey_db \<Rightarrow> honey_dep option" where
  "find_honey i db = find (\<lambda>r. hd_id r = i) (hb_deps db)"

definition get_honey :: "org_id \<Rightarrow> uuid \<Rightarrow> honey_db \<Rightarrow> honey_lookup + honey_dep" where
  "get_honey org i db =
     (case find_honey i db of
        None \<Rightarrow> Inl (NoDeployment i)
      | Some r \<Rightarrow> if hd_org r \<noteq> org then Inl (NoDeployment i) else Inr r)"

definition update_honey :: "uuid \<Rightarrow> (honey_dep \<Rightarrow> honey_dep) \<Rightarrow> honey_db \<Rightarrow> honey_db" where
  "update_honey i f db = db\<lparr>hb_deps := map (\<lambda>r. if hd_id r = i then f r else r) (hb_deps db)\<rparr>"

definition set_honey_preview :: "uuid \<Rightarrow> honey_preview \<Rightarrow> honey_db \<Rightarrow> honey_db" where
  "set_honey_preview i p db = update_honey i (\<lambda>r. r\<lparr>hd_preview := Some p\<rparr>) db"

definition load_honey_preview :: "honey_dep \<Rightarrow> honey_preview option" where
  "load_honey_preview r = hd_preview r"

definition honey_transition ::
  "honey_dep \<Rightarrow> honey_status \<Rightarrow> (honey_dep \<Rightarrow> honey_dep) \<Rightarrow> honey_db \<Rightarrow> honey_transition_error + honey_db" where
  "honey_transition r target assign db =
     and_then (honey_assert (hd_status r) target) (\<lambda>_.
       Inr (update_honey (hd_id r) (\<lambda>x. assign (x\<lparr>hd_status := target\<rparr>)) db))"

subsection \<open>Honey records\<close>

definition record_exists :: "uuid \<Rightarrow> string \<Rightarrow> honey_db \<Rightarrow> bool" where
  "record_exists dep fp db \<longleftrightarrow> list_ex (\<lambda>r. hr_dep r = dep \<and> hr_fingerprint r = fp) (hb_records db)"

text \<open>The unique constraint on deployment and fingerprint makes a second insert fail.\<close>

definition add_honey_record ::
  "cipher_port \<Rightarrow> datetime \<Rightarrow> uuid \<Rightarrow> org_id \<Rightarrow> uuid \<Rightarrow> string \<Rightarrow> row_values \<Rightarrow> string \<Rightarrow> row_values \<Rightarrow> string \<Rightarrow> honey_db \<Rightarrow>
   honey_db \<times> bool" where
  "add_honey_record cp now i org dep trace key fp vals vhash db =
     (if record_exists dep fp db then (db, False)
      else (db\<lparr>hb_records := hb_records db @ [\<lparr>hr_id = i, hr_org = org, hr_dep = dep, hr_trace = trace,
              hr_key = json_dumps key, hr_fingerprint = fp, hr_values = cp_encrypt cp (json_dumps vals),
              hr_vhash = vhash, hr_status = ''inserted'', hr_inserted = Some now, hr_retired = None\<rparr>]\<rparr>, True))"

definition records_for :: "uuid \<Rightarrow> honey_db \<Rightarrow> honey_record list" where
  "records_for dep db = filter (\<lambda>r. hr_dep r = dep) (hb_records db)"

definition decrypt_values :: "cipher_port \<Rightarrow> honey_record \<Rightarrow> row_values option" where
  "decrypt_values cp r = Option.bind (cp_decrypt cp (hr_values r)) json_loads"

definition set_record_status :: "datetime \<Rightarrow> uuid \<Rightarrow> string \<Rightarrow> honey_db \<Rightarrow> honey_db" where
  "set_record_status now i status db =
     db\<lparr>hb_records := map (\<lambda>r. if hr_id r = i
          then r\<lparr>hr_status := status, hr_retired := (if status = ''retired'' then Some now else hr_retired r)\<rparr>
          else r) (hb_records db)\<rparr>"

definition active_record_count :: "uuid \<Rightarrow> honey_db \<Rightarrow> nat" where
  "active_record_count dep db = length (filter (\<lambda>r. hr_dep r = dep \<and> hr_status r = ''inserted'') (hb_records db))"

subsection \<open>Job queue and audit\<close>

definition enqueue_honey :: "uuid \<Rightarrow> org_id \<Rightarrow> uuid \<Rightarrow> honey_job_type \<Rightarrow> honey_db \<Rightarrow> honey_db \<times> bool" where
  "enqueue_honey job_id org dep kind db =
     (if list_ex (\<lambda>j. hj_dep j = dep \<and> hj_type j = kind) (hb_jobs db) then (db, False)
      else (db\<lparr>hb_jobs := hb_jobs db @ [\<lparr>hj_id = job_id, hj_org = org, hj_dep = dep, hj_type = kind,
              hj_status = HjPending, hj_attempts = 0, hj_processed = None\<rparr>]\<rparr>, True))"

definition clear_honey_job :: "uuid \<Rightarrow> honey_job_type \<Rightarrow> honey_db \<Rightarrow> honey_db" where
  "clear_honey_job dep kind db = db\<lparr>hb_jobs := filter (\<lambda>j. \<not> (hj_dep j = dep \<and> hj_type j = kind)) (hb_jobs db)\<rparr>"

definition claim_honey :: "uuid \<Rightarrow> honey_db \<Rightarrow> honey_db \<times> honey_job list" where
  "claim_honey i db =
     (case find (\<lambda>j. hj_id j = i \<and> hj_status j = HjPending) (hb_jobs db) of
        None \<Rightarrow> (db, [])
      | Some j \<Rightarrow>
          (let c = j\<lparr>hj_status := HjClaimed, hj_attempts := hj_attempts j + 1\<rparr> in
           (db\<lparr>hb_jobs := map (\<lambda>x. if hj_id x = i then c else x) (hb_jobs db)\<rparr>, [c])))"

fun claim_honey_each :: "uuid list \<Rightarrow> honey_db \<Rightarrow> honey_db \<times> honey_job list" where
  "claim_honey_each [] db = (db, [])"
| "claim_honey_each (i # is) db =
     (let (db1, c) = claim_honey i db; (db2, cs) = claim_honey_each is db1 in (db2, c @ cs))"

definition claim_honey_jobs :: "nat \<Rightarrow> honey_db \<Rightarrow> honey_db \<times> honey_job list" where
  "claim_honey_jobs limit db =
     claim_honey_each (take limit (map hj_id (filter (\<lambda>j. hj_status j = HjPending) (hb_jobs db)))) db"

definition complete_honey_job :: "datetime \<Rightarrow> uuid \<Rightarrow> bool \<Rightarrow> honey_db \<Rightarrow> honey_db" where
  "complete_honey_job now i ok db =
     db\<lparr>hb_jobs := map (\<lambda>j. if hj_id j = i then j\<lparr>hj_status := (if ok then HjDone else HjFailed), hj_processed := Some now\<rparr>
          else j) (hb_jobs db)\<rparr>"

definition add_honey_audit ::
  "org_id \<Rightarrow> uuid option \<Rightarrow> uuid option \<Rightarrow> uuid option \<Rightarrow> string \<Rightarrow> string \<Rightarrow> honey_db \<Rightarrow> honey_db" where
  "add_honey_audit org dep connector actor ev meta db =
     db\<lparr>hb_audit := hb_audit db @ [\<lparr>ha_org = org, ha_dep = dep, ha_connector = connector, ha_actor = actor,
          ha_event = ev, ha_metadata = take 1024 meta\<rparr>]\<rparr>"

subsection \<open>The connector port\<close>

record connection_spec =
  sp_host :: string
  sp_database :: string
  sp_user :: string
  sp_password :: string
  sp_ssl :: string
  sp_connect_timeout :: nat
  sp_statement_timeout :: nat

record connection_test =
  tr_reachable :: bool
  tr_tls :: bool
  tr_authenticated :: bool
  tr_version :: string
  tr_read :: bool
  tr_write :: bool
  tr_timeout :: bool
  tr_error :: "string option"

record insert_result =
  ir_inserted :: bool
  ir_key :: row_values
  ir_verified :: bool
  ir_hash :: string

record row_delete =
  rr_deleted :: bool
  rr_drift :: bool

datatype db_error = DbError string

definition verification_hash :: "(string \<Rightarrow> string) \<Rightarrow> string \<Rightarrow> string \<Rightarrow> row_values \<Rightarrow> string" where
  "verification_hash sha schema table key = sha (schema @ ''.'' @ table @ '':'' @ pairs_text key)"

record 's honey_port =
  hp_test :: "connection_spec \<Rightarrow> 's \<Rightarrow> connection_test"
  hp_discover :: "connection_spec \<Rightarrow> string list \<Rightarrow> nat \<Rightarrow> 's \<Rightarrow> db_error + schema_snapshot"
  hp_insert :: "connection_spec \<Rightarrow> string \<Rightarrow> string \<Rightarrow> row_values \<Rightarrow> string list \<Rightarrow> 's \<Rightarrow> 's \<times> (db_error + insert_result)"
  hp_delete :: "connection_spec \<Rightarrow> string \<Rightarrow> string \<Rightarrow> row_values \<Rightarrow> row_values \<Rightarrow> 's \<Rightarrow> 's \<times> (db_error + row_delete)"

subsection \<open>The in-memory adapter\<close>

record fake_table =
  ft_info :: table_info
  ft_rows :: "(string \<times> row_values) list"
  ft_seq :: nat

record fake_database =
  fd_tables :: "((string \<times> string) \<times> fake_table) list"
  fd_version :: string
  fd_fail :: bool

definition register_table :: "table_info \<Rightarrow> fake_database \<Rightarrow> fake_database" where
  "register_table t s =
     s\<lparr>fd_tables := AList.update (ti_schema t, ti_table t) \<lparr>ft_info = t, ft_rows = [], ft_seq = 0\<rparr> (fd_tables s)\<rparr>"

definition fake_db_test :: "connection_spec \<Rightarrow> fake_database \<Rightarrow> connection_test" where
  "fake_db_test spec s =
     \<lparr>tr_reachable = True, tr_tls = (sp_ssl spec \<noteq> ''disable''), tr_authenticated = True, tr_version = fd_version s,
      tr_read = True, tr_write = \<not> fd_fail s, tr_timeout = True, tr_error = None\<rparr>"

definition fake_discover :: "(string \<Rightarrow> string) \<Rightarrow> connection_spec \<Rightarrow> string list \<Rightarrow> nat \<Rightarrow> fake_database \<Rightarrow> db_error + schema_snapshot" where
  "fake_discover sha spec allowed max_tables s =
     (let ts = take max_tables (map (ft_info \<circ> snd) (filter (\<lambda>e. fst (fst e) \<in> set allowed) (sort_key fst (fd_tables s)))) in
      Inr \<lparr>ss_version = fd_version s, ss_tables = ts,
           ss_hash = sha (join_with ''|'' (map (\<lambda>t. ti_schema t @ ''.'' @ ti_table t) ts))\<rparr>)"

text \<open>The key columns: given in the row, or numbered by the table.\<close>

fun key_columns :: "string list \<Rightarrow> row_values \<Rightarrow> row_values \<Rightarrow> nat \<Rightarrow> row_values \<times> row_values \<times> nat" where
  "key_columns [] key row sq = (key, row, sq)"
| "key_columns (c # cs) key row sq =
     (case map_of row c of
        Some v \<Rightarrow> key_columns cs (AList.update c v key) row sq
      | None \<Rightarrow> (let v = VInt (int (sq + 1)) in key_columns cs (AList.update c v key) (AList.update c v row) (sq + 1)))"

definition set_table :: "string \<Rightarrow> string \<Rightarrow> fake_table \<Rightarrow> fake_database \<Rightarrow> fake_database" where
  "set_table schema table t s = s\<lparr>fd_tables := AList.update (schema, table) t (fd_tables s)\<rparr>"

definition fake_insert ::
  "(string \<Rightarrow> string) \<Rightarrow> connection_spec \<Rightarrow> string \<Rightarrow> string \<Rightarrow> row_values \<Rightarrow> string list \<Rightarrow> fake_database \<Rightarrow>
   fake_database \<times> (db_error + insert_result)" where
  "fake_insert sha spec schema table vals pk_columns s =
     (if fd_fail s then (s, Inl (DbError ''write not permitted''))
      else case map_of (fd_tables s) (schema, table) of
        None \<Rightarrow> (s, Inl (DbError ''table not found''))
      | Some t \<Rightarrow>
          (let (key, row, sq) = key_columns pk_columns [] vals (ft_seq t); k = pairs_text key in
           if k \<in> fst ` set (ft_rows t)
           then (set_table schema table (t\<lparr>ft_seq := sq\<rparr>) s, Inl (DbError ''duplicate primary key''))
           else (set_table schema table (t\<lparr>ft_seq := sq, ft_rows := AList.update k row (ft_rows t)\<rparr>) s,
                 Inr \<lparr>ir_inserted = True, ir_key = key, ir_verified = True,
                      ir_hash = verification_hash sha schema table key\<rparr>)))"

text \<open>Python's \<open>==\<close> on these values: the truth values are the numbers 0 and 1.\<close>

fun cell_number :: "cell \<Rightarrow> int option" where
  "cell_number (VInt n) = Some n"
| "cell_number (VBool b) = Some (if b then 1 else 0)"
| "cell_number _ = None"

definition same_cell :: "cell \<Rightarrow> cell \<Rightarrow> bool" where
  "same_cell a b \<longleftrightarrow> a = b \<or> (cell_number a \<noteq> None \<and> cell_number a = cell_number b)"

definition row_matches :: "row_values \<Rightarrow> row_values \<Rightarrow> bool" where
  "row_matches stored expected \<longleftrightarrow> list_all (\<lambda>(c, v). same_cell (get_cell stored c) v) expected"

definition fake_delete ::
  "connection_spec \<Rightarrow> string \<Rightarrow> string \<Rightarrow> row_values \<Rightarrow> row_values \<Rightarrow> fake_database \<Rightarrow> fake_database \<times> (db_error + row_delete)" where
  "fake_delete spec schema table key expected s =
     (case map_of (fd_tables s) (schema, table) of
        None \<Rightarrow> (s, Inl (DbError ''table not found''))
      | Some t \<Rightarrow>
          (let k = pairs_text key in
           case map_of (ft_rows t) k of
             None \<Rightarrow> (s, Inr \<lparr>rr_deleted = False, rr_drift = False\<rparr>)
           | Some stored \<Rightarrow>
               if \<not> row_matches stored expected then (s, Inr \<lparr>rr_deleted = False, rr_drift = True\<rparr>)
               else (set_table schema table (t\<lparr>ft_rows := AList.delete k (ft_rows t)\<rparr>) s,
                     Inr \<lparr>rr_deleted = True, rr_drift = False\<rparr>)))"

definition fake_honey_port :: "(string \<Rightarrow> string) \<Rightarrow> fake_database honey_port" where
  "fake_honey_port sha = \<lparr>hp_test = fake_db_test, hp_discover = fake_discover sha, hp_insert = fake_insert sha,
     hp_delete = fake_delete\<rparr>"

subsection \<open>What the service relies on of a client\<close>

text \<open>
  A client is seen through \<open>look\<close>: the row of a table under a primary key, the key as text. An insert that
  succeeds adds one row under a fresh key, holding at least the given values; one that fails changes no
  row. A delete takes away the row under the key when it still holds the expected values; otherwise it
  changes nothing and reports drift exactly when there is a row.
\<close>

locale owned_rows =
  fixes look :: "'s \<Rightarrow> string \<times> string \<Rightarrow> string \<Rightarrow> row_values option"
    and ins :: "string \<Rightarrow> string \<Rightarrow> row_values \<Rightarrow> string list \<Rightarrow> 's \<Rightarrow> 's \<times> (db_error + insert_result)"
    and del :: "string \<Rightarrow> string \<Rightarrow> row_values \<Rightarrow> row_values \<Rightarrow> 's \<Rightarrow> 's \<times> (db_error + row_delete)"
  assumes ins_row: "distinct (map fst vals) \<Longrightarrow> ins sc tb vals pk s = (s', Inr res) \<Longrightarrow>
      distinct (map fst (ir_key res)) \<and> look s (sc, tb) (pairs_text (ir_key res)) = None \<and>
      (\<exists>row. row_matches row vals \<and>
        look s' = (\<lambda>t k. if t = (sc, tb) \<and> k = pairs_text (ir_key res) then Some row else look s t k))"
    and ins_failed: "ins sc tb vals pk s = (s', Inl e) \<Longrightarrow> look s' = look s"
    and del_owned: "look s (sc, tb) (pairs_text key) = Some row \<Longrightarrow> row_matches row expected \<Longrightarrow>
      \<exists>s'. del sc tb key expected s = (s', Inr \<lparr>rr_deleted = True, rr_drift = False\<rparr>) \<and>
        look s' = (\<lambda>t k. if t = (sc, tb) \<and> k = pairs_text key then None else look s t k)"
    and del_foreign: "(\<And>row. look s (sc, tb) (pairs_text key) = Some row \<Longrightarrow> \<not> row_matches row expected) \<Longrightarrow>
      del sc tb key expected s = (s', out) \<Longrightarrow>
      look s' = look s \<and> (\<forall>d. out = Inr d \<longrightarrow> d = \<lparr>rr_deleted = False, rr_drift = (look s (sc, tb) (pairs_text key) \<noteq> None)\<rparr>)"
begin

lemma insert_delete_restores:
  assumes "distinct (map fst vals)" and "ins sc tb vals pk s = (s', Inr res)"
  obtains s'' where "del sc tb (ir_key res) vals s' = (s'', Inr \<lparr>rr_deleted = True, rr_drift = False\<rparr>)" "look s'' = look s"
proof -
  obtain row where m: "row_matches row vals" and n: "look s (sc, tb) (pairs_text (ir_key res)) = None"
      and l: "look s' = (\<lambda>t k. if t = (sc, tb) \<and> k = pairs_text (ir_key res) then Some row else look s t k)"
    using ins_row [OF assms] by blast
  have "look s' (sc, tb) (pairs_text (ir_key res)) = Some row" using l by simp
  from del_owned [OF this m] obtain s'' where d: "del sc tb (ir_key res) vals s' = (s'', Inr \<lparr>rr_deleted = True, rr_drift = False\<rparr>)"
      and l': "look s'' = (\<lambda>t k. if t = (sc, tb) \<and> k = pairs_text (ir_key res) then None else look s' t k)"
    by blast
  have "look s'' = look s" unfolding l' l using n by (intro ext) auto
  with d show ?thesis by (rule that)
qed

lemma delete_only_owned:
  assumes "del sc tb key expected s = (s', res)" and "look s' t k \<noteq> look s t k"
  shows "t = (sc, tb) \<and> k = pairs_text key \<and> look s' t k = None \<and> (\<exists>row. look s t k = Some row \<and> row_matches row expected)"
proof (cases "\<exists>row. look s (sc, tb) (pairs_text key) = Some row \<and> row_matches row expected")
  case True
  then obtain row where r: "look s (sc, tb) (pairs_text key) = Some row" "row_matches row expected" by blast
  from del_owned [OF r] assms r show ?thesis by (auto split: if_splits)
next
  case False
  then have "look s' = look s" using del_foreign [OF _ assms(1)] by blast
  with assms(2) show ?thesis by simp
qed

end

subsection \<open>The in-memory adapter meets it\<close>

definition db_look :: "fake_database \<Rightarrow> string \<times> string \<Rightarrow> string \<Rightarrow> row_values option" where
  "db_look s t k = (case map_of (fd_tables s) t of None \<Rightarrow> None | Some ft \<Rightarrow> map_of (ft_rows ft) k)"

lemma db_look_set:
  "db_look (set_table sc tb ft s) t k = (if t = (sc, tb) then map_of (ft_rows ft) k else db_look s t k)"
  by (auto simp: db_look_def set_table_def map_of_update)

lemma db_look_at: "map_of (fd_tables s) t = Some ft \<Longrightarrow> db_look s t k = map_of (ft_rows ft) k"
  by (simp add: db_look_def)

lemma key_columns_row:
  "key_columns cs key row sq = (key', row', sq') \<Longrightarrow> map_of row c \<noteq> None \<Longrightarrow> map_of row' c = map_of row c"
proof (induction cs key row sq rule: key_columns.induct)
  case (2 d cs key row sq)
  show ?case
  proof (cases "map_of row d")
    case None
    then have d: "c \<noteq> d" using 2(4) by auto
    then have "map_of (AList.update d (VInt (int (sq + 1))) row) c \<noteq> None" using 2(4) by (simp add: map_of_update)
    with 2(1) [OF None refl] 2(3) None d show ?thesis by (simp add: map_of_update Let_def)
  next
    case (Some v)
    with 2 show ?thesis by simp
  qed
qed simp

lemma key_columns_distinct:
  "key_columns cs key row sq = (key', row', sq') \<Longrightarrow> distinct (map fst key) \<Longrightarrow> distinct (map fst key')"
  by (induction cs key row sq rule: key_columns.induct) (auto simp: Let_def distinct_update split: option.splits)

lemma row_matches_self: "distinct (map fst vals) \<Longrightarrow> (\<And>c. map_of vals c \<noteq> None \<Longrightarrow> map_of row c = map_of vals c) \<Longrightarrow> row_matches row vals"
proof -
  assume d: "distinct (map fst vals)" and r: "\<And>c. map_of vals c \<noteq> None \<Longrightarrow> map_of row c = map_of vals c"
  have "get_cell row c = v" if "(c, v) \<in> set vals" for c v
  proof -
    have v: "map_of vals c = Some v" using that d by simp
    then have "map_of row c = map_of vals c" by (intro r) simp
    then show ?thesis using v by (simp add: get_cell_def)
  qed
  then show ?thesis by (auto simp: row_matches_def list_all_iff same_cell_def)
qed

interpretation fake_rows: owned_rows db_look "fake_insert sha spec" "fake_delete spec" for sha spec
proof
  fix vals :: row_values and sc tb pk s s' res
  assume dist: "distinct (map fst vals)" and i: "fake_insert sha spec sc tb vals pk s = (s', Inr res)"
  then obtain t key row sq where t: "map_of (fd_tables s) (sc, tb) = Some t"
      and k: "key_columns pk [] vals (ft_seq t) = (key, row, sq)" and fresh: "pairs_text key \<notin> fst ` set (ft_rows t)"
      and s': "s' = set_table sc tb (t\<lparr>ft_seq := sq, ft_rows := AList.update (pairs_text key) row (ft_rows t)\<rparr>) s"
      and res: "ir_key res = key"
    by (auto simp: fake_insert_def Let_def split: if_splits option.splits prod.splits)
  have "row_matches row vals" using row_matches_self [OF dist] key_columns_row [OF k] by blast
  moreover have "distinct (map fst key)" using key_columns_distinct [OF k] by simp
  moreover have "db_look s (sc, tb) (pairs_text key) = None" using t fresh by (simp add: db_look_def map_of_eq_None_iff)
  moreover have "db_look s' = (\<lambda>t k. if t = (sc, tb) \<and> k = pairs_text key then Some row else db_look s t k)"
    unfolding s' by (intro ext) (simp add: db_look_set map_of_update db_look_at [OF t])
  ultimately show "distinct (map fst (ir_key res)) \<and> db_look s (sc, tb) (pairs_text (ir_key res)) = None \<and>
      (\<exists>row. row_matches row vals \<and>
        db_look s' = (\<lambda>t k. if t = (sc, tb) \<and> k = pairs_text (ir_key res) then Some row else db_look s t k))"
    unfolding res by blast
next
  fix sc tb vals pk s s' e
  assume i: "fake_insert sha spec sc tb vals pk s = (s', Inl e)"
  have "db_look (set_table sc tb (t\<lparr>ft_seq := sq\<rparr>) s) = db_look s" if "map_of (fd_tables s) (sc, tb) = Some t" for t sq
    by (intro ext) (simp add: db_look_set db_look_at [OF that])
  with i show "db_look s' = db_look s"
    by (auto simp: fake_insert_def Let_def split: if_splits option.splits prod.splits)
next
  fix s sc tb key row expected
  assume l: "db_look s (sc, tb) (pairs_text key) = Some row" and m: "row_matches row expected"
  then obtain t where t: "map_of (fd_tables s) (sc, tb) = Some t" "map_of (ft_rows t) (pairs_text key) = Some row"
    by (auto simp: db_look_def split: option.splits)
  let ?s = "set_table sc tb (t\<lparr>ft_rows := AList.delete (pairs_text key) (ft_rows t)\<rparr>) s"
  have "fake_delete spec sc tb key expected s = (?s, Inr \<lparr>rr_deleted = True, rr_drift = False\<rparr>)"
    using t m by (simp add: fake_delete_def Let_def)
  moreover have "db_look ?s = (\<lambda>t k. if t = (sc, tb) \<and> k = pairs_text key then None else db_look s t k)"
    by (intro ext) (simp add: db_look_set db_look_at [OF t(1)] delete_conv')
  ultimately show "\<exists>s'. fake_delete spec sc tb key expected s = (s', Inr \<lparr>rr_deleted = True, rr_drift = False\<rparr>) \<and>
      db_look s' = (\<lambda>t k. if t = (sc, tb) \<and> k = pairs_text key then None else db_look s t k)"
    by blast
next
  fix s sc tb key expected s' res
  assume f: "\<And>row. db_look s (sc, tb) (pairs_text key) = Some row \<Longrightarrow> \<not> row_matches row expected"
    and d: "fake_delete spec sc tb key expected s = (s', res)"
  show "db_look s' = db_look s \<and> (\<forall>d. res = Inr d \<longrightarrow>
      d = \<lparr>rr_deleted = False, rr_drift = (db_look s (sc, tb) (pairs_text key) \<noteq> None)\<rparr>)"
    using f d by (auto simp: fake_delete_def Let_def db_look_def split: option.splits if_splits)
qed

end
