(* ===== verification/Honey_Deploy.thy ===== *)
theory Honey_Deploy
  imports Honey_Store
begin

text \<open>
  The honey-record lifecycle: the orchestration service (\<open>services/database/service.py\<close>), its worker
  (\<open>worker.py\<close>) and the endpoints of \<open>api/database_honey.py\<close>. An endpoint runs inside a request, which
  rolls back on an error; the worker catches every exception of a job and keeps what the job has written.
  Metrics are left out; an exception no handler expects is answered with 500.
\<close>

subsection \<open>Service\<close>

record honey_env =
  hx_connectors :: bool
  hx_honey :: bool
  hx_allowed :: "string list"
  hx_blocked :: "string list"
  hx_max_tables :: nat
  hx_require_tls :: bool
  hx_development :: bool
  hx_separate :: bool
  hx_expiry_days :: int
  hx_connect_timeout :: nat
  hx_statement_timeout :: nat
  hx_cipher :: cipher_port
  hx_gen :: row_gen
  hx_str :: "uuid \<Rightarrow> string"

datatype honey_crash = HcLookup honey_lookup | HcGenerate honey_error | HcMove honey_transition_error | HcSecret

type_synonym 's honey_world = "'s \<times> honey_db"

definition secret_text :: "row_values \<Rightarrow> string \<Rightarrow> string" where
  "secret_text payload k = (case map_of payload k of None \<Rightarrow> [] | Some v \<Rightarrow> str_cell v)"

definition honey_spec :: "honey_env \<Rightarrow> honey_connector \<Rightarrow> connection_spec option" where
  "honey_spec hx k =
     map_option (\<lambda>payload. \<lparr>sp_host = hk_host k, sp_database = hk_database k, sp_user = secret_text payload ''user'',
        sp_password = secret_text payload ''password'', sp_ssl = hk_ssl k, sp_connect_timeout = hx_connect_timeout hx,
        sp_statement_timeout = hx_statement_timeout hx\<rparr>) (resolve_honey_secret (hx_cipher hx) k)"

definition honey_log :: "org_id \<Rightarrow> uuid \<Rightarrow> string \<Rightarrow> string \<Rightarrow> honey_db \<Rightarrow> honey_db" where
  "honey_log org dep ev meta db = add_honey_audit org (Some dep) None None ev meta db"

definition honey_move :: "honey_dep \<Rightarrow> honey_status \<Rightarrow> (honey_dep \<Rightarrow> honey_dep) \<Rightarrow> honey_db \<Rightarrow> honey_crash + honey_db" where
  "honey_move r target assign db = map_sum HcMove id (honey_transition r target assign db)"

definition fail_honey :: "honey_dep \<Rightarrow> string \<Rightarrow> string \<Rightarrow> honey_db \<Rightarrow> honey_crash + honey_db" where
  "fail_honey r code message db =
     and_then (honey_move r HFailed (\<lambda>x. x\<lparr>hd_code := Some code, hd_message := Some (take 512 message)\<rparr>) db)
       (\<lambda>db1. Inr (honey_log (hd_org r) (hd_id r) ''deployment_failed'' code db1))"

text \<open>A body that raises keeps the database it has reached.\<close>

definition settle_honey :: "honey_db \<Rightarrow> honey_crash + honey_db \<Rightarrow> honey_db \<times> (honey_crash + unit)" where
  "settle_honey db r = (case r of Inl e \<Rightarrow> (db, Inl e) | Inr db' \<Rightarrow> (db', Inr ()))"

definition activate_honey :: "datetime \<Rightarrow> org_id \<Rightarrow> honey_dep \<Rightarrow> honey_db \<Rightarrow> honey_crash + honey_db" where
  "activate_honey now org r db =
     (let active = active_record_count (hd_id r) db in
      if active \<ge> 1 \<and> active > 0 then
        and_then (honey_move r HDeployed (\<lambda>x. x\<lparr>hd_deployed := Some now, hd_monitoring := Some now\<rparr>) db)
          (\<lambda>db1. Inr (honey_log org (hd_id r) ''monitoring_activated'' (''records='' @ nat_str active) db1))
      else
        and_then (honey_move r HDeployedUnmonitored
            (\<lambda>x. x\<lparr>hd_deployed := Some now, hd_code := Some ''activation_failed'',
                   hd_message := Some ''row inserted but monitoring activation was incomplete''\<rparr>) db)
          (\<lambda>db1. Inr (honey_log org (hd_id r) ''monitoring_activation_failed'' [] db1)))"

text \<open>The part from the connector on: insert, verify, record, activate.\<close>

definition insert_honey ::
  "honey_env \<Rightarrow> 's honey_port \<Rightarrow> datetime \<Rightarrow> uuid \<Rightarrow> org_id \<Rightarrow> honey_dep \<Rightarrow> honey_preview \<Rightarrow> table_info \<Rightarrow> row_values \<Rightarrow>
   's honey_world \<Rightarrow> 's honey_world \<times> (honey_crash + unit)" where
  "insert_honey hx port now rid org r p t vals w =
     (let (s, db) = w in
      case get_honey_connector org (hd_connector r) db of
        Inl e \<Rightarrow> (w, Inl (HcLookup e))
      | Inr k \<Rightarrow>
          (let db1 = honey_log org (hd_id r) ''transaction_started'' [] db in
           case honey_spec hx k of
             None \<Rightarrow> ((s, db1), Inl HcSecret)
           | Some spec \<Rightarrow>
               (case hp_insert port spec (hd_schema r) (hd_table r) vals (ti_primary t) s of
                  (s1, Inl (DbError m)) \<Rightarrow>
                    (let (db2, res) = settle_honey db1 (fail_honey r ''insert_failed'' m db1) in ((s1, db2), res))
                | (s1, Inr ir) \<Rightarrow>
                    if \<not> (ir_inserted ir \<and> ir_verified ir) then
                      (let (db2, res) = settle_honey db1 (and_then (honey_move r HVerificationFailed
                             (\<lambda>x. x\<lparr>hd_code := Some ''verify_failed'',
                                    hd_message := Some ''inserted row failed read-back verification''\<rparr>) db1)
                           (\<lambda>d. Inr (honey_log org (hd_id r) ''verification_failed'' [] d)))
                       in ((s1, db2), res))
                    else
                      (let db2 = honey_log org (hd_id r) ''verification_passed'' []
                             (honey_log org (hd_id r) ''row_inserted'' [] db1);
                           db3 = fst (add_honey_record (hx_cipher hx) now rid org (hd_id r) (hv_trace p) (ir_key ir)
                             (hv_fingerprint p) vals (ir_hash ir) db2);
                           (db4, res) = settle_honey db3 (activate_honey now org r db3)
                       in ((s1, db4), res)))))"

definition execute_honey ::
  "honey_env \<Rightarrow> 's honey_port \<Rightarrow> datetime \<Rightarrow> uuid \<Rightarrow> org_id \<Rightarrow> uuid \<Rightarrow> 's honey_world \<Rightarrow> 's honey_world \<times> (honey_crash + unit)" where
  "execute_honey hx port now rid org i w =
     (let (s, db) = w; still = (\<lambda>x. let (db', res) = settle_honey db x in ((s, db'), res)) in
      case get_honey org i db of
        Inl e \<Rightarrow> (w, Inl (HcLookup e))
      | Inr r \<Rightarrow>
          if hd_status r \<noteq> HDeploying then (w, Inr ())
          else (case load_honey_preview r of
            None \<Rightarrow> still (fail_honey r ''no_preview'' ''deployment has no preview'' db)
          | Some p \<Rightarrow>
              (case get_snapshot org (hd_snapshot r) db of
                 Inl e \<Rightarrow> (w, Inl (HcLookup e))
               | Inr snap \<Rightarrow>
                   (case find_table snap (hd_schema r) (hd_table r) of
                      None \<Rightarrow> still (fail_honey r ''safety_failed'' ''table failed the safety re-check'' db)
                    | Some t \<Rightarrow>
                        (let e = evaluate_table (hx_allowed hx) (hx_blocked hx) t in
                         if \<not> el_deployable e then still (fail_honey r ''safety_failed'' ''table failed the safety re-check'' db)
                         else (case generate_row (hx_gen hx) t (hv_trace p) (el_required e) of
                           Inl err \<Rightarrow> (w, Inl (HcGenerate err))
                         | Inr row \<Rightarrow>
                             if gr_fingerprint row \<noteq> hv_fingerprint p then
                               still (fail_honey r ''plan_drift'' ''regenerated row does not match the approved preview'' db)
                             else if record_exists i (hv_fingerprint p) db then still (activate_honey now org r db)
                             else insert_honey hx port now rid org r p t (gr_values row) w))))))"

text \<open>The removal loop: \<open>False\<close> when it has stopped on an error or on drift.\<close>

fun remove_rows ::
  "honey_env \<Rightarrow> 's honey_port \<Rightarrow> datetime \<Rightarrow> honey_dep \<Rightarrow> honey_connector \<Rightarrow> honey_record list \<Rightarrow> 's honey_world \<Rightarrow>
   's honey_world \<times> (honey_crash + bool)" where
  "remove_rows hx port now r k [] w = (w, Inr True)"
| "remove_rows hx port now r k (h # hs) w =
     (let (s, db) = w; stop = (\<lambda>s1 x. let (db', res) = settle_honey db x in ((s1, db'), map_sum id (\<lambda>_. False) res)) in
      if hr_status h = ''retired'' then remove_rows hx port now r k hs w
      else case (json_loads (hr_key h), decrypt_values (hx_cipher hx) h, honey_spec hx k) of
        (Some key, Some expected, Some spec) \<Rightarrow>
          (case hp_delete port spec (hd_schema r) (hd_table r) key expected s of
             (s1, Inl (DbError m)) \<Rightarrow> stop s1 (fail_honey r ''delete_failed'' m db)
           | (s1, Inr d) \<Rightarrow>
               if rr_drift d then
                 stop s1 (and_then (honey_move r HDriftDetected
                     (\<lambda>x. x\<lparr>hd_code := Some ''row_drift'', hd_message := Some ''owned row changed; manual review required''\<rparr>) db)
                   (\<lambda>db1. Inr (honey_log (hd_org r) (hd_id r) ''drift_detected'' [] db1)))
               else remove_rows hx port now r k hs (s1, set_record_status now (hr_id h) ''retired'' db))
      | _ \<Rightarrow> (w, Inl HcSecret))"

datatype removal_kind = Retirement | Rollback

fun expected_status :: "removal_kind \<Rightarrow> honey_status" where
  "expected_status Retirement = HRetiring"
| "expected_status Rollback = HRollbackPending"

fun terminal_status :: "removal_kind \<Rightarrow> honey_status" where
  "terminal_status Retirement = HRetired"
| "terminal_status Rollback = HRolledBack"

fun removal_name :: "removal_kind \<Rightarrow> string" where
  "removal_name Retirement = ''retirement''"
| "removal_name Rollback = ''rollback''"

definition remove_honey ::
  "honey_env \<Rightarrow> 's honey_port \<Rightarrow> datetime \<Rightarrow> removal_kind \<Rightarrow> org_id \<Rightarrow> uuid \<Rightarrow> 's honey_world \<Rightarrow>
   's honey_world \<times> (honey_crash + unit)" where
  "remove_honey hx port now kind org i w =
     (let (s, db) = w in
      case get_honey org i db of
        Inl e \<Rightarrow> (w, Inl (HcLookup e))
      | Inr r \<Rightarrow>
          if hd_status r \<noteq> expected_status kind then (w, Inr ())
          else
            (let db1 = honey_log org i (removal_name kind @ ''_started'') [] db in
             case get_honey_connector org (hd_connector r) db1 of
               Inl e \<Rightarrow> ((s, db1), Inl (HcLookup e))
             | Inr k \<Rightarrow>
                 (case remove_rows hx port now r k (records_for i db1) (s, db1) of
                    (w2, Inl e) \<Rightarrow> (w2, Inl e)
                  | (w2, Inr False) \<Rightarrow> (w2, Inr ())
                  | ((s2, db2), Inr True) \<Rightarrow>
                      (let (db3, res) = settle_honey db2 (and_then
                             (honey_move r (terminal_status kind) (\<lambda>x. x\<lparr>hd_retired := Some now\<rparr>) db2)
                             (\<lambda>d. Inr (honey_log org i (removal_name kind @ ''_completed'') [] d)))
                       in ((s2, db3), res)))))"

subsection \<open>Worker\<close>

definition run_honey_job ::
  "honey_env \<Rightarrow> 's honey_port \<Rightarrow> datetime \<Rightarrow> uuid \<Rightarrow> honey_job \<Rightarrow> 's honey_world \<Rightarrow> 's honey_world" where
  "run_honey_job hx port now rid j w =
     (let ((s, db), res) = (case hj_type j of
            HjExecute \<Rightarrow> execute_honey hx port now rid (hj_org j) (hj_dep j) w
          | HjRetire \<Rightarrow> remove_honey hx port now Retirement (hj_org j) (hj_dep j) w
          | HjRollback \<Rightarrow> remove_honey hx port now Rollback (hj_org j) (hj_dep j) w)
      in (s, complete_honey_job now (hj_id j) (is_ok res) db))"

text \<open>\<open>fresh\<close> gives the identifier a record inserted by a job would take.\<close>

fun run_honey_jobs ::
  "honey_env \<Rightarrow> 's honey_port \<Rightarrow> datetime \<Rightarrow> (honey_job \<Rightarrow> uuid) \<Rightarrow> honey_job list \<Rightarrow> 's honey_world \<Rightarrow> 's honey_world" where
  "run_honey_jobs hx port now fresh [] w = w"
| "run_honey_jobs hx port now fresh (j # js) w =
     run_honey_jobs hx port now fresh js (run_honey_job hx port now (fresh j) j w)"

definition honey_worker_once ::
  "honey_env \<Rightarrow> 's honey_port \<Rightarrow> datetime \<Rightarrow> (honey_job \<Rightarrow> uuid) \<Rightarrow> nat \<Rightarrow> 's honey_world \<Rightarrow> 's honey_world \<times> nat" where
  "honey_worker_once hx port now fresh batch w =
     (let (s, db) = w; (db1, jobs) = claim_honey_jobs batch db
      in (run_honey_jobs hx port now fresh jobs (s, db1), length jobs))"

subsection \<open>Connector endpoints\<close>

definition connectors_off :: http_error where "connectors_off = HttpError 404 ''database connectors are not enabled''"
definition honey_off :: http_error where "honey_off = HttpError 404 ''database honey deployment is not enabled''"
definition no_connector :: http_error where "no_connector = HttpError 404 ''connector not found''"
definition server_error :: http_error where "server_error = HttpError 500 ''internal error''"

record connector_body =
  cb_name :: string
  cb_host :: string
  cb_database :: string
  cb_user :: string
  cb_password :: string
  cb_ssl :: string
  cb_read_only :: bool

definition actor_log :: "auth_context \<Rightarrow> uuid option \<Rightarrow> uuid option \<Rightarrow> string \<Rightarrow> string \<Rightarrow> honey_db \<Rightarrow> honey_db" where
  "actor_log auth dep connector ev meta db = add_honey_audit (ctx_org auth) dep connector (ctx_key_id auth) ev meta db"

definition create_connector ::
  "honey_env \<Rightarrow> auth_context \<Rightarrow> uuid \<Rightarrow> connector_body \<Rightarrow> honey_db \<Rightarrow> honey_db \<times> (http_error + honey_connector)" where
  "create_connector hx auth i body db =
     (if \<not> hx_connectors hx then (db, Inl connectors_off)
      else if hx_require_tls hx \<and> \<not> hx_development hx \<and> cb_ssl body = ''disable''
      then (db, Inl (HttpError 400 ''TLS is required for connectors''))
      else
        let (db1, k) = create_honey_connector (hx_cipher hx) i (ctx_org auth) (cb_name body) (cb_host body) (cb_database body)
              [(''user'', VStr (cb_user body)), (''password'', VStr (cb_password body))] (cb_ssl body) (cb_read_only body)
              (ctx_key_id auth) db
        in (actor_log auth None (Some i) ''connector_created'' [] db1, Inr k))"

definition load_connector :: "auth_context \<Rightarrow> uuid \<Rightarrow> honey_db \<Rightarrow> http_error + honey_connector" where
  "load_connector auth i db = map_sum (\<lambda>_. no_connector) id (get_honey_connector (ctx_org auth) i db)"

definition test_connector ::
  "honey_env \<Rightarrow> 's honey_port \<Rightarrow> 's \<Rightarrow> datetime \<Rightarrow> auth_context \<Rightarrow> uuid \<Rightarrow> honey_db \<Rightarrow> honey_db \<times> (http_error + connection_test)" where
  "test_connector hx port s now auth i db =
     (if \<not> hx_connectors hx then (db, Inl connectors_off)
      else case load_connector auth i db of
        Inl e \<Rightarrow> (db, Inl e)
      | Inr k \<Rightarrow>
          (case honey_spec hx k of
             None \<Rightarrow> (db, Inl server_error)
           | Some spec \<Rightarrow>
               (let t = hp_test port spec s;
                    ok = tr_reachable t \<and> tr_authenticated t \<and> (tr_tls t \<or> hx_development hx \<or> \<not> hx_require_tls hx);
                    db1 = set_connector_status now i (if ok then ''active'' else ''failed'') (tr_error t) True False db
                in (actor_log auth None (Some i) ''connector_tested'' [] db1, Inr t))))"

definition sync_schema ::
  "honey_env \<Rightarrow> 's honey_port \<Rightarrow> 's \<Rightarrow> datetime \<Rightarrow> auth_context \<Rightarrow> uuid \<Rightarrow> uuid \<Rightarrow> honey_db \<Rightarrow> honey_db \<times> (http_error + nat)" where
  "sync_schema hx port s now auth snap_id i db =
     (if \<not> hx_connectors hx then (db, Inl connectors_off)
      else case load_connector auth i db of
        Inl e \<Rightarrow> (db, Inl e)
      | Inr k \<Rightarrow>
          (case honey_spec hx k of
             None \<Rightarrow> (db, Inl server_error)
           | Some spec \<Rightarrow>
               (case hp_discover port spec (hx_allowed hx) (hx_max_tables hx) s of
                  Inl _ \<Rightarrow> (db, Inl server_error)
                | Inr snap \<Rightarrow>
                    (let db1 = add_snapshot now snap_id (ctx_org auth) i snap db;
                         db2 = set_connector_status now i ''active'' None False True db1
                     in (actor_log auth None (Some i) ''schema_synchronized'' (''tables='' @ nat_str (length (ss_tables snap))) db2,
                         Inr (length (ss_tables snap)))))))"

definition delete_connector :: "honey_env \<Rightarrow> auth_context \<Rightarrow> uuid \<Rightarrow> honey_db \<Rightarrow> honey_db \<times> (http_error + unit)" where
  "delete_connector hx auth i db =
     (if \<not> hx_connectors hx then (db, Inl connectors_off)
      else case load_connector auth i db of
        Inl e \<Rightarrow> (db, Inl e)
      | Inr k \<Rightarrow> (actor_log auth None (Some i) ''connector_disabled'' [] (delete_honey_connector i db), Inr ()))"

subsection \<open>Deployment endpoints\<close>

record honey_body =
  hbo_connector :: uuid
  hbo_schema :: string
  hbo_table :: string
  hbo_decoy :: "string option"

definition parse_decoy :: "string \<Rightarrow> decoy_kind option" where
  "parse_decoy s = find (\<lambda>d. decoy_kind_value d = s) [SynCustomer, SynInvoice, SynSubscription, SynSupportTicket, SynOrder,
     SynAccount, SynTransaction, SynInternalReference]"

text \<open>An unknown decoy name is a \<open>ValueError\<close> no handler catches.\<close>

definition chosen_decoy :: "honey_body \<Rightarrow> placement \<Rightarrow> http_error + decoy_kind" where
  "chosen_decoy body rec =
     (if hbo_decoy body = None \<or> hbo_decoy body = Some [] then Inr (pl_decoy rec)
      else case parse_decoy (the (hbo_decoy body)) of None \<Rightarrow> Inl server_error | Some d \<Rightarrow> Inr d)"

definition honey_preview_answer :: "honey_error \<Rightarrow> http_error" where
  "honey_preview_answer e = (case e of HoneyRefused m \<Rightarrow> HttpError 400 m | UnknownRequired _ \<Rightarrow> server_error)"

definition draft_honey ::
  "honey_env \<Rightarrow> datetime \<Rightarrow> auth_context \<Rightarrow> uuid \<Rightarrow> string \<Rightarrow> honey_body \<Rightarrow> snapshot_row \<Rightarrow> schema_snapshot \<Rightarrow> placement \<Rightarrow>
   honey_db \<Rightarrow> honey_db \<times> (http_error + uuid)" where
  "draft_honey hx now auth i hex body sn snap rec db =
     (case chosen_decoy body rec of
        Inl e \<Rightarrow> (db, Inl e)
      | Inr decoy \<Rightarrow>
          (let expires = Some (now + seconds (86400 * hx_expiry_days hx));
               (db1, r) = create_honey_row i (ctx_org auth) (hbo_connector body) (sn_id sn) (hbo_schema body) (hbo_table body)
                            decoy (ctx_key_id auth) expires db
           in case build_honey_preview (hx_gen hx) (hx_allowed hx) (hx_blocked hx) (hx_str hx i) (hx_str hx (hbo_connector body))
                     snap (hbo_schema body) (hbo_table body) decoy (''DFH-'' @ hex) expires of
                Inl e \<Rightarrow> (db1, Inl (honey_preview_answer e))
              | Inr (p, row) \<Rightarrow> (actor_log auth (Some i) None ''deployment_drafted'' [] (set_honey_preview i p db1), Inr i)))"

definition create_honey ::
  "honey_env \<Rightarrow> datetime \<Rightarrow> auth_context \<Rightarrow> uuid \<Rightarrow> string \<Rightarrow> honey_body \<Rightarrow> honey_db \<Rightarrow> honey_db \<times> (http_error + uuid)" where
  "create_honey hx now auth i hex body db =
     (if \<not> hx_honey hx then (db, Inl honey_off)
      else case load_connector auth (hbo_connector body) db of
        Inl e \<Rightarrow> (db, Inl e)
      | Inr k \<Rightarrow>
          (case latest_snapshot (ctx_org auth) (hk_id k) db of
             None \<Rightarrow> (db, Inl (HttpError 400 ''sync the connector schema first''))
           | Some sn \<Rightarrow>
               (case get_snapshot (ctx_org auth) (sn_id sn) db of
                  Inl _ \<Rightarrow> (db, Inl server_error)
                | Inr snap \<Rightarrow>
                    (case find_table snap (hbo_schema body) (hbo_table body) of
                       None \<Rightarrow> (db, Inl (HttpError 404 ''table not found in the latest snapshot''))
                     | Some t \<Rightarrow>
                         (let rec = score_table (hx_allowed hx) (hx_blocked hx) t in
                          if \<not> pl_deployable rec then
                            (db, Inl (HttpError 400 (let m = join_with ''; '' (pl_reasoning rec) in if m = [] then ''table not eligible'' else m)))
                          else draft_honey hx now auth i hex body sn snap rec db)))))"

definition load_honey :: "auth_context \<Rightarrow> uuid \<Rightarrow> honey_db \<Rightarrow> http_error + honey_dep" where
  "load_honey auth i db = map_sum (\<lambda>_. HttpError 404 ''deployment not found'') id (get_honey (ctx_org auth) i db)"

definition answer_move :: "honey_dep \<Rightarrow> honey_status \<Rightarrow> (honey_dep \<Rightarrow> honey_dep) \<Rightarrow> honey_db \<Rightarrow> http_error + honey_db" where
  "answer_move r target assign db =
     map_sum (\<lambda>e. case e of InvalidHoneyTransition a b \<Rightarrow> HttpError 409 (honey_message a b)) id (honey_transition r target assign db)"

definition decide_honey ::
  "honey_env \<Rightarrow> auth_context \<Rightarrow> uuid \<Rightarrow> honey_status \<Rightarrow> string \<Rightarrow> honey_db \<Rightarrow> honey_db \<times> (http_error + unit)" where
  "decide_honey hx auth i target ev db =
     (if \<not> hx_honey hx then (db, Inl honey_off)
      else case load_honey auth i db of
        Inl e \<Rightarrow> (db, Inl e)
      | Inr r \<Rightarrow>
          (case answer_move r target id db of
             Inl e \<Rightarrow> (db, Inl e)
           | Inr db1 \<Rightarrow> (actor_log auth (Some i) None ev [] db1, Inr ())))"

definition submit_honey where
  "submit_honey hx auth i db = decide_honey hx auth i HAwaitingApproval ''submitted'' db"

definition reject_honey where
  "reject_honey hx auth i db = decide_honey hx auth i HRejected ''rejected'' db"

definition approve_honey :: "honey_env \<Rightarrow> auth_context \<Rightarrow> uuid \<Rightarrow> honey_db \<Rightarrow> honey_db \<times> (http_error + unit)" where
  "approve_honey hx auth i db =
     (if \<not> hx_honey hx then (db, Inl honey_off)
      else case load_honey auth i db of
        Inl e \<Rightarrow> (db, Inl e)
      | Inr r \<Rightarrow>
          if hx_separate hx \<and> ctx_key_id auth \<noteq> None \<and> hd_requested r \<noteq> None \<and> ctx_key_id auth = hd_requested r
          then (actor_log auth (Some i) None ''permission_denied'' ''separation_of_duties'' db,
                Inl (HttpError 403 ''a separate actor must approve this deployment''))
          else (case answer_move r HApproved (\<lambda>x. x\<lparr>hd_approved := ctx_key_id auth\<rparr>) db of
             Inl e \<Rightarrow> (db, Inl e)
           | Inr db1 \<Rightarrow> (actor_log auth (Some i) None ''approved'' [] db1, Inr ())))"

definition honey_lifecycle ::
  "honey_env \<Rightarrow> auth_context \<Rightarrow> uuid \<Rightarrow> uuid \<Rightarrow> honey_status \<Rightarrow> honey_job_type \<Rightarrow> string \<Rightarrow> honey_db \<Rightarrow> honey_db \<times> (http_error + unit)" where
  "honey_lifecycle hx auth job_id i target kind ev db =
     (if \<not> hx_honey hx then (db, Inl honey_off)
      else case load_honey auth i db of
        Inl e \<Rightarrow> (db, Inl e)
      | Inr r \<Rightarrow>
          (case answer_move r target id db of
             Inl e \<Rightarrow> (db, Inl e)
           | Inr db1 \<Rightarrow>
               (actor_log auth (Some i) None ev []
                  (fst (enqueue_honey job_id (ctx_org auth) i kind (clear_honey_job i kind db1))), Inr ())))"

definition deploy_honey where
  "deploy_honey hx auth job_id i db = honey_lifecycle hx auth job_id i HDeploying HjExecute ''deployment_started'' db"

definition retire_honey where
  "retire_honey hx auth job_id i db = honey_lifecycle hx auth job_id i HRetiring HjRetire ''retirement_started'' db"

definition rollback_honey where
  "rollback_honey hx auth job_id i db = honey_lifecycle hx auth job_id i HRollbackPending HjRollback ''rollback_started'' db"

definition rotate_honey where
  "rotate_honey hx auth job_id i db = honey_lifecycle hx auth job_id i HRetiring HjRetire ''rotation_started'' db"

end
