(* ===== verification/Psycopg_Client.thy ===== *)
theory Psycopg_Client
  imports Honey_Store
begin

text \<open>
  The client of a real target database (\<open>services/database/psycopg_adapter.py\<close>): which statements each
  operation sends, in which order, and when it commits or rolls back. The server is a parameter, \<open>'s pg_server\<close>:
  its committed contents are the state \<open>'s\<close>, a statement answers with the type name of the \<open>psycopg.Error\<close> it
  raises or with its result, and a change is published by the commit. The operations of the catalog and
  \<open>SHOW\<close> queries are taken not to raise. A value is what psycopg decodes a column to.
\<close>

subsection \<open>The server\<close>

record pg_column =
  pc_name :: string
  pc_type :: string
  pc_nullable :: string
  pc_default :: "string option"
  pc_generated :: string
  pc_max :: "nat option"

record 's pg_server =
  pg_connect :: "connection_spec \<Rightarrow> 's \<Rightarrow> string option"
  pg_show :: "string \<Rightarrow> 's \<Rightarrow> string"
  pg_tables :: "string list \<Rightarrow> nat \<Rightarrow> 's \<Rightarrow> (string \<times> string) list"
  pg_columns :: "string \<Rightarrow> string \<Rightarrow> 's \<Rightarrow> pg_column list"
  pg_constrained :: "string \<Rightarrow> string \<Rightarrow> string \<Rightarrow> 's \<Rightarrow> string list"
  pg_triggers :: "string \<Rightarrow> string \<Rightarrow> 's \<Rightarrow> nat"
  pg_insert :: "string \<Rightarrow> string \<Rightarrow> row_values \<Rightarrow> string list \<Rightarrow> 's \<Rightarrow> string + 's \<times> cell list option"
  pg_select :: "string \<Rightarrow> string \<Rightarrow> row_values \<Rightarrow> 's \<Rightarrow> string + row_values option"
  pg_delete :: "string \<Rightarrow> string \<Rightarrow> row_values \<Rightarrow> 's \<Rightarrow> string + 's"
  pg_commit :: "'s \<Rightarrow> 's \<Rightarrow> string option"

subsection \<open>The client\<close>

definition psycopg_test :: "'s pg_server \<Rightarrow> connection_spec \<Rightarrow> 's \<Rightarrow> connection_test" where
  "psycopg_test pg spec s =
     (case pg_connect pg spec s of
        Some e \<Rightarrow> \<lparr>tr_reachable = False, tr_tls = False, tr_authenticated = False, tr_version = [], tr_read = False,
                  tr_write = False, tr_timeout = False, tr_error = Some e\<rparr>
      | None \<Rightarrow> \<lparr>tr_reachable = True, tr_tls = (pg_show pg ''ssl'' s = ''on''), tr_authenticated = True,
                tr_version = pg_show pg ''server_version'' s, tr_read = True, tr_write = False, tr_timeout = True,
                tr_error = None\<rparr>)"

definition psycopg_table :: "'s pg_server \<Rightarrow> string \<Rightarrow> string \<Rightarrow> 's \<Rightarrow> table_info" where
  "psycopg_table pg schema nm s =
     (let rows = pg_columns pg schema nm s;
          pk = pg_constrained pg ''PRIMARY KEY'' schema nm s;
          fks = pg_constrained pg ''FOREIGN KEY'' schema nm s in
      \<lparr>ti_schema = schema, ti_table = nm,
       ti_columns = map (\<lambda>c. \<lparr>ci_name = pc_name c, ci_type = pc_type c, ci_nullable = (pc_nullable c = ''YES''),
          ci_foreign = (pc_name c \<in> set fks), ci_default = (pc_default c \<noteq> None), ci_generated = (pc_generated c = ''ALWAYS''),
          ci_max = pc_max c, ci_enum = [], ci_primary = (pc_name c \<in> set pk), ci_sensitivity = ColUnknown,
          ci_comment = None\<rparr>) rows,
       ti_primary = pk, ti_triggers = (0 < pg_triggers pg schema nm s), ti_comment = None\<rparr>)"

definition psycopg_discover ::
  "(string \<Rightarrow> string) \<Rightarrow> 's pg_server \<Rightarrow> connection_spec \<Rightarrow> string list \<Rightarrow> nat \<Rightarrow> 's \<Rightarrow> db_error + schema_snapshot" where
  "psycopg_discover sha pg spec allowed max_tables s =
     (case pg_connect pg spec s of
        Some e \<Rightarrow> Inl (DbError e)
      | None \<Rightarrow>
          (let ts = map (\<lambda>(schema, nm). psycopg_table pg schema nm s) (pg_tables pg allowed max_tables s) in
           Inr \<lparr>ss_version = pg_show pg ''server_version'' s, ss_tables = ts,
                ss_hash = sha (join_with ''|'' (map (\<lambda>t. ti_schema t @ ''.'' @ ti_table t) ts))\<rparr>))"

text \<open>\<open>{col: returned[i] for i, col in enumerate(pk_columns)}\<close>, or the given key values.\<close>

definition returned_key :: "string list \<Rightarrow> cell list option \<Rightarrow> row_values \<Rightarrow> row_values" where
  "returned_key pk_columns returned vals =
     (case returned of
        Some (r # rs) \<Rightarrow> if pk_columns \<noteq> [] then fold (\<lambda>(c, v). AList.update c v) (zip pk_columns (r # rs)) []
                        else filter (\<lambda>(c, v). c \<in> set pk_columns) vals
      | _ \<Rightarrow> filter (\<lambda>(c, v). c \<in> set pk_columns) vals)"

definition psycopg_insert ::
  "(string \<Rightarrow> string) \<Rightarrow> 's pg_server \<Rightarrow> connection_spec \<Rightarrow> string \<Rightarrow> string \<Rightarrow> row_values \<Rightarrow> string list \<Rightarrow> 's \<Rightarrow>
   's \<times> (db_error + insert_result)" where
  "psycopg_insert sha pg spec schema table vals pk_columns s =
     (case pg_connect pg spec s of
        Some e \<Rightarrow> (s, Inl (DbError e))
      | None \<Rightarrow>
          (case pg_insert pg schema table vals pk_columns s of
             Inl e \<Rightarrow> (s, Inl (DbError e))
           | Inr (s1, returned) \<Rightarrow>
               (let pk = returned_key pk_columns returned vals in
                case pg_commit pg s s1 of
                  Some e \<Rightarrow> (s, Inl (DbError e))
                | None \<Rightarrow> (s1, Inr \<lparr>ir_inserted = True, ir_key = pk, ir_verified = True,
                                    ir_hash = verification_hash sha schema table pk\<rparr>))))"

definition psycopg_delete ::
  "'s pg_server \<Rightarrow> connection_spec \<Rightarrow> string \<Rightarrow> string \<Rightarrow> row_values \<Rightarrow> row_values \<Rightarrow> 's \<Rightarrow> 's \<times> (db_error + row_delete)" where
  "psycopg_delete pg spec schema table key expected s =
     (case pg_connect pg spec s of
        Some e \<Rightarrow> (s, Inl (DbError e))
      | None \<Rightarrow>
          (case pg_select pg schema table key s of
             Inl e \<Rightarrow> (s, Inl (DbError e))
           | Inr None \<Rightarrow> (s, Inr \<lparr>rr_deleted = False, rr_drift = False\<rparr>)
           | Inr (Some stored) \<Rightarrow>
               if \<not> row_matches stored expected then (s, Inr \<lparr>rr_deleted = False, rr_drift = True\<rparr>)
               else (case pg_delete pg schema table key s of
                       Inl e \<Rightarrow> (s, Inl (DbError e))
                     | Inr s1 \<Rightarrow>
                         (case pg_commit pg s s1 of
                            Some e \<Rightarrow> (s, Inl (DbError e))
                          | None \<Rightarrow> (s1, Inr \<lparr>rr_deleted = True, rr_drift = False\<rparr>)))))"

definition psycopg_port :: "(string \<Rightarrow> string) \<Rightarrow> 's pg_server \<Rightarrow> 's honey_port" where
  "psycopg_port sha pg = \<lparr>hp_test = psycopg_test pg, hp_discover = psycopg_discover sha pg,
     hp_insert = psycopg_insert sha pg, hp_delete = psycopg_delete pg\<rparr>"

subsection \<open>What a delete may change\<close>

text \<open>
  A client is seen through \<open>look\<close>, as in \<open>Honey_Store\<close>; \<open>pk t\<close> names the primary key columns of a table. A
  delete by a full primary key changes at most the row under that key, which it takes away, and only when
  it held the expected values.
\<close>

definition deletes_owned ::
  "('s \<Rightarrow> string \<times> string \<Rightarrow> string \<Rightarrow> row_values option) \<Rightarrow> (string \<times> string \<Rightarrow> string set) \<Rightarrow> 's honey_port \<Rightarrow> bool" where
  "deletes_owned look pk port \<longleftrightarrow> (\<forall>spec sc tb key expected s s' res t k.
     fst ` set key = pk (sc, tb) \<longrightarrow> hp_delete port spec sc tb key expected s = (s', res) \<longrightarrow> look s' t k \<noteq> look s t k \<longrightarrow>
     t = (sc, tb) \<and> k = pairs_text key \<and> look s' t k = None \<and> (\<exists>row. look s t k = Some row \<and> row_matches row expected))"

lemma fake_deletes_owned: "deletes_owned db_look pk (fake_honey_port sha)"
  unfolding deletes_owned_def
proof (intro allI impI)
  fix spec sc tb key expected s s' res t k
  assume d: "hp_delete (fake_honey_port sha) spec sc tb key expected s = (s', res)" and n: "db_look s' t k \<noteq> db_look s t k"
  have "fake_delete spec sc tb key expected s = (s', res)" using d by (simp add: fake_honey_port_def)
  from fake_rows.delete_only_owned [OF this n] show "t = (sc, tb) \<and> k = pairs_text key \<and> db_look s' t k = None \<and>
    (\<exists>row. db_look s t k = Some row \<and> row_matches row expected)" .
qed

text \<open>
  What the adapter relies on of PostgreSQL: selecting by the full primary key finds the row under it, and deleting
  by it takes away that row and no other (a table without triggers and without cascading references).
\<close>

definition pg_laws ::
  "('s \<Rightarrow> string \<times> string \<Rightarrow> string \<Rightarrow> row_values option) \<Rightarrow> (string \<times> string \<Rightarrow> string set) \<Rightarrow> 's pg_server \<Rightarrow> bool" where
  "pg_laws look pk pg \<longleftrightarrow> (\<forall>sc tb key s. fst ` set key = pk (sc, tb) \<longrightarrow>
     (\<forall>found. pg_select pg sc tb key s = Inr found \<longrightarrow> found = look s (sc, tb) (pairs_text key)) \<and>
     (\<forall>s'. pg_delete pg sc tb key s = Inr s' \<longrightarrow>
        look s' = (\<lambda>t k. if t = (sc, tb) \<and> k = pairs_text key then None else look s t k)))"

lemma psycopg_deletes_owned:
  assumes "pg_laws look pk pg"
  shows "deletes_owned look pk (psycopg_port sha pg)"
  unfolding deletes_owned_def
proof (intro allI impI)
  fix spec sc tb key expected s s' res t k
  assume key: "fst ` set key = pk (sc, tb)" and n: "look s' t k \<noteq> look s t k"
    and d: "hp_delete (psycopg_port sha pg) spec sc tb key expected s = (s', res)"
  have "psycopg_delete pg spec sc tb key expected s = (s', res)" using d by (simp add: psycopg_port_def)
  with n obtain stored where st: "pg_select pg sc tb key s = Inr (Some stored)" "row_matches stored expected"
      and del: "pg_delete pg sc tb key s = Inr s'"
    by (auto simp: psycopg_delete_def split: option.splits sum.splits if_splits)
  have "look s (sc, tb) (pairs_text key) = Some stored"
    and "look s' = (\<lambda>t k. if t = (sc, tb) \<and> k = pairs_text key then None else look s t k)"
    using assms key st(1) del by (simp_all add: pg_laws_def)
  with n st(2) show "t = (sc, tb) \<and> k = pairs_text key \<and> look s' t k = None \<and>
      (\<exists>row. look s t k = Some row \<and> row_matches row expected)"
    by (auto split: if_splits)
qed

text \<open>A failed or refused operation leaves the committed rows as they were.\<close>

lemma psycopg_failure_changes_nothing:
  "psycopg_delete pg spec sc tb key expected s = (s', Inl e) \<Longrightarrow> s' = s"
  "psycopg_delete pg spec sc tb key expected s = (s', Inr d) \<Longrightarrow> \<not> rr_deleted d \<Longrightarrow> s' = s"
  "psycopg_insert sha pg spec sc tb vals pks s = (s', Inl e) \<Longrightarrow> s' = s"
  by (auto simp: psycopg_delete_def psycopg_insert_def Let_def split: option.splits sum.splits if_splits)

text \<open>
  The write check of a connection never succeeds: the adapter answers \<open>write_ok = False\<close> for every server, and
  an insert that returns is answered as verified without a read-back.
\<close>

lemma psycopg_never_writable: "\<not> tr_write (psycopg_test pg spec s)"
  by (simp add: psycopg_test_def split: option.splits)

end
