(* ===== verification/Honey_Props.thy ===== *)
theory Honey_Props
  imports Honey_Deploy Psycopg_Client
begin

text \<open>
  What holds of the honey-record lifecycle: the safety re-check of a drafted plan, redelivery of a job,
  the invariant of the record table over all operations, removal of owned rows only, with the psycopg client
  and with the in-memory one, and, with the in-memory client, the round trip of an insert and its removal.
\<close>

subsection \<open>Rows of the deployment table\<close>

lemma honey_log_simps [simp]:
  "hb_connectors (honey_log org i ev meta db) = hb_connectors db"
  "hb_snapshots (honey_log org i ev meta db) = hb_snapshots db"
  "hb_deps (honey_log org i ev meta db) = hb_deps db"
  "hb_records (honey_log org i ev meta db) = hb_records db"
  "hb_connectors (actor_log auth d c ev meta db) = hb_connectors db"
  "hb_snapshots (actor_log auth d c ev meta db) = hb_snapshots db"
  "hb_deps (actor_log auth d c ev meta db) = hb_deps db"
  "hb_records (actor_log auth d c ev meta db) = hb_records db"
  by (simp_all add: honey_log_def actor_log_def add_honey_audit_def)

lemma update_honey_simps [simp]:
  "hb_connectors (update_honey i f db) = hb_connectors db"
  "hb_snapshots (update_honey i f db) = hb_snapshots db"
  "hb_records (update_honey i f db) = hb_records db"
  by (simp_all add: update_honey_def)

lemma find_honey_log [simp]:
  "find_honey i (honey_log org k ev meta db) = find_honey i db"
  "find_honey i (actor_log auth d c ev meta db) = find_honey i db"
  by (simp_all add: find_honey_def)

lemma find_honey_id: "find_honey i db = Some r \<Longrightarrow> hd_id r = i"
  unfolding find_honey_def by (auto dest: find_Some_mem)

lemma find_honey_update:
  assumes "\<And>x. hd_id (f x) = hd_id x"
  shows "find_honey i (update_honey j f db) = (if i = j then map_option f (find_honey i db) else find_honey i db)"
proof -
  have "find (\<lambda>r. hd_id r = i) (map (\<lambda>r. if hd_id r = j then f r else r) rs) =
      (if i = j then map_option f (find (\<lambda>r. hd_id r = i) rs) else find (\<lambda>r. hd_id r = i) rs)" for rs
    using assms by (induction rs) auto
  then show ?thesis by (simp add: find_honey_def update_honey_def)
qed

lemma get_honey_Inr: "get_honey org i db = Inr r \<longleftrightarrow> find_honey i db = Some r \<and> hd_org r = org"
  by (auto simp: get_honey_def split: option.splits)

lemma honey_move_ok: "honey_move r target f db = Inr db' \<longleftrightarrow> honey_can (hd_status r) target \<and>
    db' = update_honey (hd_id r) (\<lambda>x. f (x\<lparr>hd_status := target\<rparr>)) db"
  by (auto simp: honey_move_def honey_transition_def honey_assert_def)

lemma honey_move_can: "honey_can (hd_status r) target \<Longrightarrow>
    honey_move r target f db = Inr (update_honey (hd_id r) (\<lambda>x. f (x\<lparr>hd_status := target\<rparr>)) db)"
  by (simp add: honey_move_ok)

lemma deploying_can [simp]:
  "honey_can HDeploying HDeployed" "honey_can HDeploying HDeployedUnmonitored" "honey_can HDeploying HVerificationFailed"
  "honey_can HDeploying HFailed"
  by (simp_all add: honey_can_def)

subsection \<open>The safety re-check\<close>

text \<open>
  The re-check of an approved plan never refuses: execution evaluates the stored snapshot, not the
  database, and regenerates the row from it, so under the settings that drafted the plan neither the safety
  failure nor the plan drift can occur. Whatever has happened to the live table, execution goes on to the
  insert, or to the activation of a row inserted before.
\<close>

theorem honey_recheck_never_refuses:
  assumes "find_honey i db = Some r" and "hd_org r = org" and "hd_status r = HDeploying"
    and "hd_preview r = Some p" and "get_snapshot org (hd_snapshot r) db = Inr snap"
    and "build_honey_preview (hx_gen hx) (hx_allowed hx) (hx_blocked hx) d c snap (hd_schema r) (hd_table r) decoy (hv_trace p) expires
         = Inr (p, row)"
  shows "\<exists>t. find_table snap (hd_schema r) (hd_table r) = Some t \<and>
    execute_honey hx port now rid org i (s, db) =
      (if record_exists i (hv_fingerprint p) db
       then (let (db', res) = settle_honey db (activate_honey now org r db) in ((s, db'), res))
       else insert_honey hx port now rid org r p t (gr_values row) (s, db))"
proof -
  obtain t where t: "find_table snap (hd_schema r) (hd_table r) = Some t"
    using assms(6) by (auto simp: build_honey_preview_def split: option.splits)
  have e: "el_deployable (evaluate_table (hx_allowed hx) (hx_blocked hx) t)"
    using assms(6) t by (auto simp: build_honey_preview_def Let_def split: if_splits)
  have g: "generate_row (hx_gen hx) t (hv_trace p) (el_required (evaluate_table (hx_allowed hx) (hx_blocked hx) t)) = Inr row"
      and f: "gr_fingerprint row = hv_fingerprint p"
    using assms(6) t e by (auto simp: build_honey_preview_def Let_def guard_simps dest: arg_cong [where f = hv_fingerprint])
  have "get_honey org i db = Inr r" using assms(1,2) by (simp add: get_honey_Inr)
  then show ?thesis using t e g f assms(3-5)
    by (simp add: execute_honey_def load_honey_preview_def Let_def)
qed

subsection \<open>Redelivery\<close>

definition settled :: "uuid \<Rightarrow> org_id \<Rightarrow> honey_db \<Rightarrow> bool" where
  "settled i org db \<longleftrightarrow> (\<exists>r. find_honey i db = Some r \<and> hd_org r = org \<and> hd_status r \<noteq> HDeploying)"

lemma settled_move:
  assumes "find_honey (hd_id r) db = Some r" and "target \<noteq> HDeploying"
    and "\<And>x. hd_id (f x) = hd_id x" and "\<And>x. hd_status (f x) = hd_status x" and "\<And>x. hd_org (f x) = hd_org x"
  shows "settled (hd_id r) (hd_org r) (honey_log org k ev meta (update_honey (hd_id r) (\<lambda>x. f (x\<lparr>hd_status := target\<rparr>)) db))"
  using assms by (simp add: settled_def find_honey_update)

lemma settle_fail:
  assumes "find_honey (hd_id r) db = Some r" and "settle_honey db (fail_honey r code m db) = (db', Inr ())"
  shows "settled (hd_id r) (hd_org r) db'"
  using assms by (auto simp: settle_honey_def fail_honey_def guard_simps honey_move_ok split: sum.splits intro!: settled_move)

lemma settle_activate:
  assumes "find_honey (hd_id r) db = Some r" and "settle_honey db (activate_honey now org r db) = (db', Inr ())"
  shows "settled (hd_id r) (hd_org r) db'"
  using assms by (auto simp: settle_honey_def activate_honey_def Let_def guard_simps honey_move_ok
      split: sum.splits if_splits intro!: settled_move)

lemma find_added [simp]:
  "find_honey i (fst (add_honey_record cp now rid org dep trace key fp vals vh db)) = find_honey i db"
  by (simp add: find_honey_def add_honey_record_def)

lemma insert_settles:
  assumes "find_honey (hd_id r) db = Some r"
    and "insert_honey hx port now rid org r p t vals (s, db) = ((s1, db1), Inr ())"
  shows "settled (hd_id r) (hd_org r) db1"
proof -
  let ?db = "honey_log org (hd_id r) ''transaction_started'' [] db"
  have f: "find_honey (hd_id r) ?db = Some r" using assms(1) by simp
  obtain k spec where k: "get_honey_connector org (hd_connector r) db = Inr k" "honey_spec hx k = Some spec"
    using assms(2) by (auto simp: insert_honey_def Let_def split: sum.splits option.splits)
  obtain s2 out where i: "hp_insert port spec (hd_schema r) (hd_table r) vals (ti_primary t) s = (s2, out)" by fastforce
  show ?thesis
  proof (cases out)
    case (Inl e)
    then obtain m where "settle_honey ?db (fail_honey r ''insert_failed'' m ?db) = (db1, Inr ())"
      using assms(2) k i by (cases e) (auto simp: insert_honey_def Let_def split: prod.splits)
    then show ?thesis by (rule settle_fail [OF f])
  next
    case (Inr ir)
    show ?thesis
    proof (cases "ir_inserted ir \<and> ir_verified ir")
      case False
      then have v: "settle_honey ?db (and_then (honey_move r HVerificationFailed
             (\<lambda>x. x\<lparr>hd_code := Some ''verify_failed'', hd_message := Some ''inserted row failed read-back verification''\<rparr>) ?db)
           (\<lambda>d. Inr (honey_log org (hd_id r) ''verification_failed'' [] d))) = (db1, Inr ())"
        using assms(2) k i Inr by (auto simp: insert_honey_def Let_def split: prod.splits)
      then show ?thesis using f
        by (auto simp: settle_honey_def guard_simps honey_move_ok split: sum.splits intro!: settled_move)
    next
      case True
      let ?db2 = "honey_log org (hd_id r) ''verification_passed'' [] (honey_log org (hd_id r) ''row_inserted'' [] ?db)"
      let ?db3 = "fst (add_honey_record (hx_cipher hx) now rid org (hd_id r) (hv_trace p) (ir_key ir) (hv_fingerprint p) vals
        (ir_hash ir) ?db2)"
      have a: "settle_honey ?db3 (activate_honey now org r ?db3) = (db1, Inr ())"
        using assms(2) k i Inr True by (auto simp: insert_honey_def Let_def split: prod.splits)
      have "find_honey (hd_id r) ?db3 = Some r" using f by simp
      then show ?thesis using a by (rule settle_activate)
    qed
  qed
qed

lemma still_settles: "(let (db', res) = settle_honey db x in ((s, db'), res)) = (w', Inr ()) \<Longrightarrow>
    \<exists>db'. settle_honey db x = (db', Inr ()) \<and> w' = (s, db')"
  by (auto split: prod.splits)

text \<open>The three ways an execution can end.\<close>

definition fails_to :: "honey_dep \<Rightarrow> 's honey_world \<Rightarrow> 's honey_world \<Rightarrow> bool" where
  "fails_to r w w' \<longleftrightarrow> (\<exists>code m db'. settle_honey (snd w) (fail_honey r code m (snd w)) = (db', Inr ()) \<and> w' = (fst w, db'))"

definition reactivates_to :: "datetime \<Rightarrow> honey_dep \<Rightarrow> 's honey_world \<Rightarrow> 's honey_world \<Rightarrow> bool" where
  "reactivates_to now r w w' \<longleftrightarrow>
     (\<exists>db'. settle_honey (snd w) (activate_honey now (hd_org r) r (snd w)) = (db', Inr ()) \<and> w' = (fst w, db'))"

definition inserts_to ::
  "honey_env \<Rightarrow> 's honey_port \<Rightarrow> datetime \<Rightarrow> uuid \<Rightarrow> honey_dep \<Rightarrow> 's honey_world \<Rightarrow> 's honey_world \<Rightarrow> bool" where
  "inserts_to hx port now rid r w w' \<longleftrightarrow> (\<exists>p t row. hd_preview r = Some p \<and>
     el_deployable (evaluate_table (hx_allowed hx) (hx_blocked hx) t) \<and>
     generate_row (hx_gen hx) t (hv_trace p) (el_required (evaluate_table (hx_allowed hx) (hx_blocked hx) t)) = Inr row \<and>
     \<not> record_exists (hd_id r) (hv_fingerprint p) (snd w) \<and>
     insert_honey hx port now rid (hd_org r) r p t (gr_values row) w = (w', Inr ()))"

lemma execute_paths:
  assumes ex: "execute_honey hx port now rid org i (s, db) = (w', Inr ())"
    and g: "get_honey org i db = Inr r" and st: "hd_status r = HDeploying"
  shows "fails_to r (s, db) w' \<or> reactivates_to now r (s, db) w' \<or> inserts_to hx port now rid r (s, db) w'"
proof -
  have org: "hd_org r = org" and i: "hd_id r = i" using g find_honey_id by (auto simp: get_honey_Inr)
  have f: "fails_to r (s, db) w'" if "(let (db', res) = settle_honey db (fail_honey r code m db) in ((s, db'), res)) = (w', Inr ())" for code m
    unfolding fails_to_def using still_settles [OF that] by auto
  show ?thesis
  proof (cases "hd_preview r")
    case None
    with ex have "(let (db', res) = settle_honey db (fail_honey r ''no_preview'' ''deployment has no preview'' db)
        in ((s, db'), res)) = (w', Inr ())"
      by (simp add: execute_honey_def load_honey_preview_def g st)
    then show ?thesis using f by blast
  next
    case p: (Some p)
    obtain snap where sn: "get_snapshot org (hd_snapshot r) db = Inr snap"
      using ex p by (cases "get_snapshot org (hd_snapshot r) db") (auto simp: execute_honey_def load_honey_preview_def g st)
    let ?e = "\<lambda>t. evaluate_table (hx_allowed hx) (hx_blocked hx) t"
    let ?bad = "(let (db', res) = settle_honey db (fail_honey r ''safety_failed'' ''table failed the safety re-check'' db)
        in ((s, db'), res))"
    show ?thesis
    proof (cases "\<exists>t. find_table snap (hd_schema r) (hd_table r) = Some t \<and> el_deployable (?e t)")
      case False
      with ex have "?bad = (w', Inr ())"
        by (cases "find_table snap (hd_schema r) (hd_table r)")
          (simp_all add: execute_honey_def load_honey_preview_def Let_def g st p sn)
      then show ?thesis using f by blast
    next
      case True
      then obtain t where t: "find_table snap (hd_schema r) (hd_table r) = Some t" and e: "el_deployable (?e t)" by blast
      obtain row where row: "generate_row (hx_gen hx) t (hv_trace p) (el_required (?e t)) = Inr row"
        by (rule honey_row_total [OF e])
      have x: "execute_honey hx port now rid org i (s, db) =
          (if gr_fingerprint row \<noteq> hv_fingerprint p then
             (let (db', res) = settle_honey db (fail_honey r ''plan_drift'' ''regenerated row does not match the approved preview'' db)
              in ((s, db'), res))
           else if record_exists i (hv_fingerprint p) db then
             (let (db', res) = settle_honey db (activate_honey now org r db) in ((s, db'), res))
           else insert_honey hx port now rid org r p t (gr_values row) (s, db))"
        by (simp add: execute_honey_def load_honey_preview_def Let_def g st p sn t e row)
      show ?thesis
      proof (cases "gr_fingerprint row = hv_fingerprint p")
        case False
        then have "(let (db', res) = settle_honey db (fail_honey r ''plan_drift''
            ''regenerated row does not match the approved preview'' db) in ((s, db'), res)) = (w', Inr ())"
          using ex unfolding x by (simp only: if_True if_False simp_thms)
        then show ?thesis using f by blast
      next
        case fp: True
        show ?thesis
        proof (cases "record_exists i (hv_fingerprint p) db")
          case True
          then have "(let (db', res) = settle_honey db (activate_honey now org r db) in ((s, db'), res)) = (w', Inr ())"
            using ex fp unfolding x by (simp only: if_True if_False simp_thms)
          then show ?thesis using still_settles org unfolding reactivates_to_def by fastforce
        next
          case False
          then have "insert_honey hx port now rid org r p t (gr_values row) (s, db) = (w', Inr ())"
            using ex fp unfolding x by (simp only: if_True if_False simp_thms)
          then have "inserts_to hx port now rid r (s, db) w'" unfolding inserts_to_def using p e row False org i by auto
          then show ?thesis by blast
        qed
      qed
    qed
  qed
qed

lemma execute_settles:
  assumes "execute_honey hx port now rid org i (s, db) = ((s1, db1), Inr ())"
  shows "settled i org db1"
proof -
  obtain r where g: "get_honey org i db = Inr r" using assms by (auto simp: execute_honey_def Let_def split: sum.splits)
  then have r: "find_honey i db = Some r" "hd_org r = org" "hd_id r = i" using find_honey_id by (auto simp: get_honey_Inr)
  then have f: "find_honey (hd_id r) db = Some r" by simp
  show ?thesis
  proof (cases "hd_status r = HDeploying")
    case False
    then show ?thesis using assms g r by (auto simp: execute_honey_def settled_def)
  next
    case True
    then have "settled (hd_id r) (hd_org r) db1"
      using execute_paths [OF assms g] settle_fail [OF f] settle_activate [OF f] insert_settles [OF f]
      unfolding fails_to_def reactivates_to_def inserts_to_def by (metis fst_conv snd_conv prod.inject)
    then show ?thesis by (simp add: r)
  qed
qed

text \<open>
  Executing a deployment is idempotent: once a job has run to its end, whether it inserted, failed or
  found the row already there, a second delivery of it touches neither the target database nor the own one.
  Holds for every client.
\<close>

theorem honey_execute_idempotent:
  assumes "execute_honey hx port now rid org i w = (w', Inr ())"
  shows "execute_honey hx port now' rid' org i w' = (w', Inr ())"
proof -
  obtain s db s1 db1 where w: "w = (s, db)" "w' = (s1, db1)" by (meson surj_pair)
  obtain r where "find_honey i db1 = Some r" "hd_org r = org" "hd_status r \<noteq> HDeploying"
    using execute_settles [OF assms [unfolded w]] unfolding settled_def by blast
  then show ?thesis unfolding w by (simp add: execute_honey_def get_honey_def)
qed

subsection \<open>The record table\<close>

inductive honey_step :: "honey_env \<Rightarrow> 's honey_port \<Rightarrow> 's honey_world \<Rightarrow> 's honey_world \<Rightarrow> bool"
  for hx :: honey_env and port :: "'s honey_port" where
  hs_create: "in_request (create_honey hx now auth i hex body) db = (db', res) \<Longrightarrow> honey_step hx port (s, db) (s, db')"
| hs_submit: "in_request (submit_honey hx auth i) db = (db', done) \<Longrightarrow> honey_step hx port (s, db) (s, db')"
| hs_reject: "in_request (reject_honey hx auth i) db = (db', done) \<Longrightarrow> honey_step hx port (s, db) (s, db')"
| hs_approve: "in_request (approve_honey hx auth i) db = (db', done) \<Longrightarrow> honey_step hx port (s, db) (s, db')"
| hs_deploy: "in_request (deploy_honey hx auth j i) db = (db', done) \<Longrightarrow> honey_step hx port (s, db) (s, db')"
| hs_retire: "in_request (retire_honey hx auth j i) db = (db', done) \<Longrightarrow> honey_step hx port (s, db) (s, db')"
| hs_rollback: "in_request (rollback_honey hx auth j i) db = (db', done) \<Longrightarrow> honey_step hx port (s, db) (s, db')"
| hs_rotate: "in_request (rotate_honey hx auth j i) db = (db', done) \<Longrightarrow> honey_step hx port (s, db) (s, db')"
| hs_worker: "honey_worker_once hx port now fresh batch w = (w', n) \<Longrightarrow> honey_step hx port w w'"
| hs_connector: "in_request (create_connector hx auth i cbody) db = (db', conn) \<Longrightarrow> honey_step hx port (s, db) (s, db')"
| hs_test: "in_request (test_connector hx port s now auth i) db = (db', test) \<Longrightarrow> honey_step hx port (s, db) (s, db')"
| hs_sync: "in_request (sync_schema hx port s now auth j i) db = (db', tables) \<Longrightarrow> honey_step hx port (s, db) (s, db')"
| hs_delete: "in_request (delete_connector hx auth i) db = (db', done) \<Longrightarrow> honey_step hx port (s, db) (s, db')"

definition records_ok :: "honey_db \<Rightarrow> bool" where
  "records_ok db \<longleftrightarrow> (\<forall>r \<in> set (hb_records db). hr_status r = ''inserted'' \<or> hr_status r = ''retired'') \<and>
     distinct (map (\<lambda>r. (hr_dep r, hr_fingerprint r)) (hb_records db))"

lemma records_ok_same: "hb_records db' = hb_records db \<Longrightarrow> records_ok db \<Longrightarrow> records_ok db'"
  by (simp add: records_ok_def)

lemma settle_records: "(\<And>db'. x = Inr db' \<Longrightarrow> hb_records db' = hb_records db) \<Longrightarrow> hb_records (fst (settle_honey db x)) = hb_records db"
  by (simp add: settle_honey_def split: sum.splits)

lemma fail_records [simp]: "hb_records (fst (settle_honey db (fail_honey r code m db))) = hb_records db"
  by (rule settle_records) (auto simp: fail_honey_def guard_simps honey_move_ok)

lemma activate_records [simp]: "hb_records (fst (settle_honey db (activate_honey now org r db))) = hb_records db"
  by (rule settle_records) (auto simp: activate_honey_def Let_def guard_simps honey_move_ok split: if_splits)

lemma move_records [simp]:
  "hb_records (fst (settle_honey db (and_then (honey_move r target f db) (\<lambda>d. Inr (honey_log org k ev meta d))))) = hb_records db"
  by (rule settle_records) (auto simp: guard_simps honey_move_ok)

lemma add_record_ok: "records_ok db \<Longrightarrow> records_ok (fst (add_honey_record cp now rid org dep trace key fp vals vh db))"
  by (auto simp: records_ok_def add_honey_record_def record_exists_def list_ex_iff)

lemma set_status_ok: "records_ok db \<Longrightarrow> records_ok (set_record_status now i ''retired'' db)"
proof -
  assume ok: "records_ok db"
  have "map (\<lambda>r. (hr_dep r, hr_fingerprint r)) (hb_records (set_record_status now i ''retired'' db)) =
      map (\<lambda>r. (hr_dep r, hr_fingerprint r)) (hb_records db)"
    by (simp add: set_record_status_def)
  moreover have "\<forall>r \<in> set (hb_records (set_record_status now i ''retired'' db)). hr_status r = ''inserted'' \<or> hr_status r = ''retired''"
    using ok by (auto simp: set_record_status_def records_ok_def)
  ultimately show ?thesis using ok unfolding records_ok_def by (metis (no_types, lifting))
qed

lemma insert_records:
  assumes "records_ok db" shows "records_ok (snd (fst (insert_honey hx port now rid org r p t vals (s, db))))"
proof -
  have "records_ok d" if "hb_records d = hb_records db" for d using records_ok_same [OF that assms] .
  moreover have "records_ok d" if "hb_records d = hb_records (fst (add_honey_record cp now rid org dep trace key fp vals vh e))"
      "hb_records e = hb_records db" for d cp dep trace key fp vals vh e
    using records_ok_same [OF that(1) add_record_ok] records_ok_same [OF that(2) assms] by blast
  ultimately show ?thesis
    by (auto simp: insert_honey_def Let_def split_beta split: sum.splits option.splits prod.splits db_error.splits)
qed

lemma execute_records:
  assumes "records_ok db" shows "records_ok (snd (fst (execute_honey hx port now rid org i (s, db))))"
proof -
  have "records_ok d" if "hb_records d = hb_records db" for d using records_ok_same [OF that assms] .
  then show ?thesis using insert_records [OF assms]
    by (auto simp: execute_honey_def Let_def split_beta split: sum.splits option.splits)
qed

lemma remove_rows_records: "records_ok (snd w) \<Longrightarrow> records_ok (snd (fst (remove_rows hx port now r k hs w)))"
proof (induction hs arbitrary: w)
  case (Cons h hs)
  obtain s db where w: "w = (s, db)" by fastforce
  have same: "records_ok d" if "hb_records d = hb_records db" for d using records_ok_same [OF that] Cons.prems w by simp
  have nxt: "records_ok (snd (fst (remove_rows hx port now r k hs (s1, set_record_status now (hr_id h) ''retired'' db))))" for s1
    using Cons.IH set_status_ok Cons.prems w by simp
  show ?case unfolding w using same nxt Cons.IH [of w] Cons.prems w
    by (auto simp: Let_def split_beta split: option.splits prod.splits sum.splits db_error.splits)
qed simp

lemma remove_records:
  assumes "records_ok db" shows "records_ok (snd (fst (remove_honey hx port now kind org i (s, db))))"
proof -
  have same: "records_ok d" if "hb_records d = hb_records e" "records_ok e" for d e using records_ok_same [OF that] .
  obtain db1 where db1: "db1 = honey_log org i (removal_name kind @ ''_started'') [] db" by simp
  have l: "records_ok db1" using same [OF _ assms] by (simp add: db1)
  have "records_ok (snd (fst (remove_rows hx port now r k (records_for i db1) (s, db1))))" for r k
    by (rule remove_rows_records) (simp add: l)
  then show ?thesis using assms l unfolding remove_honey_def Let_def prod.case db1 [symmetric]
    by (auto simp: split_beta intro: same split: sum.splits prod.splits bool.splits)
qed

lemma request_records: "hb_records (fst (h db)) = hb_records db \<Longrightarrow> in_request h db = (db', res) \<Longrightarrow> hb_records db' = hb_records db"
  by (auto simp: in_request_def split: prod.splits sum.splits)

lemma answer_move_ok: "answer_move r target f db = Inr db' \<Longrightarrow> hb_records db' = hb_records db"
proof -
  assume a: "answer_move r target f db = Inr db'"
  then obtain d where "honey_transition r target f db = Inr d" "db' = d"
    unfolding answer_move_def by (cases "honey_transition r target f db") auto
  then show ?thesis by (auto simp: honey_transition_def guard_simps)
qed

lemma job_records [simp]:
  "hb_records (fst (enqueue_honey j org i kind db)) = hb_records db"
  "hb_records (clear_honey_job i kind db) = hb_records db"
  "hb_records (complete_honey_job now i ok db) = hb_records db"
  by (simp_all add: enqueue_honey_def clear_honey_job_def complete_honey_job_def)

lemma connector_records [simp]:
  "hb_records (fst (create_honey_connector cp i org nm host database payload ssl ro actor db)) = hb_records db"
  "hb_records (set_connector_status now i status err tested synced db) = hb_records db"
  "hb_records (delete_honey_connector i db) = hb_records db"
  "hb_records (add_snapshot now i org k snap db) = hb_records db"
  "hb_records (set_honey_preview i p db) = hb_records db"
  "hb_records (fst (create_honey_row i org k sn schema table decoy actor expires db)) = hb_records db"
  by (simp_all add: create_honey_connector_def set_connector_status_def delete_honey_connector_def add_snapshot_def
      set_honey_preview_def create_honey_row_def Let_def)

lemma decide_records: "hb_records (fst (decide_honey hx auth i target ev db)) = hb_records db"
  by (auto simp: decide_honey_def dest: answer_move_ok split: sum.splits)

lemma lifecycle_records: "hb_records (fst (honey_lifecycle hx auth j i target kind ev db)) = hb_records db"
  by (auto simp: honey_lifecycle_def dest: answer_move_ok split: sum.splits)

lemma approve_records: "hb_records (fst (approve_honey hx auth i db)) = hb_records db"
  by (auto simp: approve_honey_def dest: answer_move_ok split: sum.splits)

lemma draft_records: "hb_records (fst (draft_honey hx now auth i hex body sn snap rec db)) = hb_records db"
  by (auto simp: draft_honey_def Let_def split_beta split: sum.splits)

lemma create_records: "hb_records (fst (create_honey hx now auth i hex body db)) = hb_records db"
  using draft_records [of hx now auth i hex body]
  by (auto simp: create_honey_def Let_def split: sum.splits option.splits)

lemma connector_endpoint_records:
  "hb_records (fst (create_connector hx auth i cbody db)) = hb_records db"
  "hb_records (fst (test_connector hx port s now auth i db)) = hb_records db"
  "hb_records (fst (sync_schema hx port s now auth j i db)) = hb_records db"
  "hb_records (fst (delete_connector hx auth i db)) = hb_records db"
  by (auto simp: create_connector_def test_connector_def sync_schema_def delete_connector_def Let_def split_beta
      split: sum.splits option.splits)

lemma claim_records: "hb_records (fst (claim_honey_each is db)) = hb_records db"
proof (induction "is" arbitrary: db)
  case (Cons i "is")
  have "hb_records (fst (claim_honey i db)) = hb_records db" by (simp add: claim_honey_def Let_def split: option.splits)
  with Cons show ?case by (simp split: prod.splits) (metis fst_conv)
qed simp

lemma run_job_records: "records_ok (snd w) \<Longrightarrow> records_ok (snd (run_honey_job hx port now rid j w))"
proof -
  assume ok: "records_ok (snd w)"
  obtain s db where w: "w = (s, db)" by fastforce
  have ok: "records_ok db" using ok w by simp
  have same: "records_ok (complete_honey_job now k b d)" if "records_ok d" for k b d
    using records_ok_same [OF _ that] by simp
  show ?thesis unfolding w run_honey_job_def
    using execute_records [OF ok, of hx port now rid] remove_records [OF ok, of hx port now]
    by (auto simp: split_beta intro!: same split: honey_job_type.splits)
qed

lemma run_jobs_records: "records_ok (snd w) \<Longrightarrow> records_ok (snd (run_honey_jobs hx port now fresh js w))"
  by (induction js arbitrary: w) (simp_all add: run_job_records)

lemma worker_records:
  assumes "records_ok (snd w)" and "honey_worker_once hx port now fresh batch w = (w', n)"
  shows "records_ok (snd w')"
proof -
  obtain s db where w: "w = (s, db)" by fastforce
  obtain db1 js where c: "claim_honey_jobs batch db = (db1, js)" by fastforce
  then have "hb_records db1 = hb_records db" using claim_records unfolding claim_honey_jobs_def by (metis fst_conv)
  then have "records_ok db1" using records_ok_same assms(1) w by simp
  then have "records_ok (snd (run_honey_jobs hx port now fresh js (s, db1)))" by (simp add: run_jobs_records)
  then show ?thesis using assms(2) w c by (auto simp: honey_worker_once_def)
qed

lemmas handler_records = decide_records lifecycle_records approve_records create_records connector_endpoint_records

lemma step_records: "honey_step hx port w w' \<Longrightarrow> records_ok (snd w) \<Longrightarrow> records_ok (snd w')"
proof (induction rule: honey_step.induct)
  case (hs_worker now fresh batch w w' n)
  then show ?case using worker_records by blast
qed (auto simp: submit_honey_def [abs_def] reject_honey_def [abs_def] deploy_honey_def [abs_def] retire_honey_def [abs_def]
    rollback_honey_def [abs_def] rotate_honey_def [abs_def] handler_records
    elim!: records_ok_same [rotated] dest!: request_records [rotated])

text \<open>The rows the trace registries of the browser and agent sensors select.\<close>

definition registry_rows :: "org_id \<Rightarrow> honey_db \<Rightarrow> honey_record list" where
  "registry_rows org db = filter (\<lambda>r. hr_org r = org \<and> hr_status r = ''active'') (hb_records db)"

lemma steps_records: "(honey_step hx port)\<^sup>*\<^sup>* w w' \<Longrightarrow> records_ok (snd w) \<Longrightarrow> records_ok (snd w')"
  by (induction rule: rtranclp_induct) (simp_all add: step_records)

text \<open>
  Over every sequence of requests and worker runs, with any client, a deployment has at most one record
  of a row, and every record is inserted or retired. The sensors' trace registries select the records
  that are \<open>active\<close>: no planted row ever is, so none of its traces is in a registry.
\<close>

theorem honey_records_unique_never_active:
  assumes "records_ok db" and "(honey_step hx port)\<^sup>*\<^sup>* (s, db) (s', db')"
  shows "distinct (map (\<lambda>r. (hr_dep r, hr_fingerprint r)) (hb_records db')) \<and> registry_rows org db' = []"
proof -
  have "records_ok db'" using steps_records [OF assms(2)] assms(1) by simp
  then show ?thesis by (auto simp: records_ok_def registry_rows_def filter_empty_conv)
qed

subsection \<open>Removal\<close>

text \<open>\<open>keyed pk r hs\<close>: the recorded keys name the primary key columns of the deployment's table.\<close>

definition keyed :: "(string \<times> string \<Rightarrow> string set) \<Rightarrow> honey_dep \<Rightarrow> honey_record list \<Rightarrow> bool" where
  "keyed pk r hs \<longleftrightarrow> list_all (\<lambda>h. case json_loads (hr_key h) of None \<Rightarrow> True
     | Some kv \<Rightarrow> fst ` set kv = pk (hd_schema r, hd_table r)) hs"

lemma remove_rows_owned:
  assumes "remove_rows hx port now r k hs (s, db) = ((s', db'), res)" and "look s' t key \<noteq> look s t key"
    and port: "deletes_owned look pk port" and "keyed pk r hs"
  shows "t = (hd_schema r, hd_table r) \<and> look s' t key = None \<and>
    (\<exists>h \<in> set hs. hr_status h \<noteq> ''retired'' \<and> (\<exists>kv vals row. json_loads (hr_key h) = Some kv \<and>
       decrypt_values (hx_cipher hx) h = Some vals \<and> key = pairs_text kv \<and> look s t key = Some row \<and> row_matches row vals))"
  using assms(1,2,4)
proof (induction hs arbitrary: s db)
  case (Cons h hs)
  have kd: "keyed pk r hs" using Cons.prems(3) by (simp add: keyed_def)
  show ?case
  proof (cases "hr_status h = ''retired''")
    case True
    then show ?thesis using Cons.IH [of s db, OF _ _ kd] Cons.prems by auto
  next
    case live: False
    show ?thesis
    proof (cases "json_loads (hr_key h) = None \<or> decrypt_values (hx_cipher hx) h = None \<or> honey_spec hx k = None")
      case True
      then show ?thesis using Cons.prems live by (auto split: option.splits)
    next
      case False
      then obtain kv vals spec where v: "json_loads (hr_key h) = Some kv" "decrypt_values (hx_cipher hx) h = Some vals"
          "honey_spec hx k = Some spec" by auto
      have key: "fst ` set kv = pk (hd_schema r, hd_table r)" using Cons.prems(3) v(1) by (simp add: keyed_def)
      obtain s1 out where d: "hp_delete port spec (hd_schema r) (hd_table r) kv vals s = (s1, out)" by fastforce
      have one: "t = (hd_schema r, hd_table r) \<and> look s1 t key = None \<and> key = pairs_text kv \<and>
          (\<exists>row. look s t key = Some row \<and> row_matches row vals)" if "look s1 t key \<noteq> look s t key"
        using port key d that unfolding deletes_owned_def by blast
      have rest: "(s' = s1) \<or> (\<exists>db1. remove_rows hx port now r k hs (s1, db1) = ((s', db'), res))"
        using Cons.prems(1) live v d
        by (auto simp: Let_def split: sum.splits db_error.splits prod.splits if_splits)
      show ?thesis
      proof (cases "look s1 t key = look s t key")
        case False
        then have n: "look s1 t key = None" using one by blast
        have "look s' t key = None"
        proof (rule ccontr)
          assume "look s' t key \<noteq> None"
          then have ne: "look s' t key \<noteq> look s1 t key" using n by simp
          then obtain db1 where "remove_rows hx port now r k hs (s1, db1) = ((s', db'), res)" using rest by auto
          from Cons.IH [OF this ne kd] show False using \<open>look s' t key \<noteq> None\<close> by blast
        qed
        then show ?thesis using one [OF False] v live by auto
      next
        case True
        then have ne: "look s' t key \<noteq> look s1 t key" using Cons.prems(2) by simp
        then obtain db1 where "remove_rows hx port now r k hs (s1, db1) = ((s', db'), res)" using rest by auto
        from Cons.IH [OF this ne kd] show ?thesis unfolding True by auto
      qed
    qed
  qed
qed simp

lemma removal_owned:
  assumes "remove_honey hx port now kind org i (s, db) = ((s', db'), res)" and "look s' t key \<noteq> look s t key"
    and "deletes_owned look pk port" and "find_honey i db = Some r" and "keyed pk r (records_for i db)"
  shows "t = (hd_schema r, hd_table r) \<and> look s' t key = None \<and>
    (\<exists>h kv vals row. h \<in> set (hb_records db) \<and> hr_dep h = i \<and> hr_status h \<noteq> ''retired'' \<and> json_loads (hr_key h) = Some kv \<and>
       decrypt_values (hx_cipher hx) h = Some vals \<and> key = pairs_text kv \<and> look s t key = Some row \<and> row_matches row vals)"
proof -
  let ?db = "honey_log org i (removal_name kind @ ''_started'') [] db"
  have r: "get_honey org i db = Inr r"
    using assms(1,2,4) by (cases "get_honey org i db") (auto simp: remove_honey_def get_honey_Inr)
  obtain k where k: "get_honey_connector org (hd_connector r) ?db = Inr k" and st: "hd_status r = expected_status kind"
    using assms(1,2) r by (cases "get_honey_connector org (hd_connector r) ?db") (auto simp: remove_honey_def Let_def split: if_splits)
  obtain s2 db2 out where m: "remove_rows hx port now r k (records_for i ?db) (s, ?db) = ((s2, db2), out)"
    by (metis surj_pair)
  have "s' = s2" using assms(1) r k st m by (auto simp: remove_honey_def Let_def split: sum.splits bool.splits prod.splits)
  moreover have "records_for i ?db = records_for i db" by (simp add: records_for_def)
  ultimately show ?thesis using remove_rows_owned [OF m _ assms(3), of t key] assms(2,5) by (auto simp: records_for_def)
qed

text \<open>The same with the in-memory client, which meets the contract for any primary keys.\<close>

lemma in_memory_removal_owned:
  assumes "remove_honey hx (fake_honey_port sha) now kind org i (s, db) = ((s', db'), res)"
    and "db_look s' t key \<noteq> db_look s t key" and "find_honey i db = Some r" and "keyed pk r (records_for i db)"
  shows "t = (hd_schema r, hd_table r) \<and> db_look s' t key = None \<and>
    (\<exists>h kv vals row. h \<in> set (hb_records db) \<and> hr_dep h = i \<and> hr_status h \<noteq> ''retired'' \<and> json_loads (hr_key h) = Some kv \<and>
       decrypt_values (hx_cipher hx) h = Some vals \<and> key = pairs_text kv \<and> db_look s t key = Some row \<and> row_matches row vals)"
  by (rule removal_owned [OF assms(1,2) fake_deletes_owned assms(3,4)])


subsection \<open>An insert and its removal\<close>

lemma connectors_only: "hb_connectors db' = hb_connectors db \<Longrightarrow> get_honey_connector org i db' = get_honey_connector org i db"
  by (simp add: get_honey_connector_def)

text \<open>What an execution that deploys has done.\<close>

definition planted :: "cipher_port \<Rightarrow> datetime \<Rightarrow> uuid \<Rightarrow> honey_dep \<Rightarrow> honey_preview \<Rightarrow> row_values \<Rightarrow> insert_result \<Rightarrow> honey_record" where
  "planted cp now rid r p vals ir = \<lparr>hr_id = rid, hr_org = hd_org r, hr_dep = hd_id r, hr_trace = hv_trace p,
     hr_key = json_dumps (ir_key ir), hr_fingerprint = hv_fingerprint p, hr_values = cp_encrypt cp (json_dumps vals),
     hr_vhash = ir_hash ir, hr_status = ''inserted'', hr_inserted = Some now, hr_retired = None\<rparr>"

lemma activate_deployed:
  assumes "settle_honey db (activate_honey now org r db) = (db1, Inr ())" and "find_honey (hd_id r) db = Some r"
    and "find_honey (hd_id r) db1 = Some r1" and "hd_status r1 = HDeployed"
  shows "active_record_count (hd_id r) db > 0 \<and> hb_records db1 = hb_records db \<and> hb_connectors db1 = hb_connectors db \<and>
    hd_schema r1 = hd_schema r \<and> hd_table r1 = hd_table r \<and> hd_connector r1 = hd_connector r \<and> hd_org r1 = hd_org r"
  using assms by (auto simp: settle_honey_def activate_honey_def Let_def guard_simps honey_move_ok find_honey_update
      split: sum.splits if_splits)

lemma fail_not_deployed:
  assumes "settle_honey db (fail_honey r code m db) = (db1, Inr ())" and "find_honey (hd_id r) db = Some r"
    and "find_honey (hd_id r) db1 = Some r1"
  shows "hd_status r1 = HFailed"
  using assms by (auto simp: settle_honey_def fail_honey_def guard_simps honey_move_ok find_honey_update split: sum.splits)

lemma insert_deployed:
  assumes ins: "insert_honey hx port now rid (hd_org r) r p t vals (s, db) = ((s1, db1), Inr ())"
    and f: "find_honey (hd_id r) db = Some r" and new: "\<not> record_exists (hd_id r) (hv_fingerprint p) db"
    and f1: "find_honey (hd_id r) db1 = Some r1" and st: "hd_status r1 = HDeployed"
  obtains k spec ir where "get_honey_connector (hd_org r) (hd_connector r) db = Inr k" "honey_spec hx k = Some spec"
    "hp_insert port spec (hd_schema r) (hd_table r) vals (ti_primary t) s = (s1, Inr ir)"
    "hb_records db1 = hb_records db @ [planted (hx_cipher hx) now rid r p vals ir]" "hb_connectors db1 = hb_connectors db"
    "hd_schema r1 = hd_schema r" "hd_table r1 = hd_table r" "hd_connector r1 = hd_connector r" "hd_org r1 = hd_org r"
proof -
  let ?org = "hd_org r"
  let ?db = "honey_log ?org (hd_id r) ''transaction_started'' [] db"
  have f': "find_honey (hd_id r) ?db = Some r" using f by simp
  obtain k spec where k: "get_honey_connector ?org (hd_connector r) db = Inr k" "honey_spec hx k = Some spec"
    using ins by (auto simp: insert_honey_def Let_def split: sum.splits option.splits)
  obtain s2 out where i: "hp_insert port spec (hd_schema r) (hd_table r) vals (ti_primary t) s = (s2, out)" by fastforce
  show ?thesis
  proof (cases out)
    case (Inl e)
    then obtain m where "settle_honey ?db (fail_honey r ''insert_failed'' m ?db) = (db1, Inr ())"
      using ins k i by (cases e) (auto simp: insert_honey_def Let_def split: prod.splits)
    then show ?thesis using fail_not_deployed [OF _ f' f1] st by fastforce
  next
    case (Inr ir)
    show ?thesis
    proof (cases "ir_inserted ir \<and> ir_verified ir")
      case False
      then have "settle_honey ?db (and_then (honey_move r HVerificationFailed
             (\<lambda>x. x\<lparr>hd_code := Some ''verify_failed'', hd_message := Some ''inserted row failed read-back verification''\<rparr>) ?db)
           (\<lambda>d. Inr (honey_log ?org (hd_id r) ''verification_failed'' [] d))) = (db1, Inr ())"
        using ins k i Inr by (auto simp: insert_honey_def Let_def split: prod.splits)
      then have "hd_status r1 = HVerificationFailed" using f' f1
        by (auto simp: settle_honey_def guard_simps honey_move_ok find_honey_update split: sum.splits)
      then show ?thesis using st by simp
    next
      case True
      let ?db2 = "honey_log ?org (hd_id r) ''verification_passed'' [] (honey_log ?org (hd_id r) ''row_inserted'' [] ?db)"
      let ?db3 = "fst (add_honey_record (hx_cipher hx) now rid ?org (hd_id r) (hv_trace p) (ir_key ir) (hv_fingerprint p) vals
        (ir_hash ir) ?db2)"
      have a: "settle_honey ?db3 (activate_honey now ?org r ?db3) = (db1, Inr ())" and s2: "s2 = s1"
        using ins k i Inr True by (auto simp: insert_honey_def Let_def split: prod.splits)
      have f3: "find_honey (hd_id r) ?db3 = Some r" using f' by simp
      have "\<not> record_exists (hd_id r) (hv_fingerprint p) ?db2" using new by (simp add: record_exists_def)
      then have r3: "hb_records ?db3 = hb_records db @ [planted (hx_cipher hx) now rid r p vals ir]"
          "hb_connectors ?db3 = hb_connectors db"
        by (simp_all add: add_honey_record_def planted_def)
      have d: "hb_records db1 = hb_records ?db3" "hb_connectors db1 = hb_connectors ?db3"
          "hd_schema r1 = hd_schema r" "hd_table r1 = hd_table r" "hd_connector r1 = hd_connector r" "hd_org r1 = hd_org r"
        using activate_deployed [OF a f3 f1 st] by blast+
      show ?thesis
        using that [OF k i [unfolded Inr s2] d(1) [unfolded r3(1)] d(2) [unfolded r3(2)] d(3-6)] .
    qed
  qed
qed

lemma queue_keeps [simp]:
  "find_honey k (fst (enqueue_honey j org i kind db)) = find_honey k db"
  "find_honey k (clear_honey_job i kind db) = find_honey k db"
  "hb_connectors (fst (enqueue_honey j org i kind db)) = hb_connectors db"
  "hb_connectors (clear_honey_job i kind db) = hb_connectors db"
  by (simp_all add: enqueue_honey_def clear_honey_job_def find_honey_def)

lemma lifecycle_ok:
  assumes "honey_lifecycle hx auth j i target kind ev db = (db', Inr ())"
  obtains r where "find_honey i db = Some r" "hd_org r = ctx_org auth"
    "find_honey i db' = Some (r\<lparr>hd_status := target\<rparr>)" "hb_records db' = hb_records db" "hb_connectors db' = hb_connectors db"
proof -
  obtain r where r: "get_honey (ctx_org auth) i db = Inr r"
    using assms by (cases "get_honey (ctx_org auth) i db") (auto simp: honey_lifecycle_def load_honey_def split: if_splits)
  then have f: "find_honey i db = Some r" "hd_org r = ctx_org auth" "hd_id r = i" using find_honey_id by (auto simp: get_honey_Inr)
  obtain d where d: "honey_transition r target id db = Inr d"
    using assms r by (cases "honey_transition r target id db") (auto simp: honey_lifecycle_def load_honey_def answer_move_def split: if_splits)
  then have d': "d = update_honey i (\<lambda>x. x\<lparr>hd_status := target\<rparr>) db" using f(3) by (auto simp: honey_transition_def guard_simps)
  have db': "db' = actor_log auth (Some i) None ev [] (fst (enqueue_honey j (ctx_org auth) i kind (clear_honey_job i kind d)))"
    using assms r d by (auto simp: honey_lifecycle_def load_honey_def answer_move_def split: if_splits)
  have "find_honey i db' = Some (r\<lparr>hd_status := target\<rparr>)" using f(1) by (simp add: db' d' find_honey_update)
  moreover have "hb_records db' = hb_records db" "hb_connectors db' = hb_connectors db" by (simp_all add: db' d')
  ultimately show ?thesis using f(1,2) by (intro that)
qed

text \<open>Removal when the deployment has one live record whose row is still there.\<close>

lemma remove_single:
  assumes r: "find_honey i db = Some r" "hd_org r = org" "hd_status r = expected_status kind"
    and k: "get_honey_connector org (hd_connector r) db = Inr k" "honey_spec hx k = Some spec"
    and h: "records_for i db = [h]" "hr_status h = ''inserted''"
    and v: "json_loads (hr_key h) = Some key" "decrypt_values (hx_cipher hx) h = Some vals"
    and del: "hp_delete port spec (hd_schema r) (hd_table r) key vals s = (s', Inr \<lparr>rr_deleted = b, rr_drift = False\<rparr>)"
  obtains db' where "remove_honey hx port now kind org i (s, db) = ((s', db'), Inr ())"
    "\<exists>x. find_honey i db' = Some x \<and> hd_status x = terminal_status kind" "\<forall>x \<in> set (records_for i db'). hr_status x = ''retired''"
proof -
  let ?db = "honey_log org i (removal_name kind @ ''_started'') [] db"
  let ?db1 = "set_record_status now (hr_id h) ''retired'' ?db"
  let ?db2 = "update_honey i (\<lambda>x. x\<lparr>hd_status := terminal_status kind, hd_retired := Some now\<rparr>) ?db1"
  let ?db3 = "honey_log org i (removal_name kind @ ''_completed'') [] ?db2"
  have id: "hd_id r = i" using r(1) find_honey_id by blast
  have g: "get_honey org i db = Inr r" using r by (simp add: get_honey_Inr)
  have k': "get_honey_connector org (hd_connector r) ?db = Inr k" using k connectors_only [of ?db db] by simp
  have h': "records_for i ?db = [h]" using h by (simp add: records_for_def)
  have can: "honey_can (expected_status kind) (terminal_status kind)" by (cases kind) (simp_all add: honey_can_def)
  have rows: "remove_rows hx port now r k [h] (s, ?db) = ((s', ?db1), Inr True)"
    using v k(2) h(2) del by simp
  have mv: "honey_move r (terminal_status kind) (\<lambda>x. x\<lparr>hd_retired := Some now\<rparr>) ?db1 = Inr ?db2"
    using can r(3) id by (simp add: honey_move_can)
  have "remove_honey hx port now kind org i (s, db) = ((s', ?db3), Inr ())"
    by (simp only: remove_honey_def Let_def prod.case g sum.case r(3) simp_thms if_False k' h' rows bool.case mv
        and_then_simps settle_honey_def)
  moreover have "find_honey i ?db1 = Some r" using r(1) by (simp add: find_honey_def set_record_status_def honey_log_def add_honey_audit_def)
  then have "\<exists>x. find_honey i ?db3 = Some x \<and> hd_status x = terminal_status kind" by (simp add: find_honey_update)
  moreover have "\<forall>x \<in> set (records_for i ?db3). hr_status x = ''retired''"
  proof
    fix x assume "x \<in> set (records_for i ?db3)"
    then obtain y where y: "y \<in> set (hb_records db)" "hr_dep x = i"
        "x = (if hr_id y = hr_id h then y\<lparr>hr_status := ''retired'', hr_retired := Some now\<rparr> else y)"
      by (auto simp: records_for_def set_record_status_def)
    then have "hr_dep y = i" by (auto split: if_splits)
    then have "y \<in> set (records_for i db)" using y(1) by (simp add: records_for_def)
    then have "y = h" using h(1) by simp
    then show "hr_status x = ''retired''" using y(3) by simp
  qed
  ultimately show ?thesis by (rule that)
qed

text \<open>
  C16. An insert and its removal restore the target database. When a job has deployed a first honey row with
  the in-memory client, then a retirement or rollback of that deployment, run while the row is unchanged, ends
  in the terminal status, every table has the rows it had before the insert, and every record of the deployment
  is retired. The primary key and the inserted row are read back from their stored JSON through the cipher.
\<close>

theorem honey_insert_remove_roundtrip:
  assumes cipher: "cipher_ok (hx_cipher hx)"
    and before: "find_honey i db = Some r" "hd_status r = HDeploying" "records_for i db = []"
    and deployed: "execute_honey hx (fake_honey_port sha) now rid org i (s, db) = ((s1, db1), Inr ())"
      "find_honey i db1 = Some r1" "hd_status r1 = HDeployed"
    and requested: "(if kind = Retirement then retire_honey hx auth j i db1 else rollback_honey hx auth j i db1) = (db2, Inr ())"
      "ctx_org auth = org"
  shows "\<exists>s2 db3. remove_honey hx (fake_honey_port sha) later kind org i (s1, db2) = ((s2, db3), Inr ()) \<and>
    db_look s2 = db_look s \<and> (\<exists>x. find_honey i db3 = Some x \<and> hd_status x = terminal_status kind) \<and>
    (\<forall>x \<in> set (records_for i db3). hr_status x = ''retired'')"
proof -
  have id: "hd_id r = i" using before(1) find_honey_id by blast
  have f: "find_honey (hd_id r) db = Some r" and f1: "find_honey (hd_id r) db1 = Some r1" using before(1) deployed(2) id by simp_all
  obtain g where g: "get_honey org i db = Inr g" using deployed(1) by (auto simp: execute_honey_def Let_def split: sum.splits)
  then have g: "get_honey org i db = Inr r" and org: "hd_org r = org" using before(1) by (auto simp: get_honey_Inr)
  have "\<not> fails_to r (s, db) (s1, db1)" using fail_not_deployed [OF _ f f1] deployed(3) by (auto simp: fails_to_def)
  moreover have "\<not> reactivates_to now r (s, db) (s1, db1)"
  proof
    assume "reactivates_to now r (s, db) (s1, db1)"
    then have "active_record_count (hd_id r) db > 0" using activate_deployed [OF _ f f1 deployed(3)] by (auto simp: reactivates_to_def)
    then show False using before(3) unfolding id active_record_count_def records_for_def filter_empty_conv
      by (auto simp: filter_empty_conv)
  qed
  ultimately have "inserts_to hx (fake_honey_port sha) now rid r (s, db) (s1, db1)"
    using execute_paths [OF deployed(1) g before(2)] by blast
  then obtain p t row where el: "el_deployable (evaluate_table (hx_allowed hx) (hx_blocked hx) t)"
      and gen: "generate_row (hx_gen hx) t (hv_trace p) (el_required (evaluate_table (hx_allowed hx) (hx_blocked hx) t)) = Inr row"
      and new: "\<not> record_exists (hd_id r) (hv_fingerprint p) db"
      and ins: "insert_honey hx (fake_honey_port sha) now rid (hd_org r) r p t (gr_values row) (s, db) = ((s1, db1), Inr ())"
    by (auto simp: inserts_to_def)
  have dist: "distinct (map fst (gr_values row))"
    using honey_row_total [OF el, of "hx_gen hx" "hv_trace p"] gen by (metis row_from_def sum.inject(2))
  obtain k spec ir where k: "get_honey_connector (hd_org r) (hd_connector r) db = Inr k" "honey_spec hx k = Some spec"
      and fi: "hp_insert (fake_honey_port sha) spec (hd_schema r) (hd_table r) (gr_values row) (ti_primary t) s = (s1, Inr ir)"
      and rec: "hb_records db1 = hb_records db @ [planted (hx_cipher hx) now rid r p (gr_values row) ir]"
      and con: "hb_connectors db1 = hb_connectors db"
      and same: "hd_schema r1 = hd_schema r" "hd_table r1 = hd_table r" "hd_connector r1 = hd_connector r" "hd_org r1 = hd_org r"
    by (rule insert_deployed [OF ins f new f1 deployed(3)])
  have fi': "fake_insert sha spec (hd_schema r) (hd_table r) (gr_values row) (ti_primary t) s = (s1, Inr ir)"
    using fi by (simp add: fake_honey_port_def)
  have dk: "distinct (map fst (ir_key ir))" using fake_rows.ins_row [OF dist fi'] by blast
  obtain s2 where del: "fake_delete spec (hd_schema r) (hd_table r) (ir_key ir) (gr_values row) s1 =
      (s2, Inr \<lparr>rr_deleted = True, rr_drift = False\<rparr>)" and look: "db_look s2 = db_look s"
    by (rule fake_rows.insert_delete_restores [OF dist fi'])
  obtain jt ev where life: "honey_lifecycle hx auth j i (expected_status kind) jt ev db1 = (db2, Inr ())"
    using requested(1) by (cases kind) (auto simp: retire_honey_def rollback_honey_def)
  obtain q where q: "find_honey i db1 = Some q" "hd_org q = ctx_org auth"
      "find_honey i db2 = Some (q\<lparr>hd_status := expected_status kind\<rparr>)" "hb_records db2 = hb_records db1"
      "hb_connectors db2 = hb_connectors db1"
    by (rule lifecycle_ok [OF life])
  have q1: "q = r1" using q(1) deployed(2) by simp
  let ?h = "planted (hx_cipher hx) now rid r p (gr_values row) ir"
  have h: "records_for i db2 = [?h]" using before(3) rec q(4) id by (simp add: records_for_def planted_def)
  have v: "json_loads (hr_key ?h) = Some (ir_key ir)" "decrypt_values (hx_cipher hx) ?h = Some (gr_values row)"
    using cipher dk dist by (simp_all add: planted_def decrypt_values_def cipher_ok_def json_dumps_loads)
  have k2: "get_honey_connector org (hd_connector (r1\<lparr>hd_status := expected_status kind\<rparr>)) db2 = Inr k"
    using k(1) connectors_only [of db2 db] con q(5) same(3) org by simp
  have st: "hr_status ?h = ''inserted''" by (simp add: planted_def)
  have del2: "hp_delete (fake_honey_port sha) spec (hd_schema (r1\<lparr>hd_status := expected_status kind\<rparr>))
      (hd_table (r1\<lparr>hd_status := expected_status kind\<rparr>)) (ir_key ir) (gr_values row) s1 =
      (s2, Inr \<lparr>rr_deleted = True, rr_drift = False\<rparr>)"
    using del same by (simp add: fake_honey_port_def)
  obtain db3 where "remove_honey hx (fake_honey_port sha) later kind org i (s1, db2) = ((s2, db3), Inr ())"
      "\<exists>x. find_honey i db3 = Some x \<and> hd_status x = terminal_status kind" "\<forall>x \<in> set (records_for i db3). hr_status x = ''retired''"
    using remove_single [OF q(3) [unfolded q1] _ _ k2 k(2) h st v del2, where now = later] same org by auto
  then show ?thesis using look by blast
qed

subsection \<open>A run\<close>

definition demo_hx :: honey_env where
  "demo_hx = \<lparr>hx_connectors = True, hx_honey = True, hx_allowed = [''public''], hx_blocked = [''audit''], hx_max_tables = 10,
     hx_require_tls = True, hx_development = False, hx_separate = True, hx_expiry_days = 30, hx_connect_timeout = 5,
     hx_statement_timeout = 1000, hx_cipher = \<lparr>cp_encrypt = id, cp_decrypt = Some, cp_version = ''k''\<rparr>, hx_gen = demo_gen,
     hx_str = (\<lambda>n. ''u'')\<rparr>"

definition demo_actor :: "uuid \<Rightarrow> auth_context" where
  "demo_actor k = \<lparr>ctx_org = 7, ctx_scopes = [], ctx_role = ''admin'', ctx_key_id = Some k\<rparr>"

definition demo_postgres :: fake_database where
  "demo_postgres = register_table demo_table \<lparr>fd_tables = [], fd_version = ''16'', fd_fail = False\<rparr>"

definition empty_honey_db :: honey_db where
  "empty_honey_db = \<lparr>hb_connectors = [], hb_snapshots = [], hb_deps = [], hb_records = [], hb_jobs = [], hb_audit = []\<rparr>"

definition demo_synced :: honey_db where
  "demo_synced = fst (sync_schema demo_hx (fake_honey_port id) demo_postgres 1 (demo_actor 5) 3 2
     (fst (create_connector demo_hx (demo_actor 5) 2 \<lparr>cb_name = ''pg'', cb_host = ''h'', cb_database = ''d'', cb_user = ''u'',
        cb_password = ''p'', cb_ssl = ''require'', cb_read_only = True\<rparr> empty_honey_db)))"

definition demo_drafted :: honey_db where
  "demo_drafted = fst (create_honey demo_hx 2 (demo_actor 5) 4 ''ab'' \<lparr>hbo_connector = 2, hbo_schema = ''public'',
     hbo_table = ''orders'', hbo_decoy = None\<rparr> demo_synced)"

definition demo_deploying :: honey_db where
  "demo_deploying = fst (deploy_honey demo_hx (demo_actor 5) 8 4 (fst (approve_honey demo_hx (demo_actor 6) 4
     (fst (submit_honey demo_hx (demo_actor 5) 4 demo_drafted)))))"

definition demo_executed :: "fake_database honey_world \<times> (honey_crash + unit)" where
  "demo_executed = execute_honey demo_hx (fake_honey_port id) 9 20 7 4 (demo_postgres, demo_deploying)"

lemma demo_deploying_row:
  "map_option hd_status (find_honey 4 demo_deploying) = Some HDeploying" "records_for 4 demo_deploying = []"
proof -
  have "(case demo_deploying of db \<Rightarrow> (map_option hd_status (find_honey 4 db), records_for 4 db)) = (Some HDeploying, [])" by code_simp
  then show "map_option hd_status (find_honey 4 demo_deploying) = Some HDeploying" "records_for 4 demo_deploying = []" by simp_all
qed

lemma demo_executed_ok:
  "snd demo_executed = Inr ()" "map_option hd_status (find_honey 4 (snd (fst demo_executed))) = Some HDeployed"
proof -
  have "(case demo_executed of (w, r) \<Rightarrow> (r, map_option hd_status (find_honey 4 (snd w)))) = (Inr (), Some HDeployed)" by code_simp
  then show "snd demo_executed = Inr ()" "map_option hd_status (find_honey 4 (snd (fst demo_executed))) = Some HDeployed"
    by (simp_all add: case_prod_beta)
qed

text \<open>A drafted plan and the state in which it is executed, written out.\<close>

definition demo_snap :: schema_snapshot where
  "demo_snap = \<lparr>ss_version = ''16'', ss_tables = [demo_table], ss_hash = ''h''\<rparr>"

definition demo_plan :: "honey_error + honey_preview \<times> generated_row" where
  "demo_plan = build_honey_preview (hx_gen demo_hx) (hx_allowed demo_hx) (hx_blocked demo_hx) ''u'' ''u'' demo_snap
     ''public'' ''orders'' SynOrder ''DFH-ab'' None"

lemma demo_plan_ok: obtains p row where "demo_plan = Inr (p, row)"
proof -
  have "is_ok demo_plan" by code_simp
  then show ?thesis using that by (auto simp: is_ok_iff)
qed

lemma build_trace: "build_honey_preview g al bl d c snap schema table decoy trace expires = Inr (p, row) \<Longrightarrow> hv_trace p = trace"
  by (auto simp: build_honey_preview_def Let_def guard_simps split: option.splits if_splits)

definition planned_dep :: "honey_preview option \<Rightarrow> honey_status \<Rightarrow> honey_dep" where
  "planned_dep p st = \<lparr>hd_id = 4, hd_org = 7, hd_connector = 2, hd_snapshot = 3, hd_schema = ''public'', hd_table = ''orders'',
     hd_decoy = SynOrder, hd_status = st, hd_requested = Some 5, hd_approved = Some 6, hd_preview = p,
     hd_monitoring = None, hd_expires = None, hd_deployed = None, hd_retired = None, hd_code = None, hd_message = None\<rparr>"

definition planned_db :: "honey_dep \<Rightarrow> honey_record list \<Rightarrow> honey_db" where
  "planned_db r hs = \<lparr>hb_connectors = [\<lparr>hk_id = 2, hk_org = 7, hk_name = ''pg'', hk_host = ''h'', hk_database = ''d'',
        hk_secret = json_dumps [], hk_key_version = ''k'', hk_ssl = ''require'', hk_status = ''active'', hk_read_only = True,
        hk_actor = None, hk_tested = None, hk_synced = None, hk_error = None\<rparr>],
     hb_snapshots = [\<lparr>sn_id = 3, sn_org = 7, sn_connector = 2, sn_captured = 1, sn_data = demo_snap\<rparr>],
     hb_deps = [r], hb_records = hs, hb_jobs = [], hb_audit = []\<rparr>"

theorem honey_recheck_never_refuses_witness:
  "\<exists>p t vals. execute_honey demo_hx (fake_honey_port id) 9 20 7 4 (demo_postgres, planned_db (planned_dep (Some p) HDeploying) []) =
     insert_honey demo_hx (fake_honey_port id) 9 20 7 (planned_dep (Some p) HDeploying) p t vals
       (demo_postgres, planned_db (planned_dep (Some p) HDeploying) [])"
proof -
  obtain p row where p: "demo_plan = Inr (p, row)" by (rule demo_plan_ok)
  let ?r = "planned_dep (Some p) HDeploying" let ?db = "planned_db ?r []"
  have "find_honey 4 ?db = Some ?r" "hd_org ?r = 7" "hd_status ?r = HDeploying" "hd_preview ?r = Some p"
      "get_snapshot 7 (hd_snapshot ?r) ?db = Inr demo_snap"
    by (simp_all add: find_honey_def planned_db_def planned_dep_def get_snapshot_def)
  moreover have "build_honey_preview (hx_gen demo_hx) (hx_allowed demo_hx) (hx_blocked demo_hx) ''u'' ''u'' demo_snap
      (hd_schema ?r) (hd_table ?r) SynOrder (hv_trace p) None = Inr (p, row)"
    using p build_trace [OF p [unfolded demo_plan_def]] by (simp add: planned_dep_def demo_plan_def)
  moreover have "\<not> record_exists 4 (hv_fingerprint p) ?db" by (simp add: record_exists_def planned_db_def)
  ultimately show ?thesis
    using honey_recheck_never_refuses [where port = "fake_honey_port id" and now = 9 and rid = 20 and s = demo_postgres] by fastforce
qed

theorem honey_execute_idempotent_witness:
  "execute_honey demo_hx (fake_honey_port id) 10 21 7 4 (fst demo_executed) = (fst demo_executed, Inr ())"
proof -
  have "execute_honey demo_hx (fake_honey_port id) 9 20 7 4 (demo_postgres, demo_deploying) = (fst demo_executed, Inr ())"
    using demo_executed_ok(1) unfolding demo_executed_def by (simp add: prod_eq_iff)
  from honey_execute_idempotent [OF this] show ?thesis .
qed

definition demo_worked :: "fake_database honey_world" where
  "demo_worked = fst (honey_worker_once demo_hx (fake_honey_port id) 9 (\<lambda>j. 20) 5 (demo_postgres, demo_deploying))"

theorem honey_records_unique_never_active_witness:
  "map hr_status (hb_records (snd demo_worked)) = [''inserted''] \<and> registry_rows 7 (snd demo_worked) = []"
proof -
  have "map hr_status (hb_records (snd demo_worked)) = [''inserted'']" by code_simp
  moreover have "records_ok demo_deploying" by code_simp
  moreover have "honey_step demo_hx (fake_honey_port id) (demo_postgres, demo_deploying) (fst demo_worked, snd demo_worked)"
    by (rule hs_worker [where n = "snd (honey_worker_once demo_hx (fake_honey_port id) 9 (\<lambda>j. 20) 5 (demo_postgres, demo_deploying))"])
      (simp add: demo_worked_def)
  ultimately show ?thesis using honey_records_unique_never_active by (metis r_into_rtranclp)
qed

definition demo_retiring :: honey_db where
  "demo_retiring = fst (retire_honey demo_hx (demo_actor 5) 9 4 (snd (fst demo_executed)))"







theorem honey_insert_remove_roundtrip_witness:
  "\<exists>s2 db3. remove_honey demo_hx (fake_honey_port id) 11 Retirement 7 4 (fst (fst demo_executed), demo_retiring) = ((s2, db3), Inr ()) \<and>
     db_look s2 = db_look demo_postgres"
proof -
  have cipher: "cipher_ok (hx_cipher demo_hx)" by (simp add: cipher_ok_def demo_hx_def)
  have e: "execute_honey demo_hx (fake_honey_port id) 9 20 7 4 (demo_postgres, demo_deploying) =
      ((fst (fst demo_executed), snd (fst demo_executed)), Inr ())"
    using demo_executed_ok(1) unfolding demo_executed_def by (simp add: prod_eq_iff)
  obtain r where dep: "find_honey 4 demo_deploying = Some r" "hd_status r = HDeploying" using demo_deploying_row(1) by auto
  obtain r1 where r1: "find_honey 4 (snd (fst demo_executed)) = Some r1" "hd_status r1 = HDeployed"
    using demo_executed_ok(2) by auto
  have "snd (retire_honey demo_hx (demo_actor 5) 9 4 (snd (fst demo_executed))) = Inr ()" by code_simp
  then have q: "(if Retirement = Retirement then retire_honey demo_hx (demo_actor 5) 9 4 (snd (fst demo_executed))
      else rollback_honey demo_hx (demo_actor 5) 9 4 (snd (fst demo_executed))) = (demo_retiring, Inr ())"
    by (simp add: demo_retiring_def prod_eq_iff)
  have org: "ctx_org (demo_actor 5) = 7" by (simp add: demo_actor_def)
  show ?thesis
    using honey_insert_remove_roundtrip [OF cipher dep demo_deploying_row(2) e r1 q org] by blast
qed

end
