(* ===== verification/Learning_Stats.thy ===== *)
theory Learning_Stats
  imports Text_Util Lifecycle "HOL-Library.Multiset"
begin

text \<open>
  The pure part of controlled learning: the contracts (\<open>models/domain/learning.py\<close>), the calibration
  statistics (\<open>services/learning/calibration.py\<close>), the application of an active calibration
  (\<open>applied.py\<close>) and the rules of the model-version lifecycle (\<open>versions.py\<close>). A float is a rational; the
  square root of the Wilson interval is an argument. The length and range limits of the pydantic
  contracts are stated where they matter.
\<close>

subsection \<open>Contracts\<close>

datatype bucket = BNone | BLow | BMedium | BHigh | BVeryHigh

definition bucket_of :: "int \<Rightarrow> bucket" where
  "bucket_of n = (if n \<le> 0 then BNone else if n \<le> 2 then BLow else if n \<le> 5 then BMedium else if n \<le> 15 then BHigh else BVeryHigh)"

datatype outcome = OAccepted | ORejected | ODeployed | ODeploymentFailed | OTriggered | ONotTriggered | ORolledBack
  | ORetired | OExpired

fun outcome_value :: "outcome \<Rightarrow> string" where
  "outcome_value OAccepted = ''accepted''"
| "outcome_value ORejected = ''rejected''"
| "outcome_value ODeployed = ''deployed''"
| "outcome_value ODeploymentFailed = ''deployment_failed''"
| "outcome_value OTriggered = ''triggered''"
| "outcome_value ONotTriggered = ''not_triggered''"
| "outcome_value ORolledBack = ''rolled_back''"
| "outcome_value ORetired = ''retired''"
| "outcome_value OExpired = ''expired''"

definition operational_outcomes :: "outcome set" where
  "operational_outcomes = {ODeploymentFailed, ORolledBack}"

datatype model_status = MCandidate | MUnderReview | MApproved | MActive | MRejected | MRolledBack | MArchived

fun model_status_value :: "model_status \<Rightarrow> string" where
  "model_status_value MCandidate = ''candidate''"
| "model_status_value MUnderReview = ''under_review''"
| "model_status_value MApproved = ''approved''"
| "model_status_value MActive = ''active''"
| "model_status_value MRejected = ''rejected''"
| "model_status_value MRolledBack = ''rolled_back''"
| "model_status_value MArchived = ''archived''"

fun model_table :: "model_status \<Rightarrow> model_status list" where
  "model_table MCandidate = [MUnderReview, MRejected]"
| "model_table MUnderReview = [MApproved, MRejected]"
| "model_table MApproved = [MActive, MRejected]"
| "model_table MActive = [MRolledBack, MArchived]"
| "model_table MRejected = [MArchived]"
| "model_table MRolledBack = [MArchived, MActive]"
| "model_table MArchived = []"

definition transition_allowed :: "model_status \<Rightarrow> model_status \<Rightarrow> bool" where
  "transition_allowed current target \<longleftrightarrow> target \<in> set (model_table current)"

datatype model_scope = GlobalScope | OrganizationScope

record calibration_weights =
  cw_zone_priors :: "(string \<times> rat) list"
  cw_decoy_priors :: "(string \<times> rat) list"
  cw_scale :: rat
  cw_evidence :: rat
  cw_tie :: string

definition default_weights :: calibration_weights where
  "default_weights = \<lparr>cw_zone_priors = [], cw_decoy_priors = [], cw_scale = 1, cw_evidence = 1, cw_tie = ''deterministic''\<rparr>"

record cohort_metric =
  cm_cohort :: string
  cm_samples :: nat
  cm_successes :: nat
  cm_rate :: rat
  cm_low :: rat
  cm_high :: rat
  cm_actors :: nat
  cm_sufficient :: bool

record calibration_metrics =
  me_acceptance :: "cohort_metric list"
  me_trigger :: "cohort_metric list"
  me_error :: rat
  me_included :: nat
  me_excluded :: nat
  me_reasons :: "(string \<times> nat) list"

record attribution =
  at_usable :: bool
  at_reason :: string
  at_hours :: rat
  at_ratio :: rat

record calibration_report =
  cr_methodology :: string
  cr_schema :: string
  cr_start :: datetime
  cr_end :: datetime
  cr_previous :: "calibration_weights option"
  cr_candidate :: calibration_weights
  cr_metrics :: calibration_metrics
  cr_preserved :: bool
  cr_limitations :: "string list"

definition feature_schema_version :: string where "feature_schema_version = ''features-v1''"
definition methodology_version :: string where "methodology_version = ''calibration-v1''"

subsection \<open>Statistics\<close>

record observation =
  ob_cohort :: string
  ob_outcome :: outcome
  ob_actor :: "string option"
  ob_hours :: rat
  ob_ratio :: rat
  ob_confidence :: rat

definition round4 :: "rat \<Rightarrow> rat" where
  "round4 x = of_int (round_even (x * 10000)) / 10000"

definition wilson_center :: "nat \<Rightarrow> nat \<Rightarrow> rat" where
  "wilson_center successes trials =
     (let z = 196 / 100; p = of_nat successes / of_nat trials; n = of_nat trials in (p + z * z / (2 * n)) / (1 + z * z / n))"

definition wilson_interval :: "(rat \<Rightarrow> rat) \<Rightarrow> nat \<Rightarrow> nat \<Rightarrow> rat \<times> rat" where
  "wilson_interval sq successes trials =
     (if trials = 0 then (0, 1)
      else
        let z = 196 / 100; n = of_nat trials; p = of_nat successes / n;
            center = wilson_center successes trials;
            margin = z / (1 + z * z / n) * sq (p * (1 - p) / n + z * z / (4 * n * n))
        in (round4 (max 0 (center - margin)), round4 (min 1 (center + margin))))"

definition smoothed_rate :: "nat \<Rightarrow> nat \<Rightarrow> rat" where
  "smoothed_rate successes trials = round4 ((of_nat successes + 1) / (of_nat trials + 1 + 1))"

definition attribute_outcome :: "rat \<Rightarrow> rat \<Rightarrow> observation \<Rightarrow> attribution" where
  "attribute_outcome min_hours min_ratio b =
     (if ob_outcome b \<in> operational_outcomes then \<lparr>at_usable = False, at_reason = ''operational_failure'', at_hours = 0, at_ratio = 0\<rparr>
      else if ob_outcome b = ONotTriggered \<and> ob_hours b < min_hours then
        \<lparr>at_usable = False, at_reason = ''observation_window_too_short'', at_hours = ob_hours b, at_ratio = ob_ratio b\<rparr>
      else if ob_outcome b = ONotTriggered \<and> ob_ratio b < min_ratio then
        \<lparr>at_usable = False, at_reason = ''monitoring_unhealthy'', at_hours = ob_hours b, at_ratio = ob_ratio b\<rparr>
      else \<lparr>at_usable = True, at_reason = [], at_hours = ob_hours b, at_ratio = ob_ratio b\<rparr>)"

text \<open>The thresholds of the settings.\<close>

record thresholds =
  th_samples :: nat
  th_actors :: nat
  th_share :: rat
  th_hours :: rat
  th_ratio :: rat

text \<open>\<open>r.actor_id for r in rows if r.actor_id\<close>.\<close>

definition actors_of :: "observation list \<Rightarrow> string list" where
  "actors_of rows = List.map_filter (\<lambda>b. case ob_actor b of None \<Rightarrow> None | Some a \<Rightarrow> if a = [] then None else Some a) rows"

definition top_count :: "string list \<Rightarrow> nat" where
  "top_count xs = foldr max (map (count_list xs) (remdups xs)) 0"

definition dominated :: "rat \<Rightarrow> string list \<Rightarrow> bool" where
  "dominated share actors \<longleftrightarrow> actors \<noteq> [] \<and> of_nat (top_count actors) / of_nat (length actors) > share"

definition successes_in :: "outcome set \<Rightarrow> observation list \<Rightarrow> nat" where
  "successes_in positive rows = length (filter (\<lambda>b. ob_outcome b \<in> positive) rows)"

definition cohort_metric_of :: "(rat \<Rightarrow> rat) \<Rightarrow> thresholds \<Rightarrow> outcome set \<Rightarrow> observation list \<Rightarrow> string \<Rightarrow> cohort_metric" where
  "cohort_metric_of sq th positive obs cohort =
     (let rows = filter (\<lambda>b. ob_cohort b = cohort) obs; actors = actors_of rows; distinct_actors = length (remdups actors);
          trials = length rows; succ = successes_in positive rows; (low, high) = wilson_interval sq succ trials
      in \<lparr>cm_cohort = cohort, cm_samples = trials, cm_successes = succ, cm_rate = smoothed_rate succ trials, cm_low = low,
          cm_high = high, cm_actors = distinct_actors,
          cm_sufficient = (th_samples th \<le> trials \<and> \<not> dominated (th_share th) actors \<and>
            (th_actors th \<le> distinct_actors \<or> actors = []))\<rparr>)"

definition cohort_metrics :: "(rat \<Rightarrow> rat) \<Rightarrow> thresholds \<Rightarrow> outcome set \<Rightarrow> observation list \<Rightarrow> cohort_metric list" where
  "cohort_metrics sq th positive obs = map (cohort_metric_of sq th positive obs) (sort (remdups (map ob_cohort obs)))"

text \<open>\<open>int(x)\<close> truncates; a confidence is not negative.\<close>

definition confidence_bin :: "observation \<Rightarrow> int" where
  "confidence_bin b = min 9 \<lfloor>ob_confidence b * 10\<rfloor>"

definition bin_error :: "outcome set \<Rightarrow> observation list \<Rightarrow> int \<Rightarrow> rat" where
  "bin_error positive obs i =
     (let rows = filter (\<lambda>b. confidence_bin b = i) obs
      in \<bar>of_nat (successes_in positive rows) / of_nat (length rows) - (of_int i + 1 / 2) / 10\<bar>)"

definition calibration_error :: "outcome set \<Rightarrow> observation list \<Rightarrow> rat" where
  "calibration_error positive obs =
     (let bins = sort (remdups (map confidence_bin obs)) in
      if bins = [] then 0 else round4 (sum_list (map (bin_error positive obs) bins) / of_nat (length bins)))"

definition accepted_outcomes :: "outcome set" where "accepted_outcomes = {OAccepted, ODeployed}"

definition usable_obs :: "thresholds \<Rightarrow> observation list \<Rightarrow> observation list" where
  "usable_obs th obs = filter (\<lambda>b. at_usable (attribute_outcome (th_hours th) (th_ratio th) b)) obs"

definition exclusion_list :: "thresholds \<Rightarrow> observation list \<Rightarrow> string list" where
  "exclusion_list th obs = map (\<lambda>b. at_reason (attribute_outcome (th_hours th) (th_ratio th) b))
     (filter (\<lambda>b. \<not> at_usable (attribute_outcome (th_hours th) (th_ratio th) b)) obs)"

definition counts_of :: "string list \<Rightarrow> (string \<times> nat) list" where
  "counts_of xs = map (\<lambda>k. (k, count_list xs k)) (sort (remdups xs))"

text \<open>\<open>zone_priors[metric.cohort] = metric.rate\<close> for the sufficient cohorts, then sorted by key.\<close>

definition updated_priors :: "(string \<times> rat) list \<Rightarrow> cohort_metric list \<Rightarrow> (string \<times> rat) list" where
  "updated_priors base ms =
     sort_key fst (fold (\<lambda>m d. if cm_sufficient m then AList.update (cm_cohort m) (cm_rate m) d else d) ms base)"

definition build_candidate ::
  "(rat \<Rightarrow> rat) \<Rightarrow> thresholds \<Rightarrow> datetime \<Rightarrow> datetime \<Rightarrow> calibration_weights option \<Rightarrow> observation list \<Rightarrow> calibration_report option" where
  "build_candidate sq th start stop previous obs =
     (let usable = usable_obs th obs; excluded = exclusion_list th obs in
      if length usable < th_samples th then None
      else
        let acceptance = cohort_metrics sq th accepted_outcomes usable;
            trigger = cohort_metrics sq th {OTriggered} usable;
            base = (case previous of None \<Rightarrow> default_weights | Some w \<Rightarrow> w);
            metrics = \<lparr>me_acceptance = acceptance, me_trigger = trigger, me_error = calibration_error accepted_outcomes usable,
              me_included = length usable, me_excluded = length excluded, me_reasons = counts_of excluded\<rparr>;
            insufficient = filter (\<lambda>m. \<not> cm_sufficient m) acceptance
        in Some \<lparr>cr_methodology = methodology_version, cr_schema = feature_schema_version, cr_start = start, cr_end = stop,
             cr_previous = previous,
             cr_candidate = base\<lparr>cw_zone_priors := updated_priors (cw_zone_priors base) acceptance\<rparr>,
             cr_metrics = metrics, cr_preserved = True,
             cr_limitations = take 10
               ((if insufficient \<noteq> [] then [nat_str (length insufficient) @ '' cohort(s) below the sufficiency threshold kept defaults''] else []) @
                (if excluded \<noteq> [] then [nat_str (length excluded) @ '' outcome(s) excluded by attribution rules''] else []))\<rparr>)"

subsection \<open>Applying a calibration\<close>

record recommendation_view =
  rv_rank :: nat
  rv_zone :: string
  rv_path :: string
  rv_decoy :: string
  rv_visibility :: rat
  rv_relevance :: rat
  rv_detection :: rat
  rv_risk :: rat
  rv_confidence :: rat
  rv_signals :: "string list"
  rv_reasoning :: string
  rv_alternatives :: "string list"

record active_calibration =
  kal_version :: "uuid option"
  kal_weights :: "calibration_weights option"
  kal_org :: bool
  kal_global :: bool
  kal_samples :: "(string \<times> nat) list"
  kal_intervals :: "(string \<times> (rat \<times> rat)) list"

record change_explanation =
  ce_version :: "uuid option"
  ce_changed :: bool
  ce_factors :: "string list"
  ce_previous :: rat
  ce_current :: rat
  ce_previous_rank :: nat
  ce_current_rank :: nat
  ce_samples :: nat
  ce_interval :: "(rat \<times> rat) option"
  ce_org :: bool
  ce_global :: bool
  ce_text :: string

definition prior_factor :: "rat \<Rightarrow> rat \<Rightarrow> rat" where
  "prior_factor prior scale = max (3 / 4) (min (5 / 4) ((3 / 4 + (5 / 4 - 3 / 4) * prior) * scale))"

definition calibrated_confidence :: "calibration_weights \<Rightarrow> recommendation_view \<Rightarrow> rat" where
  "calibrated_confidence w item =
     (case map_of (cw_zone_priors w) (rv_zone item) of
        None \<Rightarrow> rv_confidence item
      | Some prior \<Rightarrow> round4 (max 0 (min 1 (rv_confidence item * prior_factor prior (cw_scale w)))))"

text \<open>\<open>f"{x:.2f}"\<close>.\<close>

definition fixed2 :: "rat \<Rightarrow> string" where
  "fixed2 x =
     (let n = round_even (x * 100); a = nat \<bar>n\<bar> in
      (if n < 0 then ''-'' else []) @ nat_str (a div 100) @ ''.'' @ nat_str (a div 10 mod 10) @ nat_str (a mod 10))"

definition change_text :: "rat option \<Rightarrow> nat \<Rightarrow> recommendation_view \<Rightarrow> rat \<Rightarrow> string" where
  "change_text prior samples item confidence =
     (case prior of
        None \<Rightarrow> ''Ranking and confidence are unchanged for the '' @ rv_zone item @
          '' zone: the sample count is below the promotion threshold, so the deterministic default was kept.''
      | Some p \<Rightarrow> ''Confidence was '' @
          (if confidence > rv_confidence item then ''increased'' else if confidence < rv_confidence item then ''reduced'' else ''unchanged'') @
          '' for the '' @ rv_zone item @
          '' zone because reviewed outcomes in this organization produced an acceptance rate of '' @ fixed2 p @
          '' across '' @ nat_str samples @ '' attributable outcome(s).'')"

definition explain_change ::
  "active_calibration \<Rightarrow> calibration_weights \<Rightarrow> nat \<Rightarrow> recommendation_view \<times> rat \<Rightarrow> change_explanation" where
  "explain_change k w new_rank e =
     (let (item, confidence) = e; prior = map_of (cw_zone_priors w) (rv_zone item);
          samples = (case map_of (kal_samples k) (rv_zone item) of None \<Rightarrow> 0 | Some n \<Rightarrow> n)
      in \<lparr>ce_version = kal_version k, ce_changed = (confidence \<noteq> rv_confidence item \<or> new_rank \<noteq> rv_rank item),
          ce_factors = (if prior = None then [] else [''organization_zone_prior'']),
          ce_previous = rv_confidence item, ce_current = confidence, ce_previous_rank = rv_rank item,
          ce_current_rank = new_rank, ce_samples = samples, ce_interval = map_of (kal_intervals k) (rv_zone item),
          ce_org = kal_org k, ce_global = kal_global k, ce_text = take 512 (change_text prior samples item confidence)\<rparr>)"

definition baseline_explanation :: "recommendation_view \<Rightarrow> change_explanation" where
  "baseline_explanation item =
     \<lparr>ce_version = None, ce_changed = False, ce_factors = [], ce_previous = rv_confidence item, ce_current = rv_confidence item,
      ce_previous_rank = rv_rank item, ce_current_rank = rv_rank item, ce_samples = 0, ce_interval = None, ce_org = False,
      ce_global = False,
      ce_text = ''No active calibration for this organization; the deterministic baseline produced this result.''\<rparr>"

definition apply_calibration ::
  "active_calibration \<Rightarrow> recommendation_view list \<Rightarrow> recommendation_view list \<times> change_explanation list" where
  "apply_calibration k recs =
     (if recs = [] then ([], [])
      else case (kal_version k, kal_weights k) of
        (Some _, Some w) \<Rightarrow>
          (let adjusted = map (\<lambda>item. (item, calibrated_confidence w item)) recs;
               ordered = sort_key (\<lambda>e. (- snd e, rv_path (fst e))) adjusted;
               ranked = zip [1..<length ordered + 1] ordered
           in (map (\<lambda>(n, (item, c)). item\<lparr>rv_rank := n, rv_confidence := c\<rparr>) ranked,
               map (\<lambda>(n, e). explain_change k w n e) ranked))
      | _ \<Rightarrow> (recs, map baseline_explanation recs))"

subsection \<open>The model-version lifecycle\<close>

record version_view =
  vv_id :: uuid
  vv_org :: "org_id option"
  vv_scope :: model_scope
  vv_status :: model_status
  vv_schema :: string
  vv_requested :: "uuid option"
  vv_preserved :: bool

datatype version_error = VersionError string

definition ensure_transition :: "model_status \<Rightarrow> model_status \<Rightarrow> version_error + unit" where
  "ensure_transition current target =
     (if transition_allowed current target then Inr ()
      else Inl (VersionError (''transition '' @ model_status_value current @ '' -> '' @ model_status_value target @ '' is not permitted'')))"

interpretation model_lc: lifecycle model_table transition_allowed ensure_transition
  "\<lambda>c t. VersionError (''transition '' @ model_status_value c @ '' -> '' @ model_status_value t @ '' is not permitted'')"
  by unfold_locales (auto simp: transition_allowed_def ensure_transition_def)

definition ensure_same_organization :: "version_view \<Rightarrow> org_id \<Rightarrow> version_error + unit" where
  "ensure_same_organization v org =
     (if vv_scope v = GlobalScope then Inl (VersionError ''global versions require platform administration'')
      else if vv_org v \<noteq> Some org then Inl (VersionError ''model version belongs to a different organization'')
      else Inr ())"

definition ensure_approver_distinct :: "version_view \<Rightarrow> uuid option \<Rightarrow> version_error + unit" where
  "ensure_approver_distinct v approver =
     (if vv_requested v \<noteq> None \<and> approver \<noteq> None \<and> vv_requested v = approver
      then Inl (VersionError ''separation of duties: the requesting actor cannot approve their own candidate'') else Inr ())"

definition ensure_schema_compatible :: "version_view \<Rightarrow> version_error + unit" where
  "ensure_schema_compatible v =
     (if vv_schema v \<noteq> feature_schema_version
      then Inl (VersionError (''feature schema mismatch: version targets '' @ vv_schema v @ '', runtime uses '' @ feature_schema_version))
      else Inr ())"

definition approve_version :: "version_view \<Rightarrow> org_id \<Rightarrow> uuid option \<Rightarrow> version_error + model_status" where
  "approve_version v org approver =
     and_then (ensure_same_organization v org) (\<lambda>_.
     and_then (ensure_transition (vv_status v) MApproved) (\<lambda>_.
     and_then (ensure_approver_distinct v approver) (\<lambda>_. Inr MApproved)))"

definition activate_version :: "version_view \<Rightarrow> org_id \<Rightarrow> bool \<Rightarrow> version_error + model_status" where
  "activate_version v org require_approval =
     and_then (ensure_same_organization v org) (\<lambda>_.
       if require_approval \<and> vv_status v \<notin> {MApproved, MRolledBack}
       then Inl (VersionError (''activation requires an approved version; status is '' @ model_status_value (vv_status v)))
       else and_then (ensure_transition (vv_status v) MActive) (\<lambda>_.
         and_then (ensure_schema_compatible v) (\<lambda>_.
           if \<not> vv_preserved v
           then Inl (VersionError ''activation blocked: candidate did not preserve deterministic safety constraints'')
           else Inr MActive)))"

definition rollback_version :: "version_view \<Rightarrow> org_id \<Rightarrow> string \<Rightarrow> version_error + model_status" where
  "rollback_version v org reason =
     and_then (ensure_same_organization v org) (\<lambda>_.
     and_then (ensure_transition (vv_status v) MRolledBack) (\<lambda>_.
       if py_strip reason = [] then Inl (VersionError ''rollback requires a reason'') else Inr MRolledBack))"

subsection \<open>The order of the evidence does not matter\<close>

lemma mset_length: "mset xs = mset ys \<Longrightarrow> length xs = length ys"
  by (metis size_mset)

lemma mset_filter_eq: "mset xs = mset ys \<Longrightarrow> mset (filter P xs) = mset (filter P ys)"
  by simp

lemma mset_map_eq: "mset xs = mset ys \<Longrightarrow> mset (map f xs) = mset (map f ys)"
  by simp

lemma sort_remdups_eq: "set xs = set ys \<Longrightarrow> sort (remdups xs) = sort (remdups ys)"
  by (metis sorted_list_of_set_sort_remdups)

lemma count_list_eq: "mset xs = mset ys \<Longrightarrow> count_list xs = count_list ys"
  by (intro ext) (metis count_mset)

lemma foldr_max_set: "foldr max xs (0 :: nat) = Max (insert 0 (set xs))"
  by (induction xs) (auto simp: Max_insert2 insert_commute)

lemma top_count_eq: "mset xs = mset ys \<Longrightarrow> top_count xs = top_count ys"
  using count_list_eq [of xs ys] mset_eq_setD [of xs ys] unfolding top_count_def foldr_max_set by simp

lemma map_filter_mset: "mset (List.map_filter f xs) = image_mset (the \<circ> f) {# x \<in># mset xs. f x \<noteq> None #}"
  by (induction xs) (auto simp: List.map_filter_simps split: option.splits)

lemma actors_of_eq: "mset xs = mset ys \<Longrightarrow> mset (actors_of xs) = mset (actors_of ys)"
  unfolding actors_of_def map_filter_mset by simp

lemma successes_eq: "mset xs = mset ys \<Longrightarrow> successes_in positive xs = successes_in positive ys"
  unfolding successes_in_def by (intro mset_length mset_filter_eq)

lemma cohort_metric_eq: "mset xs = mset ys \<Longrightarrow> cohort_metric_of sq th positive xs c = cohort_metric_of sq th positive ys c"
proof -
  assume m: "mset xs = mset ys"
  let ?f = "filter (\<lambda>b. ob_cohort b = c)"
  have r: "mset (?f xs) = mset (?f ys)" using m by simp
  have a: "mset (actors_of (?f xs)) = mset (actors_of (?f ys))" by (rule actors_of_eq [OF r])
  have n: "length (remdups (actors_of (?f xs))) = length (remdups (actors_of (?f ys)))"
    using mset_eq_setD [OF a] by (simp add: length_remdups_card_conv)
  have d: "dominated (th_share th) (actors_of (?f xs)) = dominated (th_share th) (actors_of (?f ys))"
    using top_count_eq [OF a] mset_length [OF a] unfolding dominated_def by (metis length_0_conv)
  have e: "(actors_of (?f xs) = []) = (actors_of (?f ys) = [])" using mset_length [OF a] by (metis length_0_conv)
  show ?thesis unfolding cohort_metric_of_def Let_def successes_eq [OF r] mset_length [OF r] n d e ..
qed

lemma cohort_metrics_eq: "mset xs = mset ys \<Longrightarrow> cohort_metrics sq th positive xs = cohort_metrics sq th positive ys"
proof -
  assume m: "mset xs = mset ys"
  have "sort (remdups (map ob_cohort xs)) = sort (remdups (map ob_cohort ys))"
    by (rule sort_remdups_eq) (simp add: mset_eq_setD [OF m])
  then show ?thesis using cohort_metric_eq [OF m] by (simp add: cohort_metrics_def)
qed

lemma calibration_error_eq: "mset xs = mset ys \<Longrightarrow> calibration_error positive xs = calibration_error positive ys"
proof -
  assume m: "mset xs = mset ys"
  have b: "bin_error positive xs = bin_error positive ys"
    using successes_eq [OF mset_filter_eq [OF m]] mset_length [OF mset_filter_eq [OF m]] by (intro ext) (simp add: bin_error_def Let_def)
  have r: "sort (remdups (map confidence_bin xs)) = sort (remdups (map confidence_bin ys))"
    by (rule sort_remdups_eq) (simp add: mset_eq_setD [OF m])
  show ?thesis unfolding calibration_error_def b r ..
qed

lemma counts_of_eq: "mset xs = mset ys \<Longrightarrow> counts_of xs = counts_of ys"
  unfolding counts_of_def using sort_remdups_eq [OF mset_eq_setD] count_list_eq by metis

text \<open>
  A calibration run is a function of the evidence, not of its order: two lists with the same
  observations, in whatever order they were loaded, give the same report, weights, intervals and limitations,
  or both none.
\<close>

theorem calibration_order_irrelevant:
  assumes "mset obs = mset obs'"
  shows "build_candidate sq th start stop previous obs = build_candidate sq th start stop previous obs'"
proof -
  have u: "mset (usable_obs th obs) = mset (usable_obs th obs')" unfolding usable_obs_def using assms by simp
  have x: "mset (exclusion_list th obs) = mset (exclusion_list th obs')" unfolding exclusion_list_def using assms by simp
  have n: "(exclusion_list th obs = []) = (exclusion_list th obs' = [])" using mset_length [OF x] by (metis length_0_conv)
  show ?thesis
    unfolding build_candidate_def Let_def cohort_metrics_eq [OF u] calibration_error_eq [OF u] counts_of_eq [OF x]
      mset_length [OF u] mset_length [OF x] n ..
qed

lemma calibration_order_irrelevant_witness:
  "build_candidate (\<lambda>_. 0) \<lparr>th_samples = 1, th_actors = 1, th_share = 1, th_hours = 24, th_ratio = 1 / 2\<rparr> 0 100 None
     [\<lparr>ob_cohort = ''ci'', ob_outcome = OAccepted, ob_actor = Some ''a'', ob_hours = 0, ob_ratio = 1, ob_confidence = 1 / 2\<rparr>,
      \<lparr>ob_cohort = ''ai'', ob_outcome = ORejected, ob_actor = None, ob_hours = 0, ob_ratio = 1, ob_confidence = 1 / 2\<rparr>] =
   build_candidate (\<lambda>_. 0) \<lparr>th_samples = 1, th_actors = 1, th_share = 1, th_hours = 24, th_ratio = 1 / 2\<rparr> 0 100 None
     [\<lparr>ob_cohort = ''ai'', ob_outcome = ORejected, ob_actor = None, ob_hours = 0, ob_ratio = 1, ob_confidence = 1 / 2\<rparr>,
      \<lparr>ob_cohort = ''ci'', ob_outcome = OAccepted, ob_actor = Some ''a'', ob_hours = 0, ob_ratio = 1, ob_confidence = 1 / 2\<rparr>]"
  by (rule calibration_order_irrelevant) simp

end
