(* ===== verification/Learning_Features.thy ===== *)
theory Learning_Features
  imports Learning_Stats AI_Content Json_Flat
begin

text \<open>
  The learning boundary (\<open>services/learning/features.py\<close>): the normalized features derived from an
  analysis result, the guard that rejects whatever looks like raw content, and the hashes that identify a
  snapshot and its source. SHA-256 and the decimal form of a float are arguments; of the analysis result
  only the fields read here are kept.
\<close>

subsection \<open>The feature contract\<close>

fun bucket_value :: "bucket \<Rightarrow> string" where
  "bucket_value BNone = ''none''"
| "bucket_value BLow = ''low''"
| "bucket_value BMedium = ''medium''"
| "bucket_value BHigh = ''high''"
| "bucket_value BVeryHigh = ''very_high''"

record normalized_features =
  nf_language :: string
  nf_frameworks :: "string list"
  nf_architecture :: string
  nf_domain :: string
  nf_services :: bucket
  nf_documentation :: bucket
  nf_ai_surfaces :: bucket
  nf_complexity :: bucket
  nf_zones :: "string list"
  nf_secrets :: rat
  nf_naming :: rat
  nf_confidence :: rat
  nf_conflict :: rat

subsection \<open>The minimization guard\<close>

datatype minimization_error = MinimizationError string

definition ascii_alnum :: "char \<Rightarrow> bool" where
  "ascii_alnum c = (let n = (of_char c :: nat) in (48 \<le> n \<and> n \<le> 57) \<or> (65 \<le> n \<and> n \<le> 90) \<or> (97 \<le> n \<and> n \<le> 122))"

definition ascii_upper :: "char \<Rightarrow> bool" where
  "ascii_upper c = (let n = (of_char c :: nat) in 65 \<le> n \<and> n \<le> 90)"

text \<open>\<open>$\<close> matches at the end of the text and before a final newline: the texts that end there.\<close>

definition line_ends :: "string \<Rightarrow> string list" where
  "line_ends s = (if s \<noteq> [] \<and> last s = CHR 0x0A then [s, butlast s] else [s])"

definition path_separator :: "string \<Rightarrow> bool" where
  "path_separator s \<longleftrightarrow> list_ex (\<lambda>c. c = CHR ''/'' \<or> c = CHR 0x5C) s"

definition ends_in_extension :: "string \<Rightarrow> bool" where
  "ends_in_extension s =
     (let e = takeWhile ascii_alnum (rev s); rest = dropWhile ascii_alnum (rev s)
      in 1 \<le> length e \<and> length e \<le> 5 \<and> rest \<noteq> [] \<and> hd rest = CHR ''.'')"

definition secret_words :: "rx list list" where
  "secret_words =
     [[Boundary, OneOf [''secret'', ''token'', ''password'', ''api_key'', ''api-key'', ''apikey'', ''bearer'',
                        ''private_key'', ''private-key'', ''privatekey''], Boundary]]"

definition screaming_snake :: "string \<Rightarrow> bool" where
  "screaming_snake s =
     (case s of [] \<Rightarrow> False
      | c # cs \<Rightarrow> ascii_upper c \<and> 2 \<le> length cs \<and>
          list_all (\<lambda>d. ascii_upper d \<or> (ascii_alnum d \<and> (of_char d :: nat) < 65) \<or> d = CHR ''_'') cs)"

definition opaque_blob :: "string \<Rightarrow> bool" where
  "opaque_blob s = (40 \<le> length s \<and> list_all (\<lambda>c. ascii_alnum c \<or> c = CHR ''+'' \<or> c = CHR ''/'' \<or> c = CHR ''='') s)"

definition forbidden_value :: "string \<Rightarrow> bool" where
  "forbidden_value s =
     (path_separator s \<or> list_ex ends_in_extension (line_ends s) \<or> contains s ''://'' \<or>
      list_ex (\<lambda>p. search_from p None (py_lower s)) secret_words \<or>
      list_ex screaming_snake (line_ends s) \<or> list_ex opaque_blob (line_ends s) \<or> contains (py_lower s) ''-----begin'')"

definition max_category_len :: nat where "max_category_len = 64"

definition assert_category :: "string \<Rightarrow> string \<Rightarrow> minimization_error + string" where
  "assert_category v fld =
     (if length v > max_category_len
      then Inl (MinimizationError (fld @ '': category exceeds '' @ nat_str max_category_len @ '' characters''))
      else if forbidden_value v then Inl (MinimizationError (fld @ '': value looks like raw content, not a category''))
      else Inr v)"

fun assert_categories :: "string list \<Rightarrow> string \<Rightarrow> minimization_error + unit" where
  "assert_categories [] fld = Inr ()"
| "assert_categories (v # vs) fld = and_then (assert_category v fld) (\<lambda>_. assert_categories vs fld)"

definition assert_minimized :: "normalized_features \<Rightarrow> minimization_error + normalized_features" where
  "assert_minimized f =
     and_then (assert_category (nf_language f) ''dominant_language_category'') (\<lambda>_.
     and_then (assert_category (nf_architecture f) ''repository_architecture'') (\<lambda>_.
     and_then (assert_category (nf_domain f) ''business_domain_category'') (\<lambda>_.
     and_then (assert_categories (nf_frameworks f) ''framework_categories'') (\<lambda>_.
     and_then (assert_categories (nf_zones f) ''sensitive_zone_categories'') (\<lambda>_. Inr f)))))"

subsection \<open>From a label to a category\<close>

definition category_char :: "char \<Rightarrow> bool" where
  "category_char c = (let n = (of_char c :: nat) in (97 \<le> n \<and> n \<le> 122) \<or> (48 \<le> n \<and> n \<le> 57) \<or> n = 95)"

text \<open>\<open>re.sub("[^a-z0-9_]+", "_", s)\<close>: each maximal run of other characters becomes one underscore.\<close>

fun collapse_runs :: "bool \<Rightarrow> string \<Rightarrow> string" where
  "collapse_runs inrun [] = []"
| "collapse_runs inrun (c # s) =
     (if category_char c then c # collapse_runs False s
      else if inrun then collapse_runs True s else CHR ''_'' # collapse_runs True s)"

definition category_of :: "string \<Rightarrow> string" where
  "category_of v =
     (let token = lstrip_chars (\<lambda>c. c = CHR ''_'') (rstrip_chars (\<lambda>c. c = CHR ''_'') (collapse_runs False (py_lower (py_strip v))));
          cut = take max_category_len token
      in if cut = [] then ''unknown'' else cut)"

record preview_input =
  pi_stack :: string
  pi_architecture :: string
  pi_domain :: string
  pi_services :: int
  pi_documentation :: int
  pi_ai_surfaces :: int
  pi_frameworks :: int
  pi_databases :: int
  pi_secrets :: nat
  pi_zones :: "string list"
  pi_naming :: rat
  pi_overall :: rat
  pi_conflict :: rat

definition features_from_preview :: "preview_input \<Rightarrow> minimization_error + normalized_features" where
  "features_from_preview p =
     (let stack = split_on (CHR '','') (pi_stack p) in
      assert_minimized
        \<lparr>nf_language = category_of (hd stack), nf_frameworks = take 20 (sort (remdups (map category_of (tl stack)))),
         nf_architecture = category_of (pi_architecture p), nf_domain = category_of (pi_domain p),
         nf_services = bucket_of (pi_services p), nf_documentation = bucket_of (pi_documentation p),
         nf_ai_surfaces = bucket_of (pi_ai_surfaces p), nf_complexity = bucket_of (pi_frameworks p + pi_databases p),
         nf_zones = take 20 (sort (remdups (map category_of (pi_zones p)))),
         nf_secrets = min 1 (round4 (of_nat (pi_secrets p) / 10)), nf_naming = round4 (pi_naming p),
         nf_confidence = round4 (pi_overall p), nf_conflict = round4 (pi_conflict p)\<rparr>)"

subsection \<open>Hashes\<close>

definition json_strings :: "string list \<Rightarrow> string" where
  "json_strings xs = ''['' @ join_with '','' (map json_string xs) @ '']''"

text \<open>The compact JSON of the payload with its keys in order.\<close>

definition feature_payload :: "(rat \<Rightarrow> string) \<Rightarrow> normalized_features \<Rightarrow> string \<Rightarrow> string" where
  "feature_payload num f schema =
     (let member = (\<lambda>k v. json_string k @ '':'' @ v); bucket = (\<lambda>b. json_string (bucket_value b)) in
      ''{'' @ member ''features'' (''{'' @ join_with '',''
        [member ''ai_surface_count_bucket'' (bucket (nf_ai_surfaces f)),
         member ''business_domain_category'' (json_string (nf_domain f)),
         member ''deployment_complexity_bucket'' (bucket (nf_complexity f)),
         member ''documentation_density_bucket'' (bucket (nf_documentation f)),
         member ''dominant_language_category'' (json_string (nf_language f)),
         member ''framework_categories'' (json_strings (nf_frameworks f)),
         member ''naming_consistency_score'' (num (nf_naming f)),
         member ''profile_confidence'' (num (nf_confidence f)),
         member ''repository_architecture'' (json_string (nf_architecture f)),
         member ''secrets_exposure_score'' (num (nf_secrets f)),
         member ''sensitive_zone_categories'' (json_strings (nf_zones f)),
         member ''service_count_bucket'' (bucket (nf_services f)),
         member ''signal_conflict_score'' (num (nf_conflict f))] @ ''}'') @ '','' @
      member ''schema'' (json_string schema) @ ''}'')"

definition feature_hash :: "(string \<Rightarrow> string) \<Rightarrow> (rat \<Rightarrow> string) \<Rightarrow> normalized_features \<Rightarrow> string" where
  "feature_hash sha num f = sha (feature_payload num f feature_schema_version)"

definition source_id_hash :: "(string \<Rightarrow> string) \<Rightarrow> string \<Rightarrow> string \<Rightarrow> string" where
  "source_id_hash sha organization source = sha (organization @ '':'' @ source)"


subsection \<open>Which categories pass the guard\<close>

lemma contains_chars: "contains s p \<Longrightarrow> set p \<subseteq> set s"
  by (auto simp: contains_iff)

lemma collapse_chars: "set (collapse_runs b s) \<subseteq> {c. category_char c}"
  by (induction b s rule: collapse_runs.induct) (auto simp: category_char_def)

lemma category_of_chars: "list_all category_char (category_of v)"
proof -
  let ?t = "lstrip_chars (\<lambda>c. c = CHR ''_'') (rstrip_chars (\<lambda>c. c = CHR ''_'') (collapse_runs False (py_lower (py_strip v))))"
  have "set ?t \<subseteq> set (collapse_runs False (py_lower (py_strip v)))"
    unfolding lstrip_chars_def rstrip_chars_def by (metis set_dropWhileD set_rev subsetI)
  then have "set (take max_category_len ?t) \<subseteq> {c. category_char c}"
    using collapse_chars set_take_subset by fastforce
  moreover have "list_all category_char ''unknown''" by (simp add: category_char_def)
  ultimately show ?thesis by (auto simp: category_of_def Let_def list_all_iff)
qed

lemma category_of_length: "length (category_of v) \<le> max_category_len" "category_of v \<noteq> []"
  by (simp_all add: category_of_def Let_def max_category_len_def)

lemma category_char_facts:
  assumes "category_char c"
  shows "lower_char c = c" "word_char (Some c)" "\<not> ascii_upper c" "ascii_alnum c \<longleftrightarrow> c \<noteq> CHR ''_''"
proof -
  have u: "(of_char c :: nat) = 95 \<longleftrightarrow> c = CHR ''_''"
    using of_char_eq_iff [of c "CHR ''_''", where 'a = nat] by simp
  show "lower_char c = c" "word_char (Some c)" "\<not> ascii_upper c" "ascii_alnum c \<longleftrightarrow> c \<noteq> CHR ''_''"
    using assms unfolding u [symmetric]
    by (auto simp: category_char_def lower_char_def word_char_def ascii_upper_def ascii_alnum_def Let_def)
qed

lemma category_notin: "list_all category_char s \<Longrightarrow> \<not> category_char d \<Longrightarrow> d \<notin> set s"
  by (auto simp: list_all_iff)

lemma category_excludes:
  assumes "list_all category_char s"
  shows "CHR ''/'' \<notin> set s" "CHR 0x5C \<notin> set s" "CHR ''.'' \<notin> set s" "CHR '':'' \<notin> set s" "CHR ''-'' \<notin> set s" "CHR 0x0A \<notin> set s"
    "CHR ''+'' \<notin> set s" "CHR ''='' \<notin> set s"
  by (rule category_notin [OF assms], simp add: category_char_def)+

lemma category_lower: "list_all category_char s \<Longrightarrow> py_lower s = s"
  by (induction s) (auto simp: py_lower_def category_char_facts)

lemma search_after_word:
  "list_all category_char s \<Longrightarrow> category_char x \<Longrightarrow> [] \<notin> set ws \<Longrightarrow>
   \<not> search_from [Boundary, OneOf ws, Boundary] (Some x) s"
proof (induction s arbitrary: x)
  case Nil
  then show ?case by (auto simp: head_char_def word_char_def startswith_iff list_ex_iff category_char_def)
next
  case (Cons c s)
  then show ?case by (simp add: head_char_def category_char_facts)
qed

lemma whole_word:
  assumes c: "list_all category_char s" and "[] \<notin> set ws"
  shows "search_from [Boundary, OneOf ws, Boundary] None s \<longleftrightarrow> s \<in> set ws"
proof (cases s)
  case Nil
  then show ?thesis using assms by (simp add: head_char_def word_char_def)
next
  case (Cons d t)
  have later: "\<not> search_from [Boundary, OneOf ws, Boundary] (Some d) t"
    using search_after_word [of t d ws] assms Cons by simp
  have b: "word_char (before None w) \<noteq> word_char (head_char (drop (length w) s)) \<longleftrightarrow> s = w"
    if "startswith s w" "w \<noteq> []" for w
  proof -
    obtain u where u: "s = w @ u" using \<open>startswith s w\<close> by (auto simp: startswith_iff)
    have "category_char (last w)" using c u \<open>w \<noteq> []\<close> by (simp add: list_all_iff)
    then have "word_char (before None w)" using \<open>w \<noteq> []\<close> by (simp add: before_def category_char_facts)
    moreover have "word_char (head_char u) \<longleftrightarrow> u \<noteq> []" using c u
      by (cases u) (auto simp: head_char_def category_char_facts word_char_def [of None])
    ultimately show ?thesis using u by simp
  qed
  have "match_at [Boundary, OneOf ws, Boundary] None s \<longleftrightarrow>
      (\<exists>w \<in> set ws. startswith s w \<and> word_char (before None w) \<noteq> word_char (head_char (drop (length w) s)))"
    using c Cons by (simp add: list_ex_iff head_char_def category_char_facts word_char_def [of None]) blast
  also have "\<dots> \<longleftrightarrow> s \<in> set ws" using b assms(2) by (metis startswith_refl(1))
  finally show ?thesis using later Cons by simp
qed

lemma no_extension: "list_all category_char s \<Longrightarrow> \<not> ends_in_extension s"
proof -
  assume c: "list_all category_char s"
  have "hd (dropWhile ascii_alnum (rev s)) \<in> set s" if "dropWhile ascii_alnum (rev s) \<noteq> []"
    using that by (metis hd_in_set set_dropWhileD set_rev)
  then show ?thesis using category_excludes(3) [OF c] unfolding ends_in_extension_def Let_def by metis
qed

lemma not_screaming: "list_all category_char s \<Longrightarrow> \<not> screaming_snake s"
  by (cases s) (auto simp: screaming_snake_def category_char_facts)

lemma category_line_ends: "list_all category_char s \<Longrightarrow> line_ends s = [s]"
  unfolding line_ends_def by (metis category_excludes(6) last_in_set)

lemma category_blob:
  assumes "list_all category_char s"
  shows "opaque_blob s \<longleftrightarrow> 40 \<le> length s \<and> CHR ''_'' \<notin> set s"
proof -
  have "list_all (\<lambda>c. ascii_alnum c \<or> c = CHR ''+'' \<or> c = CHR ''/'' \<or> c = CHR ''='') s \<longleftrightarrow> list_all (\<lambda>c. c \<noteq> CHR ''_'') s"
    using assms category_excludes(1,7,8) [OF assms] category_char_facts(4) unfolding list_all_iff by metis
  then show ?thesis by (auto simp: opaque_blob_def list_all_iff)
qed

lemma category_forbidden:
  assumes "list_all category_char s"
  shows "forbidden_value s \<longleftrightarrow>
    s \<in> {''secret'', ''token'', ''password'', ''api_key'', ''apikey'', ''bearer'', ''private_key'', ''privatekey''} \<or>
    40 \<le> length s \<and> CHR ''_'' \<notin> set s"
proof -
  note x = category_excludes [OF assms]
  have "\<not> path_separator s" using x(1,2) by (auto simp: path_separator_def list_ex_iff)
  moreover have "\<not> contains s ''://''" "\<not> contains s ''-----begin''"
    using x(1,5) contains_chars [of s "''://''"] contains_chars [of s "''-----begin''"] by auto
  moreover have "s \<noteq> ''api-key''" "s \<noteq> ''private-key''" using x(5) by auto
  ultimately show ?thesis
    using assms no_extension [OF assms] not_screaming [OF assms] category_blob [OF assms] whole_word [OF assms]
    unfolding forbidden_value_def secret_words_def category_line_ends [OF assms] category_lower [OF assms]
    by simp
qed

text \<open>
  The guard accepts exactly the safe categories: a label reduced to a category token is rejected
  precisely when the token is one of the eight credential words standing alone or is an opaque run of
  forty or more letters and digits; paths, extensions, URLs, environment names and key blocks can no
  longer occur in a token.
\<close>

theorem category_rejected_exactly:
  "is_ok (assert_category (category_of label) fld) \<longleftrightarrow>
   \<not> (category_of label \<in> {''secret'', ''token'', ''password'', ''api_key'', ''apikey'', ''bearer'', ''private_key'', ''privatekey''} \<or>
      40 \<le> length (category_of label) \<and> CHR ''_'' \<notin> set (category_of label))"
  using category_of_length(1) [of label] category_forbidden [OF category_of_chars, of label]
  by (simp add: assert_category_def not_less)

end
