(* ===== verification/Learning_Store.thy ===== *)
theory Learning_Store
  imports Learning_Features Access Rate_Limit
begin

text \<open>
  The learning tables (\<open>models/records.py\<close>), the organization-scoped repository over them
  (\<open>repositories/learning.py\<close>) and the identity of a learning event (\<open>services/learning/events.py\<close>).
  A table is the list of its rows in creation order; identifiers and the clock are arguments, and the
  \<open>created_at\<close> stamps are the list order. Weights, metrics and report of a version are kept as the values their JSON
  stands for. SHA-256, the text of a UUID, of a time and of a float, and the JSON of an outcome's
  metadata are the fields of a \<open>learn_port\<close>.
\<close>

datatype meta_value = MvStr string | MvNum rat | MvBool bool | MvNull

type_synonym meta = "(string \<times> meta_value) list"

record learn_port =
  lp_sha :: "string \<Rightarrow> string"
  lp_uuid :: "uuid \<Rightarrow> string"
  lp_iso :: "datetime \<Rightarrow> string"
  lp_num :: "rat \<Rightarrow> string"
  lp_dumps :: "meta \<Rightarrow> string"
  lp_loads :: "string \<Rightarrow> meta option"
  lp_str :: "meta_value \<Rightarrow> string"
  lp_float :: "meta_value \<Rightarrow> rat option"

datatype feedback_type = FalsePositive | ConfirmedIncident | SeverityTooHigh | SeverityTooLow | PlacementUseful
  | PlacementNotUseful | ReasoningCorrect | ReasoningIncomplete | ReasoningIncorrect

datatype learn_event_type = SnapshotCaptured | RecommendationRecorded | OutcomeRecorded | FeedbackSubmitted | ResultRecorded

fun event_type_value :: "learn_event_type \<Rightarrow> string" where
  "event_type_value SnapshotCaptured = ''feature_snapshot_captured''"
| "event_type_value RecommendationRecorded = ''recommendation_recorded''"
| "event_type_value OutcomeRecorded = ''outcome_recorded''"
| "event_type_value FeedbackSubmitted = ''analyst_feedback_submitted''"
| "event_type_value ResultRecorded = ''operational_result_recorded''"

subsection \<open>Tables\<close>

record feature_row =
  fs_id :: uuid
  fs_org :: org_id
  fs_source_type :: string
  fs_source_hash :: string
  fs_schema :: string
  fs_features :: normalized_features
  fs_hash :: string
  fs_expires :: "datetime option"

record reco_row =
  lr_id :: uuid
  lr_org :: org_id
  lr_snapshot :: "uuid option"
  lr_type :: string
  lr_zone :: string
  lr_category :: string
  lr_decoy :: string
  lr_rank :: int
  lr_confidence :: rat
  lr_codes :: string
  lr_engine :: string
  lr_version :: "uuid option"

record placement_outcome =
  po_id :: uuid
  po_org :: org_id
  po_reco :: uuid
  po_type :: outcome
  po_reason :: "string option"
  po_observed :: datetime
  po_meta :: string

record feedback_row =
  fb_id :: uuid
  fb_org :: org_id
  fb_actor :: "uuid option"
  fb_kind :: string
  fb_target :: uuid
  fb_revision :: nat
  fb_type :: feedback_type
  fb_original :: "string option"
  fb_corrected :: "string option"
  fb_comment :: "string option"

record learn_event =
  le_org :: org_id
  le_type :: learn_event_type
  le_snapshot :: "uuid option"
  le_reco :: "uuid option"
  le_outcome :: "uuid option"
  le_feedback :: "uuid option"
  le_result :: "uuid option"
  le_actor :: "uuid option"
  le_schema :: string
  le_hash :: string
  le_occurred :: datetime

record model_row =
  mv_id :: uuid
  mv_org :: "org_id option"
  mv_scope :: model_scope
  mv_algorithm :: string
  mv_algorithm_version :: string
  mv_schema :: string
  mv_methodology :: string
  mv_start :: datetime
  mv_end :: datetime
  mv_count :: nat
  mv_weights :: calibration_weights
  mv_metrics :: calibration_metrics
  mv_report :: calibration_report
  mv_status :: model_status
  mv_requested :: "uuid option"
  mv_approver :: "uuid option"
  mv_approved :: "datetime option"
  mv_activated :: "datetime option"
  mv_rollback :: "string option"
  mv_preserved :: bool

record result_row =
  or_id :: uuid
  or_org :: org_id
  or_operation :: string
  or_source :: "uuid option"
  or_status :: string
  or_latency :: "rat option"
  or_retries :: int
  or_failure :: "string option"
  or_health :: "rat option"

record learn_db =
  ld_snapshots :: "feature_row list"
  ld_recos :: "reco_row list"
  ld_outcomes :: "placement_outcome list"
  ld_feedback :: "feedback_row list"
  ld_events :: "learn_event list"
  ld_results :: "result_row list"
  ld_versions :: "model_row list"

subsection \<open>Events\<close>

definition ref_text :: "learn_port \<Rightarrow> uuid option \<Rightarrow> string" where
  "ref_text lp r = (case r of None \<Rightarrow> ''-'' | Some i \<Rightarrow> lp_uuid lp i)"

definition learning_event_hash ::
  "learn_port \<Rightarrow> org_id \<Rightarrow> string \<Rightarrow> datetime \<Rightarrow> uuid option \<Rightarrow> uuid option \<Rightarrow> uuid option \<Rightarrow> uuid option \<Rightarrow>
   uuid option \<Rightarrow> uuid option \<Rightarrow> string" where
  "learning_event_hash lp org kind occurred snapshot reco outc feedback result source =
     lp_sha lp (join_with ''|'' ([lp_uuid lp org, kind, lp_iso lp occurred] @
       map (ref_text lp) [snapshot, reco, outc, feedback, result, source]))"

definition append_event ::
  "learn_port \<Rightarrow> datetime \<Rightarrow> org_id \<Rightarrow> learn_event_type \<Rightarrow> uuid option \<Rightarrow> uuid option \<Rightarrow> uuid option \<Rightarrow> uuid option \<Rightarrow>
   uuid option \<Rightarrow> uuid option \<Rightarrow> learn_db \<Rightarrow> learn_db" where
  "append_event lp now org kind snapshot reco outc feedback result actor db =
     (let digest = learning_event_hash lp org (event_type_value kind) now snapshot reco outc feedback result None in
      if \<exists>e \<in> set (ld_events db). le_org e = org \<and> le_hash e = digest then db
      else db\<lparr>ld_events := ld_events db @ [\<lparr>le_org = org, le_type = kind, le_snapshot = snapshot, le_reco = reco,
        le_outcome = outc, le_feedback = feedback, le_result = result, le_actor = actor,
        le_schema = feature_schema_version, le_hash = digest, le_occurred = now\<rparr>]\<rparr>)"

definition event_count :: "org_id \<Rightarrow> learn_db \<Rightarrow> nat" where
  "event_count org db = length (filter (\<lambda>e. le_org e = org) (ld_events db))"

subsection \<open>Evidence\<close>

definition record_feature_snapshot ::
  "learn_port \<Rightarrow> datetime \<Rightarrow> uuid \<Rightarrow> org_id \<Rightarrow> normalized_features \<Rightarrow> string \<Rightarrow> string \<Rightarrow> datetime option \<Rightarrow> learn_db \<Rightarrow>
   minimization_error + learn_db \<times> feature_row" where
  "record_feature_snapshot lp now i org f source_type source_hash expires db =
     and_then (assert_minimized f) (\<lambda>_.
       let digest = feature_hash (lp_sha lp) (lp_num lp) f in
       case find (\<lambda>r. fs_org r = org \<and> fs_hash r = digest) (ld_snapshots db) of
         Some r \<Rightarrow> Inr (db, r)
       | None \<Rightarrow>
           let r = \<lparr>fs_id = i, fs_org = org, fs_source_type = source_type, fs_source_hash = source_hash,
                    fs_schema = feature_schema_version, fs_features = f, fs_hash = digest, fs_expires = expires\<rparr>
           in Inr (append_event lp now org SnapshotCaptured (Some i) None None None None None
                     (db\<lparr>ld_snapshots := ld_snapshots db @ [r]\<rparr>), r))"

definition codes_json :: "string list \<Rightarrow> string" where
  "codes_json xs = ''['' @ join_with '', '' (map json_string xs) @ '']''"

definition record_recommendation ::
  "learn_port \<Rightarrow> datetime \<Rightarrow> uuid \<Rightarrow> org_id \<Rightarrow> uuid option \<Rightarrow> string \<Rightarrow> string \<Rightarrow> string \<Rightarrow> int \<Rightarrow> rat \<Rightarrow> string list \<Rightarrow> string \<Rightarrow>
   uuid option \<Rightarrow> string \<Rightarrow> learn_db \<Rightarrow> learn_db \<times> reco_row" where
  "record_recommendation lp now i org snapshot kind zone decoy rank confidence codes engine version category db =
     (let r = \<lparr>lr_id = i, lr_org = org, lr_snapshot = snapshot, lr_type = take 64 kind, lr_zone = take 64 zone,
               lr_category = take 64 category, lr_decoy = take 64 decoy, lr_rank = rank, lr_confidence = confidence,
               lr_codes = codes_json (take 20 codes), lr_engine = take 32 engine, lr_version = version\<rparr>
      in (append_event lp now org RecommendationRecorded None (Some i) None None None None
            (db\<lparr>ld_recos := ld_recos db @ [r]\<rparr>), r))"

datatype learn_error = NotOwned

definition record_outcome ::
  "learn_port \<Rightarrow> datetime \<Rightarrow> uuid \<Rightarrow> org_id \<Rightarrow> uuid \<Rightarrow> outcome \<Rightarrow> string option \<Rightarrow> datetime option \<Rightarrow> meta \<Rightarrow> learn_db \<Rightarrow>
   learn_error + learn_db \<times> placement_outcome" where
  "record_outcome lp now i org reco kind reason observed metadata db =
     (case find (\<lambda>r. lr_id r = reco) (ld_recos db) of
        None \<Rightarrow> Inl NotOwned
      | Some rec \<Rightarrow>
          if lr_org rec \<noteq> org then Inl NotOwned
          else case find (\<lambda>p. po_reco p = reco \<and> po_type p = kind) (ld_outcomes db) of
            Some p \<Rightarrow> Inr (db, p)
          | None \<Rightarrow>
              let p = \<lparr>po_id = i, po_org = org, po_reco = reco, po_type = kind,
                       po_reason = (if reason = Some [] then None else reason),
                       po_observed = (case observed of None \<Rightarrow> now | Some t \<Rightarrow> t),
                       po_meta = take 4000 (lp_dumps lp metadata)\<rparr>
              in Inr (append_event lp now org OutcomeRecorded None (Some reco) (Some i) None None None
                        (db\<lparr>ld_outcomes := ld_outcomes db @ [p]\<rparr>), p))"

definition feedback_rows :: "org_id \<Rightarrow> uuid option \<Rightarrow> string \<Rightarrow> uuid \<Rightarrow> learn_db \<Rightarrow> feedback_row list" where
  "feedback_rows org actor kind target db =
     filter (\<lambda>f. fb_org f = org \<and> fb_actor f = actor \<and> fb_kind f = kind \<and> fb_target f = target) (ld_feedback db)"

text \<open>\<open>order_by(revision.desc()).first()\<close>.\<close>

definition latest_revision :: "feedback_row list \<Rightarrow> feedback_row option" where
  "latest_revision fs = (case rev (sort_key fb_revision fs) of [] \<Rightarrow> None | f # _ \<Rightarrow> Some f)"

definition record_feedback ::
  "learn_port \<Rightarrow> datetime \<Rightarrow> uuid \<Rightarrow> org_id \<Rightarrow> uuid option \<Rightarrow> string \<Rightarrow> uuid \<Rightarrow> feedback_type \<Rightarrow> string option \<Rightarrow> string option \<Rightarrow>
   string option \<Rightarrow> learn_db \<Rightarrow> learn_db \<times> feedback_row" where
  "record_feedback lp now i org actor kind target ftype original corrected comment db =
     (let prior = latest_revision (feedback_rows org actor kind target db);
          some = (\<lambda>x. if x = Some [] then None else x);
          fresh = \<lparr>fb_id = i, fb_org = org, fb_actor = actor, fb_kind = take 24 kind, fb_target = target,
                   fb_revision = (case prior of None \<Rightarrow> 1 | Some f \<Rightarrow> fb_revision f + 1), fb_type = ftype,
                   fb_original = some original, fb_corrected = some corrected, fb_comment = comment\<rparr>;
          written = (append_event lp now org FeedbackSubmitted None None None (Some i) None actor
                       (db\<lparr>ld_feedback := ld_feedback db @ [fresh]\<rparr>), fresh)
      in case prior of
           None \<Rightarrow> written
         | Some f \<Rightarrow> if fb_type f = ftype then (db, f) else written)"

definition feedback_for_target :: "org_id \<Rightarrow> string \<Rightarrow> uuid \<Rightarrow> learn_db \<Rightarrow> feedback_row list" where
  "feedback_for_target org kind target db =
     filter (\<lambda>f. fb_org f = org \<and> fb_kind f = kind \<and> fb_target f = target) (ld_feedback db)"

definition record_operational_result ::
  "learn_port \<Rightarrow> datetime \<Rightarrow> uuid \<Rightarrow> org_id \<Rightarrow> string \<Rightarrow> string \<Rightarrow> uuid option \<Rightarrow> rat option \<Rightarrow> int \<Rightarrow> string option \<Rightarrow>
   rat option \<Rightarrow> learn_db \<Rightarrow> learn_db \<times> result_row" where
  "record_operational_result lp now i org operation status source latency retries failure health db =
     (let r = \<lparr>or_id = i, or_org = org, or_operation = take 48 operation, or_source = source, or_status = take 24 status,
               or_latency = latency, or_retries = retries, or_failure = failure, or_health = health\<rparr>
      in (append_event lp now org ResultRecorded None None None None (Some i) None
            (db\<lparr>ld_results := ld_results db @ [r]\<rparr>), r))"

subsection \<open>The calibration input\<close>

text \<open>Python truth of a metadata value: an empty text, zero, false and null are false.\<close>

fun meta_truth :: "meta_value \<Rightarrow> bool" where
  "meta_truth (MvStr s) = (s \<noteq> [])"
| "meta_truth (MvNum q) = (q \<noteq> 0)"
| "meta_truth (MvBool b) = b"
| "meta_truth MvNull = False"

definition float_member :: "learn_port \<Rightarrow> meta \<Rightarrow> string \<Rightarrow> rat \<Rightarrow> rat option" where
  "float_member lp m k fallback = (case map_of m k of None \<Rightarrow> Some fallback | Some v \<Rightarrow> lp_float lp v)"

text \<open>\<open>None\<close> where reading the metadata raises.\<close>

definition observation_of :: "learn_port \<Rightarrow> placement_outcome \<times> reco_row \<Rightarrow> observation option" where
  "observation_of lp e =
     (let (p, r) = e in
      case lp_loads lp (if po_meta p = [] then ''{}'' else po_meta p) of
        None \<Rightarrow> None
      | Some m \<Rightarrow>
          (case (float_member lp m ''observation_hours'' 0, float_member lp m ''healthy_monitoring_ratio'' 1) of
             (Some hours, Some ratio) \<Rightarrow>
               Some \<lparr>ob_cohort = lr_zone r, ob_outcome = po_type p,
                 ob_actor = (case map_of m ''actor_id'' of None \<Rightarrow> None | Some v \<Rightarrow> if meta_truth v then Some (lp_str lp v) else None),
                 ob_hours = hours, ob_ratio = ratio, ob_confidence = lr_confidence r\<rparr>
           | _ \<Rightarrow> None))"

definition observed_rows :: "org_id \<Rightarrow> datetime \<Rightarrow> datetime \<Rightarrow> learn_db \<Rightarrow> (placement_outcome \<times> reco_row) list" where
  "observed_rows org start stop db =
     concat (map (\<lambda>p. map (Pair p) (filter (\<lambda>r. lr_id r = po_reco p \<and> lr_org r = org) (ld_recos db)))
       (filter (\<lambda>p. po_org p = org \<and> start \<le> po_observed p \<and> po_observed p \<le> stop) (ld_outcomes db)))"

definition observations ::
  "learn_port \<Rightarrow> org_id \<Rightarrow> datetime \<Rightarrow> datetime \<Rightarrow> nat \<Rightarrow> learn_db \<Rightarrow> observation list option" where
  "observations lp org start stop limit db =
     those (map (observation_of lp)
       (take limit (sort_key (\<lambda>e. (po_observed (fst e), po_id (fst e))) (observed_rows org start stop db))))"

subsection \<open>Model versions\<close>

definition create_candidate ::
  "uuid \<Rightarrow> org_id \<Rightarrow> calibration_report \<Rightarrow> string \<Rightarrow> string \<Rightarrow> uuid option \<Rightarrow> learn_db \<Rightarrow> learn_db \<times> model_row" where
  "create_candidate i org report algorithm version requested db =
     (let r = \<lparr>mv_id = i, mv_org = Some org, mv_scope = OrganizationScope, mv_algorithm = take 64 algorithm,
               mv_algorithm_version = take 32 version, mv_schema = cr_schema report, mv_methodology = methodology_version,
               mv_start = cr_start report, mv_end = cr_end report, mv_count = me_included (cr_metrics report),
               mv_weights = cr_candidate report, mv_metrics = cr_metrics report, mv_report = report, mv_status = MCandidate,
               mv_requested = requested, mv_approver = None, mv_approved = None, mv_activated = None, mv_rollback = None,
               mv_preserved = cr_preserved report\<rparr>
      in (db\<lparr>ld_versions := ld_versions db @ [r]\<rparr>, r))"

definition get_model_version :: "org_id \<Rightarrow> uuid \<Rightarrow> learn_db \<Rightarrow> model_row option" where
  "get_model_version org i db =
     (case find (\<lambda>v. mv_id v = i) (ld_versions db) of
        None \<Rightarrow> None | Some v \<Rightarrow> if mv_org v \<noteq> Some org then None else Some v)"

definition list_model_versions :: "org_id \<Rightarrow> nat \<Rightarrow> learn_db \<Rightarrow> model_row list" where
  "list_model_versions org limit db = take limit (rev (filter (\<lambda>v. mv_org v = Some org) (ld_versions db)))"

definition active_model_version :: "org_id \<Rightarrow> learn_db \<Rightarrow> model_row option" where
  "active_model_version org db = find (\<lambda>v. mv_org v = Some org \<and> mv_status v = MActive) (ld_versions db)"

definition update_version :: "uuid \<Rightarrow> (model_row \<Rightarrow> model_row) \<Rightarrow> learn_db \<Rightarrow> learn_db" where
  "update_version i f db = db\<lparr>ld_versions := map (\<lambda>v. if mv_id v = i then f v else v) (ld_versions db)\<rparr>"

definition demote_active :: "org_id \<Rightarrow> uuid \<Rightarrow> learn_db \<Rightarrow> learn_db" where
  "demote_active org i db =
     (case active_model_version org db of
        None \<Rightarrow> db
      | Some p \<Rightarrow> if mv_id p \<noteq> i then update_version (mv_id p) (\<lambda>v. v\<lparr>mv_status := MArchived\<rparr>) db else db)"

definition stamp_status :: "datetime \<Rightarrow> model_status \<Rightarrow> uuid option \<Rightarrow> string option \<Rightarrow> model_row \<Rightarrow> model_row" where
  "stamp_status now target approver reason v =
     (let v1 = (if target = MActive then v\<lparr>mv_activated := Some now\<rparr> else v);
          v2 = (if target = MApproved then v1\<lparr>mv_approver := approver, mv_approved := Some now\<rparr> else v1);
          v3 = (if target = MRolledBack then v2\<lparr>mv_rollback := Some (take 256 (case reason of None \<Rightarrow> [] | Some t \<Rightarrow> t))\<rparr> else v2)
      in v3\<lparr>mv_status := target\<rparr>)"

definition set_model_status ::
  "datetime \<Rightarrow> org_id \<Rightarrow> uuid \<Rightarrow> model_status \<Rightarrow> uuid option \<Rightarrow> string option \<Rightarrow> learn_db \<Rightarrow> learn_db" where
  "set_model_status now org i target approver reason db =
     update_version i (stamp_status now target approver reason)
       (if target = MActive then demote_active org i db else db)"

end
