(* ===== verification/Learning_API.thy ===== *)
theory Learning_API
  imports Learning_Store Failover
begin

text \<open>
  The HTTP surface of controlled learning (\<open>api/learning.py\<close>) and the scheduled calibration job
  (\<open>jobs/learning_calibration.py\<close>). An endpoint takes the context that \<open>require_scope\<close> of
  \<open>Access\<close> has admitted; the job runs in one transaction.
\<close>

record learn_settings =
  ls_enabled :: bool
  ls_retention_days :: int
  ls_thresholds :: thresholds
  ls_require_approval :: bool
  ls_comment_length :: nat
  ls_rate :: int

definition learning_off :: http_error where
  "learning_off = HttpError 404 ''learning is not enabled''"

subsection \<open>Feedback\<close>

text \<open>
  \<open>_COMMENT_STRIP.sub("[redacted]", s)\<close>: the length of the match at a position, the alternatives in their
  order, given the character before it; then the replacement from left to right, \<open>k\<close> characters
  of the current match still to skip.
\<close>

definition comment_words :: "string list" where
  "comment_words = [''secret'', ''token'', ''password'', ''api_key'', ''api-key'', ''apikey'']"

definition comment_match :: "char option \<Rightarrow> string \<Rightarrow> nat option" where
  "comment_match p s =
     (if startswith s ''/'' \<or> startswith s [CHR 0x5C] then Some 1
      else if startswith s ''://'' then Some 3
      else if startswith (py_lower s) ''-----begin'' then Some 10
      else map_option length (find (\<lambda>w. match_at [Boundary, Lit w, Boundary] p (py_lower s)) comment_words))"

fun redact_from :: "nat \<Rightarrow> char option \<Rightarrow> string \<Rightarrow> string" where
  "redact_from k p [] = []"
| "redact_from (Suc k) p (c # s) = redact_from k (Some c) s"
| "redact_from 0 p (c # s) =
     (case comment_match p (c # s) of
        None \<Rightarrow> c # redact_from 0 (Some c) s
      | Some n \<Rightarrow> ''[redacted]'' @ redact_from (n - 1) (Some c) s)"

definition sanitize_comment :: "learn_settings \<Rightarrow> string option \<Rightarrow> string option" where
  "sanitize_comment st comment =
     (case comment of
        None \<Rightarrow> None
      | Some t \<Rightarrow> let cleaned = take (ls_comment_length st) (redact_from 0 None (py_strip t)) in
          if cleaned = [] then None else Some cleaned)"

definition learning_rate_limit ::
  "learn_port \<Rightarrow> learn_settings \<Rightarrow> rat \<Rightarrow> auth_context \<Rightarrow> hit_table \<Rightarrow> hit_table \<times> (http_error + unit)" where
  "learning_rate_limit lp st tick ctx h =
     (let (h', ok) = memory_allow tick
        (rate_limit_key ''learning:feedback'' (lp_uuid lp (ctx_org ctx)) (map_option (lp_uuid lp) (ctx_key_id ctx)) None) (ls_rate st) h
      in (h', require ok (HttpError 429 ''feedback rate limit exceeded'')))"

record feedback_body =
  fq_type :: feedback_type
  fq_severity :: "string option"
  fq_usefulness :: "bool option"
  fq_assessment :: "string option"
  fq_comment :: "string option"

definition target_kinds :: "string list" where
  "target_kinds = [''recommendation'', ''alert'', ''incident'']"

definition post_feedback ::
  "learn_port \<Rightarrow> learn_settings \<Rightarrow> datetime \<Rightarrow> rat \<Rightarrow> uuid \<Rightarrow> string \<Rightarrow> uuid \<Rightarrow> feedback_body \<Rightarrow> auth_context \<Rightarrow>
   hit_table \<times> learn_db \<Rightarrow> (hit_table \<times> learn_db) \<times> (http_error + feedback_row)" where
  "post_feedback lp st now tick i kind target body ctx s =
     (let (h, db) = s in
      if \<not> ls_enabled st then (s, Inl learning_off)
      else case learning_rate_limit lp st tick ctx h of
        (h', Inl e) \<Rightarrow> ((h', db), Inl e)
      | (h', Inr _) \<Rightarrow>
          (let corrected = (if fq_severity body = None \<or> fq_severity body = Some [] then fq_assessment body else fq_severity body);
               (db', r) = record_feedback lp now i (ctx_org ctx) (ctx_key_id ctx) kind target (fq_type body) None corrected
                 (sanitize_comment st (fq_comment body)) db
           in ((h', db'), Inr r)))"

definition recommendation_feedback where "recommendation_feedback lp st now tick i = post_feedback lp st now tick i ''recommendation''"
definition alert_feedback where "alert_feedback lp st now tick i = post_feedback lp st now tick i ''alert''"
definition incident_feedback where "incident_feedback lp st now tick i = post_feedback lp st now tick i ''incident''"

subsection \<open>Calibration runs\<close>

definition algorithm_name :: string where "algorithm_name = ''placement-prior-calibration''"
definition algorithm_version :: string where "algorithm_version = ''1.0''"

definition observation_limit :: nat where "observation_limit = 5000"

definition run_calibration ::
  "learn_port \<Rightarrow> (rat \<Rightarrow> rat) \<Rightarrow> learn_settings \<Rightarrow> datetime \<Rightarrow> uuid \<Rightarrow> auth_context \<Rightarrow> learn_db \<Rightarrow>
   learn_db \<times> (http_error + model_row list)" where
  "run_calibration lp sq st now i ctx db =
     (if \<not> ls_enabled st then (db, Inl learning_off)
      else
        let start = now - ls_retention_days st * seconds 86400 in
        case observations lp (ctx_org ctx) start now observation_limit db of
          None \<Rightarrow> (db, Inl (HttpError 500 ''unreadable outcome metadata''))
        | Some obs \<Rightarrow>
            (case build_candidate sq (ls_thresholds st) start now None obs of
               None \<Rightarrow> (db, Inr [])
             | Some report \<Rightarrow>
                 (let (db', r) = create_candidate i (ctx_org ctx) report algorithm_name algorithm_version (ctx_key_id ctx) db
                  in (db', Inr [r]))))"

definition organizations_with_outcomes :: "learn_port \<Rightarrow> learn_db \<Rightarrow> org_id list" where
  "organizations_with_outcomes lp db = sort_key (lp_uuid lp) (remdups (map po_org (ld_outcomes db)))"

definition previous_weights :: "org_id \<Rightarrow> learn_db \<Rightarrow> calibration_weights option" where
  "previous_weights org db = map_option mv_weights (active_model_version org db)"

record job_counts =
  jc_organizations :: nat
  jc_candidates :: nat
  jc_skipped :: nat

definition calibrate_org ::
  "learn_port \<Rightarrow> (rat \<Rightarrow> rat) \<Rightarrow> learn_settings \<Rightarrow> datetime \<Rightarrow> (nat \<Rightarrow> uuid) \<Rightarrow> org_id \<Rightarrow> learn_db \<times> job_counts \<Rightarrow>
   (learn_db \<times> job_counts) option" where
  "calibrate_org lp sq st now fresh org s =
     (let (db, c) = s; start = now - ls_retention_days st * seconds 86400;
          c1 = c\<lparr>jc_organizations := jc_organizations c + 1\<rparr> in
      case observations lp org start now observation_limit db of
        None \<Rightarrow> None
      | Some obs \<Rightarrow>
          (case build_candidate sq (ls_thresholds st) start now (previous_weights org db) obs of
             None \<Rightarrow> Some (db, c1\<lparr>jc_skipped := jc_skipped c1 + 1\<rparr>)
           | Some report \<Rightarrow>
               Some (fst (create_candidate (fresh (jc_candidates c)) org report algorithm_name algorithm_version None db),
                     c1\<lparr>jc_candidates := jc_candidates c1 + 1\<rparr>)))"

fun calibrate_all ::
  "learn_port \<Rightarrow> (rat \<Rightarrow> rat) \<Rightarrow> learn_settings \<Rightarrow> datetime \<Rightarrow> (nat \<Rightarrow> uuid) \<Rightarrow> org_id list \<Rightarrow> learn_db \<times> job_counts \<Rightarrow>
   (learn_db \<times> job_counts) option" where
  "calibrate_all lp sq st now fresh [] s = Some s"
| "calibrate_all lp sq st now fresh (g # gs) s =
     (case calibrate_org lp sq st now fresh g s of None \<Rightarrow> None | Some s' \<Rightarrow> calibrate_all lp sq st now fresh gs s')"

definition no_counts :: job_counts where
  "no_counts = \<lparr>jc_organizations = 0, jc_candidates = 0, jc_skipped = 0\<rparr>"

text \<open>\<open>None\<close> for an exception, after which the transaction is rolled back.\<close>

definition calibration_job ::
  "learn_port \<Rightarrow> (rat \<Rightarrow> rat) \<Rightarrow> learn_settings \<Rightarrow> rel_settings \<Rightarrow> bool \<Rightarrow> datetime \<Rightarrow> (nat \<Rightarrow> uuid) \<Rightarrow> learn_db \<Rightarrow>
   learn_db \<times> job_counts option" where
  "calibration_job lp sq st cfg acquired now fresh db =
     (if \<not> ls_enabled st then (db, Some no_counts)
      else if \<not> scheduler_allowed cfg then (db, Some no_counts)
      else if \<not> acquired then (db, Some no_counts)
      else case calibrate_all lp sq st now fresh (organizations_with_outcomes lp db) (db, no_counts) of
        None \<Rightarrow> (db, None)
      | Some (db', c) \<Rightarrow> (db', Some c))"

subsection \<open>The review workflow\<close>

definition version_view_of :: "model_row \<Rightarrow> version_view" where
  "version_view_of v = \<lparr>vv_id = mv_id v, vv_org = mv_org v, vv_scope = mv_scope v, vv_status = mv_status v,
     vv_schema = mv_schema v, vv_requested = mv_requested v, vv_preserved = mv_preserved v\<rparr>"

definition load_version :: "org_id \<Rightarrow> uuid \<Rightarrow> learn_db \<Rightarrow> http_error + model_row" where
  "load_version org i db =
     (case get_model_version org i db of None \<Rightarrow> Inl (HttpError 404 ''model version not found'') | Some v \<Rightarrow> Inr v)"

definition lifecycle_check ::
  "learn_settings \<Rightarrow> auth_context \<Rightarrow> model_status \<Rightarrow> string option \<Rightarrow> version_view \<Rightarrow> version_error + model_status" where
  "lifecycle_check st ctx target reason v =
     (if target = MApproved then approve_version v (ctx_org ctx) (ctx_key_id ctx)
      else if target = MActive then activate_version v (ctx_org ctx) (ls_require_approval st)
      else if target = MRolledBack then rollback_version v (ctx_org ctx) (case reason of None \<Rightarrow> [] | Some t \<Rightarrow> t)
      else and_then (ensure_same_organization v (ctx_org ctx)) (\<lambda>_.
           and_then (ensure_transition (vv_status v) target) (\<lambda>_. Inr target)))"

definition model_transition ::
  "learn_settings \<Rightarrow> datetime \<Rightarrow> uuid \<Rightarrow> model_status \<Rightarrow> string option \<Rightarrow> auth_context \<Rightarrow> learn_db \<Rightarrow> learn_db \<times> (http_error + unit)" where
  "model_transition st now i target reason ctx db =
     (if \<not> ls_enabled st then (db, Inl learning_off)
      else case load_version (ctx_org ctx) i db of
        Inl e \<Rightarrow> (db, Inl e)
      | Inr v \<Rightarrow>
          (case lifecycle_check st ctx target reason (version_view_of v) of
             Inl (VersionError m) \<Rightarrow> (db, Inl (HttpError 409 m))
           | Inr _ \<Rightarrow>
               (set_model_status now (ctx_org ctx) i target (if target = MApproved then ctx_key_id ctx else None) reason db, Inr ())))"

definition submit_review where "submit_review st now i = model_transition st now i MUnderReview None"
definition approve_model where "approve_model st now i = model_transition st now i MApproved None"
definition reject_model where "reject_model st now i = model_transition st now i MRejected None"
definition activate_model where "activate_model st now i = model_transition st now i MActive None"
definition rollback_model where "rollback_model st now i reason = model_transition st now i MRolledBack (Some reason)"

subsection \<open>Reads\<close>

definition get_versions :: "learn_settings \<Rightarrow> auth_context \<Rightarrow> learn_db \<Rightarrow> http_error + model_row list" where
  "get_versions st ctx db = and_then (require (ls_enabled st) learning_off) (\<lambda>_. Inr (list_model_versions (ctx_org ctx) 50 db))"

definition get_one_version :: "learn_settings \<Rightarrow> auth_context \<Rightarrow> uuid \<Rightarrow> learn_db \<Rightarrow> http_error + model_row" where
  "get_one_version st ctx i db = and_then (require (ls_enabled st) learning_off) (\<lambda>_. load_version (ctx_org ctx) i db)"

definition version_changes :: "learn_settings \<Rightarrow> auth_context \<Rightarrow> uuid \<Rightarrow> learn_db \<Rightarrow> http_error + uuid \<times> calibration_report" where
  "version_changes st ctx i db = and_then (get_one_version st ctx i db) (\<lambda>v. Inr (mv_id v, mv_report v))"

record learning_status =
  lt_schema :: string
  lt_active :: "uuid option"
  lt_algorithm :: "string option"
  lt_age_days :: "int option"
  lt_candidates :: nat
  lt_events :: nat
  lt_metrics :: "calibration_metrics option"

definition learning_metrics :: "learn_settings \<Rightarrow> datetime \<Rightarrow> auth_context \<Rightarrow> learn_db \<Rightarrow> http_error + learning_status" where
  "learning_metrics st now ctx db =
     and_then (require (ls_enabled st) learning_off) (\<lambda>_.
       let active = active_model_version (ctx_org ctx) db in
       Inr \<lparr>lt_schema = feature_schema_version, lt_active = map_option mv_id active,
         lt_algorithm = map_option mv_algorithm_version active,
         lt_age_days = (case active of None \<Rightarrow> None | Some v \<Rightarrow> map_option (\<lambda>t. (now - t) div seconds 86400) (mv_activated v)),
         lt_candidates = length (filter (\<lambda>v. mv_status v = MCandidate) (list_model_versions (ctx_org ctx) 50 db)),
         lt_events = event_count (ctx_org ctx) db, lt_metrics = map_option mv_metrics active\<rparr>)"

end
