(* ===== verification/Learning_Facts.thy ===== *)
theory Learning_Facts
  imports Learning_Stats
begin

text \<open>
  What the calibration arithmetic of \<open>Learning_Stats\<close> guarantees: an interval is an interval of
  probabilities, a prior moves only on sufficient evidence, and an active calibration changes nothing but
  the confidence and the order of the recommendations.
\<close>

subsection \<open>Rounding and intervals\<close>

lemma round4_mono: "x \<le> y \<Longrightarrow> round4 x \<le> round4 y"
  using round_even_mono [of "x * 10000" "y * 10000"] by (simp add: round4_def divide_right_mono)

lemma round4_0: "round4 0 = 0"
  using round_even_int [of 0] by (simp add: round4_def)

lemma round4_1: "round4 1 = 1"
  using round_even_int [of 10000] by (simp add: round4_def)

lemma round4_unit: "0 \<le> x \<Longrightarrow> x \<le> 1 \<Longrightarrow> 0 \<le> round4 x \<and> round4 x \<le> 1"
  using round4_mono [of 0 x] round4_mono [of x 1] by (simp add: round4_0 round4_1)

lemma round4_close: "\<bar>x - round4 x\<bar> \<le> 1 / 20000"
  using round_even_close [of "x * 10000"] by (simp add: round4_def abs_le_iff field_simps)

lemma wilson_center_unit:
  assumes "0 < n" and "s \<le> n"
  shows "0 \<le> wilson_center s n \<and> wilson_center s n \<le> 1"
proof -
  have p: "(of_nat s :: rat) / of_nat n \<le> 1" "0 \<le> (of_nat s :: rat) / of_nat n" using assms by (auto simp: divide_le_eq)
  have q: "0 \<le> (196 / 100 * (196 / 100) / (2 * of_nat n) :: rat)"
    and r: "(196 / 100 * (196 / 100) / of_nat n :: rat) = 2 * (196 / 100 * (196 / 100) / (2 * of_nat n))" by simp_all
  have "of_nat s / of_nat n + 196 / 100 * (196 / 100) / (2 * of_nat n) \<le> (1 + 196 / 100 * (196 / 100) / of_nat n :: rat)"
    unfolding r using p q by linarith
  moreover have "0 < (1 + 196 / 100 * (196 / 100) / of_nat n :: rat)" unfolding r using q by linarith
  moreover have "0 \<le> of_nat s / of_nat n + (196 / 100 * (196 / 100) / (2 * of_nat n) :: rat)" using p q by linarith
  ultimately show ?thesis unfolding wilson_center_def Let_def by (simp only: divide_le_eq_1_pos zero_le_divide_iff) simp
qed

lemma clamped_interval:
  assumes "0 \<le> c" "c \<le> 1" "0 \<le> m"
  shows "0 \<le> round4 (max 0 (c - m)) \<and> round4 (max 0 (c - m)) \<le> round4 (min 1 (c + m)) \<and> round4 (min 1 (c + m)) \<le> 1"
proof -
  have "max 0 (c - m) \<le> min 1 (c + m)" using assms by simp
  then show ?thesis
    using round4_mono round4_unit [of "max 0 (c - m)"] round4_unit [of "min 1 (c + m)"] assms by simp
qed

text \<open>
  The Wilson interval of a cohort is an interval of probabilities, for every sample size including
  the empty one: its bounds are ordered and within 0 and 1, whatever non-negative values the square root of the
  platform returns.
\<close>

theorem wilson_interval_bounded:
  assumes "\<And>x. 0 \<le> sq x" and "successes \<le> trials"
  shows "0 \<le> fst (wilson_interval sq successes trials) \<and>
    fst (wilson_interval sq successes trials) \<le> snd (wilson_interval sq successes trials) \<and>
    snd (wilson_interval sq successes trials) \<le> 1"
proof (cases "trials = 0")
  case False
  have m: "0 \<le> 196 / 100 / (1 + 196 / 100 * (196 / 100) / rat_of_nat trials) * sq x" for x
    using assms(1) by (intro mult_nonneg_nonneg divide_nonneg_nonneg) simp_all
  have c: "0 \<le> wilson_center successes trials" "wilson_center successes trials \<le> 1"
    using wilson_center_unit [of trials successes] False assms(2) by simp_all
  show ?thesis
    unfolding wilson_interval_def Let_def using clamped_interval [OF c m] False by simp
qed (simp add: wilson_interval_def)

lemma wilson_interval_bounded_witness:
  "0 \<le> fst (wilson_interval (\<lambda>x. max 0 x) 3 4) \<and>
   fst (wilson_interval (\<lambda>x. max 0 x) 3 4) \<le> snd (wilson_interval (\<lambda>x. max 0 x) 3 4) \<and>
   snd (wilson_interval (\<lambda>x. max 0 x) 3 4) \<le> 1"
  by (rule wilson_interval_bounded) simp_all

subsection \<open>Which evidence may move a prior\<close>

abbreviation base_weights :: "calibration_weights option \<Rightarrow> calibration_weights" where
  "base_weights previous \<equiv> (case previous of None \<Rightarrow> default_weights | Some w \<Rightarrow> w)"

abbreviation cohort_rows :: "thresholds \<Rightarrow> observation list \<Rightarrow> string \<Rightarrow> observation list" where
  "cohort_rows th obs zone \<equiv> filter (\<lambda>b. ob_cohort b = zone) (usable_obs th obs)"

lemma map_of_sort_key: "distinct (map fst d) \<Longrightarrow> map_of (sort_key fst d) = map_of d"
  by (rule map_of_eqI) (auto simp: distinct_map inj_on_def intro!: map_of_inject_set [THEN iffD2])

abbreviation put_prior :: "cohort_metric \<Rightarrow> (string \<times> rat) list \<Rightarrow> (string \<times> rat) list" where
  "put_prior m d \<equiv> (if cm_sufficient m then AList.update (cm_cohort m) (cm_rate m) d else d)"

lemma put_priors_distinct: "distinct (map fst d) \<Longrightarrow> distinct (map fst (fold put_prior ms d))"
  by (induction ms arbitrary: d) (auto simp: distinct_update)

lemma put_priors_cases:
  "map_of (fold put_prior ms d) zone = map_of d zone \<or>
   (\<exists>m \<in> set ms. cm_sufficient m \<and> cm_cohort m = zone \<and> map_of (fold put_prior ms d) zone = Some (cm_rate m))"
  by (induction ms rule: rev_induct) (auto simp: update_conv')

lemma updated_priors_cases:
  assumes "distinct (map fst d)" and "map_of (updated_priors d ms) zone \<noteq> map_of d zone"
  obtains m where "m \<in> set ms" "cm_sufficient m" "cm_cohort m = zone" "map_of (updated_priors d ms) zone = Some (cm_rate m)"
  using assms put_priors_cases [of ms d zone] map_of_sort_key [OF put_priors_distinct [OF assms(1), of ms]]
  unfolding updated_priors_def by auto

lemma metric_fields:
  fixes th :: thresholds
  shows "cm_cohort (cohort_metric_of sq th pos obs c) = c"
    and "cm_rate (cohort_metric_of sq th pos obs c) =
      smoothed_rate (successes_in pos (filter (\<lambda>b. ob_cohort b = c) obs)) (length (filter (\<lambda>b. ob_cohort b = c) obs))"
    and "cm_sufficient (cohort_metric_of sq th pos obs c) \<longleftrightarrow>
      th_samples th \<le> length (filter (\<lambda>b. ob_cohort b = c) obs) \<and>
      \<not> dominated (th_share th) (actors_of (filter (\<lambda>b. ob_cohort b = c) obs)) \<and>
      (th_actors th \<le> length (remdups (actors_of (filter (\<lambda>b. ob_cohort b = c) obs))) \<or>
       actors_of (filter (\<lambda>b. ob_cohort b = c) obs) = [])"
  by (simp_all add: cohort_metric_of_def Let_def case_prod_beta)

lemma top_count_ge: "a \<in> set xs \<Longrightarrow> count_list xs a \<le> top_count xs"
  unfolding top_count_def foldr_max_set by (intro Max_ge) auto

lemma not_dominated:
  assumes "\<not> dominated share actors" and "a \<in> set actors"
  shows "rat_of_nat (count_list actors a) \<le> share * of_nat (length actors)"
proof -
  have "rat_of_nat (top_count actors) \<le> share * of_nat (length actors)"
    using assms by (cases actors) (auto simp: dominated_def pos_divide_le_eq not_less)
  moreover have "rat_of_nat (count_list actors a) \<le> rat_of_nat (top_count actors)" using top_count_ge [OF assms(2)] by simp
  ultimately show ?thesis by simp
qed

lemma build_candidate_priors:
  assumes "build_candidate sq th start stop previous obs = Some r"
  shows "cr_candidate r = (base_weights previous)\<lparr>cw_zone_priors :=
    updated_priors (cw_zone_priors (base_weights previous)) (cohort_metrics sq th accepted_outcomes (usable_obs th obs))\<rparr>"
    and "cr_preserved r"
  using assms by (auto simp: build_candidate_def Let_def split: if_splits)

lemma usable_attributable: "b \<in> set (cohort_rows th obs zone) \<Longrightarrow>
    ob_outcome b \<notin> operational_outcomes \<and>
    (ob_outcome b = ONotTriggered \<longrightarrow> th_hours th \<le> ob_hours b \<and> th_ratio th \<le> ob_ratio b)"
  by (auto simp: usable_obs_def attribute_outcome_def split: if_splits)

text \<open>
  C28. Anti-poisoning: when a candidate's prior for a zone differs from the one in force, the evidence of
  that zone passed every sufficiency check -- enough usable outcomes, no actor above the contribution share,
  enough distinct actors when people contributed at all, no platform failure and no unobserved window counted --
  and the new prior is the smoothed acceptance rate of exactly those outcomes. No other weight of the
  calibration moves.
\<close>

theorem calibration_resists_poisoning:
  assumes run: "build_candidate sq th start stop previous obs = Some r"
    and dict: "distinct (map fst (cw_zone_priors (base_weights previous)))"
    and moved: "map_of (cw_zone_priors (cr_candidate r)) zone \<noteq> map_of (cw_zone_priors (base_weights previous)) zone"
  shows "th_samples th \<le> length (cohort_rows th obs zone) \<and>
    (\<forall>a \<in> set (actors_of (cohort_rows th obs zone)).
       rat_of_nat (count_list (actors_of (cohort_rows th obs zone)) a) \<le>
       th_share th * of_nat (length (actors_of (cohort_rows th obs zone)))) \<and>
    (actors_of (cohort_rows th obs zone) = [] \<or> th_actors th \<le> card (set (actors_of (cohort_rows th obs zone)))) \<and>
    (\<forall>b \<in> set (cohort_rows th obs zone). ob_outcome b \<notin> operational_outcomes \<and>
       (ob_outcome b = ONotTriggered \<longrightarrow> th_hours th \<le> ob_hours b \<and> th_ratio th \<le> ob_ratio b)) \<and>
    map_of (cw_zone_priors (cr_candidate r)) zone =
      Some (smoothed_rate (successes_in accepted_outcomes (cohort_rows th obs zone)) (length (cohort_rows th obs zone))) \<and>
    (cr_candidate r)\<lparr>cw_zone_priors := []\<rparr> = (base_weights previous)\<lparr>cw_zone_priors := []\<rparr>"
proof -
  have c: "cr_candidate r = (base_weights previous)\<lparr>cw_zone_priors :=
    updated_priors (cw_zone_priors (base_weights previous)) (cohort_metrics sq th accepted_outcomes (usable_obs th obs))\<rparr>"
    by (rule build_candidate_priors [OF run])
  from moved have "map_of (updated_priors (cw_zone_priors (base_weights previous))
    (cohort_metrics sq th accepted_outcomes (usable_obs th obs))) zone \<noteq> map_of (cw_zone_priors (base_weights previous)) zone"
    unfolding c by simp
  then obtain m where m: "m \<in> set (cohort_metrics sq th accepted_outcomes (usable_obs th obs))" "cm_sufficient m"
    "cm_cohort m = zone" "map_of (cw_zone_priors (cr_candidate r)) zone = Some (cm_rate m)"
    unfolding c by (auto elim: updated_priors_cases [OF dict])
  then have e: "m = cohort_metric_of sq th accepted_outcomes (usable_obs th obs) zone"
    by (auto simp: cohort_metrics_def metric_fields)
  show ?thesis
    using m(2,4) not_dominated usable_attributable [where th = th and obs = obs and zone = zone] unfolding e metric_fields c
    by (auto simp: length_remdups_card_conv)
qed

definition sample_thresholds :: thresholds where
  "sample_thresholds = \<lparr>th_samples = 2, th_actors = 2, th_share = 1 / 2, th_hours = 24, th_ratio = 1 / 2\<rparr>"

definition sample_evidence :: "observation list" where
  "sample_evidence =
     [\<lparr>ob_cohort = ''ci'', ob_outcome = OAccepted, ob_actor = Some ''ana'', ob_hours = 0, ob_ratio = 1, ob_confidence = 1 / 2\<rparr>,
      \<lparr>ob_cohort = ''ci'', ob_outcome = ORejected, ob_actor = Some ''ben'', ob_hours = 0, ob_ratio = 1, ob_confidence = 1 / 2\<rparr>,
      \<lparr>ob_cohort = ''ci'', ob_outcome = ODeploymentFailed, ob_actor = None, ob_hours = 0, ob_ratio = 1, ob_confidence = 1 / 2\<rparr>]"

lemma sample_run:
  "\<exists>r. build_candidate (\<lambda>_. 0) sample_thresholds 0 100 None sample_evidence = Some r \<and>
     map_of (cw_zone_priors (cr_candidate r)) ''ci'' = Some (1 / 2)"
  by (simp add: build_candidate_def Let_def sample_evidence_def sample_thresholds_def usable_obs_def exclusion_list_def
      attribute_outcome_def operational_outcomes_def cohort_metrics_def cohort_metric_of_def wilson_interval_def
      actors_of_def List.map_filter_simps dominated_def top_count_def successes_in_def accepted_outcomes_def
      updated_priors_def default_weights_def smoothed_rate_def round4_def round_even_def)

lemma calibration_resists_poisoning_witness:
  "length (cohort_rows sample_thresholds sample_evidence ''ci'') \<ge> 2"
proof -
  obtain r where r: "build_candidate (\<lambda>_. 0) sample_thresholds 0 100 None sample_evidence = Some r"
    "map_of (cw_zone_priors (cr_candidate r)) ''ci'' = Some (1 / 2)" using sample_run by blast
  have "distinct (map fst (cw_zone_priors (base_weights None)))" by (simp add: default_weights_def)
  moreover have "map_of (cw_zone_priors (cr_candidate r)) ''ci'' \<noteq> map_of (cw_zone_priors (base_weights None)) ''ci''"
    using r(2) by (simp add: default_weights_def)
  ultimately show ?thesis
    using calibration_resists_poisoning [OF r(1), of "''ci''"] by (simp add: sample_thresholds_def)
qed

subsection \<open>What an active calibration changes\<close>

lemma calibrated_unit:
  assumes "0 \<le> rv_confidence item" "rv_confidence item \<le> 1"
  shows "0 \<le> calibrated_confidence w item \<and> calibrated_confidence w item \<le> 1"
  using assms round4_unit [of "max 0 (min 1 x)" for x]
  by (auto simp: calibrated_confidence_def split: option.splits)

lemma prior_factor_bounds: "3 / 4 \<le> prior_factor p s" "prior_factor p s \<le> 5 / 4"
  by (auto simp: prior_factor_def)

lemma clamp_close:
  fixes c y :: rat
  assumes "0 \<le> c" "c \<le> 1" "c * (3 / 4) \<le> y" "y \<le> c * (5 / 4)"
  shows "\<bar>max 0 (min 1 y) - c\<bar> \<le> c / 4"
proof (cases "1 \<le> y")
  case True
  then have "max 0 (min 1 y) = 1" by simp
  then show ?thesis using assms True unfolding abs_le_iff by linarith
next
  case False
  then have "max 0 (min 1 y) = y" using assms(1,3) by simp
  then show ?thesis using assms unfolding abs_le_iff by linarith
qed

lemma calibrated_close:
  assumes "0 \<le> rv_confidence item" "rv_confidence item \<le> 1"
  shows "\<bar>calibrated_confidence w item - rv_confidence item\<bar> \<le> rv_confidence item / 4 + 1 / 20000"
proof (cases "map_of (cw_zone_priors w) (rv_zone item)")
  case (Some p)
  obtain f where f: "f = prior_factor p (cw_scale w)" by blast
  have b: "rv_confidence item * (3 / 4) \<le> rv_confidence item * f" "rv_confidence item * f \<le> rv_confidence item * (5 / 4)"
    using assms prior_factor_bounds [of p "cw_scale w"] unfolding f by (intro mult_left_mono; simp)+
  have "calibrated_confidence w item = round4 (max 0 (min 1 (rv_confidence item * f)))"
    using Some f by (simp add: calibrated_confidence_def)
  then show ?thesis
    using clamp_close [OF assms b] round4_close [of "max 0 (min 1 (rv_confidence item * f))"]
    unfolding abs_le_iff by linarith
qed (use assms in \<open>simp add: calibrated_confidence_def\<close>)

abbreviation unranked :: "recommendation_view \<Rightarrow> recommendation_view" where
  "unranked item \<equiv> item\<lparr>rv_rank := 0, rv_confidence := 0\<rparr>"

abbreviation ordered_adjusted :: "calibration_weights \<Rightarrow> recommendation_view list \<Rightarrow> (recommendation_view \<times> rat) list" where
  "ordered_adjusted w recs \<equiv>
     sort_key (\<lambda>e. (- snd e, rv_path (fst e))) (map (\<lambda>item. (item, calibrated_confidence w item)) recs)"

lemma apply_active:
  assumes "kal_version k = Some v" "kal_weights k = Some w"
  shows "fst (apply_calibration k recs) =
    map (\<lambda>(n, (item, c)). item\<lparr>rv_rank := n, rv_confidence := c\<rparr>)
      (zip [1..<length recs + 1] (ordered_adjusted w recs))"
    and "snd (apply_calibration k recs) =
    map (\<lambda>(n, e). explain_change k w n e) (zip [1..<length recs + 1] (ordered_adjusted w recs))"
  using assms by (cases recs; simp add: apply_calibration_def Let_def)+

lemma apply_active_facts:
  assumes "kal_version k = Some v" "kal_weights k = Some w"
  shows "map unranked (fst (apply_calibration k recs)) = map (unranked \<circ> fst) (ordered_adjusted w recs)"
    and "map rv_rank (fst (apply_calibration k recs)) = [1..<length recs + 1]"
    and "map rv_confidence (fst (apply_calibration k recs)) = map snd (ordered_adjusted w recs)"
    and "map ce_previous (snd (apply_calibration k recs)) = map (rv_confidence \<circ> fst) (ordered_adjusted w recs)"
    and "map ce_current (snd (apply_calibration k recs)) = map snd (ordered_adjusted w recs)"
proof -
  obtain z where z: "z = zip [1..<length recs + 1] (ordered_adjusted w recs)" by blast
  have s: "map snd z = ordered_adjusted w recs" and n: "map fst z = [1..<length recs + 1]" by (simp_all add: z del: upt_Suc)
  show "map unranked (fst (apply_calibration k recs)) = map (unranked \<circ> fst) (ordered_adjusted w recs)"
    unfolding apply_active [OF assms] z [symmetric] unfolding s [symmetric] by (simp add: case_prod_beta)
  show "map rv_rank (fst (apply_calibration k recs)) = [1..<length recs + 1]"
    unfolding apply_active [OF assms] z [symmetric] unfolding n [symmetric] by (simp add: case_prod_beta)
  show "map rv_confidence (fst (apply_calibration k recs)) = map snd (ordered_adjusted w recs)"
    unfolding apply_active [OF assms] z [symmetric] unfolding s [symmetric] by (simp add: case_prod_beta)
  show "map ce_previous (snd (apply_calibration k recs)) = map (rv_confidence \<circ> fst) (ordered_adjusted w recs)"
    unfolding apply_active [OF assms] z [symmetric] unfolding s [symmetric] by (simp add: case_prod_beta explain_change_def Let_def)
  show "map ce_current (snd (apply_calibration k recs)) = map snd (ordered_adjusted w recs)"
    unfolding apply_active [OF assms] z [symmetric] unfolding s [symmetric] by (simp add: case_prod_beta explain_change_def Let_def)
qed

lemma ordered_desc: "sorted_wrt (\<lambda>a b. b \<le> a) (map snd (ordered_adjusted w recs))"
proof -
  have "sorted (map (\<lambda>e. (- snd e, rv_path (fst e))) (ordered_adjusted w recs))" by simp
  then have "sorted_wrt (\<lambda>e e'. snd e' \<le> snd e) (ordered_adjusted w recs)"
    unfolding sorted_map by (rule sorted_wrt_mono_rel [rotated]) auto
  then show ?thesis by (simp add: sorted_wrt_map)
qed

lemma ordered_mset: "mset (map f (ordered_adjusted w recs)) = mset (map (\<lambda>item. f (item, calibrated_confidence w item)) recs)"
  by (simp add: image_mset.compositionality comp_def)

text \<open>
  An active calibration moves the confidence and the order of the recommendations and nothing else:
  the recommended zones, paths, decoys, scores, risks and reasoning are the same collection; the ranks become
  1 to n with confidence not increasing; each confidence stays a probability and within a quarter of the
  deterministic one; and there is one explanation per recommendation that reports both values.
\<close>

theorem calibration_moves_only_rank_and_confidence:
  assumes active: "kal_version k = Some v" "kal_weights k = Some w"
    and unit: "\<And>item. item \<in> set recs \<Longrightarrow> 0 \<le> rv_confidence item \<and> rv_confidence item \<le> 1"
  shows "mset (map unranked (fst (apply_calibration k recs))) = mset (map unranked recs) \<and>
    map rv_rank (fst (apply_calibration k recs)) = [1..<length recs + 1] \<and>
    sorted_wrt (\<lambda>a b. b \<le> a) (map rv_confidence (fst (apply_calibration k recs))) \<and>
    map ce_current (snd (apply_calibration k recs)) = map rv_confidence (fst (apply_calibration k recs)) \<and>
    list_all2 (\<lambda>before after. 0 \<le> after \<and> after \<le> 1 \<and> \<bar>after - before\<bar> \<le> before / 4 + 1 / 20000)
      (map ce_previous (snd (apply_calibration k recs))) (map ce_current (snd (apply_calibration k recs)))"
proof -
  note f = apply_active_facts [OF active, of recs]
  have "mset (map unranked (fst (apply_calibration k recs))) = mset (map unranked recs)"
    unfolding f ordered_mset by simp
  moreover have "\<forall>e \<in> set (ordered_adjusted w recs). 0 \<le> snd e \<and> snd e \<le> 1 \<and>
      \<bar>snd e - rv_confidence (fst e)\<bar> \<le> rv_confidence (fst e) / 4 + 1 / 20000"
    using unit calibrated_unit calibrated_close by auto
  then have "list_all2 (\<lambda>before after. 0 \<le> after \<and> after \<le> 1 \<and> \<bar>after - before\<bar> \<le> before / 4 + 1 / 20000)
      (map ce_previous (snd (apply_calibration k recs))) (map ce_current (snd (apply_calibration k recs)))"
    unfolding f list_all2_map1 list_all2_map2 list_all2_same by simp
  ultimately show ?thesis unfolding f using ordered_desc by blast
qed

definition sample_calibration :: active_calibration where
  "sample_calibration = \<lparr>kal_version = Some 7, kal_weights = Some (default_weights\<lparr>cw_zone_priors := [(''ci'', 1)]\<rparr>),
    kal_org = True, kal_global = False, kal_samples = [(''ci'', 9)], kal_intervals = []\<rparr>"

definition sample_recs :: "recommendation_view list" where
  "sample_recs =
    [\<lparr>rv_rank = 1, rv_zone = ''docs'', rv_path = ''docs/a.md'', rv_decoy = ''doc'', rv_visibility = 1, rv_relevance = 1,
      rv_detection = 1, rv_risk = 0, rv_confidence = 3 / 5, rv_signals = [], rv_reasoning = ''r'', rv_alternatives = []\<rparr>,
     \<lparr>rv_rank = 2, rv_zone = ''ci'', rv_path = ''ci/b.yml'', rv_decoy = ''key'', rv_visibility = 1, rv_relevance = 1,
      rv_detection = 1, rv_risk = 0, rv_confidence = 1 / 2, rv_signals = [], rv_reasoning = ''r'', rv_alternatives = []\<rparr>]"

lemma calibration_moves_only_rank_and_confidence_witness:
  "map rv_rank (fst (apply_calibration sample_calibration sample_recs)) = [1..<length sample_recs + 1]"
proof -
  have "kal_version sample_calibration = Some 7"
    "kal_weights sample_calibration = Some (default_weights\<lparr>cw_zone_priors := [(''ci'', 1)]\<rparr>)"
    by (simp_all add: sample_calibration_def)
  moreover have "0 \<le> rv_confidence item \<and> rv_confidence item \<le> 1" if "item \<in> set sample_recs" for item
    using that by (auto simp: sample_recs_def)
  ultimately show ?thesis using calibration_moves_only_rank_and_confidence [of sample_calibration 7] by blast
qed

end
