(* ===== verification/Learning_Props.thy ===== *)
theory Learning_Props
  imports Learning_API Learning_Facts "HOL-Library.Sublist"
begin

text \<open>
  What controlled learning guarantees over any history of its operations: the steps of the system as a
  relation, the version lifecycle it keeps (one active calibration per organization, none active without
  a separate approval), the evidence it never counts twice and never rewrites, and the tenant boundary of the calibration
  input.
\<close>

subsection \<open>Steps\<close>

text \<open>
  A step is one operation of the repository or one endpoint; identifiers are fresh, as those of \<open>uuid4\<close>.
\<close>

inductive learn_step :: "learn_port \<Rightarrow> learn_db \<Rightarrow> learn_db \<Rightarrow> bool" for lp where
  snapshot: "record_feature_snapshot lp now i org f st sh ex db = Inr (db', r) \<Longrightarrow> learn_step lp db db'"
| reco: "record_recommendation lp now i org sn kd zn dc rk cf cds eg vr cat db = (db', rr) \<Longrightarrow> learn_step lp db db'"
| outcome: "record_outcome lp now i org rc ok rs ob md db = Inr (db', p) \<Longrightarrow> learn_step lp db db'"
| operation: "record_operational_result lp now i org op ss src lt rt fl hl db = (db', rs) \<Longrightarrow> learn_step lp db db'"
| feedback: "kind \<in> set target_kinds \<Longrightarrow> post_feedback lp ls now tick i kind tg body ctx (h, db) = ((h', db'), res) \<Longrightarrow>
    learn_step lp db db'"
| run: "i \<notin> set (map mv_id (ld_versions db)) \<Longrightarrow> run_calibration lp sq ls now i ctx db = (db', res2) \<Longrightarrow> learn_step lp db db'"
| job: "inj fresh \<Longrightarrow> range fresh \<inter> set (map mv_id (ld_versions db)) = {} \<Longrightarrow>
    calibration_job lp sq ls cfg acq now fresh db = (db', res3) \<Longrightarrow> learn_step lp db db'"
| review: "model_transition ls now i target reason ctx db = (db', res4) \<Longrightarrow> learn_step lp db db'"

definition empty_learn :: learn_db where
  "empty_learn = \<lparr>ld_snapshots = [], ld_recos = [], ld_outcomes = [], ld_feedback = [], ld_events = [], ld_results = [],
     ld_versions = []\<rparr>"

subsection \<open>What each operation touches\<close>

lemma append_event_fields [simp]:
  "ld_snapshots (append_event lp now org kd a b c d e g db) = ld_snapshots db"
  "ld_recos (append_event lp now org kd a b c d e g db) = ld_recos db"
  "ld_outcomes (append_event lp now org kd a b c d e g db) = ld_outcomes db"
  "ld_feedback (append_event lp now org kd a b c d e g db) = ld_feedback db"
  "ld_results (append_event lp now org kd a b c d e g db) = ld_results db"
  "ld_versions (append_event lp now org kd a b c d e g db) = ld_versions db"
  by (simp_all add: append_event_def Let_def)

lemma update_version_fields [simp]:
  "ld_snapshots (update_version i f db) = ld_snapshots db" "ld_recos (update_version i f db) = ld_recos db"
  "ld_outcomes (update_version i f db) = ld_outcomes db" "ld_feedback (update_version i f db) = ld_feedback db"
  "ld_results (update_version i f db) = ld_results db" "ld_events (update_version i f db) = ld_events db"
  by (simp_all add: update_version_def)

lemma create_candidate_fields [simp]:
  "ld_snapshots (fst (create_candidate i org rp al vr rq db)) = ld_snapshots db"
  "ld_recos (fst (create_candidate i org rp al vr rq db)) = ld_recos db"
  "ld_outcomes (fst (create_candidate i org rp al vr rq db)) = ld_outcomes db"
  "ld_feedback (fst (create_candidate i org rp al vr rq db)) = ld_feedback db"
  "ld_results (fst (create_candidate i org rp al vr rq db)) = ld_results db"
  "ld_events (fst (create_candidate i org rp al vr rq db)) = ld_events db"
  by (simp_all add: create_candidate_def Let_def)

text \<open>The part of the store that holds evidence, and the part that holds versions.\<close>

abbreviation evidence :: "learn_db \<Rightarrow> learn_db" where
  "evidence db \<equiv> db\<lparr>ld_versions := []\<rparr>"

lemma evidence_update [simp]: "evidence (update_version i f db) = evidence db"
  by (simp add: update_version_def)

lemma evidence_candidate [simp]: "evidence (fst (create_candidate i org rp al vr rq db)) = evidence db"
  by (simp add: create_candidate_def Let_def)

lemma evidence_status: "evidence (set_model_status now org i target a rs db) = evidence db"
  by (simp add: set_model_status_def demote_active_def split: option.splits)

lemma transition_evidence: "model_transition ls now i target rs ctx db = (db', res) \<Longrightarrow> evidence db' = evidence db"
  by (auto simp: model_transition_def evidence_status split: if_splits sum.splits version_error.splits)

lemma run_evidence: "run_calibration lp sq ls now i ctx db = (db', res) \<Longrightarrow> evidence db' = evidence db"
  by (auto simp: run_calibration_def Let_def case_prod_beta split: if_splits option.splits)

lemma calibrate_org_evidence: "calibrate_org lp sq ls now fresh g s = Some s' \<Longrightarrow> evidence (fst s') = evidence (fst s)"
  by (cases s) (auto simp: calibrate_org_def Let_def split: option.splits)

lemma calibrate_all_evidence: "calibrate_all lp sq ls now fresh gs s = Some s' \<Longrightarrow> evidence (fst s') = evidence (fst s)"
  by (induction lp sq ls now fresh gs s rule: calibrate_all.induct) (auto split: option.splits dest: calibrate_org_evidence)

lemma job_evidence: "calibration_job lp sq ls cfg acq now fresh db = (db', res) \<Longrightarrow> evidence db' = evidence db"
  by (auto simp: calibration_job_def split: if_splits option.splits dest!: calibrate_all_evidence)

lemma feedback_shape:
  "post_feedback lp ls now tick i kind tg body ctx (h, db) = ((h', db'), res) \<Longrightarrow>
   db' = db \<or> (\<exists>c m. db' = fst (record_feedback lp now i (ctx_org ctx) (ctx_key_id ctx) kind tg (fq_type body) None c m db))"
  by (auto simp: post_feedback_def Let_def case_prod_beta split: if_splits sum.splits prod.splits)

lemma record_versions:
  "record_feature_snapshot lp now i org f st sh ex db = Inr (db1, r1) \<Longrightarrow> ld_versions db1 = ld_versions db"
  "record_recommendation lp now i org sn kd zn dc rk cf cds eg vr cat db = (db2, r2) \<Longrightarrow> ld_versions db2 = ld_versions db"
  "record_outcome lp now i org rc ok rs ob md db = Inr (db3, r3) \<Longrightarrow> ld_versions db3 = ld_versions db"
  "record_operational_result lp now i org op ss src lt rt fl hl db = (db4, r4) \<Longrightarrow> ld_versions db4 = ld_versions db"
  "ld_versions (fst (record_feedback lp now i org actor kind tg ft og cr cm db)) = ld_versions db"
  by (auto simp: record_feature_snapshot_def record_recommendation_def record_outcome_def record_operational_result_def
      record_feedback_def Let_def and_then_def split: sum.splits option.splits if_splits)

subsection \<open>The version lifecycle\<close>

definition reviewed :: "model_row \<Rightarrow> bool" where
  "reviewed v \<longleftrightarrow>
     mv_approved v \<noteq> None \<and> (mv_requested v = None \<or> mv_approver v = None \<or> mv_approver v \<noteq> mv_requested v) \<and>
     mv_preserved v \<and> mv_schema v = feature_schema_version"

definition sole_active :: "model_row list \<Rightarrow> bool" where
  "sole_active vs \<longleftrightarrow>
     (\<forall>v \<in> set vs. \<forall>w \<in> set vs. mv_org v = mv_org w \<and> mv_status v = MActive \<and> mv_status w = MActive \<longrightarrow> mv_id v = mv_id w)"

definition versions_ok :: "model_row list \<Rightarrow> bool" where
  "versions_ok vs \<longleftrightarrow>
     distinct (map mv_id vs) \<and>
     (\<forall>v \<in> set vs. mv_scope v = OrganizationScope \<and> mv_preserved v \<and> mv_schema v = feature_schema_version) \<and>
     (\<forall>v \<in> set vs. mv_status v \<in> {MApproved, MActive, MRolledBack} \<longrightarrow> reviewed v) \<and>
     sole_active vs"

lemma sole_activeD:
  "sole_active vs \<Longrightarrow> v \<in> set vs \<Longrightarrow> w \<in> set vs \<Longrightarrow> mv_org v = mv_org w \<Longrightarrow> mv_status v = MActive \<Longrightarrow> mv_status w = MActive \<Longrightarrow>
   mv_id v = mv_id w"
  unfolding sole_active_def by blast

lemma stamp_fields [simp]:
  "mv_id (stamp_status now t a rs v) = mv_id v" "mv_org (stamp_status now t a rs v) = mv_org v"
  "mv_scope (stamp_status now t a rs v) = mv_scope v" "mv_schema (stamp_status now t a rs v) = mv_schema v"
  "mv_preserved (stamp_status now t a rs v) = mv_preserved v" "mv_requested (stamp_status now t a rs v) = mv_requested v"
  "mv_status (stamp_status now t a rs v) = t"
  "mv_approved (stamp_status now t a rs v) = (if t = MApproved then Some now else mv_approved v)"
  "mv_approver (stamp_status now t a rs v) = (if t = MApproved then a else mv_approver v)"
  "mv_weights (stamp_status now t a rs v) = mv_weights v"
  by (simp_all add: stamp_status_def Let_def)

lemma map_update_ids: "(\<And>v. mv_id (f v) = mv_id v) \<Longrightarrow> map mv_id (map (\<lambda>v. if mv_id v = i then f v else v) vs) = map mv_id vs"
  by (induction vs) auto

text \<open>The versions after \<open>set_status\<close>: the demoted one, the target and the others.\<close>

definition after_status :: "datetime \<Rightarrow> org_id \<Rightarrow> uuid \<Rightarrow> model_status \<Rightarrow> uuid option \<Rightarrow> string option \<Rightarrow> learn_db \<Rightarrow> model_row \<Rightarrow> model_row" where
  "after_status now org i target a rs db v =
     (if mv_id v = i then stamp_status now target a rs v
      else if target = MActive \<and> map_option mv_id (active_model_version org db) = Some (mv_id v) then v\<lparr>mv_status := MArchived\<rparr>
      else v)"

lemma set_status_versions: "ld_versions (set_model_status now org i target a rs db) = map (after_status now org i target a rs db) (ld_versions db)"
proof (cases "target = MActive")
  case True
  show ?thesis
  proof (cases "active_model_version org db")
    case None
    then show ?thesis using True by (simp add: set_model_status_def demote_active_def update_version_def after_status_def)
  next
    case (Some p)
    show ?thesis
      unfolding set_model_status_def demote_active_def update_version_def after_status_def Some option.case True
      by (simp add: comp_def if_distrib [where f = mv_id] cong: if_cong)
  qed
qed (simp add: set_model_status_def update_version_def after_status_def)

lemma active_version_exists:
  "y \<in> set (ld_versions db) \<Longrightarrow> mv_org y = Some org \<Longrightarrow> mv_status y = MActive \<Longrightarrow> active_model_version org db \<noteq> None"
  by (auto simp: active_model_version_def find_None_iff)

lemma active_version_facts:
  "active_model_version org db = Some p \<Longrightarrow> p \<in> set (ld_versions db) \<and> mv_org p = Some org \<and> mv_status p = MActive"
  unfolding active_model_version_def find_Some_iff by (metis nth_mem)

lemma model_status_ok:
  assumes ok: "versions_ok (ld_versions db)"
    and t: "\<And>v. v \<in> set (ld_versions db) \<Longrightarrow> mv_id v = i \<Longrightarrow> mv_org v = Some org \<and>
      (target \<in> {MApproved, MActive, MRolledBack} \<longrightarrow> reviewed (stamp_status now target a rs v))"
  shows "versions_ok (ld_versions (set_model_status now org i target a rs db))"
proof -
  let ?f = "after_status now org i target a rs db"
  have ids: "mv_id (?f v) = mv_id v" "mv_org (?f v) = mv_org v" "mv_scope (?f v) = mv_scope v"
    "mv_preserved (?f v) = mv_preserved v" "mv_schema (?f v) = mv_schema v" for v
    by (simp_all add: after_status_def)
  have rev: "reviewed (?f v)" if "v \<in> set (ld_versions db)" "mv_status (?f v) \<in> {MApproved, MActive, MRolledBack}" for v
  proof (cases "mv_id v = i")
    case True
    then show ?thesis using that t [of v] by (simp add: after_status_def)
  next
    case False
    have "?f v = v"
    proof (cases "target = MActive \<and> map_option mv_id (active_model_version org db) = Some (mv_id v)")
      case True
      then have "?f v = v\<lparr>mv_status := MArchived\<rparr>" using False by (simp only: after_status_def if_True if_False simp_thms)
      then show ?thesis using that(2) by simp
    next
      case other: False
      show ?thesis unfolding after_status_def by (simp only: False other if_False)
    qed
    then show ?thesis using that ok by (auto simp: versions_ok_def)
  qed
  have sole: "sole_active (ld_versions db)" using ok by (simp add: versions_ok_def)
  have uniq: "mv_id v = mv_id w"
    if v: "v \<in> set (ld_versions db)" and w: "w \<in> set (ld_versions db)" and o: "mv_org v = mv_org w"
      and a: "mv_status (?f v) = MActive" "mv_status (?f w) = MActive" for v w
  proof (rule ccontr)
    assume ne: "mv_id v \<noteq> mv_id w"
    have one: False
      if x: "x \<in> set (ld_versions db)" and y: "y \<in> set (ld_versions db)" and xy: "mv_id x = i" "mv_id y \<noteq> i"
        "mv_org y = mv_org x" "mv_status (?f x) = MActive" "mv_status (?f y) = MActive" for x y
    proof -
      have tgt: "target = MActive" using xy(1,4) by (simp add: after_status_def)
      have y': "mv_status y = MActive" "map_option mv_id (active_model_version org db) \<noteq> Some (mv_id y)"
        using xy(2,5) tgt by (auto simp: after_status_def split: if_splits)
      have "mv_org y = Some org" using t [OF x xy(1)] xy(3) by simp
      then obtain p where p: "active_model_version org db = Some p" using active_version_exists [OF y _ y'(1)] by blast
      note pf = active_version_facts [OF p]
      have "mv_id p = mv_id y" by (rule sole_activeD [OF sole]) (use y y'(1) \<open>mv_org y = Some org\<close> pf in simp_all)
      then show False using p y'(2) by simp
    qed
    have "mv_id v \<noteq> i" using one [OF v w] ne o a by metis
    moreover have "mv_id w \<noteq> i" using one [OF w v] ne o a by metis
    ultimately have "mv_status v = MActive" "mv_status w = MActive" using a by (auto simp: after_status_def split: if_splits)
    then show False using sole_activeD [OF sole v w o] ne by blast
  qed
  have "sole_active (map ?f (ld_versions db))" 
    unfolding sole_active_def
  proof (intro ballI impI)
    fix x y assume "x \<in> set (map ?f (ld_versions db))" "y \<in> set (map ?f (ld_versions db))"
      and a: "mv_org x = mv_org y \<and> mv_status x = MActive \<and> mv_status y = MActive"
    then obtain v w where vw: "v \<in> set (ld_versions db)" "w \<in> set (ld_versions db)" "x = ?f v" "y = ?f w" by (auto simp only: set_map)
    have "mv_id v = mv_id w" by (rule uniq [OF vw(1,2)]) (use a in \<open>simp_all only: vw(3,4) ids\<close>)
    then show "mv_id x = mv_id y" by (simp only: vw(3,4) ids)
  qed
  then show ?thesis
    using ok rev unfolding versions_ok_def set_status_versions by (simp add: ids comp_def)
qed

lemma candidate_ok:
  assumes "versions_ok (ld_versions db)" and "i \<notin> set (map mv_id (ld_versions db))"
    and "cr_preserved rp" "cr_schema rp = feature_schema_version"
  shows "versions_ok (ld_versions (fst (create_candidate i org rp al vr rq db)))"
proof -
  have "sole_active (vs @ [r])" if "sole_active vs" "mv_status r \<noteq> MActive" for vs r
    unfolding sole_active_def using that(2) by (intro ballI impI, elim conjE, intro sole_activeD [OF that(1)]) auto
  then show ?thesis using assms by (simp add: versions_ok_def create_candidate_def Let_def)
qed

lemma build_candidate_schema: "build_candidate sq th start stop previous obs = Some r \<Longrightarrow> cr_schema r = feature_schema_version"
  by (auto simp: build_candidate_def Let_def split: if_splits)


lemma lifecycle_reviewed:
  assumes "lifecycle_check st ctx target reason (version_view_of v) = Inr x"
    and "mv_scope v = OrganizationScope" "mv_preserved v" "mv_schema v = feature_schema_version"
    and "mv_status v \<in> {MApproved, MActive, MRolledBack} \<longrightarrow> reviewed v"
    and "target \<in> {MApproved, MActive, MRolledBack}"
  shows "reviewed (stamp_status now target (if target = MApproved then ctx_key_id ctx else None) reason v)"
proof -
  have tr: "transition_allowed (mv_status v) target"
    using assms(1,6) by (auto simp: lifecycle_check_def approve_version_def activate_version_def rollback_version_def
        ensure_transition_def and_then_def version_view_of_def split: sum.splits if_splits)
  show ?thesis
  proof (cases "target = MApproved")
    case True
    then have "ensure_approver_distinct (version_view_of v) (ctx_key_id ctx) = Inr ()"
      using assms(1) by (auto simp: lifecycle_check_def approve_version_def and_then_def split: sum.splits)
    then show ?thesis
      using True assms(3,4) by (auto simp: ensure_approver_distinct_def version_view_of_def reviewed_def split: if_splits)
  next
    case False
    then have "mv_status v \<in> {MApproved, MActive, MRolledBack}"
      using tr assms(6) by (cases "mv_status v") (auto simp: transition_allowed_def)
    then show ?thesis using False assms(5,6) by (simp add: reviewed_def)
  qed
qed

lemma get_version_facts: "get_model_version org i db = Some v \<Longrightarrow> v \<in> set (ld_versions db) \<and> mv_id v = i \<and> mv_org v = Some org"
  unfolding get_model_version_def by (auto simp: find_Some_iff split: option.splits if_splits)

lemma transition_paths:
  assumes "model_transition ls now i target reason ctx db = (db', res)"
  shows "db' = db \<or>
    (\<exists>v x. get_model_version (ctx_org ctx) i db = Some v \<and> lifecycle_check ls ctx target reason (version_view_of v) = Inr x \<and>
       db' = set_model_status now (ctx_org ctx) i target (if target = MApproved then ctx_key_id ctx else None) reason db)"
  using assms by (auto simp: model_transition_def load_version_def split: if_splits option.splits sum.splits version_error.splits)

lemma versions_unique: "versions_ok vs \<Longrightarrow> v \<in> set vs \<Longrightarrow> w \<in> set vs \<Longrightarrow> mv_id v = mv_id w \<Longrightarrow> v = w"
  by (simp add: versions_ok_def distinct_map inj_on_def)

lemma transition_ok:
  assumes ok: "versions_ok (ld_versions db)" and tr: "model_transition ls now i target reason ctx db = (db', res)"
  shows "versions_ok (ld_versions db')"
  using transition_paths [OF tr]
proof
  assume "\<exists>v x. get_model_version (ctx_org ctx) i db = Some v \<and> lifecycle_check ls ctx target reason (version_view_of v) = Inr x \<and>
       db' = set_model_status now (ctx_org ctx) i target (if target = MApproved then ctx_key_id ctx else None) reason db"
  then obtain v x where v: "get_model_version (ctx_org ctx) i db = Some v" "lifecycle_check ls ctx target reason (version_view_of v) = Inr x"
    "db' = set_model_status now (ctx_org ctx) i target (if target = MApproved then ctx_key_id ctx else None) reason db" by blast
  note f = get_version_facts [OF v(1)]
  show ?thesis unfolding v(3)
  proof (rule model_status_ok [OF ok])
    fix w assume w: "w \<in> set (ld_versions db)" "mv_id w = i"
    then have e: "w = v" using versions_unique [OF ok] f by blast
    have "mv_scope v = OrganizationScope \<and> mv_preserved v \<and> mv_schema v = feature_schema_version"
      "mv_status v \<in> {MApproved, MActive, MRolledBack} \<longrightarrow> reviewed v" using ok f by (auto simp: versions_ok_def)
    then show "mv_org w = Some (ctx_org ctx) \<and> (target \<in> {MApproved, MActive, MRolledBack} \<longrightarrow>
        reviewed (stamp_status now target (if target = MApproved then ctx_key_id ctx else None) reason w))"
      using lifecycle_reviewed [OF v(2)] f unfolding e by blast
  qed
qed (use ok in simp)

lemma run_ok:
  assumes "versions_ok (ld_versions db)" "i \<notin> set (map mv_id (ld_versions db))"
    and "run_calibration lp sq ls now i ctx db = (db', res)"
  shows "versions_ok (ld_versions db')"
  using assms candidate_ok build_candidate_priors(2) build_candidate_schema
  by (auto simp: run_calibration_def Let_def case_prod_beta split: if_splits option.splits)

lemma job_ok:
  assumes "calibrate_all lp sq ls now fresh gs s = Some s'" and "versions_ok (ld_versions (fst s))" and "inj fresh"
    and "\<And>n. jc_candidates (snd s) \<le> n \<Longrightarrow> fresh n \<notin> set (map mv_id (ld_versions (fst s)))"
  shows "versions_ok (ld_versions (fst s'))"
  using assms
proof (induction gs arbitrary: s)
  case (Cons g gs)
  from Cons.prems(1) obtain t where t: "calibrate_org lp sq ls now fresh g s = Some t" "calibrate_all lp sq ls now fresh gs t = Some s'"
    by (auto split: option.splits)
  have "versions_ok (ld_versions (fst t)) \<and> (\<forall>n \<ge> jc_candidates (snd t). fresh n \<notin> set (map mv_id (ld_versions (fst t))))"
  proof (cases "ld_versions (fst t) = ld_versions (fst s) \<and> jc_candidates (snd t) = jc_candidates (snd s)")
    case False
    then obtain obs rp where o: "build_candidate sq (ls_thresholds ls) (now - ls_retention_days ls * seconds 86400) now (previous_weights g (fst s)) obs = Some rp"
      "fst t = fst (create_candidate (fresh (jc_candidates (snd s))) g rp algorithm_name algorithm_version None (fst s))"
      "jc_candidates (snd t) = jc_candidates (snd s) + 1"
      using t(1) by (cases s) (auto simp: calibrate_org_def Let_def split: option.splits)
    have n: "fresh (jc_candidates (snd s)) \<notin> set (map mv_id (ld_versions (fst s)))" using Cons.prems(4) by blast
    have "fresh m \<notin> set (map mv_id (ld_versions (fst t)))" if "jc_candidates (snd s) + 1 \<le> m" for m
    proof -
      have "fresh m \<noteq> fresh (jc_candidates (snd s))" using that Cons.prems(3) by (auto simp: inj_eq)
      moreover have "fresh m \<notin> set (map mv_id (ld_versions (fst s)))" using that Cons.prems(4) by simp
      ultimately show ?thesis unfolding o(2) by (simp add: create_candidate_def Let_def)
    qed
    then show ?thesis
      using candidate_ok [OF Cons.prems(2) n build_candidate_priors(2) [OF o(1)] build_candidate_schema [OF o(1)]] o(2,3) by simp
  qed (use Cons.prems(2,4) in simp)
  then show ?case using Cons.IH [OF t(2) _ Cons.prems(3)] by blast
qed simp

lemma step_versions_ok:
  assumes "learn_step lp db db'" and "versions_ok (ld_versions db)" shows "versions_ok (ld_versions db')"
  using assms
proof (induction rule: learn_step.induct)
  case (feedback kind ls now tick i tg body ctx h db h' db' res)
  then show ?case using feedback_shape [OF feedback.hyps(2)] record_versions(5) by auto
next
  case (run i db sq ls now ctx db' res)
  then show ?case using run_ok by blast
next
  case (job fresh db sq ls cfg acq now db' res)
  have "versions_ok (ld_versions (fst s'))" if "calibrate_all lp sq ls now fresh gs (db, no_counts) = Some s'" for gs s'
    using job_ok [OF that _ job.hyps(1)] job.prems job.hyps(2) by (auto simp: no_counts_def)
  then show ?case using job.hyps(3) job.prems by (auto simp: calibration_job_def split: if_splits option.splits)
next
  case (review ls now i target reason ctx db db' res)
  then show ?case using transition_ok by blast
qed (simp_all add: record_versions)

text \<open>
  C33. Over every history of the learning system at most one version of an organization is active, and a
  version that is approved, active or rolled back went through an approval that kept the deterministic safety
  constraints, targets the running feature schema, and was not given under the key that requested it: when
  both key ids are recorded they differ -- whatever the approval setting says. The separation is one of key
  ids, as in the code: an actor without one (the bootstrap credential) is never held to it, see
  \<open>keyless_self_approval\<close>.
\<close>

theorem learning_versions_reviewed:
  assumes "(learn_step lp)\<^sup>*\<^sup>* empty_learn db"
  shows "versions_ok (ld_versions db)"
  using assms
proof (induction rule: rtranclp_induct)
  case base
  show ?case by (simp add: empty_learn_def versions_ok_def sole_active_def)
next
  case (step y z)
  show ?case by (rule step_versions_ok [OF step.hyps(2) step.IH])
qed

definition sample_port :: learn_port where
  "sample_port = \<lparr>lp_sha = (\<lambda>s. s), lp_uuid = nat_str, lp_iso = int_str, lp_num = (\<lambda>q. []), lp_dumps = (\<lambda>m. []),
     lp_loads = (\<lambda>s. Some []), lp_str = (\<lambda>v. []), lp_float = (\<lambda>v. Some 0)\<rparr>"

definition sample_learn_settings :: learn_settings where
  "sample_learn_settings = \<lparr>ls_enabled = True, ls_retention_days = 180, ls_thresholds = sample_thresholds\<lparr>th_samples := 0\<rparr>,
     ls_require_approval = False, ls_comment_length = 500, ls_rate = 20\<rparr>"

abbreviation learner :: "uuid \<Rightarrow> auth_context" where
  "learner k \<equiv> \<lparr>ctx_org = 1, ctx_scopes = [], ctx_role = ''admin'', ctx_key_id = Some k\<rparr>"

text \<open>A candidate requested by key 10, submitted, approved by key 11 and activated.\<close>

definition sample_cycle :: learn_db where
  "sample_cycle =
     (let d1 = fst (run_calibration sample_port (\<lambda>_. 0) sample_learn_settings 0 5 (learner 10) empty_learn);
          d2 = fst (model_transition sample_learn_settings 1 5 MUnderReview None (learner 10) d1);
          d3 = fst (model_transition sample_learn_settings 2 5 MApproved None (learner 11) d2)
      in fst (model_transition sample_learn_settings 3 5 MActive None (learner 11) d3))"

lemma transition_step: "learn_step lp db (fst (model_transition ls now i target reason ctx db))"
  by (rule learn_step.review [OF prod.collapse [symmetric]])

lemma reach_transition:
  "(learn_step lp)\<^sup>*\<^sup>* a db \<Longrightarrow> (learn_step lp)\<^sup>*\<^sup>* a (fst (model_transition ls now i target reason ctx db))"
  using transition_step by (metis rtranclp.rtrancl_into_rtrancl)

lemma sample_cycle_reachable: "(learn_step sample_port)\<^sup>*\<^sup>* empty_learn sample_cycle"
proof -
  have "learn_step sample_port empty_learn
      (fst (run_calibration sample_port (\<lambda>_. 0) sample_learn_settings 0 5 (learner 10) empty_learn))"
    by (rule learn_step.run [OF _ prod.collapse [symmetric]]) (simp add: empty_learn_def)
  then show ?thesis
    unfolding sample_cycle_def Let_def by (intro reach_transition r_into_rtranclp)
qed

lemma learning_versions_reviewed_witness:
  "versions_ok (ld_versions sample_cycle) \<and> map mv_status (ld_versions sample_cycle) = [MActive]"
proof -
  have "map mv_status (ld_versions sample_cycle) = [MActive]"
    by (simp add: sample_cycle_def Let_def run_calibration_def empty_learn_def observations_def observed_rows_def
        build_candidate_def usable_obs_def exclusion_list_def sample_learn_settings_def sample_thresholds_def default_weights_def
        create_candidate_def model_transition_def load_version_def get_model_version_def lifecycle_check_def version_view_of_def
        ensure_same_organization_def ensure_transition_def transition_allowed_def and_then_def set_model_status_def
        update_version_def stamp_status_def approve_version_def ensure_approver_distinct_def activate_version_def
        ensure_schema_compatible_def demote_active_def active_model_version_def)
  then show ?thesis using learning_versions_reviewed [OF sample_cycle_reachable] by blast
qed

text \<open>
  The gap in the separation of duties: the bootstrap credential has no key id, so the check that compares ids
  passes, and one actor requests, submits, approves and activates its own version.
\<close>

abbreviation keyless :: auth_context where
  "keyless \<equiv> \<lparr>ctx_org = 1, ctx_scopes = [], ctx_role = ''owner'', ctx_key_id = None\<rparr>"

definition keyless_cycle :: learn_db where
  "keyless_cycle =
     (let d1 = fst (run_calibration sample_port (\<lambda>_. 0) sample_learn_settings 0 5 keyless empty_learn);
          d2 = fst (model_transition sample_learn_settings 1 5 MUnderReview None keyless d1);
          d3 = fst (model_transition sample_learn_settings 2 5 MApproved None keyless d2)
      in fst (model_transition sample_learn_settings 3 5 MActive None keyless d3))"

lemma keyless_self_approval:
  "map (\<lambda>v. (mv_status v, mv_requested v, mv_approver v)) (ld_versions keyless_cycle) = [(MActive, None, None)]"
  by (simp add: keyless_cycle_def Let_def run_calibration_def empty_learn_def observations_def observed_rows_def
      build_candidate_def usable_obs_def exclusion_list_def sample_learn_settings_def sample_thresholds_def default_weights_def
      create_candidate_def model_transition_def load_version_def get_model_version_def lifecycle_check_def version_view_of_def
      ensure_same_organization_def ensure_transition_def transition_allowed_def and_then_def set_model_status_def
      update_version_def stamp_status_def approve_version_def ensure_approver_distinct_def activate_version_def
      ensure_schema_compatible_def demote_active_def active_model_version_def)

subsection \<open>The evidence\<close>

definition numbered :: "feedback_row list \<Rightarrow> bool" where
  "numbered fs \<longleftrightarrow> map fb_revision fs = [1..<length fs + 1] \<and> successively (\<lambda>f g. fb_type f \<noteq> fb_type g) fs"

definition evidence_ok :: "learn_db \<Rightarrow> bool" where
  "evidence_ok db \<longleftrightarrow>
     distinct (map (\<lambda>r. (fs_org r, fs_hash r)) (ld_snapshots db)) \<and>
     distinct (map (\<lambda>p. (po_reco p, po_type p)) (ld_outcomes db)) \<and>
     distinct (map (\<lambda>e. (le_org e, le_hash e)) (ld_events db)) \<and>
     (\<forall>org actor kind target. numbered (feedback_rows org actor kind target db))"

lemma evidence_part: "evidence db' = evidence db \<Longrightarrow> evidence_ok db' = evidence_ok db"
  by (cases db; cases db') (simp add: evidence_ok_def feedback_rows_def)

lemma append_event_distinct:
  "distinct (map (\<lambda>e. (le_org e, le_hash e)) (ld_events db)) \<Longrightarrow>
   distinct (map (\<lambda>e. (le_org e, le_hash e)) (ld_events (append_event lp now org kd a b c d e g db)))"
  by (auto simp: append_event_def Let_def)

lemma append_event_ok: "evidence_ok db \<Longrightarrow> evidence_ok (append_event lp now org kd a b c d e g db)"
  using append_event_distinct [of db] by (simp add: evidence_ok_def feedback_rows_def)

lemma snapshot_shape:
  assumes "record_feature_snapshot lp now i org f st sh ex db = Inr (db', r)"
  shows "db' = db \<or>
    (\<forall>x \<in> set (ld_snapshots db). (fs_org x, fs_hash x) \<noteq> (fs_org r, fs_hash r)) \<and>
    db' = append_event lp now org SnapshotCaptured (Some i) None None None None None (db\<lparr>ld_snapshots := ld_snapshots db @ [r]\<rparr>)"
  using assms by (auto simp: record_feature_snapshot_def Let_def and_then_def find_None_iff split: sum.splits option.splits)

lemma outcome_shape:
  assumes "record_outcome lp now i org rc ok rs ob md db = Inr (db', p)"
  shows "db' = db \<or>
    (\<forall>x \<in> set (ld_outcomes db). (po_reco x, po_type x) \<noteq> (po_reco p, po_type p)) \<and>
    db' = append_event lp now org OutcomeRecorded None (Some rc) (Some i) None None None (db\<lparr>ld_outcomes := ld_outcomes db @ [p]\<rparr>)"
  using assms by (auto simp: record_outcome_def Let_def find_None_iff split: if_splits option.splits)

lemma feedback_row_shape:
  assumes "record_feedback lp now i org actor kind target ftype og cr cm db = (db', r)"
  shows "db' = db \<or>
    (db' = append_event lp now org FeedbackSubmitted None None None (Some i) None actor (db\<lparr>ld_feedback := ld_feedback db @ [r]\<rparr>) \<and>
     fb_org r = org \<and> fb_actor r = actor \<and> fb_kind r = take 24 kind \<and> fb_target r = target \<and> fb_type r = ftype \<and>
     (case latest_revision (feedback_rows org actor kind target db) of
        None \<Rightarrow> fb_revision r = 1 | Some f \<Rightarrow> fb_revision r = fb_revision f + 1 \<and> fb_type f \<noteq> ftype))"
  using assms by (auto simp: record_feedback_def Let_def split: option.splits if_splits)

lemma latest_numbered:
  assumes "numbered fs" shows "latest_revision fs = (if fs = [] then None else Some (last fs))"
proof -
  have "sorted (map fb_revision fs)" using assms unfolding numbered_def by (metis sorted_upt)
  then have "sort_key fb_revision fs = fs" by (rule sort_key_id_if_sorted)
  then show ?thesis unfolding latest_revision_def by (cases fs rule: rev_cases) simp_all
qed

lemma numbered_snoc:
  assumes n: "numbered fs"
    and r: "case latest_revision fs of None \<Rightarrow> fb_revision r = 1 | Some f \<Rightarrow> fb_revision r = fb_revision f + 1 \<and> fb_type f \<noteq> fb_type r"
  shows "numbered (fs @ [r])"
proof (cases fs rule: rev_cases)
  case Nil
  then show ?thesis using r by (simp add: numbered_def latest_revision_def)
next
  case (snoc gs g)
  have "latest_revision fs = Some g" using latest_numbered [OF n] snoc by simp
  moreover have "fb_revision g = length fs" using n snoc unfolding numbered_def by simp
  ultimately have "fb_revision r = length fs + 1" "fb_type g \<noteq> fb_type r" using r by simp_all
  then show ?thesis using n unfolding numbered_def by (simp add: successively_append_iff snoc)
qed

lemma feedback_ok:
  assumes ok: "evidence_ok db" and k: "length kind \<le> 24"
    and w: "record_feedback lp now i org actor kind target ftype og cr cm db = (db', r)"
  shows "evidence_ok db'"
  using feedback_row_shape [OF w]
proof
  assume s: "db' = append_event lp now org FeedbackSubmitted None None None (Some i) None actor (db\<lparr>ld_feedback := ld_feedback db @ [r]\<rparr>) \<and>
     fb_org r = org \<and> fb_actor r = actor \<and> fb_kind r = take 24 kind \<and> fb_target r = target \<and> fb_type r = ftype \<and>
     (case latest_revision (feedback_rows org actor kind target db) of
        None \<Rightarrow> fb_revision r = 1 | Some f \<Rightarrow> fb_revision r = fb_revision f + 1 \<and> fb_type f \<noteq> ftype)"
  have n: "numbered (feedback_rows o' a' k' t' db)" for o' a' k' t' using ok by (simp add: evidence_ok_def)
  have rows: "feedback_rows o' a' k' t' (db\<lparr>ld_feedback := ld_feedback db @ [r]\<rparr>) =
      (if (o', a', k', t') = (org, actor, kind, target) then feedback_rows org actor kind target db @ [r] else feedback_rows o' a' k' t' db)"
    for o' a' k' t' using s k by (auto simp: feedback_rows_def)
  have "numbered (feedback_rows org actor kind target db @ [r])" using s by (intro numbered_snoc n) auto
  then have "evidence_ok (db\<lparr>ld_feedback := ld_feedback db @ [r]\<rparr>)"
    using ok n unfolding evidence_ok_def rows by simp
  then show ?thesis using append_event_ok s by blast
qed (use ok in simp)

lemma target_kind_short: "kind \<in> set target_kinds \<Longrightarrow> length kind \<le> 24"
  by (auto simp: target_kinds_def)

lemma step_evidence_ok:
  assumes "learn_step lp db db'" and "evidence_ok db" shows "evidence_ok db'"
  using assms
proof (induction rule: learn_step.induct)
  case (snapshot now i org f st sh ex db db' r)
  have "evidence_ok (db\<lparr>ld_snapshots := ld_snapshots db @ [r]\<rparr>)"
    if "\<forall>x \<in> set (ld_snapshots db). (fs_org x, fs_hash x) \<noteq> (fs_org r, fs_hash r)"
    using that snapshot.prems by (auto simp: evidence_ok_def feedback_rows_def)
  then show ?case using snapshot_shape [OF snapshot.hyps] snapshot.prems append_event_ok by blast
next
  case (reco now i org sn kd zn dc rk cf cds eg vr cat db db' rr)
  then show ?case
    by (auto simp: record_recommendation_def Let_def intro!: append_event_ok) (simp add: evidence_ok_def feedback_rows_def)
next
  case (outcome now i org rc ok rs ob md db db' p)
  have "evidence_ok (db\<lparr>ld_outcomes := ld_outcomes db @ [p]\<rparr>)"
    if "\<forall>x \<in> set (ld_outcomes db). (po_reco x, po_type x) \<noteq> (po_reco p, po_type p)"
    using that outcome.prems by (auto simp: evidence_ok_def feedback_rows_def)
  then show ?case using outcome_shape [OF outcome.hyps] outcome.prems append_event_ok by blast
next
  case (operation now i org op ss src lt rt fl hl db db' rs)
  then show ?case
    by (auto simp: record_operational_result_def Let_def intro!: append_event_ok) (simp add: evidence_ok_def feedback_rows_def)
next
  case (feedback kind ls now tick i tg body ctx h db h' db' res)
  from feedback_shape [OF feedback.hyps(2)] show ?case
  proof
    assume "\<exists>c m. db' = fst (record_feedback lp now i (ctx_org ctx) (ctx_key_id ctx) kind tg (fq_type body) None c m db)"
    then obtain c m where
      e: "db' = fst (record_feedback lp now i (ctx_org ctx) (ctx_key_id ctx) kind tg (fq_type body) None c m db)" by blast
    show ?thesis
      unfolding e by (rule feedback_ok [OF feedback.prems target_kind_short [OF feedback.hyps(1)] prod.collapse [symmetric]])
  qed (use feedback.prems in simp)
next
  case (run i db sq ls now ctx db' res2)
  then show ?case using evidence_part [OF run_evidence [OF run.hyps(2)]] run.prems by simp
next
  case (job fresh db sq ls cfg acq now db' res3)
  then show ?case using evidence_part [OF job_evidence [OF job.hyps(3)]] job.prems by simp
next
  case (review ls now i target reason ctx db db' res4)
  then show ?case using evidence_part [OF transition_evidence [OF review.hyps]] review.prems by simp
qed

text \<open>
  No evidence counts twice: over every history of the learning system a snapshot is stored once per
  organization and content, an outcome once per recommendation and kind, an event once per identity,
  and the feedback of one actor on one target is numbered 1, 2, 3 without gaps, no two neighbours of the
  same kind -- so repeated clicks cannot inflate it.
\<close>

theorem learning_evidence_unique:
  assumes "(learn_step lp)\<^sup>*\<^sup>* empty_learn db"
  shows "evidence_ok db"
  using assms
proof (induction rule: rtranclp_induct)
  case base
  show ?case by (simp add: evidence_ok_def empty_learn_def feedback_rows_def numbered_def)
next
  case (step y z)
  show ?case by (rule step_evidence_ok [OF step.hyps(2) step.IH])
qed

definition sample_feedback :: "feedback_type \<Rightarrow> learn_db \<Rightarrow> learn_db" where
  "sample_feedback t db = snd (fst (post_feedback sample_port sample_learn_settings 0 0 (length (ld_feedback db)) ''alert'' 9
     \<lparr>fq_type = t, fq_severity = None, fq_usefulness = None, fq_assessment = None, fq_comment = None\<rparr> (learner 10) ([], db)))"

lemma sample_feedback_step:
  assumes "(learn_step sample_port)\<^sup>*\<^sup>* a db" shows "(learn_step sample_port)\<^sup>*\<^sup>* a (sample_feedback t db)"
proof -
  obtain h d r where e: "post_feedback sample_port sample_learn_settings 0 0 (length (ld_feedback db)) ''alert'' 9
     \<lparr>fq_type = t, fq_severity = None, fq_usefulness = None, fq_assessment = None, fq_comment = None\<rparr> (learner 10) ([], db) = ((h, d), r)"
    by (metis surj_pair)
  have "learn_step sample_port db d" by (rule learn_step.feedback [OF _ e]) (simp add: target_kinds_def)
  then show ?thesis using assms e by (simp add: sample_feedback_def)
qed

lemma learning_evidence_unique_witness:
  "evidence_ok (sample_feedback SeverityTooLow (sample_feedback FalsePositive (sample_feedback FalsePositive empty_learn)))"
  by (rule learning_evidence_unique [where lp = sample_port]) (intro sample_feedback_step rtranclp.rtrancl_refl)

subsection \<open>History and tenancy\<close>

lemma append_event_prefix: "prefix (ld_events db) (ld_events (append_event lp now org kd a b c d e g db))"
  by (simp add: append_event_def Let_def)

abbreviation extends :: "learn_db \<Rightarrow> learn_db \<Rightarrow> bool" where
  "extends db db' \<equiv> prefix (ld_events db) (ld_events db') \<and> prefix (ld_snapshots db) (ld_snapshots db') \<and>
     prefix (ld_outcomes db) (ld_outcomes db') \<and> prefix (ld_feedback db) (ld_feedback db') \<and> prefix (ld_recos db) (ld_recos db')"

lemma extends_evidence: "evidence db' = evidence db \<Longrightarrow> extends db db'"
  by (cases db; cases db') simp

lemma step_extends: "learn_step lp db db' \<Longrightarrow> extends db db'"
proof (induction rule: learn_step.induct)
  case (snapshot now i org f st sh ex db db' r)
  then show ?case
    using snapshot_shape [OF snapshot.hyps] append_event_prefix [of "db\<lparr>ld_snapshots := ld_snapshots db @ [r]\<rparr>"] by auto
next
  case (reco now i org sn kd zn dc rk cf cds eg vr cat db db' rr)
  then show ?case using append_event_prefix [of "db\<lparr>ld_recos := ld_recos db @ [rr]\<rparr>"]
    by (auto simp: record_recommendation_def Let_def)
next
  case (outcome now i org rc ok rs ob md db db' p)
  then show ?case
    using outcome_shape [OF outcome.hyps] append_event_prefix [of "db\<lparr>ld_outcomes := ld_outcomes db @ [p]\<rparr>"] by auto
next
  case (operation now i org op ss src lt rt fl hl db db' rs)
  then show ?case using append_event_prefix [of "db\<lparr>ld_results := ld_results db @ [rs]\<rparr>"]
    by (auto simp: record_operational_result_def Let_def)
next
  case (feedback kind ls now tick i tg body ctx h db h' db' res)
  from feedback_shape [OF feedback.hyps(2)] show ?case
  proof
    assume "\<exists>c m. db' = fst (record_feedback lp now i (ctx_org ctx) (ctx_key_id ctx) kind tg (fq_type body) None c m db)"
    then obtain c m r where "record_feedback lp now i (ctx_org ctx) (ctx_key_id ctx) kind tg (fq_type body) None c m db = (db', r)"
      by (metis prod.collapse)
    then show ?thesis
      using feedback_row_shape append_event_prefix [of "db\<lparr>ld_feedback := ld_feedback db @ [r]\<rparr>"] by fastforce
  qed simp
next
  case (run i db sq ls now ctx db' res2)
  show ?case by (rule extends_evidence [OF run_evidence [OF run.hyps(2)]])
next
  case (job fresh db sq ls cfg acq now db' res3)
  show ?case by (rule extends_evidence [OF job_evidence [OF job.hyps(3)]])
next
  case (review ls now i target reason ctx db db' res4)
  show ?case by (rule extends_evidence [OF transition_evidence [OF review.hyps]])
qed

text \<open>
  Learning history is append-only: no operation rewrites or removes a recorded event, snapshot,
  recommendation, outcome or feedback row; each table of the store before a step is a prefix of the table after it.
\<close>

theorem learning_history_append_only:
  assumes "learn_step lp db db'"
  shows "prefix (ld_events db) (ld_events db') \<and> prefix (ld_snapshots db) (ld_snapshots db') \<and>
    prefix (ld_outcomes db) (ld_outcomes db') \<and> prefix (ld_feedback db) (ld_feedback db') \<and> prefix (ld_recos db) (ld_recos db')"
  using step_extends [OF assms] .

lemma learning_history_append_only_witness:
  "prefix (ld_events empty_learn) (ld_events (fst (model_transition sample_learn_settings 1 5 MApproved None (learner 10) empty_learn)))"
  using learning_history_append_only [OF transition_step [of sample_port empty_learn sample_learn_settings 1 5 MApproved None "learner 10"]]
  by blast

lemma those_Some: "those xs = Some ys \<Longrightarrow> length ys = length xs \<and> (\<forall>y \<in> set ys. Some y \<in> set xs)"
  by (induction xs arbitrary: ys) (auto split: option.splits)

text \<open>
  The calibration input of an organization is its own: every observation is read from one outcome and its
  recommendation, both owned by that organization and observed within the window, and a batch never
  exceeds its limit.
\<close>

theorem observations_confined:
  assumes "observations lp org start stop limit db = Some obs"
  shows "length obs \<le> limit \<and> (\<forall>b \<in> set obs. \<exists>p \<in> set (ld_outcomes db). \<exists>r \<in> set (ld_recos db).
    po_org p = org \<and> lr_org r = org \<and> lr_id r = po_reco p \<and> start \<le> po_observed p \<and> po_observed p \<le> stop \<and>
    observation_of lp (p, r) = Some b)"
proof -
  obtain es where es: "es = take limit (sort_key (\<lambda>e. (po_observed (fst e), po_id (fst e))) (observed_rows org start stop db))" by blast
  have t: "those (map (observation_of lp) es) = Some obs" using assms by (simp add: observations_def es)
  have "length es \<le> limit" by (simp add: es)
  moreover have "set es \<subseteq> set (observed_rows org start stop db)" unfolding es using set_take_subset by fastforce
  ultimately show ?thesis using those_Some [OF t] by (force simp: observed_rows_def)
qed

lemma observations_confined_witness:
  "length [\<lparr>ob_cohort = ''ci'', ob_outcome = OAccepted, ob_actor = None, ob_hours = 0, ob_ratio = 1, ob_confidence = 1 / 2\<rparr>] \<le> (5 :: nat)"
proof -
  have "observations sample_port 1 0 10 5
      (empty_learn\<lparr>ld_recos := [\<lparr>lr_id = 3, lr_org = 1, lr_snapshot = None, lr_type = ''placement'', lr_zone = ''ci'', lr_category = [],
         lr_decoy = [], lr_rank = 1, lr_confidence = 1 / 2, lr_codes = [], lr_engine = [], lr_version = None\<rparr>],
       ld_outcomes := [\<lparr>po_id = 4, po_org = 1, po_reco = 3, po_type = OAccepted, po_reason = None, po_observed = 2, po_meta = []\<rparr>]\<rparr>) =
    Some [\<lparr>ob_cohort = ''ci'', ob_outcome = OAccepted, ob_actor = None, ob_hours = 0, ob_ratio = 1, ob_confidence = 1 / 2\<rparr>]"
    by (simp add: observations_def observed_rows_def observation_of_def float_member_def sample_port_def empty_learn_def)
  from observations_confined [OF this] show ?thesis by blast
qed

subsection \<open>Consequences the code's comments do not state\<close>

text \<open>The approval setting decides nothing: the transition table already demands an approved or rolled back version.\<close>

lemma approval_setting_irrelevant: "is_ok (activate_version v org False) = is_ok (activate_version v org True)"
  by (cases "vv_status v") (auto simp: activate_version_def and_then_def ensure_transition_def transition_allowed_def is_ok_def split: sum.splits)

text \<open>An archived version, such as one demoted by an activation, never becomes active again.\<close>

lemma archived_is_final: "\<not> transition_allowed MArchived target"
  by (simp add: transition_allowed_def)

text \<open>A credential word right after a removed key header stands alone in the stored comment.\<close>

lemma redaction_leaves_word: "redact_from 0 None ''-----BEGINtoken'' = ''[redacted]token''"
  by code_simp

end
