(* ===== verification/Endpoint_Guard.thy ===== *)
theory Endpoint_Guard
  imports Text_Util "HOL-Library.Word"
begin

text \<open>
  Validation of outbound integration endpoints against server-side request forgery
  (\<open>services/integrations/ssrf.py\<close>): what \<open>urlsplit\<close> makes of the URL, the allowlist, and the classes of
  addresses of \<open>ipaddress\<close> (Python 3.12) as words of 32 and 128 bits. Name resolution and the reading of an IPv6
  literal are arguments.
\<close>

unbundle bit_operations_syntax

subsection \<open>Addresses\<close>

datatype ip = V4 "32 word" | V6 "128 word"

text \<open>\<open>a\<close> lies in the network of \<open>n\<close> leading bits of \<open>base\<close>.\<close>

definition in_net4 :: "32 word \<Rightarrow> nat \<times> nat \<Rightarrow> bool" where
  "in_net4 a net = (case net of (base, n) \<Rightarrow> drop_bit (32 - n) a = drop_bit (32 - n) (word_of_nat base))"

definition in_net6 :: "128 word \<Rightarrow> nat \<times> nat \<Rightarrow> bool" where
  "in_net6 a net = (case net of (base, n) \<Rightarrow> drop_bit (128 - n) a = drop_bit (128 - n) (word_of_nat base))"

definition quad :: "nat \<Rightarrow> nat \<Rightarrow> nat \<Rightarrow> nat \<Rightarrow> nat" where
  "quad a b c d = ((a * 256 + b) * 256 + c) * 256 + d"

definition private_nets4 :: "(nat \<times> nat) list" where
  "private_nets4 =
     [(quad 0 0 0 0, 8), (quad 10 0 0 0, 8), (quad 127 0 0 0, 8), (quad 169 254 0 0, 16), (quad 172 16 0 0, 12),
      (quad 192 0 0 0, 24), (quad 192 0 2 0, 24), (quad 192 168 0 0, 16), (quad 198 18 0 0, 15), (quad 198 51 100 0, 24),
      (quad 203 0 113 0, 24), (quad 240 0 0 0, 4), (quad 255 255 255 255, 32)]"

definition private_exceptions4 :: "(nat \<times> nat) list" where
  "private_exceptions4 = [(quad 192 0 0 9, 32), (quad 192 0 0 10, 32)]"

text \<open>A leading group of sixteen bits, and two of them.\<close>

definition g1 :: "nat \<Rightarrow> nat" where "g1 a = a * 2 ^ 112"
definition g2 :: "nat \<Rightarrow> nat \<Rightarrow> nat" where "g2 a b = a * 2 ^ 112 + b * 2 ^ 96"

definition private_nets6 :: "(nat \<times> nat) list" where
  "private_nets6 =
     [(1, 128), (0, 128), (0xffff * 2 ^ 32, 96), (g2 0x64 0xff9b + 2 ^ 80, 48), (g1 0x100, 64), (g1 0x2001, 23),
      (g2 0x2001 0xdb8, 32), (g1 0x2002, 16), (g1 0x3fff, 20), (g1 0xfc00, 7), (g1 0xfe80, 10)]"

definition private_exceptions6 :: "(nat \<times> nat) list" where
  "private_exceptions6 =
     [(g2 0x2001 1 + 1, 128), (g2 0x2001 1 + 2, 128), (g2 0x2001 3, 32), (g2 0x2001 4 + 0x112 * 2 ^ 80, 48),
      (g2 0x2001 0x20, 28), (g2 0x2001 0x30, 28)]"

definition reserved_nets6 :: "(nat \<times> nat) list" where
  "reserved_nets6 =
     [(0, 8), (g1 0x100, 8), (g1 0x200, 7), (g1 0x400, 6), (g1 0x800, 5), (g1 0x1000, 4), (g1 0x4000, 3), (g1 0x6000, 3),
      (g1 0x8000, 3), (g1 0xa000, 3), (g1 0xc000, 3), (g1 0xe000, 4), (g1 0xf000, 5), (g1 0xf800, 6), (g1 0xfe00, 9)]"

definition mapped4 :: "128 word \<Rightarrow> 32 word option" where
  "mapped4 a = (if drop_bit 32 a = 0xffff then Some (ucast a) else None)"

definition private4 :: "32 word \<Rightarrow> bool" where
  "private4 a \<longleftrightarrow> list_ex (in_net4 a) private_nets4 \<and> \<not> list_ex (in_net4 a) private_exceptions4"

fun is_loopback :: "ip \<Rightarrow> bool" where
  "is_loopback (V4 a) = in_net4 a (quad 127 0 0 0, 8)"
| "is_loopback (V6 a) = (a = 1)"

fun is_link_local :: "ip \<Rightarrow> bool" where
  "is_link_local (V4 a) = in_net4 a (quad 169 254 0 0, 16)"
| "is_link_local (V6 a) = in_net6 a (g1 0xfe80, 10)"

fun is_multicast :: "ip \<Rightarrow> bool" where
  "is_multicast (V4 a) = in_net4 a (quad 224 0 0 0, 4)"
| "is_multicast (V6 a) = in_net6 a (g1 0xff00, 8)"

fun is_reserved :: "ip \<Rightarrow> bool" where
  "is_reserved (V4 a) = in_net4 a (quad 240 0 0 0, 4)"
| "is_reserved (V6 a) = list_ex (in_net6 a) reserved_nets6"

fun is_unspecified :: "ip \<Rightarrow> bool" where
  "is_unspecified (V4 a) = (a = 0)"
| "is_unspecified (V6 a) = (a = 0)"

fun is_private :: "ip \<Rightarrow> bool" where
  "is_private (V4 a) = private4 a"
| "is_private (V6 a) =
     (case mapped4 a of
        Some b \<Rightarrow> private4 b
      | None \<Rightarrow> list_ex (in_net6 a) private_nets6 \<and> \<not> list_ex (in_net6 a) private_exceptions6)"

definition blocked_ip :: "ip \<Rightarrow> bool \<Rightarrow> bool" where
  "blocked_ip i allow_private =
     (if is_loopback i \<or> is_link_local i \<or> is_multicast i \<or> is_reserved i \<or> is_unspecified i then True
      else if (case i of V4 a \<Rightarrow> in_net4 a (quad 169 254 0 0, 16) | V6 _ \<Rightarrow> False) then True
      else if is_private i \<and> \<not> allow_private then True
      else False)"

subsection \<open>Reading an address\<close>

definition decimal_digit :: "char \<Rightarrow> bool" where
  "decimal_digit c \<longleftrightarrow> 48 \<le> (of_char c :: nat) \<and> (of_char c :: nat) \<le> 57"

definition decimal_value :: "string \<Rightarrow> nat" where
  "decimal_value s = foldl (\<lambda>n c. 10 * n + (of_char c - 48)) 0 s"

definition octet :: "string \<Rightarrow> nat option" where
  "octet s =
     (if s = [] \<or> \<not> list_all decimal_digit s \<or> length s > 3 \<or> (s \<noteq> ''0'' \<and> hd s = CHR ''0'') \<or> decimal_value s > 255
      then None else Some (decimal_value s))"

definition parse_v4 :: "string \<Rightarrow> 32 word option" where
  "parse_v4 s =
     (case map octet (split_on (CHR ''.'') s) of
        [Some a, Some b, Some c, Some d] \<Rightarrow> Some (word_of_nat (quad a b c d))
      | _ \<Rightarrow> None)"

definition parse_ip :: "(string \<Rightarrow> 128 word option) \<Rightarrow> string \<Rightarrow> ip option" where
  "parse_ip v6 s = (case parse_v4 s of Some a \<Rightarrow> Some (V4 a) | None \<Rightarrow> map_option V6 (v6 s))"

subsection \<open>Reading a URL\<close>

record url_parts =
  up_scheme :: string
  up_username :: "string option"
  up_password :: "string option"
  up_host :: "string option"

definition scheme_char :: "char \<Rightarrow> bool" where
  "scheme_char c = (let n = (of_char c :: nat) in
     (48 \<le> n \<and> n \<le> 57) \<or> (65 \<le> n \<and> n \<le> 90) \<or> (97 \<le> n \<and> n \<le> 122) \<or> c = CHR ''+'' \<or> c = CHR ''-'' \<or> c = CHR ''.'')"

definition alpha_char :: "char \<Rightarrow> bool" where
  "alpha_char c = (let n = (of_char c :: nat) in (65 \<le> n \<and> n \<le> 90) \<or> (97 \<le> n \<and> n \<le> 122))"

definition clean_url :: "string \<Rightarrow> string" where
  "clean_url s = filter (\<lambda>c. c \<notin> {CHR 0x09, CHR 0x0D, CHR 0x0A}) (lstrip_chars (\<lambda>c. (of_char c :: nat) \<le> 32) s)"

definition split_scheme :: "string \<Rightarrow> string \<times> string" where
  "split_scheme s =
     (let before = takeWhile (\<lambda>c. c \<noteq> CHR '':'') s; rest = dropWhile (\<lambda>c. c \<noteq> CHR '':'') s in
      if rest \<noteq> [] \<and> before \<noteq> [] \<and> alpha_char (hd before) \<and> list_all scheme_char before
      then (py_lower before, tl rest) else ([], s))"

definition netloc_of :: "string \<Rightarrow> string" where
  "netloc_of s = (if startswith s ''//'' then takeWhile (\<lambda>c. c \<notin> {CHR ''/'', CHR ''?'', CHR ''#''}) (drop 2 s) else [])"

text \<open>\<open>rpartition("@")\<close>: the part before the last sign when there is one, and the part after it.\<close>

definition userinfo_of :: "string \<Rightarrow> string option" where
  "userinfo_of n = (if CHR ''@'' \<in> set n then Some (rev (tl (dropWhile (\<lambda>c. c \<noteq> CHR ''@'') (rev n)))) else None)"

definition hostinfo_of :: "string \<Rightarrow> string" where
  "hostinfo_of n = rev (takeWhile (\<lambda>c. c \<noteq> CHR ''@'') (rev n))"

definition upto_char :: "char \<Rightarrow> string \<Rightarrow> string" where "upto_char d s = takeWhile (\<lambda>c. c \<noteq> d) s"
definition after_char :: "char \<Rightarrow> string \<Rightarrow> string" where "after_char d s = tl (dropWhile (\<lambda>c. c \<noteq> d) s)"

definition host_text :: "string \<Rightarrow> string" where
  "host_text h =
     (if CHR ''['' \<in> set h then upto_char (CHR '']'') (after_char (CHR ''['') h) else upto_char (CHR '':'') h)"

definition lower_host :: "string \<Rightarrow> string" where
  "lower_host h = py_lower (upto_char (CHR ''%'') h) @ dropWhile (\<lambda>c. c \<noteq> CHR ''%'') h"

text \<open>\<open>None\<close> for the \<open>ValueError\<close> of unbalanced brackets or of brackets around no IPv6 address; the
  checks of newer Python versions on what surrounds the brackets are left out.\<close>

definition urlsplit :: "(string \<Rightarrow> 128 word option) \<Rightarrow> string \<Rightarrow> url_parts option" where
  "urlsplit v6 url =
     (let (scheme, rest) = split_scheme (clean_url url); n = netloc_of rest; h = host_text (hostinfo_of n) in
      if (CHR ''['' \<in> set n) \<noteq> (CHR '']'' \<in> set n) then None
      else if CHR ''['' \<in> set n \<and> v6 h = None then None
      else Some \<lparr>up_scheme = scheme, up_username = map_option (upto_char (CHR '':'')) (userinfo_of n),
             up_password = (case userinfo_of n of None \<Rightarrow> None | Some u \<Rightarrow> if CHR '':'' \<in> set u then Some (after_char (CHR '':'') u) else None),
             up_host = (if h = [] then None else Some (lower_host h))\<rparr>)"

subsection \<open>Validation\<close>

definition metadata_hosts :: "string list" where
  "metadata_hosts = [''169.254.169.254'', ''fd00:ec2::254'', ''metadata.google.internal'', ''metadata'']"

record endpoint_settings =
  es_development :: bool
  es_domains :: "string list"
  es_allow_private :: bool

datatype ssrf_error = SsrfError string | UrlValueError

definition resolve_host :: "(string \<Rightarrow> string list option) \<Rightarrow> string \<Rightarrow> ssrf_error + string list" where
  "resolve_host dns host =
     (case dns host of None \<Rightarrow> Inl (SsrfError ''endpoint host could not be resolved'') | Some as \<Rightarrow> Inr (sort (remdups as)))"

fun check_candidates :: "(string \<Rightarrow> 128 word option) \<Rightarrow> bool \<Rightarrow> string list \<Rightarrow> ssrf_error + unit" where
  "check_candidates v6 allow [] = Inr ()"
| "check_candidates v6 allow (raw # raws) =
     (if raw \<in> set metadata_hosts then Inl (SsrfError ''endpoint resolves to a metadata service'')
      else case parse_ip v6 raw of
        None \<Rightarrow> check_candidates v6 allow raws
      | Some i \<Rightarrow>
          if blocked_ip i allow then Inl (SsrfError ''endpoint resolves to a blocked (private/loopback/reserved) address'')
          else check_candidates v6 allow raws)"

definition domain_allowed :: "string list \<Rightarrow> string \<Rightarrow> bool" where
  "domain_allowed domains host \<longleftrightarrow> domains = [] \<or> list_ex (\<lambda>d. host = py_lower d \<or> endswith host (CHR ''.'' # py_lower d)) domains"

definition candidates_of :: "(string \<Rightarrow> 128 word option) \<Rightarrow> (string \<Rightarrow> string list option) \<Rightarrow> string \<Rightarrow> ssrf_error + string list" where
  "candidates_of v6 dns host = (if parse_ip v6 host \<noteq> None then Inr [host] else resolve_host dns host)"

definition truthy :: "string option \<Rightarrow> bool" where
  "truthy x \<longleftrightarrow> x \<noteq> None \<and> x \<noteq> Some []"

definition validate_endpoint ::
  "(string \<Rightarrow> 128 word option) \<Rightarrow> (string \<Rightarrow> string list option) \<Rightarrow> endpoint_settings \<Rightarrow> string \<Rightarrow> ssrf_error + string" where
  "validate_endpoint v6 dns st url =
     (case urlsplit v6 url of
        None \<Rightarrow> Inl UrlValueError
      | Some p \<Rightarrow>
          and_then (require (up_scheme p \<in> {''https'', ''http''}) (SsrfError ''endpoint scheme must be https'')) (\<lambda>_.
          and_then (require (up_scheme p = ''https'' \<or> es_development st) (SsrfError ''endpoint must use https outside development'')) (\<lambda>_.
          and_then (require (\<not> truthy (up_username p) \<and> \<not> truthy (up_password p)) (SsrfError ''endpoint must not embed credentials'')) (\<lambda>_.
            case up_host p of
              None \<Rightarrow> Inl (SsrfError ''endpoint host is required'')
            | Some h \<Rightarrow>
                let host = py_lower h in
                and_then (require (host \<notin> set metadata_hosts) (SsrfError ''endpoint targets a metadata service'')) (\<lambda>_.
                and_then (require (domain_allowed (es_domains st) host) (SsrfError ''endpoint host is not in the allowlist'')) (\<lambda>_.
                and_then (candidates_of v6 dns host) (\<lambda>cs.
                and_then (check_candidates v6 (es_allow_private st \<and> es_development st) cs) (\<lambda>_. Inr host))))))))"


subsection \<open>What a validated endpoint is\<close>

lemma drop_bit_nat_eq:
  fixes a :: "'a::len word"
  assumes "b < 2 ^ LENGTH('a)"
  shows "drop_bit k a = drop_bit k (word_of_nat b) \<longleftrightarrow> unat a div 2 ^ k = b div 2 ^ k"
proof -
  have u: "unat (drop_bit k w) = unat w div 2 ^ k" for w :: "'a word"
  proof -
    have "unat (drop_bit k w) = drop_bit k (unat w)" by (simp only: unsigned_drop_bit_eq take_bit_nat_eq_self [OF unsigned_less])
    also have "\<dots> = unat w div 2 ^ k" by (rule drop_bit_eq_div)
    finally show ?thesis .
  qed
  have "drop_bit k a = drop_bit k (word_of_nat b) \<longleftrightarrow> unat (drop_bit k a) = unat (drop_bit k (word_of_nat b :: 'a word))"
    by (rule word_unat_eq_iff)
  then show ?thesis unfolding u using assms by (simp only: unat_of_nat) simp
qed

lemma div_interval: "0 < k \<Longrightarrow> (n div k = q) = (q * k \<le> n \<and> n < q * k + (k :: nat))"
  by (metis add.commute div_nat_eqI dividend_less_times_div mult.commute mult_Suc_right times_div_less_eq_dividend)

lemma in_net4_iff:
  "b < 2 ^ 32 \<Longrightarrow> n \<le> 32 \<Longrightarrow> in_net4 a (b, n) \<longleftrightarrow>
   b div 2 ^ (32 - n) * 2 ^ (32 - n) \<le> unat a \<and> unat a < b div 2 ^ (32 - n) * 2 ^ (32 - n) + 2 ^ (32 - n)"
  unfolding in_net4_def using drop_bit_nat_eq [of b "32 - n" a] by (simp add: div_interval)

lemma in_host4_iff: "b < 2 ^ 32 \<Longrightarrow> in_net4 a (b, 32) \<longleftrightarrow> unat a = b"
  using in_net4_iff [of b 32 a] by auto

lemma private4_iff:
  "private4 a \<longleftrightarrow>
     (unat a < 0x01000000 \<or> (0x0A000000 \<le> unat a \<and> unat a < 0x0B000000) \<or> (0x7F000000 \<le> unat a \<and> unat a < 0x80000000) \<or>
      (0xA9FE0000 \<le> unat a \<and> unat a < 0xA9FF0000) \<or> (0xAC100000 \<le> unat a \<and> unat a < 0xAC200000) \<or>
      (0xC0000000 \<le> unat a \<and> unat a < 0xC0000100) \<or> (0xC0000200 \<le> unat a \<and> unat a < 0xC0000300) \<or>
      (0xC0A80000 \<le> unat a \<and> unat a < 0xC0A90000) \<or> (0xC6120000 \<le> unat a \<and> unat a < 0xC6140000) \<or>
      (0xC6336400 \<le> unat a \<and> unat a < 0xC6336500) \<or> (0xCB007100 \<le> unat a \<and> unat a < 0xCB007200) \<or>
      (0xF0000000 \<le> unat a \<and> unat a < 0x100000000) \<or> unat a = 0xFFFFFFFF) \<and>
     \<not> (unat a = 0xC0000009 \<or> unat a = 0xC000000A)"
  unfolding private4_def private_nets4_def private_exceptions4_def list_ex_iff quad_def
  by (simp add: in_host4_iff) (simp add: in_net4_iff)

lemma special4_iff:
  "is_loopback (V4 a) \<longleftrightarrow> 0x7F000000 \<le> unat a \<and> unat a < 0x80000000"
  "is_link_local (V4 a) \<longleftrightarrow> 0xA9FE0000 \<le> unat a \<and> unat a < 0xA9FF0000"
  "is_multicast (V4 a) \<longleftrightarrow> 0xE0000000 \<le> unat a \<and> unat a < 0xF0000000"
  "is_reserved (V4 a) \<longleftrightarrow> 0xF0000000 \<le> unat a \<and> unat a < 0x100000000"
  "is_unspecified (V4 a) \<longleftrightarrow> unat a = 0"
  by (simp_all add: quad_def in_net4_iff unat_eq_zero)

text \<open>
  The addresses an endpoint may have in production, exactly: an IPv4 address is let through when it lies
  in none of the special ranges -- this network, 10/8, loopback, link local, 172.16/12, the IETF block but for its two
  anycast addresses, the three documentation networks, 192.168/16, the benchmarking networks, and everything from
  224.0.0.0 up.
\<close>

lemma blocked_ipv4_exactly:
  "blocked_ip (V4 a) False \<longleftrightarrow>
     unat a < 0x01000000 \<or> (0x0A000000 \<le> unat a \<and> unat a < 0x0B000000) \<or> (0x7F000000 \<le> unat a \<and> unat a < 0x80000000) \<or>
     (0xA9FE0000 \<le> unat a \<and> unat a < 0xA9FF0000) \<or> (0xAC100000 \<le> unat a \<and> unat a < 0xAC200000) \<or>
     (0xC0000000 \<le> unat a \<and> unat a < 0xC0000100 \<and> unat a \<noteq> 0xC0000009 \<and> unat a \<noteq> 0xC000000A) \<or>
     (0xC0000200 \<le> unat a \<and> unat a < 0xC0000300) \<or> (0xC0A80000 \<le> unat a \<and> unat a < 0xC0A90000) \<or>
     (0xC6120000 \<le> unat a \<and> unat a < 0xC6140000) \<or> (0xC6336400 \<le> unat a \<and> unat a < 0xC6336500) \<or>
     (0xCB007100 \<le> unat a \<and> unat a < 0xCB007200) \<or> 0xE0000000 \<le> unat a"
proof -
  have top: "unat a < 0x100000000" using unsigned_less [of a, where 'a = nat] by simp
  have l: "in_net4 a (quad 169 254 0 0, 16) \<longleftrightarrow> is_link_local (V4 a)" by simp
  have b: "blocked_ip (V4 a) False \<longleftrightarrow> is_loopback (V4 a) \<or> is_link_local (V4 a) \<or> is_multicast (V4 a) \<or> is_reserved (V4 a) \<or>
      is_unspecified (V4 a) \<or> private4 a"
    unfolding blocked_ip_def ip.case l is_private.simps by argo
  have high: "0xE0000000 \<le> unat a \<longleftrightarrow>
      (0xE0000000 \<le> unat a \<and> unat a < 0xF0000000) \<or> (0xF0000000 \<le> unat a \<and> unat a < 0x100000000)" using top by linarith
  show ?thesis
    unfolding b special4_iff private4_iff
  proof (rule iffI, goal_cases)
    case 1
    then show ?case by (elim disjE conjE) simp_all
  next
    case 2
    then show ?case
    proof (elim disjE)
      assume "0xE0000000 \<le> unat a"
      then show ?thesis using high by blast
    qed simp_all
  qed
qed

text \<open>The shared address space, with the metadata service of one provider in it, is not in any of the classes.\<close>

lemma shared_space_not_blocked: "\<not> blocked_ip (V4 (word_of_nat (quad 100 100 100 200))) False"
  unfolding blocked_ipv4_exactly quad_def by simp

lemma check_candidates_ok:
  "check_candidates v6 allow cs = Inr () \<Longrightarrow> c \<in> set cs \<Longrightarrow>
   c \<notin> set metadata_hosts \<and> (\<forall>i. parse_ip v6 c = Some i \<longrightarrow> \<not> blocked_ip i allow)"
proof (induction cs)
  case (Cons d cs)
  have d: "d \<notin> set metadata_hosts" using Cons.prems(1) by (simp split: if_splits)
  show ?case
  proof (cases "parse_ip v6 d")
    case None
    then have "check_candidates v6 allow cs = Inr ()" using Cons.prems(1) d by simp
    then show ?thesis using Cons.IH Cons.prems(2) d None by (cases "c = d") simp_all
  next
    case (Some i)
    then have "\<not> blocked_ip i allow" "check_candidates v6 allow cs = Inr ()" using Cons.prems(1) d by (simp_all split: if_splits)
    then show ?thesis using Cons.IH Cons.prems(2) d Some by (cases "c = d") simp_all
  qed
qed simp

lemma validate_paths:
  assumes "validate_endpoint v6 dns st url = Inr host"
  obtains p cs where "urlsplit v6 url = Some p" "up_scheme p \<in> {''https'', ''http''}" "up_scheme p = ''https'' \<or> es_development st"
    "\<not> truthy (up_username p)" "\<not> truthy (up_password p)" "host \<notin> set metadata_hosts" "domain_allowed (es_domains st) host"
    "candidates_of v6 dns host = Inr cs" "check_candidates v6 (es_allow_private st \<and> es_development st) cs = Inr ()"
proof -
  obtain p where p: "urlsplit v6 url = Some p" using assms by (auto simp: validate_endpoint_def split: option.splits)
  obtain h where h: "up_host p = Some h"
    using assms p by (auto simp: validate_endpoint_def and_then_def require_def split: option.splits if_splits sum.splits)
  show thesis
    using assms p h that
    by (auto simp: validate_endpoint_def and_then_def require_def Let_def split: if_splits sum.splits)
qed

text \<open>
  C37. An endpoint that passes validation is safe to call: outside development its scheme is https; it
  embeds no credentials; its host is on the allowlist when there is one and is no metadata host; and every address the host
  resolves to (or is) that can be read is not blocked, private networks being exempt only in
  development with the explicit setting.
\<close>

theorem validated_endpoint_safe:
  assumes "validate_endpoint v6 dns st url = Inr host"
  shows "\<exists>p cs. urlsplit v6 url = Some p \<and> (\<not> es_development st \<longrightarrow> up_scheme p = ''https'') \<and>
    \<not> truthy (up_username p) \<and> \<not> truthy (up_password p) \<and>
    host \<notin> set metadata_hosts \<and> domain_allowed (es_domains st) host \<and>
    candidates_of v6 dns host = Inr cs \<and>
    (\<forall>c \<in> set cs. c \<notin> set metadata_hosts \<and>
       (\<forall>i. parse_ip v6 c = Some i \<longrightarrow> \<not> blocked_ip i (es_allow_private st \<and> es_development st)))"
  using assms by (elim validate_paths) (use check_candidates_ok in blast)

lemma validated_endpoint_safe_witness:
  "validate_endpoint (\<lambda>_. None) (\<lambda>h. Some [''93.184.216.34'']) \<lparr>es_development = False, es_domains = [''example.com''],
     es_allow_private = False\<rparr> ''https://hooks.example.com/in'' = Inr ''hooks.example.com'' \<and>
   domain_allowed [''example.com''] ''hooks.example.com''"
proof -
  have u: "urlsplit (\<lambda>_. None) ''https://hooks.example.com/in'' =
      Some \<lparr>up_scheme = ''https'', up_username = None, up_password = None, up_host = Some ''hooks.example.com''\<rparr>" by code_simp
  have h: "map octet (split_on (CHR ''.'') ''hooks.example.com'') = [None, None, None]" by code_simp
  have o: "map octet (split_on (CHR ''.'') ''93.184.216.34'') = [Some 93, Some 184, Some 216, Some 34]" by code_simp
  have p: "parse_ip (\<lambda>_. None) ''hooks.example.com'' = None"
    "parse_ip (\<lambda>_. None) ''93.184.216.34'' = Some (V4 (word_of_nat (quad 93 184 216 34)))"
    unfolding parse_ip_def parse_v4_def h o by simp_all
  have m: "''hooks.example.com'' \<notin> set metadata_hosts" "''93.184.216.34'' \<notin> set metadata_hosts"
    "domain_allowed [''example.com''] ''hooks.example.com''" "py_lower ''hooks.example.com'' = ''hooks.example.com''" by code_simp+
  have b: "\<not> blocked_ip (V4 (word_of_nat (quad 93 184 216 34))) False" unfolding blocked_ipv4_exactly quad_def by simp
  have "validate_endpoint (\<lambda>_. None) (\<lambda>h. Some [''93.184.216.34'']) \<lparr>es_development = False, es_domains = [''example.com''],
     es_allow_private = False\<rparr> ''https://hooks.example.com/in'' = Inr ''hooks.example.com''"
    using u m b by (simp add: validate_endpoint_def and_then_def require_def truthy_def candidates_of_def p Let_def resolve_host_def)
  with validated_endpoint_safe [OF this] show ?thesis by auto
qed

end
