(* ===== verification/Coverage_Score.thy ===== *)
theory Coverage_Score
  imports Severity_Model Learning_Stats
begin

text \<open>
  The scoring half of the measured coverage engine: the contracts (\<open>models/domain/coverage.py\<close>), the
  scoring primitives (\<open>services/coverage_engine/scoring.py\<close>), the versioned formula (\<open>formula.py\<close>), the
  detection of blind spots (\<open>blindspots.py\<close>) and the ranked recommendations (\<open>recommend.py\<close>). A float is a
  rational number; the dictionary of dimension scores, which has every dimension as a key, is a function.
\<close>

subsection \<open>Contracts\<close>

datatype cov_surface = SRepository | SDatabase | SRag | SMcp | SBrowserAi | SAiAgent

fun cov_surface_value :: "cov_surface \<Rightarrow> string" where
  "cov_surface_value SRepository = ''repository''"
| "cov_surface_value SDatabase = ''database''"
| "cov_surface_value SRag = ''rag''"
| "cov_surface_value SMcp = ''mcp''"
| "cov_surface_value SBrowserAi = ''browser_ai''"
| "cov_surface_value SAiAgent = ''ai_agent''"

datatype control_type = CDecoy | CSensor | CMonitoring | CAlerting | CIncident

fun control_value :: "control_type \<Rightarrow> string" where
  "control_value CDecoy = ''decoy''"
| "control_value CSensor = ''sensor''"
| "control_value CMonitoring = ''monitoring''"
| "control_value CAlerting = ''alerting''"
| "control_value CIncident = ''incident_response''"

datatype control_status = CtActive | CtInactive | CtDegraded | CtExpired | CtFailed

fun control_status_value :: "control_status \<Rightarrow> string" where
  "control_status_value CtActive = ''active''"
| "control_status_value CtInactive = ''inactive''"
| "control_status_value CtDegraded = ''degraded''"
| "control_status_value CtExpired = ''expired''"
| "control_status_value CtFailed = ''failed''"

datatype dimension = DPlacement | DSensor | DHealth | DAlerting | DIncident | DLifecycle | DIdentity | DCross | DVerification

definition all_dimensions :: "dimension list" where
  "all_dimensions = [DPlacement, DSensor, DHealth, DAlerting, DIncident, DLifecycle, DIdentity, DCross, DVerification]"

datatype gap_type = NoDecoy | DecoyNoSensor | SensorUnhealthy | NoHoneyRecords | NoRagTripwire | NoMcpTripwire
  | ShadowAiNoPolicy | AgentNoScopePolicy | ExpiredNotReplaced | ActivationFailed | FragileSingleControl | NoCrossSurface

datatype cov_action = AddDecoy | AddSensor | ReplaceExpired | AddBrowserPolicy | AddAgentScopePolicy | RepairSensor
  | DiversifyControls

fun action_value :: "cov_action \<Rightarrow> string" where
  "action_value AddDecoy = ''add_decoy''"
| "action_value AddSensor = ''add_sensor''"
| "action_value ReplaceExpired = ''replace_expired''"
| "action_value AddBrowserPolicy = ''add_browser_policy''"
| "action_value AddAgentScopePolicy = ''add_agent_scope_policy''"
| "action_value RepairSensor = ''repair_sensor''"
| "action_value DiversifyControls = ''diversify_controls''"

definition coverage_methodology :: string where "coverage_methodology = ''coverage-v1''"

record inventory_surface =
  is_type :: cov_surface
  is_ext :: string
  is_name :: string
  is_criticality :: rat
  is_exposure :: rat
  is_sensitivity :: rat
  is_attack :: rat
  is_business :: rat
  is_requirement :: rat
  is_weight :: rat
  is_confidence :: rat
  is_explanation :: string

record surface_control =
  sc_type :: control_type
  sc_ref :: string
  sc_status :: control_status
  sc_effect :: rat
  sc_confidence :: rat
  sc_verified :: "datetime option"
  sc_dimension :: dimension

record surface_observation =
  so_surface :: inventory_surface
  so_controls :: "surface_control list"

record surface_coverage =
  sv_surface :: inventory_surface
  sv_scores :: "dimension \<Rightarrow> rat"
  sv_coverage :: rat
  sv_weighted :: rat
  sv_confidence :: rat
  sv_unknown :: bool
  sv_controls :: nat
  sv_diversity :: nat
  sv_explanation :: string

record coverage_gap =
  cg_type :: cov_surface
  cg_ext :: string
  cg_gap :: gap_type
  cg_severity :: severity
  cg_reason :: string
  cg_missing :: "string list"
  cg_gain :: rat

record cov_recommendation =
  cn_type :: cov_surface
  cn_ext :: string
  cn_action :: cov_action
  cn_decoy :: string
  cn_location :: string
  cn_gain :: rat
  cn_detection :: rat
  cn_risk :: rat
  cn_false_positive :: rat
  cn_effort :: rat
  cn_priority :: rat
  cn_confidence :: rat
  cn_explanation :: string

subsection \<open>Scoring primitives\<close>

definition clamp :: "rat \<Rightarrow> rat" where
  "clamp v = (if v < 0 then 0 else if v > 1 then 1 else v)"

definition round6 :: "rat \<Rightarrow> rat" where
  "round6 x = of_int (round_even (x * 1000000)) / 1000000"

definition criticality_of :: "rat \<Rightarrow> rat \<Rightarrow> rat \<Rightarrow> rat \<Rightarrow> rat" where
  "criticality_of sensitivity business exposure attack =
     clamp (35 / 100 * clamp sensitivity + 30 / 100 * clamp business + 20 / 100 * clamp exposure + 15 / 100 * clamp attack)"

definition risk_weight_of :: "rat \<Rightarrow> rat \<Rightarrow> rat" where
  "risk_weight_of crit requirement = round6 (clamp crit * (1 / 2 + 1 / 2 * clamp requirement))"

fun status_ceiling :: "control_status \<Rightarrow> rat" where
  "status_ceiling CtActive = 1"
| "status_ceiling CtDegraded = 1 / 2"
| "status_ceiling CtInactive = 0"
| "status_ceiling CtExpired = 0"
| "status_ceiling CtFailed = 0"

definition control_effectiveness ::
  "control_status \<Rightarrow> rat \<Rightarrow> datetime option \<Rightarrow> datetime \<Rightarrow> int \<Rightarrow> nat \<Rightarrow> rat" where
  "control_effectiveness status believability verified now max_age_hours detections =
     (let ceiling = status_ceiling status in
      if ceiling = 0 then 0
      else
        let base = 1 / 2 + 3 / 10 * clamp believability;
            fresh = (case verified of None \<Rightarrow> 0 | Some t \<Rightarrow> 2 / 10 * (if now - t \<le> seconds (3600 * max_age_hours) then 1 else 4 / 10));
            bump = min (1 / 10) (of_nat detections * (2 / 100))
        in round6 (clamp (base + fresh + bump) * ceiling))"

definition inventory_confidence_of :: "bool \<Rightarrow> rat \<Rightarrow> rat \<Rightarrow> rat" where
  "inventory_confidence_of measured hours completeness =
     (let base = (if measured then 9 / 10 else 1 / 2);
          freshness = (if hours \<le> 24 then 1 else if hours \<le> 168 then 7 / 10 else 4 / 10)
      in round6 (clamp (base * (1 / 2 + 3 / 10 * freshness + 2 / 10 * clamp completeness))))"

definition aggregate_confidence :: "rat list \<Rightarrow> rat \<Rightarrow> rat" where
  "aggregate_confidence confidences unknown_ratio =
     (if confidences = [] then 0
      else round6 (clamp (sum_list confidences / of_nat (length confidences) * (1 - 1 / 2 * clamp unknown_ratio))))"

definition diversity_bonus :: "nat \<Rightarrow> rat" where
  "diversity_bonus n = min (1 / 10) (max 0 (of_nat n - 1) * (5 / 100))"

subsection \<open>The formula\<close>

fun dimension_weight :: "dimension \<Rightarrow> rat" where
  "dimension_weight DPlacement = 22 / 100"
| "dimension_weight DSensor = 20 / 100"
| "dimension_weight DHealth = 16 / 100"
| "dimension_weight DAlerting = 10 / 100"
| "dimension_weight DIncident = 8 / 100"
| "dimension_weight DLifecycle = 8 / 100"
| "dimension_weight DIdentity = 6 / 100"
| "dimension_weight DVerification = 6 / 100"
| "dimension_weight DCross = 4 / 100"

definition unknown_floor :: rat where "unknown_floor = 4 / 10"

definition dimension_score :: "surface_control list \<Rightarrow> dimension \<Rightarrow> rat" where
  "dimension_score cs d = fold (\<lambda>c best. if sc_dimension c = d \<and> sc_status c = CtActive then max best (sc_effect c) else best) cs 0"

definition compute_surface_coverage :: "bool \<Rightarrow> surface_observation \<Rightarrow> surface_coverage" where
  "compute_surface_coverage cross obs =
     (let cs = so_controls obs; s = so_surface obs;
          scores = (\<lambda>d. if d = DCross then (if cross then 1 else 0) else dimension_score cs d);
          placement = scores DPlacement;
          base = sum_list (map (\<lambda>d. scores d * dimension_weight d) all_dimensions);
          diversity = length (remdups (map sc_type (filter (\<lambda>c. sc_status c = CtActive) cs)));
          bonus = (if placement > 0 then diversity_bonus diversity else 0);
          coverage = clamp (base + bonus);
          unknown = is_confidence s < unknown_floor
      in \<lparr>sv_surface = s, sv_scores = scores, sv_coverage = coverage,
          sv_weighted = (if unknown then 0 else round6 (coverage * is_weight s)), sv_confidence = is_confidence s,
          sv_unknown = unknown, sv_controls = length cs, sv_diversity = diversity,
          sv_explanation = ''placement '' @ fixed2 placement @ '', sensor '' @ fixed2 (scores DSensor) @ '', health '' @
            fixed2 (scores DHealth) @ '', diversity '' @ nat_str diversity @ '' -> coverage '' @ fixed2 coverage @
            (if unknown then '' (unknown: low inventory confidence)'' else [])\<rparr>)"

subsection \<open>Blind spots\<close>

fun no_decoy_gap :: "cov_surface \<Rightarrow> gap_type" where
  "no_decoy_gap SRepository = NoDecoy"
| "no_decoy_gap SDatabase = NoHoneyRecords"
| "no_decoy_gap SRag = NoRagTripwire"
| "no_decoy_gap SMcp = NoMcpTripwire"
| "no_decoy_gap SBrowserAi = ShadowAiNoPolicy"
| "no_decoy_gap SAiAgent = AgentNoScopePolicy"

definition criticality_severity :: "rat \<Rightarrow> severity" where
  "criticality_severity c = (if c \<ge> 8 / 10 then CRITICAL else if c \<ge> 6 / 10 then HIGH else if c \<ge> 4 / 10 then MEDIUM else LOW)"

definition active_decoy :: "surface_control list \<Rightarrow> bool" where
  "active_decoy cs \<longleftrightarrow> list_ex (\<lambda>c. sc_type c = CDecoy \<and> sc_dimension c = DPlacement \<and> sc_status c = CtActive) cs"

definition has_active :: "control_type \<Rightarrow> surface_control list \<Rightarrow> bool" where
  "has_active t cs \<longleftrightarrow> list_ex (\<lambda>c. sc_type c = t \<and> sc_status c = CtActive) cs"

definition has_status :: "control_status \<Rightarrow> surface_control list \<Rightarrow> bool" where
  "has_status st cs \<longleftrightarrow> list_ex (\<lambda>c. sc_status c = st) cs"

definition detect_gaps :: "surface_coverage \<Rightarrow> surface_observation \<Rightarrow> coverage_gap list" where
  "detect_gaps cov obs =
     (let s = sv_surface cov; cs = so_controls obs; sev = criticality_severity (is_criticality s); gain = min 1 (is_weight s);
          gap = (\<lambda>g sv reason missing x. \<lparr>cg_type = is_type s, cg_ext = is_ext s, cg_gap = g, cg_severity = sv, cg_reason = reason,
                   cg_missing = missing, cg_gain = x\<rparr>)
      in (if \<not> active_decoy cs then
            (if has_status CtExpired cs
             then [gap ExpiredNotReplaced sev ''A decoy on this surface expired and has not been replaced.'' [''decoy''] gain]
             else [gap (no_decoy_gap (is_type s)) sev ''No active decoy on this surface; interaction cannot be baited.''
                     [''decoy'', ''sensor''] gain])
          else if \<not> has_active CSensor cs then
            [gap DecoyNoSensor sev ''A decoy is deployed but no active sensor can detect interaction.'' [''sensor''] (gain * (7 / 10))]
          else []) @
         (if has_status CtFailed cs then
            [gap ActivationFailed sev ''A control failed (verification/activation); it provides no detection.'' [''monitoring'']
               (gain * (6 / 10))] else []) @
         (if has_status CtDegraded cs then
            [gap SensorUnhealthy sev ''A sensor is degraded/stale; detection reliability is reduced.'' [''monitoring'']
               (gain * (4 / 10))] else []) @
         (if active_decoy cs \<and> sv_diversity cov \<le> 1 \<and> is_criticality s \<ge> 6 / 10 then
            [gap FragileSingleControl MEDIUM ''High-value surface relies on a single fragile control (no defense in depth).''
               [''sensor'', ''monitoring''] (gain * (3 / 10))] else []) @
         (if active_decoy cs \<and> sv_scores cov DCross = 0 \<and> is_criticality s \<ge> 7 / 10 then
            [gap NoCrossSurface LOW ''Activity on this surface cannot be correlated across other surfaces.'' [''cross_surface'']
               (gain * (2 / 10))] else []))"

subsection \<open>Recommendations\<close>

fun gap_action :: "gap_type \<Rightarrow> cov_action" where
  "gap_action NoDecoy = AddDecoy"
| "gap_action NoHoneyRecords = AddDecoy"
| "gap_action NoRagTripwire = AddDecoy"
| "gap_action NoMcpTripwire = AddDecoy"
| "gap_action ShadowAiNoPolicy = AddBrowserPolicy"
| "gap_action AgentNoScopePolicy = AddAgentScopePolicy"
| "gap_action DecoyNoSensor = AddSensor"
| "gap_action ExpiredNotReplaced = ReplaceExpired"
| "gap_action ActivationFailed = RepairSensor"
| "gap_action SensorUnhealthy = RepairSensor"
| "gap_action FragileSingleControl = DiversifyControls"
| "gap_action NoCrossSurface = DiversifyControls"

fun surface_decoy :: "cov_surface \<Rightarrow> string" where
  "surface_decoy SRepository = ''repository_decoy''"
| "surface_decoy SDatabase = ''honey_record''"
| "surface_decoy SRag = ''rag_document''"
| "surface_decoy SMcp = ''mcp_resource''"
| "surface_decoy SBrowserAi = ''browser_policy''"
| "surface_decoy SAiAgent = ''agent_scope_policy''"

fun deploy_risk :: "cov_surface \<Rightarrow> rat" where
  "deploy_risk SRepository = 3 / 10"
| "deploy_risk SDatabase = 1 / 2"
| "deploy_risk SRag = 35 / 100"
| "deploy_risk SMcp = 35 / 100"
| "deploy_risk SBrowserAi = 2 / 10"
| "deploy_risk SAiAgent = 2 / 10"

definition recommend_gap :: "rat \<Rightarrow> surface_coverage \<Rightarrow> coverage_gap \<Rightarrow> cov_recommendation option" where
  "recommend_gap tolerance cov g =
     (let s = sv_surface cov; action = gap_action (cg_gap g); risk = deploy_risk (is_type s);
          effort = (if action \<in> {AddDecoy, ReplaceExpired} then 4 / 10 else 3 / 10);
          gain = cg_gain g; detection = clamp (gain * (if action = AddSensor then 8 / 10 else 1));
          priority = round6 (is_weight s * (6 / 10 * gain + 4 / 10 * detection) * (1 - 4 / 10 * risk - 2 / 10 * effort))
      in if risk > tolerance \<and> gain < 3 / 10 then None
         else if gain \<le> 0 then None
         else if priority \<le> 0 then None
         else Some \<lparr>cn_type = is_type s, cn_ext = is_ext s, cn_action = action, cn_decoy = surface_decoy (is_type s),
           cn_location = is_name s, cn_gain = gain, cn_detection = detection, cn_risk = risk,
           cn_false_positive = (if is_type s \<in> {SDatabase, SRag} then 2 / 10 else 15 / 100), cn_effort = effort,
           cn_priority = priority, cn_confidence = is_confidence s,
           cn_explanation = action_value action @ '' on '' @ is_name s @ '': +'' @ fixed2 gain @ '' coverage, +'' @
             fixed2 detection @ '' detection, risk '' @ fixed2 risk @ '', effort '' @ fixed2 effort @ ''.''\<rparr>)"

definition cn_key :: "cov_recommendation \<Rightarrow> string \<times> cov_action" where
  "cn_key r = (cn_ext r, cn_action r)"

definition add_recommendation :: "cov_recommendation \<Rightarrow> cov_recommendation list \<Rightarrow> cov_recommendation list" where
  "add_recommendation r rs = (if cn_key r \<in> set (map cn_key rs) then rs else rs @ [r])"

definition build_recommendations ::
  "rat \<Rightarrow> nat \<Rightarrow> (surface_coverage \<times> coverage_gap list) list \<Rightarrow> cov_recommendation list" where
  "build_recommendations tolerance limit gs =
     (let found = List.map_filter id (concat (map (\<lambda>(cov, gaps). map (recommend_gap tolerance cov) gaps) gs))
      in take limit (sort_key (\<lambda>r. - cn_priority r) (fold add_recommendation found [])))"

end
