(* ===== verification/Coverage_Engine.thy ===== *)
theory Coverage_Engine
  imports Coverage_Score
begin

text \<open>
  The inventory of protected surfaces (\<open>services/coverage_engine/inventory.py\<close>) and one coverage calculation
  over it (\<open>engine.py\<close>). The tables the inventory reads are the columns it uses: an existence query is
  the list of organizations that have a row. SHA-256 and the text of a UUID are arguments.
\<close>

subsection \<open>What the inventory reads\<close>

record cov_decoy =
  cdv_id :: uuid
  cdv_org :: org_id
  cdv_status :: string
  cdv_expires :: "datetime option"
  cdv_monitored :: "datetime option"

record repo_cov_decoy = cov_decoy +
  rcd_repo :: uuid
  rcd_deployed :: "datetime option"
  rcd_retired :: "datetime option"

record honey_cov_decoy = cov_decoy +
  hcd_connector :: uuid
  hcd_schema :: string
  hcd_table :: string
  hcd_deployed :: "datetime option"
  hcd_created :: datetime

record ai_cov_decoy = cov_decoy +
  acd_connector :: uuid
  acd_rag :: bool
  acd_verified :: "string option"

record cov_asset =
  cas_id :: uuid
  cas_org :: org_id
  cas_name :: string
  cas_created :: datetime

record cov_browser_policy =
  cbp_org :: org_id
  cbp_enabled :: bool
  cbp_rules :: "(string option \<times> string option) list"
  cbp_updated :: datetime

record cov_agent =
  cag_id :: uuid
  cag_org :: org_id
  cag_name :: string
  cag_status :: string
  cag_seen :: "datetime option"

record cov_world =
  wd_repos :: "cov_asset list"
  wd_repo_decoys :: "repo_cov_decoy list"
  wd_honey_decoys :: "honey_cov_decoy list"
  wd_rag :: "cov_asset list"
  wd_mcp :: "cov_asset list"
  wd_ai_decoys :: "ai_cov_decoy list"
  wd_policies :: "cov_browser_policy list"
  wd_agents :: "cov_agent list"
  wd_scope_policies :: "org_id list"
  wd_alerts :: "org_id list"
  wd_incidents :: "org_id list"
  wd_monitors :: "(org_id \<times> string) list"
  wd_browser_sensors :: "org_id list"

record org_capabilities =
  oc_alerting :: bool
  oc_incidents :: bool
  oc_monitor :: bool

subsection \<open>Surfaces and controls\<close>

definition hours_since :: "datetime option \<Rightarrow> datetime \<Rightarrow> rat" where
  "hours_since ts now = (case ts of None \<Rightarrow> 1000000000 | Some t \<Rightarrow> max 0 (of_int (now - t) / of_int (seconds 3600)))"

definition sensitive_words :: "string list" where
  "sensitive_words = [''billing'', ''payment'', ''auth'', ''credential'', ''secret'', ''customer'', ''invoice'', ''deploy'', ''env'', ''account'']"

definition sensitivity_for :: "string \<Rightarrow> rat" where
  "sensitivity_for name = clamp (4 / 10 + 15 / 100 * of_nat (length (filter (\<lambda>w. contains (py_lower name) w) sensitive_words)))"

definition capabilities_of :: "org_id \<Rightarrow> cov_world \<Rightarrow> org_capabilities" where
  "capabilities_of org w = \<lparr>oc_alerting = (org \<in> set (wd_alerts w)), oc_incidents = (org \<in> set (wd_incidents w)),
     oc_monitor = ((org, ''active'') \<in> set (wd_monitors w))\<rparr>"

definition surface_of ::
  "cov_surface \<Rightarrow> string \<Rightarrow> string \<Rightarrow> rat \<Rightarrow> rat \<Rightarrow> rat \<Rightarrow> rat \<Rightarrow> bool \<Rightarrow> rat \<Rightarrow> rat \<Rightarrow> inventory_surface" where
  "surface_of kind ext name sensitivity business exposure attack measured hours completeness =
     (let crit = criticality_of sensitivity business exposure attack in
      \<lparr>is_type = kind, is_ext = take 512 ext, is_name = take 256 name, is_criticality = crit, is_exposure = clamp exposure,
       is_sensitivity = clamp sensitivity, is_attack = clamp attack, is_business = clamp business, is_requirement = 1,
       is_weight = risk_weight_of crit 1, is_confidence = inventory_confidence_of measured hours completeness,
       is_explanation = ''criticality '' @ fixed2 crit @ '' from sensitivity '' @ fixed2 sensitivity @ '', business '' @
         fixed2 business @ '', exposure '' @ fixed2 exposure @ '', attacker likelihood '' @ fixed2 attack\<rparr>)"

definition decoy_control_status :: "string \<Rightarrow> datetime option \<Rightarrow> datetime \<Rightarrow> control_status" where
  "decoy_control_status status expires now =
     (if status \<in> {''failed'', ''verification_failed'', ''failed_activation'', ''drift_detected''} then CtFailed
      else if status \<in> {''retired'', ''rolled_back'', ''cancelled'', ''rejected''} then CtInactive
      else if status = ''expired'' then CtExpired
      else if (case expires of None \<Rightarrow> False | Some t \<Rightarrow> t < now) then CtExpired
      else if status \<in> {''deployed'', ''active''} then CtActive
      else CtInactive)"

definition cov_control ::
  "control_type \<Rightarrow> string \<Rightarrow> control_status \<Rightarrow> dimension \<Rightarrow> rat \<Rightarrow> datetime option \<Rightarrow> surface_control" where
  "cov_control kind ref status dmn effect verified =
     \<lparr>sc_type = kind, sc_ref = take 128 ref, sc_status = status, sc_effect = (if status = CtActive then effect else 0),
      sc_confidence = 9 / 10, sc_verified = verified, sc_dimension = dmn\<rparr>"

definition capability_controls :: "org_capabilities \<Rightarrow> bool \<Rightarrow> surface_control list" where
  "capability_controls caps has =
     (if \<not> has then []
      else (if oc_monitor caps then [cov_control CMonitoring ''signed-monitor'' CtActive DIdentity (9 / 10) None] else []) @
           (if oc_alerting caps then [cov_control CAlerting ''alert-pipeline'' CtActive DAlerting (85 / 100) None] else []) @
           (if oc_incidents caps then [cov_control CIncident ''incident-recon'' CtActive DIncident (8 / 10) None] else []))"

definition decoy_status_of :: "datetime \<Rightarrow> 'a cov_decoy_scheme \<Rightarrow> control_status" where
  "decoy_status_of now d = decoy_control_status (cdv_status d) (cdv_expires d) now"

definition placement_control :: "(uuid \<Rightarrow> string) \<Rightarrow> datetime \<Rightarrow> int \<Rightarrow> rat \<Rightarrow> datetime option \<Rightarrow> 'a cov_decoy_scheme \<Rightarrow> surface_control" where
  "placement_control us now vmax believability verified d =
     \<lparr>sc_type = CDecoy, sc_ref = take 128 (us (cdv_id d)), sc_status = decoy_status_of now d,
      sc_effect = control_effectiveness (decoy_status_of now d) believability verified now vmax 0,
      sc_confidence = 9 / 10, sc_verified = verified, sc_dimension = DPlacement\<rparr>"

definition sensor_controls :: "(uuid \<Rightarrow> string) \<Rightarrow> string \<Rightarrow> 'a cov_decoy_scheme \<Rightarrow> surface_control list" where
  "sensor_controls us prefix d =
     (case cdv_monitored d of
        None \<Rightarrow> []
      | Some t \<Rightarrow>
          [cov_control CSensor (prefix @ ''-sensor:'' @ us (cdv_id d)) CtActive DSensor (85 / 100) (Some t),
           cov_control CMonitoring (prefix @ ''-health:'' @ us (cdv_id d)) CtActive DHealth (85 / 100) None])"

definition repo_controls :: "(uuid \<Rightarrow> string) \<Rightarrow> datetime \<Rightarrow> int \<Rightarrow> repo_cov_decoy \<Rightarrow> surface_control list" where
  "repo_controls us now vmax d =
     placement_control us now vmax (7 / 10) (rcd_deployed d) d #
     (if decoy_status_of now d = CtActive then
        sensor_controls us ''repo'' d @
        (if cdv_expires d \<noteq> None \<or> rcd_retired d \<noteq> None
         then [cov_control CDecoy (''repo-lifecycle:'' @ us (cdv_id d)) CtActive DLifecycle (8 / 10) None] else [])
      else [])"

definition with_capabilities :: "datetime \<Rightarrow> org_capabilities \<Rightarrow> 'a cov_decoy_scheme list \<Rightarrow> surface_control list \<Rightarrow> surface_control list" where
  "with_capabilities now caps ds cs = cs @ capability_controls caps (list_ex (\<lambda>d. decoy_status_of now d = CtActive) ds)"

definition repository_surfaces :: "(uuid \<Rightarrow> string) \<Rightarrow> org_id \<Rightarrow> datetime \<Rightarrow> int \<Rightarrow> cov_world \<Rightarrow> surface_observation list" where
  "repository_surfaces us org now vmax w =
     map (\<lambda>repo.
       let ds = filter (\<lambda>d. cdv_org d = org \<and> rcd_repo d = cas_id repo) (wd_repo_decoys w) in
       \<lparr>so_surface = surface_of SRepository (us (cas_id repo)) (cas_name repo) (sensitivity_for (cas_name repo)) (7 / 10) (6 / 10)
          (6 / 10) True (hours_since (Some (cas_created repo)) now) (7 / 10),
        so_controls = with_capabilities now (capabilities_of org w) ds (concat (map (repo_controls us now vmax) ds))\<rparr>)
       (filter (\<lambda>r. cas_org r = org) (wd_repos w))"

definition honey_key :: "(uuid \<Rightarrow> string) \<Rightarrow> honey_cov_decoy \<Rightarrow> string" where
  "honey_key us d = us (hcd_connector d) @ '':'' @ hcd_schema d @ ''.'' @ hcd_table d"

definition table_name_of :: "string \<Rightarrow> string" where
  "table_name_of s = tl (dropWhile (\<lambda>c. c \<noteq> CHR '':'') s)"

definition honey_controls :: "(uuid \<Rightarrow> string) \<Rightarrow> datetime \<Rightarrow> int \<Rightarrow> honey_cov_decoy \<Rightarrow> surface_control list" where
  "honey_controls us now vmax d =
     placement_control us now vmax (75 / 100) (hcd_deployed d) d #
     (if decoy_status_of now d = CtActive then sensor_controls us ''db'' d else [])"

definition database_surfaces :: "(uuid \<Rightarrow> string) \<Rightarrow> org_id \<Rightarrow> datetime \<Rightarrow> int \<Rightarrow> cov_world \<Rightarrow> surface_observation list" where
  "database_surfaces us org now vmax w =
     (let rows = filter (\<lambda>d. cdv_org d = org) (wd_honey_decoys w) in
      map (\<lambda>key.
        let ds = filter (\<lambda>d. honey_key us d = key) rows; name = table_name_of key in
        \<lparr>so_surface = surface_of SDatabase key name (sensitivity_for name) (8 / 10) (5 / 10) (6 / 10) True
           (hours_since (Some (hcd_created (hd ds))) now) (8 / 10),
         so_controls = with_capabilities now (capabilities_of org w) ds (concat (map (honey_controls us now vmax) ds))\<rparr>)
        (dedup (map (honey_key us) rows)))"

definition ai_controls :: "(uuid \<Rightarrow> string) \<Rightarrow> datetime \<Rightarrow> int \<Rightarrow> ai_cov_decoy \<Rightarrow> surface_control list" where
  "ai_controls us now vmax d =
     placement_control us now vmax (7 / 10) (cdv_monitored d) d #
     (if decoy_status_of now d = CtActive then
        sensor_controls us ''ai'' d @
        (if acd_verified d \<noteq> None
         then [cov_control CDecoy (''ai-verify:'' @ us (cdv_id d)) CtActive DVerification (85 / 100) (cdv_monitored d)] else [])
      else [])"

definition ai_surfaces ::
  "(uuid \<Rightarrow> string) \<Rightarrow> org_id \<Rightarrow> datetime \<Rightarrow> int \<Rightarrow> cov_surface \<Rightarrow> cov_asset list \<Rightarrow> ai_cov_decoy list \<Rightarrow> cov_world \<Rightarrow>
   surface_observation list" where
  "ai_surfaces us org now vmax kind connectors deploys w =
     map (\<lambda>c.
       let ds = filter (\<lambda>d. acd_connector d = cas_id c) deploys in
       \<lparr>so_surface = surface_of kind (us (cas_id c)) (cas_name c) (sensitivity_for (cas_name c)) (7 / 10) (7 / 10) (6 / 10) True
          (hours_since (Some (cas_created c)) now) (7 / 10),
        so_controls = with_capabilities now (capabilities_of org w) ds (concat (map (ai_controls us now vmax) ds))\<rparr>)
       (filter (\<lambda>c. cas_org c = org) connectors)"

definition rag_mcp_surfaces :: "(uuid \<Rightarrow> string) \<Rightarrow> org_id \<Rightarrow> datetime \<Rightarrow> int \<Rightarrow> cov_world \<Rightarrow> surface_observation list" where
  "rag_mcp_surfaces us org now vmax w =
     (let ds = filter (\<lambda>d. cdv_org d = org) (wd_ai_decoys w) in
      ai_surfaces us org now vmax SRag (wd_rag w) (filter acd_rag ds) w @
      ai_surfaces us org now vmax SMcp (wd_mcp w) (filter (\<lambda>d. \<not> acd_rag d) ds) w)"

definition browser_surfaces :: "org_id \<Rightarrow> datetime \<Rightarrow> cov_world \<Rightarrow> surface_observation list" where
  "browser_surfaces org now w =
     (case find (\<lambda>p. cbp_org p = org) (wd_policies w) of
        None \<Rightarrow> []
      | Some p \<Rightarrow>
          (let active_sensor = list_ex (\<lambda>q. cbp_org q = org \<and> cbp_enabled q) (wd_policies w);
               has = (cbp_enabled p \<and> active_sensor)
           in map (\<lambda>(d, c).
                let domain = (case d of None \<Rightarrow> [] | Some x \<Rightarrow> x);
                    classification = (case c of None \<Rightarrow> ''unknown'' | Some x \<Rightarrow> x)
                in \<lparr>so_surface = surface_of SBrowserAi domain domain
                     (if classification \<in> {''shadow'', ''unknown''} then 7 / 10 else 4 / 10) (6 / 10) (8 / 10) (6 / 10) True
                     (hours_since (Some (cbp_updated p)) now) (6 / 10),
                   so_controls =
                     (if has then
                        [cov_control CSensor (''browser:'' @ domain) CtActive DSensor (8 / 10) None,
                         cov_control CDecoy (''browser-policy:'' @ domain) CtActive DPlacement (75 / 100) None,
                         cov_control CMonitoring (''browser-health:'' @ domain) CtActive DHealth (8 / 10) None]
                      else []) @ capability_controls (capabilities_of org w) has\<rparr>)
                (cbp_rules p)))"

definition agent_surfaces :: "(uuid \<Rightarrow> string) \<Rightarrow> org_id \<Rightarrow> datetime \<Rightarrow> cov_world \<Rightarrow> surface_observation list" where
  "agent_surfaces us org now w =
     (let has_policy = (org \<in> set (wd_scope_policies w)) in
      map (\<lambda>s.
        let has = (cag_status s = ''active''); i = us (cag_id s) in
        \<lparr>so_surface = surface_of SAiAgent i (cag_name s) (7 / 10) (7 / 10) (7 / 10) (6 / 10) True (hours_since (cag_seen s) now) (6 / 10),
         so_controls =
           (if has then
              [cov_control CSensor (''agent:'' @ i) CtActive DSensor (8 / 10) (cag_seen s),
               cov_control CMonitoring (''agent-health:'' @ i) CtActive DHealth (8 / 10) None] @
              (if has_policy then
                 [cov_control CDecoy (''agent-scope:'' @ i) CtActive DPlacement (75 / 100) None,
                  cov_control CMonitoring (''agent-identity:'' @ i) CtActive DIdentity (8 / 10) None] else [])
            else []) @ capability_controls (capabilities_of org w) has\<rparr>)
        (filter (\<lambda>s. cag_org s = org) (wd_agents w)))"

definition build_inventory :: "(uuid \<Rightarrow> string) \<Rightarrow> org_id \<Rightarrow> int \<Rightarrow> datetime \<Rightarrow> cov_world \<Rightarrow> surface_observation list" where
  "build_inventory us org vmax now w =
     repository_surfaces us org now vmax w @ database_surfaces us org now vmax w @ rag_mcp_surfaces us org now vmax w @
     browser_surfaces org now w @ agent_surfaces us org now w"

subsection \<open>One calculation\<close>

record coverage_result =
  cv_methodology :: string
  cv_overall :: rat
  cv_confidence :: rat
  cv_covered :: rat
  cv_total :: rat
  cv_unknown :: rat
  cv_active_decoys :: nat
  cv_active_sensors :: nat
  cv_unhealthy_sensors :: nat
  cv_expired_decoys :: nat
  cv_blind_spots :: nat
  cv_hash :: string
  cv_surfaces :: "surface_coverage list"
  cv_gaps :: "coverage_gap list"
  cv_recommendations :: "cov_recommendation list"

definition control_text :: "surface_control \<Rightarrow> string" where
  "control_text c = control_value (sc_type c) @ '':'' @ sc_ref c @ '':'' @ control_status_value (sc_status c)"

definition source_state :: "surface_observation list \<Rightarrow> string" where
  "source_state obs =
     join_with [CHR 0x0A] (coverage_methodology #
       map (\<lambda>b. cov_surface_value (is_type (so_surface b)) @ ''|'' @ is_ext (so_surface b) @ ''|'' @
              join_with '','' (sort (map control_text (so_controls b))))
         (sort_key (\<lambda>b. (cov_surface_value (is_type (so_surface b)), is_ext (so_surface b))) obs))"

definition decoy_controls :: "control_status \<Rightarrow> surface_observation \<Rightarrow> surface_control list" where
  "decoy_controls st b = filter (\<lambda>c. sc_type c = CDecoy \<and> sc_dimension c = DPlacement \<and> sc_status c = st) (so_controls b)"

definition total_length :: "('a \<Rightarrow> 'b list) \<Rightarrow> 'a list \<Rightarrow> nat" where
  "total_length f xs = sum_list (map (\<lambda>x. length (f x)) xs)"

definition cross_surface_present :: "surface_observation list \<Rightarrow> bool" where
  "cross_surface_present obs \<longleftrightarrow>
     length (remdups (map (\<lambda>b. is_type (so_surface b)) (filter (\<lambda>b. decoy_controls CtActive b \<noteq> []) obs))) \<ge> 2"

definition calculate_from :: "(string \<Rightarrow> string) \<Rightarrow> rat \<Rightarrow> nat \<Rightarrow> surface_observation list \<Rightarrow> coverage_result" where
  "calculate_from sha tolerance limit obs =
     (let covs = map (compute_surface_coverage (cross_surface_present obs)) obs;
          known = filter (\<lambda>v. \<not> sv_unknown v) covs;
          unknown_weight = sum_list (map (\<lambda>v. is_weight (sv_surface v)) (filter sv_unknown covs));
          total_weight = sum_list (map (\<lambda>v. is_weight (sv_surface v)) known);
          covered = sum_list (map sv_weighted known);
          gs = map (\<lambda>(v, b). (v, detect_gaps v b)) (zip covs obs);
          gaps = concat (map snd gs);
          overall = (if total_weight > 0 then round6 (covered / total_weight) else 0);
          ratio = (if total_weight + unknown_weight > 0 then unknown_weight / (total_weight + unknown_weight) else 0)
      in \<lparr>cv_methodology = coverage_methodology, cv_overall = clamp overall,
          cv_confidence = aggregate_confidence (map sv_confidence known) ratio, cv_covered = round6 covered,
          cv_total = round6 total_weight, cv_unknown = round6 unknown_weight,
          cv_active_decoys = total_length (decoy_controls CtActive) obs,
          cv_active_sensors = total_length (\<lambda>b. filter (\<lambda>c. sc_type c = CSensor \<and> sc_status c = CtActive) (so_controls b)) obs,
          cv_unhealthy_sensors =
            total_length (\<lambda>b. filter (\<lambda>c. sc_type c = CSensor \<and> sc_status c \<in> {CtDegraded, CtFailed}) (so_controls b)) obs,
          cv_expired_decoys = total_length (decoy_controls CtExpired) obs, cv_blind_spots = length gaps,
          cv_hash = sha (source_state obs), cv_surfaces = covs, cv_gaps = gaps,
          cv_recommendations = build_recommendations tolerance limit gs\<rparr>)"

record coverage_settings =
  cvs_enabled :: bool
  cvs_max_age_hours :: int
  cvs_max_recommendations :: nat

definition calculate_coverage ::
  "(string \<Rightarrow> string) \<Rightarrow> (uuid \<Rightarrow> string) \<Rightarrow> coverage_settings \<Rightarrow> rat \<Rightarrow> org_id \<Rightarrow> datetime \<Rightarrow> cov_world \<Rightarrow> coverage_result" where
  "calculate_coverage sha us st tolerance org now w =
     calculate_from sha tolerance (cvs_max_recommendations st) (build_inventory us org (cvs_max_age_hours st) now w)"

end
