(* ===== verification/Coverage_Store.thy ===== *)
theory Coverage_Store
  imports Coverage_Engine Access Failover
begin

text \<open>
  The coverage tables and their repository (\<open>repositories/coverage.py\<close>), the endpoints
  (\<open>api/coverage.py\<close>) and the scheduled job (\<open>jobs/coverage.py\<close>). A snapshot row holds the result whose
  fields are its columns, and a gap or recommendation row the value it stores; identifiers and the
  clock are arguments. An insertion that violates a unique constraint is \<open>None\<close>: the transaction is rolled back.
\<close>

subsection \<open>Tables\<close>

record cov_snapshot =
  csn_id :: uuid
  csn_org :: org_id
  csn_at :: datetime
  csn_result :: coverage_result

record cov_surface_row =
  csf_org :: org_id
  csf_surface :: inventory_surface
  csf_coverage :: rat
  csf_confidence :: rat
  csf_status :: string
  csf_updated :: datetime

record cov_gap_row =
  cgr_org :: org_id
  cgr_snapshot :: uuid
  cgr_gap :: coverage_gap

datatype reco_status = RecoOpen | RecoAccepted | RecoDismissed

record cov_reco_row =
  crr_id :: uuid
  crr_org :: org_id
  crr_snapshot :: uuid
  crr_reco :: cov_recommendation
  crr_status :: reco_status

record coverage_policy =
  pd_minimum_score :: rat
  pd_minimum_health :: rat
  pd_freshness :: int
  pd_unknown :: rat
  pd_tolerance :: rat

record cov_policy_row =
  cpo_org :: org_id
  cpo_doc :: coverage_policy
  cpo_version :: nat

record cov_audit =
  cau_org :: org_id
  cau_actor :: "uuid option"
  cau_snapshot :: "uuid option"
  cau_event :: string
  cau_metadata :: string

record cov_db =
  cb_snapshots :: "cov_snapshot list"
  cb_surfaces :: "cov_surface_row list"
  cb_gaps :: "cov_gap_row list"
  cb_recos :: "cov_reco_row list"
  cb_policies :: "cov_policy_row list"
  cb_audit :: "cov_audit list"

subsection \<open>The repository\<close>

text \<open>\<open>order_by(calculated_at.desc()).limit(1)\<close>.\<close>

definition latest_coverage :: "org_id \<Rightarrow> cov_db \<Rightarrow> cov_snapshot option" where
  "latest_coverage org db =
     (case rev (sort_key csn_at (filter (\<lambda>s. csn_org s = org) (cb_snapshots db))) of [] \<Rightarrow> None | s # _ \<Rightarrow> Some s)"

definition surface_key :: "inventory_surface \<Rightarrow> cov_surface \<times> string" where
  "surface_key s = (is_type s, is_ext s)"

definition known_text :: "bool \<Rightarrow> string" where
  "known_text unknown = (if unknown then ''unknown'' else ''known'')"

definition row_is :: "org_id \<Rightarrow> surface_coverage \<Rightarrow> cov_surface_row \<Rightarrow> bool" where
  "row_is org v r \<longleftrightarrow> csf_org r = org \<and> surface_key (csf_surface r) = surface_key (sv_surface v)"

definition upsert_surface :: "datetime \<Rightarrow> org_id \<Rightarrow> surface_coverage \<Rightarrow> cov_surface_row list \<Rightarrow> cov_surface_row list" where
  "upsert_surface now org v rows =
     (if list_ex (row_is org v) rows
      then map (\<lambda>r. if row_is org v r
             then r\<lparr>csf_surface := (csf_surface r)\<lparr>is_criticality := is_criticality (sv_surface v), is_weight := is_weight (sv_surface v)\<rparr>,
                    csf_coverage := sv_coverage v, csf_confidence := sv_confidence v, csf_status := known_text (sv_unknown v),
                    csf_updated := now\<rparr>
             else r) rows
      else rows @ [\<lparr>csf_org = org, csf_surface = sv_surface v, csf_coverage = sv_coverage v, csf_confidence = sv_confidence v,
                    csf_status = known_text (sv_unknown v), csf_updated = now\<rparr>])"

text \<open>Two new surfaces with the same key violate \<open>uq_coverage_surface\<close>.\<close>

definition upsert_surfaces :: "datetime \<Rightarrow> org_id \<Rightarrow> surface_coverage list \<Rightarrow> cov_surface_row list \<Rightarrow> cov_surface_row list option" where
  "upsert_surfaces now org vs rows =
     (if distinct (map (\<lambda>v. surface_key (sv_surface v)) (filter (\<lambda>v. \<not> list_ex (row_is org v) rows) vs))
      then Some (fold (upsert_surface now org) vs rows) else None)"

definition same_state :: "coverage_result \<Rightarrow> cov_snapshot \<Rightarrow> bool" where
  "same_state r s \<longleftrightarrow> cv_hash (csn_result s) = cv_hash r \<and> cv_methodology (csn_result s) = cv_methodology r"

definition persist_snapshot ::
  "datetime \<Rightarrow> uuid \<Rightarrow> (nat \<Rightarrow> uuid) \<Rightarrow> org_id \<Rightarrow> coverage_result \<Rightarrow> cov_db \<Rightarrow> (cov_db \<times> cov_snapshot \<times> bool) option" where
  "persist_snapshot now i fresh org r db =
     (let latest = latest_coverage org db;
          s = \<lparr>csn_id = i, csn_org = org, csn_at = now, csn_result = r\<rparr>;
          created = (case upsert_surfaces now org (cv_surfaces r) (cb_surfaces db) of
             None \<Rightarrow> None
           | Some rows \<Rightarrow>
               Some (db\<lparr>cb_snapshots := cb_snapshots db @ [s],
                 cb_gaps := cb_gaps db @ map (\<lambda>g. \<lparr>cgr_org = org, cgr_snapshot = i, cgr_gap = g\<rparr>) (cv_gaps r),
                 cb_recos := cb_recos db @ map (\<lambda>(k, n). \<lparr>crr_id = fresh k, crr_org = org, crr_snapshot = i, crr_reco = n,
                     crr_status = RecoOpen\<rparr>) (zip [0..<length (cv_recommendations r)] (cv_recommendations r)),
                 cb_surfaces := rows\<rparr>, s, True))
      in case latest of
           None \<Rightarrow> created
         | Some l \<Rightarrow> if same_state r l then Some (db, l, False) else created)"

definition list_snapshots :: "org_id \<Rightarrow> nat \<Rightarrow> cov_db \<Rightarrow> cov_snapshot list" where
  "list_snapshots org limit db = take limit (rev (sort_key csn_at (filter (\<lambda>s. csn_org s = org) (cb_snapshots db))))"

definition get_coverage_snapshot :: "org_id \<Rightarrow> uuid \<Rightarrow> cov_db \<Rightarrow> cov_snapshot option" where
  "get_coverage_snapshot org i db =
     (case find (\<lambda>s. csn_id s = i) (cb_snapshots db) of None \<Rightarrow> None | Some s \<Rightarrow> if csn_org s \<noteq> org then None else Some s)"

definition surface_rows :: "org_id \<Rightarrow> cov_db \<Rightarrow> cov_surface_row list" where
  "surface_rows org db = sort_key (\<lambda>r. - is_weight (csf_surface r)) (filter (\<lambda>r. csf_org r = org) (cb_surfaces db))"

fun severity_text :: "severity \<Rightarrow> string" where
  "severity_text INFO = ''info''"
| "severity_text LOW = ''low''"
| "severity_text MEDIUM = ''medium''"
| "severity_text HIGH = ''high''"
| "severity_text CRITICAL = ''critical''"

text \<open>The column is text, so the order of the severities is alphabetical.\<close>

definition gap_rows :: "org_id \<Rightarrow> uuid \<Rightarrow> cov_db \<Rightarrow> cov_gap_row list" where
  "gap_rows org i db =
     sort_key (\<lambda>g. severity_text (cg_severity (cgr_gap g))) (filter (\<lambda>g. cgr_org g = org \<and> cgr_snapshot g = i) (cb_gaps db))"

definition reco_rows :: "org_id \<Rightarrow> uuid \<Rightarrow> cov_db \<Rightarrow> cov_reco_row list" where
  "reco_rows org i db =
     sort_key (\<lambda>r. - cn_priority (crr_reco r)) (filter (\<lambda>r. crr_org r = org \<and> crr_snapshot r = i) (cb_recos db))"

definition get_recommendation :: "org_id \<Rightarrow> uuid \<Rightarrow> cov_db \<Rightarrow> cov_reco_row option" where
  "get_recommendation org i db =
     (case find (\<lambda>r. crr_id r = i) (cb_recos db) of None \<Rightarrow> None | Some r \<Rightarrow> if crr_org r \<noteq> org then None else Some r)"

definition get_coverage_policy :: "org_id \<Rightarrow> cov_db \<Rightarrow> cov_policy_row option" where
  "get_coverage_policy org db = find (\<lambda>p. cpo_org p = org) (cb_policies db)"

definition upsert_coverage_policy :: "org_id \<Rightarrow> coverage_policy \<Rightarrow> cov_db \<Rightarrow> cov_db" where
  "upsert_coverage_policy org doc db =
     (case get_coverage_policy org db of
        None \<Rightarrow> db\<lparr>cb_policies := cb_policies db @ [\<lparr>cpo_org = org, cpo_doc = doc, cpo_version = 1\<rparr>]\<rparr>
      | Some _ \<Rightarrow>
          db\<lparr>cb_policies := map (\<lambda>p. if cpo_org p = org then p\<lparr>cpo_doc := doc, cpo_version := cpo_version p + 1\<rparr> else p) (cb_policies db)\<rparr>)"

definition add_coverage_audit :: "org_id \<Rightarrow> uuid option \<Rightarrow> uuid option \<Rightarrow> string \<Rightarrow> string \<Rightarrow> cov_db \<Rightarrow> cov_db" where
  "add_coverage_audit org actor snapshot event metadata db =
     db\<lparr>cb_audit := cb_audit db @ [\<lparr>cau_org = org, cau_actor = actor, cau_snapshot = snapshot, cau_event = event,
        cau_metadata = take 1024 metadata\<rparr>]\<rparr>"

text \<open>\<open>engine._risk_tolerance\<close>.\<close>

definition risk_tolerance_of :: "org_id \<Rightarrow> cov_db \<Rightarrow> rat" where
  "risk_tolerance_of org db = (case get_coverage_policy org db of None \<Rightarrow> 6 / 10 | Some p \<Rightarrow> pd_tolerance (cpo_doc p))"

subsection \<open>Endpoints\<close>

definition coverage_off :: http_error where
  "coverage_off = HttpError 404 ''coverage engine is not enabled''"

definition get_coverage :: "coverage_settings \<Rightarrow> auth_context \<Rightarrow> cov_db \<Rightarrow> http_error + cov_snapshot option" where
  "get_coverage st ctx db = and_then (require (cvs_enabled st) coverage_off) (\<lambda>_. Inr (latest_coverage (ctx_org ctx) db))"

definition get_snapshots :: "coverage_settings \<Rightarrow> auth_context \<Rightarrow> cov_db \<Rightarrow> http_error + cov_snapshot list" where
  "get_snapshots st ctx db = and_then (require (cvs_enabled st) coverage_off) (\<lambda>_. Inr (list_snapshots (ctx_org ctx) 50 db))"

definition get_one_snapshot :: "coverage_settings \<Rightarrow> auth_context \<Rightarrow> uuid \<Rightarrow> cov_db \<Rightarrow> http_error + cov_snapshot" where
  "get_one_snapshot st ctx i db =
     and_then (require (cvs_enabled st) coverage_off) (\<lambda>_.
       case get_coverage_snapshot (ctx_org ctx) i db of None \<Rightarrow> Inl (HttpError 404 ''snapshot not found'') | Some s \<Rightarrow> Inr s)"

definition list_surfaces :: "coverage_settings \<Rightarrow> auth_context \<Rightarrow> cov_db \<Rightarrow> http_error + cov_surface_row list" where
  "list_surfaces st ctx db = and_then (require (cvs_enabled st) coverage_off) (\<lambda>_. Inr (surface_rows (ctx_org ctx) db))"

definition list_gaps :: "coverage_settings \<Rightarrow> auth_context \<Rightarrow> cov_db \<Rightarrow> http_error + cov_gap_row list" where
  "list_gaps st ctx db =
     and_then (require (cvs_enabled st) coverage_off) (\<lambda>_.
       Inr (case latest_coverage (ctx_org ctx) db of None \<Rightarrow> [] | Some s \<Rightarrow> gap_rows (ctx_org ctx) (csn_id s) db))"

definition list_recommendations :: "coverage_settings \<Rightarrow> auth_context \<Rightarrow> cov_db \<Rightarrow> http_error + cov_reco_row list" where
  "list_recommendations st ctx db =
     and_then (require (cvs_enabled st) coverage_off) (\<lambda>_.
       Inr (case latest_coverage (ctx_org ctx) db of None \<Rightarrow> [] | Some s \<Rightarrow> reco_rows (ctx_org ctx) (csn_id s) db))"

definition mark_reco :: "uuid \<Rightarrow> reco_status \<Rightarrow> cov_db \<Rightarrow> cov_db" where
  "mark_reco i st db = db\<lparr>cb_recos := map (\<lambda>r. if crr_id r = i then r\<lparr>crr_status := st\<rparr> else r) (cb_recos db)\<rparr>"

definition accept_recommendation :: "coverage_settings \<Rightarrow> auth_context \<Rightarrow> uuid \<Rightarrow> cov_db \<Rightarrow> cov_db \<times> (http_error + unit)" where
  "accept_recommendation st ctx i db =
     (if \<not> cvs_enabled st then (db, Inl coverage_off)
      else case get_recommendation (ctx_org ctx) i db of
        None \<Rightarrow> (db, Inl (HttpError 404 ''recommendation not found''))
      | Some r \<Rightarrow> (add_coverage_audit (ctx_org ctx) (ctx_key_id ctx) None ''recommendation_accepted''
                   (action_value (cn_action (crr_reco r))) (mark_reco i RecoAccepted db), Inr ()))"

definition dismiss_recommendation :: "coverage_settings \<Rightarrow> auth_context \<Rightarrow> uuid \<Rightarrow> cov_db \<Rightarrow> cov_db \<times> (http_error + unit)" where
  "dismiss_recommendation st ctx i db =
     (if \<not> cvs_enabled st then (db, Inl coverage_off)
      else case get_recommendation (ctx_org ctx) i db of
        None \<Rightarrow> (db, Inl (HttpError 404 ''recommendation not found''))
      | Some r \<Rightarrow> (add_coverage_audit (ctx_org ctx) (ctx_key_id ctx) None ''recommendation_dismissed'' []
                   (mark_reco i RecoDismissed db), Inr ()))"

definition recalculate ::
  "(string \<Rightarrow> string) \<Rightarrow> (uuid \<Rightarrow> string) \<Rightarrow> coverage_settings \<Rightarrow> datetime \<Rightarrow> uuid \<Rightarrow> (nat \<Rightarrow> uuid) \<Rightarrow> auth_context \<Rightarrow> cov_world \<Rightarrow>
   cov_db \<Rightarrow> cov_db \<times> (http_error + cov_snapshot)" where
  "recalculate sha us st now i fresh ctx w db =
     (if \<not> cvs_enabled st then (db, Inl coverage_off)
      else
        let org = ctx_org ctx; r = calculate_coverage sha us st (risk_tolerance_of org db) org now w in
        case persist_snapshot now i fresh org r db of
          None \<Rightarrow> (db, Inl (HttpError 500 ''integrity error''))
        | Some (db', s, created) \<Rightarrow>
            (add_coverage_audit org (ctx_key_id ctx) (Some (csn_id s)) ''coverage_recalculated''
               (''created='' @ (if created then ''True'' else ''False'')) db', Inr s))"

definition methodology :: "coverage_settings \<Rightarrow> http_error + string \<times> (dimension \<times> rat) list" where
  "methodology st =
     and_then (require (cvs_enabled st) coverage_off) (\<lambda>_.
       Inr (coverage_methodology, map (\<lambda>d. (d, dimension_weight d)) all_dimensions))"

definition read_coverage_policy :: "coverage_settings \<Rightarrow> auth_context \<Rightarrow> cov_db \<Rightarrow> http_error + nat \<times> coverage_policy option" where
  "read_coverage_policy st ctx db =
     and_then (require (cvs_enabled st) coverage_off) (\<lambda>_.
       Inr (case get_coverage_policy (ctx_org ctx) db of None \<Rightarrow> (0, None) | Some p \<Rightarrow> (cpo_version p, Some (cpo_doc p))))"

definition update_coverage_policy ::
  "coverage_settings \<Rightarrow> auth_context \<Rightarrow> coverage_policy \<Rightarrow> cov_db \<Rightarrow> cov_db \<times> (http_error + nat)" where
  "update_coverage_policy st ctx doc db =
     (if \<not> cvs_enabled st then (db, Inl coverage_off)
      else
        let db' = upsert_coverage_policy (ctx_org ctx) doc db;
            v = (case get_coverage_policy (ctx_org ctx) db' of None \<Rightarrow> 0 | Some p \<Rightarrow> cpo_version p)
        in (add_coverage_audit (ctx_org ctx) (ctx_key_id ctx) None ''policy_updated'' (''version='' @ nat_str v) db', Inr v))"

subsection \<open>The job\<close>

text \<open>The organizations are a Python set; the order of the model is one of its orders.\<close>

definition coverage_organizations :: "cov_world \<Rightarrow> org_id list" where
  "coverage_organizations w =
     dedup (map cas_org (wd_repos w) @ map cas_org (wd_rag w) @ map cas_org (wd_mcp w) @ wd_browser_sensors w @ map cag_org (wd_agents w))"

fun coverage_pass ::
  "(string \<Rightarrow> string) \<Rightarrow> (uuid \<Rightarrow> string) \<Rightarrow> coverage_settings \<Rightarrow> datetime \<Rightarrow> (org_id \<Rightarrow> uuid) \<Rightarrow> (org_id \<Rightarrow> nat \<Rightarrow> uuid) \<Rightarrow> cov_world \<Rightarrow>
   org_id list \<Rightarrow> cov_db \<times> nat \<times> nat \<Rightarrow> (cov_db \<times> nat \<times> nat) option" where
  "coverage_pass sha us st now ids recos w [] s = Some s"
| "coverage_pass sha us st now ids recos w (org # orgs) (db, n, created) =
     (case persist_snapshot now (ids org) (recos org) org (calculate_coverage sha us st (risk_tolerance_of org db) org now w) db of
        None \<Rightarrow> None
      | Some (db', s, new) \<Rightarrow>
          coverage_pass sha us st now ids recos w orgs (db', n + 1, created + (if new then 1 else 0)))"

datatype cov_job_result = JobCounts nat nat | JobEmpty | JobRaised

definition coverage_job ::
  "(string \<Rightarrow> string) \<Rightarrow> (uuid \<Rightarrow> string) \<Rightarrow> coverage_settings \<Rightarrow> rel_settings \<Rightarrow> bool \<Rightarrow> datetime \<Rightarrow> (org_id \<Rightarrow> uuid) \<Rightarrow>
   (org_id \<Rightarrow> nat \<Rightarrow> uuid) \<Rightarrow> cov_world \<Rightarrow> cov_db \<Rightarrow> cov_db \<times> cov_job_result" where
  "coverage_job sha us st cfg acquired now ids recos w db =
     (if \<not> scheduler_allowed cfg then (db, JobCounts 0 0)
      else if \<not> cvs_enabled st then (db, JobEmpty)
      else if \<not> acquired then (db, JobEmpty)
      else case coverage_pass sha us st now ids recos w (coverage_organizations w) (db, 0, 0) of
        None \<Rightarrow> (db, JobRaised)
      | Some (db', n, created) \<Rightarrow> (db', JobCounts n created))"

end
