(* ===== verification/Coverage_Props.thy ===== *)
theory Coverage_Props
  imports Coverage_Store "HOL-Library.Sublist"
begin

text \<open>
  What the coverage engine guarantees: scores that stay within their bounds, controls that can only help,
  undefended surfaces that are always reported, recommendations that are ranked without repetition, and
  snapshots that are immutable and idempotent -- and what its comments promise that it does not do.
\<close>

subsection \<open>Rounding and clamping\<close>

lemma round6_mono: "x \<le> y \<Longrightarrow> round6 x \<le> round6 y"
  using round_even_mono [of "x * 1000000" "y * 1000000"] by (simp add: round6_def divide_right_mono)

lemma round6_0: "round6 0 = 0"
  using round_even_int [of 0] by (simp add: round6_def)

lemma round6_1: "round6 1 = 1"
  using round_even_int [of 1000000] by (simp add: round6_def)

lemma round6_nonneg: "0 \<le> x \<Longrightarrow> 0 \<le> round6 x"
  using round6_mono [of 0 x] by (simp add: round6_0)

lemma round6_unit: "0 \<le> x \<Longrightarrow> x \<le> 1 \<Longrightarrow> 0 \<le> round6 x \<and> round6 x \<le> 1"
  using round6_mono [of 0 x] round6_mono [of x 1] by (simp add: round6_0 round6_1)

lemma round6_idem: "round6 (round6 x) = round6 x"
  by (simp add: round6_def)

lemma clamp_unit: "0 \<le> clamp v" "clamp v \<le> 1"
  by (simp_all add: clamp_def)

lemma clamp_mono: "x \<le> y \<Longrightarrow> clamp x \<le> clamp y"
  by (simp add: clamp_def)

lemma clamp_id: "0 \<le> x \<Longrightarrow> x \<le> 1 \<Longrightarrow> clamp x = x"
  by (simp add: clamp_def)

subsection \<open>The scores of a surface\<close>

lemma dimension_score_le:
  "dimension_score cs d \<le> x \<longleftrightarrow>
   0 \<le> x \<and> (\<forall>c \<in> set cs. sc_dimension c = d \<and> sc_status c = CtActive \<longrightarrow> sc_effect c \<le> x)"
proof -
  have "fold (\<lambda>c best. if sc_dimension c = d \<and> sc_status c = CtActive then max best (sc_effect c) else best) cs b \<le> x \<longleftrightarrow>
     b \<le> x \<and> (\<forall>c \<in> set cs. sc_dimension c = d \<and> sc_status c = CtActive \<longrightarrow> sc_effect c \<le> x)" for b
    by (induction cs arbitrary: b) auto
  then show ?thesis by (simp add: dimension_score_def)
qed

lemma dimension_score_mono: "set cs \<subseteq> set cs' \<Longrightarrow> dimension_score cs d \<le> dimension_score cs' d"
  using dimension_score_le [of cs' d "dimension_score cs' d"] by (auto simp: dimension_score_le)

lemma dimension_score_nonneg: "0 \<le> dimension_score cs d"
  using dimension_score_le [of cs d "dimension_score cs d"] by simp

lemma diversity_bonus_mono: "m \<le> n \<Longrightarrow> diversity_bonus m \<le> diversity_bonus n"
  unfolding diversity_bonus_def by (intro min.mono mult_right_mono max.mono) simp_all

lemma diversity_bonus_nonneg: "0 \<le> diversity_bonus n"
  by (simp add: diversity_bonus_def)

definition surface_scores :: "bool \<Rightarrow> surface_control list \<Rightarrow> dimension \<Rightarrow> rat" where
  "surface_scores cross cs d = (if d = DCross then (if cross then 1 else 0) else dimension_score cs d)"

definition control_kinds :: "surface_control list \<Rightarrow> nat" where
  "control_kinds cs = length (remdups (map sc_type (filter (\<lambda>c. sc_status c = CtActive) cs)))"

definition base_score :: "(dimension \<Rightarrow> rat) \<Rightarrow> rat" where
  "base_score f = sum_list (map (\<lambda>d. f d * dimension_weight d) all_dimensions)"

lemma coverage_fields:
  fixes obs :: surface_observation
  shows "sv_surface (compute_surface_coverage cross obs) = so_surface obs"
    and "sv_scores (compute_surface_coverage cross obs) = surface_scores cross (so_controls obs)"
    and "sv_confidence (compute_surface_coverage cross obs) = is_confidence (so_surface obs)"
    and "sv_unknown (compute_surface_coverage cross obs) = (is_confidence (so_surface obs) < unknown_floor)"
    and "sv_coverage (compute_surface_coverage cross obs) = clamp (base_score (surface_scores cross (so_controls obs)) +
      (if surface_scores cross (so_controls obs) DPlacement > 0 then diversity_bonus (control_kinds (so_controls obs)) else 0))"
    and "sv_weighted (compute_surface_coverage cross obs) = (if is_confidence (so_surface obs) < unknown_floor then 0
      else round6 (sv_coverage (compute_surface_coverage cross obs) * is_weight (so_surface obs)))"
  by (simp_all add: compute_surface_coverage_def Let_def surface_scores_def control_kinds_def base_score_def fun_eq_iff
      cong: if_cong)

lemma dimension_weight_pos: "0 \<le> dimension_weight d"
  by (cases d) simp_all

lemma base_score_mono: "(\<And>d. f d \<le> g d) \<Longrightarrow> base_score f \<le> base_score g"
  unfolding base_score_def by (intro sum_list_mono mult_right_mono dimension_weight_pos)

text \<open>
  Controls can only help: adding controls to a surface, in any order and of any kind or status, never
  lowers its coverage, and it stays a number between 0 and 1.
\<close>

theorem coverage_monotone_in_controls:
  assumes "set cs \<subseteq> set cs'"
  shows "0 \<le> sv_coverage (compute_surface_coverage cross (obs\<lparr>so_controls := cs\<rparr>)) \<and>
    sv_coverage (compute_surface_coverage cross (obs\<lparr>so_controls := cs\<rparr>)) \<le>
      sv_coverage (compute_surface_coverage cross (obs\<lparr>so_controls := cs'\<rparr>)) \<and>
    sv_coverage (compute_surface_coverage cross (obs\<lparr>so_controls := cs'\<rparr>)) \<le> 1"
proof -
  have s: "surface_scores cross cs d \<le> surface_scores cross cs' d" for d
    using dimension_score_mono [OF assms] by (simp add: surface_scores_def)
  have "control_kinds cs = card (sc_type ` {c \<in> set cs. sc_status c = CtActive})" for cs
    by (simp add: control_kinds_def length_remdups_card_conv)
  then have "control_kinds cs \<le> control_kinds cs'" using assms by (auto intro!: card_mono)
  then have "(if surface_scores cross cs DPlacement > 0 then diversity_bonus (control_kinds cs) else 0) \<le>
      (if surface_scores cross cs' DPlacement > 0 then diversity_bonus (control_kinds cs') else 0)"
    using s [of DPlacement] diversity_bonus_mono diversity_bonus_nonneg by auto
  then show ?thesis
    unfolding coverage_fields using base_score_mono [of "surface_scores cross cs" "surface_scores cross cs'"] s
    by (auto intro!: clamp_mono add_mono simp: clamp_unit)
qed

definition sample_surface :: inventory_surface where
  "sample_surface = surface_of SRepository ''r'' ''billing'' (55 / 100) (7 / 10) (6 / 10) (6 / 10) True 1 (7 / 10)"

lemma coverage_monotone_in_controls_witness:
  "sv_coverage (compute_surface_coverage False (\<lparr>so_surface = sample_surface, so_controls = []\<rparr>\<lparr>so_controls := []\<rparr>)) \<le>
   sv_coverage (compute_surface_coverage False (\<lparr>so_surface = sample_surface, so_controls = []\<rparr>\<lparr>so_controls :=
     [cov_control CDecoy ''d'' CtActive DPlacement (7 / 10) None]\<rparr>))"
  using coverage_monotone_in_controls [of "[]" "[cov_control CDecoy ''d'' CtActive DPlacement (7 / 10) None]" False
      "\<lparr>so_surface = sample_surface, so_controls = []\<rparr>"] by simp

subsection \<open>What the inventory yields\<close>

definition surface_ok :: "inventory_surface \<Rightarrow> bool" where
  "surface_ok s \<longleftrightarrow> 0 \<le> is_weight s \<and> is_weight s \<le> 1 \<and> round6 (is_weight s) = is_weight s \<and>
     unknown_floor \<le> is_confidence s \<and> is_confidence s \<le> 1"

definition control_ok :: "surface_control \<Rightarrow> bool" where
  "control_ok c \<longleftrightarrow> (sc_dimension c = DPlacement \<longrightarrow> sc_type c = CDecoy) \<and> (sc_type c = CSensor \<longrightarrow> sc_status c = CtActive) \<and>
     sc_status c \<noteq> CtDegraded"

definition observation_ok :: "surface_observation \<Rightarrow> bool" where
  "observation_ok b \<longleftrightarrow> surface_ok (so_surface b) \<and> list_all control_ok (so_controls b)"

lemma confidence_floor:
  assumes "6 / 10 \<le> m" shows "unknown_floor \<le> inventory_confidence_of True h m \<and> inventory_confidence_of True h m \<le> 1"
proof -
  obtain f where f: "f = (if h \<le> 24 then 1 else if h \<le> 168 then 7 / 10 else 4 / 10 :: rat)" by blast
  have f4: "4 / 10 \<le> f" by (simp add: f)
  have c: "6 / 10 \<le> clamp m" using assms by (simp add: clamp_def)
  have "4 / 10 \<le> 9 / 10 * (1 / 2 + 3 / 10 * f + 2 / 10 * clamp m)" using f4 c by (simp add: field_simps)
  then have b: "4 / 10 \<le> clamp (9 / 10 * (1 / 2 + 3 / 10 * f + 2 / 10 * clamp m))" by (simp add: clamp_def)
  have e: "inventory_confidence_of True h m = round6 (clamp (9 / 10 * (1 / 2 + 3 / 10 * f + 2 / 10 * clamp m)))"
    by (simp add: inventory_confidence_of_def Let_def f)
  have "round6 (4 / 10) = 4 / 10" by (simp add: round6_def round_even_def)
  then show ?thesis using round6_mono [OF b] round6_unit [OF clamp_unit] unfolding e unknown_floor_def by metis
qed

lemma surface_of_ok:
  assumes "6 / 10 \<le> m" shows "surface_ok (surface_of kind ext name s b e a True h m)"
proof -
  have "0 \<le> clamp c * (1 / 2 + 1 / 2 * clamp 1) \<and> clamp c * (1 / 2 + 1 / 2 * clamp 1) \<le> 1" for c
    using clamp_unit [of c] by (simp add: clamp_id)
  then have "0 \<le> risk_weight_of c 1 \<and> risk_weight_of c 1 \<le> 1 \<and> round6 (risk_weight_of c 1) = risk_weight_of c 1" for c
    using round6_unit [of "clamp c * (1 / 2 + 1 / 2 * clamp 1)"] by (simp add: risk_weight_of_def round6_idem)
  then show ?thesis using confidence_floor [OF assms] by (simp add: surface_ok_def surface_of_def Let_def)
qed

lemma capability_controls_ok: "list_all control_ok (capability_controls caps has)"
  by (simp add: capability_controls_def control_ok_def cov_control_def)

lemma sensor_controls_ok: "list_all control_ok (sensor_controls us p d)"
  by (simp add: sensor_controls_def control_ok_def cov_control_def split: option.splits)

lemma decoy_status_not_degraded: "decoy_control_status st ex now \<noteq> CtDegraded"
  by (simp add: decoy_control_status_def)

lemma placement_control_ok: "control_ok (placement_control us now v bl ver d)"
  by (simp add: placement_control_def control_ok_def decoy_status_of_def decoy_status_not_degraded)

lemma deployed_controls_ok:
  "list_all control_ok (repo_controls us now v d)" "list_all control_ok (honey_controls us now v e)"
  "list_all control_ok (ai_controls us now v f)"
  by (simp_all add: repo_controls_def honey_controls_def ai_controls_def placement_control_ok sensor_controls_ok)
    (simp_all add: control_ok_def cov_control_def)

lemma with_capabilities_ok:
  "(\<And>d. list_all control_ok (f d)) \<Longrightarrow> list_all control_ok (with_capabilities now caps ds (concat (map f ds)))"
  using capability_controls_ok by (auto simp: with_capabilities_def list_all_iff)

lemma inventory_ok: "b \<in> set (build_inventory us org vmax now w) \<Longrightarrow> observation_ok b"
proof -
  assume "b \<in> set (build_inventory us org vmax now w)"
  then consider "b \<in> set (repository_surfaces us org now vmax w)" | "b \<in> set (database_surfaces us org now vmax w)"
    | "b \<in> set (rag_mcp_surfaces us org now vmax w)" | "b \<in> set (browser_surfaces org now w)" | "b \<in> set (agent_surfaces us org now w)"
    by (auto simp: build_inventory_def)
  then show ?thesis
  proof cases
    case 1
    then show ?thesis
      by (auto simp: repository_surfaces_def Let_def observation_ok_def intro!: surface_of_ok with_capabilities_ok deployed_controls_ok)
  next
    case 2
    then show ?thesis
      by (auto simp: database_surfaces_def Let_def observation_ok_def intro!: surface_of_ok with_capabilities_ok deployed_controls_ok)
  next
    case 3
    then show ?thesis
      by (auto simp: rag_mcp_surfaces_def ai_surfaces_def Let_def observation_ok_def
          intro!: surface_of_ok with_capabilities_ok deployed_controls_ok)
  next
    case 4
    then show ?thesis
      by (auto simp: browser_surfaces_def Let_def observation_ok_def capability_controls_ok intro!: surface_of_ok
          split: option.splits) (auto simp: control_ok_def cov_control_def)
  next
    case 5
    then show ?thesis
      by (auto simp: agent_surfaces_def Let_def observation_ok_def capability_controls_ok intro!: surface_of_ok)
        (auto simp: control_ok_def cov_control_def)
  qed
qed

subsection \<open>One calculation\<close>

lemma calculated_coverage:
  assumes "v \<in> set (cv_surfaces (calculate_from sha tol mx obs))"
  obtains b where "b \<in> set obs" "v = compute_surface_coverage (cross_surface_present obs) b"
  using assms by (auto simp: calculate_from_def Let_def)

lemma weighted_le:
  assumes "observation_ok b"
  shows "0 \<le> sv_weighted (compute_surface_coverage cross b) \<and>
    sv_weighted (compute_surface_coverage cross b) \<le> is_weight (so_surface b) \<and> \<not> sv_unknown (compute_surface_coverage cross b)"
proof -
  obtain c where c: "c = sv_coverage (compute_surface_coverage cross b)" by blast
  have u: "0 \<le> c" "c \<le> 1" unfolding c coverage_fields(5) by (simp_all add: clamp_unit)
  have w: "0 \<le> is_weight (so_surface b)" "round6 (is_weight (so_surface b)) = is_weight (so_surface b)"
    "\<not> is_confidence (so_surface b) < unknown_floor" using assms by (auto simp: observation_ok_def surface_ok_def)
  have "c * is_weight (so_surface b) \<le> is_weight (so_surface b)" using mult_right_mono [OF u(2) w(1)] by simp
  from round6_mono [OF this] show ?thesis
    using w round6_nonneg [of "c * is_weight (so_surface b)"] u(1) unfolding coverage_fields(6,4) c by simp
qed

lemma known_surfaces:
  assumes "\<And>b. b \<in> set obs \<Longrightarrow> observation_ok b"
  shows "filter (\<lambda>v. \<not> sv_unknown v) (map (compute_surface_coverage cross) obs) = map (compute_surface_coverage cross) obs"
    and "filter sv_unknown (map (compute_surface_coverage cross) obs) = []"
  using assms weighted_le by (auto simp: filter_id_conv filter_empty_conv)

lemma calculated_sums:
  assumes "\<And>b. b \<in> set obs \<Longrightarrow> observation_ok b"
  shows "cv_covered (calculate_from sha tol mx obs) =
      round6 (sum_list (map (\<lambda>b. sv_weighted (compute_surface_coverage (cross_surface_present obs) b)) obs))"
    and "cv_total (calculate_from sha tol mx obs) = round6 (sum_list (map (\<lambda>b. is_weight (so_surface b)) obs))"
    and "cv_unknown (calculate_from sha tol mx obs) = 0"
  using known_surfaces [OF assms] by (simp_all add: calculate_from_def Let_def comp_def coverage_fields(1) round6_0)

text \<open>
  C39. The score of a calculation is what it says: no more weight is covered than there is, every surface
  is covered between 0 and 1 with a weighted coverage within its weight, the confidence is a
  probability -- and the inventory never yields an unknown surface, so nothing is reported as unknown.
\<close>

theorem coverage_bounded:
  "0 \<le> cv_covered (calculate_coverage sha us st tol org now w) \<and>
   cv_covered (calculate_coverage sha us st tol org now w) \<le> cv_total (calculate_coverage sha us st tol org now w) \<and>
   0 \<le> cv_confidence (calculate_coverage sha us st tol org now w) \<and> cv_confidence (calculate_coverage sha us st tol org now w) \<le> 1 \<and>
   cv_unknown (calculate_coverage sha us st tol org now w) = 0 \<and>
   (\<forall>v \<in> set (cv_surfaces (calculate_coverage sha us st tol org now w)).
      0 \<le> sv_coverage v \<and> sv_coverage v \<le> 1 \<and> 0 \<le> sv_weighted v \<and> sv_weighted v \<le> is_weight (sv_surface v) \<and> \<not> sv_unknown v)"
proof -
  obtain obs where obs: "obs = build_inventory us org (cvs_max_age_hours st) now w" by blast
  have ok: "observation_ok b" if "b \<in> set obs" for b using that inventory_ok unfolding obs by blast
  let ?c = "compute_surface_coverage (cross_surface_present obs)"
  have m: "sum_list (map (\<lambda>b. sv_weighted (?c b)) obs) \<le> sum_list (map (\<lambda>b. is_weight (so_surface b)) obs)"
    using ok weighted_le by (intro sum_list_mono) blast
  have z: "0 \<le> sum_list (map (\<lambda>b. sv_weighted (?c b)) obs)"
    using ok weighted_le by (intro sum_list_nonneg) auto
  have conf: "0 \<le> aggregate_confidence cs r \<and> aggregate_confidence cs r \<le> 1" for cs r
    using round6_unit [OF clamp_unit] by (simp add: aggregate_confidence_def)
  have "0 \<le> cv_confidence (calculate_from sha tol (cvs_max_recommendations st) obs) \<and>
      cv_confidence (calculate_from sha tol (cvs_max_recommendations st) obs) \<le> 1"
    using conf by (simp add: calculate_from_def Let_def)
  moreover have "0 \<le> sv_coverage v \<and> sv_coverage v \<le> 1 \<and> 0 \<le> sv_weighted v \<and> sv_weighted v \<le> is_weight (sv_surface v) \<and> \<not> sv_unknown v"
    if "v \<in> set (cv_surfaces (calculate_from sha tol (cvs_max_recommendations st) obs))" for v
    using that ok weighted_le by (elim calculated_coverage) (auto simp: coverage_fields(1,5) clamp_unit)
  moreover have "cv_covered (calculate_from sha tol (cvs_max_recommendations st) obs) = round6 (sum_list (map (\<lambda>b. sv_weighted (?c b)) obs))"
    "cv_total (calculate_from sha tol (cvs_max_recommendations st) obs) = round6 (sum_list (map (\<lambda>b. is_weight (so_surface b)) obs))"
    "cv_unknown (calculate_from sha tol (cvs_max_recommendations st) obs) = 0"
    by (rule calculated_sums, erule ok)+
  ultimately show ?thesis
    unfolding calculate_coverage_def obs [symmetric]
    using round6_mono [OF m] round6_nonneg [OF z] by simp
qed

lemma no_decoy_no_placement:
  assumes "list_all control_ok cs" and "\<not> active_decoy cs"
  shows "dimension_score cs DPlacement = 0"
proof -
  have "dimension_score cs DPlacement \<le> 0"
    using assms unfolding dimension_score_le by (auto simp: active_decoy_def control_ok_def list_all_iff list_ex_iff)
  then show ?thesis using dimension_score_nonneg [of cs DPlacement] by simp
qed

lemma control_effects:
  assumes "\<And>c. c \<in> set cs \<Longrightarrow> sc_effect c \<le> 1" shows "dimension_score cs d \<le> 1"
  using assms by (simp add: dimension_score_le)

text \<open>
  C30. An undefended surface is never silent: a surface of the inventory without an active decoy scores
  nothing for placement and the calculation reports its gap -- the missing decoy of its kind, or the expired one --
  whatever other controls it has.
\<close>

theorem undefended_surface_reported:
  assumes b: "b \<in> set (build_inventory us org (cvs_max_age_hours st) now w)"
    and none: "\<not> active_decoy (so_controls b)"
  shows "(\<exists>v \<in> set (cv_surfaces (calculate_coverage sha us st tol org now w)). sv_surface v = so_surface b \<and> sv_scores v DPlacement = 0) \<and>
    (\<exists>g \<in> set (cv_gaps (calculate_coverage sha us st tol org now w)).
      cg_type g = is_type (so_surface b) \<and> cg_ext g = is_ext (so_surface b) \<and>
      cg_gap g = (if has_status CtExpired (so_controls b) then ExpiredNotReplaced else no_decoy_gap (is_type (so_surface b))))"
proof -
  obtain obs where obs: "obs = build_inventory us org (cvs_max_age_hours st) now w" by blast
  let ?v = "compute_surface_coverage (cross_surface_present obs) b"
  have b': "b \<in> set obs" using b obs by simp
  have ok: "list_all control_ok (so_controls b)" using inventory_ok [OF b] by (simp add: observation_ok_def)
  have "?v \<in> set (cv_surfaces (calculate_from sha tol (cvs_max_recommendations st) obs))"
    using b' by (simp add: calculate_from_def Let_def)
  moreover have "sv_scores ?v DPlacement = 0"
    unfolding coverage_fields(2) using no_decoy_no_placement [OF ok none] by (simp add: surface_scores_def)
  moreover have "\<exists>g \<in> set (detect_gaps ?v b). cg_type g = is_type (so_surface b) \<and> cg_ext g = is_ext (so_surface b) \<and>
      cg_gap g = (if has_status CtExpired (so_controls b) then ExpiredNotReplaced else no_decoy_gap (is_type (so_surface b)))"
    using none by (simp add: detect_gaps_def Let_def coverage_fields(1))
  moreover have "set (detect_gaps ?v b) \<subseteq> set (cv_gaps (calculate_from sha tol (cvs_max_recommendations st) obs))"
    using b' by (force simp: calculate_from_def Let_def zip_map1 zip_same_conv_map)
  ultimately show ?thesis
    unfolding calculate_coverage_def obs [symmetric] using coverage_fields(1) [of "cross_surface_present obs" b] by blast
qed

definition empty_world :: cov_world where
  "empty_world = \<lparr>wd_repos = [], wd_repo_decoys = [], wd_honey_decoys = [], wd_rag = [], wd_mcp = [], wd_ai_decoys = [],
     wd_policies = [], wd_agents = [], wd_scope_policies = [], wd_alerts = [], wd_incidents = [], wd_monitors = [],
     wd_browser_sensors = []\<rparr>"

definition sample_world :: cov_world where
  "sample_world = empty_world\<lparr>wd_repos := [\<lparr>cas_id = 3, cas_org = 1, cas_name = ''billing'', cas_created = 0\<rparr>]\<rparr>"

definition sample_coverage_settings :: coverage_settings where
  "sample_coverage_settings = \<lparr>cvs_enabled = True, cvs_max_age_hours = 168, cvs_max_recommendations = 25\<rparr>"

lemma undefended_surface_reported_witness:
  "\<exists>g \<in> set (cv_gaps (calculate_coverage (\<lambda>s. s) nat_str sample_coverage_settings (6 / 10) 1 0 sample_world)). cg_gap g = NoDecoy"
proof -
  obtain b where r: "repository_surfaces nat_str 1 0 168 sample_world = [b]" "so_controls b = []" "is_type (so_surface b) = SRepository"
    by (simp add: repository_surfaces_def sample_world_def empty_world_def with_capabilities_def capability_controls_def
        surface_of_def Let_def)
  have b: "b \<in> set (build_inventory nat_str 1 (cvs_max_age_hours sample_coverage_settings) 0 sample_world)"
    unfolding build_inventory_def using r(1) by (simp add: sample_coverage_settings_def)
  have "\<not> active_decoy (so_controls b)" unfolding r(2) by (simp add: active_decoy_def)
  from undefended_surface_reported [OF b this, of "\<lambda>s. s" "6 / 10"] show ?thesis
    unfolding r(2,3) by (auto simp: has_status_def)
qed

lemma coverage_bounded_witness:
  "cv_covered (calculate_coverage (\<lambda>s. s) nat_str sample_coverage_settings (6 / 10) 1 0 sample_world) \<le>
     cv_total (calculate_coverage (\<lambda>s. s) nat_str sample_coverage_settings (6 / 10) 1 0 sample_world) \<and>
   list_all (\<lambda>v. sv_coverage v \<le> 1) (cv_surfaces (calculate_coverage (\<lambda>s. s) nat_str sample_coverage_settings (6 / 10) 1 0 sample_world))"
  unfolding list_all_iff using coverage_bounded [of "\<lambda>s. s" nat_str sample_coverage_settings "6 / 10" 1 0 sample_world] by blast

subsection \<open>Recommendations\<close>

lemma recommended_positive: "recommend_gap tol v g = Some r \<Longrightarrow> 0 < cn_gain r \<and> 0 < cn_priority r"
  by (auto simp: recommend_gap_def Let_def split: if_splits)

lemma set_map_filter_id: "set (List.map_filter id xs) = {y. Some y \<in> set xs}"
  by (induction xs) (auto simp: List.map_filter_simps split: option.splits)

lemma added_recommendations:
  "distinct (map cn_key rs) \<Longrightarrow>
   distinct (map cn_key (fold add_recommendation xs rs)) \<and> set (fold add_recommendation xs rs) \<subseteq> set xs \<union> set rs"
proof (induction xs arbitrary: rs)
  case (Cons x xs)
  have d: "distinct (map cn_key (add_recommendation x rs))" using Cons.prems by (auto simp: add_recommendation_def)
  have "set (add_recommendation x rs) \<subseteq> insert x (set rs)" by (auto simp: add_recommendation_def)
  then show ?case using Cons.IH [OF d] by auto
qed simp

lemma distinct_map_sort_key: "distinct (map f xs) \<Longrightarrow> distinct (map f (sort_key k xs))"
  by (auto simp: distinct_map)

lemma sorted_by_negation: "sorted (map (\<lambda>x. - f x) xs) \<Longrightarrow> sorted_wrt (\<lambda>x y. f y \<le> (f x :: rat)) xs"
  by (simp add: sorted_wrt_map sorted_map)

text \<open>
  The recommendations of a calculation are a plan one can follow from the top: at most as many as configured,
  ordered from the highest priority down, no action suggested twice for one surface, and every
  one with a positive gain and a positive priority.
\<close>

theorem recommendations_ranked:
  "length (cv_recommendations (calculate_coverage sha us st tol org now w)) \<le> cvs_max_recommendations st \<and>
   sorted_wrt (\<lambda>r s. cn_priority s \<le> cn_priority r) (cv_recommendations (calculate_coverage sha us st tol org now w)) \<and>
   distinct (map cn_key (cv_recommendations (calculate_coverage sha us st tol org now w))) \<and>
   (\<forall>r \<in> set (cv_recommendations (calculate_coverage sha us st tol org now w)). 0 < cn_gain r \<and> 0 < cn_priority r)"
proof -
  have p: "length (build_recommendations tol n gs) \<le> n \<and>
      sorted_wrt (\<lambda>r s. cn_priority s \<le> cn_priority r) (build_recommendations tol n gs) \<and>
      distinct (map cn_key (build_recommendations tol n gs)) \<and>
      (\<forall>r \<in> set (build_recommendations tol n gs). 0 < cn_gain r \<and> 0 < cn_priority r)" for n gs
  proof -
    obtain found where f: "found = List.map_filter id (concat (map (\<lambda>(cov, gaps). map (recommend_gap tol cov) gaps) gs))" by blast
    obtain rs where rs: "rs = fold add_recommendation found []" by blast
    have b: "build_recommendations tol n gs = take n (sort_key (\<lambda>r. - cn_priority r) rs)"
      by (simp add: build_recommendations_def f rs)
    have d: "distinct (map cn_key rs)" "set rs \<subseteq> set found" using added_recommendations [of "[]" found] by (simp_all add: rs)
    have "\<forall>r \<in> set found. 0 < cn_gain r \<and> 0 < cn_priority r"
      unfolding f by (fastforce simp: set_map_filter_id dest: recommended_positive [OF sym])
    moreover have "set (take n (sort_key (\<lambda>r. - cn_priority r) rs)) \<subseteq> set rs"
      using set_take_subset [of n "sort_key (\<lambda>r. - cn_priority r) rs"] by simp
    moreover have "sorted_wrt (\<lambda>r s. cn_priority s \<le> cn_priority r) (sort_key (\<lambda>r. - cn_priority r) rs)"
      by (rule sorted_by_negation) simp
    moreover have "distinct (map cn_key (take n (sort_key (\<lambda>r. - cn_priority r) rs)))"
      unfolding take_map [symmetric] by (intro distinct_take distinct_map_sort_key d)
    ultimately show ?thesis unfolding b using d(2) by (auto intro: sorted_wrt_take)
  qed
  show ?thesis unfolding calculate_coverage_def calculate_from_def Let_def using p by simp
qed

lemma recommendations_ranked_witness:
  "length (cv_recommendations (calculate_coverage (\<lambda>s. s) nat_str sample_coverage_settings (6 / 10) 1 0 sample_world)) \<le> 25 \<and>
   list_all (\<lambda>r. 0 < cn_priority r)
     (cv_recommendations (calculate_coverage (\<lambda>s. s) nat_str sample_coverage_settings (6 / 10) 1 0 sample_world))"
  unfolding list_all_iff
  using recommendations_ranked [of "\<lambda>s. s" nat_str sample_coverage_settings "6 / 10" 1 0 sample_world]
  by (simp add: sample_coverage_settings_def)

subsection \<open>Snapshots\<close>

lemma insort_key_snoc: "f x \<le> f s \<Longrightarrow> insort_key f x (ys @ [s]) = insort_key f x ys @ [s]"
  by (induction ys) auto

lemma sort_key_snoc: "(\<And>x. x \<in> set xs \<Longrightarrow> f x \<le> f s) \<Longrightarrow> sort_key f (xs @ [s]) = sort_key f xs @ [s]"
  by (induction xs) (simp_all add: insort_key_snoc)

lemma latest_appended:
  assumes "\<And>x. x \<in> set (cb_snapshots db) \<Longrightarrow> csn_at x \<le> csn_at s"
  shows "latest_coverage (csn_org s) (db\<lparr>cb_snapshots := cb_snapshots db @ [s], cb_gaps := g, cb_recos := r, cb_surfaces := f\<rparr>) = Some s"
proof -
  have "sort_key csn_at (filter (\<lambda>x. csn_org x = csn_org s) (cb_snapshots db) @ [s]) =
      sort_key csn_at (filter (\<lambda>x. csn_org x = csn_org s) (cb_snapshots db)) @ [s]"
    by (rule sort_key_snoc) (use assms in auto)
  then show ?thesis by (simp add: latest_coverage_def)
qed

lemma persisted:
  assumes "persist_snapshot now i fresh org r db = Some (db', s, new)"
  obtains (same) "\<not> new" "db' = db" "latest_coverage org db = Some s" "same_state r s"
    | (created) rows recos where "new" "s = \<lparr>csn_id = i, csn_org = org, csn_at = now, csn_result = r\<rparr>"
      "db' = db\<lparr>cb_snapshots := cb_snapshots db @ [s],
        cb_gaps := cb_gaps db @ map (\<lambda>g. \<lparr>cgr_org = org, cgr_snapshot = i, cgr_gap = g\<rparr>) (cv_gaps r),
        cb_recos := cb_recos db @ recos, cb_surfaces := rows\<rparr>"
  using assms by (auto simp: persist_snapshot_def Let_def split: option.splits if_splits)

text \<open>
  C29. A snapshot is immutable and taking one is idempotent: persisting a calculation only appends to the
  snapshots, the gaps and the recommendations; a new snapshot is the calculation of its organization;
  and persisting the same calculation again, once its snapshot is the latest, changes nothing.
\<close>

theorem snapshots_immutable:
  assumes "persist_snapshot now i fresh org r db = Some (db', s, new)"
    and "\<And>x. x \<in> set (cb_snapshots db) \<Longrightarrow> csn_at x \<le> now"
  shows "prefix (cb_snapshots db) (cb_snapshots db') \<and> prefix (cb_gaps db) (cb_gaps db') \<and>
    prefix (cb_recos db) (cb_recos db') \<and> (new \<longrightarrow> s \<in> set (cb_snapshots db') \<and> csn_org s = org \<and> csn_result s = r) \<and>
    persist_snapshot now' i' fresh' org r db' = Some (db', s, False)"
  using assms(1)
proof (cases rule: persisted)
  case same
  then show ?thesis by (simp add: persist_snapshot_def Let_def)
next
  case (created rows recos)
  have "latest_coverage (csn_org s) db' = Some s"
    unfolding created(3) by (rule latest_appended) (use assms(2) created(2) in simp)
  then have "latest_coverage org db' = Some s" "same_state r s" using created(2) by (simp_all add: same_state_def)
  then show ?thesis using created by (simp add: persist_snapshot_def Let_def)
qed

definition empty_cov_db :: cov_db where
  "empty_cov_db = \<lparr>cb_snapshots = [], cb_surfaces = [], cb_gaps = [], cb_recos = [], cb_policies = [], cb_audit = []\<rparr>"

definition sample_coverage :: coverage_result where
  "sample_coverage = calculate_from (\<lambda>s. s) (6 / 10) 25 []"

lemma snapshots_immutable_witness:
  "\<exists>db' s. persist_snapshot 9 4 (\<lambda>k. k) 1 sample_coverage empty_cov_db = Some (db', s, True) \<and>
     persist_snapshot 11 5 (\<lambda>k. k) 1 sample_coverage db' = Some (db', s, False)"
proof -
  have "cv_surfaces sample_coverage = []" by (simp add: sample_coverage_def calculate_from_def Let_def)
  then obtain db' s where p: "persist_snapshot 9 4 (\<lambda>k. k) 1 sample_coverage empty_cov_db = Some (db', s, True)"
    by (simp add: persist_snapshot_def latest_coverage_def empty_cov_db_def upsert_surfaces_def Let_def)
  from snapshots_immutable [OF p, of 11 5 "\<lambda>k. k"] p show ?thesis by (simp add: empty_cov_db_def)
qed

text \<open>Every read is confined to the caller's organization.\<close>

lemma coverage_reads_confined:
  "get_coverage st ctx db = Inr (Some s) \<Longrightarrow> csn_org s = ctx_org ctx"
  "get_one_snapshot st ctx i db = Inr s' \<Longrightarrow> csn_org s' = ctx_org ctx"
  "list_gaps st ctx db = Inr gs \<Longrightarrow> g \<in> set gs \<Longrightarrow> cgr_org g = ctx_org ctx"
  "list_recommendations st ctx db = Inr rs \<Longrightarrow> r \<in> set rs \<Longrightarrow> crr_org r = ctx_org ctx"
proof -
  have l: "csn_org s = org" if "latest_coverage org db = Some s" for org
  proof -
    have "s \<in> set (rev (sort_key csn_at (filter (\<lambda>s. csn_org s = org) (cb_snapshots db))))"
      using that unfolding latest_coverage_def by (cases "rev (sort_key csn_at (filter (\<lambda>s. csn_org s = org) (cb_snapshots db)))") simp_all
    then show ?thesis by simp
  qed
  then show "get_coverage st ctx db = Inr (Some s) \<Longrightarrow> csn_org s = ctx_org ctx"
    by (simp add: get_coverage_def and_then_def require_def split: if_splits)
  show "get_one_snapshot st ctx i db = Inr s' \<Longrightarrow> csn_org s' = ctx_org ctx"
    by (auto simp: get_one_snapshot_def and_then_def require_def get_coverage_snapshot_def split: if_splits option.splits)
  show "list_gaps st ctx db = Inr gs \<Longrightarrow> g \<in> set gs \<Longrightarrow> cgr_org g = ctx_org ctx"
    by (auto simp: list_gaps_def and_then_def require_def gap_rows_def split: if_splits option.splits)
  show "list_recommendations st ctx db = Inr rs \<Longrightarrow> r \<in> set rs \<Longrightarrow> crr_org r = ctx_org ctx"
    by (auto simp: list_recommendations_def and_then_def require_def reco_rows_def split: if_splits option.splits)
qed

subsection \<open>What the comments promise and the code does not do\<close>

text \<open>Sensors are listed only while they are active, so none is ever counted as unhealthy.\<close>

lemma no_unhealthy_sensor: "cv_unhealthy_sensors (calculate_coverage sha us st tol org now w) = 0"
proof -
  have "filter (\<lambda>c. sc_type c = CSensor \<and> sc_status c \<in> {CtDegraded, CtFailed}) (so_controls b) = []"
    if "b \<in> set (build_inventory us org (cvs_max_age_hours st) now w)" for b
    using inventory_ok [OF that] by (auto simp: observation_ok_def control_ok_def list_all_iff filter_empty_conv)
  then show ?thesis by (simp add: calculate_coverage_def calculate_from_def Let_def total_length_def)
qed

text \<open>An organization whose only deception is in its databases is not scheduled.\<close>

lemma database_only_not_scheduled: "coverage_organizations (empty_world\<lparr>wd_honey_decoys := ds\<rparr>) = []"
  by (simp add: coverage_organizations_def empty_world_def dedup_def)

text \<open>Two rules for one domain are two surfaces with one key, which cannot be inserted together.\<close>

lemma repeated_surface_refused:
  "surface_key (sv_surface v) = surface_key (sv_surface u) \<Longrightarrow> upsert_surfaces now org [v, u] [] = None"
  by (simp add: upsert_surfaces_def)

text \<open>A decoy deployed without monitoring counts as no decoy.\<close>

lemma unmonitored_is_inactive: "decoy_control_status ''deployed_unmonitored'' None now = CtInactive"
  by (simp add: decoy_control_status_def)

end
