(* ===== verification/Settings_Guard.thy ===== *)
theory Settings_Guard
  imports Replay Rate_Limit Access Encryption
begin

text \<open>
  The start-up contract (\<open>config/settings.py\<close>, \<open>main.py\<close>): the checks every configuration passes when it
  is read, the checks an application outside development passes before it serves, and the stores the
  configuration selects. A field that neither a check nor \<open>Startup_Props\<close> reads is left out of the record; the
  reachability of Redis is an argument.
\<close>

subsection \<open>Configuration\<close>

record app_config =
  ac_env :: string
  ac_role :: string
  ac_dr :: bool
  ac_secondary :: string
  ac_tier :: string
  ac_reserve :: int
  ac_events_per_second :: int
  ac_burst :: int
  ac_api_pool :: int
  ac_worker_pool :: int
  ac_reconcile :: int
  ac_min_coverage :: rat
  ac_limit_mode :: string
  ac_limit_backend :: string
  ac_replay_backend :: string
  ac_redis_url :: "string option"
  ac_redis_prefix :: string
  ac_fail_mode :: string
  ac_analysis_lab :: bool
  ac_auth :: bool
  ac_capacity :: bool
  ac_learning :: bool
  ac_learning_approval :: bool
  ac_global_learning :: bool
  ac_global_cohort :: int
  ac_encryption :: encryption_settings
  ac_signed :: bool
  ac_signed_agents :: bool
  ac_bootstrap :: bool
  ac_bindings :: "(string \<times> string) list"
  ac_bootstrap_until :: "datetime option"
  ac_judge :: bool
  ac_demo :: bool
  ac_demo_key :: "string option"

definition deployment_modes :: "string list" where
  "deployment_modes = [''development'', ''test'', ''judge'', ''staging'', ''production'']"

definition production_like_modes :: "string list" where
  "production_like_modes = [''judge'', ''staging'', ''production'']"

definition demo_modes :: "string list" where "demo_modes = [''development'', ''judge'']"

definition judge_modes :: "string list" where "judge_modes = [''development'', ''judge'']"

definition lab_modes :: "string list" where "lab_modes = [''development'', ''test'']"

definition in_development :: "app_config \<Rightarrow> bool" where
  "in_development cfg \<longleftrightarrow> ac_env cfg = ''development''"

definition production_like :: "app_config \<Rightarrow> bool" where
  "production_like cfg \<longleftrightarrow> ac_env cfg \<in> set production_like_modes"

definition allows_demo :: "app_config \<Rightarrow> bool" where "allows_demo cfg \<longleftrightarrow> ac_env cfg \<in> set demo_modes"

definition allows_judge :: "app_config \<Rightarrow> bool" where "allows_judge cfg \<longleftrightarrow> ac_env cfg \<in> set judge_modes"

definition allows_lab :: "app_config \<Rightarrow> bool" where "allows_lab cfg \<longleftrightarrow> ac_env cfg \<in> set lab_modes"

definition allows_local_scan :: "app_config \<Rightarrow> bool" where "allows_local_scan cfg \<longleftrightarrow> in_development cfg"

definition redis_required :: "app_config \<Rightarrow> bool" where
  "redis_required cfg \<longleftrightarrow> (ac_limit_mode cfg = ''app'' \<and> ac_limit_backend cfg = ''redis'') \<or> ac_replay_backend cfg = ''redis''"

subsection \<open>The checks\<close>

datatype config_error = ConfigValueError string | StartRefused string

definition refuse_if :: "bool \<Rightarrow> 'e \<Rightarrow> 'e + unit" where
  "refuse_if b e = require (\<not> b) e"

text \<open>The model validator, run whenever a configuration is read.\<close>

definition validate_config :: "app_config \<Rightarrow> config_error + unit" where
  "validate_config cfg =
     and_then (require (ac_env cfg \<in> set deployment_modes)
       (ConfigValueError ''app_env must be one of ['development', 'judge', 'production', 'staging', 'test']'')) (\<lambda>_.
     and_then (require (ac_role cfg \<in> {''primary'', ''standby'', ''recovery''})
       (ConfigValueError ''cluster_role must be one of primary, standby, recovery'')) (\<lambda>_.
     and_then (refuse_if (ac_dr cfg \<and> ac_env cfg \<in> {''staging'', ''production''} \<and> ac_secondary cfg = [])
       (ConfigValueError ''secondary_region is required when dr_enabled in staging/production'')) (\<lambda>_.
     and_then (require (ac_tier cfg \<in> {''small'', ''medium'', ''large''})
       (ConfigValueError ''default_tenant_tier must be small, medium, or large'')) (\<lambda>_.
     and_then (require (0 \<le> ac_reserve cfg \<and> ac_reserve cfg < 100)
       (ConfigValueError ''worker_priority_reserve_percent must be in [0, 100)'')) (\<lambda>_.
     and_then (refuse_if (ac_events_per_second cfg \<le> 0 \<or> ac_burst cfg \<le> 0)
       (ConfigValueError ''monitoring event limits must be positive'')) (\<lambda>_.
     and_then (refuse_if (ac_burst cfg < ac_events_per_second cfg)
       (ConfigValueError ''monitoring_max_burst must be at least events per second'')) (\<lambda>_.
     and_then (refuse_if (ac_api_pool cfg \<le> 0 \<or> ac_worker_pool cfg \<le> 0)
       (ConfigValueError ''database pool sizes must be positive'')) (\<lambda>_.
     and_then (refuse_if (ac_reconcile cfg \<le> 0)
       (ConfigValueError ''onboarding reconciliation interval must be positive'')) (\<lambda>_.
     require (0 \<le> ac_min_coverage cfg \<and> ac_min_coverage cfg \<le> 1)
       (ConfigValueError ''onboarding minimum coverage score must be in [0, 1]''))))))))))"

text \<open>The Redis of the URL, pinged: the name of the error when it cannot be reached.\<close>

definition verify_redis :: "(string \<Rightarrow> string option) \<Rightarrow> app_config \<Rightarrow> config_error + unit" where
  "verify_redis ping cfg =
     (case ac_redis_url cfg of
        None \<Rightarrow> Inl (StartRefused ''required Redis is unavailable at startup: REDIS_URL is not configured'')
      | Some url \<Rightarrow> (case ping url of None \<Rightarrow> Inr ()
                     | Some e \<Rightarrow> Inl (StartRefused (''required Redis is unavailable at startup: '' @ e))))"

definition validate_runtime :: "(string \<Rightarrow> string option) \<Rightarrow> app_config \<Rightarrow> config_error + unit" where
  "validate_runtime ping cfg =
     (if in_development cfg then Inr ()
      else
        and_then (refuse_if (ac_limit_mode cfg = ''app'' \<and> ac_limit_backend cfg \<noteq> ''redis'')
          (StartRefused ''production app-level rate limiting requires RATE_LIMIT_BACKEND=redis'')) (\<lambda>_.
        and_then (require (ac_replay_backend cfg = ''redis'')
          (StartRefused ''production replay protection requires REPLAY_BACKEND=redis with REDIS_URL'')) (\<lambda>_.
        and_then (refuse_if (redis_required cfg \<and> ac_redis_url cfg = None)
          (StartRefused ''REDIS_URL is required when a Redis-backed backend is selected'')) (\<lambda>_.
        and_then (refuse_if (ac_analysis_lab cfg \<and> \<not> allows_lab cfg)
          (StartRefused (''ANALYSIS_LAB_ENABLED=true is not permitted in '' @ ac_env cfg))) (\<lambda>_.
        and_then (require (ac_fail_mode cfg = ''closed'')
          (StartRefused ''REDIS_FAIL_MODE must be 'closed' outside development'')) (\<lambda>_.
        and_then (require (ac_auth cfg) (StartRefused ''AUTH_ENABLED=false is not permitted outside development'')) (\<lambda>_.
        and_then (refuse_if (ac_capacity cfg \<and> ac_redis_url cfg = None)
          (StartRefused ''capacity management requires REDIS_URL for shared tenant quota enforcement'')) (\<lambda>_.
        and_then (refuse_if (ac_learning cfg \<and> \<not> ac_learning_approval cfg)
          (StartRefused ''LEARNING_REQUIRE_APPROVAL=false is not permitted outside development'')) (\<lambda>_.
        and_then (refuse_if (ac_global_learning cfg \<and> ac_global_cohort cfg < 10)
          (StartRefused ''global aggregate learning requires LEARNING_MIN_GLOBAL_COHORT_SIZE >= 10'')) (\<lambda>_.
        and_then (refuse_if (en_mode (ac_encryption cfg) = ''disabled'')
          (StartRefused ''production requires an explicit EVIDENCE_ENCRYPTION_MODE'')) (\<lambda>_.
        and_then (require (ac_signed cfg) (StartRefused (ac_env cfg @ '' requires MONITOR_SIGNATURE_REQUIRED=true''))) (\<lambda>_.
        and_then (refuse_if (ac_bootstrap cfg \<and> ac_bindings cfg \<noteq> [] \<and> ac_bootstrap_until cfg = None)
          (StartRefused ''refusing to start: bootstrap API keys are enabled in production without an expiry'')) (\<lambda>_.
        and_then (if redis_required cfg then verify_redis ping cfg else Inr ()) (\<lambda>_.
        and_then (refuse_if (ac_judge cfg \<and> \<not> allows_judge cfg)
          (StartRefused (''JUDGE_WORKSPACE_ENABLED=true is not permitted in '' @ ac_env cfg))) (\<lambda>_.
        refuse_if (ac_demo cfg \<and> \<not> allows_demo cfg)
          (StartRefused (''DEMO_ENABLED=true is not permitted in '' @ ac_env cfg)))))))))))))))))"

text \<open>\<open>create_app\<close>: the configuration is read, then it must be fit to run.\<close>

definition create_app :: "(string \<Rightarrow> string option) \<Rightarrow> app_config \<Rightarrow> config_error + unit" where
  "create_app ping cfg = and_then (validate_config cfg) (\<lambda>_. validate_runtime ping cfg)"

subsection \<open>What the configuration selects\<close>

definition access_settings_of :: "app_config \<Rightarrow> access_settings" where
  "access_settings_of cfg = \<lparr>auth_enabled = ac_auth cfg, is_development = in_development cfg,
     demo_api_key = (case ac_demo_key cfg of None \<Rightarrow> [] | Some k \<Rightarrow> k), api_key_bindings = ac_bindings cfg,
     bootstrap_keys_enabled = ac_bootstrap cfg, bootstrap_expires_at = ac_bootstrap_until cfg\<rparr>"

text \<open>\<open>build_replay_store\<close> and \<open>build_rate_limiter\<close>, over both stores: only the selected one is used.\<close>

definition replay_store ::
  "(rat \<Rightarrow> string \<Rightarrow> rat \<Rightarrow> 'r \<Rightarrow> ('r \<times> bool) option) \<Rightarrow> app_config \<Rightarrow>
   rat \<Rightarrow> string \<Rightarrow> rat \<Rightarrow> nonce_table \<times> 'r \<Rightarrow> (nonce_table \<times> 'r) \<times> (store_error + bool)" where
  "replay_store set_nx cfg now key ttl s =
     (if ac_replay_backend cfg = ''redis''
      then (case redis_reserve set_nx (ac_redis_prefix cfg) (ac_fail_mode cfg = ''open'') now key ttl (snd s) of
              (r, x) \<Rightarrow> ((fst s, r), x))
      else (case memory_reserve now key ttl (fst s) of (m, x) \<Rightarrow> ((m, snd s), x)))"

definition rate_limiter ::
  "(rat \<Rightarrow> string \<Rightarrow> string \<Rightarrow> 'r \<Rightarrow> ('r \<times> int) option) \<Rightarrow> (string \<Rightarrow> string \<Rightarrow> 'r \<Rightarrow> 'r option) \<Rightarrow> app_config \<Rightarrow>
   rat \<Rightarrow> string \<Rightarrow> string \<Rightarrow> int \<Rightarrow> hit_table \<times> 'r \<Rightarrow> (hit_table \<times> 'r) \<times> bool" where
  "rate_limiter pipe zrem cfg now member key limit s =
     (if ac_limit_backend cfg = ''redis''
      then (case redis_allow pipe zrem (ac_redis_prefix cfg) (ac_fail_mode cfg = ''open'') now member key limit (snd s) of
              (r, ok) \<Rightarrow> ((fst s, r), ok))
      else (case memory_allow now key limit (fst s) of (h, ok) \<Rightarrow> ((h, snd s), ok)))"

subsection \<open>A deployment that has started\<close>

lemma refuse_if_Inr [guard_simps]: "refuse_if b e = Inr u \<longleftrightarrow> \<not> b"
  by (simp add: refuse_if_def require_Inr_iff)

lemma app_started:
  assumes "create_app ping cfg = Inr ()" and "\<not> in_development cfg"
  shows "ac_env cfg \<in> {''test'', ''judge'', ''staging'', ''production''}"
    and "ac_replay_backend cfg = ''redis''" and "ac_fail_mode cfg = ''closed''"
    and "ac_limit_mode cfg = ''app'' \<Longrightarrow> ac_limit_backend cfg = ''redis''"
    and "\<exists>url. ac_redis_url cfg = Some url \<and> ping url = None"
    and "ac_auth cfg" and "ac_signed cfg" and "en_mode (ac_encryption cfg) \<noteq> ''disabled''"
    and "ac_bootstrap cfg \<Longrightarrow> ac_bindings cfg \<noteq> [] \<Longrightarrow> ac_bootstrap_until cfg \<noteq> None"
    and "ac_analysis_lab cfg \<Longrightarrow> allows_lab cfg" and "ac_judge cfg \<Longrightarrow> allows_judge cfg" and "ac_demo cfg \<Longrightarrow> allows_demo cfg"
    and "ac_learning cfg \<Longrightarrow> ac_learning_approval cfg"
proof -
  have c: "validate_config cfg = Inr ()" and r: "validate_runtime ping cfg = Inr ()"
    using assms(1) by (auto simp: create_app_def and_then_Inr_iff)
  show "ac_env cfg \<in> {''test'', ''judge'', ''staging'', ''production''}"
    using c assms(2) by (auto simp: validate_config_def and_then_Inr_iff require_Inr_iff deployment_modes_def in_development_def)
  note r = r [unfolded validate_runtime_def if_not_P [OF assms(2)] and_then_Inr_iff require_Inr_iff refuse_if_Inr]
  show "ac_replay_backend cfg = ''redis''" "ac_fail_mode cfg = ''closed''" "ac_auth cfg" "ac_signed cfg"
    "en_mode (ac_encryption cfg) \<noteq> ''disabled''" "ac_limit_mode cfg = ''app'' \<Longrightarrow> ac_limit_backend cfg = ''redis''"
    using r by blast+
  show "ac_bootstrap cfg \<Longrightarrow> ac_bindings cfg \<noteq> [] \<Longrightarrow> ac_bootstrap_until cfg \<noteq> None"
    "ac_analysis_lab cfg \<Longrightarrow> allows_lab cfg" "ac_judge cfg \<Longrightarrow> allows_judge cfg" "ac_demo cfg \<Longrightarrow> allows_demo cfg"
    "ac_learning cfg \<Longrightarrow> ac_learning_approval cfg"
    using r by simp_all
  show "\<exists>url. ac_redis_url cfg = Some url \<and> ping url = None"
    using r by (auto simp: redis_required_def verify_redis_def split: option.splits if_splits)
qed

definition sample_config :: app_config where
  "sample_config = \<lparr>ac_env = ''production'', ac_role = ''primary'', ac_dr = False, ac_secondary = [], ac_tier = ''small'',
     ac_reserve = 30, ac_events_per_second = 20, ac_burst = 50, ac_api_pool = 10, ac_worker_pool = 5, ac_reconcile = 30,
     ac_min_coverage = 0, ac_limit_mode = ''app'', ac_limit_backend = ''redis'', ac_replay_backend = ''redis'',
     ac_redis_url = Some ''redis://r'', ac_redis_prefix = ''df'', ac_fail_mode = ''closed'', ac_analysis_lab = False, ac_auth = True,
     ac_capacity = False, ac_learning = False, ac_learning_approval = True, ac_global_learning = False, ac_global_cohort = 25,
     ac_encryption = \<lparr>en_mode = ''local'', en_key = None\<rparr>, ac_signed = True, ac_signed_agents = True, ac_bootstrap = False, ac_bindings = [],
     ac_bootstrap_until = None, ac_judge = False, ac_demo = False, ac_demo_key = None\<rparr>"

lemma sample_starts: "create_app (\<lambda>_. None) sample_config = Inr ()"
  by (simp add: sample_config_def create_app_def validate_config_def validate_runtime_def refuse_if_def deployment_modes_def
      in_development_def redis_required_def verify_redis_def)

lemma sample_production: "\<not> in_development sample_config"
  by (simp add: sample_config_def in_development_def)

subsection \<open>What the start-up checks miss\<close>

text \<open>
  Nothing requires an encryption key: this production configuration starts, its evidence provider cannot be built, and
  the always-on cipher of the signing secrets uses the fallback key written in the source.
\<close>

lemma started_without_key:
  "create_app (\<lambda>_. None) sample_config = Inr ()"
  "build_encryption_provider fe dg (ac_encryption sample_config) = Inl MissingKey"
  "secret_cipher fe dg (ac_encryption sample_config) = local_provider fe dg dev_key_material"
  by (rule sample_starts) (simp_all add: sample_config_def build_encryption_provider_def given_key_def secret_cipher_def)

text \<open>The check that capacity management has a Redis can never be the one that refuses.\<close>

lemma capacity_check_unreachable:
  "validate_runtime ping cfg \<noteq> Inl (StartRefused ''capacity management requires REDIS_URL for shared tenant quota enforcement'')"
  by (auto simp: validate_runtime_def and_then_Inl_iff and_then_Inr_iff require_Inr_iff require_Inl_iff refuse_if_def redis_required_def
      verify_redis_def split: option.splits if_splits)

end
