(* ===== verification/Startup_Props.thy ===== *)
theory Startup_Props
  imports Settings_Guard Pipeline Browser_Sensor AI_Events Agent_Session
begin

text \<open>
  What the start-up contract (\<open>Settings_Guard\<close>) means at the endpoints: the settings the ingestion endpoints
  read are taken from the configuration, and in a deployment that has started an accepted event was signed,
  agent events excepted when the configuration says so.
\<close>

subsection \<open>What the endpoints read of the configuration\<close>




definition agent_settings_of :: "app_config \<Rightarrow> ingest_settings \<Rightarrow> ingest_settings" where
  "agent_settings_of cfg st = st\<lparr>ig_require_signed := ac_signed_agents cfg, ig_auth_enabled := ac_auth cfg,
     ig_signature_required := ac_signed cfg\<rparr>"

subsection \<open>An accepted event was signed\<close>







subsection \<open>The agents' switch\<close>

text \<open>
  No start-up check reads \<open>require_signed_agent_events\<close>: a production configuration that switches it off starts,
  and then a caller with the key of an active sensor is taken for that sensor without any signature.
\<close>

lemma unsigned_agents_started:
  "create_app (\<lambda>_. None) (sample_config\<lparr>ac_signed_agents := False\<rparr>) = Inr ()"
  "sensor_for_key (ctx_org auth) (ctx_key_id auth) w = Some sensor \<Longrightarrow>
   snd (identify_sensor verify (agent_settings_of (sample_config\<lparr>ac_signed_agents := False\<rparr>) st) now auth rq w) = Inr (sn_id sensor)"
  by (simp_all add: sample_config_def create_app_def validate_config_def validate_runtime_def refuse_if_def deployment_modes_def
      in_development_def redis_required_def verify_redis_def agent_settings_of_def identify_sensor_def)

end
