(* ===== verification/Context_Engine.thy ===== *)
theory Context_Engine
  imports Severity_Model Learning_Stats
begin

text \<open>
  The repository profile (\<open>models/domain/intelligence.py\<close>) and the context engine that classifies an
  organization from it (\<open>services/context_engine\<close>): features, normalisation, classification, scores and the
  assembled profile. A float is a rational number; the profile of a scanned repository is an argument, its
  names being ASCII text.
\<close>

subsection \<open>The repository profile\<close>

record tech_evidence =
  tv_name :: string
  tv_confidence :: rat
  tv_evidence :: "string list"

datatype naming_category = NEnvironment | NService | NDatabase | NFile | NFolder | NApi | NResource

fun naming_category_value :: "naming_category \<Rightarrow> string" where
  "naming_category_value NEnvironment = ''environment_variable''"
| "naming_category_value NService = ''service''"
| "naming_category_value NDatabase = ''database''"
| "naming_category_value NFile = ''file''"
| "naming_category_value NFolder = ''folder''"
| "naming_category_value NApi = ''api''"
| "naming_category_value NResource = ''resource''"

datatype naming_style = ScreamingSnake | SnakeStyle | KebabStyle | DotStyle | CamelStyle | PascalStyle | FlatLower | FlatUpper

fun naming_style_value :: "naming_style \<Rightarrow> string" where
  "naming_style_value ScreamingSnake = ''screaming_snake''"
| "naming_style_value SnakeStyle = ''snake''"
| "naming_style_value KebabStyle = ''kebab''"
| "naming_style_value DotStyle = ''dot''"
| "naming_style_value CamelStyle = ''camel''"
| "naming_style_value PascalStyle = ''pascal''"
| "naming_style_value FlatLower = ''flat_lower''"
| "naming_style_value FlatUpper = ''flat_upper''"

datatype name_separator = SepUnderscore | SepHyphen | SepDot | SepSlash | SepNone

fun separator_value :: "name_separator \<Rightarrow> string" where
  "separator_value SepUnderscore = ''underscore''"
| "separator_value SepHyphen = ''hyphen''"
| "separator_value SepDot = ''dot''"
| "separator_value SepSlash = ''slash''"
| "separator_value SepNone = ''none''"

record naming_convention =
  nc_category :: naming_category
  nc_style :: naming_style
  nc_separator :: name_separator
  nc_samples :: "string list"

record naming_profile =
  np_styles :: "naming_convention list"
  np_vocabulary :: "string list"

record secret_location =
  sl_path :: string
  sl_patterns :: "string list"

record repo_profile =
  rf_name :: string
  rf_folders :: "string list"
  rf_languages :: "tech_evidence list"
  rf_frameworks :: "tech_evidence list"
  rf_package_managers :: "tech_evidence list"
  rf_services :: "tech_evidence list"
  rf_technologies :: "tech_evidence list"
  rf_databases :: "tech_evidence list"
  rf_cloud :: "tech_evidence list"
  rf_cicd :: "tech_evidence list"
  rf_documentation :: "tech_evidence list"
  rf_mcp :: "tech_evidence list"
  rf_docker :: "string list"
  rf_kubernetes :: "string list"
  rf_terraform :: "string list"
  rf_naming :: "naming_profile option"
  rf_secrets :: "secret_location list"
  rf_risk_areas :: "string list"
  rf_truncated :: bool

subsection \<open>Features and normalisation\<close>

text \<open>The technologies are a Python set; only membership and the sorted order of it are used.\<close>

definition technologies_of :: "repo_profile \<Rightarrow> string list" where
  "technologies_of p = dedup (map (\<lambda>t. py_lower (tv_name t)) (rf_languages p @ rf_frameworks p @ rf_technologies p))"

definition evidence_count :: "repo_profile \<Rightarrow> nat" where
  "evidence_count p =
     sum_list (map length [rf_languages p, rf_frameworks p, rf_services p, rf_databases p, rf_cloud p, rf_documentation p, rf_mcp p])"

definition naming_styles :: "repo_profile \<Rightarrow> naming_convention list" where
  "naming_styles p = (case rf_naming p of None \<Rightarrow> [] | Some n \<Rightarrow> np_styles n)"

definition vocabulary_of :: "repo_profile \<Rightarrow> string list" where
  "vocabulary_of p = (case rf_naming p of None \<Rightarrow> [] | Some n \<Rightarrow> np_vocabulary n)"

definition environment_conventions :: "repo_profile \<Rightarrow> string list" where
  "environment_conventions p =
     map (\<lambda>c. naming_category_value (nc_category c) @ '':'' @ naming_style_value (nc_style c) @ '':'' @ separator_value (nc_separator c))
       (filter (\<lambda>c. nc_category c = NEnvironment) (naming_styles p))"

subsection \<open>Classification\<close>

datatype archetype = ApplicationService | CloudNative | DataService | DeveloperTooling | UnknownArchetype

fun archetype_value :: "archetype \<Rightarrow> string" where
  "archetype_value ApplicationService = ''application_service''"
| "archetype_value CloudNative = ''cloud_native_platform''"
| "archetype_value DataService = ''data_service''"
| "archetype_value DeveloperTooling = ''developer_tooling''"
| "archetype_value UnknownArchetype = ''unknown''"

datatype maturity = Experimental | Established | Mature | UnknownMaturity

datatype doc_culture = DocNone | DocLight | DocOperational | DocStructured

definition classify_archetype :: "repo_profile \<Rightarrow> archetype" where
  "classify_archetype p =
     (let cloud = (rf_cloud p \<noteq> [] \<or> rf_terraform p \<noteq> [] \<or> rf_kubernetes p \<noteq> []);
          developer = (list_ex (\<lambda>v. v \<in> {''typescript'', ''python'', ''node.js''}) (technologies_of p) \<and> rf_package_managers p \<noteq> [])
      in if cloud then CloudNative
         else if rf_databases p \<noteq> [] then DataService
         else if developer then DeveloperTooling
         else if technologies_of p \<noteq> [] then ApplicationService
         else UnknownArchetype)"

definition maturity_signals :: "repo_profile \<Rightarrow> nat" where
  "maturity_signals p = length (filter id
     [rf_frameworks p \<noteq> [], rf_package_managers p \<noteq> [], rf_services p \<noteq> [], rf_cicd p \<noteq> [], rf_docker p \<noteq> [], rf_terraform p \<noteq> []])"

definition classify_maturity :: "repo_profile \<Rightarrow> maturity" where
  "classify_maturity p =
     (let n = maturity_signals p in
      if n \<ge> 5 then Mature else if n \<ge> 3 then Established else if n \<noteq> 0 then Experimental else UnknownMaturity)"

definition classify_documentation :: "repo_profile \<Rightarrow> doc_culture" where
  "classify_documentation p =
     (let n = length (rf_documentation p) in
      if n \<ge> 3 then DocStructured else if n \<ge> 2 then DocOperational else if n \<noteq> 0 then DocLight else DocNone)"

subsection \<open>Scores\<close>

record context_area =
  ca_name :: string
  ca_priority :: rat
  ca_rationale :: string
  ca_evidence :: "string list"

definition zones_of :: "repo_profile \<Rightarrow> context_area list" where
  "zones_of p =
     sort_key (\<lambda>z. (- ca_priority z, ca_name z))
      ((if rf_secrets p \<noteq> [] \<or> environment_conventions p \<noteq> []
        then [\<lparr>ca_name = ''configuration'', ca_priority = 95 / 100,
               ca_rationale = ''Secret or environment configuration evidence was found.'', ca_evidence = map sl_path (rf_secrets p)\<rparr>]
        else []) @
       (if rf_databases p \<noteq> []
        then [\<lparr>ca_name = ''database'', ca_priority = 9 / 10, ca_rationale = ''Database technology was detected.'',
               ca_evidence = map tv_name (rf_databases p)\<rparr>] else []) @
       (if rf_services p \<noteq> []
        then [\<lparr>ca_name = ''services'', ca_priority = 8 / 10, ca_rationale = ''Service boundaries were detected.'',
               ca_evidence = map tv_name (rf_services p)\<rparr>] else []) @
       (if rf_mcp p \<noteq> []
        then [\<lparr>ca_name = ''mcp'', ca_priority = 9 / 10, ca_rationale = ''MCP configuration was detected.'',
               ca_evidence = map tv_name (rf_mcp p)\<rparr>] else []) @
       (if rf_documentation p \<noteq> []
        then [\<lparr>ca_name = ''documentation'', ca_priority = 65 / 100, ca_rationale = ''Documentation assets were detected.'',
               ca_evidence = map tv_name (rf_documentation p)\<rparr>] else []))"

text \<open>The names whose flag is set, in order.\<close>

definition present_names :: "(string \<times> bool) list \<Rightarrow> string list" where
  "present_names xs = map fst (filter snd xs)"

definition sensitive_assets :: "repo_profile \<Rightarrow> string list" where
  "sensitive_assets p = present_names
     [(''secret_configuration'', rf_secrets p \<noteq> [] \<or> environment_conventions p \<noteq> []), (''database_record'', rf_databases p \<noteq> []),
      (''deployment_configuration'', rf_docker p \<noteq> [] \<or> rf_terraform p \<noteq> []), (''mcp_configuration'', rf_mcp p \<noteq> []),
      (''operational_document'', rf_documentation p \<noteq> [])]"

definition flag :: "bool \<Rightarrow> rat" where
  "flag b = (if b then 1 else 0)"

definition ai_risk :: "repo_profile \<Rightarrow> rat" where
  "ai_risk p = round3 (min 1 (25 / 100 * flag (rf_mcp p \<noteq> []) + 2 / 10 * flag (rf_documentation p \<noteq> []) +
     2 / 10 * flag (rf_services p \<noteq> []) + 15 / 100 * flag (rf_secrets p \<noteq> [])))"

definition database_confidence :: "repo_profile \<Rightarrow> rat" where
  "database_confidence p = (if rf_databases p = [] then 0 else Max (set (map tv_confidence (rf_databases p))))"

definition context_confidence :: "repo_profile \<Rightarrow> rat" where
  "context_confidence p = round3 (min 1 (of_nat (evidence_count p) / 10 * (if rf_truncated p then 75 / 100 else 1)))"

subsection \<open>The context profile\<close>

record org_context =
  oc_repository :: string
  oc_archetype :: archetype
  oc_maturity :: maturity
  oc_vocabulary :: "string list"
  oc_conventions :: "string list"
  oc_sensitive :: "string list"
  oc_zones :: "context_area list"
  oc_high_value :: "string list"
  oc_workflows :: "string list"
  oc_ai_risk :: rat
  oc_database_confidence :: rat
  oc_documentation :: doc_culture
  oc_complexity :: string
  oc_hints :: "string list"
  oc_technologies :: "tech_evidence list"
  oc_naming :: "naming_profile option"
  oc_evidence :: nat
  oc_reasoning :: "string \<times> string list"
  oc_confidence :: rat

definition build_context :: "repo_profile \<Rightarrow> org_context" where
  "build_context p =
     \<lparr>oc_repository = rf_name p, oc_archetype = classify_archetype p, oc_maturity = classify_maturity p,
      oc_vocabulary = vocabulary_of p, oc_conventions = environment_conventions p, oc_sensitive = sensitive_assets p,
      oc_zones = zones_of p, oc_high_value = map ca_name (filter (\<lambda>z. ca_priority z \<ge> 8 / 10) (zones_of p)),
      oc_workflows = present_names
        [(''ci_cd'', rf_cicd p \<noteq> []), (''cloud'', rf_cloud p \<noteq> []), (''database'', rf_databases p \<noteq> []),
         (''documentation'', rf_documentation p \<noteq> []), (''mcp'', rf_mcp p \<noteq> []), (''package_management'', rf_package_managers p \<noteq> [])],
      oc_ai_risk = ai_risk p, oc_database_confidence = database_confidence p, oc_documentation = classify_documentation p,
      oc_complexity =
        (if length (rf_services p) \<ge> 3 \<or> rf_kubernetes p \<noteq> [] then ''high''
         else if rf_services p \<noteq> [] \<or> rf_docker p \<noteq> [] then ''moderate''
         else if evidence_count p \<noteq> 0 then ''low'' else ''unknown''),
      oc_hints = rf_risk_areas p, oc_technologies = rf_languages p @ rf_frameworks p @ rf_technologies p,
      oc_naming = rf_naming p, oc_evidence = evidence_count p,
      oc_reasoning = (archetype_value (classify_archetype p), take 10 (sort (technologies_of p))),
      oc_confidence = context_confidence p\<rparr>"

subsection \<open>Bounds\<close>

lemma round3_unit: "0 \<le> x \<Longrightarrow> x \<le> 1 \<Longrightarrow> 0 \<le> round3 x \<and> round3 x \<le> 1"
  using round3_mono [of x 1] round3_nonneg [of x] round_even_int [of 1000] by (simp add: round3_def)

lemma ai_risk_le: "ai_risk p \<le> 8 / 10"
proof -
  have "min 1 (25 / 100 * flag a + 2 / 10 * flag b + 2 / 10 * flag c + 15 / 100 * flag d) \<le> 8 / 10" for a b c d
    by (simp add: flag_def)
  then show ?thesis
    using round3_mono [of _ "8 / 10"] round_even_int [of 800] unfolding ai_risk_def by (simp add: round3_def)
qed

lemma context_confidence_unit: "0 \<le> context_confidence p \<and> context_confidence p \<le> 1"
  unfolding context_confidence_def by (rule round3_unit) simp_all

end
