(* ===== verification/Placement.thy ===== *)
theory Placement
  imports Context_Engine Deploy_Policy
begin

text \<open>
  Placement reasoning (\<open>services/placement_reasoning\<close>): discovery of candidate locations from the repository
  profile, fixed scoring, the safety filter and the ranked plan.
\<close>

subsection \<open>Contracts\<close>

datatype asset_kind = KSecret | KDatabase | KDocument | KSpreadsheet | KMcp | KEmbedding | KAgent

fun asset_kind_value :: "asset_kind \<Rightarrow> string" where
  "asset_kind_value KSecret = ''secret''"
| "asset_kind_value KDatabase = ''database_record''"
| "asset_kind_value KDocument = ''document''"
| "asset_kind_value KSpreadsheet = ''spreadsheet_row''"
| "asset_kind_value KMcp = ''mcp_config''"
| "asset_kind_value KEmbedding = ''embedding''"
| "asset_kind_value KAgent = ''agent_asset''"

datatype target_type = AgentFolder | ArchitectureDocument | BrowserWorkflow | CiCdFile | ConfigFile | DatabaseRow
  | DocumentationFile | EnvironmentFile | ExampleEnvironment | ExportableReport | WikiPage | LegacyScript | McpConfig
  | RagDocument | SpreadsheetRow

fun target_value :: "target_type \<Rightarrow> string" where
  "target_value AgentFolder = ''agent_accessible_folder''"
| "target_value ArchitectureDocument = ''architecture_document''"
| "target_value BrowserWorkflow = ''browser_ai_workflow''"
| "target_value CiCdFile = ''ci_cd_file''"
| "target_value ConfigFile = ''config_file''"
| "target_value DatabaseRow = ''database_row''"
| "target_value DocumentationFile = ''documentation_file''"
| "target_value EnvironmentFile = ''environment_file''"
| "target_value ExampleEnvironment = ''example_environment_file''"
| "target_value ExportableReport = ''exportable_report''"
| "target_value WikiPage = ''internal_wiki_page''"
| "target_value LegacyScript = ''legacy_script''"
| "target_value McpConfig = ''mcp_config''"
| "target_value RagDocument = ''rag_document''"
| "target_value SpreadsheetRow = ''spreadsheet_row''"

record place_signals =
  ps_visibility :: rat
  ps_agent :: rat
  ps_insider :: rat
  ps_export :: rat
  ps_accidental :: rat
  ps_plausibility :: rat
  ps_safety :: rat
  ps_alignment :: rat
  ps_false_positive :: rat

definition percent_signals :: "rat list \<Rightarrow> place_signals" where
  "percent_signals v = \<lparr>ps_visibility = v ! 0 / 100, ps_agent = v ! 1 / 100, ps_insider = v ! 2 / 100, ps_export = v ! 3 / 100,
     ps_accidental = v ! 4 / 100, ps_plausibility = v ! 5 / 100, ps_safety = v ! 6 / 100, ps_alignment = v ! 7 / 100,
     ps_false_positive = v ! 8 / 100\<rparr>"

text \<open>The table of \<open>_signals\<close>, in hundredths.\<close>

fun signal_values :: "target_type \<Rightarrow> rat list" where
  "signal_values ExampleEnvironment = [85, 80, 55, 75, 70, 90, 90, 90, 10]"
| "signal_values EnvironmentFile = [90, 75, 65, 80, 80, 85, 20, 90, 70]"
| "signal_values DocumentationFile = [80, 80, 65, 80, 75, 90, 90, 85, 15]"
| "signal_values ArchitectureDocument = [85, 85, 65, 80, 70, 85, 85, 90, 15]"
| "signal_values RagDocument = [85, 95, 60, 85, 75, 80, 80, 90, 20]"
| "signal_values CiCdFile = [80, 75, 60, 70, 65, 85, 70, 85, 30]"
| "signal_values McpConfig = [85, 95, 60, 70, 65, 90, 70, 95, 30]"
| "signal_values AgentFolder = [80, 90, 60, 75, 70, 80, 85, 85, 20]"
| "signal_values LegacyScript = [70, 65, 65, 65, 60, 80, 75, 70, 25]"
| "signal_values SpreadsheetRow = [70, 65, 70, 90, 80, 75, 65, 75, 35]"
| "signal_values ExportableReport = [80, 75, 70, 95, 85, 80, 80, 80, 20]"
| "signal_values DatabaseRow = [85, 65, 75, 90, 80, 85, 50, 90, 50]"
| "signal_values ConfigFile = [75, 65, 60, 65, 60, 80, 75, 80, 25]"
| "signal_values WikiPage = [75, 80, 70, 80, 75, 75, 85, 70, 20]"
| "signal_values BrowserWorkflow = [70, 90, 50, 70, 70, 60, 70, 70, 40]"

definition signals_of :: "target_type \<Rightarrow> place_signals" where
  "signals_of t = percent_signals (signal_values t)"

record place_candidate =
  pc_type :: target_type
  pc_location :: string
  pc_kind :: asset_kind
  pc_evidence :: "string list"
  pc_signals :: place_signals
  pc_nonproduction :: bool

record place_score =
  po_priority :: rat
  po_confidence :: rat
  po_detection :: rat
  po_risk :: rat
  po_visibility :: rat
  po_false_positive :: rat

record place_recommendation =
  pr_type :: target_type
  pr_location :: string
  pr_priority :: rat
  pr_confidence :: rat
  pr_reasoning :: "string list"
  pr_detection :: rat
  pr_risk :: rat
  pr_visibility :: rat
  pr_false_positive :: rat
  pr_kind :: asset_kind
  pr_evidence :: "string list"

record place_rejection =
  pj_type :: target_type
  pj_location :: string
  pj_reasons :: "string list"

record placement_plan =
  pp_repository :: string
  pp_context :: org_context
  pp_recommendations :: "place_recommendation list"
  pp_rejected :: "place_rejection list"

subsection \<open>Discovery\<close>

definition candidate_of :: "target_type \<Rightarrow> string \<Rightarrow> asset_kind \<Rightarrow> string list \<Rightarrow> bool \<Rightarrow> place_candidate" where
  "candidate_of t location kind evidence nonproduction =
     \<lparr>pc_type = t, pc_location = location, pc_kind = kind, pc_evidence = sorted_set evidence, pc_signals = signals_of t,
      pc_nonproduction = nonproduction\<rparr>"

definition paths_of :: "tech_evidence list \<Rightarrow> string list" where
  "paths_of items = sorted_set (filter (\<lambda>v. CHR ''/'' \<in> set v \<or> CHR ''.'' \<in> set v) (concat (map tv_evidence items)))"

definition secret_candidates :: "repo_profile \<Rightarrow> org_context \<Rightarrow> place_candidate list" where
  "secret_candidates p ctx =
     map (\<lambda>l. candidate_of
           (if contains (py_lower (sl_path l)) ''example'' \<or> contains (py_lower (sl_path l)) ''sample''
            then ExampleEnvironment else EnvironmentFile)
           (sl_path l) KSecret (sl_path l # oc_conventions ctx) False) (rf_secrets p) @
     (if rf_secrets p = [] \<and> oc_conventions ctx \<noteq> []
      then [candidate_of ExampleEnvironment ''.env.example'' KSecret (oc_conventions ctx) False] else [])"

definition document_candidates :: "repo_profile \<Rightarrow> org_context \<Rightarrow> place_candidate list" where
  "document_candidates p ctx =
     concat (map (\<lambda>path.
       candidate_of (if contains (py_lower path) ''architecture'' \<or> contains (py_lower path) ''design''
                     then ArchitectureDocument else DocumentationFile) path KDocument [path] False #
       (if oc_ai_risk ctx \<ge> 1 / 2
        then [candidate_of RagDocument path KEmbedding [path] False,
              candidate_of WikiPage (''wiki://internal/'' @ path) KDocument [path] False] else []))
       (paths_of (rf_documentation p))) @
     (if rf_documentation p \<noteq> [] \<and> oc_ai_risk ctx \<ge> 7 / 10
      then [candidate_of BrowserWorkflow ''browser-ai://document-workflow'' KAgent [''documentation'', ''ai_exposure_surface''] False]
      else [])"

definition database_candidates :: "repo_profile \<Rightarrow> place_candidate list" where
  "database_candidates p =
     (case rf_databases p of
        [] \<Rightarrow> []
      | d # _ \<Rightarrow> [candidate_of DatabaseRow (''database://'' @ py_lower (tv_name d) @ ''/synthetic-row'') KDatabase [tv_name d] True])"

definition folder_name :: "string \<Rightarrow> string" where
  "folder_name folder = rstrip_chars (\<lambda>c. c = CHR ''/'') (py_lower folder)"

definition folder_candidates :: "string \<Rightarrow> place_candidate list" where
  "folder_candidates folder =
     (if folder_name folder \<in> {''scripts'', ''legacy'', ''migrations''}
      then [candidate_of LegacyScript (folder @ ''/'') KSecret [folder] False] else []) @
     (if folder_name folder \<in> {''data'', ''exports'', ''reports''}
      then [candidate_of SpreadsheetRow (folder @ ''/'') KSpreadsheet [folder] False,
            candidate_of ExportableReport (folder @ ''/'') KDocument [folder] False] else [])"

definition discover :: "repo_profile \<Rightarrow> org_context \<Rightarrow> place_candidate list" where
  "discover p ctx =
     sort_key (\<lambda>c. (target_value (pc_type c), pc_location c))
      (secret_candidates p ctx @ document_candidates p ctx @ database_candidates p @
       map (\<lambda>path. candidate_of CiCdFile path KSecret [path] False) (paths_of (rf_cicd p)) @
       map (\<lambda>path. candidate_of ConfigFile path KSecret [path] False) (rf_docker p @ rf_terraform p) @
       map (\<lambda>path. candidate_of McpConfig path KMcp [path] False) (paths_of (rf_mcp p)) @
       (if rf_mcp p \<noteq> [] \<and> rf_documentation p \<noteq> []
        then [candidate_of AgentFolder ''documentation://agent-accessible'' KAgent [''mcp'', ''documentation''] False] else []) @
       concat (map folder_candidates (rf_folders p)))"

subsection \<open>Scoring and safety\<close>

definition detection_quality :: "place_signals \<Rightarrow> rat" where
  "detection_quality s = 30 / 100 * ps_visibility s + 20 / 100 * ps_agent s + 15 / 100 * ps_insider s + 15 / 100 * ps_export s +
     10 / 100 * ps_accidental s + 10 / 100 * ps_plausibility s"

definition score_candidate :: "place_candidate \<Rightarrow> org_context \<Rightarrow> place_score" where
  "score_candidate c ctx =
     (let s = pc_signals c; detection = detection_quality s; visibility = max (ps_visibility s) (ps_agent s);
          priority = 40 / 100 * detection + 25 / 100 * visibility + 20 / 100 * ps_alignment s + 15 / 100 * ps_safety s;
          factor = 1 / 2 + min (1 / 2) (of_nat (length (pc_evidence c)) / 6);
          confidence = (ps_safety s + ps_alignment s + oc_confidence ctx) / 3 * factor
      in \<lparr>po_priority = round3 priority, po_confidence = round3 confidence, po_detection = round3 detection,
          po_risk = round3 (1 - ps_safety s), po_visibility = round3 visibility, po_false_positive = ps_false_positive s\<rparr>)"

definition minimum_safety :: rat where "minimum_safety = 65 / 100"
definition maximum_false_positive :: rat where "maximum_false_positive = 45 / 100"

definition rejection_reasons :: "place_candidate \<Rightarrow> place_score \<Rightarrow> string list" where
  "rejection_reasons c score =
     (if pc_type c = EnvironmentFile then [''production environment files can break application behavior''] else []) @
     (if pc_nonproduction c then [''database placement requires an explicit non-production scope''] else []) @
     (if ps_safety (pc_signals c) < minimum_safety then [''location safety is below the required threshold''] else []) @
     (if po_false_positive score > maximum_false_positive
      then [''expected false-positive risk is above the allowed threshold''] else [])"

subsection \<open>The plan\<close>

definition recommend_place :: "place_candidate \<Rightarrow> place_score \<Rightarrow> place_recommendation" where
  "recommend_place c s =
     \<lparr>pr_type = pc_type c, pr_location = pc_location c, pr_priority = po_priority s, pr_confidence = po_confidence s,
      pr_reasoning =
        [''Evidence-backed location: '' @ pc_location c @ ''.'',
         ''Context alignment is '' @ fixed2 (ps_alignment (pc_signals c)) @ ''.'',
         ''Safety is '' @ fixed2 (ps_safety (pc_signals c)) @ ''; false-positive risk is '' @ fixed2 (po_false_positive s) @ ''.'',
         ''Detection quality is '' @ fixed2 (po_detection s) @ '' from visibility and access signals.''],
      pr_detection = po_detection s, pr_risk = po_risk s, pr_visibility = po_visibility s,
      pr_false_positive = po_false_positive s, pr_kind = pc_kind c, pr_evidence = pc_evidence c\<rparr>"

definition place_ok :: "org_context \<Rightarrow> place_candidate \<Rightarrow> bool" where
  "place_ok ctx c \<longleftrightarrow> rejection_reasons c (score_candidate c ctx) = []"

definition plan_placements :: "repo_profile \<Rightarrow> org_context \<Rightarrow> placement_plan" where
  "plan_placements p ctx =
     (let cs = discover p ctx;
          accepted = map (\<lambda>c. (c, score_candidate c ctx)) (filter (place_ok ctx) cs);
          rejected = filter (\<lambda>c. \<not> place_ok ctx c) cs
      in \<lparr>pp_repository = rf_name p, pp_context = ctx,
          pp_recommendations = map (\<lambda>(c, s). recommend_place c s)
            (sort_key (\<lambda>(c, s). (- po_priority s, - po_confidence s, pc_location c)) accepted),
          pp_rejected = map (\<lambda>c. \<lparr>pj_type = pc_type c, pj_location = pc_location c,
            pj_reasons = rejection_reasons c (score_candidate c ctx)\<rparr>) rejected\<rparr>)"

end
