(* ===== verification/Decoy_Gen.thy ===== *)
theory Decoy_Gen
  imports Placement Monitoring
begin

text \<open>
  Decoy generation (\<open>services/decoy_generation\<close>): the template registry, the payload generators, the
  validation and the planner. A generated asset extends the asset the deployment and monitoring components read.
  SHA-256, \<open>uuid5\<close> in the URL namespace and the hexadecimal text of a UUID are arguments.
\<close>

subsection \<open>Payloads\<close>

record gen_secret =
  gs_provider :: string
  gs_key :: string
  gs_value :: string
  gs_entropy :: string
  gs_rationale :: string
  gs_style :: string
  gs_authentication :: string
  gs_rotation :: string

record gen_document =
  gd_title :: string
  gd_body :: string
  gd_type :: string
  gd_sensitivity :: string
  gd_trace :: string

record gen_field =
  gf_name :: string
  gf_type :: string
  gf_value :: string

record gen_record =
  gr_table :: string
  gr_entity :: string
  gr_fields :: "gen_field list"
  gr_provenance :: string
  gr_relations :: "string list"
  gr_trace :: string
  gr_safeguard :: string
  gr_fingerprint :: string

datatype gen_payload = PSecret gen_secret | PDocument gen_document | PRecord gen_record

datatype template_id = SecretV1 | DocumentV1 | DatabaseV1

fun template_id_value :: "template_id \<Rightarrow> string" where
  "template_id_value SecretV1 = ''secret_v1''"
| "template_id_value DocumentV1 = ''document_v1''"
| "template_id_value DatabaseV1 = ''database_record_v1''"

record believability_inputs =
  bi_naming :: rat
  bi_entropy :: rat
  bi_context :: rat
  bi_placement :: rat
  bi_schema :: rat
  bi_business :: rat
  bi_risk :: rat

record gen_asset = mon_asset +
  ga_kind :: asset_kind
  ga_payload :: gen_payload
  ga_template :: template_id
  ga_inputs :: believability_inputs
  ga_safe_for_demo :: bool
  ga_checked_names :: "string list"
  ga_collisions :: "string list"
  ga_explanation :: "string list"
  ga_valid :: bool
  ga_reasons :: "string list"

record gen_rejection =
  gj_location :: string
  gj_reasons :: "string list"

record gen_plan =
  gp_repository :: string
  gp_assets :: "gen_asset list"
  gp_rejected :: "gen_rejection list"

subsection \<open>Templates\<close>

record decoy_template =
  tm_id :: template_id
  tm_kind :: asset_kind
  tm_targets :: "target_type list"
  tm_required :: "string list"

definition decoy_templates :: "decoy_template list" where
  "decoy_templates =
     [\<lparr>tm_id = SecretV1, tm_kind = KSecret, tm_targets = [ExampleEnvironment, CiCdFile, ConfigFile, LegacyScript],
       tm_required = [''provider_family'', ''key_name'', ''fake_value'', ''authentication_capability'']\<rparr>,
      \<lparr>tm_id = DocumentV1, tm_kind = KDocument, tm_targets = [ArchitectureDocument, DocumentationFile, ExportableReport, WikiPage],
       tm_required = [''title'', ''body'', ''trace_identifier'', ''sensitivity_label'']\<rparr>,
      \<lparr>tm_id = DatabaseV1, tm_kind = KDatabase, tm_targets = [DatabaseRow],
       tm_required = [''table_name'', ''fields'', ''trace_identifier'', ''synthetic_data_provenance'']\<rparr>]"

definition select_template :: "asset_kind \<Rightarrow> target_type \<Rightarrow> decoy_template option" where
  "select_template kind target = find (\<lambda>t. tm_kind t = kind \<and> target \<in> set (tm_targets t)) decoy_templates"

subsection \<open>Generators\<close>

definition is_letter :: "char \<Rightarrow> bool" where
  "is_letter c = (let n = (of_char c :: nat) in (65 \<le> n \<and> n \<le> 90) \<or> (97 \<le> n \<and> n \<le> 122))"

text \<open>\<open>str.title\<close>: a letter is upper case after anything but a letter.\<close>

fun title_chars :: "bool \<Rightarrow> string \<Rightarrow> string" where
  "title_chars inside [] = []"
| "title_chars inside (c # s) = (if inside then lower_char c else hd (py_upper [c])) # title_chars (is_letter c) s"

definition py_title :: "string \<Rightarrow> string" where
  "py_title s = title_chars False s"

definition dash_to_underscore :: "string \<Rightarrow> string" where
  "dash_to_underscore s = map (\<lambda>c. if c = CHR ''-'' then CHR ''_'' else c) s"

definition gen_vocabulary :: "org_context \<Rightarrow> string" where
  "gen_vocabulary ctx = (case oc_vocabulary ctx of [] \<Rightarrow> ''platform'' | v # _ \<Rightarrow> dash_to_underscore v)"

definition inert_prefix :: string where "inert_prefix = ''dfg_inert_''"

text \<open>\<open>None\<close> is the \<open>ValueError\<close> for a kind without generator.\<close>

definition generate_payload :: "(string \<Rightarrow> string) \<Rightarrow> place_recommendation \<Rightarrow> org_context \<Rightarrow> string \<Rightarrow> gen_payload option" where
  "generate_payload sha rec ctx trace =
     (let v = gen_vocabulary ctx; digest = sha trace in
      case pr_kind rec of
        KSecret \<Rightarrow> Some (PSecret \<lparr>gs_provider = ''internal-service-token'', gs_key = py_upper v @ ''_SERVICE_TOKEN'',
          gs_value = inert_prefix @ take 40 digest, gs_entropy = ''sha256-derived-40-hex'',
          gs_rationale = ''Uses the observed '' @ py_upper v @ '' service vocabulary.'', gs_style = ''upper_snake_case'',
          gs_authentication = ''none'', gs_rotation = ''Rotate on access or every 90 days; value is inert.''\<rparr>)
      | KDocument \<Rightarrow> Some (PDocument \<lparr>gd_title = py_title v @ '' Deployment Runbook'',
          gd_body = ''Internal note: verify '' @ v @ '' deployment handoff before release. Reference: '' @ trace @ ''.'',
          gd_type = ''runbook'', gd_sensitivity = ''internal'', gd_trace = trace\<rparr>)
      | KDatabase \<Rightarrow> Some (PRecord \<lparr>gr_table = v @ ''_customers'', gr_entity = ''enterprise_customer'',
          gr_fields =
            [\<lparr>gf_name = ''external_reference'', gf_type = ''string'', gf_value = trace\<rparr>,
             \<lparr>gf_name = ''organization_name'', gf_type = ''string'', gf_value = ''Northstar '' @ py_title v @ '' Systems''\<rparr>,
             \<lparr>gf_name = ''contact_email'', gf_type = ''string'', gf_value = ''contact@invalid.example''\<rparr>],
          gr_provenance = ''deterministic_synthetic'', gr_relations = [''account_manager_id:synthetic''], gr_trace = trace,
          gr_safeguard = ''no_personal_data'', gr_fingerprint = take 24 digest\<rparr>)
      | _ \<Rightarrow> None)"

subsection \<open>Validation\<close>

fun payload_members :: "gen_payload \<Rightarrow> string list" where
  "payload_members (PSecret _) = [''provider_family'', ''key_name'', ''fake_value'', ''entropy_profile'', ''naming_rationale'',
     ''target_file_style'', ''authentication_capability'', ''rotation_recommendation'']"
| "payload_members (PDocument _) = [''title'', ''body'', ''target_document_type'', ''sensitivity_label'', ''trace_identifier'']"
| "payload_members (PRecord _) = [''table_name'', ''entity_type'', ''fields'', ''synthetic_data_provenance'',
     ''relationship_placeholders'', ''trace_identifier'', ''no_real_person_safeguard'', ''export_detection_fingerprint'']"

text \<open>The texts \<open>str(payload)\<close> of a database record is made of.\<close>

definition record_texts :: "gen_record \<Rightarrow> string list" where
  "record_texts r = [gr_table r, gr_entity r, gr_provenance r, gr_trace r, gr_safeguard r, gr_fingerprint r] @ gr_relations r @
     concat (map (\<lambda>f. [gf_name f, gf_type f, gf_value f]) (gr_fields r))"

fun payload_name :: "gen_payload \<Rightarrow> string" where
  "payload_name (PSecret s) = gs_key s"
| "payload_name (PDocument d) = gd_title d"
| "payload_name (PRecord r) = gr_table r"

definition observed_names :: "org_context \<Rightarrow> string list \<Rightarrow> string list" where
  "observed_names ctx reserved =
     map py_lower ((case oc_naming ctx of None \<Rightarrow> [] | Some n \<Rightarrow> concat (map nc_samples (np_styles n))) @ reserved)"

definition name_collisions :: "gen_payload \<Rightarrow> org_context \<Rightarrow> string list \<Rightarrow> string list" where
  "name_collisions pl ctx reserved =
     (if py_lower (payload_name pl) \<in> set (observed_names ctx reserved) then [payload_name pl] else [])"

definition validation_reasons ::
  "gen_payload \<Rightarrow> place_recommendation \<Rightarrow> decoy_template \<Rightarrow> org_context \<Rightarrow> string list \<Rightarrow> string list" where
  "validation_reasons pl rec t ctx reserved =
     (if pr_type rec \<notin> set (tm_targets t) then [''placement target is not supported by the selected template''] else []) @
     (if list_ex (\<lambda>f. f \<notin> set (payload_members pl)) (tm_required t) then [''template required fields are missing''] else []) @
     (if name_collisions pl ctx reserved \<noteq> [] then [''generated name collides with an observed or reserved name''] else []) @
     (case pl of
        PSecret s \<Rightarrow> if \<not> startswith (gs_value s) inert_prefix then [''secret payload is not inert''] else []
      | PDocument _ \<Rightarrow> []
      | PRecord r \<Rightarrow> if \<not> list_ex (\<lambda>x. contains x ''@invalid.example'') (record_texts r)
                    then [''database payload lacks the synthetic-contact safeguard''] else [])"

subsection \<open>The planner\<close>

record gen_config =
  gc_namespace :: string
  gc_reserved :: "string list"

definition default_gen_config :: gen_config where
  "default_gen_config = \<lparr>gc_namespace = ''deceptiforge'', gc_reserved = []\<rparr>"

definition gen_identifier :: "(string \<Rightarrow> uuid) \<Rightarrow> string \<Rightarrow> string \<Rightarrow> string \<Rightarrow> string \<Rightarrow> uuid" where
  "gen_identifier uuid5 namespace repository location purpose = uuid5 (join_with '':'' [namespace, repository, location, purpose])"

definition trace_of :: "(uuid \<Rightarrow> string) \<Rightarrow> uuid \<Rightarrow> string" where
  "trace_of hex decoy = ''DFG-'' @ py_upper (take 16 (hex decoy))"

definition admitted :: "place_recommendation \<Rightarrow> bool" where
  "admitted rec \<longleftrightarrow> \<not> (pr_confidence rec < 65 / 100 \<or> pr_false_positive rec > 45 / 100)"

definition inputs_of :: "decoy_template \<Rightarrow> place_recommendation \<Rightarrow> believability_inputs" where
  "inputs_of t rec = \<lparr>bi_naming = 9 / 10, bi_entropy = (if tm_kind t = KSecret then 9 / 10 else 7 / 10), bi_context = pr_confidence rec,
     bi_placement = pr_priority rec, bi_schema = 1, bi_business = 8 / 10, bi_risk = pr_risk rec\<rparr>"

datatype gen_outcome = GenAsset gen_asset | GenRejected gen_rejection | GenRaised

definition generate_one ::
  "(string \<Rightarrow> string) \<Rightarrow> (string \<Rightarrow> uuid) \<Rightarrow> (uuid \<Rightarrow> string) \<Rightarrow> gen_config \<Rightarrow> string \<Rightarrow> org_context \<Rightarrow> place_recommendation \<Rightarrow> gen_outcome" where
  "generate_one sha uuid5 hex cfg repository ctx rec =
     (let loc = pr_location rec; reject = (\<lambda>rs. GenRejected \<lparr>gj_location = loc, gj_reasons = rs\<rparr>) in
      if \<not> admitted rec then reject [''placement fails generator safety admission'']
      else case select_template (pr_kind rec) (pr_type rec) of
        None \<Rightarrow> reject [''no approved template supports this accepted placement'']
      | Some t \<Rightarrow>
          (let placement = gen_identifier uuid5 (gc_namespace cfg) repository loc ''placement'';
               decoy = gen_identifier uuid5 (gc_namespace cfg) repository loc (template_id_value (tm_id t));
               trace = trace_of hex decoy
           in case generate_payload sha rec ctx trace of
                None \<Rightarrow> GenRaised
              | Some pl \<Rightarrow>
                  (let reasons = validation_reasons pl rec t ctx (gc_reserved cfg) in
                   if reasons \<noteq> [] then reject reasons
                   else GenAsset
                     \<lparr>as_decoy_id = decoy, as_decoy_type = asset_kind_value (tm_kind t), as_target_location = loc,
                      as_real_credentials = False, as_real_customer_data = False, as_auth_capability = ''none'',
                      as_collision = (name_collisions pl ctx (gc_reserved cfg) \<noteq> []), as_trace = trace,
                      as_placement = placement, as_template = template_id_value (tm_id t),
                      ga_kind = tm_kind t, ga_payload = pl, ga_template = tm_id t, ga_inputs = inputs_of t rec, ga_safe_for_demo = True,
                      ga_checked_names = sorted_set (observed_names ctx (gc_reserved cfg)),
                      ga_collisions = name_collisions pl ctx (gc_reserved cfg),
                      ga_explanation =
                        [''Selected '' @ template_id_value (tm_id t) @ '' for the accepted '' @ target_value (pr_type rec) @ '' placement.'',
                         ''Payload is deterministic, inert, and validated against the organization context.''],
                      ga_valid = True, ga_reasons = []\<rparr>)))"

text \<open>The whole plan: an exception of one placement would end it.\<close>

definition generate_decoys ::
  "(string \<Rightarrow> string) \<Rightarrow> (string \<Rightarrow> uuid) \<Rightarrow> (uuid \<Rightarrow> string) \<Rightarrow> gen_config \<Rightarrow> repo_profile \<Rightarrow> org_context \<Rightarrow> placement_plan \<Rightarrow> gen_plan option" where
  "generate_decoys sha uuid5 hex cfg p ctx plan =
     (let os = map (generate_one sha uuid5 hex cfg (rf_name p) ctx) (pp_recommendations plan) in
      if GenRaised \<in> set os then None
      else Some \<lparr>gp_repository = rf_name p,
             gp_assets = concat (map (\<lambda>u. case u of GenAsset a \<Rightarrow> [a] | _ \<Rightarrow> []) os),
             gp_rejected = concat (map (\<lambda>u. case u of GenRejected r \<Rightarrow> [r] | _ \<Rightarrow> []) os)\<rparr>)"

end
