(* ===== verification/Believability.thy ===== *)
theory Believability
  imports Decoy_Gen
begin

text \<open>
  Believability and safety of generated decoys (\<open>services/believability\<close>), the use case that evaluates a plan
  (\<open>services/pipeline.py\<close>) and the file content a deployment writes (\<open>services/deployment/rendering.py\<close>).
  The similarity ratio of \<open>difflib\<close> is an argument; characters outside ASCII are written as their UTF-8 bytes.
\<close>

subsection \<open>Scoring\<close>

datatype score_name = SNaming | SContext | SPlacement | SSchema | SEntropy | SBusiness | STraceability | SInertness | SCollision
  | SAccidental | STrap

fun default_scoring :: "score_name \<Rightarrow> rat" where
  "default_scoring SNaming = 15"
| "default_scoring SContext = 15"
| "default_scoring SPlacement = 15"
| "default_scoring SSchema = 10"
| "default_scoring SEntropy = 10"
| "default_scoring SBusiness = 10"
| "default_scoring STraceability = 10"
| "default_scoring SInertness = 50"
| "default_scoring SCollision = 25"
| "default_scoring SAccidental = 15"
| "default_scoring STrap = 10"

definition round1 :: "rat \<Rightarrow> rat" where
  "round1 x = of_int (round_even (x * 10)) / 10"

definition weighted_average :: "(score_name \<Rightarrow> rat) \<Rightarrow> (score_name \<Rightarrow> rat) \<Rightarrow> score_name list \<Rightarrow> rat" where
  "weighted_average values weights names =
     round1 (sum_list (map (\<lambda>n. values n * weights n) names) / sum_list (map weights names))"

definition py_isupper :: "string \<Rightarrow> bool" where
  "py_isupper s \<longleftrightarrow> list_ex is_letter s \<and> py_upper s = s"

definition trace_matches :: "gen_asset \<Rightarrow> bool" where
  "trace_matches a \<longleftrightarrow>
     as_trace a \<noteq> [] \<and>
     (case ga_payload a of
        PSecret s \<Rightarrow> startswith (gs_value s) inert_prefix
      | PDocument d \<Rightarrow> gd_trace d = as_trace a
      | PRecord r \<Rightarrow> gr_trace r = as_trace a)"

definition naming_score :: "gen_asset \<Rightarrow> org_context \<Rightarrow> rat" where
  "naming_score a ctx =
     (case ga_payload a of
        PSecret s \<Rightarrow> if oc_conventions ctx \<noteq> [] then (if py_isupper (gs_key s) \<and> CHR ''_'' \<in> set (gs_key s) then 100 else 40)
                    else bi_naming (ga_inputs a) * 100
      | _ \<Rightarrow> bi_naming (ga_inputs a) * 100)"

definition dimension_scores :: "gen_asset \<Rightarrow> org_context \<Rightarrow> place_recommendation \<Rightarrow> rat \<Rightarrow> score_name \<Rightarrow> rat" where
  "dimension_scores a ctx rec inertness n =
     (let template = select_template (ga_kind a) (pr_type rec) in
      case n of
        SNaming \<Rightarrow> round1 (naming_score a ctx)
      | SContext \<Rightarrow> round1 (bi_context (ga_inputs a) * 100)
      | SPlacement \<Rightarrow> if template \<noteq> None \<and> as_target_location a = pr_location rec then 100 else 0
      | SSchema \<Rightarrow> if ga_valid a \<and> template \<noteq> None then 100 else 0
      | SEntropy \<Rightarrow> round1 (bi_entropy (ga_inputs a) * 100)
      | SBusiness \<Rightarrow> round1 (bi_business (ga_inputs a) * 100)
      | STraceability \<Rightarrow> if trace_matches a then 100 else 0
      | SInertness \<Rightarrow> inertness
      | _ \<Rightarrow> 0)"

subsection \<open>Safety\<close>

definition banned_markers :: "string list" where
  "banned_markers = [''fake_secret'', ''canary_token'', ''do_not_use'', ''honeytoken'']"

fun payload_values :: "gen_payload \<Rightarrow> string list" where
  "payload_values (PSecret s) = [gs_key s, gs_value s]"
| "payload_values (PDocument d) = [gd_title d, gd_body d]"
| "payload_values (PRecord r) = gr_table r # map gf_value (gr_fields r)"

definition trapped :: "gen_asset \<Rightarrow> bool" where
  "trapped a \<longleftrightarrow> list_ex (\<lambda>m. contains (py_lower (join_with '' '' (payload_values (ga_payload a)))) m) banned_markers"

definition unsafe_metadata :: "gen_asset \<Rightarrow> bool" where
  "unsafe_metadata a \<longleftrightarrow> as_real_credentials a \<or> as_real_customer_data a \<or> \<not> ga_safe_for_demo a \<or> as_auth_capability a \<noteq> ''none''"

definition secret_not_inert :: "gen_asset \<Rightarrow> bool" where
  "secret_not_inert a \<longleftrightarrow> (case ga_payload a of PSecret s \<Rightarrow> \<not> startswith (gs_value s) inert_prefix | _ \<Rightarrow> False)"

definition record_unguarded :: "gen_asset \<Rightarrow> bool" where
  "record_unguarded a \<longleftrightarrow> (case ga_payload a of PRecord r \<Rightarrow> gr_safeguard r \<noteq> ''no_personal_data'' | _ \<Rightarrow> False)"

definition inertness_of :: "gen_asset \<Rightarrow> rat" where
  "inertness_of a = (if unsafe_metadata a \<or> secret_not_inert a then 0 else 100)"

definition accidental_of :: "gen_asset \<Rightarrow> rat" where
  "accidental_of a = (case ga_payload a of
     PSecret _ \<Rightarrow> 15 | PDocument _ \<Rightarrow> 0 | PRecord _ \<Rightarrow> if record_unguarded a then 100 else 10)"

definition trap_of :: "gen_asset \<Rightarrow> rat" where
  "trap_of a = (if trapped a then 100 else 0)"

definition safety_failures :: "gen_asset \<Rightarrow> string list" where
  "safety_failures a =
     (if unsafe_metadata a then [''asset safety metadata does not guarantee inert demo-safe content''] else []) @
     (if secret_not_inert a then [''secret value is not the approved inert format''] else []) @
     (if trapped a then [''payload contains an obvious deception marker''] else []) @
     (if record_unguarded a then [''database payload lacks the no-personal-data safeguard''] else [])"

subsection \<open>Collisions\<close>

definition name_corpus :: "org_context \<Rightarrow> repo_profile \<Rightarrow> string list \<Rightarrow> string list" where
  "name_corpus ctx p reserved =
     map py_lower ((case oc_naming ctx of None \<Rightarrow> [] | Some n \<Rightarrow> concat (map nc_samples (np_styles n))) @
       map tv_name (rf_services p) @ map tv_name (rf_databases p) @ concat (map sl_patterns (rf_secrets p)) @ reserved)"

definition collision_risk ::
  "(string \<Rightarrow> string \<Rightarrow> rat) \<Rightarrow> gen_asset \<Rightarrow> org_context \<Rightarrow> repo_profile \<Rightarrow> string list \<Rightarrow> rat \<times> string list" where
  "collision_risk ratio a ctx p reserved =
     (let candidate = py_lower (payload_name (ga_payload a)); corpus = name_corpus ctx p reserved in
      if corpus = [] then (0, [])
      else
        let similarity = Max (set (map (ratio candidate) corpus)) in
        if candidate \<in> set corpus then (100, [''Exact collision with observed name: '' @ candidate @ ''.''])
        else if similarity \<ge> 8 / 10 then (round1 (similarity * 80), [''Closest observed-name similarity is '' @ fixed2 similarity @ ''.''])
        else (0, []))"

subsection \<open>The report\<close>

record believability_report = report +
  br_believability :: rat
  br_safety :: rat
  br_scores :: "score_name \<Rightarrow> rat"
  br_collision :: rat
  br_accidental :: rat
  br_trap :: rat
  br_failed :: "string list"
  br_warnings :: "string list"
  br_fixes :: "string list"

record believability_config =
  bc_weights :: "score_name \<Rightarrow> rat"
  bc_reserved :: "string list"
  bc_accept_believability :: rat
  bc_accept_safety :: rat

definition default_believability :: believability_config where
  "default_believability = \<lparr>bc_weights = default_scoring, bc_reserved = [], bc_accept_believability = 80, bc_accept_safety = 85\<rparr>"

definition believability_names :: "score_name list" where
  "believability_names = [SNaming, SContext, SPlacement, SSchema, SEntropy, SBusiness, STraceability]"

definition safety_names :: "score_name list" where
  "safety_names = [SInertness, SCollision, SAccidental, STrap]"

definition decide :: "believability_config \<Rightarrow> string list \<Rightarrow> rat \<Rightarrow> rat \<Rightarrow> rat \<Rightarrow> rat \<Rightarrow> decision" where
  "decide cfg failures believability safety collision trap =
     (if failures \<noteq> [] \<or> collision \<ge> 80 \<or> safety < 70 then REJECT
      else if believability \<ge> bc_accept_believability cfg \<and> safety \<ge> bc_accept_safety cfg \<and> collision \<le> 20 \<and> trap \<le> 10 then ACCEPT
      else WARN)"

definition evaluate_asset ::
  "(string \<Rightarrow> string \<Rightarrow> rat) \<Rightarrow> believability_config \<Rightarrow> gen_asset \<Rightarrow> org_context \<Rightarrow> repo_profile \<Rightarrow> place_recommendation \<Rightarrow>
   believability_report" where
  "evaluate_asset ratio cfg a ctx p rec =
     (let inert = inertness_of a; accidental = accidental_of a; trap = trap_of a;
          (collision, notes) = collision_risk ratio a ctx p (bc_reserved cfg);
          scores = dimension_scores a ctx rec inert;
          all = scores(SCollision := 100 - collision, SAccidental := 100 - accidental, STrap := 100 - trap);
          believability = weighted_average scores (bc_weights cfg) believability_names;
          safety = weighted_average all (bc_weights cfg) safety_names;
          failures = safety_failures a @ (if \<not> ga_valid a then [''generated validation is invalid''] else []) @
            (if scores STraceability = 0 then [''traceability metadata is missing''] else [])
      in \<lparr>rp_decoy_id = as_decoy_id a, rp_decision = decide cfg failures believability safety collision trap,
          br_believability = believability, br_safety = safety, br_scores = scores, br_collision = collision,
          br_accidental = accidental, br_trap = trap, br_failed = failures,
          br_warnings = notes @ (if oc_naming ctx = None then [''Sparse context limits naming confidence.''] else []),
          br_fixes =
            (if collision \<ge> 20 then [''Use a non-colliding name.''] else []) @
            (if scores STraceability = 0 then [''Restore a trace identifier in payload and trigger metadata.''] else []) @
            (if trap \<noteq> 0 then [''Replace visible deception markers with context-native terminology.''] else []) @
            (if inert < 100 then [''Use the approved inert secret format and demo-safe metadata.''] else []) @
            (if scores SPlacement = 0 then [''Align the asset with its accepted placement template.''] else [])\<rparr>)"

subsection \<open>Evaluating a plan\<close>

text \<open>A dictionary comprehension: the last recommendation of a location wins.\<close>

definition recommendation_at :: "placement_plan \<Rightarrow> string \<Rightarrow> place_recommendation option" where
  "recommendation_at plan loc = map_of (rev (map (\<lambda>r. (pr_location r, r)) (pp_recommendations plan))) loc"

definition evaluate_decoys ::
  "(string \<Rightarrow> string \<Rightarrow> rat) \<Rightarrow> gen_asset list \<Rightarrow> org_context \<Rightarrow> repo_profile \<Rightarrow> placement_plan \<Rightarrow> believability_report list" where
  "evaluate_decoys ratio as ctx p plan =
     concat (map (\<lambda>a. case recommendation_at plan (as_target_location a) of
       None \<Rightarrow> [] | Some rec \<Rightarrow> [evaluate_asset ratio default_believability a ctx p rec]) as)"

subsection \<open>The deployed file\<close>

definition deployment_marker :: "(uuid \<Rightarrow> string) \<Rightarrow> uuid \<Rightarrow> string" where
  "deployment_marker us decoy = ''df-decoy-marker:'' @ us decoy"

text \<open>None of the generated payloads has a field the hint looks for.\<close>

definition redacted_hint :: string where
  "redacted_hint = [CHR 0xC2, CHR 0xAB] @ ''synthetic'' @ [CHR 0xC2, CHR 0xBB]"

definition render_decoy_content :: "(uuid \<Rightarrow> string) \<Rightarrow> 'a gen_asset_scheme \<Rightarrow> string" where
  "render_decoy_content us a = join_with [CHR 0x0A]
     [''<!-- '' @ deployment_marker us (as_decoy_id a) @ '' -->'',
      ''# DeceptiForge decoy '' @ [CHR 0xE2, CHR 0x80, CHR 0x94] @ '' synthetic and inert (DO NOT USE)'',
      [],
      ''Deployed by DeceptiForge as a defensive decoy. It contains no real secrets,'',
      ''credentials, or production endpoints. Any access to it is a tripwire.'',
      [],
      ''- decoy-type: '' @ as_decoy_type a,
      ''- trace: '' @ as_trace a,
      ''- synthetic-hint: '' @ redacted_hint,
      ''- deployment-marker: '' @ deployment_marker us (as_decoy_id a),
      []]"

end
