(* ===== verification/Deception_Props.thy ===== *)
theory Deception_Props
  imports Believability "HOL-Library.Multiset"
begin

text \<open>
  The planning chain from a repository profile to a reviewed decoy: what a placement plan promises, which decoys
  are ever generated from it, how the believability gate decides on them, and that an accepted decoy is detected
  once its file is read.
\<close>

subsection \<open>The placement plan\<close>

lemma discovered:
  assumes "c \<in> set (discover p ctx)"
  shows "pc_signals c = signals_of (pc_type c) \<and> (pc_type c = DatabaseRow \<longleftrightarrow> pc_nonproduction c) \<and>
    (length (pc_evidence c) \<le> 1 \<or> (pc_type c \<in> {ExampleEnvironment, EnvironmentFile} \<and> pc_kind c = KSecret) \<or> pc_kind c = KAgent)"
proof -
  consider "c \<in> set (secret_candidates p ctx)" | "c \<in> set (document_candidates p ctx)" | "c \<in> set (database_candidates p)"
    | "c \<in> set (map (\<lambda>path. candidate_of CiCdFile path KSecret [path] False) (paths_of (rf_cicd p)))"
    | "c \<in> set (map (\<lambda>path. candidate_of ConfigFile path KSecret [path] False) (rf_docker p @ rf_terraform p))"
    | "c \<in> set (map (\<lambda>path. candidate_of McpConfig path KMcp [path] False) (paths_of (rf_mcp p)))"
    | "c = candidate_of AgentFolder ''documentation://agent-accessible'' KAgent [''mcp'', ''documentation''] False"
    | folder where "c \<in> set (folder_candidates folder)"
    using assms unfolding discover_def set_sort set_append by (auto split: if_splits)
  then show ?thesis
  proof cases
    case 1
    then show ?thesis by (auto simp: secret_candidates_def candidate_of_def split: if_splits)
  next
    case 2
    then show ?thesis by (auto simp: document_candidates_def candidate_of_def sorted_set_def split: if_splits)
  next
    case 3
    then show ?thesis by (auto simp: database_candidates_def candidate_of_def sorted_set_def split: list.splits)
  next
    case 8
    then show ?thesis by (auto simp: folder_candidates_def candidate_of_def sorted_set_def split: if_splits)
  qed (auto simp: candidate_of_def sorted_set_def)
qed

lemma place_ok_iff:
  "place_ok ctx c \<longleftrightarrow> pc_type c \<noteq> EnvironmentFile \<and> \<not> pc_nonproduction c \<and> minimum_safety \<le> ps_safety (pc_signals c) \<and>
     ps_false_positive (pc_signals c) \<le> maximum_false_positive"
  by (auto simp: place_ok_def rejection_reasons_def score_candidate_def Let_def)

lemma plan_recommendations:
  "pp_recommendations (plan_placements p ctx) =
     map (\<lambda>c. recommend_place c (score_candidate c ctx))
      (sort_key (\<lambda>c. (- po_priority (score_candidate c ctx), - po_confidence (score_candidate c ctx), pc_location c))
        (filter (place_ok ctx) (discover p ctx)))"
proof -
  have i: "insort_key (\<lambda>(c, s). (- po_priority s, - po_confidence s, pc_location c)) (x, score_candidate x ctx)
        (map (\<lambda>c. (c, score_candidate c ctx)) ys) =
      map (\<lambda>c. (c, score_candidate c ctx))
        (insort_key (\<lambda>c. (- po_priority (score_candidate c ctx), - po_confidence (score_candidate c ctx), pc_location c)) x ys)" for x ys
    by (induction ys) auto
  have "sort_key (\<lambda>(c, s). (- po_priority s, - po_confidence s, pc_location c)) (map (\<lambda>c. (c, score_candidate c ctx)) xs) =
      map (\<lambda>c. (c, score_candidate c ctx))
       (sort_key (\<lambda>c. (- po_priority (score_candidate c ctx), - po_confidence (score_candidate c ctx), pc_location c)) xs)" for xs
    by (induction xs) (simp_all add: i)
  then show ?thesis by (simp add: plan_placements_def Let_def)
qed

lemma plan_member:
  assumes "r \<in> set (pp_recommendations (plan_placements p ctx))"
  obtains c where "c \<in> set (discover p ctx)" "place_ok ctx c" "r = recommend_place c (score_candidate c ctx)"
  using assms unfolding plan_recommendations by auto

lemma sorted_first:
  "sorted (map (\<lambda>x. (- f x, g x)) xs) \<Longrightarrow> sorted_wrt (\<lambda>x y. f y \<le> (f x :: rat)) xs"
  by (auto simp: sorted_map elim!: sorted_wrt_mono_rel [rotated])

text \<open>
  A placement plan is complete, ranked and safe: every location discovered is either recommended or
  rejected with a reason, exactly once; the recommendations are ordered from the highest priority down; and none of
  them is a production environment file or a database row, or has a safety below 0.65 or a
  false-positive risk above 0.45.
\<close>

theorem placement_plan_sound:
  "image_mset pr_location (mset (pp_recommendations (plan_placements p ctx))) +
     image_mset pj_location (mset (pp_rejected (plan_placements p ctx))) = image_mset pc_location (mset (discover p ctx)) \<and>
   sorted_wrt (\<lambda>r s. pr_priority s \<le> pr_priority r) (pp_recommendations (plan_placements p ctx)) \<and>
   (\<forall>r \<in> set (pp_recommendations (plan_placements p ctx)).
      pr_type r \<noteq> EnvironmentFile \<and> pr_type r \<noteq> DatabaseRow \<and> 65 / 100 \<le> ps_safety (signals_of (pr_type r)) \<and>
      pr_false_positive r \<le> 45 / 100) \<and>
   (\<forall>j \<in> set (pp_rejected (plan_placements p ctx)). pj_reasons j \<noteq> [])"
proof (intro conjI ballI)
  have l: "pr_location (recommend_place c s) = pc_location c" for c s by (simp add: recommend_place_def)
  have "image_mset pr_location (mset (pp_recommendations (plan_placements p ctx))) =
      image_mset pc_location (filter_mset (place_ok ctx) (mset (discover p ctx)))"
    unfolding plan_recommendations by (simp add: mset_map image_mset.compositionality comp_def l flip: mset_filter)
  moreover have "image_mset pj_location (mset (pp_rejected (plan_placements p ctx))) =
      image_mset pc_location (filter_mset (\<lambda>c. \<not> place_ok ctx c) (mset (discover p ctx)))"
    by (simp add: plan_placements_def Let_def mset_map image_mset.compositionality comp_def flip: mset_filter)
  ultimately show "image_mset pr_location (mset (pp_recommendations (plan_placements p ctx))) +
     image_mset pj_location (mset (pp_rejected (plan_placements p ctx))) = image_mset pc_location (mset (discover p ctx))"
    by (metis image_mset_union multiset_partition)
  show "sorted_wrt (\<lambda>r s. pr_priority s \<le> pr_priority r) (pp_recommendations (plan_placements p ctx))"
    unfolding plan_recommendations sorted_wrt_map recommend_place_def place_recommendation.simps
    by (rule sorted_first) (rule sorted_sort_key)
next
  fix r assume "r \<in> set (pp_recommendations (plan_placements p ctx))"
  then obtain c where c: "c \<in> set (discover p ctx)" "place_ok ctx c" "r = recommend_place c (score_candidate c ctx)"
    by (rule plan_member)
  note d = discovered [OF c(1)]
  show "pr_type r \<noteq> EnvironmentFile" "pr_type r \<noteq> DatabaseRow" "65 / 100 \<le> ps_safety (signals_of (pr_type r))"
    "pr_false_positive r \<le> 45 / 100"
    using d c(2) unfolding place_ok_iff c(3)
    by (auto simp: recommend_place_def score_candidate_def Let_def minimum_safety_def maximum_false_positive_def)
next
  fix j assume "j \<in> set (pp_rejected (plan_placements p ctx))"
  then show "pj_reasons j \<noteq> []" by (auto simp: plan_placements_def Let_def place_ok_def)
qed

subsection \<open>What is generated\<close>

lemma generated:
  assumes "generate_one sha uuid5 hex cfg repository ctx rec = GenAsset a"
  obtains t where "admitted rec" "select_template (pr_kind rec) (pr_type rec) = Some t" "ga_kind a = tm_kind t" "ga_template a = tm_id t"
    "generate_payload sha rec ctx (as_trace a) = Some (ga_payload a)" "as_target_location a = pr_location rec"
    "as_trace a = trace_of hex (as_decoy_id a)" "ga_inputs a = inputs_of t rec" "ga_valid a" "ga_safe_for_demo a"
    "\<not> as_real_credentials a" "\<not> as_real_customer_data a" "as_auth_capability a = ''none''" "\<not> as_collision a"
    "as_decoy_type a = asset_kind_value (tm_kind t)"
  using assms by (auto simp: generate_one_def Let_def validation_reasons_def split: if_splits option.splits)

lemma selected_kind: "select_template kind target = Some t \<Longrightarrow> tm_kind t = kind \<and> target \<in> set (tm_targets t) \<and> t \<in> set decoy_templates"
  unfolding select_template_def by (drule find_Some_mem) auto

lemma template_kinds: "t \<in> set decoy_templates \<Longrightarrow> tm_kind t \<in> {KSecret, KDocument, KDatabase}"
  by (auto simp: decoy_templates_def)

lemma plan_asset:
  assumes "generate_decoys sha uuid5 hex cfg p ctx plan = Some g" and "a \<in> set (gp_assets g)"
  obtains rec where "rec \<in> set (pp_recommendations plan)" "generate_one sha uuid5 hex cfg (rf_name p) ctx rec = GenAsset a"
  using assms by (auto simp: generate_decoys_def Let_def split: if_splits gen_outcome.splits)

lemma payload_shape:
  assumes "generate_payload sha r ctx tr = Some pl"
  shows "case pl of
      PSecret s \<Rightarrow> gs_key s = py_upper (gen_vocabulary ctx) @ ''_SERVICE_TOKEN'' \<and> startswith (gs_value s) inert_prefix \<and>
        gs_authentication s = ''none'' \<and> pr_kind r = KSecret
    | PDocument d \<Rightarrow> gd_trace d = tr \<and> pr_kind r = KDocument
    | PRecord q \<Rightarrow> gr_trace q = tr \<and> gr_safeguard q = ''no_personal_data'' \<and> pr_kind r = KDatabase"
  using assms by (cases "pr_kind r") (auto simp: generate_payload_def Let_def startswith_iff)

lemma payload_cases:
  assumes "generate_payload sha r ctx tr = Some pl"
  obtains s where "pl = PSecret s" "gs_key s = py_upper (gen_vocabulary ctx) @ ''_SERVICE_TOKEN''" "startswith (gs_value s) inert_prefix" "gs_authentication s = ''none''" "pr_kind r = KSecret"
    | d where "pl = PDocument d" "gd_trace d = tr" "pr_kind r = KDocument"
    | q where "pl = PRecord q" "gr_trace q = tr" "gr_safeguard q = ''no_personal_data''" "pr_kind r = KDatabase"
  using payload_shape [OF assms] by (cases pl) auto

text \<open>Every kind with a template has a generator, so no placement ends the plan with an exception.\<close>

lemma generate_one_total: "generate_one sha uuid5 hex cfg repository ctx r \<noteq> GenRaised"
proof (cases "select_template (pr_kind r) (pr_type r)")
  case (Some t)
  have "pr_kind r \<in> {KSecret, KDocument, KDatabase}" using selected_kind [OF Some] template_kinds by metis
  then have "generate_payload sha r ctx tr \<noteq> None" for tr by (auto simp: generate_payload_def Let_def)
  then have "\<exists>y. generate_payload sha r ctx tr = Some y" for tr by auto
  then obtain f where "generate_payload sha r ctx tr = Some (f tr)" for tr by metis
  then show ?thesis using Some by (simp add: generate_one_def Let_def)
qed (simp add: generate_one_def Let_def)

lemma generation_total:
  obtains g where "generate_decoys sha uuid5 hex cfg p ctx plan = Some g"
proof -
  have "GenRaised \<notin> set (map (generate_one sha uuid5 hex cfg (rf_name p) ctx) (pp_recommendations plan))"
    using generate_one_total by (metis ex_map_conv)
  then show thesis using that unfolding generate_decoys_def Let_def by (metis (full_types))
qed

lemma generated_member:
  assumes "generate_decoys sha uuid5 hex cfg p ctx plan = Some g" and "r \<in> set (pp_recommendations plan)"
    and "generate_one sha uuid5 hex cfg (rf_name p) ctx r = GenAsset a"
  shows "a \<in> set (gp_assets g)"
  using assms by (force simp: generate_decoys_def Let_def split: if_splits)

text \<open>With one piece of evidence no candidate reaches the confidence the generator demands.\<close>

lemma signals_sum: "ps_safety (signals_of t) + ps_alignment (signals_of t) \<le> 18 / 10"
  by (cases t) (simp_all add: signals_of_def percent_signals_def numeral_eq_Suc)

lemma single_evidence_not_admitted:
  assumes "pc_signals c = signals_of (pc_type c)" and "length (pc_evidence c) \<le> 1" and "0 \<le> oc_confidence ctx" and "oc_confidence ctx \<le> 1"
  shows "\<not> admitted (recommend_place c (score_candidate c ctx))"
proof -
  have n: "of_nat (length (pc_evidence c)) \<le> (1 :: rat)" using assms(2) by (metis of_nat_1 of_nat_le_iff)
  then have f: "1 / 2 + min (1 / 2) (of_nat (length (pc_evidence c)) / 6) \<le> (2 / 3 :: rat)" by simp
  have f0: "0 \<le> 1 / 2 + min (1 / 2) (of_nat (length (pc_evidence c)) / (6 :: rat))" by simp
  have s: "(ps_safety (pc_signals c) + ps_alignment (pc_signals c) + oc_confidence ctx) / 3 \<le> 28 / 30"
    using signals_sum [of "pc_type c"] assms(1,4) by simp
  have "(ps_safety (pc_signals c) + ps_alignment (pc_signals c) + oc_confidence ctx) / 3 *
      (1 / 2 + min (1 / 2) (of_nat (length (pc_evidence c)) / 6)) \<le> 28 / 30 * (2 / 3)"
    using mult_mono [OF s f] f0 by simp
  then have "(ps_safety (pc_signals c) + ps_alignment (pc_signals c) + oc_confidence ctx) / 3 *
      (1 / 2 + min (1 / 2) (of_nat (length (pc_evidence c)) / 6)) \<le> 63 / 100" by simp
  from round3_mono [OF this] have "po_confidence (score_candidate c ctx) \<le> 63 / 100"
    using round_even_int [of 630] by (simp add: score_candidate_def Let_def round3_def)
  then show ?thesis by (simp add: admitted_def recommend_place_def)
qed

text \<open>
  C13. What is generated from a repository's own plan is only this: inert secrets for example environment files.
  Every other kind of location has a single piece of evidence, which can never reach the confidence the
  generator demands, or no template; so neither documents nor database records are ever generated.
\<close>

theorem only_example_secrets_generated:
  assumes "generate_decoys sha uuid5 hex cfg p (build_context p) (plan_placements p (build_context p)) = Some g"
    and "a \<in> set (gp_assets g)"
  shows "\<exists>s. ga_payload a = PSecret s \<and> startswith (gs_value s) inert_prefix \<and> gs_authentication s = ''none'' \<and>
    (\<exists>r \<in> set (pp_recommendations (plan_placements p (build_context p))).
       pr_type r = ExampleEnvironment \<and> pr_location r = as_target_location a)"
proof -
  obtain r where r: "r \<in> set (pp_recommendations (plan_placements p (build_context p)))"
    "generate_one sha uuid5 hex cfg (rf_name p) (build_context p) r = GenAsset a"
    using assms by (rule plan_asset)
  obtain c where c: "c \<in> set (discover p (build_context p))" "place_ok (build_context p) c"
    "r = recommend_place c (score_candidate c (build_context p))" using r(1) by (rule plan_member)
  obtain t where t: "admitted r" "select_template (pr_kind r) (pr_type r) = Some t"
    "generate_payload sha r (build_context p) (as_trace a) = Some (ga_payload a)" "as_target_location a = pr_location r"
    using r(2) by (rule generated)
  have k: "pr_kind r \<in> {KSecret, KDocument, KDatabase}" using selected_kind [OF t(2)] template_kinds by metis
  have "pc_kind c = pr_kind r" "pc_type c = pr_type r" by (simp_all add: c(3) recommend_place_def)
  moreover have "\<not> length (pc_evidence c) \<le> 1"
    using single_evidence_not_admitted [of c "build_context p"] discovered [OF c(1)] t(1) c(3) context_confidence_unit [of p]
    by (auto simp: build_context_def)
  ultimately have k: "pr_type r = ExampleEnvironment" "pr_kind r = KSecret"
    using discovered [OF c(1)] c(2) k by (auto simp: place_ok_iff)
  show ?thesis by (rule payload_cases [OF t(3)]) (use t(4) r(1) k in auto)
qed

subsection \<open>The gate\<close>

lemma round1_mono: "x \<le> y \<Longrightarrow> round1 x \<le> round1 y"
  using round_even_mono [of "x * 10" "y * 10"] by (simp add: round1_def divide_right_mono)

lemma round1_int [simp]: "round1 (of_int z) = of_int z"
  using round_even_int [of "z * 10"] by (simp add: round1_def)

lemma round1_numeral [simp]: "round1 (numeral n) = numeral n" "round1 0 = 0"
  using round1_int [of "numeral n"] round1_int [of 0] by simp_all

lemma upper_char_idem: "upper_char (upper_char c) = upper_char c"
  by (auto simp: upper_char_def Let_def)

lemma service_key_upper: "py_isupper (py_upper v @ ''_SERVICE_TOKEN'') \<and> CHR ''_'' \<in> set (py_upper v @ ''_SERVICE_TOKEN'')"
  by (simp add: py_isupper_def py_upper_def upper_char_idem) (simp add: upper_char_def is_letter_def)

lemma trace_not_empty: "trace_of hex d \<noteq> []"
  by (simp add: trace_of_def)

lemma generated_facts:
  assumes g: "generate_one sha uuid5 hex cfg repository ctx r = GenAsset a"
  shows "safety_failures a = (if trapped a then [''payload contains an obvious deception marker''] else [])"
    and "inertness_of a = 100" and "0 \<le> accidental_of a \<and> accidental_of a \<le> 15"
    and "90 \<le> dimension_scores a ctx r i SNaming" and "65 \<le> dimension_scores a ctx r i SContext"
    and "dimension_scores a ctx r i SPlacement = 100" and "dimension_scores a ctx r i SSchema = 100"
    and "70 \<le> dimension_scores a ctx r i SEntropy" and "dimension_scores a ctx r i SBusiness = 80"
    and "dimension_scores a ctx r i STraceability = 100" and "dimension_scores a ctx r i SInertness = i"
proof -
  obtain t where t: "admitted r" "select_template (pr_kind r) (pr_type r) = Some t" "ga_kind a = tm_kind t"
    "generate_payload sha r ctx (as_trace a) = Some (ga_payload a)" "as_target_location a = pr_location r"
    "as_trace a = trace_of hex (as_decoy_id a)" "ga_inputs a = inputs_of t r" "ga_valid a" "ga_safe_for_demo a"
    "\<not> as_real_credentials a" "\<not> as_real_customer_data a" "as_auth_capability a = ''none''"
    using g by (rule generated) blast
  have ne: "as_trace a \<noteq> []" by (simp add: t(6) trace_not_empty)
  have p: "\<not> secret_not_inert a \<and> \<not> record_unguarded a \<and> trace_matches a \<and>
      (\<forall>s. ga_payload a = PSecret s \<longrightarrow> gs_key s = py_upper (gen_vocabulary ctx) @ ''_SERVICE_TOKEN'')"
    using t(4) ne by (cases rule: payload_cases) (simp_all add: secret_not_inert_def record_unguarded_def trace_matches_def)
  have u: "\<not> unsafe_metadata a" using t by (simp add: unsafe_metadata_def)
  have k: "select_template (ga_kind a) (pr_type r) = Some t" using t(2,3) selected_kind [OF t(2)] by simp
  show "safety_failures a = (if trapped a then [''payload contains an obvious deception marker''] else [])" "inertness_of a = 100"
    using p u by (simp_all add: safety_failures_def inertness_of_def)
  show "0 \<le> accidental_of a \<and> accidental_of a \<le> 15"
    using p by (simp add: accidental_of_def split: gen_payload.split)
  have "90 \<le> naming_score a ctx"
    using p service_key_upper [of "gen_vocabulary ctx"] by (auto simp: naming_score_def t(7) inputs_of_def split: gen_payload.split)
  from round1_mono [OF this] show "90 \<le> dimension_scores a ctx r i SNaming" by (simp add: dimension_scores_def)
  have "65 \<le> bi_context (ga_inputs a) * 100" using t(1) by (simp add: t(7) inputs_of_def admitted_def)
  from round1_mono [OF this] show "65 \<le> dimension_scores a ctx r i SContext" by (simp add: dimension_scores_def)
  have "70 \<le> bi_entropy (ga_inputs a) * 100" by (simp add: t(7) inputs_of_def)
  from round1_mono [OF this] show "70 \<le> dimension_scores a ctx r i SEntropy" by (simp add: dimension_scores_def)
  show "dimension_scores a ctx r i SPlacement = 100" "dimension_scores a ctx r i SSchema = 100"
    "dimension_scores a ctx r i SBusiness = 80" "dimension_scores a ctx r i STraceability = 100" "dimension_scores a ctx r i SInertness = i"
    using k p t(5,7,8) by (simp_all add: dimension_scores_def Let_def inputs_of_def)
qed

lemma generated_believability:
  assumes "generate_one sha uuid5 hex cfg repository ctx r = GenAsset a"
  shows "80 \<le> weighted_average (dimension_scores a ctx r i) default_scoring believability_names"
proof -
  note f = generated_facts(4-11) [OF assms, of i]
  have "86 \<le> sum_list (map (\<lambda>n. dimension_scores a ctx r i n * default_scoring n) believability_names) /
      sum_list (map default_scoring believability_names)"
    using f(1,2,5) by (simp add: believability_names_def f(3,4,6,7))
  from round1_mono [OF this] show ?thesis by (simp add: weighted_average_def)
qed

lemma safety_average:
  assumes "0 \<le> acc" and "acc \<le> 15"
  shows "0 \<le> c \<Longrightarrow> c \<le> 20 \<Longrightarrow>
      85 \<le> weighted_average (f(SInertness := 100, SCollision := 100 - c, SAccidental := 100 - acc, STrap := 100)) default_scoring safety_names"
    and "0 \<le> c \<Longrightarrow> c \<le> 80 \<Longrightarrow>
      70 \<le> weighted_average (f(SInertness := 100, SCollision := 100 - c, SAccidental := 100 - acc, STrap := 100)) default_scoring safety_names"
proof -
  let ?s = "\<lambda>c. sum_list (map (\<lambda>n. (f(SInertness := 100, SCollision := 100 - c, SAccidental := 100 - acc, STrap := 100)) n * default_scoring n)
      safety_names) / sum_list (map default_scoring safety_names)"
  show "0 \<le> c \<Longrightarrow> c \<le> 20 \<Longrightarrow> 85 \<le> weighted_average (f(SInertness := 100, SCollision := 100 - c, SAccidental := 100 - acc, STrap := 100)) default_scoring safety_names"
    using round1_mono [of 85 "?s c"] assms by (simp add: weighted_average_def safety_names_def)
  show "0 \<le> c \<Longrightarrow> c \<le> 80 \<Longrightarrow> 70 \<le> weighted_average (f(SInertness := 100, SCollision := 100 - c, SAccidental := 100 - acc, STrap := 100)) default_scoring safety_names"
    using round1_mono [of 70 "?s c"] assms by (simp add: weighted_average_def safety_names_def)
qed

definition ratio_ok :: "(string \<Rightarrow> string \<Rightarrow> rat) \<Rightarrow> bool" where
  "ratio_ok ratio \<longleftrightarrow> (\<forall>x y. 0 \<le> ratio x y \<and> ratio x y \<le> 1)"

lemma collision_range:
  assumes "ratio_ok ratio"
  shows "fst (collision_risk ratio a ctx p reserved) = 0 \<or>
    (64 \<le> fst (collision_risk ratio a ctx p reserved) \<and> fst (collision_risk ratio a ctx p reserved) \<le> 100)"
proof -
  let ?x = "py_lower (payload_name (ga_payload a))" and ?c = "name_corpus ctx p reserved"
  show ?thesis
  proof (cases "?c = [] \<or> ?x \<in> set ?c")
    case True
    then show ?thesis by (auto simp: collision_risk_def Let_def)
  next
    case False
    have "Max (set (map (ratio ?x) ?c)) \<le> 1" using False assms by (auto simp: ratio_ok_def)
    then have r: "round1 (Max (set (map (ratio ?x) ?c)) * 80) \<le> 80"
      using round1_mono [of "Max (set (map (ratio ?x) ?c)) * 80" 80] by simp
    show ?thesis
    proof (cases "8 / 10 \<le> Max (set (map (ratio ?x) ?c))")
      case True
      have "64 \<le> round1 (Max (set (map (ratio ?x) ?c)) * 80)"
        using round1_mono [of 64 "Max (set (map (ratio ?x) ?c)) * 80"] True by simp
      moreover have "fst (collision_risk ratio a ctx p reserved) = round1 (Max (set (map (ratio ?x) ?c)) * 80)"
        using True False by (simp add: collision_risk_def Let_def del: set_map)
      ultimately show ?thesis using r by simp
    next
      case no: False
      have "fst (collision_risk ratio a ctx p reserved) = 0"
        using no False by (simp add: collision_risk_def Let_def del: set_map)
      then show ?thesis by simp
    qed
  qed
qed

text \<open>
  C14. The believability gate decides on a generated decoy by its name alone: an asset reviewed at the placement
  it was generated for is rejected when its content shows a deception marker or its name collides with an
  observed one (risk 80 or more), only warned about when the name is similar, and accepted otherwise; the
  thresholds on believability and safety never decide. The ratio is assumed to lie between 0 and 1.
\<close>

theorem gate_decides_by_name:
  assumes "generate_one sha uuid5 hex cfg repository ctx r = GenAsset a" and "ratio_ok ratio"
  shows "rp_decision (evaluate_asset ratio default_believability a ctx p r) =
    (if trapped a \<or> 80 \<le> fst (collision_risk ratio a ctx p []) then REJECT
     else if 20 < fst (collision_risk ratio a ctx p []) then WARN else ACCEPT)"
proof -
  obtain c ns where c: "collision_risk ratio a ctx p [] = (c, ns)" by (cases "collision_risk ratio a ctx p []")
  have cr: "c = 0 \<or> 64 \<le> c" using collision_range [OF assms(2), of a ctx p "[]"] c by auto
  note g = generated_facts(1-3) [OF assms(1)] and f = generated_facts(4-11) [OF assms(1), of 100]
  obtain b where b: "b = weighted_average (dimension_scores a ctx r 100) default_scoring believability_names" by blast
  have b80: "80 \<le> b" using generated_believability [OF assms(1)] b by simp
  obtain sf where sf: "sf = weighted_average ((dimension_scores a ctx r 100)(SCollision := 100 - c, SAccidental := 100 - accidental_of a,
      STrap := 100 - trap_of a)) default_scoring safety_names" by blast
  have d: "rp_decision (evaluate_asset ratio default_believability a ctx p r) =
      decide default_believability (if trapped a then [''payload contains an obvious deception marker''] else []) b sf c (trap_of a)"
  proof -
    have v: "ga_valid a" using assms(1) by (rule generated)
    show ?thesis by (simp add: evaluate_asset_def Let_def c g(1,2) f(7) v default_believability_def b sf)
  qed
  show ?thesis
  proof (cases "trapped a \<or> 80 \<le> c")
    case True
    then show ?thesis by (auto simp: d c decide_def)
  next
    case False
    have s: "(dimension_scores a ctx r 100)(SCollision := 100 - c, SAccidental := 100 - accidental_of a, STrap := 100 - trap_of a) =
        (dimension_scores a ctx r 100)(SInertness := 100, SCollision := 100 - c, SAccidental := 100 - accidental_of a, STrap := 100)"
      using f(8) False by (auto simp: trap_of_def fun_eq_iff)
    have "70 \<le> sf" "c = 0 \<Longrightarrow> 85 \<le> sf"
      unfolding sf s using safety_average [of "accidental_of a" c] g(3) False cr by auto
    then show ?thesis
      unfolding d c fst_conv using False cr b80 by (auto simp: decide_def trap_of_def default_believability_def)
  qed
qed

subsection \<open>An accepted decoy is detected\<close>

definition mon_asset_of :: "gen_asset \<Rightarrow> mon_asset" where
  "mon_asset_of a = \<lparr>as_decoy_id = as_decoy_id a, as_decoy_type = as_decoy_type a, as_target_location = as_target_location a,
     as_real_credentials = as_real_credentials a, as_real_customer_data = as_real_customer_data a,
     as_auth_capability = as_auth_capability a, as_collision = as_collision a, as_trace = as_trace a,
     as_placement = as_placement a, as_template = as_template a\<rparr>"

definition live_registry :: "registry \<Rightarrow> bool" where
  "live_registry r \<longleftrightarrow> (\<forall>(t, e) \<in> set r. te_trace e = t \<and> te_enabled e \<and> t \<noteq> [] \<and> length t \<le> 128)"

lemma live_update: "live_registry r \<Longrightarrow> te_enabled e \<Longrightarrow> te_trace e \<noteq> [] \<Longrightarrow> length (te_trace e) \<le> 128 \<Longrightarrow>
   live_registry (AList.update (te_trace e) e r)"
  using set_assoc_update [of "te_trace e" e r] by (fastforce simp: live_registry_def)

lemma registered_live:
  assumes "live_registry (en_registry eng)" and "\<And>a. a \<in> set as \<Longrightarrow> as_trace a \<noteq> [] \<and> length (as_trace a) \<le> 128"
  shows "live_registry (en_registry (fst (register_assets reports as eng))) \<and>
    fst ` set (en_registry eng) \<subseteq> fst ` set (en_registry (fst (register_assets reports as eng))) \<and>
    (\<forall>a \<in> set as. decision_by_decoy reports (as_decoy_id a) = Some ACCEPT \<longrightarrow>
       as_trace a \<in> fst ` set (en_registry (fst (register_assets reports as eng)))) \<and>
    en_seen (fst (register_assets reports as eng)) = en_seen eng"
  using assms
proof (induction reports as eng rule: register_assets.induct)
  case (2 reports a as eng)
  let ?eng = "eng\<lparr>en_registry := reg_register (entry_of_asset a) (en_registry eng)\<rparr>"
  show ?case
  proof (cases "decision_by_decoy reports (as_decoy_id a) = Some ACCEPT")
    case False
    then show ?thesis using 2 by (auto simp: split_beta)
  next
    case True
    have "live_registry (en_registry ?eng)"
      using live_update [OF "2.prems"(1), of "entry_of_asset a"] "2.prems"(2) by (simp add: reg_register_def entry_of_asset_def)
    moreover have "fst ` set (en_registry ?eng) = insert (as_trace a) (fst ` set (en_registry eng))"
      using dom_update [of "as_trace a" "entry_of_asset a" "en_registry eng"]
      by (simp add: reg_register_def entry_of_asset_def dom_map_of_conv_image_fst [symmetric] update_conv')
    ultimately show ?thesis using 2 True by (auto simp: split_beta Let_def)
  qed
qed simp

lemma contains_trans: "contains x y \<Longrightarrow> contains y z \<Longrightarrow> contains x z"
  unfolding contains_iff by (metis append.assoc)

lemma join_contains: "w \<in> set ws \<Longrightarrow> contains (join_with sep ws) w"
proof (induction sep ws rule: join_with.induct)
  case (3 sep u v ws)
  have "contains (u @ sep @ join_with sep (v # ws)) u" unfolding contains_iff by (metis append_Nil)
  moreover have "contains (u @ sep @ join_with sep (v # ws)) (join_with sep (v # ws))"
    unfolding contains_iff by (metis append.assoc append_Nil2)
  ultimately show ?case using 3 contains_trans by auto
qed (simp_all add: contains_refl)

lemma rendered_trace: "contains (render_decoy_content us a) (as_trace a)"
proof -
  have "contains (render_decoy_content us a) (''- trace: '' @ as_trace a)"
    unfolding render_decoy_content_def by (rule join_contains) (intro list.set_intros)
  moreover have "contains (''- trace: '' @ as_trace a) (as_trace a)" unfolding contains_iff by (metis append_Nil2)
  ultimately show ?thesis by (rule contains_trans)
qed

text \<open>
  C12. From plan to detection: a generated decoy whose report accepts it, registered with the plan, is detected
  whenever the file a deployment writes for it is read: the scan of any text that contains the rendered content, at any
  location within its limit, returns an event of full confidence that names the marker of an accepted decoy
  occurring in the text.
\<close>

theorem deployed_decoy_is_detected:
  assumes "generate_decoys sha uuid5 hex cfg p ctx plan = Some g" and "a \<in> set (gp_assets g)"
    and "decision_by_decoy reports (as_decoy_id a) = Some ACCEPT"
    and "contains tx (render_decoy_content us a)" and "location \<noteq> []" and "length location \<le> 2048"
  shows "\<exists>eng' ev. scan_text sha uuid5 us now tx location m (fst (register_assets reports (map mon_asset_of (gp_assets g)) new_engine)) =
      (eng', Inr (Some ev)) \<and> re_confidence ev = 1 \<and> re_suggestion ev = HIGH \<and> re_location ev = location \<and>
      contains tx (re_trace ev) \<and> contains (re_excerpt ev) (re_trace ev) \<and>
      (\<exists>b \<in> set (gp_assets g). decision_by_decoy reports (as_decoy_id b) = Some ACCEPT \<and> re_trace ev = as_trace b)"
proof -
  let ?as = "map mon_asset_of (gp_assets g)"
  let ?eng = "fst (register_assets reports ?as new_engine)"
  let ?es = "reg_active (en_registry ?eng)"
  have tr: "as_trace b \<noteq> [] \<and> length (as_trace b) \<le> 128" if b: "b \<in> set (gp_assets g)" for b
  proof -
    obtain r where r: "generate_one sha uuid5 hex cfg (rf_name p) ctx r = GenAsset b" using assms(1) b by (rule plan_asset)
    obtain d where "as_trace b = trace_of hex d" using r by (rule generated) blast
    then show ?thesis by (simp add: trace_of_def py_upper_def)
  qed
  have "live_registry (en_registry new_engine)" by (simp add: live_registry_def new_engine_def)
  moreover have "as_trace b \<noteq> [] \<and> length (as_trace b) \<le> 128" if "b \<in> set ?as" for b
    using that tr by (auto simp: mon_asset_of_def)
  ultimately have live: "live_registry (en_registry ?eng)"
    and reg: "\<forall>b \<in> set ?as. decision_by_decoy reports (as_decoy_id b) = Some ACCEPT \<longrightarrow> as_trace b \<in> fst ` set (en_registry ?eng)"
    and seen: "en_seen ?eng = []"
    using registered_live [of new_engine ?as reports] by (simp_all add: new_engine_def)
  have from_plan: "registry_of reports ?as (en_registry ?eng)"
    using register_assets_registry [of reports ?as new_engine ?as] by (simp add: registry_of_def new_engine_def)
  have "as_trace a \<in> fst ` set (en_registry ?eng)" using bspec [OF reg, of "mon_asset_of a"] assms(2,3) by (simp add: mon_asset_of_def)
  then obtain e where m: "(as_trace a, e) \<in> set (en_registry ?eng)" by auto
  have e: "e \<in> set ?es" "te_trace e = as_trace a"
    using m bspec [OF live [unfolded live_registry_def] m] by (auto simp: reg_active_iff intro: rev_image_eqI)
  have "contains tx (te_trace e)" using contains_trans [OF assms(4) rendered_trace] e(2) by simp
  then obtain e' c x where mt: "match_exact tx ?es = Some (e', c, x)" using e(1) match_exact_None [of tx ?es] by auto
  obtain i where e': "e' \<in> set ?es" "c = 1" "py_find tx (te_trace e') = Some i" "x = excerpt tx i (length (te_trace e'))"
    using match_exact_Some [OF mt] by blast
  then obtain t where m: "(t, e') \<in> set (en_registry ?eng)" by (auto simp: reg_active_iff)
  have ok: "te_trace e' \<noteq> []" "length (te_trace e') \<le> 128"
    using bspec [OF live [unfolded live_registry_def] m] by auto
  obtain b where b: "b \<in> set (gp_assets g)" "decision_by_decoy reports (as_decoy_id b) = Some ACCEPT" "te_trace e' = as_trace b"
    using bspec [OF from_plan [unfolded registry_of_def] m] by (auto simp: mon_asset_of_def)
  note sh = excerpt_shows [OF e'(3) ok(2)]
  have x: "x \<noteq> []" "length x \<le> 256" using sh ok(1) e'(4) by (auto simp: contains_iff)
  have "trace_match tx ?es = Some (e', 1, x)" using mt e'(2) by (simp add: trace_match_def)
  then show ?thesis
    using ok x assms(5,6) sh e'(4) py_find_contains [of tx "te_trace e'"] e'(3) b
    by (auto simp: scan_text_def Let_def seen event_valid_def)
qed

subsection \<open>A sample\<close>

definition sample_tech :: "string \<Rightarrow> tech_evidence" where
  "sample_tech name = \<lparr>tv_name = name, tv_confidence = 1, tv_evidence = [''docs/a.md'']\<rparr>"

definition sample_profile :: repo_profile where
  "sample_profile = \<lparr>rf_name = ''shop'', rf_folders = [], rf_languages = map sample_tech (replicate 10 ''go''), rf_frameworks = [],
     rf_package_managers = [], rf_services = [], rf_technologies = [], rf_databases = [], rf_cloud = [],
     rf_cicd = [], rf_documentation = [], rf_mcp = [], rf_docker = [], rf_kubernetes = [],
     rf_terraform = [],
     rf_naming = Some \<lparr>np_styles = [\<lparr>nc_category = NEnvironment, nc_style = ScreamingSnake, nc_separator = SepUnderscore, nc_samples = [''DB_URL'']\<rparr>],
       np_vocabulary = [''billing'']\<rparr>,
     rf_secrets = [\<lparr>sl_path = ''.env'', sl_patterns = []\<rparr>, \<lparr>sl_path = ''.env.example'', sl_patterns = []\<rparr>], rf_risk_areas = [], rf_truncated = False\<rparr>"

definition sample_hex :: "uuid \<Rightarrow> string" where "sample_hex _ = ''00112233445566778899aabbccddeeff''"

definition sample_sha :: "string \<Rightarrow> string" where "sample_sha _ = ''5feceb66ffc86f38d952786c6d696c79c2dbc239''"

definition sample_candidate :: place_candidate where
  "sample_candidate = candidate_of ExampleEnvironment ''.env.example'' KSecret
     [''.env.example'', ''environment_variable:screaming_snake:underscore''] False"

definition sample_recommendation :: place_recommendation where
  "sample_recommendation = recommend_place sample_candidate (score_candidate sample_candidate (build_context sample_profile))"

lemma sample_context: "oc_conventions (build_context sample_profile) = [''environment_variable:screaming_snake:underscore'']"
  "oc_confidence (build_context sample_profile) = 1" "oc_vocabulary (build_context sample_profile) = [''billing'']"
  "oc_naming (build_context sample_profile) = rf_naming sample_profile"
  using round_even_int [of 1000]
  by (simp_all add: build_context_def sample_profile_def environment_conventions_def naming_styles_def context_confidence_def
      evidence_count_def vocabulary_of_def round3_def)

lemma sample_discovered: "sample_candidate \<in> set (discover sample_profile (build_context sample_profile))"
proof -
  have c: "contains (py_lower ''.env.example'') ''example''" by code_simp
  have "sample_candidate \<in> set (secret_candidates sample_profile (build_context sample_profile))"
    unfolding secret_candidates_def sample_context(1) using c by (simp add: sample_profile_def sample_candidate_def)
  then show ?thesis by (simp add: discover_def)
qed

lemma sample_recommended:
  "sample_recommendation \<in> set (pp_recommendations (plan_placements sample_profile (build_context sample_profile)))"
proof -
  have "place_ok (build_context sample_profile) sample_candidate"
    by (simp add: place_ok_iff sample_candidate_def candidate_of_def signals_of_def percent_signals_def minimum_safety_def
        maximum_false_positive_def numeral_eq_Suc)
  then show ?thesis using sample_discovered unfolding plan_recommendations sample_recommendation_def by simp
qed

lemma sample_admitted: "admitted sample_recommendation"
proof -
  have "length (pc_evidence sample_candidate) = 2" by (simp add: sample_candidate_def candidate_of_def sorted_set_def)
  moreover have "ps_safety (pc_signals sample_candidate) = 9 / 10" "ps_alignment (pc_signals sample_candidate) = 9 / 10"
    "ps_false_positive (pc_signals sample_candidate) = 1 / 10"
    by (simp_all add: sample_candidate_def candidate_of_def signals_of_def percent_signals_def numeral_eq_Suc)
  moreover have "po_confidence (score_candidate c ctx) =
      round3 ((ps_safety (pc_signals c) + ps_alignment (pc_signals c) + oc_confidence ctx) / 3 *
        (1 / 2 + min (1 / 2) (of_nat (length (pc_evidence c)) / 6)))"
    "po_false_positive (score_candidate c ctx) = ps_false_positive (pc_signals c)" for c ctx
    by (simp_all add: score_candidate_def Let_def)
  ultimately have "po_confidence (score_candidate sample_candidate (build_context sample_profile)) =
      round3 ((9 / 10 + 9 / 10 + 1) / 3 * (1 / 2 + min (1 / 2) (of_nat 2 / 6)))"
    "po_false_positive (score_candidate sample_candidate (build_context sample_profile)) = 1 / 10"
    by (simp_all only: sample_context(2))
  then have "po_confidence (score_candidate sample_candidate (build_context sample_profile)) = round3 (7 / 9)"
    "po_false_positive (score_candidate sample_candidate (build_context sample_profile)) = 1 / 10" by simp_all
  moreover have "round3 (7 / 10) \<le> round3 (7 / 9)" by (rule round3_mono) simp
  moreover have "round3 (7 / 10) = 7 / 10" using round_even_int [of 700] by (simp add: round3_def)
  ultimately show ?thesis by (simp add: admitted_def sample_recommendation_def recommend_place_def)
qed

lemma sample_one:
  obtains a where "generate_one sample_sha length sample_hex default_gen_config (rf_name sample_profile) (build_context sample_profile)
    sample_recommendation = GenAsset a"
proof -
  let ?ctx = "build_context sample_profile"
  have k: "pr_kind sample_recommendation = KSecret" "pr_type sample_recommendation = ExampleEnvironment"
    by (simp_all add: sample_recommendation_def recommend_place_def sample_candidate_def candidate_of_def)
  obtain t where t: "select_template KSecret ExampleEnvironment = Some t" "ExampleEnvironment \<in> set (tm_targets t)"
    "tm_required t = [''provider_family'', ''key_name'', ''fake_value'', ''authentication_capability'']"
    by (simp add: select_template_def decoy_templates_def)
  have n: "py_lower (py_upper (gen_vocabulary ?ctx) @ ''_SERVICE_TOKEN'') \<noteq> ''db_url''"
    unfolding gen_vocabulary_def sample_context(3) list.case by code_simp
  have o: "observed_names ?ctx [] = [''db_url'']"
    unfolding observed_names_def sample_context(4) by (simp add: sample_profile_def) code_simp
  have "validation_reasons pl sample_recommendation t ?ctx [] = []"
    if pl: "generate_payload sample_sha sample_recommendation ?ctx tr = Some pl" for pl tr
    using payload_shape [OF pl] t(2,3) n o
    by (cases pl) (auto simp: validation_reasons_def k name_collisions_def)
  moreover obtain pl where "generate_payload sample_sha sample_recommendation ?ctx tr = Some (pl tr)" for tr
    by (simp add: generate_payload_def k Let_def)
  ultimately show thesis using that t(1) sample_admitted
    by (simp add: generate_one_def Let_def k default_gen_config_def)
qed

lemma sample_asset:
  obtains g a where "generate_decoys sample_sha length sample_hex default_gen_config sample_profile (build_context sample_profile)
      (plan_placements sample_profile (build_context sample_profile)) = Some g" "a \<in> set (gp_assets g)"
    "generate_one sample_sha length sample_hex default_gen_config (rf_name sample_profile) (build_context sample_profile)
      sample_recommendation = GenAsset a"
proof -
  obtain a where a: "generate_one sample_sha length sample_hex default_gen_config (rf_name sample_profile) (build_context sample_profile)
    sample_recommendation = GenAsset a" by (rule sample_one)
  obtain g where "generate_decoys sample_sha length sample_hex default_gen_config sample_profile (build_context sample_profile)
      (plan_placements sample_profile (build_context sample_profile)) = Some g" by (rule generation_total)
  with that a generated_member [OF this sample_recommended a] show thesis by blast
qed

lemma placement_plan_sound_witness:
  "list_all (\<lambda>r. pr_type r \<noteq> EnvironmentFile) (pp_recommendations (plan_placements sample_profile (build_context sample_profile))) \<and>
   image_mset pr_location (mset (pp_recommendations (plan_placements sample_profile (build_context sample_profile)))) +
     image_mset pj_location (mset (pp_rejected (plan_placements sample_profile (build_context sample_profile)))) =
   image_mset pc_location (mset (discover sample_profile (build_context sample_profile)))"
  using placement_plan_sound [of sample_profile "build_context sample_profile"] unfolding list_all_iff by blast

lemma only_example_secrets_generated_witness:
  "\<exists>g a s. generate_decoys sample_sha length sample_hex default_gen_config sample_profile (build_context sample_profile)
     (plan_placements sample_profile (build_context sample_profile)) = Some g \<and> a \<in> set (gp_assets g) \<and> ga_payload a = PSecret s \<and> startswith (gs_value s) inert_prefix"
proof -
  obtain g a where g: "generate_decoys sample_sha length sample_hex default_gen_config sample_profile (build_context sample_profile)
     (plan_placements sample_profile (build_context sample_profile)) = Some g" "a \<in> set (gp_assets g)" by (rule sample_asset)
  from only_example_secrets_generated [OF g(1) g(2)] show ?thesis using g by blast
qed

lemma gate_decides_by_name_witness:
  "\<exists>a r. rp_decision (evaluate_asset (\<lambda>x y. if x = y then 1 else 0) default_believability a (build_context sample_profile) sample_profile r) =
     (if trapped a \<or> 80 \<le> fst (collision_risk (\<lambda>x y. if x = y then 1 else 0) a (build_context sample_profile) sample_profile []) then REJECT
      else if 20 < fst (collision_risk (\<lambda>x y. if x = y then 1 else 0) a (build_context sample_profile) sample_profile []) then WARN else ACCEPT)"
proof -
  obtain a where r: "generate_one sample_sha length sample_hex default_gen_config (rf_name sample_profile)
      (build_context sample_profile) sample_recommendation = GenAsset a" by (rule sample_one)
  have "ratio_ok (\<lambda>x y. if x = y then 1 else 0)" by (simp add: ratio_ok_def)
  from gate_decides_by_name [OF r this] show ?thesis by blast
qed

lemma deployed_decoy_is_detected_witness:
  "\<exists>g a eng' ev. generate_decoys sample_sha length sample_hex default_gen_config sample_profile (build_context sample_profile)
     (plan_placements sample_profile (build_context sample_profile)) = Some g \<and> a \<in> set (gp_assets g) \<and>
     scan_text sample_sha length nat_str 9 (render_decoy_content nat_str a) ''.env.example'' FILE_CONTENT
       (fst (register_assets [\<lparr>rp_decoy_id = as_decoy_id a, rp_decision = ACCEPT\<rparr>] (map mon_asset_of (gp_assets g)) new_engine)) =
     (eng', Inr (Some ev)) \<and> re_confidence ev = 1"
proof -
  obtain g a where g: "generate_decoys sample_sha length sample_hex default_gen_config sample_profile (build_context sample_profile)
     (plan_placements sample_profile (build_context sample_profile)) = Some g" "a \<in> set (gp_assets g)" by (rule sample_asset)
  have d: "decision_by_decoy [\<lparr>rp_decoy_id = as_decoy_id a, rp_decision = ACCEPT\<rparr>] (as_decoy_id a) = Some ACCEPT"
    by (simp add: decision_by_decoy_def)
  from deployed_decoy_is_detected [OF g(1) g(2) d contains_refl(1), where location = "''.env.example''" and us = nat_str and now = 9
      and m = FILE_CONTENT]
  show ?thesis using g by auto
qed

end
