(* ===== verification/Onboarding.thy ===== *)
theory Onboarding
  imports Access "HOL-Library.Sublist"
begin

text \<open>
  Guided activation (\<open>services/onboarding.py\<close>, \<open>api/onboarding.py\<close>): the workspace, its seven state-derived
  steps, the safe first recommendation and the controlled detection tests. What the service reads of other
  components is the columns it uses; identifiers and the clock are arguments; the steps are listed in the order
  they were inserted (the code orders them by a random identifier).
\<close>

subsection \<open>Tables\<close>

datatype ws_status = WsNotStarted | WsInProgress | WsPaused | WsActivated | WsCompleted

datatype onb_phase = PhOrganization | PhSurfaces | PhAssessment | PhFirstDecoy | PhDetectionTest | PhOperations

datatype onb_key = ObIdentity | ObInventory | ObScan | ObDeployment | ObTest | ObCoverage | ObIntegration

fun onb_key_value :: "onb_key \<Rightarrow> string" where
  "onb_key_value ObIdentity = ''identity''"
| "onb_key_value ObInventory = ''repository_inventory''"
| "onb_key_value ObScan = ''repository_scan''"
| "onb_key_value ObDeployment = ''verified_deployment''"
| "onb_key_value ObTest = ''detection_test''"
| "onb_key_value ObCoverage = ''coverage''"
| "onb_key_value ObIntegration = ''integration''"

definition onb_steps :: "(onb_phase \<times> onb_key \<times> string) list" where
  "onb_steps =
     [(PhOrganization, ObIdentity, ''Configure a verified identity provider and administrator.''),
      (PhSurfaces, ObInventory, ''Connect and inventory at least one protected surface.''),
      (PhAssessment, ObScan, ''Complete a repository scan or inventory.''),
      (PhFirstDecoy, ObDeployment, ''Approve, deploy, verify, and activate monitoring.''),
      (PhDetectionTest, ObTest, ''Run a signed controlled detection test.''),
      (PhOperations, ObCoverage, ''Recalculate coverage after deployment.''),
      (PhOperations, ObIntegration, ''Configure an operational integration.'')]"

record workspace =
  ws_id :: uuid
  ws_org :: org_id
  ws_status :: ws_status
  ws_phase :: onb_phase
  ws_started :: "datetime option"
  ws_activated :: "datetime option"
  ws_version :: string
  ws_updated :: datetime

datatype step_status = StCompleted | StRequiresAttention | StBlocked

record onb_step =
  sp_org :: org_id
  sp_workspace :: uuid
  sp_phase :: onb_phase
  sp_key :: onb_key
  sp_status :: step_status
  sp_reason :: "string option"
  sp_message :: "string option"
  sp_completed :: "datetime option"
  sp_evidence :: string
  sp_updated :: datetime

datatype rec_status = RecActive | RecAccepted | RecDismissed

record onb_recommendation =
  rc_id :: uuid
  rc_org :: org_id
  rc_workspace :: uuid
  rc_type :: string
  rc_surface :: string
  rc_priority :: int
  rc_activation_gain :: rat
  rc_coverage_gain :: rat
  rc_effort :: string
  rc_risk :: string
  rc_explanation :: string
  rc_status :: rec_status

datatype run_status = RunRunning | RunDetected

record test_run =
  tr_id :: uuid
  tr_org :: org_id
  tr_actor :: "uuid option"
  tr_deployment :: uuid
  tr_trace :: string
  tr_status :: run_status
  tr_event :: "uuid option"
  tr_alert :: "uuid option"
  tr_started :: datetime
  tr_completed :: "datetime option"

record onb_db =
  ob_workspaces :: "workspace list"
  ob_steps :: "onb_step list"
  ob_recommendations :: "onb_recommendation list"
  ob_runs :: "test_run list"
  ob_audit :: "(org_id \<times> string) list"

text \<open>What the service reads of the other components.\<close>

record onb_deployment =
  od_id :: uuid
  od_org :: org_id
  od_status :: string
  od_monitored :: "datetime option"

record onb_tripwire =
  ow_org :: org_id
  ow_deployment :: uuid
  ow_status :: string
  ow_trace :: string
  ow_activated :: datetime

record onb_world =
  ov_keys :: "(org_id \<times> string \<times> string) list"
  ov_repositories :: "org_id list"
  ov_deployments :: "onb_deployment list"
  ov_tripwires :: "onb_tripwire list"
  ov_snapshots :: "(org_id \<times> datetime \<times> rat) list"
  ov_integrations :: "(org_id \<times> string) list"

record onb_settings =
  os_enabled :: bool
  os_version :: string
  os_detection_test :: bool
  os_require_siem :: bool
  os_require_sso :: bool
  os_min_coverage :: rat

text \<open>The flags of the dumped settings: every field under its own name.\<close>

definition dumped_flags :: "onb_settings \<Rightarrow> (string \<times> bool) list" where
  "dumped_flags st =
     [(''onboarding_enabled'', os_enabled st), (''onboarding_detection_test_enabled'', os_detection_test st),
      (''onboarding_require_siem_for_activation'', os_require_siem st),
      (''onboarding_require_sso_for_activation'', os_require_sso st)]"

subsection \<open>The facts\<close>

definition newest :: "('a \<Rightarrow> 'k :: linorder) \<Rightarrow> 'a list \<Rightarrow> 'a option" where
  "newest f xs = (case rev (sort_key f xs) of [] \<Rightarrow> None | x # _ \<Rightarrow> Some x)"

definition identity_ready :: "onb_settings \<Rightarrow> org_id \<Rightarrow> onb_world \<Rightarrow> bool" where
  "identity_ready st org w \<longleftrightarrow>
     (if (case map_of (dumped_flags st) ''onboarding_require_sso'' of None \<Rightarrow> True | Some b \<Rightarrow> b) then False
      else (org, ''owner'', ''active'') \<in> set (ov_keys w))"

definition verified_deployment :: "org_id \<Rightarrow> onb_world \<Rightarrow> bool" where
  "verified_deployment org w \<longleftrightarrow>
     list_ex (\<lambda>d. od_org d = org \<and> od_status d = ''deployed'' \<and> od_monitored d \<noteq> None) (ov_deployments w)"

definition coverage_ready :: "onb_settings \<Rightarrow> org_id \<Rightarrow> onb_world \<Rightarrow> bool" where
  "coverage_ready st org w \<longleftrightarrow>
     (case newest (\<lambda>(_, ts, _). ts) (filter (\<lambda>(g, _, _). g = org) (ov_snapshots w)) of
        None \<Rightarrow> False | Some (_, _, overall) \<Rightarrow> overall \<ge> os_min_coverage st)"

fun onb_fact :: "onb_settings \<Rightarrow> org_id \<Rightarrow> onb_world \<Rightarrow> onb_db \<Rightarrow> onb_key \<Rightarrow> bool" where
  "onb_fact st org w db ObIdentity = identity_ready st org w"
| "onb_fact st org w db ObInventory = (org \<in> set (ov_repositories w))"
| "onb_fact st org w db ObScan = (org \<in> set (ov_repositories w))"
| "onb_fact st org w db ObDeployment = verified_deployment org w"
| "onb_fact st org w db ObTest = list_ex (\<lambda>r. tr_org r = org \<and> tr_status r = RunDetected) (ob_runs db)"
| "onb_fact st org w db ObCoverage = coverage_ready st org w"
| "onb_fact st org w db ObIntegration = ((org, ''active'') \<in> set (ov_integrations w))"

subsection \<open>The workspace\<close>

definition find_workspace :: "org_id \<Rightarrow> onb_db \<Rightarrow> workspace option" where
  "find_workspace org db = find (\<lambda>x. ws_org x = org) (ob_workspaces db)"

definition ensure_workspace :: "onb_settings \<Rightarrow> datetime \<Rightarrow> uuid \<Rightarrow> org_id \<Rightarrow> onb_db \<Rightarrow> onb_db \<times> workspace" where
  "ensure_workspace st now i org db =
     (case find_workspace org db of
        Some x \<Rightarrow> (db, x)
      | None \<Rightarrow>
          (let x = \<lparr>ws_id = i, ws_org = org, ws_status = WsNotStarted, ws_phase = PhOrganization, ws_started = None,
                    ws_activated = None, ws_version = os_version st, ws_updated = now\<rparr>
           in (db\<lparr>ob_workspaces := ob_workspaces db @ [x]\<rparr>, x)))"

definition put_workspace :: "workspace \<Rightarrow> onb_db \<Rightarrow> onb_db" where
  "put_workspace x db = db\<lparr>ob_workspaces := map (\<lambda>y. if ws_org y = ws_org x then x else y) (ob_workspaces db)\<rparr>"

definition step_of :: "onb_settings \<Rightarrow> datetime \<Rightarrow> bool \<Rightarrow> onb_phase \<times> onb_key \<times> string \<Rightarrow> onb_step \<Rightarrow> onb_step" where
  "step_of st now met s r =
     (case s of (phase, key, message) \<Rightarrow>
       r\<lparr>sp_status := (if met then StCompleted else if sp_completed r \<noteq> None then StRequiresAttention else StBlocked),
         sp_completed := (if met then Some now else None),
         sp_reason := (if met then None else Some (onb_key_value key @ ''_required'')),
         sp_message := (if met then None else Some message), sp_evidence := os_version st, sp_updated := now\<rparr>)"

definition fresh_step :: "datetime \<Rightarrow> workspace \<Rightarrow> onb_phase \<times> onb_key \<times> string \<Rightarrow> onb_step" where
  "fresh_step now x s = (case s of (phase, key, _) \<Rightarrow>
     \<lparr>sp_org = ws_org x, sp_workspace = ws_id x, sp_phase = phase, sp_key = key, sp_status = StBlocked, sp_reason = None,
      sp_message = None, sp_completed = None, sp_evidence = [], sp_updated = now\<rparr>)"

definition upsert_step :: "onb_settings \<Rightarrow> datetime \<Rightarrow> workspace \<Rightarrow> (onb_key \<Rightarrow> bool) \<Rightarrow> onb_phase \<times> onb_key \<times> string \<Rightarrow> onb_step list \<Rightarrow> onb_step list" where
  "upsert_step st now x facts s steps =
     (let key = fst (snd s); mine = (\<lambda>r. sp_workspace r = ws_id x \<and> sp_key r = key) in
      if list_ex mine steps then map (\<lambda>r. if mine r then step_of st now (facts key) s r else r) steps
      else steps @ [step_of st now (facts key) s (fresh_step now x s)])"

definition settle_workspace :: "datetime \<Rightarrow> (onb_key \<Rightarrow> bool) \<Rightarrow> workspace \<Rightarrow> workspace" where
  "settle_workspace now facts x =
     (if list_all (\<lambda>(_, key, _). facts key) onb_steps
      then x\<lparr>ws_status := WsActivated, ws_phase := PhOperations,
             ws_activated := (case ws_activated x of None \<Rightarrow> Some now | Some t \<Rightarrow> Some t), ws_updated := now\<rparr>
      else x\<lparr>ws_status := (if ws_started x \<noteq> None then WsInProgress else WsNotStarted),
             ws_phase := fst (hd (filter (\<lambda>(_, key, _). \<not> facts key) onb_steps)), ws_updated := now\<rparr>)"

definition reconcile :: "onb_settings \<Rightarrow> datetime \<Rightarrow> uuid \<Rightarrow> org_id \<Rightarrow> onb_world \<Rightarrow> onb_db \<Rightarrow> onb_db" where
  "reconcile st now i org w db =
     (let (db1, x) = ensure_workspace st now i org db in
      if ws_status x = WsPaused then db1
      else
        let facts = onb_fact st org w db1 in
        put_workspace (settle_workspace now facts x) (db1\<lparr>ob_steps := fold (upsert_step st now x facts) onb_steps (ob_steps db1)\<rparr>))"

definition start_workspace :: "onb_settings \<Rightarrow> datetime \<Rightarrow> uuid \<Rightarrow> org_id \<Rightarrow> onb_world \<Rightarrow> onb_db \<Rightarrow> onb_db" where
  "start_workspace st now i org w db =
     (let (db1, x) = ensure_workspace st now i org db;
          db2 = (if ws_status x \<in> {WsNotStarted, WsPaused}
                 then put_workspace (x\<lparr>ws_status := WsInProgress,
                        ws_started := (case ws_started x of None \<Rightarrow> Some now | Some t \<Rightarrow> Some t)\<rparr>) db1
                 else db1)
      in reconcile st now i org w db2)"

definition pause_workspace :: "onb_settings \<Rightarrow> datetime \<Rightarrow> uuid \<Rightarrow> org_id \<Rightarrow> onb_db \<Rightarrow> onb_db" where
  "pause_workspace st now i org db =
     (let (db1, x) = ensure_workspace st now i org db in
      if ws_status x \<notin> {WsActivated, WsCompleted} then put_workspace (x\<lparr>ws_status := WsPaused, ws_updated := now\<rparr>) db1 else db1)"

definition resume_workspace :: "onb_settings \<Rightarrow> datetime \<Rightarrow> uuid \<Rightarrow> org_id \<Rightarrow> onb_world \<Rightarrow> onb_db \<Rightarrow> onb_db" where
  "resume_workspace st now i org w db =
     (let (db1, x) = ensure_workspace st now i org db;
          db2 = (if ws_status x = WsPaused then put_workspace (x\<lparr>ws_status := WsInProgress, ws_updated := now\<rparr>) db1 else db1)
      in reconcile st now i org w db2)"

record workspace_view =
  wv_workspace :: workspace
  wv_steps :: "onb_step list"
  wv_activated :: bool

definition view_workspace :: "onb_settings \<Rightarrow> datetime \<Rightarrow> uuid \<Rightarrow> org_id \<Rightarrow> onb_world \<Rightarrow> onb_db \<Rightarrow> onb_db \<times> workspace_view" where
  "view_workspace st now i org w db =
     (let db1 = reconcile st now i org w (fst (ensure_workspace st now i org db)); x = snd (ensure_workspace st now i org db1) in
      (db1, \<lparr>wv_workspace = x, wv_steps = filter (\<lambda>s. sp_workspace s = ws_id x) (ob_steps db1),
             wv_activated = (ws_activated x \<noteq> None)\<rparr>))"

subsection \<open>Recommendations and detection tests\<close>

definition active_recommendations :: "workspace \<Rightarrow> onb_db \<Rightarrow> onb_recommendation list" where
  "active_recommendations x db =
     take 10 (sort_key (\<lambda>r. - rc_priority r) (filter (\<lambda>r. rc_workspace r = ws_id x \<and> rc_status r = RecActive) (ob_recommendations db)))"

definition safe_first_decoy :: "uuid \<Rightarrow> org_id \<Rightarrow> uuid \<Rightarrow> onb_recommendation" where
  "safe_first_decoy r org x = \<lparr>rc_id = r, rc_org = org, rc_workspace = x, rc_type = ''safe_first_decoy'', rc_surface = ''repository'',
     rc_priority = 100, rc_activation_gain = 2 / 10, rc_coverage_gain = 1 / 10, rc_effort = ''low'', rc_risk = ''low'',
     rc_explanation = ''Create an inert documentation or configuration decoy through the normal review and approval workflow.'',
     rc_status = RecActive\<rparr>"

definition onb_recommendations ::
  "onb_settings \<Rightarrow> datetime \<Rightarrow> uuid \<Rightarrow> uuid \<Rightarrow> org_id \<Rightarrow> onb_world \<Rightarrow> onb_db \<Rightarrow> onb_db \<times> onb_recommendation list" where
  "onb_recommendations st now i r org w db =
     (let (db1, x) = ensure_workspace st now i org db; existing = active_recommendations x db1 in
      if existing \<noteq> [] then (db1, existing)
      else if org \<in> set (ov_repositories w) \<and> \<not> list_ex (\<lambda>d. od_org d = org) (ov_deployments w)
      then (let n = safe_first_decoy r org (ws_id x) in (db1\<lparr>ob_recommendations := ob_recommendations db1 @ [n]\<rparr>, [n]))
      else (db1, []))"

definition decide_onb_recommendation :: "org_id \<Rightarrow> uuid \<Rightarrow> rec_status \<Rightarrow> onb_db \<Rightarrow> onb_db \<times> onb_recommendation option" where
  "decide_onb_recommendation org i status db =
     (case find (\<lambda>r. rc_id r = i) (ob_recommendations db) of
        None \<Rightarrow> (db, None)
      | Some r \<Rightarrow>
          if rc_org r \<noteq> org \<or> rc_status r \<noteq> RecActive then (db, None)
          else (db\<lparr>ob_recommendations := map (\<lambda>q. if rc_id q = i then q\<lparr>rc_status := status\<rparr> else q) (ob_recommendations db)\<rparr>,
                Some (r\<lparr>rc_status := status\<rparr>)))"

definition create_detection_test ::
  "datetime \<Rightarrow> uuid \<Rightarrow> org_id \<Rightarrow> uuid option \<Rightarrow> uuid \<Rightarrow> onb_world \<Rightarrow> onb_db \<Rightarrow> onb_db \<times> (string + test_run)" where
  "create_detection_test now i org actor deployment w db =
     (case find (\<lambda>d. od_id d = deployment) (ov_deployments w) of
        None \<Rightarrow> (db, Inl ''deployment must be verified and monitoring active'')
      | Some d \<Rightarrow>
          if od_org d \<noteq> org \<or> od_status d \<noteq> ''deployed'' \<or> od_monitored d = None
          then (db, Inl ''deployment must be verified and monitoring active'')
          else case sort_key ow_activated (filter (\<lambda>t. ow_org t = org \<and> ow_deployment t = deployment \<and> ow_status t = ''active'') (ov_tripwires w)) of
            [] \<Rightarrow> (db, Inl ''deployment has no active tripwire'')
          | t # _ \<Rightarrow>
              (let r = \<lparr>tr_id = i, tr_org = org, tr_actor = actor, tr_deployment = deployment, tr_trace = ow_trace t,
                        tr_status = RunRunning, tr_event = None, tr_alert = None, tr_started = now, tr_completed = None\<rparr>
               in (db\<lparr>ob_runs := ob_runs db @ [r]\<rparr>, Inr r)))"

definition record_detection :: "datetime \<Rightarrow> org_id \<Rightarrow> string \<Rightarrow> uuid \<Rightarrow> uuid option \<Rightarrow> onb_db \<Rightarrow> onb_db" where
  "record_detection now org trace event alert db =
     (case newest tr_started (filter (\<lambda>r. tr_org r = org \<and> tr_trace r = trace \<and> tr_status r = RunRunning) (ob_runs db)) of
        None \<Rightarrow> db
      | Some run \<Rightarrow>
          db\<lparr>ob_runs := map (\<lambda>r. if tr_id r = tr_id run
               then r\<lparr>tr_event := Some event, tr_alert := alert, tr_status := RunDetected, tr_completed := Some now\<rparr> else r) (ob_runs db)\<rparr>)"

subsection \<open>Endpoints\<close>

definition onb_off :: http_error where "onb_off = HttpError 404 ''onboarding is not enabled''"

definition onb_audit :: "org_id \<Rightarrow> string \<Rightarrow> onb_db \<Rightarrow> onb_db" where
  "onb_audit org action db = db\<lparr>ob_audit := ob_audit db @ [(org, action)]\<rparr>"

definition get_onboarding ::
  "onb_settings \<Rightarrow> datetime \<Rightarrow> uuid \<Rightarrow> auth_context \<Rightarrow> onb_world \<Rightarrow> onb_db \<Rightarrow> onb_db \<times> (http_error + workspace_view)" where
  "get_onboarding st now i ctx w db =
     (if \<not> os_enabled st then (db, Inl onb_off)
      else case view_workspace st now i (ctx_org ctx) w db of (db', v) \<Rightarrow> (db', Inr v))"

definition start_onboarding ::
  "onb_settings \<Rightarrow> datetime \<Rightarrow> uuid \<Rightarrow> auth_context \<Rightarrow> onb_world \<Rightarrow> onb_db \<Rightarrow> onb_db \<times> (http_error + workspace_view)" where
  "start_onboarding st now i ctx w db =
     (if \<not> os_enabled st then (db, Inl onb_off)
      else case view_workspace st now i (ctx_org ctx) w
          (onb_audit (ctx_org ctx) ''onboarding_started'' (start_workspace st now i (ctx_org ctx) w db)) of (db', v) \<Rightarrow> (db', Inr v))"

definition pause_onboarding ::
  "onb_settings \<Rightarrow> datetime \<Rightarrow> uuid \<Rightarrow> auth_context \<Rightarrow> onb_world \<Rightarrow> onb_db \<Rightarrow> onb_db \<times> (http_error + workspace_view)" where
  "pause_onboarding st now i ctx w db =
     (if \<not> os_enabled st then (db, Inl onb_off)
      else case view_workspace st now i (ctx_org ctx) w
          (onb_audit (ctx_org ctx) ''onboarding_paused'' (pause_workspace st now i (ctx_org ctx) db)) of (db', v) \<Rightarrow> (db', Inr v))"

definition resume_onboarding ::
  "onb_settings \<Rightarrow> datetime \<Rightarrow> uuid \<Rightarrow> auth_context \<Rightarrow> onb_world \<Rightarrow> onb_db \<Rightarrow> onb_db \<times> (http_error + workspace_view)" where
  "resume_onboarding st now i ctx w db =
     (if \<not> os_enabled st then (db, Inl onb_off)
      else case view_workspace st now i (ctx_org ctx) w
          (onb_audit (ctx_org ctx) ''onboarding_resumed'' (resume_workspace st now i (ctx_org ctx) w db)) of (db', v) \<Rightarrow> (db', Inr v))"

definition recalculate_onboarding ::
  "onb_settings \<Rightarrow> datetime \<Rightarrow> uuid \<Rightarrow> auth_context \<Rightarrow> onb_world \<Rightarrow> onb_db \<Rightarrow> onb_db \<times> (http_error + workspace_view)" where
  "recalculate_onboarding st now i ctx w db =
     (if \<not> os_enabled st then (db, Inl onb_off)
      else case view_workspace st now i (ctx_org ctx) w
          (onb_audit (ctx_org ctx) ''onboarding_reconciled'' (reconcile st now i (ctx_org ctx) w db)) of (db', v) \<Rightarrow> (db', Inr v))"

definition get_onb_recommendations ::
  "onb_settings \<Rightarrow> datetime \<Rightarrow> uuid \<Rightarrow> uuid \<Rightarrow> auth_context \<Rightarrow> onb_world \<Rightarrow> onb_db \<Rightarrow> onb_db \<times> (http_error + onb_recommendation list)" where
  "get_onb_recommendations st now i r ctx w db =
     (if \<not> os_enabled st then (db, Inl onb_off)
      else case onb_recommendations st now i r (ctx_org ctx) w db of (db', rs) \<Rightarrow> (db', Inr rs))"

definition decide_onboarding ::
  "onb_settings \<Rightarrow> auth_context \<Rightarrow> uuid \<Rightarrow> string \<Rightarrow> onb_db \<Rightarrow> onb_db \<times> (http_error + rec_status)" where
  "decide_onboarding st ctx i verdict db =
     (if \<not> os_enabled st then (db, Inl onb_off)
      else if verdict \<notin> {''accept'', ''dismiss''} then (db, Inl (HttpError 404 ''decision not found''))
      else case decide_onb_recommendation (ctx_org ctx) i (if verdict = ''accept'' then RecAccepted else RecDismissed) db of
        (db', None) \<Rightarrow> (db', Inl (HttpError 404 ''recommendation not found''))
      | (db', Some r) \<Rightarrow> (onb_audit (ctx_org ctx) (''onboarding_recommendation_'' @ verdict @ ''ed'') db', Inr (rc_status r)))"

definition start_detection_test ::
  "onb_settings \<Rightarrow> datetime \<Rightarrow> uuid \<Rightarrow> auth_context \<Rightarrow> uuid \<Rightarrow> onb_world \<Rightarrow> onb_db \<Rightarrow> onb_db \<times> (http_error + test_run)" where
  "start_detection_test st now i ctx deployment w db =
     (if \<not> os_enabled st then (db, Inl onb_off)
      else if \<not> os_detection_test st then (db, Inl (HttpError 404 ''controlled detection tests are not enabled''))
      else case create_detection_test now i (ctx_org ctx) (ctx_key_id ctx) deployment w db of
        (db', Inl e) \<Rightarrow> (db', Inl (HttpError 409 e))
      | (db', Inr r) \<Rightarrow> (onb_audit (ctx_org ctx) ''onboarding_detection_test_started'' db', Inr r))"

definition get_detection_test :: "onb_settings \<Rightarrow> auth_context \<Rightarrow> uuid \<Rightarrow> onb_db \<Rightarrow> http_error + test_run" where
  "get_detection_test st ctx i db =
     (if \<not> os_enabled st then Inl onb_off
      else case find (\<lambda>r. tr_id r = i) (ob_runs db) of
        None \<Rightarrow> Inl (HttpError 404 ''detection test not found'')
      | Some r \<Rightarrow> if tr_org r \<noteq> ctx_org ctx then Inl (HttpError 404 ''detection test not found'') else Inr r)"

subsection \<open>What every request keeps\<close>

text \<open>Any request of any organization, in any state of the other components, and the pipeline's report of a detection.\<close>

inductive onb_request :: "onb_settings \<Rightarrow> onb_db \<Rightarrow> onb_db \<Rightarrow> bool" for st where
  req_get: "onb_request st db (fst (get_onboarding st now i ctx w db))"
| req_start: "onb_request st db (fst (start_onboarding st now i ctx w db))"
| req_pause: "onb_request st db (fst (pause_onboarding st now i ctx w db))"
| req_resume: "onb_request st db (fst (resume_onboarding st now i ctx w db))"
| req_recalculate: "onb_request st db (fst (recalculate_onboarding st now i ctx w db))"
| req_recommend: "onb_request st db (fst (get_onb_recommendations st now i r ctx w db))"
| req_decide: "onb_request st db (fst (decide_onboarding st ctx r verdict db))"
| req_test: "onb_request st db (fst (start_detection_test st now i ctx deployment w db))"
| req_detected: "onb_request st db (record_detection now org trace event alert db)"

definition new_onb_db :: onb_db where
  "new_onb_db = \<lparr>ob_workspaces = [], ob_steps = [], ob_recommendations = [], ob_runs = [], ob_audit = []\<rparr>"

inductive onb_reachable :: "onb_settings \<Rightarrow> onb_db \<Rightarrow> bool" for st where
  onb_new: "onb_reachable st new_onb_db"
| onb_next: "onb_reachable st db \<Longrightarrow> onb_request st db db' \<Longrightarrow> onb_reachable st db'"

definition ws_open :: "workspace \<Rightarrow> bool" where
  "ws_open x \<longleftrightarrow> ws_activated x = None \<and> ws_status x \<in> {WsNotStarted, WsInProgress, WsPaused}"

definition step_ok :: "onb_step \<Rightarrow> bool" where
  "step_ok r \<longleftrightarrow> (sp_status r = StCompleted \<longleftrightarrow> sp_completed r \<noteq> None) \<and>
     sp_reason r = (if sp_completed r = None then Some (onb_key_value (sp_key r) @ ''_required'') else None) \<and>
     (sp_key r = ObIdentity \<longrightarrow> sp_completed r = None)"

definition test_run_ok :: "test_run \<Rightarrow> bool" where
  "test_run_ok r \<longleftrightarrow> (tr_status r = RunDetected \<longleftrightarrow> tr_event r \<noteq> None) \<and> (tr_event r = None \<longleftrightarrow> tr_completed r = None)"

abbreviation ws_inv :: "workspace list \<Rightarrow> bool" where
  "ws_inv xs \<equiv> list_all ws_open xs \<and> distinct (map ws_org xs)"

abbreviation step_inv :: "onb_step list \<Rightarrow> bool" where
  "step_inv rs \<equiv> list_all step_ok rs \<and> distinct (map (\<lambda>r. (sp_workspace r, sp_key r)) rs)"

definition onb_inv :: "onb_db \<Rightarrow> bool" where
  "onb_inv db \<longleftrightarrow> ws_inv (ob_workspaces db) \<and> step_inv (ob_steps db) \<and> list_all test_run_ok (ob_runs db)"

text \<open>The flag that would waive single sign-on has another name, so no owner is ever ready.\<close>

lemma identity_never_ready: "\<not> identity_ready st org w"
  by (simp add: identity_ready_def dumped_flags_def)

lemma onb_steps_keys: "map (\<lambda>s. fst (snd s)) onb_steps = [ObIdentity, ObInventory, ObScan, ObDeployment, ObTest, ObCoverage, ObIntegration]"
  by (simp add: onb_steps_def)

lemma never_all_facts: "\<not> list_all (\<lambda>(_, key, _). onb_fact st org w db key) onb_steps"
  by (simp add: onb_steps_def identity_never_ready)

lemma find_workspace_Some: "find_workspace org db = Some x \<Longrightarrow> x \<in> set (ob_workspaces db) \<and> ws_org x = org"
  unfolding find_workspace_def by (drule find_Some_mem) auto

lemma ensure_inv:
  assumes "onb_inv db" and "ensure_workspace st now i org db = (db1, x)"
  shows "onb_inv db1" "ws_open x" "ws_org x = org"
proof -
  have "org \<notin> ws_org ` set (ob_workspaces db)" if "find_workspace org db = None"
    using that by (auto simp: find_workspace_def find_None_iff)
  then show "onb_inv db1" "ws_open x" "ws_org x = org"
    using assms by (auto simp: ensure_workspace_def onb_inv_def ws_open_def list_all_iff Let_def
        dest: find_workspace_Some split: option.splits)
qed

lemma put_inv: "onb_inv db \<Longrightarrow> ws_open x \<Longrightarrow> onb_inv (put_workspace x db)"
proof -
  have "map ws_org (map (\<lambda>y. if ws_org y = ws_org x then x else y) xs) = map ws_org xs" for xs by simp
  then show "onb_inv db \<Longrightarrow> ws_open x \<Longrightarrow> onb_inv (put_workspace x db)"
    by (auto simp: onb_inv_def put_workspace_def list_all_iff simp del: map_map)
qed

lemma settle_open: "ws_open x \<Longrightarrow> ws_open (settle_workspace now (onb_fact st org w db) x)"
  by (simp add: settle_workspace_def never_all_facts ws_open_def)

lemma upsert_inv:
  assumes "step_inv steps" and "\<not> facts ObIdentity"
  shows "step_inv (upsert_step st now x facts s steps)"
proof -
  obtain phase key message where s: "s = (phase, key, message)" by (cases s)
  have ok: "step_ok (step_of st now (facts key) s r)" if "sp_key r = key" for r
    using that assms(2) by (auto simp: step_ok_def step_of_def s)
  have keep: "sp_workspace (step_of st now (facts key) s r) = sp_workspace r" "sp_key (step_of st now (facts key) s r) = sp_key r" for r
    by (simp_all add: step_of_def s)
  let ?mine = "\<lambda>r. sp_workspace r = ws_id x \<and> sp_key r = key"
  have "map (\<lambda>r. (sp_workspace r, sp_key r)) (map (\<lambda>r. if ?mine r then step_of st now (facts key) s r else r) steps) =
      map (\<lambda>r. (sp_workspace r, sp_key r)) steps" by (simp add: keep)
  moreover have "list_all step_ok (map (\<lambda>r. if ?mine r then step_of st now (facts key) s r else r) steps)"
    using assms(1) ok by (auto simp: list_all_iff)
  ultimately have "step_inv (map (\<lambda>r. if ?mine r then step_of st now (facts key) s r else r) steps)"
    using assms(1) by (simp only:)
  moreover have f: "sp_workspace (fresh_step now x s) = ws_id x" "sp_key (fresh_step now x s) = key" by (simp_all add: fresh_step_def s)
  then have "step_inv (steps @ [step_of st now (facts key) s (fresh_step now x s)])" if "\<not> list_ex ?mine steps"
    using assms(1) that ok keep by (auto simp: list_ex_iff)
  moreover have "upsert_step st now x facts s steps =
      (if list_ex ?mine steps then map (\<lambda>r. if ?mine r then step_of st now (facts key) s r else r) steps
       else steps @ [step_of st now (facts key) s (fresh_step now x s)])" by (simp add: upsert_step_def s)
  ultimately show ?thesis by (simp only: split: if_split) blast
qed

lemma upserts_inv: "step_inv steps \<Longrightarrow> \<not> facts ObIdentity \<Longrightarrow> step_inv (fold (upsert_step st now x facts) ss steps)"
  by (induction ss arbitrary: steps) (simp_all add: upsert_inv)

lemma reconcile_inv: "onb_inv db \<Longrightarrow> onb_inv (reconcile st now i org w db)"
proof -
  assume inv: "onb_inv db"
  obtain db1 x where e: "ensure_workspace st now i org db = (db1, x)" by (cases "ensure_workspace st now i org db")
  note k = ensure_inv [OF inv e]
  have "onb_inv (db1\<lparr>ob_steps := fold (upsert_step st now x (onb_fact st org w db1)) onb_steps (ob_steps db1)\<rparr>)"
    using k(1) upserts_inv [of "ob_steps db1" "onb_fact st org w db1"] by (simp add: onb_inv_def identity_never_ready)
  then show ?thesis using k by (simp add: reconcile_def e Let_def put_inv settle_open)
qed

lemma ws_open_update [simp]:
  "ws_open (x\<lparr>ws_status := s\<rparr>) \<longleftrightarrow> ws_activated x = None \<and> s \<in> {WsNotStarted, WsInProgress, WsPaused}"
  "ws_open (x\<lparr>ws_started := t\<rparr>) = ws_open x" "ws_open (x\<lparr>ws_updated := u\<rparr>) = ws_open x"
  by (simp_all add: ws_open_def)

lemma ws_open_activated: "ws_open x \<Longrightarrow> ws_activated x = None" by (simp add: ws_open_def)

lemma start_inv: "onb_inv db \<Longrightarrow> onb_inv (start_workspace st now i org w db)"
proof -
  assume inv: "onb_inv db"
  obtain db1 x where e: "ensure_workspace st now i org db = (db1, x)" by (cases "ensure_workspace st now i org db")
  note k = ensure_inv(1,2) [OF inv e]
  have "onb_inv (put_workspace (x\<lparr>ws_status := WsInProgress, ws_started := t\<rparr>) db1)" for t
    using k by (intro put_inv) (simp_all add: ws_open_activated)
  then show ?thesis unfolding start_workspace_def e Let_def prod.case using k(1) by (intro reconcile_inv) simp
qed

lemma pause_inv: "onb_inv db \<Longrightarrow> onb_inv (pause_workspace st now i org db)"
proof -
  assume inv: "onb_inv db"
  obtain db1 x where e: "ensure_workspace st now i org db = (db1, x)" by (cases "ensure_workspace st now i org db")
  note k = ensure_inv(1,2) [OF inv e]
  have "onb_inv (put_workspace (x\<lparr>ws_status := WsPaused, ws_updated := now\<rparr>) db1)"
    using k by (intro put_inv) (simp_all add: ws_open_activated)
  then show ?thesis unfolding pause_workspace_def e Let_def prod.case using k(1) by simp
qed

lemma resume_inv: "onb_inv db \<Longrightarrow> onb_inv (resume_workspace st now i org w db)"
proof -
  assume inv: "onb_inv db"
  obtain db1 x where e: "ensure_workspace st now i org db = (db1, x)" by (cases "ensure_workspace st now i org db")
  note k = ensure_inv(1,2) [OF inv e]
  have "onb_inv (put_workspace (x\<lparr>ws_status := WsInProgress, ws_updated := now\<rparr>) db1)"
    using k by (intro put_inv) (simp_all add: ws_open_activated)
  then show ?thesis unfolding resume_workspace_def e Let_def prod.case using k(1) by (intro reconcile_inv) simp
qed

lemma view_inv: "onb_inv db \<Longrightarrow> onb_inv (fst (view_workspace st now i org w db))"
  by (cases "ensure_workspace st now i org db") (auto simp: view_workspace_def Let_def intro!: reconcile_inv dest: ensure_inv)

lemma audit_inv [simp]: "onb_inv (onb_audit org action db) = onb_inv db"
  by (simp add: onb_inv_def onb_audit_def)

lemma recommend_inv: "onb_inv db \<Longrightarrow> onb_inv (fst (onb_recommendations st now i r org w db))"
proof -
  assume inv: "onb_inv db"
  obtain db1 x where e: "ensure_workspace st now i org db = (db1, x)" by (cases "ensure_workspace st now i org db")
  then show ?thesis using ensure_inv(1) [OF inv e] by (simp add: onb_recommendations_def Let_def onb_inv_def)
qed

lemma decide_inv: "onb_inv db \<Longrightarrow> onb_inv (fst (decide_onb_recommendation org i s db))"
  by (simp add: decide_onb_recommendation_def onb_inv_def split: option.split)

lemma test_inv: "onb_inv db \<Longrightarrow> onb_inv (fst (create_detection_test now i org actor d w db))"
  by (simp add: create_detection_test_def onb_inv_def test_run_ok_def Let_def split: option.split list.split)

lemma detection_inv: "onb_inv db \<Longrightarrow> onb_inv (record_detection now org trace event alert db)"
  by (auto simp: record_detection_def onb_inv_def test_run_ok_def list_all_iff split: option.split)

lemma request_inv:
  assumes "onb_request st db db'" and "onb_inv db"
  shows "onb_inv db'"
  using assms
proof cases
  case (req_get now i ctx w)
  then show ?thesis using assms(2) by (simp add: get_onboarding_def split_beta view_inv)
next
  case (req_start now i ctx w)
  then show ?thesis using assms(2) by (simp add: start_onboarding_def split_beta view_inv start_inv)
next
  case (req_pause now i ctx w)
  then show ?thesis using assms(2) by (simp add: pause_onboarding_def split_beta view_inv pause_inv)
next
  case (req_resume now i ctx w)
  then show ?thesis using assms(2) by (simp add: resume_onboarding_def split_beta view_inv resume_inv)
next
  case (req_recalculate now i ctx w)
  then show ?thesis using assms(2) by (simp add: recalculate_onboarding_def split_beta view_inv reconcile_inv)
next
  case (req_recommend now i r ctx w)
  then show ?thesis using recommend_inv [OF assms(2)] assms(2) by (simp add: get_onb_recommendations_def split_beta)
next
  case (req_decide ctx r verdict)
  then show ?thesis using decide_inv [OF assms(2)] assms(2)
    by (auto simp: decide_onboarding_def split: prod.splits option.splits) (metis fst_conv)+
next
  case (req_test now i ctx deployment w)
  then show ?thesis using test_inv [OF assms(2)] assms(2)
    by (auto simp: start_detection_test_def split: prod.splits sum.splits) (metis fst_conv)+
next
  case (req_detected now org trace event alert)
  then show ?thesis using detection_inv [OF assms(2)] by simp
qed

lemma reachable_onb_inv: "onb_reachable st db \<Longrightarrow> onb_inv db"
proof (induction rule: onb_reachable.induct)
  case onb_new
  show ?case by (simp add: new_onb_db_def onb_inv_def)
qed (rule request_inv)

subsection \<open>What an activation would need\<close>

definition onb_sample_settings :: onb_settings where
  "onb_sample_settings = \<lparr>os_enabled = True, os_version = ''v1'', os_detection_test = True, os_require_siem = False,
     os_require_sso = False, os_min_coverage = 0\<rparr>"

definition onb_sample_world :: onb_world where
  "onb_sample_world = \<lparr>ov_keys = [(1, ''owner'', ''active'')], ov_repositories = [1],
     ov_deployments = [\<lparr>od_id = 7, od_org = 1, od_status = ''deployed'', od_monitored = Some 5\<rparr>],
     ov_tripwires = [\<lparr>ow_org = 1, ow_deployment = 7, ow_status = ''active'', ow_trace = ''DF-1'', ow_activated = 5\<rparr>],
     ov_snapshots = [(1, 6, 90)], ov_integrations = [(1, ''active'')]\<rparr>"

definition onb_sample_auth :: auth_context where
  "onb_sample_auth = \<lparr>ctx_org = 1, ctx_scopes = [''onboarding:manage''], ctx_role = ''owner'', ctx_key_id = None\<rparr>"

definition onb_sample_db :: onb_db where
  "onb_sample_db = fst (start_onboarding onb_sample_settings 30 9 onb_sample_auth onb_sample_world
     (record_detection 20 1 ''DF-1'' 3 None
       (fst (start_detection_test onb_sample_settings 10 8 onb_sample_auth 7 onb_sample_world new_onb_db))))"

lemma onb_sample_reachable: "onb_reachable onb_sample_settings onb_sample_db"
  unfolding onb_sample_db_def by (intro onb_next [OF _ req_start] onb_next [OF _ req_detected] onb_next [OF _ req_test] onb_new)

text \<open>
  C15. Activation is out of reach: whatever the settings say and whatever the other components reach, no sequence of
  requests ever activates a workspace, since the identity step is never completed. Every organization keeps one
  workspace and a workspace one row per step; a step is completed exactly when it carries a completion time, and
  otherwise names the missing fact; a detection test has an event and an end exactly when it was detected.
\<close>

theorem activation_unreachable:
  assumes "onb_reachable st db"
  shows "(\<forall>x \<in> set (ob_workspaces db). ws_activated x = None \<and> ws_status x \<in> {WsNotStarted, WsInProgress, WsPaused}) \<and>
    distinct (map ws_org (ob_workspaces db)) \<and> distinct (map (\<lambda>r. (sp_workspace r, sp_key r)) (ob_steps db)) \<and>
    (\<forall>r \<in> set (ob_steps db). (sp_status r = StCompleted \<longleftrightarrow> sp_completed r \<noteq> None) \<and>
       (sp_completed r = None \<longrightarrow> sp_reason r = Some (onb_key_value (sp_key r) @ ''_required'')) \<and>
       (sp_key r = ObIdentity \<longrightarrow> sp_completed r = None)) \<and>
    (\<forall>r \<in> set (ob_runs db). tr_status r = RunDetected \<longleftrightarrow> tr_event r \<noteq> None \<and> tr_completed r \<noteq> None)"
  using reachable_onb_inv [OF assms] by (auto simp: onb_inv_def list_all_iff ws_open_def step_ok_def test_run_ok_def)

text \<open>Every fact but the identity holds, and the workspace is still in progress.\<close>

lemma activation_unreachable_witness:
  "onb_reachable onb_sample_settings onb_sample_db \<and>
   map sp_status (ob_steps onb_sample_db) = StBlocked # replicate 6 StCompleted \<and>
   map ws_status (ob_workspaces onb_sample_db) = [WsInProgress] \<and> distinct (map ws_org (ob_workspaces onb_sample_db))"
proof (intro conjI)
  show "map sp_status (ob_steps onb_sample_db) = StBlocked # replicate 6 StCompleted" by code_simp
  show "map ws_status (ob_workspaces onb_sample_db) = [WsInProgress]" by code_simp
qed (use onb_sample_reachable activation_unreachable [OF onb_sample_reachable] in simp_all)

end
