(* ===== verification/Spec2Isabelle.thy ===== *)
theory Spec2Isabelle
  imports Replay Rate_Limit Judge_Sandbox Agent_Session Metadata_Min Enrollment Deployment_Flow Pipeline
    Reliability Export_Delivery Browser_Sensor AI_Props Honey_Props Learning_Props
    Endpoint_Guard Coverage_Props Startup_Props
    Deception_Props Onboarding
begin

text \<open>
  A verification library for DeceptiForge, a service that plans, deploys and watches decoys in repositories,
  databases, document stores and AI tools, and turns what touches them into alerts, incidents and exports.
  All paths below are under \<open>src/apps/api/app\<close>.

  \<^bold>\<open>How the program is put together.\<close> A monitor or sensor authenticates, its signed request passes replay
  protection, rate and quota limits (\<open>Replay\<close>, \<open>Rate_Limit\<close>, \<open>Signing\<close>, \<open>Enrollment\<close>, \<open>Capacity\<close>), and the
  ingestion endpoint (\<open>Pipeline\<close>) scans its payload for the markers of accepted decoys (\<open>Monitoring\<close>). A
  detection becomes an alert (\<open>Alerting\<close>), is stored and queued in the same transaction, and a worker rebuilds the
  incidents of its organization (\<open>Incident\<close>, \<open>Reconstruction\<close>). Envelopes of alerts and incidents leave through an
  outbox (\<open>Security_Events\<close>, \<open>Export_Delivery\<close>). Decoys get into the field through three workflows of the same
  shape -- draft, submit, approve by a second actor, execute by a worker, verify, retire -- for repositories
  (\<open>Deployment_*\<close>), for AI surfaces (\<open>AI_*\<close>) and for database rows (\<open>Honey_*\<close>), each through a connector port. Access
  control (\<open>Access\<close>), failover fencing (\<open>Failover\<close>) and the start-up contract (\<open>Settings_Guard\<close>, \<open>Startup_Props\<close>) bound all of it.

  \<^bold>\<open>Conventions.\<close>
  \<^item> A float is a rational number, so rounding is \<open>round half to even\<close> on exact values; a \<open>datetime\<close> is an integer
    count of microseconds; a UUID is a natural number; text is a list of characters of one byte.
  \<^item> The clock, fresh identifiers, SHA-256, HMAC, \<open>uuid5\<close>, Fernet, regular-expression redaction, name resolution, the
    square root and every network service are arguments. What a theorem needs of them is a hypothesis that states their
    documented behaviour, and the witness of the theorem instantiates it.
  \<^item> A table is a list of records in insertion order, a request is a function on the database that returns the new database
    and a sum of an error and an answer; \<open>in_request\<close> rolls back what a raising handler wrote. A violated unique
    constraint is an error value.
  \<^item> Audit rows are reduced to their event names where nothing reads them; metrics and log lines are left out.
  \<^item> Loops over data are structural recursions or folds. The only unbounded loop, the reconstruction worker's, has fuel,
    and \<open>drain_empties_queue\<close> shows how much is enough. Percent decoding of paths has the bound of the code.

  \<^bold>\<open>Theories and what they model.\<close>
  \<^item> \<open>Prelude\<close>, \<open>Text_Util\<close>: strings, dictionaries, guards as sums, rounding; \<open>Severity_Model\<close>: the severity order of
    \<open>models/domain/operations.py\<close>; \<open>Lifecycle\<close>: the locale of a transition table, interpreted by every state machine.
  \<^item> \<open>Replay\<close> (\<open>services/replay.py\<close>), \<open>Rate_Limit\<close> (\<open>services/rate_limit.py\<close>), \<open>Capacity\<close> (\<open>services/capacity.py\<close>): the
    nonce stores and the guard, the sliding window, the quota counters. No nonce is accepted twice within its window, no key
    exceeds its budget in any window, admissions are bounded; a timestamp from the future can be replayed.
  \<^item> \<open>Access\<close> (\<open>services/api_keys.py\<close>, \<open>security.py\<close>): permissions, minting, authentication, tenant match. A minted key
    never exceeds its issuer.
  \<^item> \<open>Signing\<close>, \<open>Enrollment\<close> (\<open>services/monitor_signing.py\<close>, the two sensor services): tokens are used once, a signature
    binds every field of a request.
  \<^item> \<open>Repo_Paths\<close>, \<open>Agent_Rules\<close>, \<open>Agent_Activity\<close>, \<open>Metadata_Min\<close>, \<open>Agent_Session\<close> (\<open>services/agent_sensor\<close>,
    \<open>repositories/agent_sensor.py\<close>, \<open>api/agent_sensor.py\<close>): path confinement, scope rules, escalation, minimisation and
    the ingestion transaction, which is confined to its organization and idempotent under redelivery.
  \<^item> \<open>Deploy_Policy\<close>, \<open>Deployment_Model\<close>, \<open>Deployment_Client\<close>, \<open>Deployment_Service\<close>, \<open>Deployment_Flow\<close>,
    \<open>Deployment_Props\<close> (\<open>services/deployment\<close>, \<open>repositories/deployments.py\<close>, \<open>api/deployments.py\<close>): policy and
    preview, records and jobs, the provider port as a record and a locale, execution and verification. A deployed decoy has a verified
    merge, the run from creation to monitoring completes against the in-memory provider, removal disables monitoring.
  \<^item> \<open>Monitoring\<close> (\<open>services/monitoring\<close>), \<open>Alerting\<close> (\<open>services/alerting\<close>), \<open>Incident\<close>
    (\<open>services/incident_reconstruction\<close>), \<open>Reconstruction\<close> (\<open>repositories/artifacts.py\<close>, \<open>jobs/reconstruction.py\<close>),
    \<open>Pipeline\<close> (\<open>api/pipeline.py\<close>, \<open>services/pipeline.py\<close>): an exact marker is always detected, in-order events are
    conserved, grouping partitions the alerts, the queue is fair and drains, a sighting reaches its incident.
  \<^item> \<open>Failover\<close>, \<open>Reliability\<close> (\<open>services/reliability\<close>): promotion only after fencing; what a passed restore drill means.
  \<^item> \<open>Security_Events\<close>, \<open>Export_Delivery\<close>, \<open>Endpoint_Guard\<close> (\<open>services/integrations\<close>, \<open>api/integrations.py\<close>): envelopes,
    routing, adapters, the outbox and its worker, and the validation of outbound addresses over words of 32 and 128 bits.
  \<^item> \<open>Encryption\<close> (\<open>services/encryption.py\<close>): what any provider encrypts is read back.
  \<^item> \<open>AI_Content\<close>, \<open>AI_Store\<close>, \<open>AI_Deploy\<close>, \<open>AI_Events\<close>, \<open>AI_Props\<close> (\<open>services/ai_tripwire\<close>, \<open>api/ai_tripwire.py\<close>):
    the whole system refines the lifecycle table, and its rows stay typed.
  \<^item> \<open>Json_Flat\<close>, \<open>Honey_Rows\<close>, \<open>Honey_Store\<close>, \<open>Honey_Deploy\<close>, \<open>Honey_Props\<close> (\<open>services/database\<close>,
    \<open>api/database_honey.py\<close>): rows are safe and complete, insertion and removal are inverse; \<open>Psycopg_Client\<close> is the client of a real server, with which
    only owned rows are removed.
  \<^item> \<open>Browser_Sensor\<close> (\<open>services/browser_sensor\<close>, \<open>api/browser_sensor.py\<close>): classification and confined ingestion.
  \<^item> \<open>Learning_Stats\<close>, \<open>Learning_Features\<close>, \<open>Learning_Facts\<close>, \<open>Learning_Store\<close>, \<open>Learning_API\<close>, \<open>Learning_Props\<close>
    (\<open>services/learning\<close>, \<open>repositories/learning.py\<close>, \<open>api/learning.py\<close>): calibration resists one dominant actor and does
    not depend on the order of the evidence; evidence is unique and append-only; an active version has been approved, under another key id
    where both are known.
  \<^item> \<open>Coverage_Score\<close>, \<open>Coverage_Engine\<close>, \<open>Coverage_Store\<close>, \<open>Coverage_Props\<close> (\<open>services/coverage_engine\<close>,
    \<open>repositories/coverage.py\<close>, \<open>api/coverage.py\<close>, \<open>jobs/coverage.py\<close>): scores are bounded, controls only help, an
    undefended surface is always reported, snapshots are immutable.
  \<^item> \<open>Context_Engine\<close>, \<open>Placement\<close>, \<open>Decoy_Gen\<close>, \<open>Believability\<close>, \<open>Deception_Props\<close> (\<open>services/context_engine\<close>,
    \<open>services/placement_reasoning\<close>, \<open>services/decoy_generation\<close>, \<open>services/believability\<close>, \<open>services/deployment/rendering.py\<close>):
    from a repository profile to a reviewed decoy; plans are complete, ranked and safe, only example-environment secrets are ever
    generated, the believability decision depends on the name alone, and an accepted decoy is detected once its file is read.
  \<^item> \<open>Onboarding\<close> (\<open>services/onboarding.py\<close>, \<open>api/onboarding.py\<close>): steps follow from state; no workspace is ever activated.
  \<^item> \<open>Settings_Guard\<close>, \<open>Startup_Props\<close> (\<open>config/settings.py\<close>, \<open>main.py\<close>): a deployment that started outside development
    fails closed: what its ingestion endpoints accept was signed, agent events under their own switch.
  \<^item> \<open>Judge_Sandbox\<close> (\<open>services/judge_sandbox.py\<close>, \<open>services/judge_quota.py\<close>): session resolution, quotas, key namespaces.

  \<^bold>\<open>Lemmas.\<close> Each theory proves the facts of its operations first (what a successful or refused call returns, which fields it
  leaves alone), then the invariants over its steps, then the properties. Small lemmas without a claim number record what the
  code does against its own comments.

  \<^bold>\<open>Not modelled.\<close> The repository scanner and its analysers are pattern matching over file contents; the profile they produce is
  the argument of the context engine. The incident narrative calls a language model. The analysis lab and the demo only present data.
  The agent SDK and the Redis adapters are glue over libraries (the adapters are the parameters of the models that use
  them). The middleware adds request identifiers and body limits around the handlers. Read-only list endpoints that
  return stored rows are left out where a component says so.
\<close>

end
